(* ===== verification/JsPrelude.thy ===== *)
theory JsPrelude
  imports Complex_Main "HOL-Library.AList" "HOL-Library.Sublist"
begin

text \<open>
  The vocabulary every component shares: the error type of \<^verbatim>\<open>src/core/errors.ts\<close>, fallible
  results, and the parts of the JavaScript standard library the modelled code uses (numbers,
  strings, insertion-ordered maps, dates).

  Modelling conventions.
  \<^item> A value of type \<open>'a res\<close> is either \<open>Inl e\<close> (the call throws \<open>e\<close>) or \<open>Inr x\<close>. A method that
    changes its object returns \<open>'a res \<times> state\<close>: a throw carries the state it leaves behind.
  \<^item> \<open>jsnum\<close> is a JavaScript number where the code inspects its kind (\<open>Number.isInteger\<close>,
    \<open>Number.isFinite\<close>, comparisons that a NaN would pass): an exact rational, an infinity or NaN.
    Rounding of doubles is not modelled. Numbers the code has already checked are \<open>int\<close>.
  \<^item> Strings are lists of characters, one per code unit, over the Latin-1 range.
  \<^item> A JavaScript \<open>Map\<close> is an association list in insertion order: \<open>AList.update\<close> overwrites in
    place or appends, as \<open>Map.set\<close> does, and \<open>AList.delete\<close> removes.
  \<^item> \<open>iso\<close> is a timestamp string: \<open>Iso t\<close> is what \<open>toISOString\<close> prints for the instant \<open>t\<close> (ms),
    \<open>NotIso s\<close> any string \<open>new Date\<close> does not parse.
\<close>

section \<open>Rule collections\<close>

named_theorems res_simps \<open>when a fallible computation returns\<close>
named_theorems js_simps \<open>evaluation of the JavaScript primitives\<close>

section \<open>Errors (src/core/errors.ts)\<close>

datatype ErrorCode =
    INVALID_INPUT | URL_BLOCKED | DEADLINE_EXCEEDED | CANCELLED | OUTPUT_LIMIT
  | CONCURRENCY_LIMIT | PROVIDER_UNAVAILABLE | RATE_LIMITED | UPSTREAM_ERROR

datatype HintValue = Hint (hint_code: string) (hint_text: string)

text \<open>Everything the modelled code throws: its own error class, a plain \<open>Error\<close>, and the
  \<open>RangeError\<close> of \<open>Date.prototype.toISOString\<close>.\<close>

datatype exn =
    GroundlaneError ErrorCode string string bool "HintValue option"
  | JsError string
  | RangeError string

fun exn_message :: "exn \<Rightarrow> string" where
  "exn_message (GroundlaneError _ _ m _ _) = m"
| "exn_message (JsError m) = m"
| "exn_message (RangeError m) = m"

fun exn_retryable :: "exn \<Rightarrow> bool" where
  "exn_retryable (GroundlaneError _ _ _ r _) = r"
| "exn_retryable _ = False"

fun exn_code :: "exn \<Rightarrow> ErrorCode option" where
  "exn_code (GroundlaneError c _ _ _ _) = Some c"
| "exn_code _ = None"

text \<open>What a \<open>catch\<close> receives: an error object, a thrown string, or anything else.\<close>

datatype thrown = ThrownError exn | ThrownString string | ThrownOther

fun toGroundlaneError :: "thrown \<Rightarrow> string \<Rightarrow> exn" where
  "toGroundlaneError (ThrownError (GroundlaneError c s m r h)) stage = GroundlaneError c s m r h"
| "toGroundlaneError _ stage =
     GroundlaneError UPSTREAM_ERROR stage ''The upstream operation failed'' True None"

abbreviation glError :: "ErrorCode \<Rightarrow> string \<Rightarrow> string \<Rightarrow> exn" where
  "glError c stage m \<equiv> GroundlaneError c stage m False None"

section \<open>Fallible results\<close>

type_synonym 'a res = "exn + 'a"

fun bindE :: "'a res \<Rightarrow> ('a \<Rightarrow> 'b res) \<Rightarrow> 'b res" where
  "bindE (Inl e) f = Inl e"
| "bindE (Inr x) f = f x"

definition andThen :: "unit res \<Rightarrow> 'a res \<Rightarrow> 'a res" where
  "andThen a b = bindE a (\<lambda>_. b)"

definition throwIf :: "bool \<Rightarrow> exn \<Rightarrow> unit res" where
  "throwIf c e = (if c then Inl e else Inr ())"

definition is_ok :: "'a res \<Rightarrow> bool" where
  "is_ok r = (case r of Inl _ \<Rightarrow> False | Inr _ \<Rightarrow> True)"

lemma is_ok_simps [simp]: "is_ok (Inr x)" "\<not> is_ok (Inl e)"
  by (simp_all add: is_ok_def)

lemma is_ok_unit: "is_ok r \<longleftrightarrow> r = Inr ()" for r :: "unit res"
  by (cases r) simp_all

lemma is_ok_iff: "is_ok r \<longleftrightarrow> (\<exists>x. r = Inr x)"
  by (cases r) simp_all

lemma bindE_Inr_iff [res_simps]: "bindE r f = Inr y \<longleftrightarrow> (\<exists>x. r = Inr x \<and> f x = Inr y)"
  by (cases r) auto

lemma bindE_Inl_iff [res_simps]:
  "bindE r f = Inl e \<longleftrightarrow> r = Inl e \<or> (\<exists>x. r = Inr x \<and> f x = Inl e)"
  by (cases r) auto

text \<open>A loop of checks, left at the first throw.\<close>

fun forEach :: "('a \<Rightarrow> unit res) \<Rightarrow> 'a list \<Rightarrow> unit res" where
  "forEach f [] = Inr ()"
| "forEach f (x # xs) = andThen (f x) (forEach f xs)"

lemma andThen_simps [simp]: "andThen (Inl e) b = Inl e" "andThen (Inr u) b = b"
  by (simp_all add: andThen_def)

lemma andThen_Inr_iff [res_simps]: "andThen a b = Inr y \<longleftrightarrow> a = Inr () \<and> b = Inr y"
  by (cases a) simp_all

lemma andThen_Inl_iff [res_simps]:
  "andThen a b = Inl e \<longleftrightarrow> a = Inl e \<or> (a = Inr () \<and> b = Inl e)"
  by (cases a) simp_all

lemma forEach_Inr [res_simps]: "forEach f xs = Inr () \<longleftrightarrow> (\<forall>x \<in> set xs. f x = Inr ())"
  by (induction xs) (simp_all add: andThen_Inr_iff)

lemma throwIf_Inr_iff [res_simps]: "throwIf c e = Inr u \<longleftrightarrow> \<not> c"
  by (simp add: throwIf_def)

lemma throwIf_Inl_iff [res_simps]: "throwIf c e = Inl e' \<longleftrightarrow> c \<and> e' = e"
  by (auto simp: throwIf_def)

lemma throwIf_simps [simp]: "throwIf True e = Inl e" "throwIf False e = Inr ()"
  by (simp_all add: throwIf_def)

section \<open>Numbers\<close>

datatype jsnum = Num rat | PosInf | NegInf | NaN

abbreviation jint :: "int \<Rightarrow> jsnum" where
  "jint k \<equiv> Num (of_int k)"

fun jlt :: "jsnum \<Rightarrow> jsnum \<Rightarrow> bool" where
  "jlt (Num a) (Num b) = (a < b)"
| "jlt (Num a) PosInf = True"
| "jlt NegInf (Num b) = True"
| "jlt NegInf PosInf = True"
| "jlt _ _ = False"

definition jle :: "jsnum \<Rightarrow> jsnum \<Rightarrow> bool" where
  "jle a b \<longleftrightarrow> a \<noteq> NaN \<and> b \<noteq> NaN \<and> (jlt a b \<or> a = b)"

fun jadd :: "jsnum \<Rightarrow> jsnum \<Rightarrow> jsnum" where
  "jadd (Num a) (Num b) = Num (a + b)"
| "jadd NaN _ = NaN"
| "jadd _ NaN = NaN"
| "jadd PosInf NegInf = NaN"
| "jadd NegInf PosInf = NaN"
| "jadd PosInf _ = PosInf"
| "jadd _ PosInf = PosInf"
| "jadd NegInf _ = NegInf"
| "jadd _ NegInf = NegInf"

text \<open>Multiplication by a positive integer constant, as in \<open>seconds * 1000\<close>.\<close>

fun jscale :: "int \<Rightarrow> jsnum \<Rightarrow> jsnum" where
  "jscale k (Num a) = Num (of_int k * a)"
| "jscale k n = n"

fun isFinite :: "jsnum \<Rightarrow> bool" where
  "isFinite (Num _) = True"
| "isFinite _ = False"

fun isInteger :: "jsnum \<Rightarrow> bool" where
  "isInteger (Num q) = (of_int \<lfloor>q\<rfloor> = q)"
| "isInteger _ = False"

definition isSafeInteger :: "jsnum \<Rightarrow> bool" where
  "isSafeInteger n \<longleftrightarrow> isInteger n \<and> jle (jint (- 9007199254740991)) n \<and> jle n (jint 9007199254740991)"

text \<open>The integer a checked number denotes; only applied after \<open>isInteger\<close> succeeded.\<close>

fun toInt :: "jsnum \<Rightarrow> int" where
  "toInt (Num q) = \<lfloor>q\<rfloor>"
| "toInt _ = 0"

lemma isInteger_jint [simp]: "isInteger (jint k)"
  by simp

lemma isIntegerE:
  assumes "isInteger n" obtains k where "n = jint k"
proof (cases n)
  case (Num q)
  with assms have "n = jint \<lfloor>q\<rfloor>" by auto
  then show ?thesis by (rule that)
qed (use assms in simp_all)

lemma isInteger_iff: "isInteger n \<longleftrightarrow> (\<exists>k. n = jint k)"
  by (auto elim: isIntegerE)

lemma toInt_jint [simp]: "toInt (jint k) = k"
  by simp

lemma jle_Num [simp]: "jle (Num a) (Num b) \<longleftrightarrow> a \<le> b"
  by (auto simp: jle_def)

text \<open>\<open>Math.min\<close> and \<open>Math.max\<close> of two numbers, \<open>Math.floor\<close>, subtraction, and division by a positive
  integer constant.\<close>

definition jmin :: "jsnum \<Rightarrow> jsnum \<Rightarrow> jsnum" where
  "jmin a b = (if a = NaN \<or> b = NaN then NaN else if jle a b then a else b)"

definition jmax :: "jsnum \<Rightarrow> jsnum \<Rightarrow> jsnum" where
  "jmax a b = (if a = NaN \<or> b = NaN then NaN else if jle a b then b else a)"

fun jfloor :: "jsnum \<Rightarrow> jsnum" where
  "jfloor (Num q) = jint \<lfloor>q\<rfloor>"
| "jfloor n = n"

fun jneg :: "jsnum \<Rightarrow> jsnum" where
  "jneg (Num q) = Num (- q)"
| "jneg PosInf = NegInf"
| "jneg NegInf = PosInf"
| "jneg NaN = NaN"

definition jsub :: "jsnum \<Rightarrow> jsnum \<Rightarrow> jsnum" where
  "jsub a b = jadd a (jneg b)"

fun jshrink :: "int \<Rightarrow> jsnum \<Rightarrow> jsnum" where
  "jshrink k (Num q) = Num (q / of_int k)"
| "jshrink k n = n"

lemma isInteger_toInt: "isInteger n \<Longrightarrow> n = jint (toInt n)"
  by (auto elim: isIntegerE)

section \<open>Strings\<close>

definition isWs :: "char \<Rightarrow> bool" where
  "isWs c \<longleftrightarrow> of_char c \<in> {9, 10, 11, 12, 13, 32, 160 :: nat}"

definition trim :: "string \<Rightarrow> string" where
  "trim s = rev (dropWhile isWs (rev (dropWhile isWs s)))"

definition toLowerChar :: "char \<Rightarrow> char" where
  "toLowerChar c =
     (let n = of_char c :: nat
      in if (65 \<le> n \<and> n \<le> 90) \<or> (192 \<le> n \<and> n \<le> 222 \<and> n \<noteq> 215) then char_of (n + 32) else c)"

definition toLowerCase :: "string \<Rightarrow> string" where
  "toLowerCase s = map toLowerChar s"

definition isDigit :: "char \<Rightarrow> bool" where
  "isDigit c \<longleftrightarrow> 48 \<le> (of_char c :: nat) \<and> (of_char c :: nat) \<le> 57"

definition digitChar :: "nat \<Rightarrow> char" where
  "digitChar d = char_of (48 + d)"

definition digitVal :: "char \<Rightarrow> nat" where
  "digitVal c = of_char c - 48"

fun showNat :: "nat \<Rightarrow> string" where
  "showNat n = (if n < 10 then [digitChar n] else showNat (n div 10) @ [digitChar (n mod 10)])"

text \<open>\<open>n.toString(16)\<close>.\<close>

fun showHex :: "nat \<Rightarrow> string" where
  "showHex n = (if n < 16 then [''0123456789abcdef'' ! n]
                else showHex (n div 16) @ [''0123456789abcdef'' ! (n mod 16)])"

declare showHex.simps [simp del]

declare showNat.simps [simp del]

definition showInt :: "int \<Rightarrow> string" where
  "showInt k = (if k < 0 then ''-'' @ showNat (nat (- k)) else showNat (nat k))"

definition parseNat :: "string \<Rightarrow> nat" where
  "parseNat s = foldl (\<lambda>n c. 10 * n + digitVal c) 0 s"

definition padStart :: "nat \<Rightarrow> char \<Rightarrow> string \<Rightarrow> string" where
  "padStart n c s = replicate (n - length s) c @ s"

abbreviation quoted :: "string \<Rightarrow> string" where
  "quoted s \<equiv> ''\"'' @ s @ ''\"''"

lemma of_char_digitChar: "d < 10 \<Longrightarrow> of_char (digitChar d) = 48 + d" for d :: nat
  by (simp add: digitChar_def of_char_of)

lemma digitVal_digitChar: "d < 10 \<Longrightarrow> digitVal (digitChar d) = d"
  by (simp add: digitVal_def of_char_digitChar)

lemma isDigit_digitChar: "d < 10 \<Longrightarrow> isDigit (digitChar d)"
  by (simp add: isDigit_def of_char_digitChar)

lemma showNat_digits: "\<forall>c \<in> set (showNat n). isDigit c"
proof (induction n rule: showNat.induct)
  case (1 n)
  then show ?case
    by (subst showNat.simps) (auto simp: isDigit_digitChar)
qed

lemma showNat_nonempty [simp]: "showNat n \<noteq> []"
  by (subst showNat.simps) simp

lemma parseNat_snoc: "parseNat (s @ [c]) = 10 * parseNat s + digitVal c"
  by (simp add: parseNat_def)

lemma parseNat_showNat [simp]: "parseNat (showNat n) = n"
proof (induction n rule: showNat.induct)
  case (1 n)
  show ?case
  proof (cases "n < 10")
    case True
    then show ?thesis
      by (subst showNat.simps) (simp add: parseNat_def digitVal_digitChar)
  next
    case False
    with 1 have "parseNat (showNat (n div 10)) = n div 10" by simp
    with False show ?thesis
      by (subst showNat.simps) (simp add: parseNat_snoc digitVal_digitChar)
  qed
qed

lemma showNat_inject [simp]: "showNat m = showNat n \<longleftrightarrow> m = n"
  by (metis parseNat_showNat)

text \<open>The length of the UTF-8 encoding of a Latin-1 text.\<close>

definition utf8Length :: "string \<Rightarrow> nat" where
  "utf8Length s = sum_list (map (\<lambda>c. if (of_char c :: nat) < 128 then 1 else 2) s)"

text \<open>The string comparison \<open>a > b\<close>, by code units.\<close>

fun codeUnitGreater :: "string \<Rightarrow> string \<Rightarrow> bool" where
  "codeUnitGreater [] b = False"
| "codeUnitGreater (x # a) [] = True"
| "codeUnitGreater (x # a) (y # b) =
     ((of_char x :: nat) > of_char y \<or> (x = y \<and> codeUnitGreater a b))"

section \<open>Arrays\<close>

text \<open>\<open>Array.prototype.sort\<close> is stable; with a consistent comparator its result is that of a stable
  insertion sort.\<close>

fun insertBy :: "('a \<Rightarrow> 'a \<Rightarrow> int) \<Rightarrow> 'a \<Rightarrow> 'a list \<Rightarrow> 'a list" where
  "insertBy cmp x [] = [x]"
| "insertBy cmp x (y # ys) = (if cmp y x < 0 then y # insertBy cmp x ys else x # y # ys)"

definition sortBy :: "('a \<Rightarrow> 'a \<Rightarrow> int) \<Rightarrow> 'a list \<Rightarrow> 'a list" where
  "sortBy cmp xs = foldr (insertBy cmp) xs []"

lemma set_insertBy [simp]: "set (insertBy cmp x xs) = insert x (set xs)"
  by (induction xs) auto

lemma set_sortBy [simp]: "set (sortBy cmp xs) = set xs"
  by (induction xs) (simp_all add: sortBy_def)

lemma length_sortBy [simp]: "length (sortBy cmp xs) = length xs"
proof -
  have "length (insertBy cmp x ys) = Suc (length ys)" for x ys by (induction ys) auto
  then show ?thesis by (induction xs) (simp_all add: sortBy_def)
qed

text \<open>Sortedness in any transitive relation the comparator's sign decides.\<close>

lemma sorted_insertBy:
  assumes "\<And>x y. cmp x y < 0 \<Longrightarrow> R x y" and "\<And>x y. \<not> cmp y x < 0 \<Longrightarrow> R x y"
    and "\<And>x y z. R x y \<Longrightarrow> R y z \<Longrightarrow> R x z" and "sorted_wrt R xs"
  shows "sorted_wrt R (insertBy cmp x xs)"
  using assms(4) by (induction xs) (auto dest: assms(1) assms(2) intro: assms(3))

lemma sorted_sortBy:
  assumes "\<And>x y. cmp x y < 0 \<Longrightarrow> R x y" and "\<And>x y. \<not> cmp y x < 0 \<Longrightarrow> R x y"
    and "\<And>x y z. R x y \<Longrightarrow> R y z \<Longrightarrow> R x z"
  shows "sorted_wrt R (sortBy cmp xs)"
  by (induction xs) (simp_all add: sortBy_def sorted_insertBy [OF assms])

text \<open>\<open>xs.slice(0, n)\<close>; a negative end counts from the back.\<close>

definition sliceTo :: "int \<Rightarrow> 'a list \<Rightarrow> 'a list" where
  "sliceTo n xs = take (if 0 \<le> n then nat n else length xs - nat (- n)) xs"

text \<open>\<open>xs.join(sep)\<close>.\<close>

fun joinWith :: "string \<Rightarrow> string list \<Rightarrow> string" where
  "joinWith sep [] = []"
| "joinWith sep [x] = x"
| "joinWith sep (x # y # ys) = x @ sep @ joinWith sep (y # ys)"

lemma joinWith_Cons: "joinWith sep (x # xs) = x @ (if xs = [] then [] else sep @ joinWith sep xs)"
  by (cases xs) simp_all

section \<open>Insertion-ordered maps\<close>

type_synonym 'v jsmap = "(string \<times> 'v) list"

abbreviation mapHas :: "'v jsmap \<Rightarrow> string \<Rightarrow> bool" where
  "mapHas m k \<equiv> map_of m k \<noteq> None"

definition mapOk :: "'v jsmap \<Rightarrow> bool" where
  "mapOk m \<longleftrightarrow> distinct (map fst m)"

lemma map_of_update [simp]: "map_of (AList.update k v m) = (map_of m)(k \<mapsto> v)"
  by (rule ext) (simp add: update_conv)

lemma map_of_delete [simp]: "map_of (AList.delete k m) k' = (if k' = k then None else map_of m k')"
  by (simp add: delete_conv)

lemma mapOk_update [simp]: "mapOk m \<Longrightarrow> mapOk (AList.update k v m)"
  by (simp add: mapOk_def distinct_update)

lemma mapOk_delete [simp]: "mapOk m \<Longrightarrow> mapOk (AList.delete k m)"
  by (simp add: mapOk_def distinct_delete)

lemma mapOk_Nil [simp]: "mapOk []"
  by (simp add: mapOk_def)

lemma length_update:
  "length (AList.update k v m) = (if map_of m k = None then Suc (length m) else length m)"
  by (induction m) auto

section \<open>Dates\<close>

datatype iso = Iso int | NotIso string

fun isoTime :: "iso \<Rightarrow> int option" where
  "isoTime (Iso t) = Some t"
| "isoTime (NotIso _) = None"

definition maxTime :: int where
  "maxTime = 8640000000000000"

text \<open>\<open>new Date(x).getTime()\<close>: the instant truncated towards zero, \<open>None\<close> for an invalid date.\<close>

fun timeClip :: "jsnum \<Rightarrow> int option" where
  "timeClip (Num q) =
     (if \<bar>q\<bar> \<le> of_int maxTime then Some (if 0 \<le> q then \<lfloor>q\<rfloor> else \<lceil>q\<rceil>) else None)"
| "timeClip _ = None"

definition toISOString :: "int option \<Rightarrow> iso res" where
  "toISOString d = (case d of
     Some t \<Rightarrow> if \<bar>t\<bar> \<le> maxTime then Inr (Iso t) else Inl (RangeError ''Invalid time value'')
   | None \<Rightarrow> Inl (RangeError ''Invalid time value''))"

text \<open>\<open>new Date(s).getTime() <= now.getTime()\<close>; a NaN time compares false.\<close>

definition isoExpired :: "iso \<Rightarrow> int \<Rightarrow> bool" where
  "isoExpired s now = (case isoTime s of None \<Rightarrow> False | Some t \<Rightarrow> t \<le> now)"

lemma isoExpired_Iso [simp]: "isoExpired (Iso t) now \<longleftrightarrow> t \<le> now"
  by (simp add: isoExpired_def)

lemma isoExpired_mono: "isoExpired s now \<Longrightarrow> now \<le> now' \<Longrightarrow> isoExpired s now'"
  by (auto simp: isoExpired_def split: option.splits)

lemma toISOString_Inr: "toISOString d = Inr s \<Longrightarrow> \<exists>t. d = Some t \<and> s = Iso t"
  by (auto simp: toISOString_def split: option.splits if_splits)

section \<open>Untyped values and URLs\<close>

text \<open>A value of TypeScript type \<open>unknown\<close>.\<close>

datatype js_value =
    Undefined | Null | JBool bool | JNumber jsnum | JString string
  | JArray "js_value list" | JObject "(string \<times> js_value) list"

text \<open>What \<open>new URL(value)\<close> yields. The WHATWG parser is the platform's: every definition that
  uses it takes the parser as its argument, \<open>None\<close> standing for the \<open>TypeError\<close> it throws.\<close>

record url =
  url_protocol :: string
  url_username :: string
  url_password :: string
  url_hostname :: string
  url_href :: string

type_synonym url_parser = "string \<Rightarrow> url option"

end
