(* ===== verification/StatusMachine.thy ===== *)
theory StatusMachine
  imports JsPrelude
begin

text \<open>
  The contract that the status validators of the job, session, staging and artifact components
  share: a status moves along a step relation, never down a rank, and never out of a terminal
  status. Clients get the consequences for whole runs. Each component interprets the locale on
  its own validator.
\<close>

locale status_machine =
  fixes step :: "'s \<Rightarrow> 's \<Rightarrow> bool"
    and rank :: "'s \<Rightarrow> nat"
    and terminal :: "'s \<Rightarrow> bool"
  assumes step_rank: "step a b \<Longrightarrow> rank a \<le> rank b"
    and step_live: "step a b \<Longrightarrow> \<not> terminal a"
begin

lemma run_rank: "step\<^sup>*\<^sup>* a b \<Longrightarrow> rank a \<le> rank b"
  by (induction rule: rtranclp_induct) (auto dest: step_rank)

lemma run_terminal: "step\<^sup>*\<^sup>* a b \<Longrightarrow> terminal a \<Longrightarrow> b = a"
  by (induction rule: converse_rtranclp_induct) (auto dest: step_live)

end

text \<open>A machine whose steps climb strictly has no cycles, and its runs are bounded by the rank.\<close>

locale ranked_machine = status_machine +
  assumes step_climbs: "step a b \<Longrightarrow> rank a < rank b"
begin

lemma run_length: "(step ^^ n) a b \<Longrightarrow> rank a + n \<le> rank b"
proof (induction n arbitrary: b)
  case (Suc n)
  then obtain c where "(step ^^ n) a c" "step c b" by auto
  with Suc.IH [of c] step_climbs [of c b] show ?case by simp
qed simp

lemma no_return: "step\<^sup>+\<^sup>+ a b \<Longrightarrow> b \<noteq> a"
proof -
  assume "step\<^sup>+\<^sup>+ a b"
  then have "rank a < rank b"
    by (induction rule: tranclp_induct) (auto dest: step_climbs intro: less_trans)
  then show ?thesis by auto
qed

end

end
