(* ===== verification/AsyncContract.thy ===== *)
theory AsyncContract
  imports StatusMachine
begin

text \<open>
  \<^verbatim>\<open>src/core/async-lifecycle.ts\<close>, first half: the client matrix, the job record and its status
  order, the crawl job contract, URL shape validation and the error sanitizer.
\<close>

section \<open>Client capability matrix\<close>

record ClientCapabilityEntry =
  ce_clientId :: string
  ce_supportsAsyncTasks :: bool
  ce_supportsNotifications :: bool
  ce_supportsPolling :: bool
  ce_uploadHandoff :: bool
  ce_verifiedAt :: "string option"

definition KNOWN_CLIENT_IDS :: "string list" where
  "KNOWN_CLIENT_IDS = [''claude'', ''codex'', ''cursor'']"

definition unknownClient :: "string \<Rightarrow> string" where
  "unknownClient c = ''Unknown client '' @ quoted c @ ''; known clients: claude, codex, cursor''"

fun verifyEntries :: "string list \<Rightarrow> ClientCapabilityEntry list \<Rightarrow> unit res" where
  "verifyEntries seen [] = Inr ()"
| "verifyEntries seen (e # es) =
     (if ce_clientId e \<notin> set KNOWN_CLIENT_IDS then Inl (JsError (unknownClient (ce_clientId e)))
      else if ce_clientId e \<in> set seen
      then Inl (JsError (''Duplicate client entry for '' @ quoted (ce_clientId e)))
      else if ce_verifiedAt e = None
      then Inl (JsError (''Client '' @ quoted (ce_clientId e) @
        '' has not been verified (verifiedAt is null); '' @
        ''async tasks cannot be enabled until all clients are verified''))
      else verifyEntries (ce_clientId e # seen) es)"

definition verifyClientMatrix :: "ClientCapabilityEntry list \<Rightarrow> unit res" where
  "verifyClientMatrix entries =
     (if entries = [] then Inl (JsError ''Client capability matrix must contain at least one entry'')
      else verifyEntries [] entries)"

section \<open>Job status and record\<close>

datatype AsyncJobStatus =
    AsyncPending | AsyncRunning | AsyncInputRequired | AsyncCompleted | AsyncFailed
  | AsyncCancelledByCaller | AsyncCancelledByGroundlane | AsyncCancelledByUpstream

datatype CancelKind = CancelCaller | CancelGroundlane | CancelUpstream

fun asyncStatusName :: "AsyncJobStatus \<Rightarrow> string" where
  "asyncStatusName AsyncPending = ''pending''"
| "asyncStatusName AsyncRunning = ''running''"
| "asyncStatusName AsyncInputRequired = ''input_required''"
| "asyncStatusName AsyncCompleted = ''completed''"
| "asyncStatusName AsyncFailed = ''failed''"
| "asyncStatusName AsyncCancelledByCaller = ''cancelled_by_caller''"
| "asyncStatusName AsyncCancelledByGroundlane = ''cancelled_by_groundlane''"
| "asyncStatusName AsyncCancelledByUpstream = ''cancelled_by_upstream''"

record BillingProvenance =
  bp_providerId :: string
  bp_inputUnits :: jsnum
  bp_outputUnits :: jsnum
  bp_billedAt :: "iso option"

record AsyncJobRecord =
  jr_jobId :: string
  jr_ownerId :: string
  jr_providerJobId :: string
  jr_credentialBinding :: string
  jr_ttlSeconds :: jsnum
  jr_expiresAt :: iso
  jr_status :: AsyncJobStatus
  jr_billingProvenance :: BillingProvenance
  jr_sanitizedError :: "string option"
  jr_result :: js_value

fun STATUS_ORDER :: "AsyncJobStatus \<Rightarrow> nat" where
  "STATUS_ORDER AsyncPending = 0"
| "STATUS_ORDER AsyncRunning = 1"
| "STATUS_ORDER AsyncInputRequired = 1"
| "STATUS_ORDER AsyncCompleted = 2"
| "STATUS_ORDER AsyncFailed = 2"
| "STATUS_ORDER AsyncCancelledByCaller = 2"
| "STATUS_ORDER AsyncCancelledByGroundlane = 2"
| "STATUS_ORDER AsyncCancelledByUpstream = 2"

definition validateStatusTransition :: "AsyncJobStatus \<Rightarrow> AsyncJobStatus \<Rightarrow> unit res" where
  "validateStatusTransition from to =
     (let fromOrder = STATUS_ORDER from; toOrder = STATUS_ORDER to in
      if from = to
      then Inl (JsError (''Status is already '' @ quoted (asyncStatusName from) @
        ''; no transition needed''))
      else if fromOrder \<ge> 2
      then Inl (JsError (''Cannot transition from terminal status '' @
        quoted (asyncStatusName from) @ '' to '' @ quoted (asyncStatusName to)))
      else if toOrder < fromOrder
      then Inl (JsError (''Non-monotonic status transition: '' @ quoted (asyncStatusName from) @
        '' ('' @ showNat fromOrder @ '') -> '' @ quoted (asyncStatusName to) @
        '' ('' @ showNat toOrder @ '')''))
      else Inr ())"

definition validateAsyncJobRecord :: "AsyncJobRecord \<Rightarrow> unit res" where
  "validateAsyncJobRecord r =
     (if jr_jobId r = '''' then Inl (JsError ''jobId is required'')
      else if jr_ownerId r = '''' then Inl (JsError ''ownerId is required'')
      else if jr_credentialBinding r = ''''
      then Inl (JsError ''credentialBinding is required for async job records'')
      else if jle (jr_ttlSeconds r) (jint 0)
      then Inl (JsError ''ttlSeconds must be a positive number'')
      else if jr_expiresAt r = NotIso '''' then Inl (JsError ''expiresAt is required'')
      else if bp_providerId (jr_billingProvenance r) = ''''
      then Inl (JsError ''billingProvenance.providerId is required'')
      else Inr ())"

definition isJobExpired :: "AsyncJobRecord \<Rightarrow> int \<Rightarrow> bool" where
  "isJobExpired r now = isoExpired (jr_expiresAt r) now"

section \<open>Crawl job contract\<close>

record 'n CrawlBudgets =
  cb_maxPages :: 'n
  cb_maxBytes :: 'n
  cb_maxOutputChars :: 'n

datatype CrawlJobStatus =
    CrawlCreated | CrawlCrawling | CrawlCompleted | CrawlFailed
  | CrawlCancelledByCaller | CrawlCancelledByGroundlane | CrawlCancelledByUpstream

record CrawlPartialResult =
  cp_url :: string
  cp_contentChars :: int
  cp_fetchedAt :: string

record DurableCrawlJob =
  dc_groundlaneJobId :: string
  dc_ownerId :: string
  dc_expiresAt :: iso
  dc_status :: CrawlJobStatus
  dc_budgets :: "int CrawlBudgets"
  dc_createdAt :: iso
  dc_paginationCursor :: "string option"
  dc_partialResults :: "CrawlPartialResult list"

definition validateCrawlJobOwnership :: "DurableCrawlJob \<Rightarrow> string \<Rightarrow> unit res" where
  "validateCrawlJobOwnership job callerId =
     throwIf (dc_ownerId job \<noteq> callerId)
       (JsError ''Owner mismatch: caller does not own this crawl job'')"

definition validateCrawlJobNotExpired :: "DurableCrawlJob \<Rightarrow> int \<Rightarrow> unit res" where
  "validateCrawlJobNotExpired job now =
     throwIf (isoExpired (dc_expiresAt job) now) (JsError ''Crawl job has expired'')"

definition lookupCrawlJob :: "DurableCrawlJob list \<Rightarrow> string \<Rightarrow> DurableCrawlJob res" where
  "lookupCrawlJob jobs jobId =
     (case find (\<lambda>j. dc_groundlaneJobId j = jobId) jobs of
        None \<Rightarrow> Inl (JsError ''Unknown crawl job'')
      | Some j \<Rightarrow> Inr j)"

definition validateCrawlBudgets :: "int CrawlBudgets \<Rightarrow> int \<Rightarrow> int \<Rightarrow> int \<Rightarrow> unit res" where
  "validateCrawlBudgets b pages bytes chars =
     (if pages > cb_maxPages b
      then Inl (JsError (''Page budget exceeded: '' @ showInt pages @ '' > '' @ showInt (cb_maxPages b)))
      else if bytes > cb_maxBytes b
      then Inl (JsError (''Byte budget exceeded: '' @ showInt bytes @ '' > '' @ showInt (cb_maxBytes b)))
      else if chars > cb_maxOutputChars b
      then Inl (JsError (''Output char budget exceeded: '' @ showInt chars @ '' > '' @
        showInt (cb_maxOutputChars b)))
      else Inr ())"

record ProviderCancelAcknowledgment =
  pa_providerResponseCode :: jsnum
  pa_acknowledgedAt :: string

record CrawlCancelResult =
  cr_callerCancelled :: bool
  cr_groundlanePollingCancelled :: bool
  cr_upstreamCancelled :: bool
  cr_providerAcknowledgment :: "ProviderCancelAcknowledgment option"

definition validateCrawlCancelResult :: "CrawlCancelResult \<Rightarrow> unit res" where
  "validateCrawlCancelResult r =
     throwIf (cr_upstreamCancelled r \<and> cr_providerAcknowledgment r = None)
       (JsError ''upstreamCancelled cannot be true without providerAcknowledgment evidence'')"

section \<open>Limits, client operations, terminal statuses\<close>

definition ASYNC_JOB_ID_PREFIX :: string where "ASYNC_JOB_ID_PREFIX = ''ajob-''"
definition MAX_ASYNC_JOBS :: nat where "MAX_ASYNC_JOBS = 1000"
definition MAX_SANITIZED_ERROR_CHARS :: nat where "MAX_SANITIZED_ERROR_CHARS = 500"
definition MAX_URL_CHARS :: nat where "MAX_URL_CHARS = 2000"

text \<open>The operation of a piece of evidence is a string at run time, checked against this list.\<close>

definition ASYNC_CLIENT_OPERATIONS :: "string list" where
  "ASYNC_CLIENT_OPERATIONS = [''create'', ''poll'', ''result'', ''cancel'', ''resume'']"

definition isTerminalAsyncStatus :: "AsyncJobStatus \<Rightarrow> bool" where
  "isTerminalAsyncStatus s \<longleftrightarrow> s \<in> {AsyncCompleted, AsyncFailed, AsyncCancelledByCaller,
     AsyncCancelledByGroundlane, AsyncCancelledByUpstream}"

section \<open>URL shape validation\<close>

definition assertPublicHttpUrl :: "url_parser \<Rightarrow> string \<Rightarrow> string \<Rightarrow> string res" where
  "assertPublicHttpUrl parseUrl value field =
     (if value = '''' \<or> length value > MAX_URL_CHARS
      then Inl (glError INVALID_INPUT ''async-lifecycle''
        (field @ '' must be a non-empty URL within '' @ showNat MAX_URL_CHARS @ '' characters''))
      else case parseUrl value of
        None \<Rightarrow> Inl (glError INVALID_INPUT ''async-lifecycle''
          (field @ '' must be a valid absolute URL''))
      | Some u \<Rightarrow>
          if url_protocol u \<noteq> ''http:'' \<and> url_protocol u \<noteq> ''https:''
          then Inl (glError INVALID_INPUT ''async-lifecycle''
            (field @ '' must use HTTP(S); got '' @ quoted (url_protocol u)))
          else if url_username u \<noteq> '''' \<or> url_password u \<noteq> ''''
          then Inl (glError INVALID_INPUT ''async-lifecycle''
            (field @ '' must not contain credentials''))
          else if url_hostname u = ''''
          then Inl (glError INVALID_INPUT ''async-lifecycle''
            (field @ '' must contain a hostname''))
          else Inr (url_href u))"

section \<open>Error sanitizer\<close>

text \<open>
  A pattern is a function from the character before the position and the text at the position
  to the length it matches there. The classes of adjacent greedy parts of
  \<open>SECRET_REDACTIONS\<close> are disjoint, so a greedy scan is the regular expression's match; only the
  fourth has overlapping parts (\<open>\s*\<close> before \<open>[^\n,}]+\<close>), and there the match is the maximal run
  of \<open>[^\n,}]\<close>, since the text is a single line.
\<close>

type_synonym pattern = "char option \<Rightarrow> string \<Rightarrow> nat option"

definition isAlnum :: "char \<Rightarrow> bool" where
  "isAlnum c = (let n = of_char c :: nat in
     isDigit c \<or> (65 \<le> n \<and> n \<le> 90) \<or> (97 \<le> n \<and> n \<le> 122))"

definition bearerChar :: "char \<Rightarrow> bool" where
  "bearerChar c \<longleftrightarrow> isAlnum c \<or> c \<in> set ''-._~+/=''"

definition valueChar :: "char \<Rightarrow> bool" where
  "valueChar c \<longleftrightarrow> \<not> isWs c \<and> c \<notin> set '',;}\"'' \<and> c \<noteq> CHR 0x27"

definition wordChar :: "char \<Rightarrow> bool" where
  "wordChar c \<longleftrightarrow> isAlnum c \<or> c = CHR ''_''"

definition spanLen :: "(char \<Rightarrow> bool) \<Rightarrow> string \<Rightarrow> nat" where
  "spanLen p s = length (takeWhile p s)"

definition startsCi :: "string \<Rightarrow> string \<Rightarrow> bool" where
  "startsCi lit s \<longleftrightarrow> toLowerCase (take (length lit) s) = lit"

text \<open>\<open>\s*[:=]\s*[^\s,;}"']+\<close> after a key of length \<open>n\<close>.\<close>

definition matchAssignedValue :: "nat \<Rightarrow> string \<Rightarrow> nat option" where
  "matchAssignedValue n s =
     (let w1 = spanLen isWs s; r1 = drop w1 s in
      case r1 of
        [] \<Rightarrow> None
      | c # r2 \<Rightarrow>
          if c = CHR '':'' \<or> c = CHR ''=''
          then (let w2 = spanLen isWs r2; k = spanLen valueChar (drop w2 r2)
                in if k = 0 then None else Some (n + w1 + 1 + w2 + k))
          else None)"

definition matchBearer :: pattern where
  "matchBearer prev s =
     (if startsCi ''bearer'' s
      then (let r = drop 6 s; w = spanLen isWs r; k = spanLen bearerChar (drop w r)
            in if w = 0 \<or> k = 0 then None else Some (6 + w + k))
      else None)"

definition matchApiKey :: pattern where
  "matchApiKey prev s =
     (if startsCi ''api'' s
      then (let r = drop 3 s;
                sep = (if r \<noteq> [] \<and> (hd r = CHR ''_'' \<or> hd r = CHR ''-'') then 1 else 0);
                r' = drop sep r
            in if startsCi ''key'' r' then matchAssignedValue (6 + sep) (drop 3 r') else None)
      else None)"

definition matchToken :: pattern where
  "matchToken prev s =
     (if (case prev of None \<Rightarrow> True | Some p \<Rightarrow> \<not> wordChar p) \<and> startsCi ''token'' s
      then matchAssignedValue 5 (drop 5 s) else None)"

definition matchAuthorization :: pattern where
  "matchAuthorization prev s =
     (if startsCi ''authorization'' s
      then (let r = drop 13 s; w = spanLen isWs r in
            case drop w r of
              [] \<Rightarrow> None
            | c # r2 \<Rightarrow>
                if c = CHR '':''
                then (let k = spanLen (\<lambda>c. c \<noteq> CHR 0x0A \<and> c \<noteq> CHR '','' \<and> c \<noteq> CHR ''}'') r2
                      in if k = 0 then None else Some (13 + w + 1 + k))
                else None)
      else None)"

function replaceAllMatches :: "pattern \<Rightarrow> char option \<Rightarrow> string \<Rightarrow> string" where
  "replaceAllMatches p prev [] = []"
| "replaceAllMatches p prev (c # cs) =
     (case p prev (c # cs) of
        Some (Suc n) \<Rightarrow> ''[redacted]'' @ replaceAllMatches p (Some (last (take (Suc n) (c # cs)))) (drop n cs)
      | _ \<Rightarrow> c # replaceAllMatches p (Some c) cs)"
  by pat_completeness auto
termination
  by (relation "measure (\<lambda>(p, prev, s). length s)") auto

definition SECRET_REDACTIONS :: "pattern list" where
  "SECRET_REDACTIONS = [matchBearer, matchApiKey, matchToken, matchAuthorization]"

fun collapseWs :: "string \<Rightarrow> string" where
  "collapseWs [] = []"
| "collapseWs (c # cs) =
     (if isWs c
      then (case cs of [] \<Rightarrow> '' '' | d # _ \<Rightarrow> if isWs d then collapseWs cs else CHR '' '' # collapseWs cs)
      else c # collapseWs cs)"

fun thrownMessage :: "thrown \<Rightarrow> string" where
  "thrownMessage (ThrownError e) = exn_message e"
| "thrownMessage (ThrownString s) = s"
| "thrownMessage ThrownOther = ''The upstream operation failed''"

definition sanitizeUpstreamError :: "thrown \<Rightarrow> string" where
  "sanitizeUpstreamError err =
     (let firstLine = trim (takeWhile (\<lambda>c. c \<noteq> CHR 0x0A) (thrownMessage err));
          redacted = fold (\<lambda>p s. replaceAllMatches p None s) SECRET_REDACTIONS firstLine;
          collapsed = trim (collapseWs redacted)
      in if collapsed = '''' then ''The upstream operation failed''
         else take MAX_SANITIZED_ERROR_CHARS collapsed)"

section \<open>Facts\<close>

lemma validateStatusTransition_ok:
  "validateStatusTransition a b = Inr u \<longleftrightarrow>
     a \<noteq> b \<and> \<not> isTerminalAsyncStatus a \<and> STATUS_ORDER a \<le> STATUS_ORDER b"
  by (cases a; cases b) (simp_all add: validateStatusTransition_def isTerminalAsyncStatus_def)

lemma terminal_iff_order: "isTerminalAsyncStatus s \<longleftrightarrow> STATUS_ORDER s = 2"
  by (cases s) (simp_all add: isTerminalAsyncStatus_def)

definition asyncStatusStep :: "AsyncJobStatus \<Rightarrow> AsyncJobStatus \<Rightarrow> bool" where
  "asyncStatusStep a b \<longleftrightarrow> validateStatusTransition a b = Inr ()"

interpretation async_status: status_machine asyncStatusStep STATUS_ORDER isTerminalAsyncStatus
  by unfold_locales (simp_all add: asyncStatusStep_def validateStatusTransition_ok)

lemma validateCrawlBudgets_ok [res_simps]:
  "validateCrawlBudgets b p y c = Inr u \<longleftrightarrow>
     p \<le> cb_maxPages b \<and> y \<le> cb_maxBytes b \<and> c \<le> cb_maxOutputChars b"
  by (auto simp: validateCrawlBudgets_def)

lemma assertPublicHttpUrl_ok:
  "assertPublicHttpUrl parseUrl v f = Inr h \<longleftrightarrow>
     v \<noteq> '''' \<and> length v \<le> MAX_URL_CHARS \<and>
     (\<exists>u. parseUrl v = Some u \<and> (url_protocol u = ''http:'' \<or> url_protocol u = ''https:'') \<and>
       url_username u = '''' \<and> url_password u = '''' \<and> url_hostname u \<noteq> '''' \<and> h = url_href u)"
  by (auto simp: assertPublicHttpUrl_def split: option.splits)

lemma assertPublicHttpUrl_Inl:
  "assertPublicHttpUrl parseUrl v f = Inl e \<Longrightarrow> exn_code e = Some INVALID_INPUT"
  by (auto simp: assertPublicHttpUrl_def split: option.splits if_splits)

lemma sanitize_bounds:
  "sanitizeUpstreamError e \<noteq> '''' \<and> length (sanitizeUpstreamError e) \<le> MAX_SANITIZED_ERROR_CHARS"
  by (auto simp: sanitizeUpstreamError_def Let_def MAX_SANITIZED_ERROR_CHARS_def)

end
