(* ===== verification/JobStore.thy ===== *)
theory JobStore
  imports JsPrelude
begin

text \<open>
  The store port of the two job managers (\<^verbatim>\<open>AsyncJobStorePort\<close>, \<^verbatim>\<open>CrawlJobStorePort\<close>): a record of
  the four operations the managers call, the laws a store promises, and the in-memory store
  that both source files declare with the same code.
\<close>

section \<open>The port and its laws\<close>

record ('s, 'j) job_port =
  port_get :: "'s \<Rightarrow> string \<Rightarrow> 'j option"
  port_set :: "'s \<Rightarrow> 'j \<Rightarrow> 's"
  port_getByIdempotencyKey :: "'s \<Rightarrow> string \<Rightarrow> 'j option"
  port_size :: "'s \<Rightarrow> nat"

locale job_store =
  fixes P :: "('s, 'j) job_port"
    and idOf :: "'j \<Rightarrow> string"
    and keyOf :: "'j \<Rightarrow> string option"
    and inv :: "'s \<Rightarrow> bool"
    and empty :: 's
  assumes get_set:
      "inv s \<Longrightarrow> port_get P (port_set P s j) k = (if k = idOf j then Some j else port_get P s k)"
    and inv_set: "inv s \<Longrightarrow> inv (port_set P s j)"
    and get_id: "inv s \<Longrightarrow> port_get P s k = Some j \<Longrightarrow> idOf j = k"
    and key_set_new: "inv s \<Longrightarrow> keyOf j = Some k \<Longrightarrow>
      port_getByIdempotencyKey P (port_set P s j) k = Some j"
    and key_get: "inv s \<Longrightarrow> port_getByIdempotencyKey P s k = Some j \<Longrightarrow>
      port_get P s (idOf j) = Some j"
    and size_set: "inv s \<Longrightarrow> port_size P (port_set P s j) =
      (if port_get P s (idOf j) = None then Suc (port_size P s) else port_size P s)"
    and inv_empty: "inv empty"
    and get_empty: "port_get P empty k = None"
    and size_empty: "port_size P empty = 0"
begin

lemma get_set_same [simp]: "inv s \<Longrightarrow> port_get P (port_set P s j) (idOf j) = Some j"
  by (simp add: get_set)

lemma size_set_old: "inv s \<Longrightarrow> port_get P s (idOf j) \<noteq> None \<Longrightarrow>
    port_size P (port_set P s j) = port_size P s"
  by (simp add: size_set)

lemma size_set_le: "inv s \<Longrightarrow> port_size P (port_set P s j) \<le> Suc (port_size P s)"
  by (simp add: size_set)

end

section \<open>The in-memory store\<close>

record 'j mem_store =
  ms_jobs :: "'j jsmap"
  ms_byIdempotency :: "string jsmap"

definition memGet :: "'j mem_store \<Rightarrow> string \<Rightarrow> 'j option" where
  "memGet s k = map_of (ms_jobs s) k"

definition memSet :: "('j \<Rightarrow> string) \<Rightarrow> ('j \<Rightarrow> string option) \<Rightarrow> 'j mem_store \<Rightarrow> 'j \<Rightarrow> 'j mem_store" where
  "memSet idOf keyOf s j =
     (let s1 = s\<lparr>ms_jobs := AList.update (idOf j) j (ms_jobs s)\<rparr>
      in case keyOf j of
           None \<Rightarrow> s1
         | Some k \<Rightarrow> s1\<lparr>ms_byIdempotency := AList.update k (idOf j) (ms_byIdempotency s1)\<rparr>)"

definition memGetByIdempotencyKey :: "'j mem_store \<Rightarrow> string \<Rightarrow> 'j option" where
  "memGetByIdempotencyKey s k =
     (case map_of (ms_byIdempotency s) k of
        None \<Rightarrow> None
      | Some jobId \<Rightarrow> map_of (ms_jobs s) jobId)"

definition memSize :: "'j mem_store \<Rightarrow> nat" where
  "memSize s = length (ms_jobs s)"

definition memPort :: "('j \<Rightarrow> string) \<Rightarrow> ('j \<Rightarrow> string option) \<Rightarrow> ('j mem_store, 'j) job_port" where
  "memPort idOf keyOf =
     \<lparr>port_get = memGet, port_set = memSet idOf keyOf,
      port_getByIdempotencyKey = memGetByIdempotencyKey, port_size = memSize\<rparr>"

definition memEmpty :: "'j mem_store" where
  "memEmpty = \<lparr>ms_jobs = [], ms_byIdempotency = []\<rparr>"

definition memInv :: "('j \<Rightarrow> string) \<Rightarrow> 'j mem_store \<Rightarrow> bool" where
  "memInv idOf s \<longleftrightarrow> (\<forall>k j. map_of (ms_jobs s) k = Some j \<longrightarrow> idOf j = k)"

lemmas mem_defs = memPort_def memGet_def memSet_def memGetByIdempotencyKey_def memSize_def
  memEmpty_def memInv_def

lemma job_store_memPort: "job_store (memPort idOf keyOf) idOf keyOf (memInv idOf) memEmpty"
  by unfold_locales
    (auto simp: mem_defs Let_def length_update split: option.splits if_splits)

end
