(* ===== verification/AsyncManager.thy ===== *)
theory AsyncManager
  imports AsyncContract JobStore
begin

text \<open>
  \<^verbatim>\<open>src/core/async-lifecycle.ts\<close>, second half: \<open>AsyncJobManager\<close> over the store and provider
  ports. A method is a function of the store port \<open>P\<close>, the arguments and the manager's state; it
  returns what the call returns or throws, and the manager afterwards. The clock is the
  argument \<open>now\<close>, the random job suffix the argument \<open>uuid\<close>.
\<close>

section \<open>State\<close>

record JobCaller =
  ca_ownerId :: string
  ca_credentialBinding :: string

record InternalAsyncJobState =
  st_record :: AsyncJobRecord
  st_createdAt :: iso
  st_updatedAt :: iso
  st_idempotencyKey :: "string option"
  st_callerCancelled :: bool
  st_groundlanePollingCancelled :: bool
  st_upstreamCancelRequested :: bool
  st_upstreamAcknowledgment :: "ProviderCancelAcknowledgment option"
  st_paidCallCompleted :: bool
  st_artifactWriteCompleted :: bool
  st_artifactResult :: js_value
  st_operationInput :: js_value

abbreviation "asyncId \<equiv> \<lambda>st. jr_jobId (st_record st)"

definition InMemoryAsyncJobStore ::
  "(InternalAsyncJobState mem_store, InternalAsyncJobState) job_port" where
  "InMemoryAsyncJobStore = memPort asyncId st_idempotencyKey"

record AsyncProviderPort =
  ap_createTask :: "string \<Rightarrow> string \<Rightarrow> string res"
  ap_cancelTask :: "string \<Rightarrow> ProviderCancelAcknowledgment option res"

record AsyncJobManagerOptions =
  ao_provider :: "AsyncProviderPort option"
  ao_maxJobs :: int
  ao_jobIdPrefix :: string

record ClientOperationEvidence =
  ev_clientId :: string
  ev_operation :: string
  ev_verifiedAt :: string
  ev_transport :: string

record 's AsyncJobManager =
  am_store :: 's
  am_evidence :: "ClientOperationEvidence jsmap"

record CreateAsyncJobInput =
  ci_ownerId :: string
  ci_credentialBinding :: string
  ci_providerId :: string
  ci_ttlSeconds :: jsnum
  ci_idempotencyKey :: "string option"
  ci_sourceUrl :: "string option"
  ci_operationInput :: js_value

record BillingUnits =
  bu_inputUnits :: jsnum
  bu_outputUnits :: jsnum

record PublicAsyncJob =
  pj_jobId :: string
  pj_ownerId :: string
  pj_createdAt :: iso
  pj_updatedAt :: iso
  pj_status :: AsyncJobStatus
  pj_expiresAt :: iso
  pj_billingProvenance :: BillingProvenance
  pj_callerCancelled :: bool
  pj_groundlanePollingCancelled :: bool
  pj_upstreamCancelRequested :: bool
  pj_upstreamCancelled :: bool
  pj_sanitizedError :: "string option"
  pj_result :: js_value

definition toPublicAsyncJob :: "InternalAsyncJobState \<Rightarrow> PublicAsyncJob" where
  "toPublicAsyncJob s =
     \<lparr>pj_jobId = jr_jobId (st_record s), pj_ownerId = jr_ownerId (st_record s),
      pj_createdAt = st_createdAt s, pj_updatedAt = st_updatedAt s,
      pj_status = jr_status (st_record s), pj_expiresAt = jr_expiresAt (st_record s),
      pj_billingProvenance = jr_billingProvenance (st_record s),
      pj_callerCancelled = st_callerCancelled s,
      pj_groundlanePollingCancelled = st_groundlanePollingCancelled s,
      pj_upstreamCancelRequested = st_upstreamCancelRequested s,
      pj_upstreamCancelled = (st_upstreamAcknowledgment s \<noteq> None),
      pj_sanitizedError = jr_sanitizedError (st_record s),
      pj_result = jr_result (st_record s)\<rparr>"

abbreviation asyncError :: "ErrorCode \<Rightarrow> string \<Rightarrow> exn" where
  "asyncError c m \<equiv> glError c ''async-lifecycle'' m"

section \<open>Create\<close>

definition buildAsyncIdempotencyKey :: "string \<Rightarrow> string \<Rightarrow> string res" where
  "buildAsyncIdempotencyKey ownerId key =
     (if ownerId = '''' then Inl (asyncError INVALID_INPUT ''ownerId is required'')
      else if key = '''' then Inl (asyncError INVALID_INPUT ''idempotencyKey must be non-empty'')
      else Inr (ownerId @ '':'' @ key))"

definition async_createGuards :: "url_parser \<Rightarrow> CreateAsyncJobInput \<Rightarrow> unit res" where
  "async_createGuards parseUrl i =
     (if ci_ownerId i = '''' then Inl (asyncError INVALID_INPUT ''ownerId is required'')
      else if ci_credentialBinding i = ''''
      then Inl (asyncError INVALID_INPUT ''credentialBinding is required for async job records'')
      else if ci_providerId i = ''''
      then Inl (asyncError INVALID_INPUT ''billingProvenance.providerId is required'')
      else if \<not> isFinite (ci_ttlSeconds i) \<or> jle (ci_ttlSeconds i) (jint 0)
      then Inl (asyncError INVALID_INPUT ''ttlSeconds must be a positive number'')
      else case ci_sourceUrl i of
        None \<Rightarrow> Inr ()
      | Some u \<Rightarrow> bindE (assertPublicHttpUrl parseUrl u ''sourceUrl'') (\<lambda>_. Inr ()))"

definition async_key :: "CreateAsyncJobInput \<Rightarrow> string option res" where
  "async_key i = (case ci_idempotencyKey i of
     None \<Rightarrow> Inr None
   | Some k \<Rightarrow> bindE (buildAsyncIdempotencyKey (ci_ownerId i) k) (\<lambda>key. Inr (Some key)))"

text \<open>The part of \<open>create\<close> after the capacity check: it starts the provider task and builds the
  state to store.\<close>

definition async_newState :: "AsyncJobManagerOptions \<Rightarrow> string \<Rightarrow> string option \<Rightarrow>
    CreateAsyncJobInput \<Rightarrow> int \<Rightarrow> InternalAsyncJobState res" where
  "async_newState opts uuid key i now =
     (let jobId = ao_jobIdPrefix opts @ uuid in
      bindE (case ao_provider opts of
               None \<Rightarrow> Inr (''deferred:'' @ jobId)
             | Some p \<Rightarrow> ap_createTask p (ci_ownerId i) (ci_providerId i)) (\<lambda>providerJobId.
      bindE (toISOString (timeClip (jadd (jint now) (jscale 1000 (ci_ttlSeconds i))))) (\<lambda>expiresAt.
      let rec = \<lparr>jr_jobId = jobId, jr_ownerId = ci_ownerId i, jr_providerJobId = providerJobId,
            jr_credentialBinding = ci_credentialBinding i, jr_ttlSeconds = ci_ttlSeconds i,
            jr_expiresAt = expiresAt, jr_status = AsyncPending,
            jr_billingProvenance = \<lparr>bp_providerId = ci_providerId i, bp_inputUnits = jint 0,
              bp_outputUnits = jint 0, bp_billedAt = None\<rparr>,
            jr_sanitizedError = None, jr_result = Undefined\<rparr> in
      andThen (validateAsyncJobRecord rec) (
      bindE (toISOString (Some now)) (\<lambda>nowIso.
      Inr \<lparr>st_record = rec, st_createdAt = nowIso, st_updatedAt = nowIso,
           st_idempotencyKey = key, st_callerCancelled = False,
           st_groundlanePollingCancelled = False, st_upstreamCancelRequested = False,
           st_upstreamAcknowledgment = None, st_paidCallCompleted = False,
           st_artifactWriteCompleted = False, st_artifactResult = Null,
           st_operationInput = ci_operationInput i\<rparr>)))))"

definition async_create :: "('s, InternalAsyncJobState) job_port \<Rightarrow> AsyncJobManagerOptions \<Rightarrow>
    url_parser \<Rightarrow> string \<Rightarrow> CreateAsyncJobInput \<Rightarrow> int \<Rightarrow> 's AsyncJobManager \<Rightarrow>
    (PublicAsyncJob \<times> bool) res \<times> 's AsyncJobManager" where
  "async_create P opts parseUrl uuid i now m =
     (case async_createGuards parseUrl i of Inl e \<Rightarrow> (Inl e, m) | Inr _ \<Rightarrow>
      case async_key i of Inl e \<Rightarrow> (Inl e, m) | Inr key \<Rightarrow>
      case Option.bind key (port_getByIdempotencyKey P (am_store m)) of
        Some existing \<Rightarrow> (Inr (toPublicAsyncJob existing, True), m)
      | None \<Rightarrow>
          if int (port_size P (am_store m)) \<ge> ao_maxJobs opts
          then (Inl (GroundlaneError CONCURRENCY_LIMIT ''async-lifecycle''
                  ''The async job store is full'' True None), m)
          else case async_newState opts uuid key i now of
            Inl e \<Rightarrow> (Inl e, m)
          | Inr st \<Rightarrow> (Inr (toPublicAsyncJob st, False),
                       m\<lparr>am_store := port_set P (am_store m) st\<rparr>))"

section \<open>Resolve, transition, update\<close>

definition async_resolve :: "('s, InternalAsyncJobState) job_port \<Rightarrow> 's AsyncJobManager \<Rightarrow>
    string \<Rightarrow> JobCaller \<Rightarrow> int \<Rightarrow> InternalAsyncJobState res" where
  "async_resolve P m jobId caller now =
     (case port_get P (am_store m) jobId of
        None \<Rightarrow> Inl (asyncError INVALID_INPUT (''Unknown async job '' @ quoted jobId))
      | Some s \<Rightarrow>
          if jr_ownerId (st_record s) \<noteq> ca_ownerId caller
          then Inl (asyncError INVALID_INPUT ''Owner mismatch: caller does not own this async job'')
          else if jr_credentialBinding (st_record s) \<noteq> ca_credentialBinding caller
          then Inl (asyncError INVALID_INPUT
            ''Credential binding mismatch: caller credential does not match this async job'')
          else if isJobExpired (st_record s) now
          then Inl (asyncError DEADLINE_EXCEEDED (''Async job '' @ quoted jobId @ '' has expired''))
          else Inr s)"

definition setStatus :: "AsyncJobStatus \<Rightarrow> InternalAsyncJobState \<Rightarrow> InternalAsyncJobState" where
  "setStatus t s = s\<lparr>st_record := (st_record s)\<lparr>jr_status := t\<rparr>\<rparr>"

definition async_transition :: "InternalAsyncJobState \<Rightarrow> AsyncJobStatus \<Rightarrow> int \<Rightarrow>
    InternalAsyncJobState res" where
  "async_transition s to now =
     (case validateStatusTransition (jr_status (st_record s)) to of
        Inl e \<Rightarrow> Inl (asyncError INVALID_INPUT (exn_message e))
      | Inr _ \<Rightarrow> bindE (toISOString (Some now)) (\<lambda>t. Inr ((setStatus to s)\<lparr>st_updatedAt := t\<rparr>)))"

definition async_assertNonTerminal :: "InternalAsyncJobState \<Rightarrow> unit res" where
  "async_assertNonTerminal s =
     throwIf (isTerminalAsyncStatus (jr_status (st_record s)))
       (asyncError INVALID_INPUT (''Cannot transition from terminal status '' @
          quoted (asyncStatusName (jr_status (st_record s)))))"

text \<open>The shape of every mutating method: resolve the job, compute the next state (or none, when
  the method returns without writing) and the result, write, return.\<close>

definition async_update :: "('s, InternalAsyncJobState) job_port \<Rightarrow> 's AsyncJobManager \<Rightarrow>
    string \<Rightarrow> JobCaller \<Rightarrow> int \<Rightarrow> (InternalAsyncJobState \<Rightarrow> (InternalAsyncJobState option \<times> 'r) res) \<Rightarrow>
    'r res \<times> 's AsyncJobManager" where
  "async_update P m jobId caller now f =
     (case bindE (async_resolve P m jobId caller now) f of
        Inl e \<Rightarrow> (Inl e, m)
      | Inr (None, r) \<Rightarrow> (Inr r, m)
      | Inr (Some next, r) \<Rightarrow> (Inr r, m\<lparr>am_store := port_set P (am_store m) next\<rparr>))"

abbreviation writeAndShow ::
  "InternalAsyncJobState \<Rightarrow> (InternalAsyncJobState option \<times> PublicAsyncJob) res" where
  "writeAndShow next \<equiv> Inr (Some next, toPublicAsyncJob next)"

section \<open>Reads\<close>

definition async_poll where
  "async_poll P m jobId caller now =
     bindE (async_resolve P m jobId caller now) (\<lambda>s. Inr (toPublicAsyncJob s))"

definition async_result where
  "async_result P m jobId caller now =
     bindE (async_resolve P m jobId caller now) (\<lambda>s. Inr (toPublicAsyncJob s))"

definition async_providerTaskId where
  "async_providerTaskId P m jobId caller now =
     bindE (async_resolve P m jobId caller now) (\<lambda>s. Inr (jr_providerJobId (st_record s)))"

definition async_operationInput where
  "async_operationInput P m jobId caller now =
     bindE (async_resolve P m jobId caller now) (\<lambda>s. Inr (st_operationInput s))"

section \<open>Lifecycle methods\<close>

definition async_markRunning where
  "async_markRunning P m jobId caller now =
     async_update P m jobId caller now (\<lambda>s.
       bindE (async_transition s AsyncRunning now) writeAndShow)"

definition async_markInputRequired where
  "async_markInputRequired P m jobId caller inputRequests now =
     async_update P m jobId caller now (\<lambda>s.
       bindE (async_transition s AsyncInputRequired now) (\<lambda>t.
       writeAndShow (t\<lparr>st_record := (st_record t)\<lparr>jr_result := inputRequests\<rparr>\<rparr>)))"

definition async_completedRecord ::
  "AsyncJobRecord \<Rightarrow> js_value \<Rightarrow> BillingUnits option \<Rightarrow> iso \<Rightarrow> AsyncJobRecord" where
  "async_completedRecord r result billing nowIso =
     (let r1 = (case billing of
                  None \<Rightarrow> r
                | Some u \<Rightarrow> r\<lparr>jr_billingProvenance :=
                    \<lparr>bp_providerId = bp_providerId (jr_billingProvenance r),
                     bp_inputUnits = bu_inputUnits u, bp_outputUnits = bu_outputUnits u,
                     bp_billedAt = Some nowIso\<rparr>\<rparr>)
      in if result = Undefined then r1 else r1\<lparr>jr_result := result\<rparr>)"

definition async_markCompleted where
  "async_markCompleted P m jobId caller result billing now =
     async_update P m jobId caller now (\<lambda>s.
       bindE (async_transition s AsyncCompleted now) (\<lambda>t.
       bindE (toISOString (Some now)) (\<lambda>nowIso.
       writeAndShow (t\<lparr>st_record := async_completedRecord (st_record t) result billing nowIso\<rparr>))))"

definition async_markFailed where
  "async_markFailed P m jobId caller upstreamError now =
     async_update P m jobId caller now (\<lambda>s.
       bindE (async_transition s AsyncFailed now) (\<lambda>t.
       writeAndShow (t\<lparr>st_record := (st_record t)\<lparr>jr_sanitizedError :=
         Some (sanitizeUpstreamError upstreamError)\<rparr>\<rparr>)))"

definition billPaidCall :: "BillingProvenance \<Rightarrow> BillingUnits \<Rightarrow> iso \<Rightarrow> BillingProvenance" where
  "billPaidCall b u nowIso =
     \<lparr>bp_providerId = bp_providerId b,
      bp_inputUnits = jadd (bp_inputUnits b) (bu_inputUnits u),
      bp_outputUnits = jadd (bp_outputUnits b) (bu_outputUnits u),
      bp_billedAt = (case bp_billedAt b of None \<Rightarrow> Some nowIso | Some t \<Rightarrow> Some t)\<rparr>"

text \<open>The result of the next two methods starts with the \<open>reused\<close> flag.\<close>

definition async_recordPaidCall where
  "async_recordPaidCall P m jobId caller units now =
     (if \<not> isInteger (bu_inputUnits units) \<or> jlt (bu_inputUnits units) (jint 0)
      then (Inl (asyncError INVALID_INPUT ''inputUnits must be a non-negative integer''), m)
      else if \<not> isInteger (bu_outputUnits units) \<or> jlt (bu_outputUnits units) (jint 0)
      then (Inl (asyncError INVALID_INPUT ''outputUnits must be a non-negative integer''), m)
      else async_update P m jobId caller now (\<lambda>s.
        if st_paidCallCompleted s then Inr (None, True)
        else bindE (toISOString (Some now)) (\<lambda>nowIso.
          Inr (Some (s\<lparr>st_record := (st_record s)\<lparr>jr_billingProvenance :=
                 billPaidCall (jr_billingProvenance (st_record s)) units nowIso\<rparr>,
               st_paidCallCompleted := True, st_updatedAt := nowIso\<rparr>), False))))"

definition async_recordArtifactWrite where
  "async_recordArtifactWrite P m jobId caller result now =
     async_update P m jobId caller now (\<lambda>s.
       if st_artifactWriteCompleted s then Inr (None, (True, st_artifactResult s))
       else bindE (toISOString (Some now)) (\<lambda>nowIso.
         Inr (Some (s\<lparr>st_artifactWriteCompleted := True, st_artifactResult := result,
              st_updatedAt := nowIso\<rparr>), (False, result))))"

section \<open>Cancellation\<close>

definition async_cancelCallerWait where
  "async_cancelCallerWait P m jobId caller now =
     async_update P m jobId caller now (\<lambda>s.
       bindE (async_transition s AsyncCancelledByCaller now) (\<lambda>t.
       writeAndShow (t\<lparr>st_callerCancelled := True\<rparr>)))"

definition async_cancelGroundlanePolling where
  "async_cancelGroundlanePolling P m jobId caller now =
     async_update P m jobId caller now (\<lambda>s.
       bindE (async_transition s AsyncCancelledByGroundlane now) (\<lambda>t.
       writeAndShow (t\<lparr>st_groundlanePollingCancelled := True\<rparr>)))"

definition asyncCancelResult ::
  "InternalAsyncJobState \<Rightarrow> ProviderCancelAcknowledgment option \<Rightarrow> CrawlCancelResult" where
  "asyncCancelResult s ack =
     \<lparr>cr_callerCancelled = st_callerCancelled s,
      cr_groundlanePollingCancelled = st_groundlanePollingCancelled s,
      cr_upstreamCancelled = (ack \<noteq> None), cr_providerAcknowledgment = ack\<rparr>"

definition async_requestUpstreamCancel where
  "async_requestUpstreamCancel P opts m jobId caller now =
     async_update P m jobId caller now (\<lambda>s.
       andThen (async_assertNonTerminal s) (
       bindE (case ao_provider opts of
                None \<Rightarrow> Inr None
              | Some p \<Rightarrow> ap_cancelTask p (jr_providerJobId (st_record s))) (\<lambda>acknowledgment.
       bindE (case acknowledgment of
           None \<Rightarrow> bindE (toISOString (Some now)) (\<lambda>nowIso.
             Inr (s\<lparr>st_upstreamCancelRequested := True, st_updatedAt := nowIso\<rparr>))
         | Some ack \<Rightarrow> bindE (async_transition s AsyncCancelledByUpstream now) (\<lambda>t.
             Inr (t\<lparr>st_upstreamCancelRequested := True,
                    st_upstreamAcknowledgment := Some ack\<rparr>))) (\<lambda>next.
       let cancelResult = asyncCancelResult next acknowledgment in
       andThen (validateCrawlCancelResult cancelResult)
         (Inr (Some next, (toPublicAsyncJob next, cancelResult)))))))"

definition async_cancelTask where
  "async_cancelTask P m jobId caller upstreamAcknowledgment now =
     async_update P m jobId caller now (\<lambda>s.
       bindE (async_transition s (if upstreamAcknowledgment = None then AsyncCancelledByCaller
                                  else AsyncCancelledByUpstream) now) (\<lambda>t.
       writeAndShow (t\<lparr>st_callerCancelled := True, st_groundlanePollingCancelled := True,
         st_upstreamCancelRequested := True,
         st_upstreamAcknowledgment := upstreamAcknowledgment\<rparr>)))"

definition async_attachProviderTask where
  "async_attachProviderTask P m jobId caller providerJobId now =
     (if length providerJobId = 0 \<or> length providerJobId > 512
      then (Inl (asyncError INVALID_INPUT ''provider job ID is invalid''), m)
      else async_update P m jobId caller now (\<lambda>s.
        bindE (toISOString (Some now)) (\<lambda>nowIso.
        Inr (Some (s\<lparr>st_record := (st_record s)\<lparr>jr_providerJobId := providerJobId\<rparr>,
                     st_updatedAt := nowIso\<rparr>), ()))))"

section \<open>Client evidence and the verified entry points\<close>

definition assertKnownClientId :: "string \<Rightarrow> unit res" where
  "assertKnownClientId c =
     throwIf (c \<notin> set KNOWN_CLIENT_IDS) (asyncError INVALID_INPUT (unknownClient c))"

definition async_recordClientEvidence ::
  "'s AsyncJobManager \<Rightarrow> ClientOperationEvidence \<Rightarrow> unit res \<times> 's AsyncJobManager" where
  "async_recordClientEvidence m e =
     (case assertKnownClientId (ev_clientId e) of Inl x \<Rightarrow> (Inl x, m) | Inr _ \<Rightarrow>
      if ev_operation e \<notin> set ASYNC_CLIENT_OPERATIONS
      then (Inl (asyncError INVALID_INPUT (''Unknown async operation '' @ quoted (ev_operation e))), m)
      else if ev_verifiedAt e = ''''
      then (Inl (asyncError INVALID_INPUT ''verifiedAt is required for capability evidence''), m)
      else if ev_transport e = ''''
      then (Inl (asyncError INVALID_INPUT ''transport is required for capability evidence''), m)
      else (Inr (), m\<lparr>am_evidence :=
             AList.update (ev_clientId e @ '':'' @ ev_operation e) e (am_evidence m)\<rparr>))"

definition async_assertClientOperation :: "'s AsyncJobManager \<Rightarrow> string \<Rightarrow> string \<Rightarrow> unit res" where
  "async_assertClientOperation m clientId operation =
     andThen (assertKnownClientId clientId)
       (throwIf (\<not> mapHas (am_evidence m) (clientId @ '':'' @ operation))
         (asyncError INVALID_INPUT (''No verified '' @ operation @ '' evidence for client '' @
            quoted clientId @ ''; async operations require observed '' @
            ''create/poll/result/cancel/resume verification, not SDK type inference'')))"

definition async_verifiedCreate where
  "async_verifiedCreate P opts parseUrl uuid clientId i now m =
     (case async_assertClientOperation m clientId ''create'' of
        Inl e \<Rightarrow> (Inl e, m)
      | Inr _ \<Rightarrow> async_create P opts parseUrl uuid i now m)"

definition async_verifiedPoll where
  "async_verifiedPoll P m clientId jobId caller now =
     andThen (async_assertClientOperation m clientId ''poll'') (async_poll P m jobId caller now)"

definition async_verifiedResult where
  "async_verifiedResult P m clientId jobId caller now =
     andThen (async_assertClientOperation m clientId ''result'') (async_result P m jobId caller now)"

definition async_verifiedCancel where
  "async_verifiedCancel P opts m clientId jobId caller kind now =
     (case async_assertClientOperation m clientId ''cancel'' of
        Inl e \<Rightarrow> (Inl e, m)
      | Inr _ \<Rightarrow> (case kind of
            CancelCaller \<Rightarrow> async_cancelCallerWait P m jobId caller now
          | CancelGroundlane \<Rightarrow> async_cancelGroundlanePolling P m jobId caller now
          | CancelUpstream \<Rightarrow>
              (case async_requestUpstreamCancel P opts m jobId caller now of
                 (Inl e, m') \<Rightarrow> (Inl e, m')
               | (Inr (job, _), m') \<Rightarrow> (Inr job, m'))))"

definition async_resumeAfterDisconnect where
  "async_resumeAfterDisconnect P m clientId jobId caller now =
     andThen (async_assertClientOperation m clientId ''resume'') (async_poll P m jobId caller now)"

end
