(* ===== verification/AsyncInvariants.thy ===== *)
theory AsyncInvariants
  imports AsyncManager
begin

text \<open>
  What every sequence of calls on an \<open>AsyncJobManager\<close> keeps: a step relation with one rule per
  method, the per-job invariant, the order in which a job may evolve, and both proved for every
  store that satisfies the port's laws.
\<close>

section \<open>One call, any method\<close>

text \<open>\<open>crypto.randomUUID\<close> is documented to return a fresh identifier: the premise of \<open>create\<close>.\<close>

inductive async_step ::
  "('s, InternalAsyncJobState) job_port \<Rightarrow> AsyncJobManagerOptions \<Rightarrow> url_parser \<Rightarrow>
   's AsyncJobManager \<Rightarrow> 's AsyncJobManager \<Rightarrow> bool"
  for P opts parseUrl where
  create: "async_create P (opts\<lparr>ao_provider := prov\<rparr>) parseUrl uuid i now m = (r1, m') \<Longrightarrow>
      port_get P (am_store m) (ao_jobIdPrefix opts @ uuid) = None \<Longrightarrow>
      async_step P opts parseUrl m m'"
| verifiedCreate: "async_verifiedCreate P (opts\<lparr>ao_provider := prov\<rparr>)
      parseUrl uuid client i now m = (r1, m') \<Longrightarrow>
      port_get P (am_store m) (ao_jobIdPrefix opts @ uuid) = None \<Longrightarrow>
      async_step P opts parseUrl m m'"
| markRunning: "async_markRunning P m jobId c now = (r2, m') \<Longrightarrow> async_step P opts parseUrl m m'"
| markInputRequired: "async_markInputRequired P m jobId c v now = (r2, m') \<Longrightarrow>
      async_step P opts parseUrl m m'"
| markCompleted: "async_markCompleted P m jobId c v b now = (r2, m') \<Longrightarrow>
      async_step P opts parseUrl m m'"
| markFailed: "async_markFailed P m jobId c err now = (r2, m') \<Longrightarrow> async_step P opts parseUrl m m'"
| recordPaidCall: "async_recordPaidCall P m jobId c u now = (r3, m') \<Longrightarrow>
      async_step P opts parseUrl m m'"
| recordArtifactWrite: "async_recordArtifactWrite P m jobId c v now = (r4, m') \<Longrightarrow>
      async_step P opts parseUrl m m'"
| cancelCallerWait: "async_cancelCallerWait P m jobId c now = (r2, m') \<Longrightarrow>
      async_step P opts parseUrl m m'"
| cancelGroundlanePolling: "async_cancelGroundlanePolling P m jobId c now = (r2, m') \<Longrightarrow>
      async_step P opts parseUrl m m'"
| requestUpstreamCancel: "async_requestUpstreamCancel P (opts\<lparr>ao_provider := prov\<rparr>)
      m jobId c now = (r5, m') \<Longrightarrow>
      async_step P opts parseUrl m m'"
| verifiedCancel: "async_verifiedCancel P (opts\<lparr>ao_provider := prov\<rparr>)
      m client jobId c kind now = (r2, m') \<Longrightarrow>
      async_step P opts parseUrl m m'"
| cancelTask: "async_cancelTask P m jobId c ack now = (r2, m') \<Longrightarrow> async_step P opts parseUrl m m'"
| attachProviderTask: "async_attachProviderTask P m jobId c pid now = (r6, m') \<Longrightarrow>
      async_step P opts parseUrl m m'"
| recordClientEvidence: "async_recordClientEvidence m e = (r7, m') \<Longrightarrow>
      async_step P opts parseUrl m m'"

section \<open>The life of one job\<close>

text \<open>The invariant of a stored job: upstream cancellation is claimed exactly with the provider's
  acknowledgment, and a cancelled status carries the flag of its cancel kind.\<close>

definition asyncJobWf :: "InternalAsyncJobState \<Rightarrow> bool" where
  "asyncJobWf s \<longleftrightarrow>
     (st_upstreamAcknowledgment s \<noteq> None \<longleftrightarrow> jr_status (st_record s) = AsyncCancelledByUpstream) \<and>
     (jr_status (st_record s) = AsyncCancelledByCaller \<longrightarrow> st_callerCancelled s) \<and>
     (jr_status (st_record s) = AsyncCancelledByGroundlane \<longrightarrow> st_groundlanePollingCancelled s) \<and>
     (st_callerCancelled s \<longrightarrow> isTerminalAsyncStatus (jr_status (st_record s))) \<and>
     (st_upstreamAcknowledgment s \<noteq> None \<longrightarrow> st_upstreamCancelRequested s)"

text \<open>How a job may change: its identity, binding and expiry never, its status along the status
  order, its flags upwards, its artifact result once.\<close>

definition asyncEvolves :: "InternalAsyncJobState \<Rightarrow> InternalAsyncJobState \<Rightarrow> bool" where
  "asyncEvolves a b \<longleftrightarrow>
     jr_jobId (st_record b) = jr_jobId (st_record a) \<and>
     jr_ownerId (st_record b) = jr_ownerId (st_record a) \<and>
     jr_credentialBinding (st_record b) = jr_credentialBinding (st_record a) \<and>
     jr_ttlSeconds (st_record b) = jr_ttlSeconds (st_record a) \<and>
     jr_expiresAt (st_record b) = jr_expiresAt (st_record a) \<and>
     st_createdAt b = st_createdAt a \<and> st_idempotencyKey b = st_idempotencyKey a \<and>
     bp_providerId (jr_billingProvenance (st_record b)) =
       bp_providerId (jr_billingProvenance (st_record a)) \<and>
     asyncStatusStep\<^sup>*\<^sup>* (jr_status (st_record a)) (jr_status (st_record b)) \<and>
     (st_callerCancelled a \<longrightarrow> st_callerCancelled b) \<and>
     (st_groundlanePollingCancelled a \<longrightarrow> st_groundlanePollingCancelled b) \<and>
     (st_upstreamCancelRequested a \<longrightarrow> st_upstreamCancelRequested b) \<and>
     (st_paidCallCompleted a \<longrightarrow> st_paidCallCompleted b) \<and>
     (st_artifactWriteCompleted a \<longrightarrow>
        st_artifactWriteCompleted b \<and> st_artifactResult b = st_artifactResult a)"

lemma asyncEvolves_refl [simp]: "asyncEvolves s s"
  by (simp add: asyncEvolves_def)

lemma asyncEvolves_trans: "asyncEvolves a b \<Longrightarrow> asyncEvolves b c \<Longrightarrow> asyncEvolves a c"
  by (auto simp: asyncEvolves_def)

lemma async_transition_ok:
  "async_transition s to now = Inr t \<longleftrightarrow>
     asyncStatusStep (jr_status (st_record s)) to \<and>
     (\<exists>u. toISOString (Some now) = Inr u \<and> t = (setStatus to s)\<lparr>st_updatedAt := u\<rparr>)"
  by (auto simp: async_transition_def asyncStatusStep_def res_simps split: sum.splits)

text \<open>The condition under which a method's next state keeps the invariant and the order.\<close>

definition goodUpdate ::
  "(InternalAsyncJobState \<Rightarrow> (InternalAsyncJobState option \<times> 'r) res) \<Rightarrow> bool" where
  "goodUpdate f \<longleftrightarrow>
     (\<forall>s next r. asyncJobWf s \<longrightarrow> f s = Inr (Some next, r) \<longrightarrow> asyncJobWf next \<and> asyncEvolves s next)"

text \<open>A transition out of a well-formed job leaves a job that is not cancelled yet; the methods then
  set the flags of the status they move to.\<close>

lemma transition_facts:
  assumes "asyncJobWf s" "async_transition s to now = Inr t"
  shows "asyncEvolves s t" "jr_status (st_record t) = to"
    "st_upstreamAcknowledgment t = None" "\<not> st_callerCancelled t"
proof -
  from assms(2) obtain u where st: "asyncStatusStep (jr_status (st_record s)) to"
    and t: "t = (setStatus to s)\<lparr>st_updatedAt := u\<rparr>"
    by (auto simp: async_transition_ok)
  have live: "\<not> isTerminalAsyncStatus (jr_status (st_record s))"
    using st by (rule async_status.step_live)
  then have "jr_status (st_record s) \<noteq> AsyncCancelledByUpstream"
    by (auto simp: isTerminalAsyncStatus_def)
  with assms(1) live show "st_upstreamAcknowledgment t = None" "\<not> st_callerCancelled t"
    by (simp_all add: t setStatus_def asyncJobWf_def)
  show "asyncEvolves s t" "jr_status (st_record t) = to"
    using st by (simp_all add: t setStatus_def asyncEvolves_def r_into_rtranclp)
qed

lemma goodUpdateI:
  assumes "\<And>s next r. asyncJobWf s \<Longrightarrow> f s = Inr (Some next, r) \<Longrightarrow>
    asyncJobWf next \<and> asyncEvolves s next"
  shows "goodUpdate f"
  using assms by (simp add: goodUpdate_def)

lemma goodUpdate_transition:
  assumes "\<And>s t next r. st_upstreamAcknowledgment t = None \<Longrightarrow> \<not> st_callerCancelled t \<Longrightarrow>
      jr_status (st_record t) = to \<Longrightarrow> asyncEvolves s t \<Longrightarrow> g t = Inr (Some next, r) \<Longrightarrow>
      asyncJobWf next \<and> asyncEvolves s next"
  shows "goodUpdate (\<lambda>s. bindE (async_transition s to now) g)"
proof (rule goodUpdateI)
  fix s nx r
  assume wf: "asyncJobWf s" and "bindE (async_transition s to now) g = Inr (Some nx, r)"
  then obtain t where "async_transition s to now = Inr t" "g t = Inr (Some nx, r)"
    by (auto simp: res_simps)
  then show "asyncJobWf nx \<and> asyncEvolves s nx"
    using assms [of t s nx r] transition_facts [OF wf] by simp
qed

lemma good_markRunning: "goodUpdate (\<lambda>s. bindE (async_transition s AsyncRunning now) writeAndShow)"
  by (rule goodUpdate_transition) (auto simp: asyncJobWf_def)

lemma good_markInputRequired: "goodUpdate (\<lambda>s. bindE (async_transition s AsyncInputRequired now)
    (\<lambda>t. writeAndShow (t\<lparr>st_record := (st_record t)\<lparr>jr_result := v\<rparr>\<rparr>)))"
  by (rule goodUpdate_transition) (auto simp: asyncJobWf_def asyncEvolves_def)

lemma good_markFailed: "goodUpdate (\<lambda>s. bindE (async_transition s AsyncFailed now)
    (\<lambda>t. writeAndShow (t\<lparr>st_record := (st_record t)\<lparr>jr_sanitizedError := e\<rparr>\<rparr>)))"
  by (rule goodUpdate_transition) (auto simp: asyncJobWf_def asyncEvolves_def)

lemma good_cancelCallerWait: "goodUpdate (\<lambda>s. bindE (async_transition s AsyncCancelledByCaller now)
    (\<lambda>t. writeAndShow (t\<lparr>st_callerCancelled := True\<rparr>)))"
  by (rule goodUpdate_transition)
    (auto simp: asyncJobWf_def asyncEvolves_def isTerminalAsyncStatus_def)

lemma good_cancelGroundlane: "goodUpdate (\<lambda>s. bindE
    (async_transition s AsyncCancelledByGroundlane now)
    (\<lambda>t. writeAndShow (t\<lparr>st_groundlanePollingCancelled := True\<rparr>)))"
  by (rule goodUpdate_transition) (auto simp: asyncJobWf_def asyncEvolves_def)

lemma good_cancelTask: "goodUpdate (\<lambda>s. bindE (async_transition s
      (if ack = None then AsyncCancelledByCaller else AsyncCancelledByUpstream) now) (\<lambda>t.
      writeAndShow (t\<lparr>st_callerCancelled := True, st_groundlanePollingCancelled := True,
         st_upstreamCancelRequested := True, st_upstreamAcknowledgment := ack\<rparr>)))"
proof (cases ack)
  case None
  show ?thesis
    unfolding None
    by (simp, rule goodUpdate_transition)
      (clarsimp, simp add: asyncJobWf_def asyncEvolves_def isTerminalAsyncStatus_def)
next
  case (Some a)
  show ?thesis
    unfolding Some
    by (simp, rule goodUpdate_transition)
      (clarsimp, simp add: asyncJobWf_def asyncEvolves_def isTerminalAsyncStatus_def)
qed

lemma completedRecord_fields [simp]:
  "jr_jobId (async_completedRecord rc v b t) = jr_jobId rc"
  "jr_ownerId (async_completedRecord rc v b t) = jr_ownerId rc"
  "jr_credentialBinding (async_completedRecord rc v b t) = jr_credentialBinding rc"
  "jr_ttlSeconds (async_completedRecord rc v b t) = jr_ttlSeconds rc"
  "jr_expiresAt (async_completedRecord rc v b t) = jr_expiresAt rc"
  "jr_status (async_completedRecord rc v b t) = jr_status rc"
  "bp_providerId (jr_billingProvenance (async_completedRecord rc v b t)) =
     bp_providerId (jr_billingProvenance rc)"
  by (simp_all add: async_completedRecord_def Let_def split: option.split)

lemma good_markCompleted: "goodUpdate (\<lambda>s. bindE (async_transition s AsyncCompleted now) (\<lambda>t.
    bindE (toISOString (Some now)) (\<lambda>nowIso.
    writeAndShow (t\<lparr>st_record := async_completedRecord (st_record t) v b nowIso\<rparr>))))"
  by (rule goodUpdate_transition)
    (clarsimp simp: res_simps, simp add: asyncJobWf_def asyncEvolves_def)

lemma good_recordPaidCall: "goodUpdate (\<lambda>s.
    if st_paidCallCompleted s then Inr (None, True)
    else bindE (toISOString (Some now)) (\<lambda>nowIso.
      Inr (Some (s\<lparr>st_record := (st_record s)\<lparr>jr_billingProvenance :=
             billPaidCall (jr_billingProvenance (st_record s)) u nowIso\<rparr>,
           st_paidCallCompleted := True, st_updatedAt := nowIso\<rparr>), False)))"
  by (rule goodUpdateI)
    (clarsimp simp: res_simps split: if_splits, simp add: asyncJobWf_def asyncEvolves_def billPaidCall_def)

lemma good_recordArtifactWrite: "goodUpdate (\<lambda>s.
    if st_artifactWriteCompleted s then Inr (None, (True, st_artifactResult s))
    else bindE (toISOString (Some now)) (\<lambda>nowIso.
      Inr (Some (s\<lparr>st_artifactWriteCompleted := True, st_artifactResult := v,
           st_updatedAt := nowIso\<rparr>), (False, v))))"
  by (rule goodUpdateI)
    (clarsimp simp: res_simps split: if_splits, simp add: asyncJobWf_def asyncEvolves_def)

lemma good_attachProviderTask: "goodUpdate (\<lambda>s. bindE (toISOString (Some now)) (\<lambda>nowIso.
    Inr (Some (s\<lparr>st_record := (st_record s)\<lparr>jr_providerJobId := pid\<rparr>,
                 st_updatedAt := nowIso\<rparr>), ())))"
  by (rule goodUpdateI) (clarsimp simp: res_simps, simp add: asyncJobWf_def asyncEvolves_def)

lemma good_requestUpstreamCancel: "goodUpdate (\<lambda>s.
    andThen (async_assertNonTerminal s) (
    bindE (g s) (\<lambda>acknowledgment.
    bindE (case acknowledgment of
        None \<Rightarrow> bindE (toISOString (Some now)) (\<lambda>nowIso.
          Inr (s\<lparr>st_upstreamCancelRequested := True, st_updatedAt := nowIso\<rparr>))
      | Some ack \<Rightarrow> bindE (async_transition s AsyncCancelledByUpstream now) (\<lambda>t.
          Inr (t\<lparr>st_upstreamCancelRequested := True,
                 st_upstreamAcknowledgment := Some ack\<rparr>))) (\<lambda>next.
    let cancelResult = asyncCancelResult next acknowledgment in
    andThen (validateCrawlCancelResult cancelResult)
      (Inr (Some next, (toPublicAsyncJob next, cancelResult)))))))"
    (is "goodUpdate ?f")
proof (rule goodUpdateI)
  fix s nx r
  assume wf: "asyncJobWf s" and "?f s = Inr (Some nx, r)"
  then obtain ack where
    n: "(case ack of
        None \<Rightarrow> bindE (toISOString (Some now)) (\<lambda>nowIso.
          Inr (s\<lparr>st_upstreamCancelRequested := True, st_updatedAt := nowIso\<rparr>))
      | Some a \<Rightarrow> bindE (async_transition s AsyncCancelledByUpstream now) (\<lambda>t.
          Inr (t\<lparr>st_upstreamCancelRequested := True,
                 st_upstreamAcknowledgment := Some a\<rparr>))) = Inr nx"
    by (auto simp: res_simps Let_def)
  show "asyncJobWf nx \<and> asyncEvolves s nx"
  proof (cases ack)
    case None
    with n wf show ?thesis by (clarsimp simp: res_simps, simp add: asyncJobWf_def asyncEvolves_def)
  next
    case (Some a)
    with n obtain t where t: "async_transition s AsyncCancelledByUpstream now = Inr t"
      and nx: "nx = t\<lparr>st_upstreamCancelRequested := True, st_upstreamAcknowledgment := Some a\<rparr>"
      by (auto simp: res_simps)
    show ?thesis
      using transition_facts [OF wf t] by (simp add: nx asyncJobWf_def asyncEvolves_def)
  qed
qed

lemmas good_updates = good_markRunning good_markInputRequired good_markFailed
  good_cancelCallerWait good_cancelGroundlane good_cancelTask good_markCompleted
  good_recordPaidCall good_recordArtifactWrite good_attachProviderTask good_requestUpstreamCancel

lemmas update_method_defs = async_markRunning_def async_markInputRequired_def
  async_markFailed_def async_cancelCallerWait_def async_cancelGroundlanePolling_def
  async_cancelTask_def async_markCompleted_def async_recordPaidCall_def
  async_recordArtifactWrite_def async_attachProviderTask_def async_requestUpstreamCancel_def

section \<open>A new job\<close>

lemma async_newState_ok:
  assumes "async_newState opts uuid key i now = Inr st"
  shows "asyncId st = ao_jobIdPrefix opts @ uuid" "asyncJobWf st" "st_idempotencyKey st = key"
    "jr_ownerId (st_record st) = ci_ownerId i"
    "jr_credentialBinding (st_record st) = ci_credentialBinding i"
    "jr_status (st_record st) = AsyncPending"
  using assms
  by (auto simp: async_newState_def Let_def res_simps asyncJobWf_def isTerminalAsyncStatus_def)

section \<open>The manager over any lawful store\<close>

locale async_jobs = job_store P asyncId st_idempotencyKey inv empty
  for P :: "('s, InternalAsyncJobState) job_port" and inv :: "'s \<Rightarrow> bool" and empty :: 's
begin

definition managerOk :: "AsyncJobManagerOptions \<Rightarrow> 's AsyncJobManager \<Rightarrow> bool" where
  "managerOk opts m \<longleftrightarrow> inv (am_store m) \<and>
     (\<forall>k s. port_get P (am_store m) k = Some s \<longrightarrow> asyncJobWf s) \<and>
     int (port_size P (am_store m)) \<le> max 0 (ao_maxJobs opts)"

lemma managerOk_provider [simp]:
  "managerOk (opts\<lparr>ao_provider := prov\<rparr>) m \<longleftrightarrow> managerOk opts m"
  by (simp add: managerOk_def)

definition jobsEvolve :: "'s AsyncJobManager \<Rightarrow> 's AsyncJobManager \<Rightarrow> bool" where
  "jobsEvolve m m' \<longleftrightarrow> (\<forall>k s. port_get P (am_store m) k = Some s \<longrightarrow>
     (\<exists>s'. port_get P (am_store m') k = Some s' \<and> asyncEvolves s s'))"

lemma jobsEvolve_refl [simp]: "jobsEvolve m m"
  by (simp add: jobsEvolve_def)

lemma jobsEvolve_trans: "jobsEvolve a b \<Longrightarrow> jobsEvolve b c \<Longrightarrow> jobsEvolve a c"
  unfolding jobsEvolve_def by (meson asyncEvolves_trans)

lemma resolve_ok: "async_resolve P m jobId c now = Inr s \<longleftrightarrow>
    port_get P (am_store m) jobId = Some s \<and> jr_ownerId (st_record s) = ca_ownerId c \<and>
    jr_credentialBinding (st_record s) = ca_credentialBinding c \<and>
    \<not> isJobExpired (st_record s) now"
  by (auto simp: async_resolve_def split: option.splits)

lemma update_cases:
  assumes "async_update P m jobId c now f = (r, m')"
  obtains "m' = m"
    | s nx v where "async_resolve P m jobId c now = Inr s" "f s = Inr (Some nx, v)"
        "m' = m\<lparr>am_store := port_set P (am_store m) nx\<rparr>"
proof (cases "bindE (async_resolve P m jobId c now) f")
  case (Inl e)
  with assms that(1) show ?thesis by (simp add: async_update_def)
next
  case (Inr ov)
  obtain o' v where ov: "ov = (o', v)" by fastforce
  show ?thesis
  proof (cases o')
    case None
    with assms Inr ov that(1) show ?thesis by (simp add: async_update_def)
  next
    case (Some nx)
    from Inr obtain s where "async_resolve P m jobId c now = Inr s" "f s = Inr (Some nx, v)"
      by (auto simp: res_simps ov Some)
    with assms Inr ov Some that(2) show ?thesis by (simp add: async_update_def)
  qed
qed

lemma create_cases:
  assumes "async_create P opts parseUrl uuid i now m = (r, m')"
  obtains "m' = m"
    | st key where "int (port_size P (am_store m)) < ao_maxJobs opts"
        "async_newState opts uuid key i now = Inr st"
        "m' = m\<lparr>am_store := port_set P (am_store m) st\<rparr>"
proof (cases "async_createGuards parseUrl i")
  case (Inl e)
  with assms that(1) show ?thesis by (simp add: async_create_def)
next
  case g: (Inr u)
  show ?thesis
  proof (cases "async_key i")
    case (Inl e)
    with assms g that(1) show ?thesis by (simp add: async_create_def)
  next
    case k: (Inr key)
    show ?thesis
    proof (cases "Option.bind key (port_getByIdempotencyKey P (am_store m))")
      case None
      show ?thesis
        using assms g k None that
        by (cases "async_newState opts uuid key i now")
          (simp_all add: async_create_def split: if_splits)
    next
      case (Some ex)
      with assms g k that(1) show ?thesis by (simp add: async_create_def)
    qed
  qed
qed

lemma update_step:
  assumes ok: "managerOk opts m" and f: "goodUpdate f"
    and upd: "async_update P m jobId c now f = (r, m')"
  shows "managerOk opts m' \<and> jobsEvolve m m'"
proof -
  from upd consider "m' = m"
    | s nx v where "async_resolve P m jobId c now = Inr s" "f s = Inr (Some nx, v)"
        "m' = m\<lparr>am_store := port_set P (am_store m) nx\<rparr>"
    by (rule update_cases)
  then show ?thesis
  proof cases
    case 1
    with ok show ?thesis by simp
  next
    case 2
    from 2(1) have s: "port_get P (am_store m) jobId = Some s" by (simp add: resolve_ok)
    with ok have i: "inv (am_store m)" "asyncJobWf s" "asyncId s = jobId"
      by (auto simp: managerOk_def dest: get_id)
    with f 2(2) have n: "asyncJobWf nx" "asyncEvolves s nx" by (auto simp: goodUpdate_def)
    then have id: "asyncId nx = jobId" using i(3) by (simp add: asyncEvolves_def)
    have "port_size P (am_store m') = port_size P (am_store m)"
      using s i(1) id by (simp add: 2(3) size_set_old)
    with ok s i n id show ?thesis
      by (auto simp: managerOk_def jobsEvolve_def 2(3) get_set inv_set)
  qed
qed

lemma cancel_steps:
  "async_cancelCallerWait P m jobId c now = (r, m') \<Longrightarrow> managerOk opts m \<Longrightarrow>
    managerOk opts m' \<and> jobsEvolve m m'"
  "async_cancelGroundlanePolling P m jobId c now = (r, m') \<Longrightarrow> managerOk opts m \<Longrightarrow>
    managerOk opts m' \<and> jobsEvolve m m'"
  "async_requestUpstreamCancel P opts m jobId c now = (r'', m') \<Longrightarrow> managerOk opts m \<Longrightarrow>
    managerOk opts m' \<and> jobsEvolve m m'"
  unfolding async_cancelCallerWait_def async_cancelGroundlanePolling_def
    async_requestUpstreamCancel_def
  by (rule update_step [OF _ good_cancelCallerWait], assumption+)
    (rule update_step [OF _ good_cancelGroundlane], assumption+,
     rule update_step [OF _ good_requestUpstreamCancel], assumption+)

lemma verifiedCancel_step:
  assumes vc: "async_verifiedCancel P opts m client jobId c kind now = (r, m')"
    and ok: "managerOk opts m"
  shows "managerOk opts m' \<and> jobsEvolve m m'"
proof (cases "async_assertClientOperation m client ''cancel''")
  case (Inl e)
  with vc ok show ?thesis by (simp add: async_verifiedCancel_def)
next
  case (Inr u)
  note vc' = vc [unfolded async_verifiedCancel_def Inr sum.case]
  show ?thesis
  proof (cases kind)
    case CancelCaller
    with vc' ok show ?thesis by (simp add: cancel_steps(1))
  next
    case CancelGroundlane
    with vc' ok show ?thesis by (simp add: cancel_steps(2))
  next
    case CancelUpstream
    obtain q m2 where q: "async_requestUpstreamCancel P opts m jobId c now = (q, m2)" by fastforce
    with vc' CancelUpstream have "m' = m2" by (cases q) auto
    with cancel_steps(3) [OF q ok] show ?thesis by simp
  qed
qed

lemma create_step:
  assumes ok: "managerOk opts m"
    and fresh: "port_get P (am_store m) (ao_jobIdPrefix opts @ uuid) = None"
    and cr: "async_create P opts parseUrl uuid i now m = (r, m')"
  shows "managerOk opts m' \<and> jobsEvolve m m'"
proof -
  from cr consider "m' = m"
    | st key where "int (port_size P (am_store m)) < ao_maxJobs opts"
        "async_newState opts uuid key i now = Inr st"
        "m' = m\<lparr>am_store := port_set P (am_store m) st\<rparr>"
    by (rule create_cases)
  then show ?thesis
  proof cases
    case 1
    with ok show ?thesis by simp
  next
    case 2
    note st = async_newState_ok [OF 2(2)]
    from ok have i: "inv (am_store m)" by (simp add: managerOk_def)
    from i fresh st(1) have "port_size P (am_store m') = Suc (port_size P (am_store m))"
      by (simp add: 2(3) size_set)
    with ok 2(1) i st(1,2) fresh show ?thesis
      by (auto simp: managerOk_def jobsEvolve_def 2(3) get_set inv_set)
  qed
qed

lemma step_ok:
  assumes "async_step P opts parseUrl m m'" "managerOk opts m"
  shows "managerOk opts m' \<and> jobsEvolve m m'"
  using assms
proof (induction rule: async_step.induct)
  case (create prov uuid i now m r1 m')
  with create_step [of "opts\<lparr>ao_provider := prov\<rparr>" m uuid parseUrl i now r1 m'] show ?case by simp
next
  case (verifiedCreate prov uuid client i now m r1 m')
  with create_step [of "opts\<lparr>ao_provider := prov\<rparr>" m uuid parseUrl i now r1 m'] show ?case
    by (cases "async_assertClientOperation m client ''create''") (auto simp: async_verifiedCreate_def)
next
  case (markRunning m jobId c now r2 m')
  then show ?case using update_step [OF _ good_markRunning] by (simp add: async_markRunning_def)
next
  case (markInputRequired m jobId c v now r2 m')
  then show ?case
    using update_step [OF _ good_markInputRequired] by (simp add: async_markInputRequired_def)
next
  case (markCompleted m jobId c v b now r2 m')
  then show ?case using update_step [OF _ good_markCompleted] by (simp add: async_markCompleted_def)
next
  case (markFailed m jobId c err now r2 m')
  then show ?case using update_step [OF _ good_markFailed] by (simp add: async_markFailed_def)
next
  case (recordPaidCall m jobId c u now r3 m')
  then show ?case
    using update_step [OF _ good_recordPaidCall]
    by (simp add: async_recordPaidCall_def split: if_splits)
next
  case (recordArtifactWrite m jobId c v now r4 m')
  then show ?case
    using update_step [OF _ good_recordArtifactWrite] by (simp add: async_recordArtifactWrite_def)
next
  case (cancelCallerWait m jobId c now r2 m')
  then show ?case by (rule cancel_steps)
next
  case (cancelGroundlanePolling m jobId c now r2 m')
  then show ?case by (rule cancel_steps)
next
  case (requestUpstreamCancel prov m jobId c now r5 m')
  with cancel_steps(3) [where opts = "opts\<lparr>ao_provider := prov\<rparr>"] show ?case by simp
next
  case (verifiedCancel prov m client jobId c kind now r2 m')
  with verifiedCancel_step [where opts = "opts\<lparr>ao_provider := prov\<rparr>"] show ?case by simp
next
  case (cancelTask m jobId c ack now r2 m')
  then show ?case using update_step [OF _ good_cancelTask] by (simp add: async_cancelTask_def)
next
  case (attachProviderTask m jobId c pid now r6 m')
  then show ?case
    using update_step [OF _ good_attachProviderTask]
    by (simp add: async_attachProviderTask_def split: if_splits)
next
  case (recordClientEvidence m e r7 m')
  then have "am_store m' = am_store m"
    by (auto simp: async_recordClientEvidence_def split: sum.splits if_splits)
  with recordClientEvidence show ?case by (simp add: managerOk_def jobsEvolve_def)
qed

lemma run_ok:
  assumes "(async_step P opts parseUrl)\<^sup>*\<^sup>* m m'" "managerOk opts m"
  shows "managerOk opts m' \<and> jobsEvolve m m'"
  using assms
  by (induction rule: rtranclp_induct) (auto dest: step_ok intro: jobsEvolve_trans)

lemma start_ok: "managerOk opts \<lparr>am_store = empty, am_evidence = []\<rparr>"
  by (simp add: managerOk_def inv_empty get_empty size_empty)

end

section \<open>The in-memory store is lawful\<close>

interpretation async_mem: async_jobs InMemoryAsyncJobStore "memInv asyncId" memEmpty
  unfolding async_jobs_def InMemoryAsyncJobStore_def by (rule job_store_memPort)

end
