(* ===== verification/SanitizerFacts.thy ===== *)
theory SanitizerFacts
  imports AsyncContract
begin

text \<open>
  What \<open>sanitizeUpstreamError\<close> guarantees about bearer tokens: no later replacement, whitespace
  collapse, trim or cut brings one back once the first pass has removed it.
\<close>

section \<open>Bearer occurrences\<close>

definition bearerAt :: "string \<Rightarrow> bool" where
  "bearerAt t \<longleftrightarrow> (\<exists>x w y z. t = x @ w @ y # z \<and> length x = 6 \<and> toLowerCase x = ''bearer'' \<and>
     w \<noteq> [] \<and> (\<forall>c \<in> set w. isWs c) \<and> bearerChar y)"

definition noBearer :: "string \<Rightarrow> bool" where
  "noBearer s \<longleftrightarrow> (\<forall>a t. s = a @ t \<longrightarrow> \<not> bearerAt t)"

lemma bearerChar_not_ws: "bearerChar y \<Longrightarrow> \<not> isWs y"
  by (auto simp: bearerChar_def isWs_def isAlnum_def isDigit_def Let_def)

lemma matchBearer_iff: "matchBearer prev t \<noteq> None \<longleftrightarrow> bearerAt t"
proof
  assume "matchBearer prev t \<noteq> None"
  then have x: "toLowerCase (take 6 t) = ''bearer''"
    and w: "takeWhile isWs (drop 6 t) \<noteq> []"
    and k: "takeWhile bearerChar (dropWhile isWs (drop 6 t)) \<noteq> []"
    by (auto simp: matchBearer_def startsCi_def spanLen_def Let_def dropWhile_eq_drop
        eval_nat_numeral split: if_splits)
  from k obtain y z where y: "dropWhile isWs (drop 6 t) = y # z" "bearerChar y"
    by (cases "dropWhile isWs (drop 6 t)") (auto split: if_splits)
  have "t = take 6 t @ takeWhile isWs (drop 6 t) @ y # z"
    using y(1) by (metis append_take_drop_id takeWhile_dropWhile_id)
  moreover have "length (take 6 t) = 6"
    using arg_cong [OF x, of length] by (simp add: toLowerCase_def)
  ultimately show "bearerAt t"
    unfolding bearerAt_def using x w y(2) set_takeWhileD by metis
next
  assume "bearerAt t"
  then obtain x w y z where t: "t = x @ w @ y # z" "length x = 6" "toLowerCase x = ''bearer''"
    "w \<noteq> []" "\<forall>c \<in> set w. isWs c" "bearerChar y"
    by (auto simp: bearerAt_def)
  then have "takeWhile isWs (w @ y # z) = w"
    by (simp add: bearerChar_not_ws)
  with t show "matchBearer prev t \<noteq> None"
    by (simp add: matchBearer_def startsCi_def spanLen_def Let_def)
qed

lemma matchBearer_pos: "matchBearer prev t \<noteq> Some 0"
  by (simp add: matchBearer_def Let_def)

lemma bearerAt_append: "bearerAt t \<Longrightarrow> bearerAt (t @ u)"
  unfolding bearerAt_def by (metis append.assoc append_Cons)

lemma noBearer_append: "noBearer (a @ b) \<Longrightarrow> noBearer a \<and> noBearer b"
  unfolding noBearer_def using bearerAt_append by (metis append.assoc)

lemma noBearer_code: "noBearer s \<longleftrightarrow> (\<forall>t \<in> set (suffixes s). matchBearer None t = None)"
proof -
  have m: "bearerAt t \<longleftrightarrow> matchBearer None t \<noteq> None" for t by (simp only: matchBearer_iff)
  have "t \<in> set (suffixes s) \<longleftrightarrow> (\<exists>a. s = a @ t)" for t by (auto simp: suffix_def)
  then show ?thesis unfolding noBearer_def m by metis
qed

lemma noBearer_Cons: "noBearer (c # s) \<longleftrightarrow> \<not> bearerAt (c # s) \<and> noBearer s"
  unfolding noBearer_def by (auto simp: Cons_eq_append_conv)

lemma bearerAt_hd: "bearerAt (c # s) \<Longrightarrow> toLowerChar c = CHR ''b''"
  by (auto simp: bearerAt_def toLowerCase_def Cons_eq_append_conv)

lemma bearerAt_prefix:
  assumes "bearerAt (a @ b)" "b = [] \<or> hd b = CHR ''[''"
  shows "bearerAt a"
proof -
  from assms(1) obtain x w y z where t: "a @ b = x @ w @ y # z" "length x = 6"
      "toLowerCase x = ''bearer''" "w \<noteq> []" "\<forall>c \<in> set w. isWs c" "bearerChar y"
    by (auto simp: bearerAt_def)
  let ?m = "x @ w @ [y]"
  have lb: "c \<noteq> CHR ''[''" if "c \<in> set ?m" for c
  proof
    assume "c = CHR ''[''"
    moreover have "CHR ''['' \<notin> set x"
    proof
      assume "CHR ''['' \<in> set x"
      then have "toLowerChar (CHR ''['') \<in> set (toLowerCase x)" by (auto simp: toLowerCase_def)
      with t(3) show False by (simp add: toLowerChar_def)
    qed
    moreover have "\<not> isWs (CHR ''['')" by (simp add: isWs_def)
    moreover have "\<not> bearerChar (CHR ''['')"
      by (simp add: bearerChar_def isAlnum_def isDigit_def)
    ultimately show False using that t(5,6) by auto
  qed
  have "length ?m \<le> length a"
  proof (rule ccontr)
    assume neg: "\<not> length ?m \<le> length a"
    have eq: "a @ b = ?m @ z" using t(1) by simp
    with neg have ne: "b \<noteq> []" by (metis append_Nil2 length_append nat_le_linear le_add1)
    have "b = drop (length a) (?m @ z)" by (metis eq append_eq_conv_conj)
    then have "hd b = ?m ! length a"
      using neg by (metis drop_append hd_append2 hd_drop_conv_nth not_le drop_eq_Nil linorder_not_le)
    then show False using lb [of "hd b"] assms(2) ne neg by (metis not_le nth_mem)
  qed
  moreover have "a @ b = ?m @ z" using t(1) by simp
  ultimately obtain z' where "a = ?m @ z'" by (metis append_eq_append_conv_if append_take_drop_id)
  then have "a = x @ w @ y # z'" by simp
  with t(2-6) show ?thesis unfolding bearerAt_def by blast
qed

section \<open>The passes\<close>

lemma replace_split:
  obtains a b b' where "s = a @ b" "replaceAllMatches p prev s = a @ b'" "b' = [] \<or> hd b' = CHR ''[''"
proof -
  have "\<exists>a b b'. s = a @ b \<and> replaceAllMatches p prev s = a @ b' \<and> (b' = [] \<or> hd b' = CHR ''['')"
  proof (induction p prev s rule: replaceAllMatches.induct)
    case (1 p prev)
    then show ?case by simp
  next
    case (2 p prev c cs)
    show ?case
    proof (cases "\<exists>n. p prev (c # cs) = Some (Suc n)")
      case True
      then obtain n where "p prev (c # cs) = Some (Suc n)" by blast
      then have "c # cs = [] @ c # cs \<and>
          replaceAllMatches p prev (c # cs) = [] @ replaceAllMatches p prev (c # cs) \<and>
          hd (replaceAllMatches p prev (c # cs)) = CHR ''[''" by simp
      then show ?thesis by blast
    next
      case False
      then have r: "replaceAllMatches p prev (c # cs) = c # replaceAllMatches p (Some c) cs"
        by (auto split: option.splits nat.splits)
      from False have "p prev (c # cs) = None \<or> p prev (c # cs) = Some 0"
        by (metis not0_implies_Suc option.exhaust)
      then obtain a b b' where "cs = a @ b"
          "replaceAllMatches p (Some c) cs = a @ b'" "b' = [] \<or> hd b' = CHR ''[''"
        using "2.IH"(1,2) by blast
      then have "c # cs = (c # a) @ b \<and> replaceAllMatches p prev (c # cs) = (c # a) @ b' \<and>
          (b' = [] \<or> hd b' = CHR ''['')" unfolding r by simp
      then show ?thesis by blast
    qed
  qed
  then show ?thesis using that by blast
qed

lemma noBearer_redacted: "noBearer s \<Longrightarrow> noBearer (''[redacted]'' @ s)"
proof -
  have "\<not> bearerAt (c # t)" if "c \<in> set ''[redacted]''" for c t
  proof
    assume "bearerAt (c # t)"
    then have "toLowerChar c = CHR ''b''" by (rule bearerAt_hd)
    moreover have "\<forall>c \<in> set ''[redacted]''. toLowerChar c \<noteq> CHR ''b''" by code_simp
    ultimately show False using that by blast
  qed
  moreover assume "noBearer s"
  ultimately show ?thesis by (simp add: noBearer_Cons)
qed

lemma noBearer_replace:
  assumes "\<And>prev a t. s = a @ t \<Longrightarrow> p prev t = None \<or> p prev t = Some 0 \<Longrightarrow> \<not> bearerAt t"
  shows "noBearer (replaceAllMatches p prev s)"
  using assms
proof (induction p prev s rule: replaceAllMatches.induct)
  case (1 p prev)
  then show ?case by (simp add: noBearer_def bearerAt_def)
next
  case (2 p prev c cs)
  have tail: "\<not> bearerAt t" if "cs = a @ t" "p pr t = None \<or> p pr t = Some 0" for pr a t
    using "2.prems" [of "c # a" t pr] that by simp
  show ?case
  proof (cases "\<exists>n. p prev (c # cs) = Some (Suc n)")
    case True
    then obtain n where n: "p prev (c # cs) = Some (Suc n)" by blast
    have "noBearer (replaceAllMatches p (Some (last (take (Suc n) (c # cs)))) (drop n cs))"
      using "2.IH"(3) [OF n] tail by (metis append.assoc append_take_drop_id)
    then show ?thesis by (simp add: n noBearer_redacted del: append.simps)
  next
    case False
    then have r: "replaceAllMatches p prev (c # cs) = c # replaceAllMatches p (Some c) cs"
      by (auto split: option.splits nat.splits)
    have z: "p prev (c # cs) = None \<or> p prev (c # cs) = Some 0"
      using False by (metis not0_implies_Suc option.exhaust)
    then have ih: "noBearer (replaceAllMatches p (Some c) cs)"
      using "2.IH"(1,2) tail by blast
    obtain a b b' where s: "cs = a @ b" "replaceAllMatches p (Some c) cs = a @ b'"
        "b' = [] \<or> hd b' = CHR ''[''"
      by (rule replace_split)
    have "\<not> bearerAt (c # replaceAllMatches p (Some c) cs)"
    proof
      assume "bearerAt (c # replaceAllMatches p (Some c) cs)"
      then have "bearerAt ((c # a) @ b')" unfolding s(2) by simp
      then have "bearerAt (c # a)" using s(3) by (rule bearerAt_prefix)
      then have "bearerAt (c # cs)" using bearerAt_append [of "c # a" b] by (simp add: s(1))
      with "2.prems" [of "[]" "c # cs" prev] z show False by simp
    qed
    with ih show ?thesis unfolding r by (simp add: noBearer_Cons)
  qed
qed

lemma noBearer_replace_bearer: "noBearer (replaceAllMatches matchBearer prev s)"
  by (rule noBearer_replace) (metis matchBearer_iff matchBearer_pos)

lemma noBearer_replace_other: "noBearer s \<Longrightarrow> noBearer (replaceAllMatches p prev s)"
  by (rule noBearer_replace) (simp add: noBearer_def)

lemma collapse_nonws:
  "collapseWs s = x @ r \<Longrightarrow> \<forall>c \<in> set x. \<not> isWs c \<Longrightarrow> \<not> (s \<noteq> [] \<and> isWs (hd s)) \<or> x = [] \<Longrightarrow>
   \<exists>s'. s = x @ s' \<and> collapseWs s' = r"
proof (induction x arbitrary: s)
  case (Cons c x)
  then obtain d ds where s: "s = d # ds" "\<not> isWs d" by (cases s) auto
  with Cons.prems have c: "c = d" "collapseWs ds = x @ r" by auto
  have "\<not> (ds \<noteq> [] \<and> isWs (hd ds)) \<or> x = []"
  proof (cases "x = []")
    case False
    then show ?thesis
    proof (cases ds)
      case (Cons e es)
      show ?thesis
      proof (rule ccontr)
        assume "\<not> ?thesis"
        then have "isWs e" by (simp add: Cons)
        then have "hd (collapseWs (e # es)) = CHR '' ''"
        proof (induction es arbitrary: e)
          case (Cons e' es)
          then show ?case by auto
        qed simp
        with c(2) Cons False Cons.prems(2) show False
          by (cases x) (auto simp: isWs_def)
      qed
    qed simp
  qed simp
  with Cons.IH [OF c(2)] Cons.prems(2) obtain s' where "ds = x @ s'" "collapseWs s' = r" by auto
  with s(1) c(1) show ?case by auto
qed simp

lemma collapse_ws:
  "collapseWs s = w @ y # z \<Longrightarrow> w \<noteq> [] \<Longrightarrow> \<forall>c \<in> set w. isWs c \<Longrightarrow> \<not> isWs y \<Longrightarrow>
   \<exists>w' z'. s = w' @ y # z' \<and> w' \<noteq> [] \<and> (\<forall>c \<in> set w'. isWs c)"
proof (induction s arbitrary: w rule: collapseWs.induct)
  case (2 c cs)
  then obtain d w0 where w: "w = d # w0" "isWs d" by (cases w) auto
  have wc: "isWs c" using "2.prems"(1) w by (auto split: if_splits)
  show ?case
  proof (cases cs)
    case Nil
    with "2.prems"(1) wc w show ?thesis by (auto simp: Cons_eq_append_conv)
  next
    case (Cons e es)
    show ?thesis
    proof (cases "isWs e")
      case True
      with "2.prems" wc Cons "2.IH"(1) [OF wc Cons True] obtain w' z'
        where "cs = w' @ y # z'" "\<forall>c \<in> set w'. isWs c" by auto
      with wc show ?thesis by (intro exI [of _ "c # w'"] exI [of _ z']) simp
    next
      case False
      with "2.prems"(1) wc Cons w have r: "e # collapseWs es = w0 @ y # z" by auto
      with "2.prems"(3) w False have "w0 = []" by (cases w0) auto
      with r have "e = y" by simp
      with Cons wc show ?thesis by (intro exI [of _ "[c]"] exI [of _ es]) simp
    qed
  qed
qed simp

lemma noBearer_collapse: "noBearer s \<Longrightarrow> noBearer (collapseWs s)"
proof (induction s rule: collapseWs.induct)
  case (2 c cs)
  have cs: "noBearer cs" and head: "\<not> bearerAt (c # cs)" using "2.prems" by (auto simp: noBearer_Cons)
  have sp: "\<not> bearerAt (CHR '' '' # t)" for t
  proof
    assume "bearerAt (CHR '' '' # t)"
    then have "toLowerChar (CHR '' '') = CHR ''b''" by (rule bearerAt_hd)
    then show False by code_simp
  qed
  show ?case
  proof (cases "isWs c")
    case True
    show ?thesis
    proof (cases cs)
      case Nil
      with True sp show ?thesis by (simp add: noBearer_Cons) (simp add: noBearer_def bearerAt_def)
    next
      case (Cons e es)
      show ?thesis
      proof (cases "isWs e")
        case e: True
        with "2.IH"(1) [OF True Cons e cs] True Cons show ?thesis by simp
      next
        case e: False
        with "2.IH"(2) [OF True Cons e cs] True Cons sp show ?thesis by (simp add: noBearer_Cons)
      qed
    qed
  next
    case False
    have "\<not> bearerAt (c # collapseWs cs)"
    proof
      assume "bearerAt (c # collapseWs cs)"
      then obtain x w y z where t: "c # collapseWs cs = x @ w @ y # z" "length x = 6"
        "toLowerCase x = ''bearer''" "w \<noteq> []" "\<forall>c \<in> set w. isWs c" "bearerChar y"
        by (auto simp: bearerAt_def)
      have nws: "\<forall>c \<in> set x. \<not> isWs c"
      proof (rule ccontr)
        assume "\<not> ?thesis"
        then obtain d where "d \<in> set x" "isWs d" by blast
        then have "toLowerChar d \<in> set ''bearer''" "isWs d"
          using t(3) by (auto simp: toLowerCase_def dest: arg_cong [of _ _ set])
        then show False by (auto simp: isWs_def toLowerChar_def Let_def split: if_splits)
      qed
      from t(1) have "collapseWs (c # cs) = x @ w @ y # z" using False by simp
      from collapse_nonws [OF this nws] False obtain s' where s': "c # cs = x @ s'"
        "collapseWs s' = w @ y # z" by auto
      from collapse_ws [OF s'(2) t(4,5) bearerChar_not_ws [OF t(6)]] obtain w' z'
        where "s' = w' @ y # z'" "w' \<noteq> []" "\<forall>c \<in> set w'. isWs c" by blast
      with s'(1) t(2,3,6) have "bearerAt (c # cs)" unfolding bearerAt_def by auto
      with head show False ..
    qed
    with "2.IH" cs False show ?thesis by (auto simp: noBearer_Cons)
  qed
qed simp

lemma noBearer_dropWhile: "noBearer s \<Longrightarrow> noBearer (dropWhile p s)"
  using noBearer_append [of "takeWhile p s" "dropWhile p s"] by simp

lemma noBearer_trim: "noBearer s \<Longrightarrow> noBearer (trim s)"
proof -
  assume "noBearer s"
  then have d: "noBearer (dropWhile isWs s)" by (rule noBearer_dropWhile)
  let ?s = "dropWhile isWs s"
  have "?s = rev (dropWhile isWs (rev ?s)) @ rev (takeWhile isWs (rev ?s))"
    by (metis rev_append rev_rev_ident takeWhile_dropWhile_id)
  with d show ?thesis unfolding trim_def using noBearer_append by metis
qed

lemma noBearer_take: "noBearer s \<Longrightarrow> noBearer (take n s)"
  using noBearer_append [of "take n s" "drop n s"] by simp

lemma sanitize_noBearer: "noBearer (sanitizeUpstreamError e)"
proof -
  let ?line = "trim (takeWhile (\<lambda>c. c \<noteq> CHR 0x0A) (thrownMessage e))"
  have "noBearer (fold (\<lambda>p s. replaceAllMatches p None s) SECRET_REDACTIONS ?line)"
    by (simp add: SECRET_REDACTIONS_def noBearer_replace_other noBearer_replace_bearer)
  then have "noBearer (trim (collapseWs
      (fold (\<lambda>p s. replaceAllMatches p None s) SECRET_REDACTIONS ?line)))"
    by (intro noBearer_trim noBearer_collapse)
  moreover have "noBearer ''The upstream operation failed''"
    unfolding noBearer_code by code_simp
  ultimately show ?thesis
    unfolding sanitizeUpstreamError_def Let_def by (simp add: noBearer_take)
qed

end
