(* ===== verification/AsyncProperties.thy ===== *)
theory AsyncProperties
  imports AsyncInvariants SanitizerFacts
begin

text \<open>
  The properties of \<open>AsyncJobManager\<close> on its default in-memory store. The example run below
  (create, fail, record a paid call) is what the witnesses use.
\<close>

section \<open>Runs of the manager\<close>

abbreviation "asyncGet m k \<equiv> port_get InMemoryAsyncJobStore (am_store m) k"

definition asyncStart :: "InternalAsyncJobState mem_store AsyncJobManager" where
  "asyncStart = \<lparr>am_store = memEmpty, am_evidence = []\<rparr>"

definition asyncReachable :: "AsyncJobManagerOptions \<Rightarrow> url_parser \<Rightarrow>
    InternalAsyncJobState mem_store AsyncJobManager \<Rightarrow> bool" where
  "asyncReachable opts parseUrl m \<longleftrightarrow>
     (async_step InMemoryAsyncJobStore opts parseUrl)\<^sup>*\<^sup>* asyncStart m"

lemma asyncReachable_ok: "asyncReachable opts parseUrl m \<Longrightarrow> async_mem.managerOk opts m"
  unfolding asyncReachable_def asyncStart_def
  using async_mem.run_ok async_mem.start_ok by blast

lemma asyncReachable_evolves:
  assumes "asyncReachable opts parseUrl m" "asyncGet m k = Some s"
    "(async_step InMemoryAsyncJobStore opts parseUrl)\<^sup>*\<^sup>* m m'"
  obtains s' where "asyncGet m' k = Some s'" "asyncEvolves s s'"
  using async_mem.run_ok [OF assms(3) asyncReachable_ok [OF assms(1)]] assms(2)
  unfolding async_mem.jobsEvolve_def by blast

lemma asyncReachable_wf: "asyncReachable opts parseUrl m \<Longrightarrow> asyncGet m k = Some s \<Longrightarrow> asyncJobWf s"
  using asyncReachable_ok async_mem.managerOk_def by blast

section \<open>The example run\<close>

definition demoParser :: url_parser where
  "demoParser s = (if prefix ''https://'' s
     then Some \<lparr>url_protocol = ''https:'', url_username = '''', url_password = '''',
                url_hostname = drop 8 s, url_href = s\<rparr>
     else None)"

definition demoOptions :: AsyncJobManagerOptions where
  "demoOptions = \<lparr>ao_provider = None, ao_maxJobs = 2, ao_jobIdPrefix = ASYNC_JOB_ID_PREFIX\<rparr>"

definition demoInput :: CreateAsyncJobInput where
  "demoInput = \<lparr>ci_ownerId = ''o'', ci_credentialBinding = ''c'', ci_providerId = ''p'',
     ci_ttlSeconds = jint 60, ci_idempotencyKey = Some ''k'', ci_sourceUrl = None,
     ci_operationInput = Undefined\<rparr>"

definition demoCaller :: JobCaller where
  "demoCaller = \<lparr>ca_ownerId = ''o'', ca_credentialBinding = ''c''\<rparr>"

definition demoUnits :: BillingUnits where
  "demoUnits = \<lparr>bu_inputUnits = jint 1, bu_outputUnits = jint 2\<rparr>"

definition demo1 :: "InternalAsyncJobState mem_store AsyncJobManager" where
  "demo1 = snd (async_create InMemoryAsyncJobStore demoOptions demoParser ''1'' demoInput 0 asyncStart)"

definition demo2 :: "InternalAsyncJobState mem_store AsyncJobManager" where
  "demo2 = snd (async_markFailed InMemoryAsyncJobStore demo1 ''ajob-1'' demoCaller ThrownOther 10)"

definition demo3 :: "InternalAsyncJobState mem_store AsyncJobManager" where
  "demo3 = snd (async_recordPaidCall InMemoryAsyncJobStore demo2 ''ajob-1'' demoCaller demoUnits 20)"

lemma demo_steps:
  "async_step InMemoryAsyncJobStore demoOptions demoParser asyncStart demo1"
  "async_step InMemoryAsyncJobStore demoOptions demoParser demo1 demo2"
  "async_step InMemoryAsyncJobStore demoOptions demoParser demo2 demo3"
proof -
  show "async_step InMemoryAsyncJobStore demoOptions demoParser asyncStart demo1"
    by (rule async_step.create [where prov = None and uuid = "''1''" and i = demoInput and now = 0
      and ?r1.0 = "fst (async_create InMemoryAsyncJobStore demoOptions demoParser ''1'' demoInput 0 asyncStart)"])
      (simp_all add: demo1_def asyncStart_def InMemoryAsyncJobStore_def mem_defs demoOptions_def)
  show "async_step InMemoryAsyncJobStore demoOptions demoParser demo1 demo2"
    by (rule async_step.markFailed [of _ _ "''ajob-1''" demoCaller ThrownOther 10 "fst
      (async_markFailed InMemoryAsyncJobStore demo1 ''ajob-1'' demoCaller ThrownOther 10)"])
      (simp add: demo2_def)
  show "async_step InMemoryAsyncJobStore demoOptions demoParser demo2 demo3"
    by (rule async_step.recordPaidCall [of _ _ "''ajob-1''" demoCaller demoUnits 20 "fst
      (async_recordPaidCall InMemoryAsyncJobStore demo2 ''ajob-1'' demoCaller demoUnits 20)"])
      (simp add: demo3_def)
qed

lemma demo_reachable:
  "asyncReachable demoOptions demoParser demo1" "asyncReachable demoOptions demoParser demo2"
  using demo_steps unfolding asyncReachable_def
  by (auto intro: rtranclp.rtrancl_into_rtrancl)

lemma demo_job2: "map_option (\<lambda>s. jr_status (st_record s)) (asyncGet demo2 ''ajob-1'') = Some AsyncFailed"
  by code_simp


lemma demo_job1: "map_option (\<lambda>s. jr_ownerId (st_record s)) (asyncGet demo1 ''ajob-1'') = Some ''o''"
  by code_simp

section \<open>Status, binding and expiry\<close>

text \<open>C22. Terminal statuses are final: once a reachable manager holds a job in a terminal status,
  every later sequence of calls leaves the job in that status.\<close>

theorem async_terminal_forever:
  assumes "asyncReachable opts parseUrl m" and "asyncGet m k = Some s"
    and "isTerminalAsyncStatus (jr_status (st_record s))"
    and "(async_step InMemoryAsyncJobStore opts parseUrl)\<^sup>*\<^sup>* m m'"
  shows "\<exists>s'. asyncGet m' k = Some s' \<and> jr_status (st_record s') = jr_status (st_record s)"
proof -
  obtain s' where s': "asyncGet m' k = Some s'" "asyncEvolves s s'"
    using assms(1,2,4) by (rule asyncReachable_evolves)
  then have "asyncStatusStep\<^sup>*\<^sup>* (jr_status (st_record s)) (jr_status (st_record s'))"
    by (simp add: asyncEvolves_def)
  with assms(3) s'(1) show ?thesis by (auto dest: async_status.run_terminal)
qed

theorem async_terminal_forever_witness:
  "\<exists>s'. asyncGet demo3 ''ajob-1'' = Some s' \<and> jr_status (st_record s') = AsyncFailed"
proof -
  from demo_job2 obtain s where s: "asyncGet demo2 ''ajob-1'' = Some s"
    "jr_status (st_record s) = AsyncFailed" by auto
  have "(async_step InMemoryAsyncJobStore demoOptions demoParser)\<^sup>*\<^sup>* demo2 demo3"
    using demo_steps(3) by simp
  from async_terminal_forever [OF demo_reachable(2) s(1) _ this] s(2)
  show ?thesis by (simp add: isTerminalAsyncStatus_def)
qed

text \<open>C23. No sequence of calls removes a job, changes its owner, its credential binding or its
  billing provider, or moves its expiry.\<close>

theorem async_identity_and_expiry_fixed:
  assumes "asyncReachable opts parseUrl m" and "asyncGet m k = Some s"
    and "(async_step InMemoryAsyncJobStore opts parseUrl)\<^sup>*\<^sup>* m m'"
  shows "\<exists>s'. asyncGet m' k = Some s' \<and> jr_jobId (st_record s') = k \<and>
    jr_ownerId (st_record s') = jr_ownerId (st_record s) \<and>
    jr_credentialBinding (st_record s') = jr_credentialBinding (st_record s) \<and>
    bp_providerId (jr_billingProvenance (st_record s')) =
      bp_providerId (jr_billingProvenance (st_record s)) \<and>
    jr_expiresAt (st_record s') = jr_expiresAt (st_record s) \<and> st_createdAt s' = st_createdAt s"
proof -
  obtain s' where s': "asyncGet m' k = Some s'" "asyncEvolves s s'"
    using assms by (rule asyncReachable_evolves)
  from asyncReachable_ok [OF assms(1)] assms(2) have "jr_jobId (st_record s) = k"
    using async_mem.get_id async_mem.managerOk_def by blast
  with s' show ?thesis by (auto simp: asyncEvolves_def)
qed

theorem async_identity_and_expiry_fixed_witness:
  "\<exists>s'. asyncGet demo3 ''ajob-1'' = Some s' \<and> jr_ownerId (st_record s') = ''o''"
proof -
  from demo_job1 obtain s where s: "asyncGet demo1 ''ajob-1'' = Some s"
    "jr_ownerId (st_record s) = ''o''" by auto
  have "(async_step InMemoryAsyncJobStore demoOptions demoParser)\<^sup>*\<^sup>* demo1 demo3"
    using demo_steps(2,3) by simp
  from async_identity_and_expiry_fixed [OF demo_reachable(1) s(1) this] s(2)
  show ?thesis by auto
qed

text \<open>The three cancel kinds stay separate in what callers see: the public view of a stored job
  reports an upstream cancellation exactly when the status is \<open>cancelled_by_upstream\<close> and the
  provider acknowledged it, and a caller or Groundlane cancel status carries its own flag.\<close>

theorem async_cancel_kinds:
  assumes "asyncReachable opts parseUrl m" and "asyncGet m k = Some s"
  shows "(pj_upstreamCancelled (toPublicAsyncJob s) \<longleftrightarrow>
       pj_status (toPublicAsyncJob s) = AsyncCancelledByUpstream) \<and>
     (pj_upstreamCancelled (toPublicAsyncJob s) \<longrightarrow>
       pj_upstreamCancelRequested (toPublicAsyncJob s) \<and> st_upstreamAcknowledgment s \<noteq> None) \<and>
     (pj_status (toPublicAsyncJob s) = AsyncCancelledByCaller \<longrightarrow>
       pj_callerCancelled (toPublicAsyncJob s)) \<and>
     (pj_status (toPublicAsyncJob s) = AsyncCancelledByGroundlane \<longrightarrow>
       pj_groundlanePollingCancelled (toPublicAsyncJob s))"
  using asyncReachable_wf [OF assms] by (simp add: asyncJobWf_def toPublicAsyncJob_def)

theorem async_cancel_kinds_witness:
  "\<exists>s. asyncGet demo2 ''ajob-1'' = Some s \<and> \<not> pj_upstreamCancelled (toPublicAsyncJob s)"
proof -
  from demo_job2 obtain s where s: "asyncGet demo2 ''ajob-1'' = Some s"
    "jr_status (st_record s) = AsyncFailed" by auto
  with async_cancel_kinds [OF demo_reachable(2) s(1)] show ?thesis
    by (simp add: toPublicAsyncJob_def)
qed

text \<open>The store never holds more jobs than \<open>maxJobs\<close>.\<close>

theorem async_capacity:
  assumes "asyncReachable opts parseUrl m" and "0 \<le> ao_maxJobs opts"
  shows "int (port_size InMemoryAsyncJobStore (am_store m)) \<le> ao_maxJobs opts"
  using asyncReachable_ok [OF assms(1)] assms(2) by (simp add: async_mem.managerOk_def)

theorem async_capacity_witness:
  "int (port_size InMemoryAsyncJobStore (am_store demo2)) \<le> 2"
  using async_capacity [OF demo_reachable(2)] by (simp add: demoOptions_def)

section \<open>Isolation\<close>

text \<open>A caller whose owner or credential binding is not the job's, and any caller after the
  expiry, is refused by every method that takes a job: reads return no data and mutations leave
  the manager as it was.\<close>

theorem async_foreign_caller_refused:
  assumes "asyncGet m k = Some s"
    and "jr_ownerId (st_record s) \<noteq> ca_ownerId c \<or>
         jr_credentialBinding (st_record s) \<noteq> ca_credentialBinding c \<or>
         isJobExpired (st_record s) now"
  shows "\<not> is_ok (async_poll InMemoryAsyncJobStore m k c now) \<and>
    \<not> is_ok (async_result InMemoryAsyncJobStore m k c now) \<and>
    \<not> is_ok (async_providerTaskId InMemoryAsyncJobStore m k c now) \<and>
    \<not> is_ok (async_operationInput InMemoryAsyncJobStore m k c now) \<and>
    (\<exists>e. async_markRunning InMemoryAsyncJobStore m k c now = (Inl e, m)) \<and>
    (\<exists>e. async_markInputRequired InMemoryAsyncJobStore m k c v now = (Inl e, m)) \<and>
    (\<exists>e. async_markCompleted InMemoryAsyncJobStore m k c v b now = (Inl e, m)) \<and>
    (\<exists>e. async_markFailed InMemoryAsyncJobStore m k c err now = (Inl e, m)) \<and>
    (\<exists>e. async_recordPaidCall InMemoryAsyncJobStore m k c u now = (Inl e, m)) \<and>
    (\<exists>e. async_recordArtifactWrite InMemoryAsyncJobStore m k c v now = (Inl e, m)) \<and>
    (\<exists>e. async_cancelCallerWait InMemoryAsyncJobStore m k c now = (Inl e, m)) \<and>
    (\<exists>e. async_cancelGroundlanePolling InMemoryAsyncJobStore m k c now = (Inl e, m)) \<and>
    (\<exists>e. async_requestUpstreamCancel InMemoryAsyncJobStore opts m k c now = (Inl e, m)) \<and>
    (\<exists>e. async_cancelTask InMemoryAsyncJobStore m k c ack now = (Inl e, m)) \<and>
    (\<exists>e. async_attachProviderTask InMemoryAsyncJobStore m k c pid now = (Inl e, m))"
proof -
  obtain e where r: "async_resolve InMemoryAsyncJobStore m k c now = Inl e"
    using assms by (cases "async_resolve InMemoryAsyncJobStore m k c now")
      (auto simp: async_mem.resolve_ok)
  show ?thesis
    by (simp add: r async_poll_def async_result_def async_providerTaskId_def
        async_operationInput_def update_method_defs async_update_def)
qed

theorem async_foreign_caller_refused_witness:
  "\<exists>e. async_cancelCallerWait InMemoryAsyncJobStore demo1 ''ajob-1''
     \<lparr>ca_ownerId = ''x'', ca_credentialBinding = ''c''\<rparr> 0 = (Inl e, demo1)"
proof -
  from demo_job1 obtain s where s: "asyncGet demo1 ''ajob-1'' = Some s"
    "jr_ownerId (st_record s) = ''o''" by auto
  with async_foreign_caller_refused [OF s(1),
    of "\<lparr>ca_ownerId = ''x'', ca_credentialBinding = ''c''\<rparr>" 0 Undefined None ThrownOther
      demoUnits demoOptions None "''p''"]
  show ?thesis by simp
qed

section \<open>Retries\<close>

text \<open>A paid call is billed once: after a call of \<open>recordPaidCall\<close> that recorded it, every later
  call for the same job that is admitted reports \<open>reused\<close> and changes nothing.\<close>

theorem async_paid_call_once:
  assumes "memInv asyncId (am_store m)"
    and "async_recordPaidCall InMemoryAsyncJobStore m k c u now = (Inr False, m1)"
    and "async_recordPaidCall InMemoryAsyncJobStore m1 k c u2 now2 = (Inr r, m2)"
  shows "r = True \<and> m2 = m1"
proof -
  from assms(2) obtain s t where s: "async_resolve InMemoryAsyncJobStore m k c now = Inr s"
    and m1: "m1 = m\<lparr>am_store := port_set InMemoryAsyncJobStore (am_store m) t\<rparr>"
    and t: "st_paidCallCompleted t" "asyncId t = asyncId s"
    by (auto simp: async_recordPaidCall_def async_update_def res_simps split: if_splits sum.splits option.splits)
  from s assms(1) have "asyncId s = k"
    by (auto simp: async_mem.resolve_ok dest: async_mem.get_id)
  then have g: "asyncGet m1 k = Some t" using assms(1) t by (simp add: m1 async_mem.get_set)
  from assms(3) t(1) show ?thesis
    by (auto simp: async_recordPaidCall_def async_update_def async_resolve_def g split: if_splits)
qed

theorem async_paid_call_once_witness:
  "fst (async_recordPaidCall InMemoryAsyncJobStore
      (snd (async_recordPaidCall InMemoryAsyncJobStore demo1 ''ajob-1'' demoCaller demoUnits 5))
      ''ajob-1'' demoCaller demoUnits 6) = Inr True"
proof -
  define p where "p = async_recordPaidCall InMemoryAsyncJobStore demo1 ''ajob-1'' demoCaller demoUnits 5"
  define q where "q = async_recordPaidCall InMemoryAsyncJobStore (snd p) ''ajob-1'' demoCaller demoUnits 6"
  have "fst p = Inr False" unfolding p_def by code_simp
  then have p': "async_recordPaidCall InMemoryAsyncJobStore demo1 ''ajob-1'' demoCaller demoUnits 5 =
      (Inr False, snd p)" unfolding p_def by (metis prod.collapse)
  have "is_ok (fst q)" unfolding q_def p_def by code_simp
  then obtain r where r: "fst q = Inr r" by (auto simp: is_ok_iff)
  then have q': "async_recordPaidCall InMemoryAsyncJobStore (snd p) ''ajob-1'' demoCaller demoUnits 6 =
      (Inr r, snd q)" unfolding q_def by (metis prod.collapse)
  have "memInv asyncId (am_store demo1)"
    using asyncReachable_ok [OF demo_reachable(1)] by (simp add: async_mem.managerOk_def)
  from async_paid_call_once [OF this p' q'] r have "fst q = Inr True" by simp
  then show ?thesis unfolding q_def p_def .
qed

text \<open>Creation is idempotent per scoped key: once a creation with an idempotency key stored a job,
  every later admissible creation whose owner and key concatenate to the same scoped key returns
  that job, flags it as reused and stores nothing. The statement puts no condition on the second
  caller's credential binding, on the time, or on how owner and key split: the replay checks
  none of them.\<close>

theorem async_create_replay:
  assumes "memInv asyncId (am_store m)"
    and "async_create InMemoryAsyncJobStore opts parseUrl uuid i now m = (Inr (job, False), m1)"
    and "ci_idempotencyKey i = Some k"
    and "async_createGuards parseUrl i2 = Inr ()"
    and "ci_idempotencyKey i2 = Some k2" "k2 \<noteq> ''''"
    and "ci_ownerId i2 @ '':'' @ k2 = ci_ownerId i @ '':'' @ k"
  shows "async_create InMemoryAsyncJobStore opts2 parseUrl uuid2 i2 now2 m1 = (Inr (job, True), m1)"
proof -
  from assms(2) obtain u key where g: "async_createGuards parseUrl i = Inr u"
    and k: "async_key i = Inr key"
    by (cases "async_createGuards parseUrl i"; cases "async_key i") (auto simp: async_create_def)
  have key: "key = Some (ci_ownerId i @ '':'' @ k)"
    using k assms(3) by (auto simp: async_key_def buildAsyncIdempotencyKey_def split: if_splits)
  from assms(2) g k obtain st where st: "async_newState opts uuid key i now = Inr st"
    and job: "job = toPublicAsyncJob st"
    and m1: "m1 = m\<lparr>am_store := port_set InMemoryAsyncJobStore (am_store m) st\<rparr>"
    by (cases "Option.bind key (port_getByIdempotencyKey InMemoryAsyncJobStore (am_store m))";
        cases "async_newState opts uuid key i now") (auto simp: async_create_def split: if_splits)
  have own: "ci_ownerId i2 \<noteq> ''''"
    using assms(4) by (auto simp: async_createGuards_def split: if_splits)
  have k2: "async_key i2 = Inr key"
    using own assms(5-7) by (simp add: async_key_def buildAsyncIdempotencyKey_def key)
  have "port_getByIdempotencyKey InMemoryAsyncJobStore (am_store m1) (ci_ownerId i @ '':'' @ k) = Some st"
    using async_mem.key_set_new [OF assms(1)] async_newState_ok(3) [OF st] by (simp add: m1 key)
  then show ?thesis by (simp add: async_create_def assms(4) k2 key job)
qed

definition demoInput2 :: CreateAsyncJobInput where
  "demoInput2 = demoInput\<lparr>ci_credentialBinding := ''stolen''\<rparr>"

theorem async_create_replay_witness:
  "\<exists>job. async_create InMemoryAsyncJobStore demoOptions demoParser ''9'' demoInput2 999999 demo1
     = (Inr (job, True), demo1) \<and> pj_ownerId job = ''o''"
proof -
  define p where "p = async_create InMemoryAsyncJobStore demoOptions demoParser ''1'' demoInput 0 asyncStart"
  have "map_sum (\<lambda>_. ()) (\<lambda>(j, r). (pj_ownerId j, r)) (fst p) = Inr (''o'', False)"
    unfolding p_def by code_simp
  then obtain job where j: "fst p = Inr (job, False)" "pj_ownerId job = ''o''"
    by (cases "fst p") auto
  then have p: "async_create InMemoryAsyncJobStore demoOptions demoParser ''1'' demoInput 0 asyncStart
      = (Inr (job, False), demo1)"
    unfolding p_def demo1_def by (metis prod.collapse)
  have inv: "memInv asyncId (am_store asyncStart)"
    by (simp add: asyncStart_def async_mem.inv_empty)
  have g: "async_createGuards demoParser demoInput2 = Inr ()" by code_simp
  from async_create_replay [OF inv p _ g, of "''k''" "''k''"] j(2) show ?thesis
    by (simp add: demoInput_def demoInput2_def)
qed

section \<open>Order of effects in create\<close>

text \<open>\<open>create\<close> starts the provider task before it knows that the expiry is representable: with
  a finite positive TTL whose expiry lies outside the JavaScript date range, an admissible new
  job ends in a \<open>RangeError\<close> and nothing is stored, although the provider's \<open>createTask\<close> has run
  (an error it throws instead is the one the caller sees).\<close>

theorem async_create_expiry_after_provider:
  assumes "async_createGuards parseUrl i = Inr ()" "ci_idempotencyKey i = None"
    and "int (port_size P (am_store m)) < ao_maxJobs opts"
    and "timeClip (jadd (jint now) (jscale 1000 (ci_ttlSeconds i))) = None"
    and "ao_provider opts = Some prov"
  shows "async_create P opts parseUrl uuid i now m =
    (case ap_createTask prov (ci_ownerId i) (ci_providerId i) of
       Inl e \<Rightarrow> (Inl e, m)
     | Inr _ \<Rightarrow> (Inl (RangeError ''Invalid time value''), m))"
  using assms
  by (simp add: async_create_def async_key_def async_newState_def Let_def toISOString_def
      split: sum.split)

theorem async_create_expiry_after_provider_witness:
  "async_create InMemoryAsyncJobStore (demoOptions\<lparr>ao_provider := Some
       \<lparr>ap_createTask = \<lambda>_ _. Inr ''task'', ap_cancelTask = \<lambda>_. Inr None\<rparr>\<rparr>) demoParser ''1''
     (demoInput\<lparr>ci_ttlSeconds := jint 10000000000000, ci_idempotencyKey := None\<rparr>) 0 asyncStart
   = (Inl (RangeError ''Invalid time value''), asyncStart)"
proof -
  let ?i = "demoInput\<lparr>ci_ttlSeconds := jint 10000000000000, ci_idempotencyKey := None\<rparr>"
  have g: "async_createGuards demoParser ?i = Inr ()"
    by (simp add: async_createGuards_def demoInput_def jle_def)
  have "timeClip (jadd (jint 0) (jscale 1000 (ci_ttlSeconds ?i))) = None"
    by (simp add: maxTime_def)
  from async_create_expiry_after_provider [OF g _ _ this, of InMemoryAsyncJobStore asyncStart
      "demoOptions\<lparr>ao_provider := Some
         \<lparr>ap_createTask = \<lambda>_ _. Inr ''task'', ap_cancelTask = \<lambda>_. Inr None\<rparr>\<rparr>"]
  show ?thesis
    by (simp add: demoOptions_def asyncStart_def InMemoryAsyncJobStore_def mem_defs)
qed

section \<open>The error sanitizer\<close>

text \<open>Whatever a failure's message holds, the sanitized text is never empty, is at most 500
  characters long, and contains no bearer token: no position where \<open>bearer\<close>, whitespace and a
  token character follow each other.\<close>

theorem sanitize_bounded_and_bearer_free:
  "sanitizeUpstreamError e \<noteq> '''' \<and>
   length (sanitizeUpstreamError e) \<le> MAX_SANITIZED_ERROR_CHARS \<and>
   set (suffixes (sanitizeUpstreamError e)) \<inter> {t. matchBearer None t \<noteq> None} = {}"
  using sanitize_bounds sanitize_noBearer noBearer_code by auto

text \<open>The same does not hold for the other secret shapes: the bearer pass can consume the key
  word of a later pattern, and the secret after it stays in the text.\<close>

theorem sanitize_leaks_after_bearer:
  "sanitizeUpstreamError (ThrownString ''bearer token: s3cr3t'') = ''[redacted]: s3cr3t'' \<and>
   sanitizeUpstreamError (ThrownString ''token: s3cr3t'') = ''[redacted]''"
  by code_simp

end
