(* ===== verification/CrawlJobs.thy ===== *)
theory CrawlJobs
  imports AsyncManager
begin

text \<open>
  \<^verbatim>\<open>src/core/crawl-jobs.ts\<close>: the durable crawl job manager. As for the async manager, a method
  takes the store port, its arguments and the manager, and returns the result or the exception
  with the manager it leaves. The upstream provider is a record of functions; what it throws is a
  value of type \<open>thrown\<close>.
\<close>

section \<open>Limits and status order\<close>

definition CRAWL_JOB_ID_PREFIX :: string where "CRAWL_JOB_ID_PREFIX = ''gl-crawl-''"
definition MAX_CRAWL_JOBS :: int where "MAX_CRAWL_JOBS = 1000"
definition MAX_CRAWL_PARTIALS :: nat where "MAX_CRAWL_PARTIALS = 1000"
definition MAX_CRAWL_PAGE_SIZE :: int where "MAX_CRAWL_PAGE_SIZE = 100"
definition DEFAULT_CRAWL_PAGE_SIZE :: int where "DEFAULT_CRAWL_PAGE_SIZE = 20"

definition CRAWL_TERMINAL_STATUSES :: "CrawlJobStatus list" where
  "CRAWL_TERMINAL_STATUSES = [CrawlCompleted, CrawlFailed, CrawlCancelledByCaller,
     CrawlCancelledByGroundlane, CrawlCancelledByUpstream]"

fun CRAWL_STATUS_ORDER :: "CrawlJobStatus \<Rightarrow> nat" where
  "CRAWL_STATUS_ORDER CrawlCreated = 0"
| "CRAWL_STATUS_ORDER CrawlCrawling = 1"
| "CRAWL_STATUS_ORDER CrawlCompleted = 2"
| "CRAWL_STATUS_ORDER CrawlFailed = 2"
| "CRAWL_STATUS_ORDER CrawlCancelledByCaller = 2"
| "CRAWL_STATUS_ORDER CrawlCancelledByGroundlane = 2"
| "CRAWL_STATUS_ORDER CrawlCancelledByUpstream = 2"

fun crawlStatusName :: "CrawlJobStatus \<Rightarrow> string" where
  "crawlStatusName CrawlCreated = ''created''"
| "crawlStatusName CrawlCrawling = ''crawling''"
| "crawlStatusName CrawlCompleted = ''completed''"
| "crawlStatusName CrawlFailed = ''failed''"
| "crawlStatusName CrawlCancelledByCaller = ''cancelled_by_caller''"
| "crawlStatusName CrawlCancelledByGroundlane = ''cancelled_by_groundlane''"
| "crawlStatusName CrawlCancelledByUpstream = ''cancelled_by_upstream''"

abbreviation crawlError :: "ErrorCode \<Rightarrow> string \<Rightarrow> exn" where
  "crawlError c m \<equiv> glError c ''crawl-jobs'' m"

definition validateCrawlStatusTransition :: "CrawlJobStatus \<Rightarrow> CrawlJobStatus \<Rightarrow> unit res" where
  "validateCrawlStatusTransition from to =
     (if from = to
      then Inl (crawlError INVALID_INPUT (''Status is already '' @ quoted (crawlStatusName from) @
        ''; no transition needed''))
      else if from \<in> set CRAWL_TERMINAL_STATUSES
      then Inl (crawlError INVALID_INPUT (''Cannot transition from terminal status '' @
        quoted (crawlStatusName from) @ '' to '' @ quoted (crawlStatusName to)))
      else if CRAWL_STATUS_ORDER to < CRAWL_STATUS_ORDER from
      then Inl (crawlError INVALID_INPUT (''Non-monotonic crawl status transition: '' @
        quoted (crawlStatusName from) @ '' -> '' @ quoted (crawlStatusName to)))
      else Inr ())"

section \<open>State\<close>

record CreateCrawlJobInput =
  cc_ownerId :: string
  cc_credentialBinding :: string
  cc_seedUrl :: string
  cc_budgets :: "jsnum CrawlBudgets"
  cc_ttlSeconds :: jsnum
  cc_providerId :: "string option"
  cc_idempotencyKey :: "string option"

record PublicCrawlJob =
  pc_groundlaneJobId :: string
  pc_ownerId :: string
  pc_status :: CrawlJobStatus
  pc_expiresAt :: iso
  pc_budgets :: "int CrawlBudgets"
  pc_createdAt :: iso
  pc_paginationCursor :: "string option"
  pc_partialResults :: "CrawlPartialResult list"
  pc_totalPages :: int
  pc_totalBytes :: int
  pc_totalOutputChars :: int
  pc_droppedUpstreamUrls :: nat
  pc_callerCancelled :: bool
  pc_groundlanePollingCancelled :: bool
  pc_upstreamCancelRequested :: bool
  pc_upstreamCancelled :: bool
  pc_billingProvenance :: BillingProvenance
  pc_sanitizedError :: "string option"

record UpstreamCrawlPage =
  up_url :: string
  up_contentChars :: jsnum
  up_fetchedAt :: string

record UpstreamCrawlPageBatch =
  ub_pages :: "UpstreamCrawlPage list"
  ub_nextCursor :: "string option"

record CrawlProviderPort =
  cpp_startCrawl :: "string \<Rightarrow> string res"
  cpp_fetchUpstreamPages :: "string \<Rightarrow> string option \<Rightarrow> thrown + UpstreamCrawlPageBatch"
  cpp_cancelUpstream :: "string \<Rightarrow> ProviderCancelAcknowledgment option res"

record InternalCrawlJobState =
  cs_groundlaneJobId :: string
  cs_ownerId :: string
  cs_credentialBinding :: string
  cs_providerId :: string
  cs_providerJobId :: string
  cs_status :: CrawlJobStatus
  cs_budgets :: "int CrawlBudgets"
  cs_createdAt :: iso
  cs_expiresAt :: iso
  cs_partials :: "CrawlPartialResult list"
  cs_providerCursor :: "string option"
  cs_callerCancelled :: bool
  cs_groundlanePollingCancelled :: bool
  cs_upstreamCancelRequested :: bool
  cs_upstreamAcknowledgment :: "ProviderCancelAcknowledgment option"
  cs_droppedUpstreamUrls :: nat
  cs_billedAt :: "iso option"
  cs_sanitizedError :: "string option"
  cs_idempotencyKey :: "string option"

definition InMemoryCrawlJobStore ::
  "(InternalCrawlJobState mem_store, InternalCrawlJobState) job_port" where
  "InMemoryCrawlJobStore = memPort cs_groundlaneJobId cs_idempotencyKey"

record CrawlJobManagerOptions =
  co_provider :: "CrawlProviderPort option"
  co_maxJobs :: int
  co_jobIdPrefix :: string

record 's CrawlJobManager =
  cm_store :: 's
  cm_nextId :: nat

section \<open>Views\<close>

definition pagesCursor :: "CrawlPartialResult list \<Rightarrow> string option" where
  "pagesCursor ps = (if ps = [] then None else Some (''groundlane:pages:'' @ showNat (length ps)))"

definition toDurableView :: "InternalCrawlJobState \<Rightarrow> DurableCrawlJob" where
  "toDurableView s =
     \<lparr>dc_groundlaneJobId = cs_groundlaneJobId s, dc_ownerId = cs_ownerId s,
      dc_expiresAt = cs_expiresAt s, dc_status = cs_status s, dc_budgets = cs_budgets s,
      dc_createdAt = cs_createdAt s, dc_paginationCursor = pagesCursor (cs_partials s),
      dc_partialResults = cs_partials s\<rparr>"

record CrawlTotals =
  ct_totalPages :: int
  ct_totalBytes :: int
  ct_totalOutputChars :: int

definition totalsOf :: "CrawlPartialResult list \<Rightarrow> CrawlTotals" where
  "totalsOf ps =
     (let (b, c) = foldl (\<lambda>(b, c) p. (b + cp_contentChars p, c + cp_contentChars p)) (0, 0) ps
      in \<lparr>ct_totalPages = int (length ps), ct_totalBytes = b, ct_totalOutputChars = c\<rparr>)"

definition toPublicCrawlJob :: "InternalCrawlJobState \<Rightarrow> PublicCrawlJob" where
  "toPublicCrawlJob s =
     (let t = totalsOf (cs_partials s) in
     \<lparr>pc_groundlaneJobId = cs_groundlaneJobId s, pc_ownerId = cs_ownerId s,
      pc_status = cs_status s, pc_expiresAt = cs_expiresAt s, pc_budgets = cs_budgets s,
      pc_createdAt = cs_createdAt s, pc_paginationCursor = pagesCursor (cs_partials s),
      pc_partialResults = cs_partials s, pc_totalPages = ct_totalPages t,
      pc_totalBytes = ct_totalBytes t, pc_totalOutputChars = ct_totalOutputChars t,
      pc_droppedUpstreamUrls = cs_droppedUpstreamUrls s,
      pc_callerCancelled = cs_callerCancelled s,
      pc_groundlanePollingCancelled = cs_groundlanePollingCancelled s,
      pc_upstreamCancelRequested = cs_upstreamCancelRequested s,
      pc_upstreamCancelled = (cs_upstreamAcknowledgment s \<noteq> None),
      pc_billingProvenance = \<lparr>bp_providerId = cs_providerId s,
        bp_inputUnits = jint (ct_totalPages t), bp_outputUnits = jint (ct_totalOutputChars t),
        bp_billedAt = cs_billedAt s\<rparr>,
      pc_sanitizedError = cs_sanitizedError s\<rparr>)"

section \<open>Result cursors\<close>

text \<open>\<open>Number(digits)\<close> is infinite from this value on, and \<open>Number.isInteger\<close> then rejects it.\<close>

definition doubleOverflow :: nat where
  "doubleOverflow = 2 ^ 1024 - 2 ^ 970"

definition invalidCursor :: "string \<Rightarrow> exn" where
  "invalidCursor c = crawlError INVALID_INPUT
     (''Invalid result cursor '' @ quoted c @ ''; expected '' @ quoted ''page:<offset>'')"

definition parseResultCursor :: "string option \<Rightarrow> nat res" where
  "parseResultCursor cursor = (case cursor of
     None \<Rightarrow> Inr 0
   | Some c \<Rightarrow>
       let digits = drop 5 c in
       if take 5 c \<noteq> ''page:'' \<or> digits = '''' \<or> \<not> list_all isDigit digits
       then Inl (invalidCursor c)
       else let offset = parseNat digits in
         if offset \<ge> doubleOverflow then Inl (invalidCursor c) else Inr offset)"

section \<open>Create\<close>

definition buildCrawlIdempotencyKey :: "string \<Rightarrow> string \<Rightarrow> string res" where
  "buildCrawlIdempotencyKey ownerId key =
     (if ownerId = '''' then Inl (crawlError INVALID_INPUT ''ownerId is required'')
      else if key = '''' then Inl (crawlError INVALID_INPUT ''idempotencyKey must be non-empty'')
      else Inr (ownerId @ '':'' @ key))"

definition crawl_validateBudgets :: "jsnum CrawlBudgets \<Rightarrow> unit res" where
  "crawl_validateBudgets b =
     (if \<not> isInteger (cb_maxPages b) \<or> jlt (cb_maxPages b) (jint 1)
      then Inl (crawlError INVALID_INPUT ''budgets.maxPages must be a positive integer'')
      else if \<not> isInteger (cb_maxBytes b) \<or> jlt (cb_maxBytes b) (jint 1)
      then Inl (crawlError INVALID_INPUT ''budgets.maxBytes must be a positive integer'')
      else if \<not> isInteger (cb_maxOutputChars b) \<or> jlt (cb_maxOutputChars b) (jint 1)
      then Inl (crawlError INVALID_INPUT ''budgets.maxOutputChars must be a positive integer'')
      else Inr ())"

definition intBudgets :: "jsnum CrawlBudgets \<Rightarrow> int CrawlBudgets" where
  "intBudgets b = \<lparr>cb_maxPages = toInt (cb_maxPages b), cb_maxBytes = toInt (cb_maxBytes b),
     cb_maxOutputChars = toInt (cb_maxOutputChars b)\<rparr>"

text \<open>The checks before anything is looked up; they return the normalized seed URL.\<close>

definition crawl_createGuards :: "url_parser \<Rightarrow> CreateCrawlJobInput \<Rightarrow> string res" where
  "crawl_createGuards parseUrl i =
     (if cc_ownerId i = '''' then Inl (crawlError INVALID_INPUT ''ownerId is required'')
      else if cc_credentialBinding i = ''''
      then Inl (crawlError INVALID_INPUT ''credentialBinding is required for crawl jobs'')
      else bindE (assertPublicHttpUrl parseUrl (cc_seedUrl i) ''seedUrl'') (\<lambda>seedUrl.
        andThen (crawl_validateBudgets (cc_budgets i))
          (if \<not> isFinite (cc_ttlSeconds i) \<or> jle (cc_ttlSeconds i) (jint 0)
           then Inl (crawlError INVALID_INPUT ''ttlSeconds must be a positive number'')
           else Inr seedUrl)))"

definition crawl_key :: "CreateCrawlJobInput \<Rightarrow> string option res" where
  "crawl_key i = (case cc_idempotencyKey i of
     None \<Rightarrow> Inr None
   | Some k \<Rightarrow> bindE (buildCrawlIdempotencyKey (cc_ownerId i) k) (\<lambda>key. Inr (Some key)))"

definition crawl_newState :: "CrawlJobManagerOptions \<Rightarrow> string \<Rightarrow> string \<Rightarrow> string option \<Rightarrow>
    CreateCrawlJobInput \<Rightarrow> int \<Rightarrow> InternalCrawlJobState res" where
  "crawl_newState opts groundlaneJobId seedUrl key i now =
     bindE (case co_provider opts of
              None \<Rightarrow> Inr (''deferred:'' @ groundlaneJobId)
            | Some p \<Rightarrow> cpp_startCrawl p seedUrl) (\<lambda>providerJobId.
     bindE (toISOString (Some now)) (\<lambda>createdAt.
     bindE (toISOString (timeClip (jadd (jint now) (jscale 1000 (cc_ttlSeconds i))))) (\<lambda>expiresAt.
     let s = \<lparr>cs_groundlaneJobId = groundlaneJobId, cs_ownerId = cc_ownerId i,
           cs_credentialBinding = cc_credentialBinding i,
           cs_providerId = (case cc_providerId i of None \<Rightarrow> ''crawl'' | Some p \<Rightarrow> p),
           cs_providerJobId = providerJobId, cs_status = CrawlCreated,
           cs_budgets = intBudgets (cc_budgets i), cs_createdAt = createdAt,
           cs_expiresAt = expiresAt, cs_partials = [], cs_providerCursor = None,
           cs_callerCancelled = False, cs_groundlanePollingCancelled = False,
           cs_upstreamCancelRequested = False, cs_upstreamAcknowledgment = None,
           cs_droppedUpstreamUrls = 0, cs_billedAt = None, cs_sanitizedError = None,
           cs_idempotencyKey = key\<rparr>;
         view = toDurableView s
     in andThen (validateCrawlJobOwnership view (cc_ownerId i))
       (andThen (validateCrawlJobNotExpired view now) (Inr s)))))"

text \<open>\<open>nextId\<close> is taken before the provider starts, so it advances even when that throws.\<close>

definition crawl_create :: "('s, InternalCrawlJobState) job_port \<Rightarrow> CrawlJobManagerOptions \<Rightarrow>
    url_parser \<Rightarrow> CreateCrawlJobInput \<Rightarrow> int \<Rightarrow> 's CrawlJobManager \<Rightarrow>
    (PublicCrawlJob \<times> bool) res \<times> 's CrawlJobManager" where
  "crawl_create P opts parseUrl i now m =
     (case crawl_createGuards parseUrl i of Inl e \<Rightarrow> (Inl e, m) | Inr seedUrl \<Rightarrow>
      case crawl_key i of Inl e \<Rightarrow> (Inl e, m) | Inr key \<Rightarrow>
      case Option.bind key (port_getByIdempotencyKey P (cm_store m)) of
        Some existing \<Rightarrow> (Inr (toPublicCrawlJob existing, True), m)
      | None \<Rightarrow>
          if int (port_size P (cm_store m)) \<ge> co_maxJobs opts
          then (Inl (GroundlaneError CONCURRENCY_LIMIT ''crawl-jobs''
                  ''The crawl job store is full'' True None), m)
          else
            let groundlaneJobId = co_jobIdPrefix opts @ padStart 6 (CHR ''0'') (showNat (cm_nextId m));
                m1 = m\<lparr>cm_nextId := Suc (cm_nextId m)\<rparr>
            in case crawl_newState opts groundlaneJobId seedUrl key i now of
                 Inl e \<Rightarrow> (Inl e, m1)
               | Inr s \<Rightarrow> (Inr (toPublicCrawlJob s, False),
                          m1\<lparr>cm_store := port_set P (cm_store m1) s\<rparr>))"

section \<open>Resolve and reads\<close>

definition crawl_resolve :: "('s, InternalCrawlJobState) job_port \<Rightarrow> 's CrawlJobManager \<Rightarrow>
    string \<Rightarrow> JobCaller \<Rightarrow> int \<Rightarrow> InternalCrawlJobState res" where
  "crawl_resolve P m jobId caller now =
     (case port_get P (cm_store m) jobId of
        None \<Rightarrow> Inl (crawlError INVALID_INPUT (''Unknown crawl job '' @ quoted jobId))
      | Some s \<Rightarrow>
          let view = toDurableView s in
          case validateCrawlJobOwnership view (ca_ownerId caller) of
            Inl e \<Rightarrow> Inl (crawlError INVALID_INPUT (exn_message e))
          | Inr _ \<Rightarrow>
              if cs_credentialBinding s \<noteq> ca_credentialBinding caller
              then Inl (crawlError INVALID_INPUT
                ''Credential binding mismatch: caller credential does not match this crawl job'')
              else case validateCrawlJobNotExpired view now of
                Inl e \<Rightarrow> Inl (crawlError DEADLINE_EXCEEDED (exn_message e))
              | Inr _ \<Rightarrow> Inr s)"

definition crawl_status where
  "crawl_status P m jobId caller now =
     bindE (crawl_resolve P m jobId caller now) (\<lambda>s. Inr (toPublicCrawlJob s))"

record CrawlResultPage =
  rp_job :: PublicCrawlJob
  rp_items :: "CrawlPartialResult list"
  rp_nextCursor :: "string option"

definition crawl_result :: "('s, InternalCrawlJobState) job_port \<Rightarrow> 's CrawlJobManager \<Rightarrow>
    string \<Rightarrow> JobCaller \<Rightarrow> string option \<Rightarrow> jsnum option \<Rightarrow> int \<Rightarrow> CrawlResultPage res" where
  "crawl_result P m jobId caller cursor pageSizeOpt now =
     bindE (crawl_resolve P m jobId caller now) (\<lambda>s.
     let pageSize = (case pageSizeOpt of None \<Rightarrow> jint DEFAULT_CRAWL_PAGE_SIZE | Some n \<Rightarrow> n) in
     if \<not> isInteger pageSize \<or> jlt pageSize (jint 1) \<or> jlt (jint MAX_CRAWL_PAGE_SIZE) pageSize
     then Inl (crawlError INVALID_INPUT
       (''pageSize must be an integer between 1 and '' @ showInt MAX_CRAWL_PAGE_SIZE))
     else bindE (parseResultCursor cursor) (\<lambda>offset.
       let size = nat (toInt pageSize); end' = offset + size in
       Inr \<lparr>rp_job = toPublicCrawlJob s,
            rp_items = take size (drop offset (cs_partials s)),
            rp_nextCursor = (if end' < length (cs_partials s)
                             then Some (''page:'' @ showNat end') else None)\<rparr>))"

section \<open>Mutations\<close>

text \<open>Resolve, compute the next state and result, store the next state.\<close>

definition crawl_update :: "('s, InternalCrawlJobState) job_port \<Rightarrow> 's CrawlJobManager \<Rightarrow>
    string \<Rightarrow> JobCaller \<Rightarrow> int \<Rightarrow> (InternalCrawlJobState \<Rightarrow> (InternalCrawlJobState \<times> 'r res) res) \<Rightarrow>
    'r res \<times> 's CrawlJobManager" where
  "crawl_update P m jobId caller now f =
     (case bindE (crawl_resolve P m jobId caller now) f of
        Inl e \<Rightarrow> (Inl e, m)
      | Inr (s', r) \<Rightarrow> (r, m\<lparr>cm_store := port_set P (cm_store m) s'\<rparr>))"

text \<open>\<open>fail\<close>: the failed state is stored and the error thrown, so the inner result is \<open>Inl\<close>.\<close>

definition crawl_fail :: "InternalCrawlJobState \<Rightarrow> thrown \<Rightarrow> int \<Rightarrow> ErrorCode \<Rightarrow>
    (InternalCrawlJobState \<times> 'r res) res" where
  "crawl_fail s err now code =
     (let message = (if code = UPSTREAM_ERROR
                     then ''Upstream crawl fetch failed: '' @ sanitizeUpstreamError err
                     else sanitizeUpstreamError err) in
      bindE (case cs_billedAt s of Some t \<Rightarrow> Inr t | None \<Rightarrow> toISOString (Some now)) (\<lambda>billedAt.
      Inr (s\<lparr>cs_status := CrawlFailed, cs_sanitizedError := Some message,
             cs_billedAt := Some billedAt\<rparr>,
           Inl (GroundlaneError code ''crawl-jobs'' message (code = UPSTREAM_ERROR) None))))"

fun keepPages :: "url_parser \<Rightarrow> nat \<Rightarrow> UpstreamCrawlPage list \<Rightarrow> CrawlPartialResult list \<times> nat" where
  "keepPages parseUrl dropped [] = ([], dropped)"
| "keepPages parseUrl dropped (p # ps) =
     (case assertPublicHttpUrl parseUrl (up_url p) ''upstream page url'' of
        Inl _ \<Rightarrow> keepPages parseUrl (Suc dropped) ps
      | Inr safeUrl \<Rightarrow>
          if \<not> isInteger (up_contentChars p) \<or> jlt (up_contentChars p) (jint 0)
          then keepPages parseUrl (Suc dropped) ps
          else (let (kept, d) = keepPages parseUrl dropped ps in
            (\<lparr>cp_url = safeUrl, cp_contentChars = toInt (up_contentChars p),
              cp_fetchedAt = up_fetchedAt p\<rparr> # kept, d)))"

definition crawl_ingest :: "CrawlJobManagerOptions \<Rightarrow> url_parser \<Rightarrow> int \<Rightarrow> InternalCrawlJobState \<Rightarrow>
    (InternalCrawlJobState \<times> PublicCrawlJob res) res" where
  "crawl_ingest opts parseUrl now s =
     (if cs_status s \<in> set CRAWL_TERMINAL_STATUSES
      then Inl (crawlError INVALID_INPUT
        (''Cannot transition from terminal status '' @ quoted (crawlStatusName (cs_status s))))
      else case (case co_provider opts of
                   None \<Rightarrow> Inr \<lparr>ub_pages = [], ub_nextCursor = None\<rparr>
                 | Some p \<Rightarrow> cpp_fetchUpstreamPages p (cs_providerJobId s) (cs_providerCursor s)) of
        Inl err \<Rightarrow> crawl_fail s err now UPSTREAM_ERROR
      | Inr batch \<Rightarrow>
          let (kept, dropped) = keepPages parseUrl (cs_droppedUpstreamUrls s) (ub_pages batch);
              merged = cs_partials s @ kept;
              s1 = s\<lparr>cs_droppedUpstreamUrls := dropped\<rparr>
          in if length merged > MAX_CRAWL_PARTIALS
             then crawl_fail s1 (ThrownError (JsError (''Partial result cap exceeded: '' @
               showNat (length merged) @ '' > '' @ showNat MAX_CRAWL_PARTIALS))) now OUTPUT_LIMIT
             else
               let t = totalsOf merged in
               case validateCrawlBudgets (cs_budgets s) (ct_totalPages t) (ct_totalBytes t)
                      (ct_totalOutputChars t) of
                 Inl e \<Rightarrow> crawl_fail s1 (ThrownError e) now OUTPUT_LIMIT
               | Inr _ \<Rightarrow>
                   let drained = (ub_pages batch = [] \<and> ub_nextCursor batch = None);
                       status = (if drained then CrawlCompleted else CrawlCrawling)
                   in andThen (if cs_status s = status then Inr ()
                               else validateCrawlStatusTransition (cs_status s) status)
                     (bindE (if drained then map_sum id Some (toISOString (Some now))
                             else Inr (cs_billedAt s)) (\<lambda>billedAt.
                      let s' = s\<lparr>cs_status := status, cs_partials := merged,
                            cs_providerCursor := ub_nextCursor batch,
                            cs_droppedUpstreamUrls := dropped, cs_billedAt := billedAt\<rparr>
                      in Inr (s', Inr (toPublicCrawlJob s')))))"

definition crawl_ingestUpstream where
  "crawl_ingestUpstream P opts parseUrl m jobId caller now =
     crawl_update P m jobId caller now (crawl_ingest opts parseUrl now)"

definition crawl_callerCancelled ::
  "InternalCrawlJobState \<Rightarrow> (InternalCrawlJobState \<times> PublicCrawlJob res) res" where
  "crawl_callerCancelled s =
     andThen (validateCrawlStatusTransition (cs_status s) CrawlCancelledByCaller)
       (let s' = s\<lparr>cs_status := CrawlCancelledByCaller, cs_callerCancelled := True\<rparr>
        in Inr (s', Inr (toPublicCrawlJob s')))"

definition crawl_cancelCallerWait where
  "crawl_cancelCallerWait P m jobId caller now =
     crawl_update P m jobId caller now crawl_callerCancelled"

definition crawl_groundlaneCancelled ::
  "InternalCrawlJobState \<Rightarrow> (InternalCrawlJobState \<times> PublicCrawlJob res) res" where
  "crawl_groundlaneCancelled s =
     andThen (validateCrawlStatusTransition (cs_status s) CrawlCancelledByGroundlane)
       (let s' = s\<lparr>cs_status := CrawlCancelledByGroundlane, cs_groundlanePollingCancelled := True\<rparr>
        in Inr (s', Inr (toPublicCrawlJob s')))"

definition crawl_cancelGroundlanePolling where
  "crawl_cancelGroundlanePolling P m jobId caller now =
     crawl_update P m jobId caller now crawl_groundlaneCancelled"

definition crawlCancelResult ::
  "InternalCrawlJobState \<Rightarrow> ProviderCancelAcknowledgment option \<Rightarrow> CrawlCancelResult" where
  "crawlCancelResult s ack =
     \<lparr>cr_callerCancelled = cs_callerCancelled s,
      cr_groundlanePollingCancelled = cs_groundlanePollingCancelled s,
      cr_upstreamCancelled = (ack \<noteq> None), cr_providerAcknowledgment = ack\<rparr>"

definition crawl_upstreamCancelled :: "CrawlJobManagerOptions \<Rightarrow> InternalCrawlJobState \<Rightarrow>
    (InternalCrawlJobState \<times> (PublicCrawlJob \<times> CrawlCancelResult) res) res" where
  "crawl_upstreamCancelled opts s =
     (if cs_status s \<in> set CRAWL_TERMINAL_STATUSES
      then Inl (crawlError INVALID_INPUT
        (''Cannot transition from terminal status '' @ quoted (crawlStatusName (cs_status s))))
      else bindE (case co_provider opts of
               None \<Rightarrow> Inr None
             | Some p \<Rightarrow> cpp_cancelUpstream p (cs_providerJobId s)) (\<lambda>acknowledgment.
      bindE (case acknowledgment of
          None \<Rightarrow> Inr (s\<lparr>cs_upstreamCancelRequested := True\<rparr>)
        | Some ack \<Rightarrow> andThen (validateCrawlStatusTransition (cs_status s) CrawlCancelledByUpstream)
            (Inr (s\<lparr>cs_status := CrawlCancelledByUpstream, cs_upstreamCancelRequested := True,
                    cs_upstreamAcknowledgment := Some ack\<rparr>))) (\<lambda>s'.
      let cancelResult = crawlCancelResult s' acknowledgment in
      Inr (s', andThen (validateCrawlCancelResult cancelResult)
                 (Inr (toPublicCrawlJob s', cancelResult))))))"

definition crawl_requestUpstreamCancel where
  "crawl_requestUpstreamCancel P opts m jobId caller now =
     crawl_update P m jobId caller now (crawl_upstreamCancelled opts)"

end
