(* ===== verification/CrawlInvariants.thy ===== *)
theory CrawlInvariants
  imports CrawlJobs
begin

text \<open>
  What every sequence of calls on a \<open>CrawlJobManager\<close> keeps, for every lawful store: the budgets
  and caps of a job, the meaning of its flags, and that a job in a terminal status is never
  changed again.
\<close>

section \<open>Cursors and totals\<close>

lemma parseNat_append: "parseNat (a @ b) = foldl (\<lambda>n c. 10 * n + digitVal c) (parseNat a) b"
  by (simp add: parseNat_def)

lemma parseNat_zeros: "parseNat (replicate n (CHR ''0'')) = 0"
proof (induction n)
  case (Suc n)
  have "replicate (Suc n) (CHR ''0'') = replicate n (CHR ''0'') @ [CHR ''0'']"
    by (simp add: replicate_append_same)
  with Suc show ?case by (simp add: parseNat_snoc digitVal_def del: replicate_Suc)
qed (simp add: parseNat_def)

lemma parseNat_padStart [simp]: "parseNat (padStart n (CHR ''0'') (showNat k)) = k"
proof -
  have "parseNat (padStart n (CHR ''0'') (showNat k)) =
      foldl (\<lambda>n c. 10 * n + digitVal c) 0 (showNat k)"
    by (simp add: padStart_def parseNat_append parseNat_zeros)
  then show ?thesis using parseNat_showNat [of k] by (simp add: parseNat_def)
qed

lemma parseResultCursor_page:
  "n < doubleOverflow \<Longrightarrow> parseResultCursor (Some (''page:'' @ showNat n)) = Inr n"
  using showNat_digits [of n] by (auto simp: parseResultCursor_def Let_def list_all_iff)

lemma foldl_totals:
  "foldl (\<lambda>(b, c) p. (b + cp_contentChars p, c + cp_contentChars p)) (x, y) ps =
     (x + sum_list (map cp_contentChars ps), y + sum_list (map cp_contentChars ps))"
  by (induction ps arbitrary: x y) auto

lemma totalsOf_eq:
  "totalsOf ps = \<lparr>ct_totalPages = int (length ps), ct_totalBytes = sum_list (map cp_contentChars ps),
     ct_totalOutputChars = sum_list (map cp_contentChars ps)\<rparr>"
  by (simp add: totalsOf_def foldl_totals)

section \<open>Status\<close>

lemma validateCrawlStatusTransition_ok [res_simps]:
  "validateCrawlStatusTransition a b = Inr u \<longleftrightarrow>
     a \<noteq> b \<and> a \<notin> set CRAWL_TERMINAL_STATUSES \<and> CRAWL_STATUS_ORDER a \<le> CRAWL_STATUS_ORDER b"
  by (auto simp: validateCrawlStatusTransition_def)

definition crawlStatusStep :: "CrawlJobStatus \<Rightarrow> CrawlJobStatus \<Rightarrow> bool" where
  "crawlStatusStep a b \<longleftrightarrow> validateCrawlStatusTransition a b = Inr ()"

interpretation crawl_status_machine:
  ranked_machine crawlStatusStep CRAWL_STATUS_ORDER "\<lambda>s. s \<in> set CRAWL_TERMINAL_STATUSES"
proof unfold_locales
  fix a b
  assume s: "crawlStatusStep a b"
  show "a \<notin> set CRAWL_TERMINAL_STATUSES" "CRAWL_STATUS_ORDER a \<le> CRAWL_STATUS_ORDER b"
    using s by (simp_all add: crawlStatusStep_def res_simps)
  show "CRAWL_STATUS_ORDER a < CRAWL_STATUS_ORDER b"
    using s by (cases a; cases b) (simp_all add: crawlStatusStep_def res_simps CRAWL_TERMINAL_STATUSES_def)
qed

section \<open>One job\<close>

definition partialsWf :: "url_parser \<Rightarrow> int CrawlBudgets \<Rightarrow> CrawlPartialResult list \<Rightarrow> bool" where
  "partialsWf parseUrl b ps \<longleftrightarrow>
     length ps \<le> MAX_CRAWL_PARTIALS \<and> int (length ps) \<le> cb_maxPages b \<and>
     sum_list (map cp_contentChars ps) \<le> cb_maxBytes b \<and>
     sum_list (map cp_contentChars ps) \<le> cb_maxOutputChars b \<and>
     (\<forall>p \<in> set ps. 0 \<le> cp_contentChars p \<and>
        (\<exists>v. assertPublicHttpUrl parseUrl v ''upstream page url'' = Inr (cp_url p)))"

definition crawlFlagsWf :: "InternalCrawlJobState \<Rightarrow> bool" where
  "crawlFlagsWf s \<longleftrightarrow>
     (cs_upstreamAcknowledgment s \<noteq> None \<longleftrightarrow> cs_status s = CrawlCancelledByUpstream) \<and>
     (cs_callerCancelled s \<longleftrightarrow> cs_status s = CrawlCancelledByCaller) \<and>
     (cs_groundlanePollingCancelled s \<longleftrightarrow> cs_status s = CrawlCancelledByGroundlane) \<and>
     (cs_sanitizedError s \<noteq> None \<longleftrightarrow> cs_status s = CrawlFailed) \<and>
     (cs_billedAt s \<noteq> None \<longleftrightarrow> cs_status s = CrawlCompleted \<or> cs_status s = CrawlFailed)"

definition crawlJobWf :: "url_parser \<Rightarrow> InternalCrawlJobState \<Rightarrow> bool" where
  "crawlJobWf parseUrl s \<longleftrightarrow> partialsWf parseUrl (cs_budgets s) (cs_partials s) \<and> crawlFlagsWf s"

definition crawlEvolves :: "InternalCrawlJobState \<Rightarrow> InternalCrawlJobState \<Rightarrow> bool" where
  "crawlEvolves a b \<longleftrightarrow>
     (cs_groundlaneJobId b = cs_groundlaneJobId a \<and> cs_ownerId b = cs_ownerId a \<and>
      cs_credentialBinding b = cs_credentialBinding a \<and> cs_providerId b = cs_providerId a \<and>
      cs_providerJobId b = cs_providerJobId a \<and> cs_budgets b = cs_budgets a \<and>
      cs_createdAt b = cs_createdAt a \<and> cs_expiresAt b = cs_expiresAt a \<and>
      cs_idempotencyKey b = cs_idempotencyKey a) \<and>
     prefix (cs_partials a) (cs_partials b) \<and>
     cs_droppedUpstreamUrls a \<le> cs_droppedUpstreamUrls b \<and>
     crawlStatusStep\<^sup>*\<^sup>* (cs_status a) (cs_status b) \<and>
     (cs_status a \<in> set CRAWL_TERMINAL_STATUSES \<longrightarrow> b = a)"

lemma crawlEvolves_refl [simp]: "crawlEvolves s s"
  by (simp add: crawlEvolves_def)

lemma crawlEvolves_trans: "crawlEvolves a b \<Longrightarrow> crawlEvolves b c \<Longrightarrow> crawlEvolves a c"
  unfolding crawlEvolves_def
  by (intro conjI) (auto intro: rtranclp_trans dest: prefix_order.trans)

definition goodCrawl ::
  "url_parser \<Rightarrow> (InternalCrawlJobState \<Rightarrow> (InternalCrawlJobState \<times> 'r) res) \<Rightarrow> bool" where
  "goodCrawl parseUrl f \<longleftrightarrow> (\<forall>s s' r. crawlJobWf parseUrl s \<longrightarrow> f s = Inr (s', r) \<longrightarrow>
     crawlJobWf parseUrl s' \<and> crawlEvolves s s')"

lemma live_flags:
  assumes "crawlFlagsWf s" "cs_status s \<notin> set CRAWL_TERMINAL_STATUSES"
  shows "cs_upstreamAcknowledgment s = None" "\<not> cs_callerCancelled s"
    "\<not> cs_groundlanePollingCancelled s" "cs_sanitizedError s = None" "cs_billedAt s = None"
  using assms by (auto simp: crawlFlagsWf_def CRAWL_TERMINAL_STATUSES_def)

lemma live_to_terminal:
  assumes "a \<notin> set CRAWL_TERMINAL_STATUSES" "b \<in> set CRAWL_TERMINAL_STATUSES"
  shows "crawlStatusStep\<^sup>*\<^sup>* a b"
proof -
  have "crawlStatusStep a b" using assms
    by (cases a; cases b) (simp_all add: crawlStatusStep_def res_simps CRAWL_TERMINAL_STATUSES_def)
  then show ?thesis by (rule r_into_rtranclp)
qed

lemma keepPages_ok:
  "keepPages parseUrl d ps = (kept, d') \<Longrightarrow> d \<le> d' \<and>
     (\<forall>p \<in> set kept. 0 \<le> cp_contentChars p \<and>
        (\<exists>v. assertPublicHttpUrl parseUrl v ''upstream page url'' = Inr (cp_url p)))"
proof (induction parseUrl d ps arbitrary: kept d' rule: keepPages.induct)
  case (2 parseUrl dropped p ps)
  show ?case
  proof (cases "assertPublicHttpUrl parseUrl (up_url p) ''upstream page url''")
    case (Inl e)
    with 2 show ?thesis by fastforce
  next
    case (Inr u)
    show ?thesis
    proof (cases "\<not> isInteger (up_contentChars p) \<or> jlt (up_contentChars p) (jint 0)")
      case True
      with 2 Inr show ?thesis by (auto split: if_splits) fastforce+
    next
      case False
      then obtain k where k: "up_contentChars p = jint k" "0 \<le> k" by (auto elim!: isIntegerE)
      obtain kept0 where k0: "keepPages parseUrl dropped ps = (kept0, d')"
        and kept: "kept = \<lparr>cp_url = u, cp_contentChars = toInt (up_contentChars p),
              cp_fetchedAt = up_fetchedAt p\<rparr> # kept0"
        using "2.prems" Inr False by (auto split: prod.splits)
      from "2.IH"(3) [OF Inr False k0] k Inr show ?thesis by (auto simp: kept)
    qed
  qed
qed simp

lemma fail_ok:
  assumes "crawl_fail s err now code = Inr (s', r)" "crawlJobWf parseUrl s"
    "cs_status s \<notin> set CRAWL_TERMINAL_STATUSES"
  shows "crawlJobWf parseUrl s' \<and> crawlEvolves s s' \<and> cs_status s' = CrawlFailed \<and>
    cs_partials s' = cs_partials s"
proof -
  from assms(1) obtain t msg where s': "s' = s\<lparr>cs_status := CrawlFailed,
      cs_sanitizedError := Some msg, cs_billedAt := Some t\<rparr>"
    by (auto simp: crawl_fail_def Let_def res_simps)
  have "crawlFlagsWf s" using assms(2) by (simp add: crawlJobWf_def)
  note l = live_flags [OF this assms(3)]
  have "crawlStatusStep\<^sup>*\<^sup>* (cs_status s) CrawlFailed"
    using assms(3) by (rule live_to_terminal) (simp add: CRAWL_TERMINAL_STATUSES_def)
  with assms(2,3) l show ?thesis
    by (simp add: s' crawlJobWf_def crawlFlagsWf_def crawlEvolves_def)
qed

lemma cancel_ok:
  assumes "crawlJobWf parseUrl s" "cs_status s \<notin> set CRAWL_TERMINAL_STATUSES"
  shows "crawlJobWf parseUrl (s\<lparr>cs_status := CrawlCancelledByCaller, cs_callerCancelled := True\<rparr>)"
    "crawlEvolves s (s\<lparr>cs_status := CrawlCancelledByCaller, cs_callerCancelled := True\<rparr>)"
    "crawlJobWf parseUrl (s\<lparr>cs_status := CrawlCancelledByGroundlane,
       cs_groundlanePollingCancelled := True\<rparr>)"
    "crawlEvolves s (s\<lparr>cs_status := CrawlCancelledByGroundlane,
       cs_groundlanePollingCancelled := True\<rparr>)"
    "crawlJobWf parseUrl (s\<lparr>cs_status := CrawlCancelledByUpstream,
       cs_upstreamCancelRequested := True, cs_upstreamAcknowledgment := Some ack\<rparr>)"
    "crawlEvolves s (s\<lparr>cs_status := CrawlCancelledByUpstream,
       cs_upstreamCancelRequested := True, cs_upstreamAcknowledgment := Some ack\<rparr>)"
    "crawlJobWf parseUrl (s\<lparr>cs_upstreamCancelRequested := True\<rparr>)"
    "crawlEvolves s (s\<lparr>cs_upstreamCancelRequested := True\<rparr>)"
proof -
  have "crawlFlagsWf s" using assms(1) by (simp add: crawlJobWf_def)
  note l = live_flags [OF this assms(2)]
  have st: "crawlStatusStep\<^sup>*\<^sup>* (cs_status s) CrawlCancelledByCaller"
    "crawlStatusStep\<^sup>*\<^sup>* (cs_status s) CrawlCancelledByGroundlane"
    "crawlStatusStep\<^sup>*\<^sup>* (cs_status s) CrawlCancelledByUpstream"
    by (rule live_to_terminal [OF assms(2)], simp add: CRAWL_TERMINAL_STATUSES_def)+
  show "crawlJobWf parseUrl (s\<lparr>cs_status := CrawlCancelledByCaller, cs_callerCancelled := True\<rparr>)"
    "crawlJobWf parseUrl (s\<lparr>cs_status := CrawlCancelledByGroundlane,
       cs_groundlanePollingCancelled := True\<rparr>)"
    "crawlJobWf parseUrl (s\<lparr>cs_status := CrawlCancelledByUpstream,
       cs_upstreamCancelRequested := True, cs_upstreamAcknowledgment := Some ack\<rparr>)"
    "crawlJobWf parseUrl (s\<lparr>cs_upstreamCancelRequested := True\<rparr>)"
    using assms l by (simp_all add: crawlJobWf_def crawlFlagsWf_def)
  show "crawlEvolves s (s\<lparr>cs_status := CrawlCancelledByCaller, cs_callerCancelled := True\<rparr>)"
    "crawlEvolves s (s\<lparr>cs_status := CrawlCancelledByGroundlane,
       cs_groundlanePollingCancelled := True\<rparr>)"
    "crawlEvolves s (s\<lparr>cs_status := CrawlCancelledByUpstream,
       cs_upstreamCancelRequested := True, cs_upstreamAcknowledgment := Some ack\<rparr>)"
    "crawlEvolves s (s\<lparr>cs_upstreamCancelRequested := True\<rparr>)"
    using assms(2) st by (simp_all add: crawlEvolves_def)
qed

section \<open>Ingest\<close>

text \<open>The four ways one ingest can end, with what each stores.\<close>

lemma crawl_ingest_cases:
  assumes "crawl_ingest opts parseUrl now s = Inr (s', r)"
  obtains (fetchFailed) err where "cs_status s \<notin> set CRAWL_TERMINAL_STATUSES"
      "crawl_fail s err now UPSTREAM_ERROR = Inr (s', r)"
    | (breach) d msg where "cs_status s \<notin> set CRAWL_TERMINAL_STATUSES"
      "cs_droppedUpstreamUrls s \<le> d"
      "crawl_fail (s\<lparr>cs_droppedUpstreamUrls := d\<rparr>) (ThrownError (JsError msg)) now OUTPUT_LIMIT =
        Inr (s', r)"
    | (stored) kept d st cur billed where "cs_status s \<notin> set CRAWL_TERMINAL_STATUSES"
      "cs_droppedUpstreamUrls s \<le> d" "st = CrawlCompleted \<or> st = CrawlCrawling"
      "cs_status s = st \<or> crawlStatusStep (cs_status s) st"
      "\<forall>p \<in> set kept. 0 \<le> cp_contentChars p \<and>
        (\<exists>v. assertPublicHttpUrl parseUrl v ''upstream page url'' = Inr (cp_url p))"
      "length (cs_partials s @ kept) \<le> MAX_CRAWL_PARTIALS"
      "validateCrawlBudgets (cs_budgets s) (int (length (cs_partials s @ kept)))
        (sum_list (map cp_contentChars (cs_partials s @ kept)))
        (sum_list (map cp_contentChars (cs_partials s @ kept))) = Inr ()"
      "billed = cs_billedAt s \<and> st = CrawlCrawling \<or> billed \<noteq> None \<and> st = CrawlCompleted"
      "s' = s\<lparr>cs_status := st, cs_partials := cs_partials s @ kept, cs_providerCursor := cur,
         cs_droppedUpstreamUrls := d, cs_billedAt := billed\<rparr>"
      "r = Inr (toPublicCrawlJob s')"
proof -
  from assms have live: "cs_status s \<notin> set CRAWL_TERMINAL_STATUSES"
    by (auto simp: crawl_ingest_def split: if_splits)
  define reply where "reply = (case co_provider opts of
      None \<Rightarrow> Inr \<lparr>ub_pages = [], ub_nextCursor = None\<rparr>
    | Some p \<Rightarrow> cpp_fetchUpstreamPages p (cs_providerJobId s) (cs_providerCursor s))"
  note eq = assms [unfolded crawl_ingest_def if_not_P [OF live] reply_def [symmetric]]
  show ?thesis
  proof (cases reply)
    case (Inl err)
    with eq live show ?thesis by (intro fetchFailed) simp_all
  next
    case (Inr batch)
    obtain kept d where kp: "keepPages parseUrl (cs_droppedUpstreamUrls s) (ub_pages batch) = (kept, d)"
      by fastforce
    note k = keepPages_ok [OF kp]
    let ?ps = "cs_partials s @ kept" and ?sum = "sum_list (map cp_contentChars (cs_partials s @ kept))"
    note eq1 = eq [unfolded Inr sum.case Let_def kp prod.case]
    show ?thesis
    proof (cases "length ?ps > MAX_CRAWL_PARTIALS")
      case True
      with eq1 live k show ?thesis by (intro breach) auto
    next
      case small: False
      show ?thesis
      proof (cases "validateCrawlBudgets (cs_budgets s) (int (length ?ps)) ?sum ?sum")
        case (Inl e)
        then obtain msg where "e = JsError msg" by (auto simp: validateCrawlBudgets_def split: if_splits)
        with eq1 small Inl live k show ?thesis by (intro breach) (auto simp: totalsOf_eq)
      next
        case ok: (Inr u)
        let ?dr = "ub_pages batch = [] \<and> ub_nextCursor batch = None"
        define st where "st = (if ?dr then CrawlCompleted else CrawlCrawling)"
        define B where "B = (if ?dr then map_sum id Some (toISOString (Some now))
          else Inr (cs_billedAt s) :: iso option res)"
        note eq2 = eq1 [folded st_def B_def]
        from small ok have c: "\<not> MAX_CRAWL_PARTIALS < length ?ps"
          "validateCrawlBudgets (cs_budgets s) (ct_totalPages (totalsOf ?ps)) (ct_totalBytes (totalsOf ?ps))
             (ct_totalOutputChars (totalsOf ?ps)) = Inr ()"
          by (simp_all add: totalsOf_eq)
        from eq2 [unfolded if_not_P [OF c(1)] c(2) sum.case]
        have "andThen (if cs_status s = st then Inr ()
            else validateCrawlStatusTransition (cs_status s) st) (bindE B (\<lambda>billedAt.
              Inr (s\<lparr>cs_status := st, cs_partials := ?ps, cs_providerCursor := ub_nextCursor batch,
                cs_droppedUpstreamUrls := d, cs_billedAt := billedAt\<rparr>,
                Inr (toPublicCrawlJob (s\<lparr>cs_status := st, cs_partials := ?ps,
                  cs_providerCursor := ub_nextCursor batch,
                  cs_droppedUpstreamUrls := d, cs_billedAt := billedAt\<rparr>))))) = Inr (s', r)" .
        then obtain billed where
          tr: "(if cs_status s = st then Inr () else validateCrawlStatusTransition (cs_status s) st) = Inr ()"
          and b: "B = Inr billed"
          and s': "s' = s\<lparr>cs_status := st, cs_partials := ?ps,
             cs_providerCursor := ub_nextCursor batch, cs_droppedUpstreamUrls := d,
             cs_billedAt := billed\<rparr>" "r = Inr (toPublicCrawlJob s')"
          unfolding andThen_Inr_iff bindE_Inr_iff Let_def by blast
        from b have "billed = cs_billedAt s \<and> st = CrawlCrawling \<or> billed \<noteq> None \<and> st = CrawlCompleted"
          unfolding B_def st_def by (cases "toISOString (Some now)") (auto split: if_splits)
        moreover have "st = CrawlCompleted \<or> st = CrawlCrawling" by (simp add: st_def)
        moreover from tr have "cs_status s = st \<or> crawlStatusStep (cs_status s) st"
          by (auto simp: crawlStatusStep_def split: if_splits)
        ultimately show ?thesis using s' ok small live k
          by (intro stored [of d st kept billed]) auto
      qed
    qed
  qed
qed

lemma ingest_ok: "goodCrawl parseUrl (crawl_ingest opts parseUrl now)"
  unfolding goodCrawl_def
proof (intro allI impI)
  fix s s' r
  assume wf: "crawlJobWf parseUrl s" and ing: "crawl_ingest opts parseUrl now s = Inr (s', r)"
  show "crawlJobWf parseUrl s' \<and> crawlEvolves s s'"
    using ing
  proof (cases rule: crawl_ingest_cases)
    case (fetchFailed err)
    with fail_ok wf show ?thesis by blast
  next
    case (breach d msg)
    let ?s1 = "s\<lparr>cs_droppedUpstreamUrls := d\<rparr>"
    have "crawlJobWf parseUrl ?s1" using wf by (simp add: crawlJobWf_def crawlFlagsWf_def)
    moreover have "crawlEvolves s ?s1" using breach(1,2) by (simp add: crawlEvolves_def)
    ultimately show ?thesis
      using fail_ok [OF breach(3)] breach(1) crawlEvolves_trans by simp
  next
    case (stored kept d st cur billed)
    have "crawlFlagsWf s" using wf by (simp add: crawlJobWf_def)
    note l = live_flags [OF this stored(1)]
    have "crawlFlagsWf s'" using l stored(3,8) by (auto simp: stored(9) crawlFlagsWf_def)
    moreover have "partialsWf parseUrl (cs_budgets s') (cs_partials s')"
      using wf stored(5,6,7) by (auto simp: stored(9) partialsWf_def crawlJobWf_def res_simps)
    moreover have "crawlStatusStep\<^sup>*\<^sup>* (cs_status s) st" using stored(4) by auto
    ultimately show ?thesis using stored(1,2) by (simp add: crawlJobWf_def crawlEvolves_def stored(9))
  qed
qed

section \<open>The steps of a manager\<close>

text \<open>The provider may answer differently at every call, so each step has its own.\<close>

inductive crawl_step :: "('s, InternalCrawlJobState) job_port \<Rightarrow> CrawlJobManagerOptions \<Rightarrow> url_parser \<Rightarrow>
    's CrawlJobManager \<Rightarrow> 's CrawlJobManager \<Rightarrow> bool"
  for P opts parseUrl where
  create: "crawl_create P (opts\<lparr>co_provider := prov\<rparr>) parseUrl i now m = (r1, m') \<Longrightarrow>
    crawl_step P opts parseUrl m m'"
| ingest: "crawl_ingestUpstream P (opts\<lparr>co_provider := prov\<rparr>) parseUrl m jobId c now = (r2, m') \<Longrightarrow>
    crawl_step P opts parseUrl m m'"
| cancelCallerWait: "crawl_cancelCallerWait P m jobId c now = (r2, m') \<Longrightarrow>
    crawl_step P opts parseUrl m m'"
| cancelGroundlanePolling: "crawl_cancelGroundlanePolling P m jobId c now = (r2, m') \<Longrightarrow>
    crawl_step P opts parseUrl m m'"
| requestUpstreamCancel:
    "crawl_requestUpstreamCancel P (opts\<lparr>co_provider := prov\<rparr>) m jobId c now = (r3, m') \<Longrightarrow>
    crawl_step P opts parseUrl m m'"

lemma good_crawl_cancels:
  "goodCrawl parseUrl crawl_callerCancelled" "goodCrawl parseUrl crawl_groundlaneCancelled"
  unfolding goodCrawl_def Let_def andThen_Inr_iff validateCrawlStatusTransition_ok
    crawl_callerCancelled_def crawl_groundlaneCancelled_def
  using cancel_ok by (blast, blast)

lemma good_crawl_upstreamCancel: "goodCrawl parseUrl (crawl_upstreamCancelled opts)"
  unfolding goodCrawl_def
proof (intro allI impI)
  fix s s' :: InternalCrawlJobState and r
  assume wf: "crawlJobWf parseUrl s" and "crawl_upstreamCancelled opts s = Inr (s', r)"
  then obtain ack where live: "cs_status s \<notin> set CRAWL_TERMINAL_STATUSES"
    and ack: "(case ack of
         None \<Rightarrow> Inr (s\<lparr>cs_upstreamCancelRequested := True\<rparr>)
       | Some a \<Rightarrow> andThen (validateCrawlStatusTransition (cs_status s) CrawlCancelledByUpstream)
           (Inr (s\<lparr>cs_status := CrawlCancelledByUpstream, cs_upstreamCancelRequested := True,
                   cs_upstreamAcknowledgment := Some a\<rparr>))) = Inr s'"
    by (auto simp: crawl_upstreamCancelled_def bindE_Inr_iff Let_def split: if_splits)
  show "crawlJobWf parseUrl s' \<and> crawlEvolves s s'"
  proof (cases ack)
    case None
    with ack cancel_ok(7,8) [OF wf live] show ?thesis by simp
  next
    case (Some a)
    with ack have "s' = s\<lparr>cs_status := CrawlCancelledByUpstream, cs_upstreamCancelRequested := True,
                   cs_upstreamAcknowledgment := Some a\<rparr>" by (auto simp: andThen_Inr_iff)
    with cancel_ok(5,6) [OF wf live] show ?thesis by simp
  qed
qed

section \<open>A new job\<close>

definition crawlJobId :: "CrawlJobManagerOptions \<Rightarrow> nat \<Rightarrow> string" where
  "crawlJobId opts n = co_jobIdPrefix opts @ padStart 6 (CHR ''0'') (showNat n)"

lemma crawlJobId_inj [simp]: "crawlJobId opts a = crawlJobId opts b \<longleftrightarrow> a = b"
proof
  assume "crawlJobId opts a = crawlJobId opts b"
  then have "parseNat (padStart 6 (CHR ''0'') (showNat a)) = parseNat (padStart 6 (CHR ''0'') (showNat b))"
    by (simp add: crawlJobId_def)
  then show "a = b" by (simp only: parseNat_padStart)
qed simp

lemma crawl_validateBudgets_pos:
  assumes "crawl_validateBudgets b = Inr u"
  shows "1 \<le> cb_maxPages (intBudgets b)" "1 \<le> cb_maxBytes (intBudgets b)"
    "1 \<le> cb_maxOutputChars (intBudgets b)"
  using assms
  by (auto simp: crawl_validateBudgets_def intBudgets_def elim!: isIntegerE split: if_splits)

lemma crawl_newState_ok:
  assumes "crawl_newState opts gid seedUrl key i now = Inr s" "crawl_validateBudgets (cc_budgets i) = Inr ()"
  shows "cs_groundlaneJobId s = gid" "crawlJobWf parseUrl s" "cs_idempotencyKey s = key"
    "cs_ownerId s = cc_ownerId i" "cs_credentialBinding s = cc_credentialBinding i"
    "cs_status s = CrawlCreated" "cs_partials s = []"
proof -
  from assms(1) have
    "cs_groundlaneJobId s = gid \<and> cs_idempotencyKey s = key \<and> cs_ownerId s = cc_ownerId i \<and>
     cs_credentialBinding s = cc_credentialBinding i \<and> cs_status s = CrawlCreated \<and> cs_partials s = [] \<and>
     cs_budgets s = intBudgets (cc_budgets i) \<and> crawlFlagsWf s"
    by (auto simp: crawl_newState_def Let_def res_simps crawlFlagsWf_def)
  with crawl_validateBudgets_pos [OF assms(2)] show "cs_groundlaneJobId s = gid"
    "crawlJobWf parseUrl s" "cs_idempotencyKey s = key"
    "cs_ownerId s = cc_ownerId i" "cs_credentialBinding s = cc_credentialBinding i"
    "cs_status s = CrawlCreated" "cs_partials s = []"
    by (simp_all add: crawlJobWf_def partialsWf_def)
qed

section \<open>The manager over any lawful store\<close>

locale crawl_jobs = job_store P cs_groundlaneJobId cs_idempotencyKey inv empty
  for P :: "('s, InternalCrawlJobState) job_port" and inv :: "'s \<Rightarrow> bool" and empty :: 's
begin

definition managerOk :: "CrawlJobManagerOptions \<Rightarrow> url_parser \<Rightarrow> 's CrawlJobManager \<Rightarrow> bool" where
  "managerOk opts parseUrl m \<longleftrightarrow> inv (cm_store m) \<and>
     (\<forall>k s. port_get P (cm_store m) k = Some s \<longrightarrow>
        crawlJobWf parseUrl s \<and> (\<exists>n < cm_nextId m. k = crawlJobId opts n)) \<and>
     int (port_size P (cm_store m)) \<le> max 0 (co_maxJobs opts)"

lemma managerOk_provider [simp]:
  "managerOk (opts\<lparr>co_provider := prov\<rparr>) parseUrl m \<longleftrightarrow> managerOk opts parseUrl m"
  by (simp add: managerOk_def crawlJobId_def)

definition jobsEvolve :: "'s CrawlJobManager \<Rightarrow> 's CrawlJobManager \<Rightarrow> bool" where
  "jobsEvolve m m' \<longleftrightarrow> (\<forall>k s. port_get P (cm_store m) k = Some s \<longrightarrow>
     (\<exists>s'. port_get P (cm_store m') k = Some s' \<and> crawlEvolves s s'))"

lemma jobsEvolve_refl [simp]: "cm_store m' = cm_store m \<Longrightarrow> jobsEvolve m m'"
  by (simp add: jobsEvolve_def)

lemma jobsEvolve_trans: "jobsEvolve a b \<Longrightarrow> jobsEvolve b c \<Longrightarrow> jobsEvolve a c"
  unfolding jobsEvolve_def by (meson crawlEvolves_trans)

lemma resolve_ok: "crawl_resolve P m jobId c now = Inr s \<longleftrightarrow>
    port_get P (cm_store m) jobId = Some s \<and> cs_ownerId s = ca_ownerId c \<and>
    cs_credentialBinding s = ca_credentialBinding c \<and>
    validateCrawlJobNotExpired (toDurableView s) now = Inr ()"
  by (auto simp: crawl_resolve_def Let_def validateCrawlJobOwnership_def toDurableView_def res_simps
      split: option.splits sum.splits if_splits)

lemma update_cases:
  assumes "crawl_update P m jobId c now f = (r, m')"
  obtains "m' = m" "\<not> is_ok r"
    | s s' where "crawl_resolve P m jobId c now = Inr s" "f s = Inr (s', r)"
        "m' = m\<lparr>cm_store := port_set P (cm_store m) s'\<rparr>"
proof (cases "bindE (crawl_resolve P m jobId c now) f")
  case (Inl e)
  with assms that(1) show ?thesis by (auto simp: crawl_update_def)
next
  case (Inr v)
  obtain s' r' where v: "v = (s', r')" by fastforce
  from Inr obtain s where s: "crawl_resolve P m jobId c now = Inr s" "f s = Inr (s', r')"
    by (auto simp: bindE_Inr_iff v)
  from assms s have "r = r'" "m' = m\<lparr>cm_store := port_set P (cm_store m) s'\<rparr>"
    by (auto simp: crawl_update_def)
  with s that(2) show ?thesis by blast
qed

lemma create_cases:
  assumes "crawl_create P opts parseUrl i now m = (r, m')"
  obtains "cm_store m' = cm_store m" "cm_nextId m \<le> cm_nextId m'"
    | s seedUrl key where "int (port_size P (cm_store m)) < co_maxJobs opts"
        "crawl_createGuards parseUrl i = Inr seedUrl"
        "crawl_newState opts (crawlJobId opts (cm_nextId m)) seedUrl key i now = Inr s"
        "m' = \<lparr>cm_store = port_set P (cm_store m) s, cm_nextId = Suc (cm_nextId m)\<rparr>"
proof (cases "crawl_createGuards parseUrl i")
  case (Inl e)
  with assms that(1) show ?thesis by (simp add: crawl_create_def)
next
  case g: (Inr seedUrl)
  show ?thesis
  proof (cases "crawl_key i")
    case (Inl e)
    with assms g that(1) show ?thesis by (simp add: crawl_create_def)
  next
    case k: (Inr key)
    show ?thesis
    proof (cases "Option.bind key (port_getByIdempotencyKey P (cm_store m))")
      case None
      show ?thesis
        using assms g k None that
        by (cases "crawl_newState opts (crawlJobId opts (cm_nextId m)) seedUrl key i now")
          (auto simp: crawl_create_def Let_def crawlJobId_def [symmetric] split: if_splits)
    next
      case (Some ex)
      with assms g k that(1) show ?thesis by (simp add: crawl_create_def)
    qed
  qed
qed

lemma update_step:
  assumes ok: "managerOk opts parseUrl m" and f: "goodCrawl parseUrl f"
    and upd: "crawl_update P m jobId c now f = (r, m')"
  shows "managerOk opts parseUrl m' \<and> jobsEvolve m m'"
  using upd
proof (cases rule: update_cases)
  case 1
  with ok show ?thesis by simp
next
  case (2 s s')
  from 2(1) have s: "port_get P (cm_store m) jobId = Some s" by (simp add: resolve_ok)
  with ok have i: "inv (cm_store m)" "crawlJobWf parseUrl s" "cs_groundlaneJobId s = jobId"
    by (auto simp: managerOk_def dest: get_id)
  with f 2(2) have n: "crawlJobWf parseUrl s'" "crawlEvolves s s'" by (auto simp: goodCrawl_def)
  then have id: "cs_groundlaneJobId s' = jobId" using i(3) by (simp add: crawlEvolves_def)
  have "port_size P (cm_store m') = port_size P (cm_store m)"
    using s i(1) id by (simp add: 2(3) size_set_old)
  with ok s i n id show ?thesis
    by (auto simp: managerOk_def jobsEvolve_def 2(3) get_set inv_set)
qed

lemma create_step:
  assumes ok: "managerOk opts parseUrl m"
    and cr: "crawl_create P opts parseUrl i now m = (r, m')"
  shows "managerOk opts parseUrl m' \<and> jobsEvolve m m'"
  using cr
proof (cases rule: create_cases)
  case 1
  with ok show ?thesis by (simp add: managerOk_def) (meson order_less_le_trans)
next
  case (2 s seedUrl key)
  from 2(2) have "crawl_validateBudgets (cc_budgets i) = Inr ()"
    by (auto simp: crawl_createGuards_def res_simps split: if_splits)
  note st = crawl_newState_ok [OF 2(3) this]
  from ok have i: "inv (cm_store m)" by (simp add: managerOk_def)
  from ok have fresh: "port_get P (cm_store m) (crawlJobId opts (cm_nextId m)) = None"
    unfolding managerOk_def by (metis crawlJobId_inj less_irrefl option.exhaust)
  with i st(1) have "port_size P (cm_store m') = Suc (port_size P (cm_store m))"
    by (simp add: 2(4) size_set)
  with ok 2(1) i st(1,2) fresh show ?thesis
    by (auto simp: managerOk_def jobsEvolve_def 2(4) get_set inv_set) (meson less_SucI)
qed

lemma step_ok:
  assumes "crawl_step P opts parseUrl m m'" "managerOk opts parseUrl m"
  shows "managerOk opts parseUrl m' \<and> jobsEvolve m m'"
  using assms
proof (induction rule: crawl_step.induct)
  case (create prov i now m r1 m')
  from create(2) have "managerOk (opts\<lparr>co_provider := prov\<rparr>) parseUrl m" by simp
  from create_step [OF this create(1)] show ?case by simp
next
  case (ingest prov m jobId c now r2 m')
  then show ?case
    using update_step [OF _ ingest_ok] by (simp add: crawl_ingestUpstream_def)
next
  case (cancelCallerWait m jobId c now r2 m')
  then show ?case
    using update_step [OF _ good_crawl_cancels(1)] by (simp add: crawl_cancelCallerWait_def)
next
  case (cancelGroundlanePolling m jobId c now r2 m')
  then show ?case
    using update_step [OF _ good_crawl_cancels(2)] by (simp add: crawl_cancelGroundlanePolling_def)
next
  case (requestUpstreamCancel prov m jobId c now r3 m')
  then show ?case
    using update_step [OF _ good_crawl_upstreamCancel] by (simp add: crawl_requestUpstreamCancel_def)
qed

lemma run_ok:
  assumes "(crawl_step P opts parseUrl)\<^sup>*\<^sup>* m m'" "managerOk opts parseUrl m"
  shows "managerOk opts parseUrl m' \<and> jobsEvolve m m'"
  using assms
  by (induction rule: rtranclp_induct) (auto dest: step_ok intro: jobsEvolve_trans)

lemma start_ok: "managerOk opts parseUrl \<lparr>cm_store = empty, cm_nextId = n\<rparr>"
  by (simp add: managerOk_def inv_empty get_empty size_empty)

end

interpretation crawl_mem: crawl_jobs InMemoryCrawlJobStore "memInv cs_groundlaneJobId" memEmpty
  unfolding crawl_jobs_def InMemoryCrawlJobStore_def by (rule job_store_memPort)

end
