(* ===== verification/CrawlProperties.thy ===== *)
theory CrawlProperties
  imports CrawlInvariants AsyncProperties
begin

text \<open>
  The properties of \<open>CrawlJobManager\<close> on its default in-memory store. The example run (create, one
  batch of three pages, then a drained fetch) is what the witnesses use.
\<close>

section \<open>Runs of the manager\<close>

abbreviation "crawlGet m k \<equiv> port_get InMemoryCrawlJobStore (cm_store m) k"

definition crawlStart :: "InternalCrawlJobState mem_store CrawlJobManager" where
  "crawlStart = \<lparr>cm_store = memEmpty, cm_nextId = 1\<rparr>"

definition crawlReachable :: "CrawlJobManagerOptions \<Rightarrow> url_parser \<Rightarrow>
    InternalCrawlJobState mem_store CrawlJobManager \<Rightarrow> bool" where
  "crawlReachable opts parseUrl m \<longleftrightarrow>
     (crawl_step InMemoryCrawlJobStore opts parseUrl)\<^sup>*\<^sup>* crawlStart m"

lemma crawlReachable_ok:
  "crawlReachable opts parseUrl m \<Longrightarrow> crawl_mem.managerOk opts parseUrl m"
  unfolding crawlReachable_def crawlStart_def
  using crawl_mem.run_ok crawl_mem.start_ok by blast

lemma crawlReachable_wf:
  "crawlReachable opts parseUrl m \<Longrightarrow> crawlGet m k = Some s \<Longrightarrow> crawlJobWf parseUrl s"
  using crawlReachable_ok crawl_mem.managerOk_def by blast

lemma crawlReachable_evolves:
  assumes "crawlReachable opts parseUrl m" "crawlGet m k = Some s"
    "(crawl_step InMemoryCrawlJobStore opts parseUrl)\<^sup>*\<^sup>* m m'"
  obtains s' where "crawlGet m' k = Some s'" "crawlEvolves s s'"
  using crawl_mem.run_ok [OF assms(3) crawlReachable_ok [OF assms(1)]] assms(2)
  unfolding crawl_mem.jobsEvolve_def by blast

section \<open>The example run\<close>

definition demoCrawlProvider :: CrawlProviderPort where
  "demoCrawlProvider =
     \<lparr>cpp_startCrawl = \<lambda>_. Inr ''job'',
      cpp_fetchUpstreamPages = \<lambda>_ cur. Inr (if cur = None
        then \<lparr>ub_pages = map (\<lambda>u. \<lparr>up_url = u, up_contentChars = jint 5, up_fetchedAt = ''t''\<rparr>)
               [''https://a/1'', ''ftp://a/2'', ''https://a/3''], ub_nextCursor = Some ''n''\<rparr>
        else \<lparr>ub_pages = [], ub_nextCursor = None\<rparr>),
      cpp_cancelUpstream = \<lambda>_. Inr None\<rparr>"

definition demoCrawlOptions :: CrawlJobManagerOptions where
  "demoCrawlOptions = \<lparr>co_provider = Some demoCrawlProvider, co_maxJobs = 2,
     co_jobIdPrefix = CRAWL_JOB_ID_PREFIX\<rparr>"

definition demoCrawlInput :: CreateCrawlJobInput where
  "demoCrawlInput = \<lparr>cc_ownerId = ''o'', cc_credentialBinding = ''c'', cc_seedUrl = ''https://a/'',
     cc_budgets = \<lparr>cb_maxPages = jint 3, cb_maxBytes = jint 12, cb_maxOutputChars = jint 12\<rparr>,
     cc_ttlSeconds = jint 60, cc_providerId = None, cc_idempotencyKey = None\<rparr>"

definition crawlDemo1 :: "InternalCrawlJobState mem_store CrawlJobManager" where
  "crawlDemo1 = snd (crawl_create InMemoryCrawlJobStore demoCrawlOptions demoParser demoCrawlInput 0 crawlStart)"

definition crawlDemo2 :: "InternalCrawlJobState mem_store CrawlJobManager" where
  "crawlDemo2 = snd (crawl_ingestUpstream InMemoryCrawlJobStore demoCrawlOptions demoParser crawlDemo1
     ''gl-crawl-000001'' demoCaller 10)"

definition crawlDemo3 :: "InternalCrawlJobState mem_store CrawlJobManager" where
  "crawlDemo3 = snd (crawl_ingestUpstream InMemoryCrawlJobStore demoCrawlOptions demoParser crawlDemo2
     ''gl-crawl-000001'' demoCaller 20)"

lemma crawl_ingest_step:
  "crawl_step P opts parseUrl m (snd (crawl_ingestUpstream P opts parseUrl m k c now))"
  by (rule crawl_step.ingest [where prov = "co_provider opts" and jobId = k and c = c and now = now
        and ?r2.0 = "fst (crawl_ingestUpstream P opts parseUrl m k c now)"]) simp

lemma crawl_create_step:
  "crawl_step P opts parseUrl m (snd (crawl_create P opts parseUrl i now m))"
  by (rule crawl_step.create [where prov = "co_provider opts" and i = i and now = now
        and ?r1.0 = "fst (crawl_create P opts parseUrl i now m)"]) simp

lemma crawlDemo_steps:
  "crawl_step InMemoryCrawlJobStore demoCrawlOptions demoParser crawlStart crawlDemo1"
  "crawl_step InMemoryCrawlJobStore demoCrawlOptions demoParser crawlDemo1 crawlDemo2"
  "crawl_step InMemoryCrawlJobStore demoCrawlOptions demoParser crawlDemo2 crawlDemo3"
  unfolding crawlDemo1_def crawlDemo2_def crawlDemo3_def
  by (rule crawl_create_step, rule crawl_ingest_step, rule crawl_ingest_step)

lemma crawlDemo_reachable:
  "crawlReachable demoCrawlOptions demoParser crawlDemo1"
  "crawlReachable demoCrawlOptions demoParser crawlDemo2"
  "crawlReachable demoCrawlOptions demoParser crawlDemo3"
  using crawlDemo_steps unfolding crawlReachable_def
  by (auto intro: rtranclp.rtrancl_into_rtrancl)

lemma crawlDemo_job1: "map_option cs_ownerId (crawlGet crawlDemo1 ''gl-crawl-000001'') = Some ''o''"
  by code_simp

lemma crawlDemo_job2:
  "map_option (\<lambda>s. (cs_status s, map cp_url (cs_partials s), cs_droppedUpstreamUrls s))
     (crawlGet crawlDemo2 ''gl-crawl-000001'') =
   Some (CrawlCrawling, [''https://a/1'', ''https://a/3''], 1)"
  by code_simp

lemma crawlDemo_job3:
  "map_option (\<lambda>s. (cs_status s, cs_groundlaneJobId s)) (crawlGet crawlDemo3 ''gl-crawl-000001'') =
   Some (CrawlCompleted, ''gl-crawl-000001'')"
  by code_simp

section \<open>Budgets and finality\<close>

text \<open>C24. Budgets hold at every moment: each job a reachable manager stores keeps its pages, bytes
  and output characters within its own budgets and within the global cap of partial results, its
  public totals are those of the stored pages, and every stored page URL went through the public
  HTTP(S) check.\<close>

theorem crawl_budgets_hold:
  assumes "crawlReachable opts parseUrl m" and "crawlGet m k = Some s"
  shows "pc_totalPages (toPublicCrawlJob s) = int (length (cs_partials s)) \<and>
    length (cs_partials s) \<le> MAX_CRAWL_PARTIALS \<and>
    pc_totalPages (toPublicCrawlJob s) \<le> cb_maxPages (cs_budgets s) \<and>
    pc_totalBytes (toPublicCrawlJob s) = sum_list (map cp_contentChars (cs_partials s)) \<and>
    pc_totalBytes (toPublicCrawlJob s) \<le> cb_maxBytes (cs_budgets s) \<and>
    pc_totalOutputChars (toPublicCrawlJob s) \<le> cb_maxOutputChars (cs_budgets s) \<and>
    list_all (\<lambda>p. 0 \<le> cp_contentChars p \<and>
      (\<exists>v. assertPublicHttpUrl parseUrl v ''upstream page url'' = Inr (cp_url p))) (cs_partials s)"
  using crawlReachable_wf [OF assms]
  by (simp add: crawlJobWf_def partialsWf_def toPublicCrawlJob_def Let_def totalsOf_eq list_all_iff)

theorem crawl_budgets_hold_witness:
  "\<exists>s. crawlGet crawlDemo2 ''gl-crawl-000001'' = Some s \<and> pc_totalPages (toPublicCrawlJob s) = 2"
proof -
  from crawlDemo_job2 obtain s where s: "crawlGet crawlDemo2 ''gl-crawl-000001'' = Some s"
    "map cp_url (cs_partials s) = [''https://a/1'', ''https://a/3'']" by auto
  from arg_cong [OF s(2), of length] have "length (cs_partials s) = 2" by simp
  with crawl_budgets_hold [OF crawlDemo_reachable(2) s(1)] s(1) show ?thesis by simp
qed

text \<open>A job in a terminal status is frozen: after any further calls the manager still stores
  exactly the same state for it, so partial results, error and billing stay readable as they were.
  A job that is not terminal keeps every partial result it has, in order.\<close>

theorem crawl_terminal_frozen:
  assumes "crawlReachable opts parseUrl m" and "crawlGet m k = Some s"
    and "(crawl_step InMemoryCrawlJobStore opts parseUrl)\<^sup>*\<^sup>* m m'"
  shows "\<exists>s'. crawlGet m' k = Some s' \<and> prefix (cs_partials s) (cs_partials s') \<and>
    (cs_status s \<in> set CRAWL_TERMINAL_STATUSES \<longrightarrow> s' = s)"
proof -
  obtain s' where s': "crawlGet m' k = Some s'" "crawlEvolves s s'"
    using assms by (rule crawlReachable_evolves)
  then show ?thesis by (auto simp: crawlEvolves_def)
qed

theorem crawl_terminal_frozen_witness:
  "\<exists>s s'. crawlGet crawlDemo2 ''gl-crawl-000001'' = Some s \<and>
     crawlGet crawlDemo3 ''gl-crawl-000001'' = Some s' \<and> prefix (cs_partials s) (cs_partials s')"
proof -
  from crawlDemo_job2 obtain s where s: "crawlGet crawlDemo2 ''gl-crawl-000001'' = Some s" by auto
  have "(crawl_step InMemoryCrawlJobStore demoCrawlOptions demoParser)\<^sup>*\<^sup>* crawlDemo2 crawlDemo3"
    using crawlDemo_steps(3) by simp
  from crawl_terminal_frozen [OF crawlDemo_reachable(2) s this] s show ?thesis by blast
qed

section \<open>Failed ingests\<close>

lemma crawl_resolve_code:
  assumes "crawl_resolve P m k c now = Inl (GroundlaneError code st msg retry h)"
  shows "code = INVALID_INPUT \<or> code = DEADLINE_EXCEEDED"
  using assms by (auto simp: crawl_resolve_def Let_def split: option.splits sum.splits if_splits)

lemma toISOString_code: "toISOString d \<noteq> Inl (GroundlaneError code st msg retry h)"
  by (auto simp: toISOString_def split: option.splits)

lemma crawl_fail_eqs:
  assumes "crawl_fail s err now code = Inr (s', r)"
  shows "\<exists>msg. cs_status s' = CrawlFailed \<and> cs_partials s' = cs_partials s \<and>
    cs_sanitizedError s' = Some msg \<and> cs_billedAt s' \<noteq> None \<and>
    r = Inl (GroundlaneError code ''crawl-jobs'' msg (code = UPSTREAM_ERROR) None)"
  using assms by (auto simp: crawl_fail_def Let_def bindE_Inr_iff)

lemma crawl_fail_code:
  "crawl_fail s err now code \<noteq> Inl (GroundlaneError code' st msg retry h)"
  by (auto simp: crawl_fail_def Let_def bindE_Inl_iff toISOString_code split: option.splits)

lemma crawl_ingest_Inl_code:
  assumes "crawl_ingest opts parseUrl now s = Inl (GroundlaneError code st msg retry h)"
  shows "code = INVALID_INPUT"
proof -
  have v: "code = INVALID_INPUT" if "validateCrawlStatusTransition a b =
      Inl (GroundlaneError code st msg retry h)" for a b
    using that by (auto simp: validateCrawlStatusTransition_def split: if_splits)
  have t: "(if d then map_sum id Some (toISOString (Some now)) else Inr x) \<noteq>
      Inl (GroundlaneError code st msg retry h)" for d x
    using toISOString_code [of "Some now" code st msg retry h]
    by (cases "toISOString (Some now)") auto
  from assms show ?thesis
    by (auto simp: crawl_ingest_def Let_def crawl_fail_code andThen_Inl_iff bindE_Inl_iff t
        dest: v split: if_splits sum.splits prod.splits)
qed

text \<open>An ingest that fails on the upstream (\<open>UPSTREAM_ERROR\<close>) or on a budget (\<open>OUTPUT_LIMIT\<close>)
  ends the job and loses nothing: the job was live, is now stored as failed with the message that
  was thrown, is billed, and still holds exactly the partial results it had.\<close>

theorem crawl_failure_keeps_partials:
  assumes "memInv cs_groundlaneJobId (cm_store m)"
    and "crawl_ingestUpstream InMemoryCrawlJobStore opts parseUrl m k c now =
      (Inl (GroundlaneError code stage msg retry h), m')"
    and "code = UPSTREAM_ERROR \<or> code = OUTPUT_LIMIT"
  shows "\<exists>s s'. crawlGet m k = Some s \<and> cs_status s \<notin> set CRAWL_TERMINAL_STATUSES \<and>
    crawlGet m' k = Some s' \<and> cs_status s' = CrawlFailed \<and> cs_partials s' = cs_partials s \<and>
    cs_sanitizedError s' = Some msg \<and> cs_billedAt s' \<noteq> None"
proof -
  let ?e = "GroundlaneError code stage msg retry h"
  have "\<not> (\<exists>e. crawl_resolve InMemoryCrawlJobStore m k c now = Inl e)"
  proof
    assume "\<exists>e. crawl_resolve InMemoryCrawlJobStore m k c now = Inl e"
    then obtain e where r: "crawl_resolve InMemoryCrawlJobStore m k c now = Inl e" ..
    with assms(2) have "e = ?e" by (simp add: crawl_ingestUpstream_def crawl_update_def)
    with r assms(3) crawl_resolve_code show False by blast
  qed
  then obtain s where s: "crawl_resolve InMemoryCrawlJobStore m k c now = Inr s"
    by (cases "crawl_resolve InMemoryCrawlJobStore m k c now") auto
  then have g: "crawlGet m k = Some s" by (simp add: crawl_mem.resolve_ok)
  then have id: "cs_groundlaneJobId s = k" using assms(1) by (rule crawl_mem.get_id [rotated])
  obtain s' r where ing: "crawl_ingest opts parseUrl now s = Inr (s', r)"
  proof (cases "crawl_ingest opts parseUrl now s")
    case (Inl e)
    with assms(2) s have "e = ?e" by (simp add: crawl_ingestUpstream_def crawl_update_def)
    with Inl assms(3) crawl_ingest_Inl_code show ?thesis by blast
  next
    case (Inr v)
    with that show ?thesis by (cases v) auto
  qed
  with assms(2) s have r: "r = Inl ?e" and m': "m' = m\<lparr>cm_store := port_set InMemoryCrawlJobStore (cm_store m) s'\<rparr>"
    by (auto simp: crawl_ingestUpstream_def crawl_update_def)
  have sid: "cs_groundlaneJobId s' = k"
    using ing id by (cases rule: crawl_ingest_cases)
      (auto simp: crawl_fail_def Let_def bindE_Inr_iff)
  then have g': "crawlGet m' k = Some s'" using assms(1) by (simp add: m' crawl_mem.get_set)
  from ing show ?thesis
  proof (cases rule: crawl_ingest_cases)
    case (fetchFailed err)
    from crawl_fail_eqs [OF fetchFailed(2)] r g g' fetchFailed(1) show ?thesis by auto
  next
    case (breach d w)
    from crawl_fail_eqs [OF breach(3)] r g g' breach(1) show ?thesis by auto
  next
    case stored
    with r show ?thesis by simp
  qed
qed

theorem crawl_failure_keeps_partials_witness:
  "\<exists>s'. crawlGet (snd (crawl_ingestUpstream InMemoryCrawlJobStore
       (demoCrawlOptions\<lparr>co_provider := Some (demoCrawlProvider\<lparr>cpp_fetchUpstreamPages :=
          \<lambda>_ _. Inl (ThrownError (JsError ''boom''))\<rparr>)\<rparr>) demoParser crawlDemo2
       ''gl-crawl-000001'' demoCaller 20)) ''gl-crawl-000001'' = Some s' \<and>
     cs_status s' = CrawlFailed \<and> map cp_url (cs_partials s') = [''https://a/1'', ''https://a/3'']"
proof -
  define p where "p = crawl_ingestUpstream InMemoryCrawlJobStore
       (demoCrawlOptions\<lparr>co_provider := Some (demoCrawlProvider\<lparr>cpp_fetchUpstreamPages :=
          \<lambda>_ _. Inl (ThrownError (JsError ''boom''))\<rparr>)\<rparr>) demoParser crawlDemo2
       ''gl-crawl-000001'' demoCaller 20"
  have "map_sum id (\<lambda>_. ()) (fst p) = Inl (GroundlaneError UPSTREAM_ERROR ''crawl-jobs''
      ''Upstream crawl fetch failed: boom'' True None)"
    unfolding p_def by code_simp
  then have p: "p = (Inl (GroundlaneError UPSTREAM_ERROR ''crawl-jobs''
      ''Upstream crawl fetch failed: boom'' True None), snd p)"
    by (cases p; cases "fst p") auto
  have inv: "memInv cs_groundlaneJobId (cm_store crawlDemo2)"
    using crawlReachable_ok [OF crawlDemo_reachable(2)] by (simp add: crawl_mem.managerOk_def)
  from crawl_failure_keeps_partials [OF inv p [unfolded p_def]] crawlDemo_job2
  show ?thesis by auto
qed

section \<open>Reading the results\<close>

text \<open>The client loop over \<open>result\<close>: follow \<open>nextCursor\<close> until it is absent; \<open>None\<close> when the fuel
  ends first or a page is refused.\<close>

fun crawl_readAll :: "InternalCrawlJobState mem_store CrawlJobManager \<Rightarrow> string \<Rightarrow> JobCaller \<Rightarrow> int \<Rightarrow>
    int \<Rightarrow> nat \<Rightarrow> string option \<Rightarrow> CrawlPartialResult list option" where
  "crawl_readAll m k c sz now 0 cursor = None"
| "crawl_readAll m k c sz now (Suc fuel) cursor =
     (case crawl_result InMemoryCrawlJobStore m k c cursor (Some (jint sz)) now of
        Inl _ \<Rightarrow> None
      | Inr page \<Rightarrow> (case rp_nextCursor page of
          None \<Rightarrow> Some (rp_items page)
        | Some nx \<Rightarrow> map_option ((@) (rp_items page)) (crawl_readAll m k c sz now fuel (Some nx))))"

lemma crawl_readAll_from:
  assumes "crawl_resolve InMemoryCrawlJobStore m k c now = Inr s" "1 \<le> sz" "sz \<le> MAX_CRAWL_PAGE_SIZE"
    and "length (cs_partials s) < doubleOverflow"
    and "parseResultCursor cursor = Inr offset" "length (cs_partials s) < offset + fuel"
  shows "crawl_readAll m k c sz now fuel cursor = Some (drop offset (cs_partials s)) \<or> fuel = 0"
  using assms(5,6)
proof (induction fuel arbitrary: cursor offset)
  case (Suc fuel)
  let ?e = "offset + nat sz"
  have pg: "crawl_result InMemoryCrawlJobStore m k c cursor (Some (jint sz)) now =
      Inr \<lparr>rp_job = toPublicCrawlJob s, rp_items = take (nat sz) (drop offset (cs_partials s)),
           rp_nextCursor = (if ?e < length (cs_partials s) then Some (''page:'' @ showNat ?e) else None)\<rparr>"
    using assms(1-3) Suc.prems(1) by (simp add: crawl_result_def Let_def)
  show ?case
  proof (cases "?e < length (cs_partials s)")
    case True
    with assms(4) have "parseResultCursor (Some (''page:'' @ showNat ?e)) = Inr ?e"
      by (intro parseResultCursor_page) simp
    from Suc.IH [OF this] Suc.prems(2) assms(2)
    have "crawl_readAll m k c sz now fuel (Some (''page:'' @ showNat ?e)) =
        Some (drop ?e (cs_partials s))" using True by (cases fuel) auto
    moreover have "take (nat sz) (drop offset (cs_partials s)) @ drop ?e (cs_partials s) =
        drop offset (cs_partials s)"
      by (metis append_take_drop_id drop_drop add.commute)
    ultimately show ?thesis using True by (simp add: pg del: append.simps)
  next
    case False
    then show ?thesis by (simp add: pg)
  qed
qed simp

text \<open>Pagination is complete and exact: for any admitted caller of a reachable manager and any
  legal page size, following \<open>nextCursor\<close> from the start ends after at most one request per partial
  result plus one, and the concatenated pages are exactly the stored partial results.\<close>

theorem crawl_pagination_complete:
  assumes "crawlReachable opts parseUrl m"
    and "crawl_resolve InMemoryCrawlJobStore m k c now = Inr s"
    and "1 \<le> sz" "sz \<le> MAX_CRAWL_PAGE_SIZE"
  shows "crawl_readAll m k c sz now (Suc (length (cs_partials s))) None = Some (cs_partials s)"
proof -
  have "crawlGet m k = Some s" using assms(2) by (simp add: crawl_mem.resolve_ok)
  then have "length (cs_partials s) \<le> MAX_CRAWL_PARTIALS"
    using crawlReachable_wf [OF assms(1)] by (auto simp: crawlJobWf_def partialsWf_def)
  moreover have "MAX_CRAWL_PARTIALS < doubleOverflow"
    unfolding MAX_CRAWL_PARTIALS_def doubleOverflow_def by simp
  ultimately show ?thesis
    using crawl_readAll_from [OF assms(2-4), of None 0 "Suc (length (cs_partials s))"]
    by (simp add: parseResultCursor_def)
qed

theorem crawl_pagination_complete_witness:
  "map_option (map cp_url) (crawl_readAll crawlDemo2 ''gl-crawl-000001'' demoCaller 1 20 3 None) =
     Some [''https://a/1'', ''https://a/3'']"
proof -
  have "map_sum (\<lambda>_. ()) (\<lambda>s. map cp_url (cs_partials s))
      (crawl_resolve InMemoryCrawlJobStore crawlDemo2 ''gl-crawl-000001'' demoCaller 20) =
    Inr [''https://a/1'', ''https://a/3'']" by code_simp
  then obtain s where s: "crawl_resolve InMemoryCrawlJobStore crawlDemo2 ''gl-crawl-000001'' demoCaller 20 = Inr s"
    "map cp_url (cs_partials s) = [''https://a/1'', ''https://a/3'']"
    by (cases "crawl_resolve InMemoryCrawlJobStore crawlDemo2 ''gl-crawl-000001'' demoCaller 20") auto
  from arg_cong [OF s(2), of length] have l: "length (cs_partials s) = 2" by simp
  have "crawl_readAll crawlDemo2 ''gl-crawl-000001'' demoCaller 1 20 (Suc (length (cs_partials s))) None =
      Some (cs_partials s)"
    by (rule crawl_pagination_complete [OF crawlDemo_reachable(2) s(1)])
      (simp_all add: MAX_CRAWL_PAGE_SIZE_def)
  moreover have "Suc (length (cs_partials s)) = 3" using l by simp
  ultimately have "crawl_readAll crawlDemo2 ''gl-crawl-000001'' demoCaller 1 20 3 None =
      Some (cs_partials s)" by (simp only:)
  with s(2) show ?thesis by (simp only: option.map)
qed

section \<open>Isolation and creation\<close>

text \<open>A caller with another owner or credential binding, and any caller after the expiry, is
  refused by every method of the crawl manager, and no method it calls changes the manager.\<close>

theorem crawl_foreign_caller_refused:
  assumes "crawlGet m k = Some s"
    and "cs_ownerId s \<noteq> ca_ownerId c \<or> cs_credentialBinding s \<noteq> ca_credentialBinding c \<or>
         isoExpired (cs_expiresAt s) now"
  shows "\<not> is_ok (crawl_status InMemoryCrawlJobStore m k c now) \<and>
    \<not> is_ok (crawl_result InMemoryCrawlJobStore m k c cursor sz now) \<and>
    (\<exists>e. crawl_ingestUpstream InMemoryCrawlJobStore opts parseUrl m k c now = (Inl e, m)) \<and>
    (\<exists>e. crawl_cancelCallerWait InMemoryCrawlJobStore m k c now = (Inl e, m)) \<and>
    (\<exists>e. crawl_cancelGroundlanePolling InMemoryCrawlJobStore m k c now = (Inl e, m)) \<and>
    (\<exists>e. crawl_requestUpstreamCancel InMemoryCrawlJobStore opts m k c now = (Inl e, m))"
proof -
  obtain e where r: "crawl_resolve InMemoryCrawlJobStore m k c now = Inl e"
    using assms by (cases "crawl_resolve InMemoryCrawlJobStore m k c now")
      (auto simp: crawl_mem.resolve_ok validateCrawlJobNotExpired_def toDurableView_def res_simps)
  show ?thesis
    by (simp add: r crawl_status_def crawl_result_def crawl_ingestUpstream_def
        crawl_cancelCallerWait_def crawl_cancelGroundlanePolling_def
        crawl_requestUpstreamCancel_def crawl_update_def)
qed

theorem crawl_foreign_caller_refused_witness:
  "\<exists>e. crawl_cancelCallerWait InMemoryCrawlJobStore crawlDemo1 ''gl-crawl-000001''
     \<lparr>ca_ownerId = ''x'', ca_credentialBinding = ''c''\<rparr> 0 = (Inl e, crawlDemo1)"
proof -
  from crawlDemo_job1 obtain s where s: "crawlGet crawlDemo1 ''gl-crawl-000001'' = Some s"
    "cs_ownerId s = ''o''" by auto
  with crawl_foreign_caller_refused [OF s(1),
    of "\<lparr>ca_ownerId = ''x'', ca_credentialBinding = ''c''\<rparr>" 0 None None demoCrawlOptions demoParser]
  show ?thesis by simp
qed

text \<open>\<open>create\<close> starts the upstream crawl before it checks the new job's expiry: an admissible
  creation with a TTL below one millisecond gets the truncated expiry \<open>now\<close>, so after
  \<open>startCrawl\<close> has run it throws \<open>Crawl job has expired\<close>, stores no job, and only the id counter
  moves.\<close>

theorem crawl_create_expired_after_start:
  assumes "crawl_createGuards parseUrl i = Inr seedUrl" "cc_idempotencyKey i = None"
    and "int (port_size P (cm_store m)) < co_maxJobs opts"
    and "cc_ttlSeconds i = Num r" "r < 1 / 1000" and "0 \<le> now" "now < maxTime"
    and "co_provider opts = Some prov"
  shows "crawl_create P opts parseUrl i now m =
    (case cpp_startCrawl prov seedUrl of
       Inl e \<Rightarrow> (Inl e, m\<lparr>cm_nextId := Suc (cm_nextId m)\<rparr>)
     | Inr _ \<Rightarrow> (Inl (JsError ''Crawl job has expired''), m\<lparr>cm_nextId := Suc (cm_nextId m)\<rparr>))"
proof -
  have r: "0 < r" using assms(1,4)
    by (auto simp: crawl_createGuards_def bindE_Inr_iff andThen_Inr_iff jle_def split: if_splits)
  have fl: "\<lfloor>of_int now + 1000 * r\<rfloor> = now" using r assms(5) by (simp add: floor_eq_iff)
  have "of_int now + 1000 * r \<le> of_int (now + 1)" using assms(5) by simp
  also have "\<dots> \<le> (of_int maxTime :: rat)" using assms(7) by (simp only: of_int_le_iff)
  finally have t: "timeClip (jadd (jint now) (jscale 1000 (cc_ttlSeconds i))) = Some now"
    using r assms(4,6) fl by simp
  show ?thesis
    using assms(1-3,6-8) t
    by (simp add: crawl_create_def crawl_key_def crawl_newState_def Let_def toISOString_def
        validateCrawlJobOwnership_def toDurableView_def validateCrawlJobNotExpired_def throwIf_def
        split: sum.split)
qed

theorem crawl_create_expired_after_start_witness:
  "crawl_create InMemoryCrawlJobStore demoCrawlOptions demoParser
     (demoCrawlInput\<lparr>cc_ttlSeconds := Num (1 / 2000)\<rparr>) 0 crawlStart =
   (Inl (JsError ''Crawl job has expired''), crawlStart\<lparr>cm_nextId := 2\<rparr>)"
proof -
  let ?i = "demoCrawlInput\<lparr>cc_ttlSeconds := Num (1 / 2000)\<rparr>"
  have g: "crawl_createGuards demoParser ?i = Inr ''https://a/''" by code_simp
  from crawl_create_expired_after_start [OF g, of InMemoryCrawlJobStore crawlStart demoCrawlOptions
      "1 / 2000" 0 demoCrawlProvider]
  show ?thesis
    by (simp add: demoCrawlInput_def demoCrawlOptions_def demoCrawlProvider_def crawlStart_def
        InMemoryCrawlJobStore_def mem_defs maxTime_def)
qed

end
