(* ===== verification/StatefulResources.thy ===== *)
theory StatefulResources
  imports JsPrelude StatusMachine
begin

text \<open>
  \<^verbatim>\<open>src/core/stateful-resources.ts\<close>: the gate for stateful resources and authenticated sessions.
  Every function is pure: a validator returns \<open>Inr ()\<close> or the error it throws. Where a validator
  checks at run time that a string belongs to an enumeration (resource kind, status, notification
  mode, deletion mode), the field is the unchecked string. \<open>Object.keys\<close> of an input object is a
  field or argument of its own, since the object may carry keys its type does not name.
\<close>

section \<open>Data of a stateful resource\<close>

datatype StatefulResourceKind = AuthenticatedSessionKind | Monitor | ScheduledResearch
  | StatefulBrowserSession | Orchestration | CorpusLifecycle | Synthesis | ModelExtraction

fun resourceKindName :: "StatefulResourceKind \<Rightarrow> string" where
  "resourceKindName AuthenticatedSessionKind = ''authenticated_session''"
| "resourceKindName Monitor = ''monitor''"
| "resourceKindName ScheduledResearch = ''scheduled_research''"
| "resourceKindName StatefulBrowserSession = ''stateful_browser_session''"
| "resourceKindName Orchestration = ''orchestration''"
| "resourceKindName CorpusLifecycle = ''corpus_lifecycle''"
| "resourceKindName Synthesis = ''synthesis''"
| "resourceKindName ModelExtraction = ''model_extraction''"

record OwnerBinding =
  ob_ownerId :: string
  ob_principalId :: string

record CredentialBindingRef =
  cbr_credentialId :: string
  cbr_fundingSource :: string
  cbr_objectKeys :: "string list"

record TtlRetention =
  tr_ttlSeconds :: jsnum
  tr_retentionSeconds :: jsnum
  tr_expiresAt :: iso

datatype StatefulResourceStatus = Proposed | PendingApproval | SActive | Suspended | SReleased
  | SExpired | SDeleted

fun statefulStatusName :: "StatefulResourceStatus \<Rightarrow> string" where
  "statefulStatusName Proposed = ''proposed''"
| "statefulStatusName PendingApproval = ''pending_approval''"
| "statefulStatusName SActive = ''active''"
| "statefulStatusName Suspended = ''suspended''"
| "statefulStatusName SReleased = ''released''"
| "statefulStatusName SExpired = ''expired''"
| "statefulStatusName SDeleted = ''deleted''"

datatype StatefulCancelKind = StatefulCallerCancel | StatefulGroundlaneCancel | StatefulUpstreamCancel

fun statefulCancelName :: "StatefulCancelKind \<Rightarrow> string" where
  "statefulCancelName StatefulCallerCancel = ''caller''"
| "statefulCancelName StatefulGroundlaneCancel = ''groundlane''"
| "statefulCancelName StatefulUpstreamCancel = ''upstream''"

definition REQUIRED_CANCEL_KINDS :: "StatefulCancelKind list" where
  "REQUIRED_CANCEL_KINDS = [StatefulCallerCancel, StatefulGroundlaneCancel, StatefulUpstreamCancel]"

record StatusResultCancel =
  sr_status :: string
  sr_resultRef :: "string option"
  sr_cancelKinds :: "StatefulCancelKind list"

record NotificationConfig =
  nc_mode :: string
  nc_webhookUrl :: "string option"

record AbuseControls =
  ac_maxInstancesPerOwner :: jsnum
  ac_maxOperationsPerSession :: jsnum
  ac_requireExplicitOptIn :: bool

record QuotaBillingProvenance =
  qb_providerId :: string
  qb_billedUnits :: jsnum
  qb_billedAt :: "string option"

record DataDeletion =
  dd_onRelease :: string
  dd_retentionAfterReleaseSeconds :: jsnum
  dd_physicalCleanupPending :: bool

record StatefulResourceDefinition =
  sd_kind :: string
  sd_owner :: OwnerBinding
  sd_credentialBinding :: CredentialBindingRef
  sd_ttlRetention :: TtlRetention
  sd_statusResultCancel :: StatusResultCancel
  sd_notification :: NotificationConfig
  sd_abuseControls :: AbuseControls
  sd_quotaBilling :: QuotaBillingProvenance
  sd_dataDeletion :: DataDeletion

definition STATEFUL_MAX_TTL_SECONDS :: int where
  "STATEFUL_MAX_TTL_SECONDS = 30 * 24 * 3600"

definition STATEFUL_MAX_RETENTION_SECONDS :: int where
  "STATEFUL_MAX_RETENTION_SECONDS = 90 * 24 * 3600"

definition CREDENTIAL_SECRET_KEYS :: "string list" where
  "CREDENTIAL_SECRET_KEYS = [''secretValue'', ''secret'', ''token'', ''apiKey'', ''password'',
     ''rawPassword'', ''totpSeed'', ''passkey'', ''cookieSnapshot'', ''storageSnapshot'']"

section \<open>Validators of a stateful resource\<close>

definition validateOwnerBinding :: "OwnerBinding \<Rightarrow> unit res" where
  "validateOwnerBinding owner =
     (if ob_ownerId owner = '''' then Inl (JsError ''ownerId is required for stateful resources'')
      else if ob_principalId owner = ''''
      then Inl (JsError ''principalId is required for stateful resources'')
      else Inr ())"

text \<open>A loop over \<open>Object.keys\<close> that throws at the first key of a forbidden list.\<close>

definition rejectKeys :: "string list \<Rightarrow> (string \<Rightarrow> string) \<Rightarrow> string list \<Rightarrow> unit res" where
  "rejectKeys forbidden message keys =
     (case find (\<lambda>k. k \<in> set forbidden) keys of
        None \<Rightarrow> Inr ()
      | Some k \<Rightarrow> Inl (JsError (message k)))"

definition validateCredentialBindingRef :: "CredentialBindingRef \<Rightarrow> unit res" where
  "validateCredentialBindingRef ref =
     (if cbr_credentialId ref = ''''
      then Inl (JsError ''credentialId is required for stateful resources'')
      else if cbr_fundingSource ref = ''''
      then Inl (JsError ''fundingSource is required for stateful resources'')
      else rejectKeys CREDENTIAL_SECRET_KEYS
        (\<lambda>key. ''credentialBinding must not carry secret value '' @ quoted key @
           ''; bind by credential ID only'') (cbr_objectKeys ref))"

definition validateTtlRetention :: "TtlRetention \<Rightarrow> unit res" where
  "validateTtlRetention ttl =
     (if \<not> isInteger (tr_ttlSeconds ttl) \<or> jle (tr_ttlSeconds ttl) (jint 0)
      then Inl (JsError ''ttlSeconds must be positive'')
      else if jlt (jint STATEFUL_MAX_TTL_SECONDS) (tr_ttlSeconds ttl)
      then Inl (JsError (''ttlSeconds '' @ showInt (toInt (tr_ttlSeconds ttl)) @
        '' exceeds gate maximum '' @ showInt STATEFUL_MAX_TTL_SECONDS))
      else if \<not> isInteger (tr_retentionSeconds ttl) \<or> jlt (tr_retentionSeconds ttl) (jint 0)
      then Inl (JsError ''retentionSeconds must be non-negative'')
      else if jlt (jint STATEFUL_MAX_RETENTION_SECONDS) (tr_retentionSeconds ttl)
      then Inl (JsError (''retentionSeconds '' @ showInt (toInt (tr_retentionSeconds ttl)) @
        '' exceeds gate maximum '' @ showInt STATEFUL_MAX_RETENTION_SECONDS))
      else if isoTime (tr_expiresAt ttl) = None
      then Inl (JsError ''expiresAt must be a valid timestamp'')
      else Inr ())"

definition KNOWN_STATEFUL_STATUSES :: "StatefulResourceStatus list" where
  "KNOWN_STATEFUL_STATUSES =
     [Proposed, PendingApproval, SActive, Suspended, SReleased, SExpired, SDeleted]"

definition validateStatusResultCancel :: "StatusResultCancel \<Rightarrow> unit res" where
  "validateStatusResultCancel status =
     (if sr_status status \<notin> set (map statefulStatusName KNOWN_STATEFUL_STATUSES)
      then Inl (JsError (''Unknown stateful resource status '' @ quoted (sr_status status)))
      else case find (\<lambda>k. k \<notin> set (sr_cancelKinds status)) REQUIRED_CANCEL_KINDS of
        None \<Rightarrow> Inr ()
      | Some required \<Rightarrow> Inl (JsError
          (''cancelKinds must express caller, groundlane, and upstream independently; missing '' @
           quoted (statefulCancelName required))))"

definition validateNotificationConfig :: "url_parser \<Rightarrow> NotificationConfig \<Rightarrow> unit res" where
  "validateNotificationConfig parseUrl config =
     (if nc_mode config = ''webhook''
      then case nc_webhookUrl config of
        None \<Rightarrow> Inl (JsError ''webhookUrl is required when notification mode is webhook'')
      | Some url \<Rightarrow>
          if url = '''' then Inl (JsError ''webhookUrl is required when notification mode is webhook'')
          else (case parseUrl url of
            None \<Rightarrow> Inl (JsError ''webhookUrl must be a valid URL'')
          | Some parsed \<Rightarrow>
              if url_protocol parsed \<noteq> ''https:'' then Inl (JsError ''webhookUrl must use HTTPS'')
              else if url_username parsed \<noteq> '''' \<or> url_password parsed \<noteq> ''''
              then Inl (JsError ''webhookUrl must not contain credentials'')
              else Inr ())
      else if nc_webhookUrl config \<noteq> None
      then Inl (JsError (''webhookUrl must not be set when notification mode is '' @
        quoted (nc_mode config)))
      else Inr ())"

definition validateAbuseControls :: "AbuseControls \<Rightarrow> unit res" where
  "validateAbuseControls controls =
     (if \<not> isInteger (ac_maxInstancesPerOwner controls) \<or> jle (ac_maxInstancesPerOwner controls) (jint 0)
      then Inl (JsError ''maxInstancesPerOwner must be positive'')
      else if \<not> isInteger (ac_maxOperationsPerSession controls) \<or>
        jle (ac_maxOperationsPerSession controls) (jint 0)
      then Inl (JsError ''maxOperationsPerSession must be positive'')
      else if \<not> ac_requireExplicitOptIn controls
      then Inl (JsError ''requireExplicitOptIn must be true for stateful resources'')
      else Inr ())"

definition validateQuotaBillingProvenance :: "QuotaBillingProvenance \<Rightarrow> unit res" where
  "validateQuotaBillingProvenance provenance =
     (if qb_providerId provenance = ''''
      then Inl (JsError ''providerId is required in quota/billing provenance'')
      else if \<not> isFinite (qb_billedUnits provenance) \<or> jlt (qb_billedUnits provenance) (jint 0)
      then Inl (JsError ''billedUnits must be non-negative'')
      else Inr ())"

definition validateDataDeletion :: "DataDeletion \<Rightarrow> unit res" where
  "validateDataDeletion deletion =
     (if dd_onRelease deletion \<noteq> ''delete'' \<and> dd_onRelease deletion \<noteq> ''revoke''
      then Inl (JsError (''Unknown data-deletion onRelease '' @ quoted (dd_onRelease deletion)))
      else if \<not> isInteger (dd_retentionAfterReleaseSeconds deletion) \<or>
        jlt (dd_retentionAfterReleaseSeconds deletion) (jint 0)
      then Inl (JsError ''retentionAfterReleaseSeconds must be non-negative'')
      else Inr ())"

definition KNOWN_RESOURCE_KINDS :: "StatefulResourceKind list" where
  "KNOWN_RESOURCE_KINDS = [AuthenticatedSessionKind, Monitor, ScheduledResearch,
     StatefulBrowserSession, Orchestration, CorpusLifecycle, Synthesis, ModelExtraction]"

definition validateStatefulResourceDefinition ::
  "url_parser \<Rightarrow> StatefulResourceDefinition \<Rightarrow> unit res" where
  "validateStatefulResourceDefinition parseUrl def =
     (if sd_kind def \<notin> set (map resourceKindName KNOWN_RESOURCE_KINDS)
      then Inl (JsError (''Unknown stateful resource kind '' @ quoted (sd_kind def)))
      else andThen (validateOwnerBinding (sd_owner def))
        (andThen (validateCredentialBindingRef (sd_credentialBinding def))
        (andThen (validateTtlRetention (sd_ttlRetention def))
        (andThen (validateStatusResultCancel (sd_statusResultCancel def))
        (andThen (validateNotificationConfig parseUrl (sd_notification def))
        (andThen (validateAbuseControls (sd_abuseControls def))
        (andThen (validateQuotaBillingProvenance (sd_quotaBilling def))
          (validateDataDeletion (sd_dataDeletion def)))))))))"

fun STATEFUL_TRANSITIONS :: "StatefulResourceStatus \<Rightarrow> StatefulResourceStatus list" where
  "STATEFUL_TRANSITIONS Proposed = [PendingApproval, SDeleted]"
| "STATEFUL_TRANSITIONS PendingApproval = [SActive, SDeleted]"
| "STATEFUL_TRANSITIONS SActive = [Suspended, SReleased, SExpired, SDeleted]"
| "STATEFUL_TRANSITIONS Suspended = [SActive, SReleased, SExpired, SDeleted]"
| "STATEFUL_TRANSITIONS SReleased = [SDeleted]"
| "STATEFUL_TRANSITIONS SExpired = [SDeleted]"
| "STATEFUL_TRANSITIONS SDeleted = []"

definition validateStatefulStatusTransition ::
  "StatefulResourceStatus \<Rightarrow> StatefulResourceStatus \<Rightarrow> unit res" where
  "validateStatefulStatusTransition from to =
     (if from = to
      then Inl (JsError (''Status is already '' @ quoted (statefulStatusName from) @
        ''; no transition needed''))
      else if to \<notin> set (STATEFUL_TRANSITIONS from)
      then Inl (JsError (''Invalid stateful resource status transition from '' @
        quoted (statefulStatusName from) @ '' to '' @ quoted (statefulStatusName to)))
      else Inr ())"

definition isStatefulResourceExpired :: "StatefulResourceDefinition \<Rightarrow> int \<Rightarrow> bool" where
  "isStatefulResourceExpired def now = isoExpired (tr_expiresAt (sd_ttlRetention def)) now"

end
