(* ===== verification/AuthenticatedSessions.thy ===== *)
theory AuthenticatedSessions
  imports StatefulResources
begin

text \<open>
  The authenticated-session half of \<^verbatim>\<open>src/core/stateful-resources.ts\<close>: request gate, session
  binding, lease, expiry, status machine, navigation gate and the boundary to the stateless
  \<open>web_fetch\<close>.
\<close>

section \<open>Data\<close>

record SessionGatePolicy =
  gp_allowlistedDomains :: "string list"
  gp_authorizedAccounts :: "string list"

text \<open>The navigation policy holds an unchecked number in a request and an integer, checked by the
  gate, in a session.\<close>

record 'n SessionNavigationPolicy =
  np_mode :: string
  np_maxNavigations :: 'n
  np_allowedDomains :: "string list"

record AuthenticatedSessionRequest =
  rq_domain :: string
  rq_accountId :: string
  rq_loginMode :: string
  rq_mfaRequired :: bool
  rq_profileKind :: string
  rq_principalId :: string
  rq_site :: string
  rq_accountBinding :: string
  rq_leaseHolder :: string
  rq_idleTtlSeconds :: jsnum
  rq_absoluteTtlSeconds :: jsnum
  rq_navigation :: "jsnum SessionNavigationPolicy"
  rq_objectKeys :: "string list"

datatype AuthenticatedSessionStatus = SessPendingLogin | SessActive | SessReleased | SessExpired
  | SessDeleted

fun sessionStatusName :: "AuthenticatedSessionStatus \<Rightarrow> string" where
  "sessionStatusName SessPendingLogin = ''pending_login''"
| "sessionStatusName SessActive = ''active''"
| "sessionStatusName SessReleased = ''released''"
| "sessionStatusName SessExpired = ''expired''"
| "sessionStatusName SessDeleted = ''deleted''"

record AuthenticatedSession =
  se_sessionId :: string
  se_principalId :: string
  se_site :: string
  se_accountId :: string
  se_domain :: string
  se_leaseHolder :: string
  se_idleTtlSeconds :: jsnum
  se_absoluteTtlSeconds :: jsnum
  se_createdAt :: iso
  se_lastActivityAt :: iso
  se_status :: AuthenticatedSessionStatus
  se_profileRef :: "string option"
  se_navigation :: "int SessionNavigationPolicy"
  se_billingProvenance :: QuotaBillingProvenance

record SessionCallerBinding =
  sc_principalId :: string
  sc_site :: string
  sc_accountId :: string

record SessionNavigationRequest =
  nr_url :: string
  nr_method :: string

definition SESSION_MIN_TTL_SECONDS :: int where "SESSION_MIN_TTL_SECONDS = 60"
definition SESSION_MAX_IDLE_TTL_SECONDS :: int where "SESSION_MAX_IDLE_TTL_SECONDS = 30 * 60"
definition SESSION_MAX_ABSOLUTE_TTL_SECONDS :: int where
  "SESSION_MAX_ABSOLUTE_TTL_SECONDS = 8 * 3600"
definition SESSION_MAX_NAVIGATIONS :: int where "SESSION_MAX_NAVIGATIONS = 200"

definition SESSION_FORBIDDEN_MATERIAL_KEYS :: "string list" where
  "SESSION_FORBIDDEN_MATERIAL_KEYS = [''rawPassword'', ''password'', ''totpSeed'', ''totpSecret'',
     ''passkey'', ''privateKey'', ''cookie'', ''cookies'', ''cookieSnapshot'', ''storageSnapshot'',
     ''localStorage'', ''sessionStorage'', ''exportCookies'']"

definition CAPTCHA_BYPASS_KEYS :: "string list" where
  "CAPTCHA_BYPASS_KEYS = [''captchaBypass'', ''captchaSolver'', ''captchaSolution'',
     ''managedChallengeBypass'', ''challengeBypass'', ''undetectable'']"

section \<open>The request gate\<close>

definition assertNoForbiddenSessionMaterial :: "string list \<Rightarrow> unit res" where
  "assertNoForbiddenSessionMaterial keys = rejectKeys SESSION_FORBIDDEN_MATERIAL_KEYS
     (\<lambda>key. ''Session field '' @ quoted key @ '' must never be stored: raw passwords, TOTP seeds, '' @
        ''passkeys, and exportable cookie/storage snapshots are forbidden'') keys"

definition assertNoCaptchaBypassClaim :: "string list \<Rightarrow> unit res" where
  "assertNoCaptchaBypassClaim keys = rejectKeys CAPTCHA_BYPASS_KEYS
     (\<lambda>key. if sublist ''captcha'' (toLowerCase key)
        then ''Session field '' @ quoted key @
          '' rejected: CAPTCHA bypass must not be promised or configured''
        else ''Session field '' @ quoted key @
          '' rejected: managed-challenge bypass must not be promised or configured'') keys"

definition normalizeDomain :: "string \<Rightarrow> string" where
  "normalizeDomain domain = toLowerCase (trim domain)"

definition validateSessionNavigationPolicy ::
  "jsnum SessionNavigationPolicy \<Rightarrow> string \<Rightarrow> unit res" where
  "validateSessionNavigationPolicy navigation sessionDomain =
     (if np_mode navigation \<noteq> ''read-only''
      then Inl (JsError (''Session navigation mode must be '' @ quoted ''read-only'' @ '', got '' @
        quoted (np_mode navigation)))
      else if \<not> isInteger (np_maxNavigations navigation) \<or> jle (np_maxNavigations navigation) (jint 0)
      then Inl (JsError ''maxNavigations must be a positive integer'')
      else if jlt (jint SESSION_MAX_NAVIGATIONS) (np_maxNavigations navigation)
      then Inl (JsError (''maxNavigations '' @ showInt (toInt (np_maxNavigations navigation)) @
        '' exceeds gate maximum '' @ showInt SESSION_MAX_NAVIGATIONS))
      else if np_allowedDomains navigation = []
      then Inl (JsError ''allowedDomains must contain at least the session domain'')
      else if normalizeDomain sessionDomain \<notin> set (map normalizeDomain (np_allowedDomains navigation))
      then Inl (JsError ''allowedDomains must include the session domain'')
      else Inr ())"

text \<open>\<open>!Number.isInteger(n) || n < lo || n > hi\<close>\<close>

definition outsideRange :: "jsnum \<Rightarrow> int \<Rightarrow> int \<Rightarrow> bool" where
  "outsideRange n lo hi \<longleftrightarrow> \<not> isInteger n \<or> jlt n (jint lo) \<or> jlt (jint hi) n"

definition validateAuthenticatedSessionRequest ::
  "AuthenticatedSessionRequest \<Rightarrow> SessionGatePolicy \<Rightarrow> unit res" where
  "validateAuthenticatedSessionRequest req policy =
     andThen (assertNoForbiddenSessionMaterial (rq_objectKeys req))
     (if normalizeDomain (rq_domain req) \<notin> set (map normalizeDomain (gp_allowlistedDomains policy))
      then Inl (JsError (''Session domain '' @ quoted (rq_domain req) @
        '' is not allowlisted for authenticated browsing''))
      else if rq_accountId req \<notin> set (gp_authorizedAccounts policy)
      then Inl (JsError (''Session account '' @ quoted (rq_accountId req) @
        '' is not operator-authorized for authenticated browsing''))
      else if rq_loginMode req \<noteq> ''human-in-the-loop''
      then Inl (JsError
        ''Session loginMode must be human-in-the-loop: interactive login/MFA is required'')
      else if \<not> rq_mfaRequired req
      then Inl (JsError ''mfaRequired must be true for authenticated sessions'')
      else if rq_profileKind req \<noteq> ''provider-owned-opaque''
      then Inl (JsError (''Session profileKind must be provider-owned-opaque: only opaque '' @
        ''provider profile/context references are accepted''))
      else if rq_principalId req = '''' \<or> rq_site req = '''' \<or> rq_accountBinding req = ''''
      then Inl (JsError
        ''principal/site/account binding is required for authenticated sessions'')
      else if rq_accountBinding req \<noteq> rq_accountId req
      then Inl (JsError ''accountBinding must equal the authorized accountId'')
      else if rq_leaseHolder req = ''''
      then Inl (JsError ''leaseHolder is required: sessions run under an exclusive lease'')
      else if outsideRange (rq_idleTtlSeconds req) SESSION_MIN_TTL_SECONDS SESSION_MAX_IDLE_TTL_SECONDS
      then Inl (JsError (''idleTtlSeconds must be an integer in ['' @ showInt SESSION_MIN_TTL_SECONDS @
        '', '' @ showInt SESSION_MAX_IDLE_TTL_SECONDS @ '']''))
      else if outsideRange (rq_absoluteTtlSeconds req) SESSION_MIN_TTL_SECONDS
        SESSION_MAX_ABSOLUTE_TTL_SECONDS
      then Inl (JsError (''absoluteTtlSeconds must be an integer in ['' @
        showInt SESSION_MIN_TTL_SECONDS @ '', '' @ showInt SESSION_MAX_ABSOLUTE_TTL_SECONDS @ '']''))
      else if jlt (rq_absoluteTtlSeconds req) (rq_idleTtlSeconds req)
      then Inl (JsError ''idleTtlSeconds must not exceed absoluteTtlSeconds'')
      else validateSessionNavigationPolicy (rq_navigation req) (rq_domain req))"

section \<open>Binding, lease and expiry\<close>

definition validateSessionBinding :: "AuthenticatedSession \<Rightarrow> SessionCallerBinding \<Rightarrow> unit res" where
  "validateSessionBinding session caller =
     throwIf (se_principalId session \<noteq> sc_principalId caller \<or> se_site session \<noteq> sc_site caller \<or>
         se_accountId session \<noteq> sc_accountId caller)
       (JsError ''Owner mismatch: caller is not bound to this session'')"

definition acquireExclusiveLease :: "string option \<Rightarrow> string \<Rightarrow> string res" where
  "acquireExclusiveLease currentHolder requester =
     (if requester = '''' then Inl (JsError ''lease requester is required'')
      else if currentHolder = None \<or> currentHolder = Some requester then Inr requester
      else Inl (JsError (''Session exclusive lease held by another holder; '' @ quoted requester @
        '' cannot acquire it'')))"

definition sessionAbsoluteExpiryMs :: "AuthenticatedSession \<Rightarrow> jsnum res" where
  "sessionAbsoluteExpiryMs session = (case isoTime (se_createdAt session) of
     None \<Rightarrow> Inl (JsError ''Session createdAt must be a valid timestamp'')
   | Some created \<Rightarrow> Inr (jadd (jint created) (jscale 1000 (se_absoluteTtlSeconds session))))"

definition sessionIdleExpiryMs :: "AuthenticatedSession \<Rightarrow> jsnum res" where
  "sessionIdleExpiryMs session = (case isoTime (se_lastActivityAt session) of
     None \<Rightarrow> Inl (JsError ''Session lastActivityAt must be a valid timestamp'')
   | Some activity \<Rightarrow> Inr (jadd (jint activity) (jscale 1000 (se_idleTtlSeconds session))))"

text \<open>\<open>||\<close> evaluates the idle expiry only when the absolute one has not passed.\<close>

definition isSessionExpired :: "AuthenticatedSession \<Rightarrow> int \<Rightarrow> bool res" where
  "isSessionExpired session now =
     bindE (sessionAbsoluteExpiryMs session) (\<lambda>a.
       if jle a (jint now) then Inr True
       else bindE (sessionIdleExpiryMs session) (\<lambda>i. Inr (jle i (jint now))))"

definition resolveSessionExpiry :: "AuthenticatedSession \<Rightarrow> iso res" where
  "resolveSessionExpiry session =
     bindE (sessionAbsoluteExpiryMs session) (\<lambda>a.
     bindE (sessionIdleExpiryMs session) (\<lambda>i. toISOString (timeClip (jmin a i))))"

section \<open>Status machine\<close>

fun SESSION_TRANSITIONS :: "AuthenticatedSessionStatus \<Rightarrow> AuthenticatedSessionStatus list" where
  "SESSION_TRANSITIONS SessPendingLogin = [SessActive, SessExpired, SessDeleted]"
| "SESSION_TRANSITIONS SessActive = [SessReleased, SessExpired, SessDeleted]"
| "SESSION_TRANSITIONS SessReleased = [SessDeleted]"
| "SESSION_TRANSITIONS SessExpired = [SessDeleted]"
| "SESSION_TRANSITIONS SessDeleted = []"

definition validateSessionStatusTransition ::
  "AuthenticatedSessionStatus \<Rightarrow> AuthenticatedSessionStatus \<Rightarrow> unit res" where
  "validateSessionStatusTransition from to =
     (if from = to
      then Inl (JsError (''Status is already '' @ quoted (sessionStatusName from) @
        ''; no transition needed''))
      else if to \<notin> set (SESSION_TRANSITIONS from)
      then Inl (JsError (''Invalid authenticated session transition from '' @
        quoted (sessionStatusName from) @ '' to '' @ quoted (sessionStatusName to)))
      else Inr ())"

definition releaseAuthenticatedSession :: "AuthenticatedSession \<Rightarrow> AuthenticatedSession res" where
  "releaseAuthenticatedSession session =
     andThen (validateSessionStatusTransition (se_status session) SessReleased)
       (Inr (session\<lparr>se_status := SessReleased\<rparr>))"

definition deleteAuthenticatedSession :: "AuthenticatedSession \<Rightarrow> AuthenticatedSession res" where
  "deleteAuthenticatedSession session =
     andThen (validateSessionStatusTransition (se_status session) SessDeleted)
       (Inr (session\<lparr>se_status := SessDeleted, se_profileRef := None\<rparr>))"

section \<open>Navigation\<close>

definition validateNavigationRequest ::
  "url_parser \<Rightarrow> AuthenticatedSession \<Rightarrow> SessionNavigationRequest \<Rightarrow> int \<Rightarrow> unit res" where
  "validateNavigationRequest parseUrl session req navigationsUsed =
     (if nr_method req \<noteq> ''GET''
      then Inl (JsError (''Session navigation is read-only: method '' @ quoted (nr_method req) @
        '' rejected''))
      else if np_maxNavigations (se_navigation session) \<le> navigationsUsed
      then Inl (JsError (''Session navigation budget exceeded: '' @ showInt navigationsUsed @ '' >= '' @
        showInt (np_maxNavigations (se_navigation session))))
      else case parseUrl (nr_url req) of
        None \<Rightarrow> Inl (JsError ''Session navigation URL must be a valid URL'')
      | Some parsed \<Rightarrow>
          if url_protocol parsed \<noteq> ''https:''
          then Inl (JsError ''Session navigation URL must use HTTPS'')
          else if url_username parsed \<noteq> '''' \<or> url_password parsed \<noteq> ''''
          then Inl (JsError ''Session navigation URL must not contain credentials'')
          else if toLowerCase (url_hostname parsed) \<notin>
            set (map normalizeDomain (np_allowedDomains (se_navigation session)))
          then Inl (JsError (''Session navigation to '' @ quoted (url_hostname parsed) @
            '' is not within session navigation scope''))
          else Inr ())"

section \<open>The stateless boundary\<close>

definition AUTHENTICATED_BROWSING_TOOL_PREFIX :: string where
  "AUTHENTICATED_BROWSING_TOOL_PREFIX = ''authenticated_browse_''"

definition WEB_FETCH_STATELESS_INPUT_KEYS :: "string list" where
  "WEB_FETCH_STATELESS_INPUT_KEYS = [''url'', ''format'', ''selector'', ''waitFor'', ''render'',
     ''timeoutMs'', ''maxBytes'', ''maxOutputChars'']"

definition WEB_FETCH_FORBIDDEN_INPUT_KEYS :: "string list" where
  "WEB_FETCH_FORBIDDEN_INPUT_KEYS = [''sessionId'', ''session'', ''auth'', ''profileRef'',
     ''profile'', ''credentials'', ''cookies'', ''cookieSnapshot'', ''storageSnapshot'',
     ''accountId'', ''loginMode'', ''leaseHolder'']"

definition assertWebFetchInputStateless :: "string list \<Rightarrow> unit res" where
  "assertWebFetchInputStateless keys = rejectKeys WEB_FETCH_FORBIDDEN_INPUT_KEYS
     (\<lambda>key. ''web_fetch input must not contain session/auth field '' @ quoted key @
        ''; authenticated browsing requires a separate explicit opt-in tool'') keys"

definition isAuthenticatedBrowsingTool :: "string \<Rightarrow> bool" where
  "isAuthenticatedBrowsingTool toolName = prefix AUTHENTICATED_BROWSING_TOOL_PREFIX toolName"

datatype tool_family = Stateless | Authenticated

definition validateToolFamilyAssignment :: "string \<Rightarrow> tool_family \<Rightarrow> unit res" where
  "validateToolFamilyAssignment toolName family =
     (let prefixed = isAuthenticatedBrowsingTool toolName in
      if family = Stateless \<and> prefixed
      then Inl (JsError (''Tool '' @ quoted toolName @
        '' carries the authenticated prefix but is assigned to the stateless family; '' @
        ''authenticated browsing requires a separate explicit opt-in tool family''))
      else if family = Authenticated \<and> \<not> prefixed
      then Inl (JsError (''Tool '' @ quoted toolName @ '' lacks the '' @
        quoted AUTHENTICATED_BROWSING_TOOL_PREFIX @ '' prefix; '' @
        ''authenticated browsing requires a separate explicit opt-in tool family''))
      else Inr ())"

end
