(* ===== verification/StatefulProperties.thy ===== *)
theory StatefulProperties
  imports AuthenticatedSessions
begin

text \<open>
  What the stateful-resource gate lets through: the bounds of an accepted resource definition, the
  navigation an accepted session request allows, the expiry of a session, the two status machines
  and the exclusive lease.
\<close>

section \<open>Key lists and ranges\<close>

lemma find_SomeD: "find P xs = Some x \<Longrightarrow> x \<in> set xs \<and> P x"
  by (auto simp: find_Some_iff)

lemma rejectKeys_ok [res_simps]:
  "rejectKeys forbidden msg keys = Inr u \<longleftrightarrow> set keys \<inter> set forbidden = {}"
  by (auto simp: rejectKeys_def find_None_iff dest!: find_SomeD split: option.splits)

lemma outsideRange_iff [simp]: "outsideRange n lo hi \<longleftrightarrow> (\<forall>k. lo \<le> k \<and> k \<le> hi \<longrightarrow> n \<noteq> jint k)"
proof (cases "isInteger n")
  case True
  then obtain k where "n = jint k" by (rule isIntegerE)
  then show ?thesis by (auto simp: outsideRange_def not_less)
next
  case False
  then have "n \<noteq> jint k" for k by auto
  with False show ?thesis by (simp add: outsideRange_def)
qed

lemma navigationPolicy_ok [res_simps]:
  "validateSessionNavigationPolicy nav d = Inr u \<longleftrightarrow>
     np_mode nav = ''read-only'' \<and>
     (\<exists>k. np_maxNavigations nav = jint k \<and> 1 \<le> k \<and> k \<le> SESSION_MAX_NAVIGATIONS) \<and>
     normalizeDomain d \<in> normalizeDomain ` set (np_allowedDomains nav)"
proof (cases "isInteger (np_maxNavigations nav)")
  case True
  then obtain k where "np_maxNavigations nav = jint k" by (rule isIntegerE)
  then show ?thesis by (auto simp: validateSessionNavigationPolicy_def)
next
  case False
  then have "np_maxNavigations nav \<noteq> jint k" for k by auto
  with False show ?thesis by (simp add: validateSessionNavigationPolicy_def)
qed

lemma sessionRequest_ok [res_simps]:
  "validateAuthenticatedSessionRequest req policy = Inr u \<longleftrightarrow>
     set (rq_objectKeys req) \<inter> set SESSION_FORBIDDEN_MATERIAL_KEYS = {} \<and>
     normalizeDomain (rq_domain req) \<in> normalizeDomain ` set (gp_allowlistedDomains policy) \<and>
     rq_accountId req \<in> set (gp_authorizedAccounts policy) \<and>
     rq_loginMode req = ''human-in-the-loop'' \<and> rq_mfaRequired req \<and>
     rq_profileKind req = ''provider-owned-opaque'' \<and>
     rq_principalId req \<noteq> '''' \<and> rq_site req \<noteq> '''' \<and> rq_accountBinding req \<noteq> '''' \<and>
     rq_accountBinding req = rq_accountId req \<and> rq_leaseHolder req \<noteq> '''' \<and>
     \<not> outsideRange (rq_idleTtlSeconds req) SESSION_MIN_TTL_SECONDS SESSION_MAX_IDLE_TTL_SECONDS \<and>
     \<not> outsideRange (rq_absoluteTtlSeconds req) SESSION_MIN_TTL_SECONDS
       SESSION_MAX_ABSOLUTE_TTL_SECONDS \<and>
     \<not> jlt (rq_absoluteTtlSeconds req) (rq_idleTtlSeconds req) \<and>
     validateSessionNavigationPolicy (rq_navigation req) (rq_domain req) = Inr ()"
  unfolding validateAuthenticatedSessionRequest_def assertNoForbiddenSessionMaterial_def
    andThen_Inr_iff rejectKeys_ok
  by (simp del: outsideRange_iff)

lemma navigationRequest_ok [res_simps]:
  "validateNavigationRequest parseUrl s r used = Inr u \<longleftrightarrow>
     nr_method r = ''GET'' \<and> used < np_maxNavigations (se_navigation s) \<and>
     (\<exists>p. parseUrl (nr_url r) = Some p \<and> url_protocol p = ''https:'' \<and> url_username p = '''' \<and>
        url_password p = '''' \<and>
        toLowerCase (url_hostname p) \<in> normalizeDomain ` set (np_allowedDomains (se_navigation s)))"
  by (auto simp: validateNavigationRequest_def split: option.splits)

section \<open>The resource gate\<close>

lemma ttlRetention_ok [res_simps]:
  "validateTtlRetention t = Inr u \<longleftrightarrow>
     (\<exists>k. tr_ttlSeconds t = jint k \<and> 1 \<le> k \<and> k \<le> STATEFUL_MAX_TTL_SECONDS) \<and>
     (\<exists>k. tr_retentionSeconds t = jint k \<and> 0 \<le> k \<and> k \<le> STATEFUL_MAX_RETENTION_SECONDS) \<and>
     isoTime (tr_expiresAt t) \<noteq> None"
proof (cases "isInteger (tr_ttlSeconds t) \<and> isInteger (tr_retentionSeconds t)")
  case True
  then obtain k l where "tr_ttlSeconds t = jint k" "tr_retentionSeconds t = jint l"
    by (auto elim!: isIntegerE)
  then show ?thesis by (auto simp: validateTtlRetention_def)
next
  case False
  then have "(\<forall>k. tr_ttlSeconds t \<noteq> jint k) \<or> (\<forall>k. tr_retentionSeconds t \<noteq> jint k)" by auto
  with False show ?thesis by (auto simp: validateTtlRetention_def)
qed

lemma statusResultCancel_ok [res_simps]:
  "validateStatusResultCancel s = Inr u \<longleftrightarrow>
     sr_status s \<in> statefulStatusName ` set KNOWN_STATEFUL_STATUSES \<and>
     set REQUIRED_CANCEL_KINDS \<subseteq> set (sr_cancelKinds s)"
  by (auto simp: validateStatusResultCancel_def find_None_iff dest!: find_SomeD split: option.splits)

lemma abuseControls_ok [res_simps]:
  "validateAbuseControls c = Inr u \<longleftrightarrow>
     (\<exists>k. ac_maxInstancesPerOwner c = jint k \<and> 1 \<le> k) \<and>
     (\<exists>k. ac_maxOperationsPerSession c = jint k \<and> 1 \<le> k) \<and> ac_requireExplicitOptIn c"
proof (cases "isInteger (ac_maxInstancesPerOwner c) \<and> isInteger (ac_maxOperationsPerSession c)")
  case True
  then obtain k l where "ac_maxInstancesPerOwner c = jint k" "ac_maxOperationsPerSession c = jint l"
    by (auto elim!: isIntegerE)
  then show ?thesis by (auto simp: validateAbuseControls_def)
next
  case False
  then have "(\<forall>k. ac_maxInstancesPerOwner c \<noteq> jint k) \<or> (\<forall>k. ac_maxOperationsPerSession c \<noteq> jint k)"
    by auto
  with False show ?thesis by (auto simp: validateAbuseControls_def)
qed

text \<open>A resource definition the gate accepts is bounded and accountable: it has an owner and a
  principal, binds a credential by id and carries no secret key, lives at most 30 days and is kept
  at most 90, expresses all three cancel kinds, has positive instance and operation limits behind an
  explicit opt-in, notifies only an HTTPS URL without credentials, and expires exactly from its
  timestamp on.\<close>

theorem stateful_definition_bounded:
  assumes "validateStatefulResourceDefinition parseUrl def = Inr ()"
  shows "ob_ownerId (sd_owner def) \<noteq> '''' \<and> ob_principalId (sd_owner def) \<noteq> '''' \<and>
    cbr_credentialId (sd_credentialBinding def) \<noteq> '''' \<and>
    set (cbr_objectKeys (sd_credentialBinding def)) \<inter> set CREDENTIAL_SECRET_KEYS = {} \<and>
    (\<exists>k. tr_ttlSeconds (sd_ttlRetention def) = jint k \<and> 1 \<le> k \<and> k \<le> 30 * 24 * 3600) \<and>
    (\<exists>k. tr_retentionSeconds (sd_ttlRetention def) = jint k \<and> 0 \<le> k \<and> k \<le> 90 * 24 * 3600) \<and>
    set (sr_cancelKinds (sd_statusResultCancel def)) = UNIV \<and>
    (\<exists>k. ac_maxInstancesPerOwner (sd_abuseControls def) = jint k \<and> 1 \<le> k) \<and>
    (\<exists>k. ac_maxOperationsPerSession (sd_abuseControls def) = jint k \<and> 1 \<le> k) \<and>
    ac_requireExplicitOptIn (sd_abuseControls def) \<and>
    (case nc_webhookUrl (sd_notification def) of None \<Rightarrow> True
     | Some url \<Rightarrow> \<exists>u. parseUrl url = Some u \<and> url_protocol u = ''https:'' \<and>
         url_username u = '''' \<and> url_password u = '''') \<and>
    (\<exists>t. isoTime (tr_expiresAt (sd_ttlRetention def)) = Some t \<and>
       isStatefulResourceExpired def = (\<lambda>now. t \<le> now))"
proof -
  from assms have v: "validateOwnerBinding (sd_owner def) = Inr ()"
    "validateCredentialBindingRef (sd_credentialBinding def) = Inr ()"
    "validateTtlRetention (sd_ttlRetention def) = Inr ()"
    "validateStatusResultCancel (sd_statusResultCancel def) = Inr ()"
    "validateNotificationConfig parseUrl (sd_notification def) = Inr ()"
    "validateAbuseControls (sd_abuseControls def) = Inr ()"
    by (auto simp: validateStatefulResourceDefinition_def andThen_Inr_iff split: if_splits)
  have "ob_ownerId (sd_owner def) \<noteq> '''' \<and> ob_principalId (sd_owner def) \<noteq> ''''"
    using v(1) by (auto simp: validateOwnerBinding_def split: if_splits)
  moreover have "cbr_credentialId (sd_credentialBinding def) \<noteq> '''' \<and>
      set (cbr_objectKeys (sd_credentialBinding def)) \<inter> set CREDENTIAL_SECRET_KEYS = {}"
    using v(2) by (auto simp: validateCredentialBindingRef_def rejectKeys_ok split: if_splits)
  moreover have "set (sr_cancelKinds (sd_statusResultCancel def)) = UNIV"
  proof -
    have "k \<in> set REQUIRED_CANCEL_KINDS" for k by (cases k) (simp_all add: REQUIRED_CANCEL_KINDS_def)
    with v(4) show ?thesis by (auto simp: statusResultCancel_ok)
  qed
  moreover have "case nc_webhookUrl (sd_notification def) of None \<Rightarrow> True
     | Some url \<Rightarrow> \<exists>u. parseUrl url = Some u \<and> url_protocol u = ''https:'' \<and>
         url_username u = '''' \<and> url_password u = ''''"
    using v(5) by (auto simp: validateNotificationConfig_def split: if_splits option.splits)
  moreover obtain t where "isoTime (tr_expiresAt (sd_ttlRetention def)) = Some t"
    using v(3) by (auto simp: ttlRetention_ok)
  moreover from this have "isStatefulResourceExpired def = (\<lambda>now. t \<le> now)"
    by (simp add: isStatefulResourceExpired_def isoExpired_def fun_eq_iff)
  ultimately show ?thesis
    using v(3,6) unfolding ttlRetention_ok abuseControls_ok STATEFUL_MAX_TTL_SECONDS_def
      STATEFUL_MAX_RETENTION_SECONDS_def by blast
qed

definition demoResource :: StatefulResourceDefinition where
  "demoResource =
     \<lparr>sd_kind = ''monitor'', sd_owner = \<lparr>ob_ownerId = ''o'', ob_principalId = ''p''\<rparr>,
      sd_credentialBinding = \<lparr>cbr_credentialId = ''c'', cbr_fundingSource = ''f'',
        cbr_objectKeys = [''credentialId'', ''fundingSource'']\<rparr>,
      sd_ttlRetention = \<lparr>tr_ttlSeconds = jint 60, tr_retentionSeconds = jint 0, tr_expiresAt = Iso 5\<rparr>,
      sd_statusResultCancel = \<lparr>sr_status = ''active'', sr_resultRef = None,
        sr_cancelKinds = REQUIRED_CANCEL_KINDS\<rparr>,
      sd_notification = \<lparr>nc_mode = ''none'', nc_webhookUrl = None\<rparr>,
      sd_abuseControls = \<lparr>ac_maxInstancesPerOwner = jint 1, ac_maxOperationsPerSession = jint 9,
        ac_requireExplicitOptIn = True\<rparr>,
      sd_quotaBilling = \<lparr>qb_providerId = ''x'', qb_billedUnits = jint 0, qb_billedAt = None\<rparr>,
      sd_dataDeletion = \<lparr>dd_onRelease = ''delete'', dd_retentionAfterReleaseSeconds = jint 0,
        dd_physicalCleanupPending = False\<rparr>\<rparr>"

theorem stateful_definition_bounded_witness:
  "isStatefulResourceExpired demoResource = (\<lambda>now. 5 \<le> now)"
proof -
  have "validateStatefulResourceDefinition (\<lambda>_. None) demoResource = Inr ()" by code_simp
  from stateful_definition_bounded [OF this] show ?thesis by (auto simp: demoResource_def)
qed

section \<open>The session gate\<close>

definition checkedNavigation :: "jsnum SessionNavigationPolicy \<Rightarrow> int SessionNavigationPolicy" where
  "checkedNavigation nav = \<lparr>np_mode = np_mode nav, np_maxNavigations = toInt (np_maxNavigations nav),
     np_allowedDomains = np_allowedDomains nav\<rparr>"

text \<open>The session gate is usable and bounded end to end: when a request is accepted and a
  session carries its navigation policy, a \<open>GET\<close> over HTTPS without credentials to the session's own
  allowlisted domain is admitted for exactly the first \<open>maxNavigations\<close> navigations, and there are
  between 1 and 200 of them.\<close>

theorem session_gate_navigations:
  assumes "validateAuthenticatedSessionRequest req policy = Inr ()"
    and "se_navigation s = checkedNavigation (rq_navigation req)"
    and "parseUrl url = Some u" "url_protocol u = ''https:''" "url_username u = ''''"
      "url_password u = ''''" "toLowerCase (url_hostname u) = normalizeDomain (rq_domain req)"
  shows "\<exists>n. 1 \<le> n \<and> n \<le> 200 \<and> np_maxNavigations (rq_navigation req) = jint n \<and>
    toLowerCase (url_hostname u) \<in> normalizeDomain ` set (gp_allowlistedDomains policy) \<and>
    rq_accountId req \<in> set (gp_authorizedAccounts policy) \<and>
    {used. is_ok (validateNavigationRequest parseUrl s \<lparr>nr_url = url, nr_method = ''GET''\<rparr> used)} =
      {..< n}"
proof -
  from assms(1) obtain n where n: "np_maxNavigations (rq_navigation req) = jint n" "1 \<le> n"
    "n \<le> SESSION_MAX_NAVIGATIONS"
    and d: "normalizeDomain (rq_domain req) \<in> normalizeDomain ` set (np_allowedDomains (rq_navigation req))"
    "normalizeDomain (rq_domain req) \<in> normalizeDomain ` set (gp_allowlistedDomains policy)"
    "rq_accountId req \<in> set (gp_authorizedAccounts policy)"
    unfolding sessionRequest_ok navigationPolicy_ok by blast
  have "is_ok (validateNavigationRequest parseUrl s \<lparr>nr_url = url, nr_method = ''GET''\<rparr> used) \<longleftrightarrow>
      used < n" for used
    using assms(2-7) n(1) d(1) by (simp add: is_ok_iff navigationRequest_ok checkedNavigation_def)
  with n d assms(7) show ?thesis by (auto simp: SESSION_MAX_NAVIGATIONS_def)
qed

text \<open>The gate does not tie the navigation scope to the operator allowlist: an accepted request
  stays accepted when any further host is added to its navigation domains, and a session that
  carries that policy may then navigate there.\<close>

theorem session_scope_escapes_allowlist:
  assumes "validateAuthenticatedSessionRequest req policy = Inr ()"
    and "req' = req\<lparr>rq_navigation := (rq_navigation req)\<lparr>np_allowedDomains :=
           host # np_allowedDomains (rq_navigation req)\<rparr>\<rparr>"
    and "se_navigation s = checkedNavigation (rq_navigation req')"
    and "parseUrl url = Some u" "url_protocol u = ''https:''" "url_username u = ''''"
      "url_password u = ''''" "toLowerCase (url_hostname u) = normalizeDomain host"
  shows "validateAuthenticatedSessionRequest req' policy = Inr () \<and>
    validateNavigationRequest parseUrl s \<lparr>nr_url = url, nr_method = ''GET''\<rparr> 0 = Inr ()"
proof -
  from assms(1) obtain n where n: "np_maxNavigations (rq_navigation req) = jint n" "1 \<le> n"
    unfolding sessionRequest_ok navigationPolicy_ok by blast
  have "validateAuthenticatedSessionRequest req' policy = Inr ()"
    using assms(1) unfolding sessionRequest_ok navigationPolicy_ok
    by (elim conjE) (simp add: assms(2) del: outsideRange_iff)
  moreover have "validateNavigationRequest parseUrl s \<lparr>nr_url = url, nr_method = ''GET''\<rparr> 0 = Inr ()"
    using assms(3-8) n by (simp add: navigationRequest_ok checkedNavigation_def assms(2))
  ultimately show ?thesis ..
qed

definition demoSessionRequest :: AuthenticatedSessionRequest where
  "demoSessionRequest =
     \<lparr>rq_domain = '' App.example.com'', rq_accountId = ''a'', rq_loginMode = ''human-in-the-loop'',
      rq_mfaRequired = True, rq_profileKind = ''provider-owned-opaque'', rq_principalId = ''p'',
      rq_site = ''s'', rq_accountBinding = ''a'', rq_leaseHolder = ''h'', rq_idleTtlSeconds = jint 60,
      rq_absoluteTtlSeconds = jint 120,
      rq_navigation = \<lparr>np_mode = ''read-only'', np_maxNavigations = jint 3,
        np_allowedDomains = [''app.example.com'']\<rparr>,
      rq_objectKeys = [''domain'', ''accountId'']\<rparr>"

definition demoPolicy :: SessionGatePolicy where
  "demoPolicy = \<lparr>gp_allowlistedDomains = [''app.example.com''], gp_authorizedAccounts = [''a'']\<rparr>"

definition demoSession :: "jsnum SessionNavigationPolicy \<Rightarrow> AuthenticatedSession" where
  "demoSession nav =
     \<lparr>se_sessionId = ''s1'', se_principalId = ''p'', se_site = ''s'', se_accountId = ''a'',
      se_domain = ''app.example.com'', se_leaseHolder = ''h'', se_idleTtlSeconds = jint 60,
      se_absoluteTtlSeconds = jint 120, se_createdAt = Iso 0, se_lastActivityAt = Iso 90000,
      se_status = SessActive, se_profileRef = Some ''r'', se_navigation = checkedNavigation nav,
      se_billingProvenance = \<lparr>qb_providerId = ''x'', qb_billedUnits = jint 0, qb_billedAt = None\<rparr>\<rparr>"

definition httpsParser :: url_parser where
  "httpsParser s = Some \<lparr>url_protocol = ''https:'', url_username = '''', url_password = '''',
     url_hostname = drop 8 s, url_href = s\<rparr>"

lemma demoSessionRequest_ok: "validateAuthenticatedSessionRequest demoSessionRequest demoPolicy = Inr ()"
  by code_simp

theorem session_gate_navigations_witness:
  "\<exists>n. n \<le> 200 \<and> {used. is_ok (validateNavigationRequest httpsParser
     (demoSession (rq_navigation demoSessionRequest))
     \<lparr>nr_url = ''https://app.example.com'', nr_method = ''GET''\<rparr> used)} = {..< n}"
proof -
  have d: "toLowerCase ''app.example.com'' = normalizeDomain (rq_domain demoSessionRequest)" by code_simp
  from session_gate_navigations [OF demoSessionRequest_ok,
      of "demoSession (rq_navigation demoSessionRequest)" httpsParser "''https://app.example.com''"] d
  show ?thesis by (auto simp: demoSession_def httpsParser_def)
qed

theorem session_scope_escapes_allowlist_witness:
  "validateNavigationRequest httpsParser (demoSession (rq_navigation (demoSessionRequest
       \<lparr>rq_navigation := (rq_navigation demoSessionRequest)\<lparr>np_allowedDomains :=
          ''evil.net'' # np_allowedDomains (rq_navigation demoSessionRequest)\<rparr>\<rparr>)))
     \<lparr>nr_url = ''https://evil.net'', nr_method = ''GET''\<rparr> 0 = Inr ()"
proof -
  have d: "toLowerCase ''evil.net'' = normalizeDomain ''evil.net''" by code_simp
  from session_scope_escapes_allowlist [OF demoSessionRequest_ok refl, of "demoSession
      (rq_navigation (demoSessionRequest\<lparr>rq_navigation := (rq_navigation demoSessionRequest)
         \<lparr>np_allowedDomains := ''evil.net'' # np_allowedDomains (rq_navigation demoSessionRequest)\<rparr>\<rparr>))"
      "''evil.net''" httpsParser "''https://evil.net''"] d
  show ?thesis by (auto simp: demoSession_def httpsParser_def)
qed

section \<open>Expiry\<close>

text \<open>The published expiry is the moment the session stops being live: for an accepted pair of
  TTLs and valid timestamps \<open>resolveSessionExpiry\<close> prints the instant from which \<open>isSessionExpired\<close>
  holds, that instant is never later than eight hours after creation nor thirty minutes after the
  last activity, and every later moment is expired too.\<close>

theorem session_expiry_exact:
  assumes "\<not> outsideRange (se_idleTtlSeconds s) SESSION_MIN_TTL_SECONDS SESSION_MAX_IDLE_TTL_SECONDS"
    and "\<not> outsideRange (se_absoluteTtlSeconds s) SESSION_MIN_TTL_SECONDS
      SESSION_MAX_ABSOLUTE_TTL_SECONDS"
    and "se_createdAt s = Iso c" "se_lastActivityAt s = Iso a"
    and "resolveSessionExpiry s = Inr e"
  shows "\<exists>t. e = Iso t \<and> t \<le> c + 8 * 3600 * 1000 \<and> t \<le> a + 30 * 60 * 1000 \<and>
    isSessionExpired s = (\<lambda>now. Inr (t \<le> now))"
proof -
  from assms(1,2) obtain i b where ib: "se_idleTtlSeconds s = jint i" "i \<le> 30 * 60"
    "se_absoluteTtlSeconds s = jint b" "b \<le> 8 * 3600"
    by (auto simp: SESSION_MAX_IDLE_TTL_SECONDS_def SESSION_MAX_ABSOLUTE_TTL_SECONDS_def)
  have A: "sessionAbsoluteExpiryMs s = Inr (jint (c + 1000 * b))"
    using ib assms(3) by (simp add: sessionAbsoluteExpiryMs_def)
  have I: "sessionIdleExpiryMs s = Inr (jint (a + 1000 * i))"
    using ib assms(4) by (simp add: sessionIdleExpiryMs_def)
  let ?t = "min (c + 1000 * b) (a + 1000 * i)"
  have m: "jmin (jint (c + 1000 * b)) (jint (a + 1000 * i)) = jint ?t"
    by (simp add: jmin_def min_def jle_def)
  have "e = Iso ?t"
    using assms(5) unfolding resolveSessionExpiry_def A I bindE.simps m
    by (auto simp: toISOString_def split: option.splits if_splits)
  moreover have "isSessionExpired s = (\<lambda>now. Inr (?t \<le> now))"
    unfolding isSessionExpired_def A I by (auto simp: fun_eq_iff jle_def)
  ultimately show ?thesis using ib by (intro exI [of _ ?t]) auto
qed

theorem session_expiry_exact_witness:
  "isSessionExpired (demoSession (rq_navigation demoSessionRequest)) = (\<lambda>now. Inr (120000 \<le> now))"
proof -
  let ?s = "demoSession (rq_navigation demoSessionRequest)"
  have r: "resolveSessionExpiry ?s = Inr (Iso 120000)" by code_simp
  have "\<not> outsideRange (jint 60) SESSION_MIN_TTL_SECONDS SESSION_MAX_IDLE_TTL_SECONDS"
    "\<not> outsideRange (jint 120) SESSION_MIN_TTL_SECONDS SESSION_MAX_ABSOLUTE_TTL_SECONDS"
    by code_simp+
  then show ?thesis
    using session_expiry_exact [of ?s 0 90000, OF _ _ _ _ r] by (simp add: demoSession_def)
qed

section \<open>Status machines\<close>

definition sessionStep :: "AuthenticatedSessionStatus \<Rightarrow> AuthenticatedSessionStatus \<Rightarrow> bool" where
  "sessionStep a b \<longleftrightarrow> validateSessionStatusTransition a b = Inr ()"

definition statefulStep :: "StatefulResourceStatus \<Rightarrow> StatefulResourceStatus \<Rightarrow> bool" where
  "statefulStep a b \<longleftrightarrow> validateStatefulStatusTransition a b = Inr ()"

fun sessionRank :: "AuthenticatedSessionStatus \<Rightarrow> nat" where
  "sessionRank SessPendingLogin = 0"
| "sessionRank SessActive = 1"
| "sessionRank SessReleased = 2"
| "sessionRank SessExpired = 2"
| "sessionRank SessDeleted = 3"

fun statefulRank :: "StatefulResourceStatus \<Rightarrow> nat" where
  "statefulRank Proposed = 0"
| "statefulRank PendingApproval = 1"
| "statefulRank SActive = 2"
| "statefulRank Suspended = 2"
| "statefulRank SReleased = 3"
| "statefulRank SExpired = 3"
| "statefulRank SDeleted = 4"

lemma sessionStep_iff: "sessionStep a b \<longleftrightarrow> b \<in> set (SESSION_TRANSITIONS a)"
  by (cases a) (auto simp: sessionStep_def validateSessionStatusTransition_def)

lemma statefulStep_iff: "statefulStep a b \<longleftrightarrow> b \<in> set (STATEFUL_TRANSITIONS a)"
  by (cases a) (auto simp: statefulStep_def validateStatefulStatusTransition_def)

interpretation session_status: ranked_machine sessionStep sessionRank "\<lambda>s. s = SessDeleted"
proof unfold_locales
  fix a b
  assume "sessionStep a b"
  then show "sessionRank a \<le> sessionRank b" "a \<noteq> SessDeleted" "sessionRank a < sessionRank b"
    by (cases a; auto simp: sessionStep_iff)+
qed

interpretation stateful_status: status_machine statefulStep statefulRank "\<lambda>s. s = SDeleted"
proof unfold_locales
  fix a b
  assume "statefulStep a b"
  then show "statefulRank a \<le> statefulRank b" "a \<noteq> SDeleted"
    by (cases a; auto simp: statefulStep_iff)+
qed

lemma release_ok [res_simps]:
  "releaseAuthenticatedSession s = Inr s' \<longleftrightarrow>
     se_status s = SessActive \<and> s' = s\<lparr>se_status := SessReleased\<rparr>"
  by (cases "se_status s")
    (auto simp: releaseAuthenticatedSession_def validateSessionStatusTransition_def)

lemma delete_ok [res_simps]:
  "deleteAuthenticatedSession s = Inr s' \<longleftrightarrow>
     se_status s \<noteq> SessDeleted \<and> s' = s\<lparr>se_status := SessDeleted, se_profileRef := None\<rparr>"
  by (cases "se_status s")
    (auto simp: deleteAuthenticatedSession_def validateSessionStatusTransition_def)

text \<open>The life of a session and of a resource is one-way: a session makes at most three status
  changes, is never active again once released or expired, and stays deleted; a resource may cycle
  between active and suspended but is never live again once released, expired or deleted. Every
  session that is not deleted can be deleted, which drops its profile reference, and then neither
  release nor delete is accepted.\<close>

theorem session_life_one_way:
  assumes "(sessionStep ^^ n) a b" and "statefulStep\<^sup>*\<^sup>* p q"
    and "deleteAuthenticatedSession s = r"
  shows "n \<le> 3 \<and> (a \<in> {SessReleased, SessExpired, SessDeleted} \<longrightarrow> b \<noteq> SessActive) \<and>
    (a = SessDeleted \<longrightarrow> b = SessDeleted) \<and>
    (p \<in> {SReleased, SExpired, SDeleted} \<longrightarrow> q \<in> {SReleased, SExpired, SDeleted}) \<and>
    (is_ok r \<longleftrightarrow> se_status s \<noteq> SessDeleted) \<and>
    (\<forall>s'. r = Inr s' \<longrightarrow> se_profileRef s' = None \<and> \<not> is_ok (releaseAuthenticatedSession s') \<and>
       \<not> is_ok (deleteAuthenticatedSession s'))"
proof -
  have "sessionRank a + n \<le> sessionRank b" using assms(1) by (rule session_status.run_length)
  moreover have "sessionRank b \<le> 3" by (cases b) simp_all
  moreover have "statefulRank p \<le> statefulRank q" using assms(2) by (rule stateful_status.run_rank)
  moreover have "a = SessDeleted \<longrightarrow> b = SessDeleted"
    using session_status.run_terminal relpowp_imp_rtranclp [OF assms(1)] by blast
  moreover have "is_ok r \<longleftrightarrow> se_status s \<noteq> SessDeleted"
    using assms(3) by (auto simp: is_ok_iff delete_ok)
  moreover have "\<forall>s'. r = Inr s' \<longrightarrow> se_profileRef s' = None \<and>
      \<not> is_ok (releaseAuthenticatedSession s') \<and> \<not> is_ok (deleteAuthenticatedSession s')"
    using assms(3) by (auto simp: is_ok_iff delete_ok release_ok)
  ultimately show ?thesis by (cases p; cases q) auto
qed

theorem session_life_one_way_witness:
  "\<not> is_ok (deleteAuthenticatedSession ((demoSession (rq_navigation demoSessionRequest))
     \<lparr>se_status := SessDeleted, se_profileRef := None\<rparr>))"
proof -
  have n: "(sessionStep ^^ 1) SessPendingLogin SessActive"
    by (auto simp: sessionStep_iff)
  have q: "statefulStep\<^sup>*\<^sup>* SActive Suspended"
    by (rule r_into_rtranclp) (simp add: statefulStep_iff)
  from session_life_one_way [OF n q refl, of "demoSession (rq_navigation demoSessionRequest)"]
  show ?thesis by (auto simp: demoSession_def is_ok_iff delete_ok)
qed

section \<open>The exclusive lease\<close>

text \<open>A sequence of acquisition attempts: a success sets the holder, a failure leaves it.\<close>

fun leaseRun :: "string option \<Rightarrow> string list \<Rightarrow> string option" where
  "leaseRun holder [] = holder"
| "leaseRun holder (r # rs) = leaseRun
     (case acquireExclusiveLease holder r of Inl _ \<Rightarrow> holder | Inr h \<Rightarrow> Some h) rs"

text \<open>The lease is exclusive under every sequence of attempts: the first non-empty requester
  gets it, nobody else ever does, and at any later point exactly the holder can re-enter.\<close>

theorem lease_exclusive:
  "leaseRun None rs = find (\<lambda>r. r \<noteq> '''') rs \<and>
   (case leaseRun None rs of
      None \<Rightarrow> {r. is_ok (acquireExclusiveLease (leaseRun None rs) r)} = UNIV - {''''}
    | Some h \<Rightarrow> {r. is_ok (acquireExclusiveLease (leaseRun None rs) r)} = {h})"
proof -
  have held: "leaseRun (Some h) rs = Some h" for h rs
    by (induction rs) (auto simp: acquireExclusiveLease_def)
  have run: "leaseRun None rs = find (\<lambda>r. r \<noteq> '''') rs"
    by (induction rs) (auto simp: acquireExclusiveLease_def held)
  show ?thesis
    by (auto simp: run acquireExclusiveLease_def is_ok_iff dest!: find_SomeD split: option.splits if_splits)
qed

section \<open>The stateless boundary\<close>

lemma tool_family_unique:
  "is_ok (validateToolFamilyAssignment t Stateless) \<longleftrightarrow>
   \<not> is_ok (validateToolFamilyAssignment t Authenticated)"
  by (simp add: validateToolFamilyAssignment_def Let_def)

lemma web_fetch_keys_accepted:
  "set keys \<subseteq> set WEB_FETCH_STATELESS_INPUT_KEYS \<Longrightarrow> assertWebFetchInputStateless keys = Inr ()"
  unfolding assertWebFetchInputStateless_def rejectKeys_ok
  by (auto simp: WEB_FETCH_STATELESS_INPUT_KEYS_def WEB_FETCH_FORBIDDEN_INPUT_KEYS_def)

end
