(* ===== verification/UploadIntent.thy ===== *)
theory UploadIntent
  imports JsPrelude StatusMachine "HOL-Library.Word"
begin

text \<open>
  \<^verbatim>\<open>src/core/upload-intent.ts\<close>: the upload intent and artifact reference contracts, and the upload
  flow runtime over a blob storage port. Sizes and times are integers, as the flow checks them on
  input. Bytes are lists of 8-bit words. The hex digests of \<open>node:crypto\<close> are a parameter of type
  \<open>upload_hash\<close>, one function for text and one for bytes.
\<close>

type_synonym bytes = "8 word list"

record upload_hash =
  hashText :: "string \<Rightarrow> string"
  hashBytes :: "bytes \<Rightarrow> string"

section \<open>Upload intents\<close>

datatype UploadIntentStatus = IntentPending | IntentUploading | IntentCompleting | IntentFinalized
  | IntentExpired | IntentFailed

fun intentStatusName :: "UploadIntentStatus \<Rightarrow> string" where
  "intentStatusName IntentPending = ''pending''"
| "intentStatusName IntentUploading = ''uploading''"
| "intentStatusName IntentCompleting = ''completing''"
| "intentStatusName IntentFinalized = ''finalized''"
| "intentStatusName IntentExpired = ''expired''"
| "intentStatusName IntentFailed = ''failed''"

record UploadIntent =
  ui_intentId :: string
  ui_ownershipScope :: string
  ui_declaredMime :: string
  ui_declaredSize :: int
  ui_maxSize :: int
  ui_expectedDigest :: "string option"
  ui_expiresAt :: int
  ui_status :: UploadIntentStatus
  ui_multipart :: bool

record CompleteUploadRequest =
  cu_intentId :: string
  cu_actualSize :: int
  cu_sniffedMime :: string
  cu_contentHash :: string

definition UPLOAD_INTENT_DEFAULT_TTL_MS :: int where
  "UPLOAD_INTENT_DEFAULT_TTL_MS = 15 * 60 * 1000"

definition validateCreateIntent :: "UploadIntent \<Rightarrow> int \<Rightarrow> unit res" where
  "validateCreateIntent intent nowMs =
     (if ui_intentId intent = ''''
      then Inl (JsError ''Upload intent must have a non-empty intentId'')
      else if ui_ownershipScope intent = ''''
      then Inl (JsError ''Upload intent must have a non-empty ownershipScope'')
      else if ui_declaredSize intent \<le> 0
      then Inl (JsError ''Upload intent declaredSize must be positive'')
      else if ui_declaredSize intent > ui_maxSize intent
      then Inl (JsError (''Declared size '' @ showInt (ui_declaredSize intent) @
        '' exceeds max size '' @ showInt (ui_maxSize intent)))
      else if ui_expiresAt intent \<le> nowMs
      then Inl (JsError ''Upload intent is already expired at creation time'')
      else if ui_multipart intent
      then Inl (JsError ''V1 only supports single PUT upload; multipart is rejected'')
      else Inr ())"

definition validateCompleteUpload ::
  "UploadIntent \<Rightarrow> CompleteUploadRequest \<Rightarrow> int \<Rightarrow> unit res" where
  "validateCompleteUpload intent req nowMs =
     (if nowMs \<ge> ui_expiresAt intent then Inl (JsError ''Upload intent has expired'')
      else if ui_status intent = IntentFinalized
      then Inl (JsError ''Cannot overwrite a finalized staging object'')
      else if ui_status intent = IntentExpired then Inl (JsError ''Upload intent has expired'')
      else if ui_status intent = IntentFailed then Inl (JsError ''Upload intent has failed'')
      else if ui_status intent \<noteq> IntentUploading \<and> ui_status intent \<noteq> IntentPending
      then Inl (JsError (''Upload intent is in unexpected status: '' @
        quoted (intentStatusName (ui_status intent))))
      else if cu_intentId req \<noteq> ui_intentId intent
      then Inl (JsError ''Intent ID mismatch: possible replay attack'')
      else if cu_actualSize req > ui_maxSize intent
      then Inl (JsError (''Actual size '' @ showInt (cu_actualSize req) @
        '' exceeds max size '' @ showInt (ui_maxSize intent)))
      else if ui_expectedDigest intent \<noteq> None \<and>
        Some (cu_contentHash req) \<noteq> ui_expectedDigest intent
      then Inl (JsError (''Content hash mismatch: expected '' @
        quoted (the (ui_expectedDigest intent)) @ '', got '' @ quoted (cu_contentHash req)))
      else if cu_sniffedMime req \<noteq> ui_declaredMime intent
      then Inl (JsError (''MIME type mismatch: declared '' @ quoted (ui_declaredMime intent) @
        '', sniffed '' @ quoted (cu_sniffedMime req)))
      else Inr ())"

definition validateCrossOwnership :: "UploadIntent \<Rightarrow> string \<Rightarrow> unit res" where
  "validateCrossOwnership intent callerScope =
     throwIf (ui_ownershipScope intent \<noteq> callerScope)
       (JsError (''Cross-ownership access denied: intent scope '' @
         quoted (ui_ownershipScope intent) @ '' does not match caller scope '' @ quoted callerScope))"

section \<open>Artifact references\<close>

datatype ArtifactKind = SourceArtifact | CanonicalDocumentArtifact | ProjectionArtifact

fun artifactKindName :: "ArtifactKind \<Rightarrow> string" where
  "artifactKindName SourceArtifact = ''source''"
| "artifactKindName CanonicalDocumentArtifact = ''canonical_document''"
| "artifactKindName ProjectionArtifact = ''projection''"

datatype RetentionPolicy = TransientRetention | RetainedRetention | PermanentRetention

text \<open>The kind is checked at run time, so the field is the unchecked string.\<close>

record ArtifactRef =
  ar_refId :: string
  ar_artifactKind :: string
  ar_ownershipScope :: string
  ar_contentHash :: string
  ar_byteSize :: int
  ar_createdAt :: int
  ar_expiresAt :: int
  ar_retentionPolicy :: RetentionPolicy
  ar_verified :: bool

definition VERIFIED_ARTIFACT_DEFAULT_TTL_MS :: int where
  "VERIFIED_ARTIFACT_DEFAULT_TTL_MS = 24 * 60 * 60 * 1000"

definition isHexLower :: "char \<Rightarrow> bool" where
  "isHexLower c \<longleftrightarrow> c \<in> set ''0123456789abcdef''"

definition R2_KEY_RE :: "string \<Rightarrow> bool" where
  "R2_KEY_RE s \<longleftrightarrow> length s \<ge> 69 \<and> list_all isHexLower (take 32 s) \<and> s ! 32 = CHR ''/'' \<and>
     list_all (\<lambda>c. isHexLower c \<or> c = CHR ''-'') (take 36 (drop 33 s))"

text \<open>The search for \<open>[?&](name)=\<close> at any position, case insensitive.\<close>

definition presignedAt :: "string \<Rightarrow> bool" where
  "presignedAt s = (case s of
     c # rest \<Rightarrow> (c = CHR ''?'' \<or> c = CHR ''&'') \<and>
       list_ex (\<lambda>name. prefix name (toLowerCase rest))
         [''x-amz-credential='', ''x-goog-credential='', ''sig='', ''se='']
   | [] \<Rightarrow> False)"

definition PRESIGNED_URL_RE :: "string \<Rightarrow> bool" where
  "PRESIGNED_URL_RE s \<longleftrightarrow> list_ex presignedAt (suffixes s)"

definition isAsciiLetter :: "char \<Rightarrow> bool" where
  "isAsciiLetter c \<longleftrightarrow> c \<in> set ''ABCDEFGHIJKLMNOPQRSTUVWXYZabcdefghijklmnopqrstuvwxyz''"

definition FILESYSTEM_PATH_RE :: "string \<Rightarrow> bool" where
  "FILESYSTEM_PATH_RE s \<longleftrightarrow> prefix ''/'' s \<or> prefix [CHR 0x5C] s \<or>
     (length s \<ge> 3 \<and> isAsciiLetter (s ! 0) \<and> s ! 1 = CHR '':'' \<and> s ! 2 = CHR 0x5C)"

definition PROVIDER_NATIVE_ID_RE :: "string \<Rightarrow> bool" where
  "PROVIDER_NATIVE_ID_RE s \<longleftrightarrow> prefix ''arn:'' s \<or> prefix ''projects/'' s \<or> prefix ''accounts/'' s"

definition validateArtifactRefId :: "string \<Rightarrow> unit res" where
  "validateArtifactRefId refId =
     (if refId = '''' then Inl (JsError ''ArtifactRef must have a non-empty refId'')
      else if R2_KEY_RE refId then Inl (JsError ''ArtifactRef refId must not be an R2 key pattern'')
      else if PRESIGNED_URL_RE refId
      then Inl (JsError ''ArtifactRef refId must not be a presigned URL'')
      else if FILESYSTEM_PATH_RE refId
      then Inl (JsError ''ArtifactRef refId must not be a filesystem path'')
      else if PROVIDER_NATIVE_ID_RE refId
      then Inl (JsError ''ArtifactRef refId must not be a provider-native ID'')
      else Inr ())"

definition createArtifactRef :: "ArtifactRef \<Rightarrow> ArtifactRef res" where
  "createArtifactRef params =
     (if \<not> ar_verified params
      then Inl (JsError ''Cannot create ArtifactRef from unverified upload'')
      else andThen (validateArtifactRefId (ar_refId params)) (Inr params))"

record DeploymentExpiryBounds =
  eb_minTtlMs :: int
  eb_maxTtlMs :: int
  eb_operatorCapMs :: "int option"

definition resolveEffectiveExpiry :: "int \<Rightarrow> DeploymentExpiryBounds \<Rightarrow> int \<Rightarrow> int" where
  "resolveEffectiveExpiry callerTtlMs bounds createdAt =
     (let e1 = (if callerTtlMs < eb_minTtlMs bounds then eb_minTtlMs bounds else callerTtlMs);
          e2 = (if e1 > eb_maxTtlMs bounds then eb_maxTtlMs bounds else e1);
          e3 = (case eb_operatorCapMs bounds of
                  None \<Rightarrow> e2 | Some cap \<Rightarrow> if e2 > cap then cap else e2)
      in createdAt + e3)"

section \<open>Processing, handoff and staging contracts\<close>

record ArtifactProcessingPolicy =
  ap_autoExtendRetention :: bool
  ap_autoEnrollCorpus :: bool

definition DEFAULT_ARTIFACT_PROCESSING_POLICY :: ArtifactProcessingPolicy where
  "DEFAULT_ARTIFACT_PROCESSING_POLICY =
     \<lparr>ap_autoExtendRetention = False, ap_autoEnrollCorpus = False\<rparr>"

datatype CleanupAction = CancelCleanup string | FailureCleanup string | ExpiryCleanup
  | DeleteCleanup | OrphanCleanup int

definition validateArtifactProcessingPolicy :: "ArtifactProcessingPolicy \<Rightarrow> unit res" where
  "validateArtifactProcessingPolicy policy =
     (if ap_autoExtendRetention policy
      then Inl (JsError
        ''autoExtendRetention must be false: processing must not auto-extend retention'')
      else if ap_autoEnrollCorpus policy
      then Inl (JsError ''autoEnrollCorpus must be false: processing must not auto-enroll corpus'')
      else Inr ())"

record UrlProcessingOutput =
  uo_requestedUrl :: string
  uo_finalUrl :: string
  uo_fetchedAt :: int
  uo_contentHash :: string
  uo_validator :: string
  uo_redirectChain :: "string list"
  uo_engine :: string
  uo_truncated :: bool
  uo_truncationReason :: "string option"

definition validateSourceIdentityConsistency ::
  "UrlProcessingOutput \<Rightarrow> UrlProcessingOutput \<Rightarrow> unit res" where
  "validateSourceIdentityConsistency original refetch =
     throwIf (uo_contentHash original \<noteq> uo_contentHash refetch)
       (JsError (''Source identity mismatch: content changed between fetches '' @
         ''(original hash '' @ quoted (uo_contentHash original) @ '', refetch hash '' @
         quoted (uo_contentHash refetch) @ '')''))"

datatype UploadMethod = DirectUpload | CliUpload | DashboardUpload

record UploadHandoffSupport =
  uh_clientId :: string
  uh_supportsUploadHandoff :: bool
  uh_fallbackMethod :: "UploadMethod option"

definition resolveUploadMethod :: "UploadHandoffSupport \<Rightarrow> UploadMethod res" where
  "resolveUploadMethod client =
     (if uh_supportsUploadHandoff client then Inr DirectUpload
      else case uh_fallbackMethod client of
        Some m \<Rightarrow> Inr m
      | None \<Rightarrow> Inl (JsError (''Client '' @ quoted (uh_clientId client) @
          '' does not support upload handoff and has no fallback method'')))"

datatype StagingCleanupStatus = StagingActive | LogicallyDeleted | LogicallyExpired
  | PhysicalCleanupPending | Cleaned

fun stagingStatusName :: "StagingCleanupStatus \<Rightarrow> string" where
  "stagingStatusName StagingActive = ''active''"
| "stagingStatusName LogicallyDeleted = ''logically_deleted''"
| "stagingStatusName LogicallyExpired = ''logically_expired''"
| "stagingStatusName PhysicalCleanupPending = ''physical_cleanup_pending''"
| "stagingStatusName Cleaned = ''cleaned''"

definition STAGING_CLEANUP_WINDOW_MS :: int where
  "STAGING_CLEANUP_WINDOW_MS = 3600000"

definition validateCleanupWindow :: "int \<Rightarrow> unit res" where
  "validateCleanupWindow windowMs =
     (if windowMs > STAGING_CLEANUP_WINDOW_MS
      then Inl (JsError (''Staging cleanup window '' @ showInt windowMs @ ''ms exceeds maximum '' @
        showInt STAGING_CLEANUP_WINDOW_MS @ ''ms''))
      else if windowMs \<le> 0 then Inl (JsError ''Staging cleanup window must be positive'')
      else Inr ())"

record StagingObject =
  so_intentId :: string
  so_status :: StagingCleanupStatus
  so_accessRevoked :: bool

definition applyExplicitDelete :: "StagingObject \<Rightarrow> StagingObject" where
  "applyExplicitDelete staging = staging\<lparr>so_status := LogicallyDeleted, so_accessRevoked := True\<rparr>"

fun STAGING_TRANSITIONS :: "StagingCleanupStatus \<Rightarrow> StagingCleanupStatus list" where
  "STAGING_TRANSITIONS StagingActive =
     [LogicallyDeleted, LogicallyExpired, PhysicalCleanupPending]"
| "STAGING_TRANSITIONS LogicallyDeleted = [PhysicalCleanupPending]"
| "STAGING_TRANSITIONS LogicallyExpired = [PhysicalCleanupPending]"
| "STAGING_TRANSITIONS PhysicalCleanupPending = [Cleaned]"
| "STAGING_TRANSITIONS Cleaned = []"

definition validateStagingTransition ::
  "StagingCleanupStatus \<Rightarrow> StagingCleanupStatus \<Rightarrow> unit res" where
  "validateStagingTransition from to =
     throwIf (to \<notin> set (STAGING_TRANSITIONS from))
       (JsError (''Invalid staging status transition: '' @ quoted (stagingStatusName from) @
         '' -> '' @ quoted (stagingStatusName to)))"

definition validateResultArtifactRef :: "ArtifactRef \<Rightarrow> unit res" where
  "validateResultArtifactRef ref =
     andThen (validateArtifactRefId (ar_refId ref))
     (if ar_artifactKind ref \<notin> set [''source'', ''canonical_document'', ''projection'']
      then Inl (JsError (''Invalid artifactKind: '' @ quoted (ar_artifactKind ref)))
      else if \<not> ar_verified ref then Inl (JsError ''Result ArtifactRef must be verified'')
      else Inr ())"

definition validateDocumentSourceArtifactKind :: "ArtifactKind \<Rightarrow> unit res" where
  "validateDocumentSourceArtifactKind kind =
     throwIf (kind \<noteq> SourceArtifact)
       (JsError (''DocumentSource.artifact only accepts artifactKind='' @ quoted ''source'' @
         '', got '' @ quoted (artifactKindName kind)))"

end
