(* ===== verification/UploadFlow.thy ===== *)
theory UploadFlow
  imports UploadIntent
begin

text \<open>
  The upload flow runtime of \<^verbatim>\<open>src/core/upload-intent.ts\<close>: content sniffing, the blob storage port
  with its laws and its in-memory implementation, and \<open>UploadFlowStore\<close>. A method returns its result
  or exception with the store it leaves. The mutation of a stored intent object is an update of the
  intent map.
\<close>

section \<open>Input checks\<close>

definition MAX_UPLOAD_BYTES :: int where "MAX_UPLOAD_BYTES = 10 * 1024 * 1024"
definition MAX_UPLOAD_TTL_MS :: int where "MAX_UPLOAD_TTL_MS = 60 * 60 * 1000"
definition MAX_INTENT_ID_CHARS :: nat where "MAX_INTENT_ID_CHARS = 128"
definition MAX_MIME_CHARS :: nat where "MAX_MIME_CHARS = 128"
definition MAX_OWNERSHIP_SCOPE_CHARS :: nat where "MAX_OWNERSHIP_SCOPE_CHARS = 64"
definition MAX_STAGING_ENTRIES :: nat where "MAX_STAGING_ENTRIES = 1000"

definition OOXML_MIMES :: "string list" where
  "OOXML_MIMES =
    [''application/vnd.openxmlformats-officedocument.wordprocessingml.document'',
     ''application/vnd.openxmlformats-officedocument.spreadsheetml.sheet'',
     ''application/vnd.openxmlformats-officedocument.presentationml.presentation'']"

definition ALLOWED_UPLOAD_MIMES :: "string list" where
  "ALLOWED_UPLOAD_MIMES =
     [''application/pdf'', ''image/png'', ''image/jpeg'', ''image/jpg'', ''image/webp'', ''image/gif''] @
     OOXML_MIMES @
     [''application/msword'', ''application/vnd.ms-excel'', ''application/vnd.ms-powerpoint'',
      ''text/plain'', ''text/markdown'', ''text/csv'', ''text/html'',
      ''audio/mpeg'', ''audio/ogg'', ''audio/wav'']"

record CreateUploadIntentInput =
  ii_ownershipScope :: string
  ii_declaredMime :: string
  ii_declaredSize :: jsnum
  ii_maxSize :: "jsnum option"
  ii_expectedDigest :: "string option"
  ii_ttlMs :: "jsnum option"
  ii_intentId :: "string option"
  ii_multipart :: "bool option"

record FinalizeOverrides =
  fo_contentHash :: "string option"
  fo_sniffedMime :: "string option"

definition uploadInputError :: "string \<Rightarrow> string \<Rightarrow> string \<Rightarrow> exn" where
  "uploadInputError message hintCode hintText =
     GroundlaneError INVALID_INPUT ''upload-intent'' message False (Some (Hint hintCode hintText))"

definition assertBoundedOwnershipScope :: "string \<Rightarrow> unit res" where
  "assertBoundedOwnershipScope scope =
     (if scope = '''' \<or> trim scope = ''''
      then Inl (uploadInputError ''Upload intent must have a non-empty ownershipScope''
        ''upload.invalid_input'' ''Provide a non-empty ownershipScope for the upload intent.'')
      else if length scope > MAX_OWNERSHIP_SCOPE_CHARS
      then Inl (uploadInputError ''ownershipScope exceeds maximum length''
        ''upload.output_limit'' ''Use an ownershipScope under 64 characters.'')
      else Inr ())"

definition assertUploadMime :: "string \<Rightarrow> string res" where
  "assertUploadMime mime =
     (let trimmed = trim mime in
      if trimmed = ''''
      then Inl (uploadInputError ''Upload intent must declare a MIME type''
        ''upload.invalid_mime'' ''Declare one of the supported document MIME types.'')
      else if length trimmed > MAX_MIME_CHARS
      then Inl (uploadInputError ''Declared MIME type exceeds maximum length''
        ''upload.output_limit'' ''Use a supported MIME type under 128 characters.'')
      else if trimmed \<notin> set ALLOWED_UPLOAD_MIMES
      then Inl (uploadInputError (''Unsupported upload MIME type '' @ quoted trimmed)
        ''upload.unsupported_mime''
        ''Use one of the supported PDF, image, Office, text, HTML, or audio MIME types.'')
      else Inr trimmed)"

section \<open>Sniffing\<close>

text \<open>\<open>data[i] === b\<close> for the offsets from \<open>i\<close> on\<close>

definition bytesAt :: "bytes \<Rightarrow> nat \<Rightarrow> bytes \<Rightarrow> bool" where
  "bytesAt data i pat \<longleftrightarrow> prefix pat (drop i data)"

definition asciiBytes :: "string \<Rightarrow> bytes" where
  "asciiBytes s = map of_char s"

definition sniffUploadMime :: "bytes \<Rightarrow> string option" where
  "sniffUploadMime data =
     (if length data \<ge> 4 \<and> bytesAt data 0 [0x25, 0x50, 0x44, 0x46] then Some ''application/pdf''
      else if length data \<ge> 8 \<and> bytesAt data 0 [0x89, 0x50, 0x4e, 0x47] then Some ''image/png''
      else if length data \<ge> 3 \<and> bytesAt data 0 [0xff, 0xd8, 0xff] then Some ''image/jpeg''
      else if length data \<ge> 6 \<and>
        (bytesAt data 0 (asciiBytes ''GIF87a'') \<or> bytesAt data 0 (asciiBytes ''GIF89a''))
      then Some ''image/gif''
      else if length data \<ge> 12 \<and> bytesAt data 0 [0x52, 0x49, 0x46, 0x46] \<and>
        bytesAt data 8 [0x57, 0x45, 0x42, 0x50]
      then Some ''image/webp''
      else if length data \<ge> 4 \<and> bytesAt data 0 [0x50, 0x4b, 0x03, 0x04]
      then Some ''application/zip''
      else if length data \<ge> 8 \<and> bytesAt data 0 [0xd0, 0xcf, 0x11, 0xe0]
      then Some ''application/x-ole-storage''
      else if length data \<ge> 2 \<and> bytesAt data 0 [0x1f, 0x8b] then Some ''application/gzip''
      else None)"

definition normalizeMimeForCompare :: "string \<Rightarrow> string" where
  "normalizeMimeForCompare mime = (if mime = ''image/jpg'' then ''image/jpeg'' else mime)"

definition isOoxmlMime :: "string \<Rightarrow> bool" where
  "isOoxmlMime mime \<longleftrightarrow> mime \<in> set OOXML_MIMES"

definition checkSniffMatchesDeclared :: "string option \<Rightarrow> string \<Rightarrow> unit res" where
  "checkSniffMatchesDeclared sniffedOpt declared = (case sniffedOpt of
     None \<Rightarrow> Inr ()
   | Some sniffed \<Rightarrow>
       if sniffed = ''application/gzip''
       then Inl (uploadInputError ''Archive content rejected on complete''
         ''upload.archive_rejected'' ''Upload a single document instead of an archive.'')
       else if sniffed = ''application/zip''
       then throwIf (\<not> isOoxmlMime declared) (uploadInputError
         (''MIME type mismatch: declared '' @ quoted declared @ '' does not match archive content'')
         ''upload.mime_mismatch''
         ''Declare the matching Office MIME type or upload a non-archive document.'')
       else if sniffed = ''application/x-ole-storage''
       then throwIf (declared \<noteq> ''application/msword'' \<and> declared \<noteq> ''application/vnd.ms-excel'' \<and>
           declared \<noteq> ''application/vnd.ms-powerpoint'') (uploadInputError
         (''MIME type mismatch: declared '' @ quoted declared @
          '' does not match legacy Office content'')
         ''upload.mime_mismatch'' ''Declare the matching legacy Office MIME type.'')
       else throwIf (normalizeMimeForCompare declared \<noteq> normalizeMimeForCompare sniffed)
         (uploadInputError
           (''MIME type mismatch: declared '' @ quoted declared @ '', sniffed '' @ quoted sniffed)
           ''upload.mime_mismatch''
           ''Re-upload with the declared MIME type matching the file bytes.''))"

definition hashUploadBytes :: "upload_hash \<Rightarrow> bytes \<Rightarrow> string" where
  "hashUploadBytes H b = ''sha256-'' @ hashBytes H b"

section \<open>The blob storage port\<close>

record 's blob_port =
  bp_putStaging :: "'s \<Rightarrow> string \<Rightarrow> bytes \<Rightarrow> 's res"
  bp_getStaging :: "'s \<Rightarrow> string \<Rightarrow> bytes option"
  bp_deleteStaging :: "'s \<Rightarrow> string \<Rightarrow> 's"
  bp_putFinal :: "'s \<Rightarrow> string \<Rightarrow> bytes \<Rightarrow> 's res"
  bp_getFinal :: "'s \<Rightarrow> string \<Rightarrow> bytes option"
  bp_deleteFinal :: "'s \<Rightarrow> string \<Rightarrow> 's"

text \<open>What the runtime relies on: reads see the last write, the two areas are independent, and a
  final object is never overwritten.\<close>

locale blob_store =
  fixes P :: "'s blob_port" and empty :: 's
  assumes putStaging: "bp_putStaging P s k b = Inr s' \<Longrightarrow>
      bp_getStaging P s' = (bp_getStaging P s)(k := Some b) \<and> bp_getFinal P s' = bp_getFinal P s"
    and deleteStaging: "bp_getStaging P (bp_deleteStaging P s k) = (bp_getStaging P s)(k := None)"
      "bp_getFinal P (bp_deleteStaging P s k) = bp_getFinal P s"
    and putFinal: "bp_putFinal P s k b = Inr s' \<Longrightarrow> bp_getFinal P s k = None \<and>
      bp_getFinal P s' = (bp_getFinal P s)(k := Some b) \<and> bp_getStaging P s' = bp_getStaging P s"
    and putFinal_new: "bp_getFinal P s k = None \<Longrightarrow> is_ok (bp_putFinal P s k b)"
    and deleteFinal: "bp_getFinal P (bp_deleteFinal P s k) = (bp_getFinal P s)(k := None)"
      "bp_getStaging P (bp_deleteFinal P s k) = bp_getStaging P s"
    and empty: "bp_getStaging P empty = (\<lambda>_. None)" "bp_getFinal P empty = (\<lambda>_. None)"

record mem_blobs =
  mb_staging :: "bytes jsmap"
  mb_finals :: "bytes jsmap"

definition mb_putStaging :: "mem_blobs \<Rightarrow> string \<Rightarrow> bytes \<Rightarrow> mem_blobs res" where
  "mb_putStaging s intentId b =
     (if length (mb_staging s) \<ge> MAX_STAGING_ENTRIES \<and> \<not> mapHas (mb_staging s) intentId
      then Inl (uploadInputError ''Staging store is full'' ''upload.output_limit''
        ''Complete or expire pending intents before creating new ones.'')
      else if int (length b) > MAX_UPLOAD_BYTES
      then Inl (uploadInputError (''Staging bytes exceed limit: '' @ showNat (length b) @ '' > '' @
        showInt MAX_UPLOAD_BYTES) ''upload.output_limit'' ''Upload a smaller document.'')
      else Inr (s\<lparr>mb_staging := AList.update intentId b (mb_staging s)\<rparr>))"

definition mb_getStaging :: "mem_blobs \<Rightarrow> string \<Rightarrow> bytes option" where
  "mb_getStaging s intentId = map_of (mb_staging s) intentId"

definition mb_deleteStaging :: "mem_blobs \<Rightarrow> string \<Rightarrow> mem_blobs" where
  "mb_deleteStaging s intentId = s\<lparr>mb_staging := AList.delete intentId (mb_staging s)\<rparr>"

definition mb_putFinal :: "mem_blobs \<Rightarrow> string \<Rightarrow> bytes \<Rightarrow> mem_blobs res" where
  "mb_putFinal s refId b =
     (if mapHas (mb_finals s) refId
      then Inl (uploadInputError ''Cannot overwrite a finalized object'' ''upload.invalid_input''
        ''Final objects are immutable; create a new intent for new content.'')
      else Inr (s\<lparr>mb_finals := AList.update refId b (mb_finals s)\<rparr>))"

definition mb_getFinal :: "mem_blobs \<Rightarrow> string \<Rightarrow> bytes option" where
  "mb_getFinal s refId = map_of (mb_finals s) refId"

definition mb_deleteFinal :: "mem_blobs \<Rightarrow> string \<Rightarrow> mem_blobs" where
  "mb_deleteFinal s refId = s\<lparr>mb_finals := AList.delete refId (mb_finals s)\<rparr>"

definition InMemoryUploadBlobStorage :: "mem_blobs blob_port" where
  "InMemoryUploadBlobStorage =
     \<lparr>bp_putStaging = mb_putStaging, bp_getStaging = mb_getStaging,
      bp_deleteStaging = mb_deleteStaging, bp_putFinal = mb_putFinal,
      bp_getFinal = mb_getFinal, bp_deleteFinal = mb_deleteFinal\<rparr>"

definition emptyBlobs :: mem_blobs where
  "emptyBlobs = \<lparr>mb_staging = [], mb_finals = []\<rparr>"

lemmas mem_blob_defs = InMemoryUploadBlobStorage_def mb_putStaging_def mb_getStaging_def
  mb_deleteStaging_def mb_putFinal_def mb_getFinal_def mb_deleteFinal_def emptyBlobs_def

interpretation mem_blobs: blob_store InMemoryUploadBlobStorage emptyBlobs
  by unfold_locales (auto simp: mem_blob_defs is_ok_iff fun_eq_iff split: if_splits)

section \<open>The flow store\<close>

record StoredIntent =
  si_intent :: UploadIntent
  si_hasPut :: bool

record 's UploadFlowStore =
  uf_seq :: nat
  uf_intents :: "StoredIntent jsmap"
  uf_refs :: "ArtifactRef jsmap"
  uf_storage :: 's

text \<open>The checks of \<open>createIntent\<close>; they return the trimmed MIME type, the size, its cap and the TTL.\<close>

definition createIntentChecks :: "CreateUploadIntentInput \<Rightarrow> (string \<times> int \<times> int \<times> int) res" where
  "createIntentChecks input =
     andThen (assertBoundedOwnershipScope (ii_ownershipScope input))
     (bindE (assertUploadMime (ii_declaredMime input)) (\<lambda>declaredMime.
      if \<not> isInteger (ii_declaredSize input) \<or> jle (ii_declaredSize input) (jint 0)
      then Inl (uploadInputError ''Upload intent declaredSize must be a positive integer''
        ''upload.invalid_input'' ''Provide a positive integer declaredSize.'')
      else let maxSize = (case ii_maxSize input of None \<Rightarrow> jint MAX_UPLOAD_BYTES | Some n \<Rightarrow> n) in
      if \<not> isInteger maxSize \<or> jle maxSize (jint 0) \<or> jlt (jint MAX_UPLOAD_BYTES) maxSize
      then Inl (uploadInputError (''Upload maxSize must be a positive integer at most '' @
        showInt MAX_UPLOAD_BYTES) ''upload.output_limit''
        ''Choose a maxSize within the announced upload caps.'')
      else if jlt maxSize (ii_declaredSize input)
      then Inl (uploadInputError (''Declared size '' @ showInt (toInt (ii_declaredSize input)) @
        '' exceeds max size '' @ showInt (toInt maxSize)) ''upload.output_limit''
        ''Raise maxSize within caps or upload a smaller document.'')
      else let ttlMs = (case ii_ttlMs input of
          None \<Rightarrow> jint UPLOAD_INTENT_DEFAULT_TTL_MS | Some n \<Rightarrow> n) in
      if \<not> isInteger ttlMs \<or> jle ttlMs (jint 0) \<or> jlt (jint MAX_UPLOAD_TTL_MS) ttlMs
      then Inl (uploadInputError ''Upload intent TTL must be a positive integer within caps''
        ''upload.invalid_input'' ''Use a TTL between 1ms and 1 hour.'')
      else if (case ii_intentId input of None \<Rightarrow> False
               | Some i \<Rightarrow> i = '''' \<or> length i > MAX_INTENT_ID_CHARS)
      then Inl (uploadInputError ''Upload intent must have a non-empty intentId within bounds''
        ''upload.invalid_input'' ''Provide a non-empty intentId under 128 characters.'')
      else Inr (declaredMime, toInt (ii_declaredSize input), toInt maxSize, toInt ttlMs)))"

definition newIntentId :: "upload_hash \<Rightarrow> nat \<Rightarrow> int \<Rightarrow> string" where
  "newIntentId H n nowMs = ''intent_'' @ padStart 4 (CHR ''0'') (showHex n) @
     take 12 (hashText H (''intent:'' @ showNat n @ '':'' @ showInt nowMs))"

definition uf_createIntent :: "upload_hash \<Rightarrow> CreateUploadIntentInput \<Rightarrow> int \<Rightarrow> 's UploadFlowStore \<Rightarrow>
    UploadIntent res \<times> 's UploadFlowStore" where
  "uf_createIntent H input nowMs st =
     (case createIntentChecks input of
        Inl e \<Rightarrow> (Inl e, st)
      | Inr (declaredMime, declaredSize, maxSize, ttlMs) \<Rightarrow>
          let st1 = st\<lparr>uf_seq := Suc (uf_seq st)\<rparr>;
              intentId = (case ii_intentId input of
                 Some i \<Rightarrow> i | None \<Rightarrow> newIntentId H (Suc (uf_seq st)) nowMs)
          in if mapHas (uf_intents st1) intentId
             then (Inl (uploadInputError ''Upload intent already exists'' ''upload.invalid_input''
                ''Create a new intent instead of reusing an intent ID.''), st1)
             else
               let intent = \<lparr>ui_intentId = intentId, ui_ownershipScope = ii_ownershipScope input,
                     ui_declaredMime = declaredMime, ui_declaredSize = declaredSize,
                     ui_maxSize = maxSize, ui_expectedDigest = ii_expectedDigest input,
                     ui_expiresAt = nowMs + ttlMs, ui_status = IntentPending,
                     ui_multipart = (case ii_multipart input of None \<Rightarrow> False | Some b \<Rightarrow> b)\<rparr>
               in case validateCreateIntent intent nowMs of
                    Inl e \<Rightarrow> (Inl e, st1)
                  | Inr _ \<Rightarrow> (Inr intent, st1\<lparr>uf_intents :=
                      AList.update intentId \<lparr>si_intent = intent, si_hasPut = False\<rparr>
                        (uf_intents st1)\<rparr>))"

definition uf_markStatus :: "string \<Rightarrow> UploadIntentStatus \<Rightarrow> 's UploadFlowStore \<Rightarrow> 's UploadFlowStore" where
  "uf_markStatus intentId status st = (case map_of (uf_intents st) intentId of
     None \<Rightarrow> st
   | Some stored \<Rightarrow> st\<lparr>uf_intents := AList.update intentId
       (stored\<lparr>si_intent := (si_intent stored)\<lparr>ui_status := status\<rparr>\<rparr>) (uf_intents st)\<rparr>)"

definition uf_requireIntent :: "'s UploadFlowStore \<Rightarrow> string \<Rightarrow> StoredIntent res" where
  "uf_requireIntent st intentId = (case map_of (uf_intents st) intentId of
     None \<Rightarrow> Inl (uploadInputError ''Unknown upload intent'' ''upload.invalid_input''
       ''Create an intent before PUT or complete.'')
   | Some stored \<Rightarrow> Inr stored)"

text \<open>\<open>stored.hasPut = true\<close> after \<open>markStatus\<close>\<close>

definition uf_setHasPut :: "string \<Rightarrow> 's UploadFlowStore \<Rightarrow> 's UploadFlowStore" where
  "uf_setHasPut intentId st = (case map_of (uf_intents st) intentId of
     None \<Rightarrow> st
   | Some stored \<Rightarrow> st\<lparr>uf_intents :=
       AList.update intentId (stored\<lparr>si_hasPut := True\<rparr>) (uf_intents st)\<rparr>)"

definition uf_recordPut :: "'s blob_port \<Rightarrow> string \<Rightarrow> string \<Rightarrow> bytes \<Rightarrow> int \<Rightarrow> 's UploadFlowStore \<Rightarrow>
    unit res \<times> 's UploadFlowStore" where
  "uf_recordPut P intentId callerScope b nowMs st =
     (case bindE (uf_requireIntent st intentId) (\<lambda>stored.
             andThen (validateCrossOwnership (si_intent stored) callerScope) (Inr stored)) of
        Inl e \<Rightarrow> (Inl e, st)
      | Inr stored \<Rightarrow>
          let intent = si_intent stored in
          if nowMs \<ge> ui_expiresAt intent
          then (Inl (uploadInputError ''Upload intent has expired'' ''upload.expired''
                  ''Create a new intent and re-upload within 15 minutes.''),
                uf_markStatus intentId IntentExpired st)
          else if ui_status intent = IntentFinalized
          then (Inl (uploadInputError ''Cannot overwrite a finalized staging object''
                  ''upload.invalid_input'' ''Final objects are immutable; create a new intent.''), st)
          else if ui_status intent = IntentExpired \<or> ui_status intent = IntentFailed
          then (Inl (uploadInputError ''Upload intent is no longer writable''
                  ''upload.invalid_input'' ''Create a new intent and re-upload.''), st)
          else if si_hasPut stored
          then (Inl (uploadInputError
                  ''Cannot overwrite a staging object: V1 supports a single PUT per intent''
                  ''upload.invalid_input'' ''Create a new intent for new content.''), st)
          else if int (length b) > ui_maxSize intent
          then (Inl (uploadInputError (''Actual size '' @ showNat (length b) @
                  '' exceeds max size '' @ showInt (ui_maxSize intent)) ''upload.output_limit''
                  ''Upload a smaller document or raise maxSize within caps.''), st)
          else case bp_putStaging P (uf_storage st) intentId b of
            Inl e \<Rightarrow> (Inl e, st)
          | Inr storage \<Rightarrow> (Inr (), uf_setHasPut intentId
              (uf_markStatus intentId IntentUploading (st\<lparr>uf_storage := storage\<rparr>))))"

text \<open>The reference minted for verified bytes, and the request validated before it.\<close>

definition mintRefId :: "upload_hash \<Rightarrow> string \<Rightarrow> string \<Rightarrow> nat \<Rightarrow> string" where
  "mintRefId H intentId contentHash n =
     ''art_'' @ take 32 (hashText H (intentId @ '':'' @ contentHash @ '':'' @ showNat n))"

definition mintRef :: "string \<Rightarrow> UploadIntent \<Rightarrow> string \<Rightarrow> int \<Rightarrow> int \<Rightarrow> ArtifactRef" where
  "mintRef refId intent contentHash byteSize nowMs =
     \<lparr>ar_refId = refId, ar_artifactKind = ''source'',
      ar_ownershipScope = ui_ownershipScope intent,
      ar_contentHash = contentHash, ar_byteSize = byteSize, ar_createdAt = nowMs,
      ar_expiresAt = nowMs + VERIFIED_ARTIFACT_DEFAULT_TTL_MS,
      ar_retentionPolicy = TransientRetention, ar_verified = True\<rparr>"

definition completeRequest :: "upload_hash \<Rightarrow> UploadIntent \<Rightarrow> string \<Rightarrow> FinalizeOverrides option \<Rightarrow>
    bytes \<Rightarrow> CompleteUploadRequest" where
  "completeRequest H intent intentId overrides staged =
     \<lparr>cu_intentId = intentId, cu_actualSize = int (length staged),
      cu_sniffedMime = (case Option.bind overrides fo_sniffedMime of Some m \<Rightarrow> m
        | None \<Rightarrow> (case sniffUploadMime staged of Some m \<Rightarrow> m | None \<Rightarrow> ui_declaredMime intent)),
      cu_contentHash = (case Option.bind overrides fo_contentHash of Some h \<Rightarrow> h
        | None \<Rightarrow> hashUploadBytes H staged)\<rparr>"

definition uf_completeAndFinalize :: "upload_hash \<Rightarrow> 's blob_port \<Rightarrow> string \<Rightarrow> string \<Rightarrow> int \<Rightarrow>
    FinalizeOverrides option \<Rightarrow> 's UploadFlowStore \<Rightarrow> ArtifactRef res \<times> 's UploadFlowStore" where
  "uf_completeAndFinalize H P intentId callerScope nowMs overrides st =
     (case bindE (uf_requireIntent st intentId) (\<lambda>stored.
             andThen (validateCrossOwnership (si_intent stored) callerScope) (Inr stored)) of
        Inl e \<Rightarrow> (Inl e, st)
      | Inr stored \<Rightarrow>
          let intent = si_intent stored in
          if ui_status intent = IntentFinalized
          then (Inl (uploadInputError ''Cannot overwrite a finalized staging object''
                  ''upload.invalid_input'' ''Final objects are immutable; create a new intent.''), st)
          else case bp_getStaging P (uf_storage st) intentId of
            None \<Rightarrow> (Inl (uploadInputError ''Staging object not found for intent''
                  ''upload.invalid_input'' ''PUT the bytes before completing the upload.''), st)
          | Some staged \<Rightarrow>
              let req = completeRequest H intent intentId overrides staged;
                  contentHash = cu_contentHash req in
              case validateCompleteUpload intent req nowMs of
                Inl e \<Rightarrow> (Inl e, if sublist ''expired'' (toLowerCase (exn_message e))
                                then uf_markStatus intentId IntentExpired st else st)
              | Inr _ \<Rightarrow>
                  case checkSniffMatchesDeclared (sniffUploadMime staged) (ui_declaredMime intent) of
                    Inl e \<Rightarrow> (Inl e, st)
                  | Inr _ \<Rightarrow>
                      if ui_expectedDigest intent \<noteq> None \<and> Some contentHash \<noteq> ui_expectedDigest intent
                      then (Inl (uploadInputError (''Content hash mismatch: expected '' @
                             quoted (the (ui_expectedDigest intent)) @ '', got '' @ quoted contentHash)
                             ''upload.hash_mismatch''
                             ''Re-upload the exact bytes matching the declared digest.''), st)
                      else
                        let st1 = st\<lparr>uf_seq := Suc (uf_seq st)\<rparr>;
                            refId = mintRefId H intentId contentHash (Suc (uf_seq st)) in
                        case andThen (validateArtifactRefId refId)
                               (createArtifactRef (mintRef refId intent contentHash
                                  (cu_actualSize req) nowMs)) of
                          Inl e \<Rightarrow> (Inl e, st1)
                        | Inr ref \<Rightarrow>
                            case bp_putFinal P (uf_storage st1) refId staged of
                              Inl e \<Rightarrow> (Inl e, st1)
                            | Inr storage \<Rightarrow>
                                let st2 = uf_markStatus intentId IntentFinalized
                                      (st1\<lparr>uf_storage := bp_deleteStaging P storage intentId\<rparr>)
                                in (Inr ref, st2\<lparr>uf_refs := AList.update refId ref (uf_refs st2)\<rparr>))"

definition uf_markFailed :: "'s blob_port \<Rightarrow> string \<Rightarrow> 's UploadFlowStore \<Rightarrow> 's UploadFlowStore" where
  "uf_markFailed P intentId st =
     (let st1 = uf_markStatus intentId IntentFailed st
      in st1\<lparr>uf_storage := bp_deleteStaging P (uf_storage st1) intentId\<rparr>)"

definition uf_getIntent :: "'s UploadFlowStore \<Rightarrow> string \<Rightarrow> UploadIntent option" where
  "uf_getIntent st intentId = map_option si_intent (map_of (uf_intents st) intentId)"

definition uf_getFinalRef :: "'s UploadFlowStore \<Rightarrow> string \<Rightarrow> ArtifactRef option" where
  "uf_getFinalRef st refId = map_of (uf_refs st) refId"

definition uf_getFinalBytes :: "'s blob_port \<Rightarrow> 's UploadFlowStore \<Rightarrow> string \<Rightarrow> bytes option" where
  "uf_getFinalBytes P st refId = bp_getFinal P (uf_storage st) refId"

end
