(* ===== verification/UploadInvariants.thy ===== *)
theory UploadInvariants
  imports UploadFlow
begin

text \<open>
  The invariant of the upload flow over any lawful blob store, and how one step may change the
  store: references and final bytes are kept for ever, the staged bytes of an intent are written
  once, and a closed intent never opens again.
\<close>

section \<open>Statuses and maps\<close>

definition intentClosed :: "UploadIntentStatus \<Rightarrow> bool" where
  "intentClosed s \<longleftrightarrow> s \<in> {IntentFinalized, IntentExpired, IntentFailed}"

lemma validateCompleteUpload_ok [res_simps]:
  "validateCompleteUpload i req now = Inr u \<longleftrightarrow>
     now < ui_expiresAt i \<and> (ui_status i = IntentUploading \<or> ui_status i = IntentPending) \<and>
     cu_intentId req = ui_intentId i \<and> cu_actualSize req \<le> ui_maxSize i \<and>
     (ui_expectedDigest i = None \<or> ui_expectedDigest i = Some (cu_contentHash req)) \<and>
     cu_sniffedMime req = ui_declaredMime i"
  by (cases "ui_status i") (auto simp: validateCompleteUpload_def)

lemma validateCrossOwnership_ok [res_simps]:
  "validateCrossOwnership i scope = Inr u \<longleftrightarrow> ui_ownershipScope i = scope"
  by (auto simp: validateCrossOwnership_def res_simps)

lemma createArtifactRef_ok [res_simps]:
  "createArtifactRef p = Inr r \<longleftrightarrow> ar_verified p \<and> validateArtifactRefId (ar_refId p) = Inr () \<and> r = p"
  by (auto simp: createArtifactRef_def res_simps)

lemma requireIntent_ok [res_simps]:
  "uf_requireIntent st k = Inr s \<longleftrightarrow> map_of (uf_intents st) k = Some s"
  by (auto simp: uf_requireIntent_def split: option.splits)

lemma markStatus_fields [simp]:
  "uf_seq (uf_markStatus k v st) = uf_seq st" "uf_refs (uf_markStatus k v st) = uf_refs st"
  "uf_storage (uf_markStatus k v st) = uf_storage st"
  by (simp_all add: uf_markStatus_def split: option.splits)

lemma markStatus_intents:
  "map_of (uf_intents (uf_markStatus k v st)) j =
     (if j = k then map_option (\<lambda>s. s\<lparr>si_intent := (si_intent s)\<lparr>ui_status := v\<rparr>\<rparr>) (map_of (uf_intents st) k)
      else map_of (uf_intents st) j)"
  by (simp add: uf_markStatus_def split: option.splits)

lemma setHasPut_fields [simp]:
  "uf_seq (uf_setHasPut k st) = uf_seq st" "uf_refs (uf_setHasPut k st) = uf_refs st"
  "uf_storage (uf_setHasPut k st) = uf_storage st"
  by (simp_all add: uf_setHasPut_def split: option.splits)

lemma setHasPut_intents:
  "map_of (uf_intents (uf_setHasPut k st)) j =
     (if j = k then map_option (\<lambda>s. s\<lparr>si_hasPut := True\<rparr>) (map_of (uf_intents st) k)
      else map_of (uf_intents st) j)"
  by (simp add: uf_setHasPut_def split: option.splits)

section \<open>How an intent may change\<close>

definition intentEvolves :: "StoredIntent \<Rightarrow> StoredIntent \<Rightarrow> bool" where
  "intentEvolves a b \<longleftrightarrow>
     (\<exists>v. si_intent b = (si_intent a)\<lparr>ui_status := v\<rparr> \<and>
        (intentClosed (ui_status (si_intent a)) \<longrightarrow> intentClosed v)) \<and>
     (si_hasPut a \<longrightarrow> si_hasPut b)"

lemma intentEvolves_refl [simp]: "intentEvolves a a"
  by (auto simp: intentEvolves_def intro: exI [of _ "ui_status (si_intent a)"])

lemma intentEvolves_status:
  assumes "intentClosed (ui_status (si_intent s)) \<Longrightarrow> intentClosed v" "si_hasPut s \<Longrightarrow> h"
  shows "intentEvolves s (s\<lparr>si_intent := (si_intent s)\<lparr>ui_status := v\<rparr>, si_hasPut := h\<rparr>)"
  using assms by (auto simp: intentEvolves_def intro!: exI [of _ v])

lemma intentEvolves_closed:
  "intentClosed v \<Longrightarrow> intentEvolves s (s\<lparr>si_intent := (si_intent s)\<lparr>ui_status := v\<rparr>\<rparr>)"
  by (auto simp: intentEvolves_def intro!: exI [of _ v])

lemma intentEvolves_trans: "intentEvolves a b \<Longrightarrow> intentEvolves b c \<Longrightarrow> intentEvolves a c"
  by (auto simp: intentEvolves_def)

lemma intentEvolves_fields:
  assumes "intentEvolves a b"
  shows "ui_intentId (si_intent b) = ui_intentId (si_intent a)"
    "ui_ownershipScope (si_intent b) = ui_ownershipScope (si_intent a)"
    "ui_maxSize (si_intent b) = ui_maxSize (si_intent a)"
    "ui_expiresAt (si_intent b) = ui_expiresAt (si_intent a)"
    "ui_expectedDigest (si_intent b) = ui_expectedDigest (si_intent a)"
    "ui_declaredMime (si_intent b) = ui_declaredMime (si_intent a)"
    "intentClosed (ui_status (si_intent a)) \<Longrightarrow> intentClosed (ui_status (si_intent b))"
  using assms by (auto simp: intentEvolves_def)

section \<open>Steps\<close>

inductive upload_step :: "upload_hash \<Rightarrow> 's blob_port \<Rightarrow> 's UploadFlowStore \<Rightarrow> 's UploadFlowStore \<Rightarrow> bool"
  for H P where
  createIntent: "uf_createIntent H input now st = (r1, st') \<Longrightarrow> upload_step H P st st'"
| recordPut: "uf_recordPut P k scope b now st = (r2, st') \<Longrightarrow> upload_step H P st st'"
| complete: "uf_completeAndFinalize H P k scope now ov st = (r3, st') \<Longrightarrow> upload_step H P st st'"
| markFailed: "upload_step H P st (uf_markFailed P k st)"

lemma createIntent_cases:
  assumes "uf_createIntent H input now st = (r, st')"
  obtains "uf_intents st' = uf_intents st" "uf_refs st' = uf_refs st" "uf_storage st' = uf_storage st"
      "\<not> is_ok r"
    | intent where "r = Inr intent" "map_of (uf_intents st) (ui_intentId intent) = None"
      "uf_intents st' = AList.update (ui_intentId intent) \<lparr>si_intent = intent, si_hasPut = False\<rparr>
         (uf_intents st)" "uf_refs st' = uf_refs st" "uf_storage st' = uf_storage st"
      "ui_status intent = IntentPending" "ui_maxSize intent \<le> MAX_UPLOAD_BYTES"
      "\<not> ui_multipart intent" "now < ui_expiresAt intent" "ui_ownershipScope intent = ii_ownershipScope input"
proof (cases "createIntentChecks input")
  case (Inl e)
  with assms that(1) show ?thesis by (auto simp: uf_createIntent_def)
next
  case (Inr t)
  obtain mime ds ms ttl where t: "t = (mime, ds, ms, ttl)" by (cases t)
  have ms: "ms \<le> MAX_UPLOAD_BYTES"
    using Inr by (auto simp: t createIntentChecks_def Let_def andThen_Inr_iff bindE_Inr_iff
        elim!: isIntegerE split: if_splits)
  define k where "k = (case ii_intentId input of Some i \<Rightarrow> i | None \<Rightarrow> newIntentId H (Suc (uf_seq st)) now)"
  define intent where "intent = \<lparr>ui_intentId = k, ui_ownershipScope = ii_ownershipScope input,
      ui_declaredMime = mime, ui_declaredSize = ds, ui_maxSize = ms,
      ui_expectedDigest = ii_expectedDigest input, ui_expiresAt = now + ttl, ui_status = IntentPending,
      ui_multipart = (case ii_multipart input of None \<Rightarrow> False | Some b \<Rightarrow> b)\<rparr>"
  have eq: "uf_createIntent H input now st =
     (if mapHas (uf_intents st) k
      then (Inl (uploadInputError ''Upload intent already exists'' ''upload.invalid_input''
        ''Create a new intent instead of reusing an intent ID.''), st\<lparr>uf_seq := Suc (uf_seq st)\<rparr>)
      else case validateCreateIntent intent now of
         Inl e \<Rightarrow> (Inl e, st\<lparr>uf_seq := Suc (uf_seq st)\<rparr>)
       | Inr _ \<Rightarrow> (Inr intent, st\<lparr>uf_seq := Suc (uf_seq st), uf_intents :=
           AList.update k \<lparr>si_intent = intent, si_hasPut = False\<rparr> (uf_intents st)\<rparr>))"
    unfolding uf_createIntent_def Inr t sum.case prod.case Let_def intent_def k_def
    by (simp cong: sum.case_cong)
  show ?thesis
  proof (cases "mapHas (uf_intents st) k")
    case True
    with assms eq that(1) show ?thesis by auto
  next
    case new: False
    show ?thesis
    proof (cases "validateCreateIntent intent now")
      case (Inl e)
      with assms eq new that(1) show ?thesis by auto
    next
      case (Inr u)
      have "\<not> ui_multipart intent" "now < ui_expiresAt intent"
        using Inr by (auto simp: validateCreateIntent_def split: if_splits)
      with assms eq new Inr ms show ?thesis
        by (intro that(2) [of intent]) (auto simp: intent_def)
    qed
  qed
qed

lemma recordPut_cases:
  assumes "uf_recordPut P k scope b now st = (r, st')"
  obtains "st' = st" "\<not> is_ok r"
    | (expired) s where "map_of (uf_intents st) k = Some s" "ui_expiresAt (si_intent s) \<le> now"
      "st' = uf_markStatus k IntentExpired st" "\<not> is_ok r"
      "ui_ownershipScope (si_intent s) = scope"
    | (stored) s storage where "map_of (uf_intents st) k = Some s" "\<not> si_hasPut s"
      "\<not> intentClosed (ui_status (si_intent s))" "int (length b) \<le> ui_maxSize (si_intent s)"
      "now < ui_expiresAt (si_intent s)" "ui_ownershipScope (si_intent s) = scope"
      "bp_putStaging P (uf_storage st) k b = Inr storage" "r = Inr ()"
      "st' = uf_setHasPut k (uf_markStatus k IntentUploading (st\<lparr>uf_storage := storage\<rparr>))"
proof (cases "bindE (uf_requireIntent st k) (\<lambda>s. andThen (validateCrossOwnership (si_intent s) scope) (Inr s))")
  case (Inl e)
  with assms that(1) show ?thesis by (auto simp: uf_recordPut_def)
next
  case (Inr s)
  then have s: "map_of (uf_intents st) k = Some s" "ui_ownershipScope (si_intent s) = scope"
    by (auto simp: bindE_Inr_iff andThen_Inr_iff requireIntent_ok validateCrossOwnership_ok)
  note eq = assms [unfolded uf_recordPut_def Inr sum.case Let_def]
  show ?thesis
  proof (cases "ui_expiresAt (si_intent s) \<le> now")
    case True
    with eq s that(2) show ?thesis by auto
  next
    case live: False
    show ?thesis
    proof (cases "bp_putStaging P (uf_storage st) k b")
      case (Inl e)
      with eq live that(1) show ?thesis by (auto split: if_splits)
    next
      case (Inr storage)
      with eq live s that show ?thesis by (auto simp: intentClosed_def split: if_splits)
    qed
  qed
qed

lemma complete_cases:
  assumes "uf_completeAndFinalize H P k scope now ov st = (r, st')"
  obtains (refused) "uf_intents st' = uf_intents st" "uf_refs st' = uf_refs st"
      "uf_storage st' = uf_storage st" "\<not> is_ok r"
    | (expired) s where "map_of (uf_intents st) k = Some s" "st' = uf_markStatus k IntentExpired st"
      "\<not> is_ok r" "ui_ownershipScope (si_intent s) = scope"
    | (minted) s staged storage req ref where "map_of (uf_intents st) k = Some s"
      "ui_ownershipScope (si_intent s) = scope"
      "bp_getStaging P (uf_storage st) k = Some staged"
      "req = completeRequest H (si_intent s) k ov staged"
      "validateCompleteUpload (si_intent s) req now = Inr ()"
      "checkSniffMatchesDeclared (sniffUploadMime staged) (ui_declaredMime (si_intent s)) = Inr ()"
      "ref = mintRef (mintRefId H k (cu_contentHash req) (Suc (uf_seq st))) (si_intent s)
         (cu_contentHash req) (int (length staged)) now"
      "validateArtifactRefId (ar_refId ref) = Inr ()"
      "bp_putFinal P (uf_storage st) (ar_refId ref) staged = Inr storage" "r = Inr ref"
      "uf_intents st' = uf_intents (uf_markStatus k IntentFinalized st)"
      "uf_refs st' = AList.update (ar_refId ref) ref (uf_refs st)"
      "uf_storage st' = bp_deleteStaging P storage k"
proof (cases "bindE (uf_requireIntent st k) (\<lambda>s. andThen (validateCrossOwnership (si_intent s) scope) (Inr s))")
  case (Inl e)
  with assms refused show ?thesis by (auto simp: uf_completeAndFinalize_def)
next
  case (Inr s)
  then have s: "map_of (uf_intents st) k = Some s" "ui_ownershipScope (si_intent s) = scope"
    by (auto simp: bindE_Inr_iff andThen_Inr_iff requireIntent_ok validateCrossOwnership_ok)
  note eq = assms [unfolded uf_completeAndFinalize_def Inr sum.case Let_def]
  show ?thesis
  proof (cases "bp_getStaging P (uf_storage st) k")
    case None
    with eq refused show ?thesis by (auto split: if_splits)
  next
    case (Some staged)
    define req where "req = completeRequest H (si_intent s) k ov staged"
    have sz: "cu_actualSize req = int (length staged)" by (simp add: req_def completeRequest_def)
    note eq1 = eq [unfolded Some option.case req_def [symmetric] sz]
    show ?thesis
    proof (cases "validateCompleteUpload (si_intent s) req now")
      case (Inl e)
      with eq1 s refused expired show ?thesis by (auto split: if_splits)
    next
      case v: (Inr u)
      show ?thesis
      proof (cases "checkSniffMatchesDeclared (sniffUploadMime staged) (ui_declaredMime (si_intent s))")
        case (Inl e)
        with eq1 v refused show ?thesis by (auto split: if_splits)
      next
        case m: (Inr w)
        define n where "n = mintRefId H k (cu_contentHash req) (Suc (uf_seq st))"
        define ref where "ref = mintRef n (si_intent s) (cu_contentHash req) (int (length staged)) now"
        have c: "createArtifactRef ref = andThen (validateArtifactRefId n) (Inr ref)"
          by (simp add: createArtifactRef_def ref_def mintRef_def)
        note eq2 = eq1 [unfolded v m sum.case n_def [symmetric] ref_def [symmetric]]
        show ?thesis
        proof (cases "validateArtifactRefId n")
          case (Inl e)
          with eq2 refused show ?thesis by (auto split: if_splits)
        next
          case i: (Inr x)
          show ?thesis
          proof (cases "bp_putFinal P (uf_storage st) n staged")
            case (Inl e)
            with eq2 i refused show ?thesis by (auto simp: c split: if_splits)
          next
            case (Inr storage)
            have n: "ar_refId ref = n" by (simp add: ref_def mintRef_def)
            show ?thesis
            proof (cases "ui_status (si_intent s) = IntentFinalized \<or>
                ui_expectedDigest (si_intent s) \<noteq> None \<and>
                Some (cu_contentHash req) \<noteq> ui_expectedDigest (si_intent s)")
              case True
              with v show ?thesis by (auto simp: validateCompleteUpload_ok)
            next
              case False
              with eq2 i Inr c have "r = Inr ref"
                "st' = uf_markStatus k IntentFinalized (st\<lparr>uf_seq := Suc (uf_seq st),
                    uf_storage := bp_deleteStaging P storage k\<rparr>)
                  \<lparr>uf_refs := AList.update n ref (uf_refs st)\<rparr>"
                by (auto split: if_splits)
              with s Some v m i Inr n show ?thesis
                by (intro minted [of s staged req ref storage])
                  (auto simp: req_def ref_def n_def uf_markStatus_def split: option.splits)
            qed
          qed
        qed
      qed
    qed
  qed
qed

section \<open>The flow over any lawful blob store\<close>

locale upload_flow = blob_store P empty for P :: "'s blob_port" and empty :: 's
begin

text \<open>Every reference is verified and has its bytes; every staged object belongs to an intent whose
  single PUT is spent, and fits its size cap.\<close>

definition refOk :: "'s UploadFlowStore \<Rightarrow> string \<Rightarrow> ArtifactRef \<Rightarrow> bool" where
  "refOk st k r \<longleftrightarrow> ar_refId r = k \<and> ar_verified r \<and> validateArtifactRefId k = Inr () \<and>
     (\<exists>b. bp_getFinal P (uf_storage st) k = Some b \<and> ar_byteSize r = int (length b) \<and>
        int (length b) \<le> MAX_UPLOAD_BYTES)"

definition stagedOk :: "'s UploadFlowStore \<Rightarrow> string \<Rightarrow> bytes \<Rightarrow> bool" where
  "stagedOk st k b \<longleftrightarrow> (\<exists>s. map_of (uf_intents st) k = Some s \<and> si_hasPut s \<and>
     int (length b) \<le> ui_maxSize (si_intent s))"

definition intentOk :: "string \<Rightarrow> StoredIntent \<Rightarrow> bool" where
  "intentOk k s \<longleftrightarrow> ui_intentId (si_intent s) = k \<and>
     ui_maxSize (si_intent s) \<le> MAX_UPLOAD_BYTES \<and> \<not> ui_multipart (si_intent s)"

definition flowOk :: "'s UploadFlowStore \<Rightarrow> bool" where
  "flowOk st \<longleftrightarrow>
     (\<forall>k r. map_of (uf_refs st) k = Some r \<longrightarrow> refOk st k r) \<and>
     (\<forall>k b. bp_getStaging P (uf_storage st) k = Some b \<longrightarrow> stagedOk st k b) \<and>
     (\<forall>k s. map_of (uf_intents st) k = Some s \<longrightarrow> intentOk k s)"

definition intentKept :: "'s UploadFlowStore \<Rightarrow> 's UploadFlowStore \<Rightarrow> string \<Rightarrow> StoredIntent \<Rightarrow> bool" where
  "intentKept st st' k s \<longleftrightarrow>
     (\<exists>s'. map_of (uf_intents st') k = Some s' \<and> intentEvolves s s') \<and>
     (si_hasPut s \<longrightarrow> bp_getStaging P (uf_storage st') k = None \<or>
        bp_getStaging P (uf_storage st') k = bp_getStaging P (uf_storage st) k)"

definition flowEvolves :: "'s UploadFlowStore \<Rightarrow> 's UploadFlowStore \<Rightarrow> bool" where
  "flowEvolves st st' \<longleftrightarrow>
     (\<forall>k r. map_of (uf_refs st) k = Some r \<longrightarrow> map_of (uf_refs st') k = Some r) \<and>
     (\<forall>k b. bp_getFinal P (uf_storage st) k = Some b \<longrightarrow> bp_getFinal P (uf_storage st') k = Some b) \<and>
     (\<forall>k s. map_of (uf_intents st) k = Some s \<longrightarrow> intentKept st st' k s)"

lemma intentKept_trans:
  assumes "intentKept a b k s" "flowEvolves b c"
  shows "intentKept a c k s"
proof -
  from assms(1) obtain s1 where s1: "map_of (uf_intents b) k = Some s1" "intentEvolves s s1"
    by (auto simp: intentKept_def)
  with assms(2) have k: "intentKept b c k s1" by (simp add: flowEvolves_def)
  then obtain s2 where "map_of (uf_intents c) k = Some s2" "intentEvolves s s2"
    using s1(2) intentEvolves_trans by (auto simp: intentKept_def)
  moreover have "si_hasPut s \<Longrightarrow> si_hasPut s1" using s1(2) by (simp add: intentEvolves_def)
  ultimately show ?thesis using assms(1) k by (auto simp: intentKept_def)
qed

lemma flowEvolves_refl [simp]: "flowEvolves st st"
  by (auto simp: flowEvolves_def intentKept_def intro: exI [of _ s for s])

lemma flowEvolves_trans:
  assumes "flowEvolves a b" "flowEvolves b c"
  shows "flowEvolves a c"
proof -
  have "intentKept a c k s" if "map_of (uf_intents a) k = Some s" for k s
  proof -
    from that assms(1) have "intentKept a b k s" by (simp add: flowEvolves_def)
    from this assms(2) show ?thesis by (rule intentKept_trans)
  qed
  moreover have "map_of (uf_refs c) k = Some r" if "map_of (uf_refs a) k = Some r" for k r
    using that assms by (simp add: flowEvolves_def)
  moreover have "bp_getFinal P (uf_storage c) k = Some x" if "bp_getFinal P (uf_storage a) k = Some x" for k x
    using that assms by (simp add: flowEvolves_def)
  ultimately show ?thesis by (simp add: flowEvolves_def)
qed

text \<open>A step that changes one intent \<open>k\<close> and nothing else it has to keep.\<close>

lemma one_intent:
  assumes "flowOk st" "map_of (uf_intents st) k = Some s"
    and "\<And>j. map_of (uf_intents st') j = (if j = k then Some s' else map_of (uf_intents st) j)"
    and "intentEvolves s s'"
    and "\<And>j b. bp_getStaging P (uf_storage st') j = Some b \<Longrightarrow>
      bp_getStaging P (uf_storage st) j = Some b \<or> j = k \<and> \<not> si_hasPut s \<and> si_hasPut s' \<and>
        int (length b) \<le> ui_maxSize (si_intent s)"
    and "\<And>j b. bp_getFinal P (uf_storage st) j = Some b \<Longrightarrow> bp_getFinal P (uf_storage st') j = Some b"
    and "\<And>j r. map_of (uf_refs st) j = Some r \<Longrightarrow> map_of (uf_refs st') j = Some r"
    and "\<And>j r. map_of (uf_refs st') j = Some r \<Longrightarrow> map_of (uf_refs st) j = Some r \<or> refOk st' j r"
  shows "flowOk st' \<and> flowEvolves st st'"
proof -
  have ev: "ui_intentId (si_intent s') = ui_intentId (si_intent s)"
    "ui_maxSize (si_intent s') = ui_maxSize (si_intent s)" "si_hasPut s \<Longrightarrow> si_hasPut s'"
    "ui_multipart (si_intent s') = ui_multipart (si_intent s)"
    using assms(4) by (auto simp: intentEvolves_def)
  have r: "refOk st' j r" if "map_of (uf_refs st') j = Some r" for j r
    using assms(8) [OF that] assms(1,6) unfolding flowOk_def refOk_def by blast
  have t: "stagedOk st' j b" if "bp_getStaging P (uf_storage st') j = Some b" for j b
    using assms(5) [OF that]
  proof
    assume "bp_getStaging P (uf_storage st) j = Some b"
    with assms(1) have "stagedOk st j b" by (simp add: flowOk_def)
    with ev assms(2) show ?thesis by (auto simp: stagedOk_def assms(3))
  next
    assume "j = k \<and> \<not> si_hasPut s \<and> si_hasPut s' \<and> int (length b) \<le> ui_maxSize (si_intent s)"
    with ev show ?thesis by (simp add: stagedOk_def assms(3))
  qed
  have i: "intentOk j x" if "map_of (uf_intents st') j = Some x" for j x
  proof (cases "j = k")
    case True
    with assms(1,2) have "intentOk k s" by (simp add: flowOk_def)
    with that True ev show ?thesis by (simp add: intentOk_def assms(3))
  next
    case False
    with that assms(1) show ?thesis by (simp add: flowOk_def assms(3))
  qed
  have kept: "intentKept st st' j x" if x: "map_of (uf_intents st) j = Some x" for j x
  proof -
    have "bp_getStaging P (uf_storage st') j = None \<or>
        bp_getStaging P (uf_storage st') j = bp_getStaging P (uf_storage st) j" if "si_hasPut x"
      using assms(5) [of j] that x assms(2) by (cases "bp_getStaging P (uf_storage st') j") fastforce+
    then show ?thesis using x assms(2,4) by (auto simp: intentKept_def assms(3))
  qed
  from r t i have "flowOk st'" by (simp add: flowOk_def)
  moreover from kept assms(6,7) have "flowEvolves st st'" by (simp add: flowEvolves_def)
  ultimately show ?thesis ..
qed

lemma mark_step:
  assumes "intentClosed v" "flowOk st"
  shows "flowOk (uf_markStatus k v st) \<and> flowEvolves st (uf_markStatus k v st)"
proof (cases "map_of (uf_intents st) k")
  case None
  with assms(2) show ?thesis by (simp add: uf_markStatus_def)
next
  case (Some s)
  show ?thesis
    by (rule one_intent [OF assms(2) Some, of _ "s\<lparr>si_intent := (si_intent s)\<lparr>ui_status := v\<rparr>\<rparr>"])
      (use assms(1) Some in \<open>simp_all add: markStatus_intents intentEvolves_closed\<close>)
qed

lemma createIntent_step:
  assumes "uf_createIntent H input now st = (r, st')" "flowOk st"
  shows "flowOk st' \<and> flowEvolves st st'"
  using assms(1)
proof (cases rule: createIntent_cases)
  case 1
  with assms(2) show ?thesis
    by (auto simp: flowOk_def flowEvolves_def refOk_def stagedOk_def intentKept_def)
next
  case (2 intent)
  have e: "map_of (uf_intents st') j = (if j = ui_intentId intent
      then Some \<lparr>si_intent = intent, si_hasPut = False\<rparr> else map_of (uf_intents st) j)" for j
    by (simp add: 2(3))
  have ne: "map_of (uf_intents st) j = Some x \<Longrightarrow> j \<noteq> ui_intentId intent" for j x using 2(2) by auto
  have "refOk st' j x" if "map_of (uf_refs st') j = Some x" for j x
    using that assms(2) by (simp add: flowOk_def refOk_def 2(4,5))
  moreover have "stagedOk st' j b" if "bp_getStaging P (uf_storage st') j = Some b" for j b
    using that assms(2) ne by (fastforce simp: flowOk_def stagedOk_def 2(5) e)
  moreover have "intentOk j x" if "map_of (uf_intents st') j = Some x" for j x
    using that assms(2) 2(7,8) by (auto simp: flowOk_def intentOk_def e split: if_splits)
  ultimately have "flowOk st'" by (simp add: flowOk_def)
  moreover have "flowEvolves st st'"
    using ne by (auto simp: flowEvolves_def intentKept_def e 2(4,5))
  ultimately show ?thesis ..
qed

lemma recordPut_step:
  assumes "uf_recordPut P k scope b now st = (r, st')" "flowOk st"
  shows "flowOk st' \<and> flowEvolves st st'"
  using assms(1)
proof (cases rule: recordPut_cases)
  case 1
  with assms(2) show ?thesis by simp
next
  case (expired s)
  with mark_step [of IntentExpired st k] assms(2) show ?thesis by (simp add: intentClosed_def)
next
  case (stored s storage)
  let ?s = "s\<lparr>si_intent := (si_intent s)\<lparr>ui_status := IntentUploading\<rparr>, si_hasPut := True\<rparr>"
  note l = putStaging [OF stored(7)]
  show ?thesis
    by (rule one_intent [OF assms(2) stored(1), of _ ?s])
      (use stored(1-4) l in \<open>auto simp: stored(9) setHasPut_intents markStatus_intents
        intro!: intentEvolves_status split: if_splits\<close>)
qed

lemma complete_step:
  assumes "uf_completeAndFinalize H P k scope now ov st = (r, st')" "flowOk st"
  shows "flowOk st' \<and> flowEvolves st st'"
  using assms(1)
proof (cases rule: complete_cases)
  case refused
  with assms(2) show ?thesis
    by (auto simp: flowOk_def flowEvolves_def refOk_def stagedOk_def intentKept_def)
next
  case (expired s)
  with mark_step [of IntentExpired st k] assms(2) show ?thesis by (simp add: intentClosed_def)
next
  case (minted s staged storage req ref)
  let ?s = "s\<lparr>si_intent := (si_intent s)\<lparr>ui_status := IntentFinalized\<rparr>\<rparr>"
  note l = putFinal [OF minted(9)]
  have g: "bp_getStaging P (uf_storage st') = (bp_getStaging P (uf_storage st))(k := None)"
    "bp_getFinal P (uf_storage st') = (bp_getFinal P (uf_storage st))(ar_refId ref := Some staged)"
    using l by (simp_all add: minted(13) deleteStaging)
  from assms(2) minted(1,3) have "stagedOk st k staged" "intentOk k s" by (simp_all add: flowOk_def)
  then have "int (length staged) \<le> MAX_UPLOAD_BYTES"
    using minted(1) by (auto simp: stagedOk_def intentOk_def)
  then have ref: "refOk st' (ar_refId ref) ref"
    using minted(8) by (simp add: refOk_def g(2)) (simp add: minted(7) mintRef_def)
  have fresh: "map_of (uf_refs st) (ar_refId ref) = None"
  proof (cases "map_of (uf_refs st) (ar_refId ref)")
    case (Some x)
    with assms(2) have "refOk st (ar_refId ref) x" by (simp add: flowOk_def)
    with l show ?thesis by (auto simp: refOk_def)
  qed simp
  show ?thesis
    by (rule one_intent [OF assms(2) minted(1), of _ ?s])
      (use minted(1) l ref fresh in \<open>auto simp: minted(11,12) g markStatus_intents intentClosed_def
        intro!: intentEvolves_closed split: if_splits\<close>)
qed

lemma markFailed_step:
  assumes "flowOk st"
  shows "flowOk (uf_markFailed P k st) \<and> flowEvolves st (uf_markFailed P k st)"
proof -
  let ?m = "uf_markStatus k IntentFailed st"
  from mark_step [of IntentFailed st k] assms
  have m: "flowOk ?m" "flowEvolves st ?m" by (simp_all add: intentClosed_def)
  have f: "uf_intents (uf_markFailed P k st) = uf_intents ?m" "uf_refs (uf_markFailed P k st) = uf_refs ?m"
    "bp_getFinal P (uf_storage (uf_markFailed P k st)) = bp_getFinal P (uf_storage ?m)"
    "bp_getStaging P (uf_storage (uf_markFailed P k st)) = (bp_getStaging P (uf_storage ?m))(k := None)"
    by (simp_all add: uf_markFailed_def Let_def deleteStaging)
  have "flowOk (uf_markFailed P k st)"
    using m(1) by (auto simp: flowOk_def refOk_def stagedOk_def f split: if_splits)
  moreover have "flowEvolves ?m (uf_markFailed P k st)"
    by (simp add: flowEvolves_def intentKept_def f)
  ultimately show ?thesis using m(2) flowEvolves_trans by blast
qed

lemma step_ok:
  assumes "upload_step H P st st'" "flowOk st"
  shows "flowOk st' \<and> flowEvolves st st'"
  using assms
proof (cases rule: upload_step.cases)
  case createIntent
  with assms(2) show ?thesis by (blast dest: createIntent_step)
next
  case recordPut
  with assms(2) show ?thesis by (blast dest: recordPut_step)
next
  case complete
  with assms(2) show ?thesis by (blast dest: complete_step)
next
  case markFailed
  with assms(2) show ?thesis by (simp add: markFailed_step)
qed

lemma run_ok:
  assumes "(upload_step H P)\<^sup>*\<^sup>* st st'" "flowOk st"
  shows "flowOk st' \<and> flowEvolves st st'"
  using assms
  by (induction rule: rtranclp_induct) (auto dest: step_ok intro: flowEvolves_trans)

lemma start_ok: "flowOk \<lparr>uf_seq = 0, uf_intents = [], uf_refs = [], uf_storage = empty\<rparr>"
  by (simp add: flowOk_def empty)

end

interpretation upload_mem: upload_flow InMemoryUploadBlobStorage emptyBlobs
  by unfold_locales

end
