(* ===== verification/UploadProperties.thy ===== *)
theory UploadProperties
  imports UploadInvariants
begin

text \<open>
  The properties of the upload flow on its in-memory blob storage. The example run (create, put,
  complete) is what the witnesses use.
\<close>

section \<open>Runs of the flow\<close>

abbreviation "memStaging st k \<equiv> bp_getStaging InMemoryUploadBlobStorage (uf_storage st) k"
abbreviation "memFinal st k \<equiv> uf_getFinalBytes InMemoryUploadBlobStorage st k"

definition uploadStart :: "mem_blobs UploadFlowStore" where
  "uploadStart = \<lparr>uf_seq = 0, uf_intents = [], uf_refs = [], uf_storage = emptyBlobs\<rparr>"

definition uploadReachable :: "upload_hash \<Rightarrow> mem_blobs UploadFlowStore \<Rightarrow> bool" where
  "uploadReachable H st \<longleftrightarrow> (upload_step H InMemoryUploadBlobStorage)\<^sup>*\<^sup>* uploadStart st"

lemma uploadReachable_ok: "uploadReachable H st \<Longrightarrow> upload_mem.flowOk st"
  unfolding uploadReachable_def uploadStart_def using upload_mem.run_ok upload_mem.start_ok by blast

lemma uploadReachable_evolves:
  "uploadReachable H st \<Longrightarrow> (upload_step H InMemoryUploadBlobStorage)\<^sup>*\<^sup>* st st' \<Longrightarrow>
     upload_mem.flowEvolves st st'"
  using upload_mem.run_ok uploadReachable_ok by blast

section \<open>The example run\<close>

definition demoHash :: upload_hash where
  "demoHash = \<lparr>hashText = \<lambda>s. replicate 64 (CHR ''0''), hashBytes = \<lambda>b. replicate 64 (CHR ''1'')\<rparr>"

definition demoBytes :: bytes where
  "demoBytes = [0x25, 0x50, 0x44, 0x46, 0x2d]"

definition demoIntentInput :: CreateUploadIntentInput where
  "demoIntentInput = \<lparr>ii_ownershipScope = ''o'', ii_declaredMime = ''application/pdf'',
     ii_declaredSize = jint 5, ii_maxSize = None, ii_expectedDigest = None, ii_ttlMs = None,
     ii_intentId = Some ''i'', ii_multipart = None\<rparr>"

definition upload1 :: "mem_blobs UploadFlowStore" where
  "upload1 = snd (uf_createIntent demoHash demoIntentInput 0 uploadStart)"

definition upload2 :: "mem_blobs UploadFlowStore" where
  "upload2 = snd (uf_recordPut InMemoryUploadBlobStorage ''i'' ''o'' demoBytes 1 upload1)"

definition upload3 :: "mem_blobs UploadFlowStore" where
  "upload3 = snd (uf_completeAndFinalize demoHash InMemoryUploadBlobStorage ''i'' ''o'' 2 None upload2)"

definition demoRefId :: string where
  "demoRefId = ''art_'' @ replicate 32 (CHR ''0'')"

lemma upload_create_step: "upload_step H P st (snd (uf_createIntent H input now st))"
  by (rule upload_step.createIntent [of _ _ _ _ "fst (uf_createIntent H input now st)"]) simp

lemma upload_put_step: "upload_step H P st (snd (uf_recordPut P k scope b now st))"
  by (rule upload_step.recordPut [of _ _ _ _ _ _ "fst (uf_recordPut P k scope b now st)"]) simp

lemma upload_complete_step: "upload_step H P st (snd (uf_completeAndFinalize H P k scope now ov st))"
  by (rule upload_step.complete [of _ _ _ _ _ _ _ "fst (uf_completeAndFinalize H P k scope now ov st)"])
    simp

lemma upload_demo_steps:
  "upload_step demoHash InMemoryUploadBlobStorage uploadStart upload1"
  "upload_step demoHash InMemoryUploadBlobStorage upload1 upload2"
  "upload_step demoHash InMemoryUploadBlobStorage upload2 upload3"
  unfolding upload1_def upload2_def upload3_def
  by (rule upload_create_step, rule upload_put_step, rule upload_complete_step)

lemma upload_demo_reachable:
  "uploadReachable demoHash upload1" "uploadReachable demoHash upload2" "uploadReachable demoHash upload3"
  using upload_demo_steps unfolding uploadReachable_def
  by (auto intro: rtranclp.rtrancl_into_rtrancl)

lemma upload2_staged: "memStaging upload2 ''i'' = Some demoBytes"
  by code_simp

lemma upload3_ref: "map_option ar_byteSize (uf_getFinalRef upload3 demoRefId) = Some 5"
  by code_simp

section \<open>Final objects\<close>

text \<open>C25. A finalized upload is immutable: whatever calls follow, its reference stays readable and
  unchanged, is verified and storage-neutral, and its bytes stay exactly those that were finalized,
  of the recorded size and at most 10 MiB.\<close>

theorem upload_final_immutable:
  assumes "uploadReachable H st" and "uf_getFinalRef st k = Some r"
    and "(upload_step H InMemoryUploadBlobStorage)\<^sup>*\<^sup>* st st'"
  shows "uf_getFinalRef st' k = Some r \<and> ar_refId r = k \<and> ar_verified r \<and>
    validateArtifactRefId k = Inr () \<and>
    (\<exists>b. memFinal st k = Some b \<and> memFinal st' k = Some b \<and> ar_byteSize r = int (length b) \<and>
       int (length b) \<le> 10 * 1024 * 1024)"
proof -
  have r: "map_of (uf_refs st) k = Some r" using assms(2) by (simp add: uf_getFinalRef_def)
  with uploadReachable_ok [OF assms(1)] have ok: "upload_mem.refOk st k r"
    by (simp add: upload_mem.flowOk_def)
  have ev: "upload_mem.flowEvolves st st'" using assms(1,3) by (rule uploadReachable_evolves)
  with r have "map_of (uf_refs st') k = Some r" by (simp add: upload_mem.flowEvolves_def)
  with ok ev show ?thesis
    by (auto simp: upload_mem.refOk_def upload_mem.flowEvolves_def uf_getFinalRef_def
        uf_getFinalBytes_def MAX_UPLOAD_BYTES_def)
qed

theorem upload_final_immutable_witness:
  "\<exists>b. memFinal (uf_markFailed InMemoryUploadBlobStorage ''i'' upload3) demoRefId = Some b \<and> length b = 5"
proof -
  from upload3_ref obtain r where r: "uf_getFinalRef upload3 demoRefId = Some r" "ar_byteSize r = 5"
    by auto
  have "(upload_step demoHash InMemoryUploadBlobStorage)\<^sup>*\<^sup>* upload3
      (uf_markFailed InMemoryUploadBlobStorage ''i'' upload3)"
    by (rule r_into_rtranclp) (rule upload_step.markFailed)
  from upload_final_immutable [OF upload_demo_reachable(3) r(1) this] r(2) show ?thesis by auto
qed

text \<open>The bytes that are finalized are the bytes of the intent's only PUT: once an intent has
  staged bytes no later call can replace them, every further PUT is refused, and if a completion
  succeeds it publishes exactly those bytes under the owner's scope, with their size and, unless the
  caller overrides it, their hash.\<close>

theorem upload_single_put:
  assumes "uploadReachable H st" and "memStaging st k = Some b"
    and "(upload_step H InMemoryUploadBlobStorage)\<^sup>*\<^sup>* st st'"
    and "uf_completeAndFinalize H InMemoryUploadBlobStorage k scope now ov st' = (Inr ref, st'')"
  shows "memFinal st'' (ar_refId ref) = Some b \<and> ar_byteSize ref = int (length b) \<and>
    ar_ownershipScope ref = scope \<and>
    (Option.bind ov fo_contentHash = None \<longrightarrow> ar_contentHash ref = hashUploadBytes H b) \<and>
    \<not> is_ok (fst (uf_recordPut InMemoryUploadBlobStorage k scope2 b2 now2 st'))"
proof -
  from uploadReachable_ok [OF assms(1)] assms(2) have "upload_mem.stagedOk st k b"
    by (simp add: upload_mem.flowOk_def)
  then obtain s where s: "map_of (uf_intents st) k = Some s" "si_hasPut s"
    by (auto simp: upload_mem.stagedOk_def)
  with uploadReachable_evolves [OF assms(1,3)] have kept: "upload_mem.intentKept st st' k s"
    by (simp add: upload_mem.flowEvolves_def)
  then obtain s' where s': "map_of (uf_intents st') k = Some s'" "si_hasPut s'"
    using s(2) by (auto simp: upload_mem.intentKept_def intentEvolves_def)
  have "\<not> is_ok (fst (uf_recordPut InMemoryUploadBlobStorage k scope2 b2 now2 st'))"
  proof -
    obtain r x where p: "uf_recordPut InMemoryUploadBlobStorage k scope2 b2 now2 st' = (r, x)" by fastforce
    then have "\<not> is_ok r" by (cases rule: recordPut_cases) (use s' in auto)
    then show ?thesis by (simp add: p)
  qed
  moreover have "memFinal st'' (ar_refId ref) = Some b \<and> ar_byteSize ref = int (length b) \<and>
    ar_ownershipScope ref = scope \<and>
    (Option.bind ov fo_contentHash = None \<longrightarrow> ar_contentHash ref = hashUploadBytes H b)"
    using assms(4)
  proof (cases rule: complete_cases)
    case (minted t staged storage req r)
    then have b: "staged = b" and r: "r = ref" using kept s(2) assms(2)
      by (auto simp: upload_mem.intentKept_def)
    note l = mem_blobs.putFinal [OF minted(9)]
    from l minted(13) have "memFinal st'' (ar_refId ref) = Some b"
      by (simp add: uf_getFinalBytes_def mem_blobs.deleteStaging b r)
    with minted(2,4,7) b r show ?thesis by (simp add: mintRef_def completeRequest_def)
  qed (auto simp: is_ok_def)
  ultimately show ?thesis by blast
qed

lemma upload3_complete:
  "\<exists>ref. uf_completeAndFinalize demoHash InMemoryUploadBlobStorage ''i'' ''o'' 2 None upload2 =
     (Inr ref, upload3) \<and> ar_refId ref = demoRefId"
proof -
  let ?c = "uf_completeAndFinalize demoHash InMemoryUploadBlobStorage ''i'' ''o'' 2 None upload2"
  have "map_sum (\<lambda>_. ()) ar_refId (fst ?c) = Inr demoRefId" by code_simp
  then obtain ref where "fst ?c = Inr ref" "ar_refId ref = demoRefId" by (cases "fst ?c") auto
  then show ?thesis unfolding upload3_def by (metis prod.collapse)
qed

theorem upload_single_put_witness: "memFinal upload3 demoRefId = Some demoBytes"
proof -
  obtain ref where c: "uf_completeAndFinalize demoHash InMemoryUploadBlobStorage ''i'' ''o'' 2 None upload2 =
     (Inr ref, upload3)" "ar_refId ref = demoRefId" using upload3_complete by blast
  from upload_single_put [OF upload_demo_reachable(2) upload2_staged rtranclp.rtrancl_refl c(1)] c(2)
  show ?thesis by simp
qed

text \<open>A completed upload cannot be replayed: after a successful completion, and whatever calls
  follow, no PUT and no completion of the same intent succeeds, for any caller, time, bytes or
  overrides.\<close>

theorem upload_no_replay:
  assumes "uploadReachable H st"
    and "uf_completeAndFinalize H InMemoryUploadBlobStorage k scope now ov st = (Inr ref, st1)"
    and "(upload_step H InMemoryUploadBlobStorage)\<^sup>*\<^sup>* st1 st2"
  shows "\<not> is_ok (fst (uf_completeAndFinalize H InMemoryUploadBlobStorage k scope2 now2 ov2 st2)) \<and>
    \<not> is_ok (fst (uf_recordPut InMemoryUploadBlobStorage k scope3 b now3 st2))"
proof -
  have "upload_step H InMemoryUploadBlobStorage st st1" using assms(2) by (rule upload_step.complete)
  then have r1: "uploadReachable H st1"
    using assms(1) unfolding uploadReachable_def by (rule rtranclp.rtrancl_into_rtrancl [rotated])
  from assms(2) obtain s where s: "map_of (uf_intents st1) k = Some s" "intentClosed (ui_status (si_intent s))"
  proof (cases rule: complete_cases)
    case (minted t staged storage req r)
    with that show ?thesis by (auto simp: markStatus_intents intentClosed_def)
  qed (auto simp: is_ok_def)
  with uploadReachable_evolves [OF r1 assms(3)] obtain s' where
    s': "map_of (uf_intents st2) k = Some s'" "intentClosed (ui_status (si_intent s'))"
    by (force simp: upload_mem.flowEvolves_def upload_mem.intentKept_def dest: intentEvolves_fields(7))
  obtain r x where c: "uf_completeAndFinalize H InMemoryUploadBlobStorage k scope2 now2 ov2 st2 = (r, x)"
    by fastforce
  obtain r' x' where p: "uf_recordPut InMemoryUploadBlobStorage k scope3 b now3 st2 = (r', x')" by fastforce
  have "\<not> is_ok r"
    using c by (cases rule: complete_cases) (use s' in \<open>auto simp: intentClosed_def validateCompleteUpload_ok\<close>)
  moreover have "\<not> is_ok r'"
    using p by (cases rule: recordPut_cases) (use s' in auto)
  ultimately show ?thesis by (simp add: c p)
qed

theorem upload_no_replay_witness:
  "\<not> is_ok (fst (uf_completeAndFinalize demoHash InMemoryUploadBlobStorage ''i'' ''o'' 3 None upload3))"
proof -
  obtain ref where "uf_completeAndFinalize demoHash InMemoryUploadBlobStorage ''i'' ''o'' 2 None upload2 =
     (Inr ref, upload3)" using upload3_complete by blast
  from upload_no_replay [OF upload_demo_reachable(2) this rtranclp.rtrancl_refl] show ?thesis by blast
qed

section \<open>Ownership\<close>

text \<open>A caller with another scope can neither write nor complete an intent, and changes nothing;
  the refusal is the plain error of \<open>validateCrossOwnership\<close>, whose message tells the caller the
  scope of the intent's owner.\<close>

theorem upload_foreign_scope_refused:
  assumes "uf_getIntent st k = Some i" and "ui_ownershipScope i \<noteq> scope"
  shows "let e = JsError (''Cross-ownership access denied: intent scope '' @
        quoted (ui_ownershipScope i) @ '' does not match caller scope '' @ quoted scope)
    in uf_recordPut P k scope b now st = (Inl e, st) \<and>
       uf_completeAndFinalize H P k scope now ov st = (Inl e, st)"
  using assms
  by (auto simp: uf_getIntent_def uf_recordPut_def uf_completeAndFinalize_def uf_requireIntent_def
      validateCrossOwnership_def throwIf_def Let_def)

theorem upload_foreign_scope_refused_witness:
  "fst (uf_recordPut InMemoryUploadBlobStorage ''i'' ''x'' [] 1 upload1) =
    Inl (JsError (''Cross-ownership access denied: intent scope '' @ quoted ''o'' @
      '' does not match caller scope '' @ quoted ''x''))"
proof -
  have "map_option ui_ownershipScope (uf_getIntent upload1 ''i'') = Some ''o''" by code_simp
  then obtain i where i: "uf_getIntent upload1 ''i'' = Some i" "ui_ownershipScope i = ''o''" by auto
  from upload_foreign_scope_refused [OF i(1), of "''x''"] i(2) show ?thesis by (simp add: Let_def)
qed

section \<open>The whole flow\<close>

text \<open>The flow round-trips: after an intent is created, putting bytes that fit it and completing
  it before it expires, with bytes whose type is unknown or the declared one and a digest that
  matches, returns a reference under which exactly those bytes can be read, and clears the staging
  area. Only a full staging area or a minted id that is unusable could stop it.\<close>

theorem upload_roundtrip:
  assumes "uf_createIntent H input now0 st = (Inr i, st1)"
    and "int (length b) \<le> ui_maxSize i" and "now1 < ui_expiresAt i" "now2 < ui_expiresAt i"
    and "sniffUploadMime b = None \<or> sniffUploadMime b = Some (ui_declaredMime i)"
    and "ui_declaredMime i \<notin> {''application/gzip'', ''application/zip'', ''application/x-ole-storage''}"
    and "ui_expectedDigest i = None \<or> ui_expectedDigest i = Some (hashUploadBytes H b)"
    and "length (mb_staging (uf_storage st)) < MAX_STAGING_ENTRIES"
    and "validateArtifactRefId (mintRefId H (ui_intentId i) (hashUploadBytes H b) (Suc (uf_seq st1))) = Inr ()"
    and "memFinal st (mintRefId H (ui_intentId i) (hashUploadBytes H b) (Suc (uf_seq st1))) = None"
  shows "\<exists>st2 ref st3.
    uf_recordPut InMemoryUploadBlobStorage (ui_intentId i) (ui_ownershipScope i) b now1 st1 = (Inr (), st2) \<and>
    uf_completeAndFinalize H InMemoryUploadBlobStorage (ui_intentId i) (ui_ownershipScope i) now2 None st2
      = (Inr ref, st3) \<and>
    memFinal st3 (ar_refId ref) = Some b \<and> uf_getFinalRef st3 (ar_refId ref) = Some ref \<and>
    memStaging st3 (ui_intentId i) = None"
proof -
  let ?P = InMemoryUploadBlobStorage and ?k = "ui_intentId i" and ?h = "hashUploadBytes H b"
  have c: "map_of (uf_intents st1) ?k = Some \<lparr>si_intent = i, si_hasPut = False\<rparr>"
    "uf_storage st1 = uf_storage st" "ui_status i = IntentPending" "ui_maxSize i \<le> MAX_UPLOAD_BYTES"
    using assms(1) by (cases rule: createIntent_cases; simp add: is_ok_def)+
  have "\<exists>S. bp_putStaging ?P (uf_storage st1) ?k b = Inr S"
    using assms(2,8) c(2,4) by (auto simp: mem_blob_defs)
  then obtain S where S: "bp_putStaging ?P (uf_storage st1) ?k b = Inr S" ..
  note l = mem_blobs.putStaging [OF S]
  define st2 where "st2 = uf_setHasPut ?k (uf_markStatus ?k IntentUploading (st1\<lparr>uf_storage := S\<rparr>))"
  have put: "uf_recordPut ?P ?k (ui_ownershipScope i) b now1 st1 = (Inr (), st2)"
    using assms(2,3) c S
    by (simp add: uf_recordPut_def uf_requireIntent_def validateCrossOwnership_def throwIf_def Let_def
        st2_def)
  have i2: "map_of (uf_intents st2) ?k = Some \<lparr>si_intent = i\<lparr>ui_status := IntentUploading\<rparr>, si_hasPut = True\<rparr>"
    and q2: "uf_seq st2 = uf_seq st1" "uf_storage st2 = S"
    using c(1) by (simp_all add: st2_def setHasPut_intents markStatus_intents)
  define n where "n = mintRefId H ?k ?h (Suc (uf_seq st1))"
  define ref where "ref = mintRef n (i\<lparr>ui_status := IntentUploading\<rparr>) ?h (int (length b)) now2"
  have req: "completeRequest H (i\<lparr>ui_status := IntentUploading\<rparr>) ?k None b =
      \<lparr>cu_intentId = ?k, cu_actualSize = int (length b), cu_sniffedMime = ui_declaredMime i, cu_contentHash = ?h\<rparr>"
    using assms(5) by (auto simp: completeRequest_def)
  have v: "validateCompleteUpload (i\<lparr>ui_status := IntentUploading\<rparr>)
      \<lparr>cu_intentId = ?k, cu_actualSize = int (length b), cu_sniffedMime = ui_declaredMime i, cu_contentHash = ?h\<rparr>
      now2 = Inr ()"
    using assms(2,4,7) by (auto simp: validateCompleteUpload_ok)
  have m: "checkSniffMatchesDeclared (sniffUploadMime b) (ui_declaredMime i) = Inr ()"
    using assms(5,6) by (auto simp: checkSniffMatchesDeclared_def throwIf_def)
  have "bp_getFinal ?P S n = None"
    using assms(10) l c(2) by (simp add: uf_getFinalBytes_def n_def)
  then obtain F where F: "bp_putFinal ?P S n b = Inr F"
    using mem_blobs.putFinal_new by (force simp: is_ok_iff)
  note lf = mem_blobs.putFinal [OF F]
  have g: "bp_getStaging ?P S ?k = Some b" using l by simp
  have cr: "createArtifactRef ref = Inr ref" "validateArtifactRefId n = Inr ()"
    using assms(9) by (simp_all add: createArtifactRef_def ref_def mintRef_def n_def)
  define st3 where "st3 = (uf_markStatus ?k IntentFinalized (st2\<lparr>uf_seq := Suc (uf_seq st1),
      uf_storage := bp_deleteStaging ?P F ?k\<rparr>))\<lparr>uf_refs := AList.update n ref (uf_refs st2)\<rparr>"
  have "uf_completeAndFinalize H ?P ?k (ui_ownershipScope i) now2 None st2 = (Inr ref, st3)"
    using assms(7) g m v cr F
    by (auto simp: uf_completeAndFinalize_def uf_requireIntent_def validateCrossOwnership_def throwIf_def
        Let_def i2 q2 req n_def [symmetric] ref_def [symmetric] st3_def)
  moreover have "ar_refId ref = n" by (simp add: ref_def mintRef_def)
  moreover have "memFinal st3 n = Some b" "uf_getFinalRef st3 n = Some ref" "memStaging st3 ?k = None"
    using lf by (simp_all add: st3_def uf_getFinalBytes_def uf_getFinalRef_def mem_blobs.deleteStaging)
  ultimately show ?thesis using put by blast
qed

theorem upload_roundtrip_witness:
  "\<exists>st2 ref st3.
    uf_recordPut InMemoryUploadBlobStorage ''i'' ''o'' demoBytes 1 upload1 = (Inr (), st2) \<and>
    uf_completeAndFinalize demoHash InMemoryUploadBlobStorage ''i'' ''o'' 2 None st2 = (Inr ref, st3) \<and>
    memFinal st3 (ar_refId ref) = Some demoBytes"
proof -
  let ?c = "uf_createIntent demoHash demoIntentInput 0 uploadStart"
  have "map_sum (\<lambda>_. ()) (\<lambda>i. (ui_intentId i, ui_ownershipScope i, ui_maxSize i, ui_expiresAt i,
      ui_declaredMime i, ui_expectedDigest i)) (fst ?c) =
      Inr (''i'', ''o'', 10485760, 900000, ''application/pdf'', None)" by code_simp
  then obtain i where i: "fst ?c = Inr i" "ui_intentId i = ''i''" "ui_ownershipScope i = ''o''"
    "ui_maxSize i = 10485760" "ui_expiresAt i = 900000" "ui_declaredMime i = ''application/pdf''"
    "ui_expectedDigest i = None" by (cases "fst ?c") auto
  then have c: "?c = (Inr i, upload1)" unfolding upload1_def by (metis prod.collapse)
  have len: "length demoBytes = 5" by (simp add: demoBytes_def)
  have sn: "sniffUploadMime demoBytes = Some ''application/pdf''" by code_simp
  have seq: "uf_seq upload1 = 1" by code_simp
  have v: "validateArtifactRefId (mintRefId demoHash ''i'' (hashUploadBytes demoHash demoBytes) (Suc 1)) = Inr ()"
    by code_simp
  have f: "memFinal uploadStart n = None" "length (mb_staging (uf_storage uploadStart)) < MAX_STAGING_ENTRIES" for n
    by (simp_all add: uploadStart_def uf_getFinalBytes_def mem_blob_defs MAX_STAGING_ENTRIES_def)
  from upload_roundtrip [OF c, of demoBytes 1 2] i len sn seq v f show ?thesis by auto
qed

section \<open>Two ways the flow gets stuck\<close>

text \<open>Office documents cannot be completed: the bytes of every OOXML file start with the zip
  signature, so the sniffed type is \<open>application/zip\<close>, and \<open>validateCompleteUpload\<close> compares it for
  equality with the declared Office type before \<open>checkSniffMatchesDeclared\<close>, which would accept
  it, is reached. Without an override of the sniffed type no completion of such an intent
  succeeds, whatever the caller, the time and the state.\<close>

theorem upload_ooxml_never_completes:
  assumes "uf_getIntent st k = Some i" and "isOoxmlMime (ui_declaredMime i)"
    and "bp_getStaging P (uf_storage st) k = Some (0x50 # 0x4b # 0x03 # 0x04 # rest)"
    and "Option.bind ov fo_sniffedMime = None"
  shows "\<not> is_ok (fst (uf_completeAndFinalize H P k scope now ov st)) \<and>
    sniffUploadMime (0x50 # 0x4b # 0x03 # 0x04 # rest) = Some ''application/zip'' \<and>
    checkSniffMatchesDeclared (Some ''application/zip'') (ui_declaredMime i) = Inr ()"
proof -
  have sn: "sniffUploadMime (0x50 # 0x4b # 0x03 # 0x04 # rest) = Some ''application/zip''"
    by (simp add: sniffUploadMime_def bytesAt_def asciiBytes_def)
  obtain s where s: "map_of (uf_intents st) k = Some s" "si_intent s = i"
    using assms(1) by (auto simp: uf_getIntent_def)
  obtain r x where c: "uf_completeAndFinalize H P k scope now ov st = (r, x)" by fastforce
  then have "\<not> is_ok r"
  proof (cases rule: complete_cases)
    case (minted t staged storage req ref)
    then have "ui_declaredMime i = ''application/zip''"
      using assms(3,4) s sn by (auto simp: validateCompleteUpload_ok completeRequest_def)
    with assms(2) show ?thesis by (simp add: isOoxmlMime_def OOXML_MIMES_def)
  qed auto
  with c sn assms(2) show ?thesis by (simp add: checkSniffMatchesDeclared_def throwIf_def)
qed

definition docxInput :: CreateUploadIntentInput where
  "docxInput = demoIntentInput\<lparr>ii_declaredMime :=
     ''application/vnd.openxmlformats-officedocument.wordprocessingml.document''\<rparr>"

definition docxUploaded :: "mem_blobs UploadFlowStore" where
  "docxUploaded = snd (uf_recordPut InMemoryUploadBlobStorage ''i'' ''o'' [0x50, 0x4b, 0x03, 0x04, 0x14] 1
     (snd (uf_createIntent demoHash docxInput 0 uploadStart)))"

theorem upload_ooxml_never_completes_witness:
  "\<not> is_ok (fst (uf_completeAndFinalize demoHash InMemoryUploadBlobStorage ''i'' ''o'' 2 None docxUploaded))"
proof -
  have "map_option ui_declaredMime (uf_getIntent docxUploaded ''i'') = Some (hd OOXML_MIMES)" by code_simp
  then obtain i where i: "uf_getIntent docxUploaded ''i'' = Some i" "ui_declaredMime i = hd OOXML_MIMES"
    by auto
  have g: "memStaging docxUploaded ''i'' = Some [0x50, 0x4b, 0x03, 0x04, 0x14]" by code_simp
  have o: "isOoxmlMime (ui_declaredMime i)" by (simp add: i(2) isOoxmlMime_def OOXML_MIMES_def)
  from upload_ooxml_never_completes [OF i(1) o g, of None] show ?thesis by simp
qed

text \<open>Expiry does not free the staging area: once an intent with staged bytes is past its
  expiry, its owner's completion is refused and marks the intent expired, but the bytes stay in the
  staging area, and with every slot taken this way the next PUT of any other intent is refused as
  \<open>Staging store is full\<close>.\<close>

theorem upload_expired_bytes_stay:
  assumes "uf_getIntent st k = Some i" and "ui_status i \<noteq> IntentFinalized"
    and "memStaging st k = Some b" and "ui_expiresAt i \<le> now"
    and "length (mb_staging (uf_storage st)) \<ge> MAX_STAGING_ENTRIES" and "memStaging st k2 = None"
  shows "(let (r, st') = uf_completeAndFinalize H InMemoryUploadBlobStorage k (ui_ownershipScope i) now ov st
    in \<not> is_ok r \<and> map_option ui_status (uf_getIntent st' k) = Some IntentExpired \<and>
       memStaging st' k = Some b \<and>
       \<not> is_ok (fst (uf_recordPut InMemoryUploadBlobStorage k2 scope2 b2 now2 st')))"
proof -
  obtain s where s: "map_of (uf_intents st) k = Some s" "si_intent s = i"
    using assms(1) by (auto simp: uf_getIntent_def)
  have x: "sublist ''expired'' (toLowerCase ''Upload intent has expired'')" by code_simp
  have c: "uf_completeAndFinalize H InMemoryUploadBlobStorage k (ui_ownershipScope i) now ov st =
      (Inl (JsError ''Upload intent has expired''), uf_markStatus k IntentExpired st)"
    using s assms(2-4) x
    by (simp add: uf_completeAndFinalize_def uf_requireIntent_def validateCrossOwnership_def throwIf_def
        validateCompleteUpload_def Let_def)
  have "\<not> is_ok (fst (uf_recordPut InMemoryUploadBlobStorage k2 scope2 b2 now2 (uf_markStatus k IntentExpired st)))"
  proof -
    obtain r x where p: "uf_recordPut InMemoryUploadBlobStorage k2 scope2 b2 now2
        (uf_markStatus k IntentExpired st) = (r, x)" by fastforce
    then have "\<not> is_ok r"
      by (cases rule: recordPut_cases) (use assms(5,6) in \<open>auto simp: mem_blob_defs\<close>)
    with p show ?thesis by simp
  qed
  with c s(1) assms(3) show ?thesis
    by (simp add: Let_def is_ok_def uf_getIntent_def markStatus_intents)
qed

definition fullStaging :: "mem_blobs UploadFlowStore" where
  "fullStaging = upload2\<lparr>uf_storage := \<lparr>mb_staging = (''i'', demoBytes) #
       map (\<lambda>n. (replicate (Suc n) (CHR ''x''), demoBytes)) [0..<999], mb_finals = []\<rparr>\<rparr>"

theorem upload_expired_bytes_stay_witness:
  "\<not> is_ok (fst (uf_recordPut InMemoryUploadBlobStorage ''j'' ''o'' [] 900000
     (snd (uf_completeAndFinalize demoHash InMemoryUploadBlobStorage ''i'' ''o'' 900000 None fullStaging))))"
proof -
  have "map_option (\<lambda>i. (ui_status i, ui_expiresAt i, ui_ownershipScope i)) (uf_getIntent upload2 ''i'') =
      Some (IntentUploading, 900000, ''o'')" by code_simp
  then obtain i where i: "uf_getIntent fullStaging ''i'' = Some i" "ui_status i = IntentUploading"
    "ui_expiresAt i = 900000" "ui_ownershipScope i = ''o''"
    by (auto simp: fullStaging_def uf_getIntent_def)
  have s: "memStaging fullStaging ''i'' = Some demoBytes"
    "length (mb_staging (uf_storage fullStaging)) = 1000"
    by (simp_all add: fullStaging_def mem_blob_defs)
  have "''j'' \<noteq> replicate (Suc n) (CHR ''x'')" for n by (cases n) auto
  then have j: "memStaging fullStaging ''j'' = None"
    by (auto simp: fullStaging_def mem_blob_defs map_of_eq_None_iff)
  from upload_expired_bytes_stay [OF i(1) _ s(1) _ _ j, of 900000 demoHash None "''o''" "[]" 900000]
    i(2,3,4) s(2) show ?thesis by (simp add: MAX_STAGING_ENTRIES_def split_beta Let_def)
qed

end
