(* ===== verification/ArtifactLifecycle.thy ===== *)
theory ArtifactLifecycle
  imports UploadIntent
begin

text \<open>
  \<^verbatim>\<open>src/core/artifact-lifecycle.ts\<close>: the lifecycle of verified artifacts and staging entries over a
  byte storage port. A method returns its result or exception with the store it leaves; writing a
  field of a stored record is an update of its map, and a loop over a map is a recursion over its
  entries in insertion order.
\<close>

section \<open>Data\<close>

definition ARTIFACT_LIFECYCLE_CLEANUP_WINDOW_MS :: int where
  "ARTIFACT_LIFECYCLE_CLEANUP_WINDOW_MS = STAGING_CLEANUP_WINDOW_MS"

datatype ArtifactLifecycleStatus = ArtActive | ArtCancelled | ArtFailed | ArtLogicallyExpired
  | ArtLogicallyDeleted | ArtPhysicalCleanupPending | ArtCleaned

datatype StagingLifecycleStatus = StgActive | StgLogicallyExpired | StgLogicallyDeleted
  | StgPhysicalCleanupPending | StgCleaned

text \<open>The stored record; the public view adds only the constant \<open>corpusEnrolled: false\<close>.\<close>

record MutableArtifactRecord =
  mr_ref :: ArtifactRef
  mr_status :: ArtifactLifecycleStatus
  mr_accessRevoked :: bool
  mr_createdAt :: int
  mr_updatedAt :: int

record ArtifactLifecycleRecord =
  lr_ref :: ArtifactRef
  lr_status :: ArtifactLifecycleStatus
  lr_accessRevoked :: bool
  lr_corpusEnrolled :: bool
  lr_createdAt :: int
  lr_updatedAt :: int

record ProcessReceipt =
  pr_refId :: string
  pr_byteSize :: int
  pr_contentHash :: string
  pr_expiresAt :: int
  pr_retentionExtended :: bool
  pr_corpusEnrolled :: bool

record StagingLifecycleEntry =
  sg_intentId :: string
  sg_status :: StagingLifecycleStatus
  sg_accessRevoked :: bool
  sg_createdAt :: int
  sg_updatedAt :: int

definition lifecycleError :: "string \<Rightarrow> string \<Rightarrow> string \<Rightarrow> exn" where
  "lifecycleError message hintCode hintText =
     GroundlaneError INVALID_INPUT ''artifact-lifecycle'' message False (Some (Hint hintCode hintText))"

definition assertOwnershipScope :: "string \<Rightarrow> unit res" where
  "assertOwnershipScope scope =
     throwIf (scope = '''' \<or> trim scope = '''')
       (lifecycleError ''Artifact must carry a non-empty ownershipScope''
         ''artifact.invalid_input'' ''Register the artifact with its owning scope.'')"

definition assertRefId :: "string \<Rightarrow> unit res" where
  "assertRefId refId =
     (if refId = ''''
      then Inl (lifecycleError ''Artifact must carry a non-empty refId''
        ''artifact.invalid_input'' ''Register the artifact with an opaque refId.'')
      else case validateArtifactRefId refId of
        Inl e \<Rightarrow> Inl (lifecycleError (exn_message e) ''artifact.invalid_ref''
          ''Use a storage-neutral opaque ArtifactRef.'')
      | Inr _ \<Rightarrow> Inr ())"

section \<open>The storage port\<close>

record 's artifact_port =
  as_put :: "'s \<Rightarrow> string \<Rightarrow> string \<Rightarrow> bytes \<Rightarrow> 's res"
  as_get :: "'s \<Rightarrow> string \<Rightarrow> bytes option"
  as_delete :: "'s \<Rightarrow> string \<Rightarrow> 's"
  as_listIds :: "'s \<Rightarrow> string list"

locale artifact_store =
  fixes P :: "'s artifact_port" and empty :: 's
  assumes put: "as_put P s k scope b = Inr s' \<Longrightarrow> as_get P s' = (as_get P s)(k := Some b)"
    and delete: "as_get P (as_delete P s k) = (as_get P s)(k := None)"
    and listIds: "set (as_listIds P s) = {k. as_get P s k \<noteq> None}"
    and empty: "as_get P empty = (\<lambda>_. None)"
begin

lemma get_foldl_delete:
  "as_get P (foldl (as_delete P) s ids) = (\<lambda>k. if k \<in> set ids then None else as_get P s k)"
  by (induction ids arbitrary: s) (auto simp: delete fun_eq_iff)

end

record artifact_blob =
  abl_bytes :: bytes
  abl_ownershipScope :: string

type_synonym mem_artifacts = "artifact_blob jsmap"

definition ma_put :: "mem_artifacts \<Rightarrow> string \<Rightarrow> string \<Rightarrow> bytes \<Rightarrow> mem_artifacts res" where
  "ma_put s refId ownershipScope b =
     andThen (assertRefId refId) (andThen (assertOwnershipScope ownershipScope)
       (Inr (AList.update refId \<lparr>abl_bytes = b, abl_ownershipScope = ownershipScope\<rparr> s)))"

definition ma_get :: "mem_artifacts \<Rightarrow> string \<Rightarrow> bytes option" where
  "ma_get s refId = map_option abl_bytes (map_of s refId)"

definition ma_getOwnership :: "mem_artifacts \<Rightarrow> string \<Rightarrow> string option" where
  "ma_getOwnership s refId = map_option abl_ownershipScope (map_of s refId)"

definition ma_delete :: "mem_artifacts \<Rightarrow> string \<Rightarrow> mem_artifacts" where
  "ma_delete s refId = AList.delete refId s"

definition ma_listIds :: "mem_artifacts \<Rightarrow> string list" where
  "ma_listIds s = map fst s"

definition InMemoryArtifactStorage :: "mem_artifacts artifact_port" where
  "InMemoryArtifactStorage =
     \<lparr>as_put = ma_put, as_get = ma_get, as_delete = ma_delete, as_listIds = ma_listIds\<rparr>"

lemmas mem_artifact_defs = InMemoryArtifactStorage_def ma_put_def ma_get_def ma_delete_def
  ma_listIds_def

interpretation mem_artifacts: artifact_store InMemoryArtifactStorage "[]"
proof unfold_locales
  show "set (as_listIds InMemoryArtifactStorage s) = {k. as_get InMemoryArtifactStorage s k \<noteq> None}" for s
    by (auto simp: mem_artifact_defs map_of_eq_None_iff simp del: not_None_eq)
qed (auto simp: mem_artifact_defs fun_eq_iff andThen_Inr_iff split: if_splits)

section \<open>The lifecycle store\<close>

record 's ArtifactLifecycleStore =
  al_records :: "MutableArtifactRecord jsmap"
  al_staging :: "StagingLifecycleEntry jsmap"
  al_storage :: 's

definition publicRecord :: "MutableArtifactRecord \<Rightarrow> ArtifactLifecycleRecord" where
  "publicRecord r =
     \<lparr>lr_ref = mr_ref r, lr_status = mr_status r, lr_accessRevoked = mr_accessRevoked r,
      lr_corpusEnrolled = False, lr_createdAt = mr_createdAt r, lr_updatedAt = mr_updatedAt r\<rparr>"

definition al_requireRecord :: "'s ArtifactLifecycleStore \<Rightarrow> string \<Rightarrow> MutableArtifactRecord res" where
  "al_requireRecord st refId = (case map_of (al_records st) refId of
     None \<Rightarrow> Inl (lifecycleError ''Unknown artifact'' ''artifact.invalid_input''
       ''Register the artifact before operating on it.'')
   | Some r \<Rightarrow> Inr r)"

definition al_requireStaging :: "'s ArtifactLifecycleStore \<Rightarrow> string \<Rightarrow> StagingLifecycleEntry res" where
  "al_requireStaging st intentId = (case map_of (al_staging st) intentId of
     None \<Rightarrow> Inl (lifecycleError ''Unknown staging intent'' ''artifact.invalid_input''
       ''Track the staging intent before operating on it.'')
   | Some e \<Rightarrow> Inr e)"

definition al_registerVerifiedArtifact :: "'s artifact_port \<Rightarrow> ArtifactRef \<Rightarrow> bytes \<Rightarrow> int \<Rightarrow>
    's ArtifactLifecycleStore \<Rightarrow> unit res \<times> 's ArtifactLifecycleStore" where
  "al_registerVerifiedArtifact P ref b nowMs st =
     (if \<not> ar_verified ref
      then (Inl (lifecycleError ''Cannot register unverified upload as an artifact''
        ''artifact.unverified'' ''Finalize and verify the upload before registering it.''), st)
      else case andThen (assertRefId (ar_refId ref)) (assertOwnershipScope (ar_ownershipScope ref)) of
        Inl e \<Rightarrow> (Inl e, st)
      | Inr _ \<Rightarrow>
          if mapHas (al_records st) (ar_refId ref)
          then (Inl (lifecycleError ''Artifact already registered'' ''artifact.invalid_input''
            ''Register each finalized ArtifactRef once.''), st)
          else case as_put P (al_storage st) (ar_refId ref) (ar_ownershipScope ref) b of
            Inl e \<Rightarrow> (Inl e, st)
          | Inr storage \<Rightarrow> (Inr (), st\<lparr>al_storage := storage,
              al_records := AList.update (ar_refId ref)
                \<lparr>mr_ref = ref, mr_status = ArtActive, mr_accessRevoked = False,
                 mr_createdAt = nowMs, mr_updatedAt = nowMs\<rparr> (al_records st)\<rparr>))"

definition al_getRecord :: "'s ArtifactLifecycleStore \<Rightarrow> string \<Rightarrow> ArtifactLifecycleRecord option" where
  "al_getRecord st refId = map_option publicRecord (map_of (al_records st) refId)"

definition accessDenied :: "string \<Rightarrow> string \<Rightarrow> exn" where
  "accessDenied refId text = lifecycleError
     (''Cross-ownership access denied for artifact '' @ quoted refId) ''artifact.access_denied'' text"

definition al_setRecord :: "string \<Rightarrow> MutableArtifactRecord \<Rightarrow> 's ArtifactLifecycleStore \<Rightarrow>
    's ArtifactLifecycleStore" where
  "al_setRecord refId r st = st\<lparr>al_records := AList.update refId r (al_records st)\<rparr>"

definition al_readArtifact :: "'s artifact_port \<Rightarrow> string \<Rightarrow> string \<Rightarrow> int \<Rightarrow> 's ArtifactLifecycleStore \<Rightarrow>
    bytes res \<times> 's ArtifactLifecycleStore" where
  "al_readArtifact P refId callerScope nowMs st =
     (case al_requireRecord st refId of Inl e \<Rightarrow> (Inl e, st) | Inr r \<Rightarrow>
      if ar_ownershipScope (mr_ref r) \<noteq> callerScope
      then (Inl (accessDenied refId ''Read the artifact with its owning scope.''), st)
      else if mr_accessRevoked r \<or> mr_status r = ArtLogicallyDeleted
      then (Inl (lifecycleError ''Artifact access was revoked; the artifact was deleted''
        ''artifact.access_revoked''
        ''The artifact was explicitly deleted and can no longer be read.''), st)
      else if mr_status r = ArtCancelled \<or> mr_status r = ArtFailed
      then (Inl (lifecycleError ''Artifact access was revoked; processing did not complete''
        ''artifact.access_revoked'' ''The artifact processing was cancelled or failed.''), st)
      else if mr_status r = ArtCleaned
      then (Inl (lifecycleError ''Artifact access was revoked; the artifact was cleaned up''
        ''artifact.access_revoked''
        ''The artifact has been cleaned up and can no longer be read.''), st)
      else if nowMs \<ge> ar_expiresAt (mr_ref r) \<or> mr_status r = ArtLogicallyExpired
      then (Inl (lifecycleError ''Artifact access was revoked; the artifact has expired''
          ''artifact.expired''
          ''Re-upload or re-finalize the source to obtain a fresh ArtifactRef.''),
        if mr_status r = ArtActive
        then al_setRecord refId (r\<lparr>mr_status := ArtLogicallyExpired, mr_accessRevoked := True,
          mr_updatedAt := nowMs\<rparr>) st
        else st)
      else case as_get P (al_storage st) refId of
        None \<Rightarrow> (Inl (lifecycleError ''Artifact not found or access denied''
          ''artifact.invalid_input'' ''Check the refId and ownershipScope, then retry.''), st)
      | Some b \<Rightarrow> (Inr b, st))"

definition al_processArtifact :: "'s artifact_port \<Rightarrow> string \<Rightarrow> string \<Rightarrow> int \<Rightarrow>
    's ArtifactLifecycleStore \<Rightarrow> ProcessReceipt res \<times> 's ArtifactLifecycleStore" where
  "al_processArtifact P refId callerScope nowMs st =
     (case al_readArtifact P refId callerScope nowMs st of
        (Inl e, st1) \<Rightarrow> (Inl e, st1)
      | (Inr _, st1) \<Rightarrow> (bindE (al_requireRecord st1 refId) (\<lambda>r.
          Inr \<lparr>pr_refId = ar_refId (mr_ref r), pr_byteSize = ar_byteSize (mr_ref r),
               pr_contentHash = ar_contentHash (mr_ref r), pr_expiresAt = ar_expiresAt (mr_ref r),
               pr_retentionExtended = False, pr_corpusEnrolled = False\<rparr>), st1))"

text \<open>\<open>cancelProcessing\<close>, \<open>failProcessing\<close> and the tail of \<open>deleteExplicit\<close>\<close>

definition al_revoke :: "ArtifactLifecycleStatus \<Rightarrow> string \<Rightarrow> int \<Rightarrow> 's ArtifactLifecycleStore \<Rightarrow>
    unit res \<times> 's ArtifactLifecycleStore" where
  "al_revoke status refId nowMs st =
     (case al_requireRecord st refId of Inl e \<Rightarrow> (Inl e, st) | Inr r \<Rightarrow>
        (Inr (), al_setRecord refId
           (r\<lparr>mr_status := status, mr_accessRevoked := True, mr_updatedAt := nowMs\<rparr>) st))"

definition al_cancelProcessing where
  "al_cancelProcessing refId (reason :: string) nowMs st = al_revoke ArtCancelled refId nowMs st"

definition al_failProcessing where
  "al_failProcessing refId (reason :: string) nowMs st = al_revoke ArtFailed refId nowMs st"

fun expireEntries :: "int \<Rightarrow> MutableArtifactRecord jsmap \<Rightarrow> MutableArtifactRecord jsmap \<times> string list" where
  "expireEntries nowMs [] = ([], [])"
| "expireEntries nowMs ((refId, r) # rest) =
     (let (rest', expired) = expireEntries nowMs rest in
      if mr_status r = ArtActive \<and> nowMs \<ge> ar_expiresAt (mr_ref r)
      then ((refId, r\<lparr>mr_status := ArtLogicallyExpired, mr_accessRevoked := True,
               mr_updatedAt := nowMs\<rparr>) # rest', refId # expired)
      else ((refId, r) # rest', expired))"

definition al_expireSweep :: "int \<Rightarrow> 's ArtifactLifecycleStore \<Rightarrow>
    string list \<times> 's ArtifactLifecycleStore" where
  "al_expireSweep nowMs st =
     (let (records, expired) = expireEntries nowMs (al_records st)
      in (expired, st\<lparr>al_records := records\<rparr>))"

definition al_deleteExplicit :: "string \<Rightarrow> string \<Rightarrow> int \<Rightarrow> 's ArtifactLifecycleStore \<Rightarrow>
    unit res \<times> 's ArtifactLifecycleStore" where
  "al_deleteExplicit refId callerScope nowMs st =
     (case al_requireRecord st refId of Inl e \<Rightarrow> (Inl e, st) | Inr r \<Rightarrow>
      if ar_ownershipScope (mr_ref r) \<noteq> callerScope
      then (Inl (accessDenied refId ''Delete the artifact with its owning scope.''), st)
      else al_revoke ArtLogicallyDeleted refId nowMs st)"

definition al_markArtifactCleanupPending :: "string \<Rightarrow> int \<Rightarrow> 's ArtifactLifecycleStore \<Rightarrow>
    ArtifactLifecycleRecord res \<times> 's ArtifactLifecycleStore" where
  "al_markArtifactCleanupPending refId nowMs st =
     (case al_requireRecord st refId of Inl e \<Rightarrow> (Inl e, st) | Inr r \<Rightarrow>
      if mr_status r \<noteq> ArtLogicallyExpired \<and> mr_status r \<noteq> ArtLogicallyDeleted
      then (Inl (lifecycleError
          ''Only logically expired or deleted artifacts can move to cleanup pending''
          ''artifact.invalid_input'' ''Expire or delete the artifact before physical cleanup.''), st)
      else let r' = r\<lparr>mr_status := ArtPhysicalCleanupPending, mr_updatedAt := nowMs\<rparr>
           in (Inr (publicRecord r'), al_setRecord refId r' st))"

fun sweepRecords :: "'s artifact_port \<Rightarrow> int \<Rightarrow> int \<Rightarrow> MutableArtifactRecord jsmap \<Rightarrow> 's \<Rightarrow>
    MutableArtifactRecord jsmap \<times> 's \<times> string list" where
  "sweepRecords P nowMs windowMs [] s = ([], s, [])"
| "sweepRecords P nowMs windowMs ((refId, r) # rest) s =
     (if mr_status r \<notin> {ArtPhysicalCleanupPending, ArtLogicallyExpired, ArtLogicallyDeleted} \<or>
         nowMs - mr_updatedAt r < windowMs
      then let (rest', s', cleaned) = sweepRecords P nowMs windowMs rest s
           in ((refId, r) # rest', s', cleaned)
      else if mr_status r = ArtLogicallyExpired \<or> mr_status r = ArtLogicallyDeleted
      then let (rest', s', cleaned) = sweepRecords P nowMs windowMs rest s
           in ((refId, r\<lparr>mr_status := ArtPhysicalCleanupPending, mr_updatedAt := nowMs\<rparr>) # rest',
               s', cleaned)
      else let (rest', s', cleaned) = sweepRecords P nowMs windowMs rest (as_delete P s refId)
           in ((refId, r\<lparr>mr_status := ArtCleaned, mr_accessRevoked := True, mr_updatedAt := nowMs\<rparr>) # rest',
               s', refId # cleaned))"

definition al_sweepArtifacts :: "'s artifact_port \<Rightarrow> int \<Rightarrow> int \<Rightarrow> 's ArtifactLifecycleStore \<Rightarrow>
    string list res \<times> 's ArtifactLifecycleStore" where
  "al_sweepArtifacts P nowMs windowMs st =
     (case validateCleanupWindow windowMs of Inl e \<Rightarrow> (Inl e, st) | Inr _ \<Rightarrow>
      let (records, storage, cleaned) = sweepRecords P nowMs windowMs (al_records st) (al_storage st)
      in (Inr cleaned, st\<lparr>al_records := records, al_storage := storage\<rparr>))"

definition al_cleanupOrphans :: "'s artifact_port \<Rightarrow> 's ArtifactLifecycleStore \<Rightarrow>
    string list \<times> 's ArtifactLifecycleStore" where
  "al_cleanupOrphans P st =
     (let removed = filter (\<lambda>i. \<not> mapHas (al_records st) i \<and> \<not> mapHas (al_staging st) i)
            (as_listIds P (al_storage st))
      in (removed, st\<lparr>al_storage := foldl (as_delete P) (al_storage st) removed\<rparr>))"

section \<open>Staging\<close>

definition al_trackStaging :: "string \<Rightarrow> int \<Rightarrow> 's ArtifactLifecycleStore \<Rightarrow>
    StagingLifecycleEntry res \<times> 's ArtifactLifecycleStore" where
  "al_trackStaging intentId nowMs st =
     (if intentId = ''''
      then (Inl (lifecycleError ''Staging intent must have a non-empty ID''
        ''artifact.invalid_input'' ''Track staging with a non-empty intent ID.''), st)
      else if mapHas (al_staging st) intentId
      then (Inl (lifecycleError ''Staging intent already tracked'' ''artifact.invalid_input''
        ''Track each staging intent once.''), st)
      else let entry = \<lparr>sg_intentId = intentId, sg_status = StgActive, sg_accessRevoked = False,
                 sg_createdAt = nowMs, sg_updatedAt = nowMs\<rparr>
           in (Inr entry, st\<lparr>al_staging := AList.update intentId entry (al_staging st)\<rparr>))"

definition al_updateStaging :: "string \<Rightarrow> (StagingLifecycleEntry \<Rightarrow> StagingLifecycleEntry res) \<Rightarrow>
    's ArtifactLifecycleStore \<Rightarrow> StagingLifecycleEntry res \<times> 's ArtifactLifecycleStore" where
  "al_updateStaging intentId f st =
     (case bindE (al_requireStaging st intentId) f of
        Inl e \<Rightarrow> (Inl e, st)
      | Inr entry \<Rightarrow> (Inr entry, st\<lparr>al_staging := AList.update intentId entry (al_staging st)\<rparr>))"

definition al_expireStaging where
  "al_expireStaging intentId nowMs st = al_updateStaging intentId
     (\<lambda>e. Inr (e\<lparr>sg_status := StgLogicallyExpired, sg_updatedAt := nowMs\<rparr>)) st"

definition al_markStagingCleanupPending where
  "al_markStagingCleanupPending intentId nowMs st = al_updateStaging intentId (\<lambda>e.
     if sg_status e \<notin> {StgLogicallyExpired, StgLogicallyDeleted, StgActive}
     then Inl (lifecycleError ''Staging entry cannot move to cleanup pending from its current state''
       ''artifact.invalid_input'' ''Expire or delete the staging entry before physical cleanup.'')
     else Inr (e\<lparr>sg_status := StgPhysicalCleanupPending, sg_updatedAt := nowMs\<rparr>)) st"

definition al_deleteStagingExplicit where
  "al_deleteStagingExplicit intentId nowMs st = al_updateStaging intentId
     (\<lambda>e. Inr (e\<lparr>sg_status := StgLogicallyDeleted, sg_accessRevoked := True, sg_updatedAt := nowMs\<rparr>)) st"

fun sweepStagingEntries :: "'s artifact_port \<Rightarrow> int \<Rightarrow> int \<Rightarrow> StagingLifecycleEntry jsmap \<Rightarrow> 's \<Rightarrow>
    StagingLifecycleEntry jsmap \<times> 's \<times> string list" where
  "sweepStagingEntries P nowMs windowMs [] s = ([], s, [])"
| "sweepStagingEntries P nowMs windowMs ((intentId, e) # rest) s =
     (if sg_status e \<notin> {StgPhysicalCleanupPending, StgLogicallyExpired, StgLogicallyDeleted} \<or>
         nowMs - sg_updatedAt e < windowMs
      then let (rest', s', cleaned) = sweepStagingEntries P nowMs windowMs rest s
           in ((intentId, e) # rest', s', cleaned)
      else if sg_status e = StgLogicallyExpired \<or> sg_status e = StgLogicallyDeleted
      then let (rest', s', cleaned) = sweepStagingEntries P nowMs windowMs rest s
           in ((intentId, e\<lparr>sg_status := StgPhysicalCleanupPending, sg_updatedAt := nowMs\<rparr>) # rest',
               s', cleaned)
      else let (rest', s', cleaned) = sweepStagingEntries P nowMs windowMs rest (as_delete P s intentId)
           in ((intentId, e\<lparr>sg_status := StgCleaned, sg_updatedAt := nowMs\<rparr>) # rest',
               s', intentId # cleaned))"

definition al_sweepStaging :: "'s artifact_port \<Rightarrow> int \<Rightarrow> int \<Rightarrow> 's ArtifactLifecycleStore \<Rightarrow>
    string list res \<times> 's ArtifactLifecycleStore" where
  "al_sweepStaging P nowMs windowMs st =
     (case validateCleanupWindow windowMs of Inl e \<Rightarrow> (Inl e, st) | Inr _ \<Rightarrow>
      let (entries, storage, cleaned) =
            sweepStagingEntries P nowMs windowMs (al_staging st) (al_storage st)
      in (Inr cleaned, st\<lparr>al_staging := foldl (\<lambda>m i. AList.delete i m) entries cleaned,
            al_storage := storage\<rparr>))"

definition al_getStaging :: "'s ArtifactLifecycleStore \<Rightarrow> string \<Rightarrow> StagingLifecycleEntry option" where
  "al_getStaging st intentId = map_of (al_staging st) intentId"

end
