(* ===== verification/ArtifactProperties.thy ===== *)
theory ArtifactProperties
  imports ArtifactLifecycle
begin

text \<open>
  What the artifact lifecycle keeps: revocation is final, bytes are read back as registered by their
  owner only, retention is never extended, and the two-phase sweep drops the bytes of expired and
  deleted artifacts, but not those of cancelled and failed ones.
\<close>

section \<open>Sweeps as maps over the records\<close>

definition expireOne :: "int \<Rightarrow> MutableArtifactRecord \<Rightarrow> MutableArtifactRecord" where
  "expireOne now r = (if mr_status r = ArtActive \<and> now \<ge> ar_expiresAt (mr_ref r)
     then r\<lparr>mr_status := ArtLogicallyExpired, mr_accessRevoked := True, mr_updatedAt := now\<rparr> else r)"

definition sweepDue :: "int \<Rightarrow> int \<Rightarrow> MutableArtifactRecord \<Rightarrow> bool" where
  "sweepDue now w r \<longleftrightarrow>
     mr_status r \<in> {ArtPhysicalCleanupPending, ArtLogicallyExpired, ArtLogicallyDeleted} \<and>
     w \<le> now - mr_updatedAt r"

definition sweepOne :: "int \<Rightarrow> int \<Rightarrow> MutableArtifactRecord \<Rightarrow> MutableArtifactRecord" where
  "sweepOne now w r = (if \<not> sweepDue now w r then r
     else if mr_status r = ArtPhysicalCleanupPending
     then r\<lparr>mr_status := ArtCleaned, mr_accessRevoked := True, mr_updatedAt := now\<rparr>
     else r\<lparr>mr_status := ArtPhysicalCleanupPending, mr_updatedAt := now\<rparr>)"

definition cleansNow :: "int \<Rightarrow> int \<Rightarrow> MutableArtifactRecord \<Rightarrow> bool" where
  "cleansNow now w r \<longleftrightarrow> sweepDue now w r \<and> mr_status r = ArtPhysicalCleanupPending"

lemma expireEntries_eq:
  "fst (expireEntries now m) = map (\<lambda>(k, r). (k, expireOne now r)) m"
  by (induction now m rule: expireEntries.induct) (auto simp: Let_def split_beta expireOne_def)

lemma sweepRecords_eq:
  "sweepRecords P now w m s =
     (map (\<lambda>(k, r). (k, sweepOne now w r)) m,
      foldl (as_delete P) s (map fst (filter (\<lambda>(k, r). cleansNow now w r) m)),
      map fst (filter (\<lambda>(k, r). cleansNow now w r) m))"
proof (induction P now w m s rule: sweepRecords.induct)
  case (2 P now w k r rest s)
  show ?case
  proof (cases "sweepDue now w r")
    case True
    then have c: "mr_status r \<in> {ArtPhysicalCleanupPending, ArtLogicallyExpired, ArtLogicallyDeleted}"
      "\<not> now - mr_updatedAt r < w" by (auto simp: sweepDue_def)
    show ?thesis
    proof (cases "mr_status r = ArtPhysicalCleanupPending")
      case p: True
      with 2(3) c True show ?thesis by (simp add: sweepOne_def cleansNow_def)
    next
      case False
      with 2(2) c True show ?thesis by (auto simp: sweepOne_def cleansNow_def)
    qed
  next
    case False
    with 2(1) show ?thesis by (auto simp: sweepOne_def cleansNow_def sweepDue_def)
  qed
qed simp

lemma map_of_mapped: "map_of (map (\<lambda>(k, r). (k, f r)) m) k = map_option f (map_of m k)"
  by (induction m) auto

lemma map_fst_mapped: "map fst (map (\<lambda>(k, r). (k, f r)) m) = map fst m"
  by (simp add: comp_def split_beta)

lemma sweepStaging_keys:
  "sweepStagingEntries P now w m s = (m', s', cleaned) \<Longrightarrow>
     map fst m' = map fst m \<and> set cleaned \<subseteq> set (map fst m) \<and> s' = foldl (as_delete P) s cleaned"
proof (induction m arbitrary: s m' s' cleaned)
  case (Cons ke rest)
  obtain k e where ke: "ke = (k, e)" by fastforce
  obtain m1 s1 c1 where 1: "sweepStagingEntries P now w rest s = (m1, s1, c1)" by (cases rule: prod_cases3)
  obtain m2 s2 c2 where 2: "sweepStagingEntries P now w rest (as_delete P s k) = (m2, s2, c2)"
    by (cases rule: prod_cases3)
  from Cons.prems Cons.IH [OF 1] Cons.IH [OF 2] show ?case
    by (auto simp: ke 1 2 split: if_splits)
qed simp

section \<open>How a record may change\<close>

definition recordOk :: "string \<Rightarrow> MutableArtifactRecord \<Rightarrow> bool" where
  "recordOk k r \<longleftrightarrow> ar_refId (mr_ref r) = k \<and> (mr_status r \<noteq> ArtActive \<longrightarrow> mr_accessRevoked r)"

definition recordEvolves :: "MutableArtifactRecord \<Rightarrow> MutableArtifactRecord \<Rightarrow> bool" where
  "recordEvolves a b \<longleftrightarrow> mr_ref b = mr_ref a \<and> mr_createdAt b = mr_createdAt a \<and>
     (mr_accessRevoked a \<longrightarrow> mr_accessRevoked b)"

lemma recordEvolves_refl [simp]: "recordEvolves a a"
  by (simp add: recordEvolves_def)

lemma recordEvolves_trans: "recordEvolves a b \<Longrightarrow> recordEvolves b c \<Longrightarrow> recordEvolves a c"
  by (simp add: recordEvolves_def)

lemma one_ok: "recordOk k r \<Longrightarrow> recordOk k (expireOne now r)" "recordEvolves r (expireOne now r)"
  "recordOk k r \<Longrightarrow> recordOk k (sweepOne now w r)" "recordEvolves r (sweepOne now w r)"
  by (auto simp: recordOk_def recordEvolves_def expireOne_def sweepOne_def sweepDue_def)

section \<open>Steps\<close>

inductive artifact_step :: "'s artifact_port \<Rightarrow> 's ArtifactLifecycleStore \<Rightarrow>
    's ArtifactLifecycleStore \<Rightarrow> bool" for P where
  register: "artifact_step P st (snd (al_registerVerifiedArtifact P ref b now st))"
| read: "artifact_step P st (snd (al_readArtifact P k scope now st))"
| process: "artifact_step P st (snd (al_processArtifact P k scope now st))"
| cancel: "artifact_step P st (snd (al_cancelProcessing k reason now st))"
| fail: "artifact_step P st (snd (al_failProcessing k reason now st))"
| expireSweep: "artifact_step P st (snd (al_expireSweep now st))"
| deleteExplicit: "artifact_step P st (snd (al_deleteExplicit k scope now st))"
| markPending: "artifact_step P st (snd (al_markArtifactCleanupPending k now st))"
| sweep: "artifact_step P st (snd (al_sweepArtifacts P now w st))"
| orphans: "artifact_step P st (snd (al_cleanupOrphans P st))"
| trackStaging: "artifact_step P st (snd (al_trackStaging k now st))"
| expireStaging: "artifact_step P st (snd (al_expireStaging k now st))"
| markStaging: "artifact_step P st (snd (al_markStagingCleanupPending k now st))"
| deleteStaging: "artifact_step P st (snd (al_deleteStagingExplicit k now st))"
| sweepStaging: "artifact_step P st (snd (al_sweepStaging P now w st))"

lemma staging_only:
  "al_records (snd (al_trackStaging k now st)) = al_records st"
  "al_storage (snd (al_trackStaging k now st)) = al_storage st"
  "al_records (snd (al_updateStaging k f st)) = al_records st"
  "al_storage (snd (al_updateStaging k f st)) = al_storage st"
  by (simp_all add: al_trackStaging_def al_updateStaging_def Let_def split: sum.splits)

lemma processArtifact_state: "snd (al_processArtifact P k scope now st) = snd (al_readArtifact P k scope now st)"
  by (simp add: al_processArtifact_def split: prod.splits sum.splits)

lemma revoke_cases:
  obtains "snd (al_revoke v k now st) = st"
    | r where "map_of (al_records st) k = Some r" "snd (al_revoke v k now st) =
        al_setRecord k (r\<lparr>mr_status := v, mr_accessRevoked := True, mr_updatedAt := now\<rparr>) st"
  by (cases "map_of (al_records st) k") (auto simp: al_revoke_def al_requireRecord_def)

lemma read_cases:
  obtains "snd (al_readArtifact P k scope now st) = st"
    | r where "map_of (al_records st) k = Some r" "\<not> mr_accessRevoked r"
      "snd (al_readArtifact P k scope now st) = al_setRecord k
         (r\<lparr>mr_status := ArtLogicallyExpired, mr_accessRevoked := True, mr_updatedAt := now\<rparr>) st"
proof (cases "map_of (al_records st) k")
  case None
  with that(1) show ?thesis by (simp add: al_readArtifact_def al_requireRecord_def)
next
  case (Some r)
  have "snd (al_readArtifact P k scope now st) = st \<or> \<not> mr_accessRevoked r \<and>
      snd (al_readArtifact P k scope now st) = al_setRecord k
        (r\<lparr>mr_status := ArtLogicallyExpired, mr_accessRevoked := True, mr_updatedAt := now\<rparr>) st"
    using Some by (cases "as_get P (al_storage st) k")
      (simp_all add: al_readArtifact_def al_requireRecord_def)
  with Some that show ?thesis by blast
qed

section \<open>The lifecycle over any lawful storage\<close>

locale artifact_lifecycle = artifact_store P empty for P :: "'s artifact_port" and empty :: 's
begin

definition storeOk :: "'s ArtifactLifecycleStore \<Rightarrow> bool" where
  "storeOk st \<longleftrightarrow> mapOk (al_records st) \<and>
     (\<forall>k r. map_of (al_records st) k = Some r \<longrightarrow> recordOk k r)"

text \<open>A registered artifact keeps its reference, stays revoked once revoked, and its stored bytes can
  only disappear.\<close>

definition storeEvolves :: "'s ArtifactLifecycleStore \<Rightarrow> 's ArtifactLifecycleStore \<Rightarrow> bool" where
  "storeEvolves st st' \<longleftrightarrow> (\<forall>k r. map_of (al_records st) k = Some r \<longrightarrow>
     (\<exists>r'. map_of (al_records st') k = Some r' \<and> recordEvolves r r') \<and>
     (\<forall>b. as_get P (al_storage st') k = Some b \<longrightarrow> as_get P (al_storage st) k = Some b))"

lemma storeEvolves_refl [simp]: "storeEvolves st st"
  by (auto simp: storeEvolves_def)

lemma storeEvolvesE:
  assumes "storeEvolves st st'" "map_of (al_records st) k = Some r"
  obtains r' where "map_of (al_records st') k = Some r'" "recordEvolves r r'"
    "\<And>b. as_get P (al_storage st') k = Some b \<Longrightarrow> as_get P (al_storage st) k = Some b"
  using assms unfolding storeEvolves_def by blast

lemma storeEvolves_trans: "storeEvolves a b \<Longrightarrow> storeEvolves b c \<Longrightarrow> storeEvolves a c"
  unfolding storeEvolves_def by (meson recordEvolves_trans)

lemma storage_only:
  assumes "al_records st' = al_records st" "storeOk st"
    and "\<And>k b. as_get P (al_storage st') k = Some b \<Longrightarrow> as_get P (al_storage st) k = Some b"
  shows "storeOk st' \<and> storeEvolves st st'"
  using assms by (auto simp: storeOk_def storeEvolves_def)

lemma setRecord_step:
  assumes "storeOk st" "map_of (al_records st) k = Some r" "recordOk k r'" "recordEvolves r r'"
  shows "storeOk (al_setRecord k r' st) \<and> storeEvolves st (al_setRecord k r' st)"
  using assms by (auto simp: storeOk_def storeEvolves_def al_setRecord_def)

lemma mapped_step:
  assumes ok: "storeOk st" and m: "al_records st' = map (\<lambda>(k, r). (k, f r)) (al_records st)"
    and f: "\<And>k r. recordOk k r \<Longrightarrow> recordOk k (f r)" "\<And>r. recordEvolves r (f r)"
    and g: "\<And>k b. as_get P (al_storage st') k = Some b \<Longrightarrow> as_get P (al_storage st) k = Some b"
  shows "storeOk st' \<and> storeEvolves st st'"
proof -
  have "mapOk (al_records st')"
    using ok by (simp add: storeOk_def mapOk_def m map_fst_mapped del: map_map)
  then show ?thesis
    using ok f g by (auto simp: storeOk_def storeEvolves_def m map_of_mapped)
qed

lemma register_step:
  assumes "storeOk st"
  shows "storeOk (snd (al_registerVerifiedArtifact P ref b now st)) \<and>
    storeEvolves st (snd (al_registerVerifiedArtifact P ref b now st))"
proof (cases "mapHas (al_records st) (ar_refId ref)")
  case True
  with assms show ?thesis
    by (auto simp: al_registerVerifiedArtifact_def split: sum.splits)
next
  case new: False
  show ?thesis
  proof (cases "as_put P (al_storage st) (ar_refId ref) (ar_ownershipScope ref) b")
    case (Inl e)
    with assms new show ?thesis by (auto simp: al_registerVerifiedArtifact_def split: sum.splits)
  next
    case (Inr storage)
    from put [OF Inr] new assms show ?thesis
      by (auto simp: al_registerVerifiedArtifact_def Inr storeOk_def storeEvolves_def recordOk_def
          split: sum.splits)
  qed
qed

lemma revoke_step:
  assumes "storeOk st"
  shows "storeOk (snd (al_revoke v k now st)) \<and> storeEvolves st (snd (al_revoke v k now st))"
proof (cases rule: revoke_cases [of v k now st])
  case 1
  with assms show ?thesis by simp
next
  case (2 r)
  from 2(1) assms have "recordOk k r" by (simp add: storeOk_def)
  with setRecord_step [OF assms 2(1)] show ?thesis
    by (simp add: 2(2) recordOk_def recordEvolves_def)
qed

lemma read_step:
  assumes "storeOk st"
  shows "storeOk (snd (al_readArtifact P k scope now st)) \<and>
    storeEvolves st (snd (al_readArtifact P k scope now st))"
proof (cases rule: read_cases [of P k scope now st])
  case 1
  with assms show ?thesis by simp
next
  case (2 r)
  from 2(1) assms have "recordOk k r" by (simp add: storeOk_def)
  with setRecord_step [OF assms 2(1)] show ?thesis
    by (simp add: 2(3) recordOk_def recordEvolves_def)
qed

lemma delete_step:
  assumes "storeOk st"
  shows "storeOk (snd (al_deleteExplicit k scope now st)) \<and>
    storeEvolves st (snd (al_deleteExplicit k scope now st))"
  using assms revoke_step [OF assms] by (auto simp: al_deleteExplicit_def split: sum.splits)

lemma markPending_step:
  assumes "storeOk st"
  shows "storeOk (snd (al_markArtifactCleanupPending k now st)) \<and>
    storeEvolves st (snd (al_markArtifactCleanupPending k now st))"
proof (cases "map_of (al_records st) k")
  case None
  with assms show ?thesis by (simp add: al_markArtifactCleanupPending_def al_requireRecord_def)
next
  case (Some r)
  with assms have "recordOk k r" by (simp add: storeOk_def)
  with setRecord_step [OF assms Some] assms Some show ?thesis
    by (auto simp: al_markArtifactCleanupPending_def al_requireRecord_def Let_def recordOk_def
        recordEvolves_def)
qed

lemma sweep_step:
  assumes "storeOk st"
  shows "storeOk (snd (al_sweepArtifacts P now w st)) \<and> storeEvolves st (snd (al_sweepArtifacts P now w st))"
proof (cases "validateCleanupWindow w")
  case (Inl e)
  with assms show ?thesis by (simp add: al_sweepArtifacts_def)
next
  case (Inr u)
  show ?thesis
    by (rule mapped_step [OF assms, where f = "sweepOne now w"])
      (auto simp: al_sweepArtifacts_def Inr sweepRecords_eq get_foldl_delete one_ok split: if_splits)
qed

lemma sweepStaging_step:
  assumes "storeOk st"
  shows "storeOk (snd (al_sweepStaging P now w st)) \<and> storeEvolves st (snd (al_sweepStaging P now w st))"
proof (cases "validateCleanupWindow w")
  case (Inl e)
  with assms show ?thesis by (simp add: al_sweepStaging_def)
next
  case (Inr u)
  obtain m' s' c where s: "sweepStagingEntries P now w (al_staging st) (al_storage st) = (m', s', c)"
    by (cases rule: prod_cases3)
  show ?thesis
    by (rule storage_only [OF _ assms])
      (use sweepStaging_keys [OF s] in
        \<open>auto simp: al_sweepStaging_def Inr s get_foldl_delete split: if_splits\<close>)
qed

lemma step_ok:
  assumes "artifact_step P st st'" "storeOk st"
  shows "storeOk st' \<and> storeEvolves st st'"
  using assms
proof (cases rule: artifact_step.cases)
  case expireSweep
  show ?thesis
    by (rule mapped_step [OF assms(2), where f = "expireOne now" for now])
      (auto simp: expireSweep al_expireSweep_def split_beta Let_def expireEntries_eq one_ok)
next
  case orphans
  show ?thesis
    by (rule storage_only [OF _ assms(2)])
      (auto simp: orphans al_cleanupOrphans_def Let_def get_foldl_delete split: if_splits)
next
  case trackStaging
  show ?thesis by (rule storage_only [OF _ assms(2)]) (simp_all add: trackStaging staging_only)
next
  case expireStaging
  show ?thesis
    by (rule storage_only [OF _ assms(2)]) (simp_all add: expireStaging al_expireStaging_def staging_only)
next
  case markStaging
  show ?thesis
    by (rule storage_only [OF _ assms(2)])
      (simp_all add: markStaging al_markStagingCleanupPending_def staging_only)
next
  case deleteStaging
  show ?thesis
    by (rule storage_only [OF _ assms(2)])
      (simp_all add: deleteStaging al_deleteStagingExplicit_def staging_only)
qed (use assms(2) in \<open>simp_all add: register_step read_step processArtifact_state revoke_step
       al_cancelProcessing_def al_failProcessing_def delete_step markPending_step sweep_step
       sweepStaging_step\<close>)

lemma run_ok:
  assumes "(artifact_step P)\<^sup>*\<^sup>* st st'" "storeOk st"
  shows "storeOk st' \<and> storeEvolves st st'"
  using assms
  by (induction rule: rtranclp_induct) (auto dest: step_ok intro: storeEvolves_trans)

lemma start_ok: "storeOk \<lparr>al_records = [], al_staging = [], al_storage = s\<rparr>"
  by (simp add: storeOk_def)

end

interpretation artifact_mem: artifact_lifecycle InMemoryArtifactStorage "[]"
  by unfold_locales

section \<open>Runs on the in-memory storage\<close>

abbreviation "memArtifactBytes st k \<equiv> as_get InMemoryArtifactStorage (al_storage st) k"

definition artifactStart :: "mem_artifacts ArtifactLifecycleStore" where
  "artifactStart = \<lparr>al_records = [], al_staging = [], al_storage = []\<rparr>"

definition artifactReachable :: "mem_artifacts ArtifactLifecycleStore \<Rightarrow> bool" where
  "artifactReachable st \<longleftrightarrow> (artifact_step InMemoryArtifactStorage)\<^sup>*\<^sup>* artifactStart st"

lemma artifactReachable_ok: "artifactReachable st \<Longrightarrow> artifact_mem.storeOk st"
  unfolding artifactReachable_def artifactStart_def
  using artifact_mem.run_ok artifact_mem.start_ok by blast

lemma read_active:
  assumes "is_ok (fst (al_readArtifact P k scope now st))"
  obtains r b where "map_of (al_records st) k = Some r" "ar_ownershipScope (mr_ref r) = scope"
    "\<not> mr_accessRevoked r" "now < ar_expiresAt (mr_ref r)" "as_get P (al_storage st) k = Some b"
    "fst (al_readArtifact P k scope now st) = Inr b"
proof (cases "map_of (al_records st) k")
  case None
  with assms show ?thesis by (simp add: al_readArtifact_def al_requireRecord_def)
next
  case (Some r)
  with assms that show ?thesis
    by (cases "as_get P (al_storage st) k")
      (auto simp: al_readArtifact_def al_requireRecord_def split: if_splits)
qed

definition demoRef :: ArtifactRef where
  "demoRef = \<lparr>ar_refId = ''art_1'', ar_artifactKind = ''source'', ar_ownershipScope = ''o'',
     ar_contentHash = ''h'', ar_byteSize = 2, ar_createdAt = 0, ar_expiresAt = 100,
     ar_retentionPolicy = TransientRetention, ar_verified = True\<rparr>"

definition artifact1 :: "mem_artifacts ArtifactLifecycleStore" where
  "artifact1 = snd (al_registerVerifiedArtifact InMemoryArtifactStorage demoRef [7, 8] 0 artifactStart)"

definition artifact2 :: "mem_artifacts ArtifactLifecycleStore" where
  "artifact2 = snd (al_deleteExplicit ''art_1'' ''o'' 10 artifact1)"

lemma artifact_demo:
  "artifactReachable artifactStart" "artifactReachable artifact1" "artifactReachable artifact2"
proof -
  show "artifactReachable artifactStart" by (simp add: artifactReachable_def)
  have "artifact_step InMemoryArtifactStorage artifactStart artifact1"
    unfolding artifact1_def by (rule artifact_step.register)
  then show 1: "artifactReachable artifact1" by (simp add: artifactReachable_def)
  have "artifact_step InMemoryArtifactStorage artifact1 artifact2"
    unfolding artifact2_def by (rule artifact_step.deleteExplicit)
  with 1 show "artifactReachable artifact2"
    unfolding artifactReachable_def by (rule rtranclp.rtrancl_into_rtrancl)
qed

lemma artifact1_register:
  "al_registerVerifiedArtifact InMemoryArtifactStorage demoRef [7, 8] 0 artifactStart = (Inr (), artifact1)"
proof -
  have "fst (al_registerVerifiedArtifact InMemoryArtifactStorage demoRef [7, 8] 0 artifactStart) = Inr ()"
    by code_simp
  then show ?thesis unfolding artifact1_def by (metis prod.collapse)
qed

lemma artifact2_record:
  "map_option (\<lambda>r. (mr_status r, mr_updatedAt r)) (map_of (al_records artifact2) ''art_1'') =
     Some (ArtLogicallyDeleted, 10)"
  by code_simp

section \<open>Access\<close>

text \<open>C26. Revocation is final: once an artifact has left the active status (cancelled, failed,
  expired, deleted, awaiting cleanup or cleaned), no later sequence of calls makes it readable
  again, for any caller at any time, neither directly nor through processing.\<close>

theorem artifact_revoked_forever:
  assumes "artifactReachable st" and "map_of (al_records st) k = Some r" and "mr_status r \<noteq> ArtActive"
    and "(artifact_step InMemoryArtifactStorage)\<^sup>*\<^sup>* st st'"
  shows "\<not> is_ok (fst (al_readArtifact InMemoryArtifactStorage k scope now st')) \<and>
    \<not> is_ok (fst (al_processArtifact InMemoryArtifactStorage k scope now st'))"
proof -
  note ok = artifactReachable_ok [OF assms(1)]
  then have "mr_accessRevoked r" using assms(2,3) by (auto simp: artifact_mem.storeOk_def recordOk_def)
  moreover obtain r' where r': "map_of (al_records st') k = Some r'" "recordEvolves r r'"
    using artifact_mem.run_ok [OF assms(4) ok] assms(2) by (blast elim: artifact_mem.storeEvolvesE)
  ultimately have "mr_accessRevoked r'" by (simp add: recordEvolves_def)
  then have n: "\<not> is_ok (fst (al_readArtifact InMemoryArtifactStorage k scope now st'))"
    using r'(1) by (auto elim!: read_active)
  then show ?thesis
    by (cases "al_readArtifact InMemoryArtifactStorage k scope now st'"; cases "fst
      (al_readArtifact InMemoryArtifactStorage k scope now st')") (auto simp: al_processArtifact_def)
qed

theorem artifact_revoked_forever_witness:
  "\<not> is_ok (fst (al_readArtifact InMemoryArtifactStorage ''art_1'' ''o'' 20
     (snd (al_cancelProcessing ''art_1'' ''late'' 15 artifact2))))"
proof -
  from artifact2_record obtain r where r: "map_of (al_records artifact2) ''art_1'' = Some r"
    "mr_status r = ArtLogicallyDeleted" by auto
  have "(artifact_step InMemoryArtifactStorage)\<^sup>*\<^sup>* artifact2
      (snd (al_cancelProcessing ''art_1'' ''late'' 15 artifact2))"
    by (rule r_into_rtranclp) (rule artifact_step.cancel)
  from artifact_revoked_forever [OF artifact_demo(3) r(1) _ this] r(2) show ?thesis by simp
qed

text \<open>A successful read is exactly what was registered: whatever calls happened since an
  artifact was registered, a read that succeeds returns the registered bytes, was made with the
  owner's scope, and happened before the expiry the reference had at registration: nothing in
  between, processing included, changed the reference or extended its retention.\<close>

theorem artifact_read_exact:
  assumes "artifactReachable st0"
    and "al_registerVerifiedArtifact InMemoryArtifactStorage ref b now0 st0 = (Inr (), st)"
    and "(artifact_step InMemoryArtifactStorage)\<^sup>*\<^sup>* st st'"
    and "fst (al_readArtifact InMemoryArtifactStorage (ar_refId ref) scope now st') = Inr b'"
  shows "b' = b \<and> scope = ar_ownershipScope ref \<and> now < ar_expiresAt ref \<and>
    map_option mr_ref (map_of (al_records st') (ar_refId ref)) = Some ref"
proof -
  let ?P = InMemoryArtifactStorage and ?k = "ar_refId ref"
  have "artifact_step ?P st0 st" using artifact_step.register [of ?P st0 ref b now0] assms(2) by simp
  then have ok: "artifact_mem.storeOk st"
    using artifact_mem.step_ok artifactReachable_ok [OF assms(1)] by blast
  from assms(2) obtain S where S: "as_put ?P (al_storage st0) ?k (ar_ownershipScope ref) b = Inr S"
    and st: "al_storage st = S" "map_of (al_records st) ?k = Some \<lparr>mr_ref = ref, mr_status = ArtActive,
      mr_accessRevoked = False, mr_createdAt = now0, mr_updatedAt = now0\<rparr>"
    by (auto simp: al_registerVerifiedArtifact_def split: if_splits sum.splits)
  have g: "memArtifactBytes st ?k = Some b" using mem_artifacts.put [OF S] by (simp add: st(1))
  from artifact_mem.run_ok [OF assms(3) ok] have ev: "artifact_mem.storeEvolves st st'" ..
  from ev st(2) obtain r' where r': "map_of (al_records st') ?k = Some r'" "mr_ref r' = ref"
    and m: "\<And>x. memArtifactBytes st' ?k = Some x \<Longrightarrow> memArtifactBytes st ?k = Some x"
    by (rule artifact_mem.storeEvolvesE) (simp add: recordEvolves_def)
  have "is_ok (fst (al_readArtifact ?P ?k scope now st'))" by (simp add: assms(4))
  then show ?thesis
  proof (cases rule: read_active)
    case (1 r c)
    with assms(4) m g r' show ?thesis by auto
  qed
qed

theorem artifact_read_exact_witness:
  "fst (al_readArtifact InMemoryArtifactStorage ''art_1'' ''o'' 50 artifact1) = Inr [7, 8]"
proof -
  let ?r = "fst (al_readArtifact InMemoryArtifactStorage (ar_refId demoRef) ''o'' 50 artifact1)"
  have "is_ok ?r" by code_simp
  then obtain b where b: "?r = Inr b" by (auto simp: is_ok_iff)
  from artifact_read_exact [OF artifact_demo(1) artifact1_register rtranclp.rtrancl_refl b] b
  show ?thesis by (simp add: demoRef_def)
qed

section \<open>Physical cleanup\<close>

lemma sweep_record:
  assumes "al_sweepArtifacts P now w st = (Inr c, st')" "map_of (al_records st) k = Some r" "mapOk (al_records st)"
  shows "map_of (al_records st') k = Some (sweepOne now w r)" "k \<in> set c \<longleftrightarrow> cleansNow now w r"
    "al_storage st' = foldl (as_delete P) (al_storage st) c" "mapOk (al_records st')"
proof -
  from assms(1) have e: "al_records st' = map (\<lambda>(k, r). (k, sweepOne now w r)) (al_records st)"
    "c = map fst (filter (\<lambda>(k, r). cleansNow now w r) (al_records st))"
    "al_storage st' = foldl (as_delete P) (al_storage st) c"
    by (auto simp: al_sweepArtifacts_def sweepRecords_eq split: sum.splits)
  show "map_of (al_records st') k = Some (sweepOne now w r)" by (simp add: e(1) map_of_mapped assms(2))
  show "mapOk (al_records st')" using assms(3) by (simp add: mapOk_def e(1) map_fst_mapped del: map_map)
  have "x = r" if "(k, x) \<in> set (al_records st)" for x
  proof -
    have "map_of (al_records st) k = Some x"
      using that assms(3) by (simp add: mapOk_def map_of_is_SomeI)
    with assms(2) show ?thesis by simp
  qed
  moreover have "(k, r) \<in> set (al_records st)" using assms(2) by (rule map_of_SomeD)
  moreover have "k \<in> set c \<longleftrightarrow> (\<exists>x. (k, x) \<in> set (al_records st) \<and> cleansNow now w x)"
    unfolding e(2) set_map set_filter by (auto simp: image_iff)
  ultimately show "k \<in> set c \<longleftrightarrow> cleansNow now w r" by blast
  show "al_storage st' = foldl (as_delete P) (al_storage st) c" by (rule e(3))
qed

text \<open>Two sweeps drop the bytes of every expired or deleted artifact: the first sweep after the
  cleanup window moves it to pending, the second one after another window cleans it, reports it and
  deletes its bytes, while an active artifact keeps its record and its bytes through both.\<close>

theorem artifact_two_sweeps_clean:
  assumes "artifactReachable st" and "map_of (al_records st) k = Some r"
    and "mr_status r \<in> {ArtLogicallyExpired, ArtLogicallyDeleted}"
    and "mr_updatedAt r + w \<le> now1" and "now1 + w \<le> now2"
    and "al_sweepArtifacts InMemoryArtifactStorage now1 w st = (Inr c1, st1)"
    and "al_sweepArtifacts InMemoryArtifactStorage now2 w st1 = (Inr c2, st2)"
    and "map_of (al_records st) j = Some a" and "mr_status a = ArtActive"
  shows "k \<notin> set c1 \<and> k \<in> set c2 \<and> memArtifactBytes st2 k = None \<and>
    map_option mr_status (map_of (al_records st2) k) = Some ArtCleaned \<and>
    map_of (al_records st2) j = Some a \<and> memArtifactBytes st2 j = memArtifactBytes st j"
proof -
  from artifactReachable_ok [OF assms(1)] have ok: "mapOk (al_records st)"
    by (simp add: artifact_mem.storeOk_def)
  note s1 = sweep_record [OF assms(6) assms(2) ok] and a1 = sweep_record [OF assms(6) assms(8) ok]
  note s2 = sweep_record [OF assms(7) s1(1,4)] and a2 = sweep_record [OF assms(7) a1(1,4)]
  have d: "sweepDue now1 w r" using assms(3,4) by (auto simp: sweepDue_def)
  have r1: "sweepOne now1 w r = r\<lparr>mr_status := ArtPhysicalCleanupPending, mr_updatedAt := now1\<rparr>"
    using d assms(3) by (auto simp: sweepOne_def)
  have c: "cleansNow now2 w (sweepOne now1 w r)" "\<not> cleansNow now1 w r"
    using assms(3,5) by (auto simp: cleansNow_def sweepDue_def r1)
  have r2: "mr_status (sweepOne now2 w (sweepOne now1 w r)) = ArtCleaned"
    using c(1) by (simp add: sweepOne_def cleansNow_def)
  have act: "sweepOne now1 w a = a" "sweepOne now2 w a = a" "\<not> cleansNow now1 w a" "\<not> cleansNow now2 w a"
    using assms(9) by (simp_all add: sweepOne_def cleansNow_def sweepDue_def)
  have b2: "memArtifactBytes st2 x = (if x \<in> set c2 \<or> x \<in> set c1 then None else memArtifactBytes st x)" for x
    by (simp add: s2(3) s1(3) mem_artifacts.get_foldl_delete)
  show ?thesis
    using s1(2) s2(1,2) a1(2) a2(1,2) c r2 act b2 by simp
qed

definition artifact3 :: "mem_artifacts ArtifactLifecycleStore" where
  "artifact3 = snd (al_registerVerifiedArtifact InMemoryArtifactStorage
     (demoRef\<lparr>ar_refId := ''art_2''\<rparr>) [9] 10 artifact2)"

lemma artifact3_reachable: "artifactReachable artifact3"
proof -
  have "artifact_step InMemoryArtifactStorage artifact2 artifact3"
    unfolding artifact3_def by (rule artifact_step.register)
  with artifact_demo(3) show ?thesis
    unfolding artifactReachable_def by (rule rtranclp.rtrancl_into_rtrancl)
qed

lemma artifact3_records:
  "map_option (\<lambda>r. (mr_status r, mr_updatedAt r)) (map_of (al_records artifact3) ''art_1'') =
     Some (ArtLogicallyDeleted, 10)"
  "map_option mr_status (map_of (al_records artifact3) ''art_2'') = Some ArtActive"
  by code_simp+

theorem artifact_two_sweeps_clean_witness:
  "\<exists>c1 st1 c2 st2. al_sweepArtifacts InMemoryArtifactStorage 1010 1000 artifact3 = (Inr c1, st1) \<and>
     al_sweepArtifacts InMemoryArtifactStorage 2010 1000 st1 = (Inr c2, st2) \<and>
     ''art_1'' \<in> set c2 \<and> memArtifactBytes st2 ''art_1'' = None"
proof -
  have w: "validateCleanupWindow 1000 = Inr ()" by code_simp
  obtain c1 st1 c2 st2 where s: "al_sweepArtifacts InMemoryArtifactStorage 1010 1000 artifact3 = (Inr c1, st1)"
    "al_sweepArtifacts InMemoryArtifactStorage 2010 1000 st1 = (Inr c2, st2)"
    by (simp add: al_sweepArtifacts_def w sweepRecords_eq)
  from artifact3_records obtain r a where
    r: "map_of (al_records artifact3) ''art_1'' = Some r" "mr_status r = ArtLogicallyDeleted" "mr_updatedAt r = 10"
    and a: "map_of (al_records artifact3) ''art_2'' = Some a" "mr_status a = ArtActive" by auto
  from artifact_two_sweeps_clean [OF artifact3_reachable r(1) _ _ _ s a] r(2,3) s show ?thesis by auto
qed

text \<open>One round of the periodic maintenance: expire, sweep, remove orphans.\<close>

definition maintenanceRound :: "'s artifact_port \<Rightarrow> int \<times> int \<Rightarrow> 's ArtifactLifecycleStore \<Rightarrow>
    's ArtifactLifecycleStore" where
  "maintenanceRound P = (\<lambda>(now, w) st. snd (al_cleanupOrphans P
     (snd (al_sweepArtifacts P now w (snd (al_expireSweep now st))))))"

lemma round_keeps:
  assumes "map_of (al_records st) k = Some r" "mr_status r = ArtCancelled \<or> mr_status r = ArtFailed"
    "mapOk (al_records st)"
  shows "map_of (al_records (maintenanceRound InMemoryArtifactStorage nw st)) k = Some r \<and>
    memArtifactBytes (maintenanceRound InMemoryArtifactStorage nw st) k = memArtifactBytes st k \<and>
    mapOk (al_records (maintenanceRound InMemoryArtifactStorage nw st))"
proof -
  let ?P = InMemoryArtifactStorage
  obtain now w where nw: "nw = (now, w)" by fastforce
  define s1 where "s1 = snd (al_expireSweep now st)"
  have r1: "al_records s1 = map (\<lambda>(k, r). (k, expireOne now r)) (al_records st)" "al_storage s1 = al_storage st"
    by (simp_all add: s1_def al_expireSweep_def split_beta Let_def expireEntries_eq)
  have k1: "map_of (al_records s1) k = Some r" "mapOk (al_records s1)"
    using assms by (auto simp: r1 map_of_mapped expireOne_def mapOk_def map_fst_mapped simp del: map_map)
  define s2 where "s2 = snd (al_sweepArtifacts ?P now w s1)"
  have k2: "map_of (al_records s2) k = Some r \<and> memArtifactBytes s2 k = memArtifactBytes s1 k \<and>
      mapOk (al_records s2)"
  proof (cases "validateCleanupWindow w")
    case (Inl e)
    with k1 show ?thesis by (simp add: s2_def al_sweepArtifacts_def)
  next
    case (Inr u)
    then obtain c where "al_sweepArtifacts ?P now w s1 = (Inr c, s2)"
      by (simp add: s2_def al_sweepArtifacts_def sweepRecords_eq)
    note sw = sweep_record [OF this k1]
    have "sweepOne now w r = r" "\<not> cleansNow now w r"
      using assms(2) by (auto simp: sweepOne_def cleansNow_def sweepDue_def)
    with sw show ?thesis by (simp add: mem_artifacts.get_foldl_delete)
  qed
  have "maintenanceRound ?P nw st = snd (al_cleanupOrphans ?P s2)"
    by (simp add: maintenanceRound_def nw s1_def s2_def)
  with k2 r1(2) show ?thesis
    by (simp add: al_cleanupOrphans_def Let_def mem_artifacts.get_foldl_delete)
qed

text \<open>Cancelled and failed artifacts are never cleaned up: however often the maintenance runs
  (expiry sweep, cleanup sweep with any window, orphan removal), the record of a cancelled or failed
  artifact stays as it is and its bytes stay in the storage.\<close>

theorem artifact_cancelled_never_swept:
  assumes "artifactReachable st" and "map_of (al_records st) k = Some r"
    and "mr_status r = ArtCancelled \<or> mr_status r = ArtFailed"
  shows "map_of (al_records (fold (maintenanceRound InMemoryArtifactStorage) rounds st)) k = Some r \<and>
    memArtifactBytes (fold (maintenanceRound InMemoryArtifactStorage) rounds st) k = memArtifactBytes st k"
proof -
  from artifactReachable_ok [OF assms(1)] have "mapOk (al_records st)"
    by (simp add: artifact_mem.storeOk_def)
  with assms(2) show ?thesis
  proof (induction rounds arbitrary: st)
    case (Cons nw rounds)
    from round_keeps [OF Cons.prems(1) assms(3) Cons.prems(2), of nw] Cons.IH
    show ?case by simp
  qed simp
qed

definition artifactCancelled :: "mem_artifacts ArtifactLifecycleStore" where
  "artifactCancelled = snd (al_cancelProcessing ''art_1'' ''stop'' 5 artifact1)"

theorem artifact_cancelled_never_swept_witness:
  "memArtifactBytes (fold (maintenanceRound InMemoryArtifactStorage)
     [(1000000, 1000), (2000000, 1000), (3000000, 1000)] artifactCancelled) ''art_1'' = Some [7, 8]"
proof -
  have "artifact_step InMemoryArtifactStorage artifact1 artifactCancelled"
    unfolding artifactCancelled_def by (rule artifact_step.cancel)
  with artifact_demo(2) have reach: "artifactReachable artifactCancelled"
    unfolding artifactReachable_def by (rule rtranclp.rtrancl_into_rtrancl)
  have "map_option mr_status (map_of (al_records artifactCancelled) ''art_1'') = Some ArtCancelled" by code_simp
  then obtain r where r: "map_of (al_records artifactCancelled) ''art_1'' = Some r" "mr_status r = ArtCancelled"
    by auto
  have "memArtifactBytes artifactCancelled ''art_1'' = Some [7, 8]" by code_simp
  with artifact_cancelled_never_swept [OF reach r(1), of "[(1000000, 1000), (2000000, 1000), (3000000, 1000)]"]
    r(2) show ?thesis by (simp del: fold_simps)
qed

end
