(* ===== verification/JsDates.thy ===== *)
theory JsDates
  imports JsPrelude
begin

text \<open>
  The UTC calendar of JavaScript dates: the fields of an instant and the text that \<open>toISOString\<close>
  prints for it.
\<close>

section \<open>The UTC calendar\<close>

text \<open>\<open>getUTCFullYear\<close>, \<open>getUTCMonth() + 1\<close> and \<open>getUTCDate\<close> of a time value: the proleptic Gregorian
  calendar, counted in eras of 400 years from 0000-03-01.\<close>

definition utcDate :: "int \<Rightarrow> int \<times> int \<times> int" where
  "utcDate t =
     (let z = t div 86400000 + 719468;
          era = z div 146097; doe = z mod 146097;
          yoe = (doe - doe div 1460 + doe div 36524 - doe div 146096) div 365;
          doy = doe - (365 * yoe + yoe div 4 - yoe div 100);
          mp = (5 * doy + 2) div 153;
          m = (if mp < 10 then mp + 3 else mp - 9)
      in (yoe + era * 400 + (if m \<le> 2 then 1 else 0), m, doy - (153 * mp + 2) div 5 + 1))"

definition daysFromCivil :: "int \<Rightarrow> int \<Rightarrow> int \<Rightarrow> int" where
  "daysFromCivil y m d =
     (let y' = (if m \<le> 2 then y - 1 else y);
          doy = (153 * (if m > 2 then m - 3 else m + 9) + 2) div 5 + d - 1;
          yoe = y' mod 400
      in (y' div 400) * 146097 + yoe * 365 + yoe div 4 - yoe div 100 + doy - 719468)"

text \<open>\<open>Date.UTC(y, month, d)\<close> with a zero-based month that may overflow; years 0 to 99 mean 1900 to
  1999.\<close>

definition dateUTC :: "int \<Rightarrow> int \<Rightarrow> int \<Rightarrow> int" where
  "dateUTC y month d =
     (let y' = (if 0 \<le> y \<and> y \<le> 99 then 1900 + y else y)
      in (daysFromCivil (y' + month div 12) (month mod 12 + 1) 1 + d - 1) * 86400000)"

definition isoYear :: "int \<Rightarrow> string" where
  "isoYear y = (if 0 \<le> y \<and> y \<le> 9999 then padStart 4 (CHR ''0'') (showInt y)
     else (if y < 0 then ''-'' else ''+'') @ padStart 6 (CHR ''0'') (showNat (nat \<bar>y\<bar>)))"

definition isoDay :: "int \<Rightarrow> string" where
  "isoDay t = (let (y, m, d) = utcDate t in
     isoYear y @ ''-'' @ padStart 2 (CHR ''0'') (showInt m) @ ''-'' @ padStart 2 (CHR ''0'') (showInt d))"

section \<open>The text of an instant\<close>

definition twoDigits :: "int \<Rightarrow> string" where
  "twoDigits n = padStart 2 (CHR ''0'') (showInt n)"

fun isoText :: "iso \<Rightarrow> string" where
  "isoText (NotIso s) = s"
| "isoText (Iso t) =
     (let ms = t mod 86400000
      in isoDay t @ ''T'' @ twoDigits (ms div 3600000) @ '':'' @ twoDigits (ms div 60000 mod 60) @ '':'' @
         twoDigits (ms div 1000 mod 60) @ ''.'' @ padStart 3 (CHR ''0'') (showInt (ms mod 1000)) @ ''Z'')"

end
