(* ===== verification/SearchBudget.thy ===== *)
theory SearchBudget
  imports JsDates
begin

text \<open>
  \<^verbatim>\<open>src/core/search-budget.ts\<close>: the monthly and daily attempt budgets, the per-minute rate limiter
  and their composition. The clock is read once per call: \<open>now\<close> is the time of the call in
  milliseconds, and it does not advance during one synchronous call. A provider whose entry in the
  configuration is undefined is a provider without an entry.
\<close>

section \<open>Configuration and snapshots\<close>

datatype SearchBudgetPeriod = Monthly | Daily | Minute

record SearchBudgetSnapshot =
  bs_period :: SearchBudgetPeriod
  bs_provider :: string
  bs_limited :: bool
  bs_limit :: "int option"
  bs_used :: int
  bs_remaining :: "int option"
  bs_exhausted :: bool
  bs_resetAt :: "iso option"

definition validateSearchBudgets :: "jsnum jsmap \<Rightarrow> string \<Rightarrow> unit res" where
  "validateSearchBudgets budgets label =
     throwIf (list_ex (\<lambda>value. \<not> isInteger value \<or> jlt value (jint 0)) (map snd budgets))
       (GroundlaneError INVALID_INPUT ''search-budget'' (label @ '' must be non-negative integers'')
         False (Some (Hint ''search_budget.invalid_config''
           (''Pass integer >= 0 for daily and monthly limits. The config validator runs once at startup; '' @
            ''remove the offending value and restart.''))))"

definition intLimits :: "jsnum jsmap \<Rightarrow> int jsmap" where
  "intLimits m = map (\<lambda>(p, n). (p, toInt n)) m"

section \<open>Monthly and daily budgets\<close>

record PeriodBudget =
  pb_budgets :: "int jsmap"
  pb_key :: string
  pb_attempts :: "int jsmap"

definition attemptsOf :: "PeriodBudget \<Rightarrow> string \<Rightarrow> int" where
  "attemptsOf s provider = (case map_of (pb_attempts s) provider of None \<Rightarrow> 0 | Some n \<Rightarrow> n)"

text \<open>The two classes share their code but for the key of the current period and the next reset;
  these are the methods of either, over its key.\<close>

definition period_create ::
  "(int \<Rightarrow> string) \<Rightarrow> string \<Rightarrow> jsnum jsmap \<Rightarrow> int \<Rightarrow> PeriodBudget res" where
  "period_create keyOf label budgets now =
     andThen (validateSearchBudgets budgets label)
       (Inr \<lparr>pb_budgets = intLimits budgets, pb_key = keyOf now, pb_attempts = []\<rparr>)"

definition period_resetIfNeeded :: "(int \<Rightarrow> string) \<Rightarrow> int \<Rightarrow> PeriodBudget \<Rightarrow> PeriodBudget" where
  "period_resetIfNeeded keyOf now s =
     (let current = keyOf now in
      if current = pb_key s then s else s\<lparr>pb_key := current, pb_attempts := []\<rparr>)"

definition period_tryConsume ::
  "(int \<Rightarrow> string) \<Rightarrow> int \<Rightarrow> string \<Rightarrow> PeriodBudget \<Rightarrow> bool \<times> PeriodBudget" where
  "period_tryConsume keyOf now provider s0 =
     (let s = period_resetIfNeeded keyOf now s0 in
      case map_of (pb_budgets s) provider of
        None \<Rightarrow> (True, s)
      | Some budget \<Rightarrow>
          let used = attemptsOf s provider in
          if used \<ge> budget then (False, s)
          else (True, s\<lparr>pb_attempts := AList.update provider (used + 1) (pb_attempts s)\<rparr>))"

definition period_remaining ::
  "(int \<Rightarrow> string) \<Rightarrow> int \<Rightarrow> string \<Rightarrow> PeriodBudget \<Rightarrow> int option \<times> PeriodBudget" where
  "period_remaining keyOf now provider s0 =
     (let s = period_resetIfNeeded keyOf now s0 in
      (map_option (\<lambda>budget. max 0 (budget - attemptsOf s provider)) (map_of (pb_budgets s) provider), s))"

definition limitedSnapshot :: "SearchBudgetPeriod \<Rightarrow> string \<Rightarrow> int option \<Rightarrow> int \<Rightarrow> iso option \<Rightarrow>
    SearchBudgetSnapshot" where
  "limitedSnapshot period provider limit used resetAt =
     \<lparr>bs_period = period, bs_provider = provider, bs_limited = (limit \<noteq> None), bs_limit = limit,
      bs_used = used, bs_remaining = map_option (\<lambda>l. max 0 (l - used)) limit,
      bs_exhausted = (case limit of None \<Rightarrow> False | Some l \<Rightarrow> used \<ge> l), bs_resetAt = resetAt\<rparr>"

text \<open>\<open>nextResetAt\<close> throws when the reset lies outside the date range, but only if a provider is asked
  for.\<close>

definition period_snapshots :: "(int \<Rightarrow> string) \<Rightarrow> (int \<Rightarrow> int) \<Rightarrow> SearchBudgetPeriod \<Rightarrow> int \<Rightarrow>
    string list \<Rightarrow> PeriodBudget \<Rightarrow> SearchBudgetSnapshot list res \<times> PeriodBudget" where
  "period_snapshots keyOf nextReset period now providers s0 =
     (let s = period_resetIfNeeded keyOf now s0 in
      (if providers = [] then Inr []
       else bindE (toISOString (Some (nextReset now))) (\<lambda>resetAt.
         Inr (map (\<lambda>p. limitedSnapshot period p (map_of (pb_budgets s) p) (attemptsOf s p)
           (Some resetAt)) providers)), s))"

definition currentMonth :: "int \<Rightarrow> string" where
  "currentMonth now = (let (y, m, d) = utcDate now in showInt y @ ''-'' @ padStart 2 (CHR ''0'') (showInt m))"

definition nextMonthResetAt :: "int \<Rightarrow> int" where
  "nextMonthResetAt now = (let (y, m, d) = utcDate now in dateUTC y m 1)"

definition monthly_create where
  "monthly_create = period_create currentMonth ''Monthly search budgets''"
definition monthly_tryConsume where "monthly_tryConsume = period_tryConsume currentMonth"
definition monthly_remaining where "monthly_remaining = period_remaining currentMonth"
definition monthly_snapshots where
  "monthly_snapshots = period_snapshots currentMonth nextMonthResetAt Monthly"

definition currentDay :: "int \<Rightarrow> string" where
  "currentDay now = take 10 (isoDay now)"

definition nextDayResetAt :: "int \<Rightarrow> int" where
  "nextDayResetAt now = (let (y, m, d) = utcDate now in dateUTC y (m - 1) (d + 1))"

definition daily_create where
  "daily_create = period_create currentDay ''Daily search budgets''"
definition daily_tryConsume where "daily_tryConsume = period_tryConsume currentDay"
definition daily_remaining where "daily_remaining = period_remaining currentDay"
definition daily_snapshots where
  "daily_snapshots = period_snapshots currentDay nextDayResetAt Daily"

section \<open>The minute limiter\<close>

record MinuteRateLimiter =
  ml_limits :: "int jsmap"
  ml_timestamps :: "int list jsmap"

definition minute_create :: "jsnum jsmap \<Rightarrow> MinuteRateLimiter res" where
  "minute_create limits =
     andThen (throwIf (list_ex (\<lambda>value. \<not> isInteger value \<or> jlt value (jint 1)) (map snd limits))
       (GroundlaneError INVALID_INPUT ''search-budget''
         ''Per-minute rate limits must be positive integers'' False
         (Some (Hint ''search_budget.invalid_rpm''
           (''Per-minute rate limits must be integer >= 1. Pass integer values for jina and any other '' @
            ''provider in the RPM config.'')))))
       (Inr \<lparr>ml_limits = intLimits limits, ml_timestamps = []\<rparr>)"

definition timesOf :: "MinuteRateLimiter \<Rightarrow> string \<Rightarrow> int list" where
  "timesOf s provider = (case map_of (ml_timestamps s) provider of None \<Rightarrow> [] | Some ts \<Rightarrow> ts)"

definition minute_prune :: "int \<Rightarrow> string \<Rightarrow> MinuteRateLimiter \<Rightarrow> MinuteRateLimiter" where
  "minute_prune now provider s = (case map_of (ml_timestamps s) provider of
     None \<Rightarrow> s
   | Some stamps \<Rightarrow>
       let pruned = filter (\<lambda>t. t > now - 60000) stamps in
       if pruned = [] then s\<lparr>ml_timestamps := AList.delete provider (ml_timestamps s)\<rparr>
       else s\<lparr>ml_timestamps := AList.update provider pruned (ml_timestamps s)\<rparr>)"

definition minute_tryConsume :: "int \<Rightarrow> string \<Rightarrow> MinuteRateLimiter \<Rightarrow> bool \<times> MinuteRateLimiter" where
  "minute_tryConsume now provider s0 = (case map_of (ml_limits s0) provider of
     None \<Rightarrow> (True, s0)
   | Some limit \<Rightarrow>
       let s = minute_prune now provider s0; stamps = timesOf s provider in
       if int (length stamps) \<ge> limit then (False, s)
       else (True, s\<lparr>ml_timestamps := AList.update provider (stamps @ [now]) (ml_timestamps s)\<rparr>))"

definition minute_remaining :: "int \<Rightarrow> string \<Rightarrow> MinuteRateLimiter \<Rightarrow> int option \<times> MinuteRateLimiter" where
  "minute_remaining now provider s0 = (case map_of (ml_limits s0) provider of
     None \<Rightarrow> (None, s0)
   | Some limit \<Rightarrow>
       let s = minute_prune now provider s0
       in (Some (max 0 (limit - int (length (timesOf s provider)))), s))"

fun minute_snapshots :: "int \<Rightarrow> string list \<Rightarrow> MinuteRateLimiter \<Rightarrow>
    SearchBudgetSnapshot list \<times> MinuteRateLimiter" where
  "minute_snapshots now [] s = ([], s)"
| "minute_snapshots now (p # ps) s = (case map_of (ml_limits s) p of
     None \<Rightarrow> (let (rest, s') = minute_snapshots now ps s
              in (limitedSnapshot Minute p None 0 None # rest, s'))
   | Some limit \<Rightarrow>
       let s1 = minute_prune now p s; (rest, s') = minute_snapshots now ps s1
       in (limitedSnapshot Minute p (Some limit) (int (length (timesOf s1 p))) None # rest, s'))"

section \<open>Trackers and their composition\<close>

text \<open>An object behind the \<open>SearchBudgetTracker\<close> interface.\<close>

datatype tracker = MonthlyTracker PeriodBudget | DailyTracker PeriodBudget
  | MinuteTracker MinuteRateLimiter

fun tracker_tryConsume :: "int \<Rightarrow> string \<Rightarrow> tracker \<Rightarrow> bool \<times> tracker" where
  "tracker_tryConsume now p (MonthlyTracker s) = map_prod id MonthlyTracker (monthly_tryConsume now p s)"
| "tracker_tryConsume now p (DailyTracker s) = map_prod id DailyTracker (daily_tryConsume now p s)"
| "tracker_tryConsume now p (MinuteTracker s) = map_prod id MinuteTracker (minute_tryConsume now p s)"

fun tracker_remaining :: "int \<Rightarrow> string \<Rightarrow> tracker \<Rightarrow> int option \<times> tracker" where
  "tracker_remaining now p (MonthlyTracker s) = map_prod id MonthlyTracker (monthly_remaining now p s)"
| "tracker_remaining now p (DailyTracker s) = map_prod id DailyTracker (daily_remaining now p s)"
| "tracker_remaining now p (MinuteTracker s) = map_prod id MinuteTracker (minute_remaining now p s)"

fun tracker_snapshots :: "int \<Rightarrow> string list \<Rightarrow> tracker \<Rightarrow> SearchBudgetSnapshot list res \<times> tracker" where
  "tracker_snapshots now ps (MonthlyTracker s) = map_prod id MonthlyTracker (monthly_snapshots now ps s)"
| "tracker_snapshots now ps (DailyTracker s) = map_prod id DailyTracker (daily_snapshots now ps s)"
| "tracker_snapshots now ps (MinuteTracker s) = map_prod Inr MinuteTracker (minute_snapshots now ps s)"

type_synonym CompositeSearchBudget = "tracker list"

text \<open>The first loop of \<open>tryConsume\<close>: stop at the first exhausted tracker.\<close>

fun composite_check :: "int \<Rightarrow> string \<Rightarrow> tracker list \<Rightarrow> bool \<times> tracker list" where
  "composite_check now p [] = (True, [])"
| "composite_check now p (t # ts) =
     (let (r, t') = tracker_remaining now p t in
      case r of
        Some n \<Rightarrow> if n \<le> 0 then (False, t' # ts)
                  else (let (ok, ts') = composite_check now p ts in (ok, t' # ts'))
      | None \<Rightarrow> (let (ok, ts') = composite_check now p ts in (ok, t' # ts')))"

definition composite_tryConsume ::
  "int \<Rightarrow> string \<Rightarrow> CompositeSearchBudget \<Rightarrow> bool \<times> CompositeSearchBudget" where
  "composite_tryConsume now p ts =
     (let (ok, ts') = composite_check now p ts in
      if \<not> ok then (False, ts')
      else (True, map (\<lambda>t. snd (tracker_tryConsume now p t)) ts'))"

definition optMin :: "int option \<Rightarrow> int option \<Rightarrow> int option" where
  "optMin m r = (case r of None \<Rightarrow> m | Some x \<Rightarrow>
     (case m of None \<Rightarrow> Some x | Some y \<Rightarrow> if x < y then Some x else Some y))"

definition composite_remaining ::
  "int \<Rightarrow> string \<Rightarrow> CompositeSearchBudget \<Rightarrow> int option \<times> CompositeSearchBudget" where
  "composite_remaining now p ts =
     (foldl optMin None (map (\<lambda>t. fst (tracker_remaining now p t)) ts),
      map (\<lambda>t. snd (tracker_remaining now p t)) ts)"

fun composite_snapshots :: "int \<Rightarrow> string list \<Rightarrow> CompositeSearchBudget \<Rightarrow>
    SearchBudgetSnapshot list res \<times> CompositeSearchBudget" where
  "composite_snapshots now ps [] = (Inr [], [])"
| "composite_snapshots now ps (t # ts) =
     (case tracker_snapshots now ps t of
        (Inl e, t') \<Rightarrow> (Inl e, t' # ts)
      | (Inr xs, t') \<Rightarrow>
          let (rest, ts') = composite_snapshots now ps ts
          in (bindE rest (\<lambda>ys. Inr (xs @ ys)), t' # ts'))"

definition consumeProviderAttemptBudget :: "CompositeSearchBudget option \<Rightarrow> int \<Rightarrow> string \<Rightarrow> string \<Rightarrow>
    bool \<Rightarrow> string option res \<times> CompositeSearchBudget option" where
  "consumeProviderAttemptBudget budget now provider source throwWhenExhausted =
     (case budget of None \<Rightarrow> (Inr None, None) | Some b \<Rightarrow>
      let (ok, b') = composite_tryConsume now provider b in
      (if ok then Inr None
       else if throwWhenExhausted
       then Inl (GroundlaneError PROVIDER_UNAVAILABLE source (provider @ '' request budget is exhausted'')
         True (Some (Hint ''search_budget.exhausted''
           (''The local attempt budget for this provider is exhausted. Wait for reset, raise the '' @
            ''operator-configured limit, or use a different provider.''))))
       else Inr (Some (provider @ '' budget exhausted'')), Some b'))"

end
