(* ===== verification/BudgetProperties.thy ===== *)
theory BudgetProperties
  imports SearchBudget
begin

text \<open>
  The contract of a search budget tracker, proved for the period budgets, the minute limiter, the
  tracker objects and their composition, and what it gives: exact grants, a true sliding window and
  all-or-nothing consumption.
\<close>

section \<open>The contract\<close>

text \<open>Asking for the remainder changes no answer; an attempt is granted exactly when something
  remains, takes one from its own provider when it is, and changes nothing else.\<close>

locale budget_tracker =
  fixes tryC :: "int \<Rightarrow> string \<Rightarrow> 't \<Rightarrow> bool \<times> 't"
    and rem :: "int \<Rightarrow> string \<Rightarrow> 't \<Rightarrow> int option \<times> 't"
  assumes rem_keeps: "fst (rem now q (snd (rem now p s))) = fst (rem now q s)"
    and rem_nonneg: "fst (rem now p s) = Some r \<Longrightarrow> 0 \<le> r"
    and consume_iff: "fst (tryC now p s) \<longleftrightarrow> fst (rem now p s) \<noteq> Some 0"
    and consume_rem: "fst (rem now q (snd (tryC now p s))) =
      (if fst (tryC now p s) \<and> q = p then map_option (\<lambda>r. r - 1) (fst (rem now q s))
       else fst (rem now q s))"

text \<open>Attempts of one provider at one moment: how many are granted.\<close>

primrec grantCount :: "(int \<Rightarrow> string \<Rightarrow> 't \<Rightarrow> bool \<times> 't) \<Rightarrow> int \<Rightarrow> string \<Rightarrow> nat \<Rightarrow> 't \<Rightarrow> nat" where
  "grantCount tryC now p 0 s = 0"
| "grantCount tryC now p (Suc n) s =
     (let (ok, s') = tryC now p s in (if ok then 1 else 0) + grantCount tryC now p n s')"

context budget_tracker
begin

lemma grants_exact:
  "fst (rem now p s) = Some r \<Longrightarrow> grantCount tryC now p n s = min n (nat r)"
proof (induction n arbitrary: s r)
  case (Suc n)
  obtain ok s' where t: "tryC now p s = (ok, s')" by fastforce
  have i: "ok \<longleftrightarrow> r \<noteq> 0" using consume_iff [of now p s] Suc.prems t by simp
  have "fst (rem now p s') = Some (if ok then r - 1 else r)"
    using consume_rem [of now p p s] Suc.prems t by simp
  from Suc.IH [OF this] i rem_nonneg [OF Suc.prems] show ?case
    by (auto simp: t min_def)
qed simp

lemma grants_unlimited: "fst (rem now p s) = None \<Longrightarrow> grantCount tryC now p n s = n"
proof (induction n arbitrary: s)
  case (Suc n)
  obtain ok s' where t: "tryC now p s = (ok, s')" by fastforce
  have "ok" "fst (rem now p s') = None"
    using consume_iff [of now p s] consume_rem [of now p p s] Suc.prems t by simp_all
  with Suc.IH show ?case by (simp add: t)
qed simp

end

section \<open>The trackers satisfy it\<close>

lemma reset_idem [simp]:
  "period_resetIfNeeded keyOf now (period_resetIfNeeded keyOf now s) = period_resetIfNeeded keyOf now s"
  by (simp add: period_resetIfNeeded_def Let_def)

lemma reset_budgets [simp]: "pb_budgets (period_resetIfNeeded keyOf now s) = pb_budgets s"
  by (simp add: period_resetIfNeeded_def Let_def)

lemma reset_current: "pb_key s = keyOf now \<Longrightarrow> period_resetIfNeeded keyOf now s = s"
  by (simp add: period_resetIfNeeded_def)

lemma reset_key [simp]: "pb_key (period_resetIfNeeded keyOf now s) = keyOf now"
  by (simp add: period_resetIfNeeded_def Let_def)

lemma reset_update:
  "period_resetIfNeeded keyOf now (period_resetIfNeeded keyOf now s\<lparr>pb_attempts := a\<rparr>) =
     period_resetIfNeeded keyOf now s\<lparr>pb_attempts := a\<rparr>"
  by (rule reset_current) simp

lemma attemptsOf_update:
  "attemptsOf (s\<lparr>pb_attempts := AList.update p n (pb_attempts s)\<rparr>) q = (if q = p then n else attemptsOf s q)"
  by (simp add: attemptsOf_def)

interpretation period: budget_tracker "period_tryConsume keyOf" "period_remaining keyOf" for keyOf
  by unfold_locales
    (auto simp: period_tryConsume_def period_remaining_def Let_def reset_update attemptsOf_update
      split: option.splits)

lemma timesOf_prune:
  "timesOf (minute_prune now p s) q = (if q = p then filter (\<lambda>t. t > now - 60000) (timesOf s p) else timesOf s q)"
  by (auto simp: timesOf_def minute_prune_def Let_def split: option.splits)

lemma prune_limits [simp]: "ml_limits (minute_prune now p s) = ml_limits s"
  by (simp add: minute_prune_def Let_def split: option.splits)

lemma timesOf_update:
  "timesOf (s\<lparr>ml_timestamps := AList.update p ts (ml_timestamps s)\<rparr>) q = (if q = p then ts else timesOf s q)"
  by (simp add: timesOf_def)

interpretation minute: budget_tracker minute_tryConsume minute_remaining
  by unfold_locales
    (auto simp: minute_tryConsume_def minute_remaining_def Let_def timesOf_prune timesOf_update
      split: option.splits)

interpretation tracker: budget_tracker tracker_tryConsume tracker_remaining
proof unfold_locales
  show "fst (tracker_remaining now q (snd (tracker_remaining now p s))) = fst (tracker_remaining now q s)" for now p q s
    by (cases s) (simp_all add: monthly_remaining_def daily_remaining_def period.rem_keeps minute.rem_keeps)
  show "0 \<le> r" if "fst (tracker_remaining now p s) = Some r" for now p s r
    using that by (cases s)
      (auto simp: monthly_remaining_def daily_remaining_def dest: period.rem_nonneg minute.rem_nonneg)
  show "fst (tracker_tryConsume now p s) \<longleftrightarrow> fst (tracker_remaining now p s) \<noteq> Some 0" for now p s
    by (cases s) (simp_all add: monthly_tryConsume_def daily_tryConsume_def monthly_remaining_def
        daily_remaining_def period.consume_iff minute.consume_iff)
  show "fst (tracker_remaining now q (snd (tracker_tryConsume now p s))) =
      (if fst (tracker_tryConsume now p s) \<and> q = p then map_option (\<lambda>r. r - 1) (fst (tracker_remaining now q s))
       else fst (tracker_remaining now q s))" for now p q s
    by (cases s) (simp_all add: monthly_tryConsume_def daily_tryConsume_def monthly_remaining_def
        daily_remaining_def period.consume_rem minute.consume_rem)
qed

section \<open>Composition\<close>

lemma composite_check_ok:
  "composite_check now p ts = (ok, ts') \<Longrightarrow>
     list_all2 (\<lambda>t t'. \<forall>q. fst (tracker_remaining now q t') = fst (tracker_remaining now q t)) ts ts' \<and>
     (ok \<longleftrightarrow> (\<forall>t \<in> set ts. fst (tracker_remaining now p t) \<noteq> Some 0))"
proof (induction ts arbitrary: ok ts')
  case (Cons t ts)
  obtain r t1 where r: "tracker_remaining now p t = (r, t1)" by fastforce
  have k: "\<forall>q. fst (tracker_remaining now q t1) = fst (tracker_remaining now q t)"
    using tracker.rem_keeps [of now _ p t] by (simp add: r)
  obtain ok2 ts2 where c: "composite_check now p ts = (ok2, ts2)" by fastforce
  have refl: "list_all2 (\<lambda>t t'. \<forall>q. fst (tracker_remaining now q t') = fst (tracker_remaining now q t)) ts ts"
    by (simp add: list_all2_same)
  note ih = Cons.IH [OF c]
  show ?case
  proof (cases r)
    case None
    with ih c Cons.prems k r show ?thesis by auto
  next
    case (Some n)
    have n: "0 \<le> n" using tracker.rem_nonneg [of now p t n] r Some by simp
    show ?thesis
    proof (cases "n \<le> 0")
      case True
      with Cons.prems Some r n k refl show ?thesis by auto
    next
      case False
      with ih c Cons.prems k Some r show ?thesis by auto
    qed
  qed
qed simp

lemma all2_map: "list_all2 (\<lambda>t t'. f t' = f t) ts ts' \<Longrightarrow> map f ts' = map f ts"
  by (induction rule: list_all2_induct) auto

lemma optMin_zero:
  "(\<forall>x. Some x \<in> set xs \<longrightarrow> 0 \<le> x) \<Longrightarrow> (\<forall>x. m = Some x \<longrightarrow> 0 \<le> x) \<Longrightarrow>
     (foldl optMin m xs = Some 0 \<longleftrightarrow> m = Some 0 \<or> Some 0 \<in> set xs)"
proof (induction xs arbitrary: m)
  case (Cons x xs)
  have "\<forall>y. optMin m x = Some y \<longrightarrow> 0 \<le> y"
    using Cons.prems by (auto simp: optMin_def split: option.splits if_splits)
  with Cons.IH [of "optMin m x"] Cons.prems show ?case
    by (auto simp: optMin_def split: option.splits if_splits)
qed simp

lemma optMin_nonneg:
  "(\<forall>x. Some x \<in> set xs \<longrightarrow> 0 \<le> x) \<Longrightarrow> (\<forall>x. m = Some x \<longrightarrow> 0 \<le> x) \<Longrightarrow>
     foldl optMin m xs = Some r \<Longrightarrow> 0 \<le> r"
proof (induction xs arbitrary: m)
  case (Cons x xs)
  have "\<forall>y. optMin m x = Some y \<longrightarrow> 0 \<le> y"
    using Cons.prems(1,2) by (auto simp: optMin_def split: option.splits if_splits)
  with Cons.IH [of "optMin m x"] Cons.prems show ?case by simp
qed simp

lemma optMin_dec:
  "foldl optMin (map_option (\<lambda>r. r - 1) m) (map (map_option (\<lambda>r. r - 1)) xs) =
     map_option (\<lambda>r. r - 1) (foldl optMin m xs)"
proof (induction xs arbitrary: m)
  case (Cons x xs)
  have "optMin (map_option (\<lambda>r. r - 1) m) (map_option (\<lambda>r. r - 1) x) = map_option (\<lambda>r. r - 1) (optMin m x)"
    by (cases m; cases x) (simp_all add: optMin_def)
  with Cons.IH [of "optMin m x"] show ?case by simp
qed simp

abbreviation "trackerRem now q t \<equiv> fst (tracker_remaining now q t)"

text \<open>What a call of \<open>tryConsume\<close> does to every tracker of the composition.\<close>

lemma composite_consume:
  assumes "composite_tryConsume now p ts = (ok, ts')"
  shows "ok \<longleftrightarrow> (\<forall>t \<in> set ts. trackerRem now p t \<noteq> Some 0)"
    and "map (trackerRem now q) ts' =
      (if ok \<and> q = p then map (map_option (\<lambda>r. r - 1)) (map (trackerRem now q) ts)
       else map (trackerRem now q) ts)"
proof -
  obtain c ts1 where c: "composite_check now p ts = (c, ts1)" by fastforce
  note k = composite_check_ok [OF c]
  have same: "map (trackerRem now q) ts1 = map (trackerRem now q) ts" for q
    by (rule all2_map) (rule list_all2_mono [OF conjunct1 [OF k]], simp)
  from assms c have ok: "ok = c" by (auto simp: composite_tryConsume_def split: if_splits)
  then show "ok \<longleftrightarrow> (\<forall>t \<in> set ts. trackerRem now p t \<noteq> Some 0)" using k by simp
  show "map (trackerRem now q) ts' =
      (if ok \<and> q = p then map (map_option (\<lambda>r. r - 1)) (map (trackerRem now q) ts)
       else map (trackerRem now q) ts)"
  proof (cases ok)
    case False
    with assms c ok same show ?thesis by (simp add: composite_tryConsume_def)
  next
    case True
    with ok k have "\<forall>t \<in> set ts. trackerRem now p t \<noteq> Some 0" by blast
    then have "Some 0 \<notin> set (map (trackerRem now p) ts)" by fastforce
    then have "Some 0 \<notin> set (map (trackerRem now p) ts1)" by (simp only: same not_False_eq_True)
    then have "\<forall>t \<in> set ts1. trackerRem now p t \<noteq> Some 0" by (metis image_eqI list.set_map)
    then have g: "\<forall>t \<in> set ts1. fst (tracker_tryConsume now p t)" by (simp add: tracker.consume_iff)
    have ts': "ts' = map (\<lambda>t. snd (tracker_tryConsume now p t)) ts1"
      using assms c True ok by (simp add: composite_tryConsume_def)
    have "map (trackerRem now q) ts' = map (\<lambda>t. if q = p then map_option (\<lambda>r. r - 1) (trackerRem now q t)
        else trackerRem now q t) ts1"
      using g by (simp add: ts' tracker.consume_rem)
    also have "\<dots> = map (\<lambda>x. if q = p then map_option (\<lambda>r. r - 1) x else x) (map (trackerRem now q) ts1)"
      by simp
    finally show ?thesis using True by (simp add: same)
  qed
qed

lemma composite_rem_fst: "fst (composite_remaining now q ts) = foldl optMin None (map (trackerRem now q) ts)"
  by (simp add: composite_remaining_def)

interpretation composite: budget_tracker composite_tryConsume composite_remaining
proof unfold_locales
  have nn: "\<forall>x. Some x \<in> set (map (trackerRem now p) ts) \<longrightarrow> 0 \<le> x" for now p ts
    by (auto dest: tracker.rem_nonneg [OF sym])
  show "fst (composite_remaining now q (snd (composite_remaining now p s))) = fst (composite_remaining now q s)" for now q p s
    by (simp add: composite_remaining_def comp_def tracker.rem_keeps)
  show "0 \<le> r" if "fst (composite_remaining now p s) = Some r" for now p s r
    using optMin_nonneg [OF nn _ that [unfolded composite_rem_fst]] by simp
  show "fst (composite_tryConsume now p s) \<longleftrightarrow> fst (composite_remaining now p s) \<noteq> Some 0" for now p s
  proof -
    obtain ok ts' where c: "composite_tryConsume now p s = (ok, ts')" by fastforce
    have "fst (composite_remaining now p s) = Some 0 \<longleftrightarrow> Some 0 \<in> set (map (trackerRem now p) s)"
      unfolding composite_rem_fst using optMin_zero [OF nn, of None now p s] by simp
    then show ?thesis using composite_consume(1) [OF c] by (auto simp: c image_iff)
  qed
  show "fst (composite_remaining now q (snd (composite_tryConsume now p s))) =
      (if fst (composite_tryConsume now p s) \<and> q = p
       then map_option (\<lambda>r. r - 1) (fst (composite_remaining now q s)) else fst (composite_remaining now q s))"
    for now p q s
  proof -
    obtain ok ts' where c: "composite_tryConsume now p s = (ok, ts')" by fastforce
    show ?thesis
      using composite_consume(2) [OF c, of q] optMin_dec [of None "map (trackerRem now q) s"]
      by (cases "ok \<and> q = p") (auto simp: c composite_rem_fst simp del: map_map)
  qed
qed

section \<open>Grants over time\<close>

text \<open>A sequence of attempts, each with its time and provider: which of them are granted.\<close>

fun grantedCalls :: "(int \<Rightarrow> string \<Rightarrow> 't \<Rightarrow> bool \<times> 't) \<Rightarrow> (int \<times> string) list \<Rightarrow> 't \<Rightarrow> (int \<times> string) list" where
  "grantedCalls tryC [] s = []"
| "grantedCalls tryC ((now, p) # calls) s =
     (let (ok, s') = tryC now p s
      in if ok then (now, p) # grantedCalls tryC calls s' else grantedCalls tryC calls s')"

definition callsOf :: "string \<Rightarrow> (int \<times> string) list \<Rightarrow> int list" where
  "callsOf p calls = map fst (filter (\<lambda>c. snd c = p) calls)"

lemma callsOf_simps [simp]: "callsOf p [] = []"
  "callsOf p ((t, q) # calls) = (if q = p then t # callsOf p calls else callsOf p calls)"
  by (simp_all add: callsOf_def)

lemma intLimits_get: "map_of (intLimits m) p = map_option toInt (map_of m p)"
  by (induction m) (auto simp: intLimits_def)

lemma period_grants:
  assumes "pb_key s = k" "\<And>t q. (t, q) \<in> set calls \<Longrightarrow> keyOf t = k" "map_of (pb_budgets s) p = Some n"
  shows "length (callsOf p (grantedCalls (period_tryConsume keyOf) calls s)) =
    min (nat (n - attemptsOf s p)) (length (callsOf p calls))"
  using assms
proof (induction calls arbitrary: s)
  case (Cons c calls)
  obtain t q where c: "c = (t, q)" by fastforce
  obtain ok s' where tc: "period_tryConsume keyOf t q s = (ok, s')" by fastforce
  have "keyOf t = k" using Cons.prems(2) [of t q] by (simp add: c)
  then have cur: "period_resetIfNeeded keyOf t s = s"
    using Cons.prems(1) by (intro reset_current) simp
  have s': "pb_key s' = k" "pb_budgets s' = pb_budgets s"
    "attemptsOf s' p = (if ok \<and> q = p then attemptsOf s p + 1 else attemptsOf s p)"
    "q = p \<Longrightarrow> ok \<longleftrightarrow> attemptsOf s p < n"
    using tc Cons.prems(1,3)
    by (auto simp: period_tryConsume_def Let_def cur attemptsOf_update split: option.splits if_splits)
  have "length (callsOf p (grantedCalls (period_tryConsume keyOf) calls s')) =
      min (nat (n - attemptsOf s' p)) (length (callsOf p calls))"
    using Cons.prems s' by (intro Cons.IH) auto
  then show ?case using s'(3,4) by (auto simp: c tc min_def)
qed simp

text \<open>A monthly or daily budget is exact: for a tracker just created, over any sequence of
  attempts in the same period, a provider with a limit gets exactly the smaller of its limit and its
  number of attempts, whatever the other providers do.\<close>

theorem period_budget_exact:
  assumes "period_create keyOf label budgets now = Inr s"
    and "map_of budgets p = Some limit"
    and "keyOf ` set (map fst calls) \<subseteq> {keyOf now}"
  shows "length (callsOf p (grantedCalls (period_tryConsume keyOf) calls s)) =
    min (nat (toInt limit)) (length (callsOf p calls))"
proof -
  have s: "s = \<lparr>pb_budgets = intLimits budgets, pb_key = keyOf now, pb_attempts = []\<rparr>"
    using assms(1) by (auto simp: period_create_def andThen_Inr_iff)
  have "length (callsOf p (grantedCalls (period_tryConsume keyOf) calls s)) =
      min (nat (toInt limit - attemptsOf s p)) (length (callsOf p calls))"
    by (rule period_grants [of _ "keyOf now"]) (use assms(2,3) in \<open>force simp: s intLimits_get\<close>)+
  then show ?thesis by (simp add: s attemptsOf_def)
qed

theorem period_budget_exact_witness:
  "\<exists>s. monthly_create [(''exa'', jint 2)] 0 = Inr s \<and>
     length (callsOf ''exa'' (grantedCalls monthly_tryConsume
       [(0, ''exa''), (5, ''exa''), (6, ''brave''), (86400000, ''exa'')] s)) = 2"
proof -
  let ?calls = "[(0, ''exa''), (5, ''exa''), (6, ''brave''), (86400000, ''exa'')] :: (int \<times> string) list"
  obtain s where s: "monthly_create [(''exa'', jint 2)] 0 = Inr s"
    by (simp add: monthly_create_def period_create_def validateSearchBudgets_def throwIf_def)
  have k: "currentMonth ` set (map fst ?calls) \<subseteq> {currentMonth 0}" by code_simp
  from period_budget_exact [OF s [unfolded monthly_create_def] _ k, of "''exa''" "jint 2"] s
  show ?thesis by (simp add: monthly_tryConsume_def)
qed

definition inWindow :: "int \<Rightarrow> int list \<Rightarrow> int list" where
  "inWindow e ts = filter (\<lambda>t. e - 60000 < t \<and> t \<le> e) ts"

lemma length_filter_imp: "(\<And>x. P x \<Longrightarrow> Q x) \<Longrightarrow> length (filter P xs) \<le> length (filter Q xs)"
  by (induction xs) auto

text \<open>After grants \<open>g\<close> up to time \<open>T\<close>: the limiter still holds every grant of the last minute.\<close>

definition minuteInv :: "string \<Rightarrow> int \<Rightarrow> int list \<Rightarrow> int \<Rightarrow> MinuteRateLimiter \<Rightarrow> bool" where
  "minuteInv p n g T s \<longleftrightarrow> map_of (ml_limits s) p = Some n \<and> (\<forall>t \<in> set g. t \<le> T) \<and>
     (\<exists>c. c \<le> T - 60000 \<and> timesOf s p = filter (\<lambda>t. t > c) g) \<and>
     (\<forall>e. int (length (inWindow e g)) \<le> n)"

lemma minute_grants:
  assumes "minuteInv p n g T s" "sorted (T # map fst calls)"
  shows "int (length (inWindow e (g @ callsOf p (grantedCalls minute_tryConsume calls s)))) \<le> n"
  using assms
proof (induction calls arbitrary: g T s)
  case Nil
  then show ?case by (simp add: minuteInv_def)
next
  case (Cons c calls)
  obtain now q where c: "c = (now, q)" by fastforce
  obtain ok s' where tc: "minute_tryConsume now q s = (ok, s')" by fastforce
  from Cons.prems(2) have ord: "T \<le> now" "sorted (now # map fst calls)" by (simp_all add: c)
  from Cons.prems(1) obtain d where I: "map_of (ml_limits s) p = Some n" "\<forall>t \<in> set g. t \<le> T"
    "d \<le> T - 60000" "timesOf s p = filter (\<lambda>t. t > d) g" "\<And>e. int (length (inWindow e g)) \<le> n"
    by (auto simp: minuteInv_def)
  have lim: "ml_limits s' = ml_limits s"
    using tc by (auto simp: minute_tryConsume_def Let_def split: option.splits if_splits)
  show ?case
  proof (cases "q = p")
    case False
    have "timesOf s' p = timesOf s p"
      using tc False by (auto simp: minute_tryConsume_def Let_def timesOf_prune timesOf_update
          split: option.splits if_splits)
    then have "minuteInv p n g now s'" using I ord(1) lim
      unfolding minuteInv_def by (metis (mono_tags, lifting) diff_right_mono order_trans)
    with Cons.IH [OF _ ord(2)] show ?thesis by (auto simp: c tc False)
  next
    case True
    let ?recent = "filter (\<lambda>t. t > now - 60000) g"
    have cut: "filter (\<lambda>t. t > now - 60000) (timesOf s p) = ?recent"
      using I(3,4) ord(1) by (auto intro: filter_cong)
    have ok: "ok \<longleftrightarrow> int (length ?recent) < n"
      "timesOf s' p = (if ok then ?recent @ [now] else ?recent)"
      using tc True I(1)
      by (auto simp: minute_tryConsume_def Let_def timesOf_prune timesOf_update cut split: if_splits)
    show ?thesis
    proof (cases ok)
      case False
      have "minuteInv p n g now s'" using I ord(1) lim ok False by (force simp: minuteInv_def)
      with Cons.IH [OF _ ord(2)] False show ?thesis by (simp add: c tc)
    next
      case granted: True
      have w: "int (length (inWindow e (g @ [now]))) \<le> n" for e
      proof (cases "e - 60000 < now \<and> now \<le> e")
        case True
        have "length (inWindow e g) \<le> length ?recent"
          unfolding inWindow_def using True
          by (intro length_filter_imp) auto
        with True ok(1) granted show ?thesis by (simp add: inWindow_def)
      next
        case False
        with I(5) [of e] show ?thesis by (auto simp: inWindow_def)
      qed
      have "minuteInv p n (g @ [now]) now s'"
        using I(1,2) ord(1) lim ok(2) granted w
        by (auto simp: minuteInv_def intro!: exI [of _ "now - 60000"])
      from Cons.IH [OF this ord(2)] granted tc True show ?thesis by (simp add: c)
    qed
  qed
qed

text \<open>C28. The minute limiter is a true sliding window: over any sequence of attempts in order of time,
  no window of 60 seconds, wherever it ends, contains more grants of a provider than its limit.\<close>

theorem minute_window_bound:
  assumes "minute_create limits = Inr s" and "map_of limits p = Some limit"
    and "sorted (map fst calls)"
  shows "int (length (inWindow e (callsOf p (grantedCalls minute_tryConsume calls s)))) \<le> toInt limit"
proof (cases calls)
  case Nil
  have "limit \<in> snd ` set limits" using assms(2) by (force dest: map_of_SomeD)
  then have "1 \<le> toInt limit"
    using assms(1) by (auto simp: minute_create_def andThen_Inr_iff throwIf_def list_ex_iff
        elim!: isIntegerE split: if_splits)
  then show ?thesis by (simp add: Nil inWindow_def)
next
  case (Cons c cs)
  have s: "s = \<lparr>ml_limits = intLimits limits, ml_timestamps = []\<rparr>"
    using assms(1) by (auto simp: minute_create_def andThen_Inr_iff)
  have "limit \<in> snd ` set limits" using assms(2) by (force dest: map_of_SomeD)
  then have l: "1 \<le> toInt limit"
    using assms(1) by (auto simp: minute_create_def andThen_Inr_iff throwIf_def list_ex_iff
        elim!: isIntegerE split: if_splits)
  have "minuteInv p (toInt limit) [] (fst c) s"
    using assms(2) l by (auto simp: minuteInv_def s intLimits_get timesOf_def inWindow_def)
  from minute_grants [OF this, of calls e] assms(3) show ?thesis by (simp add: Cons)
qed

theorem minute_window_bound_witness:
  "\<exists>s. minute_create [(''jina'', jint 2)] = Inr s \<and>
     int (length (inWindow 59999 (callsOf ''jina'' (grantedCalls minute_tryConsume
       [(0, ''jina''), (1, ''jina''), (2, ''jina''), (60000, ''jina'')] s)))) \<le> 2"
proof -
  obtain s where s: "minute_create [(''jina'', jint 2)] = Inr s"
    by (simp add: minute_create_def throwIf_def)
  from minute_window_bound [OF s, of "''jina''" "jint 2"
      "[(0, ''jina''), (1, ''jina''), (2, ''jina''), (60000, ''jina'')]" 59999] s
  show ?thesis by simp
qed

text \<open>C27. The composite budget is all or nothing: an attempt is granted exactly when no tracker is
  exhausted for the provider, a granted attempt takes exactly one from every limited tracker, a
  refused one takes nothing from any, and for a provider whose composite remainder is \<open>r\<close>, exactly
  the smaller of \<open>r\<close> and \<open>n\<close> of \<open>n\<close> attempts at one moment are granted.\<close>

theorem composite_all_or_nothing:
  assumes "fst (composite_remaining now p ts) = Some r"
    and "composite_tryConsume now p ts = (ok, ts')"
  shows "(ok \<longleftrightarrow> 0 < r) \<and>
    map (trackerRem now p) ts' =
      (if ok then map (map_option (\<lambda>x. x - 1)) (map (trackerRem now p) ts) else map (trackerRem now p) ts) \<and>
    (q \<noteq> p \<longrightarrow> map (trackerRem now q) ts' = map (trackerRem now q) ts) \<and>
    grantCount composite_tryConsume now p n ts = min n (nat r)"
proof -
  have "ok \<longleftrightarrow> 0 < r"
    using composite.consume_iff [of now p ts] composite.rem_nonneg [OF assms(1)] assms by auto
  with composite_consume(2) [OF assms(2), of p] composite_consume(2) [OF assms(2), of q]
    composite.grants_exact [OF assms(1), of n] show ?thesis by simp
qed

definition demoTrackers :: CompositeSearchBudget where
  "demoTrackers =
     [MonthlyTracker \<lparr>pb_budgets = [(''exa'', 5)], pb_key = ''1970-01'', pb_attempts = [(''exa'', 2)]\<rparr>,
      MinuteTracker \<lparr>ml_limits = [(''exa'', 1)], ml_timestamps = []\<rparr>]"

theorem composite_all_or_nothing_witness:
  "grantCount composite_tryConsume 0 ''exa'' 4 demoTrackers = 1"
proof -
  have r: "fst (composite_remaining 0 ''exa'' demoTrackers) = Some 1" by code_simp
  obtain ok ts' where c: "composite_tryConsume 0 ''exa'' demoTrackers = (ok, ts')" by fastforce
  from composite_all_or_nothing [OF r c, of "''brave''" 4] show ?thesis by simp
qed

end
