(* ===== verification/ProviderRouting.thy ===== *)
theory ProviderRouting
  imports SearchBudget
begin

text \<open>
  The way the capability routers of \<^verbatim>\<open>src/core\<close> (answer, research, content, images, news, map, crawl)
  pick providers and call them. The seven classes repeat the same private methods over their own
  request and result types; the methods are defined once here, over the type of the request and of
  a provider's result, and the theories \<^verbatim>\<open>QueryRouters\<close> and \<^verbatim>\<open>UrlRouters\<close> give each class its checks, errors and results.
  A provider is code outside the router: its record holds its answers to \<open>supports\<close> and to the call.
\<close>

section \<open>Requests and providers\<close>

datatype RouterStrategy = FallbackStrategy | ParallelStrategy

record routed_request =
  rq_provider :: "string option"
  rq_providers :: "string list option"
  rq_strategy :: "RouterStrategy option"

record ('q, 'r) provider =
  pv_id :: string
  pv_supports :: "'q \<Rightarrow> bool"
  pv_call :: "'q \<Rightarrow> thrown + 'r"

text \<open>The provider a request names, unless it is \<open>"auto"\<close>.\<close>

definition explicitProvider :: "('a) routed_request_scheme \<Rightarrow> string option" where
  "explicitProvider req = (case rq_provider req of
     Some p \<Rightarrow> if p = ''auto'' then None else Some p
   | None \<Rightarrow> None)"

text \<open>The last two conditions of every \<open>validateRequest\<close>.\<close>

definition badProviderSelection :: "('a) routed_request_scheme \<Rightarrow> bool" where
  "badProviderSelection req \<longleftrightarrow>
     rq_providers req = Some [] \<or> (explicitProvider req \<noteq> None \<and> rq_providers req \<noteq> None)"

text \<open>\<open>[...new Set(xs)]\<close>: the first occurrence of every element, in order.\<close>

definition jsUnique :: "'a list \<Rightarrow> 'a list" where
  "jsUnique xs = rev (remdups (rev xs))"

text \<open>\<open>new Map(providers.map((provider) => [provider.id, provider]))\<close>.\<close>

definition providerMap :: "('q, 'r) provider list \<Rightarrow> ('q, 'r) provider jsmap" where
  "providerMap ps = foldl (\<lambda>m p. AList.update (pv_id p) p m) [] ps"

definition requestedIds :: "('a) routed_request_scheme \<Rightarrow> string list \<Rightarrow> string list" where
  "requestedIds req order = (case explicitProvider req of
     Some p \<Rightarrow> [p]
   | None \<Rightarrow> (case rq_providers req of Some ps \<Rightarrow> ps | None \<Rightarrow> order))"

definition resolveProviders :: "('a routed_request_scheme, 'r) provider jsmap \<Rightarrow> string list \<Rightarrow>
    'a routed_request_scheme \<Rightarrow> ('a routed_request_scheme, 'r) provider list" where
  "resolveProviders providers order req =
     List.map_filter (\<lambda>i. case map_of providers i of
         Some p \<Rightarrow> if pv_supports p req then Some p else None
       | None \<Rightarrow> None) (jsUnique (requestedIds req order))"

definition routeStrategy :: "('a) routed_request_scheme \<Rightarrow> RouterStrategy" where
  "routeStrategy req =
     (if explicitProvider req \<noteq> None then FallbackStrategy
      else case rq_strategy req of Some s \<Rightarrow> s | None \<Rightarrow> ParallelStrategy)"

section \<open>The surroundings of a call\<close>

text \<open>
  What the router meets while it runs: the time at which it starts and ends, the time at which it
  considers the provider at a position, what other requests did to the shared budget while it
  awaited the provider before that position, and whether the caller's signal is aborted (with its
  reason) when a batch of calls has returned.
\<close>

record surroundings =
  su_startedAt :: int
  su_endedAt :: int
  su_clock :: "nat \<Rightarrow> int"
  su_others :: "nat \<Rightarrow> CompositeSearchBudget \<Rightarrow> CompositeSearchBudget"
  su_aborted :: "thrown option"

definition durationMs :: "surroundings \<Rightarrow> int" where
  "durationMs su = su_endedAt su - su_startedAt su"

definition PROVIDER_BUDGET :: string where
  "PROVIDER_BUDGET = ''provider-budget''"

section \<open>One provider after the other\<close>

text \<open>What a strategy hands to the construction of the result.\<close>

record ('q, 'r) routed =
  ro_attempted :: "string list"
  ro_results :: "(('q, 'r) provider \<times> 'r) list"
  ro_warnings :: "string list"

text \<open>The loop of \<open>...WithFallback\<close>: \<open>single\<close> is \<open>providers.length === 1\<close>, \<open>i\<close> the position of the next
  provider, \<open>attempted\<close> and \<open>warnings\<close> the two accumulators.\<close>

fun fallbackLoop :: "surroundings \<Rightarrow> string \<Rightarrow> exn \<Rightarrow> bool \<Rightarrow> 'q \<Rightarrow> nat \<Rightarrow> ('q, 'r) provider list \<Rightarrow>
    string list \<Rightarrow> string list \<Rightarrow> CompositeSearchBudget option \<Rightarrow>
    ('q, 'r) routed res \<times> CompositeSearchBudget option" where
  "fallbackLoop su stage allFailed single req i [] attempted warnings budget = (Inl allFailed, budget)"
| "fallbackLoop su stage allFailed single req i (p # ps) attempted warnings budget =
     (case consumeProviderAttemptBudget (map_option (su_others su i) budget) (su_clock su i) (pv_id p)
             PROVIDER_BUDGET single of
        (Inl e, b) \<Rightarrow> (Inl e, b)
      | (Inr (Some w), b) \<Rightarrow>
          fallbackLoop su stage allFailed single req (Suc i) ps attempted (warnings @ [w]) b
      | (Inr None, b) \<Rightarrow>
          (case pv_call p req of
             Inr r \<Rightarrow> (Inr \<lparr>ro_attempted = attempted @ [pv_id p], ro_results = [(p, r)],
                            ro_warnings = warnings\<rparr>, b)
           | Inl err \<Rightarrow>
               let safe = toGroundlaneError err stage in
               if single \<or> \<not> exn_retryable safe then (Inl safe, b)
               else fallbackLoop su stage allFailed single req (Suc i) ps (attempted @ [pv_id p])
                 (warnings @ [pv_id p @ '' unavailable'']) b))"

definition routeWithFallback :: "surroundings \<Rightarrow> string \<Rightarrow> exn \<Rightarrow> 'q \<Rightarrow> ('q, 'r) provider list \<Rightarrow>
    CompositeSearchBudget option \<Rightarrow> ('q, 'r) routed res \<times> CompositeSearchBudget option" where
  "routeWithFallback su stage allFailed req providers budget =
     fallbackLoop su stage allFailed (length providers = 1) req 0 providers [] [] budget"

section \<open>All providers at once\<close>

record ('q, 'r) outcome =
  oc_provider :: "('q, 'r) provider"
  oc_attempted :: bool
  oc_result :: "'r option"
  oc_warning :: "string option"

text \<open>The body of \<open>providers.map(async ...)\<close>: the attempts are charged one after the other before any
  call returns. A rejected charge cannot happen here, since the last argument is \<open>false\<close>.\<close>

definition providerOutcome :: "int \<Rightarrow> 'q \<Rightarrow> ('q, 'r) provider \<Rightarrow> CompositeSearchBudget option \<Rightarrow>
    ('q, 'r) outcome res \<times> CompositeSearchBudget option" where
  "providerOutcome now req p budget =
     (case consumeProviderAttemptBudget budget now (pv_id p) PROVIDER_BUDGET False of
        (Inl e, b) \<Rightarrow> (Inl e, b)
      | (Inr (Some w), b) \<Rightarrow>
          (Inr \<lparr>oc_provider = p, oc_attempted = False, oc_result = None, oc_warning = Some w\<rparr>, b)
      | (Inr None, b) \<Rightarrow>
          (case pv_call p req of
             Inr r \<Rightarrow> (Inr \<lparr>oc_provider = p, oc_attempted = True, oc_result = Some r,
                            oc_warning = None\<rparr>, b)
           | Inl _ \<Rightarrow> (Inr \<lparr>oc_provider = p, oc_attempted = True, oc_result = None,
                            oc_warning = Some (pv_id p @ '' unavailable'')\<rparr>, b)))"

fun providerOutcomes :: "int \<Rightarrow> 'q \<Rightarrow> ('q, 'r) provider list \<Rightarrow> CompositeSearchBudget option \<Rightarrow>
    ('q, 'r) outcome list res \<times> CompositeSearchBudget option" where
  "providerOutcomes now req [] budget = (Inr [], budget)"
| "providerOutcomes now req (p # ps) budget =
     (let (o1, b1) = providerOutcome now req p budget; (rest, b2) = providerOutcomes now req ps b1
      in (bindE o1 (\<lambda>x. bindE rest (\<lambda>xs. Inr (x # xs))), b2))"

definition outcomeResults :: "('q, 'r) outcome list \<Rightarrow> (('q, 'r) provider \<times> 'r) list" where
  "outcomeResults os = List.map_filter (\<lambda>oc. map_option (Pair (oc_provider oc)) (oc_result oc)) os"

definition throwCancelled :: "thrown option \<Rightarrow> exn \<Rightarrow> unit res" where
  "throwCancelled aborted cancelled = (case aborted of
     None \<Rightarrow> Inr ()
   | Some (ThrownError (GroundlaneError c s m r h)) \<Rightarrow> Inl (GroundlaneError c s m r h)
   | Some _ \<Rightarrow> Inl cancelled)"

definition routeInParallel :: "surroundings \<Rightarrow> exn \<Rightarrow> exn \<Rightarrow> 'q \<Rightarrow> ('q, 'r) provider list \<Rightarrow>
    CompositeSearchBudget option \<Rightarrow> ('q, 'r) routed res \<times> CompositeSearchBudget option" where
  "routeInParallel su cancelled noneUp req providers budget =
     (let (outcomes, b) = providerOutcomes (su_clock su 0) req providers budget
      in (bindE outcomes (\<lambda>os.
            andThen (throwCancelled (su_aborted su) cancelled)
              (if outcomeResults os = [] then Inl noneUp
               else Inr \<lparr>ro_attempted = map (pv_id \<circ> oc_provider) (filter oc_attempted os),
                         ro_results = outcomeResults os,
                         ro_warnings = List.map_filter oc_warning os\<rparr>)), b))"

section \<open>Duplicates\<close>

text \<open>\<open>dedupeLinks\<close>, \<open>dedupePages\<close>, \<open>dedupeNews\<close>, \<open>dedupeImages\<close>: the first item of every key.\<close>

fun dedupeFrom :: "('a \<Rightarrow> string) \<Rightarrow> string set \<Rightarrow> 'a list \<Rightarrow> 'a list" where
  "dedupeFrom key seen [] = []"
| "dedupeFrom key seen (x # xs) =
     (let k = toLowerCase (key x) in
      if k \<in> seen then dedupeFrom key seen xs
      else x # dedupeFrom key (insert k seen) xs)"

definition dedupeBy :: "('a \<Rightarrow> string) \<Rightarrow> 'a list \<Rightarrow> 'a list" where
  "dedupeBy key xs = dedupeFrom key {} xs"

end
