(* ===== verification/QueryRouters.thy ===== *)
theory QueryRouters
  imports ProviderRouting
begin

text \<open>
  The routers whose request is a query: \<^verbatim>\<open>answer-router.ts\<close>, \<^verbatim>\<open>research-router.ts\<close>, \<^verbatim>\<open>news-router.ts\<close>
  and \<^verbatim>\<open>images-router.ts\<close>, with the request and result types of \<^verbatim>\<open>contracts.ts\<close>. A router is the map
  of its providers and its default order; the budget it shares with the other routers is threaded.
\<close>

record ('q, 'r) router =
  rr_providers :: "('q, 'r) provider jsmap"
  rr_order :: "string list"

definition createRouter :: "('q, 'r) provider list \<Rightarrow> string list \<Rightarrow> ('q, 'r) router" where
  "createRouter providers order = \<lparr>rr_providers = providerMap providers, rr_order = order\<rparr>"

text \<open>\<open>!Number.isInteger(n) || n < lo || n > hi\<close>.\<close>

definition notIntegerIn :: "int \<Rightarrow> int \<Rightarrow> jsnum \<Rightarrow> bool" where
  "notIntegerIn lo hi n \<longleftrightarrow> \<not> isInteger n \<or> jlt n (jint lo) \<or> jlt (jint hi) n"

text \<open>\<open>/^[a-z]{2}$/iu\<close>.\<close>

definition isTwoLetters :: "string \<Rightarrow> bool" where
  "isTwoLetters s \<longleftrightarrow> length s = 2 \<and>
     list_all (\<lambda>c. let n = of_char c :: nat in (65 \<le> n \<and> n \<le> 90) \<or> (97 \<le> n \<and> n \<le> 122)) s"

definition setAnd :: "('a \<Rightarrow> bool) \<Rightarrow> 'a option \<Rightarrow> bool" where
  "setAnd bad x = (case x of None \<Rightarrow> False | Some v \<Rightarrow> bad v)"

datatype SearchTimeRange = DayRange | WeekRange | MonthRange | YearRange

record Citation =
  ci_url :: string
  ci_title :: "string option"
  ci_excerpts :: "string list"

section \<open>Answers\<close>

record AnswerRequest = routed_request +
  aq_query :: string
  aq_maxResults :: jsnum
  aq_domains :: "string list option"
  aq_excludeDomains :: "string list option"
  aq_timeRange :: "SearchTimeRange option"

record AnswerResultItem =
  ai_title :: string
  ai_url :: string
  ai_snippet :: string
  ai_publishedAt :: "string option"
  ai_provider :: string

record AnswerProviderResult =
  ap_provider :: string
  ap_answer :: string
  ap_citations :: "Citation list"
  ap_results :: "AnswerResultItem list"
  ap_durationMs :: jsnum
  ap_warnings :: "string list"

record AnswerResult =
  aw_query :: string
  aw_strategy :: RouterStrategy
  aw_providersSelected :: "string list"
  aw_providersAttempted :: "string list"
  aw_providersSucceeded :: "string list"
  aw_answers :: "AnswerProviderResult list"
  aw_durationMs :: int
  aw_warnings :: "string list"

type_synonym AnswerRouter = "(AnswerRequest, AnswerProviderResult) router"

definition ANSWER_PROVIDER_IDS :: "string list" where
  "ANSWER_PROVIDER_IDS = [''linkup'', ''you'']"

definition answerUnavailable :: exn where
  "answerUnavailable = GroundlaneError PROVIDER_UNAVAILABLE ''web_answer''
     ''All selected answer providers were unavailable'' True None"

definition validateAnswerRequest :: "AnswerRequest \<Rightarrow> unit res" where
  "validateAnswerRequest req =
     throwIf (trim (aq_query req) = '''' \<or> notIntegerIn 1 20 (aq_maxResults req) \<or>
         badProviderSelection req)
       (glError INVALID_INPUT ''web_answer''
         ''Answer query, result limit, or provider selection is invalid'')"

definition answerResult :: "surroundings \<Rightarrow> AnswerRequest \<Rightarrow> RouterStrategy \<Rightarrow>
    (AnswerRequest, AnswerProviderResult) provider list \<Rightarrow> string list \<Rightarrow>
    (AnswerRequest, AnswerProviderResult) routed \<Rightarrow> AnswerResult" where
  "answerResult su req strategy providers succeeded ro =
     \<lparr>aw_query = aq_query req, aw_strategy = strategy,
      aw_providersSelected = map pv_id providers, aw_providersAttempted = ro_attempted ro,
      aw_providersSucceeded = succeeded, aw_answers = map snd (ro_results ro),
      aw_durationMs = durationMs su,
      aw_warnings = ro_warnings ro @ concat (map (ap_warnings \<circ> snd) (ro_results ro))\<rparr>"

definition answerWithFallback where
  "answerWithFallback su req providers budget =
     map_prod (\<lambda>r. bindE r (\<lambda>ro. Inr (answerResult su req FallbackStrategy providers
         (map (pv_id \<circ> fst) (ro_results ro)) ro))) id
       (routeWithFallback su ''web_answer'' answerUnavailable req providers budget)"

definition answerInParallel where
  "answerInParallel su req providers budget =
     map_prod (\<lambda>r. bindE r (\<lambda>ro. Inr (answerResult su req ParallelStrategy providers
         (map (ap_provider \<circ> snd) (ro_results ro)) ro))) id
       (routeInParallel su
         (glError CANCELLED ''web_answer'' ''The request was cancelled'') answerUnavailable
         req providers budget)"

definition answer :: "AnswerRouter \<Rightarrow> surroundings \<Rightarrow> AnswerRequest \<Rightarrow> CompositeSearchBudget option \<Rightarrow>
    AnswerResult res \<times> CompositeSearchBudget option" where
  "answer router su req budget =
     (case validateAnswerRequest req of Inl e \<Rightarrow> (Inl e, budget) | Inr _ \<Rightarrow>
      let selected = resolveProviders (rr_providers router) (rr_order router) req in
      if selected = []
      then (Inl (GroundlaneError PROVIDER_UNAVAILABLE ''web_answer''
        ''No configured answer provider supports this request'' True None), budget)
      else case routeStrategy req of
        FallbackStrategy \<Rightarrow> answerWithFallback su req selected budget
      | ParallelStrategy \<Rightarrow> answerInParallel su req selected budget)"

section \<open>Research reports\<close>

record ResearchRequest = routed_request +
  sq_query :: string
  sq_effort :: string
  sq_domains :: "string list option"
  sq_excludeDomains :: "string list option"
  sq_timeRange :: "SearchTimeRange option"
  sq_country :: "string option"

record ResearchProviderResult =
  sp_provider :: string
  sp_report :: string
  sp_citations :: "Citation list"
  sp_durationMs :: jsnum
  sp_warnings :: "string list"

record ResearchResult =
  sw_query :: string
  sw_effort :: string
  sw_strategy :: RouterStrategy
  sw_providersSelected :: "string list"
  sw_providersAttempted :: "string list"
  sw_providersSucceeded :: "string list"
  sw_reports :: "ResearchProviderResult list"
  sw_durationMs :: int
  sw_warnings :: "string list"

type_synonym ResearchRouter = "(ResearchRequest, ResearchProviderResult) router"

definition RESEARCH_PROVIDER_IDS :: "string list" where
  "RESEARCH_PROVIDER_IDS = [''linkup'', ''you'', ''parallel'']"

definition validateResearchRequest :: "ResearchRequest \<Rightarrow> unit res" where
  "validateResearchRequest req =
     throwIf (trim (sq_query req) = '''' \<or>
         sq_effort req \<notin> {''lite'', ''standard'', ''deep''} \<or> badProviderSelection req \<or>
         (sq_domains req \<noteq> None \<and> sq_excludeDomains req \<noteq> None))
       (GroundlaneError INVALID_INPUT ''web_research''
         ''Research query, effort, or provider selection is invalid'' False
         (Some (Hint ''web_research.invalid_input''
           (''Check the request: query must be non-empty, effort must be one of lite|standard|deep, '' @
            ''provider/providers mutually exclusive, and domains/excludeDomains are mutually '' @
            ''exclusive (not both).''))))"

definition researchResult :: "surroundings \<Rightarrow> ResearchRequest \<Rightarrow> RouterStrategy \<Rightarrow>
    (ResearchRequest, ResearchProviderResult) provider list \<Rightarrow> string list \<Rightarrow>
    (ResearchRequest, ResearchProviderResult) routed \<Rightarrow> ResearchResult" where
  "researchResult su req strategy providers succeeded ro =
     \<lparr>sw_query = sq_query req, sw_effort = sq_effort req, sw_strategy = strategy,
      sw_providersSelected = map pv_id providers, sw_providersAttempted = ro_attempted ro,
      sw_providersSucceeded = succeeded, sw_reports = map snd (ro_results ro),
      sw_durationMs = durationMs su,
      sw_warnings = ro_warnings ro @ concat (map (sp_warnings \<circ> snd) (ro_results ro))\<rparr>"

definition researchWithFallback where
  "researchWithFallback su req providers budget =
     map_prod (\<lambda>r. bindE r (\<lambda>ro. Inr (researchResult su req FallbackStrategy providers
         (map (pv_id \<circ> fst) (ro_results ro)) ro))) id
       (routeWithFallback su ''web_research''
         (GroundlaneError PROVIDER_UNAVAILABLE ''web_research''
           ''All selected research providers were unavailable'' True
           (Some (Hint ''web_research.all_providers_failed''
             (''Every selected research provider errored. Inspect warnings for per-provider reasons. '' @
              ''Try a different provider, add credentials, or wait for upstream to recover.''))))
         req providers budget)"

definition researchInParallel where
  "researchInParallel su req providers budget =
     map_prod (\<lambda>r. bindE r (\<lambda>ro. Inr (researchResult su req ParallelStrategy providers
         (map (sp_provider \<circ> snd) (ro_results ro)) ro))) id
       (routeInParallel su
         (GroundlaneError CANCELLED ''web_research'' ''The request was cancelled'' False
           (Some (Hint ''web_research.cancelled''
             (''The caller aborted the request before completion. Issue a fresh call if you still '' @
              ''need this research synthesis.''))))
         (GroundlaneError PROVIDER_UNAVAILABLE ''web_research''
           ''All selected research providers were unavailable'' True None)
         req providers budget)"

definition research :: "ResearchRouter \<Rightarrow> surroundings \<Rightarrow> ResearchRequest \<Rightarrow>
    CompositeSearchBudget option \<Rightarrow> ResearchResult res \<times> CompositeSearchBudget option" where
  "research router su req budget =
     (case validateResearchRequest req of Inl e \<Rightarrow> (Inl e, budget) | Inr _ \<Rightarrow>
      let selected = resolveProviders (rr_providers router) (rr_order router) req in
      if selected = []
      then (Inl (GroundlaneError PROVIDER_UNAVAILABLE ''web_research''
        ''No configured research provider supports this request'' True
        (Some (Hint ''web_research.no_provider''
          (''No configured research provider matched the request. provider_quota should show which '' @
           ''adapters are enabled.'')))), budget)
      else case routeStrategy req of
        FallbackStrategy \<Rightarrow> researchWithFallback su req selected budget
      | ParallelStrategy \<Rightarrow> researchInParallel su req selected budget)"

section \<open>News\<close>

record NewsRequest = routed_request +
  nq_query :: string
  nq_maxResults :: jsnum
  nq_timeRange :: "SearchTimeRange option"
  nq_country :: "string option"
  nq_language :: "string option"

record NewsItem =
  ni_title :: string
  ni_url :: string
  ni_snippet :: string
  ni_source :: "string option"
  ni_publishedAt :: "string option"
  ni_thumbnailUrl :: "string option"
  ni_provider :: string

record NewsProviderResult =
  np_provider :: string
  np_query :: string
  np_results :: "NewsItem list"
  np_durationMs :: jsnum
  np_warnings :: "string list"

record NewsResult =
  nw_query :: string
  nw_strategy :: RouterStrategy
  nw_providersSelected :: "string list"
  nw_providersAttempted :: "string list"
  nw_providersSucceeded :: "string list"
  nw_results :: "NewsItem list"
  nw_providerResults :: "NewsProviderResult list"
  nw_durationMs :: int
  nw_warnings :: "string list"

type_synonym NewsRouter = "(NewsRequest, NewsProviderResult) router"

definition NEWS_PROVIDER_IDS :: "string list" where
  "NEWS_PROVIDER_IDS = [''brave'', ''serper'', ''serpapi'']"

definition newsUnavailable :: exn where
  "newsUnavailable = GroundlaneError PROVIDER_UNAVAILABLE ''web_news''
     ''All selected news providers were unavailable'' True None"

definition validateNewsRequest :: "NewsRequest \<Rightarrow> unit res" where
  "validateNewsRequest req =
     throwIf (trim (nq_query req) = '''' \<or> 2000 < length (nq_query req) \<or>
         notIntegerIn 1 50 (nq_maxResults req) \<or> setAnd (Not \<circ> isTwoLetters) (nq_country req) \<or>
         setAnd (Not \<circ> isTwoLetters) (nq_language req) \<or> badProviderSelection req)
       (glError INVALID_INPUT ''web_news''
         ''News query, limits, locale, or provider selection is invalid'')"

definition dedupeNews :: "NewsItem list \<Rightarrow> NewsItem list" where
  "dedupeNews = dedupeBy ni_url"

definition newsResult :: "surroundings \<Rightarrow> NewsRequest \<Rightarrow> RouterStrategy \<Rightarrow>
    (NewsRequest, NewsProviderResult) provider list \<Rightarrow>
    (NewsRequest, NewsProviderResult) routed \<Rightarrow> NewsResult" where
  "newsResult su req strategy providers ro =
     (let providerResults = map snd (ro_results ro) in
      \<lparr>nw_query = nq_query req, nw_strategy = strategy,
       nw_providersSelected = map pv_id providers, nw_providersAttempted = ro_attempted ro,
       nw_providersSucceeded = map np_provider providerResults,
       nw_results = take (nat (toInt (nq_maxResults req)))
         (dedupeNews (concat (map np_results providerResults))),
       nw_providerResults = providerResults, nw_durationMs = durationMs su,
       nw_warnings = ro_warnings ro @ concat (map np_warnings providerResults)\<rparr>)"

definition newsWithFallback where
  "newsWithFallback su req providers budget =
     map_prod (\<lambda>r. bindE r (\<lambda>ro. Inr (newsResult su req FallbackStrategy providers ro))) id
       (routeWithFallback su ''web_news'' newsUnavailable req providers budget)"

definition newsInParallel where
  "newsInParallel su req providers budget =
     map_prod (\<lambda>r. bindE r (\<lambda>ro. Inr (newsResult su req ParallelStrategy providers ro))) id
       (routeInParallel su (glError CANCELLED ''web_news'' ''The request was cancelled'')
         newsUnavailable req providers budget)"

definition news :: "NewsRouter \<Rightarrow> surroundings \<Rightarrow> NewsRequest \<Rightarrow> CompositeSearchBudget option \<Rightarrow>
    NewsResult res \<times> CompositeSearchBudget option" where
  "news router su req budget =
     (case validateNewsRequest req of Inl e \<Rightarrow> (Inl e, budget) | Inr _ \<Rightarrow>
      let selected = resolveProviders (rr_providers router) (rr_order router) req in
      if selected = []
      then (Inl (GroundlaneError PROVIDER_UNAVAILABLE ''web_news''
        ''No configured news provider supports this request'' True None), budget)
      else case routeStrategy req of
        FallbackStrategy \<Rightarrow> newsWithFallback su req selected budget
      | ParallelStrategy \<Rightarrow> newsInParallel su req selected budget)"

section \<open>Images\<close>

record ImagesRequest = routed_request +
  mq_query :: string
  mq_maxResults :: jsnum
  mq_country :: "string option"
  mq_language :: "string option"
  mq_safeSearch :: "string option"

record ImageItem =
  mi_title :: string
  mi_imageUrl :: string
  mi_sourceUrl :: string
  mi_thumbnailUrl :: "string option"
  mi_source :: "string option"
  mi_width :: "jsnum option"
  mi_height :: "jsnum option"
  mi_thumbnailWidth :: "jsnum option"
  mi_thumbnailHeight :: "jsnum option"
  mi_provider :: string

record ImagesProviderResult =
  mp_provider :: string
  mp_query :: string
  mp_results :: "ImageItem list"
  mp_durationMs :: jsnum
  mp_warnings :: "string list"

record ImagesResult =
  mw_query :: string
  mw_strategy :: RouterStrategy
  mw_providersSelected :: "string list"
  mw_providersAttempted :: "string list"
  mw_providersSucceeded :: "string list"
  mw_results :: "ImageItem list"
  mw_providerResults :: "ImagesProviderResult list"
  mw_durationMs :: int
  mw_warnings :: "string list"

type_synonym ImagesRouter = "(ImagesRequest, ImagesProviderResult) router"

definition IMAGES_PROVIDER_IDS :: "string list" where
  "IMAGES_PROVIDER_IDS = [''brave'', ''serper'', ''serpapi'']"

definition imagesUnavailable :: exn where
  "imagesUnavailable = GroundlaneError PROVIDER_UNAVAILABLE ''web_images''
     ''All selected images providers were unavailable'' True None"

definition validateImagesRequest :: "ImagesRequest \<Rightarrow> unit res" where
  "validateImagesRequest req =
     throwIf (trim (mq_query req) = '''' \<or> 2000 < length (mq_query req) \<or>
         notIntegerIn 1 50 (mq_maxResults req) \<or> setAnd (Not \<circ> isTwoLetters) (mq_country req) \<or>
         setAnd (Not \<circ> isTwoLetters) (mq_language req) \<or> badProviderSelection req)
       (glError INVALID_INPUT ''web_images''
         ''Images query, limits, locale, or provider selection is invalid'')"

definition dedupeImages :: "ImageItem list \<Rightarrow> ImageItem list" where
  "dedupeImages = dedupeBy mi_imageUrl"

definition imagesResult :: "surroundings \<Rightarrow> ImagesRequest \<Rightarrow> RouterStrategy \<Rightarrow>
    (ImagesRequest, ImagesProviderResult) provider list \<Rightarrow>
    (ImagesRequest, ImagesProviderResult) routed \<Rightarrow> ImagesResult" where
  "imagesResult su req strategy providers ro =
     (let providerResults = map snd (ro_results ro) in
      \<lparr>mw_query = mq_query req, mw_strategy = strategy,
       mw_providersSelected = map pv_id providers, mw_providersAttempted = ro_attempted ro,
       mw_providersSucceeded = map mp_provider providerResults,
       mw_results = take (nat (toInt (mq_maxResults req)))
         (dedupeImages (concat (map mp_results providerResults))),
       mw_providerResults = providerResults, mw_durationMs = durationMs su,
       mw_warnings = ro_warnings ro @ concat (map mp_warnings providerResults)\<rparr>)"

definition imagesWithFallback where
  "imagesWithFallback su req providers budget =
     map_prod (\<lambda>r. bindE r (\<lambda>ro. Inr (imagesResult su req FallbackStrategy providers ro))) id
       (routeWithFallback su ''web_images'' imagesUnavailable req providers budget)"

definition imagesInParallel where
  "imagesInParallel su req providers budget =
     map_prod (\<lambda>r. bindE r (\<lambda>ro. Inr (imagesResult su req ParallelStrategy providers ro))) id
       (routeInParallel su (glError CANCELLED ''web_images'' ''The request was cancelled'')
         imagesUnavailable req providers budget)"

definition images :: "ImagesRouter \<Rightarrow> surroundings \<Rightarrow> ImagesRequest \<Rightarrow> CompositeSearchBudget option \<Rightarrow>
    ImagesResult res \<times> CompositeSearchBudget option" where
  "images router su req budget =
     (case validateImagesRequest req of Inl e \<Rightarrow> (Inl e, budget) | Inr _ \<Rightarrow>
      let selected = resolveProviders (rr_providers router) (rr_order router) req in
      if selected = []
      then (Inl (GroundlaneError PROVIDER_UNAVAILABLE ''web_images''
        ''No configured images provider supports this request'' True None), budget)
      else case routeStrategy req of
        FallbackStrategy \<Rightarrow> imagesWithFallback su req selected budget
      | ParallelStrategy \<Rightarrow> imagesInParallel su req selected budget)"

end
