(* ===== verification/UrlPolicy.thy ===== *)
theory UrlPolicy
  imports JsPrelude "HOL-Library.Word"
begin

text \<open>
  \<^verbatim>\<open>src/core/url-policy.ts\<close>: which destinations the server may contact. The WHATWG URL parser, the
  textual IP parser of \<^verbatim>\<open>node:net\<close> and the DNS resolver are the platform's and are arguments of the
  definitions; the block lists, the port rule and the order of the checks are the code's.
\<close>

section \<open>Addresses and block lists\<close>

text \<open>What \<open>isIP\<close> recognises: an address of either family, at its width.\<close>

datatype ip = V4 "32 word" | V6 "128 word"

type_synonym ip_parser = "string \<Rightarrow> ip option"

record ResolvedAddress =
  ra_address :: string
  ra_family :: nat

definition ipv4 :: "nat \<Rightarrow> nat \<Rightarrow> nat \<Rightarrow> nat \<Rightarrow> 32 word" where
  "ipv4 a b c d = word_of_nat (((a * 256 + b) * 256 + c) * 256 + d)"

text \<open>An IPv6 address from its eight 16-bit groups.\<close>

definition ipv6 :: "nat \<Rightarrow> nat \<Rightarrow> nat \<Rightarrow> nat \<Rightarrow> nat \<Rightarrow> nat \<Rightarrow> nat \<Rightarrow> nat \<Rightarrow> 128 word" where
  "ipv6 a b c d e f g h =
     word_of_nat (((((((a * 65536 + b) * 65536 + c) * 65536 + d) * 65536 + e) * 65536 + f) * 65536 + g)
       * 65536 + h)"

definition blockedV4 :: "(32 word \<times> nat) list" where
  "blockedV4 =
     [(ipv4 0 0 0 0, 8), (ipv4 10 0 0 0, 8), (ipv4 100 64 0 0, 10), (ipv4 127 0 0 0, 8),
      (ipv4 169 254 0 0, 16), (ipv4 172 16 0 0, 12), (ipv4 192 0 0 0, 24), (ipv4 192 0 2 0, 24),
      (ipv4 192 168 0 0, 16), (ipv4 198 18 0 0, 15), (ipv4 198 51 100 0, 24),
      (ipv4 203 0 113 0, 24), (ipv4 224 0 0 0, 4), (ipv4 240 0 0 0, 4)]"

definition blockedV6 :: "(128 word \<times> nat) list" where
  "blockedV6 =
     [(ipv6 0 0 0 0 0 0 0 0, 128), (ipv6 0 0 0 0 0 0 0 1, 128), (ipv6 0x64 0xff9b 0 0 0 0 0 0, 96),
      (ipv6 0x64 0xff9b 1 0 0 0 0 0, 48), (ipv6 0x100 0 0 0 0 0 0 0, 64), (ipv6 0x2001 0 0 0 0 0 0 0, 32),
      (ipv6 0x2001 0xdb8 0 0 0 0 0 0, 32), (ipv6 0x2002 0 0 0 0 0 0 0, 16), (ipv6 0xfc00 0 0 0 0 0 0 0, 7), (ipv6 0xfe80 0 0 0 0 0 0 0, 10),
      (ipv6 0xff00 0 0 0 0 0 0 0, 8)]"

text \<open>\<open>BlockList.check\<close>: an address is in a subnet when the leading bits agree; an IPv4 address and its
  IPv4-mapped IPv6 form (\<open>::ffff:0:0/96\<close>) are one address for the rules of either family.\<close>

definition inSubnet :: "nat \<Rightarrow> 'a::len word \<Rightarrow> 'a word \<times> nat \<Rightarrow> bool" where
  "inSubnet width a rule = (drop_bit (width - snd rule) a = drop_bit (width - snd rule) (fst rule))"

definition mappedV6 :: "32 word \<Rightarrow> 128 word" where
  "mappedV6 a = push_bit 32 0xffff + ucast a"

definition isMappedV6 :: "128 word \<Rightarrow> bool" where
  "isMappedV6 a = (drop_bit 32 a = 0xffff)"

fun blockedCheck :: "ip \<Rightarrow> bool" where
  "blockedCheck (V4 a) \<longleftrightarrow>
     list_ex (inSubnet 32 a) blockedV4 \<or> list_ex (inSubnet 128 (mappedV6 a)) blockedV6"
| "blockedCheck (V6 a) \<longleftrightarrow>
     list_ex (inSubnet 128 a) blockedV6 \<or>
     (isMappedV6 a \<and> list_ex (inSubnet 32 (ucast a)) blockedV4)"

definition isPublicAddress :: "ip_parser \<Rightarrow> string \<Rightarrow> bool" where
  "isPublicAddress isIP address =
     (case isIP address of None \<Rightarrow> False | Some a \<Rightarrow> \<not> blockedCheck a)"

section \<open>URLs\<close>

record ported_url = url +
  url_port :: string

type_synonym ported_parser = "string \<Rightarrow> ported_url option"

text \<open>\<open>Number(url.port)\<close>; the port of a parsed URL is empty or decimal.\<close>

definition portNumber :: "string \<Rightarrow> jsnum" where
  "portNumber s = (if list_all isDigit s then jint (int (parseNat s)) else NaN)"

definition portOf :: "ported_url \<Rightarrow> jsnum" where
  "portOf u = (if url_port u \<noteq> '''' then portNumber (url_port u)
     else if url_protocol u = ''https:'' then jint 443 else jint 80)"

definition defaultPorts :: "int set" where
  "defaultPorts = {80, 443}"

definition parsePublicUrl :: "ported_parser \<Rightarrow> string \<Rightarrow> int set \<Rightarrow> ported_url res" where
  "parsePublicUrl parse value allowedPorts =
     (case parse value of
        None \<Rightarrow> Inl (GroundlaneError INVALID_INPUT ''url'' ''URL must be valid'' False
          (Some (Hint ''url.invalid''
            ''Pass an absolute http:// or https:// URL, including scheme, host, and path.'')))
      | Some u \<Rightarrow>
          if url_protocol u \<noteq> ''http:'' \<and> url_protocol u \<noteq> ''https:''
          then Inl (GroundlaneError URL_BLOCKED ''url'' ''Only HTTP and HTTPS URLs are allowed'' False
            (Some (Hint ''url.blocked.invalid_protocol''
              (''Groundlane only fetches public HTTP and HTTPS. Convert the URL scheme (e.g. ftp://, '' @
               ''file://, ws://) or self-host the resource behind HTTPS.''))))
          else if url_username u \<noteq> '''' \<or> url_password u \<noteq> ''''
          then Inl (GroundlaneError URL_BLOCKED ''url'' ''URLs containing credentials are not allowed''
            False (Some (Hint ''url.blocked.credentials''
              (''Strip user:pass@ from the URL and pass credentials via the provider's normal auth '' @
               ''mechanism (API key, OAuth) instead.''))))
          else if \<not> isInteger (portOf u) \<or> toInt (portOf u) \<notin> allowedPorts
          then Inl (GroundlaneError URL_BLOCKED ''url'' ''Destination port is not allowed'' False
            (Some (Hint ''url.blocked.invalid_port''
              (''Allowed ports are 80 (http) and 443 (https). Use a service on a standard port, or run '' @
               ''an operator-side proxy that exposes it on 443.''))))
          else Inr u)"

text \<open>\<open>signal.aborted\<close> with its reason is \<open>Some reason\<close>.\<close>

definition throwIfAborted :: "thrown option \<Rightarrow> string \<Rightarrow> string \<Rightarrow> unit res" where
  "throwIfAborted aborted stage message =
     (case aborted of
        None \<Rightarrow> Inr ()
      | Some (ThrownError (GroundlaneError c s m r h)) \<Rightarrow> Inl (GroundlaneError c s m r h)
      | Some _ \<Rightarrow> Inl (GroundlaneError CANCELLED stage message False
          (Some (Hint (stage @ ''.cancelled'') message))))"

text \<open>\<open>hostname.replace(/^\[|\]$/g, "").toLowerCase()\<close>.\<close>

definition bareHostname :: "string \<Rightarrow> string" where
  "bareHostname h =
     (let h1 = (case h of c # cs \<Rightarrow> if c = CHR ''['' then cs else h | [] \<Rightarrow> []);
          h2 = (if h1 \<noteq> [] \<and> last h1 = CHR '']'' then butlast h1 else h1)
      in toLowerCase h2)"

section \<open>Resolving a destination\<close>

text \<open>\<open>rc_lookup\<close> is the resolver of the call, \<open>rc_cache\<close> its address cache (\<open>None\<close> when it has none), and
  the two abort fields are the state of the caller's signal at the entry and after the look-up.\<close>

record resolve_context =
  rc_parse :: ported_parser
  rc_isIP :: ip_parser
  rc_lookup :: "string \<Rightarrow> thrown + ResolvedAddress list"
  rc_cache :: "ResolvedAddress list jsmap option"
  rc_allowedPorts :: "int set"
  rc_abortedAtEntry :: "thrown option"
  rc_abortedAfterLookup :: "thrown option"

record SafeDestination =
  sd_url :: ported_url
  sd_hostname :: string
  sd_port :: jsnum
  sd_addresses :: "ResolvedAddress list"

definition lookupAddresses :: "resolve_context \<Rightarrow> string \<Rightarrow> ResolvedAddress list res" where
  "lookupAddresses cx hostname =
     (case rc_isIP cx hostname of
        Some a \<Rightarrow> Inr [\<lparr>ra_address = hostname, ra_family = (case a of V4 _ \<Rightarrow> 4 | V6 _ \<Rightarrow> 6)\<rparr>]
      | None \<Rightarrow> (case rc_lookup cx hostname of
          Inl _ \<Rightarrow> Inl (GroundlaneError UPSTREAM_ERROR ''dns''
            ''Destination hostname could not be resolved'' True (Some (Hint ''dns.unresolved''
              (''DNS lookup returned no answers. Verify the hostname, ensure the deployment has '' @
               ''egress DNS, and check for typos or stale cache.''))))
        | Inr addresses \<Rightarrow>
            andThen (throwIfAborted (rc_abortedAfterLookup cx) ''url'' ''URL validation was cancelled'')
              (Inr addresses)))"

definition resolvePublicUrl ::
  "resolve_context \<Rightarrow> string \<Rightarrow> SafeDestination res \<times> ResolvedAddress list jsmap option" where
  "resolvePublicUrl cx value =
     (case andThen (throwIfAborted (rc_abortedAtEntry cx) ''url'' ''URL validation was cancelled'')
             (parsePublicUrl (rc_parse cx) value (rc_allowedPorts cx)) of
        Inl e \<Rightarrow> (Inl e, rc_cache cx)
      | Inr u \<Rightarrow>
          let hostname = bareHostname (url_hostname u) in
          if hostname = ''localhost'' \<or> suffix ''.localhost'' hostname
          then (Inl (GroundlaneError URL_BLOCKED ''dns'' ''Local destinations are not allowed'' False
            (Some (Hint ''dns.blocked.localhost''
              (''localhost and *.localhost resolve to the local machine and are blocked to prevent '' @
               ''SSRF. Use a public hostname, an operator-side proxy, or run Groundlane locally with '' @
               ''overrides.'')))), rc_cache cx)
          else case (case Option.bind (rc_cache cx) (\<lambda>m. map_of m hostname) of
                       Some cached \<Rightarrow> (Inr cached, rc_cache cx)
                     | None \<Rightarrow> (case lookupAddresses cx hostname of
                         Inl e \<Rightarrow> (Inl e, rc_cache cx)
                       | Inr addresses \<Rightarrow>
                           (Inr addresses, map_option (AList.update hostname addresses) (rc_cache cx)))) of
                 (Inl e, cache) \<Rightarrow> (Inl e, cache)
               | (Inr addresses, cache) \<Rightarrow>
                   if addresses = [] \<or>
                      list_ex (\<lambda>a. \<not> isPublicAddress (rc_isIP cx) (ra_address a)) addresses
                   then (Inl (GroundlaneError URL_BLOCKED ''dns''
                     ''Private or reserved destinations are not allowed'' False
                     (Some (Hint ''dns.blocked.private_address''
                       (''Every resolved address must be a public IP. The hostname may have public '' @
                        ''CNAMEs that resolve to private/link-local/cloud-metadata ranges; block it or '' @
                        ''expose it via a public proxy.'')))), cache)
                   else (Inr \<lparr>sd_url = u, sd_hostname = hostname, sd_port = portOf u,
                               sd_addresses = addresses\<rparr>, cache))"

text \<open>\<open>resolveRelative base location\<close> is \<open>new URL(location, base).href\<close>.\<close>

definition resolveRedirect :: "('u \<Rightarrow> string \<Rightarrow> string option) \<Rightarrow> 'u \<Rightarrow> string \<Rightarrow> string res" where
  "resolveRedirect resolveRelative base location =
     (case resolveRelative base location of
        Some href \<Rightarrow> Inr href
      | None \<Rightarrow> Inl (GroundlaneError UPSTREAM_ERROR ''redirect''
          ''Upstream returned an invalid redirect'' True (Some (Hint ''redirect.invalid_location''
            (''Upstream sent a Location header that did not resolve relative to the request URL. Try '' @
             ''the page again or use the provider-backed content APIs which normalise redirects.'')))))"

end
