(* ===== verification/UrlRouters.thy ===== *)
theory UrlRouters
  imports QueryRouters UrlPolicy
begin

text \<open>
  The routers whose request is a URL: \<^verbatim>\<open>content-router.ts\<close>, \<^verbatim>\<open>map-router.ts\<close> and \<^verbatim>\<open>crawl-router.ts\<close>.
  After the checks on the request they resolve its URL under the destination policy, with the
  platform's parser and resolver, and reject it before any provider is charged or called.
\<close>

record platform =
  pf_parse :: ported_parser
  pf_isIP :: ip_parser
  pf_lookup :: "string \<Rightarrow> thrown + ResolvedAddress list"

text \<open>\<open>resolvePublicUrl(value)\<close> without options.\<close>

definition defaultContext :: "platform \<Rightarrow> resolve_context" where
  "defaultContext pf =
     \<lparr>rc_parse = pf_parse pf, rc_isIP = pf_isIP pf, rc_lookup = pf_lookup pf, rc_cache = None,
      rc_allowedPorts = defaultPorts, rc_abortedAtEntry = None, rc_abortedAfterLookup = None\<rparr>"

definition requirePublicUrl :: "platform \<Rightarrow> string \<Rightarrow> unit res" where
  "requirePublicUrl pf value = map_sum id (\<lambda>_. ()) (fst (resolvePublicUrl (defaultContext pf) value))"

section \<open>Content\<close>

record ContentRequest = routed_request +
  cq_url :: string
  cq_maxContentChars :: jsnum
  cq_live :: "bool option"

datatype ContentFormat = MarkdownFormat | TextFormat

record ContentProviderResult =
  cr_provider :: string
  cr_url :: string
  cr_finalUrl :: string
  cr_title :: "string option"
  cr_content :: string
  cr_format :: ContentFormat
  cr_truncated :: bool
  cr_durationMs :: jsnum
  cr_warnings :: "string list"

record ContentResult =
  cw_url :: string
  cw_strategy :: RouterStrategy
  cw_providersSelected :: "string list"
  cw_providersAttempted :: "string list"
  cw_providersSucceeded :: "string list"
  cw_contents :: "ContentProviderResult list"
  cw_durationMs :: int
  cw_warnings :: "string list"

type_synonym ContentRouter = "(ContentRequest, ContentProviderResult) router"

definition CONTENT_PROVIDER_IDS :: "string list" where
  "CONTENT_PROVIDER_IDS = [''linkup'', ''you'', ''exa'', ''tavily'', ''firecrawl'', ''tinyfish'',
     ''keenable'', ''crawl4ai'']"

definition contentUnavailable :: exn where
  "contentUnavailable = GroundlaneError PROVIDER_UNAVAILABLE ''web_content''
     ''All selected content providers were unavailable'' True
     (Some (Hint ''web_content.all_providers_failed''
       (''Every selected provider errored. Inspect the warnings field for per-provider failure '' @
        ''reasons. Try a different provider, add credentials, or wait for upstream to recover.'')))"

definition validateContentRequest :: "platform \<Rightarrow> ContentRequest \<Rightarrow> unit res" where
  "validateContentRequest pf req =
     andThen (throwIf (trim (cq_url req) = '''' \<or> notIntegerIn 1 200000 (cq_maxContentChars req) \<or>
         badProviderSelection req)
       (GroundlaneError INVALID_INPUT ''web_content''
         ''Content URL, output limit, or provider selection is invalid'' False
         (Some (Hint ''web_content.invalid_input''
           (''Check the request: url must be a non-empty public http(s) URL, maxContentChars must be '' @
            ''1-200000, and provider/providers must be specified at most once.'')))))
       (requirePublicUrl pf (cq_url req))"

definition contentResult :: "surroundings \<Rightarrow> ContentRequest \<Rightarrow> RouterStrategy \<Rightarrow>
    (ContentRequest, ContentProviderResult) provider list \<Rightarrow> string list \<Rightarrow>
    (ContentRequest, ContentProviderResult) routed \<Rightarrow> ContentResult" where
  "contentResult su req strategy providers succeeded ro =
     \<lparr>cw_url = cq_url req, cw_strategy = strategy,
      cw_providersSelected = map pv_id providers, cw_providersAttempted = ro_attempted ro,
      cw_providersSucceeded = succeeded, cw_contents = map snd (ro_results ro),
      cw_durationMs = durationMs su,
      cw_warnings = ro_warnings ro @ concat (map (cr_warnings \<circ> snd) (ro_results ro))\<rparr>"

definition contentWithFallback where
  "contentWithFallback su req providers budget =
     map_prod (\<lambda>r. bindE r (\<lambda>ro. Inr (contentResult su req FallbackStrategy providers
         (map (pv_id \<circ> fst) (ro_results ro)) ro))) id
       (routeWithFallback su ''web_content'' contentUnavailable req providers budget)"

definition contentInParallel where
  "contentInParallel su req providers budget =
     map_prod (\<lambda>r. bindE r (\<lambda>ro. Inr (contentResult su req ParallelStrategy providers
         (map (cr_provider \<circ> snd) (ro_results ro)) ro))) id
       (routeInParallel su
         (GroundlaneError CANCELLED ''web_content'' ''The request was cancelled'' False
           (Some (Hint ''web_content.cancelled''
             (''The caller aborted the request before any provider returned. Issue a fresh call if '' @
              ''you still need this content.''))))
         contentUnavailable req providers budget)"

definition fetchContent :: "platform \<Rightarrow> ContentRouter \<Rightarrow> surroundings \<Rightarrow> ContentRequest \<Rightarrow>
    CompositeSearchBudget option \<Rightarrow> ContentResult res \<times> CompositeSearchBudget option" where
  "fetchContent pf router su req budget =
     (case validateContentRequest pf req of Inl e \<Rightarrow> (Inl e, budget) | Inr _ \<Rightarrow>
      let selected = resolveProviders (rr_providers router) (rr_order router) req in
      if selected = []
      then (Inl (GroundlaneError PROVIDER_UNAVAILABLE ''web_content''
        ''No configured content provider supports this request'' True
        (Some (Hint ''web_content.no_provider''
          (''No configured content provider matched the request. Check provider_quota to see which '' @
           ''adapters are enabled, and ensure at least one of them is keyed or in the auto pool.'')))),
        budget)
      else case routeStrategy req of
        FallbackStrategy \<Rightarrow> contentWithFallback su req selected budget
      | ParallelStrategy \<Rightarrow> contentInParallel su req selected budget)"

section \<open>Site maps\<close>

record MapRequest = routed_request +
  lq_url :: string
  lq_maxLinks :: jsnum
  lq_search :: "string option"
  lq_includeSubdomains :: "bool option"
  lq_ignoreCache :: "bool option"
  lq_maxDepth :: "jsnum option"
  lq_maxBreadth :: "jsnum option"

record MapLink =
  li_url :: string
  li_title :: "string option"
  li_description :: "string option"
  li_provider :: string

record MapProviderResult =
  lp_provider :: string
  lp_url :: string
  lp_links :: "MapLink list"
  lp_durationMs :: jsnum
  lp_warnings :: "string list"

record MapResult =
  lw_url :: string
  lw_strategy :: RouterStrategy
  lw_providersSelected :: "string list"
  lw_providersAttempted :: "string list"
  lw_providersSucceeded :: "string list"
  lw_links :: "MapLink list"
  lw_providerResults :: "MapProviderResult list"
  lw_durationMs :: int
  lw_warnings :: "string list"

type_synonym MapRouter = "(MapRequest, MapProviderResult) router"

definition MAP_PROVIDER_IDS :: "string list" where
  "MAP_PROVIDER_IDS = [''firecrawl'', ''tavily'']"

definition mapUnavailable :: exn where
  "mapUnavailable = GroundlaneError PROVIDER_UNAVAILABLE ''web_map''
     ''All selected map providers were unavailable'' True None"

definition validateMapRequest :: "platform \<Rightarrow> MapRequest \<Rightarrow> unit res" where
  "validateMapRequest pf req =
     andThen (throwIf (trim (lq_url req) = '''' \<or> notIntegerIn 1 1000 (lq_maxLinks req) \<or>
         setAnd (\<lambda>s. trim s = '''') (lq_search req) \<or> setAnd (\<lambda>s. 500 < length s) (lq_search req) \<or>
         setAnd (notIntegerIn 1 5) (lq_maxDepth req) \<or> setAnd (notIntegerIn 1 500) (lq_maxBreadth req) \<or>
         badProviderSelection req)
       (glError INVALID_INPUT ''web_map''
         ''Map URL, limits, search, or provider selection is invalid''))
       (requirePublicUrl pf (lq_url req))"

definition dedupeLinks :: "MapLink list \<Rightarrow> MapLink list" where
  "dedupeLinks = dedupeBy li_url"

definition mapResult :: "surroundings \<Rightarrow> MapRequest \<Rightarrow> RouterStrategy \<Rightarrow>
    (MapRequest, MapProviderResult) provider list \<Rightarrow> (MapRequest, MapProviderResult) routed \<Rightarrow> MapResult" where
  "mapResult su req strategy providers ro =
     (let providerResults = map snd (ro_results ro) in
      \<lparr>lw_url = lq_url req, lw_strategy = strategy,
       lw_providersSelected = map pv_id providers, lw_providersAttempted = ro_attempted ro,
       lw_providersSucceeded = map lp_provider providerResults,
       lw_links = take (nat (toInt (lq_maxLinks req)))
         (dedupeLinks (concat (map lp_links providerResults))),
       lw_providerResults = providerResults, lw_durationMs = durationMs su,
       lw_warnings = ro_warnings ro @ concat (map lp_warnings providerResults)\<rparr>)"

definition mapWithFallback where
  "mapWithFallback su req providers budget =
     map_prod (\<lambda>r. bindE r (\<lambda>ro. Inr (mapResult su req FallbackStrategy providers ro))) id
       (routeWithFallback su ''web_map'' mapUnavailable req providers budget)"

definition mapInParallel where
  "mapInParallel su req providers budget =
     map_prod (\<lambda>r. bindE r (\<lambda>ro. Inr (mapResult su req ParallelStrategy providers ro))) id
       (routeInParallel su (glError CANCELLED ''web_map'' ''The request was cancelled'')
         mapUnavailable req providers budget)"

definition mapSite :: "platform \<Rightarrow> MapRouter \<Rightarrow> surroundings \<Rightarrow> MapRequest \<Rightarrow>
    CompositeSearchBudget option \<Rightarrow> MapResult res \<times> CompositeSearchBudget option" where
  "mapSite pf router su req budget =
     (case validateMapRequest pf req of Inl e \<Rightarrow> (Inl e, budget) | Inr _ \<Rightarrow>
      let selected = resolveProviders (rr_providers router) (rr_order router) req in
      if selected = []
      then (Inl (GroundlaneError PROVIDER_UNAVAILABLE ''web_map''
        ''No configured map provider supports this request'' True None), budget)
      else case routeStrategy req of
        FallbackStrategy \<Rightarrow> mapWithFallback su req selected budget
      | ParallelStrategy \<Rightarrow> mapInParallel su req selected budget)"

section \<open>Crawls\<close>

record CrawlRequest = routed_request +
  kq_url :: string
  kq_maxPages :: jsnum
  kq_maxContentChars :: jsnum
  kq_instructions :: "string option"
  kq_includeSubdomains :: "bool option"
  kq_ignoreCache :: "bool option"
  kq_maxDepth :: "jsnum option"
  kq_maxBreadth :: "jsnum option"
  kq_maxPolls :: "jsnum option"
  kq_pollIntervalMs :: "jsnum option"

record CrawlPage =
  ki_url :: string
  ki_title :: "string option"
  ki_description :: "string option"
  ki_content :: "string option"
  ki_contentChars :: jsnum
  ki_truncated :: bool
  ki_provider :: string

datatype CrawlProviderStatus = CrawlDone | CrawlRunning | CrawlBroken | CrawlUnknown

record CrawlProviderResult =
  kp_provider :: string
  kp_url :: string
  kp_status :: CrawlProviderStatus
  kp_jobId :: "string option"
  kp_total :: "jsnum option"
  kp_completed :: "jsnum option"
  kp_creditsUsed :: "jsnum option"
  kp_pages :: "CrawlPage list"
  kp_durationMs :: jsnum
  kp_warnings :: "string list"

record CrawlResult =
  kw_url :: string
  kw_strategy :: RouterStrategy
  kw_providersSelected :: "string list"
  kw_providersAttempted :: "string list"
  kw_providersSucceeded :: "string list"
  kw_pages :: "CrawlPage list"
  kw_providerResults :: "CrawlProviderResult list"
  kw_durationMs :: int
  kw_warnings :: "string list"

type_synonym CrawlRouter = "(CrawlRequest, CrawlProviderResult) router"

definition CRAWL_PROVIDER_IDS :: "string list" where
  "CRAWL_PROVIDER_IDS = [''firecrawl'', ''tavily'']"

definition validateCrawlRequest :: "platform \<Rightarrow> CrawlRequest \<Rightarrow> unit res" where
  "validateCrawlRequest pf req =
     andThen (throwIf (trim (kq_url req) = '''' \<or> notIntegerIn 1 100 (kq_maxPages req) \<or>
         notIntegerIn 0 20000 (kq_maxContentChars req) \<or>
         setAnd (\<lambda>s. trim s = '''') (kq_instructions req) \<or>
         setAnd (\<lambda>s. 500 < length s) (kq_instructions req) \<or>
         setAnd (notIntegerIn 1 5) (kq_maxDepth req) \<or> setAnd (notIntegerIn 1 500) (kq_maxBreadth req) \<or>
         setAnd (notIntegerIn 1 5) (kq_maxPolls req) \<or>
         setAnd (notIntegerIn 250 5000) (kq_pollIntervalMs req) \<or> badProviderSelection req)
       (GroundlaneError INVALID_INPUT ''web_crawl''
         ''Crawl URL, limits, instructions, polling, or provider selection is invalid'' False
         (Some (Hint ''web_crawl.invalid_input''
           (''Check the request: url must be a public http(s) URL, maxPages 1-100, maxContentChars '' @
            ''0-20000, maxDepth 1-5, maxBreadth 1-500, maxPolls 1-5, pollIntervalMs 250-5000, '' @
            ''instructions <= 500 chars, provider/providers mutually exclusive.'')))))
       (requirePublicUrl pf (kq_url req))"

definition dedupePages :: "CrawlPage list \<Rightarrow> CrawlPage list" where
  "dedupePages = dedupeBy ki_url"

definition crawlRouterResult :: "surroundings \<Rightarrow> CrawlRequest \<Rightarrow> RouterStrategy \<Rightarrow>
    (CrawlRequest, CrawlProviderResult) provider list \<Rightarrow>
    (CrawlRequest, CrawlProviderResult) routed \<Rightarrow> CrawlResult" where
  "crawlRouterResult su req strategy providers ro =
     (let providerResults = map snd (ro_results ro) in
      \<lparr>kw_url = kq_url req, kw_strategy = strategy,
       kw_providersSelected = map pv_id providers, kw_providersAttempted = ro_attempted ro,
       kw_providersSucceeded = map kp_provider providerResults,
       kw_pages = take (nat (toInt (kq_maxPages req)))
         (dedupePages (concat (map kp_pages providerResults))),
       kw_providerResults = providerResults, kw_durationMs = durationMs su,
       kw_warnings = ro_warnings ro @ concat (map kp_warnings providerResults)\<rparr>)"

definition crawlWithFallback where
  "crawlWithFallback su req providers budget =
     map_prod (\<lambda>r. bindE r (\<lambda>ro. Inr (crawlRouterResult su req FallbackStrategy providers ro))) id
       (routeWithFallback su ''web_crawl''
         (GroundlaneError PROVIDER_UNAVAILABLE ''web_crawl''
           ''All selected crawl providers were unavailable'' True
           (Some (Hint ''web_crawl.all_providers_failed''
             (''Every selected crawl provider errored. Inspect warnings for per-provider reasons. Try '' @
              ''a different provider or wait for upstream to recover.''))))
         req providers budget)"

definition crawlInParallel where
  "crawlInParallel su req providers budget =
     map_prod (\<lambda>r. bindE r (\<lambda>ro. Inr (crawlRouterResult su req ParallelStrategy providers ro))) id
       (routeInParallel su
         (GroundlaneError CANCELLED ''web_crawl'' ''The request was cancelled'' False
           (Some (Hint ''web_crawl.cancelled''
             (''The caller aborted the request before completion. Issue a fresh call if you still '' @
              ''need this crawl.''))))
         (GroundlaneError PROVIDER_UNAVAILABLE ''web_crawl''
           ''All selected crawl providers were unavailable'' True None)
         req providers budget)"

definition crawlSite :: "platform \<Rightarrow> CrawlRouter \<Rightarrow> surroundings \<Rightarrow> CrawlRequest \<Rightarrow>
    CompositeSearchBudget option \<Rightarrow> CrawlResult res \<times> CompositeSearchBudget option" where
  "crawlSite pf router su req budget =
     (case validateCrawlRequest pf req of Inl e \<Rightarrow> (Inl e, budget) | Inr _ \<Rightarrow>
      let selected = resolveProviders (rr_providers router) (rr_order router) req in
      if selected = []
      then (Inl (GroundlaneError PROVIDER_UNAVAILABLE ''web_crawl''
        ''No configured crawl provider supports this request'' True
        (Some (Hint ''web_crawl.no_provider''
          (''No configured crawl provider matched the request. provider_quota should show firecrawl '' @
           ''and/or tavily as enabled.'')))), budget)
      else case routeStrategy req of
        FallbackStrategy \<Rightarrow> crawlWithFallback su req selected budget
      | ParallelStrategy \<Rightarrow> crawlInParallel su req selected budget)"

end
