(* ===== verification/UrlPolicyFacts.thy ===== *)
theory UrlPolicyFacts
  imports UrlPolicy
begin

text \<open>
  What the destination policy promises: the block lists cover the private, loopback, link-local,
  multicast and reserved ranges as intervals of addresses, at their machine width, and a resolved
  destination has no address in them.
\<close>

section \<open>Prefixes and intervals\<close>

lemma inSubnet_uint:
  "inSubnet w (a :: 'a::len word) (net, p) \<longleftrightarrow> uint a div 2 ^ (w - p) = uint net div 2 ^ (w - p)"
  by (simp add: inSubnet_def word_uint_eq_iff unsigned_drop_bit_eq drop_bit_eq_div [where 'a = int] bintr_uint)

text \<open>An interval whose ends share the leading bits lies in the subnet.\<close>

lemma interval_inSubnet:
  assumes "a \<in> {lo .. hi}" and "uint lo div 2 ^ (w - p) = uint net div 2 ^ (w - p)"
    and "uint hi div 2 ^ (w - p) = uint net div 2 ^ (w - p)"
  shows "inSubnet w (a :: 'a::len word) (net, p)"
proof -
  have "uint lo div 2 ^ (w - p) \<le> uint a div 2 ^ (w - p)"
    using assms(1) by (intro zdiv_mono1) (auto simp: word_le_def)
  moreover have "uint a div 2 ^ (w - p) \<le> uint hi div 2 ^ (w - p)"
    using assms(1) by (intro zdiv_mono1) (auto simp: word_le_def)
  ultimately show ?thesis using assms(2,3) by (simp add: inSubnet_uint)
qed

section \<open>The ranges\<close>

definition privateRangesV4 :: "(32 word \<times> 32 word) list" where
  "privateRangesV4 =
     [(ipv4 0 0 0 0, ipv4 0 255 255 255), (ipv4 10 0 0 0, ipv4 10 255 255 255),
      (ipv4 100 64 0 0, ipv4 100 127 255 255), (ipv4 127 0 0 0, ipv4 127 255 255 255),
      (ipv4 169 254 0 0, ipv4 169 254 255 255), (ipv4 172 16 0 0, ipv4 172 31 255 255),
      (ipv4 192 0 0 0, ipv4 192 0 0 255), (ipv4 192 168 0 0, ipv4 192 168 255 255),
      (ipv4 198 18 0 0, ipv4 198 19 255 255), (ipv4 224 0 0 0, ipv4 239 255 255 255),
      (ipv4 240 0 0 0, ipv4 255 255 255 255)]"

definition privateRangesV6 :: "(128 word \<times> 128 word) list" where
  "privateRangesV6 =
     [(0, 0), (1, 1), (ipv6 0xfc00 0 0 0 0 0 0 0, ipv6 0xfdff 65535 65535 65535 65535 65535 65535 65535),
      (ipv6 0xfe80 0 0 0 0 0 0 0, ipv6 0xfebf 65535 65535 65535 65535 65535 65535 65535),
      (ipv6 0xff00 0 0 0 0 0 0 0, ipv6 65535 65535 65535 65535 65535 65535 65535 65535)]"

fun privateIp :: "ip \<Rightarrow> bool" where
  "privateIp (V4 a) \<longleftrightarrow> list_ex (\<lambda>(lo, hi). a \<in> {lo .. hi}) privateRangesV4"
| "privateIp (V6 a) \<longleftrightarrow> list_ex (\<lambda>(lo, hi). a \<in> {lo .. hi}) privateRangesV6 \<or>
     (isMappedV6 a \<and> list_ex (\<lambda>(lo, hi). ucast a \<in> {lo .. hi}) privateRangesV4)"

text \<open>Both ends of every range share the prefix of one blocked subnet.\<close>

definition coveredBy :: "nat \<Rightarrow> ('a::len word \<times> nat) list \<Rightarrow> 'a word \<times> 'a word \<Rightarrow> bool" where
  "coveredBy w nets r = list_ex (\<lambda>(net, p).
     uint (fst r) div 2 ^ (w - p) = uint net div 2 ^ (w - p) \<and>
     uint (snd r) div 2 ^ (w - p) = uint net div 2 ^ (w - p)) nets"

lemma coveredBy_inSubnet:
  assumes "list_ex (\<lambda>(lo, hi). a \<in> {lo .. hi}) ranges" and "list_all (coveredBy w nets) ranges"
  shows "list_ex (inSubnet w a) nets"
proof -
  from assms(1) obtain lo hi where r: "(lo, hi) \<in> set ranges" "a \<in> {lo .. hi}"
    by (auto simp: list_ex_iff)
  with assms(2) have "coveredBy w nets (lo, hi)" by (auto simp: list_all_iff)
  then obtain net p where n: "(net, p) \<in> set nets"
    "uint lo div 2 ^ (w - p) = uint net div 2 ^ (w - p)" "uint hi div 2 ^ (w - p) = uint net div 2 ^ (w - p)"
    by (auto simp: coveredBy_def list_ex_iff)
  from interval_inSubnet [OF r(2) n(2,3)] n(1) show ?thesis by (auto simp: list_ex_iff)
qed

lemma rangesV4_covered: "list_all (coveredBy 32 blockedV4) privateRangesV4"
  by (simp add: coveredBy_def blockedV4_def privateRangesV4_def ipv4_def)

lemma rangesV6_covered: "list_all (coveredBy 128 blockedV6) privateRangesV6"
  by (simp add: coveredBy_def blockedV6_def privateRangesV6_def ipv6_def)

lemma private_blocked: "privateIp a \<Longrightarrow> blockedCheck a"
  by (cases a) (auto intro: coveredBy_inSubnet [OF _ rangesV4_covered] coveredBy_inSubnet [OF _ rangesV6_covered])

lemma publicAddress: "isPublicAddress isIP s \<Longrightarrow> \<exists>a. isIP s = Some a \<and> \<not> privateIp a"
  by (auto simp: isPublicAddress_def dest: private_blocked split: option.splits)

section \<open>Resolved destinations\<close>

lemma parsePublicUrl_ok:
  "parsePublicUrl parse v ports = Inr u \<Longrightarrow> parse v = Some u \<and> url_protocol u \<in> {''http:'', ''https:''} \<and>
     url_username u = [] \<and> url_password u = [] \<and> isInteger (portOf u) \<and> toInt (portOf u) \<in> ports"
  by (auto simp: parsePublicUrl_def split: option.splits if_splits)

lemma resolve_cases:
  assumes "resolvePublicUrl cx v = (Inr d, cache)"
  shows "parsePublicUrl (rc_parse cx) v (rc_allowedPorts cx) = Inr (sd_url d) \<and> sd_addresses d \<noteq> [] \<and>
    (\<forall>a \<in> set (sd_addresses d). isPublicAddress (rc_isIP cx) (ra_address a)) \<and>
    sd_hostname d = bareHostname (url_hostname (sd_url d)) \<and> sd_port d = portOf (sd_url d) \<and>
    sd_hostname d \<noteq> ''localhost'' \<and> \<not> suffix ''.localhost'' (sd_hostname d)"
  using assms
  by (auto simp: resolvePublicUrl_def Let_def list_ex_iff res_simps
      split: sum.splits if_splits option.splits prod.splits)

end
