(* ===== verification/RoutingFacts.thy ===== *)
theory RoutingFacts
  imports UrlRouters UrlPolicyFacts BudgetProperties
begin

text \<open>
  What the two strategies of the capability routers compute, as closed forms without loops, budgets
  or accumulators; which providers a router may ask; and the merging of result lists.
\<close>

section \<open>Selection\<close>

lemma set_jsUnique [simp]: "set (jsUnique xs) = set xs"
  by (simp add: jsUnique_def)

lemma distinct_jsUnique [simp]: "distinct (jsUnique xs)"
  by (simp add: jsUnique_def)

lemma jsUnique_distinct: "distinct xs \<Longrightarrow> jsUnique xs = xs"
  by (simp add: jsUnique_def distinct_remdups_id)

definition providersKeyed :: "('q, 'r) provider jsmap \<Rightarrow> bool" where
  "providersKeyed m \<longleftrightarrow> (\<forall>i p. map_of m i = Some p \<longrightarrow> pv_id p = i)"

lemma providersKeyedD: "providersKeyed m \<Longrightarrow> map_of m i = Some p \<Longrightarrow> pv_id p = i"
  by (simp add: providersKeyed_def)

lemma providersKeyed_update: "providersKeyed m \<Longrightarrow> providersKeyed (AList.update (pv_id p) p m)"
  by (simp add: providersKeyed_def)

lemma providersKeyed_providerMap [simp]: "providersKeyed (providerMap ps)"
proof -
  have f: "providersKeyed m \<Longrightarrow> providersKeyed (foldl (\<lambda>m p. AList.update (pv_id p) p m) m ps)" for m
    by (induction ps arbitrary: m) (simp_all add: providersKeyed_update)
  show ?thesis unfolding providerMap_def by (rule f) (simp add: providersKeyed_def)
qed

lemma set_map_filter: "x \<in> set (List.map_filter f xs) \<longleftrightarrow> (\<exists>y \<in> set xs. f y = Some x)"
  by (force simp: List.map_filter_def image_iff)

lemma map_filter_keyed:
  "(\<And>x y. f x = Some y \<Longrightarrow> g y = x) \<Longrightarrow> map g (List.map_filter f xs) = filter (\<lambda>x. f x \<noteq> None) xs"
  by (induction xs) (auto simp: List.map_filter_def)

text \<open>A resolved provider is one the request asks for, it supports the request, and no two share
  their identifier.\<close>

lemma resolveProviders_ids:
  assumes "providersKeyed m"
  shows "distinct (map pv_id (resolveProviders m order req))"
    and "p \<in> set (resolveProviders m order req) \<Longrightarrow>
      pv_supports p req \<and> pv_id p \<in> set (requestedIds req order) \<and> map_of m (pv_id p) = Some p"
proof -
  let ?f = "\<lambda>i. case map_of m i of Some p \<Rightarrow> if pv_supports p req then Some p else None | None \<Rightarrow> None"
  have f: "?f i = Some p \<Longrightarrow> map_of m i = Some p \<and> pv_supports p req \<and> pv_id p = i" for i p
    using providersKeyedD [OF assms] by (auto split: option.splits if_splits)
  then have "map pv_id (resolveProviders m order req) =
      filter (\<lambda>i. ?f i \<noteq> None) (jsUnique (requestedIds req order))"
    unfolding resolveProviders_def by (intro map_filter_keyed) blast
  then show "distinct (map pv_id (resolveProviders m order req))" by simp
  show "pv_supports p req \<and> pv_id p \<in> set (requestedIds req order) \<and> map_of m (pv_id p) = Some p"
    if "p \<in> set (resolveProviders m order req)"
    using that unfolding resolveProviders_def set_map_filter by (auto dest: f)
qed

lemma notIntegerIn_lower: "\<not> notIntegerIn lo hi n \<Longrightarrow> lo \<le> toInt n \<and> toInt n \<le> hi"
  by (cases n) (auto simp: notIntegerIn_def not_less le_floor_iff floor_le_iff)

section \<open>Charging one attempt\<close>

abbreviation budgetRem :: "int \<Rightarrow> CompositeSearchBudget \<Rightarrow> string \<Rightarrow> int option" where
  "budgetRem now b q \<equiv> fst (composite_remaining now q b)"

definition hasBudget :: "int \<Rightarrow> CompositeSearchBudget \<Rightarrow> ('q, 'r) provider \<Rightarrow> bool" where
  "hasBudget now b p \<longleftrightarrow> budgetRem now b (pv_id p) \<noteq> Some 0"

text \<open>The remainders after one attempt of each of the given providers.\<close>

definition chargedRem :: "string list \<Rightarrow> (string \<Rightarrow> int option) \<Rightarrow> string \<Rightarrow> int option" where
  "chargedRem ids rem q = (if q \<in> set ids then map_option (\<lambda>x. x - 1) (rem q) else rem q)"

lemma charge_cases:
  obtains (granted) b' where "budgetRem now b p \<noteq> Some 0"
      "consumeProviderAttemptBudget (Some b) now p src t = (Inr None, Some b')"
      "budgetRem now b' = chargedRem [p] (budgetRem now b)"
    | (refused) b' where "budgetRem now b p = Some 0"
      "consumeProviderAttemptBudget (Some b) now p src t =
         (if t then Inl (GroundlaneError PROVIDER_UNAVAILABLE src (p @ '' request budget is exhausted'')
            True (Some (Hint ''search_budget.exhausted''
           (''The local attempt budget for this provider is exhausted. Wait for reset, raise the '' @
            ''operator-configured limit, or use a different provider.''))))
          else Inr (Some (p @ '' budget exhausted'')), Some b')"
      "budgetRem now b' = budgetRem now b"
proof -
  obtain ok b' where t: "composite_tryConsume now p b = (ok, b')" by fastforce
  have r: "budgetRem now b' q = (if ok \<and> q = p then map_option (\<lambda>r. r - 1) (budgetRem now b q)
      else budgetRem now b q)" for q
    using composite.consume_rem [of now q p b] t by simp
  have i: "ok \<longleftrightarrow> budgetRem now b p \<noteq> Some 0" using composite.consume_iff [of now p b] t by simp
  show thesis
  proof (cases ok)
    case True
    with i t r show thesis
      by (intro granted [of b']) (auto simp: consumeProviderAttemptBudget_def chargedRem_def)
  next
    case False
    with i t r show thesis
      by (intro refused [of b']) (auto simp: consumeProviderAttemptBudget_def)
  qed
qed

lemma hasBudget_filter:
  assumes "\<And>q. q \<in> set ps \<Longrightarrow> budgetRem now b' (pv_id q) = budgetRem now b (pv_id q)"
  shows "filter (hasBudget now b') ps = filter (hasBudget now b) ps"
  using assms by (intro filter_cong) (simp_all add: hasBudget_def)

section \<open>Fallback\<close>

definition failsRetryably :: "string \<Rightarrow> 'q \<Rightarrow> ('q, 'r) provider \<Rightarrow> bool" where
  "failsRetryably stage req p = (case pv_call p req of
     Inr _ \<Rightarrow> False | Inl err \<Rightarrow> exn_retryable (toGroundlaneError err stage))"

text \<open>The reference, for a test \<open>has\<close> of who has an attempt left: pass over the providers without one and
  those that fail retryably, each with its warning, and return what the next provider answers.\<close>

definition passedOver :: "(('q, 'r) provider \<Rightarrow> bool) \<Rightarrow> string \<Rightarrow> 'q \<Rightarrow> ('q, 'r) provider \<Rightarrow> bool" where
  "passedOver has stage req p \<longleftrightarrow> \<not> has p \<or> failsRetryably stage req p"

definition passWarning :: "(('q, 'r) provider \<Rightarrow> bool) \<Rightarrow> ('q, 'r) provider \<Rightarrow> string" where
  "passWarning has p = pv_id p @ (if has p then '' unavailable'' else '' budget exhausted'')"

definition fallbackSpec :: "(('q, 'r) provider \<Rightarrow> bool) \<Rightarrow> string \<Rightarrow> exn \<Rightarrow> 'q \<Rightarrow> ('q, 'r) provider list \<Rightarrow>
    ('q, 'r) routed res" where
  "fallbackSpec has stage allFailed req ps =
     (let passed = takeWhile (passedOver has stage req) ps
      in case dropWhile (passedOver has stage req) ps of
        [] \<Rightarrow> Inl allFailed
      | p # _ \<Rightarrow> map_sum (\<lambda>err. toGroundlaneError err stage)
          (\<lambda>r. \<lparr>ro_attempted = map pv_id (filter has passed @ [p]), ro_results = [(p, r)],
                ro_warnings = map (passWarning has) passed\<rparr>)
          (pv_call p req))"

text \<open>An outcome with what the loop had gathered before.\<close>

definition precededBy :: "string list \<Rightarrow> string list \<Rightarrow> ('q, 'r) routed \<Rightarrow> ('q, 'r) routed" where
  "precededBy att ws ro = ro\<lparr>ro_attempted := att @ ro_attempted ro, ro_warnings := ws @ ro_warnings ro\<rparr>"

lemma precededBy_Nil [simp]: "precededBy [] [] = id"
  by (simp add: precededBy_def fun_eq_iff)

lemma precededBy_comp: "precededBy att ws \<circ> precededBy att' ws' = precededBy (att @ att') (ws @ ws')"
  by (simp add: precededBy_def fun_eq_iff)

lemma fallbackSpec_Cons: "passedOver has stage req p \<Longrightarrow> fallbackSpec has stage allFailed req (p # ps) =
    map_sum id (precededBy (if has p then [pv_id p] else []) [passWarning has p])
      (fallbackSpec has stage allFailed req ps)"
  by (cases "dropWhile (passedOver has stage req) ps")
    (simp_all add: fallbackSpec_def sum.map_comp comp_def precededBy_def Let_def del: dropWhile_eq_Nil_conv)

lemma fallbackSpec_cong:
  assumes "\<And>p. p \<in> set ps \<Longrightarrow> has p = has' p"
  shows "fallbackSpec has stage allFailed req ps = fallbackSpec has' stage allFailed req ps"
  using assms
proof (induction ps)
  case (Cons p ps)
  have h: "has p = has' p" by (rule Cons.prems) simp
  then have o: "passedOver has stage req p = passedOver has' stage req p"
    "passWarning has p = passWarning has' p" by (simp_all add: passedOver_def passWarning_def)
  have ih: "fallbackSpec has stage allFailed req ps = fallbackSpec has' stage allFailed req ps"
    by (rule Cons.IH) (simp add: Cons.prems)
  show ?case
  proof (cases "passedOver has stage req p")
    case True
    with o h ih show ?thesis by (simp add: fallbackSpec_Cons)
  next
    case False
    with o h show ?thesis by (simp add: fallbackSpec_def)
  qed
qed (simp add: fallbackSpec_def)

definition askedBy :: "string \<Rightarrow> 'q \<Rightarrow> ('q, 'r) provider list \<Rightarrow> ('q, 'r) provider list" where
  "askedBy stage req ps =
     takeWhile (failsRetryably stage req) ps @ take 1 (dropWhile (failsRetryably stage req) ps)"

lemma set_askedBy: "set (askedBy stage req ps) \<subseteq> set ps"
  by (auto simp: askedBy_def dest!: set_takeWhileD set_dropWhileD in_set_takeD)

lemma chargedRem_Cons: "i \<notin> set ids \<Longrightarrow> chargedRem (i # ids) rem = chargedRem ids (chargedRem [i] rem)"
  by (auto simp: chargedRem_def fun_eq_iff)

definition routedView :: "('q, 'r) routed res \<Rightarrow> (string list \<times> (('q, 'r) provider \<times> 'r) list) res" where
  "routedView r = map_sum id (\<lambda>ro. (ro_attempted ro, ro_results ro)) r"

lemma routedView_simps [simp]:
  "routedView (Inl e) = Inl e" "routedView (Inr ro) = Inr (ro_attempted ro, ro_results ro)"
  by (simp_all add: routedView_def)

text \<open>The surroundings in which nothing else touches the budget and all charges fall in one moment.\<close>

definition quietAt :: "surroundings \<Rightarrow> int \<Rightarrow> bool" where
  "quietAt su now \<longleftrightarrow> su_others su = (\<lambda>_. id) \<and> su_clock su = (\<lambda>_. now)"

lemma fallbackLoop_exact:
  assumes "quietAt su now" and "distinct (map pv_id ps)"
  shows "\<exists>b'. fallbackLoop su stage allFailed False req i ps att ws (Some b) =
      (map_sum id (precededBy att ws) (fallbackSpec (hasBudget now b) stage allFailed req ps), Some b') \<and>
    budgetRem now b' =
      chargedRem (map pv_id (askedBy stage req (filter (hasBudget now b) ps))) (budgetRem now b)"
  using assms(2)
proof (induction ps arbitrary: i att ws b)
  case Nil
  show ?case by (simp add: fallbackSpec_def askedBy_def chargedRem_def fun_eq_iff)
next
  case (Cons p ps)
  have su [simp]: "su_others su i c = c" "su_clock su i = now" for c
    using assms(1) by (simp_all add: quietAt_def)
  have d: "distinct (map pv_id ps)" "\<And>q. q \<in> set ps \<Longrightarrow> pv_id q \<noteq> pv_id p" using Cons.prems by (auto simp: image_iff)
  show ?case
  proof (cases rule: charge_cases [where now = now and b = b and p = "pv_id p" and src = PROVIDER_BUDGET and t = False])
    case (refused b1)
    have same: "hasBudget now b1 = (hasBudget now b :: ('a, 'b) provider \<Rightarrow> bool)"
      using refused(3) by (simp add: hasBudget_def [abs_def] fun_eq_iff)
    have "\<not> hasBudget now b p" using refused by (simp add: hasBudget_def)
    then show ?thesis using Cons.IH [OF d(1), of "Suc i" att _ b1] refused
      by (simp add: same fallbackSpec_Cons passedOver_def passWarning_def sum.map_comp precededBy_comp)
  next
    case (granted b1)
    have same: "hasBudget now b1 q = hasBudget now b q" if "q \<in> set ps" for q
      using d(2) [OF that] fun_cong [OF granted(3), of "pv_id q"] by (simp add: hasBudget_def chargedRem_def)
    have f: "filter (hasBudget now b1) ps = filter (hasBudget now b) ps"
      using same by (rule filter_cong [OF refl])
    have g: "fallbackSpec (hasBudget now b1) stage allFailed req ps =
        fallbackSpec (hasBudget now b) stage allFailed req ps"
      by (rule fallbackSpec_cong) (rule same)
    have h: "hasBudget now b p" using granted by (simp add: hasBudget_def)
    show ?thesis
    proof (cases "failsRetryably stage req p")
      case False
      with granted h show ?thesis
        by (auto simp: fallbackSpec_def passedOver_def precededBy_def askedBy_def failsRetryably_def Let_def
          split: sum.splits)
    next
      case True
      then obtain err where err: "pv_call p req = Inl err" "exn_retryable (toGroundlaneError err stage)"
        by (auto simp: failsRetryably_def split: sum.splits)
      have n: "pv_id p \<notin> set (map pv_id (askedBy stage req (filter (hasBudget now b) ps)))"
      proof
        assume "pv_id p \<in> set (map pv_id (askedBy stage req (filter (hasBudget now b) ps)))"
        then obtain q where "q \<in> set (askedBy stage req (filter (hasBudget now b) ps))" "pv_id q = pv_id p"
          by auto
        with set_askedBy d(2) show False by fastforce
      qed
      have c: "chargedRem (map pv_id (askedBy stage req (filter (hasBudget now b) (p # ps)))) (budgetRem now b) =
          chargedRem (map pv_id (askedBy stage req (filter (hasBudget now b) ps)))
            (chargedRem [pv_id p] (budgetRem now b))"
        using h True n by (subst chargedRem_Cons [symmetric]) (simp_all add: askedBy_def)
      show ?thesis
        unfolding c using Cons.IH [OF d(1), of "Suc i" "att @ [pv_id p]" _ b1] granted err h True
        by (simp add: f g fallbackSpec_Cons passedOver_def passWarning_def sum.map_comp precededBy_comp)
    qed
  qed
qed

section \<open>Parallel calls\<close>

definition parallelSpec :: "exn \<Rightarrow> 'q \<Rightarrow> ('q, 'r) provider list \<Rightarrow>
    (string list \<times> (('q, 'r) provider \<times> 'r) list) res" where
  "parallelSpec noneUp req ps =
     (let answered = List.map_filter (\<lambda>p. case pv_call p req of Inr r \<Rightarrow> Some (p, r) | Inl _ \<Rightarrow> None) ps
      in if answered = [] then Inl noneUp else Inr (map pv_id ps, answered))"

lemma providerOutcomes_exact:
  assumes "distinct (map pv_id ps)"
  shows "\<exists>os b'. providerOutcomes now req ps (Some b) = (Inr os, Some b') \<and>
    map (pv_id \<circ> oc_provider) (filter oc_attempted os) = map pv_id (filter (hasBudget now b) ps) \<and>
    outcomeResults os = List.map_filter (\<lambda>p. case pv_call p req of Inr r \<Rightarrow> Some (p, r) | Inl _ \<Rightarrow> None)
      (filter (hasBudget now b) ps) \<and>
    budgetRem now b' = chargedRem (map pv_id (filter (hasBudget now b) ps)) (budgetRem now b)"
  using assms
proof (induction ps arbitrary: b)
  case Nil
  show ?case by (simp add: outcomeResults_def List.map_filter_def chargedRem_def fun_eq_iff)
next
  case (Cons p ps)
  then have d: "distinct (map pv_id ps)" "\<And>q. q \<in> set ps \<Longrightarrow> pv_id q \<noteq> pv_id p" by (auto simp: image_iff)
  show ?case
  proof (cases rule: charge_cases [where now = now and b = b and p = "pv_id p" and src = PROVIDER_BUDGET and t = False])
    case (refused b1)
    have "filter (hasBudget now b1) ps = filter (hasBudget now b) ps"
      by (rule hasBudget_filter) (rule fun_cong [OF refused(3)])
    moreover have "\<not> hasBudget now b p" using refused by (simp add: hasBudget_def)
    ultimately show ?thesis using Cons.IH [OF d(1), of b1] refused
      by (auto simp: providerOutcome_def outcomeResults_def List.map_filter_def)
  next
    case (granted b1)
    have f: "filter (hasBudget now b1) ps = filter (hasBudget now b) ps"
      by (rule hasBudget_filter) (simp add: fun_cong [OF granted(3)] chargedRem_def d(2))
    have h: "hasBudget now b p" using granted by (simp add: hasBudget_def)
    from Cons.IH [OF d(1), of b1] obtain os b' where ih: "providerOutcomes now req ps (Some b1) = (Inr os, Some b')"
      "map (pv_id \<circ> oc_provider) (filter oc_attempted os) = map pv_id (filter (hasBudget now b) ps)"
      "outcomeResults os = List.map_filter (\<lambda>p. case pv_call p req of Inr r \<Rightarrow> Some (p, r) | Inl _ \<Rightarrow> None)
        (filter (hasBudget now b) ps)"
      "budgetRem now b' = chargedRem (map pv_id (filter (hasBudget now b) ps)) (budgetRem now b1)"
      unfolding f by blast
    have c: "chargedRem (map pv_id (filter (hasBudget now b) ps)) (budgetRem now b1) =
        chargedRem (map pv_id (filter (hasBudget now b) (p # ps))) (budgetRem now b)"
      using h by (subst granted(3), subst chargedRem_Cons [symmetric]) (auto dest: d(2))
    show ?thesis using ih granted h unfolding c
      by (cases "pv_call p req") (auto simp: providerOutcome_def outcomeResults_def List.map_filter_def comp_def)
  qed
qed

section \<open>Merged lists\<close>

lemma dedupeFrom_props:
  "distinct (map (toLowerCase \<circ> key) (dedupeFrom key seen xs)) \<and>
   toLowerCase ` key ` set (dedupeFrom key seen xs) = toLowerCase ` key ` set xs - seen \<and>
   subseq (dedupeFrom key seen xs) xs"
proof (induction xs arbitrary: seen)
  case (Cons x xs)
  show ?case using Cons.IH [of seen] Cons.IH [of "insert (toLowerCase (key x)) seen"]
    by (auto simp: Let_def image_comp)
qed simp

lemma dedupeBy_props:
  "distinct (map (toLowerCase \<circ> key) (dedupeBy key xs))"
  "toLowerCase ` key ` set (dedupeBy key xs) = toLowerCase ` key ` set xs"
  "subseq (dedupeBy key xs) xs"
  using dedupeFrom_props [of key "{}" xs] by (simp_all add: dedupeBy_def)

end
