(* ===== verification/RoutingProperties.thy ===== *)
theory RoutingProperties
  imports RoutingFacts
begin

text \<open>
  The properties of the destination policy and of the capability routers, with a small configuration
  of two providers on which they are applied.
\<close>

section \<open>A small configuration\<close>

definition demoIp :: ip_parser where
  "demoIp s = map_of [(''10.0.0.7'', V4 (ipv4 10 0 0 7)), (''93.184.216.34'', V4 (ipv4 93 184 216 34))] s"

definition demoUrl :: "string \<Rightarrow> ported_url" where
  "demoUrl host = \<lparr>url_protocol = ''https:'', url_username = [], url_password = [], url_hostname = host,
     url_href = ''https://'' @ host, url_port = []\<rparr>"

definition demoPlatform :: platform where
  "demoPlatform = \<lparr>pf_parse = map_of [(''https://a.example'', demoUrl ''a.example''),
       (''https://b.example'', demoUrl ''b.example'')],
     pf_isIP = demoIp,
     pf_lookup = (\<lambda>h. Inr [\<lparr>ra_address = (if h = ''a.example'' then ''93.184.216.34'' else ''10.0.0.7''),
       ra_family = 4\<rparr>])\<rparr>"

definition quietSu :: surroundings where
  "quietSu = \<lparr>su_startedAt = 0, su_endedAt = 5, su_clock = (\<lambda>_. 1), su_others = (\<lambda>_. id), su_aborted = None\<rparr>"

lemma quietSu_quiet: "quietAt quietSu 1"
  by (simp add: quietAt_def quietSu_def)

definition newsOf :: "string \<Rightarrow> string list \<Rightarrow> NewsProviderResult" where
  "newsOf p urls = \<lparr>np_provider = p, np_query = ''q'', np_results = map (\<lambda>u. \<lparr>ni_title = ''t'', ni_url = u,
     ni_snippet = '''', ni_source = None, ni_publishedAt = None, ni_thumbnailUrl = None,
     ni_provider = p\<rparr>) urls, np_durationMs = jint 1, np_warnings = []\<rparr>"

definition downNews :: "(NewsRequest, NewsProviderResult) provider" where
  "downNews = \<lparr>pv_id = ''brave'', pv_supports = (\<lambda>_. True), pv_call = (\<lambda>_. Inl ThrownOther)\<rparr>"

definition upNews :: "(NewsRequest, NewsProviderResult) provider" where
  "upNews = \<lparr>pv_id = ''serper'', pv_supports = (\<lambda>_. True),
     pv_call = (\<lambda>_. Inr (newsOf ''serper'' [''u1'', ''U1'', ''u2'']))\<rparr>"

definition newsRequest :: NewsRequest where
  "newsRequest = \<lparr>rq_provider = None, rq_providers = None, rq_strategy = Some FallbackStrategy,
     nq_query = ''q'', nq_maxResults = jint 2, nq_timeRange = None, nq_country = None, nq_language = None\<rparr>"

definition newsBudget :: CompositeSearchBudget where
  "newsBudget = [MinuteTracker \<lparr>ml_limits = [(''serper'', 1)], ml_timestamps = []\<rparr>]"

lemma demo_mapped: "mappedV6 (ipv4 93 184 216 34) = 281472254138402"
  by (simp add: mappedV6_def ipv4_def push_bit_eq_mult)

lemma demo_notBlocked: "\<not> blockedCheck (V4 (ipv4 93 184 216 34))"
  unfolding blockedCheck.simps demo_mapped
  by (simp add: blockedV4_def blockedV6_def inSubnet_uint ipv4_def ipv6_def)

lemma demo_public: "isPublicAddress demoIp ''93.184.216.34''"
  by (simp add: isPublicAddress_def demoIp_def demo_notBlocked del: blockedCheck.simps)

lemma demo_host: "bareHostname ''a.example'' = ''a.example''" "bareHostname ''b.example'' = ''b.example''"
  "\<not> suffix ''.localhost'' ''a.example''" "\<not> suffix ''.localhost'' ''b.example''"
  by code_simp+

lemma demo_resolve: "resolvePublicUrl (defaultContext demoPlatform) ''https://a.example'' =
    (Inr \<lparr>sd_url = demoUrl ''a.example'', sd_hostname = ''a.example'', sd_port = jint 443,
       sd_addresses = [\<lparr>ra_address = ''93.184.216.34'', ra_family = 4\<rparr>]\<rparr>, None)"
proof -
  have "demoIp ''a.example'' = None" by (simp add: demoIp_def)
  then show ?thesis
    by (simp add: resolvePublicUrl_def defaultContext_def demoPlatform_def demoUrl_def parsePublicUrl_def
        throwIfAborted_def portOf_def defaultPorts_def demo_host lookupAddresses_def demo_public
        Let_def)
qed

section \<open>Destinations\<close>

text \<open>C17. A resolved destination is public: its URL is HTTP or HTTPS, without credentials and on an
  allowed port, its hostname is not local, and there is at least one address and every address is an
  IP address outside the private, loopback, link-local, multicast and reserved ranges, also in its
  IPv4-mapped form, whether the addresses come from the URL, the resolver or the cache.\<close>

theorem destination_public:
  assumes "resolvePublicUrl cx v = (Inr d, cache)"
  shows "url_protocol (sd_url d) \<in> {''http:'', ''https:''} \<and> url_username (sd_url d) = [] \<and>
    url_password (sd_url d) = [] \<and> toInt (sd_port d) \<in> rc_allowedPorts cx \<and>
    sd_hostname d \<noteq> ''localhost'' \<and> \<not> suffix ''.localhost'' (sd_hostname d) \<and>
    sd_addresses d \<noteq> [] \<and>
    (\<forall>a \<in> set (sd_addresses d). \<exists>x. rc_isIP cx (ra_address a) = Some x \<and> \<not> privateIp x)"
  using resolve_cases [OF assms] by (auto dest: parsePublicUrl_ok publicAddress)

theorem destination_public_witness:
  "\<exists>d c. resolvePublicUrl (defaultContext demoPlatform) ''https://a.example'' = (Inr d, c) \<and>
     toInt (sd_port d) \<in> {80, 443} \<and> (\<exists>x. demoIp ''93.184.216.34'' = Some x \<and> \<not> privateIp x)"
  using destination_public [OF demo_resolve] demo_resolve
  by (simp add: defaultContext_def demoPlatform_def defaultPorts_def)

text \<open>C18. A URL that resolves to any address that is not public is never sent to a content, map or crawl
  provider: whatever the providers, the strategy and the other fields of the request are, the call
  throws and the shared budget is untouched.\<close>

theorem private_url_not_routed:
  assumes "pf_parse pf v = Some u"
    and "lookupAddresses (defaultContext pf) (bareHostname (url_hostname u)) = Inr addresses"
    and "a \<in> set addresses" and "case pf_isIP pf (ra_address a) of None \<Rightarrow> True | Some x \<Rightarrow> privateIp x"
  shows "(cq_url req1 = v \<longrightarrow> (\<exists>e. fetchContent pf rt1 su req1 b = (Inl e, b))) \<and>
    (lq_url req2 = v \<longrightarrow> (\<exists>e. mapSite pf rt2 su req2 b = (Inl e, b))) \<and>
    (kq_url req3 = v \<longrightarrow> (\<exists>e. crawlSite pf rt3 su req3 b = (Inl e, b)))"
proof -
  have "\<not> isPublicAddress (pf_isIP pf) (ra_address a)"
    using assms(4) by (auto dest: publicAddress split: option.splits)
  then have "\<not> is_ok (fst (resolvePublicUrl (defaultContext pf) v))"
    using assms(1-3)
    by (auto simp: resolvePublicUrl_def defaultContext_def throwIfAborted_def list_ex_iff Let_def
        dest!: parsePublicUrl_ok split: sum.splits)
  then obtain e where e: "requirePublicUrl pf v = Inl e"
    by (cases "fst (resolvePublicUrl (defaultContext pf) v)") (auto simp: requirePublicUrl_def)
  then have "cq_url req1 = v \<Longrightarrow> \<exists>e. validateContentRequest pf req1 = Inl e"
    "lq_url req2 = v \<Longrightarrow> \<exists>e. validateMapRequest pf req2 = Inl e"
    "kq_url req3 = v \<Longrightarrow> \<exists>e. validateCrawlRequest pf req3 = Inl e"
    by (auto simp: validateContentRequest_def validateMapRequest_def validateCrawlRequest_def throwIf_def
        simp del: exn.inject)
  then show ?thesis by (auto simp: fetchContent_def mapSite_def crawlSite_def)
qed

definition demoCrawl :: CrawlRequest where
  "demoCrawl = \<lparr>rq_provider = None, rq_providers = None, rq_strategy = None, kq_url = ''https://b.example'',
     kq_maxPages = jint 3, kq_maxContentChars = jint 100, kq_instructions = None,
     kq_includeSubdomains = None, kq_ignoreCache = None, kq_maxDepth = None, kq_maxBreadth = None,
     kq_maxPolls = None, kq_pollIntervalMs = None\<rparr>"

theorem private_url_not_routed_witness:
  "\<exists>e. crawlSite demoPlatform (createRouter [] CRAWL_PROVIDER_IDS) quietSu demoCrawl (Some newsBudget) =
     (Inl e, Some newsBudget)"
proof -
  have p: "pf_parse demoPlatform ''https://b.example'' = Some (demoUrl ''b.example'')"
    by (simp add: demoPlatform_def)
  have l: "lookupAddresses (defaultContext demoPlatform) (bareHostname (url_hostname (demoUrl ''b.example''))) =
      Inr [\<lparr>ra_address = ''10.0.0.7'', ra_family = 4\<rparr>]"
    by (simp add: lookupAddresses_def defaultContext_def demoPlatform_def demoUrl_def demo_host demoIp_def
        throwIfAborted_def)
  have "privateIp (V4 (ipv4 10 0 0 7))" by (simp add: privateRangesV4_def ipv4_def)
  then show ?thesis
    using private_url_not_routed [OF p l, of "\<lparr>ra_address = ''10.0.0.7'', ra_family = 4\<rparr>"]
    by (simp add: demoPlatform_def demoIp_def demoCrawl_def del: privateIp.simps)
qed

section \<open>Strategies\<close>

text \<open>C19. The fallback loop computes its specification, when nothing else touches the budget and all
  charges fall in one moment (\<open>quietAt\<close>), a budget is configured, the providers have distinct
  identifiers and are not exactly one. The providers without budget and those that fail with a
  retryable error are passed over; the answer or the error is that of the first provider after them,
  and the error of an exhausted list when there is none. A success lists as attempted exactly the
  providers that were asked, in order, holds the one answer, and warns of each provider passed over,
  in order, with the reason (no budget, or unavailable). Each provider that was asked, and no other,
  is charged exactly one attempt, whatever the outcome.\<close>

theorem fallback_router_exact:
  assumes "quietAt su now" and "distinct (map pv_id ps)" and "length ps \<noteq> 1"
    and "routeWithFallback su stage allFailed req ps (Some b) = (r, b')"
  shows "r = fallbackSpec (hasBudget now b) stage allFailed req ps \<and>
    (\<exists>c. b' = Some c \<and> budgetRem now c =
       chargedRem (map pv_id (askedBy stage req (filter (hasBudget now b) ps))) (budgetRem now b))"
  using fallbackLoop_exact [OF assms(1,2), of stage allFailed req 0 "[]" "[]" b] assms(3,4)
  by (auto simp: routeWithFallback_def sum.map_id)

theorem fallback_router_exact_witness:
  "fst (routeWithFallback quietSu ''web_news'' newsUnavailable newsRequest [downNews, upNews]
     (Some newsBudget)) =
   Inr \<lparr>ro_attempted = [''brave'', ''serper''],
        ro_results = [(upNews, newsOf ''serper'' [''u1'', ''U1'', ''u2''])],
        ro_warnings = [''brave unavailable'']\<rparr>"
proof -
  obtain r b' where r: "routeWithFallback quietSu ''web_news'' newsUnavailable newsRequest [downNews, upNews]
      (Some newsBudget) = (r, b')" by fastforce
  have h: "hasBudget 1 newsBudget downNews" "hasBudget 1 newsBudget upNews" by code_simp+
  from fallback_router_exact [OF quietSu_quiet _ _ r] h r show ?thesis
    by (simp add: fallbackSpec_def passedOver_def passWarning_def failsRetryably_def downNews_def upNews_def)
qed

text \<open>C30. The parallel strategy computes its specification: exactly the providers with budget are asked and
  charged, one attempt each; a failing provider never hides the answer of another; the call throws
  only when it was cancelled or nobody answered.\<close>

theorem parallel_router_exact:
  assumes "quietAt su now" and "distinct (map pv_id ps)"
    and "routeInParallel su cancelled noneUp req ps (Some b) = (r, b')"
  shows "routedView r = andThen (throwCancelled (su_aborted su) cancelled)
      (parallelSpec noneUp req (filter (hasBudget now b) ps)) \<and>
    (\<exists>c. b' = Some c \<and> budgetRem now c =
       chargedRem (map pv_id (filter (hasBudget now b) ps)) (budgetRem now b))"
proof -
  have clock: "su_clock su 0 = now" using assms(1) by (simp add: quietAt_def)
  from providerOutcomes_exact [OF assms(2), of now req b] obtain os c where o:
    "providerOutcomes now req ps (Some b) = (Inr os, Some c)"
    "map (pv_id \<circ> oc_provider) (filter oc_attempted os) = map pv_id (filter (hasBudget now b) ps)"
    "outcomeResults os = List.map_filter (\<lambda>p. case pv_call p req of Inr r \<Rightarrow> Some (p, r) | Inl _ \<Rightarrow> None)
      (filter (hasBudget now b) ps)"
    "budgetRem now c = chargedRem (map pv_id (filter (hasBudget now b) ps)) (budgetRem now b)"
    by blast
  with assms(3) clock show ?thesis
    by (cases "throwCancelled (su_aborted su) cancelled")
      (auto simp: routeInParallel_def parallelSpec_def Let_def)
qed

theorem parallel_router_exact_witness:
  "routedView (fst (routeInParallel quietSu (glError CANCELLED ''web_news'' ''The request was cancelled'')
     newsUnavailable newsRequest [downNews, upNews] (Some newsBudget))) =
   Inr ([''brave'', ''serper''], [(upNews, newsOf ''serper'' [''u1'', ''U1'', ''u2''])])"
proof -
  obtain r b' where r: "routeInParallel quietSu (glError CANCELLED ''web_news'' ''The request was cancelled'')
      newsUnavailable newsRequest [downNews, upNews] (Some newsBudget) = (r, b')" by fastforce
  have h: "hasBudget 1 newsBudget downNews" "hasBudget 1 newsBudget upNews" by code_simp+
  from parallel_router_exact [OF quietSu_quiet _ r] h r show ?thesis
    by (simp add: parallelSpec_def downNews_def upNews_def quietSu_def throwCancelled_def List.map_filter_def)
qed

section \<open>Merged results\<close>

text \<open>A merged list: at most \<open>n\<close> items, no two with the same key up to case, in the order of the
  providers' lists, and complete unless the limit cuts it.\<close>

definition mergedOk :: "int \<Rightarrow> ('a \<Rightarrow> string) \<Rightarrow> 'a list \<Rightarrow> 'a list \<Rightarrow> bool" where
  "mergedOk n key out xs \<longleftrightarrow>
     int (length out) \<le> n \<and> distinct (map (toLowerCase \<circ> key) out) \<and> subseq out xs \<and>
     (int (length out) < n \<longrightarrow> toLowerCase ` key ` set out = toLowerCase ` key ` set xs)"

lemma mergedOk_take: "0 \<le> n \<Longrightarrow> mergedOk n key (take (nat n) (dedupeBy key xs)) xs"
proof -
  assume n: "0 \<le> n"
  have "distinct (map (toLowerCase \<circ> key) (take (nat n) (dedupeBy key xs)))"
    using dedupeBy_props(1) [of key xs] by (simp flip: take_map)
  moreover have "subseq (take (nat n) (dedupeBy key xs)) xs"
    by (rule subseq_order.order_trans [OF prefix_imp_subseq [OF take_is_prefix] dedupeBy_props(3)])
  ultimately show ?thesis
    using n dedupeBy_props(2) [of key xs] by (auto simp: mergedOk_def min_def split: if_splits)
qed

lemma map_prod_bindE: "map_prod (\<lambda>r. bindE r f) id x = (Inr y, c) \<longleftrightarrow> (\<exists>z. x = (Inr z, c) \<and> f z = Inr y)"
  by (cases x; cases "fst x") auto

lemma news_result:
  assumes "news rt su q b = (Inr r, c)"
  shows "0 \<le> toInt (nq_maxResults q) \<and> nw_results r = take (nat (toInt (nq_maxResults q)))
    (dedupeBy ni_url (concat (map np_results (nw_providerResults r))))"
proof -
  have "validateNewsRequest q = Inr ()" using assms by (auto simp: news_def split: sum.splits)
  then have "0 \<le> toInt (nq_maxResults q)"
    using notIntegerIn_lower by (fastforce simp: validateNewsRequest_def res_simps)
  with assms show ?thesis
    by (auto simp: news_def newsWithFallback_def newsInParallel_def newsResult_def dedupeNews_def Let_def
        map_prod_bindE split: sum.splits if_splits RouterStrategy.splits)
qed

lemma images_result:
  assumes "images rt su q b = (Inr r, c)"
  shows "0 \<le> toInt (mq_maxResults q) \<and> mw_results r = take (nat (toInt (mq_maxResults q)))
    (dedupeBy mi_imageUrl (concat (map mp_results (mw_providerResults r))))"
proof -
  have "validateImagesRequest q = Inr ()" using assms by (auto simp: images_def split: sum.splits)
  then have "0 \<le> toInt (mq_maxResults q)"
    using notIntegerIn_lower by (fastforce simp: validateImagesRequest_def res_simps)
  with assms show ?thesis
    by (auto simp: images_def imagesWithFallback_def imagesInParallel_def imagesResult_def
        dedupeImages_def Let_def map_prod_bindE split: sum.splits if_splits RouterStrategy.splits)
qed

lemma map_result:
  assumes "mapSite pf rt su q b = (Inr r, c)"
  shows "0 \<le> toInt (lq_maxLinks q) \<and> lw_links r = take (nat (toInt (lq_maxLinks q)))
    (dedupeBy li_url (concat (map lp_links (lw_providerResults r))))"
proof -
  have "validateMapRequest pf q = Inr ()" using assms by (auto simp: mapSite_def split: sum.splits)
  then have "0 \<le> toInt (lq_maxLinks q)"
    using notIntegerIn_lower by (fastforce simp: validateMapRequest_def res_simps)
  with assms show ?thesis
    by (auto simp: mapSite_def mapWithFallback_def mapInParallel_def mapResult_def dedupeLinks_def
        Let_def map_prod_bindE split: sum.splits if_splits RouterStrategy.splits)
qed

lemma crawl_result_pages:
  assumes "crawlSite pf rt su q b = (Inr r, c)"
  shows "0 \<le> toInt (kq_maxPages q) \<and> kw_pages r = take (nat (toInt (kq_maxPages q)))
    (dedupeBy ki_url (concat (map kp_pages (kw_providerResults r))))"
proof -
  have "validateCrawlRequest pf q = Inr ()" using assms by (auto simp: crawlSite_def split: sum.splits)
  then have "0 \<le> toInt (kq_maxPages q)"
    using notIntegerIn_lower by (fastforce simp: validateCrawlRequest_def res_simps)
  with assms show ?thesis
    by (auto simp: crawlSite_def crawlWithFallback_def crawlInParallel_def crawlRouterResult_def
        dedupePages_def Let_def map_prod_bindE split: sum.splits if_splits RouterStrategy.splits)
qed

text \<open>The four routers that merge the lists of their providers return at most the number of items the
  request allows, no two items with the same URL up to case, in the order of the providers, and
  leave an item out only as a duplicate or because of the limit.\<close>

theorem merged_results_ok:
  "(news rt1 su q1 b = (Inr r1, c) \<longrightarrow>
      mergedOk (toInt (nq_maxResults q1)) ni_url (nw_results r1)
        (concat (map np_results (nw_providerResults r1)))) \<and>
   (images rt2 su q2 b = (Inr r2, c) \<longrightarrow>
      mergedOk (toInt (mq_maxResults q2)) mi_imageUrl (mw_results r2)
        (concat (map mp_results (mw_providerResults r2)))) \<and>
   (mapSite pf rt3 su q3 b = (Inr r3, c) \<longrightarrow>
      mergedOk (toInt (lq_maxLinks q3)) li_url (lw_links r3)
        (concat (map lp_links (lw_providerResults r3)))) \<and>
   (crawlSite pf rt4 su q4 b = (Inr r4, c) \<longrightarrow>
      mergedOk (toInt (kq_maxPages q4)) ki_url (kw_pages r4)
        (concat (map kp_pages (kw_providerResults r4))))"
  using news_result [of rt1 su q1 b r1 c] images_result [of rt2 su q2 b r2 c]
    map_result [of pf rt3 su q3 b r3 c] crawl_result_pages [of pf rt4 su q4 b r4 c]
  by (auto intro: mergedOk_take)

theorem merged_results_ok_witness:
  "\<exists>r c. news (createRouter [downNews, upNews] NEWS_PROVIDER_IDS) quietSu newsRequest None = (Inr r, c) \<and>
     length (nw_results r) \<le> 2 \<and> distinct (map (toLowerCase \<circ> ni_url) (nw_results r))"
proof -
  have "is_ok (fst (news (createRouter [downNews, upNews] NEWS_PROVIDER_IDS) quietSu newsRequest None))"
    by code_simp
  then obtain r c where r: "news (createRouter [downNews, upNews] NEWS_PROVIDER_IDS) quietSu newsRequest None =
      (Inr r, c)" by (metis is_ok_iff prod.collapse)
  with merged_results_ok [of _ quietSu newsRequest None r c] show ?thesis
    by (auto simp: mergedOk_def newsRequest_def)
qed

end
