(* ===== verification/DomainFilters.thy ===== *)
theory DomainFilters
  imports QueryRouters
begin

text \<open>
  \<^verbatim>\<open>src/core/domain-filter-validation.ts\<close>: which domain filters a search provider can serve, and the
  checks of a request before it is dispatched; with the search request of \<^verbatim>\<open>contracts.ts\<close> and the
  provider tables of \<^verbatim>\<open>search-provider-profile.ts\<close> and \<^verbatim>\<open>search-provider-catalog.ts\<close>. A table is
  a plain object in the code; provider identifiers are taken not to be names that every object
  inherits (\<^verbatim>\<open>constructor\<close>, \<^verbatim>\<open>toString\<close>).
\<close>

section \<open>Search requests\<close>

datatype SearchStrategy = FallbackSearch | Balanced | Deep

record SearchRequest =
  sr_query :: string
  sr_maxResults :: jsnum
  sr_domains :: "string list option"
  sr_excludeDomains :: "string list option"
  sr_timeRange :: "SearchTimeRange option"
  sr_provider :: "string option"
  sr_providers :: "string list option"
  sr_strategy :: "SearchStrategy option"

fun timeRangeName :: "SearchTimeRange \<Rightarrow> string" where
  "timeRangeName DayRange = ''day''"
| "timeRangeName WeekRange = ''week''"
| "timeRangeName MonthRange = ''month''"
| "timeRangeName YearRange = ''year''"

section \<open>The catalog of filter modes\<close>

datatype DomainFilterMode = NoFilter | IncludeOnly | ExcludeOnly | IncludeOrExclude | Combined

fun filterModeName :: "DomainFilterMode \<Rightarrow> string" where
  "filterModeName NoFilter = ''none''"
| "filterModeName IncludeOnly = ''include-only''"
| "filterModeName ExcludeOnly = ''exclude-only''"
| "filterModeName IncludeOrExclude = ''include-or-exclude''"
| "filterModeName Combined = ''combined''"

record DomainFilterSpec =
  df_mode :: DomainFilterMode
  df_maxIncludeDomains :: "nat option"
  df_maxExcludeDomains :: "nat option"
  df_timeRange :: bool

abbreviation filterSpec :: "DomainFilterMode \<Rightarrow> bool \<Rightarrow> DomainFilterSpec" where
  "filterSpec mode tr \<equiv> \<lparr>df_mode = mode, df_maxIncludeDomains = None, df_maxExcludeDomains = None,
     df_timeRange = tr\<rparr>"

definition DOMAIN_FILTER_SPECS :: "DomainFilterSpec jsmap" where
  "DOMAIN_FILTER_SPECS =
     [(''linkup'', filterSpec Combined True),
      (''keenable'', (filterSpec IncludeOnly True)\<lparr>df_maxIncludeDomains := Some 1\<rparr>),
      (''tinyfish'', filterSpec Combined True),
      (''you'', filterSpec IncludeOrExclude True),
      (''parallel'', filterSpec Combined False),
      (''browserbase'', filterSpec NoFilter False),
      (''brave'', filterSpec Combined True),
      (''serpapi'', filterSpec Combined True),
      (''searchapi'', filterSpec Combined False),
      (''tavily'', filterSpec Combined True),
      (''exa'', filterSpec IncludeOnly False),
      (''firecrawl'', filterSpec IncludeOrExclude False),
      (''serper'', filterSpec NoFilter False)]"

definition domainFilterSpec :: "string \<Rightarrow> DomainFilterSpec" where
  "domainFilterSpec provider = (case map_of DOMAIN_FILTER_SPECS provider of
     Some spec \<Rightarrow> spec | None \<Rightarrow> filterSpec NoFilter False)"

definition domainCount :: "string list option \<Rightarrow> nat" where
  "domainCount ds = (case ds of None \<Rightarrow> 0 | Some xs \<Rightarrow> length xs)"

definition requestFilterMode :: "SearchRequest \<Rightarrow> DomainFilterMode" where
  "requestFilterMode req =
     (let hasInclude = domainCount (sr_domains req) > 0;
          hasExclude = domainCount (sr_excludeDomains req) > 0
      in if hasInclude \<and> hasExclude then Combined
         else if hasInclude then IncludeOnly
         else if hasExclude then ExcludeOnly
         else NoFilter)"

definition modeSupports :: "DomainFilterMode \<Rightarrow> DomainFilterMode \<Rightarrow> bool" where
  "modeSupports providerMode requestMode =
     (if requestMode = NoFilter then True
      else if providerMode = Combined then True
      else if providerMode = IncludeOrExclude
      then requestMode = IncludeOnly \<or> requestMode = ExcludeOnly
      else providerMode = requestMode)"

section \<open>Validation\<close>

abbreviation filterError :: "string \<Rightarrow> string \<Rightarrow> string \<Rightarrow> exn" where
  "filterError m c t \<equiv> GroundlaneError INVALID_INPUT ''domain-filter'' m False (Some (Hint c t))"

text \<open>The deployment cap is \<open>options?.deploymentMaxDomains\<close>.\<close>

definition checkDeploymentCap :: "SearchRequest \<Rightarrow> int option \<Rightarrow> unit res" where
  "checkDeploymentCap req deploymentMax = (case deploymentMax of
     None \<Rightarrow> Inr ()
   | Some limit \<Rightarrow>
       let totalDomains = int (domainCount (sr_domains req) + domainCount (sr_excludeDomains req)) in
       throwIf (totalDomains > limit)
         (filterError (''Total domain count '' @ showInt totalDomains @ '' exceeds deployment limit of '' @
             showInt limit)
           ''domain_filter.deployment_cap''
           (''The deployment limits the total number of domain filters to '' @ showInt limit @
            ''. Reduce the number of included and excluded domains.'')))"

definition checkFilterMode :: "SearchRequest \<Rightarrow> string \<Rightarrow> unit res" where
  "checkFilterMode req provider =
     (let spec = domainFilterSpec provider; reqMode = requestFilterMode req;
          advice = (if df_mode spec = NoFilter
                    then ''Remove domain filters or choose a provider that supports them.''
                    else if df_mode spec = IncludeOrExclude
                    then ''Use either include or exclude domains, not both simultaneously.''
                    else ''Use '' @ filterModeName (df_mode spec) @ '' domains only.'')
      in throwIf (\<not> modeSupports (df_mode spec) reqMode)
           (filterError (''Provider '' @ provider @ '' does not support '' @ filterModeName reqMode @
               '' domain filtering'')
             ''domain_filter.unsupported_mode''
             (provider @ '' supports '' @ quoted (filterModeName (df_mode spec)) @
              '' domain filtering but the request requires '' @ quoted (filterModeName reqMode) @
              ''. '' @ advice)))"

text \<open>The two \<open>maxDomains\<close> checks share their shape; \<open>kind\<close> is \<open>include\<close> or \<open>exclude\<close>.\<close>

definition checkMaxDomains :: "string \<Rightarrow> string \<Rightarrow> nat option \<Rightarrow> nat \<Rightarrow> unit res" where
  "checkMaxDomains provider kind limit count = (case limit of
     None \<Rightarrow> Inr ()
   | Some n \<Rightarrow> throwIf (count > n)
       (filterError (''Provider '' @ provider @ '' supports at most '' @ showNat n @ '' '' @ kind @
           '' domain(s), got '' @ showNat count)
         (''domain_filter.max_'' @ kind @ ''_domains'')
         (provider @ '' limits '' @ kind @ '' domains to '' @ showNat n @
          ''. Reduce the list or choose a provider that accepts more.'')))"

definition checkTimeRange :: "SearchRequest \<Rightarrow> string \<Rightarrow> unit res" where
  "checkTimeRange req provider =
     throwIf (sr_timeRange req \<noteq> None \<and> \<not> df_timeRange (domainFilterSpec provider))
       (filterError (''Provider '' @ provider @ '' does not support time range filtering'')
         ''domain_filter.no_time_range''
         (provider @ '' does not support the timeRange parameter. Remove it or choose a provider '' @
          ''with date-range support.''))"

definition validateDomainFilters :: "SearchRequest \<Rightarrow> string \<Rightarrow> int option \<Rightarrow> unit res" where
  "validateDomainFilters req provider deploymentMax =
     (let spec = domainFilterSpec provider in
      andThen (checkDeploymentCap req deploymentMax)
        (andThen (checkFilterMode req provider)
          (andThen (checkMaxDomains provider ''include'' (df_maxIncludeDomains spec)
                      (domainCount (sr_domains req)))
            (andThen (checkMaxDomains provider ''exclude'' (df_maxExcludeDomains spec)
                        (domainCount (sr_excludeDomains req)))
              (checkTimeRange req provider)))))"

definition providerMatchesFilters :: "SearchRequest \<Rightarrow> string \<Rightarrow> bool" where
  "providerMatchesFilters req provider =
     (let spec = domainFilterSpec provider; reqMode = requestFilterMode req in
      if \<not> modeSupports (df_mode spec) reqMode then False
      else if setAnd (\<lambda>n. domainCount (sr_domains req) > n) (df_maxIncludeDomains spec) then False
      else if setAnd (\<lambda>n. domainCount (sr_excludeDomains req) > n) (df_maxExcludeDomains spec) then False
      else if sr_timeRange req \<noteq> None \<and> \<not> df_timeRange spec then False
      else True)"

definition validateDomainFiltersForRequest ::
  "SearchRequest \<Rightarrow> string option \<Rightarrow> string list \<Rightarrow> int option \<Rightarrow> unit res" where
  "validateDomainFiltersForRequest req explicit candidates deploymentMax =
     (let reqMode = requestFilterMode req in
      if reqMode = NoFilter \<and> sr_timeRange req = None then Inr ()
      else andThen (checkDeploymentCap req deploymentMax)
        (case explicit of
           Some p \<Rightarrow> validateDomainFilters req p None
         | None \<Rightarrow>
             if list_ex (providerMatchesFilters req) candidates then Inr ()
             else
               let reasons = (if reqMode \<noteq> NoFilter
                              then [filterModeName reqMode @ '' domain filtering''] else []) @
                     (case sr_timeRange req of None \<Rightarrow> []
                      | Some r \<Rightarrow> [''time range '' @ quoted (timeRangeName r)])
               in Inl (filterError
                 (''No candidate provider supports the requested filter combination: '' @
                  joinWith '' with '' reasons)
                 ''domain_filter.no_candidate''
                 (''None of the configured candidate providers support this combination of domain '' @
                  ''filters and time range. Adjust the filters or add a provider that supports them.''))))"

section \<open>Families, weights and the choice of a batch\<close>

datatype SearchProviderFamily =
    GeneralWeb | IndependentIndex | Semantic | Serp | ResearchFamily | ExtractionBacked

definition PROVIDER_FAMILIES :: "SearchProviderFamily jsmap" where
  "PROVIDER_FAMILIES =
     [(''tavily'', ResearchFamily), (''exa'', Semantic), (''linkup'', ResearchFamily),
      (''tinyfish'', GeneralWeb), (''parallel'', ResearchFamily), (''browserbase'', Serp),
      (''brave'', IndependentIndex), (''firecrawl'', ExtractionBacked), (''serpapi'', Serp),
      (''searchapi'', Serp), (''keenable'', IndependentIndex), (''serper'', Serp),
      (''you'', GeneralWeb), (''searxng'', GeneralWeb), (''crawl4ai'', ExtractionBacked)]"

definition searchProviderFamily :: "string \<Rightarrow> SearchProviderFamily" where
  "searchProviderFamily p = (case map_of PROVIDER_FAMILIES p of Some f \<Rightarrow> f | None \<Rightarrow> GeneralWeb)"

definition PROVIDER_WEIGHTS :: "rat jsmap" where
  "PROVIDER_WEIGHTS =
     [(''tavily'', 1), (''exa'', 1), (''linkup'', 9 / 10), (''tinyfish'', 9 / 10), (''brave'', 9 / 10),
      (''parallel'', 8 / 10), (''browserbase'', 8 / 10), (''firecrawl'', 8 / 10),
      (''serpapi'', 7 / 10), (''searchapi'', 7 / 10), (''serper'', 7 / 10), (''you'', 7 / 10),
      (''searxng'', 8 / 10), (''crawl4ai'', 7 / 10)]"

definition searchProviderWeight :: "string \<Rightarrow> rat" where
  "searchProviderWeight p = (case map_of PROVIDER_WEIGHTS p of Some w \<Rightarrow> w | None \<Rightarrow> 5 / 10)"

definition SEARCH_PROVIDER_IDS :: "string list" where
  "SEARCH_PROVIDER_IDS =
     [''tavily'', ''exa'', ''parallel'', ''browserbase'', ''brave'', ''firecrawl'', ''serpapi'',
      ''searchapi'', ''linkup'', ''keenable'', ''serper'', ''you'', ''tinyfish'', ''searxng'', ''crawl4ai'']"

definition DEFAULT_SEARCH_PROVIDER_ORDER :: "string list" where
  "DEFAULT_SEARCH_PROVIDER_ORDER =
     [''tavily'', ''exa'', ''brave'', ''you'', ''tinyfish'', ''keenable'', ''browserbase'', ''firecrawl'',
      ''linkup'', ''parallel'', ''serpapi'']"

fun strategyLimit :: "SearchStrategy \<Rightarrow> nat" where
  "strategyLimit Balanced = 2"
| "strategyLimit Deep = 3"
| "strategyLimit FallbackSearch = 0"

text \<open>The first loop: one provider of every family, until the limit; the flag says that it was reached
  (the \<open>return\<close> inside the loop).\<close>

fun selectFamilies :: "nat \<Rightarrow> string list \<Rightarrow> string list \<Rightarrow> SearchProviderFamily list \<Rightarrow>
    string list \<times> bool" where
  "selectFamilies limit [] selected families = (selected, False)"
| "selectFamilies limit (p # ps) selected families =
     (let family = searchProviderFamily p in
      if family \<in> set families then selectFamilies limit ps selected families
      else let selected' = selected @ [p] in
        if length selected' = limit then (selected', True)
        else selectFamilies limit ps selected' (family # families))"

fun selectRest :: "nat \<Rightarrow> string list \<Rightarrow> string list \<Rightarrow> string list" where
  "selectRest limit [] selected = selected"
| "selectRest limit (p # ps) selected =
     (if p \<in> set selected then selectRest limit ps selected
      else let selected' = selected @ [p] in
        if length selected' = limit then selected' else selectRest limit ps selected')"

definition selectSearchProviders :: "string list \<Rightarrow> SearchStrategy \<Rightarrow> string list" where
  "selectSearchProviders candidates strategy =
     (let unique = jsUnique candidates in
      if strategy = FallbackSearch then unique
      else let limit = strategyLimit strategy in
        case selectFamilies limit unique [] [] of
          (selected, True) \<Rightarrow> selected
        | (selected, False) \<Rightarrow> selectRest limit unique selected)"

end
