(* ===== verification/SearchFusion.thy ===== *)
theory SearchFusion
  imports DomainFilters
begin

text \<open>
  \<^verbatim>\<open>src/core/search-fusion.ts\<close>: reciprocal-rank fusion of the results of several search providers.
  A URL object is an abstract type with the platform's operations on it; scores are exact
  rationals; the collation of \<open>localeCompare\<close> is an argument (a negative, zero or positive number).
\<close>

section \<open>Results\<close>

record SearchResultSource =
  rs_provider :: string
  rs_rank :: nat
  rs_rawScore :: "jsnum option"

record SearchResultItem =
  it_title :: string
  it_url :: string
  it_snippet :: string
  it_publishedAt :: "string option"
  it_score :: "jsnum option"
  it_provider :: string
  it_fusionScore :: "rat option"
  it_sources :: "SearchResultSource list option"

record ProviderDetail =
  pd_providerId :: string
  pd_backend :: string
  pd_ownership :: string
  pd_protocolVersion :: string

record SearchResult =
  se_query :: string
  se_provider :: string
  se_results :: "SearchResultItem list"
  se_durationMs :: int
  se_warnings :: "string list"
  se_strategy :: "SearchStrategy option"
  se_providersSelected :: "string list option"
  se_providersAttempted :: "string list option"
  se_providersSucceeded :: "string list option"
  se_providerDetails :: "ProviderDetail list option"

section \<open>Canonical URLs\<close>

record 'u url_ops =
  uo_parse :: "string \<Rightarrow> 'u option"
  uo_protocol :: "'u \<Rightarrow> string"
  uo_username :: "'u \<Rightarrow> string"
  uo_password :: "'u \<Rightarrow> string"
  uo_hostname :: "'u \<Rightarrow> string"
  uo_clearHash :: "'u \<Rightarrow> 'u"
  uo_paramNames :: "'u \<Rightarrow> string list"
  uo_deleteParam :: "string \<Rightarrow> 'u \<Rightarrow> 'u"
  uo_sortParams :: "'u \<Rightarrow> 'u"
  uo_toString :: "'u \<Rightarrow> string"

definition TRACKING_PARAMETERS :: "string set" where
  "TRACKING_PARAMETERS = {''dclid'', ''fbclid'', ''gclid'', ''mc_cid'', ''mc_eid'', ''msclkid''}"

definition isTrackingParameter :: "string \<Rightarrow> bool" where
  "isTrackingParameter name =
     (let normalized = toLowerCase name
      in prefix ''utm_'' normalized \<or> normalized \<in> TRACKING_PARAMETERS)"

definition canonicalSearchResultUrl :: "'u url_ops \<Rightarrow> string \<Rightarrow> string option" where
  "canonicalSearchResultUrl U value = (case uo_parse U value of
     None \<Rightarrow> None
   | Some url \<Rightarrow>
       if (uo_protocol U url \<noteq> ''http:'' \<and> uo_protocol U url \<noteq> ''https:'') \<or>
          uo_username U url \<noteq> '''' \<or> uo_password U url \<noteq> ''''
       then None
       else
         let u1 = uo_clearHash U url;
             u2 = fold (\<lambda>name u. if isTrackingParameter name then uo_deleteParam U name u else u)
                    (uo_paramNames U u1) u1
         in Some (uo_toString U (uo_sortParams U u2)))"

section \<open>Candidates\<close>

definition RRF_K :: nat where "RRF_K = 60"
definition MAX_CANDIDATES_PER_PROVIDER :: nat where "MAX_CANDIDATES_PER_PROVIDER = 50"
definition MAX_RESULTS_PER_HOSTNAME :: nat where "MAX_RESULTS_PER_HOSTNAME = 2"

record FusedCandidate =
  fc_item :: SearchResultItem
  fc_canonicalUrl :: string
  fc_hostname :: string
  fc_fusionScore :: rat
  fc_sources :: "SearchResultSource list"
  fc_firstProviderIndex :: nat

definition rrfScore :: "rat \<Rightarrow> nat \<Rightarrow> rat" where
  "rrfScore weight rank = weight / of_nat (RRF_K + rank)"

definition fusionSource :: "string \<Rightarrow> nat \<Rightarrow> jsnum option \<Rightarrow> SearchResultSource" where
  "fusionSource provider rank rawScore =
     \<lparr>rs_provider = provider, rs_rank = rank, rs_rawScore = rawScore\<rparr>"

definition weightOf :: "rat jsmap option \<Rightarrow> string \<Rightarrow> rat" where
  "weightOf weights provider =
     (case Option.bind weights (\<lambda>m. map_of m provider) of Some w \<Rightarrow> w | None \<Rightarrow> 1)"

text \<open>One item of one provider. \<open>new URL(canonicalUrl)\<close> throws when the platform does not parse what it
  serialised.\<close>

definition fuseItem :: "'u url_ops \<Rightarrow> rat \<Rightarrow> string \<Rightarrow> nat \<Rightarrow> nat \<Rightarrow> SearchResultItem \<Rightarrow>
    FusedCandidate jsmap \<Rightarrow> FusedCandidate jsmap res" where
  "fuseItem U weight provider providerIndex itemIndex item candidates =
     (case canonicalSearchResultUrl U (it_url item) of
        None \<Rightarrow> Inr candidates
      | Some canonicalUrl \<Rightarrow>
          let rank = itemIndex + 1 in
          case map_of candidates canonicalUrl of
            Some existing \<Rightarrow> Inr (AList.update canonicalUrl
              (existing\<lparr>fc_fusionScore := fc_fusionScore existing + rrfScore weight rank,
                 fc_sources := fc_sources existing @ [fusionSource provider rank (it_score item)]\<rparr>)
              candidates)
          | None \<Rightarrow> (case uo_parse U canonicalUrl of
              None \<Rightarrow> Inl (JsError ''Invalid URL'')
            | Some u \<Rightarrow> Inr (AList.update canonicalUrl
                \<lparr>fc_item = item\<lparr>it_url := canonicalUrl, it_provider := provider\<rparr>,
                 fc_canonicalUrl = canonicalUrl, fc_hostname = uo_hostname U u,
                 fc_fusionScore = rrfScore weight rank,
                 fc_sources = [fusionSource provider rank (it_score item)],
                 fc_firstProviderIndex = providerIndex\<rparr> candidates)))"

fun fuseItems :: "'u url_ops \<Rightarrow> rat \<Rightarrow> string \<Rightarrow> nat \<Rightarrow> nat \<Rightarrow> SearchResultItem list \<Rightarrow>
    FusedCandidate jsmap \<Rightarrow> FusedCandidate jsmap res" where
  "fuseItems U weight provider providerIndex itemIndex [] candidates = Inr candidates"
| "fuseItems U weight provider providerIndex itemIndex (item # items) candidates =
     bindE (fuseItem U weight provider providerIndex itemIndex item candidates)
       (fuseItems U weight provider providerIndex (Suc itemIndex) items)"

fun fuseProviders :: "'u url_ops \<Rightarrow> rat jsmap option \<Rightarrow> nat \<Rightarrow> SearchResult list \<Rightarrow>
    FusedCandidate jsmap \<Rightarrow> FusedCandidate jsmap res" where
  "fuseProviders U weights providerIndex [] candidates = Inr candidates"
| "fuseProviders U weights providerIndex (result # results) candidates =
     bindE (fuseItems U (weightOf weights (se_provider result)) (se_provider result) providerIndex 0
              (take MAX_CANDIDATES_PER_PROVIDER (se_results result)) candidates)
       (fuseProviders U weights (Suc providerIndex) results)"

section \<open>Ranking\<close>

definition bestRank :: "FusedCandidate \<Rightarrow> nat" where
  "bestRank c = Min (set (map rs_rank (fc_sources c)))"

text \<open>The comparator of \<open>sort\<close>, as a sign.\<close>

definition compareCandidates :: "(string \<Rightarrow> string \<Rightarrow> int) \<Rightarrow> FusedCandidate \<Rightarrow> FusedCandidate \<Rightarrow> int" where
  "compareCandidates collate left right =
     (if fc_fusionScore left \<noteq> fc_fusionScore right
      then (if fc_fusionScore right < fc_fusionScore left then -1 else 1)
      else if length (fc_sources left) \<noteq> length (fc_sources right)
      then int (length (fc_sources right)) - int (length (fc_sources left))
      else if bestRank left \<noteq> bestRank right
      then int (bestRank left) - int (bestRank right)
      else if fc_firstProviderIndex left \<noteq> fc_firstProviderIndex right
      then int (fc_firstProviderIndex left) - int (fc_firstProviderIndex right)
      else collate (fc_canonicalUrl left) (fc_canonicalUrl right))"

section \<open>The result list\<close>

definition countOf :: "nat jsmap \<Rightarrow> string \<Rightarrow> nat" where
  "countOf counts k = (case map_of counts k of Some n \<Rightarrow> n | None \<Rightarrow> 0)"

definition fusedItem :: "FusedCandidate \<Rightarrow> SearchResultItem" where
  "fusedItem c = (fc_item c)\<lparr>it_fusionScore := Some (fc_fusionScore c), it_sources := Some (fc_sources c)\<rparr>"

text \<open>The last loop: \<open>taken\<close> is \<open>output.length\<close> before the candidate.\<close>

fun takeFused :: "int \<Rightarrow> nat jsmap \<Rightarrow> nat \<Rightarrow> FusedCandidate list \<Rightarrow> FusedCandidate list" where
  "takeFused maxResults counts taken [] = []"
| "takeFused maxResults counts taken (c # cs) =
     (let count = countOf counts (fc_hostname c) in
      if count \<ge> MAX_RESULTS_PER_HOSTNAME then takeFused maxResults counts taken cs
      else if int (Suc taken) = maxResults then [c]
      else c # takeFused maxResults (AList.update (fc_hostname c) (count + 1) counts) (Suc taken) cs)"

definition fuseSearchResults :: "'u url_ops \<Rightarrow> (string \<Rightarrow> string \<Rightarrow> int) \<Rightarrow> SearchResult list \<Rightarrow> int \<Rightarrow>
    rat jsmap option \<Rightarrow> SearchResultItem list res" where
  "fuseSearchResults U collate providerResults maxResults weights =
     bindE (fuseProviders U weights 0 providerResults []) (\<lambda>candidates.
       Inr (map fusedItem
         (takeFused maxResults [] 0 (sortBy (compareCandidates collate) (map snd candidates)))))"

end
