(* ===== verification/ProviderHealth.thy ===== *)
theory ProviderHealth
  imports JsPrelude
begin

text \<open>
  \<^verbatim>\<open>src/core/provider-health.ts\<close>: the penalty score of a provider, which decays with time, and its
  circuit breaker. Scores and rates are exact rationals; the clock is read once per call.
\<close>

record PenaltyEntry =
  pe_score :: rat
  pe_lastUpdate :: int

record CircuitState =
  ct_consecutive :: int
  ct_openUntil :: int

record HealthTrackerConfig =
  hc_penaltyIncrement :: rat
  hc_decayPerMinute :: rat
  hc_circuitThreshold :: int
  hc_circuitCooldownMs :: int

definition HEALTH_DEFAULT_CONFIG :: HealthTrackerConfig where
  "HEALTH_DEFAULT_CONFIG =
     \<lparr>hc_penaltyIncrement = 3, hc_decayPerMinute = 1, hc_circuitThreshold = 5,
      hc_circuitCooldownMs = 60000\<rparr>"

record HealthTracker =
  ht_config :: HealthTrackerConfig
  ht_penalties :: "PenaltyEntry jsmap"
  ht_circuits :: "CircuitState jsmap"

definition health_create :: "HealthTrackerConfig \<Rightarrow> HealthTracker" where
  "health_create config = \<lparr>ht_config = config, ht_penalties = [], ht_circuits = []\<rparr>"

definition decayedScore :: "HealthTracker \<Rightarrow> int \<Rightarrow> PenaltyEntry \<Rightarrow> rat" where
  "decayedScore h now entry =
     (let elapsedMinutes = of_int (now - pe_lastUpdate entry) / 60000
      in max 0 (pe_score entry - elapsedMinutes * hc_decayPerMinute (ht_config h)))"

definition health_isHealthy :: "HealthTracker \<Rightarrow> int \<Rightarrow> string \<Rightarrow> bool" where
  "health_isHealthy h now provider = (case map_of (ht_circuits h) provider of
     None \<Rightarrow> True
   | Some state \<Rightarrow>
       if ct_consecutive state < hc_circuitThreshold (ht_config h) then True
       else if now \<ge> ct_openUntil state then True
       else False)"

definition health_recordSuccess :: "int \<Rightarrow> string \<Rightarrow> HealthTracker \<Rightarrow> HealthTracker" where
  "health_recordSuccess now provider h0 =
     (let h = h0\<lparr>ht_circuits := AList.delete provider (ht_circuits h0)\<rparr> in
      case map_of (ht_penalties h) provider of
        None \<Rightarrow> h
      | Some entry \<Rightarrow>
          let decayed = decayedScore h now entry; score = max 0 (decayed - 1) in
          if score = 0 then h\<lparr>ht_penalties := AList.delete provider (ht_penalties h)\<rparr>
          else h\<lparr>ht_penalties := AList.update provider
                   \<lparr>pe_score = score, pe_lastUpdate = now\<rparr> (ht_penalties h)\<rparr>)"

definition failedCircuit :: "HealthTrackerConfig \<Rightarrow> int \<Rightarrow> CircuitState \<Rightarrow> CircuitState" where
  "failedCircuit config now state =
     (let consecutive = (if ct_openUntil state > 0 \<and> now \<ge> ct_openUntil state
                         then hc_circuitThreshold config else ct_consecutive state + 1)
      in \<lparr>ct_consecutive = consecutive,
          ct_openUntil = (if consecutive \<ge> hc_circuitThreshold config
                          then now + hc_circuitCooldownMs config else ct_openUntil state)\<rparr>)"

definition health_recordFailure :: "int \<Rightarrow> string \<Rightarrow> HealthTracker \<Rightarrow> HealthTracker" where
  "health_recordFailure now provider h =
     (let entry = (case map_of (ht_penalties h) provider of
            Some e \<Rightarrow> e | None \<Rightarrow> \<lparr>pe_score = 0, pe_lastUpdate = now\<rparr>);
          entry' = \<lparr>pe_score = decayedScore h now entry + hc_penaltyIncrement (ht_config h),
                    pe_lastUpdate = now\<rparr>;
          state = (case map_of (ht_circuits h) provider of
            Some s \<Rightarrow> s | None \<Rightarrow> \<lparr>ct_consecutive = 0, ct_openUntil = 0\<rparr>)
      in h\<lparr>ht_penalties := AList.update provider entry' (ht_penalties h),
           ht_circuits := AList.update provider (failedCircuit (ht_config h) now state)
             (ht_circuits h)\<rparr>)"

definition health_penalty :: "HealthTracker \<Rightarrow> int \<Rightarrow> string \<Rightarrow> rat" where
  "health_penalty h now provider = (case map_of (ht_penalties h) provider of
     None \<Rightarrow> 0 | Some entry \<Rightarrow> max 0 (decayedScore h now entry))"

end
