(* ===== verification/SearchRouter.thy ===== *)
theory SearchRouter
  imports SearchFusion ProviderHealth
begin

text \<open>
  \<^verbatim>\<open>src/core/search-router.ts\<close>: the search router over its providers, the health tracker and the
  attempt budgets it shares with other requests, the filter checks and the fusion of results.
\<close>

section \<open>The router and its surroundings\<close>

type_synonym SearchProvider = "(SearchRequest, SearchResult) provider"

record 'u search_router =
  sx_providers :: "SearchProvider jsmap"
  sx_order :: "string list"
  sx_deploymentMaxDomains :: "int option"
  sx_urls :: "'u url_ops"
  sx_collate :: "string \<Rightarrow> string \<Rightarrow> int"

text \<open>What the router shares with the other requests of the server.\<close>

record search_shared =
  sh_budget :: "CompositeSearchBudget option"
  sh_health :: "HealthTracker option"

text \<open>
  The state of one search: what it shares, and two logs of what it did that the code does not keep:
  the providers whose \<open>search\<close> method it called, in order (only \<open>askProvider\<close> calls one, and logs it),
  and its decisions to admit a provider to an attempt or to refuse it (\<open>sharedConsume\<close>).
\<close>

record search_run = search_shared +
  sw_calls :: "string list"
  sw_decisions :: "(string \<times> bool) list"

text \<open>What other requests do reaches the shared part only.\<close>

definition othersDo :: "(search_shared \<Rightarrow> search_shared) \<Rightarrow> search_run \<Rightarrow> search_run" where
  "othersDo f w = w\<lparr>sh_budget := sh_budget (f (search_shared.truncate w)),
     sh_health := sh_health (f (search_shared.truncate w))\<rparr>"

text \<open>\<open>provider.search(request, signal)\<close>.\<close>

definition askProvider :: "SearchProvider \<Rightarrow> SearchRequest \<Rightarrow> search_run \<Rightarrow>
    (thrown + SearchResult) \<times> search_run" where
  "askProvider p req w = (pv_call p req, w\<lparr>sw_calls := sw_calls w @ [pv_id p]\<rparr>)"

text \<open>
  The surroundings of one search: the times of its start, of its end, of the \<open>n\<close>-th charge (a provider
  of the fallback loop, or a batch) and of the settlement of a provider's call; what other requests
  do to the shared state before the \<open>n\<close>-th charge and while the router awaits its calls; whether the
  signal is aborted after the \<open>n\<close>-th batch.
\<close>

record search_env =
  sv_startedAt :: int
  sv_endedAt :: int
  sv_clock :: "nat \<Rightarrow> int"
  sv_settled :: "string \<Rightarrow> int"
  sv_before :: "nat \<Rightarrow> search_shared \<Rightarrow> search_shared"
  sv_during :: "nat \<Rightarrow> search_shared \<Rightarrow> search_shared"
  sv_aborted :: "nat \<Rightarrow> thrown option"

definition createSearchRouter :: "SearchProvider list \<Rightarrow> string list \<Rightarrow> int option \<Rightarrow> 'u url_ops \<Rightarrow>
    (string \<Rightarrow> string \<Rightarrow> int) \<Rightarrow> 'u search_router" where
  "createSearchRouter providers order deploymentMax U collate =
     \<lparr>sx_providers = providerMap providers, sx_order = order,
      sx_deploymentMaxDomains = deploymentMax, sx_urls = U, sx_collate = collate\<rparr>"

definition builtInDetail :: "string \<Rightarrow> ProviderDetail" where
  "builtInDetail i = \<lparr>pd_providerId = i, pd_backend = ''api'', pd_ownership = ''built-in'',
     pd_protocolVersion = ''1''\<rparr>"

definition sharedRemaining :: "int \<Rightarrow> string \<Rightarrow> search_run \<Rightarrow> int option \<times> search_run" where
  "sharedRemaining now provider sh = (case sh_budget sh of
     None \<Rightarrow> (None, sh)
   | Some b \<Rightarrow> let (r, b') = composite_remaining now provider b in (r, sh\<lparr>sh_budget := Some b'\<rparr>))"

text \<open>\<open>this.budget !== undefined && !this.budget.tryConsume(id)\<close>, negated; the decision is logged.\<close>

definition sharedConsume :: "int \<Rightarrow> string \<Rightarrow> search_run \<Rightarrow> bool \<times> search_run" where
  "sharedConsume now provider sh = (case sh_budget sh of
     None \<Rightarrow> (True, sh\<lparr>sw_decisions := sw_decisions sh @ [(provider, True)]\<rparr>)
   | Some b \<Rightarrow> let (ok, b') = composite_tryConsume now provider b in
       (ok, sh\<lparr>sh_budget := Some b', sw_decisions := sw_decisions sh @ [(provider, ok)]\<rparr>))"

definition sharedHealth :: "(HealthTracker \<Rightarrow> HealthTracker) \<Rightarrow> search_run \<Rightarrow> search_run" where
  "sharedHealth f sh = sh\<lparr>sh_health := map_option f (sh_health sh)\<rparr>"

section \<open>Checks and selection\<close>

definition searchExplicitProvider :: "SearchRequest \<Rightarrow> string option" where
  "searchExplicitProvider req = (case sr_provider req of
     Some p \<Rightarrow> if p = ''auto'' then None else Some p | None \<Rightarrow> None)"

definition searchCandidates :: "'u search_router \<Rightarrow> SearchRequest \<Rightarrow> string list" where
  "searchCandidates rt req = (case searchExplicitProvider req of
     Some p \<Rightarrow> [p]
   | None \<Rightarrow> (case sr_providers req of Some ps \<Rightarrow> ps | None \<Rightarrow> sx_order rt))"

definition validateSearchRequest :: "SearchRequest \<Rightarrow> unit res" where
  "validateSearchRequest req =
     throwIf (trim (sr_query req) = '''' \<or> notIntegerIn 1 50 (sr_maxResults req) \<or>
         sr_providers req = Some [] \<or>
         (searchExplicitProvider req \<noteq> None \<and> sr_providers req \<noteq> None))
       (GroundlaneError INVALID_INPUT ''search''
         ''Search query, result limit, or provider selection is invalid'' False
         (Some (Hint ''search.invalid_input''
           (''Provide a non-empty query, set maxResults between 1 and 50, and choose either provider OR '' @
            ''providers (not both).''))))"

fun resolveSearchIds :: "'u search_router \<Rightarrow> SearchRequest \<Rightarrow> int \<Rightarrow> string list \<Rightarrow> search_run \<Rightarrow>
    (SearchProvider list \<times> string list) \<times> search_run" where
  "resolveSearchIds rt req now [] sh = (([], []), sh)"
| "resolveSearchIds rt req now (i # ids) sh =
     (case map_of (sx_providers rt) i of
        None \<Rightarrow> resolveSearchIds rt req now ids sh
      | Some p \<Rightarrow>
          if (case sh_health sh of None \<Rightarrow> False | Some h \<Rightarrow> \<not> health_isHealthy h now (pv_id p)) \<or>
             \<not> pv_supports p req
          then resolveSearchIds rt req now ids sh
          else let (r, sh1) = sharedRemaining now (pv_id p) sh in
            if r = Some 0
            then let ((ps, ws), sh2) = resolveSearchIds rt req now ids sh1
                 in ((ps, (pv_id p @ '' budget exhausted'') # ws), sh2)
            else let ((ps, ws), sh2) = resolveSearchIds rt req now ids sh1
                 in ((p # ps, ws), sh2))"

definition resolveSearchProviders :: "'u search_router \<Rightarrow> SearchRequest \<Rightarrow> int \<Rightarrow> search_run \<Rightarrow>
    (SearchProvider list \<times> string list) \<times> search_run" where
  "resolveSearchProviders rt req now sh =
     resolveSearchIds rt req now (jsUnique (searchCandidates rt req)) sh"

definition selectProviderBatch ::
  "'u search_router \<Rightarrow> SearchProvider list \<Rightarrow> SearchStrategy \<Rightarrow> SearchProvider list" where
  "selectProviderBatch rt providers strategy =
     List.map_filter (\<lambda>i. map_of (sx_providers rt) i)
       (selectSearchProviders (map pv_id providers) strategy)"

definition normalizeProviderResult :: "SearchProvider \<Rightarrow> SearchResult \<Rightarrow> nat \<Rightarrow> SearchResult" where
  "normalizeProviderResult provider result maxResults =
     result\<lparr>se_provider := pv_id provider,
       se_results := map (\<lambda>item. item\<lparr>it_provider := pv_id provider\<rparr>)
         (take maxResults (se_results result))\<rparr>"

definition maxResultsOf :: "SearchRequest \<Rightarrow> int" where
  "maxResultsOf req = toInt (sr_maxResults req)"

section \<open>Fallback\<close>

definition budgetExhaustedError :: "string \<Rightarrow> exn" where
  "budgetExhaustedError provider = GroundlaneError PROVIDER_UNAVAILABLE ''search-budget''
     (provider @ '' request budget is exhausted'') True (Some (Hint ''search_budget.exhausted''
       (''The per-provider request budget is empty for the selected provider. Wait for the next reset '' @
        ''window, raise SEARCH_*_REQUEST_BUDGETS in the operator config, or omit the explicit provider '' @
        ''to let the router pick one with remaining quota.'')))"

definition allProvidersFailed :: exn where
  "allProvidersFailed = GroundlaneError PROVIDER_UNAVAILABLE ''search''
     ''All matching search providers were unavailable'' True
     (Some (Hint ''search.all_providers_failed''
       (''Every selected provider errored or returned no results. Check provider health, retry once, '' @
        ''or fall back to web_fetch on a known URL.'')))"

definition fallbackResult :: "SearchProvider \<Rightarrow> SearchResult \<Rightarrow> SearchProvider list \<Rightarrow> string list \<Rightarrow>
    string list \<Rightarrow> SearchResult" where
  "fallbackResult p normalized providers attempted warnings =
     normalized\<lparr>se_strategy := Some FallbackSearch,
       se_providersSelected := Some (map pv_id providers),
       se_providersAttempted := Some attempted, se_providersSucceeded := Some [pv_id p],
       se_warnings := warnings @ se_warnings normalized,
       se_providerDetails := Some [builtInDetail (pv_id p)]\<rparr>"

fun searchFallbackLoop :: "search_env \<Rightarrow> SearchRequest \<Rightarrow> bool \<Rightarrow> SearchProvider list \<Rightarrow> nat \<Rightarrow>
    SearchProvider list \<Rightarrow> string list \<Rightarrow> string list \<Rightarrow> search_run \<Rightarrow> SearchResult res \<times> search_run" where
  "searchFallbackLoop env req explicit providers n [] attempted warnings sh = (Inl allProvidersFailed, sh)"
| "searchFallbackLoop env req explicit providers n (p # ps) attempted warnings sh =
     (let (granted, sh1) = sharedConsume (sv_clock env n) (pv_id p) (othersDo (sv_before env n) sh) in
      if \<not> granted
      then (if length providers = 1 then (Inl (budgetExhaustedError (pv_id p)), sh1)
            else searchFallbackLoop env req explicit providers (Suc n) ps attempted
              (warnings @ [pv_id p @ '' budget exhausted'']) sh1)
      else let (answer, asked) = askProvider p req sh1; sh2 = othersDo (sv_during env n) asked;
               attempted' = attempted @ [pv_id p]; settled = sv_settled env (pv_id p) in
        case answer of
          Inr result \<Rightarrow>
            let normalized = normalizeProviderResult p result (nat (maxResultsOf req))
            in (Inr (fallbackResult p normalized providers attempted' warnings),
                sharedHealth (health_recordSuccess settled (pv_id p)) sh2)
        | Inl err \<Rightarrow>
            let safe = toGroundlaneError err ''search'';
                sh3 = sharedHealth (health_recordFailure settled (pv_id p)) sh2
            in if explicit \<or> (length providers = 1 \<and> \<not> exn_retryable safe) then (Inl safe, sh3)
               else searchFallbackLoop env req explicit providers (Suc n) ps attempted'
                 (warnings @ [pv_id p @ '' unavailable'']) sh3)"

definition searchWithFallback :: "search_env \<Rightarrow> SearchRequest \<Rightarrow> SearchProvider list \<Rightarrow> string list \<Rightarrow>
    bool \<Rightarrow> search_run \<Rightarrow> SearchResult res \<times> search_run" where
  "searchWithFallback env req providers initialWarnings explicit sh =
     searchFallbackLoop env req explicit providers 0 providers [] initialWarnings sh"

section \<open>Federation\<close>

text \<open>\<open>Promise.all(batch.map(async ...))\<close>: first every provider of the batch is charged, in order; then
  the calls settle. The records of different providers do not touch one another, so their order is
  not observable.\<close>

fun chargeBatch :: "int \<Rightarrow> SearchProvider list \<Rightarrow> search_run \<Rightarrow> bool list \<times> search_run" where
  "chargeBatch now [] sh = ([], sh)"
| "chargeBatch now (p # ps) sh =
     (let (granted, sh1) = sharedConsume now (pv_id p) sh; (rest, sh2) = chargeBatch now ps sh1
      in (granted # rest, sh2))"

definition batchOutcome :: "SearchRequest \<Rightarrow> SearchProvider \<Rightarrow> bool \<Rightarrow> search_run \<Rightarrow>
    (SearchRequest, SearchResult) outcome \<times> search_run" where
  "batchOutcome req p granted sh =
     (if \<not> granted
      then (\<lparr>oc_provider = p, oc_attempted = False, oc_result = None,
             oc_warning = Some (pv_id p @ '' budget exhausted'')\<rparr>, sh)
      else case askProvider p req sh of
        (Inr result, sh1) \<Rightarrow> (\<lparr>oc_provider = p, oc_attempted = True,
          oc_result = Some (normalizeProviderResult p result (nat (maxResultsOf req))), oc_warning = None\<rparr>, sh1)
      | (Inl _, sh1) \<Rightarrow> (\<lparr>oc_provider = p, oc_attempted = True, oc_result = None,
          oc_warning = Some (pv_id p @ '' unavailable'')\<rparr>, sh1))"

fun batchOutcomes :: "SearchRequest \<Rightarrow> (SearchProvider \<times> bool) list \<Rightarrow> search_run \<Rightarrow>
    (SearchRequest, SearchResult) outcome list \<times> search_run" where
  "batchOutcomes req [] sh = ([], sh)"
| "batchOutcomes req ((p, granted) # ps) sh =
     (let (oc, sh1) = batchOutcome req p granted sh; (ocs, sh2) = batchOutcomes req ps sh1
      in (oc # ocs, sh2))"

definition recordOutcome :: "search_env \<Rightarrow> (SearchRequest, SearchResult) outcome \<Rightarrow> search_run \<Rightarrow>
    search_run" where
  "recordOutcome env oc sh =
     (let i = pv_id (oc_provider oc); settled = sv_settled env i in
      if \<not> oc_attempted oc then sh
      else if oc_result oc \<noteq> None then sharedHealth (health_recordSuccess settled i) sh
      else sharedHealth (health_recordFailure settled i) sh)"

definition searchBatch :: "search_env \<Rightarrow> nat \<Rightarrow> SearchRequest \<Rightarrow> SearchProvider list \<Rightarrow> search_run \<Rightarrow>
    (SearchRequest, SearchResult) outcome list \<times> search_run" where
  "searchBatch env n req batch sh =
     (let (granted, sh1) = chargeBatch (sv_clock env n) batch (othersDo (sv_before env n) sh);
          (outcomes, sh2) = batchOutcomes req (zip batch granted) sh1
      in (outcomes, fold (recordOutcome env) outcomes (othersDo (sv_during env n) sh2)))"

definition effectiveWeights :: "int \<Rightarrow> search_run \<Rightarrow> SearchResult list \<Rightarrow> rat jsmap" where
  "effectiveWeights now sh successes =
     foldl (\<lambda>m result.
         let base = searchProviderWeight (se_provider result);
             penalty = (case sh_health sh of None \<Rightarrow> 0 | Some h \<Rightarrow> health_penalty h now (se_provider result))
         in AList.update (se_provider result) (base / (1 + penalty * (1 / 10))) m)
       [] successes"

definition federatedResult :: "'u search_router \<Rightarrow> search_env \<Rightarrow> SearchRequest \<Rightarrow> SearchStrategy \<Rightarrow>
    SearchResult list \<Rightarrow> string list \<Rightarrow> string list \<Rightarrow> string list \<Rightarrow> search_run \<Rightarrow> SearchResult res" where
  "federatedResult rt env req strategy successes selectedIds attemptedIds warnings sh =
     bindE (fuseSearchResults (sx_urls rt) (sx_collate rt) successes (maxResultsOf req)
              (Some (effectiveWeights (sv_endedAt env) sh successes))) (\<lambda>results.
       Inr \<lparr>se_query = sr_query req,
            se_provider = (if length successes > 1 then ''federated''
                           else case successes of s # _ \<Rightarrow> se_provider s | [] \<Rightarrow> ''federated''),
            se_results = results, se_durationMs = sv_endedAt env - sv_startedAt env,
            se_warnings = warnings @ concat (map se_warnings successes),
            se_strategy = Some strategy, se_providersSelected = Some selectedIds,
            se_providersAttempted = Some attemptedIds,
            se_providersSucceeded = Some (map se_provider successes),
            se_providerDetails = Some (map (builtInDetail \<circ> se_provider) successes)\<rparr>)"

definition selectedUnavailable :: exn where
  "selectedUnavailable = GroundlaneError PROVIDER_UNAVAILABLE ''search''
     ''All selected search providers were unavailable'' True None"

text \<open>The \<open>while\<close> loop over the providers that remain; \<open>None\<close> would be a loop that does not end.\<close>

partial_function (option) federatedLoop :: "'u search_router \<Rightarrow> search_env \<Rightarrow> SearchRequest \<Rightarrow>
    SearchStrategy \<Rightarrow> nat \<Rightarrow> SearchProvider list \<Rightarrow> string list \<Rightarrow> string list \<Rightarrow> string list \<Rightarrow>
    search_run \<Rightarrow> (SearchResult res \<times> search_run) option" where
  "federatedLoop rt env req strategy n remaining selectedIds attemptedIds warnings sh =
     (if remaining = [] then Some (Inl selectedUnavailable, sh)
      else let batch = selectProviderBatch rt remaining strategy in
        if batch = [] then Some (Inl selectedUnavailable, sh)
        else
          let selectedIds' = selectedIds @ map pv_id batch;
              remaining' = filter (\<lambda>p. pv_id p \<notin> set (map pv_id batch)) remaining;
              outcomes = fst (searchBatch env n req batch sh);
              sh' = snd (searchBatch env n req batch sh)
          in case throwCancelled (sv_aborted env n)
                    (glError CANCELLED ''search'' ''The request was cancelled'') of
               Inl e \<Rightarrow> Some (Inl e, sh')
             | Inr _ \<Rightarrow>
                 let attemptedIds' = attemptedIds @ map (pv_id \<circ> oc_provider) (filter oc_attempted outcomes);
                     warnings' = warnings @ List.map_filter oc_warning outcomes;
                     successes = List.map_filter oc_result outcomes
                 in if successes \<noteq> []
                    then Some (federatedResult rt env req strategy successes selectedIds' attemptedIds'
                      warnings' sh', sh')
                    else federatedLoop rt env req strategy (Suc n) remaining' selectedIds' attemptedIds'
                      warnings' sh')"

declare federatedLoop.simps [code]

section \<open>The search\<close>

definition noSearchProvider :: exn where
  "noSearchProvider = GroundlaneError PROVIDER_UNAVAILABLE ''search''
     ''No configured provider supports this request'' True (Some (Hint ''search.no_provider''
       (''No configured search provider matched the request. Verify SEARCH_PROVIDER_ORDER, API keys, '' @
        ''and that the requested capabilities (news, images, etc.) are exposed by at least one '' @
        ''provider.'')))"

definition searchStrategyOf :: "SearchRequest \<Rightarrow> SearchStrategy" where
  "searchStrategyOf req =
     (if searchExplicitProvider req = None
      then (case sr_strategy req of Some s \<Rightarrow> s | None \<Rightarrow> Balanced)
      else FallbackSearch)"

definition search :: "'u search_router \<Rightarrow> search_env \<Rightarrow> SearchRequest \<Rightarrow> search_run \<Rightarrow>
    (SearchResult res \<times> search_run) option" where
  "search rt env req sh =
     (let explicit = searchExplicitProvider req in
      case andThen (validateSearchRequest req)
             (validateDomainFiltersForRequest req explicit (searchCandidates rt req)
                (sx_deploymentMaxDomains rt)) of
        Inl e \<Rightarrow> Some (Inl e, sh)
      | Inr _ \<Rightarrow>
          let strategy = searchStrategyOf req;
              providers = fst (fst (resolveSearchProviders rt req (sv_startedAt env) sh));
              warnings = snd (fst (resolveSearchProviders rt req (sv_startedAt env) sh));
              sh1 = snd (resolveSearchProviders rt req (sv_startedAt env) sh);
              selected = (if strategy = FallbackSearch then providers
                          else selectProviderBatch rt providers strategy)
          in if selected = []
             then (case explicit of
                     Some p \<Rightarrow>
                       let (r, sh2) = sharedRemaining (sv_startedAt env) p sh1 in
                       Some (Inl (if r = Some 0 then budgetExhaustedError p else noSearchProvider), sh2)
                   | None \<Rightarrow> Some (Inl noSearchProvider, sh1))
             else if strategy = FallbackSearch
             then Some (searchWithFallback env req selected warnings (explicit \<noteq> None) sh1)
             else federatedLoop rt env req strategy 0 providers [] [] warnings sh1)"

end
