(* ===== verification/FusionFacts.thy ===== *)
theory FusionFacts
  imports SearchFusion "HOL-Library.Multiset"
begin

text \<open>
  What the fusion of search results computes, in closed form: one candidate per canonical URL with all
  its appearances, a strict ranking, and the cut by hostname and by number.
\<close>

section \<open>Appearances\<close>

text \<open>The appearances of canonical URLs in the results, in the order in which the loops meet them: the
  URL, the index of the provider, the item as it is kept and its place in that provider's list.
  Only the first fifty results of a provider count.\<close>

type_synonym appearance = "string \<times> nat \<times> SearchResultItem \<times> SearchResultSource"

fun itemAppearances :: "'u url_ops \<Rightarrow> string \<Rightarrow> nat \<Rightarrow> nat \<Rightarrow> SearchResultItem list \<Rightarrow> appearance list" where
  "itemAppearances U provider ix i [] = []"
| "itemAppearances U provider ix i (item # items) =
     (case canonicalSearchResultUrl U (it_url item) of
        None \<Rightarrow> itemAppearances U provider ix (Suc i) items
      | Some k \<Rightarrow> (k, ix, item\<lparr>it_url := k, it_provider := provider\<rparr>,
            \<lparr>rs_provider = provider, rs_rank = Suc i, rs_rawScore = it_score item\<rparr>)
          # itemAppearances U provider ix (Suc i) items)"

fun appearancesFrom :: "'u url_ops \<Rightarrow> nat \<Rightarrow> SearchResult list \<Rightarrow> appearance list" where
  "appearancesFrom U ix [] = []"
| "appearancesFrom U ix (r # rs) =
     itemAppearances U (se_provider r) ix 0 (take 50 (se_results r)) @ appearancesFrom U (Suc ix) rs"

definition appearances :: "'u url_ops \<Rightarrow> SearchResult list \<Rightarrow> appearance list" where
  "appearances U results = appearancesFrom U 0 results"

text \<open>The weighted reciprocal rank of one appearance, over exact rational numbers; a provider without a
  weight has weight one.\<close>

definition reciprocalRank :: "rat jsmap option \<Rightarrow> SearchResultSource \<Rightarrow> rat" where
  "reciprocalRank w s =
     (case w of None \<Rightarrow> 1 | Some m \<Rightarrow> (case map_of m (rs_provider s) of None \<Rightarrow> 1 | Some x \<Rightarrow> x))
       / of_nat (60 + rs_rank s)"

text \<open>The candidate of a URL: the item and the provider index of its first appearance, the sum of the
  reciprocal ranks of all of them, and all of them as its sources.\<close>

definition candidateOf :: "'u url_ops \<Rightarrow> rat jsmap option \<Rightarrow> appearance list \<Rightarrow> string \<Rightarrow> FusedCandidate" where
  "candidateOf U w as k =
     (let mine = map snd (filter (\<lambda>a. fst a = k) as); sources = map (snd \<circ> snd) mine
      in \<lparr>fc_item = fst (snd (hd mine)), fc_canonicalUrl = k,
          fc_hostname = (case uo_parse U k of Some u \<Rightarrow> uo_hostname U u | None \<Rightarrow> ''''),
          fc_fusionScore = (\<Sum>s\<leftarrow>sources. reciprocalRank w s), fc_sources = sources,
          fc_firstProviderIndex = fst (hd mine)\<rparr>)"

definition appearanceOrder :: "'u url_ops \<Rightarrow> SearchResult list \<Rightarrow> string list" where
  "appearanceOrder U results = jsUnique (map fst (appearances U results))"

definition mergedCandidates :: "'u url_ops \<Rightarrow> rat jsmap option \<Rightarrow> SearchResult list \<Rightarrow> FusedCandidate list" where
  "mergedCandidates U w results =
     map (candidateOf U w (appearances U results)) (appearanceOrder U results)"

text \<open>What the code relies on of the platform's URL object: it parses what it has serialised.\<close>

definition parsesOwnUrls :: "'u url_ops \<Rightarrow> bool" where
  "parsesOwnUrls U \<longleftrightarrow> (\<forall>v k. canonicalSearchResultUrl U v = Some k \<longrightarrow> uo_parse U k \<noteq> None)"

section \<open>The loops collect the candidates\<close>

definition addAppearance :: "'u url_ops \<Rightarrow> rat jsmap option \<Rightarrow> appearance \<Rightarrow> FusedCandidate jsmap \<Rightarrow>
    FusedCandidate jsmap" where
  "addAppearance U w a cs = (case a of (k, ix, item, s) \<Rightarrow>
     AList.update k (case map_of cs k of
         Some c \<Rightarrow> c\<lparr>fc_fusionScore := fc_fusionScore c + reciprocalRank w s, fc_sources := fc_sources c @ [s]\<rparr>
       | None \<Rightarrow> candidateOf U w [a] k) cs)"

lemma reciprocalRank_model:
  "rrfScore (weightOf w p) rank = reciprocalRank w \<lparr>rs_provider = p, rs_rank = rank, rs_rawScore = x\<rparr>"
  by (auto simp: rrfScore_def weightOf_def reciprocalRank_def RRF_K_def split: option.splits)

lemma fuseItem_adds:
  assumes "parsesOwnUrls U"
  shows "fuseItem U (weightOf w p) p ix i item cs =
    Inr (fold (addAppearance U w) (itemAppearances U p ix i [item]) cs)"
proof (cases "canonicalSearchResultUrl U (it_url item)")
  case (Some k)
  with assms obtain u where "uo_parse U k = Some u" by (auto simp: parsesOwnUrls_def)
  with Some show ?thesis
    by (cases "map_of cs k")
      (simp_all add: fuseItem_def addAppearance_def candidateOf_def fusionSource_def
        reciprocalRank_model [where x = "it_score item"])
qed (simp add: fuseItem_def)

lemma itemAppearances_Cons:
  "itemAppearances U p ix i (item # items) =
     itemAppearances U p ix i [item] @ itemAppearances U p ix (Suc i) items"
  by (simp split: option.splits)

lemma fuseItems_adds:
  assumes "parsesOwnUrls U"
  shows "fuseItems U (weightOf w p) p ix i items cs =
    Inr (fold (addAppearance U w) (itemAppearances U p ix i items) cs)"
proof (induction items arbitrary: i cs)
  case (Cons item items)
  then show ?case
    by (subst itemAppearances_Cons) (simp add: fuseItem_adds [OF assms] del: itemAppearances.simps(2))
qed simp

lemma fuseProviders_adds:
  assumes "parsesOwnUrls U"
  shows "fuseProviders U w ix results cs = Inr (fold (addAppearance U w) (appearancesFrom U ix results) cs)"
  by (induction results arbitrary: ix cs)
    (simp_all add: fuseItems_adds [OF assms] MAX_CANDIDATES_PER_PROVIDER_def)

lemma jsUnique_snoc: "jsUnique (xs @ [x]) = (if x \<in> set xs then jsUnique xs else jsUnique xs @ [x])"
  by (simp add: jsUnique_def)

lemma jsUnique_set_distinct: "set (jsUnique xs) = set xs" "distinct (jsUnique xs)"
  by (simp_all add: jsUnique_def)

lemma update_map_keys:
  assumes "distinct ks"
  shows "AList.update k v (map (\<lambda>k. (k, f k)) ks) =
    (if k \<in> set ks then map (\<lambda>k'. (k', if k' = k then v else f k')) ks else map (\<lambda>k. (k, f k)) ks @ [(k, v)])"
  using assms by (induction ks) auto

lemma candidateOf_snoc:
  "k' \<noteq> k \<Longrightarrow> candidateOf U w (as @ [(k, a)]) k' = candidateOf U w as k'"
  "k \<in> fst ` set as \<Longrightarrow> candidateOf U w (as @ [(k, ix, item, s)]) k =
    (candidateOf U w as k)\<lparr>fc_fusionScore := fc_fusionScore (candidateOf U w as k) + reciprocalRank w s,
      fc_sources := fc_sources (candidateOf U w as k) @ [s]\<rparr>"
  "k \<notin> fst ` set as \<Longrightarrow> candidateOf U w (as @ [(k, a)]) k = candidateOf U w [(k, a)] k"
proof -
  have e: "filter (\<lambda>a. fst a = k) as \<noteq> []" if "k \<in> fst ` set as" using that by (auto simp: filter_empty_conv)
  have n: "filter (\<lambda>a. fst a = k) as = []" if "k \<notin> fst ` set as" using that by (auto simp: filter_empty_conv)
  show "k' \<noteq> k \<Longrightarrow> candidateOf U w (as @ [(k, a)]) k' = candidateOf U w as k'"
    by (simp add: candidateOf_def)
  show "k \<in> fst ` set as \<Longrightarrow> candidateOf U w (as @ [(k, ix, item, s)]) k =
    (candidateOf U w as k)\<lparr>fc_fusionScore := fc_fusionScore (candidateOf U w as k) + reciprocalRank w s,
      fc_sources := fc_sources (candidateOf U w as k) @ [s]\<rparr>"
    using e by (simp add: candidateOf_def Let_def)
  show "k \<notin> fst ` set as \<Longrightarrow> candidateOf U w (as @ [(k, a)]) k = candidateOf U w [(k, a)] k"
    using n by (simp add: candidateOf_def Let_def)
qed

lemma fold_addAppearance:
  "fold (addAppearance U w) as [] = map (\<lambda>k. (k, candidateOf U w as k)) (jsUnique (map fst as))"
proof (induction as rule: rev_induct)
  case Nil
  show ?case by (simp add: jsUnique_def)
next
  case (snoc a as)
  obtain k ix item s where a: "a = (k, ix, item, s)" by (cases a)
  have m: "map_of (map (\<lambda>k. (k, candidateOf U w as k)) (jsUnique (map fst as))) k =
      (if k \<in> fst ` set as then Some (candidateOf U w as k) else None)"
    by (auto simp: map_of_map_restrict jsUnique_set_distinct)
  have step: "fold (addAppearance U w) (as @ [a]) [] =
      addAppearance U w a (map (\<lambda>k. (k, candidateOf U w as k)) (jsUnique (map fst as)))"
    by (simp add: snoc)
  show ?case
  proof (cases "k \<in> fst ` set as")
    case True
    then show ?thesis unfolding step
      by (simp add: a addAppearance_def m jsUnique_snoc update_map_keys jsUnique_set_distinct
          candidateOf_snoc)
  next
    case False
    then have "candidateOf U w as k' = candidateOf U w (as @ [a]) k'" if "k' \<in> fst ` set as" for k'
      unfolding a using that False by (intro candidateOf_snoc(1) [symmetric]) metis
    with False show ?thesis unfolding step
      by (simp add: a addAppearance_def m jsUnique_snoc update_map_keys jsUnique_set_distinct
          candidateOf_snoc(3))
  qed
qed

lemma fuseProviders_candidates:
  assumes "parsesOwnUrls U"
  shows "\<exists>cs. fuseProviders U w 0 results [] = Inr cs \<and> map snd cs = mergedCandidates U w results"
  by (simp add: fuseProviders_adds [OF assms] fold_addAppearance mergedCandidates_def appearanceOrder_def
      appearances_def comp_def)

section \<open>Ranking\<close>

lemma mset_insertBy [simp]: "mset (insertBy cmp x xs) = add_mset x (mset xs)"
  by (induction xs) auto

lemma mset_sortBy [simp]: "mset (sortBy cmp xs) = mset xs"
  by (induction xs) (simp_all add: sortBy_def)

text \<open>A sort orders by any strict order that follows the sign of the comparator, and the original order
  of the list where the comparator does not decide.\<close>

lemma sorted_insertBy_before:
  assumes "\<And>y. y \<in> set xs \<Longrightarrow> cmp y x < 0 \<Longrightarrow> R y x" and "\<And>y. y \<in> set xs \<Longrightarrow> \<not> cmp y x < 0 \<Longrightarrow> R x y"
    and "\<And>x y z. R x y \<Longrightarrow> R y z \<Longrightarrow> R x z" and "sorted_wrt R xs"
  shows "sorted_wrt R (insertBy cmp x xs)"
  using assms(1,2,4)
proof (induction xs)
  case (Cons y ys)
  show ?case
  proof (cases "cmp y x < 0")
    case True
    with Cons show ?thesis by auto
  next
    case False
    then have "R x y" using Cons.prems(2) by simp
    with False Cons.prems(3) show ?thesis by (auto intro: assms(3))
  qed
qed simp

lemma sorted_sortBy_stable:
  assumes "\<And>x y. cmp x y < 0 \<Longrightarrow> R x y" and "\<And>x y. Q x y \<Longrightarrow> \<not> cmp y x < 0 \<Longrightarrow> R x y"
    and "\<And>x y z. R x y \<Longrightarrow> R y z \<Longrightarrow> R x z" and "sorted_wrt Q xs"
  shows "sorted_wrt R (sortBy cmp xs)"
  using assms(4)
proof (induction xs)
  case (Cons x xs)
  have "sorted_wrt R (insertBy cmp x (sortBy cmp xs))"
    using Cons by (intro sorted_insertBy_before [OF _ _ assms(3)]) (auto intro: assms(1,2))
  then show ?case by (simp add: sortBy_def)
qed (simp add: sortBy_def)

lemma sorted_wrt_unique:
  assumes "\<And>x y. R x y \<Longrightarrow> \<not> R y x" and "sorted_wrt R xs" and "sorted_wrt R ys" and "mset xs = mset ys"
  shows "xs = ys"
  using assms(2-4)
proof (induction xs arbitrary: ys)
  case (Cons x xs)
  then obtain y ys' where ys: "ys = y # ys'" by (cases ys) auto
  have "x = y"
  proof (rule ccontr)
    assume ne: "x \<noteq> y"
    have "set (x # xs) = set (y # ys')" using Cons.prems(3) ys mset_eq_setD by blast
    with ne have "y \<in> set xs" "x \<in> set ys'" by auto
    with Cons.prems(1,2) ys have "R x y" "R y x" by auto
    then show False using assms(1) by blast
  qed
  with Cons ys show ?case by simp
qed simp

text \<open>The order of the result list: by falling score, then by more appearances, then by the better best
  rank, then by the earlier provider, then as the collation says, and where it says nothing by first
  appearance.\<close>

definition outranks :: "(string \<Rightarrow> string \<Rightarrow> int) \<Rightarrow> string list \<Rightarrow> FusedCandidate \<Rightarrow> FusedCandidate \<Rightarrow> bool" where
  "outranks collate order x y \<longleftrightarrow>
     (let best = (\<lambda>c. Min (rs_rank ` set (fc_sources c)));
          position = (\<lambda>c. length (takeWhile (\<lambda>k. k \<noteq> fc_canonicalUrl c) order));
          collated = collate (fc_canonicalUrl x) (fc_canonicalUrl y)
      in fc_fusionScore y < fc_fusionScore x \<or> fc_fusionScore x = fc_fusionScore y \<and>
        (length (fc_sources y) < length (fc_sources x) \<or> length (fc_sources x) = length (fc_sources y) \<and>
        (best x < best y \<or> best x = best y \<and>
        (fc_firstProviderIndex x < fc_firstProviderIndex y \<or> fc_firstProviderIndex x = fc_firstProviderIndex y \<and>
        (collated < 0 \<or> collated = 0 \<and> position x < position y)))))"

text \<open>A collation orders its strings, if only in part: it answers a swapped question with the opposite
  sign, and is transitive. \<open>localeCompare\<close> is specified as a consistent comparator.\<close>

definition lawfulCollation :: "(string \<Rightarrow> string \<Rightarrow> int) \<Rightarrow> bool" where
  "lawfulCollation collate \<longleftrightarrow> (\<forall>a b. collate a b < 0 \<longleftrightarrow> 0 < collate b a) \<and>
     (\<forall>a b c. collate a b \<le> 0 \<longrightarrow> collate b c \<le> 0 \<longrightarrow> collate a c \<le> 0)"

lemma lawfulCollation_sign: "lawfulCollation collate \<Longrightarrow> collate a b < 0 \<longleftrightarrow> 0 < collate b a"
  by (simp add: lawfulCollation_def)

lemma collation_trans:
  assumes "lawfulCollation collate"
    and "collate a b < 0 \<or> collate a b = 0 \<and> (i :: nat) < j" and "collate b c < 0 \<or> collate b c = 0 \<and> j < k"
  shows "collate a c < 0 \<or> collate a c = 0 \<and> i < k"
proof (cases "collate a c < 0")
  case False
  note s = lawfulCollation_sign [OF assms(1)]
  have t: "collate x y \<le> 0 \<Longrightarrow> collate y z \<le> 0 \<Longrightarrow> collate x z \<le> 0" for x y z
    using assms(1) unfolding lawfulCollation_def by blast
  have "collate a c \<le> 0" using t [of a b c] assms(2,3) by auto
  with False have z: "collate a c = 0" by simp
  then have "collate c a \<le> 0" using s [of a c] by simp
  then have "\<not> collate a b < 0" "\<not> collate b c < 0"
    using t [of b c a] t [of c a b] assms(2,3) s [of a b] s [of b c] by auto
  with assms(2,3) z show ?thesis by auto
qed simp

lemma outranks_trans:
  assumes "lawfulCollation collate" and "outranks collate order x y" and "outranks collate order y z"
  shows "outranks collate order x z"
proof -
  let ?p = "\<lambda>c. length (takeWhile (\<lambda>k. k \<noteq> fc_canonicalUrl c) order)"
  have "collate (fc_canonicalUrl x) (fc_canonicalUrl z) < 0 \<or>
      collate (fc_canonicalUrl x) (fc_canonicalUrl z) = 0 \<and> ?p x < ?p z"
    if "collate (fc_canonicalUrl x) (fc_canonicalUrl y) < 0 \<or>
      collate (fc_canonicalUrl x) (fc_canonicalUrl y) = 0 \<and> ?p x < ?p y"
      "collate (fc_canonicalUrl y) (fc_canonicalUrl z) < 0 \<or>
      collate (fc_canonicalUrl y) (fc_canonicalUrl z) = 0 \<and> ?p y < ?p z"
    using collation_trans [OF assms(1) that] .
  with assms(2,3) show ?thesis unfolding outranks_def Let_def by (elim disjE conjE) auto
qed

lemma outranks_asym:
  assumes "lawfulCollation collate" and "outranks collate order x y"
  shows "\<not> outranks collate order y x"
proof -
  have "\<not> (collate a b < 0 \<and> collate b a < 0)" "collate a b < 0 \<Longrightarrow> collate b a \<noteq> 0" for a b
    using lawfulCollation_sign [OF assms(1), of a b] by linarith+
  with assms(2) show ?thesis unfolding outranks_def Let_def by (elim disjE conjE) auto
qed

lemma compareCandidates_outranks:
  assumes "lawfulCollation collate"
  shows "compareCandidates collate x y < 0 \<Longrightarrow> outranks collate order x y"
    and "length (takeWhile (\<lambda>k. k \<noteq> fc_canonicalUrl x) order) < length (takeWhile (\<lambda>k. k \<noteq> fc_canonicalUrl y) order) \<Longrightarrow>
      \<not> compareCandidates collate y x < 0 \<Longrightarrow> outranks collate order x y"
proof -
  have c: "\<not> collate b a < 0 \<Longrightarrow> collate a b < 0 \<or> collate a b = 0" for a b
    using lawfulCollation_sign [OF assms, of b a] by linarith
  show "compareCandidates collate x y < 0 \<Longrightarrow> outranks collate order x y"
    by (auto simp: compareCandidates_def outranks_def bestRank_def Let_def split: if_splits)
  show "length (takeWhile (\<lambda>k. k \<noteq> fc_canonicalUrl x) order) < length (takeWhile (\<lambda>k. k \<noteq> fc_canonicalUrl y) order) \<Longrightarrow>
      \<not> compareCandidates collate y x < 0 \<Longrightarrow> outranks collate order x y"
    using c [of "fc_canonicalUrl y" "fc_canonicalUrl x"]
    by (auto simp: compareCandidates_def outranks_def bestRank_def Let_def split: if_splits)
qed

lemma sorted_positions:
  "distinct ks \<Longrightarrow> sorted_wrt (\<lambda>a b. length (takeWhile (\<lambda>k. k \<noteq> a) ks) < length (takeWhile (\<lambda>k. k \<noteq> b) ks)) ks"
proof (induction ks)
  case (Cons x ks)
  from Cons have "sorted_wrt (\<lambda>a b. length (takeWhile (\<lambda>k. k \<noteq> a) ks) < length (takeWhile (\<lambda>k. k \<noteq> b) ks)) ks"
    by simp
  then have "sorted_wrt (\<lambda>a b. length (takeWhile (\<lambda>k. k \<noteq> a) (x # ks)) < length (takeWhile (\<lambda>k. k \<noteq> b) (x # ks))) ks"
    by (rule sorted_wrt_mono_rel [rotated]) (use Cons.prems in auto)
  with Cons.prems show ?case by auto
qed simp

text \<open>The ranking is the only list of the candidates in this order.\<close>

lemma ranking_exact:
  assumes "lawfulCollation collate"
  shows "mset ranked = mset (mergedCandidates U w results) \<and>
      sorted_wrt (outranks collate (appearanceOrder U results)) ranked \<longleftrightarrow>
    ranked = sortBy (compareCandidates collate) (mergedCandidates U w results)"
proof -
  let ?order = "appearanceOrder U results"
  have u: "fc_canonicalUrl (candidateOf U w as k) = k" for as k by (simp add: candidateOf_def Let_def)
  have "sorted_wrt (\<lambda>x y. length (takeWhile (\<lambda>k. k \<noteq> fc_canonicalUrl x) ?order) <
      length (takeWhile (\<lambda>k. k \<noteq> fc_canonicalUrl y) ?order)) (mergedCandidates U w results)"
    using sorted_positions [of ?order]
    by (simp add: mergedCandidates_def sorted_wrt_map u appearanceOrder_def jsUnique_set_distinct)
  then have "sorted_wrt (outranks collate ?order) (sortBy (compareCandidates collate) (mergedCandidates U w results))"
    by (rule sorted_sortBy_stable [where Q = "\<lambda>x y. length (takeWhile (\<lambda>k. k \<noteq> fc_canonicalUrl x) ?order) <
        length (takeWhile (\<lambda>k. k \<noteq> fc_canonicalUrl y) ?order)", rotated 3])
      (fact compareCandidates_outranks [OF assms] outranks_trans [OF assms])+
  then show ?thesis using sorted_wrt_unique [of "outranks collate ?order"] outranks_asym [OF assms]
    by (metis mset_sortBy)
qed

section \<open>The cut\<close>

definition hostCount :: "FusedCandidate list \<Rightarrow> string \<Rightarrow> nat" where
  "hostCount cs h = length (filter (\<lambda>c. fc_hostname c = h) cs)"

lemma hostCount_simps [simp]:
  "hostCount [] h = 0" "hostCount (xs @ ys) h = hostCount xs h + hostCount ys h"
  "hostCount (c # cs) h = (if fc_hostname c = h then Suc (hostCount cs h) else hostCount cs h)"
  by (simp_all add: hostCount_def)

text \<open>The members of a list before which fewer than two others have their hostname, also counting the
  members of \<open>prev\<close>.\<close>

definition twoPerHost :: "FusedCandidate list \<Rightarrow> FusedCandidate list \<Rightarrow> FusedCandidate list" where
  "twoPerHost prev cs = nths cs {i. hostCount (prev @ take i cs) (fc_hostname (cs ! i)) < 2}"

lemma twoPerHost_simps [code]:
  "twoPerHost prev [] = []"
  "twoPerHost prev (c # cs) =
     (if hostCount prev (fc_hostname c) < 2 then [c] else []) @ twoPerHost (prev @ [c]) cs"
  by (simp_all add: twoPerHost_def nths_Cons del: hostCount_simps(2))

lemma takeFused_exact:
  assumes "\<And>h. countOf counts h = min 2 (hostCount prev h)" and "int taken < n"
  shows "takeFused n counts taken cs = take (nat n - taken) (twoPerHost prev cs)"
  using assms
proof (induction cs arbitrary: prev counts taken)
  case (Cons c cs)
  let ?h = "fc_hostname c"
  show ?case
  proof (cases "hostCount prev ?h < 2")
    case False
    then have "countOf counts h = min 2 (hostCount (prev @ [c]) h)" for h
      using Cons.prems(1) by (auto simp: min_def)
    from Cons.IH [OF this Cons.prems(2)] False Cons.prems(1) show ?thesis
      by (simp add: twoPerHost_simps MAX_RESULTS_PER_HOSTNAME_def Let_def)
  next
    case True
    let ?counts = "AList.update ?h (countOf counts ?h + 1) counts"
    have c: "countOf ?counts h = min 2 (hostCount (prev @ [c]) h)" for h
      using Cons.prems(1) [of h] True by (auto simp: countOf_def)
    show ?thesis
    proof (cases "int (Suc taken) = n")
      case True
      then have "nat n - taken = 1" by simp
      with True \<open>hostCount prev ?h < 2\<close> Cons.prems(1) show ?thesis
        by (simp add: twoPerHost_simps MAX_RESULTS_PER_HOSTNAME_def Let_def)
    next
      case False
      then have "int (Suc taken) < n" using Cons.prems(2) by simp
      moreover have "nat n - taken = Suc (nat n - Suc taken)" using Cons.prems(2) by simp
      ultimately show ?thesis using Cons.IH [OF c] False True Cons.prems(1)
        by (simp add: twoPerHost_simps MAX_RESULTS_PER_HOSTNAME_def Let_def)
    qed
  qed
qed (simp add: twoPerHost_simps)

lemma fuse_ranked:
  assumes "1 \<le> n"
  shows "fuseProviders U w 0 results [] = Inr cs \<Longrightarrow> fuseSearchResults U collate results n w =
    Inr (map fusedItem (take (nat n) (twoPerHost [] (sortBy (compareCandidates collate) (map snd cs)))))"
  using takeFused_exact [of "[]" "[]" 0 n] assms by (simp add: fuseSearchResults_def countOf_def)

lemma fuse_length:
  assumes "fuseSearchResults U collate rs n w = Inr out" and "1 \<le> n"
  shows "int (length out) \<le> n"
proof -
  obtain cs where "fuseProviders U w 0 rs [] = Inr cs" using assms(1) by (auto simp: fuseSearchResults_def res_simps)
  from fuse_ranked [OF assms(2) this, of collate] assms show ?thesis by auto
qed

end
