(* ===== verification/SearchFacts.thy ===== *)
theory SearchFacts
  imports SearchRouter RoutingFacts FusionFacts
begin

text \<open>
  Lemmas on the parts of the search router: the filter checks, the choice of a batch, the logs of calls
  and decisions, the termination of the federated loop, and what both loops ask and report.
\<close>

section \<open>Domain filters\<close>

lemma checkMaxDomains_ok:
  "checkMaxDomains p kind limit n = Inr () \<longleftrightarrow> \<not> setAnd (\<lambda>k. n > k) limit"
  by (simp add: checkMaxDomains_def setAnd_def throwIf_def split: option.splits)

lemma providerMatchesFilters_iff:
  "providerMatchesFilters req p \<longleftrightarrow> validateDomainFilters req p None = Inr ()"
  by (auto simp: providerMatchesFilters_def validateDomainFilters_def checkDeploymentCap_def
      checkFilterMode_def checkMaxDomains_ok checkTimeRange_def res_simps Let_def)

section \<open>The choice of a batch\<close>

text \<open>The first loop keeps the selection distinct, with one provider per family, and within the limit.\<close>

lemma selectFamilies_props:
  assumes "selectFamilies limit ps selected families = (out, full)" and "length selected < limit"
    and "distinct (map searchProviderFamily selected)" and "set families = searchProviderFamily ` set selected"
  shows "\<exists>new. out = selected @ new \<and> set new \<subseteq> set ps \<and> distinct (map searchProviderFamily out) \<and>
    (if full then length out = limit
     else length out < limit \<and> searchProviderFamily ` set ps \<subseteq> searchProviderFamily ` set out)"
  using assms
proof (induction limit ps selected families rule: selectFamilies.induct)
  case (2 limit p ps selected families)
  let ?f = "searchProviderFamily p"
  show ?case
  proof (cases "?f \<in> set families")
    case True
    with 2 show ?thesis by (auto simp: Let_def split: if_splits)
  next
    case False
    then have d: "distinct (map searchProviderFamily (selected @ [p]))" using 2 by auto
    show ?thesis
    proof (cases "Suc (length selected) = limit")
      case True
      with 2 False d show ?thesis by (auto simp: Let_def)
    next
      case ne: False
      with 2(3-) False d have "\<exists>new. out = (selected @ [p]) @ new \<and> set new \<subseteq> set ps \<and>
          distinct (map searchProviderFamily out) \<and>
          (if full then length out = limit
           else length out < limit \<and> searchProviderFamily ` set ps \<subseteq> searchProviderFamily ` set out)"
        by (intro 2(2)) (auto simp: Let_def)
      then show ?thesis by (elim exE conjE, intro exI [of _ "p # _"]) (auto split: if_splits)
    qed
  qed
qed auto

lemma selectRest_props:
  assumes "length selected < limit" and "distinct selected"
  shows "\<exists>new. selectRest limit ps selected = selected @ new \<and> distinct (selected @ new) \<and> set new \<subseteq> set ps \<and>
    length (selected @ new) = min limit (card (set selected \<union> set ps))"
  using assms
proof (induction limit ps selected rule: selectRest.induct)
  case (1 limit selected)
  then show ?case by (simp add: distinct_card)
next
  case (2 limit p ps selected)
  show ?case
  proof (cases "p \<in> set selected")
    case True
    then have "set selected \<union> set (p # ps) = set selected \<union> set ps" by auto
    with True 2 show ?thesis by (auto simp: Let_def)
  next
    case False
    show ?thesis
    proof (cases "Suc (length selected) = limit")
      case True
      have "card (set (p # selected)) \<le> card (set selected \<union> set (p # ps))" by (rule card_mono) auto
      with False 2(4) True have "limit \<le> card (set selected \<union> set (p # ps))"
        by (simp add: distinct_card)
      with True False 2 show ?thesis by (intro exI [of _ "[p]"]) (auto simp: Let_def)
    next
      case ne: False
      with 2(3-) False have "\<exists>new. selectRest limit ps (selected @ [p]) = (selected @ [p]) @ new \<and>
          distinct ((selected @ [p]) @ new) \<and> set new \<subseteq> set ps \<and>
          length ((selected @ [p]) @ new) = min limit (card (set (selected @ [p]) \<union> set ps))"
        by (intro 2(2)) (auto simp: Let_def)
      moreover have "set (selected @ [p]) \<union> set ps = set selected \<union> set (p # ps)" by auto
      ultimately show ?thesis using False ne
        by (elim exE conjE, intro exI [of _ "p # _"]) (auto simp: Let_def)
    qed
  qed
qed

text \<open>A batch: distinct candidates, as many as the strategy takes, from different families as long as
  there are enough of them.\<close>

lemma selectSearchProviders_props:
  assumes "strategy \<noteq> FallbackSearch"
  shows "distinct (selectSearchProviders ids strategy)"
    and "set (selectSearchProviders ids strategy) \<subseteq> set ids"
    and "length (selectSearchProviders ids strategy) = min (strategyLimit strategy) (card (set ids))"
    and "strategyLimit strategy \<le> card (searchProviderFamily ` set ids) \<Longrightarrow>
      distinct (map searchProviderFamily (selectSearchProviders ids strategy))"
proof -
  have lim: "0 < strategyLimit strategy" using assms by (cases strategy) simp_all
  obtain sel full where s: "selectFamilies (strategyLimit strategy) (jsUnique ids) [] [] = (sel, full)"
    by fastforce
  from selectFamilies_props [OF s] lim have p: "set sel \<subseteq> set ids" "distinct (map searchProviderFamily sel)"
    "if full then length sel = strategyLimit strategy else length sel < strategyLimit strategy \<and>
       searchProviderFamily ` set ids \<subseteq> searchProviderFamily ` set sel"
    by (cases full; clarsimp)+
  have d: "distinct sel" using p(2) by (simp add: distinct_map)
  have c: "length sel \<le> card (set ids)"
    using p(1) d by (metis card_mono distinct_card finite_set)
  have "distinct (selectSearchProviders ids strategy) \<and> set (selectSearchProviders ids strategy) \<subseteq> set ids \<and>
    length (selectSearchProviders ids strategy) = min (strategyLimit strategy) (card (set ids)) \<and>
    (strategyLimit strategy \<le> card (searchProviderFamily ` set ids) \<longrightarrow>
      distinct (map searchProviderFamily (selectSearchProviders ids strategy)))"
  proof (cases full)
    case True
    with assms s p d c show ?thesis by (auto simp: selectSearchProviders_def Let_def min_def)
  next
    case False
    with p have l: "length sel < strategyLimit strategy"
      "searchProviderFamily ` set ids \<subseteq> searchProviderFamily ` set sel" by auto
    from selectRest_props [OF l(1) d, of "jsUnique ids"] obtain new where
      n: "selectRest (strategyLimit strategy) (jsUnique ids) sel = sel @ new" "distinct (sel @ new)"
        "set new \<subseteq> set ids" "length (sel @ new) = min (strategyLimit strategy) (card (set sel \<union> set ids))"
      by auto
    have "set sel \<union> set ids = set ids" using p(1) by auto
    moreover have "card (searchProviderFamily ` set ids) < strategyLimit strategy"
      using l p(2) by (metis card_mono distinct_card dual_order.strict_trans2 finite_imageI finite_set
          leD leI length_map list.set_map)
    ultimately show ?thesis using assms s False n p(1)
      by (auto simp: selectSearchProviders_def Let_def)
  qed
  then show "distinct (selectSearchProviders ids strategy)"
    "set (selectSearchProviders ids strategy) \<subseteq> set ids"
    "length (selectSearchProviders ids strategy) = min (strategyLimit strategy) (card (set ids))"
    "strategyLimit strategy \<le> card (searchProviderFamily ` set ids) \<Longrightarrow>
      distinct (map searchProviderFamily (selectSearchProviders ids strategy))"
    by blast+
qed

section \<open>The shared state\<close>

text \<open>Only a charge decides about a provider, and only a call is logged as one.\<close>

lemma logs_kept [simp]:
  "sw_calls (othersDo f w) = sw_calls w" "sw_decisions (othersDo f w) = sw_decisions w"
  "sw_calls (sharedHealth g w) = sw_calls w" "sw_decisions (sharedHealth g w) = sw_decisions w"
  "sw_calls (snd (sharedRemaining now i w)) = sw_calls w"
  "sw_decisions (snd (sharedRemaining now i w)) = sw_decisions w"
  "sw_calls (recordOutcome env oc w) = sw_calls w" "sw_decisions (recordOutcome env oc w) = sw_decisions w"
  by (simp_all add: othersDo_def sharedHealth_def sharedRemaining_def recordOutcome_def Let_def
      split: option.splits prod.splits)

lemma logs_recorded [simp]:
  "sw_calls (fold (recordOutcome env) os w) = sw_calls w"
  "sw_decisions (fold (recordOutcome env) os w) = sw_decisions w"
  by (induction os arbitrary: w) simp_all

lemma sharedConsume_logs:
  assumes "sharedConsume now i w = (ok, w')"
  shows "sw_calls w' = sw_calls w" and "sw_decisions w' = sw_decisions w @ [(i, ok)]"
  using assms by (auto simp: sharedConsume_def split: option.splits prod.splits)

lemma resolveSearchIds_logs [simp]:
  "sw_calls (snd (resolveSearchIds rt req now ids w)) = sw_calls w \<and>
   sw_decisions (snd (resolveSearchIds rt req now ids w)) = sw_decisions w"
proof (induction ids arbitrary: w)
  case (Cons i ids)
  have "sw_calls (snd (resolveSearchIds rt req now ids (snd (sharedRemaining now k w)))) = sw_calls w \<and>
      sw_decisions (snd (resolveSearchIds rt req now ids (snd (sharedRemaining now k w)))) = sw_decisions w" for k
    using Cons.IH [of "snd (sharedRemaining now k w)"] by simp
  with Cons.IH [of w] show ?case
    by (auto simp: case_prod_unfold Let_def split: option.splits)
qed simp

text \<open>Between two states of a search the providers \<open>tried\<close> were considered in order, once each, and exactly
  those of them that were admitted, \<open>cs\<close>, were called, in order.\<close>

definition askedBetween :: "search_run \<Rightarrow> search_run \<Rightarrow> SearchProvider list \<Rightarrow> SearchProvider list \<Rightarrow> bool" where
  "askedBetween w w' tried cs \<longleftrightarrow> subseq cs tried \<and> sw_calls w' = sw_calls w @ map pv_id cs \<and>
     (\<exists>ds. sw_decisions w' = sw_decisions w @ ds \<and> map fst ds = map pv_id tried \<and>
       map fst (filter snd ds) = map pv_id cs)"

lemma askedBetween_none:
  "sw_calls w' = sw_calls w \<Longrightarrow> sw_decisions w' = sw_decisions w \<Longrightarrow> askedBetween w w' [] []"
  by (simp add: askedBetween_def)

lemma askedBetween_trans:
  assumes "askedBetween w w1 t c" and "askedBetween w1 w' t' c'"
  shows "askedBetween w w' (t @ t') (c @ c')"
proof -
  obtain ds ds' where "sw_decisions w1 = sw_decisions w @ ds" "map fst ds = map pv_id t"
    "map fst (filter snd ds) = map pv_id c" "sw_decisions w' = sw_decisions w1 @ ds'"
    "map fst ds' = map pv_id t'" "map fst (filter snd ds') = map pv_id c'"
    using assms by (auto simp: askedBetween_def)
  then show ?thesis using assms
    by (auto simp: askedBetween_def list_emb_append_mono intro!: exI [of _ "ds @ ds'"])
qed

lemma askedBetween_logs:
  assumes "askedBetween w w1 t c" and "sw_calls w' = sw_calls w1" and "sw_decisions w' = sw_decisions w1"
  shows "askedBetween w w' t c"
  using askedBetween_trans [OF assms(1) askedBetween_none [OF assms(2,3)]] by simp

lemma chargeBatch_logs:
  assumes "chargeBatch now ps w = (gs, w')"
  shows "length gs = length ps" and "sw_calls w' = sw_calls w"
    and "sw_decisions w' = sw_decisions w @ zip (map pv_id ps) gs"
proof -
  have "length gs = length ps \<and> sw_calls w' = sw_calls w \<and>
      sw_decisions w' = sw_decisions w @ zip (map pv_id ps) gs"
    using assms
    by (induction ps arbitrary: w gs w') (auto simp: Let_def dest: sharedConsume_logs split: prod.splits)
  then show "length gs = length ps" "sw_calls w' = sw_calls w"
    "sw_decisions w' = sw_decisions w @ zip (map pv_id ps) gs" by blast+
qed

text \<open>A batch is a list of the router's providers with distinct identifiers.\<close>

lemma map_of_providers_filter:
  assumes "providersKeyed m" and "\<And>i. i \<in> set ids \<Longrightarrow> map_of m i \<noteq> None"
  shows "map pv_id (List.map_filter (map_of m) ids) = ids"
  using assms(2) by (induction ids) (auto simp: List.map_filter_def providersKeyedD [OF assms(1)])

definition knownProviders :: "'u search_router \<Rightarrow> SearchProvider list \<Rightarrow> bool" where
  "knownProviders rt ps \<longleftrightarrow> (\<forall>p \<in> set ps. map_of (sx_providers rt) (pv_id p) = Some p)"

lemma selectProviderBatch_props:
  assumes "providersKeyed (sx_providers rt)" and "knownProviders rt ps" and "strategy \<noteq> FallbackSearch"
  shows "map pv_id (selectProviderBatch rt ps strategy) = selectSearchProviders (map pv_id ps) strategy"
    and "set (selectProviderBatch rt ps strategy) \<subseteq> set ps"
    and "ps \<noteq> [] \<Longrightarrow> selectProviderBatch rt ps strategy \<noteq> []"
proof -
  let ?ids = "selectSearchProviders (map pv_id ps) strategy"
  have sub: "set ?ids \<subseteq> pv_id ` set ps"
    using selectSearchProviders_props(2) [OF assms(3), of "map pv_id ps"] by simp
  then have k: "i \<in> set ?ids \<Longrightarrow> \<exists>p \<in> set ps. map_of (sx_providers rt) i = Some p" for i
    using assms(2) by (force simp: knownProviders_def)
  show ids: "map pv_id (selectProviderBatch rt ps strategy) = ?ids"
    unfolding selectProviderBatch_def using k by (intro map_of_providers_filter [OF assms(1)]) auto
  show "set (selectProviderBatch rt ps strategy) \<subseteq> set ps"
    using k by (fastforce simp: selectProviderBatch_def set_map_filter)
  show "selectProviderBatch rt ps strategy \<noteq> []" if "ps \<noteq> []"
  proof -
    have "0 < strategyLimit strategy" using assms(3) by (cases strategy) simp_all
    moreover have "0 < card (set (map pv_id ps))" using that by (simp add: card_gt_0_iff)
    ultimately have "0 < length ?ids" using selectSearchProviders_props(3) [OF assms(3)] by simp
    with ids show ?thesis by (metis length_map less_numeral_extra(3) list.size(3))
  qed
qed

section \<open>The federated loop\<close>

text \<open>Every round takes at least one provider out of the remaining ones, so the loop ends.\<close>

lemma federatedLoop_ends:
  assumes "providersKeyed (sx_providers rt)" and "strategy \<noteq> FallbackSearch" and "knownProviders rt ps"
  shows "federatedLoop rt env req strategy n ps sel att ws sh \<noteq> None"
  using assms(3)
proof (induction "length ps" arbitrary: n ps sel att ws sh rule: less_induct)
  case less
  let ?batch = "selectProviderBatch rt ps strategy"
  let ?rest = "filter (\<lambda>p. pv_id p \<notin> set (map pv_id ?batch)) ps"
  show ?case
  proof (cases "ps = []")
    case True
    then show ?thesis by (simp add: federatedLoop.simps)
  next
    case False
    from selectProviderBatch_props [OF assms(1) less.prems assms(2)] False
    have b: "?batch \<noteq> []" "set ?batch \<subseteq> set ps" by auto
    then obtain p where "p \<in> set ?batch" "p \<in> set ps" by (meson last_in_set subset_iff)
    then have "length ?rest < length ps" by (intro length_filter_less [of p]) auto
    moreover have "knownProviders rt ?rest" using less.prems by (simp add: knownProviders_def)
    ultimately have ih: "federatedLoop rt env req strategy n' ?rest sel' att' ws' sh' \<noteq> None"
      for n' sel' att' ws' sh' by (rule less.hyps)
    show ?thesis using False b(1) ih
      by (subst federatedLoop.simps) (simp add: Let_def split: sum.splits)
  qed
qed

lemma resolveSearchIds_props:
  assumes "providersKeyed (sx_providers rt)" and "resolveSearchIds rt req now ids sh = ((ps, ws), sh')"
  shows "\<exists>js. map pv_id ps = js \<and> subseq js ids \<and> knownProviders rt ps \<and>
    (\<forall>p \<in> set ps. pv_supports p req)"
  using assms(2)
proof (induction ids arbitrary: sh ps ws sh')
  case Nil
  then show ?case by (simp add: knownProviders_def)
next
  case (Cons i ids)
  show ?case
  proof (cases "map_of (sx_providers rt) i")
    case None
    with Cons show ?thesis by fastforce
  next
    case (Some p)
    obtain r sh1 where r: "sharedRemaining now (pv_id p) sh = (r, sh1)" by fastforce
    obtain ps2 ws2 sh2 where rest: "resolveSearchIds rt req now ids sh1 = ((ps2, ws2), sh2)"
      by (metis prod.collapse)
    have i: "pv_id p = i" using providersKeyedD [OF assms(1) Some] .
    from Cons.IH [OF rest] Cons.IH [of sh ps ws sh'] Cons.prems Some i show ?thesis
      by (auto simp: r rest knownProviders_def split: if_splits)
  qed
qed

lemma resolveSearchProviders_props:
  assumes "providersKeyed (sx_providers rt)" and "resolveSearchProviders rt req now sh = ((ps, ws), sh')"
  shows "distinct (map pv_id ps)" and "set (map pv_id ps) \<subseteq> set (searchCandidates rt req)"
    and "knownProviders rt ps" and "\<And>p. p \<in> set ps \<Longrightarrow> pv_supports p req"
proof -
  have s: "subseq (map pv_id ps) (jsUnique (searchCandidates rt req))"
    and k: "knownProviders rt ps \<and> (\<forall>p \<in> set ps. pv_supports p req)"
    using resolveSearchIds_props [OF assms(1) assms(2) [unfolded resolveSearchProviders_def]] by auto
  show "distinct (map pv_id ps)" using s by (metis distinct_jsUnique distinct_nthsI subseq_conv_nths)
  show "set (map pv_id ps) \<subseteq> set (searchCandidates rt req)"
    using s by (metis set_jsUnique set_nths_subset subseq_conv_nths)
  show "knownProviders rt ps" "\<And>p. p \<in> set ps \<Longrightarrow> pv_supports p req" using k by auto
qed

section \<open>What a search asks and reports\<close>

definition answers :: "SearchRequest \<Rightarrow> SearchProvider \<Rightarrow> bool" where
  "answers req p = (case pv_call p req of Inr _ \<Rightarrow> True | Inl _ \<Rightarrow> False)"

lemma answers_simps:
  "pv_call p req = Inr x \<Longrightarrow> answers req p" "pv_call p req = Inl e \<Longrightarrow> \<not> answers req p"
  by (simp_all add: answers_def)

text \<open>A result that reports exactly the providers \<open>cs\<close> as attempted and those of them that answered as
  succeeded, of which there is at least one.\<close>

definition reportsAsked :: "SearchRequest \<Rightarrow> SearchProvider list \<Rightarrow> SearchResult \<Rightarrow> bool" where
  "reportsAsked req cs x \<longleftrightarrow> se_providersAttempted x = Some (map pv_id cs) \<and>
     se_providersSucceeded x = Some (map pv_id (filter (answers req) cs)) \<and> filter (answers req) cs \<noteq> [] \<and>
     int (length (se_results x)) \<le> maxResultsOf req"

lemma searchFallbackLoop_asks:
  assumes "searchFallbackLoop env req ex provs n ps (map pv_id asked) ws w = (r, w')"
    and "filter (answers req) asked = []" and "0 \<le> maxResultsOf req"
  shows "\<exists>tried cs. prefix tried ps \<and> askedBetween w w' tried cs \<and>
    (\<forall>x. r = Inr x \<longrightarrow> reportsAsked req (asked @ cs) x \<and> se_providersSelected x = Some (map pv_id provs))"
  using assms
proof (induction ps arbitrary: n asked ws w)
  case Nil
  then show ?case by (auto intro!: exI [of _ "[]"] askedBetween_none)
next
  case (Cons p ps)
  obtain granted w1 where g: "sharedConsume (sv_clock env n) (pv_id p) (othersDo (sv_before env n) w) = (granted, w1)"
    by fastforce
  note logs = sharedConsume_logs [OF g, simplified]
  show ?case
  proof (cases granted)
    case False
    have one: "askedBetween w w1 [p] []" using logs False by (simp add: askedBetween_def)
    show ?thesis
    proof (cases "length provs = 1")
      case True
      with Cons.prems(1) g False one show ?thesis
        by (intro exI [of _ "[p]"] exI [of _ "[]"]) auto
    next
      case more: False
      with Cons.prems(1) g False obtain n' ws' where
        "searchFallbackLoop env req ex provs n' ps (map pv_id asked) ws' w1 = (r, w')" by auto
      from Cons.IH [OF this Cons.prems(2,3)] obtain tried cs where ih: "prefix tried ps" "askedBetween w1 w' tried cs"
        "\<forall>x. r = Inr x \<longrightarrow> reportsAsked req (asked @ cs) x \<and> se_providersSelected x = Some (map pv_id provs)"
        by blast
      from askedBetween_trans [OF one ih(2)] ih(1,3) show ?thesis
        by (intro exI [of _ "p # tried"] exI [of _ cs]) auto
    qed
  next
    case True
    define w2 where "w2 = othersDo (sv_during env n) (snd (askProvider p req w1))"
    have one: "askedBetween w w2 [p] [p]" using logs True by (simp add: askedBetween_def w2_def askProvider_def)
    show ?thesis
    proof (cases "pv_call p req")
      case (Inr x)
      with Cons.prems(1) g True have w': "w' = sharedHealth (health_recordSuccess (sv_settled env (pv_id p)) (pv_id p)) w2"
        and r: "r = Inr (fallbackResult p (normalizeProviderResult p x (nat (maxResultsOf req))) provs
          (map pv_id asked @ [pv_id p]) ws)"
        by (auto simp: askProvider_def w2_def Let_def)
      have "askedBetween w w' [p] [p]" by (rule askedBetween_logs [OF one]) (simp_all add: w')
      with Inr r Cons.prems(2,3) show ?thesis
        by (intro exI [of _ "[p]"])
          (auto simp: reportsAsked_def answers_simps fallbackResult_def normalizeProviderResult_def)
    next
      case (Inl err)
      define w3 where "w3 = sharedHealth (health_recordFailure (sv_settled env (pv_id p)) (pv_id p)) w2"
      have two: "askedBetween w w3 [p] [p]" by (rule askedBetween_logs [OF one]) (simp_all add: w3_def)
      from Cons.prems(1) g True Inl consider (stop) e where "r = Inl e" "w' = w3"
        | (go) n' ws' where "searchFallbackLoop env req ex provs n' ps (map pv_id (asked @ [p])) ws' w3 = (r, w')"
        by (auto simp: askProvider_def w2_def w3_def Let_def split: if_splits)
      then show ?thesis
      proof cases
        case stop
        with two show ?thesis by (intro exI [of _ "[p]"]) auto
      next
        case go
        have "filter (answers req) (asked @ [p]) = []" using Cons.prems(2) Inl by (simp add: answers_simps)
        from Cons.IH [OF go this Cons.prems(3)] obtain tried cs where ih: "prefix tried ps" "askedBetween w3 w' tried cs"
          "\<forall>x. r = Inr x \<longrightarrow> reportsAsked req ((asked @ [p]) @ cs) x \<and>
            se_providersSelected x = Some (map pv_id provs)" by blast
        from askedBetween_trans [OF two ih(2)] ih(1,3) show ?thesis
          by (intro exI [of _ "p # tried"] exI [of _ "p # cs"]) auto
      qed
    qed
  qed
qed

lemma batchOutcomes_asks:
  assumes "length gs = length ps" and "batchOutcomes req (zip ps gs) w = (os, w')"
  shows "sw_decisions w' = sw_decisions w \<and>
    sw_calls w' = sw_calls w @ map pv_id (map fst (filter snd (zip ps gs))) \<and>
    map oc_provider (filter oc_attempted os) = map fst (filter snd (zip ps gs)) \<and>
    map se_provider (List.map_filter oc_result os) =
      map pv_id (filter (answers req) (map fst (filter snd (zip ps gs))))"
  using assms
proof (induction gs ps arbitrary: w os w' rule: list_induct2)
  case Nil
  then show ?case by (simp add: List.map_filter_def)
next
  case (Cons g gs p ps)
  obtain oc w1 where oc: "batchOutcome req p g w = (oc, w1)" by fastforce
  with Cons.prems obtain ocs where os: "batchOutcomes req (zip ps gs) w1 = (ocs, w')" "os = oc # ocs"
    by (auto split: prod.splits)
  from Cons.IH [OF os(1)] oc show ?case
    by (cases g; cases "pv_call p req")
      (auto simp: os(2) batchOutcome_def askProvider_def answers_simps normalizeProviderResult_def List.map_filter_def)
qed

lemma searchBatch_asks:
  assumes "searchBatch env n req batch w = (os, w')"
  shows "\<exists>cs. askedBetween w w' batch cs \<and> map (pv_id \<circ> oc_provider) (filter oc_attempted os) = map pv_id cs \<and>
    map se_provider (List.map_filter oc_result os) = map pv_id (filter (answers req) cs)"
proof -
  obtain gs w1 where c: "chargeBatch (sv_clock env n) batch (othersDo (sv_before env n) w) = (gs, w1)" by fastforce
  with assms obtain w2 where o: "batchOutcomes req (zip batch gs) w1 = (os, w2)"
    "w' = fold (recordOutcome env) os (othersDo (sv_during env n) w2)"
    by (auto simp: searchBatch_def split: prod.splits)
  note c = chargeBatch_logs [OF c, simplified]
  let ?cs = "map fst (filter snd (zip batch gs))"
  have l: "length gs = length batch" by (rule c(1))
  have z: "map fst (filter snd (zip (map pv_id batch) gs)) = map pv_id ?cs"
    using l [symmetric] by (induction batch gs rule: list_induct2) auto
  have "subseq ?cs (map fst (zip batch gs))" by (intro subseq_map subseq_filter_left)
  then have "subseq ?cs batch" by (simp add: l)
  moreover note b = batchOutcomes_asks [OF l o(1)]
  ultimately have "askedBetween w w' batch ?cs" using c z b l by (auto simp: askedBetween_def o(2))
  moreover have "map (pv_id \<circ> oc_provider) (filter oc_attempted os) = map pv_id ?cs"
    using b by (metis map_map)
  ultimately show ?thesis using b by blast
qed

lemma federatedLoop_asks:
  assumes "providersKeyed (sx_providers rt)" and "strategy \<noteq> FallbackSearch" and "1 \<le> maxResultsOf req"
    and "knownProviders rt ps" and "distinct (map pv_id ps)" and "filter (answers req) asked = []"
    and "federatedLoop rt env req strategy n ps sel (map pv_id asked) ws w = Some (r, w')"
  shows "\<exists>tried cs. askedBetween w w' tried cs \<and> distinct (map pv_id tried) \<and> set tried \<subseteq> set ps \<and>
    (\<forall>x. r = Inr x \<longrightarrow> reportsAsked req (asked @ cs) x \<and> se_providersSelected x = Some (sel @ map pv_id tried))"
  using assms(4-7)
proof (induction "length ps" arbitrary: n ps sel asked ws w rule: less_induct)
  case less
  let ?batch = "selectProviderBatch rt ps strategy"
  let ?rest = "filter (\<lambda>p. pv_id p \<notin> set (map pv_id ?batch)) ps"
  show ?case
  proof (cases "ps = []")
    case True
    with less.prems(4) show ?thesis
      by (auto simp: federatedLoop.simps intro!: exI [of _ "[]"] askedBetween_none)
  next
    case ne: False
    note b = selectProviderBatch_props [OF assms(1) less.prems(1) assms(2)]
    have ids: "distinct (map pv_id ?batch)"
      using selectSearchProviders_props(1) [OF assms(2), of "map pv_id ps"] by (simp add: b(1))
    obtain os w1 where o: "searchBatch env n req ?batch w = (os, w1)" by fastforce
    from searchBatch_asks [OF o] obtain cs where c: "askedBetween w w1 ?batch cs"
      "map (pv_id \<circ> oc_provider) (filter oc_attempted os) = map pv_id cs"
      "map se_provider (List.map_filter oc_result os) = map pv_id (filter (answers req) cs)" by blast
    have bne: "?batch \<noteq> []" by (rule b(3) [OF ne])
    from less.prems(4) ne bne o c(2) consider (cancelled) e where "r = Inl e" "w' = w1"
      | (answered) ws' where "List.map_filter oc_result os \<noteq> []" "w' = w1"
          "r = federatedResult rt env req strategy (List.map_filter oc_result os) (sel @ map pv_id ?batch)
            (map pv_id (asked @ cs)) ws' w1"
      | (again) ws' where "List.map_filter oc_result os = []"
          "federatedLoop rt env req strategy (Suc n) ?rest (sel @ map pv_id ?batch) (map pv_id (asked @ cs)) ws' w1 =
            Some (r, w')"
      by (subst (asm) federatedLoop.simps) (auto simp: Let_def split: sum.splits if_splits)
    then show ?thesis
    proof cases
      case cancelled
      with c(1) ids b(2) show ?thesis by blast
    next
      case answered
      have "reportsAsked req (asked @ cs) x \<and> se_providersSelected x = Some (sel @ map pv_id ?batch)"
        if "r = Inr x" for x
      proof -
        have "filter (answers req) cs \<noteq> []" using answered(1) c(3) by auto
        with that answered(3) c(3) less.prems(3) fuse_length [OF _ assms(3)] show ?thesis
          by (auto simp: federatedResult_def reportsAsked_def res_simps)
      qed
      with c(1) ids b(2) answered(2) show ?thesis by blast
    next
      case again
      obtain p where "p \<in> set ?batch" "p \<in> set ps" using b(2) bne by (meson last_in_set subset_iff)
      then have "length ?rest < length ps" by (intro length_filter_less [of p]) auto
      moreover have "knownProviders rt ?rest" "distinct (map pv_id ?rest)"
        using less.prems(1,2) by (simp_all add: knownProviders_def distinct_map_filter)
      moreover have "filter (answers req) (asked @ cs) = []" using less.prems(3) again(1) c(3) by auto
      ultimately have "\<exists>tried cs'. askedBetween w1 w' tried cs' \<and> distinct (map pv_id tried) \<and>
          set tried \<subseteq> set ?rest \<and> (\<forall>x. r = Inr x \<longrightarrow> reportsAsked req ((asked @ cs) @ cs') x \<and>
            se_providersSelected x = Some ((sel @ map pv_id ?batch) @ map pv_id tried))"
        using again(2) by (intro less.hyps)
      then obtain tried cs' where ih: "askedBetween w1 w' tried cs'" "distinct (map pv_id tried)"
        "set tried \<subseteq> set ?rest" "\<forall>x. r = Inr x \<longrightarrow> reportsAsked req ((asked @ cs) @ cs') x \<and>
          se_providersSelected x = Some ((sel @ map pv_id ?batch) @ map pv_id tried)" by blast
      have new: "pv_id q \<notin> pv_id ` set ?batch" if "q \<in> set tried" for q using subsetD [OF ih(3) that] by simp
      have "pv_id ` set ?batch \<inter> pv_id ` set tried = {}"
      proof (intro equals0I, elim IntE)
        fix i assume i: "i \<in> pv_id ` set ?batch" and "i \<in> pv_id ` set tried"
        then obtain q where "q \<in> set tried" "i = pv_id q" by blast
        with new [of q] i show False by simp
      qed
      then have "distinct (map pv_id (?batch @ tried))" "set (?batch @ tried) \<subseteq> set ps"
        using ids b(2) ih(2,3) by auto
      with askedBetween_trans [OF c(1) ih(1)] ih(4) show ?thesis
        by (intro exI [of _ "?batch @ tried"] exI [of _ "cs @ cs'"]) simp
    qed
  qed
qed

end
