(* ===== verification/SearchProperties.thy ===== *)
theory SearchProperties
  imports SearchFacts
begin

text \<open>
  The properties of the search router and of its parts, with a small configuration on which they are
  applied.
\<close>

section \<open>Domain filters\<close>

text \<open>A request passes the filter checks exactly when it has no filters, or it is within the deployment
  cap and the strict per-provider validation accepts it for the explicit provider, or for at least
  one candidate when none is named: the fast test of the candidates and the validation that explains
  its refusals agree.\<close>

theorem domain_filters_agree:
  "validateDomainFiltersForRequest req explicit candidates cap = Inr () \<longleftrightarrow>
     (requestFilterMode req = NoFilter \<and> sr_timeRange req = None) \<or>
     (checkDeploymentCap req cap = Inr () \<and>
      (case explicit of
         Some p \<Rightarrow> validateDomainFilters req p None = Inr ()
       | None \<Rightarrow> list_ex (\<lambda>p. validateDomainFilters req p None = Inr ()) candidates))"
  by (auto simp: validateDomainFiltersForRequest_def list_ex_iff providerMatchesFilters_iff Let_def res_simps
      split: option.splits)

section \<open>Health\<close>

definition failAt :: "string \<Rightarrow> int list \<Rightarrow> HealthTracker \<Rightarrow> HealthTracker" where
  "failAt p ts h = fold (\<lambda>t. health_recordFailure t p) ts h"

lemma failAt_config [simp]: "ht_config (failAt p ts h) = ht_config h"
  by (induction ts arbitrary: h) (simp_all add: failAt_def health_recordFailure_def Let_def)

lemma failAt_circuit:
  assumes "map_of (ht_circuits h) p = None" and "ts \<noteq> []"
  shows "\<exists>c. map_of (ht_circuits (failAt p ts h)) p = Some c \<and>
    (if int (length ts) < hc_circuitThreshold (ht_config h)
     then ct_consecutive c = int (length ts) \<and> ct_openUntil c = 0
     else hc_circuitThreshold (ht_config h) \<le> ct_consecutive c \<and>
       ct_openUntil c = last ts + hc_circuitCooldownMs (ht_config h))"
  using assms(2)
proof (induction ts rule: rev_induct)
  case (snoc t ts)
  show ?case
  proof (cases "ts = []")
    case True
    with assms(1) show ?thesis
      by (simp add: failAt_def health_recordFailure_def failedCircuit_def Let_def)
  next
    case False
    with snoc.IH show ?thesis
      using failAt_config [of p ts h]
      by (auto simp: failAt_def health_recordFailure_def failedCircuit_def Let_def split: if_splits)
  qed
qed simp

lemma failAt_other:
  "q \<noteq> p \<Longrightarrow> map_of (ht_circuits (failAt p ts h)) q = map_of (ht_circuits h) q"
  by (induction ts arbitrary: h) (simp_all add: failAt_def health_recordFailure_def Let_def)

text \<open>The circuit breaker: after a provider without a record fails at the times \<open>ts\<close>, it is refused
  exactly when there were at least \<open>circuitThreshold\<close> failures and the cool-down after the last one
  has not passed; one success closes the circuit at once; other providers are not affected.\<close>

theorem health_circuit_exact:
  assumes "map_of (ht_circuits h) p = None" and "ts \<noteq> []"
  shows "(health_isHealthy (failAt p ts h) now p \<longleftrightarrow>
      int (length ts) < hc_circuitThreshold (ht_config h) \<or>
      last ts + hc_circuitCooldownMs (ht_config h) \<le> now) \<and>
    health_isHealthy (health_recordSuccess now' p (failAt p ts h)) now p \<and>
    (q \<noteq> p \<longrightarrow> health_isHealthy (failAt p ts h) now q = health_isHealthy h now q)"
proof (intro conjI impI)
  from failAt_circuit [OF assms] obtain c where c: "map_of (ht_circuits (failAt p ts h)) p = Some c"
    "if int (length ts) < hc_circuitThreshold (ht_config h)
     then ct_consecutive c = int (length ts) \<and> ct_openUntil c = 0
     else hc_circuitThreshold (ht_config h) \<le> ct_consecutive c \<and>
       ct_openUntil c = last ts + hc_circuitCooldownMs (ht_config h)" by blast
  then show "health_isHealthy (failAt p ts h) now p \<longleftrightarrow>
      int (length ts) < hc_circuitThreshold (ht_config h) \<or>
      last ts + hc_circuitCooldownMs (ht_config h) \<le> now"
    by (auto simp: health_isHealthy_def split: if_splits)
  show "health_isHealthy (health_recordSuccess now' p (failAt p ts h)) now p"
    by (simp add: health_isHealthy_def health_recordSuccess_def Let_def split: option.splits)
  show "health_isHealthy (failAt p ts h) now q = health_isHealthy h now q" if "q \<noteq> p"
    using failAt_other [OF that, of ts h] by (simp add: health_isHealthy_def split: option.splits)
qed

theorem health_circuit_exact_witness:
  "\<not> health_isHealthy (failAt ''exa'' [1, 2, 3, 4, 5] (health_create HEALTH_DEFAULT_CONFIG)) 60004 ''exa'' \<and>
   health_isHealthy (failAt ''exa'' [1, 2, 3, 4, 5] (health_create HEALTH_DEFAULT_CONFIG)) 60005 ''exa''"
proof -
  have n: "map_of (ht_circuits (health_create HEALTH_DEFAULT_CONFIG)) ''exa'' = None"
    by (simp add: health_create_def)
  from health_circuit_exact [OF n, of "[1, 2, 3, 4, 5]" 60004] health_circuit_exact [OF n, of "[1, 2, 3, 4, 5]" 60005]
  show ?thesis by (simp add: health_create_def HEALTH_DEFAULT_CONFIG_def)
qed

section \<open>Batches\<close>

text \<open>A batch of a federated strategy has no duplicates, comes from the candidates, has as many members
  as the strategy takes (or all candidates when there are fewer), and mixes families: when the
  candidates have enough different families, no two members share one.\<close>

theorem batch_selection:
  assumes "strategy \<noteq> FallbackSearch"
  shows "distinct (selectSearchProviders ids strategy) \<and>
    set (selectSearchProviders ids strategy) \<subseteq> set ids \<and>
    length (selectSearchProviders ids strategy) = min (strategyLimit strategy) (card (set ids)) \<and>
    (strategyLimit strategy \<le> card (searchProviderFamily ` set ids) \<longrightarrow>
      distinct (map searchProviderFamily (selectSearchProviders ids strategy)))"
  using selectSearchProviders_props [OF assms, of ids] by blast

theorem batch_selection_witness:
  "selectSearchProviders [''tavily'', ''linkup'', ''exa'', ''brave''] Deep = [''tavily'', ''exa'', ''brave''] \<and>
   length (selectSearchProviders [''tavily'', ''linkup'', ''tavily''] Deep) = 2"
proof
  show "selectSearchProviders [''tavily'', ''linkup'', ''exa'', ''brave''] Deep = [''tavily'', ''exa'', ''brave'']"
    by code_simp
  show "length (selectSearchProviders [''tavily'', ''linkup'', ''tavily''] Deep) = 2"
    using batch_selection [of Deep "[''tavily'', ''linkup'', ''tavily'']"] by (simp add: insert_commute)
qed

section \<open>Fusion\<close>

text \<open>C29. The fused list is exactly the ranked merge of the providers' results, for a platform that parses
  the URLs it serialises, a collation that is a consistent comparator, and a limit of at least one;
  scores are exact rationals. There is one candidate per canonical URL found among the first fifty
  results of a provider: it keeps the first item with that URL, lists all appearances and has the
  sum of their weighted reciprocal ranks as its score. There is exactly one list of these candidates
  ordered by score, number of appearances, best rank, first provider, collation and first
  appearance; the output holds, in this order, the first \<open>n\<close> of those before which fewer than two
  share their hostname, each with its score and sources. Fusing never throws.\<close>

theorem fusion_exact:
  assumes "parsesOwnUrls U" and "lawfulCollation collate" and "1 \<le> n"
  shows "\<exists>ranked. (\<forall>cs. mset cs = mset (mergedCandidates U weights results) \<and>
        sorted_wrt (outranks collate (appearanceOrder U results)) cs \<longleftrightarrow> cs = ranked) \<and>
    fuseSearchResults U collate results n weights =
      Inr (map (\<lambda>c. (fc_item c)\<lparr>it_fusionScore := Some (fc_fusionScore c), it_sources := Some (fc_sources c)\<rparr>)
        (take (nat n) (twoPerHost [] ranked)))"
proof -
  from fuseProviders_candidates [OF assms(1), of weights results] obtain cs where
    "fuseProviders U weights 0 results [] = Inr cs" "map snd cs = mergedCandidates U weights results" by blast
  with fuse_ranked [OF assms(3) this(1), of collate] show ?thesis
    by (intro exI [of _ "sortBy (compareCandidates collate) (mergedCandidates U weights results)"])
      (simp add: ranking_exact [OF assms(2)] fusedItem_def)
qed

definition plainUrls :: "string url_ops" where
  "plainUrls = \<lparr>uo_parse = Some, uo_protocol = (\<lambda>_. ''https:''), uo_username = (\<lambda>_. ''''), uo_password = (\<lambda>_. ''''),
     uo_hostname = take 1, uo_clearHash = id, uo_paramNames = (\<lambda>_. []), uo_deleteParam = (\<lambda>_ u. u),
     uo_sortParams = id, uo_toString = id\<rparr>"

definition hit :: "string \<Rightarrow> SearchResultItem" where
  "hit u = \<lparr>it_title = ''t'', it_url = u, it_snippet = '''', it_publishedAt = None, it_score = None,
     it_provider = '''', it_fusionScore = None, it_sources = None\<rparr>"

definition hits :: "string \<Rightarrow> string list \<Rightarrow> SearchResult" where
  "hits p us = \<lparr>se_query = ''q'', se_provider = p, se_results = map hit us, se_durationMs = 1, se_warnings = [],
     se_strategy = None, se_providersSelected = None, se_providersAttempted = None,
     se_providersSucceeded = None, se_providerDetails = None\<rparr>"

theorem fusion_exact_witness:
  "\<exists>ranked. sorted_wrt (outranks (\<lambda>_ _. 0) [''a1'', ''a2'', ''a3'', ''b1'']) ranked \<and>
     map fc_canonicalUrl ranked = [''a1'', ''b1'', ''a2'', ''a3''] \<and>
     map fc_canonicalUrl (twoPerHost [] ranked) = [''a1'', ''b1'', ''a2''] \<and>
     fuseSearchResults plainUrls (\<lambda>_ _. 0) [hits ''exa'' [''a1'', ''a2'', ''a3''], hits ''brave'' [''b1'', ''a1'']] 4 None =
       Inr (map (\<lambda>c. (fc_item c)\<lparr>it_fusionScore := Some (fc_fusionScore c), it_sources := Some (fc_sources c)\<rparr>)
         (take 4 (twoPerHost [] ranked)))"
proof -
  let ?rs = "[hits ''exa'' [''a1'', ''a2'', ''a3''], hits ''brave'' [''b1'', ''a1'']]"
  let ?cs = "sortBy (compareCandidates (\<lambda>_ _. 0)) (mergedCandidates plainUrls None ?rs)"
  have p: "parsesOwnUrls plainUrls" by (simp add: parsesOwnUrls_def plainUrls_def)
  have l: "lawfulCollation (\<lambda>_ _. 0)" by (simp add: lawfulCollation_def)
  from fusion_exact [OF p l, of 4 None ?rs] obtain ranked where r:
    "\<And>cs. mset cs = mset (mergedCandidates plainUrls None ?rs) \<and>
        sorted_wrt (outranks (\<lambda>_ _. 0) (appearanceOrder plainUrls ?rs)) cs \<longleftrightarrow> cs = ranked"
    "fuseSearchResults plainUrls (\<lambda>_ _. 0) ?rs 4 None =
      Inr (map (\<lambda>c. (fc_item c)\<lparr>it_fusionScore := Some (fc_fusionScore c), it_sources := Some (fc_sources c)\<rparr>)
        (take 4 (twoPerHost [] ranked)))" by auto
  have o: "appearanceOrder plainUrls ?rs = [''a1'', ''a2'', ''a3'', ''b1'']" by code_simp
  have e: "ranked = ?cs" using r(1) [of ?cs] ranking_exact [OF l, of ?cs plainUrls None ?rs] by metis
  have u: "map fc_canonicalUrl ?cs = [''a1'', ''b1'', ''a2'', ''a3'']" by code_simp
  have t: "map fc_canonicalUrl (twoPerHost [] ?cs) = [''a1'', ''b1'', ''a2'']" by code_simp
  show ?thesis
    by (rule exI [of _ ranked], intro conjI, use r(1) [of ranked] o in metis)
      (simp_all only: u [folded e] t [folded e] r(2))
qed

section \<open>The search\<close>

lemma createSearchRouter_keyed [simp]:
  "providersKeyed (sx_providers (createSearchRouter provs order cap U collate))"
  by (simp add: createSearchRouter_def)

text \<open>The ways through a search: it stops before any charge, or it runs one of the two loops.\<close>

lemma search_cases:
  assumes "search rt env req w = Some (r, w')"
    and "resolveSearchProviders rt req (sv_startedAt env) w = ((ps, ws), w1)"
  obtains (stopped) e where "r = Inl e" "sw_calls w' \<in> {sw_calls w, sw_calls w1}"
      "sw_decisions w' \<in> {sw_decisions w, sw_decisions w1}"
    | (fallback) "searchFallbackLoop env req (searchExplicitProvider req \<noteq> None) ps 0 ps [] ws w1 = (r, w')"
        "1 \<le> maxResultsOf req" "maxResultsOf req \<le> 50"
    | (federated) "federatedLoop rt env req (searchStrategyOf req) 0 ps [] [] ws w1 = Some (r, w')"
        "1 \<le> maxResultsOf req" "maxResultsOf req \<le> 50" "searchStrategyOf req \<noteq> FallbackSearch"
proof (cases "andThen (validateSearchRequest req) (validateDomainFiltersForRequest req (searchExplicitProvider req)
    (searchCandidates rt req) (sx_deploymentMaxDomains rt))")
  case (Inl e)
  with assms show thesis by (intro stopped [of e]) (auto simp: search_def)
next
  case (Inr u)
  then have "validateSearchRequest req = Inr ()" by (cases "validateSearchRequest req") simp_all
  then have n: "1 \<le> maxResultsOf req" "maxResultsOf req \<le> 50"
    using notIntegerIn_lower [of 1 50 "sr_maxResults req"]
    by (auto simp: validateSearchRequest_def maxResultsOf_def res_simps)
  let ?selected = "if searchStrategyOf req = FallbackSearch then ps
    else selectProviderBatch rt ps (searchStrategyOf req)"
  show thesis
  proof (cases "?selected = []")
    case True
    with assms Inr obtain e where "r = Inl e" "w' = w1 \<or> (\<exists>p. w' = snd (sharedRemaining (sv_startedAt env) p w1))"
      by (auto simp: search_def Let_def split: option.splits prod.splits) (metis snd_conv)+
    then show thesis by (intro stopped [of e]) auto
  next
    case False
    show thesis
    proof (cases "searchStrategyOf req = FallbackSearch")
      case True
      with assms Inr False n show thesis by (intro fallback) (simp_all add: search_def searchWithFallback_def Let_def)
    next
      case fed: False
      with assms Inr False n show thesis by (intro federated) (simp_all add: search_def Let_def)
    qed
  qed
qed

text \<open>C21. Every search ends: whatever the providers answer, however often they fail and whatever happens to
  the shared state, the federated loop of a router never runs forever.\<close>

theorem search_ends:
  "\<exists>r sh'. search (createSearchRouter provs order cap U collate) env req sh = Some (r, sh')"
proof -
  let ?rt = "createSearchRouter provs order cap U collate"
  obtain ps ws sh1 where r: "resolveSearchProviders ?rt req (sv_startedAt env) sh = ((ps, ws), sh1)"
    by (metis prod.collapse)
  have "knownProviders ?rt ps" using resolveSearchProviders_props(3) [OF _ r] by simp
  then have "search ?rt env req sh \<noteq> None"
    using federatedLoop_ends [of ?rt] by (auto simp: search_def r Let_def split: sum.splits option.splits prod.splits)
  then show ?thesis by auto
qed

lemma search_asks:
  assumes "search rt env req w = Some (r, w')" and "providersKeyed (sx_providers rt)"
    and res: "resolveSearchProviders rt req (sv_startedAt env) w = ((ps, ws), w1)"
  shows "\<exists>tried cs sel. askedBetween w w' tried cs \<and> prefix tried sel \<and> set sel \<subseteq> set ps \<and>
    distinct (map pv_id sel) \<and> (\<forall>x. r = Inr x \<longrightarrow> reportsAsked req cs x \<and>
      maxResultsOf req \<le> 50 \<and> se_providersSelected x = Some (map pv_id sel))"
proof -
  note p = resolveSearchProviders_props [OF assms(2) res]
  have start: "sw_calls w1 = sw_calls w" "sw_decisions w1 = sw_decisions w"
    using resolveSearchIds_logs [of rt req "sv_startedAt env"] res
    by (metis resolveSearchProviders_def snd_conv)+
  then have from_start: "askedBetween w w' t c" if "askedBetween w1 w' t c" for t c
    using askedBetween_trans [OF askedBetween_none that] by simp
  show ?thesis
    using assms(1) res
  proof (cases rule: search_cases)
    case (stopped e)
    with start show ?thesis by (intro exI [of _ "[]"]) (auto intro: askedBetween_none)
  next
    case fallback
    from searchFallbackLoop_asks [where asked = "[]", simplified, OF fallback(1)] fallback(2) obtain tried cs where
      "prefix tried ps" "askedBetween w1 w' tried cs"
        "\<forall>x. r = Inr x \<longrightarrow> reportsAsked req cs x \<and> se_providersSelected x = Some (map pv_id ps)" by auto
    with from_start p(1) fallback(3) show ?thesis by (intro exI [of _ tried] exI [of _ cs] exI [of _ ps]) simp
  next
    case federated
    from federatedLoop_asks [where asked = "[]" and sel = "[]", simplified, OF assms(2) federated(4,2) p(3,1)
        federated(1)]
    obtain tried cs where "askedBetween w1 w' tried cs" "distinct (map pv_id tried)" "set tried \<subseteq> set ps"
        "\<forall>x. r = Inr x \<longrightarrow> reportsAsked req cs x \<and> se_providersSelected x = Some (map pv_id tried)" by auto
    with from_start federated(3) show ?thesis by (intro exI [of _ tried] exI [of _ cs] exI [of _ tried]) simp
  qed
qed

text \<open>C20. A search asks providers at most once each and reports what it did. Whatever its outcome, the
  providers it called, as logged by the calls themselves, are different, known, support the request
  and were among its candidates (only the explicit one, if it names one); it considered each of the
  providers \<open>tried\<close> once, and called exactly the ones admitted by the budget, in order. A result lists as
  attempted exactly the calls that were made, as succeeded exactly those of them that answered, at
  least one, as selected at least the providers that were tried, and holds at most \<open>maxResults\<close>
  results.\<close>

theorem search_asks_each_once:
  assumes "search (createSearchRouter provs order cap U collate) env req w = Some (r, w')"
  shows "\<exists>tried cs. distinct (map pv_id tried) \<and> askedBetween w w' tried cs \<and>
    (\<forall>p \<in> set tried. map_of (providerMap provs) (pv_id p) = Some p \<and> pv_supports p req \<and>
       pv_id p \<in> set (searchCandidates (createSearchRouter provs order cap U collate) req)) \<and>
    (\<forall>x. r = Inr x \<longrightarrow> reportsAsked req cs x \<and> maxResultsOf req \<le> 50 \<and>
       (\<exists>sel. se_providersSelected x = Some (map pv_id sel) \<and> distinct (map pv_id sel) \<and> prefix tried sel \<and>
         (\<forall>p \<in> set sel. map_of (providerMap provs) (pv_id p) = Some p \<and> pv_supports p req \<and>
           pv_id p \<in> set (searchCandidates (createSearchRouter provs order cap U collate) req))))"
proof -
  let ?rt = "createSearchRouter provs order cap U collate"
  obtain ps ws w1 where res: "resolveSearchProviders ?rt req (sv_startedAt env) w = ((ps, ws), w1)"
    by (metis prod.collapse)
  note p = resolveSearchProviders_props [OF createSearchRouter_keyed res]
  have ok: "map_of (providerMap provs) (pv_id p) = Some p \<and> pv_supports p req \<and>
      pv_id p \<in> set (searchCandidates ?rt req)" if "p \<in> set ps" for p
    using that p(2-4) by (auto simp: knownProviders_def createSearchRouter_def)
  from search_asks [OF assms createSearchRouter_keyed res] obtain tried cs sel where
    t: "askedBetween w w' tried cs" "prefix tried sel" "set sel \<subseteq> set ps"
      "distinct (map pv_id sel)" "\<forall>x. r = Inr x \<longrightarrow> reportsAsked req cs x \<and> maxResultsOf req \<le> 50 \<and>
        se_providersSelected x = Some (map pv_id sel)" by blast
  have "distinct (map pv_id tried)" "set tried \<subseteq> set ps"
    using t(2-4) by (auto simp: prefix_def)
  with ok have "\<forall>p \<in> set tried. map_of (providerMap provs) (pv_id p) = Some p \<and> pv_supports p req \<and>
      pv_id p \<in> set (searchCandidates ?rt req)"
    "\<forall>p \<in> set sel. map_of (providerMap provs) (pv_id p) = Some p \<and> pv_supports p req \<and>
      pv_id p \<in> set (searchCandidates ?rt req)" using t(3) by (meson subsetD)+
  with t \<open>distinct (map pv_id tried)\<close> show ?thesis
    by (intro exI [of _ tried] exI [of _ cs]) (simp add: exI [of _ sel])
qed

definition demoSearch :: SearchRequest where
  "demoSearch = \<lparr>sr_query = ''q'', sr_maxResults = jint 3, sr_domains = None, sr_excludeDomains = None,
     sr_timeRange = None, sr_provider = None, sr_providers = None, sr_strategy = None\<rparr>"

definition demoSearchRouter :: "string search_router" where
  "demoSearchRouter = createSearchRouter
     [\<lparr>pv_id = ''exa'', pv_supports = (\<lambda>_. True), pv_call = (\<lambda>_. Inl ThrownOther)\<rparr>,
      \<lparr>pv_id = ''brave'', pv_supports = (\<lambda>_. True), pv_call = (\<lambda>_. Inr (hits ''x'' [''a1'', ''b1'']))\<rparr>]
     [''brave'', ''exa'', ''you''] None plainUrls (\<lambda>_ _. 0)"

definition demoEnv :: search_env where
  "demoEnv = \<lparr>sv_startedAt = 0, sv_endedAt = 9, sv_clock = (\<lambda>_. 1), sv_settled = (\<lambda>_. 2), sv_before = (\<lambda>_. id),
     sv_during = (\<lambda>_. id), sv_aborted = (\<lambda>_. None)\<rparr>"

definition freshRun :: search_run where
  "freshRun = \<lparr>sh_budget = None, sh_health = None, sw_calls = [], sw_decisions = []\<rparr>"

theorem search_asks_each_once_witness:
  "\<exists>r w'. search demoSearchRouter demoEnv demoSearch freshRun = Some (Inr r, w') \<and>
     se_providersAttempted r = Some [''brave'', ''exa''] \<and> sw_calls w' = [''brave'', ''exa''] \<and>
     length (se_results r) \<le> 3"
proof -
  let ?s = "search demoSearchRouter demoEnv demoSearch freshRun"
  have "map_option (\<lambda>x. map_sum id se_providersAttempted (fst x)) ?s = Some (Inr (Some [''brave'', ''exa'']))"
    by code_simp
  then obtain r w' where r: "?s = Some (Inr r, w')" "se_providersAttempted r = Some [''brave'', ''exa'']"
    by (cases ?s; cases "fst (the ?s)") auto
  from search_asks_each_once [OF r(1) [unfolded demoSearchRouter_def]] obtain tried cs where
    "askedBetween freshRun w' tried cs" "reportsAsked demoSearch cs r" by blast
  then have "sw_calls w' = map pv_id cs" "se_providersAttempted r = Some (map pv_id cs)"
      "int (length (se_results r)) \<le> maxResultsOf demoSearch"
    by (simp_all add: askedBetween_def reportsAsked_def freshRun_def)
  then show ?thesis using r by (simp add: demoSearch_def maxResultsOf_def)
qed

end
