(* ===== verification/Json.thy ===== *)
theory Json
  imports JsPrelude
begin

text \<open>
  \<^verbatim>\<open>JSON.stringify\<close> and \<^verbatim>\<open>JSON.parse\<close> of the language, which the durable components of
  \<^verbatim>\<open>src/core\<close> use to keep their records in a text store. Numbers are the exact rationals of
  \<open>jsnum\<close>: an integer prints as its digits; another number prints its decimal expansion, cut at
  seventeen places, where a double would print its shortest one; the exponent forms of very
  large and very small numbers are read but never printed. A \<^verbatim>\<open>\\u\<close> escape beyond Latin-1 is
  not read, since strings are over Latin-1. The order of the keys of an object is the language's:
  array indices first, in ascending order, then the other keys as they were added.
\<close>

section \<open>Objects\<close>

definition isIndexKey :: "string \<Rightarrow> bool" where
  "isIndexKey k \<longleftrightarrow> k \<noteq> [] \<and> list_all isDigit k \<and> showNat (parseNat k) = k \<and> int (parseNat k) < 4294967295"

text \<open>The object that results from adding the given members one after the other.\<close>

definition objectOf :: "(string \<times> 'v) list \<Rightarrow> (string \<times> 'v) list" where
  "objectOf ms =
     (let m = fold (\<lambda>(k, v). AList.update k v) ms []
      in sort_key (\<lambda>(k, v). parseNat k) (filter (\<lambda>(k, v). isIndexKey k) m)
           @ filter (\<lambda>(k, v). \<not> isIndexKey k) m)"

section \<open>Printing\<close>

definition hexDigit :: "nat \<Rightarrow> char" where
  "hexDigit d = char_of (if d < 10 then 48 + d else 87 + d)"

definition jsonEscape :: "char \<Rightarrow> string" where
  "jsonEscape c =
     (let n = (of_char c :: nat) in
      if n = 34 then [char_of (92::nat), CHR 0x22]
      else if n = 92 then [char_of (92::nat), char_of (92::nat)]
      else if n = 8 then [char_of (92::nat), CHR ''b'']
      else if n = 9 then [char_of (92::nat), CHR ''t'']
      else if n = 10 then [char_of (92::nat), CHR ''n'']
      else if n = 12 then [char_of (92::nat), CHR ''f'']
      else if n = 13 then [char_of (92::nat), CHR ''r'']
      else if n < 32 then [char_of (92::nat), CHR ''u'', CHR ''0'', CHR ''0'', hexDigit (n div 16), hexDigit (n mod 16)]
      else [c])"

definition jsonString :: "string \<Rightarrow> string" where
  "jsonString s = CHR 0x22 # concat (map jsonEscape s) @ [CHR 0x22]"

fun fractionDigits :: "nat \<Rightarrow> rat \<Rightarrow> string" where
  "fractionDigits 0 q = []"
| "fractionDigits (Suc n) q =
     (if q = 0 then [] else digitChar (nat \<lfloor>10 * q\<rfloor>) # fractionDigits n (10 * q - of_int \<lfloor>10 * q\<rfloor>))"

fun showNumber :: "jsnum \<Rightarrow> string" where
  "showNumber (Num q) =
     (if of_int \<lfloor>q\<rfloor> = q then showInt \<lfloor>q\<rfloor>
      else (if q < 0 then ''-'' else []) @ showNat (nat \<lfloor>\<bar>q\<bar>\<rfloor>) @ ''.'' @
        fractionDigits 17 (\<bar>q\<bar> - of_int \<lfloor>\<bar>q\<bar>\<rfloor>))"
| "showNumber _ = ''null''"

text \<open>\<open>String(n)\<close> of a number.\<close>

fun numberText :: "jsnum \<Rightarrow> string" where
  "numberText NaN = ''NaN''"
| "numberText PosInf = ''Infinity''"
| "numberText NegInf = ''-Infinity''"
| "numberText n = showNumber n"

definition orNull :: "string option \<Rightarrow> string" where
  "orNull t = (case t of None \<Rightarrow> ''null'' | Some t \<Rightarrow> t)"

definition memberTexts :: "(string \<times> string option) list \<Rightarrow> string list" where
  "memberTexts ms = concat (map (\<lambda>(k, t). case t of None \<Rightarrow> [] | Some t \<Rightarrow> [jsonString k @ '':'' @ t]) ms)"

text \<open>\<open>JSON.stringify\<close>; \<open>None\<close> is the result \<open>undefined\<close>.\<close>

fun stringify :: "js_value \<Rightarrow> string option" where
  "stringify Undefined = None"
| "stringify Null = Some ''null''"
| "stringify (JBool b) = Some (if b then ''true'' else ''false'')"
| "stringify (JNumber n) = Some (showNumber n)"
| "stringify (JString s) = Some (jsonString s)"
| "stringify (JArray xs) =
     Some (''['' @ joinWith '','' (map (\<lambda>x. orNull (stringify x)) xs) @ '']'')"
| "stringify (JObject ms) =
     Some (''{'' @ joinWith '','' (memberTexts (map (\<lambda>m. (fst m, stringify (snd m))) ms)) @ ''}'')"

section \<open>Parsing\<close>

definition isJsonWs :: "char \<Rightarrow> bool" where
  "isJsonWs c \<longleftrightarrow> of_char c \<in> {9, 10, 13, 32 :: nat}"

definition skipWs :: "string \<Rightarrow> string" where
  "skipWs s = dropWhile isJsonWs s"

definition hexVal :: "char \<Rightarrow> nat option" where
  "hexVal c = (let n = of_char c :: nat in
     if 48 \<le> n \<and> n \<le> 57 then Some (n - 48)
     else if 97 \<le> n \<and> n \<le> 102 then Some (n - 87)
     else if 65 \<le> n \<and> n \<le> 70 then Some (n - 55) else None)"

text \<open>The character after a backslash, other than \<open>u\<close>.\<close>

definition unescape :: "char \<Rightarrow> char option" where
  "unescape c = (let n = of_char c :: nat in
     if n = 34 \<or> n = 92 \<or> n = 47 then Some c
     else if c = CHR ''b'' then Some (char_of (8::nat))
     else if c = CHR ''t'' then Some (char_of (9::nat))
     else if c = CHR ''n'' then Some (char_of (10::nat))
     else if c = CHR ''f'' then Some (char_of (12::nat))
     else if c = CHR ''r'' then Some (char_of (13::nat)) else None)"

definition unicodeEscape :: "string \<Rightarrow> char option" where
  "unicodeEscape ds = (case map hexVal ds of
     [Some 0, Some 0, Some h, Some l] \<Rightarrow> Some (char_of (16 * h + l)) | _ \<Rightarrow> None)"

text \<open>The rest of a string literal after its opening quote.\<close>

function parseString :: "string \<Rightarrow> (string \<times> string) option" where
  "parseString [] = None"
| "parseString (c # cs) =
     (let n = (of_char c :: nat) in
      if n = 34 then Some ([], cs)
      else if n < 32 then None
      else if n \<noteq> 92 then map_option (\<lambda>(t, r). (c # t, r)) (parseString cs)
      else if cs = [] then None
      else if hd cs = CHR ''u'' then
        (case unicodeEscape (take 4 (tl cs)) of None \<Rightarrow> None
         | Some d \<Rightarrow> map_option (\<lambda>(t, r). (d # t, r)) (parseString (drop 4 (tl cs))))
      else (case unescape (hd cs) of None \<Rightarrow> None
         | Some d \<Rightarrow> map_option (\<lambda>(t, r). (d # t, r)) (parseString (tl cs))))"
  by pat_completeness auto
termination
  by (relation "measure length") auto

definition parseFraction :: "string \<Rightarrow> (rat \<times> string) option" where
  "parseFraction s =
     (if s \<noteq> [] \<and> hd s = CHR ''.''
      then let ds = takeWhile isDigit (tl s) in
        if ds = [] then None
        else Some (of_nat (parseNat ds) / 10 ^ length ds, dropWhile isDigit (tl s))
      else Some (0, s))"

definition parseExponent :: "string \<Rightarrow> (rat \<times> string) option" where
  "parseExponent s =
     (if s \<noteq> [] \<and> (hd s = CHR ''e'' \<or> hd s = CHR ''E'')
      then let neg = (tl s \<noteq> [] \<and> hd (tl s) = CHR ''-'');
               r = (if tl s \<noteq> [] \<and> (hd (tl s) = CHR ''-'' \<or> hd (tl s) = CHR ''+'') then tl (tl s) else tl s);
               ds = takeWhile isDigit r
        in if ds = [] then None
           else Some (if neg then 1 / 10 ^ parseNat ds else 10 ^ parseNat ds, dropWhile isDigit r)
      else Some (1, s))"

definition parseNumber :: "string \<Rightarrow> (jsnum \<times> string) option" where
  "parseNumber s =
     (let neg = (s \<noteq> [] \<and> hd s = CHR ''-''); r = (if neg then tl s else s);
          ds = takeWhile isDigit r
      in if ds = [] \<or> (length ds > 1 \<and> hd ds = CHR ''0'') then None
         else case parseFraction (dropWhile isDigit r) of None \<Rightarrow> None
         | Some (f, r1) \<Rightarrow> (case parseExponent r1 of None \<Rightarrow> None
           | Some (e, r2) \<Rightarrow>
               Some (Num ((if neg then - 1 else 1) * (of_nat (parseNat ds) + f) * e), r2)))"

definition stripPrefix :: "string \<Rightarrow> string \<Rightarrow> string option" where
  "stripPrefix p s = (if prefix p s then Some (drop (length p) s) else None)"

definition parseLiteral :: "string \<Rightarrow> (js_value \<times> string) option" where
  "parseLiteral s =
     (case stripPrefix ''null'' s of Some r \<Rightarrow> Some (Null, r)
      | None \<Rightarrow> (case stripPrefix ''true'' s of Some r \<Rightarrow> Some (JBool True, r)
      | None \<Rightarrow> (case stripPrefix ''false'' s of Some r \<Rightarrow> Some (JBool False, r)
      | None \<Rightarrow> map_option (\<lambda>(n, r). (JNumber n, r)) (parseNumber s))))"

text \<open>A key of an object with its colon.\<close>

definition parseKey :: "string \<Rightarrow> (string \<times> string) option" where
  "parseKey s =
     (let s = skipWs s in
      if s = [] \<or> hd s \<noteq> CHR 0x22 then None
      else case parseString (tl s) of None \<Rightarrow> None
      | Some (k, r) \<Rightarrow>
          (let r = skipWs r in if r = [] \<or> hd r \<noteq> CHR '':'' then None else Some (k, tl r)))"

text \<open>The fuel bounds the recursion depth; \<open>jsonParse\<close> gives twice the length of the text, and every
  level but one in two reads a character.\<close>

fun parseValue :: "nat \<Rightarrow> string \<Rightarrow> (js_value \<times> string) option"
  and parseItems :: "nat \<Rightarrow> string \<Rightarrow> (js_value list \<times> string) option"
  and parseMembers :: "nat \<Rightarrow> string \<Rightarrow> ((string \<times> js_value) list \<times> string) option" where
  "parseValue 0 s = None"
| "parseValue (Suc n) s =
     (let s = skipWs s in
      if s = [] then None
      else if hd s = CHR 0x22 then map_option (\<lambda>(t, r). (JString t, r)) (parseString (tl s))
      else if hd s = CHR ''['' then
        (let r = skipWs (tl s) in
         if r \<noteq> [] \<and> hd r = CHR '']'' then Some (JArray [], tl r)
         else map_option (\<lambda>(xs, r). (JArray xs, r)) (parseItems n (tl s)))
      else if hd s = CHR ''{'' then
        (let r = skipWs (tl s) in
         if r \<noteq> [] \<and> hd r = CHR ''}'' then Some (JObject [], tl r)
         else map_option (\<lambda>(ms, r). (JObject (objectOf ms), r)) (parseMembers n (tl s)))
      else parseLiteral s)"
| "parseItems 0 s = None"
| "parseItems (Suc n) s =
     (case parseValue n s of None \<Rightarrow> None
      | Some (v, r) \<Rightarrow>
          (let r = skipWs r in
           if r = [] then None
           else if hd r = CHR '']'' then Some ([v], tl r)
           else if hd r = CHR '','' then map_option (\<lambda>(vs, r). (v # vs, r)) (parseItems n (tl r))
           else None))"
| "parseMembers 0 s = None"
| "parseMembers (Suc n) s =
     (case parseKey s of None \<Rightarrow> None
      | Some (k, s) \<Rightarrow>
     (case parseValue n s of None \<Rightarrow> None
      | Some (v, r) \<Rightarrow>
          (let r = skipWs r in
           if r = [] then None
           else if hd r = CHR ''}'' then Some ([(k, v)], tl r)
           else if hd r = CHR '','' then map_option (\<lambda>(ms, r). ((k, v) # ms, r)) (parseMembers n (tl r))
           else None)))"

text \<open>\<open>JSON.parse\<close>; \<open>None\<close> is the \<open>SyntaxError\<close> it throws.\<close>

definition jsonParse :: "string \<Rightarrow> js_value option" where
  "jsonParse s = (case parseValue (2 * length s + 2) s of
     Some (v, r) \<Rightarrow> if skipWs r = [] then Some v else None | None \<Rightarrow> None)"

end
