(* ===== verification/JsonFacts.thy ===== *)
theory JsonFacts
  imports Json "HOL-Library.Multiset"
begin

text \<open>
  Printing and parsing JSON are inverse on the values the program stores: every value without
  \<open>undefined\<close>, whose numbers are integers and whose objects list their keys in the language's order.
\<close>

fun jsonOk :: "js_value \<Rightarrow> bool" where
  "jsonOk Undefined = False"
| "jsonOk Null = True"
| "jsonOk (JBool b) = True"
| "jsonOk (JNumber n) = isInteger n"
| "jsonOk (JString s) = True"
| "jsonOk (JArray xs) = list_all jsonOk xs"
| "jsonOk (JObject ms) = (objectOf ms = ms \<and> list_all (\<lambda>m. jsonOk (snd m)) ms)"

section \<open>String literals\<close>

lemma parse_escaped:
  "parseString (jsonEscape c @ r) = map_option (\<lambda>(t, r). (c # t, r)) (parseString r)"
proof (cases c)
  case (Char b0 b1 b2 b3 b4 b5 b6 b7)
  show ?thesis unfolding Char
    by (cases b0; cases b1; cases b2; cases b3; cases b4; cases b5; cases b6; cases b7;
      simp add: jsonEscape_def unescape_def unicodeEscape_def hexVal_def hexDigit_def Let_def
        char_of_def bit_0 flip: numeral_2_eq_2)
qed

lemma parse_quoted: "parseString (concat (map jsonEscape s) @ CHR 0x22 # r) = Some (s, r)"
  by (induction s) (simp_all add: parse_escaped Let_def)

lemma jsonString_parse: "parseString (tl (jsonString s) @ r) = Some (s, r)"
  by (simp add: jsonString_def parse_quoted)

lemma jsonString_hd: "jsonString s = CHR 0x22 # tl (jsonString s)"
  by (simp add: jsonString_def)

lemma isJsonWs_chars [simp]:
  "\<not> isJsonWs (CHR 0x22)" "\<not> isJsonWs (CHR ''['')" "\<not> isJsonWs (CHR ''{'')" "\<not> isJsonWs (CHR '']'')"
  "\<not> isJsonWs (CHR ''}'')" "\<not> isJsonWs (CHR '','')" "\<not> isJsonWs (CHR '':'')" "\<not> isJsonWs (CHR ''-'')"
  "\<not> isJsonWs (CHR ''n'')" "\<not> isJsonWs (CHR ''t'')" "\<not> isJsonWs (CHR ''f'')"
  by (simp_all add: isJsonWs_def)

lemma isJsonWs_digit: "isDigit c \<Longrightarrow> \<not> isJsonWs c"
  by (auto simp: isJsonWs_def isDigit_def)

lemma skipWs_Cons: "\<not> isJsonWs c \<Longrightarrow> skipWs (c # s) = c # s"
  by (simp add: skipWs_def)

lemma skipWs_Nil [simp]: "skipWs [] = []"
  by (simp add: skipWs_def)

section \<open>Numbers\<close>

definition stops :: "string \<Rightarrow> bool" where
  "stops r \<longleftrightarrow> r = [] \<or> (\<not> isDigit (hd r) \<and> hd r \<notin> {CHR ''.'', CHR ''e'', CHR ''E''})"

lemma takeWhile_digits:
  assumes "\<forall>c \<in> set ds. isDigit c" "r = [] \<or> \<not> isDigit (hd r)"
  shows "takeWhile isDigit (ds @ r) = ds" "dropWhile isDigit (ds @ r) = r"
  using assms by (cases r; simp add: takeWhile_append dropWhile_append3)+

lemma showNat_hd_zero: "showNat n \<noteq> [] \<and> (hd (showNat n) = CHR ''0'' \<longrightarrow> n = 0)"
proof (induction n rule: showNat.induct)
  case (1 n)
  have d: "d < 10 \<Longrightarrow> digitChar d = CHR ''0'' \<Longrightarrow> d = 0" for d
    using digitVal_digitChar [of d] by (simp add: digitVal_def)
  show ?case
  proof (cases "n < 10")
    case True
    then show ?thesis by (subst (1 2) showNat.simps) (use d in auto)
  next
    case False
    with 1 have "hd (showNat (n div 10)) = CHR ''0'' \<longrightarrow> n div 10 = 0" by simp
    with False show ?thesis by (subst (1 2) showNat.simps) auto
  qed
qed

lemma showNat_length: "length (showNat n) > 1 \<Longrightarrow> n \<ge> 10"
  by (subst (asm) showNat.simps) (auto split: if_splits)

lemma showNat_hd_digit: "isDigit (hd (showNat n))"
  using showNat_digits [of n] hd_in_set [OF showNat_nonempty [of n]] by blast

lemma showNat_not_minus: "hd (showNat n) \<noteq> CHR ''-''"
  using showNat_hd_digit [of n] by (auto simp: isDigit_def)

lemma parseNumber_nat:
  assumes "stops r"
  shows "parseNumber (showNat n @ r) = Some (jint (int n), r)"
    and "parseNumber (CHR ''-'' # showNat n @ r) = Some (jint (- int n), r)"
proof -
  note tk = takeWhile_digits [OF showNat_digits [of n], of r]
  have r: "r = [] \<or> \<not> isDigit (hd r)" using assms by (auto simp: stops_def)
  have z: "\<not> (length (showNat n) > 1 \<and> hd (showNat n) = CHR ''0'')"
    using showNat_hd_zero [of n] showNat_length [of n] by auto
  have f: "parseFraction r = Some (0, r)" "parseExponent r = Some (1, r)"
    using assms by (auto simp: stops_def parseFraction_def parseExponent_def)
  show "parseNumber (showNat n @ r) = Some (jint (int n), r)"
    using z showNat_not_minus [of n] by (simp add: parseNumber_def tk r f Let_def)
  show "parseNumber (CHR ''-'' # showNat n @ r) = Some (jint (- int n), r)"
    using z by (simp add: parseNumber_def tk r f Let_def)
qed

lemma parseNumber_showInt:
  assumes "stops r" shows "parseNumber (showInt k @ r) = Some (jint k, r)"
  using parseNumber_nat [OF assms, of "nat k"] parseNumber_nat [OF assms, of "nat (- k)"]
  by (simp add: showInt_def)

lemma showInt_hd: "showInt k \<noteq> []" "isDigit (hd (showInt k)) \<or> hd (showInt k) = CHR ''-''"
  using showNat_hd_digit [of "nat k"] by (auto simp: showInt_def)

section \<open>Values\<close>

text \<open>What parsing needs to know of the text of a value: it reads back whatever follows it, if it is
  not a character that could continue a number, and its first character is no white space and closes
  no array.\<close>

definition readsAs :: "js_value \<Rightarrow> string \<Rightarrow> bool" where
  "readsAs v t \<longleftrightarrow> t \<noteq> [] \<and> \<not> isJsonWs (hd t) \<and> hd t \<noteq> CHR '']'' \<and>
     (\<forall>n r. stops r \<longrightarrow> 2 * length t \<le> n \<longrightarrow> parseValue n (t @ r) = Some (v, r))"

lemma readsAsI:
  assumes "\<not> isJsonWs c" "c \<noteq> CHR '']''"
    and "\<And>n r. stops r \<Longrightarrow> 2 * length t < n \<Longrightarrow> parseValue (Suc n) (c # t @ r) = Some (v, r)"
  shows "readsAs v (c # t)"
  unfolding readsAs_def
proof (intro conjI allI impI)
  fix n r assume r: "stops r" and n: "2 * length (c # t) \<le> n"
  then obtain m where "n = Suc m" by (cases n) auto
  with assms(3) [OF r, of m] n show "parseValue n ((c # t) @ r) = Some (v, r)" by simp
qed (use assms in simp_all)

lemma readsAsD:
  assumes "readsAs v t" "stops r" "2 * length t \<le> n"
  shows "parseValue n (t @ r) = Some (v, r)"
  using assms by (simp add: readsAs_def)

lemma stops_Cons [simp]: "stops (CHR '','' # r)" "stops (CHR '']'' # r)" "stops (CHR ''}'' # r)"
  by (simp_all add: stops_def isDigit_def)

lemma parseItems_join:
  assumes "list_all2 readsAs vs ts" "vs \<noteq> []" "2 * length (joinWith '','' ts) < n"
  shows "parseItems n (joinWith '','' ts @ CHR '']'' # r) = Some (vs, r)"
  using assms
proof (induction vs ts arbitrary: n rule: list_all2_induct)
  case (Cons v vs t ts)
  obtain m where n: "n = Suc m" using Cons.prems by (cases n) auto
  have len: "2 * length t \<le> m" using Cons.prems n by (auto simp: joinWith_Cons)
  show ?case
  proof (cases "vs = []")
    case True
    with Cons.hyps have "ts = []" by simp
    with True readsAsD [OF Cons.hyps(1) _ len] show ?thesis by (simp add: n skipWs_Cons)
  next
    case False
    with Cons.hyps have ts: "ts \<noteq> []" by auto
    from False Cons.prems ts n
    have "parseItems m (joinWith '','' ts @ CHR '']'' # r) = Some (vs, r)"
      by (intro Cons.IH) (simp_all add: joinWith_Cons)
    with ts readsAsD [OF Cons.hyps(1) _ len] show ?thesis
      by (simp add: n skipWs_Cons joinWith_Cons)
  qed
qed simp

lemma parseKey_text: "parseKey (jsonString k @ CHR '':'' # r) = Some (k, r)"
  by (subst jsonString_hd)
    (simp add: parseKey_def skipWs_Cons jsonString_parse Let_def)

definition memberText :: "string \<times> string \<Rightarrow> string" where
  "memberText m = jsonString (fst m) @ '':'' @ snd m"

lemma memberText_pair: "memberText (k, t) = jsonString k @ CHR '':'' # t"
  by (simp add: memberText_def)

lemma parseMembers_join:
  assumes "list_all2 (\<lambda>m u. fst m = fst u \<and> readsAs (snd m) (snd u)) ms us" "ms \<noteq> []"
    and "2 * length (joinWith '','' (map memberText us)) < n"
  shows "parseMembers n (joinWith '','' (map memberText us) @ CHR ''}'' # r) = Some (ms, r)"
  using assms
proof (induction ms us arbitrary: n rule: list_all2_induct)
  case (Cons m ms u us)
  obtain l where n: "n = Suc l" using Cons.prems by (cases n) auto
  obtain k v t where m: "m = (k, v)" "u = (k, t)" and v: "readsAs v t"
    using Cons.hyps by (cases m; cases u) auto
  have len: "2 * length t \<le> l" using Cons.prems n m by (auto simp: joinWith_Cons memberText_pair)
  show ?case
  proof (cases "ms = []")
    case True
    with Cons.hyps have "us = []" by simp
    with True readsAsD [OF v _ len] show ?thesis
      by (simp add: n m memberText_pair parseKey_text skipWs_Cons)
  next
    case False
    with Cons.hyps have us: "us \<noteq> []" by auto
    from False Cons.prems us n
    have "parseMembers l (joinWith '','' (map memberText us) @ CHR ''}'' # r) = Some (ms, r)"
      by (intro Cons.IH) (simp_all add: joinWith_Cons)
    with us readsAsD [OF v _ len] show ?thesis
      by (simp add: n m memberText_pair parseKey_text skipWs_Cons joinWith_Cons)
  qed
qed simp

lemma readsAs_number: "readsAs (JNumber (jint k)) (showInt k)"
proof -
  obtain c t where t: "showInt k = c # t" "isDigit c \<or> c = CHR ''-''"
    using showInt_hd [of k] by (cases "showInt k") auto
  then have c: "\<not> isJsonWs c" "c \<noteq> CHR 0x22" "c \<noteq> CHR ''[''" "c \<noteq> CHR ''{''" "c \<noteq> CHR '']''"
      "c \<noteq> CHR ''n''" "c \<noteq> CHR ''t''" "c \<noteq> CHR ''f''"
    by (auto simp: isJsonWs_digit isDigit_def)
  show ?thesis unfolding t(1)
  proof (rule readsAsI)
    fix n r assume "stops r"
    with parseNumber_showInt [of r k] t c
    show "parseValue (Suc n) (c # t @ r) = Some (JNumber (jint k), r)"
      by (simp add: skipWs_Cons parseLiteral_def stripPrefix_def)
  qed (use c in simp_all)
qed

lemma readsAs_literals:
  "readsAs Null ''null''" "readsAs (JBool True) ''true''" "readsAs (JBool False) ''false''"
  by (rule readsAsI; simp add: skipWs_Cons parseLiteral_def stripPrefix_def)+

lemma readsAs_string: "readsAs (JString s) (jsonString s)"
proof (subst jsonString_hd, rule readsAsI)
  fix n r
  show "parseValue (Suc n) (CHR 0x22 # tl (jsonString s) @ r) = Some (JString s, r)"
    by (simp add: skipWs_Cons jsonString_parse Let_def)
qed simp_all

lemma readsAs_array:
  assumes "list_all2 readsAs vs ts"
  shows "readsAs (JArray vs) (''['' @ joinWith '','' ts @ '']'')"
  unfolding append_Cons append_Nil
proof (rule readsAsI)
  fix n r assume n: "2 * length (joinWith '','' ts @ '']'') < n"
  show "parseValue (Suc n) (CHR ''['' # (joinWith '','' ts @ '']'') @ r) = Some (JArray vs, r)"
  proof (cases "vs = []")
    case True
    with assms show ?thesis by (simp add: skipWs_Cons Let_def)
  next
    case False
    with assms obtain t ts' where ts: "ts = t # ts'" "t \<noteq> []" "\<not> isJsonWs (hd t)" "hd t \<noteq> CHR '']''"
      by (cases vs; cases ts) (auto simp: readsAs_def)
    then obtain c u where "joinWith '','' ts = c # u" "\<not> isJsonWs c" "c \<noteq> CHR '']''"
      by (cases t) (auto simp: joinWith_Cons)
    with parseItems_join [OF assms False, of n r] n show ?thesis by (simp add: skipWs_Cons Let_def)
  qed
qed simp_all

lemma readsAs_object:
  assumes "list_all2 (\<lambda>m u. fst m = fst u \<and> readsAs (snd m) (snd u)) ms us" "objectOf ms = ms"
  shows "readsAs (JObject ms) (''{'' @ joinWith '','' (map memberText us) @ ''}'')"
  unfolding append_Cons append_Nil
proof (rule readsAsI)
  fix n r assume n: "2 * length (joinWith '','' (map memberText us) @ ''}'') < n"
  show "parseValue (Suc n) (CHR ''{'' # (joinWith '','' (map memberText us) @ ''}'') @ r)
    = Some (JObject ms, r)"
  proof (cases "ms = []")
    case True
    with assms show ?thesis by (simp add: skipWs_Cons Let_def)
  next
    case False
    with assms obtain u us' where us: "us = u # us'" by (cases ms; cases us) auto
    then obtain w where "joinWith '','' (map memberText us) = CHR 0x22 # w"
      by (auto simp: joinWith_Cons memberText_def jsonString_def)
    with parseMembers_join [OF assms(1) False, of n r] n assms(2) show ?thesis
      by (simp add: skipWs_Cons Let_def)
  qed
qed simp_all

lemma memberTexts_Some:
  "memberTexts (map (\<lambda>u. (fst u, Some (snd u))) us) = map memberText us"
  by (induction us) (auto simp: memberTexts_def memberText_def)

lemma map_stringify:
  assumes "\<And>x. x \<in> set xs \<Longrightarrow> \<exists>t. stringify x = Some t \<and> readsAs x t"
  shows "\<exists>ts. map stringify xs = map Some ts \<and> list_all2 readsAs xs ts"
  using assms
proof (induction xs)
  case (Cons x xs)
  then obtain t ts where "stringify x = Some t" "readsAs x t"
      "map stringify xs = map Some ts" "list_all2 readsAs xs ts" by fastforce
  then show ?case by (intro exI [of _ "t # ts"]) simp
qed simp

theorem stringify_readsAs: "jsonOk v \<Longrightarrow> \<exists>t. stringify v = Some t \<and> readsAs v t"
proof (induction v rule: jsonOk.induct)
  case 2
  show ?case by (simp add: readsAs_literals)
next
  case (3 b)
  show ?case by (simp add: readsAs_literals)
next
  case (4 n)
  then obtain k where "n = jint k" by (auto simp: isInteger_iff)
  with readsAs_number [of k] show ?case by simp
next
  case (5 s)
  show ?case by (simp add: readsAs_string)
next
  case (6 xs)
  then have "\<And>x. x \<in> set xs \<Longrightarrow> \<exists>t. stringify x = Some t \<and> readsAs x t"
    by (auto simp: list_all_iff)
  from map_stringify [OF this] obtain ts where
    ts: "map stringify xs = map Some ts" "list_all2 readsAs xs ts" by blast
  have "map (\<lambda>x. orNull (stringify x)) xs = map orNull (map stringify xs)" by simp
  also have "\<dots> = ts" unfolding ts by (simp add: orNull_def comp_def)
  finally show ?case using readsAs_array [OF ts(2)] by simp
next
  case (7 ms)
  then have "\<And>x. x \<in> set (map snd ms) \<Longrightarrow> \<exists>t. stringify x = Some t \<and> readsAs x t"
    by (auto simp: list_all_iff)
  from map_stringify [OF this] obtain ts where
    ts: "map stringify (map snd ms) = map Some ts" "list_all2 readsAs (map snd ms) ts" by blast
  define us where "us = zip (map fst ms) ts"
  have len: "length ts = length ms" using ts(2) by (simp add: list_all2_lengthD [symmetric])
  have nth: "stringify (snd (ms ! i)) = Some (ts ! i)" if "i < length ms" for i
    using arg_cong [OF ts(1), of "\<lambda>xs. xs ! i"] that len by simp
  have "map (\<lambda>m. (fst m, stringify (snd m))) ms = map (\<lambda>u. (fst u, Some (snd u))) us"
    by (rule nth_equalityI) (simp_all add: us_def len nth)
  moreover have "list_all2 (\<lambda>m u. fst m = fst u \<and> readsAs (snd m) (snd u)) ms us"
    using ts(2) len by (simp add: us_def list_all2_conv_all_nth)
  ultimately show ?case
    using readsAs_object [of ms us] 7 by (simp add: memberTexts_Some)
qed simp

theorem jsonParse_stringify:
  assumes "jsonOk v" shows "\<exists>t. stringify v = Some t \<and> jsonParse t = Some v"
proof -
  obtain t where t: "stringify v = Some t" "readsAs v t"
    using stringify_readsAs [OF assms] by blast
  from readsAsD [OF this(2), of "[]" "2 * length t + 2"] have "jsonParse t = Some v"
    by (simp add: jsonParse_def stops_def)
  with t show ?thesis by blast
qed

lemma fold_update_distinct:
  "distinct (map fst (acc @ ms)) \<Longrightarrow> fold (\<lambda>(k, v). AList.update k v) ms acc = acc @ ms"
proof (induction ms arbitrary: acc)
  case (Cons m ms)
  obtain k v where m: "m = (k, v)" by (cases m)
  have "k \<notin> fst ` set acc \<Longrightarrow> AList.update k v acc = acc @ [(k, v)]" for acc
    by (induction acc) auto
  with Cons.prems Cons.IH [of "acc @ [m]"] show ?case by (simp add: m)
qed simp

lemma objectOf_plain:
  assumes "distinct (map fst ms)" "\<forall>k \<in> set (map fst ms). \<not> isIndexKey k"
  shows "objectOf ms = ms"
proof -
  from fold_update_distinct [of "[]" ms] assms
  have "fold (\<lambda>(k, v). AList.update k v) ms [] = ms" by simp
  moreover from assms have "filter (\<lambda>(k, v). isIndexKey k) ms = []"
      "filter (\<lambda>(k, v). \<not> isIndexKey k) ms = ms"
    by (auto simp: filter_empty_conv filter_id_conv)
  ultimately show ?thesis by (simp add: objectOf_def)
qed

lemma objectOf_distinct_keys: "distinct (map fst (objectOf ms))"
proof -
  have d: "distinct (map fst acc) \<Longrightarrow> distinct (map fst (fold (\<lambda>(k, v). AList.update k v) ms acc))" for acc
    by (induction ms arbitrary: acc) (auto simp: distinct_update)
  let ?m = "fold (\<lambda>(k, v). AList.update k v) ms []"
  let ?i = "filter (\<lambda>(k, v). isIndexKey k) ?m" and ?o = "filter (\<lambda>(k, v). \<not> isIndexKey k) ?m"
  from d [of "[]"] have "distinct (map fst ?m)" by simp
  then have "distinct (map fst ?i)" "distinct (map fst ?o)" by (simp_all add: distinct_map_filter)
  moreover have "mset (map fst (sort_key (\<lambda>(k, v). parseNat k) ?i)) = mset (map fst ?i)" by simp
  then have "distinct (map fst (sort_key (\<lambda>(k, v). parseNat k) ?i)) = distinct (map fst ?i)"
    by (rule mset_eq_imp_distinct_iff)
  ultimately show ?thesis by (auto simp: objectOf_def Let_def)
qed

lemma objectOf_filter:
  assumes "objectOf ms = ms" shows "objectOf (filter p ms) = filter p ms"
proof -
  have d: "distinct (map fst ms)" using objectOf_distinct_keys [of ms] assms by simp
  have *: "objectOf xs = sort_key (\<lambda>(k, v). parseNat k) (filter (\<lambda>(k, v). isIndexKey k) xs)
      @ filter (\<lambda>(k, v). \<not> isIndexKey k) xs" if "distinct (map fst xs)" for xs :: "(string \<times> 'a) list"
    using fold_update_distinct [of "[]" xs] that by (simp add: objectOf_def)
  from assms * [OF d]
  have "filter p ms = filter p (sort_key (\<lambda>(k, v). parseNat k) (filter (\<lambda>(k, v). isIndexKey k) ms)
      @ filter (\<lambda>(k, v). \<not> isIndexKey k) ms)" by simp
  also have "\<dots> = objectOf (filter p ms)"
    using * [of "filter p ms"] d by (simp add: distinct_map_filter filter_sort conj_commute)
  finally show ?thesis by simp
qed

end
