(* ===== verification/DurableStore.thy ===== *)
theory DurableStore
  imports JsonFacts
begin

text \<open>
  \<^verbatim>\<open>src/core/durable-store.ts\<close>: small records with a revision, changed only by compare-and-swap.
  First the data and the validators, then the port with the laws its users rely on, and the
  in-memory store, which is shown to keep them.
\<close>

section \<open>Records (DurableRecord, results)\<close>

definition MAX_DURABLE_METADATA_BYTES :: nat where
  "MAX_DURABLE_METADATA_BYTES = 64 * 1024"

definition MAX_DURABLE_KEY_CHARS :: nat where
  "MAX_DURABLE_KEY_CHARS = 240"

record DurableRecord =
  dr_key :: string
  dr_value :: string
  dr_revision :: int
  dr_createdAt :: jsnum
  dr_updatedAt :: jsnum
  dr_expiresAt :: "jsnum option"

record NewDurableRecord =
  nd_key :: string
  nd_value :: string
  nd_nowMs :: jsnum
  nd_expiresAt :: "jsnum option"

record DurableRecordUpdate =
  du_value :: string
  du_nowMs :: jsnum
  du_expiresAt :: "jsnum option"

datatype DurableCreateResult = DurableCreated DurableRecord | DurableExists DurableRecord

datatype DurableCasResult = CasUpdated DurableRecord | CasConflict DurableRecord | CasMissing

datatype DurableDeleteResult = DeleteDone | DeleteConflict | DeleteMissing

record DurableExpiredPage =
  ep_records :: "DurableRecord list"
  ep_nextCursor :: "string option"

section \<open>Validation\<close>

definition durableKeyChar :: "char \<Rightarrow> bool" where
  "durableKeyChar c \<longleftrightarrow> (let n = of_char c :: nat in
     (65 \<le> n \<and> n \<le> 90) \<or> (97 \<le> n \<and> n \<le> 122) \<or> (48 \<le> n \<and> n \<le> 57) \<or> n \<in> {45, 46, 58, 95})"

definition validateDurableKey :: "string \<Rightarrow> unit res" where
  "validateDurableKey key =
     throwIf (key = [] \<or> length key > MAX_DURABLE_KEY_CHARS \<or> \<not> list_all durableKeyChar key)
       (JsError ''durable metadata key is invalid'')"

definition validateDurableValue :: "string \<Rightarrow> unit res" where
  "validateDurableValue value =
     throwIf (utf8Length value > MAX_DURABLE_METADATA_BYTES)
       (JsError ''durable metadata exceeds the 64 KiB limit; store large content as an ArtifactRef'')"

definition validateDurableWrite :: "string \<Rightarrow> jsnum \<Rightarrow> jsnum option \<Rightarrow> unit res" where
  "validateDurableWrite value nowMs expiresAt =
     andThen (validateDurableValue value)
     (andThen (throwIf (\<not> isSafeInteger nowMs \<or> jlt nowMs (jint 0))
       (JsError ''durable metadata timestamp is invalid''))
     (case expiresAt of None \<Rightarrow> Inr ()
      | Some e \<Rightarrow> throwIf (\<not> isSafeInteger e \<or> jle e nowMs)
          (JsError ''durable metadata expiry must be later than nowMs'')))"

section \<open>The port and its laws (DurableRecordStorePort)\<close>

record 's durable_port =
  dp_get :: "string \<Rightarrow> 's \<Rightarrow> DurableRecord option res"
  dp_createIfAbsent :: "NewDurableRecord \<Rightarrow> 's \<Rightarrow> DurableCreateResult res \<times> 's"
  dp_compareAndSwap :: "string \<Rightarrow> int \<Rightarrow> DurableRecordUpdate \<Rightarrow> 's \<Rightarrow> DurableCasResult res \<times> 's"
  dp_deleteIfRevision :: "string \<Rightarrow> int \<Rightarrow> 's \<Rightarrow> DurableDeleteResult res \<times> 's"
  dp_scanExpired :: "jsnum \<Rightarrow> string option \<Rightarrow> int \<Rightarrow> 's \<Rightarrow> DurableExpiredPage res"

definition newRecord :: "NewDurableRecord \<Rightarrow> DurableRecord" where
  "newRecord i = \<lparr>dr_key = nd_key i, dr_value = nd_value i, dr_revision = 1,
     dr_createdAt = nd_nowMs i, dr_updatedAt = nd_nowMs i, dr_expiresAt = nd_expiresAt i\<rparr>"

definition swappedRecord :: "DurableRecord \<Rightarrow> DurableRecordUpdate \<Rightarrow> DurableRecord" where
  "swappedRecord current u = current\<lparr>dr_value := du_value u, dr_revision := dr_revision current + 1,
     dr_updatedAt := du_nowMs u, dr_expiresAt := du_expiresAt u\<rparr>"

text \<open>What a store promises, over the record it holds under every key: a failed call changes
  nothing, a record is created only where there is none, and a write or a deletion happens exactly
  at the revision it expects.\<close>

locale durable_store =
  fixes P :: "'s durable_port"
    and look :: "'s \<Rightarrow> string \<Rightarrow> DurableRecord option"
  assumes get_look: "dp_get P k s = Inr x \<Longrightarrow> x = look s k"
    and create_fails: "dp_createIfAbsent P i s = (Inl e, s') \<Longrightarrow> look s' = look s"
    and create_new: "dp_createIfAbsent P i s = (Inr (DurableCreated r), s') \<Longrightarrow>
      look s (nd_key i) = None \<and> r = newRecord i \<and> look s' = (look s)(nd_key i \<mapsto> r)"
    and create_old: "dp_createIfAbsent P i s = (Inr (DurableExists r), s') \<Longrightarrow>
      look s (nd_key i) = Some r \<and> look s' = look s"
    and cas_fails: "dp_compareAndSwap P k n u s = (Inl e, s') \<Longrightarrow> look s' = look s"
    and cas_updated: "dp_compareAndSwap P k n u s = (Inr (CasUpdated r), s') \<Longrightarrow>
      \<exists>c. look s k = Some c \<and> dr_revision c = n \<and> r = swappedRecord c u \<and> look s' = (look s)(k \<mapsto> r)"
    and cas_conflict: "dp_compareAndSwap P k n u s = (Inr (CasConflict r), s') \<Longrightarrow>
      look s k = Some r \<and> dr_revision r \<noteq> n \<and> look s' = look s"
    and cas_missing: "dp_compareAndSwap P k n u s = (Inr CasMissing, s') \<Longrightarrow>
      look s k = None \<and> look s' = look s"
    and delete_done: "dp_deleteIfRevision P k n s = (Inr DeleteDone, s') \<Longrightarrow>
      \<exists>c. look s k = Some c \<and> dr_revision c = n \<and> look s' = (look s)(k := None)"
    and delete_not: "dp_deleteIfRevision P k n s = (d, s') \<Longrightarrow> d \<noteq> Inr DeleteDone \<Longrightarrow> look s' = look s"

section \<open>The in-memory store (InMemoryDurableRecordStore)\<close>

type_synonym mem_records = "DurableRecord jsmap"

definition mds_get :: "string \<Rightarrow> mem_records \<Rightarrow> DurableRecord option res" where
  "mds_get key s = andThen (validateDurableKey key) (Inr (map_of s key))"

definition mds_createIfAbsent ::
  "NewDurableRecord \<Rightarrow> mem_records \<Rightarrow> DurableCreateResult res \<times> mem_records" where
  "mds_createIfAbsent i s =
     (case andThen (validateDurableKey (nd_key i))
            (validateDurableWrite (nd_value i) (nd_nowMs i) (nd_expiresAt i)) of
        Inl e \<Rightarrow> (Inl e, s)
      | Inr _ \<Rightarrow>
          (case map_of s (nd_key i) of
             Some existing \<Rightarrow> (Inr (DurableExists existing), s)
           | None \<Rightarrow> (Inr (DurableCreated (newRecord i)), AList.update (nd_key i) (newRecord i) s)))"

definition mds_compareAndSwap ::
  "string \<Rightarrow> int \<Rightarrow> DurableRecordUpdate \<Rightarrow> mem_records \<Rightarrow> DurableCasResult res \<times> mem_records" where
  "mds_compareAndSwap key expectedRevision u s =
     (case andThen (validateDurableKey key)
            (validateDurableWrite (du_value u) (du_nowMs u) (du_expiresAt u)) of
        Inl e \<Rightarrow> (Inl e, s)
      | Inr _ \<Rightarrow>
          (case map_of s key of
             None \<Rightarrow> (Inr CasMissing, s)
           | Some current \<Rightarrow>
               if dr_revision current \<noteq> expectedRevision then (Inr (CasConflict current), s)
               else (Inr (CasUpdated (swappedRecord current u)),
                     AList.update key (swappedRecord current u) s)))"

definition mds_deleteIfRevision ::
  "string \<Rightarrow> int \<Rightarrow> mem_records \<Rightarrow> DurableDeleteResult res \<times> mem_records" where
  "mds_deleteIfRevision key expectedRevision s =
     (case validateDurableKey key of
        Inl e \<Rightarrow> (Inl e, s)
      | Inr _ \<Rightarrow>
          (case map_of s key of
             None \<Rightarrow> (Inr DeleteMissing, s)
           | Some current \<Rightarrow>
               if dr_revision current \<noteq> expectedRevision then (Inr DeleteConflict, s)
               else (Inr DeleteDone, AList.delete key s)))"

definition expiredAt :: "jsnum \<Rightarrow> string option \<Rightarrow> DurableRecord \<Rightarrow> bool" where
  "expiredAt nowMs cursor r \<longleftrightarrow>
     (case dr_expiresAt r of None \<Rightarrow> False | Some e \<Rightarrow> jle e nowMs) \<and>
     codeUnitGreater (dr_key r) (case cursor of None \<Rightarrow> '''' | Some c \<Rightarrow> c)"

text \<open>\<open>localeCompare\<close> depends on the locale of the process and is an argument.\<close>

definition mds_scanExpired :: "(string \<Rightarrow> string \<Rightarrow> int) \<Rightarrow> jsnum \<Rightarrow> string option \<Rightarrow> int \<Rightarrow>
    mem_records \<Rightarrow> DurableExpiredPage res" where
  "mds_scanExpired localeCompare nowMs cursor limit s =
     (let records = sortBy (\<lambda>l r. localeCompare (dr_key l) (dr_key r))
            (filter (expiredAt nowMs cursor) (map snd s));
          page = sliceTo limit records
      in Inr \<lparr>ep_records = page,
              ep_nextCursor = (if int (length records) > limit
                then (if page = [] then None else Some (dr_key (last page))) else None)\<rparr>)"

definition memDurablePort :: "(string \<Rightarrow> string \<Rightarrow> int) \<Rightarrow> mem_records durable_port" where
  "memDurablePort localeCompare =
     \<lparr>dp_get = mds_get, dp_createIfAbsent = mds_createIfAbsent,
      dp_compareAndSwap = mds_compareAndSwap, dp_deleteIfRevision = mds_deleteIfRevision,
      dp_scanExpired = mds_scanExpired localeCompare\<rparr>"

lemma memDurablePort_sel [simp]:
  "dp_get (memDurablePort lc) = mds_get"
  "dp_createIfAbsent (memDurablePort lc) = mds_createIfAbsent"
  "dp_compareAndSwap (memDurablePort lc) = mds_compareAndSwap"
  "dp_deleteIfRevision (memDurablePort lc) = mds_deleteIfRevision"
  "dp_scanExpired (memDurablePort lc) = mds_scanExpired lc"
  by (simp_all add: memDurablePort_def)

interpretation mem_durable: durable_store "memDurablePort lc" map_of
proof unfold_locales
  fix k n u s r s'
  assume "dp_compareAndSwap (memDurablePort lc) k n u s = (Inr (CasUpdated r), s')"
  then show "\<exists>c. map_of s k = Some c \<and> dr_revision c = n \<and> r = swappedRecord c u \<and>
      map_of s' = (map_of s)(k \<mapsto> r)"
    by (auto simp: mds_compareAndSwap_def split: sum.splits option.splits if_splits)
qed (auto simp: mds_get_def mds_createIfAbsent_def mds_compareAndSwap_def mds_deleteIfRevision_def
  delete_conv' fun_eq_iff res_simps split: sum.splits option.splits if_splits)

end
