(* ===== verification/JsActions.thy ===== *)
theory JsActions
  imports JsPrelude
begin

text \<open>
  Methods that change a state and may throw: what a method does is a function of the state that
  returns a result or what it throws, with the state it leaves. The combinators are the statement
  sequence, \<open>throw\<close>, \<open>try\<close> and \<open>catch\<close> of the language. A component instantiates the state: its own
  store, or a world with concurrent requests.
\<close>

text \<open>A method throws what a \<open>catch\<close> may receive, or returns.\<close>

type_synonym 'a tres = "thrown + 'a"
type_synonym ('w, 'a) action = "'w \<Rightarrow> 'a tres \<times> 'w"

definition returnM :: "'a \<Rightarrow> ('w, 'a) action" where
  "returnM x w = (Inr x, w)"

definition throwM :: "exn \<Rightarrow> ('w, 'a) action" where
  "throwM e w = (Inl (ThrownError e), w)"

definition bindM :: "('w, 'a) action \<Rightarrow> ('a \<Rightarrow> ('w, 'b) action) \<Rightarrow> ('w, 'b) action" where
  "bindM m f w = (case m w of (Inl e, w') \<Rightarrow> (Inl e, w') | (Inr x, w') \<Rightarrow> f x w')"

definition thenM :: "('w, unit) action \<Rightarrow> ('w, 'b) action \<Rightarrow> ('w, 'b) action" where
  "thenM m n = bindM m (\<lambda>_. n)"

text \<open>\<open>try m catch h\<close>.\<close>

definition catchM :: "('w, 'a) action \<Rightarrow> (thrown \<Rightarrow> ('w, 'a) action) \<Rightarrow> ('w, 'a) action" where
  "catchM m h w = (case m w of (Inl e, w') \<Rightarrow> h e w' | (Inr x, w') \<Rightarrow> (Inr x, w'))"

text \<open>A caught throw as a value, a throw that is ignored, and a throw passed on.\<close>

definition attemptM :: "('w, 'a) action \<Rightarrow> ('w, 'a tres) action" where
  "attemptM m w = (case m w of (r, w') \<Rightarrow> (Inr r, w'))"

definition quietly :: "('w, 'a) action \<Rightarrow> ('w, 'a option) action" where
  "quietly m = catchM (bindM m (\<lambda>x. returnM (Some x))) (\<lambda>_. returnM None)"

definition rethrow :: "thrown \<Rightarrow> ('w, 'a) action" where
  "rethrow e w = (Inl e, w)"

text \<open>A computation without effects.\<close>

definition pureM :: "'a res \<Rightarrow> ('w, 'a) action" where
  "pureM r w = (case r of Inl e \<Rightarrow> (Inl (ThrownError e), w) | Inr x \<Rightarrow> (Inr x, w))"

definition liftThrown :: "'a res \<Rightarrow> 'a tres" where
  "liftThrown r = (case r of Inl e \<Rightarrow> Inl (ThrownError e) | Inr x \<Rightarrow> Inr x)"

named_theorems method_simps \<open>execution of methods\<close>

lemma method_execs [method_simps]:
  "returnM x w = (Inr x, w)"
  "throwM e w = (Inl (ThrownError e), w)"
  "pureM (Inr x) w = (Inr x, w)"
  "pureM (Inl e) w = (Inl (ThrownError e), w)"
  "liftThrown (Inr x) = Inr x"
  "liftThrown (Inl e) = Inl (ThrownError e)"
  by (simp_all add: returnM_def throwM_def pureM_def liftThrown_def)

lemma bindM_assoc: "bindM (bindM m f) g = bindM m (\<lambda>x. bindM (f x) g)"
  by (rule ext) (simp add: bindM_def split: prod.splits sum.splits)

lemma bindM_return: "bindM (returnM x) f = f x"
  by (rule ext) (simp add: bindM_def method_simps)

lemma bindM_throw: "bindM (throwM e) f = throwM e"
  by (rule ext) (simp add: bindM_def method_simps)

text \<open>What a \<open>catch\<close> reports of an error: \<open>error instanceof Error ? error.message.slice(0, 500) : ...\<close>.\<close>

fun caughtMessage :: "string \<Rightarrow> thrown \<Rightarrow> string" where
  "caughtMessage other (ThrownError e) = take 500 (exn_message e)"
| "caughtMessage other _ = other"

end
