(* ===== verification/DurableWorld.thy ===== *)
theory DurableWorld
  imports DurableStore JsActions
begin

text \<open>
  Asynchronous methods over a durable store. A method awaits every call it makes to the store, and
  meanwhile other requests, other processes and the clean-up change the store: the world of a call
  holds the store, the number of store calls made so far, what the others do to the store before the
  next one, and the method's own calls as pairs of the store before and after. Provider calls see the same clock (\<open>dw_turn\<close>).

  The second part is a rely-guarantee logic for these methods. A step relation says how the records
  may evolve; if the others keep to it, a method that checks what it writes keeps to it too, and what
  it has read stays true of the record until its revision changes.
\<close>

section \<open>Worlds\<close>

record 's dworld =
  dw_store :: 's
  dw_turn :: nat
  dw_others :: "nat \<Rightarrow> 's \<Rightarrow> 's"
  dw_steps :: "('s \<times> 's) list"

text \<open>One awaited call of the store; the others move first.\<close>

definition callStore :: "('s \<Rightarrow> 'a res \<times> 's) \<Rightarrow> (('s, 'x) dworld_scheme, 'a) action" where
  "callStore f w =
     (let s = dw_others w (dw_turn w) (dw_store w); (r, s') = f s
      in (liftThrown r, w\<lparr>dw_store := s', dw_turn := Suc (dw_turn w), dw_steps := (s, s') # dw_steps w\<rparr>))"

definition storeGet :: "'s durable_port \<Rightarrow> string \<Rightarrow> (('s, 'x) dworld_scheme, DurableRecord option) action" where
  "storeGet P key = callStore (\<lambda>s. (dp_get P key s, s))"

definition storeCreate ::
  "'s durable_port \<Rightarrow> NewDurableRecord \<Rightarrow> (('s, 'x) dworld_scheme, DurableCreateResult) action" where
  "storeCreate P i = callStore (dp_createIfAbsent P i)"

definition storeCas :: "'s durable_port \<Rightarrow> string \<Rightarrow> int \<Rightarrow> DurableRecordUpdate \<Rightarrow>
    (('s, 'x) dworld_scheme, DurableCasResult) action" where
  "storeCas P key revision u = callStore (dp_compareAndSwap P key revision u)"

section \<open>Step relations and the contract of methods\<close>

text \<open>How the records of a store may evolve: no record disappears, its revision only grows, the
  revision identifies the record, its value moves along \<open>R\<close>, and a new record starts with a value
  that \<open>N\<close> admits.\<close>

locale durable_steps = durable_store P look
  for P :: "'s durable_port" and look :: "'s \<Rightarrow> string \<Rightarrow> DurableRecord option" +
  fixes N :: "string \<Rightarrow> string \<Rightarrow> bool" and R :: "string \<Rightarrow> string \<Rightarrow> string \<Rightarrow> bool"
  assumes R_refl: "R k v v"
    and N_R: "N k v \<Longrightarrow> R k v w \<Longrightarrow> N k w"
    and R_trans: "R k u v \<Longrightarrow> R k v w \<Longrightarrow> R k u w"
begin

definition moves :: "string \<Rightarrow> DurableRecord \<Rightarrow> DurableRecord \<Rightarrow> bool" where
  "moves k r r' \<longleftrightarrow> dr_revision r \<le> dr_revision r' \<and> (dr_revision r' = dr_revision r \<longrightarrow> r' = r) \<and>
     R k (dr_value r) (dr_value r')"

lemma moves_refl [simp]: "moves k r r"
  by (simp add: moves_def R_refl)

lemma moves_trans: "moves k r r' \<Longrightarrow> moves k r' r'' \<Longrightarrow> moves k r r''"
  using R_trans [of k "dr_value r" "dr_value r'" "dr_value r''"] by (auto simp: moves_def)

definition evolves :: "'s \<Rightarrow> 's \<Rightarrow> bool" where
  "evolves s s' \<longleftrightarrow>
     (\<forall>k r. look s k = Some r \<longrightarrow> (\<exists>r'. look s' k = Some r' \<and> moves k r r')) \<and>
     (\<forall>k r. look s k = None \<longrightarrow> look s' k = Some r \<longrightarrow> N k (dr_value r))"

text \<open>Every record has an admitted value.\<close>

definition sound :: "'s \<Rightarrow> bool" where
  "sound s \<longleftrightarrow> (\<forall>k r. look s k = Some r \<longrightarrow> N k (dr_value r))"

lemma evolves_refl [intro!]: "evolves s s"
  by (simp add: evolves_def)

lemma evolves_look: "look s' = look s \<Longrightarrow> evolves s s'"
  by (simp add: evolves_def)

lemma evolvesE:
  assumes "evolves s s'" "look s k = Some r"
  obtains r' where "look s' k = Some r'" "moves k r r'"
  using assms unfolding evolves_def by blast

lemma evolves_new: "evolves s s' \<Longrightarrow> look s k = None \<Longrightarrow> look s' k = Some r \<Longrightarrow> N k (dr_value r)"
  by (simp add: evolves_def)

lemma moves_N: "moves k r r' \<Longrightarrow> N k (dr_value r) \<Longrightarrow> N k (dr_value r')"
  unfolding moves_def using N_R by blast

lemma evolves_trans [trans]:
  assumes "evolves s t" "evolves t u" shows "evolves s u"
proof -
  have "\<exists>r'. look u k = Some r' \<and> moves k r r'" if "look s k = Some r" for k r
  proof -
    from assms(1) that obtain r1 where "look t k = Some r1" "moves k r r1" by (rule evolvesE)
    moreover from assms(2) this(1) obtain r2 where "look u k = Some r2" "moves k r1 r2" by (rule evolvesE)
    ultimately show ?thesis by (blast intro: moves_trans)
  qed
  moreover have "N k (dr_value r)" if "look s k = None" "look u k = Some r" for k r
  proof (cases "look t k")
    case None
    with assms(2) that show ?thesis by (blast intro: evolves_new)
  next
    case (Some r1)
    with assms(2) obtain r2 where "look u k = Some r2" "moves k r1 r2" by (rule evolvesE)
    with that Some show ?thesis using evolves_new [OF assms(1) that(1) Some] moves_N by auto
  qed
  ultimately show ?thesis by (simp add: evolves_def)
qed

lemma sound_evolves: "sound s \<Longrightarrow> evolves s s' \<Longrightarrow> sound s'"
  unfolding sound_def
proof (intro allI impI)
  fix k r assume s: "\<forall>k r. look s k = Some r \<longrightarrow> N k (dr_value r)" and e: "evolves s s'" "look s' k = Some r"
  show "N k (dr_value r)"
  proof (cases "look s k")
    case None
    with e show ?thesis by (blast intro: evolves_new)
  next
    case (Some r1)
    with e(1) obtain r2 where "look s' k = Some r2" "moves k r1 r2" by (rule evolvesE)
    with s Some e(2) show ?thesis by (auto intro: moves_N)
  qed
qed

text \<open>The record \<open>r\<close> has been under \<open>k\<close>: what is there now has evolved from it.\<close>

definition seen :: "string \<Rightarrow> DurableRecord \<Rightarrow> 's \<Rightarrow> bool" where
  "seen k r s \<longleftrightarrow> N k (dr_value r) \<and> (\<exists>r'. look s k = Some r' \<and> moves k r r')"

lemma seen_evolves: "seen k r s \<Longrightarrow> evolves s s' \<Longrightarrow> seen k r s'"
  unfolding seen_def by (blast elim: evolvesE intro: moves_trans)

lemma seen_N: "seen k r s \<Longrightarrow> N k (dr_value r)"
  by (simp add: seen_def)

lemma seen_now: "sound s \<Longrightarrow> look s k = Some r \<Longrightarrow> seen k r s"
  by (simp add: seen_def sound_def)

lemma seen_at: "seen k r s \<Longrightarrow> look s k = Some r' \<Longrightarrow> dr_revision r' = dr_revision r \<Longrightarrow> r' = r"
  by (auto simp: seen_def moves_def)

lemma seen_Some: "seen k r s \<Longrightarrow> look s k \<noteq> None"
  by (auto simp: seen_def)

text \<open>An assertion that the others cannot falsify.\<close>

definition stable :: "('s \<Rightarrow> bool) \<Rightarrow> bool" where
  "stable A \<longleftrightarrow> (\<forall>s s'. A s \<longrightarrow> evolves s s' \<longrightarrow> A s')"

lemma stable_intros [intro]:
  "stable (seen k r)" "stable (\<lambda>s. c)"
  "stable A \<Longrightarrow> stable B \<Longrightarrow> stable (\<lambda>s. A s \<and> B s)"
  by (auto simp: stable_def intro: seen_evolves)

lemma stableD: "stable A \<Longrightarrow> A s \<Longrightarrow> evolves s s' \<Longrightarrow> A s'"
  by (simp add: stable_def)

definition relies :: "('s, 'x) dworld_scheme \<Rightarrow> bool" where
  "relies w \<longleftrightarrow> sound (dw_store w) \<and> (\<forall>n s. evolves s (dw_others w n s))"

text \<open>What a method may do to its world: the store evolves, and so it does in every single call.\<close>

definition goesOn :: "('s, 'x) dworld_scheme \<Rightarrow> ('s, 'x) dworld_scheme \<Rightarrow> bool" where
  "goesOn w w' \<longleftrightarrow> evolves (dw_store w) (dw_store w') \<and> dw_others w' = dw_others w \<and>
     (\<forall>s t. (s, t) \<in> set (dw_steps w') \<longrightarrow> (s, t) \<in> set (dw_steps w) \<or> evolves s t)"

lemma goesOn_refl [simp, intro!]: "goesOn w w"
  by (auto simp: goesOn_def)

lemma goesOn_trans: "goesOn u v \<Longrightarrow> goesOn v w \<Longrightarrow> goesOn u w"
  unfolding goesOn_def using evolves_trans by metis

lemma goesOnD:
  assumes "goesOn w w'"
  shows "evolves (dw_store w) (dw_store w')" "dw_others w' = dw_others w"
    "(s, t) \<in> set (dw_steps w') \<Longrightarrow> (s, t) \<in> set (dw_steps w) \<or> evolves s t"
  using assms by (simp_all add: goesOn_def)

lemma goesOn_relies: "goesOn w w' \<Longrightarrow> relies w \<Longrightarrow> relies w'"
  by (auto simp: goesOn_def relies_def intro: sound_evolves)

text \<open>The contract of a method: from a store with \<open>A\<close>, while the others keep to the step relation, it
  keeps to it, and if it returns \<open>x\<close> the store satisfies \<open>B x\<close>.\<close>

definition keeps :: "('s \<Rightarrow> bool) \<Rightarrow> (('s, 'x) dworld_scheme, 'a) action \<Rightarrow> ('a \<Rightarrow> 's \<Rightarrow> bool) \<Rightarrow> bool" where
  "keeps A m B \<longleftrightarrow> (\<forall>w r w'. relies w \<longrightarrow> A (dw_store w) \<longrightarrow> m w = (r, w') \<longrightarrow>
     goesOn w w' \<and> (\<forall>x. r = Inr x \<longrightarrow> B x (dw_store w')))"

lemma keepsI:
  assumes "\<And>w r w'. relies w \<Longrightarrow> A (dw_store w) \<Longrightarrow> m w = (r, w') \<Longrightarrow>
     goesOn w w' \<and> (\<forall>x. r = Inr x \<longrightarrow> B x (dw_store w'))"
  shows "keeps A m B"
  using assms by (auto simp: keeps_def)

lemma keepsD:
  assumes "keeps A m B" "relies w" "A (dw_store w)" "m w = (r, w')"
  shows "goesOn w w'" "relies w'" "r = Inr x \<Longrightarrow> B x (dw_store w')"
  using assms goesOn_relies unfolding keeps_def by blast+

lemma keeps_return: "(\<And>s. A s \<Longrightarrow> B x s) \<Longrightarrow> keeps A (returnM x) B"
  by (auto simp: keeps_def method_simps)

lemma keeps_throw [intro]: "keeps A (throwM e) B"
  by (auto simp: keeps_def method_simps)

lemma keeps_pure: "(\<And>x s. r = Inr x \<Longrightarrow> A s \<Longrightarrow> B x s) \<Longrightarrow> keeps A (pureM r) B"
  by (cases r) (auto simp: keeps_def method_simps)

lemma keeps_weaken:
  assumes "keeps A' m B'" "\<And>s. A s \<Longrightarrow> A' s" "\<And>x s. B' x s \<Longrightarrow> B x s"
  shows "keeps A m B"
  using assms by (fastforce simp: keeps_def)

lemma keeps_pre: "keeps A' m B \<Longrightarrow> (\<And>s. A s \<Longrightarrow> A' s) \<Longrightarrow> keeps A m B"
  by (rule keeps_weaken)

text \<open>What held before a method still holds after it, if it is stable.\<close>

lemma keeps_frame:
  assumes "keeps A m B" "stable C"
  shows "keeps (\<lambda>s. A s \<and> C s) m (\<lambda>x s. B x s \<and> C s)"
  using assms unfolding keeps_def stable_def by (blast dest: goesOnD(1))

lemma keeps_bind:
  assumes m: "keeps A m B" and f: "\<And>x. keeps (B x) (f x) C"
  shows "keeps A (bindM m f) C"
proof (rule keepsI)
  fix w r w' assume w: "relies w" "A (dw_store w)" and run: "bindM m f w = (r, w')"
  obtain r1 w1 where 1: "m w = (r1, w1)" by (cases "m w")
  note d = keepsD [OF m w 1]
  show "goesOn w w' \<and> (\<forall>x. r = Inr x \<longrightarrow> C x (dw_store w'))"
  proof (cases r1)
    case (Inl e)
    with run 1 d show ?thesis by (auto simp: bindM_def)
  next
    case (Inr x)
    with run 1 have 2: "f x w1 = (r, w')" by (simp add: bindM_def)
    from keepsD [OF f d(2) d(3) [OF Inr] 2] d(1) show ?thesis by (blast intro: goesOn_trans)
  qed
qed

lemma keeps_then: "keeps A m (\<lambda>_. B) \<Longrightarrow> keeps B n C \<Longrightarrow> keeps A (thenM m n) C"
  unfolding thenM_def by (rule keeps_bind)

text \<open>In a handler only the stable part of what held before is known.\<close>

lemma keeps_catch:
  assumes m: "keeps A m B" and A: "stable A" and h: "\<And>e. keeps A (h e) B"
  shows "keeps A (catchM m h) B"
proof (rule keepsI)
  fix w r w' assume w: "relies w" "A (dw_store w)" and run: "catchM m h w = (r, w')"
  obtain r1 w1 where 1: "m w = (r1, w1)" by (cases "m w")
  note d = keepsD [OF m w 1]
  show "goesOn w w' \<and> (\<forall>x. r = Inr x \<longrightarrow> B x (dw_store w'))"
  proof (cases r1)
    case (Inl e)
    with run 1 have 2: "h e w1 = (r, w')" by (simp add: catchM_def)
    from stableD [OF A w(2) goesOnD(1) [OF d(1)]] have "A (dw_store w1)" .
    from keepsD [OF h d(2) this 2] d(1) show ?thesis by (blast intro: goesOn_trans)
  next
    case (Inr x)
    with run 1 d show ?thesis by (auto simp: catchM_def)
  qed
qed

lemma keeps_if: "(c \<Longrightarrow> keeps A m B) \<Longrightarrow> (\<not> c \<Longrightarrow> keeps A n B) \<Longrightarrow> keeps A (if c then m else n) B"
  by simp

lemma keeps_assume: "(\<And>s. A s \<Longrightarrow> p) \<Longrightarrow> (p \<Longrightarrow> keeps A m B) \<Longrightarrow> keeps A m B"
  by (auto simp: keeps_def)

lemma keeps_ex: "(\<And>y. keeps (A y) m B) \<Longrightarrow> keeps (\<lambda>s. \<exists>y. A y s) m B"
  by (fastforce simp: keeps_def)

section \<open>The store calls\<close>

lemma keeps_callStore:
  assumes A: "stable A"
    and f: "\<And>s r s'. A s \<Longrightarrow> sound s \<Longrightarrow> f s = (r, s') \<Longrightarrow>
      evolves s s' \<and> (\<forall>x. r = Inr x \<longrightarrow> B x s')"
  shows "keeps A (callStore f) B"
proof (rule keepsI)
  fix w r w' assume w: "relies w" "A (dw_store w)" and run: "callStore f w = (r, w')"
  define s where "s = dw_others w (dw_turn w) (dw_store w)"
  obtain r1 s' where 1: "f s = (r1, s')" by (cases "f s")
  have s: "evolves (dw_store w) s" using w(1) by (simp add: relies_def s_def)
  from stableD [OF A w(2) this] have "A s" .
  moreover have "sound s" using s w(1) sound_evolves by (auto simp: relies_def)
  ultimately have "evolves s s' \<and> (\<forall>x. r1 = Inr x \<longrightarrow> B x s')" using f 1 by blast
  with s run 1
  show "goesOn w w' \<and> (\<forall>x. r = Inr x \<longrightarrow> B x (dw_store w'))"
    by (cases r1) (auto simp: callStore_def s_def goesOn_def method_simps intro: evolves_trans)
qed

lemma keeps_get:
  "stable A \<Longrightarrow> keeps A (storeGet P k)
     (\<lambda>x s. A s \<and> (case x of None \<Rightarrow> True | Some r \<Rightarrow> seen k r s))"
  unfolding storeGet_def
  by (rule keeps_callStore) (auto dest!: get_look [OF sym] get_look intro: seen_now split: option.split)

lemma keeps_create:
  assumes A: "stable A" and N: "N (nd_key i) (nd_value i)"
  shows "keeps A (storeCreate P i)
     (\<lambda>x s. A s \<and> (case x of DurableCreated r \<Rightarrow> r = newRecord i \<and> seen (nd_key i) r s
                           | DurableExists r \<Rightarrow> seen (nd_key i) r s))"
  unfolding storeCreate_def
proof (rule keeps_callStore [OF A])
  fix s r s' assume a: "A s" and sound: "sound s" and run: "dp_createIfAbsent P i s = (r, s')"
  have e: "evolves s s'"
  proof (cases r)
    case (Inl e)
    with run show ?thesis by (auto dest: create_fails intro: evolves_look)
  next
    case (Inr x)
    with run show ?thesis
      by (cases x) (use N in \<open>auto dest!: create_new create_old intro: evolves_look
        simp: evolves_def newRecord_def split: if_splits\<close>)
  qed
  from stableD [OF A a e] have "A s'" .
  with e run sound_evolves [OF sound e] show "evolves s s' \<and> (\<forall>x. r = Inr x \<longrightarrow> A s' \<and>
      (case x of DurableCreated r \<Rightarrow> r = newRecord i \<and> seen (nd_key i) r s'
               | DurableExists r \<Rightarrow> seen (nd_key i) r s'))"
    by (auto split: DurableCreateResult.split dest!: create_new create_old intro: seen_now)
qed

text \<open>A swap at the revision of a record that has been seen replaces that record, so the value it writes
  has to be a step from the value that was seen.\<close>

lemma keeps_cas:
  assumes A: "stable A" and n: "dr_revision c = n" and step: "R k (dr_value c) (du_value u)"
  shows "keeps (\<lambda>s. A s \<and> seen k c s) (storeCas P k n u)
     (\<lambda>x s. A s \<and> seen k c s \<and> (case x of
        CasUpdated r \<Rightarrow> r = swappedRecord c u \<and> seen k r s
      | CasConflict r \<Rightarrow> seen k r s
      | CasMissing \<Rightarrow> False))"
  unfolding storeCas_def
proof (rule keeps_callStore)
  show st: "stable (\<lambda>s. A s \<and> seen k c s)" using A by auto
  fix s r s' assume a: "A s \<and> seen k c s" and sound: "sound s"
    and run: "dp_compareAndSwap P k n u s = (r, s')"
  have upd: "look s k = Some c \<and> x = swappedRecord c u \<and> look s' = (look s)(k \<mapsto> x)"
    if "r = Inr (CasUpdated x)" for x
    using cas_updated [of k n u s x s'] run that a n seen_at [of k c s] by auto
  have e: "evolves s s'"
  proof (cases r)
    case (Inl e)
    with run show ?thesis by (auto dest: cas_fails intro: evolves_look)
  next
    case (Inr x)
    show ?thesis
    proof (cases x)
      case (CasUpdated y)
      with Inr upd [of y] step show ?thesis by (auto simp: evolves_def moves_def R_refl swappedRecord_def)
    qed (use run Inr in \<open>auto dest!: cas_conflict cas_missing intro: evolves_look\<close>)
  qed
  note now = seen_now [OF sound_evolves [OF sound e]]
  from stableD [OF st a e] have "A s' \<and> seen k c s'" .
  moreover have "case x of CasUpdated r \<Rightarrow> r = swappedRecord c u \<and> seen k r s'
      | CasConflict r \<Rightarrow> seen k r s' | CasMissing \<Rightarrow> False" if "r = Inr x" for x
  proof (cases x)
    case (CasUpdated y)
    with that upd [of y] show ?thesis by (auto intro: now)
  next
    case (CasConflict y)
    with that run cas_conflict [of k n u s y s'] show ?thesis by (auto intro: now)
  next
    case CasMissing
    with that run cas_missing [of k n u s s'] a show ?thesis by (auto dest: seen_Some)
  qed
  ultimately show "evolves s s' \<and> (\<forall>x. r = Inr x \<longrightarrow> A s' \<and> seen k c s' \<and> (case x of
      CasUpdated r \<Rightarrow> r = swappedRecord c u \<and> seen k r s'
    | CasConflict r \<Rightarrow> seen k r s' | CasMissing \<Rightarrow> False))" using e by blast
qed

text \<open>Reading again a record that has been seen finds one that has moved on from it.\<close>

lemma keeps_get_seen:
  assumes A: "stable A"
  shows "keeps (\<lambda>s. A s \<and> seen k r s) (storeGet P k)
     (\<lambda>x s. A s \<and> seen k r s \<and> (\<exists>c. x = Some c \<and> seen k c s \<and> moves k r c))"
  unfolding storeGet_def
proof (rule keeps_callStore)
  fix s x s' assume a: "A s \<and> seen k r s" and sound: "sound s" and run: "(dp_get P k s, s) = (x, s')"
  then show "evolves s s' \<and> (\<forall>y. x = Inr y \<longrightarrow>
      A s' \<and> seen k r s' \<and> (\<exists>c. y = Some c \<and> seen k c s' \<and> moves k r c))"
    using get_look [of k s] seen_now [OF sound] by (fastforce simp: seen_def)
qed (use A in auto)

text \<open>A swap that expects a revision older than one that has been seen does not happen.\<close>

lemma keeps_cas_stale:
  assumes A: "stable A" and n: "n < dr_revision c"
  shows "keeps (\<lambda>s. A s \<and> seen k c s) (storeCas P k n u)
     (\<lambda>x s. A s \<and> seen k c s \<and> (\<exists>r. x = CasConflict r \<and> seen k r s))"
  unfolding storeCas_def
proof (rule keeps_callStore)
  show st: "stable (\<lambda>s. A s \<and> seen k c s)" using A by auto
  fix s r s' assume a: "A s \<and> seen k c s" and sound: "sound s"
    and run: "dp_compareAndSwap P k n u s = (r, s')"
  have no: "r \<noteq> Inr (CasUpdated x)" for x
    using cas_updated [of k n u s x s'] run a n by (auto simp: seen_def moves_def)
  have e: "look s' = look s"
  proof (cases r)
    case (Inr x)
    with run no show ?thesis by (cases x) (auto dest: cas_conflict cas_missing)
  qed (use run in \<open>auto dest: cas_fails\<close>)
  note now = seen_now [OF sound_evolves [OF sound evolves_look [OF e]]]
  from stableD [OF st a evolves_look [OF e]] have "A s' \<and> seen k c s'" .
  moreover have "\<exists>y. x = CasConflict y \<and> seen k y s'" if "r = Inr x" for x
    using that run no cas_conflict [of k n u s _ s'] cas_missing [of k n u s s'] a
    by (cases x) (auto dest: seen_Some intro: now)
  ultimately show "evolves s s' \<and> (\<forall>x. r = Inr x \<longrightarrow> A s' \<and> seen k c s' \<and>
      (\<exists>y. x = CasConflict y \<and> seen k y s'))"
    using evolves_look [OF e] by blast
qed

text \<open>The same rules in the form in which method bodies use them: one per kind of statement.\<close>

lemma keeps_bind_pure:
  "(\<And>x. r = Inr x \<Longrightarrow> keeps A (f x) B) \<Longrightarrow> keeps A (bindM (pureM r) f) B"
  by (cases r) (auto simp: keeps_def bindM_def method_simps)

lemma keeps_then_pure:
  "(r = Inr () \<Longrightarrow> keeps A m B) \<Longrightarrow> keeps A (thenM (pureM r) m) B"
  unfolding thenM_def by (rule keeps_bind_pure) simp

lemma keeps_bind_get:
  assumes "stable A" "keeps A (f None) B" "\<And>r. keeps (\<lambda>s. A s \<and> seen k r s) (f (Some r)) B"
  shows "keeps A (bindM (storeGet P k) f) B"
proof (rule keeps_bind [OF keeps_get [OF assms(1)]])
  fix x show "keeps (\<lambda>s. A s \<and> (case x of None \<Rightarrow> True | Some r \<Rightarrow> seen k r s)) (f x) B"
    using assms by (cases x) auto
qed

lemma keeps_bind_get_seen:
  assumes "stable A" "\<And>s. A s \<Longrightarrow> seen k r s"
    and "\<And>c. moves k r c \<Longrightarrow> keeps (\<lambda>s. A s \<and> seen k c s) (f (Some c)) B"
  shows "keeps A (bindM (storeGet P k) f) B"
proof (rule keeps_weaken)
  show "keeps (\<lambda>s. A s \<and> seen k r s) (bindM (storeGet P k) f) B"
  proof (rule keeps_bind [OF keeps_get_seen [OF assms(1)]])
    fix x
    show "keeps (\<lambda>s. A s \<and> seen k r s \<and> (\<exists>c. x = Some c \<and> seen k c s \<and> moves k r c)) (f x) B"
    proof (rule keeps_assume)
      assume "\<exists>c. x = Some c \<and> moves k r c"
      then obtain c where c: "x = Some c" "moves k r c" by blast
      show "keeps (\<lambda>s. A s \<and> seen k r s \<and> (\<exists>c. x = Some c \<and> seen k c s \<and> moves k r c)) (f x) B"
        unfolding c(1) by (rule keeps_weaken [OF assms(3) [OF c(2)]]) auto
    qed blast
  qed
qed (use assms in auto)

lemma keeps_bind_create:
  assumes "stable A" "N (nd_key i) (nd_value i)"
    and "keeps (\<lambda>s. A s \<and> seen (nd_key i) (newRecord i) s) (f (DurableCreated (newRecord i))) B"
    and "\<And>r. keeps (\<lambda>s. A s \<and> seen (nd_key i) r s) (f (DurableExists r)) B"
  shows "keeps A (bindM (storeCreate P i) f) B"
proof (rule keeps_bind [OF keeps_create [OF assms(1,2)]])
  fix x
  show "keeps (\<lambda>s. A s \<and> (case x of DurableCreated r \<Rightarrow> r = newRecord i \<and> seen (nd_key i) r s
      | DurableExists r \<Rightarrow> seen (nd_key i) r s)) (f x) B"
  proof (cases x)
    case (DurableCreated r)
    show ?thesis
    proof (rule keeps_assume [where p = "r = newRecord i"])
      assume "r = newRecord i"
      with DurableCreated show ?thesis by (simp, intro keeps_weaken [OF assms(3)]) auto
    qed (use DurableCreated in auto)
  qed (use assms(4) in simp)
qed

lemma keeps_bind_cas:
  assumes "stable A" "\<And>s. A s \<Longrightarrow> seen k c s" "dr_revision c = n" "R k (dr_value c) (du_value u)"
    and "keeps (\<lambda>s. A s \<and> seen k (swappedRecord c u) s) (f (CasUpdated (swappedRecord c u))) B"
    and "\<And>r. keeps (\<lambda>s. A s \<and> seen k r s) (f (CasConflict r)) B"
  shows "keeps A (bindM (storeCas P k n u) f) B"
proof (rule keeps_weaken)
  show "keeps (\<lambda>s. A s \<and> seen k c s) (bindM (storeCas P k n u) f) B"
  proof (rule keeps_bind [OF keeps_cas [OF assms(1,3,4)]])
    fix x
    show "keeps (\<lambda>s. A s \<and> seen k c s \<and> (case x of
        CasUpdated r \<Rightarrow> r = swappedRecord c u \<and> seen k r s | CasConflict r \<Rightarrow> seen k r s
      | CasMissing \<Rightarrow> False)) (f x) B"
    proof (cases x)
      case (CasUpdated r)
      show ?thesis
      proof (rule keeps_assume [where p = "r = swappedRecord c u"])
        assume "r = swappedRecord c u"
        with CasUpdated show ?thesis by (simp, intro keeps_weaken [OF assms(5)]) auto
      qed (use CasUpdated in auto)
    next
      case (CasConflict r)
      then show ?thesis by (simp, intro keeps_weaken [OF assms(6) [of r]]) auto
    qed (simp add: keeps_def)
  qed
qed (use assms in auto)

lemma keeps_bind_cas_stale:
  assumes "stable A" "\<And>s. A s \<Longrightarrow> seen k c s" "n < dr_revision c"
    and "\<And>r. keeps (\<lambda>s. A s \<and> seen k r s) (f (CasConflict r)) B"
  shows "keeps A (bindM (storeCas P k n u) f) B"
proof (rule keeps_weaken)
  show "keeps (\<lambda>s. A s \<and> seen k c s) (bindM (storeCas P k n u) f) B"
  proof (rule keeps_bind [OF keeps_cas_stale [OF assms(1,3)]])
    fix x
    show "keeps (\<lambda>s. A s \<and> seen k c s \<and> (\<exists>r. x = CasConflict r \<and> seen k r s)) (f x) B"
    proof (cases x)
      case (CasConflict r)
      then show ?thesis by (simp, intro keeps_weaken [OF assms(4) [of r]]) auto
    qed (simp_all add: keeps_def)
  qed
qed (use assms in auto)

text \<open>A record that has been seen is not created again.\<close>

lemma keeps_bind_create_seen:
  assumes "stable A" "\<And>s. A s \<Longrightarrow> seen (nd_key i) c s"
    and "\<And>r. moves (nd_key i) c r \<Longrightarrow> keeps (\<lambda>s. A s \<and> seen (nd_key i) r s) (f (DurableExists r)) B"
  shows "keeps A (bindM (storeCreate P i) f) B"
proof (rule keeps_bind)
  show "keeps A (storeCreate P i) (\<lambda>x s. A s \<and>
      (\<exists>r. x = DurableExists r \<and> moves (nd_key i) c r \<and> seen (nd_key i) r s))"
    unfolding storeCreate_def
  proof (rule keeps_callStore [OF assms(1)])
    fix s r s' assume a: "A s" and sound: "sound s" and run: "dp_createIfAbsent P i s = (r, s')"
    have no: "r \<noteq> Inr (DurableCreated x)" for x
      using create_new [of i s x s'] run seen_Some [OF assms(2) [OF a]] by auto
    have e: "look s' = look s"
    proof (cases r)
      case (Inr x)
      with run no show ?thesis by (cases x) (auto dest: create_old)
    qed (use run in \<open>auto dest: create_fails\<close>)
    have "\<exists>y. x = DurableExists y \<and> moves (nd_key i) c y \<and> seen (nd_key i) y s'" if "r = Inr x" for x
      using that run no create_old [of i s _ s'] assms(2) [OF a] e seen_now [OF sound]
      by (cases x) (fastforce simp: seen_def)+
    with e stableD [OF assms(1) a evolves_look [OF e]]
    show "evolves s s' \<and> (\<forall>x. r = Inr x \<longrightarrow> A s' \<and>
        (\<exists>y. x = DurableExists y \<and> moves (nd_key i) c y \<and> seen (nd_key i) y s'))"
      by (blast intro: evolves_look)
  qed
  fix x
  show "keeps (\<lambda>s. A s \<and> (\<exists>r. x = DurableExists r \<and> moves (nd_key i) c r \<and> seen (nd_key i) r s)) (f x) B"
  proof (rule keeps_assume)
    assume "\<exists>r. x = DurableExists r \<and> moves (nd_key i) c r"
    then obtain r where r: "x = DurableExists r" "moves (nd_key i) c r" by blast
    show "keeps (\<lambda>s. A s \<and> (\<exists>r. x = DurableExists r \<and> moves (nd_key i) c r \<and> seen (nd_key i) r s))
        (f x) B"
      unfolding r(1) by (rule keeps_weaken [OF assms(3) [OF r(2)]]) auto
  qed blast
qed

text \<open>A call of another method whose contract is known; what held before still holds.\<close>

lemma keeps_bind_call:
  assumes "keeps A' m B'" "stable A" "\<And>s. A s \<Longrightarrow> A' s"
    and "\<And>x. keeps (\<lambda>s. A s \<and> B' x s) (f x) B"
  shows "keeps A (bindM m f) B"
proof (rule keeps_bind)
  show "keeps A m (\<lambda>x s. A s \<and> B' x s)"
    by (rule keeps_weaken [OF keeps_frame [OF assms(1,2)]]) (use assms(3) in auto)
qed (rule assms(4))

lemma keeps_bind_attempt:
  assumes "keeps A' m B'" "stable A" "\<And>s. A s \<Longrightarrow> A' s"
    and "\<And>e. keeps A (f (Inl e)) B" "\<And>x. keeps (\<lambda>s. A s \<and> B' x s) (f (Inr x)) B"
  shows "keeps A (bindM (attemptM m) f) B"
proof (rule keeps_bind [where B = "\<lambda>y s. case y of Inl _ \<Rightarrow> A s | Inr x \<Rightarrow> A s \<and> B' x s"])
  have m: "keeps A m (\<lambda>x s. A s \<and> B' x s)"
    by (rule keeps_weaken [OF keeps_frame [OF assms(1,2)]]) (use assms(3) in auto)
  show "keeps A (attemptM m) (\<lambda>y s. case y of Inl _ \<Rightarrow> A s | Inr x \<Rightarrow> A s \<and> B' x s)"
  proof (rule keepsI)
    fix w y w' assume w: "relies w" "A (dw_store w)" and run: "attemptM m w = (y, w')"
    then obtain r where r: "m w = (r, w')" "y = Inr r" by (cases "m w") (simp add: attemptM_def)
    note d = keepsD [OF m w r(1)]
    from d r(2) stableD [OF assms(2) w(2) goesOnD(1) [OF d(1)]]
    show "goesOn w w' \<and> (\<forall>x. y = Inr x \<longrightarrow> (case x of Inl _ \<Rightarrow> A (dw_store w') | Inr x \<Rightarrow> A (dw_store w') \<and> B' x (dw_store w')))"
      by (cases r) auto
  qed
  show "keeps (\<lambda>s. case y of Inl _ \<Rightarrow> A s | Inr x \<Rightarrow> A s \<and> B' x s) (f y) B" for y
    using assms(4,5) by (cases y) simp_all
qed

lemma keeps_bind_quietly:
  assumes m: "keeps A' m B'" and A: "stable A" "\<And>s. A s \<Longrightarrow> A' s"
    and n: "keeps A (f None) B" and f: "\<And>x. keeps (\<lambda>s. A s \<and> B' x s) (f (Some x)) B"
  shows "keeps A (bindM (quietly m) f) B"
proof (rule keeps_bind [where B = "\<lambda>y s. A s \<and> (\<forall>x. y = Some x \<longrightarrow> B' x s)"])
  show "keeps A (quietly m) (\<lambda>y s. A s \<and> (\<forall>x. y = Some x \<longrightarrow> B' x s))"
    unfolding quietly_def
    by (rule keeps_catch [OF keeps_bind_call [OF m A] A(1)]) (auto intro!: keeps_return)
  show "keeps (\<lambda>s. A s \<and> (\<forall>x. y = Some x \<longrightarrow> B' x s)) (f y) B" for y
    using n f by (cases y) auto
qed

end

end
