(* ===== verification/JsonFields.thy ===== *)
theory JsonFields
  imports JsonFacts
begin

text \<open>
  Reading the fields of a parsed JSON value the way the decoders of the durable components do, and
  writing them.
\<close>

text \<open>Reading a property of a parsed value.\<close>

fun propOf :: "string \<Rightarrow> js_value \<Rightarrow> js_value" where
  "propOf k (JObject ms) = (case map_of ms k of Some v \<Rightarrow> v | None \<Rightarrow> Undefined)"
| "propOf k _ = Undefined"

fun asString :: "js_value \<Rightarrow> string option" where
  "asString (JString s) = Some s" | "asString _ = None"

fun asNumber :: "js_value \<Rightarrow> jsnum option" where
  "asNumber (JNumber n) = Some n" | "asNumber _ = None"

fun asBool :: "js_value \<Rightarrow> bool option" where
  "asBool (JBool b) = Some b" | "asBool _ = None"

text \<open>\<open>null\<close> or a string.\<close>

fun asNullableString :: "js_value \<Rightarrow> string option option" where
  "asNullableString Null = Some None"
| "asNullableString (JString s) = Some (Some s)"
| "asNullableString _ = None"

fun nullable :: "string option \<Rightarrow> js_value" where
  "nullable None = Null" | "nullable (Some s) = JString s"

text \<open>\<open>[...].includes(item ?? "")\<close> and the value that is meant.\<close>

definition named :: "('a \<Rightarrow> string) \<Rightarrow> 'a list \<Rightarrow> js_value \<Rightarrow> 'a option" where
  "named name xs v = (case asString v of None \<Rightarrow> None | Some s \<Rightarrow> find (\<lambda>x. name x = s) xs)"

definition jsonText :: "js_value \<Rightarrow> string" where
  "jsonText v = the (stringify v)"

lemma jsonParse_jsonText: "jsonOk v \<Longrightarrow> jsonParse (jsonText v) = Some v"
  using jsonParse_stringify [of v] by (auto simp: jsonText_def)

lemma isIndexKey_letter: "\<not> isDigit c \<Longrightarrow> \<not> isIndexKey (c # k)"
  by (simp add: isIndexKey_def)

lemma nullable_json [simp]: "jsonOk (nullable s)" "asNullableString (nullable s) = Some s"
  by (cases s; simp)+

end
