(* ===== verification/DurableEffects.thy ===== *)
theory DurableEffects
  imports DurableWorld JsonFields
begin

text \<open>
  \<^verbatim>\<open>src/core/durable-effects.ts\<close>: the journal that records which side effects of a job were claimed,
  started and finished, so that a crash or a second worker does not repeat them. Effects are kept as
  JSON text in the durable store.
\<close>

section \<open>Effects\<close>

datatype DurableEffectKind =
  ProviderTaskCreate | ProviderTaskUpdate | ProviderTaskCancel | PaidUpstreamCall | ArtifactWrite

datatype DurableEffectStatus = EffectClaimed | EffectInflight | EffectSucceeded | EffectUncertain

fun effectKindName :: "DurableEffectKind \<Rightarrow> string" where
  "effectKindName ProviderTaskCreate = ''provider_task_create''"
| "effectKindName ProviderTaskUpdate = ''provider_task_update''"
| "effectKindName ProviderTaskCancel = ''provider_task_cancel''"
| "effectKindName PaidUpstreamCall = ''paid_upstream_call''"
| "effectKindName ArtifactWrite = ''artifact_write''"

fun effectStatusName :: "DurableEffectStatus \<Rightarrow> string" where
  "effectStatusName EffectClaimed = ''claimed''"
| "effectStatusName EffectInflight = ''inflight''"
| "effectStatusName EffectSucceeded = ''succeeded''"
| "effectStatusName EffectUncertain = ''uncertain''"

record DurableEffect =
  ef_jobId :: string
  ef_effectKind :: DurableEffectKind
  ef_operationKey :: string
  ef_status :: DurableEffectStatus
  ef_claimedAt :: jsnum
  ef_updatedAt :: jsnum
  ef_receipt :: "string option"

record EffectIdentity =
  ei_jobId :: string
  ei_effectKind :: DurableEffectKind
  ei_operationKey :: string

datatype EffectClaimResult = ClaimGranted DurableEffect int | ClaimExisting DurableEffect int

datatype EffectRetryResult = RetryClaimed DurableEffect int | RetryBlocked DurableEffect int

definition keyFor :: "string \<Rightarrow> DurableEffectKind \<Rightarrow> string \<Rightarrow> string res" where
  "keyFor jobId kind operationKey =
     (let safe = jobId @ '':'' @ effectKindName kind @ '':'' @ operationKey in
      if \<not> list_all durableKeyChar safe \<or> length safe > 220
      then Inl (JsError ''durable effect identity is invalid'') else Inr (''effect:'' @ safe))"

section \<open>The stored form\<close>

definition effectJson :: "DurableEffect \<Rightarrow> js_value" where
  "effectJson e = JObject
     [(''schemaVersion'', JString ''1''), (''jobId'', JString (ef_jobId e)),
      (''effectKind'', JString (effectKindName (ef_effectKind e))),
      (''operationKey'', JString (ef_operationKey e)),
      (''status'', JString (effectStatusName (ef_status e))),
      (''claimedAt'', JNumber (ef_claimedAt e)), (''updatedAt'', JNumber (ef_updatedAt e)),
      (''receipt'', nullable (ef_receipt e))]"

definition encodeEffect :: "DurableEffect \<Rightarrow> string" where
  "encodeEffect e = jsonText (effectJson e)"

definition effectOfJson :: "js_value \<Rightarrow> DurableEffect option" where
  "effectOfJson v =
     (case (asString (propOf ''schemaVersion'' v), asString (propOf ''jobId'' v), asString (propOf ''operationKey'' v),
            named effectKindName [ProviderTaskCreate, ProviderTaskUpdate, ProviderTaskCancel,
              PaidUpstreamCall, ArtifactWrite] (propOf ''effectKind'' v),
            named effectStatusName [EffectClaimed, EffectInflight, EffectSucceeded, EffectUncertain]
              (propOf ''status'' v),
            asNumber (propOf ''claimedAt'' v), asNumber (propOf ''updatedAt'' v),
            asNullableString (propOf ''receipt'' v)) of
        (Some version, Some jobId, Some operationKey, Some kind, Some status, Some claimedAt,
         Some updatedAt, Some receipt) \<Rightarrow>
          if version = ''1''
          then Some \<lparr>ef_jobId = jobId, ef_effectKind = kind, ef_operationKey = operationKey,
                 ef_status = status, ef_claimedAt = claimedAt, ef_updatedAt = updatedAt,
                 ef_receipt = receipt\<rparr>
          else None
      | _ \<Rightarrow> None)"

definition decodeEffectText :: "string \<Rightarrow> DurableEffect res" where
  "decodeEffectText value =
     (case jsonParse value of
        None \<Rightarrow> Inl (JsError ''durable effect record is malformed'')
      | Some v \<Rightarrow> (case effectOfJson v of
          None \<Rightarrow> Inl (JsError ''durable effect record is malformed'')
        | Some e \<Rightarrow> Inr e))"

definition decodeEffect :: "DurableRecord \<Rightarrow> DurableEffect res" where
  "decodeEffect r = decodeEffectText (dr_value r)"

section \<open>The journal (DurableEffectJournal)\<close>

definition journal_claim :: "'s durable_port \<Rightarrow> string \<Rightarrow> DurableEffectKind \<Rightarrow> string \<Rightarrow> jsnum \<Rightarrow>
    (('s, 'x) dworld_scheme, EffectClaimResult) action" where
  "journal_claim P jobId kind operationKey nowMs =
     bindM (pureM (keyFor jobId kind operationKey)) (\<lambda>key.
     (let effect = \<lparr>ef_jobId = jobId, ef_effectKind = kind, ef_operationKey = operationKey,
            ef_status = EffectClaimed, ef_claimedAt = nowMs, ef_updatedAt = nowMs, ef_receipt = None\<rparr>
      in bindM (storeCreate P \<lparr>nd_key = key, nd_value = encodeEffect effect, nd_nowMs = nowMs,
                   nd_expiresAt = None\<rparr>) (\<lambda>result.
         case result of
           DurableCreated r \<Rightarrow> returnM (ClaimGranted effect (dr_revision r))
         | DurableExists r \<Rightarrow>
             bindM (pureM (decodeEffect r)) (\<lambda>e. returnM (ClaimExisting e (dr_revision r))))))"

definition journal_transition :: "'s durable_port \<Rightarrow> EffectIdentity \<Rightarrow> int \<Rightarrow> DurableEffectStatus \<Rightarrow>
    jsnum \<Rightarrow> string option \<Rightarrow> (('s, 'x) dworld_scheme, DurableEffect \<times> int) action" where
  "journal_transition P i expectedRevision status nowMs receipt =
     bindM (pureM (keyFor (ei_jobId i) (ei_effectKind i) (ei_operationKey i))) (\<lambda>key.
     bindM (storeGet P key) (\<lambda>found.
       case found of None \<Rightarrow> throwM (JsError ''durable effect claim is missing'')
       | Some current \<Rightarrow>
           bindM (pureM (decodeEffect current)) (\<lambda>previous.
             if ef_status previous = EffectSucceeded \<and> status \<noteq> EffectSucceeded
             then throwM (JsError ''a succeeded durable effect is terminal'')
             else
               (let effect = previous\<lparr>ef_status := status, ef_updatedAt := nowMs, ef_receipt := receipt\<rparr>
                in bindM (storeCas P key expectedRevision \<lparr>du_value = encodeEffect effect,
                       du_nowMs = nowMs, du_expiresAt = None\<rparr>) (\<lambda>result.
                   case result of
                     CasUpdated r \<Rightarrow> returnM (effect, dr_revision r)
                   | _ \<Rightarrow> throwM (JsError ''durable effect revision conflict''))))))"

definition retryableEffect :: "DurableEffect \<Rightarrow> bool" where
  "retryableEffect e \<longleftrightarrow> ef_status e = EffectUncertain \<or>
     (ef_status e = EffectSucceeded \<and> ef_receipt e = Some ''not-acknowledged'')"

definition journal_retry :: "'s durable_port \<Rightarrow> EffectIdentity \<Rightarrow> int \<Rightarrow> jsnum \<Rightarrow>
    (('s, 'x) dworld_scheme, EffectRetryResult) action" where
  "journal_retry P i expectedRevision nowMs =
     (if ei_effectKind i \<noteq> ProviderTaskCancel
      then throwM (JsError ''only provider cancellation effects may be retried'')
      else
        bindM (pureM (keyFor (ei_jobId i) (ei_effectKind i) (ei_operationKey i))) (\<lambda>key.
        bindM (storeGet P key) (\<lambda>found.
          case found of None \<Rightarrow> throwM (JsError ''durable effect claim is missing'')
          | Some current \<Rightarrow>
              bindM (pureM (decodeEffect current)) (\<lambda>previous.
                if dr_revision current \<noteq> expectedRevision \<or> \<not> retryableEffect previous
                then returnM (RetryBlocked previous (dr_revision current))
                else
                  (let effect = previous\<lparr>ef_status := EffectClaimed, ef_updatedAt := nowMs,
                         ef_receipt := None\<rparr>
                   in bindM (storeCas P key expectedRevision \<lparr>du_value = encodeEffect effect,
                          du_nowMs = nowMs, du_expiresAt = None\<rparr>) (\<lambda>result.
                      case result of
                        CasUpdated r \<Rightarrow> returnM (RetryClaimed effect (dr_revision r))
                      | CasMissing \<Rightarrow> throwM (JsError ''durable effect claim is missing'')
                      | CasConflict r \<Rightarrow>
                          bindM (pureM (decodeEffect r)) (\<lambda>e.
                            returnM (RetryBlocked e (dr_revision r)))))))))"

section \<open>Round trip\<close>

definition effectOk :: "DurableEffect \<Rightarrow> bool" where
  "effectOk e \<longleftrightarrow> isInteger (ef_claimedAt e) \<and> isInteger (ef_updatedAt e)"

lemma effectJson_ok: "effectOk e \<Longrightarrow> jsonOk (effectJson e)"
  unfolding effectJson_def effectOk_def jsonOk.simps
  by (intro conjI objectOf_plain) (simp_all add: isIndexKey_letter isDigit_def)

lemma effectOfJson_effectJson: "effectOfJson (effectJson e) = Some e"
  by (cases "ef_effectKind e"; cases "ef_status e")
    (simp_all add: effectOfJson_def effectJson_def named_def)

theorem decode_encode_effect: "effectOk e \<Longrightarrow> decodeEffectText (encodeEffect e) = Inr e"
  by (simp add: decodeEffectText_def encodeEffect_def jsonParse_jsonText effectJson_ok
    effectOfJson_effectJson)

section \<open>How a stored effect may move\<close>

text \<open>The identity and the claim time never change. Unless the key is one of a provider cancellation,
  success is final and the claim is spent for good.\<close>

definition cancelKey :: "string \<Rightarrow> bool" where
  "cancelKey key \<longleftrightarrow> (\<exists>jobId operationKey. keyFor jobId ProviderTaskCancel operationKey = Inr key)"

definition effectStep :: "bool \<Rightarrow> DurableEffect \<Rightarrow> DurableEffect \<Rightarrow> bool" where
  "effectStep retryable e e' \<longleftrightarrow> ef_jobId e' = ef_jobId e \<and> ef_effectKind e' = ef_effectKind e \<and>
     ef_operationKey e' = ef_operationKey e \<and> ef_claimedAt e' = ef_claimedAt e \<and>
     (\<not> retryable \<longrightarrow>
        (ef_status e = EffectSucceeded \<longrightarrow> ef_status e' = EffectSucceeded) \<and>
        (ef_status e \<noteq> EffectClaimed \<longrightarrow> ef_status e' \<noteq> EffectClaimed))"

definition effectMove :: "string \<Rightarrow> string \<Rightarrow> string \<Rightarrow> bool" where
  "effectMove key v v' \<longleftrightarrow> (\<forall>e. decodeEffectText v = Inr e \<longrightarrow> effectOk e \<longrightarrow>
     (\<exists>e'. decodeEffectText v' = Inr e' \<and> effectOk e' \<and> effectStep (cancelKey key) e e'))"

lemma effectStep_refl [simp]: "effectStep c e e"
  by (simp add: effectStep_def)

lemma effectStep_trans: "effectStep k a b \<Longrightarrow> effectStep k b c \<Longrightarrow> effectStep k a c"
  by (auto simp: effectStep_def)

lemma effectMove_refl [simp]: "effectMove k v v"
  by (auto simp: effectMove_def)

lemma effectMove_trans:
  assumes "effectMove k u v" "effectMove k v w" shows "effectMove k u w"
  unfolding effectMove_def
proof (intro allI impI)
  fix e assume "decodeEffectText u = Inr e" "effectOk e"
  with assms(1) obtain a where "decodeEffectText v = Inr a" "effectOk a" "effectStep (cancelKey k) e a"
    by (auto simp: effectMove_def)
  moreover from this assms(2) obtain b where "decodeEffectText w = Inr b" "effectOk b" "effectStep (cancelKey k) a b"
    unfolding effectMove_def by blast
  ultimately show "\<exists>e'. decodeEffectText w = Inr e' \<and> effectOk e' \<and> effectStep (cancelKey k) e e'"
    by (blast intro: effectStep_trans)
qed

lemma effectMove_encode:
  "decodeEffectText v = Inr e \<Longrightarrow> effectOk e' \<or> \<not> effectOk e \<Longrightarrow> effectStep (cancelKey k) e e' \<Longrightarrow>
    effectMove k v (encodeEffect e')"
  by (auto simp: effectMove_def decode_encode_effect)

definition effectValue :: "string \<Rightarrow> bool" where
  "effectValue v \<longleftrightarrow> (\<exists>e. decodeEffectText v = Inr e \<and> effectOk e)"

lemma effectValue_move: "effectValue v \<Longrightarrow> effectMove k v v' \<Longrightarrow> effectValue v'"
  unfolding effectValue_def effectMove_def by blast

lemma effectValue_encode: "effectOk e \<Longrightarrow> effectValue (encodeEffect e)"
  by (auto simp: effectValue_def decode_encode_effect)

definition effectKey :: "string \<Rightarrow> bool" where
  "effectKey k \<longleftrightarrow> prefix ''effect:'' k"

lemma keyFor_effectKey: "keyFor j k op = Inr key \<Longrightarrow> effectKey key"
  by (auto simp: keyFor_def effectKey_def Let_def split: if_splits)

section \<open>The journal keeps the effects\<close>

locale effect_steps = durable_steps P look N R
  for P :: "'s durable_port" and look :: "'s \<Rightarrow> string \<Rightarrow> DurableRecord option"
    and N :: "string \<Rightarrow> string \<Rightarrow> bool" and R :: "string \<Rightarrow> string \<Rightarrow> string \<Rightarrow> bool" +
  assumes N_effect: "effectKey k \<Longrightarrow> N k v \<longleftrightarrow> effectValue v"
    and R_effect: "effectKey k \<Longrightarrow> R k v v' \<longleftrightarrow> effectMove k v v'"
begin

text \<open>The effect \<open>e\<close> has been stored under its key at revision \<open>n\<close>.\<close>

definition holds :: "EffectIdentity \<Rightarrow> DurableEffect \<Rightarrow> int \<Rightarrow> 's \<Rightarrow> bool" where
  "holds i e n s \<longleftrightarrow> (\<exists>key r. keyFor (ei_jobId i) (ei_effectKind i) (ei_operationKey i) = Inr key \<and>
     seen key r s \<and> dr_revision r = n \<and> decodeEffect r = Inr e \<and> effectOk e)"

lemma stable_holds [intro]: "stable (holds i e n)"
  unfolding stable_def holds_def by (blast intro: seen_evolves)

lemma holds_swapped:
  assumes "keyFor (ei_jobId i) (ei_effectKind i) (ei_operationKey i) = Inr key"
    and "seen key (swappedRecord c \<lparr>du_value = encodeEffect e, du_nowMs = now, du_expiresAt = x\<rparr>) s"
    and "effectOk e"
  shows "holds i e (dr_revision c + 1) s"
  unfolding holds_def
  by (intro exI [of _ key] exI [of _ "swappedRecord c \<lparr>du_value = encodeEffect e, du_nowMs = now, du_expiresAt = x\<rparr>"])
    (use assms in \<open>simp add: swappedRecord_def decodeEffect_def decode_encode_effect\<close>)

lemma seen_effectOk:
  assumes "seen key r s" "keyFor j k op = Inr key" "decodeEffect r = Inr e"
  shows "effectOk e"
  using seen_N [OF assms(1)] assms(2,3) N_effect [OF keyFor_effectKey [OF assms(2)]]
  by (auto simp: effectValue_def decodeEffect_def)

lemma holds_new:
  assumes "keyFor j k op = Inr key" "seen key (newRecord \<lparr>nd_key = key, nd_value = encodeEffect e,
    nd_nowMs = now, nd_expiresAt = x\<rparr>) s" "effectOk e"
  shows "holds \<lparr>ei_jobId = j, ei_effectKind = k, ei_operationKey = op\<rparr> e 1 s"
  unfolding holds_def
  by (rule exI [of _ key], rule exI [of _ "newRecord \<lparr>nd_key = key, nd_value = encodeEffect e,
    nd_nowMs = now, nd_expiresAt = x\<rparr>"])
    (use assms in \<open>simp add: newRecord_def decodeEffect_def decode_encode_effect\<close>)

lemma keeps_claim:
  assumes A: "stable A" and now: "isInteger nowMs"
  shows "keeps A (journal_claim P j k op nowMs)
     (\<lambda>x s. A s \<and> (case x of
        ClaimGranted e n \<Rightarrow> ef_status e = EffectClaimed \<and>
          holds \<lparr>ei_jobId = j, ei_effectKind = k, ei_operationKey = op\<rparr> e n s
      | ClaimExisting e n \<Rightarrow>
          holds \<lparr>ei_jobId = j, ei_effectKind = k, ei_operationKey = op\<rparr> e n s))"
  unfolding journal_claim_def Let_def
  apply (rule keeps_bind_pure)
  apply (rule keeps_bind_create [OF A])
  subgoal for key
    using now by (simp add: N_effect [OF keyFor_effectKey] effectValue_encode effectOk_def)
  subgoal for key
    using now by (auto intro!: keeps_return holds_new simp: effectOk_def newRecord_def)
  subgoal for key r
    using seen_effectOk by (auto intro!: keeps_return keeps_bind_pure exI [of _ r] simp: holds_def)
  done

lemma holdsE:
  assumes "holds i e n s" "keyFor (ei_jobId i) (ei_effectKind i) (ei_operationKey i) = Inr key"
  obtains r where "seen key r s" "dr_revision r = n" "decodeEffect r = Inr e" "effectOk e"
  using assms by (auto simp: holds_def)

lemma R_stepI:
  assumes "keyFor j k op = Inr key" "decodeEffect c = Inr e" "effectOk e' \<or> \<not> effectOk e"
    and "effectStep (cancelKey key) e e'"
  shows "R key (dr_value c) (encodeEffect e')"
  using assms keyFor_effectKey R_effect by (auto simp: decodeEffect_def intro!: effectMove_encode)

text \<open>The record that a later read finds holds a later state of the same effect.\<close>

lemma moves_effect:
  assumes "keyFor j k op = Inr key" "moves key r c" "decodeEffect r = Inr e" "effectOk e"
  obtains e' where "decodeEffect c = Inr e'" "effectOk e'" "effectStep (cancelKey key) e e'"
  using assms keyFor_effectKey R_effect by (auto simp: moves_def decodeEffect_def effectMove_def)

text \<open>The revision \<open>n\<close> of the effect exists or is past.\<close>

definition issued :: "EffectIdentity \<Rightarrow> int \<Rightarrow> 's \<Rightarrow> bool" where
  "issued i n s \<longleftrightarrow> (\<exists>key r. keyFor (ei_jobId i) (ei_effectKind i) (ei_operationKey i) = Inr key \<and>
     seen key r s \<and> n \<le> dr_revision r)"

lemma stable_issued [intro]: "stable (issued i n)"
  unfolding stable_def issued_def by (blast intro: seen_evolves)

lemma holds_issued: "holds i e n s \<Longrightarrow> issued i n s"
  unfolding holds_def issued_def by fastforce

lemma issued_now:
  "sound s \<Longrightarrow> keyFor (ei_jobId i) (ei_effectKind i) (ei_operationKey i) = Inr key \<Longrightarrow>
    look s key = Some r \<Longrightarrow> n \<le> dr_revision r \<Longrightarrow> issued i n s"
  unfolding issued_def by (blast intro: seen_now)

lemma seen_effect:
  assumes "seen key r s" "keyFor j k op = Inr key"
  obtains e where "decodeEffect r = Inr e" "effectOk e"
  using seen_N [OF assms(1)] N_effect [OF keyFor_effectKey [OF assms(2)]]
  by (auto simp: effectValue_def decodeEffect_def)

text \<open>A transition from a revision that exists or is past.\<close>

lemma keeps_transition_issued:
  assumes A: "stable A" and now: "isInteger nowMs" and st: "status \<noteq> EffectClaimed"
    and issued: "\<And>s. A s \<Longrightarrow> issued i n s"
  shows "keeps A (journal_transition P i n status nowMs receipt)
     (\<lambda>x s. A s \<and> ef_status (fst x) = status \<and> ef_receipt (fst x) = receipt \<and> holds i (fst x) (snd x) s)"
    (is "keeps A ?m ?B")
proof (cases "keyFor (ei_jobId i) (ei_effectKind i) (ei_operationKey i)")
  case (Inl x)
  then show ?thesis by (auto simp: journal_transition_def keeps_def bindM_def method_simps)
next
  case (Inr key)
  let ?A = "\<lambda>s. \<exists>r. A s \<and> seen key r s \<and> n \<le> dr_revision r"
  show ?thesis
  proof (rule keeps_pre [of ?A], rule keeps_ex)
    fix r
    show "keeps (\<lambda>s. A s \<and> seen key r s \<and> n \<le> dr_revision r) ?m ?B"
    proof (rule keeps_assume)
      assume r: "n \<le> dr_revision r"
      show ?thesis
        unfolding journal_transition_def Let_def Inr
        apply (rule keeps_bind_pure)
        apply simp
        apply (rule keeps_bind_get_seen [where r = r], intro stable_intros A, blast)
        subgoal premises m for c
          unfolding option.case
          apply (rule keeps_bind_pure, rule keeps_if, rule keeps_throw)
          subgoal premises p for e1
          proof (rule keeps_assume [where p = "effectOk e1"])
            show "effectOk e1" if "(A s \<and> seen key r s \<and> n \<le> dr_revision r) \<and> seen key c s" for s
              using that seen_effectOk [OF _ Inr p(1)] by blast
          next
            let ?e2 = "e1\<lparr>ef_status := status, ef_updatedAt := nowMs, ef_receipt := receipt\<rparr>"
            assume ok: "effectOk e1"
            with now have ok2: "effectOk ?e2" by (simp add: effectOk_def)
            have step: "effectStep (cancelKey key) e1 ?e2" using p(2) st by (auto simp: effectStep_def)
            show ?thesis
            proof (cases "dr_revision c = n")
              case True
              show ?thesis
                apply (rule keeps_bind_cas [where c = c], intro stable_intros A)
                    apply blast
                   apply (rule True)
                  apply (simp add: R_stepI [OF Inr p(1) _ step] ok2)
                 apply (use True holds_swapped [OF Inr _ ok2] in
                   \<open>auto intro!: keeps_return simp: swappedRecord_def\<close>)
                done
            next
              case False
              with m r have "n < dr_revision c" by (auto simp: moves_def)
              then show ?thesis
                by - (rule keeps_bind_cas_stale [where c = c], intro stable_intros A, auto)
            qed
          qed
          done
        done
    qed blast
  qed (use issued Inr in \<open>auto simp: issued_def\<close>)
qed

lemma keeps_transition:
  assumes "stable A" "isInteger nowMs" "status \<noteq> EffectClaimed" "\<And>s. A s \<Longrightarrow> holds i e n s"
  shows "keeps A (journal_transition P i n status nowMs receipt)
     (\<lambda>x s. A s \<and> ef_status (fst x) = status \<and> ef_receipt (fst x) = receipt \<and> holds i (fst x) (snd x) s)"
  by (rule keeps_transition_issued [OF assms(1-3) holds_issued [OF assms(4)]])

text \<open>A retry claims a cancellation again, at the revision it read.\<close>

lemma keeps_retry:
  assumes A: "stable A" and now: "isInteger nowMs"
  shows "keeps A (journal_retry P i n nowMs)
     (\<lambda>x s. A s \<and> (case x of
        RetryClaimed e m \<Rightarrow> ef_status e = EffectClaimed \<and> holds i e m s
      | RetryBlocked e m \<Rightarrow> True))"
  unfolding journal_retry_def Let_def
  apply (rule keeps_if, rule keeps_throw)
  apply (rule keeps_bind_pure)
  apply (rule keeps_bind_get [OF A])
   apply (simp add: keeps_throw)
  unfolding option.case
  apply (rule keeps_bind_pure, rule keeps_if)
   apply (rule keeps_return, simp)
  subgoal premises p for key c e
  proof -
    let ?e2 = "e\<lparr>ef_status := EffectClaimed, ef_updatedAt := nowMs, ef_receipt := None\<rparr>"
    from p(1,2) have "cancelKey key" by (auto simp: cancelKey_def)
    then have step: "effectStep (cancelKey key) e ?e2" by (simp add: effectStep_def)
    have ok2: "effectOk ?e2 \<or> \<not> effectOk e" using now by (auto simp: effectOk_def)
    show ?thesis
      apply (rule keeps_bind_cas [where c = c], intro stable_intros A)
          apply blast
         apply (use p(4) in simp)
        apply (simp add: R_stepI [OF p(2) p(3) ok2 step])
       apply (rule keeps_assume [OF seen_effectOk [OF _ p(2,3)]], blast)
       apply (use holds_swapped [OF p(2)] p(4) now in
         \<open>auto intro!: keeps_return simp: swappedRecord_def effectOk_def\<close>)[1]
      apply (auto intro!: keeps_return keeps_bind_pure)
      done
  qed
  done

end

end
