(* ===== verification/McpTasks.thy ===== *)
theory McpTasks
  imports DurableEffects AsyncManager
begin

text \<open>
  \<^verbatim>\<open>src/core/mcp-tasks.ts\<close> and \<^verbatim>\<open>src/core/durable-mcp-tasks.ts\<close>: long-running MCP tasks whose state lives
  in the durable store, so that any worker can continue them. The provider of a task is code outside
  the runtime: a record of functions of the number of provider calls made so far, whose calls are
  logged in the world. The digest and the random identifiers are arguments.
\<close>

section \<open>Tasks (mcp-tasks.ts)\<close>

type_synonym members = "(string \<times> js_value) list"

definition DEFAULT_MCP_TASK_TTL_MS :: jsnum where
  "DEFAULT_MCP_TASK_TTL_MS = jint 3600000"

definition DEFAULT_MCP_TASK_POLL_INTERVAL_MS :: jsnum where
  "DEFAULT_MCP_TASK_POLL_INTERVAL_MS = jint 5000"

datatype TaskDetail =
    DetailWorking
  | DetailInputRequired members
  | DetailCompleted members
  | DetailFailed int string
  | DetailCancelled

record DetailedMcpTask =
  dt_taskId :: string
  dt_createdAt :: iso
  dt_lastUpdatedAt :: iso
  dt_ttlMs :: jsnum
  dt_pollIntervalMs :: jsnum
  dt_detail :: TaskDetail

datatype PollStatus = PollWorking | PollInputRequired | PollCompleted | PollFailed

record AsyncTaskPollOutcome =
  po_status :: PollStatus
  po_result :: "members option"
  po_inputRequests :: "members option"
  po_error :: "string option"
  po_billing :: "BillingUnits option"

datatype TaskCall =
  CallCreate js_value | CallPoll string js_value | CallUpdate string members | CallCancel string

record AsyncTaskProviderPort =
  tp_id :: string
  tp_parseInput :: "js_value \<Rightarrow> js_value tres"
  tp_create :: "nat \<Rightarrow> js_value \<Rightarrow> string tres"
  tp_poll :: "nat \<Rightarrow> string \<Rightarrow> js_value \<Rightarrow> AsyncTaskPollOutcome tres"
  tp_update :: "(nat \<Rightarrow> string \<Rightarrow> members \<Rightarrow> unit tres) option"
  tp_cancel :: "(nat \<Rightarrow> string \<Rightarrow> ProviderCancelAcknowledgment option tres) option"

record StartMcpTaskOptions =
  so_ttlMs :: "jsnum option"
  so_idempotencyKey :: "string option"

record TaskBillingProvenance =
  tb_providerId :: string
  tb_units :: "BillingUnits option"

record McpTaskOperationalDetails =
  od_task :: DetailedMcpTask
  od_billingProvenance :: TaskBillingProvenance
  od_callerStoppedWaiting :: bool
  od_groundlanePollingCancelled :: bool
  od_upstreamCancelRequested :: bool
  od_upstreamCancelled :: bool

text \<open>The world of a task method also logs the calls of the provider.\<close>

record 's task_world = "'s dworld" +
  tw_calls :: "TaskCall list"

definition callProvider :: "TaskCall \<Rightarrow> (nat \<Rightarrow> 'a tres) \<Rightarrow> ('s task_world, 'a) action" where
  "callProvider c f w = (f (length (tw_calls w)), w\<lparr>tw_calls := tw_calls w @ [c]\<rparr>)"

section \<open>The durable state and its stored form\<close>

definition MAX_ENCODED_STATE_BYTES :: nat where
  "MAX_ENCODED_STATE_BYTES = 48 * 1024"

definition MAX_IDENTITY_CHARS :: nat where
  "MAX_IDENTITY_CHARS = 256"

datatype DurableTaskStatus =
  TaskCreating | TaskWorking | TaskInputRequired | TaskCompleted | TaskFailed | TaskCancelled

fun taskStatusName :: "DurableTaskStatus \<Rightarrow> string" where
  "taskStatusName TaskCreating = ''creating''"
| "taskStatusName TaskWorking = ''working''"
| "taskStatusName TaskInputRequired = ''input_required''"
| "taskStatusName TaskCompleted = ''completed''"
| "taskStatusName TaskFailed = ''failed''"
| "taskStatusName TaskCancelled = ''cancelled''"

definition taskStatuses :: "DurableTaskStatus list" where
  "taskStatuses = [TaskCreating, TaskWorking, TaskInputRequired, TaskCompleted, TaskFailed, TaskCancelled]"

definition taskTerminal :: "DurableTaskStatus \<Rightarrow> bool" where
  "taskTerminal s \<longleftrightarrow> s \<in> {TaskCompleted, TaskFailed, TaskCancelled}"

record DurableTaskState =
  ts_taskId :: string
  ts_ownerId :: string
  ts_credentialBinding :: string
  ts_providerId :: string
  ts_providerTaskId :: "string option"
  ts_operationInput :: js_value
  ts_idempotencyKey :: "string option"
  ts_status :: DurableTaskStatus
  ts_result :: "members option"
  ts_inputRequests :: members
  ts_usedInputKeys :: "string list"
  ts_sanitizedError :: "string option"
  ts_createdAt :: jsnum
  ts_updatedAt :: jsnum
  ts_expiresAt :: jsnum
  ts_ttlMs :: jsnum
  ts_pollIntervalMs :: jsnum
  ts_nextPollAt :: jsnum
  ts_billing :: "BillingUnits option"
  ts_callerCancelled :: bool
  ts_groundlanePollingCancelled :: bool
  ts_upstreamCancelRequested :: bool
  ts_upstreamCancelled :: bool

record VersionedTask =
  vt_state :: DurableTaskState
  vt_revision :: int

definition taskError :: "string \<Rightarrow> exn" where
  "taskError message = glError INVALID_INPUT ''mcp-tasks'' message"

definition upstreamTaskError :: "string \<Rightarrow> exn" where
  "upstreamTaskError message = glError UPSTREAM_ERROR ''mcp-tasks'' message"

definition uncertainUpdateError :: exn where
  "uncertainUpdateError = upstreamTaskError ''Provider task update outcome is uncertain''"

definition assertIdentity :: "string \<Rightarrow> string \<Rightarrow> unit res" where
  "assertIdentity value field =
     throwIf (value = [] \<or> length value > MAX_IDENTITY_CHARS)
       (taskError (field @ '' must be non-empty within 256 characters''))"

definition idempotencyRecordKey :: "(string \<Rightarrow> string) \<Rightarrow> string \<Rightarrow> string \<Rightarrow> string \<Rightarrow> string" where
  "idempotencyRecordKey sha256 ownerId credentialBinding key =
     ''mcp-task-idempotency:'' @ sha256 (ownerId @ [CHR 0x00] @ credentialBinding @ [CHR 0x00] @ key)"

text \<open>\<open>JSON.stringify(undefined)\<close> is no text, and hashing it throws.\<close>

definition inputFingerprint :: "(string \<Rightarrow> string) \<Rightarrow> js_value \<Rightarrow> string res" where
  "inputFingerprint sha256 input = (case stringify input of
     Some t \<Rightarrow> Inr (sha256 t) | None \<Rightarrow> Inl (JsError ''The data argument must be of type string''))"

definition taskKey :: "string \<Rightarrow> string" where
  "taskKey taskId = ''mcp-task:'' @ taskId"

fun nullableObject :: "members option \<Rightarrow> js_value" where
  "nullableObject None = Null" | "nullableObject (Some ms) = JObject ms"

fun billingJson :: "BillingUnits option \<Rightarrow> js_value" where
  "billingJson None = Null"
| "billingJson (Some b) = JObject
     [(''inputUnits'', JNumber (bu_inputUnits b)), (''outputUnits'', JNumber (bu_outputUnits b))]"

definition taskJson :: "DurableTaskState \<Rightarrow> js_value" where
  "taskJson s = JObject
     [(''schemaVersion'', JString ''1''), (''taskId'', JString (ts_taskId s)),
      (''ownerId'', JString (ts_ownerId s)), (''credentialBinding'', JString (ts_credentialBinding s)),
      (''providerId'', JString (ts_providerId s)), (''providerTaskId'', nullable (ts_providerTaskId s)),
      (''operationInput'', ts_operationInput s), (''idempotencyKey'', nullable (ts_idempotencyKey s)),
      (''status'', JString (taskStatusName (ts_status s))), (''result'', nullableObject (ts_result s)),
      (''inputRequests'', JObject (ts_inputRequests s)),
      (''usedInputKeys'', JArray (map JString (ts_usedInputKeys s))),
      (''sanitizedError'', nullable (ts_sanitizedError s)),
      (''createdAt'', JNumber (ts_createdAt s)), (''updatedAt'', JNumber (ts_updatedAt s)),
      (''expiresAt'', JNumber (ts_expiresAt s)), (''ttlMs'', JNumber (ts_ttlMs s)),
      (''pollIntervalMs'', JNumber (ts_pollIntervalMs s)), (''nextPollAt'', JNumber (ts_nextPollAt s)),
      (''billing'', billingJson (ts_billing s)), (''callerCancelled'', JBool (ts_callerCancelled s)),
      (''groundlanePollingCancelled'', JBool (ts_groundlanePollingCancelled s)),
      (''upstreamCancelRequested'', JBool (ts_upstreamCancelRequested s)),
      (''upstreamCancelled'', JBool (ts_upstreamCancelled s))]"

definition encodeTask :: "DurableTaskState \<Rightarrow> string res" where
  "encodeTask s =
     (let value = jsonText (taskJson s) in
      if utf8Length value > MAX_ENCODED_STATE_BYTES
      then Inl (taskError ''Durable task metadata exceeds 48 KiB; store large output as an ArtifactRef'')
      else Inr value)"

fun asNullableObject :: "js_value \<Rightarrow> members option option" where
  "asNullableObject Null = Some None"
| "asNullableObject (JObject ms) = Some (Some ms)"
| "asNullableObject _ = None"

fun asObject :: "js_value \<Rightarrow> members option" where
  "asObject (JObject ms) = Some ms" | "asObject _ = None"

fun asStrings :: "js_value \<Rightarrow> string list option" where
  "asStrings (JArray xs) = those (map asString xs)" | "asStrings _ = None"

definition asBilling :: "js_value \<Rightarrow> BillingUnits option option" where
  "asBilling v = (case asNullableObject v of
     None \<Rightarrow> None | Some None \<Rightarrow> Some None
   | Some (Some _) \<Rightarrow>
       (case (asNumber (propOf ''inputUnits'' v), asNumber (propOf ''outputUnits'' v)) of
          (Some i, Some u) \<Rightarrow>
            if isInteger i \<and> isInteger u then Some (Some \<lparr>bu_inputUnits = i, bu_outputUnits = u\<rparr>) else None
        | _ \<Rightarrow> None))"

definition hasProp :: "string \<Rightarrow> js_value \<Rightarrow> bool" where
  "hasProp k v = (case v of JObject ms \<Rightarrow> map_of ms k \<noteq> None | _ \<Rightarrow> False)"

text \<open>The checks of \<open>decode\<close>, in groups; each yields the fields it has checked.\<close>

definition taskStrings :: "js_value \<Rightarrow> (string \<times> string \<times> string \<times> string) option" where
  "taskStrings v = (case (asString (propOf ''taskId'' v), asString (propOf ''ownerId'' v),
      asString (propOf ''credentialBinding'' v), asString (propOf ''providerId'' v)) of
     (Some t, Some ow, Some c, Some p) \<Rightarrow> Some (t, ow, c, p) | _ \<Rightarrow> None)"

definition taskNullables :: "js_value \<Rightarrow> (string option \<times> string option \<times> string option) option" where
  "taskNullables v = (case (asNullableString (propOf ''providerTaskId'' v),
      asNullableString (propOf ''idempotencyKey'' v), asNullableString (propOf ''sanitizedError'' v)) of
     (Some p, Some i, Some e) \<Rightarrow> Some (p, i, e) | _ \<Rightarrow> None)"

definition taskObjects :: "js_value \<Rightarrow>
    (DurableTaskStatus \<times> members option \<times> members \<times> string list \<times> BillingUnits option) option" where
  "taskObjects v = (case (named taskStatusName taskStatuses (propOf ''status'' v),
      asNullableObject (propOf ''result'' v), asObject (propOf ''inputRequests'' v),
      asStrings (propOf ''usedInputKeys'' v), asBilling (propOf ''billing'' v)) of
     (Some s, Some r, Some i, Some u, Some b) \<Rightarrow> Some (s, r, i, u, b) | _ \<Rightarrow> None)"

definition taskNumbers :: "js_value \<Rightarrow> (jsnum \<times> jsnum \<times> jsnum \<times> jsnum \<times> jsnum \<times> jsnum) option" where
  "taskNumbers v = (case (asNumber (propOf ''createdAt'' v), asNumber (propOf ''updatedAt'' v),
      asNumber (propOf ''expiresAt'' v), asNumber (propOf ''ttlMs'' v),
      asNumber (propOf ''pollIntervalMs'' v), asNumber (propOf ''nextPollAt'' v)) of
     (Some a, Some b, Some c, Some d, Some e, Some f) \<Rightarrow> Some (a, b, c, d, e, f) | _ \<Rightarrow> None)"

definition taskFlags :: "js_value \<Rightarrow> (bool \<times> bool \<times> bool \<times> bool) option" where
  "taskFlags v = (case (asBool (propOf ''callerCancelled'' v), asBool (propOf ''groundlanePollingCancelled'' v),
      asBool (propOf ''upstreamCancelRequested'' v), asBool (propOf ''upstreamCancelled'' v)) of
     (Some a, Some b, Some c, Some d) \<Rightarrow> Some (a, b, c, d) | _ \<Rightarrow> None)"

definition taskOfJson :: "js_value \<Rightarrow> DurableTaskState option" where
  "taskOfJson v =
     (if asString (propOf ''schemaVersion'' v) \<noteq> Some ''1'' \<or> \<not> hasProp ''operationInput'' v then None
      else case (taskStrings v, taskNullables v, taskObjects v, taskNumbers v, taskFlags v) of
        (Some (t, ow, c, p), Some (pt, ik, se), Some (st, re, ir, uk, bi), Some (n1, n2, n3, n4, n5, n6),
         Some (b1, b2, b3, b4)) \<Rightarrow>
          Some \<lparr>ts_taskId = t, ts_ownerId = ow, ts_credentialBinding = c, ts_providerId = p,
            ts_providerTaskId = pt, ts_operationInput = propOf ''operationInput'' v,
            ts_idempotencyKey = ik, ts_status = st, ts_result = re, ts_inputRequests = ir,
            ts_usedInputKeys = uk, ts_sanitizedError = se, ts_createdAt = n1, ts_updatedAt = n2,
            ts_expiresAt = n3, ts_ttlMs = n4, ts_pollIntervalMs = n5, ts_nextPollAt = n6,
            ts_billing = bi, ts_callerCancelled = b1, ts_groundlanePollingCancelled = b2,
            ts_upstreamCancelRequested = b3, ts_upstreamCancelled = b4\<rparr>
      | _ \<Rightarrow> None)"

definition decodeTaskText :: "string \<Rightarrow> DurableTaskState res" where
  "decodeTaskText value =
     (case Option.bind (jsonParse value) taskOfJson of
        None \<Rightarrow> Inl (taskError ''Durable task record is malformed'')
      | Some s \<Rightarrow>
          andThen (assertIdentity (ts_taskId s) ''taskId'')
          (andThen (assertIdentity (ts_ownerId s) ''ownerId'')
          (andThen (assertIdentity (ts_credentialBinding s) ''credentialBinding'') (Inr s))))"

definition decodeTask :: "DurableRecord \<Rightarrow> VersionedTask res" where
  "decodeTask r = bindE (decodeTaskText (dr_value r)) (\<lambda>s. Inr \<lparr>vt_state = s, vt_revision = dr_revision r\<rparr>)"

definition assertTaskCaller :: "DurableTaskState \<Rightarrow> JobCaller \<Rightarrow> unit res" where
  "assertTaskCaller s caller =
     throwIf (ts_ownerId s \<noteq> ca_ownerId caller \<or> ts_credentialBinding s \<noteq> ca_credentialBinding caller)
       (taskError ''Unknown or unavailable task'')"

definition validateTaskTime :: "jsnum \<Rightarrow> unit res" where
  "validateTaskTime nowMs =
     throwIf (\<not> isSafeInteger nowMs \<or> jlt nowMs (jint 0)) (taskError ''Task timestamp is invalid'')"

definition taskDetail :: "DurableTaskState \<Rightarrow> TaskDetail" where
  "taskDetail s = (case ts_status s of
     TaskCompleted \<Rightarrow> DetailCompleted (case ts_result s of Some r \<Rightarrow> r | None \<Rightarrow> [])
   | TaskFailed \<Rightarrow> DetailFailed (- 32603)
       (case ts_sanitizedError s of Some m \<Rightarrow> m | None \<Rightarrow> ''Task execution failed'')
   | TaskCancelled \<Rightarrow> DetailCancelled
   | TaskInputRequired \<Rightarrow> DetailInputRequired (ts_inputRequests s)
   | _ \<Rightarrow> DetailWorking)"

definition toDetailed :: "DurableTaskState \<Rightarrow> DetailedMcpTask res" where
  "toDetailed s =
     bindE (toISOString (timeClip (ts_createdAt s))) (\<lambda>createdAt.
     bindE (toISOString (timeClip (ts_updatedAt s))) (\<lambda>lastUpdatedAt.
       Inr \<lparr>dt_taskId = ts_taskId s, dt_createdAt = createdAt, dt_lastUpdatedAt = lastUpdatedAt,
            dt_ttlMs = ts_ttlMs s, dt_pollIntervalMs = ts_pollIntervalMs s, dt_detail = taskDetail s\<rparr>))"

section \<open>Reading and failing (read, failUncertain)\<close>

record task_runtime =
  rt_provider :: AsyncTaskProviderPort
  rt_pollIntervalMs :: jsnum

definition createTaskRuntime :: "AsyncTaskProviderPort \<Rightarrow> jsnum option \<Rightarrow> task_runtime res" where
  "createTaskRuntime provider interval =
     (let pollIntervalMs = (case interval of Some n \<Rightarrow> n | None \<Rightarrow> DEFAULT_MCP_TASK_POLL_INTERVAL_MS) in
      if \<not> isInteger pollIntervalMs \<or> jlt pollIntervalMs (jint 5000) \<or> jlt (jint 60000) pollIntervalMs
      then Inl (taskError ''pollIntervalMs must be 5000..60000'')
      else Inr \<lparr>rt_provider = provider, rt_pollIntervalMs = pollIntervalMs\<rparr>)"

text \<open>What is kept of a task under its key: \<open>compareAndSwap(taskKey(id), revision, ...)\<close>.\<close>

definition casTask :: "'s durable_port \<Rightarrow> string \<Rightarrow> int \<Rightarrow> DurableTaskState \<Rightarrow> jsnum \<Rightarrow>
    ('s task_world, DurableCasResult) action" where
  "casTask P taskId revision s nowMs =
     bindM (pureM (encodeTask s)) (\<lambda>value.
       storeCas P (taskKey taskId) revision
         \<lparr>du_value = value, du_nowMs = nowMs, du_expiresAt = Some (ts_expiresAt s)\<rparr>)"

definition readTask :: "'s durable_port \<Rightarrow> string \<Rightarrow> JobCaller \<Rightarrow> jsnum \<Rightarrow>
    ('s task_world, VersionedTask) action" where
  "readTask P taskId caller nowMs =
     thenM (pureM (andThen (assertIdentity taskId ''taskId'') (validateTaskTime nowMs)))
     (bindM (storeGet P (taskKey taskId)) (\<lambda>found.
        case found of None \<Rightarrow> throwM (taskError ''Unknown or unavailable task'')
        | Some record \<Rightarrow>
            bindM (pureM (decodeTask record)) (\<lambda>current.
            thenM (pureM (andThen (assertTaskCaller (vt_state current) caller)
              (throwIf (jle (ts_expiresAt (vt_state current)) nowMs)
                 (taskError ''Unknown or unavailable task''))))
            (returnM current))))"

definition readDetailed :: "'s durable_port \<Rightarrow> string \<Rightarrow> JobCaller \<Rightarrow> jsnum \<Rightarrow>
    ('s task_world, DetailedMcpTask) action" where
  "readDetailed P taskId caller nowMs =
     bindM (readTask P taskId caller nowMs) (\<lambda>current. pureM (toDetailed (vt_state current)))"

definition failedTask :: "DurableTaskState \<Rightarrow> jsnum \<Rightarrow> DurableTaskState" where
  "failedTask s nowMs = s\<lparr>ts_status := TaskFailed,
     ts_sanitizedError := Some ''Provider task creation outcome is uncertain'', ts_updatedAt := nowMs\<rparr>"

definition failUncertain :: "'s durable_port \<Rightarrow> VersionedTask \<Rightarrow> JobCaller \<Rightarrow> jsnum \<Rightarrow> bool \<Rightarrow>
    ('s task_world, DetailedMcpTask) action" where
  "failUncertain P current caller nowMs hasCause =
     bindM (casTask P (ts_taskId (vt_state current)) (vt_revision current)
              (failedTask (vt_state current) nowMs) nowMs) (\<lambda>saved.
       case saved of
         CasUpdated r \<Rightarrow> bindM (pureM (decodeTask r)) (\<lambda>t. pureM (toDetailed (vt_state t)))
       | CasMissing \<Rightarrow>
           if hasCause then throwM (taskError ''Provider task creation outcome is uncertain'')
           else readDetailed P (ts_taskId (vt_state current)) caller nowMs
       | CasConflict _ \<Rightarrow> readDetailed P (ts_taskId (vt_state current)) caller nowMs)"

section \<open>Starting a task (start)\<close>

definition createIdentity :: "string \<Rightarrow> EffectIdentity" where
  "createIdentity taskId = \<lparr>ei_jobId = taskId, ei_effectKind = ProviderTaskCreate, ei_operationKey = ''initial''\<rparr>"

definition indexJson :: "string \<Rightarrow> string \<Rightarrow> js_value" where
  "indexJson taskId fingerprint = JObject [(''taskId'', JString taskId), (''fingerprint'', JString fingerprint)]"

text \<open>The task identifier that the idempotency record of the request names.\<close>

definition indexedTaskId :: "string \<Rightarrow> string \<Rightarrow> string res" where
  "indexedTaskId value fingerprint =
     (case jsonParse value of
        None \<Rightarrow> Inl (JsError ''SyntaxError'')
      | Some v \<Rightarrow>
          (case (asString (propOf ''taskId'' v), asString (propOf ''fingerprint'' v)) of
             (Some t, Some f) \<Rightarrow>
               if f \<noteq> fingerprint
               then Inl (taskError ''Idempotency key is already bound to a different task request'')
               else Inr t
           | _ \<Rightarrow> Inl (taskError ''Durable task idempotency record is malformed'')))"

definition resolveTaskId :: "'s durable_port \<Rightarrow> (string \<Rightarrow> string) \<Rightarrow> string \<Rightarrow> js_value \<Rightarrow> JobCaller \<Rightarrow>
    string option \<Rightarrow> jsnum \<Rightarrow> jsnum \<Rightarrow> ('s task_world, string) action" where
  "resolveTaskId P sha256 newId input caller key nowMs ttlMs =
     (case key of None \<Rightarrow> returnM newId
      | Some k \<Rightarrow>
          bindM (pureM (inputFingerprint sha256 input)) (\<lambda>fingerprint.
          bindM (storeCreate P
              \<lparr>nd_key = idempotencyRecordKey sha256 (ca_ownerId caller) (ca_credentialBinding caller) k,
               nd_value = jsonText (indexJson newId fingerprint), nd_nowMs = nowMs,
               nd_expiresAt = Some (jadd nowMs ttlMs)\<rparr>) (\<lambda>index.
            pureM (indexedTaskId
              (dr_value (case index of DurableCreated r \<Rightarrow> r | DurableExists r \<Rightarrow> r)) fingerprint))))"

definition initialTask :: "task_runtime \<Rightarrow> string \<Rightarrow> js_value \<Rightarrow> JobCaller \<Rightarrow> string option \<Rightarrow> jsnum \<Rightarrow>
    jsnum \<Rightarrow> DurableTaskState" where
  "initialTask rt taskId input caller key nowMs ttlMs =
     \<lparr>ts_taskId = taskId, ts_ownerId = ca_ownerId caller,
      ts_credentialBinding = ca_credentialBinding caller, ts_providerId = tp_id (rt_provider rt),
      ts_providerTaskId = None, ts_operationInput = input, ts_idempotencyKey = key,
      ts_status = TaskCreating, ts_result = None, ts_inputRequests = [], ts_usedInputKeys = [],
      ts_sanitizedError = None, ts_createdAt = nowMs, ts_updatedAt = nowMs,
      ts_expiresAt = jadd nowMs ttlMs, ts_ttlMs = ttlMs, ts_pollIntervalMs = rt_pollIntervalMs rt,
      ts_nextPollAt = nowMs, ts_billing = None, ts_callerCancelled = False,
      ts_groundlanePollingCancelled = False, ts_upstreamCancelRequested = False,
      ts_upstreamCancelled = False\<rparr>"

definition markEffectUncertain :: "'s durable_port \<Rightarrow> string \<Rightarrow> int \<Rightarrow> jsnum \<Rightarrow> ('s task_world, unit) action" where
  "markEffectUncertain P taskId revision nowMs =
     catchM (bindM (journal_transition P (createIdentity taskId) revision EffectUncertain nowMs None)
               (\<lambda>_. returnM ())) (\<lambda>_. returnM ())"

text \<open>The \<open>try\<close> block of \<open>start\<close> in two parts, since the handler sees the variable \<open>current\<close>: before
  the assignment it is the created state, after it the state with the provider's handle.\<close>

definition startProvider :: "'s durable_port \<Rightarrow> task_runtime \<Rightarrow> string \<Rightarrow> js_value \<Rightarrow> VersionedTask \<Rightarrow> jsnum \<Rightarrow>
    ('s task_world, VersionedTask) action" where
  "startProvider P rt taskId input current nowMs =
     bindM (callProvider (CallCreate input) (\<lambda>n. tp_create (rt_provider rt) n input)) (\<lambda>providerTaskId.
     bindM (casTask P taskId (vt_revision current)
              ((vt_state current)\<lparr>ts_providerTaskId := Some providerTaskId, ts_status := TaskWorking,
                 ts_updatedAt := nowMs, ts_nextPollAt := nowMs\<rparr>) nowMs) (\<lambda>saved.
       case saved of
         CasUpdated r \<Rightarrow> pureM (decodeTask r)
       | _ \<Rightarrow> throwM (taskError ''Provider task creation outcome is uncertain'')))"

definition startClaimed :: "'s durable_port \<Rightarrow> task_runtime \<Rightarrow> string \<Rightarrow> js_value \<Rightarrow> JobCaller \<Rightarrow> VersionedTask \<Rightarrow>
    jsnum \<Rightarrow> int \<Rightarrow> ('s task_world, DetailedMcpTask) action" where
  "startClaimed P rt taskId input caller current nowMs claimed =
     bindM (journal_transition P (createIdentity taskId) claimed EffectInflight nowMs None) (\<lambda>inflight.
     let failed = (\<lambda>cur. thenM (markEffectUncertain P taskId (snd inflight) nowMs)
           (failUncertain P cur caller nowMs True)) in
     bindM (attemptM (startProvider P rt taskId input current nowMs)) (\<lambda>started.
       case started of
         Inl _ \<Rightarrow> failed current
       | Inr working \<Rightarrow>
           catchM (bindM (journal_transition P (createIdentity taskId) (snd inflight)
                     EffectSucceeded nowMs (Some ''provider-handle-persisted''))
                   (\<lambda>_. pureM (toDetailed (vt_state working))))
             (\<lambda>_. failed working)))"

definition startEffect :: "'s durable_port \<Rightarrow> task_runtime \<Rightarrow> string \<Rightarrow> js_value \<Rightarrow> JobCaller \<Rightarrow> VersionedTask \<Rightarrow>
    jsnum \<Rightarrow> ('s task_world, DetailedMcpTask) action" where
  "startEffect P rt taskId input caller current nowMs =
      bindM (journal_claim P taskId ProviderTaskCreate ''initial'' nowMs) (\<lambda>claim.
        case claim of
          ClaimExisting _ _ \<Rightarrow> failUncertain P current caller nowMs False
        | ClaimGranted _ claimed \<Rightarrow> startClaimed P rt taskId input caller current nowMs claimed)"

definition startGuards :: "JobCaller \<Rightarrow> StartMcpTaskOptions \<Rightarrow> jsnum \<Rightarrow> jsnum \<Rightarrow> unit res" where
  "startGuards caller options ttlMs nowMs =
     andThen (assertIdentity (ca_ownerId caller) ''ownerId'')
     (andThen (assertIdentity (ca_credentialBinding caller) ''credentialBinding'')
     (andThen (throwIf (\<not> isInteger ttlMs \<or> jlt ttlMs (jint 60000) \<or> jlt (jint 86400000) ttlMs)
        (taskError ''ttlMs must be 60000..86400000''))
     (andThen (case so_idempotencyKey options of None \<Rightarrow> Inr ()
        | Some k \<Rightarrow> assertIdentity k ''idempotencyKey'')
     (validateTaskTime nowMs))))"

definition sameRequest :: "DurableTaskState \<Rightarrow> string option \<Rightarrow> js_value \<Rightarrow> bool" where
  "sameRequest s key input \<longleftrightarrow>
     ts_idempotencyKey s = key \<and> stringify (ts_operationInput s) = stringify input"

definition task_start :: "'s durable_port \<Rightarrow> (string \<Rightarrow> string) \<Rightarrow> task_runtime \<Rightarrow> string \<Rightarrow> js_value \<Rightarrow>
    JobCaller \<Rightarrow> StartMcpTaskOptions \<Rightarrow> jsnum \<Rightarrow> ('s task_world, DetailedMcpTask) action" where
  "task_start P sha256 rt uuid input caller options nowMs =
     (let ttlMs = (case so_ttlMs options of Some t \<Rightarrow> t | None \<Rightarrow> DEFAULT_MCP_TASK_TTL_MS);
          key = so_idempotencyKey options in
      thenM (pureM (startGuards caller options ttlMs nowMs))
      (bindM (resolveTaskId P sha256 (''ajob-'' @ uuid) input caller key nowMs ttlMs) (\<lambda>taskId.
       bindM (pureM (encodeTask (initialTask rt taskId input caller key nowMs ttlMs))) (\<lambda>value.
       bindM (storeCreate P \<lparr>nd_key = taskKey taskId, nd_value = value, nd_nowMs = nowMs,
                nd_expiresAt = Some (jadd nowMs ttlMs)\<rparr>) (\<lambda>created.
       bindM (pureM (decodeTask (case created of DurableCreated r \<Rightarrow> r | DurableExists r \<Rightarrow> r))) (\<lambda>current.
       thenM (pureM (andThen (assertTaskCaller (vt_state current) caller)
         (throwIf (\<not> sameRequest (vt_state current) key input)
            (taskError ''Idempotency key is already bound to a different task request''))))
       (case created of
          DurableExists _ \<Rightarrow>
            (if ts_status (vt_state current) = TaskCreating
             then failUncertain P current caller nowMs False
             else pureM (toDetailed (vt_state current)))
        | DurableCreated _ \<Rightarrow> startEffect P rt taskId input caller current nowMs)))))))"

section \<open>Polling (get, persistPollOutcome)\<close>

definition polledTask :: "DurableTaskState \<Rightarrow> AsyncTaskPollOutcome \<Rightarrow> jsnum \<Rightarrow> DurableTaskState" where
  "polledTask s outcome nowMs = (case po_status outcome of
     PollCompleted \<Rightarrow> s\<lparr>ts_status := TaskCompleted,
       ts_result := Some (case po_result outcome of Some r \<Rightarrow> r | None \<Rightarrow> []),
       ts_billing := po_billing outcome, ts_updatedAt := nowMs\<rparr>
   | PollFailed \<Rightarrow> s\<lparr>ts_status := TaskFailed,
       ts_sanitizedError := Some (sanitizeUpstreamError (ThrownString
         (case po_error outcome of Some e \<Rightarrow> e | None \<Rightarrow> ''The provider task failed''))),
       ts_updatedAt := nowMs\<rparr>
   | PollInputRequired \<Rightarrow> s\<lparr>ts_status := TaskInputRequired,
       ts_inputRequests := filter (\<lambda>(k, v). k \<notin> set (ts_usedInputKeys s))
         (case po_inputRequests outcome of Some i \<Rightarrow> i | None \<Rightarrow> []),
       ts_updatedAt := nowMs\<rparr>
   | PollWorking \<Rightarrow> s\<lparr>ts_status := TaskWorking, ts_updatedAt := nowMs\<rparr>)"

definition persistPollOutcome :: "'s durable_port \<Rightarrow> VersionedTask \<Rightarrow> AsyncTaskPollOutcome \<Rightarrow> JobCaller \<Rightarrow>
    jsnum \<Rightarrow> ('s task_world, DetailedMcpTask) action" where
  "persistPollOutcome P current outcome caller nowMs =
     bindM (casTask P (ts_taskId (vt_state current)) (vt_revision current)
              (polledTask (vt_state current) outcome nowMs) nowMs) (\<lambda>saved.
       case saved of
         CasUpdated r \<Rightarrow> bindM (pureM (decodeTask r)) (\<lambda>t. pureM (toDetailed (vt_state t)))
       | _ \<Rightarrow> readDetailed P (ts_taskId (vt_state current)) caller nowMs)"

definition failedPoll :: "thrown \<Rightarrow> AsyncTaskPollOutcome" where
  "failedPoll err = \<lparr>po_status = PollFailed, po_result = None, po_inputRequests = None,
     po_error = Some (sanitizeUpstreamError err), po_billing = None\<rparr>"

text \<open>The awaited part of the \<open>try\<close> block; what \<open>persistPollOutcome\<close> throws is not caught, because the
  code returns its promise without awaiting it.\<close>

definition pollProvider :: "task_runtime \<Rightarrow> DurableTaskState \<Rightarrow> ('s task_world, AsyncTaskPollOutcome) action" where
  "pollProvider rt s =
     bindM (\<lambda>w. (tp_parseInput (rt_provider rt) (ts_operationInput s), w)) (\<lambda>input.
       let handle = (case ts_providerTaskId s of Some t \<Rightarrow> t | None \<Rightarrow> '''') in
       callProvider (CallPoll handle input) (\<lambda>n. tp_poll (rt_provider rt) n handle input))"

definition nothingToPoll :: "DurableTaskState \<Rightarrow> jsnum \<Rightarrow> bool" where
  "nothingToPoll s nowMs \<longleftrightarrow> taskTerminal (ts_status s) \<or> ts_status s = TaskInputRequired \<or>
     jlt nowMs (ts_nextPollAt s)"

definition leasedTask :: "DurableTaskState \<Rightarrow> jsnum \<Rightarrow> DurableTaskState" where
  "leasedTask s nowMs = s\<lparr>ts_updatedAt := nowMs, ts_nextPollAt := jadd nowMs (ts_pollIntervalMs s)\<rparr>"

text \<open>\<open>aborted\<close> says whether the caller's signal is aborted when the handler runs.\<close>

definition task_get :: "'s durable_port \<Rightarrow> task_runtime \<Rightarrow> string \<Rightarrow> JobCaller \<Rightarrow> bool \<Rightarrow> jsnum \<Rightarrow>
    ('s task_world, DetailedMcpTask) action" where
  "task_get P rt taskId caller aborted nowMs =
     bindM (readTask P taskId caller nowMs) (\<lambda>current.
       if nothingToPoll (vt_state current) nowMs then pureM (toDetailed (vt_state current))
       else if ts_status (vt_state current) = TaskCreating \<or> ts_providerTaskId (vt_state current) = None
       then failUncertain P current caller nowMs False
       else
         bindM (casTask P taskId (vt_revision current) (leasedTask (vt_state current) nowMs) nowMs) (\<lambda>lease.
           case lease of
             CasUpdated r \<Rightarrow>
               bindM (pureM (decodeTask r)) (\<lambda>leased.
               bindM (attemptM (pollProvider rt (vt_state leased))) (\<lambda>polled.
                 case polled of
                   Inr outcome \<Rightarrow> persistPollOutcome P leased outcome caller nowMs
                 | Inl err \<Rightarrow> if aborted then rethrow err
                     else persistPollOutcome P leased (failedPoll err) caller nowMs))
           | _ \<Rightarrow> readDetailed P taskId caller nowMs))"

section \<open>Input for a task (update)\<close>

definition acceptedInput :: "DurableTaskState \<Rightarrow> members \<Rightarrow> members" where
  "acceptedInput s inputResponses =
     filter (\<lambda>(k, v). map_of (ts_inputRequests s) k \<noteq> None \<and> k \<notin> set (ts_usedInputKeys s)) inputResponses"

definition inputOperationKey :: "(string \<Rightarrow> string) \<Rightarrow> DurableTaskState \<Rightarrow> string" where
  "inputOperationKey sha256 s = ''input-'' @ sha256 (jsonText (JObject
     [(''inputRequests'', JObject (ts_inputRequests s)),
      (''usedInputKeys'', JArray (map JString (ts_usedInputKeys s)))]))"

definition answeredTask :: "DurableTaskState \<Rightarrow> string list \<Rightarrow> jsnum \<Rightarrow> DurableTaskState" where
  "answeredTask s keys nowMs =
     (let remaining = filter (\<lambda>(k, v). k \<notin> set keys) (ts_inputRequests s) in
      s\<lparr>ts_status := (if remaining = [] then TaskWorking else TaskInputRequired),
        ts_inputRequests := remaining, ts_usedInputKeys := ts_usedInputKeys s @ keys,
        ts_updatedAt := nowMs, ts_nextPollAt := nowMs\<rparr>)"

fun updateLoop :: "'s durable_port \<Rightarrow> (string \<Rightarrow> string) \<Rightarrow> nat \<Rightarrow> string \<Rightarrow> JobCaller \<Rightarrow> string list \<Rightarrow> string \<Rightarrow>
    jsnum \<Rightarrow> VersionedTask \<Rightarrow> ('s task_world, unit) action" where
  "updateLoop P sha256 0 taskId caller keys operationKey nowMs current =
     throwM (taskError ''Task update conflicted; retry with fresh state'')"
| "updateLoop P sha256 (Suc attempts) taskId caller keys operationKey nowMs current =
     bindM (casTask P taskId (vt_revision current) (answeredTask (vt_state current) keys nowMs) nowMs) (\<lambda>saved.
       case saved of
         CasUpdated _ \<Rightarrow> returnM ()
       | CasMissing \<Rightarrow> throwM (taskError ''Unknown or unavailable task'')
       | CasConflict r \<Rightarrow>
           bindM (pureM (decodeTask r)) (\<lambda>now.
           thenM (pureM (assertTaskCaller (vt_state now) caller))
           (if set keys \<subseteq> set (ts_usedInputKeys (vt_state now)) then returnM ()
            else if ts_status (vt_state now) \<noteq> TaskInputRequired \<or>
              inputOperationKey sha256 (vt_state now) \<noteq> operationKey
            then throwM (taskError ''Task update conflicted; retry with fresh state'')
            else updateLoop P sha256 attempts taskId caller keys operationKey nowMs now)))"

text \<open>Sending the answers to the provider under a claimed effect; a repeated call with the same answers
  is recognised by the receipt.\<close>

definition sendUpdate :: "'s durable_port \<Rightarrow> EffectIdentity \<Rightarrow> string \<Rightarrow> members \<Rightarrow> string \<Rightarrow>
    (nat \<Rightarrow> string \<Rightarrow> members \<Rightarrow> unit tres) \<Rightarrow> jsnum \<Rightarrow> ('s task_world, unit) action" where
  "sendUpdate P i receipt accepted handle update nowMs =
     bindM (journal_claim P (ei_jobId i) (ei_effectKind i) (ei_operationKey i) nowMs) (\<lambda>claim.
       case claim of
         ClaimExisting e _ \<Rightarrow>
           (if ef_status e \<noteq> EffectSucceeded \<or> ef_receipt e \<noteq> Some receipt
            then throwM uncertainUpdateError else returnM ())
       | ClaimGranted _ claimed \<Rightarrow>
           bindM (journal_transition P i claimed EffectInflight nowMs None) (\<lambda>inflight.
           bindM (catchM (callProvider (CallUpdate handle accepted) (\<lambda>n. update n handle accepted))
               (\<lambda>_. thenM (catchM (bindM (journal_transition P i (snd inflight) EffectUncertain nowMs None)
                         (\<lambda>_. returnM ())) (\<lambda>_. returnM ()))
                      (throwM uncertainUpdateError))) (\<lambda>_.
           catchM (bindM (journal_transition P i (snd inflight) EffectSucceeded nowMs (Some receipt))
                    (\<lambda>_. returnM ()))
             (\<lambda>_. throwM uncertainUpdateError))))"

definition task_update :: "'s durable_port \<Rightarrow> (string \<Rightarrow> string) \<Rightarrow> task_runtime \<Rightarrow> string \<Rightarrow> members \<Rightarrow>
    JobCaller \<Rightarrow> jsnum \<Rightarrow> ('s task_world, unit) action" where
  "task_update P sha256 rt taskId inputResponses caller nowMs =
     bindM (readTask P taskId caller nowMs) (\<lambda>current.
       if ts_status (vt_state current) \<noteq> TaskInputRequired
       then throwM (taskError ''Task is not waiting for input'')
       else let accepted = acceptedInput (vt_state current) inputResponses in
         if accepted = [] then returnM ()
         else case (tp_update (rt_provider rt), ts_providerTaskId (vt_state current)) of
           (Some update, Some handle) \<Rightarrow>
             (let operationKey = inputOperationKey sha256 (vt_state current);
                  receipt = ''response-'' @ sha256 (jsonText (JObject accepted))
              in thenM (sendUpdate P \<lparr>ei_jobId = taskId, ei_effectKind = ProviderTaskUpdate,
                          ei_operationKey = operationKey\<rparr> receipt accepted handle update nowMs)
                 (updateLoop P sha256 4 taskId caller (map fst accepted) operationKey nowMs current))
         | _ \<Rightarrow> throwM (taskError ''Provider task does not accept updates''))"

section \<open>Cancelling (cancel, markUpstreamCancelled)\<close>

fun markUpstreamCancelled :: "'s durable_port \<Rightarrow> nat \<Rightarrow> string \<Rightarrow> JobCaller \<Rightarrow> jsnum \<Rightarrow>
    ('s task_world, unit) action" where
  "markUpstreamCancelled P 0 taskId caller nowMs =
     throwM (upstreamTaskError ''Task cancellation acknowledgment conflicted'')"
| "markUpstreamCancelled P (Suc attempts) taskId caller nowMs =
     bindM (readTask P taskId caller nowMs) (\<lambda>current.
       if ts_upstreamCancelled (vt_state current) then returnM ()
       else
         bindM (casTask P taskId (vt_revision current)
             ((vt_state current)\<lparr>ts_upstreamCancelled := True, ts_updatedAt := nowMs\<rparr>) nowMs) (\<lambda>saved.
           case saved of
             CasUpdated _ \<Rightarrow> returnM ()
           | CasMissing \<Rightarrow> throwM (taskError ''Unknown or unavailable task'')
           | CasConflict _ \<Rightarrow> markUpstreamCancelled P attempts taskId caller nowMs))"

definition cancelledTask :: "DurableTaskState \<Rightarrow> jsnum \<Rightarrow> DurableTaskState" where
  "cancelledTask s nowMs = s\<lparr>ts_status := TaskCancelled, ts_groundlanePollingCancelled := True,
     ts_upstreamCancelRequested := True, ts_updatedAt := nowMs\<rparr>"

definition cancelWinner :: "DurableRecord \<Rightarrow> JobCaller \<Rightarrow> ('s task_world, VersionedTask option) action" where
  "cancelWinner r caller =
     bindM (pureM (decodeTask r)) (\<lambda>current.
     thenM (pureM (assertTaskCaller (vt_state current) caller))
     (returnM (if ts_status (vt_state current) \<noteq> TaskCancelled then None else Some current)))"

text \<open>The first half of \<open>cancel\<close>: the public status. It yields the state to go on with, or nothing when
  a concurrent write won.\<close>

definition cancelPublicly :: "'s durable_port \<Rightarrow> string \<Rightarrow> JobCaller \<Rightarrow> jsnum \<Rightarrow>
    ('s task_world, VersionedTask option) action" where
  "cancelPublicly P taskId caller nowMs =
     bindM (readTask P taskId caller nowMs) (\<lambda>current.
       if ts_status (vt_state current) = TaskCancelled then returnM (Some current)
       else if taskTerminal (ts_status (vt_state current))
       then throwM (taskError ''Task is already terminal'')
       else
         bindM (casTask P taskId (vt_revision current) (cancelledTask (vt_state current) nowMs) nowMs) (\<lambda>saved.
           case saved of
             CasMissing \<Rightarrow> throwM (taskError ''Unknown or unavailable task'')
           | CasUpdated r \<Rightarrow> cancelWinner r caller
           | CasConflict r \<Rightarrow> cancelWinner r caller))"

text \<open>The claim of the cancellation effect: the revision to go on from, nothing if another caller is at
  it, or the information that the provider has acknowledged before.\<close>

datatype CancelClaim = CancelClaimed int | CancelAcknowledged | CancelElsewhere

definition cancelIdentity :: "string \<Rightarrow> EffectIdentity" where
  "cancelIdentity taskId = \<lparr>ei_jobId = taskId, ei_effectKind = ProviderTaskCancel, ei_operationKey = ''cancel''\<rparr>"

definition claimCancel :: "'s durable_port \<Rightarrow> string \<Rightarrow> jsnum \<Rightarrow> ('s task_world, CancelClaim) action" where
  "claimCancel P taskId nowMs =
     bindM (journal_claim P taskId ProviderTaskCancel ''cancel'' nowMs) (\<lambda>claim.
       case claim of
         ClaimGranted _ n \<Rightarrow> returnM (CancelClaimed n)
       | ClaimExisting e n \<Rightarrow>
           (case ef_status e of
              EffectSucceeded \<Rightarrow> returnM CancelAcknowledged
            | EffectUncertain \<Rightarrow>
                bindM (journal_retry P (cancelIdentity taskId) n nowMs) (\<lambda>retried.
                  case retried of
                    RetryBlocked _ _ \<Rightarrow> returnM CancelElsewhere
                  | RetryClaimed _ m \<Rightarrow> returnM (CancelClaimed m))
            | _ \<Rightarrow> returnM CancelElsewhere))"

definition askCancel :: "'s durable_port \<Rightarrow> string \<Rightarrow> string \<Rightarrow>
    (nat \<Rightarrow> string \<Rightarrow> ProviderCancelAcknowledgment option tres) \<Rightarrow> JobCaller \<Rightarrow> int \<Rightarrow> jsnum \<Rightarrow>
    ('s task_world, unit) action" where
  "askCancel P taskId handle cancel caller claimed nowMs =
     bindM (quietly (journal_transition P (cancelIdentity taskId) claimed EffectInflight nowMs None)) (\<lambda>inflight.
       case inflight of None \<Rightarrow> returnM ()
       | Some (_, revision) \<Rightarrow>
           bindM (catchM (callProvider (CallCancel handle) (\<lambda>n. cancel n handle)) (\<lambda>_. returnM None)) (\<lambda>ack.
             case ack of
               None \<Rightarrow> bindM (quietly (journal_transition P (cancelIdentity taskId) revision EffectUncertain
                         nowMs None)) (\<lambda>_. returnM ())
             | Some _ \<Rightarrow>
                 bindM (quietly (journal_transition P (cancelIdentity taskId) revision EffectSucceeded nowMs
                     (Some ''provider-cancel-acknowledged''))) (\<lambda>recorded.
                   case recorded of None \<Rightarrow> returnM ()
                   | Some _ \<Rightarrow> markUpstreamCancelled P 4 taskId caller nowMs)))"

definition task_cancel :: "'s durable_port \<Rightarrow> task_runtime \<Rightarrow> string \<Rightarrow> JobCaller \<Rightarrow> jsnum \<Rightarrow>
    ('s task_world, unit) action" where
  "task_cancel P rt taskId caller nowMs =
     bindM (cancelPublicly P taskId caller nowMs) (\<lambda>result.
       case result of None \<Rightarrow> returnM ()
       | Some current \<Rightarrow>
           if ts_upstreamCancelled (vt_state current) then returnM ()
           else case (tp_cancel (rt_provider rt), ts_providerTaskId (vt_state current)) of
             (Some cancel, Some handle) \<Rightarrow>
               bindM (claimCancel P taskId nowMs) (\<lambda>claim.
                 case claim of
                   CancelElsewhere \<Rightarrow> returnM ()
                 | CancelAcknowledged \<Rightarrow> markUpstreamCancelled P 4 taskId caller nowMs
                 | CancelClaimed n \<Rightarrow> askCancel P taskId handle cancel caller n nowMs)
           | _ \<Rightarrow> returnM ())"

section \<open>Bookkeeping (stopWaiting, describe)\<close>

definition task_stopWaiting :: "'s durable_port \<Rightarrow> string \<Rightarrow> JobCaller \<Rightarrow> jsnum \<Rightarrow>
    ('s task_world, unit) action" where
  "task_stopWaiting P taskId caller nowMs =
     bindM (readTask P taskId caller nowMs) (\<lambda>current.
       if ts_callerCancelled (vt_state current) then returnM ()
       else bindM (casTask P taskId (vt_revision current)
              ((vt_state current)\<lparr>ts_callerCancelled := True, ts_updatedAt := nowMs\<rparr>) nowMs)
              (\<lambda>_. returnM ()))"

definition describedTask :: "DetailedMcpTask \<Rightarrow> DurableTaskState \<Rightarrow> McpTaskOperationalDetails" where
  "describedTask task s =
     \<lparr>od_task = task,
      od_billingProvenance = \<lparr>tb_providerId = ts_providerId s, tb_units = ts_billing s\<rparr>,
      od_callerStoppedWaiting = ts_callerCancelled s,
      od_groundlanePollingCancelled = ts_groundlanePollingCancelled s,
      od_upstreamCancelRequested = ts_upstreamCancelRequested s,
      od_upstreamCancelled = ts_upstreamCancelled s\<rparr>"

definition task_describe :: "'s durable_port \<Rightarrow> task_runtime \<Rightarrow> string \<Rightarrow> JobCaller \<Rightarrow> bool \<Rightarrow> jsnum \<Rightarrow>
    ('s task_world, McpTaskOperationalDetails) action" where
  "task_describe P rt taskId caller aborted nowMs =
     bindM (task_get P rt taskId caller aborted nowMs) (\<lambda>task.
     bindM (readTask P taskId caller nowMs) (\<lambda>current.
       returnM (describedTask task (vt_state current))))"

end
