(* ===== verification/McpTaskFacts.thy ===== *)
theory McpTaskFacts
  imports McpTasks
begin

text \<open>
  The stored form of a task reads back as the task; how a stored task may move; and the contract of
  every method of the task runtime: while the others keep to these moves, so does the method.
\<close>

section \<open>Round trip\<close>

definition membersOk :: "members \<Rightarrow> bool" where
  "membersOk ms \<longleftrightarrow> jsonOk (JObject ms)"

definition billingOk :: "BillingUnits option \<Rightarrow> bool" where
  "billingOk b \<longleftrightarrow> (\<forall>u. b = Some u \<longrightarrow> isInteger (bu_inputUnits u) \<and> isInteger (bu_outputUnits u))"

definition identitiesOk :: "DurableTaskState \<Rightarrow> bool" where
  "identitiesOk s \<longleftrightarrow> assertIdentity (ts_taskId s) ''taskId'' = Inr () \<and>
     assertIdentity (ts_ownerId s) ''ownerId'' = Inr () \<and>
     assertIdentity (ts_credentialBinding s) ''credentialBinding'' = Inr ()"

definition numbersOk :: "DurableTaskState \<Rightarrow> bool" where
  "numbersOk s \<longleftrightarrow> isInteger (ts_createdAt s) \<and> isInteger (ts_updatedAt s) \<and>
     isInteger (ts_expiresAt s) \<and> isInteger (ts_ttlMs s) \<and> isInteger (ts_pollIntervalMs s) \<and>
     isInteger (ts_nextPollAt s)"

definition taskOk :: "DurableTaskState \<Rightarrow> bool" where
  "taskOk s \<longleftrightarrow> identitiesOk s \<and> numbersOk s \<and> jsonOk (ts_operationInput s) \<and>
     (\<forall>r. ts_result s = Some r \<longrightarrow> membersOk r) \<and> membersOk (ts_inputRequests s) \<and>
     billingOk (ts_billing s)"

lemma nullableObject_json [simp]:
  "jsonOk (nullableObject r) \<longleftrightarrow> (\<forall>ms. r = Some ms \<longrightarrow> membersOk ms)"
  "asNullableObject (nullableObject r) = Some r"
  by (cases r; simp add: membersOk_def)+

lemma billingJson_ok: "billingOk b \<Longrightarrow> jsonOk (billingJson b)"
  by (cases b) (auto simp: billingOk_def isIndexKey_letter isDigit_def intro!: objectOf_plain)

lemma asBilling_billingJson: "billingOk b \<Longrightarrow> asBilling (billingJson b) = Some b"
  by (cases b) (auto simp: billingOk_def asBilling_def)

lemma asStrings_map [simp]: "asStrings (JArray (map JString xs)) = Some xs"
  by (induction xs) (auto simp: comp_def)

lemma taskJson_ok: "taskOk s \<Longrightarrow> jsonOk (taskJson s)"
  unfolding taskJson_def jsonOk.simps
  by (intro conjI objectOf_plain)
    (simp_all add: isIndexKey_letter isDigit_def taskOk_def numbersOk_def membersOk_def billingJson_ok
      list_all_iff)

lemma named_taskStatus [simp]: "named taskStatusName taskStatuses (JString (taskStatusName st)) = Some st"
  by (cases st) (simp_all add: named_def taskStatuses_def)

lemma taskOfJson_taskJson:
  assumes "taskOk s" shows "taskOfJson (taskJson s) = Some s"
proof -
  let ?v = "taskJson s"
  have "taskStrings ?v = Some (ts_taskId s, ts_ownerId s, ts_credentialBinding s, ts_providerId s)"
    by (simp add: taskStrings_def taskJson_def)
  moreover have "taskNullables ?v = Some (ts_providerTaskId s, ts_idempotencyKey s, ts_sanitizedError s)"
    by (simp add: taskNullables_def taskJson_def)
  moreover have "taskObjects ?v = Some (ts_status s, ts_result s, ts_inputRequests s, ts_usedInputKeys s,
      ts_billing s)"
    using assms asBilling_billingJson [of "ts_billing s"] asStrings_map [of "ts_usedInputKeys s"]
    by (simp add: taskObjects_def taskJson_def taskOk_def del: asStrings.simps)
  moreover have "taskNumbers ?v = Some (ts_createdAt s, ts_updatedAt s, ts_expiresAt s, ts_ttlMs s,
      ts_pollIntervalMs s, ts_nextPollAt s)"
    by (simp add: taskNumbers_def taskJson_def)
  moreover have "taskFlags ?v = Some (ts_callerCancelled s, ts_groundlanePollingCancelled s,
      ts_upstreamCancelRequested s, ts_upstreamCancelled s)"
    by (simp add: taskFlags_def taskJson_def)
  moreover have "asString (propOf ''schemaVersion'' ?v) = Some ''1''" "hasProp ''operationInput'' ?v"
      "propOf ''operationInput'' ?v = ts_operationInput s"
    by (simp_all add: taskJson_def hasProp_def)
  ultimately show ?thesis by (simp add: taskOfJson_def)
qed

theorem decode_encode_task:
  assumes "taskOk s" "encodeTask s = Inr v" shows "decodeTaskText v = Inr s"
proof -
  from assms(2) have "v = jsonText (taskJson s)" by (auto simp: encodeTask_def Let_def split: if_splits)
  with assms(1) show ?thesis
    by (simp add: decodeTaskText_def jsonParse_jsonText taskJson_ok taskOfJson_taskJson taskOk_def
      identitiesOk_def)
qed

section \<open>How a stored task may move\<close>

text \<open>The identity, the expiry and the request of a task are fixed, a terminal status is final with its
  result, an answered input request stays answered, and what has been cancelled stays cancelled.\<close>

definition taskIdentity :: "DurableTaskState \<Rightarrow> (string \<times> string \<times> string \<times> string) \<times> js_value \<times> string option \<times>
    jsnum \<times> jsnum \<times> jsnum \<times> jsnum" where
  "taskIdentity s = ((ts_taskId s, ts_ownerId s, ts_credentialBinding s, ts_providerId s),
     ts_operationInput s, ts_idempotencyKey s, ts_createdAt s, ts_expiresAt s, ts_ttlMs s,
     ts_pollIntervalMs s)"

definition taskOutcome :: "DurableTaskState \<Rightarrow>
    DurableTaskStatus \<times> members option \<times> string option \<times> BillingUnits option" where
  "taskOutcome s = (ts_status s, ts_result s, ts_sanitizedError s, ts_billing s)"

definition taskStep :: "DurableTaskState \<Rightarrow> DurableTaskState \<Rightarrow> bool" where
  "taskStep s s' \<longleftrightarrow> taskIdentity s' = taskIdentity s \<and>
     (taskTerminal (ts_status s) \<longrightarrow> taskOutcome s' = taskOutcome s) \<and>
     (ts_status s \<noteq> TaskCreating \<longrightarrow> ts_status s' \<noteq> TaskCreating) \<and>
     (ts_providerTaskId s \<noteq> None \<longrightarrow> ts_providerTaskId s' = ts_providerTaskId s) \<and>
     set (ts_usedInputKeys s) \<subseteq> set (ts_usedInputKeys s') \<and>
     (ts_callerCancelled s \<longrightarrow> ts_callerCancelled s') \<and>
     (ts_groundlanePollingCancelled s \<longrightarrow> ts_groundlanePollingCancelled s') \<and>
     (ts_upstreamCancelRequested s \<longrightarrow> ts_upstreamCancelRequested s') \<and>
     (ts_upstreamCancelled s \<longrightarrow> ts_upstreamCancelled s')"

definition taskAt :: "string \<Rightarrow> DurableTaskState \<Rightarrow> bool" where
  "taskAt key s \<longleftrightarrow> taskOk s \<and> taskKey (ts_taskId s) = key"

definition taskMove :: "string \<Rightarrow> string \<Rightarrow> string \<Rightarrow> bool" where
  "taskMove key v v' \<longleftrightarrow> (\<forall>s. decodeTaskText v = Inr s \<longrightarrow> taskAt key s \<longrightarrow>
     (\<exists>s'. decodeTaskText v' = Inr s' \<and> taskAt key s' \<and> taskStep s s'))"

definition taskValue :: "string \<Rightarrow> string \<Rightarrow> bool" where
  "taskValue key v \<longleftrightarrow> (\<exists>s. decodeTaskText v = Inr s \<and> taskAt key s)"

lemma taskStep_refl [simp]: "taskStep s s"
  by (simp add: taskStep_def)

lemma taskStep_status: "taskStep s s' \<Longrightarrow> taskTerminal (ts_status s) \<Longrightarrow> ts_status s' = ts_status s"
  by (simp add: taskStep_def taskOutcome_def)

lemma taskStep_trans: "taskStep a b \<Longrightarrow> taskStep b c \<Longrightarrow> taskStep a c"
  using taskStep_status [of a b] unfolding taskStep_def by (elim conjE, intro conjI) (simp, simp, simp,
    simp, rule subset_trans, assumption, assumption, simp, simp, simp, simp)

lemma taskMove_refl [simp]: "taskMove k v v"
  by (auto simp: taskMove_def)

lemma taskMoveE:
  assumes "taskMove k v w" "decodeTaskText v = Inr s" "taskAt k s"
  obtains s' where "decodeTaskText w = Inr s'" "taskAt k s'" "taskStep s s'"
  using assms unfolding taskMove_def by blast

lemma taskMove_trans:
  assumes "taskMove k u v" "taskMove k v w" shows "taskMove k u w"
  unfolding taskMove_def
proof (intro allI impI)
  fix s assume "decodeTaskText u = Inr s" "taskAt k s"
  with assms(1) obtain s1 where 1: "decodeTaskText v = Inr s1" "taskAt k s1" "taskStep s s1"
    by (rule taskMoveE)
  from assms(2) this(1,2) obtain s2 where "decodeTaskText w = Inr s2" "taskAt k s2" "taskStep s1 s2"
    by (rule taskMoveE)
  with 1 show "\<exists>s'. decodeTaskText w = Inr s' \<and> taskAt k s' \<and> taskStep s s'"
    by (blast intro: taskStep_trans)
qed

lemma taskValue_move: "taskValue k v \<Longrightarrow> taskMove k v v' \<Longrightarrow> taskValue k v'"
  unfolding taskValue_def taskMove_def by blast

definition taskRecordKey :: "string \<Rightarrow> bool" where
  "taskRecordKey k \<longleftrightarrow> prefix ''mcp-task:'' k"

definition taskIndexKey :: "string \<Rightarrow> bool" where
  "taskIndexKey k \<longleftrightarrow> prefix ''mcp-task-idempotency:'' k"

definition indexValue :: "string \<Rightarrow> bool" where
  "indexValue v \<longleftrightarrow> (\<exists>t f. jsonParse v = Some (indexJson t f) \<and> assertIdentity t ''taskId'' = Inr ())"

lemma indexValue_text: "assertIdentity t ''taskId'' = Inr () \<Longrightarrow> indexValue (jsonText (indexJson t f))"
  unfolding indexValue_def
  by (rule exI [of _ t], rule exI [of _ f], rule conjI, rule jsonParse_jsonText)
    (auto simp: indexJson_def isIndexKey_letter isDigit_def intro!: objectOf_plain)

lemma indexedTaskId_ok:
  "indexValue v \<Longrightarrow> indexedTaskId v f = Inr t \<Longrightarrow> assertIdentity t ''taskId'' = Inr ()"
  by (auto simp: indexValue_def indexedTaskId_def indexJson_def split: if_splits)

lemma taskKey_simps [simp]: "taskRecordKey (taskKey t)" "taskKey t = taskKey u \<longleftrightarrow> t = u"
    "taskIndexKey (idempotencyRecordKey sha o' c k)"
  by (simp_all add: taskRecordKey_def taskKey_def taskIndexKey_def idempotencyRecordKey_def)

section \<open>Contracts of the helpers\<close>

locale task_steps = effect_steps P look N R
  for P :: "'s durable_port" and look :: "'s \<Rightarrow> string \<Rightarrow> DurableRecord option"
    and N :: "string \<Rightarrow> string \<Rightarrow> bool" and R :: "string \<Rightarrow> string \<Rightarrow> string \<Rightarrow> bool" +
  assumes N_task: "taskRecordKey k \<Longrightarrow> N k v \<longleftrightarrow> taskValue k v"
    and R_task: "taskRecordKey k \<Longrightarrow> R k v v' \<longleftrightarrow> taskMove k v v'"
    and N_index: "taskIndexKey k \<Longrightarrow> N k v \<longleftrightarrow> indexValue v"
    and R_index: "taskIndexKey k \<Longrightarrow> R k v v' \<longleftrightarrow> v' = v"
begin

lemma seen_task:
  assumes "seen (taskKey tid) c s" "decodeTaskText (dr_value c) = Inr t"
  shows "taskOk t" "ts_taskId t = tid"
  using seen_N [OF assms(1)] assms(2) by (auto simp: N_task taskValue_def taskAt_def)

lemma keeps_bind_casTask:
  assumes A: "stable A" "\<And>s. A s \<Longrightarrow> seen (taskKey tid) c s"
    and c: "decodeTaskText (dr_value c) = Inr s0" "dr_revision c = n"
    and new: "taskOk s1" "taskStep s0 s1"
    and upd: "\<And>r. decodeTaskText (dr_value r) = Inr s1 \<Longrightarrow>
      keeps (\<lambda>s. A s \<and> seen (taskKey tid) r s) (f (CasUpdated r)) B"
    and con: "\<And>r. keeps (\<lambda>s. A s \<and> seen (taskKey tid) r s) (f (CasConflict r)) B"
  shows "keeps A (bindM (casTask P tid n s1 now) f) B"
  unfolding casTask_def bindM_assoc
proof (rule keeps_bind_pure)
  fix v assume v: "encodeTask s1 = Inr v"
  note d = decode_encode_task [OF new(1) v]
  show "keeps A (bindM (storeCas P (taskKey tid) n
      \<lparr>du_value = v, du_nowMs = now, du_expiresAt = Some (ts_expiresAt s1)\<rparr>) f) B"
  proof (rule keeps_assume)
    fix s assume "A s"
    from seen_task [OF A(2) [OF this] c(1)] show "ts_taskId s0 = tid" by blast
  next
    assume "ts_taskId s0 = tid"
    then have "taskAt (taskKey tid) s1"
      using new by (auto simp: taskAt_def taskStep_def taskIdentity_def)
    then have "R (taskKey tid) (dr_value c) v"
      using new(2) c d by (simp add: R_task taskMove_def)
    then show ?thesis
      using c(2) d
      by (intro keeps_bind_cas [OF A] upd con) (simp_all add: swappedRecord_def)
  qed
qed

lemma keeps_bind_readTask:
  assumes A: "stable A"
    and f: "\<And>c t. decodeTaskText (dr_value c) = Inr t \<Longrightarrow> taskOk t \<Longrightarrow> ts_taskId t = tid \<Longrightarrow>
      isSafeInteger now \<Longrightarrow> assertTaskCaller t caller = Inr () \<Longrightarrow>
      keeps (\<lambda>s. A s \<and> seen (taskKey tid) c s) (f \<lparr>vt_state = t, vt_revision = dr_revision c\<rparr>) B"
  shows "keeps A (bindM (readTask P tid caller now) f) B"
  unfolding readTask_def thenM_def bindM_assoc
proof (intro keeps_bind_pure keeps_bind_get [OF A])
  fix u assume u: "andThen (assertIdentity tid ''taskId'') (validateTaskTime now) = Inr u"
  show "keeps A (bindM (case None of None \<Rightarrow> throwM (taskError ''Unknown or unavailable task'')
     | Some record \<Rightarrow> g record) f) B" for g
    by (simp add: bindM_throw keeps_throw)
  fix c
  show "keeps (\<lambda>s. A s \<and> seen (taskKey tid) c s) (bindM (case Some c of
       None \<Rightarrow> throwM (taskError ''Unknown or unavailable task'')
     | Some record \<Rightarrow> bindM (pureM (decodeTask record)) (\<lambda>current.
         bindM (pureM (andThen (assertTaskCaller (vt_state current) caller)
           (throwIf (jle (ts_expiresAt (vt_state current)) now) (taskError ''Unknown or unavailable task''))))
         (\<lambda>_. returnM current))) f) B"
    unfolding option.case bindM_assoc bindM_return
  proof (intro keeps_bind_pure)
    fix t x assume t: "decodeTask c = Inr t" and x: "andThen (assertTaskCaller (vt_state t) caller)
      (throwIf (jle (ts_expiresAt (vt_state t)) now) (taskError ''Unknown or unavailable task'')) = Inr x"
    then have d: "decodeTaskText (dr_value c) = Inr (vt_state t)" "vt_revision t = dr_revision c"
      by (auto simp: decodeTask_def res_simps)
    show "keeps (\<lambda>s. A s \<and> seen (taskKey tid) c s) (f t) B"
    proof (rule keeps_assume)
      fix s assume "A s \<and> seen (taskKey tid) c s"
      then show "taskOk (vt_state t) \<and> ts_taskId (vt_state t) = tid" using seen_task d(1) by blast
    next
      assume "taskOk (vt_state t) \<and> ts_taskId (vt_state t) = tid"
      moreover have "isSafeInteger now" using u by (auto simp: validateTaskTime_def res_simps)
      moreover have "assertTaskCaller (vt_state t) caller = Inr ()" using x by (simp add: res_simps)
      ultimately show ?thesis using f [OF d(1)] d(2) by (cases t) simp
    qed
  qed
qed

end

end
