(* ===== verification/McpTaskContracts.thy ===== *)
theory McpTaskContracts
  imports McpTaskFacts
begin

text \<open>
  The contract of every method of the task runtime: while the others keep to the moves of
  \<^verbatim>\<open>McpTaskFacts\<close>, the method keeps to them as well. The provider answers with JSON values
  (\<open>providerOk\<close>), and requests carry JSON values.
\<close>

definition outcomeOk :: "AsyncTaskPollOutcome \<Rightarrow> bool" where
  "outcomeOk o' \<longleftrightarrow> (\<forall>ms. po_result o' = Some ms \<longrightarrow> membersOk ms) \<and>
     (\<forall>ms. po_inputRequests o' = Some ms \<longrightarrow> membersOk ms) \<and> billingOk (po_billing o')"

definition providerOk :: "AsyncTaskProviderPort \<Rightarrow> bool" where
  "providerOk p \<longleftrightarrow> (\<forall>n h i x. tp_poll p n h i = Inr x \<longrightarrow> outcomeOk x)"

lemma membersOk_filter: "membersOk ms \<Longrightarrow> membersOk (filter p ms)"
  by (auto simp: membersOk_def list_all_iff objectOf_filter)

lemma membersOk_Nil [simp]: "membersOk []"
  by (simp add: membersOk_def objectOf_def)

lemma isInteger_jadd: "isInteger a \<Longrightarrow> isInteger b \<Longrightarrow> isInteger (jadd a b)"
  by (auto simp: isInteger_iff simp flip: of_int_add)

lemma isSafe_isInteger: "isSafeInteger n \<Longrightarrow> isInteger n"
  by (simp add: isSafeInteger_def)

lemmas task_ok_defs = taskOk_def identitiesOk_def numbersOk_def
lemmas task_step_defs = taskStep_def taskIdentity_def taskOutcome_def taskTerminal_def

lemma failedTask_step:
  assumes "taskOk t" "isInteger now" "\<not> taskTerminal (ts_status t)"
  shows "taskOk (failedTask t now)" "taskStep t (failedTask t now)"
  using assms by (simp_all add: failedTask_def task_ok_defs task_step_defs)

lemma leasedTask_step:
  assumes "taskOk t" "isInteger now"
  shows "taskOk (leasedTask t now)" "taskStep t (leasedTask t now)"
  using assms by (simp_all add: leasedTask_def task_ok_defs task_step_defs isInteger_jadd)

lemma cancelledTask_step:
  assumes "taskOk t" "isInteger now" "\<not> taskTerminal (ts_status t)"
  shows "taskOk (cancelledTask t now)" "taskStep t (cancelledTask t now)"
  using assms by (simp_all add: cancelledTask_def task_ok_defs task_step_defs)

lemma answeredTask_step:
  assumes "taskOk t" "isInteger now" "ts_status t = TaskInputRequired"
  shows "taskOk (answeredTask t keys now)" "taskStep t (answeredTask t keys now)"
  using assms by (simp_all add: answeredTask_def Let_def task_ok_defs task_step_defs membersOk_filter)

lemma polledTask_step:
  assumes "taskOk t" "isInteger now" "\<not> taskTerminal (ts_status t)" "outcomeOk x"
  shows "taskOk (polledTask t x now)" "taskStep t (polledTask t x now)"
  using assms
  by (cases "po_status x"; auto simp: polledTask_def task_ok_defs task_step_defs outcomeOk_def
      membersOk_filter split: option.splits)+

lemma flaggedTask_step:
  assumes "taskOk t" "isInteger now"
  shows "taskOk (t\<lparr>ts_upstreamCancelled := True, ts_updatedAt := now\<rparr>)"
    "taskStep t (t\<lparr>ts_upstreamCancelled := True, ts_updatedAt := now\<rparr>)"
    "taskOk (t\<lparr>ts_callerCancelled := True, ts_updatedAt := now\<rparr>)"
    "taskStep t (t\<lparr>ts_callerCancelled := True, ts_updatedAt := now\<rparr>)"
  using assms by (simp_all add: task_ok_defs task_step_defs)

lemma failedPoll_ok [simp]: "outcomeOk (failedPoll e)"
  by (simp add: outcomeOk_def failedPoll_def billingOk_def)

context task_steps begin

abbreviation safe :: "('s \<Rightarrow> bool) \<Rightarrow> ('s task_world, 'a) action \<Rightarrow> bool" where
  "safe A m \<equiv> keeps A m (\<lambda>_ _. True)"

lemma goesOn_calls [simp]: "goesOn w (w\<lparr>tw_calls := cs\<rparr>)"
  by (auto simp: goesOn_def)

lemma safe_pure: "safe A (pureM r)" by (rule keeps_pure) simp
lemma safe_return: "safe A (returnM x)" by (rule keeps_return) simp

lemma keeps_bind_provider:
  assumes "\<And>n x. g n = Inr x \<Longrightarrow> keeps A (f x) B"
  shows "keeps A (bindM (callProvider c g) f) B"
proof (rule keeps_bind [where B = "\<lambda>x s. A s \<and> (\<exists>n. g n = Inr x)"])
  show "keeps A (callProvider c g) (\<lambda>x s. A s \<and> (\<exists>n. g n = Inr x))"
    by (auto simp: keeps_def callProvider_def)
  show "keeps (\<lambda>s. A s \<and> (\<exists>n. g n = Inr x)) (f x) B" for x
    by (rule keeps_assume [where p = "\<exists>n. g n = Inr x"]) (use assms in \<open>auto elim: keeps_weaken\<close>)
qed

lemma safe_readDetailed: "stable A \<Longrightarrow> safe A (readDetailed P tid caller now)"
  unfolding readDetailed_def by (rule keeps_bind_readTask) (auto intro: safe_pure)

lemma safe_failUncertain:
  assumes A: "stable A" "\<And>s. A s \<Longrightarrow> seen (taskKey (ts_taskId t)) c s"
    and t: "decodeTaskText (dr_value c) = Inr t" "taskOk t" "\<not> taskTerminal (ts_status t)"
    and now: "isInteger now"
  shows "safe A (failUncertain P \<lparr>vt_state = t, vt_revision = dr_revision c\<rparr> caller now h)"
  unfolding failUncertain_def VersionedTask.simps
  using failedTask_step [OF t(2) now t(3)]
  by (intro keeps_bind_casTask [OF A t(1) refl])
    (auto intro!: keeps_bind_pure safe_pure safe_readDetailed A(1))

lemma safe_persist:
  assumes A: "stable A" "\<And>s. A s \<Longrightarrow> seen (taskKey (ts_taskId t)) c s"
    and t: "decodeTaskText (dr_value c) = Inr t" "taskOk t" "\<not> taskTerminal (ts_status t)"
    and now: "isInteger now" and x: "outcomeOk x"
  shows "safe A (persistPollOutcome P \<lparr>vt_state = t, vt_revision = dr_revision c\<rparr> x caller now)"
  unfolding persistPollOutcome_def VersionedTask.simps
  using polledTask_step [OF t(2) now t(3) x]
  by (intro keeps_bind_casTask [OF A t(1) refl])
    (auto intro!: keeps_bind_pure safe_pure safe_readDetailed A(1))

end

context task_steps begin

lemma keeps_poll:
  assumes "providerOk (rt_provider rt)"
  shows "keeps (\<lambda>_. True) (pollProvider rt t) (\<lambda>x _. outcomeOk x)"
  unfolding pollProvider_def Let_def
proof (rule keeps_bind [where B = "\<lambda>_ _. True"])
  show "keeps (\<lambda>_. True) (\<lambda>w. (tp_parseInput (rt_provider rt) (ts_operationInput t), w)) (\<lambda>_ _. True)"
    by (auto simp: keeps_def)
  show "keeps (\<lambda>_. True) (callProvider c (\<lambda>n. tp_poll (rt_provider rt) n h i)) (\<lambda>x _. outcomeOk x)" for c h i
    using assms by (auto simp: keeps_def callProvider_def providerOk_def)
qed

lemma safe_polled:
  assumes p: "providerOk (rt_provider rt)"
    and A: "stable A" "\<And>s. A s \<Longrightarrow> seen (taskKey (ts_taskId t)) c s"
    and t: "decodeTaskText (dr_value c) = Inr t" "taskOk t" "\<not> taskTerminal (ts_status t)"
    and now: "isInteger now"
  shows "safe A (bindM (attemptM (pollProvider rt t)) (\<lambda>polled. case polled of
      Inr outcome \<Rightarrow> persistPollOutcome P \<lparr>vt_state = t, vt_revision = dr_revision c\<rparr> outcome caller now
    | Inl err \<Rightarrow> if aborted then rethrow err else persistPollOutcome P
        \<lparr>vt_state = t, vt_revision = dr_revision c\<rparr> (failedPoll err) caller now))"
proof (rule keeps_bind_attempt [OF keeps_poll [OF p] A(1) TrueI], goal_cases)
  case (1 e)
  show ?case using safe_persist [OF A t now failedPoll_ok] by (auto simp: keeps_def rethrow_def)
next
  case (2 x)
  show ?case
  proof (rule keeps_assume [where p = "outcomeOk x"])
    assume "outcomeOk x"
    then show ?case by simp (rule keeps_weaken [OF safe_persist [OF A t now]], auto)
  qed blast
qed

lemma safe_get:
  assumes p: "providerOk (rt_provider rt)" and A: "stable A"
  shows "safe A (task_get P rt tid caller aborted now)"
  unfolding task_get_def
proof (rule keeps_bind_readTask [OF A], unfold VersionedTask.simps, intro keeps_if safe_pure, goal_cases)
  case (1 c t)
  then have "\<not> taskTerminal (ts_status t)" "isInteger now"
    by (simp_all add: nothingToPoll_def isSafe_isInteger)
  with 1 show ?case by (intro safe_failUncertain) (auto intro!: A)
next
  case (2 c t)
  then have live: "\<not> taskTerminal (ts_status t)" and now: "isInteger now"
    by (simp_all add: nothingToPoll_def isSafe_isInteger)
  note lease = leasedTask_step [OF 2(2) now]
  show ?case
  proof (rule keeps_bind_casTask [where c = c, OF _ _ 2(1) refl lease], goal_cases)
    case (3 r)
    have "\<not> taskTerminal (ts_status (leasedTask t now))" "ts_taskId (leasedTask t now) = tid"
      using live 2 by (simp_all add: leasedTask_def)
    then show ?case
      by (simp, intro keeps_bind_pure, clarsimp simp: decodeTask_def 3)
        (rule safe_polled [OF p _ _ 3 lease(1) _ now], intro stable_intros A, auto)
  qed (auto intro!: A safe_readDetailed stable_intros)
qed

end

context task_steps begin

lemma keeps_ignore: "keeps A m B \<Longrightarrow> safe A m"
  by (rule keeps_weaken [where A' = A and B' = B]) auto

lemma keeps_transition_ignore:
  assumes "stable A" "isInteger now" "st \<noteq> EffectClaimed" "\<And>s. A s \<Longrightarrow> holds i e n s"
  shows "safe A (journal_transition P i n st now receipt)"
  by (rule keeps_ignore [OF keeps_transition [OF assms]])

lemma safe_quiet_transition:
  assumes "stable A" "isInteger now" "st \<noteq> EffectClaimed" "\<And>s. A s \<Longrightarrow> holds i e n s" "safe A m'"
  shows "safe A (catchM (bindM (journal_transition P i n st now receipt) (\<lambda>_. returnM ())) (\<lambda>_. m'))"
  by (rule keeps_catch [OF keeps_bind [OF keeps_transition [OF assms(1-4)]]])
    (auto intro: assms(1,5) safe_return)

lemma safe_updateLoop:
  assumes A: "stable A" "\<And>s. A s \<Longrightarrow> seen (taskKey tid) c s"
    and t: "decodeTaskText (dr_value c) = Inr t" "taskOk t" "ts_status t = TaskInputRequired"
    and now: "isInteger now"
  shows "safe A (updateLoop P sha n tid caller keys op now \<lparr>vt_state = t, vt_revision = dr_revision c\<rparr>)"
  using assms
proof (induction n arbitrary: A c t)
  case (Suc n)
  note step = answeredTask_step [OF Suc.prems(4) Suc.prems(6) Suc.prems(5)]
  show ?case
    unfolding updateLoop.simps VersionedTask.simps
  proof (rule keeps_bind_casTask [OF Suc.prems(1,2,3) refl step], goal_cases)
    case (3 r)
    show ?case unfolding DurableCasResult.case thenM_def
    proof (intro keeps_bind_pure keeps_if safe_return keeps_throw, goal_cases)
      case (1 u x)
      then obtain t' where u: "u = \<lparr>vt_state = t', vt_revision = dr_revision r\<rparr>"
          "decodeTaskText (dr_value r) = Inr t'"
        by (auto simp: decodeTask_def res_simps)
      have st: "ts_status t' = TaskInputRequired" using 1 u by simp
      show ?case unfolding u(1)
      proof (rule keeps_assume [where p = "taskOk t'"])
        fix s assume "(A s \<and> seen (taskKey tid) r s)"
        then show "taskOk t'" using seen_task [OF _ u(2)] by blast
      next
        assume ok: "taskOk t'"
        show "safe (\<lambda>s. A s \<and> seen (taskKey tid) r s) (updateLoop P sha n tid caller keys op now
            \<lparr>vt_state = t', vt_revision = dr_revision r\<rparr>)"
          by (rule Suc.IH [OF _ _ u(2) ok st Suc.prems(6)]) (intro stable_intros Suc.prems(1), blast)
      qed
    qed
  qed (auto intro: safe_return)
qed (simp add: keeps_throw)

lemma safe_sendUpdate:
  assumes A: "stable A" and now: "isInteger now"
  shows "keeps A (sendUpdate P i receipt acc h upd now) (\<lambda>_. A)"
  unfolding sendUpdate_def
proof (rule keeps_bind [OF keeps_claim [OF A now]], goal_cases)
  case (1 x)
  show ?case
  proof (cases x)
    case (ClaimExisting e n)
    then show ?thesis by (auto intro!: keeps_if keeps_throw keeps_return)
  next
    case (ClaimGranted e n)
    let ?i = "\<lparr>ei_jobId = ei_jobId i, ei_effectKind = ei_effectKind i, ei_operationKey = ei_operationKey i\<rparr>"
    have i: "?i = i" by simp
    let ?A = "\<lambda>s. A s \<and> ef_status e = EffectClaimed \<and> holds i e n s"
    have st: "stable ?A" by (intro stable_intros A stable_holds)
    have "keeps ?A (bindM (journal_transition P i n EffectInflight now None) (\<lambda>inflight.
        bindM (catchM (callProvider (CallUpdate h acc) (\<lambda>n. upd n h acc))
          (\<lambda>_. thenM (catchM (bindM (journal_transition P i (snd inflight) EffectUncertain now None)
               (\<lambda>_. returnM ())) (\<lambda>_. returnM ())) (throwM uncertainUpdateError))) (\<lambda>_.
        catchM (bindM (journal_transition P i (snd inflight) EffectSucceeded now (Some receipt))
          (\<lambda>_. returnM ())) (\<lambda>_. throwM uncertainUpdateError)))) (\<lambda>_. A)"
    proof (rule keeps_bind [OF keeps_transition [OF st now]], goal_cases)
      case (3 y)
      let ?B = "\<lambda>s. (A s \<and> ef_status e = EffectClaimed \<and> holds i e n s) \<and>
        ef_status (fst y) = EffectInflight \<and> ef_receipt (fst y) = None \<and> holds i (fst y) (snd y) s"
      have st': "stable ?B" by (intro stable_intros A stable_holds)
      show ?case
      proof (rule keeps_bind [where B = "\<lambda>_. ?B"], rule keeps_catch [OF _ st'], goal_cases)
        case 1 show ?case by (auto simp: keeps_def callProvider_def)
      next
        case (2 e)
        show ?case unfolding thenM_def
          by (rule keeps_bind [where B = "\<lambda>_ _. True"], rule safe_quiet_transition [OF st' now])
            (auto intro: safe_return keeps_throw)
      next
        case (3 u)
        show ?case
          by (rule keeps_catch [OF keeps_bind [OF keeps_transition [OF st' now]] st'])
            (auto intro: keeps_return keeps_throw)
      qed
    qed auto
    then show ?thesis using ClaimGranted by (simp add: i)
  qed
qed

end

context task_steps begin

lemma safe_update:
  assumes A: "stable A"
  shows "safe A (task_update P sha rt tid responses caller now)"
  unfolding task_update_def
proof (rule keeps_bind_readTask [OF A], unfold VersionedTask.simps Let_def, intro keeps_if keeps_throw safe_return,
    goal_cases)
  case (1 c t)
  then have st: "ts_status t = TaskInputRequired" and now: "isInteger now"
    by (simp_all add: isSafe_isInteger)
  have st': "stable (\<lambda>s. A s \<and> seen (taskKey tid) c s)" by (intro stable_intros A)
  show ?case
  proof (cases "tp_update (rt_provider rt)")
    case (Some update)
    then show ?thesis
    proof (cases "ts_providerTaskId t")
      case (Some h)
      have "safe (\<lambda>s. A s \<and> seen (taskKey tid) c s)
          (updateLoop P sha n tid caller keys op now \<lparr>vt_state = t, vt_revision = dr_revision c\<rparr>)"
        for n keys op
        by (rule safe_updateLoop [OF st' _ 1(1,2) st now]) blast
      then show ?thesis
        using Some \<open>tp_update (rt_provider rt) = Some update\<close>
        by (simp, intro keeps_then [OF safe_sendUpdate [OF st' now]])
    qed (simp add: keeps_throw)
  qed (simp add: keeps_throw)
qed

lemma safe_markUpstreamCancelled:
  assumes A: "stable A" shows "safe A (markUpstreamCancelled P n tid caller now)"
  using A
proof (induction n arbitrary: A)
  case (Suc n)
  show ?case
    unfolding markUpstreamCancelled.simps
  proof (rule keeps_bind_readTask [OF Suc.prems], unfold VersionedTask.simps, intro keeps_if safe_return,
      goal_cases)
    case (1 c t)
    note step = flaggedTask_step(1,2) [OF 1(2) isSafe_isInteger [OF 1(4)]]
    show ?case
      by (rule keeps_bind_casTask [where c = c, OF _ _ 1(1) refl step])
        (auto intro!: Suc.IH stable_intros Suc.prems safe_return)
  qed
qed (simp add: keeps_throw)

lemma safe_cancelPublicly:
  assumes A: "stable A"
  shows "keeps A (cancelPublicly P tid caller now) (\<lambda>_ s. A s \<and> isInteger now)"
proof -
  have w: "keeps (\<lambda>s. A s \<and> B s) (cancelWinner r caller) (\<lambda>_ s. A s \<and> isInteger now)"
    if "isInteger now" for r B
    unfolding cancelWinner_def thenM_def by (intro keeps_bind_pure keeps_return) (use that in blast)
  show ?thesis
    unfolding cancelPublicly_def
  proof (rule keeps_bind_readTask [OF A], unfold VersionedTask.simps, intro keeps_if keeps_throw, goal_cases)
    case (1 c t)
    then show ?case by (auto intro!: keeps_return isSafe_isInteger)
  next
    case (2 c t)
    from 2(7) have live: "\<not> taskTerminal (ts_status t)" .
    note now = isSafe_isInteger [OF 2(4)]
    show ?case
      by (rule keeps_bind_casTask [where c = c, OF _ _ 2(1) refl cancelledTask_step [OF 2(2) now live]])
        (auto intro!: stable_intros A w [OF now] simp: conj_assoc)
  qed
qed

lemma cancelIdentity_sel [simp]:
  "ei_jobId (cancelIdentity t) = t" "ei_effectKind (cancelIdentity t) = ProviderTaskCancel"
  "ei_operationKey (cancelIdentity t) = ''cancel''"
  by (simp_all add: cancelIdentity_def)

lemma keeps_claimCancel:
  assumes A: "stable A" and now: "isInteger now"
  shows "keeps A (claimCancel P tid now)
    (\<lambda>x s. A s \<and> (\<forall>n. x = CancelClaimed n \<longrightarrow> (\<exists>e. holds (cancelIdentity tid) e n s)))"
  unfolding claimCancel_def
proof (rule keeps_bind [OF keeps_claim [OF A now]], goal_cases)
  case (1 x)
  show ?case
  proof (cases x)
    case (ClaimGranted e n)
    then show ?thesis by (auto intro!: keeps_return simp: cancelIdentity_def)
  next
    case (ClaimExisting e n)
    have "keeps A (bindM (journal_retry P (cancelIdentity tid) n now) (\<lambda>retried. case retried of
        RetryBlocked _ _ \<Rightarrow> returnM CancelElsewhere | RetryClaimed _ m \<Rightarrow> returnM (CancelClaimed m)))
      (\<lambda>x s. A s \<and> (\<forall>n. x = CancelClaimed n \<longrightarrow> (\<exists>e. holds (cancelIdentity tid) e n s)))"
      by (rule keeps_bind [OF keeps_retry [OF A now]])
        (auto intro!: keeps_return split: EffectRetryResult.split)
    with ClaimExisting show ?thesis
      by (cases "ef_status e") (auto intro!: keeps_return elim: keeps_weaken)
  qed
qed

lemma safe_askCancel:
  assumes A: "stable A" and now: "isInteger now" and h: "\<And>s. A s \<Longrightarrow> holds (cancelIdentity tid) e n s"
  shows "safe A (askCancel P tid handle cancel caller n now)"
  unfolding askCancel_def
proof (rule keeps_bind_quietly [OF keeps_transition [OF A now] A], goal_cases)
  case (5 y)
  obtain e' m where y: "y = (e', m)" by (cases y)
  let ?A = "\<lambda>s. A s \<and> A s \<and> ef_status (fst (e', m)) = EffectInflight \<and>
    ef_receipt (fst (e', m)) = None \<and> holds (cancelIdentity tid) (fst (e', m)) (snd (e', m)) s"
  have st: "stable ?A" by (intro stable_intros A stable_holds)
  note t = keeps_transition [OF st now, of _ "cancelIdentity tid" e' m]
  show ?case
    unfolding option.case y prod.case
  proof (rule keeps_bind [where B = "\<lambda>_. ?A"], rule keeps_catch [OF _ st], goal_cases)
    case 1
    show ?case by (auto simp: keeps_def callProvider_def y)
  next
    case (3 ack)
    show ?case
    proof (cases ack)
      case None
      show ?thesis unfolding None option.case
        by (rule keeps_bind_quietly [OF t st]) (auto intro: safe_return simp: y)
    next
      case (Some a)
      show ?thesis unfolding Some option.case
        by (rule keeps_bind_quietly [OF t st])
          (auto intro!: safe_return safe_markUpstreamCancelled stable_intros A stable_holds simp: y)
    qed
  qed (auto intro: keeps_return simp: y)
qed (use h in \<open>auto intro: safe_return\<close>)

lemma safe_cancel:
  assumes A: "stable A" shows "safe A (task_cancel P rt tid caller now)"
  unfolding task_cancel_def
proof (rule keeps_bind [OF safe_cancelPublicly [OF A]], rule keeps_assume [where p = "isInteger now"], blast,
    goal_cases)
  case (1 x)
  let ?A = "\<lambda>s. A s \<and> isInteger now"
  have st: "stable ?A" by (intro stable_intros A)
  have "safe ?A (bindM (claimCancel P tid now) (\<lambda>claim. case claim of
      CancelElsewhere \<Rightarrow> returnM ()
    | CancelAcknowledged \<Rightarrow> markUpstreamCancelled P 4 tid caller now
    | CancelClaimed n \<Rightarrow> askCancel P tid h cancel caller n now))" for h cancel
  proof (rule keeps_bind [OF keeps_claimCancel [OF st 1]], goal_cases)
    case (1 claim)
    show ?case
    proof (cases claim)
      case (CancelClaimed n)
      let ?H = "\<lambda>s. \<exists>e. ?A s \<and> holds (cancelIdentity tid) e n s"
      have "safe ?H (askCancel P tid h cancel caller n now)"
        by (rule keeps_ex, rule safe_askCancel) (auto intro!: stable_intros A stable_holds \<open>isInteger now\<close>)
      then show ?thesis unfolding CancelClaimed CancelClaim.case
        by (rule keeps_weaken) auto
    next
      case CancelAcknowledged
      then show ?thesis
        by (simp, intro keeps_weaken [OF safe_markUpstreamCancelled [OF st]]) auto
    qed (simp add: safe_return)
  qed
  then show ?case
    by (auto intro: safe_return split: option.split)
qed

lemma safe_stopWaiting:
  assumes A: "stable A" shows "safe A (task_stopWaiting P tid caller now)"
  unfolding task_stopWaiting_def
proof (rule keeps_bind_readTask [OF A], unfold VersionedTask.simps, intro keeps_if safe_return, goal_cases)
  case (1 c t)
  show ?case
    by (rule keeps_bind_casTask [where c = c, OF _ _ 1(1) refl flaggedTask_step(3,4) [OF 1(2) isSafe_isInteger [OF 1(4)]]])
      (auto intro!: stable_intros A safe_return)
qed

lemma safe_describe:
  assumes p: "providerOk (rt_provider rt)" and A: "stable A"
  shows "safe A (task_describe P rt tid caller aborted now)"
  unfolding task_describe_def
  by (rule keeps_bind_call [OF safe_get [OF p A] A], assumption, rule keeps_bind_readTask)
    (auto intro!: safe_return stable_intros A)

end

lemma initialTask_ok:
  assumes "startGuards caller options ttl now = Inr ()" "assertIdentity t ''taskId'' = Inr ()"
    and "jsonOk input" "isInteger (rt_pollIntervalMs rt)"
  shows "taskOk (initialTask rt t input caller key now ttl)"
  using assms by (auto simp: initialTask_def task_ok_defs startGuards_def res_simps validateTaskTime_def
      isSafe_isInteger isInteger_jadd billingOk_def)

lemma workingTask_step:
  assumes "taskOk t" "isInteger now" "ts_status t = TaskCreating" "ts_providerTaskId t = None"
  shows "taskOk (t\<lparr>ts_providerTaskId := Some h, ts_status := TaskWorking, ts_updatedAt := now, ts_nextPollAt := now\<rparr>)"
    "taskStep t (t\<lparr>ts_providerTaskId := Some h, ts_status := TaskWorking, ts_updatedAt := now, ts_nextPollAt := now\<rparr>)"
  using assms by (simp_all add: task_ok_defs task_step_defs)

context task_steps begin

text \<open>A task that was read: its record has been seen and the state is what the record holds.\<close>

definition hasTask :: "string \<Rightarrow> VersionedTask \<Rightarrow> 's \<Rightarrow> bool" where
  "hasTask tid v s \<longleftrightarrow> (\<exists>c. seen (taskKey tid) c s \<and> decodeTask c = Inr v) \<and>
     taskOk (vt_state v) \<and> ts_taskId (vt_state v) = tid"

lemma stable_hasTask: "stable (hasTask tid v)"
  unfolding stable_def hasTask_def by (blast intro: seen_evolves)

lemma hasTaskI:
  "seen (taskKey tid) c s \<Longrightarrow> decodeTask c = Inr v \<Longrightarrow> hasTask tid v s"
  using seen_task [of tid c s "vt_state v"] by (auto simp: hasTask_def decodeTask_def res_simps)

lemma safe_failUncertain':
  assumes A: "stable A" "\<And>s. A s \<Longrightarrow> hasTask tid v s" and v: "\<not> taskTerminal (ts_status (vt_state v))"
    and now: "isInteger now"
  shows "safe A (failUncertain P v caller now h)"
proof (rule keeps_weaken [where A' = "\<lambda>s. \<exists>c. A s \<and> seen (taskKey tid) c s \<and>
    (decodeTask c = Inr v \<and> taskOk (vt_state v) \<and> ts_taskId (vt_state v) = tid)"])
  show "safe (\<lambda>s. \<exists>c. A s \<and> seen (taskKey tid) c s \<and>
    (decodeTask c = Inr v \<and> taskOk (vt_state v) \<and> ts_taskId (vt_state v) = tid)) (failUncertain P v caller now h)"
  proof (rule keeps_ex, rule keeps_assume)
    fix c assume c: "decodeTask c = Inr v \<and> taskOk (vt_state v) \<and> ts_taskId (vt_state v) = tid"
    then have eq: "\<lparr>vt_state = vt_state v, vt_revision = dr_revision c\<rparr> = v"
      and d: "decodeTaskText (dr_value c) = Inr (vt_state v)" and ok: "taskOk (vt_state v)"
      by (auto simp: decodeTask_def res_simps)
    have "safe (\<lambda>s. A s \<and> seen (taskKey tid) c s \<and>
        (decodeTask c = Inr v \<and> taskOk (vt_state v) \<and> ts_taskId (vt_state v) = tid))
        (failUncertain P \<lparr>vt_state = vt_state v, vt_revision = dr_revision c\<rparr> caller now h)"
      by (rule safe_failUncertain [OF _ _ d ok v now], intro stable_intros A(1)) (use c in simp)
    then show "safe (\<lambda>s. A s \<and> seen (taskKey tid) c s \<and>
        (decodeTask c = Inr v \<and> taskOk (vt_state v) \<and> ts_taskId (vt_state v) = tid)) (failUncertain P v caller now h)"
      unfolding eq .
  qed blast
qed (use A in \<open>auto simp: hasTask_def\<close>)

lemma keeps_startProvider:
  assumes A: "stable A" "\<And>s. A s \<Longrightarrow> seen (taskKey tid) c s"
    and t: "decodeTaskText (dr_value c) = Inr t" "taskOk t" "ts_status t = TaskCreating" "ts_providerTaskId t = None"
    and now: "isInteger now"
  shows "keeps A (startProvider P rt tid input \<lparr>vt_state = t, vt_revision = dr_revision c\<rparr> now)
    (\<lambda>v s. hasTask tid v s \<and> ts_status (vt_state v) = TaskWorking)"
  unfolding startProvider_def VersionedTask.simps
proof (rule keeps_bind_provider)
  fix h
  show "keeps A (bindM (casTask P tid (dr_revision c) (t\<lparr>ts_providerTaskId := Some h, ts_status := TaskWorking,
      ts_updatedAt := now, ts_nextPollAt := now\<rparr>) now) (\<lambda>saved. case saved of
        CasUpdated r \<Rightarrow> pureM (decodeTask r)
      | _ \<Rightarrow> throwM (taskError ''Provider task creation outcome is uncertain'')))
    (\<lambda>v s. hasTask tid v s \<and> ts_status (vt_state v) = TaskWorking)"
    by (rule keeps_bind_casTask [OF A t(1) refl workingTask_step [OF t(2) now t(3,4)]])
      (auto intro!: keeps_pure keeps_throw intro: hasTaskI simp: decodeTask_def)
qed

end

context task_steps begin

lemma createIdentity_eq:
  "createIdentity t = \<lparr>ei_jobId = t, ei_effectKind = ProviderTaskCreate, ei_operationKey = ''initial''\<rparr>"
  by (simp add: createIdentity_def)

lemma safe_failedStart:
  assumes A: "stable A" "\<And>s. A s \<Longrightarrow> hasTask tid v s" "\<And>s. A s \<Longrightarrow> holds (createIdentity tid) e n s"
    and v: "\<not> taskTerminal (ts_status (vt_state v))" and now: "isInteger now"
  shows "safe A (thenM (markEffectUncertain P tid n now) (failUncertain P v caller now True))"
proof (rule keeps_then)
  show "keeps A (markEffectUncertain P tid n now) (\<lambda>_. A)"
    unfolding markEffectUncertain_def
    by (rule keeps_catch [OF keeps_bind [OF keeps_transition [OF A(1) now]] A(1)])
      (auto intro!: keeps_return A(3))
qed (rule safe_failUncertain' [OF A(1,2) v now])

lemma safe_startEffect:
  assumes A: "stable A" "\<And>s. A s \<Longrightarrow> seen (taskKey tid) c s"
    and t: "decodeTaskText (dr_value c) = Inr t" "taskOk t" "ts_taskId t = tid" "ts_status t = TaskCreating"
      "ts_providerTaskId t = None"
    and now: "isInteger now"
  shows "safe A (startEffect P rt tid input caller \<lparr>vt_state = t, vt_revision = dr_revision c\<rparr> now)"
  unfolding startEffect_def
proof (rule keeps_bind [OF keeps_claim [OF A(1) now]], goal_cases)
  case (1 claim)
  let ?v = "\<lparr>vt_state = t, vt_revision = dr_revision c\<rparr>"
  have has: "hasTask tid ?v s" if "A s" for s
    using hasTaskI [OF A(2) [OF that], of ?v] t(1) by (simp add: decodeTask_def)
  have live: "\<not> taskTerminal (ts_status (vt_state ?v))" using t by (simp add: taskTerminal_def)
  show ?case
  proof (cases claim)
    case (ClaimExisting e n)
    show ?thesis unfolding ClaimExisting EffectClaimResult.case
      by (rule safe_failUncertain' [OF _ _ live now], intro stable_intros A(1) stable_holds) (use has in blast)
  next
    case (ClaimGranted e n)
    let ?i = "createIdentity tid"
    let ?A = "\<lambda>s. A s \<and> ef_status e = EffectClaimed \<and> holds ?i e n s"
    have st: "stable ?A" by (intro stable_intros A(1) stable_holds)
    show ?thesis
      unfolding ClaimGranted EffectClaimResult.case startClaimed_def createIdentity_eq [symmetric] Let_def
    proof (rule keeps_bind [OF keeps_transition [OF st now]], goal_cases)
      case (3 y)
      let ?B = "\<lambda>s. (A s \<and> ef_status e = EffectClaimed \<and> holds ?i e n s) \<and> ef_status (fst y) = EffectInflight \<and>
        ef_receipt (fst y) = None \<and> holds ?i (fst y) (snd y) s"
      have st': "stable ?B" by (intro stable_intros A(1) stable_holds)
      have sp: "keeps ?B (startProvider P rt tid input ?v now)
          (\<lambda>v s. hasTask tid v s \<and> ts_status (vt_state v) = TaskWorking)"
        by (rule keeps_startProvider [OF st' _ t(1,2,4,5) now]) (use A(2) in blast)
      show ?case
      proof (rule keeps_bind_attempt [OF sp st'], assumption, goal_cases)
        case (1 err)
        show ?case unfolding sum.case
          by (rule safe_failedStart [OF st' _ _ live now]) (use has in blast)+
      next
        case (2 v)
        let ?C = "\<lambda>s. ?B s \<and> hasTask tid v s \<and> ts_status (vt_state v) = TaskWorking"
        have stC: "stable ?C" by (intro stable_intros A(1) stable_holds stable_hasTask)
        show ?case unfolding sum.case
        proof (rule keeps_catch [OF keeps_bind [OF keeps_transition [OF stC now]] stC], goal_cases)
          case (4 e)
          show ?case
          proof (rule keeps_assume [where p = "ts_status (vt_state v) = TaskWorking"])
            assume "ts_status (vt_state v) = TaskWorking"
            then have live': "\<not> taskTerminal (ts_status (vt_state v))" by (simp add: taskTerminal_def)
            show "safe ?C (thenM (markEffectUncertain P tid (snd y) now) (failUncertain P v caller now True))"
              by (rule safe_failedStart [OF stC _ _ live' now]) blast+
          qed blast
        qed (auto intro: safe_pure)
      qed
    qed auto
  qed
qed

lemma keeps_resolveTaskId:
  assumes A: "stable A" and id: "assertIdentity newId ''taskId'' = Inr ()"
  shows "keeps A (resolveTaskId P sha newId input caller key now ttl)
    (\<lambda>t s. A s \<and> assertIdentity t ''taskId'' = Inr ())"
proof (cases key)
  case None
  with id show ?thesis by (auto simp: resolveTaskId_def intro: keeps_return)
next
  case (Some k)
  show ?thesis
    unfolding resolveTaskId_def Some option.case
  proof (intro keeps_bind_pure keeps_bind_create [OF A], goal_cases)
    case (1 f)
    show ?case using id by (simp add: N_index indexValue_text)
  next
    case (2 f)
    then show ?case
      using indexedTaskId_ok [OF indexValue_text [OF id]]
      by (auto intro!: keeps_pure simp: newRecord_def)
  next
    case (3 f r)
    then show ?case
      by (auto intro!: keeps_pure simp: N_index dest!: seen_N intro: indexedTaskId_ok)
  qed
qed

lemma safe_start:
  assumes A: "stable A" and id: "assertIdentity (''ajob-'' @ uuid) ''taskId'' = Inr ()"
    and input: "jsonOk input" and rt: "isInteger (rt_pollIntervalMs rt)"
  shows "safe A (task_start P sha rt uuid input caller options now)"
  unfolding task_start_def Let_def
proof (rule keeps_then_pure, rule keeps_bind [OF keeps_resolveTaskId [OF A id]],
    rule keeps_assume [where p = "assertIdentity _ ''taskId'' = Inr ()"], blast, rule keeps_bind_pure, goal_cases)
  case (1 tid v)
  let ?ttl = "case so_ttlMs options of None \<Rightarrow> DEFAULT_MCP_TASK_TTL_MS | Some t \<Rightarrow> t"
  let ?t = "initialTask rt tid input caller (so_idempotencyKey options) now ?ttl"
  let ?i = "\<lparr>nd_key = taskKey tid, nd_value = v, nd_nowMs = now, nd_expiresAt = Some (jadd now ?ttl)\<rparr>"
  let ?A = "\<lambda>s. A s \<and> assertIdentity tid ''taskId'' = Inr ()"
  have now: "isInteger now"
    using 1(1) by (simp add: startGuards_def res_simps validateTaskTime_def isSafe_isInteger)
  note ok = initialTask_ok [OF 1(1) 1(2) input rt]
  note dec = decode_encode_task [OF ok 1(3)]
  have tid: "ts_taskId ?t = tid" "ts_status ?t = TaskCreating" "ts_providerTaskId ?t = None"
    by (simp_all add: initialTask_def)
  have st: "stable ?A" by (intro stable_intros A)
  show ?case
  proof (rule keeps_bind_create [OF st], goal_cases)
    case 1
    show ?case using dec ok tid by (auto simp: N_task taskValue_def taskAt_def)
  next
    case 2
    have d: "decodeTask (newRecord ?i) = Inr \<lparr>vt_state = ?t, vt_revision = dr_revision (newRecord ?i)\<rparr>"
      and d': "decodeTaskText (dr_value (newRecord ?i)) = Inr ?t"
      using dec by (simp_all add: decodeTask_def newRecord_def)
    show ?case unfolding DurableCreateResult.case
    proof (intro keeps_bind_pure keeps_then_pure, goal_cases)
      case (1 cur)
      then have cur: "cur = \<lparr>vt_state = ?t, vt_revision = dr_revision (newRecord ?i)\<rparr>" using d by simp
      show ?case unfolding cur
        by (rule safe_startEffect [OF _ _ d' ok tid now], intro stable_intros A) simp
    qed
  next
    case (3 r)
    show ?case unfolding DurableCreateResult.case
    proof (intro keeps_bind_pure keeps_then_pure keeps_if safe_pure, goal_cases)
      case (1 cur)
      show ?case
        by (rule safe_failUncertain' [where tid = tid, OF _ _ _ now], intro stable_intros A)
          (use 1 in \<open>auto intro: hasTaskI simp: taskTerminal_def\<close>)
    qed
  qed
qed

end

end
