(* ===== verification/DocumentJobs.thy ===== *)
theory DocumentJobs
  imports DurableEffects AsyncManager
begin

text \<open>
  \<^verbatim>\<open>src/core/durable-document-jobs.ts\<close>: the repository of asynchronous document jobs over the durable
  store. Reading a job that is past its expiry materialises the expiry with a compare-and-swap, and
  starts over for as long as others interfere: the read is a partial function, and a method that
  uses it may not return. \<open>sha256\<close> is the hexadecimal digest.
\<close>

section \<open>Jobs\<close>

definition MAX_DOCUMENT_JOB_IDENTITY_CHARS :: nat where
  "MAX_DOCUMENT_JOB_IDENTITY_CHARS = 256"

definition MAX_DOCUMENT_JOB_FINGERPRINT_CHARS :: nat where
  "MAX_DOCUMENT_JOB_FINGERPRINT_CHARS = 512"

definition MAX_DOCUMENT_JOB_ERROR_CHARS :: nat where
  "MAX_DOCUMENT_JOB_ERROR_CHARS = 500"

datatype DurableDocumentJobStatus =
  JobCreated | JobPending | JobRunning | JobCompleted | JobFailed | JobCancelled | JobExpired

fun jobStatusName :: "DurableDocumentJobStatus \<Rightarrow> string" where
  "jobStatusName JobCreated = ''created''"
| "jobStatusName JobPending = ''pending''"
| "jobStatusName JobRunning = ''running''"
| "jobStatusName JobCompleted = ''completed''"
| "jobStatusName JobFailed = ''failed''"
| "jobStatusName JobCancelled = ''cancelled''"
| "jobStatusName JobExpired = ''expired''"

definition jobStatuses :: "DurableDocumentJobStatus list" where
  "jobStatuses = [JobCreated, JobPending, JobRunning, JobCompleted, JobFailed, JobCancelled, JobExpired]"

definition jobTerminal :: "DurableDocumentJobStatus \<Rightarrow> bool" where
  "jobTerminal s \<longleftrightarrow> s \<in> {JobCompleted, JobFailed, JobCancelled, JobExpired}"

fun jobOrder :: "DurableDocumentJobStatus \<Rightarrow> nat" where
  "jobOrder JobCreated = 0"
| "jobOrder JobPending = 1"
| "jobOrder JobRunning = 2"
| "jobOrder _ = 3"

record DurableDocumentJob =
  dj_jobId :: string
  dj_ownerId :: string
  dj_credentialBinding :: string
  dj_idempotencyKey :: string
  dj_requestFingerprint :: string
  dj_status :: DurableDocumentJobStatus
  dj_createdAt :: jsnum
  dj_updatedAt :: jsnum
  dj_expiresAt :: jsnum
  dj_resultArtifactRef :: "string option"
  dj_sanitizedError :: "string option"

record VersionedDocumentJob =
  vj_job :: DurableDocumentJob
  vj_revision :: int

record CreateDocumentJobInput =
  cd_ownerId :: string
  cd_credentialBinding :: string
  cd_idempotencyKey :: string
  cd_requestFingerprint :: string
  cd_nowMs :: jsnum
  cd_expiresAt :: jsnum

datatype CreateJobResult = JobWasCreated VersionedDocumentJob | JobWasReused VersionedDocumentJob

text \<open>A patch names a field or not (\<open>Object.hasOwn\<close>); a named field may be \<open>null\<close>.\<close>

record JobPatch =
  jp_resultArtifactRef :: "string option option"
  jp_sanitizedError :: "string option option"

datatype JobTransitionResult = JobUpdated VersionedDocumentJob | JobConflict VersionedDocumentJob

datatype BeginEffectResult =
    EffectExecute DurableEffect int
  | EffectReplay DurableEffect int string
  | EffectBlocked DurableEffect int DurableEffectStatus

definition jobError :: "string \<Rightarrow> exn" where
  "jobError message = glError INVALID_INPUT ''durable-document-job'' message"

definition assertBounded :: "string \<Rightarrow> string \<Rightarrow> nat \<Rightarrow> unit res" where
  "assertBounded value field limit =
     throwIf (value = [] \<or> length value > limit)
       (jobError (field @ '' must be non-empty within '' @ showNat limit @ '' characters''))"

definition assertTimestamp :: "jsnum \<Rightarrow> string \<Rightarrow> unit res" where
  "assertTimestamp value field =
     throwIf (\<not> isSafeInteger value \<or> jlt value (jint 0))
       (jobError (field @ '' must be a non-negative safe integer timestamp''))"

definition jobIdFor :: "(string \<Rightarrow> string) \<Rightarrow> string \<Rightarrow> string \<Rightarrow> string" where
  "jobIdFor sha256 ownerId idempotencyKey =
     ''djob-'' @ take 32 (sha256 (ownerId @ [CHR 0x00] @ idempotencyKey))"

definition jobKey :: "string \<Rightarrow> string" where
  "jobKey jobId = ''document-job:'' @ jobId"

definition jobJson :: "DurableDocumentJob \<Rightarrow> js_value" where
  "jobJson j = JObject
     [(''schemaVersion'', JString ''1''), (''jobId'', JString (dj_jobId j)),
      (''ownerId'', JString (dj_ownerId j)), (''credentialBinding'', JString (dj_credentialBinding j)),
      (''idempotencyKey'', JString (dj_idempotencyKey j)),
      (''requestFingerprint'', JString (dj_requestFingerprint j)),
      (''status'', JString (jobStatusName (dj_status j))), (''createdAt'', JNumber (dj_createdAt j)),
      (''updatedAt'', JNumber (dj_updatedAt j)), (''expiresAt'', JNumber (dj_expiresAt j)),
      (''resultArtifactRef'', nullable (dj_resultArtifactRef j)),
      (''sanitizedError'', nullable (dj_sanitizedError j))]"

definition encodeJob :: "DurableDocumentJob \<Rightarrow> string" where
  "encodeJob j = jsonText (jobJson j)"

definition jobOfJson :: "js_value \<Rightarrow> DurableDocumentJob option" where
  "jobOfJson v =
     (case ((asString (propOf ''schemaVersion'' v), asString (propOf ''jobId'' v), asString (propOf ''ownerId'' v),
             asString (propOf ''credentialBinding'' v), asString (propOf ''idempotencyKey'' v),
             asString (propOf ''requestFingerprint'' v)),
            (named jobStatusName jobStatuses (propOf ''status'' v), asNumber (propOf ''createdAt'' v),
             asNumber (propOf ''updatedAt'' v), asNumber (propOf ''expiresAt'' v),
             asNullableString (propOf ''resultArtifactRef'' v), asNullableString (propOf ''sanitizedError'' v))) of
        ((Some version, Some jobId, Some ownerId, Some binding, Some key, Some fingerprint),
         (Some status, Some createdAt, Some updatedAt, Some expiresAt, Some ref, Some err)) \<Rightarrow>
          if version = ''1''
          then Some \<lparr>dj_jobId = jobId, dj_ownerId = ownerId, dj_credentialBinding = binding,
                 dj_idempotencyKey = key, dj_requestFingerprint = fingerprint, dj_status = status,
                 dj_createdAt = createdAt, dj_updatedAt = updatedAt, dj_expiresAt = expiresAt,
                 dj_resultArtifactRef = ref, dj_sanitizedError = err\<rparr>
          else None
      | _ \<Rightarrow> None)"

definition checkJob :: "DurableDocumentJob \<Rightarrow> unit res" where
  "checkJob j =
     andThen (assertBounded (dj_jobId j) ''jobId'' MAX_DOCUMENT_JOB_IDENTITY_CHARS)
     (andThen (assertBounded (dj_ownerId j) ''ownerId'' MAX_DOCUMENT_JOB_IDENTITY_CHARS)
     (andThen (assertBounded (dj_credentialBinding j) ''credentialBinding'' MAX_DOCUMENT_JOB_IDENTITY_CHARS)
     (andThen (assertBounded (dj_idempotencyKey j) ''idempotencyKey'' MAX_DOCUMENT_JOB_IDENTITY_CHARS)
     (andThen (assertBounded (dj_requestFingerprint j) ''requestFingerprint'' MAX_DOCUMENT_JOB_FINGERPRINT_CHARS)
     (andThen (assertTimestamp (dj_createdAt j) ''createdAt'')
     (andThen (assertTimestamp (dj_updatedAt j) ''updatedAt'')
     (assertTimestamp (dj_expiresAt j) ''expiresAt'')))))))"

definition decodeJobText :: "string \<Rightarrow> DurableDocumentJob res" where
  "decodeJobText value =
     (case Option.bind (jsonParse value) jobOfJson of
        None \<Rightarrow> Inl (jobError ''Durable document job record is malformed'')
      | Some j \<Rightarrow> andThen (checkJob j) (Inr j))"

definition decodeJob :: "DurableRecord \<Rightarrow> VersionedDocumentJob res" where
  "decodeJob r = bindE (decodeJobText (dr_value r)) (\<lambda>j. Inr \<lparr>vj_job = j, vj_revision = dr_revision r\<rparr>)"

definition assertJobCaller :: "DurableDocumentJob \<Rightarrow> JobCaller \<Rightarrow> unit res" where
  "assertJobCaller j caller =
     andThen (throwIf (dj_ownerId j \<noteq> ca_ownerId caller)
       (jobError ''Owner mismatch: caller does not own this document job''))
     (throwIf (dj_credentialBinding j \<noteq> ca_credentialBinding caller)
       (jobError ''Credential binding mismatch for this document job''))"

definition assertTransition :: "DurableDocumentJobStatus \<Rightarrow> DurableDocumentJobStatus \<Rightarrow> unit res" where
  "assertTransition s t =
     (if s = t then Inl (jobError (''Document job is already '' @ quoted (jobStatusName s)))
      else if jobTerminal s
      then Inl (jobError (''Cannot transition from terminal document job status '' @ quoted (jobStatusName s)))
      else if jobOrder t < jobOrder s
      then Inl (jobError (''Non-monotonic document job transition '' @ quoted (jobStatusName s) @ '' -> '' @
        quoted (jobStatusName t)))
      else Inr ())"

section \<open>Creating (createIfAbsent)\<close>

definition createJobGuards :: "CreateDocumentJobInput \<Rightarrow> unit res" where
  "createJobGuards i =
     andThen (assertBounded (cd_ownerId i) ''ownerId'' MAX_DOCUMENT_JOB_IDENTITY_CHARS)
     (andThen (assertBounded (cd_credentialBinding i) ''credentialBinding'' MAX_DOCUMENT_JOB_IDENTITY_CHARS)
     (andThen (assertBounded (cd_idempotencyKey i) ''idempotencyKey'' MAX_DOCUMENT_JOB_IDENTITY_CHARS)
     (andThen (assertBounded (cd_requestFingerprint i) ''requestFingerprint'' MAX_DOCUMENT_JOB_FINGERPRINT_CHARS)
     (andThen (assertTimestamp (cd_nowMs i) ''nowMs'')
     (andThen (assertTimestamp (cd_expiresAt i) ''expiresAt'')
     (throwIf (jle (cd_expiresAt i) (cd_nowMs i)) (jobError ''expiresAt must be later than nowMs'')))))))"

definition newJob :: "(string \<Rightarrow> string) \<Rightarrow> CreateDocumentJobInput \<Rightarrow> DurableDocumentJob" where
  "newJob sha256 i =
     \<lparr>dj_jobId = jobIdFor sha256 (cd_ownerId i) (cd_idempotencyKey i), dj_ownerId = cd_ownerId i,
      dj_credentialBinding = cd_credentialBinding i, dj_idempotencyKey = cd_idempotencyKey i,
      dj_requestFingerprint = cd_requestFingerprint i, dj_status = JobCreated,
      dj_createdAt = cd_nowMs i, dj_updatedAt = cd_nowMs i, dj_expiresAt = cd_expiresAt i,
      dj_resultArtifactRef = None, dj_sanitizedError = None\<rparr>"

definition job_createIfAbsent :: "'s durable_port \<Rightarrow> (string \<Rightarrow> string) \<Rightarrow> CreateDocumentJobInput \<Rightarrow>
    (('s, 'x) dworld_scheme, CreateJobResult) action" where
  "job_createIfAbsent P sha256 i =
     thenM (pureM (createJobGuards i))
     (let job = newJob sha256 i in
      bindM (storeCreate P \<lparr>nd_key = jobKey (dj_jobId job), nd_value = encodeJob job,
               nd_nowMs = cd_nowMs i, nd_expiresAt = Some (cd_expiresAt i)\<rparr>) (\<lambda>result.
        case result of
          DurableCreated r \<Rightarrow> bindM (pureM (decodeJob r)) (\<lambda>v. returnM (JobWasCreated v))
        | DurableExists r \<Rightarrow>
            bindM (pureM (decodeJob r)) (\<lambda>v.
            thenM (pureM (andThen
              (assertJobCaller (vj_job v)
                \<lparr>ca_ownerId = cd_ownerId i, ca_credentialBinding = cd_credentialBinding i\<rparr>)
              (throwIf (dj_idempotencyKey (vj_job v) \<noteq> cd_idempotencyKey i \<or>
                  dj_requestFingerprint (vj_job v) \<noteq> cd_requestFingerprint i)
                (jobError ''Idempotency key is already bound to a different document request''))))
            (returnM (JobWasReused v)))))"

section \<open>Methods that may not return\<close>

type_synonym ('w, 'a) pmethod = "'w \<Rightarrow> ('a tres \<times> 'w) option"

definition bindP :: "('w, 'a) pmethod \<Rightarrow> ('a \<Rightarrow> ('w, 'b) pmethod) \<Rightarrow> ('w, 'b) pmethod" where
  "bindP m f w = (case m w of
     None \<Rightarrow> None
   | Some (Inl e, w') \<Rightarrow> Some (Inl e, w')
   | Some (Inr x, w') \<Rightarrow> f x w')"

definition returningM :: "('w, 'a) action \<Rightarrow> ('w, 'a) pmethod" where
  "returningM m w = Some (m w)"

section \<open>Reading (get, resume, revokeSource)\<close>

definition expiredJob :: "DurableDocumentJob \<Rightarrow> jsnum \<Rightarrow> DurableDocumentJob" where
  "expiredJob j nowMs = j\<lparr>dj_status := JobExpired, dj_updatedAt := nowMs\<rparr>"

text \<open>One round of the loop of \<open>get\<close>; \<open>None\<close> starts it over.\<close>

definition job_getRound :: "'s durable_port \<Rightarrow> string \<Rightarrow> JobCaller \<Rightarrow> jsnum \<Rightarrow>
    (('s, 'x) dworld_scheme, VersionedDocumentJob option) action" where
  "job_getRound P jobId caller nowMs =
     bindM (storeGet P (jobKey jobId)) (\<lambda>found.
       case found of None \<Rightarrow> throwM (jobError ''Unknown durable document job'')
       | Some record \<Rightarrow>
           bindM (pureM (decodeJob record)) (\<lambda>current.
           thenM (pureM (assertJobCaller (vj_job current) caller))
           (if jlt nowMs (dj_expiresAt (vj_job current)) \<or> dj_status (vj_job current) = JobExpired \<or>
              dj_status (vj_job current) = JobCancelled
            then returnM (Some current)
            else
              bindM (storeCas P (jobKey jobId) (vj_revision current)
                  \<lparr>du_value = encodeJob (expiredJob (vj_job current) nowMs), du_nowMs = nowMs,
                   du_expiresAt = None\<rparr>) (\<lambda>result.
                case result of
                  CasUpdated r \<Rightarrow> bindM (pureM (decodeJob r)) (\<lambda>v. returnM (Some v))
                | CasMissing \<Rightarrow> throwM (jobError ''Unknown durable document job'')
                | CasConflict _ \<Rightarrow> returnM None))))"

partial_function (option) job_getLoop :: "'s durable_port \<Rightarrow> string \<Rightarrow> JobCaller \<Rightarrow> jsnum \<Rightarrow>
    ('s, 'x) dworld_scheme \<Rightarrow> (VersionedDocumentJob tres \<times> ('s, 'x) dworld_scheme) option" where
  "job_getLoop P jobId caller nowMs w =
     (case job_getRound P jobId caller nowMs w of
        (Inl e, w') \<Rightarrow> Some (Inl e, w')
      | (Inr (Some v), w') \<Rightarrow> Some (Inr v, w')
      | (Inr None, w') \<Rightarrow> job_getLoop P jobId caller nowMs w')"

declare job_getLoop.simps [code]

definition job_get :: "'s durable_port \<Rightarrow> string \<Rightarrow> JobCaller \<Rightarrow> jsnum \<Rightarrow>
    (('s, 'x) dworld_scheme, VersionedDocumentJob) pmethod" where
  "job_get P jobId caller nowMs =
     bindP (returningM (pureM (andThen (assertBounded jobId ''jobId'' MAX_DOCUMENT_JOB_IDENTITY_CHARS)
              (assertTimestamp nowMs ''nowMs'')))) (\<lambda>_.
       job_getLoop P jobId caller nowMs)"

fun revokeLoop :: "'s durable_port \<Rightarrow> nat \<Rightarrow> string \<Rightarrow> JobCaller \<Rightarrow> jsnum \<Rightarrow>
    (('s, 'x) dworld_scheme, VersionedDocumentJob) action" where
  "revokeLoop P 0 jobId caller nowMs = throwM (jobError ''Document source revocation conflicted'')"
| "revokeLoop P (Suc attempts) jobId caller nowMs =
     bindM (storeGet P (jobKey jobId)) (\<lambda>found.
       case found of None \<Rightarrow> throwM (jobError ''Unknown durable document job'')
       | Some record \<Rightarrow>
           bindM (pureM (decodeJob record)) (\<lambda>current.
           thenM (pureM (assertJobCaller (vj_job current) caller))
           (if jobTerminal (dj_status (vj_job current)) then returnM current
            else
              bindM (storeCas P (jobKey jobId) (vj_revision current)
                  \<lparr>du_value = encodeJob ((vj_job current)\<lparr>dj_status := JobCancelled, dj_updatedAt := nowMs\<rparr>),
                   du_nowMs = nowMs, du_expiresAt = None\<rparr>) (\<lambda>changed.
                case changed of
                  CasUpdated r \<Rightarrow> pureM (decodeJob r)
                | CasMissing \<Rightarrow> throwM (jobError ''Unknown durable document job'')
                | CasConflict _ \<Rightarrow> revokeLoop P attempts jobId caller nowMs))))"

definition job_revokeSource :: "'s durable_port \<Rightarrow> string \<Rightarrow> JobCaller \<Rightarrow> jsnum \<Rightarrow>
    (('s, 'x) dworld_scheme, VersionedDocumentJob) action" where
  "job_revokeSource P jobId caller nowMs =
     thenM (pureM (andThen (assertBounded jobId ''jobId'' MAX_DOCUMENT_JOB_IDENTITY_CHARS)
       (assertTimestamp nowMs ''nowMs'')))
     (revokeLoop P 16 jobId caller nowMs)"

section \<open>Transitions\<close>

definition patchedRef :: "DurableDocumentJob \<Rightarrow> JobPatch \<Rightarrow> string option" where
  "patchedRef j patch = (case jp_resultArtifactRef patch of Some v \<Rightarrow> v | None \<Rightarrow> dj_resultArtifactRef j)"

definition patchedError :: "DurableDocumentJob \<Rightarrow> JobPatch \<Rightarrow> string option" where
  "patchedError j patch = (case jp_sanitizedError patch of Some v \<Rightarrow> v | None \<Rightarrow> dj_sanitizedError j)"

definition transitionGuards :: "DurableDocumentJob \<Rightarrow> DurableDocumentJobStatus \<Rightarrow> JobPatch \<Rightarrow> unit res" where
  "transitionGuards j to patch =
     andThen (assertTransition (dj_status j) to)
     (andThen (case patchedRef j patch of None \<Rightarrow> Inr ()
        | Some r \<Rightarrow> assertBounded r ''resultArtifactRef'' MAX_DOCUMENT_JOB_FINGERPRINT_CHARS)
     (case patchedError j patch of None \<Rightarrow> Inr ()
      | Some e \<Rightarrow> throwIf (e = [] \<or> length e > MAX_DOCUMENT_JOB_ERROR_CHARS)
          (jobError ''sanitizedError must be within 500 characters'')))"

definition transitionedJob ::
  "DurableDocumentJob \<Rightarrow> DurableDocumentJobStatus \<Rightarrow> jsnum \<Rightarrow> JobPatch \<Rightarrow> DurableDocumentJob" where
  "transitionedJob j to nowMs patch = j\<lparr>dj_status := to, dj_updatedAt := nowMs,
     dj_resultArtifactRef := patchedRef j patch, dj_sanitizedError := patchedError j patch\<rparr>"

definition writeTransition :: "'s durable_port \<Rightarrow> string \<Rightarrow> JobCaller \<Rightarrow> int \<Rightarrow> DurableDocumentJobStatus \<Rightarrow>
    jsnum \<Rightarrow> JobPatch \<Rightarrow> VersionedDocumentJob \<Rightarrow> (('s, 'x) dworld_scheme, JobTransitionResult) action" where
  "writeTransition P jobId caller expectedRevision to nowMs patch current =
     (if vj_revision current \<noteq> expectedRevision then returnM (JobConflict current)
      else
        thenM (pureM (transitionGuards (vj_job current) to patch))
        (bindM (storeCas P (jobKey jobId) expectedRevision
            \<lparr>du_value = encodeJob (transitionedJob (vj_job current) to nowMs patch), du_nowMs = nowMs,
             du_expiresAt = Some (dj_expiresAt (vj_job current))\<rparr>) (\<lambda>result.
           case result of
             CasUpdated r \<Rightarrow> bindM (pureM (decodeJob r)) (\<lambda>v. returnM (JobUpdated v))
           | CasMissing \<Rightarrow> throwM (jobError ''Unknown durable document job'')
           | CasConflict r \<Rightarrow>
               bindM (pureM (decodeJob r)) (\<lambda>v.
               thenM (pureM (assertJobCaller (vj_job v) caller)) (returnM (JobConflict v))))))"

definition job_transition :: "'s durable_port \<Rightarrow> string \<Rightarrow> JobCaller \<Rightarrow> int \<Rightarrow> DurableDocumentJobStatus \<Rightarrow>
    jsnum \<Rightarrow> JobPatch \<Rightarrow> (('s, 'x) dworld_scheme, JobTransitionResult) pmethod" where
  "job_transition P jobId caller expectedRevision to nowMs patch =
     (if \<not> isSafeInteger (jint expectedRevision) \<or> expectedRevision < 1
      then returningM (throwM (jobError ''expectedRevision must be a positive safe integer''))
      else bindP (job_get P jobId caller nowMs) (\<lambda>current.
        returningM (writeTransition P jobId caller expectedRevision to nowMs patch current)))"

section \<open>Effects of a job\<close>

definition claimEffect :: "'s durable_port \<Rightarrow> EffectIdentity \<Rightarrow> jsnum \<Rightarrow> VersionedDocumentJob \<Rightarrow>
    (('s, 'x) dworld_scheme, BeginEffectResult) action" where
  "claimEffect P i nowMs current =
     (if jobTerminal (dj_status (vj_job current))
      then throwM (jobError (''Cannot begin an effect for terminal document job status '' @
        quoted (jobStatusName (dj_status (vj_job current)))))
      else
        bindM (journal_claim P (ei_jobId i) (ei_effectKind i) (ei_operationKey i) nowMs) (\<lambda>result.
          case result of
            ClaimGranted e n \<Rightarrow> returnM (EffectExecute e n)
          | ClaimExisting e n \<Rightarrow>
              (if ef_status e = EffectSucceeded
               then (case ef_receipt e of
                   None \<Rightarrow> throwM (jobError ''Succeeded durable effect is missing its replay receipt'')
                 | Some receipt \<Rightarrow> returnM (EffectReplay e n receipt))
               else returnM (EffectBlocked e n (ef_status e)))))"

definition job_beginEffect :: "'s durable_port \<Rightarrow> EffectIdentity \<Rightarrow> JobCaller \<Rightarrow> jsnum \<Rightarrow>
    (('s, 'x) dworld_scheme, BeginEffectResult) pmethod" where
  "job_beginEffect P i caller nowMs =
     bindP (job_get P (ei_jobId i) caller nowMs) (\<lambda>current. returningM (claimEffect P i nowMs current))"

definition job_transitionEffect :: "'s durable_port \<Rightarrow> EffectIdentity \<Rightarrow> JobCaller \<Rightarrow> int \<Rightarrow>
    DurableEffectStatus \<Rightarrow> jsnum \<Rightarrow> string option \<Rightarrow> (('s, 'x) dworld_scheme, DurableEffect \<times> int) pmethod" where
  "job_transitionEffect P i caller expectedRevision status nowMs receipt =
     bindP (job_get P (ei_jobId i) caller nowMs) (\<lambda>current.
       if jobTerminal (dj_status (vj_job current))
       then returningM (throwM (jobError (''Cannot update an effect for terminal document job status '' @
         quoted (jobStatusName (dj_status (vj_job current))))))
       else returningM (journal_transition P i expectedRevision status nowMs receipt))"

definition job_markEffectInflight :: "'s durable_port \<Rightarrow> EffectIdentity \<Rightarrow> JobCaller \<Rightarrow> int \<Rightarrow> jsnum \<Rightarrow>
    (('s, 'x) dworld_scheme, DurableEffect \<times> int) pmethod" where
  "job_markEffectInflight P i caller n nowMs = job_transitionEffect P i caller n EffectInflight nowMs None"

definition job_markEffectSucceeded :: "'s durable_port \<Rightarrow> EffectIdentity \<Rightarrow> JobCaller \<Rightarrow> int \<Rightarrow> jsnum \<Rightarrow>
    string \<Rightarrow> (('s, 'x) dworld_scheme, DurableEffect \<times> int) pmethod" where
  "job_markEffectSucceeded P i caller n nowMs receipt =
     bindP (returningM (pureM (assertBounded receipt ''effect receipt'' MAX_DOCUMENT_JOB_FINGERPRINT_CHARS)))
       (\<lambda>_. job_transitionEffect P i caller n EffectSucceeded nowMs (Some receipt))"

definition job_markEffectUncertain :: "'s durable_port \<Rightarrow> EffectIdentity \<Rightarrow> JobCaller \<Rightarrow> int \<Rightarrow> jsnum \<Rightarrow>
    (('s, 'x) dworld_scheme, DurableEffect \<times> int) pmethod" where
  "job_markEffectUncertain P i caller n nowMs = job_transitionEffect P i caller n EffectUncertain nowMs None"

end
