(* ===== verification/DocumentJobFacts.thy ===== *)
theory DocumentJobFacts
  imports DocumentJobs
begin

text \<open>
  Stored document jobs read back, how they may move, and the contracts of the repository's methods:
  while the others keep to these moves, every method keeps to them, whether or not it returns.
\<close>

section \<open>Round trip\<close>

lemma named_jobStatus [simp]: "named jobStatusName jobStatuses (JString (jobStatusName st)) = Some st"
  by (cases st) (simp_all add: named_def jobStatuses_def)

lemma assertTimestamp_ok: "assertTimestamp n f = Inr () \<longleftrightarrow> isSafeInteger n \<and> \<not> jlt n (jint 0)"
  by (auto simp: assertTimestamp_def res_simps)

lemma checkJob_numbers:
  "checkJob j = Inr () \<Longrightarrow> isInteger (dj_createdAt j) \<and> isInteger (dj_updatedAt j) \<and> isInteger (dj_expiresAt j)"
  by (auto simp: checkJob_def res_simps assertTimestamp_ok isSafeInteger_def)

theorem decode_encode_job:
  assumes "checkJob j = Inr ()" shows "decodeJobText (encodeJob j) = Inr j"
proof -
  have "jsonOk (jobJson j)"
    using checkJob_numbers [OF assms] unfolding jobJson_def jsonOk.simps
    by (intro conjI objectOf_plain) (simp_all add: isIndexKey_letter isDigit_def)
  moreover have "jobOfJson (jobJson j) = Some j"
    by (simp add: jobOfJson_def jobJson_def)
  ultimately show ?thesis using assms
    by (simp add: decodeJobText_def encodeJob_def jsonParse_jsonText)
qed

lemma decodeJobText_check: "decodeJobText v = Inr j \<Longrightarrow> checkJob j = Inr ()"
  by (auto simp: decodeJobText_def res_simps split: option.splits)

section \<open>How a stored job may move\<close>

text \<open>The identity, the request and the expiry of a job are fixed and its status only advances. A
  cancelled or expired job is frozen; a completed or failed one can only expire, keeping its
  outcome, and not before its expiry.\<close>

definition jobIdentity :: "DurableDocumentJob \<Rightarrow> string \<times> string \<times> string \<times> string \<times> string \<times> jsnum \<times> jsnum" where
  "jobIdentity j = (dj_jobId j, dj_ownerId j, dj_credentialBinding j, dj_idempotencyKey j,
     dj_requestFingerprint j, dj_createdAt j, dj_expiresAt j)"

definition jobStep :: "DurableDocumentJob \<Rightarrow> DurableDocumentJob \<Rightarrow> bool" where
  "jobStep j j' \<longleftrightarrow> jobIdentity j' = jobIdentity j \<and> jobOrder (dj_status j) \<le> jobOrder (dj_status j') \<and>
     (dj_status j \<in> {JobCancelled, JobExpired} \<longrightarrow> j' = j) \<and>
     (dj_status j \<in> {JobCompleted, JobFailed} \<longrightarrow>
        j' = j \<or> (\<exists>t. j' = expiredJob j t \<and> jle (dj_expiresAt j) t))"

lemma jobStep_refl [simp]: "jobStep j j"
  by (simp add: jobStep_def)

lemma jobStep_frozen: "jobStep j j' \<Longrightarrow> dj_status j \<in> {JobCancelled, JobExpired} \<Longrightarrow> j' = j"
  unfolding jobStep_def by blast

lemma jobStep_trans:
  assumes ab: "jobStep a b" and bc: "jobStep b c" shows "jobStep a c"
proof -
  have "c = a \<or> (\<exists>t. c = expiredJob a t \<and> jle (dj_expiresAt a) t)"
    if "dj_status a \<in> {JobCompleted, JobFailed}"
  proof -
    from ab that consider "b = a" | t where "b = expiredJob a t" "jle (dj_expiresAt a) t"
      by (auto simp: jobStep_def)
    then show ?thesis
    proof cases
      case 1
      with bc that show ?thesis by (auto simp: jobStep_def)
    next
      case 2
      moreover from this have "c = b" by (intro jobStep_frozen [OF bc]) (simp add: expiredJob_def)
      ultimately show ?thesis by blast
    qed
  qed
  moreover have "c = a" if "dj_status a \<in> {JobCancelled, JobExpired}"
    using jobStep_frozen [OF ab that] jobStep_frozen [OF bc] that by simp
  moreover have "jobIdentity c = jobIdentity a" "jobOrder (dj_status a) \<le> jobOrder (dj_status c)"
    using ab bc by (auto simp: jobStep_def)
  ultimately show ?thesis unfolding jobStep_def by blast
qed

definition jobAt :: "string \<Rightarrow> DurableDocumentJob \<Rightarrow> bool" where
  "jobAt key j \<longleftrightarrow> jobKey (dj_jobId j) = key"

definition jobMove :: "string \<Rightarrow> string \<Rightarrow> string \<Rightarrow> bool" where
  "jobMove key v v' \<longleftrightarrow> (\<forall>j. decodeJobText v = Inr j \<longrightarrow> jobAt key j \<longrightarrow>
     (\<exists>j'. decodeJobText v' = Inr j' \<and> jobStep j j'))"

definition jobValue :: "string \<Rightarrow> string \<Rightarrow> bool" where
  "jobValue key v \<longleftrightarrow> (\<exists>j. decodeJobText v = Inr j \<and> jobAt key j)"

lemma jobAt_step: "jobAt k j \<Longrightarrow> jobStep j j' \<Longrightarrow> jobAt k j'"
  by (simp add: jobAt_def jobStep_def jobIdentity_def)

lemma jobMove_refl [simp]: "jobMove k v v"
  by (auto simp: jobMove_def)

lemma jobMove_trans:
  assumes "jobMove k u v" "jobMove k v w" shows "jobMove k u w"
  unfolding jobMove_def
proof (intro allI impI)
  fix j assume "decodeJobText u = Inr j" "jobAt k j"
  with assms(1) obtain a where a: "decodeJobText v = Inr a" "jobStep j a" unfolding jobMove_def by blast
  with assms(2) jobAt_step [OF \<open>jobAt k j\<close> a(2)] obtain b where "decodeJobText w = Inr b" "jobStep a b"
    unfolding jobMove_def by blast
  with a show "\<exists>j'. decodeJobText w = Inr j' \<and> jobStep j j'" by (blast intro: jobStep_trans)
qed

lemma jobValue_move: "jobValue k v \<Longrightarrow> jobMove k v v' \<Longrightarrow> jobValue k v'"
  unfolding jobValue_def jobMove_def using jobAt_step by blast

definition jobRecordKey :: "string \<Rightarrow> bool" where
  "jobRecordKey k \<longleftrightarrow> prefix ''document-job:'' k"

lemma jobKey_simps [simp]: "jobRecordKey (jobKey i)" "jobKey i = jobKey j \<longleftrightarrow> i = j"
  by (simp_all add: jobRecordKey_def jobKey_def)

lemma expiredJob_step:
  assumes "checkJob j = Inr ()" "assertTimestamp now ''nowMs'' = Inr ()" "\<not> jlt now (dj_expiresAt j)"
    "dj_status j \<noteq> JobExpired" "dj_status j \<noteq> JobCancelled"
  shows "checkJob (expiredJob j now) = Inr ()" "jobStep j (expiredJob j now)"
proof -
  from assms(1,2) show "checkJob (expiredJob j now) = Inr ()"
    by (auto simp: checkJob_def expiredJob_def res_simps assertTimestamp_ok)
  have "jle (dj_expiresAt j) now"
    using assms(2,3) checkJob_numbers [OF assms(1)]
    by (auto simp: assertTimestamp_ok isSafeInteger_def isInteger_iff)
  moreover have "jobIdentity (expiredJob j now) = jobIdentity j"
      "jobOrder (dj_status j) \<le> jobOrder (dj_status (expiredJob j now))"
    by (cases "dj_status j"; simp add: jobIdentity_def expiredJob_def)+
  ultimately show "jobStep j (expiredJob j now)"
    using assms(4,5) unfolding jobStep_def by blast
qed

lemma cancelledJob_step:
  assumes "checkJob j = Inr ()" "assertTimestamp now ''nowMs'' = Inr ()" "\<not> jobTerminal (dj_status j)"
  shows "checkJob (j\<lparr>dj_status := JobCancelled, dj_updatedAt := now\<rparr>) = Inr ()"
    "jobStep j (j\<lparr>dj_status := JobCancelled, dj_updatedAt := now\<rparr>)"
proof -
  from assms(1,2) show "checkJob (j\<lparr>dj_status := JobCancelled, dj_updatedAt := now\<rparr>) = Inr ()"
    by (auto simp: checkJob_def res_simps assertTimestamp_ok)
  have "jobOrder (dj_status j) \<le> 3" by (cases "dj_status j") simp_all
  with assms(3) show "jobStep j (j\<lparr>dj_status := JobCancelled, dj_updatedAt := now\<rparr>)"
    by (auto simp: jobStep_def jobIdentity_def jobTerminal_def)
qed

lemma transitionedJob_step:
  assumes "checkJob j = Inr ()" "assertTimestamp now ''nowMs'' = Inr ()" "transitionGuards j to patch = Inr ()"
  shows "checkJob (transitionedJob j to now patch) = Inr ()" "jobStep j (transitionedJob j to now patch)"
proof -
  from assms(1,2) show "checkJob (transitionedJob j to now patch) = Inr ()"
    by (auto simp: checkJob_def transitionedJob_def res_simps assertTimestamp_ok)
  have "\<not> jobTerminal (dj_status j)" "jobOrder (dj_status j) \<le> jobOrder to"
    using assms(3) by (auto simp: transitionGuards_def res_simps assertTransition_def split: if_splits)
  then show "jobStep j (transitionedJob j to now patch)"
    by (auto simp: jobStep_def jobIdentity_def transitionedJob_def jobTerminal_def)
qed

section \<open>Contracts\<close>

context durable_steps begin

definition keepsP :: "('s \<Rightarrow> bool) \<Rightarrow> (('s, 'x) dworld_scheme, 'a) pmethod \<Rightarrow> ('a \<Rightarrow> 's \<Rightarrow> bool) \<Rightarrow> bool" where
  "keepsP A m B \<longleftrightarrow> (\<forall>w r w'. relies w \<longrightarrow> A (dw_store w) \<longrightarrow> m w = Some (r, w') \<longrightarrow>
     goesOn w w' \<and> (\<forall>x. r = Inr x \<longrightarrow> B x (dw_store w')))"

lemma keepsP_D:
  assumes "keepsP A m B" "relies w" "A (dw_store w)" "m w = Some (r, w')"
  shows "goesOn w w'" "relies w'" "r = Inr x \<Longrightarrow> B x (dw_store w')"
  using assms goesOn_relies unfolding keepsP_def by blast+

lemma keepsP_returning: "keeps A m B \<Longrightarrow> keepsP A (returningM m) B"
  by (simp add: keepsP_def keeps_def returningM_def)

lemma keepsP_weaken:
  assumes "keepsP A' m B'" "\<And>s. A s \<Longrightarrow> A' s" "\<And>x s. B' x s \<Longrightarrow> B x s"
  shows "keepsP A m B"
  using assms by (fastforce simp: keepsP_def)

lemma keepsP_bind:
  assumes m: "keepsP A m B" and f: "\<And>x. keepsP (B x) (f x) C"
  shows "keepsP A (bindP m f) C"
  unfolding keepsP_def
proof (intro allI impI)
  fix w r w' assume w: "relies w" "A (dw_store w)" and run: "bindP m f w = Some (r, w')"
  then obtain r1 w1 where 1: "m w = Some (r1, w1)" by (auto simp: bindP_def split: option.splits)
  note d = keepsP_D [OF m w 1]
  show "goesOn w w' \<and> (\<forall>x. r = Inr x \<longrightarrow> C x (dw_store w'))"
  proof (cases r1)
    case (Inl e)
    with run 1 d show ?thesis by (auto simp: bindP_def)
  next
    case (Inr x)
    with run 1 have 2: "f x w1 = Some (r, w')" by (simp add: bindP_def)
    from keepsP_D [OF f d(2) d(3) [OF Inr] 2] d(1) show ?thesis by (blast intro: goesOn_trans)
  qed
qed

lemma keepsP_bind_pure:
  "(\<And>x. r = Inr x \<Longrightarrow> keepsP A (f x) B) \<Longrightarrow> keepsP A (bindP (returningM (pureM r)) f) B"
  by (cases r) (auto simp: keepsP_def bindP_def returningM_def method_simps)

end

lemma job_getLoop_induct [consumes 1, case_names thrown found again]:
  assumes run: "job_getLoop P i caller now w = Some y"
    and "\<And>w e w'. job_getRound P i caller now w = (Inl e, w') \<Longrightarrow> Q w (Inl e, w')"
    and "\<And>w v w'. job_getRound P i caller now w = (Inr (Some v), w') \<Longrightarrow> Q w (Inr v, w')"
    and "\<And>w w' y. job_getRound P i caller now w = (Inr None, w') \<Longrightarrow> Q w' y \<Longrightarrow> Q w y"
  shows "Q w y"
proof -
  have "(\<lambda>((((P', i'), c'), n'), w) y. P' = P \<longrightarrow> i' = i \<longrightarrow> c' = caller \<longrightarrow> n' = now \<longrightarrow> Q w y)
      ((((P, i), caller), now), w) y"
    by (rule job_getLoop.raw_induct [OF _ run])
      (use assms(2-4) in \<open>fastforce split: prod.splits sum.splits option.splits\<close>)
  then show ?thesis by simp
qed

locale job_steps = effect_steps P look N R
  for P :: "'s durable_port" and look :: "'s \<Rightarrow> string \<Rightarrow> DurableRecord option"
    and N :: "string \<Rightarrow> string \<Rightarrow> bool" and R :: "string \<Rightarrow> string \<Rightarrow> string \<Rightarrow> bool" +
  assumes N_job: "jobRecordKey k \<Longrightarrow> N k v \<longleftrightarrow> jobValue k v"
    and R_job: "jobRecordKey k \<Longrightarrow> R k v v' \<longleftrightarrow> jobMove k v v'"
begin

text \<open>The job \<open>v\<close> has been stored under its key.\<close>

definition hasJob :: "string \<Rightarrow> VersionedDocumentJob \<Rightarrow> 's \<Rightarrow> bool" where
  "hasJob i v s \<longleftrightarrow> (\<exists>c. seen (jobKey i) c s \<and> decodeJob c = Inr v)"

lemma stable_hasJob [intro]: "stable (hasJob i v)"
  unfolding stable_def hasJob_def by (blast intro: seen_evolves)

lemma decodeJob_iff: "decodeJob c = Inr v \<longleftrightarrow>
    decodeJobText (dr_value c) = Inr (vj_job v) \<and> vj_revision v = dr_revision c"
  by (cases v) (auto simp: decodeJob_def res_simps)

lemma seen_job:
  assumes "seen (jobKey i) c s" "decodeJobText (dr_value c) = Inr j"
  shows "checkJob j = Inr ()" "dj_jobId j = i"
  using seen_N [OF assms(1)] assms(2) decodeJobText_check by (auto simp: N_job jobValue_def jobAt_def)

lemma R_jobI:
  assumes "decodeJobText v = Inr j" "checkJob j' = Inr ()" "jobStep j j'"
  shows "R (jobKey i) v (encodeJob j')"
  using assms by (simp add: R_job jobMove_def decode_encode_job)

lemma keeps_bind_casJob:
  assumes A: "stable A" "\<And>s. A s \<Longrightarrow> seen (jobKey i) c s"
    and c: "decodeJob c = Inr v" "vj_revision v = n"
    and new: "checkJob j' = Inr ()" "jobStep (vj_job v) j'" and u: "du_value u = encodeJob j'"
    and upd: "\<And>r w. decodeJob r = Inr w \<Longrightarrow> vj_job w = j' \<Longrightarrow> keeps (\<lambda>s. A s \<and> seen (jobKey i) r s) (f (CasUpdated r)) B"
    and con: "\<And>r. keeps (\<lambda>s. A s \<and> seen (jobKey i) r s) (f (CasConflict r)) B"
  shows "keeps A (bindM (storeCas P (jobKey i) n u) f) B"
proof (rule keeps_bind_cas [OF A])
  show "dr_revision c = n" using c by (simp add: decodeJob_iff)
  show "R (jobKey i) (dr_value c) (du_value u)"
    unfolding u by (rule R_jobI [OF _ new]) (use c(1) in \<open>simp add: decodeJob_iff\<close>)
  show "keeps (\<lambda>s. A s \<and> seen (jobKey i) (swappedRecord c u) s) (f (CasUpdated (swappedRecord c u))) B"
    by (rule upd [of _ "\<lparr>vj_job = j', vj_revision = dr_revision c + 1\<rparr>"])
      (simp_all add: decodeJob_iff swappedRecord_def u decode_encode_job [OF new(1)])
qed (assumption, rule con)

lemma newJob_ok: "createJobGuards i = Inr () \<Longrightarrow> checkJob (newJob sha i) = Inr ()"
  by (auto simp: createJobGuards_def checkJob_def newJob_def jobIdFor_def res_simps assertTimestamp_ok
      assertBounded_def MAX_DOCUMENT_JOB_IDENTITY_CHARS_def)

lemma keeps_create_job:
  assumes A: "stable A"
  shows "keeps A (job_createIfAbsent P sha i) (\<lambda>x s. A s \<and> (case x of
     JobWasCreated v \<Rightarrow> hasJob (dj_jobId (newJob sha i)) v s \<and> vj_job v = newJob sha i
   | JobWasReused v \<Rightarrow> hasJob (dj_jobId (newJob sha i)) v s))"
  unfolding job_createIfAbsent_def Let_def
proof (rule keeps_then_pure, rule keeps_bind_create [OF A], goal_cases)
  case 1
  then show ?case
    using decode_encode_job [OF newJob_ok [OF 1]] by (auto simp: N_job jobValue_def jobAt_def)
next
  case 2
  then show ?case
    using decode_encode_job [OF newJob_ok [OF 2], of sha]
    by (auto intro!: keeps_bind_pure keeps_return simp: hasJob_def)
      (auto simp: decodeJob_iff newRecord_def)
next
  case (3 r)
  show ?case by (auto intro!: keeps_bind_pure keeps_then_pure keeps_return simp: hasJob_def)
qed

lemma keeps_getRound:
  assumes A: "stable A" and now: "assertTimestamp now ''nowMs'' = Inr ()"
  shows "keeps A (job_getRound P i caller now) (\<lambda>x s. A s \<and> (\<forall>v. x = Some v \<longrightarrow> hasJob i v s))"
  unfolding job_getRound_def
proof (rule keeps_bind_get [OF A], simp add: keeps_throw, unfold option.case,
    intro keeps_bind_pure keeps_then_pure keeps_if, goal_cases)
  case (1 c v)
  then show ?case by (auto intro!: keeps_return simp: hasJob_def)
next
  case (2 c v)
  show ?case
  proof (rule keeps_assume [where p = "checkJob (vj_job v) = Inr ()"])
    assume ok: "checkJob (vj_job v) = Inr ()"
    have "\<not> jlt now (dj_expiresAt (vj_job v))" "dj_status (vj_job v) \<noteq> JobExpired" "dj_status (vj_job v) \<noteq> JobCancelled"
      using 2 by auto
    note step = expiredJob_step [OF ok now this]
    show "keeps (\<lambda>s. A s \<and> seen (jobKey i) c s) (bindM (storeCas P (jobKey i) (vj_revision v)
        \<lparr>du_value = encodeJob (expiredJob (vj_job v) now), du_nowMs = now, du_expiresAt = None\<rparr>) (\<lambda>result.
        case result of CasUpdated r \<Rightarrow> bindM (pureM (decodeJob r)) (\<lambda>v. returnM (Some v))
        | CasMissing \<Rightarrow> throwM (jobError ''Unknown durable document job'')
        | CasConflict _ \<Rightarrow> returnM None)) (\<lambda>x s. A s \<and> (\<forall>v. x = Some v \<longrightarrow> hasJob i v s))"
      by (rule keeps_bind_casJob [OF _ _ 2(1) refl step])
        (auto intro!: stable_intros A keeps_bind_pure keeps_return simp: hasJob_def)
  qed (use 2(1) seen_job in \<open>auto simp: decodeJob_iff\<close>)
qed

lemma keepsP_getLoop:
  assumes A: "stable A" and now: "assertTimestamp now ''nowMs'' = Inr ()"
  shows "keepsP A (job_getLoop P i caller now) (\<lambda>v s. A s \<and> hasJob i v s)"
proof -
  have "relies w \<longrightarrow> A (dw_store w) \<longrightarrow> goesOn w (snd y) \<and>
      (\<forall>x. fst y = Inr x \<longrightarrow> A (dw_store (snd y)) \<and> hasJob i x (dw_store (snd y)))"
    if "job_getLoop P i caller now w = Some y" for w :: "('s, 'x) dworld_scheme" and y
    using that
  proof (induction rule: job_getLoop_induct)
    case (again w w' y)
    show ?case
    proof (intro impI)
      assume w: "relies w" "A (dw_store w)"
      note d = keepsD [OF keeps_getRound [OF A now] w again(1)]
      from d(2,3) again(2) d(1) show "goesOn w (snd y) \<and>
          (\<forall>x. fst y = Inr x \<longrightarrow> A (dw_store (snd y)) \<and> hasJob i x (dw_store (snd y)))"
        by (blast intro: goesOn_trans)
    qed
  next
    case (thrown w e w')
    then show ?case using keepsD [OF keeps_getRound [OF A now] _ _ thrown] by simp
  next
    case (found w v w')
    then show ?case using keepsD [OF keeps_getRound [OF A now] _ _ found] by simp
  qed
  then show ?thesis unfolding keepsP_def by fastforce
qed

lemma keepsP_get:
  assumes A: "stable A"
  shows "keepsP A (job_get P i caller now) (\<lambda>v s. A s \<and> hasJob i v s \<and> assertTimestamp now ''nowMs'' = Inr ())"
  unfolding job_get_def
proof (rule keepsP_bind_pure)
  fix u assume "andThen (assertBounded i ''jobId'' MAX_DOCUMENT_JOB_IDENTITY_CHARS) (assertTimestamp now ''nowMs'') = Inr u"
  then have now: "assertTimestamp now ''nowMs'' = Inr ()" by (simp add: res_simps)
  with keepsP_getLoop [OF A now]
  show "keepsP A (job_getLoop P i caller now) (\<lambda>v s. A s \<and> hasJob i v s \<and> assertTimestamp now ''nowMs'' = Inr ())"
    by (simp add: keepsP_def)
qed

end

context job_steps begin

lemma hasJobE:
  assumes "hasJob i v s"
  obtains c where "seen (jobKey i) c s" "decodeJob c = Inr v" "checkJob (vj_job v) = Inr ()" "dj_jobId (vj_job v) = i"
  using assms seen_job by (auto simp: hasJob_def decodeJob_iff)

lemma keeps_with_job:
  assumes "\<And>c. decodeJob c = Inr v \<Longrightarrow> checkJob (vj_job v) = Inr () \<Longrightarrow>
    keeps (\<lambda>s. A s \<and> seen (jobKey i) c s) m B"
  shows "keeps (\<lambda>s. A s \<and> hasJob i v s) m B"
proof (rule keeps_weaken [where B' = B and A' = "\<lambda>s. \<exists>c. (A s \<and> seen (jobKey i) c s) \<and>
    (decodeJob c = Inr v \<and> checkJob (vj_job v) = Inr ())"])
  show "keeps (\<lambda>s. \<exists>c. (A s \<and> seen (jobKey i) c s) \<and> (decodeJob c = Inr v \<and> checkJob (vj_job v) = Inr ())) m B"
  proof (rule keeps_ex, rule keeps_assume)
    fix c assume c: "decodeJob c = Inr v \<and> checkJob (vj_job v) = Inr ()"
    show "keeps (\<lambda>s. (A s \<and> seen (jobKey i) c s) \<and> (decodeJob c = Inr v \<and> checkJob (vj_job v) = Inr ())) m B"
      by (rule keeps_weaken [OF assms [of c]]) (use c in auto)
  qed blast
qed (auto elim: hasJobE)

lemma keeps_revokeLoop:
  assumes A: "stable A" and now: "assertTimestamp now ''nowMs'' = Inr ()"
  shows "keeps A (revokeLoop P n i caller now) (\<lambda>v s. A s \<and> hasJob i v s \<and> jobTerminal (dj_status (vj_job v)))"
proof (induction n)
  case (Suc n)
  show ?case
    unfolding revokeLoop.simps
  proof (rule keeps_bind_get [OF A], simp add: keeps_throw, unfold option.case,
      intro keeps_bind_pure keeps_then_pure keeps_if, goal_cases)
    case (1 c v)
    then show ?case by (auto intro!: keeps_return simp: hasJob_def)
  next
    case (2 c v)
    note v = 2
    show ?case
    proof (rule keeps_assume [where p = "checkJob (vj_job v) = Inr ()"], goal_cases)
      case 1
      then show ?case using v(1) seen_job by (auto simp: decodeJob_iff)
    next
      case 2
      show ?case
      proof (rule keeps_bind_casJob [OF _ _ v(1) refl cancelledJob_step [OF 2 now v(3)]], goal_cases)
        case (4 r w)
        then show ?case by (auto intro!: keeps_pure simp: hasJob_def jobTerminal_def)
      next
        case (5 r)
        show ?case unfolding DurableCasResult.case by (rule keeps_pre [OF Suc.IH]) blast
      qed (auto intro!: stable_intros A)
    qed
  qed
qed (simp add: keeps_throw)

lemma keeps_revokeSource:
  "stable A \<Longrightarrow> keeps A (job_revokeSource P i caller now)
     (\<lambda>v s. A s \<and> hasJob i v s \<and> jobTerminal (dj_status (vj_job v)))"
  unfolding job_revokeSource_def by (rule keeps_then_pure) (auto intro: keeps_revokeLoop simp: res_simps)

lemma keeps_writeTransition:
  assumes A: "stable A" and now: "assertTimestamp now ''nowMs'' = Inr ()"
  shows "keeps (\<lambda>s. A s \<and> hasJob i v s) (writeTransition P i caller n to now patch v) (\<lambda>x s. A s \<and> (case x of
     JobUpdated w \<Rightarrow> hasJob i w s \<and> vj_job w = transitionedJob (vj_job v) to now patch
   | JobConflict w \<Rightarrow> hasJob i w s))"
proof (rule keeps_with_job)
  fix c assume c: "decodeJob c = Inr v" "checkJob (vj_job v) = Inr ()"
  show "keeps (\<lambda>s. A s \<and> seen (jobKey i) c s) (writeTransition P i caller n to now patch v) (\<lambda>x s. A s \<and> (case x of
     JobUpdated w \<Rightarrow> hasJob i w s \<and> vj_job w = transitionedJob (vj_job v) to now patch
   | JobConflict w \<Rightarrow> hasJob i w s))"
    unfolding writeTransition_def
  proof (intro keeps_if keeps_then_pure, goal_cases)
    case 1
    show ?case using c by (auto intro!: keeps_return simp: hasJob_def)
  next
    case 2
    note step = transitionedJob_step [OF c(2) now 2(2)]
    show ?case
      by (rule keeps_bind_casJob [OF _ _ c(1) _ step])
        (use 2(1) in \<open>auto intro!: stable_intros A keeps_bind_pure keeps_then_pure keeps_return simp: hasJob_def\<close>)
  qed
qed

lemma keepsP_transition:
  assumes A: "stable A"
  shows "keepsP A (job_transition P i caller n to now patch) (\<lambda>x s. A s \<and> (case x of
     JobUpdated w \<Rightarrow> hasJob i w s \<and> dj_status (vj_job w) = to
   | JobConflict w \<Rightarrow> hasJob i w s))"
proof -
  have "keeps (\<lambda>s. A s \<and> hasJob i v s \<and> assertTimestamp now ''nowMs'' = Inr ())
      (writeTransition P i caller n to now patch v) (\<lambda>x s. A s \<and> (case x of
        JobUpdated w \<Rightarrow> hasJob i w s \<and> dj_status (vj_job w) = to | JobConflict w \<Rightarrow> hasJob i w s))" for v
  proof (rule keeps_assume)
    assume now: "assertTimestamp now ''nowMs'' = Inr ()"
    show "keeps (\<lambda>s. A s \<and> hasJob i v s \<and> assertTimestamp now ''nowMs'' = Inr ())
      (writeTransition P i caller n to now patch v) (\<lambda>x s. A s \<and> (case x of
        JobUpdated w \<Rightarrow> hasJob i w s \<and> dj_status (vj_job w) = to | JobConflict w \<Rightarrow> hasJob i w s))"
      by (rule keeps_weaken [OF keeps_writeTransition [OF A now]])
        (auto simp: transitionedJob_def split: JobTransitionResult.splits)
  qed blast
  then show ?thesis
    unfolding job_transition_def
    by (auto intro!: keepsP_bind [OF keepsP_get [OF A]] keepsP_returning keeps_throw)
qed

lemma timestamp_isInteger: "assertTimestamp now ''nowMs'' = Inr () \<Longrightarrow> isInteger now"
  by (simp add: assertTimestamp_ok isSafeInteger_def)

lemma keepsP_beginEffect:
  assumes A: "stable A"
  shows "keepsP A (job_beginEffect P e caller now) (\<lambda>x s. A s \<and> (case x of
     EffectExecute d n \<Rightarrow> ef_status d = EffectClaimed \<and> holds e d n s
   | EffectReplay d n receipt \<Rightarrow> ef_status d = EffectSucceeded \<and> ef_receipt d = Some receipt \<and> holds e d n s
   | EffectBlocked d n st \<Rightarrow> ef_status d = st \<and> st \<noteq> EffectSucceeded \<and> holds e d n s))"
  unfolding job_beginEffect_def
proof (rule keepsP_bind [OF keepsP_get [OF A]], rule keepsP_returning, rule keeps_assume
    [where p = "assertTimestamp now ''nowMs'' = Inr ()"], blast, unfold claimEffect_def, rule keeps_if,
    rule keeps_throw, goal_cases)
  case (1 v)
  have e: "\<lparr>ei_jobId = ei_jobId e, ei_effectKind = ei_effectKind e, ei_operationKey = ei_operationKey e\<rparr> = e"
    by simp
  show ?case
  proof (rule keeps_pre, rule keeps_bind [OF keeps_claim [OF A timestamp_isInteger [OF 1(1)]]],
      goal_cases)
    case (1 x)
    show ?case unfolding e
      by (cases x) (auto intro!: keeps_return keeps_if keeps_throw split: option.splits)
  qed auto
qed

lemma keepsP_transitionEffect:
  assumes A: "stable A" "\<And>s. A s \<Longrightarrow> issued e n s" and st: "status \<noteq> EffectClaimed"
  shows "keepsP A (job_transitionEffect P e caller n status now receipt)
    (\<lambda>x s. A s \<and> ef_status (fst x) = status \<and> ef_receipt (fst x) = receipt \<and> holds e (fst x) (snd x) s)"
  unfolding job_transitionEffect_def
proof (rule keepsP_bind [OF keepsP_get [OF A(1)]], goal_cases)
  case (1 v)
  have "keeps (\<lambda>s. A s \<and> hasJob (ei_jobId e) v s \<and> assertTimestamp now ''nowMs'' = Inr ())
      (journal_transition P e n status now receipt)
      (\<lambda>x s. A s \<and> ef_status (fst x) = status \<and> ef_receipt (fst x) = receipt \<and> holds e (fst x) (snd x) s)"
  proof (rule keeps_assume)
    assume "assertTimestamp now ''nowMs'' = Inr ()"
    from keeps_transition_issued [OF A(1) timestamp_isInteger [OF this] st A(2)]
    show "keeps (\<lambda>s. A s \<and> hasJob (ei_jobId e) v s \<and> assertTimestamp now ''nowMs'' = Inr ())
      (journal_transition P e n status now receipt)
      (\<lambda>x s. A s \<and> ef_status (fst x) = status \<and> ef_receipt (fst x) = receipt \<and> holds e (fst x) (snd x) s)"
      by (rule keeps_weaken) auto
  qed blast
  then show ?case by (auto intro!: keepsP_returning keeps_throw)
qed

end

section \<open>Reading returns\<close>

context durable_store begin

lemma callStore_run: "callStore f w = (r, w') \<Longrightarrow> \<exists>x s'. f (dw_others w (dw_turn w) (dw_store w)) = (x, s') \<and>
    r = liftThrown x \<and> w' = w\<lparr>dw_store := s', dw_turn := Suc (dw_turn w),
      dw_steps := (dw_others w (dw_turn w) (dw_store w), s') # dw_steps w\<rparr>"
  by (auto simp: callStore_def Let_def split: prod.splits)

text \<open>A round that has to be repeated lost a race: the record changed between its read and its write.\<close>

lemma getRound_again:
  assumes "job_getRound P i caller now w = (Inr None, w')"
  shows "dw_turn w' = dw_turn w + 2 \<and> dw_others w' = dw_others w \<and>
    (\<exists>s. look (dw_others w (Suc (dw_turn w)) s) (jobKey i) \<noteq> look s (jobKey i))"
proof -
  let ?s = "dw_others w (dw_turn w) (dw_store w)"
  let ?w = "w\<lparr>dw_store := ?s, dw_turn := Suc (dw_turn w), dw_steps := (?s, ?s) # dw_steps w\<rparr>"
  obtain c v where c: "dp_get P (jobKey i) ?s = Inr (Some c)" "decodeJob c = Inr v"
    and cas: "bindM (storeCas P (jobKey i) (vj_revision v)
        \<lparr>du_value = encodeJob (expiredJob (vj_job v) now), du_nowMs = now, du_expiresAt = None\<rparr>)
      (\<lambda>result. case result of
         CasUpdated r \<Rightarrow> bindM (pureM (decodeJob r)) (\<lambda>v. returnM (Some v))
       | CasMissing \<Rightarrow> throwM (jobError ''Unknown durable document job'')
       | CasConflict _ \<Rightarrow> returnM None) ?w = (Inr None, w')"
    using assms
    by (auto simp: job_getRound_def bindM_def thenM_def storeGet_def callStore_def Let_def pureM_def returnM_def
        throwM_def liftThrown_def split: sum.splits option.splits prod.splits if_splits)
  from cas obtain x w1 where x: "storeCas P (jobKey i) (vj_revision v)
        \<lparr>du_value = encodeJob (expiredJob (vj_job v) now), du_nowMs = now, du_expiresAt = None\<rparr> ?w = (Inr x, w1)"
    by (auto simp: bindM_def split: sum.splits prod.splits)
  with cas have "w' = w1" and "\<exists>r. x = CasConflict r"
    by (cases x; auto simp: bindM_def pureM_def returnM_def throwM_def split: sum.splits)+
  then obtain r where r: "x = CasConflict r" by blast
  from callStore_run [OF x [unfolded storeCas_def]] obtain y s' where
    y: "dp_compareAndSwap P (jobKey i) (vj_revision v)
        \<lparr>du_value = encodeJob (expiredJob (vj_job v) now), du_nowMs = now, du_expiresAt = None\<rparr>
        (dw_others w (Suc (dw_turn w)) ?s) = (y, s')" "Inr x = liftThrown y"
      "dw_turn w1 = dw_turn w + 2" "dw_others w1 = dw_others w"
    by auto
  from y(2) r have "y = Inr (CasConflict r)" by (cases y) (simp_all add: liftThrown_def)
  note s' = y(1) [unfolded this] y(3,4)
  from cas_conflict [OF s'(1)] have "look (dw_others w (Suc (dw_turn w)) ?s) (jobKey i) = Some r"
      "dr_revision r \<noteq> vj_revision v" by auto
  moreover have "look ?s (jobKey i) = Some c" using get_look [OF c(1)] by simp
  moreover have "vj_revision v = dr_revision c" using c(2) by (auto simp: decodeJob_def res_simps)
  ultimately have "look (dw_others w (Suc (dw_turn w)) ?s) (jobKey i) \<noteq> look ?s (jobKey i)" by auto
  with s'(2,3) \<open>w' = w1\<close> show ?thesis by auto
qed

lemma getLoop_returns:
  assumes "\<And>n s. k \<le> n \<Longrightarrow> look (dw_others w n s) (jobKey i) = look s (jobKey i)"
  shows "job_getLoop P i caller now w \<noteq> None"
  using assms
proof (induction "k - dw_turn w" arbitrary: w rule: less_induct)
  case less
  show ?case
  proof (cases "\<exists>w'. job_getRound P i caller now w = (Inr None, w')")
    case False
    then show ?thesis
      by (subst job_getLoop.simps) (auto split: prod.splits sum.splits option.splits)
  next
    case True
    then obtain w' where w': "job_getRound P i caller now w = (Inr None, w')" by blast
    note a = getRound_again [OF w']
    then obtain s where "look (dw_others w (Suc (dw_turn w)) s) (jobKey i) \<noteq> look s (jobKey i)" by blast
    with less.prems [of "Suc (dw_turn w)" s] have "Suc (dw_turn w) < k" by (cases "k \<le> Suc (dw_turn w)") auto
    with a have "k - dw_turn w' < k - dw_turn w" by simp
    moreover have "look (dw_others w' n s) (jobKey i) = look s (jobKey i)" if "k \<le> n" for n s
      using less.prems [OF that] a by simp
    ultimately have "job_getLoop P i caller now w' \<noteq> None" by (rule less.hyps)
    with w' show ?thesis by (subst job_getLoop.simps) simp
  qed
qed

end

end
