(* ===== verification/DurableSystem.thy ===== *)
theory DurableSystem
  imports McpTaskContracts DocumentJobFacts
begin

text \<open>
  The task runtime, the job repository and the effect journal over one in-memory store, called
  concurrently. The contracts of their methods are joined into one step relation, and a history of
  the store is any sequence of store calls that runs of the methods make while others do the same.
\<close>

section \<open>One step relation for all records\<close>

definition durableN :: "string \<Rightarrow> string \<Rightarrow> bool" where
  "durableN k v \<longleftrightarrow> (effectKey k \<longrightarrow> effectValue v) \<and> (taskRecordKey k \<longrightarrow> taskValue k v) \<and>
     (taskIndexKey k \<longrightarrow> indexValue v) \<and> (jobRecordKey k \<longrightarrow> jobValue k v)"

definition durableR :: "string \<Rightarrow> string \<Rightarrow> string \<Rightarrow> bool" where
  "durableR k v v' \<longleftrightarrow> (effectKey k \<longrightarrow> effectMove k v v') \<and> (taskRecordKey k \<longrightarrow> taskMove k v v') \<and>
     (taskIndexKey k \<longrightarrow> v' = v) \<and> (jobRecordKey k \<longrightarrow> jobMove k v v')"

lemma keys_disjoint:
  "effectKey k \<Longrightarrow> \<not> taskRecordKey k \<and> \<not> taskIndexKey k \<and> \<not> jobRecordKey k"
  "taskRecordKey k \<Longrightarrow> \<not> taskIndexKey k \<and> \<not> jobRecordKey k"
  "taskIndexKey k \<Longrightarrow> \<not> jobRecordKey k"
  by (auto simp: effectKey_def taskRecordKey_def taskIndexKey_def jobRecordKey_def prefix_def)

locale durable_system = task_steps P look N R + job_steps P look N R
  for P :: "'s durable_port" and look :: "'s \<Rightarrow> string \<Rightarrow> DurableRecord option"
    and N :: "string \<Rightarrow> string \<Rightarrow> bool" and R :: "string \<Rightarrow> string \<Rightarrow> string \<Rightarrow> bool"

interpretation sys: durable_system "memDurablePort lc" map_of durableN durableR
proof unfold_locales
  fix k u v w
  show "durableR k v v" by (simp add: durableR_def)
  show "durableN k v \<Longrightarrow> durableR k v w \<Longrightarrow> durableN k w"
    by (auto simp: durableN_def durableR_def intro: effectValue_move taskValue_move jobValue_move)
  show "durableR k u v \<Longrightarrow> durableR k v w \<Longrightarrow> durableR k u w"
    by (auto simp: durableR_def intro: effectMove_trans taskMove_trans jobMove_trans)
qed (auto simp: durableN_def durableR_def dest: keys_disjoint)

section \<open>Requests\<close>

text \<open>A revision of an effect that a caller may have got: the present one or an earlier one.\<close>

definition revisionIssued :: "EffectIdentity \<Rightarrow> int \<Rightarrow> mem_records \<Rightarrow> bool" where
  "revisionIssued e n s \<longleftrightarrow>
     (case keyFor (ei_jobId e) (ei_effectKind e) (ei_operationKey e) of
        Inl _ \<Rightarrow> False
      | Inr key \<Rightarrow> (case map_of s key of None \<Rightarrow> False | Some r \<Rightarrow> n \<le> dr_revision r))"

type_synonym mem_world = "mem_records task_world"

text \<open>The runs of the methods: from a world to the world at the end, whatever the outcome. Providers
  answer with JSON values, requests carry JSON values, and an effect is only moved from a revision that
  has been given out.\<close>

inductive durableCall :: "(string \<Rightarrow> string \<Rightarrow> int) \<Rightarrow> (string \<Rightarrow> string) \<Rightarrow> mem_world \<Rightarrow> mem_world \<Rightarrow> bool"
  for lc :: "string \<Rightarrow> string \<Rightarrow> int" and sha256 :: "string \<Rightarrow> string" where
  call_start: "task_start (memDurablePort lc) sha256 rt uuid input caller options now w = (x, w') \<Longrightarrow>
    assertIdentity (''ajob-'' @ uuid) ''taskId'' = Inr () \<Longrightarrow> jsonOk input \<Longrightarrow>
    isInteger (rt_pollIntervalMs rt) \<Longrightarrow> durableCall lc sha256 w w'"
| call_get: "task_get (memDurablePort lc) rt tid caller aborted now w = (x, w') \<Longrightarrow>
    providerOk (rt_provider rt) \<Longrightarrow> durableCall lc sha256 w w'"
| call_update: "task_update (memDurablePort lc) sha256 rt tid responses caller now w = (y, w') \<Longrightarrow>
    durableCall lc sha256 w w'"
| call_cancel: "task_cancel (memDurablePort lc) rt tid caller now w = (y, w') \<Longrightarrow>
    durableCall lc sha256 w w'"
| call_stopWaiting: "task_stopWaiting (memDurablePort lc) tid caller now w = (y, w') \<Longrightarrow>
    durableCall lc sha256 w w'"
| call_describe: "task_describe (memDurablePort lc) rt tid caller aborted now w = (z, w') \<Longrightarrow>
    providerOk (rt_provider rt) \<Longrightarrow> durableCall lc sha256 w w'"
| call_createJob: "job_createIfAbsent (memDurablePort lc) sha256 i w = (c, w') \<Longrightarrow> durableCall lc sha256 w w'"
| call_getJob: "job_get (memDurablePort lc) j caller now w = Some (v, w') \<Longrightarrow> durableCall lc sha256 w w'"
| call_revokeSource: "job_revokeSource (memDurablePort lc) j caller now w = (v, w') \<Longrightarrow>
    durableCall lc sha256 w w'"
| call_transition: "job_transition (memDurablePort lc) j caller n to now patch w = Some (t, w') \<Longrightarrow>
    durableCall lc sha256 w w'"
| call_beginEffect: "job_beginEffect (memDurablePort lc) e caller now w = Some (b, w') \<Longrightarrow>
    durableCall lc sha256 w w'"
| call_markInflight: "job_markEffectInflight (memDurablePort lc) e caller n now w = Some (d, w') \<Longrightarrow>
    revisionIssued e n (dw_store w) \<Longrightarrow> durableCall lc sha256 w w'"
| call_markSucceeded: "job_markEffectSucceeded (memDurablePort lc) e caller n now receipt w = Some (d, w') \<Longrightarrow>
    revisionIssued e n (dw_store w) \<Longrightarrow> durableCall lc sha256 w w'"
| call_markUncertain: "job_markEffectUncertain (memDurablePort lc) e caller n now w = Some (d, w') \<Longrightarrow>
    revisionIssued e n (dw_store w) \<Longrightarrow> durableCall lc sha256 w w'"

lemma mark_contract:
  "status \<noteq> EffectClaimed \<Longrightarrow> sys.keepsP (sys.issued e n)
     (job_transitionEffect (memDurablePort lc) e caller n status now receipt) (\<lambda>_ _. True)"
  by (rule sys.keepsP_weaken [OF sys.keepsP_transitionEffect [OF sys.stable_issued]]) auto

lemma mark_contracts:
  "sys.keepsP (sys.issued e n) (job_markEffectInflight (memDurablePort lc) e caller n now) (\<lambda>_ _. True)"
  "sys.keepsP (sys.issued e n) (job_markEffectSucceeded (memDurablePort lc) e caller n now receipt) (\<lambda>_ _. True)"
  "sys.keepsP (sys.issued e n) (job_markEffectUncertain (memDurablePort lc) e caller n now) (\<lambda>_ _. True)"
  unfolding job_markEffectInflight_def job_markEffectSucceeded_def job_markEffectUncertain_def
  by (auto intro!: sys.keepsP_bind_pure mark_contract)

lemma revisionIssued_issued:
  "sys.relies w \<Longrightarrow> revisionIssued e n (dw_store w) \<Longrightarrow> sys.issued e n (dw_store w)"
  by (auto simp: revisionIssued_def sys.relies_def intro: sys.issued_now split: sum.splits option.splits)

lemma durableCall_goesOn:
  assumes "durableCall lc sha256 w w'" "sys.relies w"
  shows "sys.goesOn w w'"
  using assms(1)
proof cases
  case call_start
  then show ?thesis using sys.keepsD(1) [OF sys.safe_start [where A = "\<lambda>_. True"] assms(2)] by blast
next
  case call_get
  then show ?thesis using sys.keepsD(1) [OF sys.safe_get [where A = "\<lambda>_. True"] assms(2)] by blast
next
  case call_update
  then show ?thesis using sys.keepsD(1) [OF sys.safe_update [where A = "\<lambda>_. True"] assms(2)] by blast
next
  case call_cancel
  then show ?thesis using sys.keepsD(1) [OF sys.safe_cancel [where A = "\<lambda>_. True"] assms(2)] by blast
next
  case call_stopWaiting
  then show ?thesis using sys.keepsD(1) [OF sys.safe_stopWaiting [where A = "\<lambda>_. True"] assms(2)] by blast
next
  case call_describe
  then show ?thesis using sys.keepsD(1) [OF sys.safe_describe [where A = "\<lambda>_. True"] assms(2)] by blast
next
  case call_createJob
  then show ?thesis using sys.keepsD(1) [OF sys.keeps_create_job [where A = "\<lambda>_. True"] assms(2)] by blast
next
  case call_getJob
  then show ?thesis using sys.keepsP_D(1) [OF sys.keepsP_get [where A = "\<lambda>_. True"] assms(2)] by blast
next
  case call_revokeSource
  then show ?thesis using sys.keepsD(1) [OF sys.keeps_revokeSource [where A = "\<lambda>_. True"] assms(2)] by blast
next
  case call_transition
  then show ?thesis using sys.keepsP_D(1) [OF sys.keepsP_transition [where A = "\<lambda>_. True"] assms(2)] by blast
next
  case call_beginEffect
  then show ?thesis using sys.keepsP_D(1) [OF sys.keepsP_beginEffect [where A = "\<lambda>_. True"] assms(2)] by blast
next
  case call_markInflight
  then show ?thesis
    using sys.keepsP_D(1) [OF mark_contracts(1) assms(2) revisionIssued_issued [OF assms(2)]] by blast
next
  case call_markSucceeded
  then show ?thesis
    using sys.keepsP_D(1) [OF mark_contracts(2) assms(2) revisionIssued_issued [OF assms(2)]] by blast
next
  case call_markUncertain
  then show ?thesis
    using sys.keepsP_D(1) [OF mark_contracts(3) assms(2) revisionIssued_issued [OF assms(2)]] by blast
qed

section \<open>Histories\<close>

text \<open>\<open>reaches lc sha256 s t\<close>: the store may have gone from \<open>s\<close> to \<open>t\<close>. Every step is one store call of
  some run; before and between its own calls the run has seen the store change in ways that are
  themselves histories. No step removes a record: the code deletes nothing in the namespaces of
  tasks, jobs and effects.\<close>

inductive reaches :: "(string \<Rightarrow> string \<Rightarrow> int) \<Rightarrow> (string \<Rightarrow> string) \<Rightarrow> mem_records \<Rightarrow> mem_records \<Rightarrow> bool"
  for lc :: "string \<Rightarrow> string \<Rightarrow> int" and sha256 :: "string \<Rightarrow> string" where
  reaches_refl: "reaches lc sha256 s s"
| reaches_step: "reaches lc sha256 s t \<Longrightarrow> reaches lc sha256 [] (dw_store w) \<Longrightarrow>
    (\<forall>n u. reaches lc sha256 u (dw_others w n u)) \<Longrightarrow> dw_steps w = [] \<Longrightarrow>
    durableCall lc sha256 w w' \<Longrightarrow> (t, t') \<in> set (dw_steps w') \<Longrightarrow> reaches lc sha256 s t'"

lemma sys_sound_empty: "sys.sound []"
  by (simp add: sys.sound_def)

theorem reaches_evolves: "reaches lc sha256 s t \<Longrightarrow> sys.evolves s t"
proof (induction rule: reaches.induct)
  case (reaches_refl s)
  then show ?case by blast
next
  case (reaches_step s t w w' t')
  have "sys.relies w"
    using reaches_step.IH reaches_step.hyps sys.sound_evolves [OF sys_sound_empty]
    by (auto simp: sys.relies_def)
  from durableCall_goesOn [OF _ this] reaches_step have "sys.goesOn w w'" by blast
  from sys.goesOnD(3) [OF this] reaches_step have "sys.evolves t t'" by auto
  with reaches_step.IH(1) show ?case by (rule sys.evolves_trans)
qed

lemma reaches_trans: "reaches lc sha256 t u \<Longrightarrow> reaches lc sha256 s t \<Longrightarrow> reaches lc sha256 s u"
  by (induction rule: reaches.induct) (auto intro: reaches.reaches_step)

end
