(* ===== verification/DurableRuns.thy ===== *)
theory DurableRuns
  imports DurableSystem
begin

text \<open>
  What the runs of the task methods leave in their logs: the store calls they made and the provider
  calls. Starting a task calls the provider's \<open>create\<close> at most once, and only after one of its own
  store calls has created the record of that effect.
\<close>

section \<open>Logs only grow\<close>

definition logging :: "(TaskCall \<Rightarrow> bool) \<Rightarrow> ('s task_world, 'a) action \<Rightarrow> bool" where
  "logging p m \<longleftrightarrow> (\<forall>w r w'. m w = (r, w') \<longrightarrow>
     (\<exists>cs ss. tw_calls w' = tw_calls w @ cs \<and> list_all p cs \<and> dw_steps w' = ss @ dw_steps w))"

named_theorems logging_intros \<open>which provider calls a method may make\<close>

lemma loggingD:
  assumes "logging p m" "m w = (r, w')"
  obtains cs ss where "tw_calls w' = tw_calls w @ cs" "list_all p cs" "dw_steps w' = ss @ dw_steps w"
  using assms unfolding logging_def by blast

lemma logging_execs [logging_intros]:
  "logging p (returnM x)" "logging p (throwM e)" "logging p (pureM r)" "logging p (rethrow t)"
  "logging p (\<lambda>w. (y, w))" "logging p (callStore f)" "logging p (storeGet P k)" "logging p (storeCreate P i)"
  "logging p (storeCas P k n u)"
  by (auto simp: logging_def returnM_def throwM_def pureM_def rethrow_def callStore_def storeGet_def
      storeCreate_def storeCas_def Let_def split: prod.splits sum.splits)

lemma logging_provider [logging_intros]: "p c \<Longrightarrow> logging p (callProvider c f)"
  by (auto simp: logging_def callProvider_def)

lemma logging_seq:
  assumes "logging p m" "m w = (r, w1)" "logging p n" "n w1 = (r', w')"
  shows "\<exists>cs ss. tw_calls w' = tw_calls w @ cs \<and> list_all p cs \<and> dw_steps w' = ss @ dw_steps w"
proof -
  from assms(1,2) obtain cs ss where "tw_calls w1 = tw_calls w @ cs" "list_all p cs" "dw_steps w1 = ss @ dw_steps w"
    by (rule loggingD)
  moreover from assms(3,4) obtain cs' ss' where "tw_calls w' = tw_calls w1 @ cs'" "list_all p cs'"
      "dw_steps w' = ss' @ dw_steps w1" by (rule loggingD)
  ultimately have "tw_calls w' = tw_calls w @ (cs @ cs') \<and> list_all p (cs @ cs') \<and> dw_steps w' = (ss' @ ss) @ dw_steps w"
    by simp
  then show ?thesis by blast
qed

lemma logging_bind [logging_intros]:
  assumes "logging p m" "\<And>x. logging p (f x)" shows "logging p (bindM m f)"
  unfolding logging_def
proof (intro allI impI)
  fix w r w' assume run: "bindM m f w = (r, w')"
  obtain r1 w1 where m: "m w = (r1, w1)" by (cases "m w")
  show "\<exists>cs ss. tw_calls w' = tw_calls w @ cs \<and> list_all p cs \<and> dw_steps w' = ss @ dw_steps w"
  proof (cases r1)
    case (Inl e)
    with run m assms(1) show ?thesis by (auto simp: bindM_def logging_def)
  next
    case (Inr x)
    with run m have "f x w1 = (r, w')" by (simp add: bindM_def)
    from logging_seq [OF assms(1) m assms(2) this] show ?thesis .
  qed
qed

lemma logging_catch [logging_intros]:
  assumes "logging p m" "\<And>e. logging p (h e)" shows "logging p (catchM m h)"
  unfolding logging_def
proof (intro allI impI)
  fix w r w' assume run: "catchM m h w = (r, w')"
  obtain r1 w1 where m: "m w = (r1, w1)" by (cases "m w")
  show "\<exists>cs ss. tw_calls w' = tw_calls w @ cs \<and> list_all p cs \<and> dw_steps w' = ss @ dw_steps w"
  proof (cases r1)
    case (Inl e)
    with run m have "h e w1 = (r, w')" by (simp add: catchM_def)
    from logging_seq [OF assms(1) m assms(2) this] show ?thesis .
  next
    case (Inr x)
    with run m assms(1) show ?thesis by (auto simp: catchM_def logging_def)
  qed
qed

lemma logging_then [logging_intros]: "logging p m \<Longrightarrow> logging p n \<Longrightarrow> logging p (thenM m n)"
  unfolding thenM_def by (rule logging_bind)

lemma logging_attempt [logging_intros]: "logging p m \<Longrightarrow> logging p (attemptM m)"
  unfolding logging_def attemptM_def by (auto split: prod.splits)

lemma logging_cases [logging_intros]:
  "(c \<Longrightarrow> logging p m) \<Longrightarrow> (\<not> c \<Longrightarrow> logging p n) \<Longrightarrow> logging p (if c then m else n)"
  by simp

lemma logging_case_option [logging_intros]:
  "(z = None \<Longrightarrow> logging p m) \<Longrightarrow> (\<And>x. z = Some x \<Longrightarrow> logging p (f x)) \<Longrightarrow>
    logging p (case z of None \<Rightarrow> m | Some x \<Rightarrow> f x)"
  by (cases z) auto

lemma logging_case_cas [logging_intros]:
  "(\<And>r. z = CasUpdated r \<Longrightarrow> logging p (f r)) \<Longrightarrow> (\<And>r. z = CasConflict r \<Longrightarrow> logging p (g r)) \<Longrightarrow>
    (z = CasMissing \<Longrightarrow> logging p m) \<Longrightarrow>
    logging p (case z of CasUpdated r \<Rightarrow> f r | CasConflict r \<Rightarrow> g r | CasMissing \<Rightarrow> m)"
  by (cases z) auto

section \<open>The parts of start\<close>

lemma logging_casTask [logging_intros]: "logging p (casTask P tid n s now)"
  unfolding casTask_def by (intro logging_intros)

lemma logging_transition [logging_intros]: "logging p (journal_transition P i n status now receipt)"
  unfolding journal_transition_def Let_def by (intro logging_intros)

lemma logging_claim [logging_intros]: "logging p (journal_claim P j k op now)"
  unfolding journal_claim_def Let_def
  by (intro logging_intros) (auto intro: logging_intros split: DurableCreateResult.split)

lemma logging_readDetailed [logging_intros]: "logging p (readDetailed P tid caller now)"
  unfolding readDetailed_def readTask_def by (intro logging_intros)

lemma logging_failUncertain [logging_intros]: "logging p (failUncertain P v caller now h)"
  unfolding failUncertain_def by (intro logging_intros)

lemma logging_markUncertain [logging_intros]: "logging p (markEffectUncertain P tid n now)"
  unfolding markEffectUncertain_def by (intro logging_intros)

lemma logging_resolveTaskId [logging_intros]: "logging p (resolveTaskId P sha newId input caller key now ttl)"
  unfolding resolveTaskId_def by (intro logging_intros)

lemma logging_startProvider: "p (CallCreate input) \<Longrightarrow> logging p (startProvider P rt tid input cur now)"
  unfolding startProvider_def by (intro logging_intros)

lemma logging_startClaimed:
  "p (CallCreate input) \<Longrightarrow> logging p (startClaimed P rt tid input caller cur now n)"
  unfolding startClaimed_def Let_def
  by (intro logging_intros) (auto intro!: logging_intros logging_startProvider split: sum.split)

lemma logging_startEffect: "p (CallCreate input) \<Longrightarrow> logging p (startEffect P rt tid input caller cur now)"
  unfolding startEffect_def
  by (intro logging_intros) (auto intro!: logging_intros logging_startClaimed split: EffectClaimResult.split)

lemma logging_start: "p (CallCreate input) \<Longrightarrow> logging p (task_start P sha rt uuid input caller options now)"
  unfolding task_start_def Let_def
  by (intro logging_intros) (auto intro!: logging_intros logging_startEffect split: DurableCreateResult.split)


section \<open>The provider is asked to create a task at most once\<close>

lemma bindM_run:
  assumes "bindM m f w = (r, w')"
  obtains e where "m w = (Inl e, w')" "r = Inl e" | x w1 where "m w = (Inr x, w1)" "f x w1 = (r, w')"
  using assms by (auto simp: bindM_def split: prod.splits sum.splits)

lemma bindM_pure_run:
  assumes "bindM (pureM p) f w = (r, w')"
  obtains "w' = w" | x where "p = Inr x" "f x w = (r, w')"
  using assms by (auto simp: bindM_def pureM_def split: sum.splits)

lemma silentD: "logging (\<lambda>_. False) m \<Longrightarrow> m w = (r, w') \<Longrightarrow> tw_calls w' = tw_calls w"
  by (erule loggingD, assumption) (simp add: list_all_iff)

lemmas silentD_blocks = silentD [where m = "thenM m n" for m n] silentD [where m = "catchM m h" for m h]

lemma loggingD_steps: "logging p m \<Longrightarrow> m w = (r, w') \<Longrightarrow> x \<in> set (dw_steps w) \<Longrightarrow> x \<in> set (dw_steps w')"
  by (erule loggingD) auto

lemma startProvider_calls:
  assumes "startProvider P rt tid input cur now w = (r, w')"
  shows "tw_calls w' = tw_calls w @ [CallCreate input]"
  using assms unfolding startProvider_def
proof (cases rule: bindM_run)
  case 1
  then show ?thesis by (auto simp: callProvider_def)
next
  case (2 x w1)
  have "logging (\<lambda>_. False) (bindM (casTask P tid (vt_revision cur) ((vt_state cur)\<lparr>ts_providerTaskId := Some x,
      ts_status := TaskWorking, ts_updatedAt := now, ts_nextPollAt := now\<rparr>) now)
      (\<lambda>saved. case saved of CasUpdated r \<Rightarrow> pureM (decodeTask r)
        | _ \<Rightarrow> throwM (taskError ''Provider task creation outcome is uncertain'')))"
    by (intro logging_intros)
  from silentD [OF this 2(2)] 2(1) show ?thesis by (auto simp: callProvider_def)
qed

text \<open>A store call that created the record of the effect that asks the provider to create the task.\<close>

definition claimsCreate :: "string \<Rightarrow> mem_records \<Rightarrow> mem_records \<Rightarrow> bool" where
  "claimsCreate tid s t \<longleftrightarrow> (case keyFor tid ProviderTaskCreate ''initial'' of
     Inl _ \<Rightarrow> False | Inr key \<Rightarrow> map_of s key = None \<and> map_of t key \<noteq> None)"

lemma claim_granted:
  assumes "journal_claim (memDurablePort lc) tid ProviderTaskCreate ''initial'' now w = (Inr (ClaimGranted e n), w')"
  shows "\<exists>s t. (s, t) \<in> set (dw_steps w') \<and> claimsCreate tid s t"
  using assms unfolding journal_claim_def Let_def
proof (cases rule: bindM_run)
  case (2 key w1)
  then have key: "keyFor tid ProviderTaskCreate ''initial'' = Inr key" "w1 = w"
    by (auto simp: pureM_def split: sum.splits)
  from 2(2) show ?thesis
  proof (cases rule: bindM_run)
    case (2 x w2)
    let ?s = "dw_others w1 (dw_turn w1) (dw_store w1)"
    from 2(2) obtain r where x: "x = DurableCreated r" "w2 = w'"
      by (cases x) (auto simp: bindM_def pureM_def returnM_def split: sum.splits)
    from 2(1) x obtain t where t: "mds_createIfAbsent \<lparr>nd_key = key, nd_value = encodeEffect
        \<lparr>ef_jobId = tid, ef_effectKind = ProviderTaskCreate, ef_operationKey = ''initial'',
         ef_status = EffectClaimed, ef_claimedAt = now, ef_updatedAt = now, ef_receipt = None\<rparr>,
        nd_nowMs = now, nd_expiresAt = None\<rparr> ?s = (Inr (DurableCreated r), t)" "(?s, t) \<in> set (dw_steps w')"
      by (auto simp: storeCreate_def callStore_def Let_def liftThrown_def split: prod.splits sum.splits)
    from mem_durable.create_new [of lc, unfolded memDurablePort_sel, OF t(1)]
    have "map_of ?s key = None" "map_of t key \<noteq> None" by auto
    with t(2) key show ?thesis by (auto simp: claimsCreate_def)
  qed auto
qed auto

lemma startClaimed_calls:
  assumes "startClaimed P rt tid input caller cur now n w = (r, w')"
  shows "tw_calls w' = tw_calls w \<or> tw_calls w' = tw_calls w @ [CallCreate input]"
  using assms unfolding startClaimed_def
proof (cases rule: bindM_run)
  case 1
  then show ?thesis using silentD [OF logging_transition 1(1)] by simp
next
  case (2 inflight w1)
  note calls = silentD [OF logging_transition 2(1)]
  from 2(2) [unfolded Let_def] show ?thesis
  proof (cases rule: bindM_run)
    case 1
    then show ?thesis by (auto simp: attemptM_def split: prod.splits)
  next
    case (2 started w2)
    then have "startProvider P rt tid input cur now w1 = (started, w2)"
      by (auto simp: attemptM_def split: prod.splits)
    note calls2 = startProvider_calls [OF this]
    have "tw_calls w' = tw_calls w2"
    proof (cases started)
      case (Inl e)
      show ?thesis
        by (rule silentD_blocks(1) [OF _ 2(2) [unfolded Inl sum.case]]) (intro logging_intros)
    next
      case (Inr working)
      show ?thesis
        by (rule silentD_blocks(2) [OF _ 2(2) [unfolded Inr sum.case]]) (intro logging_intros)
    qed
    with calls calls2 show ?thesis by simp
  qed
qed

lemma startEffect_calls:
  assumes run: "startEffect (memDurablePort lc) rt tid input caller cur now w = (r, w')"
  shows "tw_calls w' = tw_calls w \<or> (tw_calls w' = tw_calls w @ [CallCreate input] \<and>
    (\<exists>s t. (s, t) \<in> set (dw_steps w') \<and> claimsCreate tid s t))"
  using run unfolding startEffect_def
proof (cases rule: bindM_run)
  case 1
  then show ?thesis using silentD [OF logging_claim 1(1)] by simp
next
  case (2 claim w1)
  note calls = silentD [OF logging_claim 2(1)]
  show ?thesis
  proof (cases claim)
    case (ClaimExisting e n)
    with 2(2) silentD [OF logging_failUncertain] calls show ?thesis by fastforce
  next
    case (ClaimGranted e n)
    with 2(2) have go: "startClaimed (memDurablePort lc) rt tid input caller cur now n w1 = (r, w')" by simp
    have "logging (\<lambda>_. True) (startClaimed (memDurablePort lc) rt tid input caller cur now n)"
      by (rule logging_startClaimed) simp
    from loggingD_steps [OF this go] claim_granted [OF 2(1) [unfolded ClaimGranted]] startClaimed_calls [OF go]
      calls show ?thesis by auto
  qed
qed

text \<open>The record under the idempotency key names the task.\<close>

definition namesTask :: "(string \<Rightarrow> string) \<Rightarrow> js_value \<Rightarrow> JobCaller \<Rightarrow> string \<Rightarrow> string \<Rightarrow> mem_records \<Rightarrow> bool" where
  "namesTask sha256 input caller key tid s \<longleftrightarrow>
     (case (inputFingerprint sha256 input,
            map_of s (idempotencyRecordKey sha256 (ca_ownerId caller) (ca_credentialBinding caller) key)) of
        (Inr f, Some r) \<Rightarrow> indexedTaskId (dr_value r) f = Inr tid
      | _ \<Rightarrow> False)"

lemma resolveTaskId_named:
  assumes run: "resolveTaskId (memDurablePort lc) sha newId input caller (Some k) now ttl w = (Inr tid, w')"
  shows "\<exists>s t. (s, t) \<in> set (dw_steps w') \<and> namesTask sha input caller k tid t"
  using run unfolding resolveTaskId_def option.case
proof (cases rule: bindM_run)
  case (2 f w1)
  then have f: "inputFingerprint sha input = Inr f" by (auto simp: pureM_def split: sum.splits)
  let ?key = "idempotencyRecordKey sha (ca_ownerId caller) (ca_credentialBinding caller) k"
  from 2(2) show ?thesis
  proof (cases rule: bindM_run)
    case (2 x w2)
    let ?s = "dw_others w1 (dw_turn w1) (dw_store w1)"
    obtain t where t: "mds_createIfAbsent \<lparr>nd_key = ?key, nd_value = jsonText (indexJson newId f),
        nd_nowMs = now, nd_expiresAt = Some (jadd now ttl)\<rparr> ?s = (Inr x, t)" "(?s, t) \<in> set (dw_steps w2)"
      using 2(1) by (auto simp: storeCreate_def callStore_def Let_def liftThrown_def split: prod.splits sum.splits)
    have "map_of t ?key = Some (case x of DurableCreated r \<Rightarrow> r | DurableExists r \<Rightarrow> r)"
    proof (cases x)
      case (DurableCreated r)
      from mem_durable.create_new [of lc, unfolded memDurablePort_sel, OF t(1) [unfolded DurableCreated]] DurableCreated
      show ?thesis by simp
    next
      case (DurableExists r)
      from mem_durable.create_old [of lc, unfolded memDurablePort_sel, OF t(1) [unfolded DurableExists]] DurableExists
      show ?thesis by simp
    qed
    moreover from 2(2) have "w' = w2"
        "indexedTaskId (dr_value (case x of DurableCreated r \<Rightarrow> r | DurableExists r \<Rightarrow> r)) f = Inr tid"
      by (auto simp: pureM_def split: sum.splits)
    ultimately show ?thesis using t(2) f by (intro exI [of _ ?s] exI [of _ t]) (simp add: namesTask_def)
  qed auto
qed auto

text \<open>What \<open>start\<close> does once the record of the task has been created or found.\<close>

definition continueStart :: "'s durable_port \<Rightarrow> task_runtime \<Rightarrow> string \<Rightarrow> js_value \<Rightarrow> JobCaller \<Rightarrow>
    jsnum \<Rightarrow> DurableCreateResult \<Rightarrow> VersionedTask \<Rightarrow> ('s task_world, DetailedMcpTask) action" where
  "continueStart P rt tid input caller now created current =
     (case created of
        DurableExists _ \<Rightarrow>
          (if ts_status (vt_state current) = TaskCreating then failUncertain P current caller now False
           else pureM (toDetailed (vt_state current)))
      | DurableCreated _ \<Rightarrow> startEffect P rt tid input caller current now)"

lemma continueStart_calls:
  assumes "continueStart (memDurablePort lc) rt tid input caller now created cur w = (r, w')"
  shows "set (dw_steps w) \<subseteq> set (dw_steps w') \<and> (tw_calls w' = tw_calls w \<or>
    (tw_calls w' = tw_calls w @ [CallCreate input] \<and> (\<exists>s t. (s, t) \<in> set (dw_steps w') \<and> claimsCreate tid s t)))"
proof (cases created)
  case (DurableExists rec)
  have "logging (\<lambda>_. False) (if ts_status (vt_state cur) = TaskCreating
      then failUncertain (memDurablePort lc) cur caller now False else pureM (toDetailed (vt_state cur)))"
    by (intro logging_intros)
  from silentD [OF this, of w] loggingD_steps [OF this, of w] assms DurableExists show ?thesis
    by (auto simp: continueStart_def)
next
  case (DurableCreated rec)
  with assms have go: "startEffect (memDurablePort lc) rt tid input caller cur now w = (r, w')"
    by (simp add: continueStart_def)
  have "logging (\<lambda>_. True) (startEffect (memDurablePort lc) rt tid input caller cur now)"
    by (rule logging_startEffect) simp
  from loggingD_steps [OF this go] startEffect_calls [OF go] show ?thesis by auto
qed

lemma task_start_calls:
  assumes run: "task_start (memDurablePort lc) sha rt uuid input caller options now w = (r, w')"
  shows "tw_calls w' = tw_calls w \<or> (tw_calls w' = tw_calls w @ [CallCreate input] \<and>
    (\<exists>tid. (\<exists>s t. (s, t) \<in> set (dw_steps w') \<and> claimsCreate tid s t) \<and>
       (\<forall>k. so_idempotencyKey options = Some k \<longrightarrow>
          (\<exists>s t. (s, t) \<in> set (dw_steps w') \<and> namesTask sha input caller k tid t))))"
  using run unfolding task_start_def Let_def thenM_def continueStart_def [symmetric]
proof (cases rule: bindM_pure_run)
  case (2 u)
  from 2(2) show ?thesis
  proof (cases rule: bindM_run)
    case 1
    then show ?thesis using silentD [OF logging_resolveTaskId 1(1)] by simp
  next
    case (2 tid w2)
    note calls = silentD [OF logging_resolveTaskId 2(1)]
    have named: "\<exists>s t. (s, t) \<in> set (dw_steps w2) \<and> namesTask sha input caller k tid t"
      if "so_idempotencyKey options = Some k" for k
      using resolveTaskId_named 2(1) [unfolded that] by blast
    from 2(2) show ?thesis
    proof (cases rule: bindM_pure_run)
      case (2 v)
      from 2(2) show ?thesis
      proof (cases rule: bindM_run)
        case 1
        then show ?thesis using silentD [OF logging_execs(8) 1(1)] calls by simp
      next
        case (2 created w4)
        note calls4 = silentD [OF logging_execs(8) 2(1)] calls
        have mono: "set (dw_steps w2) \<subseteq> set (dw_steps w4)"
          using loggingD_steps [where p = "\<lambda>_. True", OF logging_execs(8) 2(1)] by blast
        from 2(2) show ?thesis
        proof (cases rule: bindM_pure_run)
          case (2 cur)
          from 2(2) show ?thesis
          proof (cases rule: bindM_pure_run)
            case (2 x)
            note c = continueStart_calls [OF 2(2)]
            have "\<exists>s t. (s, t) \<in> set (dw_steps w') \<and> namesTask sha input caller k tid t"
              if "so_idempotencyKey options = Some k" for k
              using named [OF that] mono c by blast
            with c calls4 show ?thesis by auto
          qed (use calls4 in simp)
        qed (use calls4 in simp)
      qed
    qed (use calls in simp)
  qed
qed simp


section \<open>Facts about histories\<close>

lemma claimsCreate_once:
  assumes "claimsCreate tid s t" "reaches lc sha256 t u" shows "\<not> claimsCreate tid u v"
proof -
  from assms(1) obtain key r where key: "keyFor tid ProviderTaskCreate ''initial'' = Inr key" "map_of t key = Some r"
    by (auto simp: claimsCreate_def split: sum.splits)
  from reaches_evolves [OF assms(2)] this(2) obtain r' where "map_of u key = Some r'" by (rule sys.evolvesE)
  with key show ?thesis by (simp add: claimsCreate_def)
qed

lemma namesTask_fixed:
  assumes "namesTask sha256 input caller k tid s" "reaches lc sha256 s t"
  shows "namesTask sha256 input caller k tid' t \<longleftrightarrow> tid' = tid"
proof -
  let ?key = "idempotencyRecordKey sha256 (ca_ownerId caller) (ca_credentialBinding caller) k"
  from assms(1) obtain f r where f: "inputFingerprint sha256 input = Inr f" "map_of s ?key = Some r"
      "indexedTaskId (dr_value r) f = Inr tid"
    by (auto simp: namesTask_def split: sum.splits option.splits)
  from reaches_evolves [OF assms(2)] this(2) obtain r' where "map_of t ?key = Some r'" "sys.moves ?key r r'"
    by (rule sys.evolvesE)
  moreover from this(2) have "dr_value r' = dr_value r"
    by (simp add: sys.moves_def durableR_def)
  ultimately show ?thesis using f by (auto simp: namesTask_def)
qed

lemma bindM_pure_Inr: "bindM (pureM (Inr x)) f = f x"
  by (rule ext) (simp add: bindM_def method_simps)

text \<open>The first store call of a start without an idempotency key.\<close>

lemma start_records:
  assumes "startGuards caller options ttl now = Inr ()" "so_idempotencyKey options = None"
    and "ttl = (case so_ttlMs options of Some t \<Rightarrow> t | None \<Rightarrow> DEFAULT_MCP_TASK_TTL_MS)"
    and "encodeTask (initialTask rt (''ajob-'' @ uuid) input caller None now ttl) = Inr v"
    and "mds_createIfAbsent \<lparr>nd_key = taskKey (''ajob-'' @ uuid), nd_value = v, nd_nowMs = now,
      nd_expiresAt = Some (jadd now ttl)\<rparr> (dw_others w (dw_turn w) (dw_store w)) = (Inr x, t)"
    and "task_start (memDurablePort lc) sha rt uuid input caller options now w = (r, w')"
  shows "(dw_others w (dw_turn w) (dw_store w), t) \<in> set (dw_steps w')"
proof -
  let ?w = "w\<lparr>dw_store := t, dw_turn := Suc (dw_turn w),
    dw_steps := (dw_others w (dw_turn w) (dw_store w), t) # dw_steps w\<rparr>"
  obtain m where m: "logging (\<lambda>_. True) m" "m ?w = (r, w')"
  proof
    let ?m = "bindM (pureM (decodeTask (case x of DurableCreated r \<Rightarrow> r | DurableExists r \<Rightarrow> r))) (\<lambda>current.
       thenM (pureM (andThen (assertTaskCaller (vt_state current) caller)
         (throwIf (\<not> sameRequest (vt_state current) None input)
            (taskError ''Idempotency key is already bound to a different task request''))))
       (case x of
          DurableExists _ \<Rightarrow>
            (if ts_status (vt_state current) = TaskCreating
             then failUncertain (memDurablePort lc) current caller now False
             else pureM (toDetailed (vt_state current)))
        | DurableCreated _ \<Rightarrow> startEffect (memDurablePort lc) rt (''ajob-'' @ uuid) input caller current now))"
    show "logging (\<lambda>_. True) ?m"
      by (intro logging_intros) (auto intro!: logging_intros logging_startEffect split: DurableCreateResult.split)
    show "?m ?w = (r, w')"
      using assms
      by (simp add: task_start_def resolveTaskId_def thenM_def bindM_pure_Inr bindM_return storeCreate_def
          bindM_def [where m = "callStore f" for f] method_simps callStore_def del: append.simps)
  qed
  from loggingD_steps [OF m] show ?thesis by simp
qed

lemma job_create_records:
  assumes "createJobGuards i = Inr ()" "dw_others w (dw_turn w) (dw_store w) = s"
    and "mds_createIfAbsent \<lparr>nd_key = jobKey (dj_jobId (newJob sha i)), nd_value = encodeJob (newJob sha i),
      nd_nowMs = cd_nowMs i, nd_expiresAt = Some (cd_expiresAt i)\<rparr> s = (Inr x, t)"
    and "job_createIfAbsent (memDurablePort lc) sha i w = (r, w')"
  shows "(s, t) \<in> set (dw_steps w')"
  using assms
  by (cases x) (auto simp: job_createIfAbsent_def Let_def thenM_def bindM_pure_Inr storeCreate_def bindM_def callStore_def
      method_simps pureM_def returnM_def split: sum.splits)

lemma begin_records:
  assumes "dw_others w = (\<lambda>_ s. s)" "dw_store w = s"
    and "map_of s (jobKey (ei_jobId e)) = Some c" "decodeJobText (dr_value c) = Inr j"
    and "andThen (andThen (assertBounded (ei_jobId e) ''jobId'' MAX_DOCUMENT_JOB_IDENTITY_CHARS)
        (assertTimestamp now ''nowMs'')) (andThen (validateDurableKey (jobKey (ei_jobId e)))
        (assertJobCaller j caller)) = Inr ()"
    and "jlt now (dj_expiresAt j) \<and> \<not> jobTerminal (dj_status j)"
    and "keyFor (ei_jobId e) (ei_effectKind e) (ei_operationKey e) = Inr key"
    and "mds_createIfAbsent \<lparr>nd_key = key, nd_value = encodeEffect \<lparr>ef_jobId = ei_jobId e,
        ef_effectKind = ei_effectKind e, ef_operationKey = ei_operationKey e, ef_status = EffectClaimed,
        ef_claimedAt = now, ef_updatedAt = now, ef_receipt = None\<rparr>, nd_nowMs = now, nd_expiresAt = None\<rparr> s =
      (Inr (DurableCreated r), t)"
    and "job_beginEffect (memDurablePort lc) e caller now w = Some (b, w')"
  shows "(s, t) \<in> set (dw_steps w')"
proof -
  let ?w = "w\<lparr>dw_turn := Suc (dw_turn w), dw_steps := (s, s) # dw_steps w\<rparr>"
  let ?v = "\<lparr>vj_job = j, vj_revision = dr_revision c\<rparr>"
  have "job_getRound (memDurablePort lc) (ei_jobId e) caller now w = (Inr (Some ?v), ?w)"
    using assms(1-6) by (auto simp: job_getRound_def bindM_def thenM_def method_simps storeGet_def callStore_def
      Let_def mds_get_def decodeJob_def res_simps)
  then have "job_getLoop (memDurablePort lc) (ei_jobId e) caller now w = Some (Inr ?v, ?w)"
    by (subst job_getLoop.simps) simp
  with assms(5) have "job_get (memDurablePort lc) (ei_jobId e) caller now w = Some (Inr ?v, ?w)"
    by (auto simp: job_get_def bindP_def returningM_def method_simps res_simps)
  with assms show ?thesis
    by (auto simp: job_beginEffect_def bindP_def returningM_def claimEffect_def journal_claim_def Let_def
      bindM_pure_Inr storeCreate_def bindM_def callStore_def method_simps)
qed

section \<open>Foreign callers\<close>

lemma reached_task:
  assumes "reaches lc sha256 [] s" "map_of s (taskKey tid) = Some r"
  obtains v where "decodeTaskText (dr_value r) = Inr v" "taskAt (taskKey tid) v"
proof -
  have "sys.sound s" using reaches_evolves [OF assms(1)] sys_sound_empty sys.sound_evolves by blast
  with assms(2) have "taskValue (taskKey tid) (dr_value r)"
    unfolding sys.sound_def durableN_def by simp
  with that show thesis by (auto simp: taskValue_def)
qed

lemma readTask_foreign:
  assumes "reaches lc sha256 [] (dw_store w)" "\<And>n s. reaches lc sha256 s (dw_others w n s)" "dw_steps w = []"
    and "map_of (dw_store w) (taskKey tid) = Some r" "decodeTaskText (dr_value r) = Inr v"
    and "ts_ownerId v \<noteq> ca_ownerId caller \<or> ts_credentialBinding v \<noteq> ca_credentialBinding caller"
  shows "\<exists>e w'. readTask (memDurablePort lc) tid caller now w = (Inl e, w') \<and>
      (\<forall>(s, t) \<in> set (dw_steps w'). t = s) \<and> tw_calls w' = tw_calls w"
proof (cases "andThen (assertIdentity tid ''taskId'') (validateTaskTime now)")
  case (Inl e)
  then show ?thesis using assms(3) by (simp add: readTask_def thenM_def bindM_def pureM_def)
next
  case (Inr x)
  let ?s = "dw_others w (dw_turn w) (dw_store w)"
  have v: "taskAt (taskKey tid) v" by (rule reached_task [OF assms(1,4)]) (use assms(5) in simp)
  from reaches_evolves [OF assms(2)] assms(4) obtain r' where
    r': "map_of ?s (taskKey tid) = Some r'" "sys.moves (taskKey tid) r r'" by (rule sys.evolvesE)
  then have "taskMove (taskKey tid) (dr_value r) (dr_value r')" by (simp add: sys.moves_def durableR_def)
  from taskMoveE [OF this assms(5) v] obtain v' where v': "decodeTaskText (dr_value r') = Inr v'" "taskStep v v'" .
  then have "\<exists>e. assertTaskCaller v' caller = Inl e"
    using assms(6) by (auto simp: assertTaskCaller_def taskStep_def taskIdentity_def res_simps throwIf_def)
  then obtain e where e: "assertTaskCaller v' caller = Inl e" ..
  show ?thesis
  proof (cases "validateDurableKey (taskKey tid)")
    case (Inl e')
    then show ?thesis using Inr assms(3)
      by (simp add: readTask_def thenM_def bindM_def method_simps storeGet_def callStore_def mds_get_def andThen_def
          Let_def)
  next
    case (Inr u)
    then have "dp_get (memDurablePort lc) (taskKey tid) ?s = Inr (Some r')"
      using r'(1) by (simp add: mds_get_def andThen_def)
    with e v'(1) \<open>_ = Inr x\<close> assms(3) show ?thesis
      by (simp add: readTask_def thenM_def bindM_def method_simps storeGet_def callStore_def decodeTask_def
        andThen_def Let_def)
  qed
qed

section \<open>Keys of effects\<close>

lemma colon_split: "a @ CHR '':'' # b = c @ CHR '':'' # d \<Longrightarrow> CHR '':'' \<notin> set a \<Longrightarrow> CHR '':'' \<notin> set c \<Longrightarrow> a = c \<and> b = d"
proof (induction a arbitrary: c)
  case Nil
  then show ?case by (cases c) auto
next
  case (Cons x a)
  then show ?case by (cases c) auto
qed

lemma effectKindName_colon [simp]: "CHR '':'' \<notin> set (effectKindName k)"
  by (cases k) simp_all

lemma effectKindName_eq [simp]: "effectKindName k = effectKindName k' \<longleftrightarrow> k = k'"
  by (cases k; cases k') simp_all

lemma count_list_effect:
  "keyFor j k op = Inr key \<Longrightarrow> count_list key (CHR '':'') = 3 + count_list j (CHR '':'') + count_list op (CHR '':'')"
  by (cases k) (auto simp: keyFor_def Let_def split: if_splits)

text \<open>Without a colon in the parts, the kind of an effect can be read off its key.\<close>

lemma cancelKey_kind:
  assumes "keyFor j k op = Inr key" "CHR '':'' \<notin> set j" "CHR '':'' \<notin> set op"
  shows "cancelKey key \<longleftrightarrow> k = ProviderTaskCancel"
proof
  assume "cancelKey key"
  then obtain j' op' where k': "keyFor j' ProviderTaskCancel op' = Inr key" by (auto simp: cancelKey_def)
  from count_list_effect [OF assms(1)] count_list_effect [OF k'] assms(2,3)
  have "CHR '':'' \<notin> set j'" "CHR '':'' \<notin> set op'" by (simp_all add: count_list_0_iff)
  moreover from assms(1) k' have "j' @ CHR '':'' # (effectKindName ProviderTaskCancel @ CHR '':'' # op')
      = j @ CHR '':'' # (effectKindName k @ CHR '':'' # op)"
    by (auto simp: keyFor_def Let_def split: if_splits)
  ultimately have "effectKindName ProviderTaskCancel @ CHR '':'' # op' = effectKindName k @ CHR '':'' # op"
    using assms(2) colon_split by blast
  then have "effectKindName ProviderTaskCancel = effectKindName k"
    using colon_split effectKindName_colon by blast
  then show "k = ProviderTaskCancel" by (simp only: effectKindName_eq)
qed (use assms in \<open>auto simp: cancelKey_def\<close>)

end
