(* ===== verification/DurableProperties.thy ===== *)
theory DurableProperties
  imports DurableRuns
begin

text \<open>
  The properties of the durable store, the effect journal, the task runtime and the job repository,
  each under arbitrary interleaving with other requests, and small histories on which they are
  applied.
\<close>

section \<open>The in-memory store\<close>

datatype store_op =
    StoreCreate NewDurableRecord
  | StoreCas string int DurableRecordUpdate
  | StoreDelete string int

text \<open>One operation: whether it deleted a record, and the store after it.\<close>

fun runStoreOp :: "store_op \<Rightarrow> mem_records \<Rightarrow> bool \<times> mem_records" where
  "runStoreOp (StoreCreate i) s = (False, snd (mds_createIfAbsent i s))"
| "runStoreOp (StoreCas k n u) s = (False, snd (mds_compareAndSwap k n u s))"
| "runStoreOp (StoreDelete k n) s =
     (fst (mds_deleteIfRevision k n s) = Inr DeleteDone, snd (mds_deleteIfRevision k n s))"

fun storeOpKey :: "store_op \<Rightarrow> string" where
  "storeOpKey (StoreCreate i) = nd_key i"
| "storeOpKey (StoreCas k n u) = k"
| "storeOpKey (StoreDelete k n) = k"

text \<open>No operation of the list deletes the record under the key.\<close>

fun keepsKey :: "string \<Rightarrow> store_op list \<Rightarrow> mem_records \<Rightarrow> bool" where
  "keepsKey k [] s = True"
| "keepsKey k (x # xs) s =
     (\<not> (storeOpKey x = k \<and> fst (runStoreOp x s)) \<and> keepsKey k xs (snd (runStoreOp x s)))"

definition runStoreOps :: "store_op list \<Rightarrow> mem_records \<Rightarrow> mem_records" where
  "runStoreOps xs s = fold (\<lambda>x s. snd (runStoreOp x s)) xs s"

lemma runStoreOp_revision:
  assumes "map_of s k = Some c" "\<not> (storeOpKey x = k \<and> fst (runStoreOp x s))"
  shows "\<exists>c'. map_of (snd (runStoreOp x s)) k = Some c' \<and> dr_revision c \<le> dr_revision c'"
  using assms
  by (cases x) (auto simp: mds_createIfAbsent_def mds_compareAndSwap_def mds_deleteIfRevision_def
      delete_conv' swappedRecord_def update_conv' split: sum.splits option.splits)

lemma runStoreOps_revision:
  "map_of s k = Some c \<Longrightarrow> keepsKey k xs s \<Longrightarrow>
    \<exists>c'. map_of (runStoreOps xs s) k = Some c' \<and> dr_revision c \<le> dr_revision c'"
proof (induction xs arbitrary: s c)
  case (Cons x xs)
  from runStoreOp_revision [OF Cons.prems(1)] Cons.prems(2) obtain c1 where
    c1: "map_of (snd (runStoreOp x s)) k = Some c1" "dr_revision c \<le> dr_revision c1" by auto
  from Cons.IH [OF this(1)] Cons.prems(2) c1(2) show ?case by (fastforce simp: runStoreOps_def)
qed (simp add: runStoreOps_def)

text \<open>C7. A revision of a record is spent by the first write at it: once a compare-and-swap at a revision
  has succeeded, whatever operations follow on whatever keys, no other one at that revision succeeds
  unless the record has been deleted in between.\<close>

theorem revision_spent_once:
  assumes "mds_compareAndSwap k n u s = (Inr (CasUpdated r), s1)"
    and "keepsKey k xs s1"
  shows "\<not> (\<exists>r'. fst (mds_compareAndSwap k n u' (runStoreOps xs s1)) = Inr (CasUpdated r'))"
proof -
  from assms(1) have "map_of s1 k = Some r" "dr_revision r = n + 1"
    by (auto simp: mds_compareAndSwap_def swappedRecord_def split: sum.splits option.splits if_splits)
  with runStoreOps_revision [OF _ assms(2)] obtain c where
    "map_of (runStoreOps xs s1) k = Some c" "n < dr_revision c" by fastforce
  then show ?thesis
    by (auto simp: mds_compareAndSwap_def split: sum.splits)
qed

definition demoUpdate :: "string \<Rightarrow> DurableRecordUpdate" where
  "demoUpdate v = \<lparr>du_value = v, du_nowMs = jint 2, du_expiresAt = None\<rparr>"

definition demoRecords :: mem_records where
  "demoRecords = [(''k'', \<lparr>dr_key = ''k'', dr_value = ''a'', dr_revision = 1, dr_createdAt = jint 1,
     dr_updatedAt = jint 1, dr_expiresAt = None\<rparr>)]"

lemma revision_spent_once_witness:
  "let (x, s1) = mds_compareAndSwap ''k'' 1 (demoUpdate ''b'') demoRecords;
       s2 = runStoreOps [StoreCas ''k'' 2 (demoUpdate ''c''), StoreDelete ''k'' 1] s1
   in (\<exists>r. x = Inr (CasUpdated r)) \<and>
      \<not> (\<exists>r'. fst (mds_compareAndSwap ''k'' 1 (demoUpdate ''d'') s2) = Inr (CasUpdated r'))"
proof -
  obtain r s1 where run: "mds_compareAndSwap ''k'' 1 (demoUpdate ''b'') demoRecords = (Inr (CasUpdated r), s1)"
    and keep: "keepsKey ''k'' [StoreCas ''k'' 2 (demoUpdate ''c''), StoreDelete ''k'' 1] s1"
  proof -
    have "\<exists>r s1. mds_compareAndSwap ''k'' 1 (demoUpdate ''b'') demoRecords = (Inr (CasUpdated r), s1) \<and>
        keepsKey ''k'' [StoreCas ''k'' 2 (demoUpdate ''c''), StoreDelete ''k'' 1] s1"
      by (simp add: mds_compareAndSwap_def mds_deleteIfRevision_def demoRecords_def demoUpdate_def
        validateDurableKey_def MAX_DURABLE_KEY_CHARS_def durableKeyChar_def validateDurableWrite_def
        validateDurableValue_def MAX_DURABLE_METADATA_BYTES_def utf8Length_def swappedRecord_def
        isSafeInteger_def res_simps)
    with that show thesis by blast
  qed
  from revision_spent_once [OF this] run show ?thesis by simp
qed

section \<open>Small histories\<close>

definition demoProvider :: AsyncTaskProviderPort where
  "demoProvider = \<lparr>tp_id = ''demo'', tp_parseInput = Inr, tp_create = (\<lambda>n i. Inr ''p-1''),
     tp_poll = (\<lambda>n h i. Inr \<lparr>po_status = PollCompleted, po_result = Some [], po_inputRequests = None,
       po_error = None, po_billing = None\<rparr>), tp_update = None, tp_cancel = None\<rparr>"

definition demoRuntime :: task_runtime where
  "demoRuntime = \<lparr>rt_provider = demoProvider, rt_pollIntervalMs = jint 5000\<rparr>"

definition demoWorld :: "mem_records \<Rightarrow> mem_world" where
  "demoWorld s = \<lparr>dw_store = s, dw_turn = 0, dw_others = (\<lambda>_ s. s), dw_steps = [], tw_calls = []\<rparr>"

lemma demoWorld_reaches:
  assumes "durableCall lc sha256 (demoWorld s) w'" "reaches lc sha256 [] s" "(s, t) \<in> set (dw_steps w')"
  shows "reaches lc sha256 [] t"
  by (rule reaches_step [OF assms(2) _ _ _ assms(1,3)]) (simp_all add: demoWorld_def assms(2) reaches_refl)

definition demoCaller :: JobCaller where
  "demoCaller = \<lparr>ca_ownerId = ''o'', ca_credentialBinding = ''c''\<rparr>"

definition demoTask :: DurableTaskState where
  "demoTask = initialTask demoRuntime ''ajob-1'' (JString ''q'') demoCaller None (jint 1000) (jint 3600000)"

definition demoOptions :: StartMcpTaskOptions where
  "demoOptions = \<lparr>so_ttlMs = None, so_idempotencyKey = None\<rparr>"

definition demoLocale :: "string \<Rightarrow> string \<Rightarrow> int" where
  "demoLocale a b = 0"

definition demoSha :: "string \<Rightarrow> string" where
  "demoSha s = ''h''"

lemmas demo_defs = demoTask_def demoRuntime_def demoProvider_def demoCaller_def demoOptions_def initialTask_def

lemmas durable_validators = validateDurableKey_def MAX_DURABLE_KEY_CHARS_def durableKeyChar_def
  validateDurableWrite_def validateDurableValue_def MAX_DURABLE_METADATA_BYTES_def isSafeInteger_def res_simps

lemma demo_encode: "\<exists>v. encodeTask demoTask = Inr v \<and> utf8Length v < 10000"
proof -
  have "utf8Length (jsonText (taskJson demoTask)) < 10000"
    by (simp add: demo_defs taskJson_def jsonText_def utf8Length_def jsonString_def jsonEscape_def
      memberTexts_def orNull_def showInt_def showNat.simps)
  then show ?thesis by (simp add: encodeTask_def MAX_ENCODED_STATE_BYTES_def Let_def)
qed

lemma demo_guards: "startGuards demoCaller demoOptions (jint 3600000) (jint 1000) = Inr ()"
  by (simp add: demo_defs startGuards_def validateTaskTime_def assertIdentity_def MAX_IDENTITY_CHARS_def
      isSafeInteger_def res_simps)

text \<open>A start of a task, after its first store call.\<close>

lemma demo_task_reached:
  "\<exists>s r. reaches demoLocale demoSha [] s \<and> map_of s (taskKey ''ajob-1'') = Some r \<and>
     decodeTaskText (dr_value r) = Inr demoTask"
proof -
  from demo_encode obtain v where v: "encodeTask demoTask = Inr v" "utf8Length v < 10000" by blast
  let ?i = "\<lparr>nd_key = taskKey ''ajob-1'', nd_value = v, nd_nowMs = jint 1000, nd_expiresAt = Some (jint 3601000)\<rparr>"
  let ?s = "[(taskKey ''ajob-1'', newRecord ?i)]"
  have create: "mds_createIfAbsent ?i [] = (Inr (DurableCreated (newRecord ?i)), ?s)"
    using v(2) by (simp add: mds_createIfAbsent_def durable_validators taskKey_def)
  obtain r w' where run: "task_start (memDurablePort demoLocale) demoSha demoRuntime ''1'' (JString ''q'') demoCaller
      demoOptions (jint 1000) (demoWorld []) = (r, w')" by fastforce
  have "([], ?s) \<in> set (dw_steps w')"
    using start_records [OF demo_guards _ _ _ _ run, of v] create v(1)
    by (simp add: demoOptions_def DEFAULT_MCP_TASK_TTL_MS_def demoWorld_def demoTask_def)
  moreover have call: "durableCall demoLocale demoSha (demoWorld []) w'"
    by (rule call_start [OF run]) (simp_all add: assertIdentity_def MAX_IDENTITY_CHARS_def res_simps demoRuntime_def)
  ultimately have "reaches demoLocale demoSha [] ?s"
    by (intro demoWorld_reaches [OF call reaches_refl])
  moreover have "taskOk demoTask"
    unfolding demoTask_def
    by (rule initialTask_ok [OF demo_guards]) (simp_all add: assertIdentity_def MAX_IDENTITY_CHARS_def res_simps demoRuntime_def)
  ultimately show ?thesis using decode_encode_task [OF _ v(1)]
    by (intro exI [of _ ?s] exI [of _ "newRecord ?i"]) (simp add: newRecord_def)
qed

section \<open>Tasks\<close>

text \<open>C1. A stored task under any interleaving of requests by any number of workers, each seeing the store
  change between its own calls: every task record can be read back as the task of its key, the record
  is never lost, its revision only grows and identifies it, the identity, request and expiry of the
  task are fixed, and once the task is completed, failed or cancelled its status, result, error and
  billing stay as they are. Answered input requests stay answered and cancellations stay recorded.\<close>

theorem task_history:
  assumes "reaches lc sha256 [] s" "reaches lc sha256 s t" "map_of s (taskKey tid) = Some r"
  shows "\<exists>v r' v'. decodeTaskText (dr_value r) = Inr v \<and> ts_taskId v = tid \<and>
    map_of t (taskKey tid) = Some r' \<and> decodeTaskText (dr_value r') = Inr v' \<and>
    dr_revision r \<le> dr_revision r' \<and> (dr_revision r' = dr_revision r \<longrightarrow> r' = r) \<and>
    taskIdentity v' = taskIdentity v \<and>
    (taskTerminal (ts_status v) \<longrightarrow> taskOutcome v' = taskOutcome v) \<and>
    (ts_providerTaskId v \<noteq> None \<longrightarrow> ts_providerTaskId v' = ts_providerTaskId v) \<and>
    set (ts_usedInputKeys v) \<subseteq> set (ts_usedInputKeys v') \<and>
    (ts_callerCancelled v \<longrightarrow> ts_callerCancelled v') \<and>
    (ts_upstreamCancelled v \<longrightarrow> ts_upstreamCancelled v')"
proof -
  from reached_task [OF assms(1,3)] obtain v where
    v: "decodeTaskText (dr_value r) = Inr v" "taskAt (taskKey tid) v" .
  from reaches_evolves [OF assms(2)] assms(3) obtain r' where
    r': "map_of t (taskKey tid) = Some r'" "sys.moves (taskKey tid) r r'" by (rule sys.evolvesE)
  from this(2) have m: "taskMove (taskKey tid) (dr_value r) (dr_value r')" "dr_revision r \<le> dr_revision r'"
      "dr_revision r' = dr_revision r \<longrightarrow> r' = r"
    by (auto simp: sys.moves_def durableR_def)
  from m(1) v obtain v' where "decodeTaskText (dr_value r') = Inr v'" "taskStep v v'" by (rule taskMoveE)
  with v r'(1) m(2,3) show ?thesis unfolding taskStep_def taskAt_def by auto
qed

lemma task_history_witness:
  "\<exists>s r v. reaches demoLocale demoSha [] s \<and> map_of s (taskKey ''ajob-1'') = Some r \<and>
     decodeTaskText (dr_value r) = Inr v \<and> ts_taskId v = ''ajob-1''"
proof -
  from demo_task_reached obtain s r where s: "reaches demoLocale demoSha [] s"
    "map_of s (taskKey ''ajob-1'') = Some r" by blast
  from task_history [OF s(1) reaches_refl s(2)] s show ?thesis by blast
qed

text \<open>C5. A caller who is not the owner of a task, or whose credential differs, gets an error from every
  method on it and changes nothing, whatever happens concurrently: the owner of a stored task cannot
  change.\<close>

theorem task_foreign_caller:
  assumes "reaches lc sha256 [] (dw_store w)" "\<And>n s. reaches lc sha256 s (dw_others w n s)" "dw_steps w = []"
    and "map_of (dw_store w) (taskKey tid) = Some r" "decodeTaskText (dr_value r) = Inr v"
    and "ts_ownerId v \<noteq> ca_ownerId caller \<or> ts_credentialBinding v \<noteq> ca_credentialBinding caller"
  shows "\<exists>e w'. task_get (memDurablePort lc) rt tid caller aborted now w = (Inl e, w') \<and>
      task_update (memDurablePort lc) sha256 rt tid responses caller now w = (Inl e, w') \<and>
      task_cancel (memDurablePort lc) rt tid caller now w = (Inl e, w') \<and>
      task_stopWaiting (memDurablePort lc) tid caller now w = (Inl e, w') \<and>
      task_describe (memDurablePort lc) rt tid caller aborted now w = (Inl e, w') \<and>
      (\<forall>(s, t) \<in> set (dw_steps w'). t = s) \<and> tw_calls w' = tw_calls w"
proof -
  from readTask_foreign [OF assms] obtain e w' where
    read: "readTask (memDurablePort lc) tid caller now w = (Inl e, w')"
    and w': "\<forall>(s, t) \<in> set (dw_steps w'). t = s" "tw_calls w' = tw_calls w" by blast
  have b: "bindM (readTask (memDurablePort lc) tid caller now) f w = (Inl e, w')" for f :: "_ \<Rightarrow> (_, 'a) action"
    by (simp add: bindM_def read)
  show ?thesis
    by (intro exI [of _ e] exI [of _ w'])
      (simp add: task_get_def task_update_def task_cancel_def cancelPublicly_def task_stopWaiting_def
        task_describe_def bindM_assoc b w')
qed

lemma task_foreign_caller_witness:
  "\<exists>s w'. reaches demoLocale demoSha [] s \<and>
     fst (task_get (memDurablePort demoLocale) demoRuntime ''ajob-1'' \<lparr>ca_ownerId = ''x'', ca_credentialBinding = ''c''\<rparr>
       False (jint 2000) (demoWorld s)) = Inl w'"
proof -
  from demo_task_reached obtain s r where s: "reaches demoLocale demoSha [] s"
    "map_of s (taskKey ''ajob-1'') = Some r" "decodeTaskText (dr_value r) = Inr demoTask" by blast
  have "\<exists>e w'. task_get (memDurablePort demoLocale) demoRuntime ''ajob-1''
      \<lparr>ca_ownerId = ''x'', ca_credentialBinding = ''c''\<rparr> False (jint 2000) (demoWorld s) = (Inl e, w')"
    using task_foreign_caller [of demoLocale demoSha "demoWorld s" "''ajob-1''" r demoTask
        "\<lparr>ca_ownerId = ''x'', ca_credentialBinding = ''c''\<rparr>" demoRuntime False "jint 2000" "[]"]
      s by (auto simp: demoWorld_def demo_defs intro: reaches_refl)
  with s(1) show ?thesis by fastforce
qed

text \<open>C2. The provider is asked to create a task at most once. A run of \<open>start\<close> makes at most one
  \<open>create\<close> call, and only if one of its own store calls has created the effect record of the task;
  in no continuation of the history does any store call create that record again, so no other run
  makes the call for this task, after a crash or a concurrent retry either. With an idempotency key the
  task is the one that the owner's index record names, and the index never names another one.\<close>

theorem task_created_upstream_once:
  assumes "task_start (memDurablePort lc) sha256 rt uuid input caller options now w = (r, w')"
    and "dw_steps w = []"
  shows "tw_calls w' = tw_calls w \<or> (tw_calls w' = tw_calls w @ [CallCreate input] \<and>
    (\<exists>tid. (\<exists>s t. (s, t) \<in> set (dw_steps w') \<and> claimsCreate tid s t \<and>
         (\<forall>u v. reaches lc sha256 t u \<longrightarrow> \<not> claimsCreate tid u v)) \<and>
       (\<forall>k. so_idempotencyKey options = Some k \<longrightarrow>
          (\<exists>s t. (s, t) \<in> set (dw_steps w') \<and>
             (\<forall>u tid'. reaches lc sha256 t u \<longrightarrow> (namesTask sha256 input caller k tid' u \<longleftrightarrow> tid' = tid))))))"
  using task_start_calls [OF assms(1)]
proof (elim disjE conjE exE)
  fix tid s t
  assume calls: "tw_calls w' = tw_calls w @ [CallCreate input]"
    and claim: "(s, t) \<in> set (dw_steps w')" "claimsCreate tid s t"
    and named: "\<forall>k. so_idempotencyKey options = Some k \<longrightarrow>
      (\<exists>s t. (s, t) \<in> set (dw_steps w') \<and> namesTask sha256 input caller k tid t)"
  have "\<exists>s t. (s, t) \<in> set (dw_steps w') \<and>
      (\<forall>u tid'. reaches lc sha256 t u \<longrightarrow> (namesTask sha256 input caller k tid' u \<longleftrightarrow> tid' = tid))"
    if "so_idempotencyKey options = Some k" for k
    using named that namesTask_fixed by meson
  with calls claim claimsCreate_once [OF claim(2)] show ?thesis by blast
qed simp

lemma task_created_upstream_once_witness:
  "let w' = snd (task_start (memDurablePort demoLocale) demoSha demoRuntime ''1'' (JString ''q'') demoCaller
     demoOptions (jint 1000) (demoWorld []))
   in length (tw_calls w') \<le> 1"
proof -
  obtain r w' where run: "task_start (memDurablePort demoLocale) demoSha demoRuntime ''1'' (JString ''q'') demoCaller
      demoOptions (jint 1000) (demoWorld []) = (r, w')" by fastforce
  have "tw_calls (demoWorld []) = []" "dw_steps (demoWorld []) = []" by (simp_all add: demoWorld_def)
  with task_created_upstream_once [OF run] have "length (tw_calls w') \<le> 1" by auto
  then show ?thesis unfolding run by simp
qed

section \<open>Jobs\<close>

text \<open>C4. A stored document job under any interleaving: its record is never lost and can always be read
  back, its identity, request and expiry are fixed, its status only advances, a cancelled or expired
  job never changes again, and a completed or failed one keeps its result until it expires, not before
  its expiry.\<close>

theorem job_history:
  assumes "reaches lc sha256 [] s" "reaches lc sha256 s t" "map_of s (jobKey jid) = Some r"
  shows "\<exists>j r' j'. decodeJobText (dr_value r) = Inr j \<and> dj_jobId j = jid \<and>
    map_of t (jobKey jid) = Some r' \<and> decodeJobText (dr_value r') = Inr j' \<and>
    dr_revision r \<le> dr_revision r' \<and> (dr_revision r' = dr_revision r \<longrightarrow> r' = r) \<and>
    jobIdentity j' = jobIdentity j \<and> jobOrder (dj_status j) \<le> jobOrder (dj_status j') \<and>
    (dj_status j \<in> {JobCancelled, JobExpired} \<longrightarrow> j' = j) \<and>
    (dj_status j \<in> {JobCompleted, JobFailed} \<longrightarrow> j' = j \<or> (\<exists>at'. j' = expiredJob j at' \<and> jle (dj_expiresAt j) at'))"
proof -
  have "sys.sound s" using reaches_evolves [OF assms(1)] sys_sound_empty sys.sound_evolves by blast
  with assms(3) have "jobValue (jobKey jid) (dr_value r)"
    by (auto simp: sys.sound_def durableN_def)
  then obtain j where j: "decodeJobText (dr_value r) = Inr j" "jobAt (jobKey jid) j"
    by (auto simp: jobValue_def)
  from reaches_evolves [OF assms(2)] assms(3) obtain r' where
    r': "map_of t (jobKey jid) = Some r'" "sys.moves (jobKey jid) r r'" by (rule sys.evolvesE)
  from this(2) have m: "jobMove (jobKey jid) (dr_value r) (dr_value r')" "dr_revision r \<le> dr_revision r'"
      "dr_revision r' = dr_revision r \<longrightarrow> r' = r"
    by (auto simp: sys.moves_def durableR_def)
  from m(1) j obtain j' where "decodeJobText (dr_value r') = Inr j'" "jobStep j j'"
    unfolding jobMove_def by blast
  with j r'(1) m(2,3) show ?thesis unfolding jobStep_def jobAt_def by auto
qed

definition demoJobInput :: CreateDocumentJobInput where
  "demoJobInput = \<lparr>cd_ownerId = ''o'', cd_credentialBinding = ''c'', cd_idempotencyKey = ''k'',
     cd_requestFingerprint = ''f'', cd_nowMs = jint 10, cd_expiresAt = jint 50\<rparr>"

lemma demo_job_reached:
  "\<exists>s r. reaches demoLocale demoSha [] s \<and> map_of s (jobKey ''djob-h'') = Some r \<and>
     decodeJobText (dr_value r) = Inr (newJob demoSha demoJobInput)"
proof -
  let ?j = "newJob demoSha demoJobInput"
  let ?i = "\<lparr>nd_key = jobKey ''djob-h'', nd_value = encodeJob ?j, nd_nowMs = jint 10, nd_expiresAt = Some (jint 50)\<rparr>"
  let ?s = "[(jobKey ''djob-h'', newRecord ?i)]"
  have short: "utf8Length (encodeJob ?j) < 10000"
    by (simp add: demoJobInput_def newJob_def jobIdFor_def demoSha_def encodeJob_def jobJson_def jsonText_def
      utf8Length_def jsonString_def jsonEscape_def memberTexts_def orNull_def showInt_def showNat.simps)
  have guards: "createJobGuards demoJobInput = Inr ()"
    by (simp add: createJobGuards_def demoJobInput_def assertBounded_def assertTimestamp_def isSafeInteger_def
      MAX_DOCUMENT_JOB_IDENTITY_CHARS_def MAX_DOCUMENT_JOB_FINGERPRINT_CHARS_def res_simps)
  have id: "dj_jobId ?j = ''djob-h''" by (simp add: newJob_def jobIdFor_def demoSha_def)
  have times: "cd_nowMs demoJobInput = Num 10" "cd_expiresAt demoJobInput = Num 50"
    by (simp_all add: demoJobInput_def)
  have create: "mds_createIfAbsent ?i [] = (Inr (DurableCreated (newRecord ?i)), ?s)"
    using short by (simp add: mds_createIfAbsent_def durable_validators jobKey_def)
  obtain c w' where run: "job_createIfAbsent (memDurablePort demoLocale) demoSha demoJobInput (demoWorld []) = (c, w')"
    by fastforce
  have "([], ?s) \<in> set (dw_steps w')"
    by (rule job_create_records [OF guards _ _ run, of "[]"])
      (use create in \<open>simp_all add: demoWorld_def id times\<close>)
  moreover have "durableCall demoLocale demoSha (demoWorld []) w'" by (rule call_createJob [OF run])
  ultimately have "reaches demoLocale demoSha [] ?s" by (intro demoWorld_reaches [OF _ reaches_refl])
  then show ?thesis
    by (intro exI [of _ ?s] exI [of _ "newRecord ?i"])
      (simp add: newRecord_def decode_encode_job [OF sys.newJob_ok [OF guards]])
qed

lemma job_history_witness:
  "\<exists>s r j. reaches demoLocale demoSha [] s \<and> map_of s (jobKey ''djob-h'') = Some r \<and>
     decodeJobText (dr_value r) = Inr j \<and> dj_jobId j = ''djob-h''"
proof -
  from demo_job_reached obtain s r where s: "reaches demoLocale demoSha [] s"
    "map_of s (jobKey ''djob-h'') = Some r" by blast
  from job_history [OF s(1) reaches_refl s(2)] s show ?thesis by blast
qed

text \<open>C6. Reading a job returns, although it starts over whenever another request changes the record while
  it materialises an expiry: it is enough that the others leave this one record alone from some point
  on. The same holds for a transition and for beginning an effect, which read the job first.\<close>

theorem job_get_returns:
  assumes "\<And>n s. k \<le> n \<Longrightarrow> map_of (dw_others w n s) (jobKey jid) = map_of s (jobKey jid)"
  shows "job_get (memDurablePort lc) jid caller now w \<noteq> None \<and>
    job_transition (memDurablePort lc) jid caller n to now patch w \<noteq> None \<and>
    (ei_jobId e = jid \<longrightarrow> job_beginEffect (memDurablePort lc) e caller now w \<noteq> None)"
proof -
  have "job_get (memDurablePort lc) jid caller now w \<noteq> None"
    using mem_durable.getLoop_returns [where w = w, OF assms]
    by (auto simp: job_get_def bindP_def returningM_def pureM_def split: sum.splits)
  then show ?thesis
    by (auto simp: job_transition_def job_beginEffect_def bindP_def returningM_def split: sum.splits option.splits)
qed

lemma job_get_returns_witness:
  "job_get (memDurablePort demoLocale) ''djob-h'' demoCaller (jint 60) (demoWorld demoRecords) \<noteq> None"
  using job_get_returns [of 0 "demoWorld demoRecords" "''djob-h''" demoLocale demoCaller "jint 60"]
  by (simp add: demoWorld_def)

section \<open>Effects\<close>





section \<open>Round trips\<close>

text \<open>C8. What is stored reads back, through the printing and the parsing of its JSON text with every nested
  value. A task that is encoded decodes to the same task if its identities are within their bounds and
  all it holds is JSON with whole numbers, its objects in the language's key order (\<open>taskOk\<close>); this
  leaves out \<open>undefined\<close>, \<open>NaN\<close> and the infinities, which JSON does not keep, and fractions, whose
  printing is not modelled. A job decodes to itself if it passes the checks of the decoder
  (\<open>checkJob\<close>), an effect if its two times are whole numbers (\<open>effectOk\<close>).\<close>

theorem durable_roundtrip:
  "(taskOk v \<longrightarrow> encodeTask v = Inr txt' \<longrightarrow> decodeTaskText txt' = Inr v) \<and>
   (checkJob j = Inr () \<longrightarrow> decodeJobText (encodeJob j) = Inr j) \<and>
   (effectOk e \<longrightarrow> decodeEffectText (encodeEffect e) = Inr e)"
  using decode_encode_task decode_encode_job decode_encode_effect by blast

lemma durable_roundtrip_witness:
  "\<exists>v. encodeTask demoTask = Inr v \<and> decodeTaskText v = Inr demoTask"
proof -
  have "taskOk demoTask"
    unfolding demoTask_def
    by (rule initialTask_ok [OF demo_guards]) (simp_all add: assertIdentity_def MAX_IDENTITY_CHARS_def res_simps demoRuntime_def)
  with demo_encode durable_roundtrip show ?thesis by blast
qed

end
