(* ===== verification/DocumentCache.thy ===== *)
theory DocumentCache
  imports Json JsActions
begin

text \<open>
  \<^verbatim>\<open>src/core/document-cache-contract.ts\<close>: the cache of parsed documents. The first part holds the
  pure contract (modes, expiry, keys, bindings of sources to payloads, scope policy), the second the
  store port with its in-memory implementation and \<open>processDocumentCache\<close>, which decides between the
  cached payload and a fresh execution. The parsed data is of any type \<open>'d\<close>. The execution callback
  is a method on the same state: it runs while the cache operation is under way and may itself use
  the store. \<open>sha256\<close> stands for the hash of \<^verbatim>\<open>node:crypto\<close>, in hexadecimal.
\<close>

section \<open>Modes and expiry\<close>

datatype CacheMode = CacheUse | CacheRefresh | CacheBypass

definition DEFAULT_CACHE_TTL_SECONDS :: jsnum where
  "DEFAULT_CACHE_TTL_SECONDS = jint 86400"

definition DEFAULT_CACHE_MODE :: CacheMode where
  "DEFAULT_CACHE_MODE = CacheUse"

record CacheConfig =
  cc_defaultTtlSeconds :: jsnum
  cc_operatorMaxTtlSeconds :: "jsnum option"
  cc_enabled :: bool
  cc_sourceExpirySeconds :: "jsnum option"

record ResolvedCacheMode =
  rcm_effectiveMode :: CacheMode
  rcm_degraded :: bool
  rcm_reason :: "string option"

definition resolveCacheMode :: "CacheMode \<Rightarrow> CacheConfig \<Rightarrow> ResolvedCacheMode" where
  "resolveCacheMode requested config =
     (if \<not> cc_enabled config then
        if requested = CacheUse \<or> requested = CacheRefresh then
          \<lparr>rcm_effectiveMode = CacheBypass, rcm_degraded = True,
            rcm_reason = Some ''Operator disabled cache; degraded to bypass''\<rparr>
        else \<lparr>rcm_effectiveMode = CacheBypass, rcm_degraded = False, rcm_reason = None\<rparr>
      else \<lparr>rcm_effectiveMode = requested, rcm_degraded = False, rcm_reason = None\<rparr>)"

definition resolveEffectiveTtl :: "jsnum option \<Rightarrow> CacheConfig \<Rightarrow> jsnum" where
  "resolveEffectiveTtl requestedTtlSeconds config =
     (let requested = (case requestedTtlSeconds of None \<Rightarrow> cc_defaultTtlSeconds config | Some t \<Rightarrow> t);
          effective = (case cc_operatorMaxTtlSeconds config of
              None \<Rightarrow> requested | Some m \<Rightarrow> jmin requested m);
          effective = (case cc_sourceExpirySeconds config of
              None \<Rightarrow> effective | Some m \<Rightarrow> jmin effective m)
      in jmax effective (jint 0))"

text \<open>\<open>String(err)\<close> of a thrown value that is neither an error nor a string is its \<open>shown\<close> text.\<close>

fun safeCacheOperation :: "string \<Rightarrow> 'a tres \<Rightarrow> 'a \<Rightarrow> 'a \<times> string option" where
  "safeCacheOperation shown (Inr x) fallback = (x, None)"
| "safeCacheOperation shown (Inl (ThrownError e)) fallback = (fallback, Some (exn_message e))"
| "safeCacheOperation shown (Inl (ThrownString s)) fallback = (fallback, Some s)"
| "safeCacheOperation shown (Inl ThrownOther) fallback = (fallback, Some shown)"

section \<open>Keys\<close>

record ParsedPayloadCacheKey =
  pk_ownershipScope :: string
  pk_contentHash :: string
  pk_engineId :: string
  pk_engineVersion :: string
  pk_modelId :: string
  pk_modelVersion :: string
  pk_normalizedOptions :: string
  pk_schemaVersion :: string
  pk_policyVersion :: string

record SourceBindingKey = ParsedPayloadCacheKey +
  sbk_sourceIdentity :: string
  sbk_sourceVersion :: string

definition requireKeyField :: "string \<Rightarrow> string \<Rightarrow> unit res" where
  "requireKeyField name v = throwIf (v = []) (JsError (''Cache key must include '' @ name))"

definition validateCacheKey :: "('x) ParsedPayloadCacheKey_scheme \<Rightarrow> unit res" where
  "validateCacheKey key =
     andThen (requireKeyField ''ownershipScope'' (pk_ownershipScope key))
     (andThen (requireKeyField ''contentHash'' (pk_contentHash key))
     (andThen (requireKeyField ''engineId'' (pk_engineId key))
     (andThen (requireKeyField ''engineVersion'' (pk_engineVersion key))
     (andThen (requireKeyField ''modelId'' (pk_modelId key))
     (andThen (requireKeyField ''modelVersion'' (pk_modelVersion key))
     (andThen (requireKeyField ''schemaVersion'' (pk_schemaVersion key))
       (requireKeyField ''policyVersion'' (pk_policyVersion key))))))))"

record KeyBasis =
  kb_hasContentHash :: bool
  kb_hasUrlOnly :: bool
  kb_hasFilenameOnly :: bool
  kb_hasMimeOnly :: bool
  kb_hasUnverifiedDigest :: bool

definition rejectForbiddenKeyBasis :: "KeyBasis \<Rightarrow> unit res" where
  "rejectForbiddenKeyBasis given =
     (if \<not> kb_hasContentHash given then
        andThen (throwIf (kb_hasUrlOnly given) (JsError ''Cache key must not rely solely on URL''))
        (andThen (throwIf (kb_hasFilenameOnly given)
            (JsError ''Cache key must not rely solely on filename''))
        (andThen (throwIf (kb_hasMimeOnly given)
            (JsError ''Cache key must not rely solely on caller-declared MIME''))
          (throwIf (kb_hasUnverifiedDigest given)
            (JsError ''Cache key must not rely on unverified digest''))))
      else Inr ())"

definition validateOwnershipScope :: "string \<Rightarrow> string \<Rightarrow> unit res" where
  "validateOwnershipScope requestScope keyScope =
     throwIf (requestScope \<noteq> keyScope)
       (JsError (''Cross-tenant cache reuse forbidden: request scope '' @ quoted requestScope @
          '' does not match key scope '' @ quoted keyScope))"

section \<open>Payloads, bindings and hits\<close>

record 'd CachePayload =
  cp_payloadId :: string
  cp_contentHash :: string
  cp_data :: 'd
  cp_createdAt :: jsnum

record SourceBinding =
  sb_bindingId :: string
  sb_sourceIdentity :: string
  sb_payloadId :: string
  sb_ownershipScope :: string
  sb_createdAt :: jsnum
  sb_revoked :: bool

record LiveReferenceSet =
  lrs_payloadId :: string
  lrs_bindings :: "SourceBinding list"

definition revokeBinding :: "LiveReferenceSet \<Rightarrow> string \<Rightarrow> LiveReferenceSet" where
  "revokeBinding referenceSet sourceIdentity =
     \<lparr>lrs_payloadId = lrs_payloadId referenceSet,
      lrs_bindings = map (\<lambda>b. if sb_sourceIdentity b = sourceIdentity then b\<lparr>sb_revoked := True\<rparr> else b)
        (lrs_bindings referenceSet)\<rparr>"

definition isPayloadReclaimable :: "LiveReferenceSet \<Rightarrow> bool" where
  "isPayloadReclaimable referenceSet = list_all sb_revoked (lrs_bindings referenceSet)"

definition findBinding :: "string \<Rightarrow> SourceBinding list \<Rightarrow> SourceBinding option" where
  "findBinding sourceIdentity bs = find (\<lambda>b. sb_sourceIdentity b = sourceIdentity) bs"

definition canSourceHitCache :: "LiveReferenceSet \<Rightarrow> string \<Rightarrow> bool" where
  "canSourceHitCache referenceSet sourceIdentity =
     (case findBinding sourceIdentity (lrs_bindings referenceSet) of
        None \<Rightarrow> False | Some b \<Rightarrow> \<not> sb_revoked b)"

record CacheBillingProvenance =
  bp_isOriginal :: bool
  bp_originalCost :: jsnum
  bp_engine :: string
  bp_model :: string

record CacheHitResult =
  ch_createdAt :: jsnum
  ch_expiresAt :: jsnum
  ch_ageSeconds :: jsnum
  ch_sourceHash :: string
  ch_engineVersion :: string
  ch_modelVersion :: string
  ch_billingProvenance :: CacheBillingProvenance

record InvalidationCheck =
  ic_engineVersionChanged :: bool
  ic_modelVersionChanged :: bool
  ic_schemaVersionChanged :: bool
  ic_policyVersionChanged :: bool
  ic_sourceDeleted :: bool
  ic_sourceExpired :: bool
  ic_ownershipChanged :: bool
  ic_explicitInvalidation :: bool

definition shouldInvalidate :: "InvalidationCheck \<Rightarrow> bool" where
  "shouldInvalidate check \<longleftrightarrow>
     ic_engineVersionChanged check \<or> ic_modelVersionChanged check \<or> ic_schemaVersionChanged check \<or>
     ic_policyVersionChanged check \<or> ic_sourceDeleted check \<or> ic_sourceExpired check \<or>
     ic_ownershipChanged check \<or> ic_explicitInvalidation check"

definition validateCacheHit :: "CacheHitResult \<Rightarrow> unit res" where
  "validateCacheHit hit =
     andThen (throwIf (\<not> bp_isOriginal (ch_billingProvenance hit))
         (JsError ''Cache hit must report original billing provenance, not new execution''))
     (andThen (throwIf (jlt (ch_ageSeconds hit) (jint 0))
         (JsError ''Cache hit ageSeconds must be non-negative''))
       (throwIf (jle (ch_expiresAt hit) (ch_createdAt hit))
         (JsError ''Cache hit expiresAt must be after createdAt'')))"

section \<open>Scope policy\<close>

record CacheScopePolicy =
  csp_appliesTo :: string
  csp_excludes :: "string list"
  csp_requiresNetworkPolicyCheck :: bool

definition DEFAULT_CACHE_SCOPE_POLICY :: CacheScopePolicy where
  "DEFAULT_CACHE_SCOPE_POLICY =
     \<lparr>csp_appliesTo = ''document'', csp_excludes = [''web_fetch'', ''web_extract'', ''parse''],
      csp_requiresNetworkPolicyCheck = True\<rparr>"

definition validateCacheScope :: "string \<Rightarrow> CacheScopePolicy \<Rightarrow> bool \<times> string" where
  "validateCacheScope toolName policy =
     (if toolName \<in> set (csp_excludes policy)
      then (False, ''Tool '' @ quoted toolName @ '' is excluded from document processing cache'')
      else (True, ''Tool is within cache scope''))"

definition validateNetworkPolicyRequired :: "CacheScopePolicy \<Rightarrow> bool \<Rightarrow> unit res" where
  "validateNetworkPolicyRequired policy networkPolicyChecked =
     throwIf (csp_requiresNetworkPolicyCheck policy \<and> \<not> networkPolicyChecked)
       (JsError ''URL security/DNS/redirect checks must complete before cache lookup'')"

section \<open>Canonical and projection keys\<close>

record CanonicalCoreKey =
  cck_contentHash :: string
  cck_engineVersion :: string
  cck_modelVersion :: string
  cck_schemaVersion :: string
  cck_policyVersion :: string
  cck_normalizedParseOptions :: string

record ProjectionParams =
  pp_canonicalContentId :: string
  pp_projectionKind :: string
  pp_projectionVersion :: string
  pp_projectionOptions :: string

record ProjectionCacheKey = CanonicalCoreKey +
  pck_canonicalContentId :: string
  pck_projectionKind :: string
  pck_projectionVersion :: string
  pck_projectionOptions :: string

definition buildCanonicalCoreKey :: "'x CanonicalCoreKey_scheme \<Rightarrow> CanonicalCoreKey" where
  "buildCanonicalCoreKey params =
     \<lparr>cck_contentHash = cck_contentHash params, cck_engineVersion = cck_engineVersion params,
      cck_modelVersion = cck_modelVersion params, cck_schemaVersion = cck_schemaVersion params,
      cck_policyVersion = cck_policyVersion params,
      cck_normalizedParseOptions = cck_normalizedParseOptions params\<rparr>"

definition buildProjectionCacheKey :: "CanonicalCoreKey \<Rightarrow> ProjectionParams \<Rightarrow> ProjectionCacheKey" where
  "buildProjectionCacheKey coreKey params =
     \<lparr>cck_contentHash = cck_contentHash coreKey, cck_engineVersion = cck_engineVersion coreKey,
      cck_modelVersion = cck_modelVersion coreKey, cck_schemaVersion = cck_schemaVersion coreKey,
      cck_policyVersion = cck_policyVersion coreKey,
      cck_normalizedParseOptions = cck_normalizedParseOptions coreKey,
      pck_canonicalContentId = pp_canonicalContentId params,
      pck_projectionKind = pp_projectionKind params,
      pck_projectionVersion = pp_projectionVersion params,
      pck_projectionOptions = pp_projectionOptions params\<rparr>"

definition canonicalCoreKeyString :: "'x CanonicalCoreKey_scheme \<Rightarrow> string" where
  "canonicalCoreKeyString key =
     joinWith '':'' [cck_contentHash key, cck_engineVersion key, cck_modelVersion key,
       cck_schemaVersion key, cck_policyVersion key, cck_normalizedParseOptions key]"

definition projectionCacheKeyString :: "ProjectionCacheKey \<Rightarrow> string" where
  "projectionCacheKeyString key =
     joinWith '':'' [canonicalCoreKeyString key, pck_canonicalContentId key, pck_projectionKind key,
       pck_projectionVersion key, pck_projectionOptions key]"

section \<open>Requests and entries\<close>

definition MAX_DOCUMENT_CACHE_ENTRIES :: jsnum where "MAX_DOCUMENT_CACHE_ENTRIES = jint 500"
definition MAX_DOCUMENT_CACHE_KEY_CHARS :: nat where "MAX_DOCUMENT_CACHE_KEY_CHARS = 2048"
definition MAX_SOURCE_IDENTITY_CHARS :: nat where "MAX_SOURCE_IDENTITY_CHARS = 1024"

record 'd DocumentCacheEntry =
  ce_key :: ParsedPayloadCacheKey
  ce_keyString :: string
  ce_payload :: "'d CachePayload"
  ce_bindings :: LiveReferenceSet
  ce_createdAt :: jsnum
  ce_expiresAt :: jsnum
  ce_provenance :: CacheBillingProvenance

record 'd DocumentCacheExecution =
  cx_data :: 'd
  cx_provenance :: CacheBillingProvenance

record DocumentCacheIdentity =
  ci_mode :: CacheMode
  ci_key :: ParsedPayloadCacheKey
  ci_sourceIdentity :: string
  ci_sourceVersion :: string
  ci_ownershipScope :: string
  ci_nowMs :: jsnum
  ci_sourceExpiresAt :: "jsnum option"
  ci_requestedTtlSeconds :: "jsnum option"
  ci_toolName :: "string option"
  ci_networkPolicyChecked :: "bool option"

definition documentCacheBindingIdentity :: "(string \<Rightarrow> string) \<Rightarrow> js_value \<Rightarrow> string \<Rightarrow> string" where
  "documentCacheBindingIdentity sha256 source credentialBinding =
     (let credentialHash = sha256 credentialBinding
      in ''source-'' @ sha256 (the (stringify
           (JObject [(''source'', source), (''credentialHash'', JString credentialHash)]))))"

definition cacheConfigForIdentity :: "CacheConfig \<Rightarrow> DocumentCacheIdentity \<Rightarrow> CacheConfig" where
  "cacheConfigForIdentity config identity =
     (case ci_sourceExpiresAt identity of
        None \<Rightarrow> config
      | Some expiry \<Rightarrow>
          let remainingSeconds = jmax (jint 0) (jfloor (jshrink 1000 (jsub expiry (ci_nowMs identity))))
          in config\<lparr>cc_sourceExpirySeconds := Some (case cc_sourceExpirySeconds config of
               None \<Rightarrow> remainingSeconds | Some s \<Rightarrow> jmin s remainingSeconds)\<rparr>)"

text \<open>What a request returns: the payload of a hit, or what was executed and whether it was stored.\<close>

record 'd CacheFresh =
  cf_data :: 'd
  cf_provenance :: CacheBillingProvenance
  cf_stored :: bool
  cf_degraded :: bool
  cf_cacheError :: "string option"

datatype 'd DocumentCacheProcessResult =
    CacheHit 'd CacheHitResult
  | CacheMiss "'d CacheFresh"

definition cacheRuntimeError :: "string \<Rightarrow> exn" where
  "cacheRuntimeError m = glError INVALID_INPUT ''document-cache'' m"

definition documentCacheKeyString :: "ParsedPayloadCacheKey \<Rightarrow> string res" where
  "documentCacheKeyString key =
     andThen (validateCacheKey key)
       (let raw = joinWith '':'' [pk_ownershipScope key, pk_contentHash key, pk_engineId key,
              pk_engineVersion key, pk_modelId key, pk_modelVersion key, pk_normalizedOptions key,
              pk_schemaVersion key, pk_policyVersion key]
        in andThen (throwIf (length raw > MAX_DOCUMENT_CACHE_KEY_CHARS)
               (cacheRuntimeError (''Document cache key exceeds '' @
                  showNat MAX_DOCUMENT_CACHE_KEY_CHARS @ '' characters'')))
             (Inr raw))"

definition buildPayloadId :: "(string \<Rightarrow> string) \<Rightarrow> string \<Rightarrow> string" where
  "buildPayloadId sha256 keyString = take 32 (sha256 keyString)"

definition isExcludedTool :: "string option \<Rightarrow> bool" where
  "isExcludedTool toolName = (case toolName of
      None \<Rightarrow> False
    | Some t \<Rightarrow> fst (validateCacheScope t DEFAULT_CACHE_SCOPE_POLICY) = False)"

end
