(* ===== verification/DocumentCacheRuntime.thy ===== *)
theory DocumentCacheRuntime
  imports DocumentCache
begin

text \<open>
  The runtime part of \<^verbatim>\<open>src/core/document-cache-contract.ts\<close>: \<open>DocumentCacheStorePort\<close>, its in-memory
  implementation, and \<open>processDocumentCache\<close>. The port is a record of methods on the state \<open>'s\<close>, any
  of which may throw anything; the in-memory store works on any state that extends \<open>memCache\<close>.
\<close>

section \<open>The store port\<close>

record ('s, 'd) cache_port =
  sp_get :: "string \<Rightarrow> ('s, 'd DocumentCacheEntry option) action"
  sp_set :: "'d DocumentCacheEntry \<Rightarrow> ('s, unit) action"
  sp_revokeSourceBinding :: "string \<Rightarrow> ('s, unit) action"
  sp_size :: "('s, nat) action"
  sp_sweepExpired :: "jsnum \<Rightarrow> ('s, nat) action"

section \<open>The in-memory store\<close>

record 'd memCache =
  mc_entries :: "'d DocumentCacheEntry jsmap"
  mc_maxEntries :: jsnum

text \<open>The key of the entry created first, among those created before the end of time.\<close>

definition oldestEntry :: "'d DocumentCacheEntry jsmap \<Rightarrow> string option" where
  "oldestEntry m = fst (foldl (\<lambda>(oldestKey, oldestCreated) (k, v).
       if jlt (ce_createdAt v) oldestCreated then (Some k, ce_createdAt v)
       else (oldestKey, oldestCreated)) (None, PosInf) m)"

definition mc_get :: "string \<Rightarrow> (('d, 'x) memCache_scheme, 'd DocumentCacheEntry option) action" where
  "mc_get keyString s = (Inr (map_of (mc_entries s) keyString), s)"

definition mc_set :: "'d DocumentCacheEntry \<Rightarrow> (('d, 'x) memCache_scheme, unit) action" where
  "mc_set entry s =
     (let m = mc_entries s;
          m = (if \<not> mapHas m (ce_keyString entry) \<and> jle (mc_maxEntries s) (jint (int (length m)))
               then (case oldestEntry m of None \<Rightarrow> m | Some k \<Rightarrow> AList.delete k m) else m)
      in (Inr (), s\<lparr>mc_entries := AList.update (ce_keyString entry) entry m\<rparr>))"

definition mc_revokeSourceBinding :: "string \<Rightarrow> (('d, 'x) memCache_scheme, unit) action" where
  "mc_revokeSourceBinding sourceIdentity s =
     (Inr (), s\<lparr>mc_entries := map (\<lambda>(k, entry).
        if list_ex (\<lambda>b. sb_sourceIdentity b = sourceIdentity) (lrs_bindings (ce_bindings entry))
        then (k, entry\<lparr>ce_bindings := revokeBinding (ce_bindings entry) sourceIdentity\<rparr>)
        else (k, entry)) (mc_entries s)\<rparr>)"

definition mc_size :: "(('d, 'x) memCache_scheme, nat) action" where
  "mc_size s = (Inr (length (mc_entries s)), s)"

definition mc_sweepExpired :: "jsnum \<Rightarrow> (('d, 'x) memCache_scheme, nat) action" where
  "mc_sweepExpired nowMs s =
     (let kept = filter (\<lambda>(k, entry). \<not> jlt (ce_expiresAt entry) nowMs) (mc_entries s)
      in (Inr (length (mc_entries s) - length kept), s\<lparr>mc_entries := kept\<rparr>))"

definition memCachePort :: "(('d, 'x) memCache_scheme, 'd) cache_port" where
  "memCachePort =
     \<lparr>sp_get = mc_get, sp_set = mc_set, sp_revokeSourceBinding = mc_revokeSourceBinding,
      sp_size = mc_size, sp_sweepExpired = mc_sweepExpired\<rparr>"

definition boundedSourceIdentity :: "string \<Rightarrow> unit res" where
  "boundedSourceIdentity sourceIdentity =
     throwIf (length sourceIdentity = 0 \<or> length sourceIdentity > MAX_SOURCE_IDENTITY_CHARS)
       (cacheRuntimeError ''sourceIdentity must be non-empty and bounded'')"

definition revokeDocumentSourceBinding :: "('s, 'd) cache_port \<Rightarrow> string \<Rightarrow> ('s, unit) action" where
  "revokeDocumentSourceBinding P sourceIdentity =
     thenM (pureM (boundedSourceIdentity sourceIdentity)) (sp_revokeSourceBinding P sourceIdentity)"

section \<open>Entries\<close>

definition newBinding :: "DocumentCacheIdentity \<Rightarrow> string \<Rightarrow> SourceBinding" where
  "newBinding params payloadId =
     \<lparr>sb_bindingId = ''bind-'' @ ci_sourceIdentity params @ ''@'' @ ci_sourceVersion params,
      sb_sourceIdentity = ci_sourceIdentity params, sb_payloadId = payloadId,
      sb_ownershipScope = ci_ownershipScope params, sb_createdAt = ci_nowMs params,
      sb_revoked = False\<rparr>"

definition buildEntry :: "(string \<Rightarrow> string) \<Rightarrow> DocumentCacheIdentity \<Rightarrow> string \<Rightarrow> jsnum \<Rightarrow>
    'd DocumentCacheExecution \<Rightarrow> 'd DocumentCacheEntry" where
  "buildEntry sha256 params keyString expiresAt execution =
     (let payloadId = buildPayloadId sha256 keyString
      in \<lparr>ce_key = ci_key params, ce_keyString = keyString,
          ce_payload = \<lparr>cp_payloadId = payloadId, cp_contentHash = pk_contentHash (ci_key params),
            cp_data = cx_data execution, cp_createdAt = ci_nowMs params\<rparr>,
          ce_bindings = \<lparr>lrs_payloadId = payloadId, lrs_bindings = [newBinding params payloadId]\<rparr>,
          ce_createdAt = ci_nowMs params, ce_expiresAt = expiresAt,
          ce_provenance = cx_provenance execution\<rparr>)"

text \<open>The entry with one more source bound to its payload.\<close>

definition appendBinding :: "DocumentCacheIdentity \<Rightarrow> 'd DocumentCacheEntry \<Rightarrow> 'd DocumentCacheEntry" where
  "appendBinding params latest =
     (let payloadId = cp_payloadId (ce_payload latest)
      in latest\<lparr>ce_bindings := \<lparr>lrs_payloadId = payloadId,
           lrs_bindings = lrs_bindings (ce_bindings latest) @ [newBinding params payloadId]\<rparr>\<rparr>)"

text \<open>The entry that a refresh writes over an existing one.\<close>

definition refreshedEntry :: "DocumentCacheIdentity \<Rightarrow> string \<Rightarrow> jsnum \<Rightarrow>
    'd DocumentCacheExecution \<Rightarrow> 'd DocumentCacheEntry \<Rightarrow> 'd DocumentCacheEntry" where
  "refreshedEntry params keyString expiresAt execution existing =
     (let payloadId = cp_payloadId (ce_payload existing);
          bs = lrs_bindings (ce_bindings existing);
          hasBinding = list_ex (\<lambda>b. sb_sourceIdentity b = ci_sourceIdentity params) bs;
          binding = newBinding params payloadId
      in \<lparr>ce_key = ci_key params, ce_keyString = keyString,
          ce_payload = \<lparr>cp_payloadId = payloadId, cp_contentHash = pk_contentHash (ci_key params),
            cp_data = cx_data execution, cp_createdAt = ci_nowMs params\<rparr>,
          ce_bindings = \<lparr>lrs_payloadId = payloadId,
            lrs_bindings =
              (if hasBinding
               then map (\<lambda>b. if sb_sourceIdentity b = ci_sourceIdentity params then binding else b) bs
               else bs @ [binding])\<rparr>,
          ce_createdAt = ci_nowMs params, ce_expiresAt = expiresAt,
          ce_provenance = cx_provenance execution\<rparr>)"

definition toHitResult :: "'d DocumentCacheEntry \<Rightarrow> jsnum \<Rightarrow> CacheHitResult res" where
  "toHitResult entry nowMs =
     (let hit = \<lparr>ch_createdAt = ce_createdAt entry, ch_expiresAt = ce_expiresAt entry,
            ch_ageSeconds = jmax (jint 0) (jfloor (jshrink 1000 (jsub nowMs (ce_createdAt entry)))),
            ch_sourceHash = pk_contentHash (ce_key entry),
            ch_engineVersion = pk_engineVersion (ce_key entry),
            ch_modelVersion = pk_modelVersion (ce_key entry),
            ch_billingProvenance = ce_provenance entry\<rparr>
      in andThen (validateCacheHit hit) (Inr hit))"

section \<open>processDocumentCache\<close>

text \<open>The checks before anything else.\<close>

definition checkCacheRequest :: "DocumentCacheIdentity \<Rightarrow> unit res" where
  "checkCacheRequest params =
     andThen (boundedSourceIdentity (ci_sourceIdentity params))
     (andThen (throwIf (\<not> isInteger (ci_nowMs params) \<or> jle (ci_nowMs params) (jint 0))
         (cacheRuntimeError ''nowMs must be a positive integer''))
     (andThen (case ci_sourceExpiresAt params of
           None \<Rightarrow> Inr ()
         | Some t \<Rightarrow> throwIf (\<not> isSafeInteger t \<or> jle t (jint 0))
             (cacheRuntimeError ''sourceExpiresAt must be a positive integer''))
     (andThen (validateCacheKey (ci_key params))
     (andThen (validateOwnershipScope (ci_ownershipScope params) (pk_ownershipScope (ci_key params)))
       (if ci_networkPolicyChecked params = Some False
        then validateNetworkPolicyRequired DEFAULT_CACHE_SCOPE_POLICY False else Inr ())))))"

definition fresh :: "'d DocumentCacheExecution \<Rightarrow> bool \<Rightarrow> string option \<Rightarrow>
    'd DocumentCacheProcessResult" where
  "fresh execution stored cacheError =
     CacheMiss \<lparr>cf_data = cx_data execution, cf_provenance = cx_provenance execution, cf_stored = stored,
       cf_degraded = False, cf_cacheError = cacheError\<rparr>"

text \<open>A fresh result whose storing is attempted: a throw of the store becomes the cache error.\<close>

definition freshAfter :: "string \<Rightarrow> 'd DocumentCacheExecution \<Rightarrow> ('s, unit) action \<Rightarrow>
    ('s, 'd DocumentCacheProcessResult) action" where
  "freshAfter other execution write =
     catchM (bindM write (\<lambda>_. returnM (fresh execution True None)))
       (\<lambda>error. returnM (fresh execution False (Some (caughtMessage other error))))"

definition refreshCache :: "('s, 'd) cache_port \<Rightarrow> (string \<Rightarrow> string) \<Rightarrow> DocumentCacheIdentity \<Rightarrow>
    string \<Rightarrow> jsnum \<Rightarrow> ('s, 'd DocumentCacheExecution) action \<Rightarrow>
    ('s, 'd DocumentCacheProcessResult) action" where
  "refreshCache P sha256 params keyString expiresAt execute =
     bindM execute (\<lambda>execution.
       freshAfter ''Cache operation failed'' execution
         (bindM (sp_get P keyString) (\<lambda>existing.
            sp_set P (case existing of
                None \<Rightarrow> buildEntry sha256 params keyString expiresAt execution
              | Some e \<Rightarrow> refreshedEntry params keyString expiresAt execution e))))"

text \<open>The miss at the end of a read: execute, then create the entry or bind the source to the one
  that is there by now.\<close>

definition missAndStore :: "('s, 'd) cache_port \<Rightarrow> (string \<Rightarrow> string) \<Rightarrow> DocumentCacheIdentity \<Rightarrow>
    string \<Rightarrow> jsnum \<Rightarrow> ('s, 'd DocumentCacheExecution) action \<Rightarrow> string option \<Rightarrow>
    ('s, 'd DocumentCacheProcessResult) action" where
  "missAndStore P sha256 params keyString expiresAt execute readError =
     bindM execute (\<lambda>execution.
       if readError \<noteq> None then returnM (fresh execution False readError)
       else freshAfter ''Cache write failed'' execution
         (bindM (sp_get P keyString) (\<lambda>existing.
            case existing of
              None \<Rightarrow> sp_set P (buildEntry sha256 params keyString expiresAt execution)
            | Some e \<Rightarrow>
                if jlt (ce_expiresAt e) (ci_nowMs params)
                then sp_set P (buildEntry sha256 params keyString expiresAt execution)
                else if \<not> list_ex (\<lambda>b. sb_sourceIdentity b = ci_sourceIdentity params)
                       (lrs_bindings (ce_bindings e))
                then sp_set P (appendBinding params e)
                else returnM ())))"

text \<open>A source that is new to a live payload: execute, then bind it to the payload, which may have
  expired or vanished meanwhile.\<close>

definition bindNewSource :: "('s, 'd) cache_port \<Rightarrow> (string \<Rightarrow> string) \<Rightarrow> DocumentCacheIdentity \<Rightarrow>
    string \<Rightarrow> jsnum \<Rightarrow> ('s, 'd DocumentCacheExecution) action \<Rightarrow>
    ('s, 'd DocumentCacheProcessResult) action" where
  "bindNewSource P sha256 params keyString expiresAt execute =
     bindM execute (\<lambda>execution.
     bindM (attemptM (bindM (sp_get P keyString) (\<lambda>latest.
         case latest of
           Some e \<Rightarrow>
             if jle (ci_nowMs params) (ce_expiresAt e)
             then bindM (sp_set P (appendBinding params e)) (\<lambda>_. returnM True)
             else returnM False
         | None \<Rightarrow> returnM False))) (\<lambda>r.
       case r of
         Inl error \<Rightarrow> returnM (fresh execution False (Some (caughtMessage ''Cache write failed'' error)))
       | Inr True \<Rightarrow> returnM (fresh execution True None)
       | Inr False \<Rightarrow> freshAfter ''Cache write failed'' execution
           (sp_set P (buildEntry sha256 params keyString expiresAt execution))))"

definition readError :: "'a tres \<Rightarrow> string option" where
  "readError r = (case r of Inl error \<Rightarrow> Some (caughtMessage ''Cache read failed'' error) | Inr _ \<Rightarrow> None)"

definition readEntry :: "'a option tres \<Rightarrow> 'a option" where
  "readEntry r = (case r of Inl error \<Rightarrow> None | Inr e \<Rightarrow> e)"

definition ownershipOk :: "DocumentCacheIdentity \<Rightarrow> 'd DocumentCacheEntry \<Rightarrow> bool" where
  "ownershipOk params entry \<longleftrightarrow>
     list_all (\<lambda>b. sb_ownershipScope b = ci_ownershipScope params \<or>
         sb_sourceIdentity b \<noteq> ci_sourceIdentity params) (lrs_bindings (ce_bindings entry))"

text \<open>The hit of an entry that is live for the request, or why it is refused.\<close>

definition hitOf :: "DocumentCacheIdentity \<Rightarrow> 'd DocumentCacheEntry \<Rightarrow> CacheHitResult res" where
  "hitOf params entry =
     andThen (validateOwnershipScope (ci_ownershipScope params) (pk_ownershipScope (ce_key entry)))
       (toHitResult entry (ci_nowMs params))"

definition useEntry :: "('s, 'd) cache_port \<Rightarrow> (string \<Rightarrow> string) \<Rightarrow> DocumentCacheIdentity \<Rightarrow>
    string \<Rightarrow> jsnum \<Rightarrow> ('s, 'd DocumentCacheExecution) action \<Rightarrow> 'd DocumentCacheEntry \<Rightarrow>
    ('s, 'd DocumentCacheProcessResult) action" where
  "useEntry P sha256 params keyString expiresAt execute entry =
     (let expired = jlt (ce_expiresAt entry) (ci_nowMs params);
          existingBinding = findBinding (ci_sourceIdentity params) (lrs_bindings (ce_bindings entry));
          bindingLive = (case existingBinding of None \<Rightarrow> False | Some b \<Rightarrow> \<not> sb_revoked b);
          rest = (\<lambda>error.
            if existingBinding \<noteq> None \<and> \<not> bindingLive
            then bindM execute (\<lambda>execution. returnM (fresh execution False error))
            else if \<not> expired \<and> existingBinding = None
            then bindNewSource P sha256 params keyString expiresAt execute
            else missAndStore P sha256 params keyString expiresAt execute error)
      in if \<not> expired \<and> bindingLive \<and> ownershipOk params entry
         then (case hitOf params entry of
             Inr hit \<Rightarrow> returnM (CacheHit (cp_data (ce_payload entry)) hit)
           | Inl e \<Rightarrow> rest (Some (caughtMessage ''Cache hit validation failed'' (ThrownError e))))
         else rest None)"

definition useCache :: "('s, 'd) cache_port \<Rightarrow> (string \<Rightarrow> string) \<Rightarrow> DocumentCacheIdentity \<Rightarrow>
    string \<Rightarrow> jsnum \<Rightarrow> ('s, 'd DocumentCacheExecution) action \<Rightarrow>
    ('s, 'd DocumentCacheProcessResult) action" where
  "useCache P sha256 params keyString expiresAt execute =
     bindM (attemptM (sp_get P keyString)) (\<lambda>r.
       case readEntry r of
         Some entry \<Rightarrow> useEntry P sha256 params keyString expiresAt execute entry
       | None \<Rightarrow> missAndStore P sha256 params keyString expiresAt execute (readError r))"

definition effectiveCacheMode :: "CacheConfig \<Rightarrow> DocumentCacheIdentity \<Rightarrow> CacheMode" where
  "effectiveCacheMode config params =
     (if isExcludedTool (ci_toolName params) then CacheBypass
      else rcm_effectiveMode (resolveCacheMode (ci_mode params) config))"

definition processDocumentCache :: "('s, 'd) cache_port \<Rightarrow> (string \<Rightarrow> string) \<Rightarrow> CacheConfig \<Rightarrow>
    DocumentCacheIdentity \<Rightarrow> ('s, 'd DocumentCacheExecution) action \<Rightarrow>
    ('s, 'd DocumentCacheProcessResult) action" where
  "processDocumentCache P sha256 config params execute =
     thenM (pureM (checkCacheRequest params))
     (let effectiveConfig = cacheConfigForIdentity config params;
          resolved = resolveCacheMode (ci_mode params) effectiveConfig
      in if effectiveCacheMode effectiveConfig params = CacheBypass
         then bindM execute (\<lambda>execution. returnM (CacheMiss
             \<lparr>cf_data = cx_data execution, cf_provenance = cx_provenance execution,
              cf_stored = False, cf_degraded = rcm_degraded resolved, cf_cacheError = None\<rparr>))
         else bindM (pureM (documentCacheKeyString (ci_key params))) (\<lambda>keyString.
           let ttlSeconds = resolveEffectiveTtl (ci_requestedTtlSeconds params) effectiveConfig;
               expiresAt = jadd (ci_nowMs params) (jscale 1000 ttlSeconds)
           in if effectiveCacheMode effectiveConfig params = CacheRefresh
              then refreshCache P sha256 params keyString expiresAt execute
              else useCache P sha256 params keyString expiresAt execute))"

end
