(* ===== verification/DocumentCacheFacts.thy ===== *)
theory DocumentCacheFacts
  imports DocumentCacheRuntime
begin

text \<open>
  The contract of the cache store and what follows from it for \<open>processDocumentCache\<close>: whatever an
  entry holds was executed for its key by a request that passed the checks, and a source is bound to
  an entry only by a request of its own that executed. The log of executions is part of the state;
  the store does not touch it.
\<close>

section \<open>Executions and histories\<close>

type_synonym 'd executed = "CacheConfig \<times> DocumentCacheIdentity \<times> 'd DocumentCacheExecution"

text \<open>The callback of a request, recorded.\<close>

definition noting :: "('d executed \<Rightarrow> 's \<Rightarrow> 's) \<Rightarrow> CacheConfig \<Rightarrow> DocumentCacheIdentity \<Rightarrow>
    ('s, 'd DocumentCacheExecution) action \<Rightarrow> ('s, 'd DocumentCacheExecution) action" where
  "noting jot config params execute = bindM execute (\<lambda>x s. (Inr x, jot (config, params, x) s))"

text \<open>What a sequence of requests, revocations and sweeps does to the store. A callback may itself use
  the cache.\<close>

inductive cacheHistory :: "('s, 'd) cache_port \<Rightarrow> ('d executed \<Rightarrow> 's \<Rightarrow> 's) \<Rightarrow> (string \<Rightarrow> string) \<Rightarrow>
    's \<Rightarrow> 's \<Rightarrow> bool" for port :: "('s, 'd) cache_port" and jot and sha256 where
  history_start: "cacheHistory port jot sha256 s s"
| history_request: "cacheHistory port jot sha256 s t \<Longrightarrow>
    (\<And>u. cacheHistory port jot sha256 u (snd (execute u))) \<Longrightarrow>
    cacheHistory port jot sha256 s
      (snd (processDocumentCache port sha256 config params (noting jot config params execute) t))"
| history_revoke: "cacheHistory port jot sha256 s t \<Longrightarrow>
    cacheHistory port jot sha256 s (snd (revokeDocumentSourceBinding port source t))"
| history_sweep: "cacheHistory port jot sha256 s t \<Longrightarrow>
    cacheHistory port jot sha256 s (snd (sp_sweepExpired port nowMs t))"

section \<open>What justifies an entry\<close>

definition expiryOf :: "CacheConfig \<Rightarrow> DocumentCacheIdentity \<Rightarrow> jsnum" where
  "expiryOf config params =
     jadd (ci_nowMs params) (jscale 1000
       (resolveEffectiveTtl (ci_requestedTtlSeconds params) (cacheConfigForIdentity config params)))"

text \<open>The entry under \<open>k\<close> holds what this execution returned.\<close>

definition holdsExecution :: "string \<Rightarrow> 'd DocumentCacheEntry \<Rightarrow> 'd executed \<Rightarrow> bool" where
  "holdsExecution k e r = (case r of (config, params, x) \<Rightarrow>
     checkCacheRequest params = Inr () \<and> documentCacheKeyString (ci_key params) = Inr k \<and>
     ce_keyString e = k \<and> ce_key e = ci_key params \<and> cp_data (ce_payload e) = cx_data x \<and>
     ce_provenance e = cx_provenance x \<and> ce_createdAt e = ci_nowMs params \<and>
     ce_expiresAt e = expiryOf config params)"

text \<open>Two entries that differ at most in their bindings.\<close>

definition sameContent :: "'d DocumentCacheEntry \<Rightarrow> 'd DocumentCacheEntry \<Rightarrow> bool" where
  "sameContent e e0 \<longleftrightarrow> ce_keyString e = ce_keyString e0 \<and> ce_key e = ce_key e0 \<and> cp_data (ce_payload e) = cp_data (ce_payload e0) \<and>
     ce_provenance e = ce_provenance e0 \<and> ce_createdAt e = ce_createdAt e0 \<and>
     ce_expiresAt e = ce_expiresAt e0"

lemma sameContent_refl [simp]: "sameContent e e"
  by (simp add: sameContent_def)

lemma sameContent_trans: "sameContent a b \<Longrightarrow> sameContent b c \<Longrightarrow> sameContent a c"
  by (simp add: sameContent_def)

lemma holdsExecution_same: "sameContent e e0 \<Longrightarrow> holdsExecution k e0 r \<Longrightarrow> holdsExecution k e r"
  by (simp add: holdsExecution_def sameContent_def split: prod.splits)

text \<open>The source can hit the entry.\<close>

abbreviation hittable :: "string \<Rightarrow> 'd DocumentCacheEntry \<Rightarrow> bool" where
  "hittable source e \<equiv> canSourceHitCache (ce_bindings e) source"

definition bySource :: "string \<Rightarrow> string \<Rightarrow> 'd executed \<Rightarrow> bool" where
  "bySource source k r = (case r of (config, params, x) \<Rightarrow>
     ci_sourceIdentity params = source \<and> documentCacheKeyString (ci_key params) = Inr k)"

section \<open>Bindings\<close>

lemma findBinding_append:
  "findBinding src (bs @ cs) = (case findBinding src bs of None \<Rightarrow> findBinding src cs | Some b \<Rightarrow> Some b)"
  by (induction bs) (simp_all add: findBinding_def)

lemma findBinding_one: "findBinding src [b] = (if sb_sourceIdentity b = src then Some b else None)"
  by (simp add: findBinding_def)

lemma findBinding_revoked:
  "findBinding src (map (\<lambda>b. if sb_sourceIdentity b = src' then b\<lparr>sb_revoked := True\<rparr> else b) bs) =
     map_option (\<lambda>b. if sb_sourceIdentity b = src' then b\<lparr>sb_revoked := True\<rparr> else b) (findBinding src bs)"
  by (induction bs) (simp_all add: findBinding_def)

lemma findBinding_replaced:
  assumes "sb_sourceIdentity binding = src'" "src \<noteq> src'"
  shows "findBinding src (map (\<lambda>b. if sb_sourceIdentity b = src' then binding else b) bs) = findBinding src bs"
  using assms by (induction bs) (auto simp: findBinding_def)

lemma findBinding_source: "findBinding src bs = Some b \<Longrightarrow> sb_sourceIdentity b = src"
  by (auto simp: findBinding_def find_Some_iff)

lemma newBinding_source [simp]: "sb_sourceIdentity (newBinding p i) = ci_sourceIdentity p"
  by (simp add: newBinding_def)

lemma hittable_revoke:
  "canSourceHitCache (revokeBinding b src') src \<longleftrightarrow> src \<noteq> src' \<and> canSourceHitCache b src"
  by (auto simp: canSourceHitCache_def revokeBinding_def findBinding_revoked
      dest: findBinding_source split: option.splits)

lemma hittable_build: "hittable src (buildEntry h p k t x) \<Longrightarrow> src = ci_sourceIdentity p"
  by (auto simp: canSourceHitCache_def buildEntry_def Let_def findBinding_one split: if_splits)

lemma hittable_append:
  "hittable src (appendBinding p e) \<Longrightarrow> hittable src e \<or> src = ci_sourceIdentity p"
  by (auto simp: canSourceHitCache_def appendBinding_def Let_def findBinding_append findBinding_one
      split: option.splits if_splits)

lemma hittable_refreshed:
  "hittable src (refreshedEntry p k t x e) \<Longrightarrow> hittable src e \<or> src = ci_sourceIdentity p"
  by (cases "src = ci_sourceIdentity p")
    (auto simp: canSourceHitCache_def refreshedEntry_def Let_def findBinding_append findBinding_replaced
      findBinding_one split: option.splits if_splits)

lemma sameContent_append [simp]: "sameContent (appendBinding p e) e"
  by (simp add: sameContent_def appendBinding_def Let_def)

lemma keyString_entries [simp]:
  "ce_keyString (buildEntry h p k t x) = k"
  "ce_keyString (refreshedEntry p k t x e) = k"
  "ce_keyString (appendBinding p e) = ce_keyString e"
  by (simp_all add: buildEntry_def refreshedEntry_def appendBinding_def Let_def)

lemma holdsExecution_entries:
  assumes "checkCacheRequest p = Inr ()" "documentCacheKeyString (ci_key p) = Inr k"
  shows "holdsExecution k (buildEntry h p k (expiryOf c p) x) (c, p, x)"
    and "holdsExecution k (refreshedEntry p k (expiryOf c p) x e) (c, p, x)"
  using assms by (simp_all add: holdsExecution_def buildEntry_def refreshedEntry_def Let_def)

lemma checkCacheRequest_now: "checkCacheRequest p = Inr () \<Longrightarrow> isInteger (ci_nowMs p) \<and> \<not> jle (ci_nowMs p) (jint 0)"
  by (simp add: checkCacheRequest_def res_simps)

lemma holdsExecution_created: "holdsExecution k e r \<Longrightarrow> isInteger (ce_createdAt e)"
  by (auto simp: holdsExecution_def dest: checkCacheRequest_now split: prod.splits)

section \<open>The contract of the store\<close>

text \<open>What a cache store promises: reads see what was last written, a write may evict other entries
  but changes none, a revocation and a sweep only take access away, and no operation touches the log
  of executions, to which \<open>jot\<close> adds.\<close>

locale cache_store =
  fixes P :: "('s, 'd) cache_port" and look :: "'s \<Rightarrow> string \<Rightarrow> 'd DocumentCacheEntry option"
    and log :: "'s \<Rightarrow> 'd executed list" and jot :: "'d executed \<Rightarrow> 's \<Rightarrow> 's" and inv :: "'s \<Rightarrow> bool"
  assumes get: "sp_get P k s = (Inr (look s k), s)"
    and set_look: "look (snd (sp_set P e s)) (ce_keyString e) = Some e"
    and set_other: "k \<noteq> ce_keyString e \<Longrightarrow> look (snd (sp_set P e s)) k = Some e' \<Longrightarrow> look s k = Some e'"
    and revoke_look: "look (snd (sp_revokeSourceBinding P src s)) k = Some e' \<Longrightarrow>
      \<exists>e. look s k = Some e \<and> sameContent e' e \<and> (\<forall>src'. hittable src' e' \<longrightarrow> src' \<noteq> src \<and> hittable src' e)"
    and sweep_look: "inv s \<Longrightarrow> look (snd (sp_sweepExpired P now s)) k = Some e \<Longrightarrow> look s k = Some e"
    and log_ops: "log (snd (sp_set P e s)) = log s" "log (snd (sp_revokeSourceBinding P src s)) = log s"
      "log (snd (sp_sweepExpired P now s)) = log s"
    and jot_look: "look (jot r s) = look s" and jot_log: "log (jot r s) = r # log s"
    and inv_created: "inv s \<Longrightarrow> look s k = Some e \<Longrightarrow> isInteger (ce_createdAt e)"
    and inv_set: "inv s \<Longrightarrow> isInteger (ce_createdAt e) \<Longrightarrow> inv (snd (sp_set P e s))"
    and inv_ops: "inv s \<Longrightarrow> inv (snd (sp_revokeSourceBinding P src s))"
      "inv s \<Longrightarrow> inv (snd (sp_sweepExpired P now s))" "inv s \<Longrightarrow> inv (jot r s)"
begin

text \<open>How a store may come about from an earlier one by the executions \<open>new\<close>: an entry holds what it
  held or what one of them returned, and a source has access if it had or is one of them.\<close>

definition entryFrom :: "'s \<Rightarrow> 'd executed list \<Rightarrow> string \<Rightarrow> 'd DocumentCacheEntry \<Rightarrow> bool" where
  "entryFrom s new k e \<longleftrightarrow>
     ((\<exists>e0. look s k = Some e0 \<and> sameContent e e0) \<or> (\<exists>r \<in> set new. holdsExecution k e r)) \<and>
     (\<forall>src. hittable src e \<longrightarrow>
        (\<exists>e0. look s k = Some e0 \<and> hittable src e0) \<or> (\<exists>r \<in> set new. bySource src k r))"

definition evolvesBy :: "'d executed list \<Rightarrow> 's \<Rightarrow> 's \<Rightarrow> bool" where
  "evolvesBy new s t \<longleftrightarrow> log t = new @ log s \<and> (inv s \<longrightarrow> inv t) \<and> (\<forall>k e. look t k = Some e \<longrightarrow> entryFrom s new k e)"

definition evolves :: "'s \<Rightarrow> 's \<Rightarrow> bool" where
  "evolves s t \<longleftrightarrow> (\<exists>new. evolvesBy new s t)"

lemma entryFrom_same: "look s k = Some e \<Longrightarrow> entryFrom s new k e"
  unfolding entryFrom_def by (blast intro: sameContent_refl)

lemma evolvesBy_refl [simp]: "evolvesBy [] s s"
  by (simp add: evolvesBy_def entryFrom_same)

lemma evolves_refl [simp]: "evolves s s"
  unfolding evolves_def by (blast intro: evolvesBy_refl)

lemma entryFrom_trans:
  assumes "\<And>e0. look t k = Some e0 \<Longrightarrow> entryFrom s a k e0" "entryFrom t b k e"
  shows "entryFrom s (b @ a) k e"
proof -
  from assms(2) have "(\<exists>e0. look s k = Some e0 \<and> sameContent e e0) \<or> (\<exists>r \<in> set (b @ a). holdsExecution k e r)"
    unfolding entryFrom_def
    by (auto dest!: assms(1) [unfolded entryFrom_def] intro: sameContent_trans holdsExecution_same)
  moreover have "(\<exists>e0. look s k = Some e0 \<and> hittable src e0) \<or> (\<exists>r \<in> set (b @ a). bySource src k r)"
    if "hittable src e" for src
  proof -
    from assms(2) that consider e0 where "look t k = Some e0" "hittable src e0"
      | r where "r \<in> set b" "bySource src k r"
      unfolding entryFrom_def by blast
    then show ?thesis
      by cases (use assms(1) in \<open>unfold entryFrom_def, auto\<close>)
  qed
  ultimately show ?thesis by (simp add: entryFrom_def)
qed

lemma evolvesBy_trans: "evolvesBy a s t \<Longrightarrow> evolvesBy b t u \<Longrightarrow> evolvesBy (b @ a) s u"
  unfolding evolvesBy_def using entryFrom_trans [of t _ s a b] by simp

lemma evolves_trans: "evolves s t \<Longrightarrow> evolves t u \<Longrightarrow> evolves s u"
  unfolding evolves_def by (blast intro: evolvesBy_trans)

lemma evolves_revoke: "evolves s (snd (sp_revokeSourceBinding P src s))"
  unfolding evolves_def evolvesBy_def entryFrom_def
  by (rule exI [of _ "[]"]) (auto simp: log_ops inv_ops dest!: revoke_look)

lemma evolvesBy_jot: "evolvesBy new s t \<Longrightarrow> evolvesBy (r # new) s (jot r t)"
  unfolding evolvesBy_def entryFrom_def by (auto simp: jot_look jot_log inv_ops)

text \<open>A write after the executions \<open>new\<close> is right if the entry comes from the store or from them.\<close>

lemma evolvesBy_set:
  assumes "evolvesBy new s t" "ce_keyString e = k"
    and "(\<exists>e0. look t k = Some e0 \<and> sameContent e e0) \<or> (\<exists>r \<in> set new. holdsExecution k e r)"
    and "\<And>src. hittable src e \<Longrightarrow>
      (\<exists>e0. look t k = Some e0 \<and> hittable src e0) \<or> (\<exists>r \<in> set new. bySource src k r)"
  shows "evolvesBy new s (snd (sp_set P e t))"
proof -
  have old: "entryFrom s new k' e'" if "look t k' = Some e'" for k' e'
    using assms(1) that by (simp add: evolvesBy_def)
  have "entryFrom s new k e"
    using assms(3, 4) old [unfolded entryFrom_def]
    unfolding entryFrom_def by (meson sameContent_trans holdsExecution_same)
  moreover have "entryFrom s new k' e'" if "look (snd (sp_set P e t)) k' = Some e'" "k' \<noteq> k" for k' e'
    using set_other [of k' e t e'] that assms(2) old by blast
  ultimately have "entryFrom s new k' e'" if "look (snd (sp_set P e t)) k' = Some e'" for k' e'
    using that assms(2) set_look [of e t] by (cases "k' = k") auto
  moreover have "inv (snd (sp_set P e t))" if "inv s"
    using assms(1, 3) that
    by (intro inv_set) (auto simp: evolvesBy_def sameContent_def dest: inv_created holdsExecution_created)
  ultimately show ?thesis using assms(1) by (simp add: evolvesBy_def log_ops)
qed

end

section \<open>What a request does to the store\<close>

lemma snd_bindM: "snd (bindM m f s) = (case fst (m s) of Inl _ \<Rightarrow> snd (m s) | Inr x \<Rightarrow> snd (f x (snd (m s))))"
  by (simp add: bindM_def split: prod.splits sum.splits)

lemma snd_freshAfter [simp]: "snd (freshAfter other x w s) = snd (w s)"
  by (simp add: freshAfter_def catchM_def bindM_def returnM_def split: prod.splits sum.splits)

lemma fst_snd_steps [simp]:
  "fst (returnM x s) = Inr x" "snd (returnM x s) = s"
  "snd (attemptM m s) = snd (m s)" "fst (attemptM m s) = Inr (fst (m s))"
  "snd (pureM r s) = s"
  by (simp_all add: returnM_def attemptM_def pureM_def split: prod.splits sum.splits)

context cache_store
begin

text \<open>The invariant holds and every entry is under its own key.\<close>

definition keyed :: "'s \<Rightarrow> bool" where
  "keyed s \<longleftrightarrow> inv s \<and> (\<forall>k e. look s k = Some e \<longrightarrow> ce_keyString e = k)"

lemma keyed_evolvesBy: "keyed s \<Longrightarrow> evolvesBy new s t \<Longrightarrow> keyed t"
  unfolding keyed_def evolvesBy_def entryFrom_def
  by (fastforce simp: holdsExecution_def sameContent_def split: prod.splits)

lemma evolves_sweep: "keyed s \<Longrightarrow> evolves s (snd (sp_sweepExpired P now s))"
  unfolding evolves_def evolvesBy_def keyed_def
  by (rule exI [of _ "[]"]) (auto simp: log_ops inv_ops intro!: entryFrom_same dest!: sweep_look)

text \<open>The execution \<open>r\<close> took place on the way.\<close>

definition ran :: "'d executed \<Rightarrow> 's \<Rightarrow> 's \<Rightarrow> bool" where
  "ran r s t \<longleftrightarrow> (\<exists>new. evolvesBy new s t \<and> r \<in> set new)"

lemma ran_evolves: "ran r s t \<Longrightarrow> evolves s t"
  by (auto simp: ran_def evolves_def)

lemma ran_keyed: "ran r s t \<Longrightarrow> keyed s \<Longrightarrow> keyed t"
  by (auto simp: ran_def intro: keyed_evolvesBy)

lemma ran_build:
  assumes "ran (c, p, x) s t" "checkCacheRequest p = Inr ()" "documentCacheKeyString (ci_key p) = Inr k"
  shows "evolves s (snd (sp_set P (buildEntry h p k (expiryOf c p) x) t))"
proof -
  from assms(1) obtain new where "evolvesBy new s t" "(c, p, x) \<in> set new" by (auto simp: ran_def)
  moreover have "bySource (ci_sourceIdentity p) k (c, p, x)" using assms(3) by (simp add: bySource_def)
  ultimately have "evolvesBy new s (snd (sp_set P (buildEntry h p k (expiryOf c p) x) t))"
    using assms(2, 3)
    by (intro evolvesBy_set) (auto dest!: hittable_build intro: holdsExecution_entries)
  then show ?thesis by (auto simp: evolves_def)
qed

lemma ran_refreshed:
  assumes "ran (c, p, x) s t" "checkCacheRequest p = Inr ()" "documentCacheKeyString (ci_key p) = Inr k"
    and "look t k = Some e"
  shows "evolves s (snd (sp_set P (refreshedEntry p k (expiryOf c p) x e) t))"
proof -
  from assms(1) obtain new where "evolvesBy new s t" "(c, p, x) \<in> set new" by (auto simp: ran_def)
  moreover have "bySource (ci_sourceIdentity p) k (c, p, x)" using assms(3) by (simp add: bySource_def)
  ultimately have "evolvesBy new s (snd (sp_set P (refreshedEntry p k (expiryOf c p) x e) t))"
    using assms(2-)
    by (intro evolvesBy_set) (auto dest!: hittable_refreshed intro: holdsExecution_entries)
  then show ?thesis by (auto simp: evolves_def)
qed

lemma ran_append:
  assumes "ran (c, p, x) s t" "keyed s" "documentCacheKeyString (ci_key p) = Inr k" "look t k = Some e"
  shows "evolves s (snd (sp_set P (appendBinding p e) t))"
proof -
  from assms(1) obtain new where new: "evolvesBy new s t" "(c, p, x) \<in> set new" by (auto simp: ran_def)
  moreover have "bySource (ci_sourceIdentity p) k (c, p, x)" using assms(3) by (simp add: bySource_def)
  moreover have "ce_keyString e = k" using keyed_evolvesBy [OF assms(2) new(1)] assms(4) by (simp add: keyed_def)
  ultimately have "evolvesBy new s (snd (sp_set P (appendBinding p e) t))"
    using assms(4)
    by (intro evolvesBy_set) (auto dest!: hittable_append intro: sameContent_append)
  then show ?thesis by (auto simp: evolves_def)
qed

lemma noting_ran:
  assumes "\<And>u. keyed u \<Longrightarrow> evolves u (snd (execute u))" "keyed s"
  shows "case noting jot c p execute s of (Inl _, t) \<Rightarrow> evolves s t | (Inr x, t) \<Rightarrow> ran (c, p, x) s t"
proof (cases "execute s")
  case (Pair r t)
  with assms have e: "evolves s t" by (metis snd_conv)
  show ?thesis
  proof (cases r)
    case (Inl a)
    with Pair e show ?thesis by (simp add: noting_def bindM_def)
  next
    case (Inr x)
    from e obtain new where "evolvesBy new s t" by (auto simp: evolves_def)
    then have "ran (c, p, x) s (jot (c, p, x) t)"
      unfolding ran_def by (intro exI [of _ "(c, p, x) # new"]) (simp add: evolvesBy_jot)
    with Pair Inr show ?thesis by (simp add: noting_def bindM_def)
  qed
qed

text \<open>A request that executes and then does what \<open>f\<close> does.\<close>

lemma after_noting:
  assumes "\<And>u. keyed u \<Longrightarrow> evolves u (snd (execute u))" "keyed s"
    and "\<And>x t. ran (c, p, x) s t \<Longrightarrow> evolves s (snd (f x t))"
  shows "evolves s (snd (bindM (noting jot c p execute) f s))"
  using noting_ran [OF assms(1, 2), of c p] assms(3)
  by (simp add: bindM_def split: prod.splits sum.splits)

end

text \<open>Methods that never answer from the cache.\<close>

definition missing :: "('s, 'd DocumentCacheProcessResult) action \<Rightarrow> bool" where
  "missing m \<longleftrightarrow> (\<forall>s d hit t. m s \<noteq> (Inr (CacheHit d hit), t))"

lemma missing_bind: "(\<And>x. missing (f x)) \<Longrightarrow> missing (bindM m f)"
  by (auto simp: missing_def bindM_def split: prod.splits sum.splits)

lemma missing_basic [simp]:
  "missing (returnM (CacheMiss y))" "missing (returnM (fresh x b e))" "missing (freshAfter other x w)"
  by (auto simp: missing_def returnM_def fresh_def freshAfter_def catchM_def bindM_def
      split: prod.splits sum.splits)

lemma missing_parts:
  "missing (missAndStore P h p k t execute e)"
  "missing (bindNewSource P h p k t execute)"
  "missing (refreshCache P h p k t execute)"
  unfolding missAndStore_def bindNewSource_def refreshCache_def
  by (intro missing_bind, simp split: sum.split bool.split)+

lemma useEntry_hit:
  assumes "useEntry P h p k expiresAt execute e s = (Inr (CacheHit d hit), t)"
  shows "t = s \<and> \<not> jlt (ce_expiresAt e) (ci_nowMs p) \<and> hittable (ci_sourceIdentity p) e \<and>
    pk_ownershipScope (ce_key e) = ci_ownershipScope p \<and>
    d = cp_data (ce_payload e) \<and> toHitResult e (ci_nowMs p) = Inr hit"
proof -
  have "missing (bindM execute (\<lambda>x. returnM (fresh x False err)))" for err
    by (rule missing_bind) simp
  then show ?thesis
    using assms missing_parts(1, 2) [of P h p k expiresAt execute]
    by (auto simp: useEntry_def Let_def missing_def hitOf_def validateOwnershipScope_def throwIf_def
        andThen_def returnM_def canSourceHitCache_def split: if_splits option.splits sum.splits)
qed

lemma process_refused:
  "checkCacheRequest p = Inl e \<Longrightarrow> processDocumentCache P h c p execute s = (Inl (ThrownError e), s)"
  by (simp add: processDocumentCache_def thenM_def bindM_def method_simps)

lemma process_run:
  assumes "checkCacheRequest p = Inr ()"
  shows "processDocumentCache P h c p execute s =
    (let mode = effectiveCacheMode (cacheConfigForIdentity c p) p in
     if mode = CacheBypass
     then bindM execute (\<lambda>x. returnM (CacheMiss
         \<lparr>cf_data = cx_data x, cf_provenance = cx_provenance x, cf_stored = False,
          cf_degraded = rcm_degraded (resolveCacheMode (ci_mode p) (cacheConfigForIdentity c p)),
          cf_cacheError = None\<rparr>)) s
     else case documentCacheKeyString (ci_key p) of
         Inl e \<Rightarrow> (Inl (ThrownError e), s)
       | Inr k \<Rightarrow> if mode = CacheRefresh then refreshCache P h p k (expiryOf c p) execute s
           else useCache P h p k (expiryOf c p) execute s)"
  unfolding processDocumentCache_def thenM_def Let_def assms
  by (simp add: bindM_def [of "pureM _"] method_simps expiryOf_def Let_def split: sum.split)

context cache_store
begin

lemma missAndStore_evolves:
  assumes ex: "\<And>u. keyed u \<Longrightarrow> evolves u (snd (execute u))" and s: "keyed s"
    and ok: "checkCacheRequest p = Inr ()" "documentCacheKeyString (ci_key p) = Inr k"
  shows "evolves s (snd (missAndStore P h p k (expiryOf c p) (noting jot c p execute) err s))"
  unfolding missAndStore_def
proof (rule after_noting [OF ex s])
  fix x t assume ran: "ran (c, p, x) s t"
  show "evolves s (snd ((if err \<noteq> None then returnM (fresh x False err)
     else freshAfter ''Cache write failed'' x (bindM (sp_get P k) (\<lambda>existing. case existing of
         None \<Rightarrow> sp_set P (buildEntry h p k (expiryOf c p) x)
       | Some e \<Rightarrow> if jlt (ce_expiresAt e) (ci_nowMs p) then sp_set P (buildEntry h p k (expiryOf c p) x)
           else if \<not> list_ex (\<lambda>b. sb_sourceIdentity b = ci_sourceIdentity p) (lrs_bindings (ce_bindings e))
           then sp_set P (appendBinding p e) else returnM ()))) t))"
    using ran_build [OF ran ok] ran_append [OF ran s ok(2)] ran_evolves [OF ran]
    by (simp add: snd_bindM get split: option.splits)
qed

lemma bindNewSource_evolves:
  assumes ex: "\<And>u. keyed u \<Longrightarrow> evolves u (snd (execute u))" and s: "keyed s"
    and ok: "checkCacheRequest p = Inr ()" "documentCacheKeyString (ci_key p) = Inr k"
  shows "evolves s (snd (bindNewSource P h p k (expiryOf c p) (noting jot c p execute) s))"
  unfolding bindNewSource_def
proof (rule after_noting [OF ex s])
  fix x t assume 1: "ran (c, p, x) s t"
  have append: "evolves s (snd (sp_set P (appendBinding p e) t))" if "look t k = Some e" for e
    using ran_append [OF 1 s ok(2) that] .
  show "evolves s (snd (bindM (attemptM (bindM (sp_get P k) (\<lambda>latest. case latest of
       Some e \<Rightarrow> if jle (ci_nowMs p) (ce_expiresAt e)
         then bindM (sp_set P (appendBinding p e)) (\<lambda>_. returnM True) else returnM False
     | None \<Rightarrow> returnM False))) (\<lambda>r. case r of
       Inl error \<Rightarrow> returnM (fresh x False (Some (caughtMessage ''Cache write failed'' error)))
     | Inr True \<Rightarrow> returnM (fresh x True None)
     | Inr False \<Rightarrow> freshAfter ''Cache write failed'' x (sp_set P (buildEntry h p k (expiryOf c p) x))) t))"
    using ran_build [OF 1 ok] append ran_evolves [OF 1]
    by (auto simp: bindM_def attemptM_def returnM_def get
        split: option.splits sum.splits prod.splits bool.splits if_splits)
qed

lemma useCache_evolves:
  assumes ex: "\<And>u. keyed u \<Longrightarrow> evolves u (snd (execute u))" and s: "keyed s"
    and ok: "checkCacheRequest p = Inr ()" "documentCacheKeyString (ci_key p) = Inr k"
  shows "evolves s (snd (useCache P h p k (expiryOf c p) (noting jot c p execute) s))"
proof -
  note parts = missAndStore_evolves [OF ex s ok] bindNewSource_evolves [OF ex s ok]
  have plain: "evolves s (snd (bindM (noting jot c p execute) (\<lambda>x. returnM (fresh x False err)) s))" for err
    by (rule after_noting [OF ex s]) (auto intro: ran_evolves)
  show ?thesis
    using parts plain
    by (simp add: useCache_def useEntry_def Let_def readEntry_def snd_bindM get
        split: option.split sum.split)
qed

lemma refreshCache_evolves:
  assumes ex: "\<And>u. keyed u \<Longrightarrow> evolves u (snd (execute u))" and s: "keyed s"
    and ok: "checkCacheRequest p = Inr ()" "documentCacheKeyString (ci_key p) = Inr k"
  shows "evolves s (snd (refreshCache P h p k (expiryOf c p) (noting jot c p execute) s))"
  unfolding refreshCache_def
proof (rule after_noting [OF ex s])
  fix x t assume 1: "ran (c, p, x) s t"
  show "evolves s (snd (freshAfter ''Cache operation failed'' x (bindM (sp_get P k) (\<lambda>existing.
     sp_set P (case existing of None \<Rightarrow> buildEntry h p k (expiryOf c p) x
       | Some e \<Rightarrow> refreshedEntry p k (expiryOf c p) x e))) t))"
    using ran_build [OF 1 ok] ran_refreshed [OF 1 ok]
    by (simp add: snd_bindM get split: option.splits)
qed

lemma process_evolves:
  assumes ex: "\<And>u. keyed u \<Longrightarrow> evolves u (snd (execute u))" and s: "keyed s"
  shows "evolves s (snd (processDocumentCache P h c p (noting jot c p execute) s))"
proof (cases "checkCacheRequest p")
  case (Inl e)
  then show ?thesis by (simp add: process_refused)
next
  case (Inr u)
  then have ok: "checkCacheRequest p = Inr ()" by simp
  have plain: "evolves s (snd (bindM (noting jot c p execute) (\<lambda>x. returnM (f x)) s))"
    for f :: "_ \<Rightarrow> 'd DocumentCacheProcessResult"
    by (rule after_noting [OF ex s]) (auto intro: ran_evolves)
  show ?thesis
    using plain useCache_evolves [OF ex s ok] refreshCache_evolves [OF ex s ok]
    by (simp add: process_run ok Let_def split: sum.split)
qed

lemma history_evolves:
  "cacheHistory P jot h s t \<Longrightarrow> keyed s \<Longrightarrow> evolves s t"
proof (induction rule: cacheHistory.induct)
  case (history_request s t execute config params)
  from history_request.IH(1) history_request.prems have st: "evolves s t" by blast
  then have "keyed t" using history_request.prems by (auto simp: evolves_def intro: keyed_evolvesBy)
  with history_request.IH(2) have "evolves t (snd (processDocumentCache P h config params
      (noting jot config params execute) t))" by (intro process_evolves) blast+
  with st show ?case by (rule evolves_trans)
next
  case (history_revoke s t source)
  then have "evolves s t" by blast
  moreover have "evolves t (snd (revokeDocumentSourceBinding P source t))"
    by (simp add: revokeDocumentSourceBinding_def thenM_def snd_bindM evolves_revoke split: sum.split)
  ultimately show ?case by (rule evolves_trans)
next
  case (history_sweep s t nowMs)
  then have "evolves s t" by blast
  moreover from this history_sweep.prems have "keyed t"
    by (auto simp: evolves_def intro: keyed_evolvesBy)
  ultimately show ?case using evolves_trans evolves_sweep by blast
qed simp

text \<open>A hit: the entry is there, live, of the tenant of the request, and the request changes nothing.\<close>

lemma process_hit:
  assumes "processDocumentCache P h c p execute s = (Inr (CacheHit d hit), t)"
  shows "t = s \<and> checkCacheRequest p = Inr () \<and>
    (\<exists>k e. documentCacheKeyString (ci_key p) = Inr k \<and> look s k = Some e \<and>
      \<not> jlt (ce_expiresAt e) (ci_nowMs p) \<and> hittable (ci_sourceIdentity p) e \<and>
      pk_ownershipScope (ce_key e) = ci_ownershipScope p \<and>
      d = cp_data (ce_payload e) \<and> toHitResult e (ci_nowMs p) = Inr hit)"
proof (cases "checkCacheRequest p")
  case (Inl e)
  with assms show ?thesis by (simp add: process_refused)
next
  case (Inr u)
  then have ok: "checkCacheRequest p = Inr ()" by simp
  have plain: "missing (bindM execute (\<lambda>x. returnM (CacheMiss (f x))))" for f :: "_ \<Rightarrow> 'd CacheFresh"
    by (rule missing_bind) simp
  from assms obtain k where k: "documentCacheKeyString (ci_key p) = Inr k"
    and "useCache P h p k (expiryOf c p) execute s = (Inr (CacheHit d hit), t)"
    using plain missing_parts(3) [of P h p _ "expiryOf c p" execute]
    by (auto simp: process_run ok Let_def missing_def split: if_splits sum.splits)
  then have hit: "case look s k of None \<Rightarrow> False | Some e \<Rightarrow>
      useEntry P h p k (expiryOf c p) execute e s = (Inr (CacheHit d hit), t)"
    using missing_parts(1) [of P h p k "expiryOf c p" execute]
    by (auto simp: useCache_def bindM_def attemptM_def get readEntry_def missing_def split: option.splits)
  then obtain e where e: "look s k = Some e"
    and use: "useEntry P h p k (expiryOf c p) execute e s = (Inr (CacheHit d hit), t)"
    by (auto split: option.splits)
  from use show ?thesis
    using ok k e useEntry_hit [OF use] by blast
qed

end

end
