(* ===== verification/DocumentCacheProperties.thy ===== *)
theory DocumentCacheProperties
  imports DocumentCacheFacts
begin

text \<open>
  Properties of the document cache. The in-memory store keeps the contract of \<^verbatim>\<open>DocumentCacheFacts\<close>;
  over its histories a hit is justified by an execution of the same tenant, a source has access only
  after an execution of its own, the store stays within its capacity, and over any store, a fault of
  the store never becomes a failure of the request.
\<close>

section \<open>The in-memory store keeps the contract\<close>

record 'd loggedCache = "'d memCache" +
  lc_log :: "'d executed list"

definition logRun :: "'d executed \<Rightarrow> 'd loggedCache \<Rightarrow> 'd loggedCache" where
  "logRun r s = s\<lparr>lc_log := r # lc_log s\<rparr>"

definition cacheSound :: "jsnum \<Rightarrow> 'd loggedCache \<Rightarrow> bool" where
  "cacheSound limit s \<longleftrightarrow> mc_maxEntries s = limit \<and> mapOk (mc_entries s) \<and>
     (\<forall>(k, e) \<in> set (mc_entries s). isInteger (ce_createdAt e)) \<and>
     (\<forall>n. limit = jint n \<longrightarrow> int (length (mc_entries s)) \<le> max 1 n)"

lemma oldestEntry_snd:
  fixes m :: "'d DocumentCacheEntry jsmap"
  defines "better \<equiv> \<lambda>(oldestKey, oldestCreated) (k, v :: 'd DocumentCacheEntry).
      if jlt (ce_createdAt v) oldestCreated then (Some k, ce_createdAt v) else (oldestKey, oldestCreated)"
  assumes "\<forall>(k, e) \<in> set m. isInteger (ce_createdAt e)"
    and "(\<exists>k v. a = (Some k, ce_createdAt v) \<and> (k, v) \<in> M \<and> isInteger (ce_createdAt v)) \<or> (a = (None, PosInf) \<and> m \<noteq> [])"
  shows "\<exists>k v. foldl better a m = (Some k, ce_createdAt v) \<and> (k, v) \<in> M \<union> set m \<and>
    isInteger (ce_createdAt v) \<and> (\<forall>(k', e) \<in> set m. \<not> jlt (ce_createdAt e) (ce_createdAt v)) \<and>
    (snd a \<noteq> PosInf \<longrightarrow> \<not> jlt (snd a) (ce_createdAt v))"
  using assms(2-)
proof (induction m arbitrary: a M)
  case Nil
  then obtain k v n where "a = (Some k, jint n)" "(k, v) \<in> M" "ce_createdAt v = jint n"
    by (auto simp: isInteger_iff)
  then show ?case by (intro exI [of _ k] exI [of _ v]) simp
next
  case (Cons x m)
  obtain k e where x: "x = (k, e)" by (cases x)
  obtain n where n: "ce_createdAt e = jint n" using Cons.prems x by (auto simp: isInteger_iff)
  show ?case
  proof (cases "jlt (ce_createdAt e) (snd a)")
    case True
    have step: "better a x = (Some k, ce_createdAt e)" using True by (cases a) (simp add: better_def x)
    have "\<exists>k' v. foldl better (Some k, ce_createdAt e) m = (Some k', ce_createdAt v) \<and>
        (k', v) \<in> insert (k, e) M \<union> set m \<and> isInteger (ce_createdAt v) \<and>
        (\<forall>(k', e) \<in> set m. \<not> jlt (ce_createdAt e) (ce_createdAt v)) \<and>
        (snd (Some k, ce_createdAt e) \<noteq> PosInf \<longrightarrow> \<not> jlt (snd (Some k, ce_createdAt e)) (ce_createdAt v))"
    proof (intro Cons.IH disjI1)
      show "\<exists>k' v. (Some k, ce_createdAt e) = (Some k', ce_createdAt v) \<and> (k', v) \<in> insert (k, e) M \<and>
          isInteger (ce_createdAt v)" by (intro exI [of _ k] exI [of _ e]) (simp add: n)
    qed (use Cons.prems(1) in simp)
    then obtain k' v where v: "foldl better (Some k, ce_createdAt e) m = (Some k', ce_createdAt v)"
      "(k', v) \<in> insert (k, e) M \<union> set m" "isInteger (ce_createdAt v)"
      "\<forall>(k', e) \<in> set m. \<not> jlt (ce_createdAt e) (ce_createdAt v)" "\<not> jlt (ce_createdAt e) (ce_createdAt v)"
      by (auto simp: n)
    moreover have "\<not> jlt (snd a) (ce_createdAt v)" if "snd a \<noteq> PosInf"
      using True v(3, 5) that by (cases "snd a") (auto simp: n isInteger_iff)
    ultimately show ?thesis
      by (intro exI [of _ k'] exI [of _ v]) (auto simp: x step [unfolded x] split del: if_split)
  next
    case False
    have a: "\<exists>k0 v. a = (Some k0, ce_createdAt v) \<and> (k0, v) \<in> M \<and> isInteger (ce_createdAt v)"
      using Cons.prems(2) False by (auto simp: n)
    have step: "better a x = a" using False by (cases a) (simp add: better_def x)
    have "\<exists>k v. foldl better a m = (Some k, ce_createdAt v) \<and> (k, v) \<in> M \<union> set m \<and>
        isInteger (ce_createdAt v) \<and> (\<forall>(k', e) \<in> set m. \<not> jlt (ce_createdAt e) (ce_createdAt v)) \<and>
        (snd a \<noteq> PosInf \<longrightarrow> \<not> jlt (snd a) (ce_createdAt v))"
      using Cons.prems(1) a by (intro Cons.IH) auto
    then obtain k' v where v: "foldl better a m = (Some k', ce_createdAt v)" "(k', v) \<in> M \<union> set m"
      "isInteger (ce_createdAt v)" "\<forall>(k', e) \<in> set m. \<not> jlt (ce_createdAt e) (ce_createdAt v)"
      "snd a \<noteq> PosInf \<longrightarrow> \<not> jlt (snd a) (ce_createdAt v)" by blast
    moreover have "\<not> jlt (ce_createdAt e) (ce_createdAt v)"
      using False v(3, 5) a by (auto simp: n isInteger_iff)
    ultimately show ?thesis by (intro exI [of _ k'] exI [of _ v]) (auto simp: x step [unfolded x])
  qed
qed

text \<open>The evicted entry exists and none was created before it.\<close>

lemma oldestEntry_oldest:
  assumes "\<forall>(k, e) \<in> set m. isInteger (ce_createdAt e)" "m \<noteq> []"
  shows "\<exists>k e. oldestEntry m = Some k \<and> (k, e) \<in> set m \<and>
    (\<forall>(k', e') \<in> set m. \<not> jlt (ce_createdAt e') (ce_createdAt e))"
  using oldestEntry_snd [OF assms(1), of "(None, PosInf)" "{}"] assms(2)
  by (auto simp: oldestEntry_def)


lemma delete_length: "mapOk m \<Longrightarrow> k \<in> fst ` set m \<Longrightarrow> Suc (length (AList.delete k m)) = length m"
proof (induction m)
  case (Cons x m)
  show ?case
  proof (cases "fst x = k")
    case True
    with Cons.prems have "AList.delete k m = m" by (auto simp: mapOk_def)
    with True show ?thesis by (cases x) simp
  next
    case False
    with Cons show ?thesis by (cases x) (simp add: mapOk_def)
  qed
qed simp

lemma set_update_delete:
  "(k', e') \<in> set (AList.update k e m) \<Longrightarrow> (k', e') = (k, e) \<or> (k', e') \<in> set m"
  "(k', e') \<in> set (AList.delete k m) \<Longrightarrow> (k', e') \<in> set m"
  by (induction m) (auto split: if_splits)

lemma cacheSound_set:
  assumes s: "cacheSound limit s" and e: "isInteger (ce_createdAt e)"
  shows "cacheSound limit (snd (mc_set e s))"
proof -
  let ?m = "mc_entries s" and ?k = "ce_keyString e"
  define full where "full \<longleftrightarrow> \<not> mapHas ?m ?k \<and> jle limit (jint (int (length ?m)))"
  define m where "m = (if full then (case oldestEntry ?m of None \<Rightarrow> ?m | Some k \<Rightarrow> AList.delete k ?m) else ?m)"
  have ints: "\<forall>(k, e) \<in> set ?m. isInteger (ce_createdAt e)" and ok: "mapOk ?m"
    and lim: "mc_maxEntries s = limit" "\<forall>n. limit = jint n \<longrightarrow> int (length ?m) \<le> max 1 n"
    using s by (auto simp: cacheSound_def)
  have set: "snd (mc_set e s) = s\<lparr>mc_entries := AList.update ?k e m\<rparr>"
    by (simp add: mc_set_def Let_def m_def full_def lim)
  have m_ok: "mapOk m" "set m \<subseteq> set ?m"
    using ok by (auto simp: m_def split: option.split dest: set_update_delete)
  have "int (length (AList.update ?k e m)) \<le> max 1 n" if n: "limit = jint n" for n
  proof (cases "mapHas ?m ?k")
    case True
    then have "m = ?m" by (simp add: m_def full_def)
    with True lim n show ?thesis by (auto simp: length_update)
  next
    case new: False
    show ?thesis
    proof (cases "full \<and> ?m \<noteq> []")
      case True
      then obtain k' e' where k': "oldestEntry ?m = Some k'" "(k', e') \<in> set ?m"
        using oldestEntry_oldest [OF ints] by blast
      from k'(2) have "k' \<in> fst ` set ?m" by (rule rev_image_eqI) simp
      with k'(1) have "Suc (length m) = length ?m"
        using True delete_length [OF ok, of k'] by (simp add: m_def)
      then show ?thesis using lim n by (auto simp: length_update)
    next
      case False
      then have "m = ?m" by (auto simp: m_def oldestEntry_def)
      with False new n show ?thesis by (auto simp: length_update full_def)
    qed
  qed
  moreover have "\<forall>(k, e) \<in> set (AList.update ?k e m). isInteger (ce_createdAt e)"
    using m_ok(2) ints e by (auto dest!: set_update_delete(1))
  ultimately show ?thesis using lim(1) m_ok(1) by (simp add: cacheSound_def set)
qed

lemma map_of_revoked:
  fixes s :: "('d, 'x) memCache_scheme"
  shows "map_of (mc_entries (snd (mc_revokeSourceBinding src s))) k =
     map_option (\<lambda>e. if list_ex (\<lambda>b. sb_sourceIdentity b = src) (lrs_bindings (ce_bindings e))
       then e\<lparr>ce_bindings := revokeBinding (ce_bindings e) src\<rparr> else e) (map_of (mc_entries s) k)"
proof -
  have "map_of (map (\<lambda>(k, e). if C e then (k, f e) else (k, e)) m) k =
      map_option (\<lambda>e. if C e then f e else e) (map_of m k)" for C f and m :: "'d DocumentCacheEntry jsmap"
    by (induction m) auto
  then show ?thesis by (simp add: mc_revokeSourceBinding_def)
qed

lemma map_fst_revoked: "map fst (mc_entries (snd (mc_revokeSourceBinding src s))) = map fst (mc_entries s)"
  by (auto simp: mc_revokeSourceBinding_def)

lemma hittable_source: "hittable src e \<Longrightarrow> list_ex (\<lambda>b. sb_sourceIdentity b = src) (lrs_bindings (ce_bindings e))"
  by (auto simp: canSourceHitCache_def findBinding_def list_ex_iff find_Some_iff
      intro: nth_mem split: option.splits)

lemma map_of_set_same: "map_of (mc_entries (snd (mc_set e s))) (ce_keyString e) = Some e"
proof -
  have "map_of (mc_entries (s\<lparr>mc_entries := AList.update k e m\<rparr>)) k = Some e" for k m by simp
  then show ?thesis by (simp only: mc_set_def Let_def snd_conv)
qed

lemma map_of_set_other:
  assumes "k \<noteq> ce_keyString e" "map_of (mc_entries (snd (mc_set e s))) k = Some e'"
  shows "map_of (mc_entries s) k = Some e'"
  using assms by (auto simp: mc_set_def Let_def split: if_splits option.splits)

lemma cacheSound_revoke: "cacheSound limit s \<Longrightarrow> cacheSound limit (snd (mc_revokeSourceBinding src s))"
proof -
  assume s: "cacheSound limit s"
  have "\<forall>(k, e) \<in> set (mc_entries (snd (mc_revokeSourceBinding src s))). isInteger (ce_createdAt e)"
    using s by (auto simp: cacheSound_def mc_revokeSourceBinding_def split: if_splits prod.splits)
  moreover have "length (mc_entries (snd (mc_revokeSourceBinding src s))) = length (mc_entries s)"
    "mc_maxEntries (snd (mc_revokeSourceBinding src s)) = mc_maxEntries s"
    by (simp_all add: mc_revokeSourceBinding_def)
  ultimately show ?thesis using s map_fst_revoked [of src s] by (simp add: cacheSound_def mapOk_def)
qed

lemma map_of_filter_Some:
  "distinct (map fst m) \<Longrightarrow> map_of (filter Q m) k = Some e \<Longrightarrow> map_of m k = Some e"
  by (auto simp: map_of_eq_Some_iff distinct_map_filter)

lemma cacheSound_sweep: "cacheSound limit s \<Longrightarrow> cacheSound limit (snd (mc_sweepExpired now s))"
  by (auto simp: cacheSound_def mc_sweepExpired_def Let_def mapOk_def distinct_map_filter
      intro: order_trans [OF of_nat_mono [OF length_filter_le]])

lemma revoked_entry:
  assumes "map_of (mc_entries (snd (mc_revokeSourceBinding src s))) k = Some e'"
  shows "\<exists>e. map_of (mc_entries s) k = Some e \<and> sameContent e' e \<and>
    (\<forall>src'. hittable src' e' \<longrightarrow> src' \<noteq> src \<and> hittable src' e)"
proof -
  from assms obtain e where e: "map_of (mc_entries s) k = Some e"
    and e': "e' = (if list_ex (\<lambda>b. sb_sourceIdentity b = src) (lrs_bindings (ce_bindings e))
       then e\<lparr>ce_bindings := revokeBinding (ce_bindings e) src\<rparr> else e)"
    by (auto simp: map_of_revoked)
  have "sameContent e' e" by (simp add: e' sameContent_def)
  moreover have "src' \<noteq> src \<and> hittable src' e" if "hittable src' e'" for src'
    using that hittable_source [where e = e and src = src'] by (auto simp: e' hittable_revoke split: if_splits)
  ultimately show ?thesis using e by blast
qed

interpretation cache: cache_store memCachePort "\<lambda>s. map_of (mc_entries s)" lc_log logRun "cacheSound limit"
  for limit
proof unfold_locales
  fix s :: "'a loggedCache" and k k' src src' e e' now r
  show "sp_get memCachePort k s = (Inr (map_of (mc_entries s) k), s)"
    by (simp add: memCachePort_def mc_get_def)
  show "map_of (mc_entries (snd (sp_set memCachePort e s))) (ce_keyString e) = Some e"
    by (simp add: memCachePort_def map_of_set_same)
  show "map_of (mc_entries s) k = Some e'"
    if "k \<noteq> ce_keyString e" "map_of (mc_entries (snd (sp_set memCachePort e s))) k = Some e'"
    using that by (intro map_of_set_other [of k e s e']) (simp_all add: memCachePort_def)
  show "\<exists>e. map_of (mc_entries s) k = Some e \<and> sameContent e' e \<and>
      (\<forall>src'. hittable src' e' \<longrightarrow> src' \<noteq> src \<and> hittable src' e)"
    if "map_of (mc_entries (snd (sp_revokeSourceBinding memCachePort src s))) k = Some e'"
    using that by (intro revoked_entry) (simp add: memCachePort_def)
  show "map_of (mc_entries s) k = Some e"
    if "cacheSound limit s" "map_of (mc_entries (snd (sp_sweepExpired memCachePort now s))) k = Some e"
  proof -
    from that(1) have "distinct (map fst (mc_entries s))" by (simp add: cacheSound_def mapOk_def)
    with that(2) show ?thesis
      by (simp add: memCachePort_def mc_sweepExpired_def Let_def map_of_filter_Some)
  qed
  show "isInteger (ce_createdAt e)" if "cacheSound limit s" "map_of (mc_entries s) k = Some e"
    using that by (auto simp: cacheSound_def dest: map_of_SomeD)
  show "cacheSound limit (snd (sp_set memCachePort e s))" if "cacheSound limit s" "isInteger (ce_createdAt e)"
    using that by (auto simp: memCachePort_def intro: cacheSound_set)
  show "lc_log (snd (sp_set memCachePort e s)) = lc_log s"
    "lc_log (snd (sp_revokeSourceBinding memCachePort src s)) = lc_log s"
    "lc_log (snd (sp_sweepExpired memCachePort now s)) = lc_log s"
    by (simp_all add: memCachePort_def mc_set_def mc_revokeSourceBinding_def mc_sweepExpired_def Let_def)
  show "cacheSound limit (snd (sp_revokeSourceBinding memCachePort src s))"
    "cacheSound limit (snd (sp_sweepExpired memCachePort now s))" "cacheSound limit (logRun r s)"
    if "cacheSound limit s"
    using that by (simp_all add: memCachePort_def cacheSound_revoke cacheSound_sweep)
      (simp add: cacheSound_def logRun_def)
  show "(\<lambda>k. map_of (mc_entries (logRun r s)) k) = map_of (mc_entries s)"
    "lc_log (logRun r s) = r # lc_log s"
    by (simp_all add: logRun_def)
qed

section \<open>How long a payload may be served\<close>

lemma jmin_upto: "\<not> jlt (Num m) a \<or> \<not> jlt (Num m) b \<Longrightarrow> \<not> jlt (Num m) (jmin a b)"
  by (cases a; cases b) (auto simp: jmin_def jle_def)

lemma jmax_range:
  assumes "jmax n (jint 0) = Num q"
  shows "0 \<le> q" "\<not> jlt (Num m) n \<Longrightarrow> q \<le> max 0 m"
  using assms by (cases n; auto simp: jmax_def jle_def split: if_splits)+

lemma resolveEffectiveTtl_range:
  assumes "resolveEffectiveTtl t c = Num q"
  shows "0 \<le> q" "cc_operatorMaxTtlSeconds c = Some (Num m) \<Longrightarrow> q \<le> max 0 m"
    "cc_sourceExpirySeconds c = Some r \<Longrightarrow> \<not> jlt (Num m) r \<Longrightarrow> q \<le> max 0 m"
proof -
  define a where "a = (case t of None \<Rightarrow> cc_defaultTtlSeconds c | Some t \<Rightarrow> t)"
  define b where "b = (case cc_operatorMaxTtlSeconds c of None \<Rightarrow> a | Some m \<Rightarrow> jmin a m)"
  define d where "d = (case cc_sourceExpirySeconds c of None \<Rightarrow> b | Some m \<Rightarrow> jmin b m)"
  have q: "jmax d (jint 0) = Num q"
    using assms unfolding resolveEffectiveTtl_def Let_def a_def b_def d_def .
  show "0 \<le> q" by (rule jmax_range(1) [OF q])
  have low: "\<not> jlt (Num m) b \<Longrightarrow> \<not> jlt (Num m) d"
    unfolding d_def by (cases "cc_sourceExpirySeconds c") (simp_all add: jmin_upto)
  show "q \<le> max 0 m" if "cc_operatorMaxTtlSeconds c = Some (Num m)"
    by (rule jmax_range(2) [OF q low]) (simp add: b_def that jmin_upto)
  show "q \<le> max 0 m" if "cc_sourceExpirySeconds c = Some r" "\<not> jlt (Num m) r"
    by (rule jmax_range(2) [OF q]) (simp add: d_def that jmin_upto)
qed

lemma cacheConfig_operator [simp]:
  "cc_operatorMaxTtlSeconds (cacheConfigForIdentity c p) = cc_operatorMaxTtlSeconds c"
  by (simp add: cacheConfigForIdentity_def Let_def split: option.split)

text \<open>The expiry of an execution: at least its own instant, at most the operator's limit later, and
  not after the instant at which its source expires (or it is its own instant).\<close>

lemma expiryOf_range:
  assumes "checkCacheRequest p = Inr ()" "expiryOf c p = Num q"
  obtains n where "ci_nowMs p = jint n" "of_int n \<le> q"
    "\<And>m. cc_operatorMaxTtlSeconds c = Some (Num m) \<Longrightarrow> q \<le> of_int n + 1000 * max 0 m"
    "\<And>t. ci_sourceExpiresAt p = Some t \<Longrightarrow> q = of_int n \<or> jle (Num q) t"
proof -
  from assms(1) obtain n where n: "ci_nowMs p = jint n" using checkCacheRequest_now isInteger_iff by blast
  let ?c = "cacheConfigForIdentity c p"
  from assms(2) n obtain x where x: "resolveEffectiveTtl (ci_requestedTtlSeconds p) ?c = Num x"
    and q: "q = of_int n + 1000 * x"
    by (cases "resolveEffectiveTtl (ci_requestedTtlSeconds p) ?c") (auto simp: expiryOf_def)
  have "q = of_int n \<or> jle (Num q) t" if t: "ci_sourceExpiresAt p = Some t" for t
  proof -
    from assms(1) t have "isSafeInteger t" by (simp add: checkCacheRequest_def res_simps)
    then obtain k where k: "t = jint k" by (auto simp: isSafeInteger_def isInteger_iff)
    define r where "r = max 0 \<lfloor>(of_int k - of_int n) / (1000 :: rat)\<rfloor>"
    have rem: "jmax (jint 0) (jfloor (jshrink 1000 (jsub t (ci_nowMs p)))) = jint r"
      by (simp add: k n jsub_def jmax_def r_def max_def)
    have "\<exists>s. cc_sourceExpirySeconds ?c = Some s \<and> \<not> jlt (jint r) s"
      using rem by (auto simp: cacheConfigForIdentity_def t Let_def intro!: jmin_upto split: option.split)
    then have "x \<le> of_int r" using resolveEffectiveTtl_range(3) [OF x, of _ "of_int r"] by (auto simp: r_def)
    moreover have "0 \<le> x" by (rule resolveEffectiveTtl_range(1) [OF x])
    moreover have "1000 * of_int r \<le> (of_int k - of_int n :: rat)" if "r \<noteq> 0"
      using that of_int_floor_le [of "(of_int k - of_int n) / (1000 :: rat)"] by (simp add: r_def max_def split: if_splits)
    ultimately show ?thesis unfolding k q by (cases "r = 0") auto
  qed
  moreover have "of_int n \<le> q" using resolveEffectiveTtl_range(1) [OF x] by (simp add: q)
  moreover have "q \<le> of_int n + 1000 * max 0 m" if "cc_operatorMaxTtlSeconds c = Some (Num m)" for m
    using resolveEffectiveTtl_range(2) [OF x, of m] that by (simp add: q)
  ultimately show thesis using n that by blast
qed

text \<open>A store that is reachable from an empty one.\<close>

definition cacheReachable :: "(string \<Rightarrow> string) \<Rightarrow> jsnum \<Rightarrow> 'd loggedCache \<Rightarrow> bool" where
  "cacheReachable sha256 limit t \<longleftrightarrow>
     cacheHistory memCachePort logRun sha256 \<lparr>mc_entries = [], mc_maxEntries = limit, lc_log = []\<rparr> t"

lemma cacheSound_empty: "cacheSound limit \<lparr>mc_entries = [], mc_maxEntries = limit, lc_log = []\<rparr>"
  by (auto simp: cacheSound_def le_max_iff_disj)

lemma cacheReachable_keyed: "cacheReachable sha256 limit t \<Longrightarrow> cache.keyed limit t"
  unfolding cacheReachable_def
  by (drule cache.history_evolves [where limit = limit])
    (auto simp: cache.evolves_def cache.keyed_def cacheSound_empty dest: cache.keyed_evolvesBy [rotated])

lemma cacheReachable_entry:
  assumes "cacheReachable sha256 limit t" "map_of (mc_entries t) k = Some e"
  shows "\<exists>r \<in> set (lc_log t). holdsExecution k e r"
  using assms unfolding cacheReachable_def
  by (auto dest!: cache.history_evolves [where limit = limit]
      simp: cache.keyed_def cacheSound_empty cache.evolves_def cache.evolvesBy_def cache.entryFrom_def)

section \<open>Properties\<close>

text \<open>C14. A cached answer is always justified. Whatever requests, revocations and sweeps the cache has
  seen, if it answers a request from the store, then some earlier request of the same tenant, with
  the same key text, passed the checks and executed; the answer is what that execution returned, its
  provenance is reported as the original one, and at the time of the answer neither the operator's
  limit counted from that execution nor the expiry of the source it was given has passed. The cache
  is left as it was. (An expiry that is not a number arises only from requested or configured
  lifetimes that are not finite numbers.)
\<close>

theorem cache_hit_justified:
  assumes "cacheReachable sha256 limit t"
    and "processDocumentCache memCachePort sha256 config params execute t = (Inr (CacheHit d hit), u)"
  shows "u = t \<and> (\<exists>c p x. (c, p, x) \<in> set (lc_log t) \<and>
    documentCacheKeyString (ci_key p) = documentCacheKeyString (ci_key params) \<and>
    ci_ownershipScope p = ci_ownershipScope params \<and> d = cx_data x \<and>
    ch_billingProvenance hit = cx_provenance x \<and> bp_isOriginal (cx_provenance x) \<and>
    (\<forall>now m q. ci_nowMs params = jint now \<and> expiryOf c p = Num q \<longrightarrow>
       (cc_operatorMaxTtlSeconds c = Some (Num m) \<longrightarrow>
          jle (jint now) (jadd (ci_nowMs p) (Num (1000 * max 0 m)))) \<and>
       (\<forall>e. ci_sourceExpiresAt p = Some e \<longrightarrow> jle (jint now) e)))"
proof -
  from cache.process_hit [OF assms(2)] obtain k e where
    u: "u = t" and ok: "checkCacheRequest params = Inr ()" and k: "documentCacheKeyString (ci_key params) = Inr k"
    and e: "map_of (mc_entries t) k = Some e" and live: "\<not> jlt (ce_expiresAt e) (ci_nowMs params)"
    and scope: "pk_ownershipScope (ce_key e) = ci_ownershipScope params"
    and d: "d = cp_data (ce_payload e)" and hit: "toHitResult e (ci_nowMs params) = Inr hit"
    by blast
  obtain c p x where r: "(c, p, x) \<in> set (lc_log t)" and holds: "holdsExecution k e (c, p, x)"
    using cacheReachable_entry [OF assms(1) e] by (metis prod_cases3)
  have entry: "checkCacheRequest p = Inr ()" "documentCacheKeyString (ci_key p) = Inr k"
    "ce_key e = ci_key p" "cp_data (ce_payload e) = cx_data x" "ce_provenance e = cx_provenance x"
    "ce_createdAt e = ci_nowMs p" "ce_expiresAt e = expiryOf c p"
    using holds by (simp_all add: holdsExecution_def)
  have reported: "ch_billingProvenance hit = ce_provenance e" "bp_isOriginal (ce_provenance e)"
    "\<not> jle (ce_expiresAt e) (ce_createdAt e)"
    using hit by (auto simp: toHitResult_def Let_def validateCacheHit_def res_simps)
  have "(cc_operatorMaxTtlSeconds c = Some (Num m) \<longrightarrow> jle (jint now) (jadd (ci_nowMs p) (Num (1000 * max 0 m)))) \<and>
      (\<forall>s. ci_sourceExpiresAt p = Some s \<longrightarrow> jle (jint now) s)"
    if now: "ci_nowMs params = jint now" and q: "expiryOf c p = Num q" for now m q
  proof -
    obtain n where n: "ci_nowMs p = jint n" "of_int n \<le> q"
      "\<And>m. cc_operatorMaxTtlSeconds c = Some (Num m) \<Longrightarrow> q \<le> of_int n + 1000 * max 0 m"
      "\<And>s. ci_sourceExpiresAt p = Some s \<Longrightarrow> q = of_int n \<or> jle (Num q) s"
      using expiryOf_range [OF entry(1) q] by metis
    have nq: "of_int now \<le> q" using live entry(7) now q by auto
    have "q \<noteq> of_int n" using reported(3) entry(6, 7) n(1) q by auto
    moreover have "jle (jint now) s" if "jle (Num q) s" for s
      using that nq by (cases s) (auto simp: jle_def)
    ultimately show ?thesis using n nq by fastforce
  qed
  moreover have "ci_ownershipScope p = pk_ownershipScope (ci_key p)"
    using entry(1) by (simp add: checkCacheRequest_def validateOwnershipScope_def res_simps)
  ultimately show ?thesis
    using u r k entry scope d reported by (intro conjI exI [of _ c] exI [of _ p] exI [of _ x]) auto
qed

text \<open>C15. A revoked source has to execute again. After the binding of a source has been revoked, whatever
  happens to the cache, a request of that source is answered from the store only if since then a
  request of that source with the same key text has executed; the revocation itself takes the access
  away from all entries at once.
\<close>

theorem cache_revocation_effective:
  assumes "cacheReachable sha256 limit s"
    and "revokeDocumentSourceBinding memCachePort source s = (Inr (), s')"
    and "cacheHistory memCachePort logRun sha256 s' t"
    and "processDocumentCache memCachePort sha256 config params execute t = (Inr (CacheHit d hit), u)"
    and "ci_sourceIdentity params = source"
  shows "\<exists>new c p x. lc_log t = new @ lc_log s \<and> (c, p, x) \<in> set new \<and> ci_sourceIdentity p = source \<and>
    documentCacheKeyString (ci_key p) = documentCacheKeyString (ci_key params)"
proof -
  have s': "s' = snd (sp_revokeSourceBinding memCachePort source s)"
    using assms(2)
    by (auto simp: revokeDocumentSourceBinding_def thenM_def bindM_def pureM_def split: sum.splits prod.splits)
  have keyed: "cache.keyed limit s'"
    using cacheReachable_keyed [OF assms(1)] cache.evolves_revoke [of limit s source]
    by (auto simp: s' cache.evolves_def intro: cache.keyed_evolvesBy)
  obtain new where new: "lc_log t = new @ lc_log s'"
    and entries: "\<And>k e. map_of (mc_entries t) k = Some e \<Longrightarrow> cache.entryFrom s' new k e"
    using cache.history_evolves [OF assms(3) keyed] by (auto simp: cache.evolves_def cache.evolvesBy_def)
  from cache.process_hit [OF assms(4)] assms(5) obtain k e where
    k: "documentCacheKeyString (ci_key params) = Inr k" and e: "map_of (mc_entries t) k = Some e"
    and src: "hittable source e" by blast
  have "\<not> hittable source e0" if "map_of (mc_entries s') k = Some e0" for e0
    using cache.revoke_look [of source s k e0] that by (auto simp: s')
  then obtain r where "r \<in> set new" "bySource source k r"
    using entries [OF e] src by (auto simp: cache.entryFrom_def)
  then show ?thesis
    using new k cache.log_ops(2) [of source s] by (cases r) (auto simp: s' bySource_def)
qed

text \<open>The in-memory store stays within its capacity. With a capacity of at least one, no history of
  requests, revocations and sweeps leaves more entries than the capacity; each entry lies under the
  text of its own key; and when a new key meets a full store, the entry that goes is one than which
  none is older.
\<close>

theorem cache_bounded:
  assumes "cacheReachable sha256 (jint n) t" "1 \<le> n"
  shows "int (length (mc_entries t)) \<le> n \<and> distinct (map fst (mc_entries t)) \<and>
    (\<forall>k e. map_of (mc_entries t) k = Some e \<longrightarrow>
       ce_keyString e = k \<and> documentCacheKeyString (ce_key e) = Inr k) \<and>
    (mc_entries t \<noteq> [] \<longrightarrow> (\<exists>k e. oldestEntry (mc_entries t) = Some k \<and> (k, e) \<in> set (mc_entries t) \<and>
       (\<forall>(k', e') \<in> set (mc_entries t). \<not> jlt (ce_createdAt e') (ce_createdAt e))))"
proof -
  have t: "cacheSound (jint n) t" "\<forall>k e. map_of (mc_entries t) k = Some e \<longrightarrow> ce_keyString e = k"
    using cacheReachable_keyed [OF assms(1)] by (simp_all add: cache.keyed_def)
  have "documentCacheKeyString (ce_key e) = Inr k" if "map_of (mc_entries t) k = Some e" for k e
    using cacheReachable_entry [OF assms(1) that] by (auto simp: holdsExecution_def)
  moreover have "int (length (mc_entries t)) \<le> n" "distinct (map fst (mc_entries t))"
    "\<forall>(k, e) \<in> set (mc_entries t). isInteger (ce_createdAt e)"
    using t(1) assms(2) by (auto simp: cacheSound_def mapOk_def max_def)
  ultimately show ?thesis using t(2) oldestEntry_oldest by blast
qed

text \<open>Methods that answer, from the store or with what \<open>execute\<close> returned.\<close>

definition executedBy :: "('s, 'd DocumentCacheExecution) action \<Rightarrow> 'd DocumentCacheExecution \<Rightarrow> bool" where
  "executedBy execute x \<longleftrightarrow> (\<exists>s1 s2. execute s1 = (Inr x, s2))"

definition answers :: "('s, 'd DocumentCacheExecution) action \<Rightarrow>
    ('s, 'd DocumentCacheProcessResult) action \<Rightarrow> bool" where
  "answers execute m \<longleftrightarrow> (\<forall>s. \<exists>r s'. m s = (Inr r, s') \<and>
     (case r of CacheHit d hit \<Rightarrow> True
      | CacheMiss m \<Rightarrow> \<exists>s1 x s2. execute s1 = (Inr x, s2) \<and> cf_data m = cx_data x \<and>
          cf_provenance m = cx_provenance x))"

lemma answers_bind:
  assumes "\<And>s. \<exists>x s'. execute s = (Inr x, s')" "\<And>x. executedBy execute x \<Longrightarrow> answers execute (f x)"
  shows "answers execute (bindM execute f)"
  unfolding answers_def
proof
  fix s
  obtain x s' where x: "execute s = (Inr x, s')" using assms(1) by blast
  then have "answers execute (f x)" using assms(2) by (auto simp: executedBy_def)
  with x show "\<exists>r s'. bindM execute f s = (Inr r, s') \<and>
     (case r of CacheHit d hit \<Rightarrow> True
      | CacheMiss m \<Rightarrow> \<exists>s1 x s2. execute s1 = (Inr x, s2) \<and> cf_data m = cx_data x \<and>
          cf_provenance m = cx_provenance x)"
    unfolding answers_def by (simp add: bindM_def)
qed

lemma answers_total: "answers execute (bindM (attemptM m) f)" if "\<And>r. answers execute (f r)"
  using that by (auto simp: answers_def bindM_def attemptM_def split: prod.split)

lemma answers_miss:
  "executedBy execute x \<Longrightarrow> cf_data m = cx_data x \<Longrightarrow> cf_provenance m = cx_provenance x \<Longrightarrow>
    answers execute (returnM (CacheMiss m))"
  by (auto simp: answers_def executedBy_def returnM_def)

lemma answers_fresh: "executedBy execute x \<Longrightarrow> answers execute (returnM (fresh x b err))"
  unfolding fresh_def by (rule answers_miss) simp_all

lemma answers_freshAfter: "executedBy execute x \<Longrightarrow> answers execute (freshAfter other x w)"
  using answers_fresh [of execute x]
  by (auto simp: answers_def freshAfter_def catchM_def bindM_def returnM_def split: prod.split sum.split)

lemma answers_hit: "answers execute (returnM (CacheHit d hit))"
  by (simp add: answers_def returnM_def)

lemma answers_parts:
  assumes "\<And>s. \<exists>x s'. execute s = (Inr x, s')"
  shows "answers execute (missAndStore P h p k t execute err)"
    and "answers execute (bindNewSource P h p k t execute)"
    and "answers execute (refreshCache P h p k t execute)"
    and "answers execute (useCache P h p k t execute)"
proof -
  note answers_intros = answers_bind [OF assms] answers_total answers_fresh answers_freshAfter answers_hit
  show 1: "answers execute (missAndStore P h p k t execute err)" for err
    unfolding missAndStore_def by (intro answers_intros) (simp add: answers_fresh answers_freshAfter)
  show 2: "answers execute (bindNewSource P h p k t execute)"
    unfolding bindNewSource_def
    by (intro answers_intros) (simp add: answers_fresh answers_freshAfter split: sum.split bool.split)
  show "answers execute (refreshCache P h p k t execute)"
    unfolding refreshCache_def by (intro answers_intros)
  have 3: "answers execute (bindM execute (\<lambda>x. returnM (fresh x False err)))" for err
    by (intro answers_intros)
  show "answers execute (useCache P h p k t execute)"
    unfolding useCache_def useEntry_def Let_def
    by (intro answers_total) (simp add: 1 2 3 answers_hit split: option.split sum.split)
qed

text \<open>C16. The cache never makes processing fail. Over any store, whatever its operations throw, a request
  that passes the checks, has a key text of admissible length and whose execution returns gets an
  answer: a cached one, or exactly what one execution returned. A request that fails the checks is
  refused before the store is read or anything is executed.
\<close>

theorem cache_faults_never_fail:
  fixes P :: "('s, 'd) cache_port" and execute :: "('s, 'd DocumentCacheExecution) action"
  assumes "documentCacheKeyString (ci_key params) = Inr k" "\<And>s. \<exists>x s'. execute s = (Inr x, s')"
  shows "(checkCacheRequest params = Inr () \<longrightarrow>
      (\<exists>r s'. processDocumentCache P sha256 config params execute s = (Inr r, s') \<and>
        (case r of CacheHit d hit \<Rightarrow> True
         | CacheMiss m \<Rightarrow> \<exists>s1 x s2. execute s1 = (Inr x, s2) \<and> cf_data m = cx_data x \<and>
             cf_provenance m = cx_provenance x))) \<and>
    (\<forall>e. checkCacheRequest params = Inl e \<longrightarrow>
       processDocumentCache P sha256 config params execute s = (Inl (ThrownError e), s))"
proof (intro conjI impI allI)
  show "processDocumentCache P sha256 config params execute s = (Inl (ThrownError e), s)"
    if "checkCacheRequest params = Inl e" for e
    using that by (rule process_refused)
next
  assume ok: "checkCacheRequest params = Inr ()"
  have "answers execute (processDocumentCache P sha256 config params execute)"
    using answers_parts(3, 4) [OF assms(2), unfolded answers_def]
      answers_bind [OF assms(2) answers_miss, unfolded answers_def]
    by (simp add: answers_def process_run [OF ok] Let_def assms(1))
  then show "\<exists>r s'. processDocumentCache P sha256 config params execute s = (Inr r, s') \<and>
      (case r of CacheHit d hit \<Rightarrow> True
       | CacheMiss m \<Rightarrow> \<exists>s1 x s2. execute s1 = (Inr x, s2) \<and> cf_data m = cx_data x \<and>
           cf_provenance m = cx_provenance x)"
    by (simp add: answers_def)
qed

section \<open>An example\<close>

definition demoConfig :: CacheConfig where
  "demoConfig = \<lparr>cc_defaultTtlSeconds = jint 60, cc_operatorMaxTtlSeconds = Some (jint 30), cc_enabled = True,
     cc_sourceExpirySeconds = None\<rparr>"

definition demoKey :: ParsedPayloadCacheKey where
  "demoKey = \<lparr>pk_ownershipScope = ''t'', pk_contentHash = ''h'', pk_engineId = ''e'', pk_engineVersion = ''1'',
     pk_modelId = ''m'', pk_modelVersion = ''1'', pk_normalizedOptions = '''', pk_schemaVersion = ''1'',
     pk_policyVersion = ''1''\<rparr>"

definition demoRequest :: "CacheMode \<Rightarrow> int \<Rightarrow> DocumentCacheIdentity" where
  "demoRequest mode now = \<lparr>ci_mode = mode, ci_key = demoKey, ci_sourceIdentity = ''s'',
     ci_sourceVersion = ''1'', ci_ownershipScope = ''t'', ci_nowMs = jint now,
     ci_sourceExpiresAt = Some (jint 900000), ci_requestedTtlSeconds = None, ci_toolName = None,
     ci_networkPolicyChecked = Some True\<rparr>"

definition demoExecution :: "string DocumentCacheExecution" where
  "demoExecution = \<lparr>cx_data = ''parsed'', cx_provenance =
     \<lparr>bp_isOriginal = True, bp_originalCost = jint 1, bp_engine = ''e'', bp_model = ''m''\<rparr>\<rparr>"

definition demoRun :: "DocumentCacheIdentity \<Rightarrow> string loggedCache \<Rightarrow>
    string DocumentCacheProcessResult tres \<times> string loggedCache" where
  "demoRun p = processDocumentCache memCachePort (\<lambda>s. s) demoConfig p
     (noting logRun demoConfig p (returnM demoExecution))"

abbreviation demoEmpty :: "string loggedCache" where
  "demoEmpty \<equiv> \<lparr>mc_entries = [], mc_maxEntries = jint 1, lc_log = []\<rparr>"

definition demoStored :: "string loggedCache" where
  "demoStored = snd (demoRun (demoRequest CacheUse 1000) demoEmpty)"

definition demoRevoked :: "string loggedCache" where
  "demoRevoked = snd (revokeDocumentSourceBinding memCachePort ''s'' demoStored)"

definition demoRefreshed :: "string loggedCache" where
  "demoRefreshed = snd (demoRun (demoRequest CacheRefresh 2000) demoRevoked)"

definition demoHit :: "int \<Rightarrow> CacheHitResult" where
  "demoHit created = \<lparr>ch_createdAt = jint created, ch_expiresAt = jint (created + 30000),
     ch_ageSeconds = jint ((3000 - created) div 1000), ch_sourceHash = ''h'', ch_engineVersion = ''1'',
     ch_modelVersion = ''1'', ch_billingProvenance = cx_provenance demoExecution\<rparr>"

lemma demo_parts:
  "fst (demoRun (demoRequest CacheUse 3000) demoStored) = Inr (CacheHit ''parsed'' (demoHit 1000))"
  "fst (demoRun (demoRequest CacheUse 3000) demoRefreshed) = Inr (CacheHit ''parsed'' (demoHit 2000))"
  "length (mc_entries demoStored) = 1"
  by (code_simp, code_simp, code_simp)

lemma demo_hits:
  "demoRun (demoRequest CacheUse 3000) demoStored =
     (Inr (CacheHit ''parsed'' (demoHit 1000)), snd (demoRun (demoRequest CacheUse 3000) demoStored))"
  "demoRun (demoRequest CacheUse 3000) demoRefreshed =
     (Inr (CacheHit ''parsed'' (demoHit 2000)), snd (demoRun (demoRequest CacheUse 3000) demoRefreshed))"
  "revokeDocumentSourceBinding memCachePort ''s'' demoStored = (Inr (), demoRevoked)"
  by (simp_all add: prod_eq_iff demo_parts)
    (simp add: demoRevoked_def prod_eq_iff revokeDocumentSourceBinding_def thenM_def bindM_def pureM_def
      boundedSourceIdentity_def MAX_SOURCE_IDENTITY_CHARS_def memCachePort_def mc_revokeSourceBinding_def)

lemma demoRun_step:
  "cacheHistory memCachePort logRun (\<lambda>s. s) s t \<Longrightarrow> cacheHistory memCachePort logRun (\<lambda>s. s) s (snd (demoRun p t))"
  unfolding demoRun_def by (rule history_request) (auto simp: returnM_def intro: history_start)

lemma cacheDemo_reachable: "cacheReachable (\<lambda>s. s) (jint 1) demoStored"
  unfolding cacheReachable_def demoStored_def by (intro demoRun_step history_start)

lemma demo_refreshed: "cacheHistory memCachePort logRun (\<lambda>s. s) demoRevoked demoRefreshed"
  unfolding demoRefreshed_def by (intro demoRun_step history_start)

theorem cache_hit_justified_witness:
  "\<exists>c p x. (c, p, x) \<in> set (lc_log demoStored) \<and> ci_ownershipScope p = ''t'' \<and> cx_data x = ''parsed''"
  using cache_hit_justified [OF cacheDemo_reachable demo_hits(1) [unfolded demoRun_def]]
  by (fastforce simp: demoRequest_def)

theorem cache_revocation_effective_witness:
  "\<exists>new c p x. lc_log demoRefreshed = new @ lc_log demoStored \<and> (c, p, x) \<in> set new \<and>
    ci_sourceIdentity p = ''s''"
  using cache_revocation_effective [OF cacheDemo_reachable demo_hits(3) demo_refreshed demo_hits(2) [unfolded demoRun_def]]
  by (fastforce simp: demoRequest_def)

theorem cache_bounded_witness:
  "length (mc_entries demoStored) = 1 \<and> distinct (map fst (mc_entries demoStored))"
  using cache_bounded [OF cacheDemo_reachable] demo_parts(3) by simp

text \<open>A store whose every operation throws.\<close>

definition faultyPort :: "(unit, string) cache_port" where
  "faultyPort =
     \<lparr>sp_get = (\<lambda>_. throwM (JsError ''down'')), sp_set = (\<lambda>_. throwM (JsError ''down'')),
      sp_revokeSourceBinding = (\<lambda>_. throwM (JsError ''down'')), sp_size = throwM (JsError ''down''),
      sp_sweepExpired = (\<lambda>_. throwM (JsError ''down''))\<rparr>"

theorem cache_faults_never_fail_witness:
  "\<exists>r. processDocumentCache faultyPort (\<lambda>s. s) demoConfig (demoRequest CacheUse 1000)
     (returnM demoExecution) () = (Inr r, ())"
proof -
  have "documentCacheKeyString (ci_key (demoRequest CacheUse 1000)) = Inr ''t:h:e:1:m:1::1:1''"
    "checkCacheRequest (demoRequest CacheUse 1000) = Inr ()" by code_simp+
  moreover have "\<exists>x s'. returnM demoExecution s = (Inr x, s')" for s :: unit
    by (simp add: returnM_def)
  ultimately show ?thesis
    using cache_faults_never_fail [of "demoRequest CacheUse 1000" _ "returnM demoExecution" faultyPort
        "\<lambda>s. s" demoConfig "()"] by auto
qed

end
