(* ===== verification/CorpusContract.thy ===== *)
theory CorpusContract
  imports JsDates Json
begin

text \<open>
  \<^verbatim>\<open>src/core/corpus-contract.ts\<close>: the pure contracts of corpora. Retention of an enrolled source,
  idempotent retries, durable state, labelling of search results, corpus identity, deletion and the
  manifest as the truth that a rebuilt index must not change. \<open>None\<close> is \<open>null\<close>.
\<close>

section \<open>Enrollment and retention\<close>

record CorpusRetentionPolicy =
  rp_operator :: "iso option"
  rp_project :: "iso option"
  rp_corpus :: "iso option"
  rp_source :: "iso option"
  rp_minimumBoundMs :: jsnum

datatype SourceLifecycle = SrcEnrolled | SrcRemoved | SrcDeleted

record CorpusSourceRecord =
  sr_sourceId :: string
  sr_corpusId :: string
  sr_contentHash :: string
  sr_enrolledAt :: iso
  sr_lifecycle :: SourceLifecycle
  sr_cacheBindings :: "string list"

record CorpusEnrollment =
  en_sourceId :: string
  en_corpusId :: string
  en_enrolledAt :: iso
  en_expiresAt :: "iso option"
  en_retentionPolicy :: CorpusRetentionPolicy
  en_sourceRecord :: CorpusSourceRecord

text \<open>\<open>Math.min\<close> of the times, which is NaN as soon as one of them is; the earliest limit.\<close>

definition resolveEnrollmentExpiry :: "iso option \<Rightarrow> iso option \<Rightarrow> iso option \<Rightarrow> iso option \<Rightarrow>
    iso option \<Rightarrow> iso option res" where
  "resolveEnrollmentExpiry callerExpiresAt operatorCap projectCap corpusCap sourceCap =
     (let candidates = map isoTime (List.map_filter id
            [callerExpiresAt, operatorCap, projectCap, corpusCap, sourceCap])
      in if candidates = [] then Inr None
         else bindE (toISOString (if None \<in> set candidates then None else Some (Min (set (map the candidates)))))
           (\<lambda>t. Inr (Some t)))"

definition validateEnrollmentExpiry :: "iso option \<Rightarrow> jsnum \<Rightarrow> int \<Rightarrow> unit res" where
  "validateEnrollmentExpiry expiresAt minimumBoundMs now =
     (case expiresAt of
        None \<Rightarrow> Inr ()
      | Some expiry \<Rightarrow>
          let minMs = jadd (jint now) minimumBoundMs
          in if (case isoTime expiry of None \<Rightarrow> False | Some t \<Rightarrow> jlt (jint t) minMs)
             then bindE (toISOString (timeClip minMs)) (\<lambda>m. Inl (JsError
               (''Enrollment expiry is below minimum bound: expiry at '' @ isoText expiry @
                '' is less than minimum '' @ isoText m)))
             else Inr ())"

definition laterThan :: "iso \<Rightarrow> iso \<Rightarrow> bool" where
  "laterThan a b = (case (isoTime a, isoTime b) of (Some s, Some t) \<Rightarrow> s > t | _ \<Rightarrow> False)"

definition validateReEnroll :: "'x CorpusEnrollment_scheme \<Rightarrow> iso option \<Rightarrow> unit res" where
  "validateReEnroll existing newExpiresAt =
     (case en_expiresAt existing of
        None \<Rightarrow> Inr ()
      | Some old \<Rightarrow> (case newExpiresAt of
            None \<Rightarrow> Inl (JsError (''Re-enrollment cannot extend expiry from finite to persistent; '' @
              ''use explicit extend operation''))
          | Some new \<Rightarrow> throwIf (laterThan new old)
              (JsError ''Re-enrollment cannot extend expiry; use explicit extend operation'')))"

definition revokeEnrollment :: "'x CorpusEnrollment_scheme \<Rightarrow> 'x CorpusEnrollment_scheme \<times> string list" where
  "revokeEnrollment enrollment =
     (let r = en_sourceRecord enrollment
      in (enrollment\<lparr>en_sourceRecord := r\<lparr>sr_lifecycle := SrcDeleted, sr_cacheBindings := []\<rparr>\<rparr>,
          sr_cacheBindings r))"

section \<open>Idempotent retries\<close>

record RetryIdempotencyGuard =
  rg_idempotencyKey :: string
  rg_previousAttemptId :: "string option"
  rg_providerTaskCreated :: bool
  rg_paidCallCompleted :: bool
  rg_artifactWriteCompleted :: bool

record RetryResult =
  rr_idempotencyKey :: string
  rr_reused :: bool
  rr_result :: js_value

datatype CancelStatus = CancelConfirmed | CancelUncertain | CancelNotRequested

record CancelAcknowledgmentStatus =
  ca_requested :: bool
  ca_providerAcknowledged :: bool
  ca_status :: CancelStatus

definition validateRetryIdempotency :: "RetryIdempotencyGuard \<Rightarrow> js_value \<Rightarrow> RetryResult" where
  "validateRetryIdempotency guard previousResult =
     (if rg_previousAttemptId guard \<noteq> None \<and> previousResult \<noteq> Null
      then \<lparr>rr_idempotencyKey = rg_idempotencyKey guard, rr_reused = True, rr_result = previousResult\<rparr>
      else \<lparr>rr_idempotencyKey = rg_idempotencyKey guard, rr_reused = False, rr_result = Null\<rparr>)"

definition validateProviderTaskNotDuplicated :: "RetryIdempotencyGuard \<Rightarrow> unit res" where
  "validateProviderTaskNotDuplicated guard =
     throwIf (rg_providerTaskCreated guard \<and> rg_previousAttemptId guard \<noteq> None) (JsError
       (''Provider task already created for this idempotency key; retry must reuse existing task''))"

definition validatePaidCallNotDuplicated :: "RetryIdempotencyGuard \<Rightarrow> unit res" where
  "validatePaidCallNotDuplicated guard =
     throwIf (rg_paidCallCompleted guard \<and> rg_previousAttemptId guard \<noteq> None) (JsError
       (''Paid upstream call already completed for this idempotency key; retry must not re-bill''))"

definition validateArtifactWriteNotDuplicated :: "RetryIdempotencyGuard \<Rightarrow> unit res" where
  "validateArtifactWriteNotDuplicated guard =
     throwIf (rg_artifactWriteCompleted guard \<and> rg_previousAttemptId guard \<noteq> None) (JsError
       (''Artifact write already completed for this idempotency key; retry must not duplicate''))"

definition resolveCancelAcknowledgment :: "bool \<Rightarrow> bool \<Rightarrow> CancelAcknowledgmentStatus" where
  "resolveCancelAcknowledgment requested providerAcknowledged =
     (if \<not> requested then \<lparr>ca_requested = False, ca_providerAcknowledged = False, ca_status = CancelNotRequested\<rparr>
      else if providerAcknowledged
      then \<lparr>ca_requested = True, ca_providerAcknowledged = True, ca_status = CancelConfirmed\<rparr>
      else \<lparr>ca_requested = True, ca_providerAcknowledged = False, ca_status = CancelUncertain\<rparr>)"

section \<open>Durable state and references\<close>

definition MAX_INLINE_BYTES :: jsnum where "MAX_INLINE_BYTES = jint 4096"

record DurableStatePolicy =
  dsp_maxInlineBytes :: jsnum

datatype DeletionPolicy = OnExpiry | OnOwnerDelete | ManualDeletion

record DurableArtifactRef =
  dar_tenantId :: string
  dar_ownerId :: string
  dar_contentHash :: string
  dar_byteSize :: jsnum
  dar_retentionPolicy :: string
  dar_expiresAt :: string
  dar_deletionPolicy :: DeletionPolicy

definition validateDurableState :: "jsnum \<Rightarrow> DurableStatePolicy \<Rightarrow> unit res" where
  "validateDurableState inlineBytes policy =
     throwIf (jlt (dsp_maxInlineBytes policy) inlineBytes) (JsError
       (''Inline content size '' @ numberText inlineBytes @ '' exceeds durable state limit '' @
        numberText (dsp_maxInlineBytes policy) @ ''; use ArtifactRef for large content''))"

text \<open>A missing deletion policy cannot occur: the type has only the three policies.\<close>

definition validateDurableArtifactRef :: "DurableArtifactRef \<Rightarrow> unit res" where
  "validateDurableArtifactRef ref =
     andThen (throwIf (dar_tenantId ref = []) (JsError ''tenantId is required''))
     (andThen (throwIf (dar_ownerId ref = []) (JsError ''ownerId is required''))
     (andThen (throwIf (dar_contentHash ref = []) (JsError ''contentHash is required''))
     (andThen (throwIf (jle (dar_byteSize ref) (jint 0)) (JsError ''byteSize must be positive''))
     (andThen (throwIf (dar_retentionPolicy ref = []) (JsError ''retentionPolicy is required''))
       (throwIf (dar_expiresAt ref = []) (JsError ''expiresAt is required''))))))"

section \<open>Search results\<close>

datatype SearchSourceKind = PublicWeb | CorpusSource

record SearchResultProvenance =
  srp_sourceKind :: SearchSourceKind
  srp_provider :: string
  srp_backend :: string
  srp_corpusBoundary :: "string option"
  srp_freshnessTimestamp :: iso

definition validateSearchResultLabeling :: "SearchResultProvenance \<Rightarrow> unit res" where
  "validateSearchResultLabeling provenance =
     (case srp_corpusBoundary provenance of
        None \<Rightarrow> Inr ()
      | Some boundary \<Rightarrow> throwIf (srp_sourceKind provenance = PublicWeb) (JsError
          (''Corpus-scoped search result must not be labeled as public_web; corpus boundary '' @
           quoted boundary @ '' requires sourceKind '' @ quoted ''corpus'')))"

section \<open>Identity, state and deletion of a corpus\<close>

record CorpusIdentity =
  cid_corpusId :: string
  cid_displayName :: string

datatype CorpusState = CorpusActive | CorpusSyncing | CorpusDegraded | CorpusDeleting | CorpusDeleted

record DeletionStatus =
  del_derivedIndexDeleted :: bool
  del_artifactDeleted :: bool
  del_isComplete :: bool

text \<open>\<^verbatim>\<open>/^name[seps]/iu.test(s)\<close>; no character of Latin-1 folds to an ASCII letter of another case pair.\<close>

definition backendPattern :: "string \<Rightarrow> string \<Rightarrow> string \<Rightarrow> bool" where
  "backendPattern name seps s \<longleftrightarrow>
     take (length name) (toLowerCase s) = name \<and>
     (case drop (length name) s of [] \<Rightarrow> False | c # _ \<Rightarrow> c \<in> set seps)"

definition backendPatterns :: "(string \<times> string) list" where
  "backendPatterns = [(''idx'', ''-_''), (''job'', ''-_''), (''vec'', ''-_''), (''ns'', ''-_''), (''vs'', ''_''),
     (''coll'', ''-_''), (''pinecone'', ''-_''), (''weaviate'', ''-_''), (''qdrant'', ''-_'')]"

definition validateCorpusIdentity :: "CorpusIdentity \<Rightarrow> unit res" where
  "validateCorpusIdentity identity =
     throwIf (list_ex (\<lambda>(name, seps). backendPattern name seps (cid_corpusId identity)) backendPatterns)
       (JsError (''Corpus ID '' @ quoted (cid_corpusId identity) @
          '' appears to be a backend internal ID; use an opaque Groundlane-generated ID''))"

definition validateDeletionStatus :: "DeletionStatus \<Rightarrow> unit res" where
  "validateDeletionStatus status =
     throwIf (del_isComplete status \<and> (\<not> del_derivedIndexDeleted status \<or> \<not> del_artifactDeleted status))
       (JsError (''Deletion cannot be reported as complete when derived index or artifact deletion is pending''))"

definition mapBackendFailureToState :: "bool \<Rightarrow> bool \<Rightarrow> CorpusState" where
  "mapBackendFailureToState backendHealthy indexHealthy =
     (if backendHealthy \<and> indexHealthy then CorpusActive else CorpusDegraded)"

section \<open>The manifest\<close>

record CorpusSourceManifestEntry =
  me_sourceId :: string
  me_contentHash :: string
  me_acl :: "string list"
  me_retentionPolicy :: string
  me_deletionPolicy :: string
  me_lifecycleProvenance :: string
  me_citationProvenance :: string
  me_backendProvenance :: string

record CorpusManifest =
  man_corpusId :: string
  man_sources :: "CorpusSourceManifestEntry list"
  man_updatedAt :: iso

record DerivedIndexPolicy =
  dip_isRebuildable :: bool
  dip_isIdentityTruth :: bool
  dip_isAuthorizationTruth :: bool
  dip_isRetentionTruth :: bool
  dip_isDeletionTruth :: bool

definition DERIVED_INDEX_POLICY :: DerivedIndexPolicy where
  "DERIVED_INDEX_POLICY = \<lparr>dip_isRebuildable = True, dip_isIdentityTruth = False,
     dip_isAuthorizationTruth = False, dip_isRetentionTruth = False, dip_isDeletionTruth = False\<rparr>"

text \<open>The comparison of the two source lists, position by position; they are as long as each other.\<close>

fun verifySources :: "CorpusSourceManifestEntry list \<Rightarrow> CorpusSourceManifestEntry list \<Rightarrow> unit res" where
  "verifySources (b # bs) (a # as) =
     (if me_sourceId b \<noteq> me_sourceId a
      then Inl (JsError (''Source identity changed after index rebuild: '' @ quoted (me_sourceId b) @
        '' -> '' @ quoted (me_sourceId a)))
      else if me_contentHash b \<noteq> me_contentHash a
      then Inl (JsError (''Source content hash changed after index rebuild for '' @ quoted (me_sourceId b)))
      else verifySources bs as)"
| "verifySources [] _ = Inr ()"
| "verifySources (b # bs) [] = Inl (JsError ''Source entry missing during rebuild comparison'')"

definition verifyManifestStableAfterRebuild :: "CorpusManifest \<Rightarrow> CorpusManifest \<Rightarrow> unit res" where
  "verifyManifestStableAfterRebuild before after =
     (if man_corpusId before \<noteq> man_corpusId after
      then Inl (JsError ''Corpus identity changed after index rebuild; manifest must be stable'')
      else if length (man_sources before) \<noteq> length (man_sources after)
      then Inl (JsError ''Source count changed after index rebuild; manifest must be stable'')
      else verifySources (man_sources before) (man_sources after))"

end
