(* ===== verification/CorpusStore.thy ===== *)
theory CorpusStore
  imports CorpusContract JsActions
begin

text \<open>
  The corpus part of \<^verbatim>\<open>src/core/corpus-runtime.ts\<close>: inputs and views, the backend port with its
  in-memory implementation, and the data of \<open>CorpusStore\<close>, whose methods are in \<^verbatim>\<open>CorpusMethods\<close>. A
  method is an action on the store with the backend's state inside; a throw keeps what was changed
  before it. The clock is read once per call (\<open>now\<close>, in milliseconds). \<open>sha256\<close> is the hash of
  \<^verbatim>\<open>node:crypto\<close> in hexadecimal.
\<close>

section \<open>Bounds and checks\<close>

definition CORPUS_ID_PREFIX :: string where "CORPUS_ID_PREFIX = ''gl-corpus-''"
definition PUBLIC_WEB_TOOL_FAMILY :: string where "PUBLIC_WEB_TOOL_FAMILY = ''web_search''"
definition SCOPED_CORPUS_TOOL_FAMILY :: string where "SCOPED_CORPUS_TOOL_FAMILY = ''corpus_search''"

definition MAX_DISPLAY_NAME_CHARS :: nat where "MAX_DISPLAY_NAME_CHARS = 120"
definition MAX_SOURCE_ID_CHARS :: nat where "MAX_SOURCE_ID_CHARS = 160"
definition MAX_ACL_ENTRIES :: nat where "MAX_ACL_ENTRIES = 32"
definition MAX_ACL_ENTRY_CHARS :: nat where "MAX_ACL_ENTRY_CHARS = 64"
definition MAX_CONTENT_HASH_CHARS :: nat where "MAX_CONTENT_HASH_CHARS = 128"
definition MAX_SEARCH_QUERY_CHARS :: nat where "MAX_SEARCH_QUERY_CHARS = 500"
definition MAX_SEARCH_RESULTS :: nat where "MAX_SEARCH_RESULTS = 50"
definition DEFAULT_SEARCH_RESULTS :: nat where "DEFAULT_SEARCH_RESULTS = 10"
definition DEFAULT_RETENTION_MINIMUM_BOUND_MS :: jsnum where
  "DEFAULT_RETENTION_MINIMUM_BOUND_MS = jint 3600000"

definition corpusError :: "ErrorCode \<Rightarrow> string \<Rightarrow> string \<Rightarrow> bool \<Rightarrow> string \<Rightarrow> string \<Rightarrow> exn" where
  "corpusError code stage m retryable hintCode hintText =
     GroundlaneError code stage m retryable (Some (Hint hintCode hintText))"

definition invalidCorpusInput :: "string \<Rightarrow> string \<Rightarrow> string \<Rightarrow> exn" where
  "invalidCorpusInput m hintCode hintText =
     corpusError INVALID_INPUT ''corpus-runtime'' m False hintCode hintText"

definition assertBoundedText :: "string \<Rightarrow> string \<Rightarrow> nat \<Rightarrow> unit res" where
  "assertBoundedText value field maxChars =
     andThen (throwIf (value = [] \<or> trim value = [])
       (invalidCorpusInput (field @ '' must be a non-empty string'') ''corpus.invalid_input''
         (''Provide a non-empty '' @ field @ ''.'')))
     (throwIf (length value > maxChars)
       (invalidCorpusInput (field @ '' exceeds maximum length of '' @ showNat maxChars @ '' characters'')
         ''corpus.output_limit'' (''Shorten '' @ field @ '' to at most '' @ showNat maxChars @ '' characters.'')))"

definition assertValidAcl :: "string list \<Rightarrow> unit res" where
  "assertValidAcl acl =
     andThen (throwIf (acl = [])
       (invalidCorpusInput ''Source ACL must contain at least one entry'' ''corpus.invalid_input''
         ''Provide at least one ACL entry for the enrolled source.''))
     (andThen (throwIf (length acl > MAX_ACL_ENTRIES)
       (invalidCorpusInput (''Source ACL exceeds maximum of '' @ showNat MAX_ACL_ENTRIES @ '' entries'')
         ''corpus.output_limit''
         (''Reduce the source ACL to at most '' @ showNat MAX_ACL_ENTRIES @ '' entries.'')))
       (forEach (\<lambda>entry. assertBoundedText entry ''ACL entry'' MAX_ACL_ENTRY_CHARS) acl))"

section \<open>Inputs and views\<close>

record CallerPrincipal =
  cal_principalId :: string
  cal_roles :: "string list"

record CorpusRetentionCaps =
  caps_operatorCapExpiresAt :: "iso option"
  caps_projectCapExpiresAt :: "iso option"
  caps_corpusCapExpiresAt :: "iso option"
  caps_sourceCapExpiresAt :: "iso option"
  caps_minimumBoundMs :: jsnum

record CreateCorpusInput =
  cci_displayName :: string
  cci_ownerId :: string
  cci_tenantId :: string
  cci_callerExpiresAt :: "iso option"
  cci_caps :: "CorpusRetentionCaps option"

record EnrollSourceInput =
  esi_sourceId :: string
  esi_contentHash :: string
  esi_acl :: "string list"
  esi_retentionPolicy :: string
  esi_deletionPolicy :: string
  esi_lifecycleProvenance :: string
  esi_citationProvenance :: string
  esi_backendProvenance :: string
  esi_callerExpiresAt :: "iso option"
  esi_cacheBindings :: "string list option"

record UpdateSourceInput =
  usi_contentHash :: "string option"
  usi_acl :: "string list option"
  usi_deletionPolicy :: "string option"
  usi_citationProvenance :: "string option"

record CorpusView =
  cv_corpusId :: string
  cv_displayName :: string
  cv_state :: CorpusState
  cv_sourceCount :: nat
  cv_updatedAt :: iso
  cv_expiresAt :: "iso option"

record CorpusStatusView = CorpusView +
  csv_enrolledCount :: nat
  csv_manifest :: CorpusManifest
  csv_deletion :: DeletionStatus
  csv_warnings :: "string list"

record ScopedCorpusSearchResult =
  ssr_sourceId :: string
  ssr_contentHash :: string
  ssr_snippet :: string
  ssr_score :: jsnum
  ssr_provenance :: SearchResultProvenance

record ScopedCorpusSearchResponse =
  ssp_toolFamily :: string
  ssp_corpusId :: string
  ssp_query :: string
  ssp_results :: "ScopedCorpusSearchResult list"
  ssp_warnings :: "string list"

record PublicWebSearchResult =
  pws_title :: string
  pws_url :: string
  pws_snippet :: string
  pws_provenance :: SearchResultProvenance

record PublicWebSearchResponse =
  pwr_toolFamily :: string
  pwr_query :: string
  pwr_results :: "PublicWebSearchResult list"

definition resolveSearchToolFamily :: "SearchSourceKind \<Rightarrow> string" where
  "resolveSearchToolFamily sourceKind =
     (if sourceKind = CorpusSource then SCOPED_CORPUS_TOOL_FAMILY else PUBLIC_WEB_TOOL_FAMILY)"

definition fakePublicWebSearch :: "string \<Rightarrow> string \<Rightarrow> string \<Rightarrow> int \<Rightarrow> PublicWebSearchResponse res" where
  "fakePublicWebSearch query provider backend now =
     andThen (assertBoundedText query ''Search query'' MAX_SEARCH_QUERY_CHARS)
     (andThen (assertBoundedText provider ''Provider'' MAX_ACL_ENTRY_CHARS)
     (andThen (assertBoundedText backend ''Backend'' MAX_ACL_ENTRY_CHARS)
     (bindE (toISOString (Some now)) (\<lambda>timestamp.
      let provenance = \<lparr>srp_sourceKind = PublicWeb, srp_provider = provider, srp_backend = backend,
            srp_corpusBoundary = None, srp_freshnessTimestamp = timestamp\<rparr>
      in andThen (validateSearchResultLabeling provenance)
        (Inr \<lparr>pwr_toolFamily = PUBLIC_WEB_TOOL_FAMILY, pwr_query = query,
          pwr_results = [\<lparr>pws_title = ''Fake public result for '' @ query,
            pws_url = ''https://example.com/fake-public-result'',
            pws_snippet = ''Deterministic fake public-web snippet for family boundary tests.'',
            pws_provenance = provenance\<rparr>]\<rparr>)))))"

section \<open>The backend\<close>

record BackendSearchHit =
  bsh_sourceId :: string
  bsh_contentHash :: string
  bsh_snippet :: string
  bsh_score :: jsnum

record 'b corpus_backend =
  cb_backendName :: string
  cb_createIndex :: "string \<Rightarrow> ('b, string) action"
  cb_enrollDocument :: "string \<Rightarrow> string \<Rightarrow> string \<Rightarrow> ('b, unit) action"
  cb_removeDocument :: "string \<Rightarrow> string \<Rightarrow> ('b, unit) action"
  cb_searchDocuments :: "string \<Rightarrow> string \<Rightarrow> nat \<Rightarrow> ('b, BackendSearchHit list) action"
  cb_deleteIndex :: "string \<Rightarrow> ('b, unit) action"
  cb_backendHealthy :: "('b, bool) action"
  cb_indexHealthy :: "string \<Rightarrow> ('b, bool) action"

record InMemoryIndex =
  imi_key :: string
  imi_docs :: "string jsmap"
  imi_healthy :: bool

record InMemoryCorpusBackend =
  imb_seq :: nat
  imb_failDelete :: bool
  imb_backendUp :: bool
  imb_indexes :: "InMemoryIndex jsmap"

definition imb_setFailDelete :: "bool \<Rightarrow> (InMemoryCorpusBackend, unit) action" where
  "imb_setFailDelete fail b = (Inr (), b\<lparr>imb_failDelete := fail\<rparr>)"

definition imb_setBackendHealthy :: "bool \<Rightarrow> (InMemoryCorpusBackend, unit) action" where
  "imb_setBackendHealthy healthy b = (Inr (), b\<lparr>imb_backendUp := healthy\<rparr>)"

definition imb_internalIndexKeyCount :: "InMemoryCorpusBackend \<Rightarrow> nat" where
  "imb_internalIndexKeyCount b = length (imb_indexes b)"

definition imb_setIndexHealthy :: "string \<Rightarrow> bool \<Rightarrow> (InMemoryCorpusBackend, unit) action" where
  "imb_setIndexHealthy corpusId healthy b = (case map_of (imb_indexes b) corpusId of
      None \<Rightarrow> throwM (invalidCorpusInput (''Unknown corpus '' @ quoted corpusId) ''corpus.invalid_input''
        ''Create the corpus before changing backend health.'') b
    | Some i \<Rightarrow> (Inr (), b\<lparr>imb_indexes := AList.update corpusId (i\<lparr>imi_healthy := healthy\<rparr>) (imb_indexes b)\<rparr>))"

definition imb_requireIndex :: "string \<Rightarrow> (InMemoryCorpusBackend, InMemoryIndex) action" where
  "imb_requireIndex corpusId b = (case map_of (imb_indexes b) corpusId of
      None \<Rightarrow> throwM (corpusError UPSTREAM_ERROR ''corpus-backend'' ''Corpus backend index is unavailable'' True
        ''corpus.backend_unavailable'' ''The corpus backend index is unavailable. Retry after the backend recovers.'') b
    | Some i \<Rightarrow> (Inr i, b))"

definition imb_createIndex :: "string \<Rightarrow> (InMemoryCorpusBackend, string) action" where
  "imb_createIndex corpusId b =
     (let n = Suc (imb_seq b); key = ''idx-mem-'' @ padStart 4 (CHR ''0'') (showHex n)
      in (Inr key, b\<lparr>imb_seq := n, imb_indexes := AList.update corpusId
           \<lparr>imi_key = key, imi_docs = [], imi_healthy = True\<rparr> (imb_indexes b)\<rparr>))"

definition imb_updateDocs :: "string \<Rightarrow> (string jsmap \<Rightarrow> string jsmap) \<Rightarrow> (InMemoryCorpusBackend, unit) action" where
  "imb_updateDocs corpusId f = bindM (imb_requireIndex corpusId) (\<lambda>i b.
     (Inr (), b\<lparr>imb_indexes := AList.update corpusId (i\<lparr>imi_docs := f (imi_docs i)\<rparr>) (imb_indexes b)\<rparr>))"

definition imb_enrollDocument :: "string \<Rightarrow> string \<Rightarrow> string \<Rightarrow> (InMemoryCorpusBackend, unit) action" where
  "imb_enrollDocument corpusId sourceId contentHash = imb_updateDocs corpusId (AList.update sourceId contentHash)"

definition imb_removeDocument :: "string \<Rightarrow> string \<Rightarrow> (InMemoryCorpusBackend, unit) action" where
  "imb_removeDocument corpusId sourceId = imb_updateDocs corpusId (AList.delete sourceId)"

definition imb_searchDocuments :: "string \<Rightarrow> string \<Rightarrow> nat \<Rightarrow> (InMemoryCorpusBackend, BackendSearchHit list) action" where
  "imb_searchDocuments corpusId query maxResults = bindM (imb_requireIndex corpusId) (\<lambda>i.
     returnM (map (\<lambda>(sourceId, contentHash). \<lparr>bsh_sourceId = sourceId, bsh_contentHash = contentHash,
       bsh_snippet = ''Enrolled source '' @ sourceId, bsh_score = jint 1\<rparr>) (take maxResults (imi_docs i))))"

definition imb_deleteIndex :: "string \<Rightarrow> (InMemoryCorpusBackend, unit) action" where
  "imb_deleteIndex corpusId b =
     (if imb_failDelete b
      then throwM (corpusError UPSTREAM_ERROR ''corpus-backend''
        ''Corpus backend deletion failed; derived index removal is pending'' True ''corpus.backend_delete_pending''
        ''The backend did not finish deleting the derived index. Poll corpus status and retry delete.'') b
      else (Inr (), b\<lparr>imb_indexes := AList.delete corpusId (imb_indexes b)\<rparr>))"

definition memCorpusBackend :: "InMemoryCorpusBackend corpus_backend" where
  "memCorpusBackend =
     \<lparr>cb_backendName = ''mem-fake-v1'', cb_createIndex = imb_createIndex,
      cb_enrollDocument = imb_enrollDocument, cb_removeDocument = imb_removeDocument,
      cb_searchDocuments = imb_searchDocuments, cb_deleteIndex = imb_deleteIndex,
      cb_backendHealthy = (\<lambda>b. (Inr (imb_backendUp b), b)),
      cb_indexHealthy = (\<lambda>corpusId b. (Inr (case map_of (imb_indexes b) corpusId of
         None \<Rightarrow> False | Some i \<Rightarrow> imi_healthy i), b))\<rparr>"

section \<open>The data of the store\<close>

record StoredEnrollment = CorpusEnrollment +
  se_acl :: "string list"
  se_deletionPolicy :: string
  se_lifecycleProvenance :: string
  se_citationProvenance :: string

record CorpusRecord =
  cr_corpusId :: string
  cr_displayName :: string
  cr_ownerId :: string
  cr_tenantId :: string
  cr_readerRoles :: "string list"
  cr_state :: CorpusState
  cr_enrollments :: "StoredEnrollment jsmap"
  cr_backendIndexKey :: string
  cr_createdAt :: iso
  cr_updatedAt :: iso
  cr_expiresAt :: "iso option"
  cr_deletion :: DeletionStatus

text \<open>The store; the revoked cache bindings are a set, here a list in insertion order.\<close>

record 'b CorpusStore =
  cs_seq :: nat
  cs_records :: "CorpusRecord jsmap"
  cs_revoked :: "string list"
  cs_backend :: 'b

definition BACKEND_PROVENANCE_LABEL :: string where "BACKEND_PROVENANCE_LABEL = ''mem-fake-v1''"

definition defaultCaps :: CorpusRetentionCaps where
  "defaultCaps = \<lparr>caps_operatorCapExpiresAt = None, caps_projectCapExpiresAt = None,
     caps_corpusCapExpiresAt = None, caps_sourceCapExpiresAt = None,
     caps_minimumBoundMs = DEFAULT_RETENTION_MINIMUM_BOUND_MS\<rparr>"

definition toRetentionPolicy :: "CorpusRetentionCaps \<Rightarrow> CorpusRetentionPolicy" where
  "toRetentionPolicy caps = \<lparr>rp_operator = caps_operatorCapExpiresAt caps,
     rp_project = caps_projectCapExpiresAt caps, rp_corpus = caps_corpusCapExpiresAt caps,
     rp_source = caps_sourceCapExpiresAt caps, rp_minimumBoundMs = caps_minimumBoundMs caps\<rparr>"

definition isEnrolled :: "StoredEnrollment \<Rightarrow> bool" where
  "isEnrolled e \<longleftrightarrow> sr_lifecycle (en_sourceRecord e) = SrcEnrolled"

definition manifestEntry :: "StoredEnrollment \<Rightarrow> CorpusSourceManifestEntry" where
  "manifestEntry e = \<lparr>me_sourceId = en_sourceId e, me_contentHash = sr_contentHash (en_sourceRecord e),
     me_acl = se_acl e,
     me_retentionPolicy = (case en_expiresAt e of None \<Rightarrow> ''persistent'' | Some t \<Rightarrow> isoText t),
     me_deletionPolicy = se_deletionPolicy e, me_lifecycleProvenance = se_lifecycleProvenance e,
     me_citationProvenance = se_citationProvenance e, me_backendProvenance = BACKEND_PROVENANCE_LABEL\<rparr>"

definition bySourceId :: "CorpusSourceManifestEntry \<Rightarrow> CorpusSourceManifestEntry \<Rightarrow> int" where
  "bySourceId a b = (if codeUnitGreater (me_sourceId b) (me_sourceId a) then - 1
     else if codeUnitGreater (me_sourceId a) (me_sourceId b) then 1 else 0)"

definition manifestFromRecord :: "CorpusRecord \<Rightarrow> CorpusManifest" where
  "manifestFromRecord record = \<lparr>man_corpusId = cr_corpusId record,
     man_sources = sortBy bySourceId (map manifestEntry (filter isEnrolled (map snd (cr_enrollments record)))),
     man_updatedAt = cr_updatedAt record\<rparr>"

definition toView :: "CorpusRecord \<Rightarrow> CorpusState \<Rightarrow> CorpusView" where
  "toView record state = \<lparr>cv_corpusId = cr_corpusId record, cv_displayName = cr_displayName record,
     cv_state = state, cv_sourceCount = length (cr_enrollments record), cv_updatedAt = cr_updatedAt record,
     cv_expiresAt = cr_expiresAt record\<rparr>"

definition earliestExpiry :: "iso option \<Rightarrow> iso option \<Rightarrow> iso option" where
  "earliestExpiry existing resolved = (case existing of
      None \<Rightarrow> resolved
    | Some old \<Rightarrow> (case resolved of
          None \<Rightarrow> existing
        | Some new \<Rightarrow> if laterThan old new then resolved else existing))"

section \<open>Access\<close>

definition canWrite :: "CorpusRecord \<Rightarrow> CallerPrincipal \<Rightarrow> bool" where
  "canWrite record caller \<longleftrightarrow> cal_principalId caller = cr_ownerId record \<or> ''role:writer'' \<in> set (cal_roles caller)"

definition canRead :: "CorpusRecord \<Rightarrow> CallerPrincipal \<Rightarrow> bool" where
  "canRead record caller \<longleftrightarrow> cal_principalId caller = cr_ownerId record \<or>
     list_ex (\<lambda>role. role \<in> set (cr_readerRoles record)) (cal_roles caller)"

definition canSeeSource :: "CorpusRecord \<Rightarrow> CallerPrincipal \<Rightarrow> StoredEnrollment \<Rightarrow> bool" where
  "canSeeSource record caller enrollment \<longleftrightarrow> cal_principalId caller = cr_ownerId record \<or>
     list_ex (\<lambda>role. role \<in> set (se_acl enrollment)) (cal_roles caller)"

definition requireRecord :: "'b CorpusStore \<Rightarrow> string \<Rightarrow> CorpusRecord res" where
  "requireRecord st corpusId = (case map_of (cs_records st) corpusId of
      None \<Rightarrow> Inl (invalidCorpusInput ''Unknown corpus'' ''corpus.invalid_input''
        ''Create the corpus before operating on it.'')
    | Some r \<Rightarrow> Inr r)"

definition accessError :: "string \<Rightarrow> string \<Rightarrow> string \<Rightarrow> exn" where
  "accessError m hintCode hintText = corpusError INVALID_INPUT ''corpus-runtime'' m False hintCode hintText"

definition requireWritableRecord :: "string \<Rightarrow> CallerPrincipal \<Rightarrow> bool \<Rightarrow> 'b CorpusStore \<Rightarrow> CorpusRecord res" where
  "requireWritableRecord corpusId caller allowDeleting st =
     bindE (requireRecord st corpusId) (\<lambda>record.
     andThen (throwIf (\<not> canWrite record caller)
       (accessError ''Corpus access denied for this caller'' ''corpus.access_denied''
         ''The caller is not the corpus owner and has no writer role.''))
     (andThen (throwIf (cr_state record = CorpusDeleted)
       (accessError ''Corpus access was revoked; the corpus is deleted'' ''corpus.access_revoked''
         ''This corpus was deleted and cannot be modified.''))
     (andThen (throwIf (cr_state record = CorpusDeleting \<and> \<not> allowDeleting)
       (accessError ''Corpus access was revoked; deletion is in progress'' ''corpus.access_revoked''
         ''Deletion is in progress. Poll corpus status until it completes.''))
       (Inr record))))"

definition requireReadableRecord :: "string \<Rightarrow> CallerPrincipal \<Rightarrow> 'b CorpusStore \<Rightarrow> CorpusRecord res" where
  "requireReadableRecord corpusId caller st =
     bindE (requireRecord st corpusId) (\<lambda>record.
     andThen (throwIf (\<not> canRead record caller)
       (accessError ''Corpus access denied for this caller'' ''corpus.access_denied''
         ''The caller is not the corpus owner and has no reader role.''))
       (Inr record))"

text \<open>A backend error without its message.\<close>

fun sanitizedBackendError :: "thrown \<Rightarrow> exn" where
  "sanitizedBackendError (ThrownError (GroundlaneError code _ _ retryable _)) =
     corpusError code ''corpus-runtime'' ''Corpus backend operation failed'' retryable ''corpus.backend_error''
       ''The corpus backend failed. Poll corpus status; the manifest is unchanged.''"
| "sanitizedBackendError _ =
     corpusError UPSTREAM_ERROR ''corpus-runtime'' ''Corpus backend operation failed'' True ''corpus.backend_error''
       ''The corpus backend failed. Poll corpus status; the manifest is unchanged.''"

end
