(* ===== verification/CorpusMethods.thy ===== *)
theory CorpusMethods
  imports CorpusStore
begin

text \<open>
  The methods of \<open>CorpusStore\<close> in \<^verbatim>\<open>src/core/corpus-runtime.ts\<close>, over any backend port \<open>B\<close>. A corpus
  record is changed in place: a method writes the record it has read back under its id.
\<close>

section \<open>Steps\<close>

definition getStore :: "('s, 's) action" where
  "getStore st = (Inr st, st)"

definition onBackend :: "('b, 'a) action \<Rightarrow> ('b CorpusStore, 'a) action" where
  "onBackend m st = (case m (cs_backend st) of (r, b) \<Rightarrow> (r, st\<lparr>cs_backend := b\<rparr>))"

text \<open>A backend call whose error is sanitized.\<close>

definition tryBackend :: "('b, 'a) action \<Rightarrow> ('b CorpusStore, 'a) action" where
  "tryBackend m = catchM (onBackend m) (\<lambda>error. throwM (sanitizedBackendError error))"

definition putRecord :: "CorpusRecord \<Rightarrow> ('b CorpusStore, unit) action" where
  "putRecord record st = (Inr (), st\<lparr>cs_records := AList.update (cr_corpusId record) record (cs_records st)\<rparr>)"

definition revokeBindings :: "string list \<Rightarrow> ('b CorpusStore, unit) action" where
  "revokeBindings bs st = (Inr (), st\<lparr>cs_revoked := fold List.insert bs (cs_revoked st)\<rparr>)"

definition writableRecord :: "string \<Rightarrow> CallerPrincipal \<Rightarrow> bool \<Rightarrow> ('b CorpusStore, CorpusRecord) action" where
  "writableRecord corpusId caller allowDeleting =
     bindM getStore (\<lambda>st. pureM (requireWritableRecord corpusId caller allowDeleting st))"

definition readableRecord :: "string \<Rightarrow> CallerPrincipal \<Rightarrow> ('b CorpusStore, CorpusRecord) action" where
  "readableRecord corpusId caller = bindM getStore (\<lambda>st. pureM (requireReadableRecord corpusId caller st))"

text \<open>\<open>mapBackendFailureToState(backend.backendHealthy(), backend.indexHealthy(corpusId))\<close>.\<close>

definition backendState :: "'b corpus_backend \<Rightarrow> string \<Rightarrow> ('b CorpusStore, CorpusState) action" where
  "backendState B corpusId =
     bindM (onBackend (cb_backendHealthy B)) (\<lambda>up.
     bindM (onBackend (cb_indexHealthy B corpusId)) (\<lambda>healthy.
       returnM (mapBackendFailureToState up healthy)))"

section \<open>Creating a corpus\<close>

definition newCorpusId :: "(string \<Rightarrow> string) \<Rightarrow> nat \<Rightarrow> CreateCorpusInput \<Rightarrow> string" where
  "newCorpusId sha256 n inp =
     (let digest = take 12 (sha256 (cci_tenantId inp @ '':'' @ cci_ownerId inp @ '':'' @
            cci_displayName inp @ '':'' @ showNat n))
      in CORPUS_ID_PREFIX @ padStart 4 (CHR ''0'') (showHex n) @ digest)"

definition capsExpiry :: "iso option \<Rightarrow> CorpusRetentionCaps \<Rightarrow> int \<Rightarrow> iso option res" where
  "capsExpiry callerExpiresAt caps now =
     bindE (resolveEnrollmentExpiry callerExpiresAt (caps_operatorCapExpiresAt caps)
       (caps_projectCapExpiresAt caps) (caps_corpusCapExpiresAt caps) (caps_sourceCapExpiresAt caps)) (\<lambda>expiresAt.
     andThen (validateEnrollmentExpiry expiresAt (caps_minimumBoundMs caps) now) (Inr expiresAt))"

definition cs_createCorpus :: "'b corpus_backend \<Rightarrow> (string \<Rightarrow> string) \<Rightarrow> int \<Rightarrow> CreateCorpusInput \<Rightarrow>
    ('b CorpusStore, CorpusView) action" where
  "cs_createCorpus B sha256 now inp =
     bindM (pureM (andThen (assertBoundedText (cci_displayName inp) ''Display name'' MAX_DISPLAY_NAME_CHARS)
       (andThen (assertBoundedText (cci_ownerId inp) ''Owner ID'' MAX_ACL_ENTRY_CHARS)
       (andThen (assertBoundedText (cci_tenantId inp) ''Tenant ID'' MAX_ACL_ENTRY_CHARS)
         (capsExpiry (cci_callerExpiresAt inp)
           (case cci_caps inp of None \<Rightarrow> defaultCaps | Some c \<Rightarrow> c) now))))) (\<lambda>expiresAt.
     bindM (\<lambda>st. (Inr (Suc (cs_seq st)), st\<lparr>cs_seq := Suc (cs_seq st)\<rparr>)) (\<lambda>n.
     let corpusId = newCorpusId sha256 n inp
     in thenM (pureM (validateCorpusIdentity \<lparr>cid_corpusId = corpusId, cid_displayName = cci_displayName inp\<rparr>))
       (bindM (tryBackend (cb_createIndex B corpusId)) (\<lambda>backendIndexKey.
        bindM (pureM (toISOString (Some now))) (\<lambda>timestamp.
        let record = \<lparr>cr_corpusId = corpusId, cr_displayName = cci_displayName inp,
              cr_ownerId = cci_ownerId inp, cr_tenantId = cci_tenantId inp,
              cr_readerRoles = [''role:reader'', ''role:writer''], cr_state = CorpusActive,
              cr_enrollments = [], cr_backendIndexKey = backendIndexKey, cr_createdAt = timestamp,
              cr_updatedAt = timestamp, cr_expiresAt = expiresAt,
              cr_deletion = \<lparr>del_derivedIndexDeleted = False, del_artifactDeleted = False,
                del_isComplete = False\<rparr>\<rparr>
        in thenM (putRecord record) (returnM (toView record (cr_state record))))))))"

section \<open>Sources\<close>

text \<open>The enrollment that takes the place of \<open>existing\<close>.\<close>

definition enrollment :: "CorpusRecord \<Rightarrow> EnrollSourceInput \<Rightarrow> CorpusRetentionCaps \<Rightarrow> iso option \<Rightarrow> iso \<Rightarrow>
    StoredEnrollment option \<Rightarrow> StoredEnrollment" where
  "enrollment record inp caps expiresAt timestamp existing =
     (let enrolledAt = (case existing of None \<Rightarrow> timestamp | Some e \<Rightarrow> en_enrolledAt e)
      in \<lparr>en_sourceId = esi_sourceId inp, en_corpusId = cr_corpusId record, en_enrolledAt = enrolledAt,
          en_expiresAt = earliestExpiry (case existing of None \<Rightarrow> None | Some e \<Rightarrow> en_expiresAt e) expiresAt,
          en_retentionPolicy = toRetentionPolicy caps,
          en_sourceRecord = \<lparr>sr_sourceId = esi_sourceId inp, sr_corpusId = cr_corpusId record,
            sr_contentHash = esi_contentHash inp, sr_enrolledAt = enrolledAt, sr_lifecycle = SrcEnrolled,
            sr_cacheBindings = (case esi_cacheBindings inp of None \<Rightarrow> [] | Some bs \<Rightarrow> bs)\<rparr>,
          se_acl = esi_acl inp, se_deletionPolicy = esi_deletionPolicy inp,
          se_lifecycleProvenance = esi_lifecycleProvenance inp,
          se_citationProvenance = esi_citationProvenance inp\<rparr>)"

definition cs_enrollSource :: "'b corpus_backend \<Rightarrow> int \<Rightarrow> string \<Rightarrow> EnrollSourceInput \<Rightarrow> CallerPrincipal \<Rightarrow>
    CorpusRetentionCaps option \<Rightarrow> ('b CorpusStore, StoredEnrollment) action" where
  "cs_enrollSource B now corpusId inp caller caps =
     bindM (writableRecord corpusId caller False) (\<lambda>record.
     let resolvedCaps = (case caps of None \<Rightarrow> defaultCaps | Some c \<Rightarrow> c);
         existing = map_of (cr_enrollments record) (esi_sourceId inp)
     in bindM (pureM (andThen (assertBoundedText (esi_sourceId inp) ''Source ID'' MAX_SOURCE_ID_CHARS)
          (andThen (assertBoundedText (esi_contentHash inp) ''Content hash'' MAX_CONTENT_HASH_CHARS)
          (andThen (assertValidAcl (esi_acl inp))
            (capsExpiry (esi_callerExpiresAt inp) resolvedCaps now))))) (\<lambda>expiresAt.
        thenM (pureM (case existing of
            Some e \<Rightarrow> if isEnrolled e then validateReEnroll e expiresAt else Inr ()
          | None \<Rightarrow> Inr ()))
        (thenM (tryBackend (cb_enrollDocument B corpusId (esi_sourceId inp) (esi_contentHash inp)))
        (bindM (pureM (toISOString (Some now))) (\<lambda>timestamp.
         let e = enrollment record inp resolvedCaps expiresAt timestamp existing;
             record' = record\<lparr>cr_enrollments := AList.update (esi_sourceId inp) e (cr_enrollments record),
               cr_updatedAt := timestamp\<rparr>
         in thenM (putRecord record')
           (if cr_state record = CorpusActive \<or> cr_state record = CorpusDegraded
            then bindM (backendState B corpusId) (\<lambda>state.
              thenM (putRecord (record'\<lparr>cr_state := state\<rparr>)) (returnM e))
            else returnM e))))))"

definition notEnrolled :: "string \<Rightarrow> string \<Rightarrow> exn" where
  "notEnrolled sourceId hintText =
     invalidCorpusInput (''Source '' @ quoted sourceId @ '' is not enrolled'') ''corpus.invalid_input'' hintText"

definition enrolledSource :: "CorpusRecord \<Rightarrow> string \<Rightarrow> string \<Rightarrow> StoredEnrollment res" where
  "enrolledSource record sourceId hintText = (case map_of (cr_enrollments record) sourceId of
      None \<Rightarrow> Inl (notEnrolled sourceId hintText)
    | Some e \<Rightarrow> if isEnrolled e then Inr e else Inl (notEnrolled sourceId hintText))"

definition updatedEnrollment :: "UpdateSourceInput \<Rightarrow> string \<Rightarrow> StoredEnrollment \<Rightarrow> StoredEnrollment" where
  "updatedEnrollment upd nextHash e =
     e\<lparr>en_sourceRecord := (en_sourceRecord e)\<lparr>sr_contentHash := nextHash\<rparr>,
       se_acl := (case usi_acl upd of None \<Rightarrow> se_acl e | Some a \<Rightarrow> a),
       se_deletionPolicy := (case usi_deletionPolicy upd of None \<Rightarrow> se_deletionPolicy e | Some p \<Rightarrow> p),
       se_citationProvenance := (case usi_citationProvenance upd of
         None \<Rightarrow> se_citationProvenance e | Some p \<Rightarrow> p)\<rparr>"

definition cs_updateSource :: "'b corpus_backend \<Rightarrow> int \<Rightarrow> string \<Rightarrow> string \<Rightarrow> UpdateSourceInput \<Rightarrow>
    CallerPrincipal \<Rightarrow> ('b CorpusStore, StoredEnrollment) action" where
  "cs_updateSource B now corpusId sourceId upd caller =
     bindM (writableRecord corpusId caller False) (\<lambda>record.
     bindM (pureM (enrolledSource record sourceId ''Enroll the source before updating it.'')) (\<lambda>existing.
     thenM (pureM (case usi_contentHash upd of
         None \<Rightarrow> Inr () | Some h \<Rightarrow> assertBoundedText h ''Content hash'' MAX_CONTENT_HASH_CHARS))
     (thenM (pureM (case usi_acl upd of None \<Rightarrow> Inr () | Some a \<Rightarrow> assertValidAcl a))
     (let nextHash = (case usi_contentHash upd of
            None \<Rightarrow> sr_contentHash (en_sourceRecord existing) | Some h \<Rightarrow> h);
          e = updatedEnrollment upd nextHash existing;
          record' = record\<lparr>cr_enrollments := AList.update sourceId e (cr_enrollments record)\<rparr>
      in thenM (tryBackend (cb_enrollDocument B corpusId sourceId nextHash))
        (thenM (putRecord record')
        (bindM (pureM (toISOString (Some now))) (\<lambda>timestamp.
         thenM (putRecord (record'\<lparr>cr_updatedAt := timestamp\<rparr>)) (returnM e))))))))"

fun reindex :: "'b corpus_backend \<Rightarrow> string \<Rightarrow> StoredEnrollment list \<Rightarrow> ('b CorpusStore, unit) action" where
  "reindex B corpusId [] = returnM ()"
| "reindex B corpusId (e # es) =
     (if isEnrolled e
      then thenM (tryBackend (cb_enrollDocument B corpusId (en_sourceId e) (sr_contentHash (en_sourceRecord e))))
        (reindex B corpusId es)
      else reindex B corpusId es)"

definition cs_rebuildDerivedIndex :: "'b corpus_backend \<Rightarrow> int \<Rightarrow> string \<Rightarrow> CallerPrincipal \<Rightarrow>
    ('b CorpusStore, CorpusManifest) action" where
  "cs_rebuildDerivedIndex B now corpusId caller =
     bindM (writableRecord corpusId caller False) (\<lambda>record.
     let before = manifestFromRecord record
     in thenM (reindex B corpusId (map snd (cr_enrollments record)))
       (let after = manifestFromRecord record
        in thenM (pureM (verifyManifestStableAfterRebuild before after))
          (bindM (pureM (toISOString (Some now))) (\<lambda>timestamp.
           thenM (putRecord (record\<lparr>cr_updatedAt := timestamp\<rparr>)) (returnM after)))))"

definition removedEnrollment :: "StoredEnrollment \<Rightarrow> StoredEnrollment" where
  "removedEnrollment e =
     e\<lparr>en_sourceRecord := (en_sourceRecord e)\<lparr>sr_lifecycle := SrcRemoved, sr_cacheBindings := []\<rparr>\<rparr>"

definition cs_removeSource :: "'b corpus_backend \<Rightarrow> int \<Rightarrow> string \<Rightarrow> string \<Rightarrow> CallerPrincipal \<Rightarrow>
    ('b CorpusStore, string) action" where
  "cs_removeSource B now corpusId sourceId caller =
     bindM (writableRecord corpusId caller False) (\<lambda>record.
     bindM (pureM (enrolledSource record sourceId ''Only an enrolled source can be removed.'')) (\<lambda>existing.
     thenM (revokeBindings (sr_cacheBindings (en_sourceRecord existing)))
     (thenM (tryBackend (cb_removeDocument B corpusId sourceId))
     (let record' = record\<lparr>cr_enrollments :=
            AList.update sourceId (removedEnrollment existing) (cr_enrollments record)\<rparr>
      in thenM (putRecord record')
        (bindM (pureM (toISOString (Some now))) (\<lambda>timestamp.
         thenM (putRecord (record'\<lparr>cr_updatedAt := timestamp\<rparr>)) (returnM sourceId)))))))"

section \<open>Status and search\<close>

definition cs_corpusStatus :: "'b corpus_backend \<Rightarrow> string \<Rightarrow> CallerPrincipal \<Rightarrow>
    ('b CorpusStore, CorpusStatusView) action" where
  "cs_corpusStatus B corpusId caller =
     bindM (readableRecord corpusId caller) (\<lambda>record.
     thenM (pureM (validateDeletionStatus (cr_deletion record)))
     (bindM (if cr_state record \<noteq> CorpusDeleting \<and> cr_state record \<noteq> CorpusDeleted
             then backendState B corpusId else returnM (cr_state record)) (\<lambda>state.
      let warnings = (if state = CorpusDegraded
              then [''Corpus backend is degraded; freshness may be stale.''] else []) @
            (if state = CorpusDeleting then [''Corpus deletion is in progress; access is revoked.''] else []);
          v = toView record state
      in returnM \<lparr>cv_corpusId = cv_corpusId v, cv_displayName = cv_displayName v, cv_state = cv_state v,
           cv_sourceCount = cv_sourceCount v, cv_updatedAt = cv_updatedAt v, cv_expiresAt = cv_expiresAt v,
           csv_enrolledCount = length (filter isEnrolled (map snd (cr_enrollments record))),
           csv_manifest = manifestFromRecord record, csv_deletion = cr_deletion record,
           csv_warnings = warnings\<rparr>)))"

definition searchProvenance :: "string \<Rightarrow> CorpusRecord \<Rightarrow> iso \<Rightarrow> SearchResultProvenance" where
  "searchProvenance backendName record timestamp =
     \<lparr>srp_sourceKind = CorpusSource, srp_provider = ''internal'', srp_backend = backendName,
      srp_corpusBoundary = Some (cr_corpusId record), srp_freshnessTimestamp = timestamp\<rparr>"

text \<open>The hits that are enrolled and that the caller may see, in order, at most \<open>limit\<close> of them.\<close>

fun searchResults :: "string \<Rightarrow> int \<Rightarrow> CorpusRecord \<Rightarrow> CallerPrincipal \<Rightarrow> nat \<Rightarrow> BackendSearchHit list \<Rightarrow>
    ScopedCorpusSearchResult list res" where
  "searchResults backendName now record caller room [] = Inr []"
| "searchResults backendName now record caller room (hit # hits) =
     (case map_of (cr_enrollments record) (bsh_sourceId hit) of
        None \<Rightarrow> searchResults backendName now record caller room hits
      | Some e \<Rightarrow>
          if \<not> isEnrolled e \<or> \<not> canSeeSource record caller e
          then searchResults backendName now record caller room hits
          else bindE (toISOString (Some now)) (\<lambda>timestamp.
            let provenance = searchProvenance backendName record timestamp;
                result = \<lparr>ssr_sourceId = bsh_sourceId hit, ssr_contentHash = bsh_contentHash hit,
                  ssr_snippet = bsh_snippet hit, ssr_score = bsh_score hit, ssr_provenance = provenance\<rparr>
            in andThen (validateSearchResultLabeling provenance)
              (if room \<le> 1 then Inr [result]
               else bindE (searchResults backendName now record caller (room - 1) hits)
                 (\<lambda>rest. Inr (result # rest)))))"

text \<open>\<open>!backend.backendHealthy() || !backend.indexHealthy(corpusId)\<close>.\<close>

definition backendDegraded :: "'b corpus_backend \<Rightarrow> string \<Rightarrow> ('b CorpusStore, bool) action" where
  "backendDegraded B corpusId = bindM (onBackend (cb_backendHealthy B)) (\<lambda>up.
     if \<not> up then returnM True
     else bindM (onBackend (cb_indexHealthy B corpusId)) (\<lambda>healthy. returnM (\<not> healthy)))"

definition searchLimit :: "jsnum option \<Rightarrow> nat res" where
  "searchLimit maxResults =
     (let limit = (case maxResults of None \<Rightarrow> jint (int DEFAULT_SEARCH_RESULTS) | Some m \<Rightarrow> m)
      in andThen (throwIf (\<not> isInteger limit \<or> jlt limit (jint 1) \<or> jlt (jint (int MAX_SEARCH_RESULTS)) limit)
          (invalidCorpusInput (''maxResults must be an integer between 1 and '' @ showNat MAX_SEARCH_RESULTS)
            ''corpus.invalid_input'' (''Pass maxResults between 1 and '' @ showNat MAX_SEARCH_RESULTS @ ''.'')))
        (Inr (nat (toInt limit))))"

definition cs_searchCorpus :: "'b corpus_backend \<Rightarrow> int \<Rightarrow> string \<Rightarrow> string \<Rightarrow> CallerPrincipal \<Rightarrow>
    jsnum option \<Rightarrow> ('b CorpusStore, ScopedCorpusSearchResponse) action" where
  "cs_searchCorpus B now corpusId query caller maxResults =
     bindM (readableRecord corpusId caller) (\<lambda>record.
     thenM (pureM (throwIf (cr_state record = CorpusDeleted \<or> cr_state record = CorpusDeleting)
       (accessError ''Corpus access was revoked; the corpus is deleted or deletion is in progress''
         ''corpus.access_revoked''
         ''This corpus was deleted. Its sources and cache bindings are no longer searchable.'')))
     (thenM (pureM (assertBoundedText query ''Search query'' MAX_SEARCH_QUERY_CHARS))
     (bindM (pureM (searchLimit maxResults)) (\<lambda>limit.
      bindM (tryBackend (cb_searchDocuments B corpusId query limit)) (\<lambda>hits.
      bindM (backendDegraded B corpusId) (\<lambda>degraded.
      bindM (pureM (searchResults (cb_backendName B) now record caller limit hits)) (\<lambda>results.
      thenM (pureM (throwIf (results = [] \<and> cr_enrollments record \<noteq> [])
        (accessError ''Corpus access denied for all enrolled sources'' ''corpus.access_denied''
          ''The caller is not in any enrolled source ACL. Ask the corpus owner for access.'')))
      (returnM \<lparr>ssp_toolFamily = SCOPED_CORPUS_TOOL_FAMILY, ssp_corpusId = cr_corpusId record,
         ssp_query = query, ssp_results = results,
         ssp_warnings = (if degraded then [''Corpus backend is degraded; results may be stale.''] else [])\<rparr>))))))))"

section \<open>Deletion\<close>

text \<open>Every enrolled source revoked, with the cache bindings that are invalidated.\<close>

definition revokeAll :: "StoredEnrollment jsmap \<Rightarrow> StoredEnrollment jsmap \<times> string list" where
  "revokeAll m =
     (map (\<lambda>(k, e). (k, if isEnrolled e then fst (revokeEnrollment e) else e)) m,
      concat (map (\<lambda>(k, e). if isEnrolled e then snd (revokeEnrollment e) else []) m))"

text \<open>The record in deletion, with the bindings to revoke: access goes before the backend is asked.\<close>

definition beginDeletion :: "CorpusRecord \<Rightarrow> CorpusRecord \<times> string list" where
  "beginDeletion record =
     (if cr_state record \<noteq> CorpusDeleting
      then (record\<lparr>cr_enrollments := fst (revokeAll (cr_enrollments record)), cr_state := CorpusDeleting\<rparr>,
            snd (revokeAll (cr_enrollments record)))
      else (record, []))"

text \<open>What is recorded once the backend has answered; without its success, no completion is claimed.\<close>

definition deletionStatus :: "bool \<Rightarrow> DeletionStatus" where
  "deletionStatus finished = \<lparr>del_derivedIndexDeleted = finished, del_artifactDeleted = finished,
     del_isComplete = finished\<rparr>"

definition finishDeletion :: "int \<Rightarrow> CorpusRecord \<Rightarrow> bool \<Rightarrow> ('b CorpusStore, DeletionStatus) action" where
  "finishDeletion now record finished =
     (let record2 = record\<lparr>cr_deletion := deletionStatus finished\<rparr>;
          record3 = (if finished then record2\<lparr>cr_state := CorpusDeleted\<rparr> else record2)
      in thenM (putRecord record2) (thenM (pureM (validateDeletionStatus (deletionStatus finished)))
        (thenM (putRecord record3)
        (bindM (pureM (toISOString (Some now))) (\<lambda>timestamp.
         thenM (putRecord (record3\<lparr>cr_updatedAt := timestamp\<rparr>)) (returnM (deletionStatus finished)))))))"

definition cs_deleteCorpus :: "'b corpus_backend \<Rightarrow> int \<Rightarrow> string \<Rightarrow> CallerPrincipal \<Rightarrow>
    ('b CorpusStore, DeletionStatus) action" where
  "cs_deleteCorpus B now corpusId caller =
     bindM (writableRecord corpusId caller True) (\<lambda>record.
     if del_isComplete (cr_deletion record) \<and> cr_state record = CorpusDeleted
     then returnM (cr_deletion record)
     else
       thenM (revokeBindings (snd (beginDeletion record)))
       (thenM (putRecord (fst (beginDeletion record)))
       (bindM (attemptM (onBackend (cb_deleteIndex B corpusId))) (\<lambda>r.
          finishDeletion now (fst (beginDeletion record)) (case r of Inl _ \<Rightarrow> False | Inr _ \<Rightarrow> True)))))"

definition cs_isCacheBindingHittable :: "'b CorpusStore \<Rightarrow> string \<Rightarrow> bool" where
  "cs_isCacheBindingHittable st binding \<longleftrightarrow> binding \<notin> set (cs_revoked st)"

end
