(* ===== verification/ActionLogic.thy ===== *)
theory ActionLogic
  imports JsActions
begin

text \<open>
  Contracts of actions relative to an order of states. The order says how the state may evolve; an
  action keeps its contract if, from a state with the precondition, the state evolves along the
  order whether or not the action returns, and a returned value satisfies the postcondition. There
  is one rule per statement form, so that a method is verified along its text.
\<close>

lemma bindM_Inr: "m s = (Inr x, t) \<Longrightarrow> bindM m f s = f x t"
  by (simp add: bindM_def)

lemma bindM_Inl: "m s = (Inl e, t) \<Longrightarrow> bindM m f s = (Inl e, t)"
  by (simp add: bindM_def)

lemma thenM_Inr: "m s = (Inr (), t) \<Longrightarrow> thenM m n s = n t"
  by (simp add: thenM_def bindM_Inr)

lemma thenM_Inl: "m s = (Inl e, t) \<Longrightarrow> thenM m n s = (Inl e, t)"
  by (simp add: thenM_def bindM_Inl)

lemma bindM_returns: "fst (bindM m f s) = Inr y \<Longrightarrow> \<exists>x. fst (m s) = Inr x \<and> fst (f x (snd (m s))) = Inr y"
  by (auto simp: bindM_def split: prod.splits sum.splits)

lemma thenM_returns: "fst (thenM m n s) = Inr y \<Longrightarrow> fst (m s) = Inr () \<and> fst (n (snd (m s))) = Inr y"
  unfolding thenM_def by (drule bindM_returns) simp

lemma pureM_run [simp]: "snd (pureM r s) = s" "fst (pureM r s) = Inr x \<longleftrightarrow> r = Inr x"
  by (auto simp: pureM_def split: sum.splits)

lemma returnM_run [simp]: "snd (returnM x s) = s" "fst (returnM x s) = Inr x"
  by (simp_all add: returnM_def)

locale action_order =
  fixes R :: "'s \<Rightarrow> 's \<Rightarrow> bool"
  assumes R_refl: "R s s" and R_trans: "R s t \<Longrightarrow> R t u \<Longrightarrow> R s u"
begin

definition contract :: "('s \<Rightarrow> bool) \<Rightarrow> ('s, 'a) action \<Rightarrow> ('a \<Rightarrow> 's \<Rightarrow> bool) \<Rightarrow> bool" where
  "contract A m Q \<longleftrightarrow> (\<forall>s. A s \<longrightarrow> R s (snd (m s)) \<and> (\<forall>x. fst (m s) = Inr x \<longrightarrow> Q x (snd (m s))))"

lemma contractI:
  "(\<And>s. A s \<Longrightarrow> R s (snd (m s))) \<Longrightarrow> (\<And>s x. A s \<Longrightarrow> fst (m s) = Inr x \<Longrightarrow> Q x (snd (m s))) \<Longrightarrow> contract A m Q"
  by (simp add: contract_def)

lemma contractD:
  assumes "contract A m Q" "A s"
  shows "R s (snd (m s))" "fst (m s) = Inr x \<Longrightarrow> Q x (snd (m s))"
  using assms by (simp_all add: contract_def)

lemma contract_conseq:
  "contract A m Q \<Longrightarrow> (\<And>s. B s \<Longrightarrow> A s) \<Longrightarrow> (\<And>x s. Q x s \<Longrightarrow> Q' x s) \<Longrightarrow> contract B m Q'"
  by (auto simp: contract_def)

lemma contract_return: "(\<And>s. A s \<Longrightarrow> Q x s) \<Longrightarrow> contract A (returnM x) Q"
  by (simp add: contract_def returnM_def R_refl)

lemma contract_throw: "contract A (throwM e) Q"
  by (simp add: contract_def throwM_def R_refl)

lemma contract_pure: "(\<And>s x. A s \<Longrightarrow> r = Inr x \<Longrightarrow> Q x s) \<Longrightarrow> contract A (pureM r) Q"
  by (auto simp: contract_def pureM_def R_refl split: sum.split)

lemma contract_bind:
  assumes "contract A m Q" "\<And>x. contract (Q x) (f x) Q'" shows "contract A (bindM m f) Q'"
  unfolding contract_def
proof (intro allI impI)
  fix s assume "A s"
  note m = contractD [OF assms(1) this]
  show "R s (snd (bindM m f s)) \<and> (\<forall>y. fst (bindM m f s) = Inr y \<longrightarrow> Q' y (snd (bindM m f s)))"
  proof (cases "m s")
    case (Pair r t)
    show ?thesis
    proof (cases r)
      case (Inl e)
      with Pair m(1) show ?thesis by (simp add: bindM_def)
    next
      case (Inr x)
      with Pair m(2) have "Q x t" by simp
      note contractD [OF assms(2) this]
      with Pair Inr m(1) show ?thesis using R_trans by (auto simp: bindM_def)
    qed
  qed
qed

lemma contract_then:
  "contract A m (\<lambda>_. Q) \<Longrightarrow> contract Q n Q' \<Longrightarrow> contract A (thenM m n) Q'"
  unfolding thenM_def by (rule contract_bind)

lemma contract_attempt:
  "(\<And>s. A s \<Longrightarrow> R s (snd (m s)) \<and> Q (fst (m s)) (snd (m s))) \<Longrightarrow> contract A (attemptM m) Q"
  by (simp add: contract_def attemptM_def case_prod_beta)

lemma contract_if:
  "(c \<Longrightarrow> contract A m Q) \<Longrightarrow> (\<not> c \<Longrightarrow> contract A n Q) \<Longrightarrow> contract A (if c then m else n) Q"
  by simp

lemma contract_let: "contract A (f x) Q \<Longrightarrow> contract A (let y = x in f y) Q"
  by simp

text \<open>What a method did, on each way out.\<close>

lemma contract_order: "contract A m Q \<Longrightarrow> A s \<Longrightarrow> R s (snd (m s))"
  by (rule contractD(1))

end

end
