(* ===== verification/CorpusFacts.thy ===== *)
theory CorpusFacts
  imports CorpusMethods ActionLogic
begin

text \<open>
  The invariant of the corpus store and the order in which its state evolves, and the contract of
  every method of \<^verbatim>\<open>CorpusMethods\<close>: whatever the backend does and whether or not the call returns,
  the invariant is kept and the state evolves along the order.
\<close>

section \<open>Corpus ids\<close>

definition hexDigitVal :: "char \<Rightarrow> nat" where
  "hexDigitVal c = (if isDigit c then digitVal c else of_char c - 87)"

definition parseHex :: "string \<Rightarrow> nat" where
  "parseHex s = foldl (\<lambda>n c. 16 * n + hexDigitVal c) 0 s"

lemma hexDigitVal_hexDigit: "hexDigitVal (''0123456789abcdef'' ! d) = d" if "d < 16"
proof -
  have "d \<in> set [0..<16]" using that by simp
  moreover have "\<forall>d \<in> set [0..<16]. hexDigitVal (''0123456789abcdef'' ! d) = d"
    by (simp add: upt_rec hexDigitVal_def isDigit_def digitVal_def)
  ultimately show ?thesis by blast
qed

lemma parseHex_showHex: "parseHex (showHex n) = n"
proof (induction n rule: showHex.induct)
  case (1 n)
  show ?case
  proof (cases "n < 16")
    case True
    then show ?thesis by (subst showHex.simps) (simp add: parseHex_def hexDigitVal_hexDigit)
  next
    case False
    with 1 have "parseHex (showHex (n div 16)) = n div 16" by simp
    with False show ?thesis by (subst showHex.simps) (simp add: parseHex_def hexDigitVal_hexDigit)
  qed
qed

lemma parseHex_zeros: "parseHex (replicate k (CHR ''0'') @ s) = parseHex s"
proof (induction k)
  case (Suc k)
  then show ?case by (simp add: parseHex_def hexDigitVal_def isDigit_def digitVal_def)
qed simp

definition corpusIdOf :: "nat \<Rightarrow> string \<Rightarrow> string" where
  "corpusIdOf n digest = CORPUS_ID_PREFIX @ padStart 4 (CHR ''0'') (showHex n) @ digest"

lemma corpusIdOf_inject:
  assumes "corpusIdOf n d = corpusIdOf n' d'" "length d = 12" "length d' = 12" shows "n = n'"
proof -
  from assms have "padStart 4 (CHR ''0'') (showHex n) = padStart 4 (CHR ''0'') (showHex n')"
    by (simp add: corpusIdOf_def append_eq_append_conv)
  then have "parseHex (padStart 4 (CHR ''0'') (showHex n)) = parseHex (padStart 4 (CHR ''0'') (showHex n'))"
    by simp
  then show ?thesis by (simp add: padStart_def parseHex_zeros parseHex_showHex)
qed

lemma corpusId_valid: "validateCorpusIdentity \<lparr>cid_corpusId = corpusIdOf n d, cid_displayName = x\<rparr> = Inr ()"
  by (simp add: validateCorpusIdentity_def corpusIdOf_def CORPUS_ID_PREFIX_def backendPatterns_def
      backendPattern_def toLowerCase_def toLowerChar_def throwIf_def)

section \<open>How the data may evolve\<close>

text \<open>A time that is not later; \<open>None\<close> is never.\<close>

fun notLater :: "iso option \<Rightarrow> iso option \<Rightarrow> bool" where
  "notLater new None = True"
| "notLater (Some (Iso s)) (Some (Iso t)) = (s \<le> t)"
| "notLater _ _ = False"

fun isTime :: "iso option \<Rightarrow> bool" where
  "isTime (Some (NotIso _)) = False" | "isTime _ = True"

lemma notLater_refl: "isTime t \<Longrightarrow> notLater t t"
  by (cases t rule: isTime.cases) auto

lemma notLater_trans: "notLater a b \<Longrightarrow> notLater b c \<Longrightarrow> notLater a c"
  by (cases "(a, b)" rule: notLater.cases; cases "(b, c)" rule: notLater.cases) auto

text \<open>The state of a corpus only moves towards its deletion.\<close>

fun deletionRank :: "CorpusState \<Rightarrow> nat" where
  "deletionRank CorpusDeleted = 2" | "deletionRank CorpusDeleting = 1" | "deletionRank _ = 0"

definition enrollmentMove :: "StoredEnrollment \<Rightarrow> StoredEnrollment \<Rightarrow> bool" where
  "enrollmentMove e e' \<longleftrightarrow> en_sourceId e' = en_sourceId e \<and> en_corpusId e' = en_corpusId e \<and>
     en_enrolledAt e' = en_enrolledAt e \<and> notLater (en_expiresAt e') (en_expiresAt e)"

definition recordMove :: "CorpusRecord \<Rightarrow> CorpusRecord \<Rightarrow> bool" where
  "recordMove r r' \<longleftrightarrow> cr_corpusId r' = cr_corpusId r \<and> cr_displayName r' = cr_displayName r \<and>
     cr_ownerId r' = cr_ownerId r \<and> cr_tenantId r' = cr_tenantId r \<and>
     cr_readerRoles r' = cr_readerRoles r \<and> cr_createdAt r' = cr_createdAt r \<and>
     cr_expiresAt r' = cr_expiresAt r \<and> deletionRank (cr_state r) \<le> deletionRank (cr_state r') \<and>
     (\<forall>k e. map_of (cr_enrollments r) k = Some e \<longrightarrow>
        (\<exists>e'. map_of (cr_enrollments r') k = Some e' \<and> enrollmentMove e e'))"

text \<open>The invariant of an enrollment and of a record.\<close>

definition enrollmentOk :: "string \<Rightarrow> string \<Rightarrow> StoredEnrollment \<Rightarrow> bool" where
  "enrollmentOk corpusId sourceId e \<longleftrightarrow>
     en_sourceId e = sourceId \<and> en_corpusId e = corpusId \<and> sr_sourceId (en_sourceRecord e) = sourceId \<and>
     sr_corpusId (en_sourceRecord e) = corpusId \<and> isTime (en_expiresAt e) \<and>
     (isEnrolled e \<or> sr_cacheBindings (en_sourceRecord e) = [])"

definition recordOk :: "string \<Rightarrow> CorpusRecord \<Rightarrow> bool" where
  "recordOk corpusId r \<longleftrightarrow> cr_corpusId r = corpusId \<and> mapOk (cr_enrollments r) \<and>
     (\<forall>k e. map_of (cr_enrollments r) k = Some e \<longrightarrow> enrollmentOk corpusId k e) \<and>
     (0 < deletionRank (cr_state r) \<longrightarrow> (\<forall>k e. map_of (cr_enrollments r) k = Some e \<longrightarrow> \<not> isEnrolled e)) \<and>
     validateDeletionStatus (cr_deletion r) = Inr () \<and>
     (cr_state r = CorpusDeleted \<longrightarrow> del_isComplete (cr_deletion r)) \<and>
     (del_isComplete (cr_deletion r) \<longrightarrow> 0 < deletionRank (cr_state r))"

definition corpusOk :: "'b CorpusStore \<Rightarrow> bool" where
  "corpusOk st \<longleftrightarrow> mapOk (cs_records st) \<and>
     (\<forall>k r. map_of (cs_records st) k = Some r \<longrightarrow>
        recordOk k r \<and> (\<exists>n d. k = corpusIdOf n d \<and> length d = 12 \<and> 0 < n \<and> n \<le> cs_seq st))"

definition corpusMoves :: "'b CorpusStore \<Rightarrow> 'b CorpusStore \<Rightarrow> bool" where
  "corpusMoves s t \<longleftrightarrow> cs_seq s \<le> cs_seq t \<and> set (cs_revoked s) \<subseteq> set (cs_revoked t) \<and>
     (\<forall>k r. map_of (cs_records s) k = Some r \<longrightarrow>
        (\<exists>r'. map_of (cs_records t) k = Some r' \<and> recordMove r r'))"

definition corpusEvolves :: "'b CorpusStore \<Rightarrow> 'b CorpusStore \<Rightarrow> bool" where
  "corpusEvolves s t \<longleftrightarrow> (corpusOk s \<longrightarrow> corpusOk t \<and> corpusMoves s t)"

lemma enrollmentMove_refl: "isTime (en_expiresAt e) \<Longrightarrow> enrollmentMove e e"
  by (simp add: enrollmentMove_def notLater_refl)

lemma enrollmentMove_trans: "enrollmentMove a b \<Longrightarrow> enrollmentMove b c \<Longrightarrow> enrollmentMove a c"
  by (auto simp: enrollmentMove_def intro: notLater_trans)

lemma recordMove_refl: "recordOk k r \<Longrightarrow> recordMove r r"
  by (auto simp: recordMove_def recordOk_def enrollmentOk_def intro: enrollmentMove_refl)

lemma recordMove_trans: "recordMove a b \<Longrightarrow> recordMove b c \<Longrightarrow> recordMove a c"
  unfolding recordMove_def by (fastforce intro: enrollmentMove_trans)

lemma corpusMoves_trans: "corpusMoves a b \<Longrightarrow> corpusMoves b c \<Longrightarrow> corpusMoves a c"
  unfolding corpusMoves_def by (blast intro: recordMove_trans order_trans)

lemma corpusEvolves_refl: "corpusEvolves s s"
  by (auto simp: corpusEvolves_def corpusMoves_def corpusOk_def intro: recordMove_refl)

lemma corpusEvolves_trans: "corpusEvolves a b \<Longrightarrow> corpusEvolves b c \<Longrightarrow> corpusEvolves a c"
  by (auto simp: corpusEvolves_def intro: corpusMoves_trans)

interpretation corpora: action_order corpusEvolves
  by unfold_locales (auto intro: corpusEvolves_refl corpusEvolves_trans)

section \<open>The contracts of the steps\<close>

definition holds :: "string \<Rightarrow> CorpusRecord \<Rightarrow> 'b CorpusStore \<Rightarrow> bool" where
  "holds corpusId r st \<longleftrightarrow> corpusOk st \<and> map_of (cs_records st) corpusId = Some r"

lemma corpusOk_seq_revoked:
  "corpusOk st \<Longrightarrow> corpusOk (st\<lparr>cs_revoked := rs, cs_backend := b\<rparr>)"
  "corpusOk st \<Longrightarrow> corpusOk (st\<lparr>cs_backend := b\<rparr>)" "corpusOk st \<Longrightarrow> corpusOk (st\<lparr>cs_revoked := rs\<rparr>)"
  by (simp_all add: corpusOk_def)

lemma corpusMoves_same:
  assumes "corpusOk s" "cs_records t = cs_records s" "cs_seq s \<le> cs_seq t" "set (cs_revoked s) \<subseteq> set (cs_revoked t)"
  shows "corpusMoves s t"
  using assms by (auto simp: corpusMoves_def corpusOk_def intro: recordMove_refl)

lemma onBackend_contract: "corpora.contract (holds k r) (onBackend m) (\<lambda>_. holds k r)"
  by (auto simp: corpora.contract_def onBackend_def corpusEvolves_def holds_def corpusOk_seq_revoked
      intro: corpusMoves_same split: prod.splits)

lemma tryBackend_contract: "corpora.contract (holds k r) (tryBackend m) (\<lambda>_. holds k r)"
  by (auto simp: corpora.contract_def tryBackend_def catchM_def onBackend_def throwM_def corpusEvolves_def
      holds_def corpusOk_seq_revoked intro: corpusMoves_same split: prod.splits sum.splits)

lemma attemptBackend_contract: "corpora.contract (holds k r) (attemptM (onBackend m)) (\<lambda>_. holds k r)"
  by (auto simp: corpora.contract_def attemptM_def onBackend_def corpusEvolves_def
      holds_def corpusOk_seq_revoked intro: corpusMoves_same split: prod.splits)

lemma set_insertAll [simp]: "set (fold List.insert bs xs) = set bs \<union> set xs"
  by (induction bs arbitrary: xs) auto

lemma revokeBindings_contract: "corpora.contract (holds k r) (revokeBindings bs) (\<lambda>_. holds k r)"
  by (auto simp: corpora.contract_def revokeBindings_def corpusEvolves_def holds_def corpusOk_seq_revoked
      intro: corpusMoves_same)

lemma putRecord_contract:
  assumes "recordOk k r \<Longrightarrow> recordOk k r'" "recordOk k r \<Longrightarrow> recordMove r r'"
  shows "corpora.contract (holds k r) (putRecord r') (\<lambda>_. holds k r')"
proof (rule corpora.contractI)
  fix st :: "'a CorpusStore" assume st: "holds k r st"
  then have r: "recordOk k r" by (auto simp: holds_def corpusOk_def)
  then have k: "cr_corpusId r' = k" using assms(1) by (simp add: recordOk_def)
  have ok: "corpusOk (snd (putRecord r' st))"
    using st assms(1) [OF r] by (auto simp: holds_def corpusOk_def putRecord_def k)
  moreover have "corpusMoves st (snd (putRecord r' st))"
    using st assms(2) [OF r] by (auto simp: corpusMoves_def putRecord_def k holds_def corpusOk_def intro: recordMove_refl)
  ultimately show "corpusEvolves st (snd (putRecord r' st))" by (simp add: corpusEvolves_def)
  show "holds k r' (snd (putRecord r' st))" using ok by (simp add: holds_def putRecord_def k)
qed

lemma writableRecord_contract:
  "corpora.contract corpusOk (writableRecord k caller b) (\<lambda>r st. holds k r st \<and> canWrite r caller \<and>
     cr_state r \<noteq> CorpusDeleted \<and> (b \<or> cr_state r \<noteq> CorpusDeleting))"
  by (auto simp: corpora.contract_def writableRecord_def bindM_def getStore_def pureM_def requireWritableRecord_def
      requireRecord_def holds_def res_simps corpusEvolves_refl split: sum.splits option.splits)

lemma readableRecord_contract:
  "corpora.contract corpusOk (readableRecord k caller) (\<lambda>r st. holds k r st \<and> canRead r caller)"
  by (auto simp: corpora.contract_def readableRecord_def bindM_def getStore_def pureM_def requireReadableRecord_def
      requireRecord_def holds_def res_simps corpusEvolves_refl split: sum.splits option.splits)

lemma pure_contract: "corpora.contract A (pureM r) (\<lambda>x st. A st \<and> r = Inr x)"
  by (rule corpora.contract_pure) simp

lemma contract_assume:
  "(c \<Longrightarrow> corpora.contract A m Q) \<Longrightarrow> corpora.contract (\<lambda>s. A s \<and> c) m Q"
  by (auto simp: corpora.contract_def)

lemma holds_done: "corpora.contract (holds k r) (returnM x) (\<lambda>_. corpusOk)"
  by (rule corpora.contract_return) (simp add: holds_def)

text \<open>Reading a record, checking, and going on with what is known.\<close>

lemma contract_pure_bind:
  assumes "\<And>x. r = Inr x \<Longrightarrow> corpora.contract A (f x) Q"
  shows "corpora.contract A (bindM (pureM r) f) Q"
  by (rule corpora.contract_bind [OF pure_contract]) (rule contract_assume, rule assms)

lemma contract_pure_then:
  "(r = Inr () \<Longrightarrow> corpora.contract A m Q) \<Longrightarrow> corpora.contract A (thenM (pureM r) m) Q"
  unfolding thenM_def by (rule contract_pure_bind) simp

lemma contract_writable:
  assumes "\<And>r. canWrite r caller \<Longrightarrow> cr_state r \<noteq> CorpusDeleted \<Longrightarrow> b \<or> cr_state r \<noteq> CorpusDeleting \<Longrightarrow>
    corpora.contract (holds k r) (f r) Q"
  shows "corpora.contract corpusOk (bindM (writableRecord k caller b) f) Q"
  by (rule corpora.contract_bind [OF writableRecord_contract]) (rule contract_assume, use assms in blast)

lemma contract_readable:
  assumes "\<And>r. canRead r caller \<Longrightarrow> corpora.contract (holds k r) (f r) Q"
  shows "corpora.contract corpusOk (bindM (readableRecord k caller) f) Q"
  by (rule corpora.contract_bind [OF readableRecord_contract]) (rule contract_assume, use assms in blast)

lemmas backend_then = corpora.contract_then [OF tryBackend_contract]
lemmas backend_bind = corpora.contract_bind [OF tryBackend_contract]
lemmas put_then = corpora.contract_then [OF putRecord_contract]

lemma backendState_contract: "corpora.contract (holds k r) (backendState B corpusId)
    (\<lambda>s st. holds k r st \<and> deletionRank s = 0)"
  unfolding backendState_def
  by (intro corpora.contract_bind [OF onBackend_contract] corpora.contract_return)
    (simp add: mapBackendFailureToState_def)

section \<open>The contracts of the methods\<close>

lemma record_update:
  assumes r: "recordOk k r" and e: "enrollmentOk k src e" "isEnrolled e \<Longrightarrow> deletionRank (cr_state r) = 0"
    and old: "\<And>e0. map_of (cr_enrollments r) src = Some e0 \<Longrightarrow> enrollmentMove e0 e"
  shows "recordOk k (r\<lparr>cr_enrollments := AList.update src e (cr_enrollments r)\<rparr>)"
    and "recordMove r (r\<lparr>cr_enrollments := AList.update src e (cr_enrollments r)\<rparr>)"
proof -
  show "recordOk k (r\<lparr>cr_enrollments := AList.update src e (cr_enrollments r)\<rparr>)"
    using r e by (auto simp: recordOk_def)
  have "enrollmentMove e0 e0" if "map_of (cr_enrollments r) k' = Some e0" for k' e0
    using r that by (auto simp: recordOk_def enrollmentOk_def intro: enrollmentMove_refl)
  then show "recordMove r (r\<lparr>cr_enrollments := AList.update src e (cr_enrollments r)\<rparr>)"
    using old by (auto simp: recordMove_def)
qed

lemma record_touch:
  "recordOk k r \<Longrightarrow> recordOk k (r\<lparr>cr_updatedAt := t\<rparr>)" "recordOk k r \<Longrightarrow> recordMove r (r\<lparr>cr_updatedAt := t\<rparr>)"
  using recordMove_refl [of k r] by (auto simp: recordOk_def recordMove_def)

lemma record_state:
  assumes "recordOk k r" "deletionRank (cr_state r) = 0" "deletionRank s = 0"
  shows "recordOk k (r\<lparr>cr_state := s\<rparr>)" "recordMove r (r\<lparr>cr_state := s\<rparr>)"
  using assms recordMove_refl [of k r] by (auto simp: recordOk_def recordMove_def)

lemma capsExpiry_isTime: "capsExpiry c caps now = Inr t \<Longrightarrow> isTime t"
  by (auto simp: capsExpiry_def resolveEnrollmentExpiry_def Let_def res_simps dest!: toISOString_Inr split: if_splits)

lemma earliest_notLater:
  assumes "isTime old" "isTime new"
  shows "isTime (earliestExpiry old new)" "notLater (earliestExpiry old new) old"
  using assms by (cases old rule: isTime.cases; cases new rule: isTime.cases;
      simp add: earliestExpiry_def laterThan_def)+

lemma alive_rank: "s \<noteq> CorpusDeleted \<Longrightarrow> s \<noteq> CorpusDeleting \<Longrightarrow> deletionRank s = 0"
  by (cases s) simp_all

lemma enrollment_ok:
  assumes "recordOk k r" "isTime expiresAt" "existing = map_of (cr_enrollments r) (esi_sourceId inp)"
  shows "enrollmentOk k (esi_sourceId inp) (enrollment r inp caps expiresAt t existing)"
    and "map_of (cr_enrollments r) (esi_sourceId inp) = Some e0 \<Longrightarrow>
      enrollmentMove e0 (enrollment r inp caps expiresAt t existing)"
proof -
  have "isTime (case existing of None \<Rightarrow> None | Some e \<Rightarrow> en_expiresAt e)"
    using assms(1, 3) by (auto simp: recordOk_def enrollmentOk_def split: option.split)
  note exp = earliest_notLater [OF this assms(2)]
  show "enrollmentOk k (esi_sourceId inp) (enrollment r inp caps expiresAt t existing)"
    using assms(1) exp(1) by (simp add: enrollmentOk_def enrollment_def Let_def isEnrolled_def recordOk_def)
  show "enrollmentMove e0 (enrollment r inp caps expiresAt t existing)"
    if "map_of (cr_enrollments r) (esi_sourceId inp) = Some e0"
    using that exp(2) assms(1, 3)
    by (auto simp: enrollmentMove_def enrollment_def Let_def recordOk_def enrollmentOk_def)
qed

lemma enroll_contract:
  "corpora.contract corpusOk (cs_enrollSource B now k inp caller caps) (\<lambda>_. corpusOk)"
proof -
  have enrolled: "recordOk k (r\<lparr>cr_enrollments := AList.update (esi_sourceId inp)
        (enrollment r inp cp expiresAt t (map_of (cr_enrollments r) (esi_sourceId inp))) (cr_enrollments r),
        cr_updatedAt := t'\<rparr>)"
      "recordMove r (r\<lparr>cr_enrollments := AList.update (esi_sourceId inp)
        (enrollment r inp cp expiresAt t (map_of (cr_enrollments r) (esi_sourceId inp))) (cr_enrollments r),
        cr_updatedAt := t'\<rparr>)"
    if "recordOk k r" "deletionRank (cr_state r) = 0" "isTime expiresAt" for r cp expiresAt t t'
    using record_update [OF that(1) enrollment_ok(1) [OF that(1, 3) refl] _ enrollment_ok(2) [OF that(1, 3) refl]]
      that(2) record_touch by (fastforce intro: recordMove_trans)+
  show ?thesis
    unfolding cs_enrollSource_def Let_def
  proof (intro contract_writable contract_pure_bind contract_pure_then backend_then put_then
      corpora.contract_if corpora.contract_bind [OF backendState_contract] contract_assume holds_done)
  qed (auto intro!: enrolled record_state simp: alive_rank res_simps dest: capsExpiry_isTime)
qed

lemma updated_ok:
  assumes "recordOk k r" "map_of (cr_enrollments r) src = Some e" "isEnrolled e"
  shows "enrollmentOk k src (updatedEnrollment upd h e)" "enrollmentMove e (updatedEnrollment upd h e)"
    "enrollmentOk k src (removedEnrollment e)" "enrollmentMove e (removedEnrollment e)"
    "\<not> isEnrolled (removedEnrollment e)"
  using assms
  by (auto simp: updatedEnrollment_def removedEnrollment_def enrollmentOk_def isEnrolled_def recordOk_def
      enrollmentMove_def intro: notLater_refl)

lemma enrolledSource_Inr: "enrolledSource r src h = Inr e \<Longrightarrow> map_of (cr_enrollments r) src = Some e \<and> isEnrolled e"
  by (auto simp: enrolledSource_def split: option.splits if_splits)

lemma update_contract:
  "corpora.contract corpusOk (cs_updateSource B now k src upd caller) (\<lambda>_. corpusOk)"
proof -
  have updated: "recordOk k (r\<lparr>cr_enrollments := AList.update src (updatedEnrollment upd h e) (cr_enrollments r)\<rparr>)"
      "recordMove r (r\<lparr>cr_enrollments := AList.update src (updatedEnrollment upd h e) (cr_enrollments r)\<rparr>)"
    if "recordOk k r" "deletionRank (cr_state r) = 0" "map_of (cr_enrollments r) src = Some e \<and> isEnrolled e" for r e h
    using record_update [OF that(1) updated_ok(1) [of k r src e upd h]] updated_ok(2) [of k r src e upd h] that by auto
  show ?thesis
    unfolding cs_updateSource_def Let_def
  proof (intro contract_writable contract_pure_bind contract_pure_then backend_then put_then holds_done)
  qed (auto intro!: updated record_touch simp: alive_rank dest!: enrolledSource_Inr)
qed

lemma remove_contract:
  "corpora.contract corpusOk (cs_removeSource B now k src caller) (\<lambda>_. corpusOk)"
proof -
  have removed: "recordOk k (r\<lparr>cr_enrollments := AList.update src (removedEnrollment e) (cr_enrollments r)\<rparr>)"
      "recordMove r (r\<lparr>cr_enrollments := AList.update src (removedEnrollment e) (cr_enrollments r)\<rparr>)"
    if "recordOk k r" "map_of (cr_enrollments r) src = Some e \<and> isEnrolled e" for r e
    using record_update [OF that(1) updated_ok(3) [of k r src e]] updated_ok(4, 5) [of k r src e] that by auto
  show ?thesis
    unfolding cs_removeSource_def Let_def
  proof (intro contract_writable contract_pure_bind contract_pure_then backend_then put_then holds_done
      corpora.contract_then [OF revokeBindings_contract])
  qed (auto intro!: removed record_touch dest!: enrolledSource_Inr)
qed

lemma reindex_contract: "corpora.contract (holds k r) (reindex B c es) (\<lambda>_. holds k r)"
proof (induction es)
  case Nil
  show ?case by (simp add: corpora.contract_return)
next
  case (Cons e es)
  then show ?case by (auto intro: backend_then)
qed

lemma rebuild_contract: "corpora.contract corpusOk (cs_rebuildDerivedIndex B now k caller) (\<lambda>_. corpusOk)"
  unfolding cs_rebuildDerivedIndex_def Let_def
  by (intro contract_writable contract_pure_bind contract_pure_then put_then holds_done
      corpora.contract_then [OF reindex_contract] record_touch)

lemma status_contract: "corpora.contract corpusOk (cs_corpusStatus B k caller) (\<lambda>_. corpusOk)"
  unfolding cs_corpusStatus_def Let_def
  by (intro contract_readable contract_pure_then corpora.contract_bind [where Q = "\<lambda>_. holds k r" for r]
      corpora.contract_if contract_assume holds_done corpora.contract_conseq [OF backendState_contract]
      corpora.contract_return) auto

lemma degraded_contract: "corpora.contract (holds k r) (backendDegraded B c) (\<lambda>_. holds k r)"
  unfolding backendDegraded_def
  by (intro corpora.contract_bind [OF onBackend_contract] corpora.contract_if corpora.contract_return)

lemma search_contract: "corpora.contract corpusOk (cs_searchCorpus B now k query caller m) (\<lambda>_. corpusOk)"
  unfolding cs_searchCorpus_def
  by (intro contract_readable contract_pure_then contract_pure_bind backend_bind holds_done
      corpora.contract_bind [OF degraded_contract])

text \<open>The record of a corpus whose deletion begins or goes on, and of one that is deleted.\<close>

lemma map_of_revokeAll:
  "map_of (fst (revokeAll m)) k = map_option (\<lambda>e. if isEnrolled e then fst (revokeEnrollment e) else e) (map_of m k)"
  by (induction m) (auto simp: revokeAll_def)

lemma map_fst_revokeAll: "map fst (fst (revokeAll m)) = map fst m"
  by (induction m) (auto simp: revokeAll_def)

lemma revoked_not_enrolled [simp]: "\<not> isEnrolled (fst (revokeEnrollment e))"
  by (simp add: revokeEnrollment_def Let_def isEnrolled_def)

lemma revoked_ok:
  assumes "enrollmentOk k src e" "isEnrolled e"
  shows "enrollmentOk k src (fst (revokeEnrollment e))" "enrollmentMove e (fst (revokeEnrollment e))"
  using assms
  by (auto simp: revokeEnrollment_def Let_def enrollmentOk_def isEnrolled_def enrollmentMove_def intro: notLater_refl)

lemma record_revokeAll:
  assumes r: "recordOk k r" and "cr_state r \<noteq> CorpusDeleted"
  shows "recordOk k (r\<lparr>cr_enrollments := fst (revokeAll (cr_enrollments r)), cr_state := CorpusDeleting\<rparr>)"
    and "recordMove r (r\<lparr>cr_enrollments := fst (revokeAll (cr_enrollments r)), cr_state := CorpusDeleting\<rparr>)"
proof -
  have ok: "\<And>src e. map_of (cr_enrollments r) src = Some e \<Longrightarrow> enrollmentOk k src e"
    using r by (simp add: recordOk_def)
  let ?es = "fst (revokeAll (cr_enrollments r))"
  have es: "\<not> isEnrolled e \<and> enrollmentOk k src e" if "map_of ?es src = Some e" for src e
  proof -
    from that obtain e0 where "map_of (cr_enrollments r) src = Some e0"
      "e = (if isEnrolled e0 then fst (revokeEnrollment e0) else e0)"
      by (auto simp: map_of_revokeAll)
    then show ?thesis using ok revoked_ok(1) by (simp split: if_splits)
  qed
  have "mapOk ?es" using r by (simp add: recordOk_def mapOk_def map_fst_revokeAll)
  with r es show "recordOk k (r\<lparr>cr_enrollments := ?es, cr_state := CorpusDeleting\<rparr>)"
    by (simp add: recordOk_def)
  have "enrollmentMove e (if isEnrolled e then fst (revokeEnrollment e) else e)"
    if "map_of (cr_enrollments r) src = Some e" for src e
    using ok [OF that] revoked_ok(2) by (auto simp: enrollmentOk_def intro: enrollmentMove_refl)
  then show "recordMove r (r\<lparr>cr_enrollments := ?es, cr_state := CorpusDeleting\<rparr>)"
    using assms(2) by (cases "cr_state r") (simp_all add: recordMove_def map_of_revokeAll)
qed

lemma deletionStatus_complete [simp]: "del_isComplete (deletionStatus c) = c"
  by (simp add: deletionStatus_def)

lemma record_deletion:
  assumes "recordOk k r" "cr_state r = CorpusDeleting"
  shows "recordOk k (r\<lparr>cr_deletion := deletionStatus c\<rparr>)" "recordMove r (r\<lparr>cr_deletion := deletionStatus c\<rparr>)"
  using assms recordMove_refl [of k r]
  by (auto simp: recordOk_def recordMove_def validateDeletionStatus_def throwIf_def deletionStatus_def)

lemma record_deleted:
  assumes "recordOk k r" "cr_state r = CorpusDeleting" "del_isComplete (cr_deletion r)"
  shows "recordOk k (r\<lparr>cr_state := CorpusDeleted\<rparr>)" "recordMove r (r\<lparr>cr_state := CorpusDeleted\<rparr>)"
  using assms recordMove_refl [of k r] by (auto simp: recordOk_def recordMove_def)

lemma beginDeletion_state [simp]: "cr_state (fst (beginDeletion r)) = CorpusDeleting"
  by (simp add: beginDeletion_def)

lemma beginDeletion_ok:
  assumes "recordOk k r" "cr_state r \<noteq> CorpusDeleted"
  shows "recordOk k (fst (beginDeletion r))" "recordMove r (fst (beginDeletion r))"
  using assms record_revokeAll [OF assms] recordMove_refl [OF assms(1)] by (simp_all add: beginDeletion_def)

lemma finishDeletion_contract:
  assumes "cr_state r = CorpusDeleting"
  shows "corpora.contract (holds k r) (finishDeletion now r c) (\<lambda>_. corpusOk)"
  unfolding finishDeletion_def Let_def
  by (intro put_then contract_pure_then contract_pure_bind holds_done)
    (auto intro: record_deletion assms record_touch recordMove_refl record_deleted
      simp: assms split: if_splits)

lemma delete_contract: "corpora.contract corpusOk (cs_deleteCorpus B now k caller) (\<lambda>_. corpusOk)"
  unfolding cs_deleteCorpus_def
  by (intro contract_writable corpora.contract_if holds_done put_then finishDeletion_contract
      corpora.contract_then [OF revokeBindings_contract] corpora.contract_bind [OF attemptBackend_contract])
    (auto intro: beginDeletion_ok)


text \<open>A new corpus: its id is new.\<close>

lemma createCorpus_new:
  assumes "corpusOk st" "length d = 12" shows "map_of (cs_records st) (corpusIdOf (Suc (cs_seq st)) d) = None"
proof (rule ccontr)
  assume "map_of (cs_records st) (corpusIdOf (Suc (cs_seq st)) d) \<noteq> None"
  with assms(1) obtain n d' where "corpusIdOf (Suc (cs_seq st)) d = corpusIdOf n d'" "length d' = 12" "n \<le> cs_seq st"
    unfolding corpusOk_def by blast
  then show False using corpusIdOf_inject [of "Suc (cs_seq st)" d n d'] assms(2) by simp
qed

definition aboutToCreate :: "nat \<Rightarrow> 'b CorpusStore \<Rightarrow> bool" where
  "aboutToCreate n st \<longleftrightarrow> corpusOk st \<and> 0 < n \<and> n \<le> cs_seq st \<and>
     (\<forall>d. length d = 12 \<longrightarrow> map_of (cs_records st) (corpusIdOf n d) = None)"

lemma takeNumber_contract:
  "corpora.contract corpusOk (\<lambda>st. (Inr (Suc (cs_seq st)), st\<lparr>cs_seq := Suc (cs_seq st)\<rparr>)) aboutToCreate"
proof (rule corpora.contractI)
  fix st :: "'a CorpusStore" assume ok: "corpusOk st"
  then have ok': "corpusOk (st\<lparr>cs_seq := Suc (cs_seq st)\<rparr>)"
    unfolding corpusOk_def by (fastforce intro: le_SucI)
  then show "corpusEvolves st (snd (Inr (Suc (cs_seq st)), st\<lparr>cs_seq := Suc (cs_seq st)\<rparr>))"
    using ok by (auto simp: corpusEvolves_def intro: corpusMoves_same)
  show "aboutToCreate x (snd (Inr (Suc (cs_seq st)), st\<lparr>cs_seq := Suc (cs_seq st)\<rparr>))"
    if "fst (Inr (Suc (cs_seq st)), st\<lparr>cs_seq := Suc (cs_seq st)\<rparr>) = Inr x" for x
    using that ok' createCorpus_new [OF ok] by (auto simp: aboutToCreate_def)
qed

lemma createIndex_contract: "corpora.contract (aboutToCreate n) (tryBackend m) (\<lambda>_. aboutToCreate n)"
  by (auto simp: corpora.contract_def tryBackend_def catchM_def onBackend_def throwM_def corpusEvolves_def
      aboutToCreate_def corpusOk_seq_revoked intro: corpusMoves_same split: prod.splits sum.splits)

lemma putNew_contract:
  assumes "cr_corpusId r = corpusIdOf n d" "length d = 12" "recordOk (corpusIdOf n d) r"
  shows "corpora.contract (aboutToCreate n) (putRecord r) (\<lambda>_. holds (corpusIdOf n d) r)"
proof (rule corpora.contractI)
  fix st :: "'a CorpusStore" assume st: "aboutToCreate n st"
  then have ok: "corpusOk (snd (putRecord r st))"
    using assms unfolding aboutToCreate_def corpusOk_def putRecord_def by auto
  have "corpusMoves st (snd (putRecord r st))"
    using st assms(1, 2)
    by (auto simp: corpusMoves_def aboutToCreate_def corpusOk_def putRecord_def intro: recordMove_refl)
  with ok show "corpusEvolves st (snd (putRecord r st))" by (simp add: corpusEvolves_def)
  show "holds (corpusIdOf n d) r (snd (putRecord r st))"
    using ok assms(1) by (simp add: holds_def putRecord_def)
qed

lemma create_contract:
  assumes "\<And>x. 12 \<le> length (sha256 x)"
  shows "corpora.contract corpusOk (cs_createCorpus B sha256 now inp) (\<lambda>_. corpusOk)"
proof -
  have n: "newCorpusId sha256 n inp = corpusIdOf n (take 12 (sha256 (cci_tenantId inp @ '':'' @ cci_ownerId inp @ '':'' @
            cci_displayName inp @ '':'' @ showNat n)))" for n
    by (simp add: newCorpusId_def corpusIdOf_def)
  show ?thesis
    unfolding cs_createCorpus_def Let_def n
    by (intro contract_pure_bind corpora.contract_bind [OF takeNumber_contract] contract_pure_then
        corpora.contract_bind [OF createIndex_contract] corpora.contract_then [OF putNew_contract] holds_done)
      (use assms in \<open>auto simp: recordOk_def validateDeletionStatus_def throwIf_def\<close>)
qed

section \<open>Reading and searching\<close>

lemma searchResults_sound:
  "searchResults name now r caller room hits = Inr results \<Longrightarrow>
    length results \<le> max 1 room \<and>
    (\<forall>res \<in> set results. (\<exists>e. map_of (cr_enrollments r) (ssr_sourceId res) = Some e \<and> isEnrolled e \<and>
        canSeeSource r caller e) \<and>
      srp_sourceKind (ssr_provenance res) = CorpusSource \<and>
      srp_corpusBoundary (ssr_provenance res) = Some (cr_corpusId r) \<and>
      (\<exists>hit \<in> set hits. ssr_sourceId res = bsh_sourceId hit \<and> ssr_contentHash res = bsh_contentHash hit))"
proof (induction hits arbitrary: room results)
  case (Cons hit hits)
  show ?case
  proof (cases "\<exists>e. map_of (cr_enrollments r) (bsh_sourceId hit) = Some e \<and> isEnrolled e \<and> canSeeSource r caller e")
    case False
    then have "searchResults name now r caller room (hit # hits) = searchResults name now r caller room hits"
      by (auto split: option.split)
    with Cons show ?thesis by (metis (no_types, lifting) list.set_intros(2))
  next
    case True
    then obtain e where e: "map_of (cr_enrollments r) (bsh_sourceId hit) = Some e" "isEnrolled e" "canSeeSource r caller e"
      by blast
    from Cons.prems e obtain t rest where t: "toISOString (Some now) = Inr t"
      and results: "results = \<lparr>ssr_sourceId = bsh_sourceId hit, ssr_contentHash = bsh_contentHash hit,
          ssr_snippet = bsh_snippet hit, ssr_score = bsh_score hit,
          ssr_provenance = searchProvenance name r t\<rparr> # rest"
      and rest: "if room \<le> 1 then rest = [] else searchResults name now r caller (room - 1) hits = Inr rest"
      by (auto simp: Let_def res_simps split: if_splits)
    show ?thesis
    proof (cases "room \<le> 1")
      case True
      with rest results e show ?thesis by (simp add: searchProvenance_def)
    next
      case room: False
      with rest have "searchResults name now r caller (room - 1) hits = Inr rest" by simp
      from Cons.IH [OF this] room results e show ?thesis by (auto simp: searchProvenance_def)
    qed
  qed
qed simp

lemma readableRecord_Inr:
  "fst (readableRecord k caller s) = Inr r \<Longrightarrow> map_of (cs_records s) k = Some r \<and> canRead r caller"
  "snd (readableRecord k caller s) = s"
  by (auto simp: readableRecord_def bindM_def getStore_def pureM_def requireReadableRecord_def requireRecord_def
      res_simps split: sum.splits option.splits)

end
