(* ===== verification/ActionTriples.thy ===== *)
theory ActionTriples
  imports ActionLogic
begin

text \<open>
  Conditions of actions on both ways out: \<open>triple A m Q E\<close> says that from a state with \<open>A\<close> the action
  returns with \<open>Q\<close> or throws with \<open>E\<close>. One rule per statement form.
\<close>

text \<open>From a state with \<open>A\<close>, the action returns with \<open>Q\<close> or throws with \<open>E\<close>.\<close>

definition triple :: "('s \<Rightarrow> bool) \<Rightarrow> ('s, 'a) action \<Rightarrow> ('a \<Rightarrow> 's \<Rightarrow> bool) \<Rightarrow> ('s \<Rightarrow> bool) \<Rightarrow> bool" where
  "triple A m Q E \<longleftrightarrow> (\<forall>s. A s \<longrightarrow> 
     (\<forall>x. fst (m s) = Inr x \<longrightarrow> Q x (snd (m s))) \<and> (\<forall>e. fst (m s) = Inl e \<longrightarrow> E (snd (m s))))"

lemma tripleD:
  assumes "triple A m Q E" "A s"
  shows "m s = (Inr x, t) \<Longrightarrow> Q x t" "m s = (Inl e, t) \<Longrightarrow> E t"
  using assms by (force simp: triple_def)+

lemma tripleI:
  "(\<And>s x t. A s \<Longrightarrow> m s = (Inr x, t) \<Longrightarrow> Q x t) \<Longrightarrow> (\<And>s e t. A s \<Longrightarrow> m s = (Inl e, t) \<Longrightarrow> E t) \<Longrightarrow> triple A m Q E"
  unfolding triple_def by (metis prod.collapse)

lemma triple_bind:
  assumes "triple A m Q E" "\<And>x. triple (Q x) (f x) Q' E" shows "triple A (bindM m f) Q' E"
  by (rule tripleI)
    (auto simp: bindM_def split: prod.splits sum.splits dest: tripleD [OF assms(1)] intro: tripleD [OF assms(2)])

lemma triple_then: "triple A m (\<lambda>_. Q) E \<Longrightarrow> triple Q n Q' E \<Longrightarrow> triple A (thenM m n) Q' E"
  unfolding thenM_def by (rule triple_bind)

lemma triple_pure_bind:
  assumes "\<And>x. r = Inr x \<Longrightarrow> triple A (f x) Q E" "\<And>s e. r = Inl e \<Longrightarrow> A s \<Longrightarrow> E s"
  shows "triple A (bindM (pureM r) f) Q E"
  using assms by (cases r) (auto simp: triple_def bindM_def pureM_def)

lemma triple_pure_then:
  "(r = Inr () \<Longrightarrow> triple A n Q E) \<Longrightarrow> (\<And>s e. r = Inl e \<Longrightarrow> A s \<Longrightarrow> E s) \<Longrightarrow> triple A (thenM (pureM r) n) Q E"
  unfolding thenM_def by (rule triple_pure_bind) auto

lemma triple_return: "(\<And>s. A s \<Longrightarrow> Q x s) \<Longrightarrow> triple A (returnM x) Q E"
  by (simp add: triple_def returnM_def)

lemma triple_throw: "(\<And>s. A s \<Longrightarrow> E s) \<Longrightarrow> triple A (throwM e) Q E"
  by (simp add: triple_def throwM_def)

lemma triple_if:
  "(c \<Longrightarrow> triple A m Q E) \<Longrightarrow> (\<not> c \<Longrightarrow> triple A n Q E) \<Longrightarrow> triple A (if c then m else n) Q E"
  by simp

lemma triple_conseq:
  "triple A m Q E \<Longrightarrow> (\<And>s. A' s \<Longrightarrow> A s) \<Longrightarrow> (\<And>x s. Q x s \<Longrightarrow> Q' x s) \<Longrightarrow> triple A' m Q' E"
  by (rule tripleI) (blast dest: tripleD)+

lemma triple_assume: "(c \<Longrightarrow> triple A m Q E) \<Longrightarrow> triple (\<lambda>s. A s \<and> c) m Q E"
  by (auto simp: triple_def)

lemma triple_snd: "triple A m (\<lambda>_. Q) Q \<Longrightarrow> A s \<Longrightarrow> Q (snd (m s))"
  by (cases "fst (m s)") (auto simp: triple_def)

lemma triple_fst: "triple A m Q E \<Longrightarrow> A s \<Longrightarrow> fst (m s) = Inr x \<Longrightarrow> Q x (snd (m s))"
  by (simp add: triple_def)

end
