(* ===== verification/CorpusIndex.thy ===== *)
theory CorpusIndex
  imports CorpusFacts ActionTriples
begin

text \<open>
  The derived index of a corpus. The locale \<open>corpus_index\<close> says what a backend promises of its
  documents: enrolling adds one, removing takes one away, a failed call changes nothing, a search
  gives documents that are there. From it follows, method by method, that the index of a corpus
  holds exactly the sources of the manifest with their content hashes, on every way out of a method;
  the in-memory backend keeps the promise.
\<close>

section \<open>The sources of a record\<close>

definition contents :: "CorpusRecord \<Rightarrow> string \<Rightarrow> string option" where
  "contents r src = (case map_of (cr_enrollments r) src of
      None \<Rightarrow> None
    | Some e \<Rightarrow> if isEnrolled e then Some (sr_contentHash (en_sourceRecord e)) else None)"

lemma contents_update:
  "contents (r\<lparr>cr_enrollments := AList.update src e (cr_enrollments r)\<rparr>) =
     (contents r)(src := if isEnrolled e then Some (sr_contentHash (en_sourceRecord e)) else None)"
  by (auto simp: contents_def)

lemma contents_other [simp]:
  "contents (r\<lparr>cr_updatedAt := t\<rparr>) = contents r" "contents (r\<lparr>cr_state := s\<rparr>) = contents r"
  by (simp_all add: contents_def fun_eq_iff)

lemma contents_new [simp]: "cr_enrollments r = [] \<Longrightarrow> contents r = Map.empty"
  by (simp add: contents_def fun_eq_iff)

definition alive :: "CorpusRecord \<Rightarrow> bool" where
  "alive r \<longleftrightarrow> deletionRank (cr_state r) = 0"

lemma alive_touch [simp]: "alive (r\<lparr>cr_updatedAt := t\<rparr>) = alive r" "alive (r\<lparr>cr_enrollments := es\<rparr>) = alive r"
  by (simp_all add: alive_def)

definition validClock :: "int \<Rightarrow> bool" where
  "validClock now \<longleftrightarrow> (\<exists>t. toISOString (Some now) = Inr t)"

section \<open>The promise of a backend\<close>

locale corpus_index =
  fixes B :: "'b corpus_backend" and docs :: "'b \<Rightarrow> string \<Rightarrow> (string \<Rightarrow> string option) option"
    and ok :: "'b \<Rightarrow> bool"
  assumes create_law: "cb_createIndex B k b = (x, b') \<Longrightarrow> (ok b \<longrightarrow> ok b') \<and>
      docs b' = (case x of Inl _ \<Rightarrow> docs b | Inr _ \<Rightarrow> (docs b)(k \<mapsto> Map.empty))"
    and enroll_law: "cb_enrollDocument B k src h b = (y, b') \<Longrightarrow> (ok b \<longrightarrow> ok b') \<and>
      (case y of Inl _ \<Rightarrow> docs b' = docs b | Inr _ \<Rightarrow> \<exists>d. docs b k = Some d \<and> docs b' = (docs b)(k \<mapsto> d(src \<mapsto> h)))"
    and remove_law: "cb_removeDocument B k src b = (y, b') \<Longrightarrow> (ok b \<longrightarrow> ok b') \<and>
      (case y of Inl _ \<Rightarrow> docs b' = docs b | Inr _ \<Rightarrow> \<exists>d. docs b k = Some d \<and> docs b' = (docs b)(k \<mapsto> d(src := None)))"
    and search_law: "cb_searchDocuments B k query n b = (z, b') \<Longrightarrow> (ok b \<longrightarrow> ok b') \<and> docs b' = docs b \<and>
      (\<forall>hits. ok b \<longrightarrow> z = Inr hits \<longrightarrow> (\<exists>d. docs b k = Some d \<and>
         (\<forall>hit \<in> set hits. d (bsh_sourceId hit) = Some (bsh_contentHash hit))))"
    and delete_law: "cb_deleteIndex B k b = (y, b') \<Longrightarrow> (ok b \<longrightarrow> ok b') \<and> (\<forall>k'. k' \<noteq> k \<longrightarrow> docs b' k' = docs b k')"
    and health_law: "cb_backendHealthy B b = (u, b') \<Longrightarrow> (ok b \<longrightarrow> ok b') \<and> docs b' = docs b"
      "cb_indexHealthy B k b = (u, b') \<Longrightarrow> (ok b \<longrightarrow> ok b') \<and> docs b' = docs b"
begin

text \<open>The index of every corpus but \<open>k\<close> agrees with its record.\<close>

definition syncedBut :: "string option \<Rightarrow> 'b CorpusStore \<Rightarrow> bool" where
  "syncedBut x st \<longleftrightarrow> ok (cs_backend st) \<and> (\<forall>k r. Some k \<noteq> x \<longrightarrow> map_of (cs_records st) k = Some r \<longrightarrow> alive r \<longrightarrow>
     docs (cs_backend st) k = Some (contents r))"

abbreviation synced :: "'b CorpusStore \<Rightarrow> bool" where
  "synced \<equiv> syncedBut None"

text \<open>The record read, and the index of its corpus, perhaps one step ahead of it.\<close>

definition at_work :: "string \<Rightarrow> CorpusRecord \<Rightarrow> (string \<Rightarrow> string option) \<Rightarrow> 'b CorpusStore \<Rightarrow> bool" where
  "at_work k r d st \<longleftrightarrow> syncedBut (Some k) st \<and> map_of (cs_records st) k = Some r \<and> docs (cs_backend st) k = Some d"

lemma at_work_synced: "at_work k r (contents r) st \<Longrightarrow> synced st"
  unfolding at_work_def syncedBut_def by (metis option.inject)

lemma synced_at_work: "synced st \<Longrightarrow> map_of (cs_records st) k = Some r \<Longrightarrow> alive r \<Longrightarrow> at_work k r (contents r) st"
  by (auto simp: at_work_def syncedBut_def)

lemma put_work:
  assumes "cr_corpusId r' = k" "contents r' = d"
  shows "triple (at_work k r d) (putRecord r') (\<lambda>_. at_work k r' (contents r')) synced"
  using assms by (auto simp: triple_def putRecord_def at_work_def syncedBut_def)

lemma enroll_work:
  "triple (at_work k r (contents r)) (tryBackend (cb_enrollDocument B k src h))
     (\<lambda>_. at_work k r ((contents r)(src \<mapsto> h))) synced"
proof -
  have "(\<forall>y. fst (tryBackend (cb_enrollDocument B k src h) st) = Inr y \<longrightarrow> at_work k r ((contents r)(src \<mapsto> h)) (snd (tryBackend (cb_enrollDocument B k src h) st))) \<and>
      (\<forall>e. fst (tryBackend (cb_enrollDocument B k src h) st) = Inl e \<longrightarrow> synced (snd (tryBackend (cb_enrollDocument B k src h) st)))"
    if "at_work k r (contents r) st" for st
  proof (cases "cb_enrollDocument B k src h (cs_backend st)")
    case (Pair x b')
    from enroll_law [OF this] show ?thesis
      using that at_work_synced [OF that] Pair
      by (cases x) (auto simp: tryBackend_def catchM_def onBackend_def throwM_def at_work_def syncedBut_def)
  qed
  then show ?thesis by (simp add: triple_def)
qed

lemma remove_work:
  "triple (at_work k r (contents r)) (tryBackend (cb_removeDocument B k src))
     (\<lambda>_. at_work k r ((contents r)(src := None))) synced"
proof -
  have "(\<forall>y. fst (tryBackend (cb_removeDocument B k src) st) = Inr y \<longrightarrow> at_work k r ((contents r)(src := None)) (snd (tryBackend (cb_removeDocument B k src) st))) \<and>
      (\<forall>e. fst (tryBackend (cb_removeDocument B k src) st) = Inl e \<longrightarrow> synced (snd (tryBackend (cb_removeDocument B k src) st)))"
    if "at_work k r (contents r) st" for st
  proof (cases "cb_removeDocument B k src (cs_backend st)")
    case (Pair x b')
    from remove_law [OF this] show ?thesis
      using that at_work_synced [OF that] Pair
      by (cases x) (auto simp: tryBackend_def catchM_def onBackend_def throwM_def at_work_def syncedBut_def)
  qed
  then show ?thesis by (simp add: triple_def)
qed

definition keeps :: "('b, 'a) action \<Rightarrow> 'b \<Rightarrow> bool" where
  "keeps m b \<longleftrightarrow> docs (snd (m b)) = docs b \<and> (ok b \<longrightarrow> ok (snd (m b)))"

lemma docs_kept:
  "triple (at_work k r (contents r)) (onBackend m) (\<lambda>_. at_work k r (contents r)) synced"
  "triple synced (onBackend m) (\<lambda>_. synced) synced"
  if kept: "\<And>b. keeps m b" for m :: "('b, 'a) action"
proof -
  have "docs (cs_backend (snd (onBackend m st))) = docs (cs_backend st)"
    "ok (cs_backend st) \<longrightarrow> ok (cs_backend (snd (onBackend m st)))"
    "cs_records (snd (onBackend m st)) = cs_records st" for st
    using kept by (auto simp: onBackend_def case_prod_beta keeps_def)
  then have work: "at_work k r (contents r) st \<Longrightarrow> at_work k r (contents r) (snd (onBackend m st))"
    and sync: "synced st \<Longrightarrow> synced (snd (onBackend m st))" for st
    by (simp_all add: at_work_def syncedBut_def)
  show "triple (at_work k r (contents r)) (onBackend m) (\<lambda>_. at_work k r (contents r)) synced"
    unfolding triple_def using work at_work_synced by blast
  show "triple synced (onBackend m) (\<lambda>_. synced) synced"
    unfolding triple_def using sync by blast
qed

lemma health_kept:
  "keeps (cb_backendHealthy B) b" "keeps (cb_indexHealthy B k) b"
  unfolding keeps_def using health_law by (metis prod.collapse)+

lemma state_work:
  "triple (at_work k r (contents r)) (backendState B k) (\<lambda>s st. at_work k r (contents r) st \<and> deletionRank s = 0) synced"
  unfolding backendState_def
  by (intro triple_bind [OF docs_kept(1)] triple_return) (simp_all add: health_kept mapBackendFailureToState_def)

lemma work_done: "triple (at_work k r (contents r)) (returnM x) (\<lambda>_. synced) synced"
  by (rule triple_return) (rule at_work_synced)

lemma writable_work:
  assumes "\<And>r. recordOk k r \<Longrightarrow> alive r \<Longrightarrow> triple (at_work k r (contents r)) (f r) (\<lambda>_. synced) synced"
  shows "triple (\<lambda>st. corpusOk st \<and> synced st) (bindM (writableRecord k caller False) f) (\<lambda>_. synced) synced"
proof (rule tripleI)
  let ?m = "bindM (writableRecord k caller False) f"
  have run: "synced (snd (?m st))" if st: "corpusOk st \<and> synced st" for st
  proof (cases "requireWritableRecord k caller False st")
    case (Inl e)
    with st show ?thesis by (simp add: writableRecord_def bindM_def getStore_def pureM_def)
  next
    case (Inr r)
    then have r: "map_of (cs_records st) k = Some r" "cr_state r \<noteq> CorpusDeleted" "cr_state r \<noteq> CorpusDeleting"
      by (auto simp: requireWritableRecord_def requireRecord_def res_simps split: option.splits)
    then have "alive r" by (cases "cr_state r") (auto simp: alive_def)
    then have "at_work k r (contents r) st" "recordOk k r"
      using st r(1) by (auto intro: synced_at_work simp: corpusOk_def)
    moreover have "?m st = f r st"
      using Inr by (simp add: writableRecord_def bindM_def getStore_def pureM_def)
    ultimately show ?thesis using triple_snd [OF assms] \<open>alive r\<close> by simp
  qed
  show "synced t" if "corpusOk st \<and> synced st" "?m st = (Inr x, t)" for st x t
    using run [OF that(1)] that(2) by simp
  show "synced t" if "corpusOk st \<and> synced st" "?m st = (Inl e, t)" for st e t
    using run [OF that(1)] that(2) by simp
qed

lemma recordOk_id: "recordOk k r \<Longrightarrow> cr_corpusId r = k"
  by (simp add: recordOk_def)

subsection \<open>The methods on the sources\<close>

lemmas work_steps = writable_work triple_pure_bind triple_pure_then triple_then [OF enroll_work]
  triple_then [OF remove_work] triple_then [OF put_work] triple_bind [OF state_work] triple_assume triple_if work_done

lemma enroll_synced:
  assumes "validClock now"
  shows "triple (\<lambda>st. corpusOk st \<and> synced st) (cs_enrollSource B now k inp caller caps) (\<lambda>_. synced) synced"
proof -
  obtain T where T: "toISOString (Some now) = Inr T" using assms by (auto simp: validClock_def)
  show ?thesis
    unfolding cs_enrollSource_def Let_def
    by (intro work_steps)
      (auto simp: T recordOk_def alive_def contents_update isEnrolled_def enrollment_def Let_def intro: at_work_synced)
qed

lemma update_synced:
  assumes "validClock now"
  shows "triple (\<lambda>st. corpusOk st \<and> synced st) (cs_updateSource B now k src upd caller) (\<lambda>_. synced) synced"
proof -
  obtain T where T: "toISOString (Some now) = Inr T" using assms by (auto simp: validClock_def)
  show ?thesis
    unfolding cs_updateSource_def Let_def
    by (intro work_steps)
      (auto simp: T recordOk_def alive_def contents_update isEnrolled_def updatedEnrollment_def
        intro: at_work_synced dest!: enrolledSource_Inr)
qed

lemma revoke_work:
  "triple (at_work k r d) (revokeBindings bs) (\<lambda>_. at_work k r d) synced"
  by (simp add: triple_def revokeBindings_def at_work_def syncedBut_def)

lemma remove_synced:
  assumes "validClock now"
  shows "triple (\<lambda>st. corpusOk st \<and> synced st) (cs_removeSource B now k src caller) (\<lambda>_. synced) synced"
proof -
  obtain T where T: "toISOString (Some now) = Inr T" using assms by (auto simp: validClock_def)
  show ?thesis
    unfolding cs_removeSource_def Let_def
    by (intro work_steps triple_then [OF revoke_work])
      (auto simp: T recordOk_def alive_def contents_update isEnrolled_def removedEnrollment_def intro: at_work_synced)
qed

lemma reindex_work:
  assumes "\<And>e. e \<in> set es \<Longrightarrow> isEnrolled e \<Longrightarrow> contents r (en_sourceId e) = Some (sr_contentHash (en_sourceRecord e))"
  shows "triple (at_work k r (contents r)) (reindex B k es) (\<lambda>_. at_work k r (contents r)) synced"
  using assms
proof (induction es)
  case Nil
  show ?case by (simp add: triple_return)
next
  case (Cons e es)
  then have rest: "triple (at_work k r (contents r)) (reindex B k es) (\<lambda>_. at_work k r (contents r)) synced" by simp
  show ?case
  proof (cases "isEnrolled e")
    case True
    then have "(contents r)(en_sourceId e \<mapsto> sr_contentHash (en_sourceRecord e)) = contents r"
      using Cons.prems by (simp add: fun_upd_idem)
    with enroll_work [of k r "en_sourceId e" "sr_contentHash (en_sourceRecord e)"] rest True
    show ?thesis by (simp add: triple_then)
  qed (use rest in simp)
qed

lemma rebuild_synced:
  assumes "validClock now"
  shows "triple (\<lambda>st. corpusOk st \<and> synced st) (cs_rebuildDerivedIndex B now k caller) (\<lambda>_. synced) synced"
proof -
  have indexed: "contents r (en_sourceId e) = Some (sr_contentHash (en_sourceRecord e))"
    if "recordOk k r" "(src, e) \<in> set (cr_enrollments r)" "isEnrolled e" for r src e
  proof -
    from that(1, 2) have "map_of (cr_enrollments r) src = Some e" by (simp add: recordOk_def mapOk_def)
    with that(1, 3) show ?thesis by (auto simp: contents_def recordOk_def enrollmentOk_def)
  qed
  show ?thesis
    unfolding cs_rebuildDerivedIndex_def Let_def
    by (intro work_steps triple_then [OF reindex_work]) (auto simp: recordOk_id intro: at_work_synced indexed)
qed

subsection \<open>The other methods\<close>

lemma backend_kept:
  "(\<And>b. keeps m b) \<Longrightarrow> triple synced (tryBackend m) (\<lambda>_. synced) synced"
  by (rule tripleI) (auto simp: keeps_def tryBackend_def catchM_def onBackend_def throwM_def syncedBut_def
      split: prod.splits sum.splits, (metis snd_conv)+)

lemma search_kept: "keeps (cb_searchDocuments B k query n) b"
  unfolding keeps_def using search_law by (metis prod.collapse)

lemma record_kept:
  "triple (\<lambda>st. corpusOk st \<and> synced st) (writableRecord k caller d) (\<lambda>r st. synced st \<and> recordOk k r) synced"
  "triple (\<lambda>st. corpusOk st \<and> synced st) (readableRecord k caller) (\<lambda>r. synced) synced"
  by (rule tripleI; auto simp: writableRecord_def readableRecord_def bindM_def getStore_def pureM_def
      requireWritableRecord_def requireReadableRecord_def requireRecord_def res_simps corpusOk_def
      split: sum.splits option.splits)+

lemma synced_done: "triple synced (returnM x) (\<lambda>_. synced) synced"
  by (rule triple_return)

lemma status_synced: "triple (\<lambda>st. corpusOk st \<and> synced st) (cs_corpusStatus B k caller) (\<lambda>_. synced) synced"
  unfolding cs_corpusStatus_def backendState_def Let_def
  by (intro triple_bind [OF record_kept(2)] triple_pure_then triple_bind [where Q = "\<lambda>_. synced"] triple_if
      docs_kept(2) health_kept synced_done)

lemma search_synced: "triple (\<lambda>st. corpusOk st \<and> synced st) (cs_searchCorpus B now k query caller m) (\<lambda>_. synced) synced"
  unfolding cs_searchCorpus_def backendDegraded_def
  by (intro triple_bind [OF record_kept(2)] triple_pure_then triple_pure_bind triple_bind [OF backend_kept]
      triple_bind [where Q = "\<lambda>_. synced"] triple_if docs_kept(2) health_kept search_kept synced_done)

text \<open>A corpus in deletion need not have an index.\<close>

lemma synced_but: "synced st \<Longrightarrow> syncedBut (Some k) st"
  by (simp add: syncedBut_def)

definition dying :: "string \<Rightarrow> 'b CorpusStore \<Rightarrow> bool" where
  "dying k st \<longleftrightarrow> syncedBut (Some k) st \<and> (\<exists>r. map_of (cs_records st) k = Some r \<and> \<not> alive r)"

lemma dying_synced: "dying k st \<Longrightarrow> synced st"
  unfolding dying_def syncedBut_def by (metis option.inject)

lemma put_dying:
  assumes "cr_corpusId r = k" "\<not> alive r"
  shows "triple (syncedBut (Some k)) (putRecord r) (\<lambda>_. dying k) synced" "triple (dying k) (putRecord r) (\<lambda>_. dying k) synced"
  using assms by (auto simp: triple_def putRecord_def dying_def syncedBut_def)

lemma delete_kept: "triple (dying k) (attemptM (onBackend (cb_deleteIndex B k))) (\<lambda>_. dying k) synced"
  using delete_law by (auto simp: triple_def attemptM_def onBackend_def dying_def syncedBut_def split: prod.splits)

lemma finish_dying:
  assumes "cr_corpusId r = k" "\<not> alive r"
  shows "triple (dying k) (finishDeletion now r c) (\<lambda>_. synced) synced"
  unfolding finishDeletion_def Let_def
  by (intro triple_then [OF put_dying(2)] triple_pure_then triple_pure_bind triple_return)
    (use assms in \<open>auto simp: alive_def intro: dying_synced\<close>)

lemma delete_synced: "triple (\<lambda>st. corpusOk st \<and> synced st) (cs_deleteCorpus B now k caller) (\<lambda>_. synced) synced"
proof -
  have revoke: "triple synced (revokeBindings bs) (\<lambda>_. syncedBut (Some k)) synced" for bs
    by (auto simp: triple_def revokeBindings_def syncedBut_def)
  have begun: "cr_corpusId (fst (beginDeletion r)) = cr_corpusId r" "\<not> alive (fst (beginDeletion r))" for r
    by (simp_all add: beginDeletion_def alive_def)
  show ?thesis
    unfolding cs_deleteCorpus_def
    by (intro triple_bind [OF record_kept(1)] triple_assume triple_if synced_done triple_then [OF revoke]
        triple_then [OF put_dying(1)] triple_bind [OF delete_kept] finish_dying) (auto simp: begun recordOk_id)
qed

lemma create_synced:
  assumes "\<And>x. 12 \<le> length (sha256 x)" "validClock now"
  shows "triple (\<lambda>st. corpusOk st \<and> synced st) (cs_createCorpus B sha256 now inp) (\<lambda>_. synced) synced"
proof -
  obtain T where T: "toISOString (Some now) = Inr T" using assms(2) by (auto simp: validClock_def)
  have n: "newCorpusId sha256 n inp = corpusIdOf n (take 12 (sha256 (cci_tenantId inp @ '':'' @ cci_ownerId inp @ '':'' @
            cci_displayName inp @ '':'' @ showNat n)))" (is "_ = corpusIdOf n (?d n)") for n
    by (simp add: newCorpusId_def corpusIdOf_def)
  have d: "length (?d n) = 12" for n using assms(1) by simp
  have number: "triple (\<lambda>st. corpusOk st \<and> synced st)
      (\<lambda>st. (Inr (Suc (cs_seq st)), st\<lparr>cs_seq := Suc (cs_seq st)\<rparr>))
      (\<lambda>n st. synced st \<and> map_of (cs_records st) (corpusIdOf n (?d n)) = None) synced"
    using createCorpus_new [OF _ d] by (auto simp: triple_def syncedBut_def)
  have index: "triple (\<lambda>st. synced st \<and> map_of (cs_records st) k = None) (tryBackend (cb_createIndex B k))
      (\<lambda>_ st. synced st \<and> docs (cs_backend st) k = Some Map.empty) synced" for k
    by (rule tripleI) (auto simp: tryBackend_def catchM_def onBackend_def throwM_def syncedBut_def
        dest!: create_law split: prod.splits sum.splits)
  have put: "triple (\<lambda>st. synced st \<and> docs (cs_backend st) k = Some Map.empty) (putRecord r) (\<lambda>_. synced) synced"
    if "cr_corpusId r = k" "cr_enrollments r = []" for k r
    using that by (auto simp: triple_def putRecord_def syncedBut_def)
  show ?thesis
    unfolding cs_createCorpus_def Let_def n
    by (intro triple_pure_bind triple_bind [OF number] triple_pure_then triple_bind [OF index]
        triple_then [OF put] synced_done) (auto simp: T)
qed

text \<open>What a search returns is in the manifest as it stands.\<close>

lemma search_current:
  assumes "corpusOk st" "synced st" "cs_searchCorpus B now k query caller m st = (Inr resp, st')"
    and "res \<in> set (ssp_results resp)"
  shows "\<exists>r e. map_of (cs_records st) k = Some r \<and> map_of (cr_enrollments r) (ssr_sourceId res) = Some e \<and>
    isEnrolled e \<and> ssr_contentHash res = sr_contentHash (en_sourceRecord e)"
proof -
  have ret: "fst (cs_searchCorpus B now k query caller m st) = Inr resp" using assms(3) by simp
  obtain r limit hits results where r: "fst (readableRecord k caller st) = Inr r"
    and state: "alive r"
    and hits: "fst (tryBackend (cb_searchDocuments B k query limit) st) = Inr hits"
    and results: "searchResults (cb_backendName B) now r caller limit hits = Inr results"
    and resp: "ssp_results resp = results"
    using ret unfolding cs_searchCorpus_def
    by (fastforce dest!: bindM_returns thenM_returns simp: res_simps alive_rank alive_def readableRecord_Inr(2))
  have k: "map_of (cs_records st) k = Some r" using readableRecord_Inr(1) [OF r] by simp
  then have docs: "docs (cs_backend st) k = Some (contents r)" using assms(2) state by (simp add: syncedBut_def)
  obtain b' where "cb_searchDocuments B k query limit (cs_backend st) = (Inr hits, b')"
    using hits by (auto simp: tryBackend_def catchM_def onBackend_def throwM_def split: prod.splits sum.splits)
  from search_law [OF this] docs assms(2) [unfolded syncedBut_def]
  have sound: "\<forall>hit \<in> set hits. contents r (bsh_sourceId hit) = Some (bsh_contentHash hit)" by auto
  from searchResults_sound [OF results] assms(4) resp obtain hit where
    "hit \<in> set hits" "ssr_sourceId res = bsh_sourceId hit" "ssr_contentHash res = bsh_contentHash hit" by blast
  with sound have "contents r (ssr_sourceId res) = Some (ssr_contentHash res)" by simp
  then show ?thesis using k by (auto simp: contents_def split: option.splits if_splits)
qed

end

section \<open>The in-memory backend\<close>

definition memDocs :: "InMemoryCorpusBackend \<Rightarrow> string \<Rightarrow> (string \<Rightarrow> string option) option" where
  "memDocs b k = map_option (\<lambda>i. map_of (imi_docs i)) (map_of (imb_indexes b) k)"

definition memIndexesOk :: "InMemoryCorpusBackend \<Rightarrow> bool" where
  "memIndexesOk b \<longleftrightarrow> (\<forall>k i. map_of (imb_indexes b) k = Some i \<longrightarrow> mapOk (imi_docs i))"

interpretation mem_index: corpus_index memCorpusBackend memDocs memIndexesOk
proof
  fix k src h query n and b b' :: InMemoryCorpusBackend
  show "(memIndexesOk b \<longrightarrow> memIndexesOk b') \<and>
      memDocs b' = (case x of Inl _ \<Rightarrow> memDocs b | Inr _ \<Rightarrow> (memDocs b)(k \<mapsto> Map.empty))"
    if "cb_createIndex memCorpusBackend k b = (x, b')" for x
    using that by (auto simp: memCorpusBackend_def imb_createIndex_def memDocs_def memIndexesOk_def Let_def split: if_splits)
  show "(memIndexesOk b \<longrightarrow> memIndexesOk b') \<and>
      (case y of Inl _ \<Rightarrow> memDocs b' = memDocs b | Inr _ \<Rightarrow> \<exists>d. memDocs b k = Some d \<and>
         memDocs b' = (memDocs b)(k \<mapsto> d(src \<mapsto> h)))"
    if "cb_enrollDocument memCorpusBackend k src h b = (y, b')" for y
    using that by (auto simp: memCorpusBackend_def imb_enrollDocument_def imb_updateDocs_def imb_requireIndex_def
        bindM_def throwM_def memDocs_def memIndexesOk_def fun_eq_iff update_conv' split: option.splits if_splits)
  show "(memIndexesOk b \<longrightarrow> memIndexesOk b') \<and>
      (case y of Inl _ \<Rightarrow> memDocs b' = memDocs b | Inr _ \<Rightarrow> \<exists>d. memDocs b k = Some d \<and>
         memDocs b' = (memDocs b)(k \<mapsto> d(src := None)))"
    if "cb_removeDocument memCorpusBackend k src b = (y, b')" for y
    using that by (auto simp: memCorpusBackend_def imb_removeDocument_def imb_updateDocs_def imb_requireIndex_def
        bindM_def throwM_def memDocs_def memIndexesOk_def fun_eq_iff delete_conv' split: option.splits if_splits)
  show "(memIndexesOk b \<longrightarrow> memIndexesOk b') \<and> memDocs b' = memDocs b \<and>
      (\<forall>hits. memIndexesOk b \<longrightarrow> z = Inr hits \<longrightarrow> (\<exists>d. memDocs b k = Some d \<and>
         (\<forall>hit \<in> set hits. d (bsh_sourceId hit) = Some (bsh_contentHash hit))))"
    if "cb_searchDocuments memCorpusBackend k query n b = (z, b')" for z
    using that by (auto simp: memCorpusBackend_def imb_searchDocuments_def imb_requireIndex_def bindM_def throwM_def
        returnM_def memDocs_def memIndexesOk_def mapOk_def dest!: in_set_takeD split: option.splits)
  show "(memIndexesOk b \<longrightarrow> memIndexesOk b') \<and> (\<forall>k'. k' \<noteq> k \<longrightarrow> memDocs b' k' = memDocs b k')"
    if "cb_deleteIndex memCorpusBackend k b = (y, b')" for y
    using that by (auto simp: memCorpusBackend_def imb_deleteIndex_def throwM_def memDocs_def memIndexesOk_def
        delete_conv' split: if_splits)
  show "(memIndexesOk b \<longrightarrow> memIndexesOk b') \<and> memDocs b' = memDocs b"
    if "cb_backendHealthy memCorpusBackend b = (u, b')" for u
    using that by (simp add: memCorpusBackend_def)
  show "(memIndexesOk b \<longrightarrow> memIndexesOk b') \<and> memDocs b' = memDocs b"
    if "cb_indexHealthy memCorpusBackend k b = (u, b')" for u
    using that by (simp add: memCorpusBackend_def)
qed

end
