(* ===== verification/CorpusProperties.thy ===== *)
theory CorpusProperties
  imports CorpusIndex
begin

text \<open>
  Properties of the corpus store over its histories, for any backend: deletion is final and takes
  access away at once, retention is never extended, a search returns only what the caller may see,
  and ids are never reused. For a backend that keeps the index contract, a rebuilt index agrees with
  the manifest.
\<close>

section \<open>Histories\<close>

definition emptyCorpora :: "'b \<Rightarrow> 'b CorpusStore" where
  "emptyCorpora b = \<lparr>cs_seq = 0, cs_records = [], cs_revoked = [], cs_backend = b\<rparr>"

text \<open>Calls of the store in any order, at instants with \<open>C\<close>; in between the backend may change by itself
  along \<open>E\<close>.\<close>

inductive corpusHistory :: "(int \<Rightarrow> bool) \<Rightarrow> ('b \<Rightarrow> 'b \<Rightarrow> bool) \<Rightarrow> 'b corpus_backend \<Rightarrow> (string \<Rightarrow> string) \<Rightarrow>
    'b CorpusStore \<Rightarrow> 'b CorpusStore \<Rightarrow> bool"
  for C :: "int \<Rightarrow> bool" and E :: "'b \<Rightarrow> 'b \<Rightarrow> bool" and B :: "'b corpus_backend" and sha256 where
  corpus_start: "corpusHistory C E B sha256 s s"
| corpus_create: "corpusHistory C E B sha256 s t \<Longrightarrow> C now \<Longrightarrow> corpusHistory C E B sha256 s (snd (cs_createCorpus B sha256 now inp t))"
| corpus_enroll: "corpusHistory C E B sha256 s t \<Longrightarrow> C now \<Longrightarrow>
    corpusHistory C E B sha256 s (snd (cs_enrollSource B now k source caller caps t))"
| corpus_update: "corpusHistory C E B sha256 s t \<Longrightarrow> C now \<Longrightarrow>
    corpusHistory C E B sha256 s (snd (cs_updateSource B now k src upd caller t))"
| corpus_rebuild: "corpusHistory C E B sha256 s t \<Longrightarrow> C now \<Longrightarrow>
    corpusHistory C E B sha256 s (snd (cs_rebuildDerivedIndex B now k caller t))"
| corpus_remove: "corpusHistory C E B sha256 s t \<Longrightarrow> C now \<Longrightarrow>
    corpusHistory C E B sha256 s (snd (cs_removeSource B now k src caller t))"
| corpus_status: "corpusHistory C E B sha256 s t \<Longrightarrow> corpusHistory C E B sha256 s (snd (cs_corpusStatus B k caller t))"
| corpus_search: "corpusHistory C E B sha256 s t \<Longrightarrow> C now \<Longrightarrow>
    corpusHistory C E B sha256 s (snd (cs_searchCorpus B now k query caller m t))"
| corpus_delete: "corpusHistory C E B sha256 s t \<Longrightarrow> C now \<Longrightarrow>
    corpusHistory C E B sha256 s (snd (cs_deleteCorpus B now k caller t))"
| corpus_backend: "corpusHistory C E B sha256 s t \<Longrightarrow> E (cs_backend t) b \<Longrightarrow> corpusHistory C E B sha256 s (t\<lparr>cs_backend := b\<rparr>)"

lemma corpusEvolves_backend: "corpusEvolves t (t\<lparr>cs_backend := b\<rparr>)"
  by (auto simp: corpusEvolves_def corpusOk_seq_revoked intro: corpusMoves_same)

lemma contract_evolves: "corpora.contract corpusOk m Q \<Longrightarrow> corpusEvolves t (snd (m t))"
  by (cases "corpusOk t") (auto dest: corpora.contract_order simp: corpusEvolves_def)

lemma history_corpusEvolves:
  assumes "\<And>x. 12 \<le> length (sha256 x)" "corpusHistory C E B sha256 s t" shows "corpusEvolves s t"
  using assms(2)
proof induction
  case corpus_start
  show ?case by (rule corpusEvolves_refl)
next
  case corpus_create
  show ?case by (rule corpusEvolves_trans [OF corpus_create.IH contract_evolves [OF create_contract [OF assms(1)]]])
next
  case corpus_enroll
  show ?case by (rule corpusEvolves_trans [OF corpus_enroll.IH contract_evolves [OF enroll_contract]])
next
  case corpus_update
  show ?case by (rule corpusEvolves_trans [OF corpus_update.IH contract_evolves [OF update_contract]])
next
  case corpus_rebuild
  show ?case by (rule corpusEvolves_trans [OF corpus_rebuild.IH contract_evolves [OF rebuild_contract]])
next
  case corpus_remove
  show ?case by (rule corpusEvolves_trans [OF corpus_remove.IH contract_evolves [OF remove_contract]])
next
  case corpus_status
  show ?case by (rule corpusEvolves_trans [OF corpus_status.IH contract_evolves [OF status_contract]])
next
  case corpus_search
  show ?case by (rule corpusEvolves_trans [OF corpus_search.IH contract_evolves [OF search_contract]])
next
  case corpus_delete
  show ?case by (rule corpusEvolves_trans [OF corpus_delete.IH contract_evolves [OF delete_contract]])
next
  case corpus_backend
  show ?case by (rule corpusEvolves_trans [OF corpus_backend.IH corpusEvolves_backend])
qed

lemma corpusOk_empty: "corpusOk (emptyCorpora b)"
  by (simp add: corpusOk_def emptyCorpora_def)

lemma reachable_corpusOk:
  "(\<And>x. 12 \<le> length (sha256 x)) \<Longrightarrow> corpusHistory C E B sha256 (emptyCorpora b) s \<Longrightarrow> corpusOk s"
  using history_corpusEvolves [of sha256 C E B "emptyCorpora b" s] corpusOk_empty [of b]
  by (simp add: corpusEvolves_def)

lemma history_moves:
  assumes "\<And>x. 12 \<le> length (sha256 x)" "corpusOk s" "corpusHistory C E B sha256 s t"
  shows "corpusOk t" "corpusMoves s t"
  using history_corpusEvolves [OF assms(1, 3)] assms(2) by (simp_all add: corpusEvolves_def)

text \<open>The steps keep the index of the in-memory backend in step with the records.\<close>

lemmas synced_after = triple_snd [OF mem_index.create_synced] triple_snd [OF mem_index.enroll_synced]
  triple_snd [OF mem_index.update_synced] triple_snd [OF mem_index.rebuild_synced]
  triple_snd [OF mem_index.remove_synced] triple_snd [OF mem_index.status_synced]
  triple_snd [OF mem_index.search_synced] triple_snd [OF mem_index.delete_synced]

lemma history_synced:
  assumes sha: "\<And>x. 12 \<le> length (sha256 x)"
    and "corpusHistory validClock (\<lambda>b b'. imb_indexes b' = imb_indexes b) memCorpusBackend sha256 s t"
    and "corpusOk s" "mem_index.synced s"
  shows "mem_index.synced t"
proof -
  have moved: "corpusOk t" if "corpusOk s" "corpusHistory C E B sha256 s t"
    for C E and B :: "'b corpus_backend" and s t
    using sha that by (rule history_moves(1))
  show ?thesis
    using assms(2-4)
  proof induction
    case corpus_start
    then show ?case by simp
  next
    case (corpus_backend s t b)
    then have "memDocs b = memDocs (cs_backend t)" "memIndexesOk b = memIndexesOk (cs_backend t)"
      by (simp_all add: memIndexesOk_def memDocs_def fun_eq_iff)
    with corpus_backend show ?case by (simp add: mem_index.syncedBut_def)
  qed ((rule synced_after, ((rule sha | assumption)+)?, use moved in blast)+)
qed

section \<open>Deletion\<close>

text \<open>What a deletion has done when the backend is asked.\<close>

definition deletionBegun :: "string \<Rightarrow> CorpusRecord \<Rightarrow> 'b CorpusStore \<Rightarrow> 'b CorpusStore" where
  "deletionBegun k r st = snd (putRecord (fst (beginDeletion r))
     (snd (revokeBindings (snd (beginDeletion r)) st)))"

lemma deleteCorpus_run:
  assumes "requireWritableRecord k caller True st = Inr r"
  shows "cs_deleteCorpus B now k caller st =
    bindM (attemptM (onBackend (cb_deleteIndex B k))) (\<lambda>x.
      finishDeletion now (fst (beginDeletion r)) (case x of Inl _ \<Rightarrow> False | Inr _ \<Rightarrow> True)) (deletionBegun k r st)"
proof -
  have r: "cr_state r \<noteq> CorpusDeleted" using assms by (auto simp: requireWritableRecord_def res_simps)
  have w: "writableRecord k caller True st = (Inr r, st)"
    by (simp add: writableRecord_def getStore_def bindM_def pureM_def assms)
  have "revokeBindings bs st1 = (Inr (), snd (revokeBindings bs st1))"
    "putRecord r1 st1 = (Inr (), snd (putRecord r1 st1))" for bs r1 and st1 :: "'a CorpusStore"
    by (simp_all add: revokeBindings_def putRecord_def)
  note steps = this [THEN thenM_Inr]
  show ?thesis
    using r by (simp add: cs_deleteCorpus_def bindM_Inr [of "writableRecord k caller True", OF w] steps deletionBegun_def)
qed

lemma deletionBegun_holds:
  assumes "requireWritableRecord k caller True st = Inr r" "corpusOk st"
  shows "holds k (fst (beginDeletion r)) (deletionBegun k r st)"
proof -
  from assms have r: "holds k r st" "cr_state r \<noteq> CorpusDeleted"
    by (auto simp: requireWritableRecord_def requireRecord_def holds_def res_simps split: option.splits)
  then have "recordOk k r" by (auto simp: holds_def corpusOk_def)
  note begun = beginDeletion_ok [OF this r(2)]
  have "holds k r (snd (revokeBindings (snd (beginDeletion r)) st))"
    using r(1) by (simp add: revokeBindings_def holds_def corpusOk_seq_revoked)
  then show ?thesis
    unfolding deletionBegun_def by (rule corpora.contractD(2) [OF putRecord_contract [OF begun]])
      (simp add: putRecord_def)
qed

lemma deleteCorpus_after:
  assumes "requireWritableRecord k caller True st = Inr r" "corpusOk st"
  shows "corpusEvolves (deletionBegun k r st) (snd (cs_deleteCorpus B now k caller st))"
  unfolding deleteCorpus_run [OF assms(1)]
  by (rule corpora.contract_order [OF corpora.contract_bind [OF attemptBackend_contract finishDeletion_contract]
        deletionBegun_holds [OF assms]]) simp

lemma deletionBegun_revoked:
  assumes "map_of (cr_enrollments r) src = Some e" "isEnrolled e" "cr_state r \<noteq> CorpusDeleting"
    and "b \<in> set (sr_cacheBindings (en_sourceRecord e))"
  shows "b \<in> set (cs_revoked (deletionBegun k r st))"
proof -
  have "(src, e) \<in> set (cr_enrollments r)" using assms(1) by (rule map_of_SomeD)
  then have "b \<in> set (snd (revokeAll (cr_enrollments r)))"
    using assms(2, 4) by (force simp: revokeAll_def revokeEnrollment_def Let_def)
  then show ?thesis
    using assms(3) by (simp add: deletionBegun_def putRecord_def revokeBindings_def beginDeletion_def)
qed

lemma search_revoked:
  assumes "map_of (cs_records t) k = Some r" "0 < deletionRank (cr_state r)"
  shows "\<exists>e. fst (cs_searchCorpus B now k query caller m t) = Inl (ThrownError e)"
proof (cases "requireReadableRecord k caller t")
  case (Inl e)
  then have "readableRecord k caller t = (Inl (ThrownError e), t)"
    by (simp add: readableRecord_def bindM_def getStore_def pureM_def)
  then show ?thesis by (simp add: cs_searchCorpus_def bindM_Inl)
next
  case (Inr r0)
  then have "r0 = r" using assms(1)
    by (auto simp: requireReadableRecord_def requireRecord_def res_simps)
  moreover have "readableRecord k caller t = (Inr r0, t)"
    using Inr by (simp add: readableRecord_def bindM_def getStore_def pureM_def)
  moreover have "cr_state r = CorpusDeleted \<or> cr_state r = CorpusDeleting" using assms(2) by (cases "cr_state r") auto
  ultimately show ?thesis
    by (auto simp: cs_searchCorpus_def bindM_Inr thenM_def pureM_def throwIf_def bindM_def)
qed

lemma finishDeletion_returns: "fst (finishDeletion now r c st) = Inr d \<Longrightarrow> d = deletionStatus c"
  unfolding finishDeletion_def Let_def by (auto dest!: thenM_returns bindM_returns)

text \<open>C9. Deleting a corpus is final and takes access away at once. Once a call of \<open>deleteCorpus\<close> has
  passed the access check, then, whatever the backend does in that call and whatever is called
  afterwards (by anyone, and while the backend changes by itself), the corpus never becomes active
  again, none of its sources is enrolled, no cache binding that an enrolled source had can hit, and
  every search of the corpus is refused; and only an acknowledged backend deletion is reported
  complete.\<close>

theorem corpus_deletion_final:
  assumes sha: "\<And>x. 12 \<le> length (sha256 x)"
    and reach: "corpusHistory C E B sha256 (emptyCorpora b) s"
    and access: "requireWritableRecord k caller True s = Inr r"
    and del: "cs_deleteCorpus B now k caller s = (res, s')"
    and later: "corpusHistory C E B sha256 s' t"
  shows "(\<exists>r'. map_of (cs_records t) k = Some r' \<and> cr_state r' \<in> {CorpusDeleting, CorpusDeleted} \<and>
      (\<forall>src e. map_of (cr_enrollments r') src = Some e \<longrightarrow> \<not> isEnrolled e)) \<and>
    (\<forall>src e c. map_of (cr_enrollments r) src = Some e \<and> isEnrolled e \<and>
       c \<in> set (sr_cacheBindings (en_sourceRecord e)) \<longrightarrow> \<not> cs_isCacheBindingHittable t c) \<and>
    (\<forall>now' query caller' m. \<exists>e. fst (cs_searchCorpus B now' k query caller' m t) = Inl (ThrownError e)) \<and>
    (\<forall>d. res = Inr d \<and> del_isComplete d \<longrightarrow>
       (\<exists>x. fst (cb_deleteIndex B k (cs_backend s)) = Inr x) \<and> del_derivedIndexDeleted d)"
proof -
  have ok: "corpusOk s" by (rule reachable_corpusOk [OF sha reach])
  let ?s1 = "deletionBegun k r s"
  have s1: "holds k (fst (beginDeletion r)) ?s1" by (rule deletionBegun_holds [OF access ok])
  have "corpusEvolves ?s1 t"
    using deleteCorpus_after [OF access ok, of B now] del history_corpusEvolves [OF sha later]
    by (auto intro: corpusEvolves_trans)
  with s1 have t: "corpusOk t" "corpusMoves ?s1 t" by (simp_all add: corpusEvolves_def holds_def)
  obtain r' where r': "map_of (cs_records t) k = Some r'" "recordMove (fst (beginDeletion r)) r'"
    using t(2) s1 unfolding corpusMoves_def holds_def by blast
  then have rank: "0 < deletionRank (cr_state r')" by (simp add: recordMove_def)
  have "recordOk k r'" using t(1) r'(1) by (simp add: corpusOk_def)
  with rank have gone: "\<forall>src e. map_of (cr_enrollments r') src = Some e \<longrightarrow> \<not> isEnrolled e" by (simp add: recordOk_def)
  have state: "cr_state r' \<in> {CorpusDeleting, CorpusDeleted}" using rank by (cases "cr_state r'") auto
  have "\<not> cs_isCacheBindingHittable t c"
    if "map_of (cr_enrollments r) src = Some e" "isEnrolled e" "c \<in> set (sr_cacheBindings (en_sourceRecord e))" for src e c
  proof -
    have "recordOk k r" using access ok
      by (auto simp: requireWritableRecord_def requireRecord_def corpusOk_def res_simps split: option.splits)
    with that have "cr_state r \<noteq> CorpusDeleting" by (auto simp: recordOk_def)
    from deletionBegun_revoked [OF that(1, 2) this that(3)] t(2)
    show ?thesis by (auto simp: corpusMoves_def cs_isCacheBindingHittable_def)
  qed
  moreover have "(\<exists>x. fst (cb_deleteIndex B k (cs_backend s)) = Inr x) \<and> del_derivedIndexDeleted d"
    if "res = Inr d" "del_isComplete d" for d
  proof -
    have "fst (cs_deleteCorpus B now k caller s) = Inr d" using del that(1) by simp
    then obtain x where x: "fst (attemptM (onBackend (cb_deleteIndex B k)) ?s1) = Inr x"
      and "d = deletionStatus (case x of Inl _ \<Rightarrow> False | Inr _ \<Rightarrow> True)"
      unfolding deleteCorpus_run [OF access] by (auto dest!: bindM_returns finishDeletion_returns)
    with that(2) have d: "d = deletionStatus True" and "\<exists>y. x = Inr y"
      by (auto simp: deletionStatus_def split: sum.splits)
    moreover have "cs_backend ?s1 = cs_backend s"
      by (simp add: deletionBegun_def putRecord_def revokeBindings_def)
    ultimately show ?thesis
      using x by (auto simp: attemptM_def onBackend_def deletionStatus_def split: prod.splits)
  qed
  ultimately show ?thesis using r'(1) state gone search_revoked [OF r'(1) rank] by blast
qed

section \<open>Retention\<close>

text \<open>C11. Retention is never extended. Whatever is called on the corpus store, a corpus keeps its id,
  owner, tenant, reader roles, creation time and expiry, and an enrollment, even one that is removed
  and enrolled again, keeps its enrollment time while its expiry only moves to earlier instants (no
  expiry being later than every instant).\<close>

theorem corpus_retention_never_extended:
  assumes "\<And>x. 12 \<le> length (sha256 x)" "corpusHistory C E B sha256 (emptyCorpora b) s" "corpusHistory C E B sha256 s t"
    and "map_of (cs_records s) k = Some r"
  shows "\<exists>r'. map_of (cs_records t) k = Some r' \<and> cr_ownerId r' = cr_ownerId r \<and>
    cr_tenantId r' = cr_tenantId r \<and> cr_readerRoles r' = cr_readerRoles r \<and>
    cr_createdAt r' = cr_createdAt r \<and> cr_expiresAt r' = cr_expiresAt r \<and>
    (\<forall>src e. map_of (cr_enrollments r) src = Some e \<longrightarrow>
       (\<exists>e'. map_of (cr_enrollments r') src = Some e' \<and> en_enrolledAt e' = en_enrolledAt e \<and>
          notLater (en_expiresAt e') (en_expiresAt e)))"
proof -
  have "corpusMoves s t" by (rule history_moves(2) [OF assms(1) reachable_corpusOk [OF assms(1, 2)] assms(3)])
  with assms(4) obtain r' where "map_of (cs_records t) k = Some r'" "recordMove r r'"
    unfolding corpusMoves_def by blast
  then show ?thesis unfolding recordMove_def enrollmentMove_def by (intro exI [of _ r']) metis
qed

section \<open>Search\<close>

text \<open>C10. A search returns only what the caller may see. If a search of a corpus returns, then the
  corpus exists and is not in deletion, the caller is its owner or has a reader role, and every
  result is a source that is enrolled there and whose access list names a role of the caller (or the
  caller is the owner); every result is labelled as a result of this corpus, never as public web
  search, and there are at most as many as asked for, never more than 50.\<close>

theorem corpus_search_authorized:
  assumes "cs_searchCorpus B now k query caller m s = (Inr resp, t)"
  shows "\<exists>r. map_of (cs_records s) k = Some r \<and> canRead r caller \<and>
    cr_state r \<noteq> CorpusDeleted \<and> cr_state r \<noteq> CorpusDeleting \<and>
    ssp_toolFamily resp = SCOPED_CORPUS_TOOL_FAMILY \<and>
    (\<forall>res \<in> set (ssp_results resp). (\<exists>e. map_of (cr_enrollments r) (ssr_sourceId res) = Some e \<and>
        isEnrolled e \<and> canSeeSource r caller e) \<and>
      srp_sourceKind (ssr_provenance res) = CorpusSource \<and>
      srp_corpusBoundary (ssr_provenance res) = Some (cr_corpusId r)) \<and>
    length (ssp_results resp) \<le> 50 \<and> (\<forall>n. m = Some (jint n) \<longrightarrow> int (length (ssp_results resp)) \<le> n)"
proof -
  have "fst (cs_searchCorpus B now k query caller m s) = Inr resp" using assms by simp
  then obtain r limit hits results where r: "fst (readableRecord k caller s) = Inr r"
    and state: "cr_state r \<noteq> CorpusDeleted" "cr_state r \<noteq> CorpusDeleting"
    and limit: "searchLimit m = Inr limit"
    and results: "searchResults (cb_backendName B) now r caller limit hits = Inr results"
    and resp: "ssp_results resp = results" "ssp_toolFamily resp = SCOPED_CORPUS_TOOL_FAMILY"
    unfolding cs_searchCorpus_def by (fastforce dest!: bindM_returns thenM_returns simp: res_simps)
  have "1 \<le> limit \<and> limit \<le> 50 \<and> (\<forall>n. m = Some (jint n) \<longrightarrow> int limit = n)"
    using limit by (auto simp: searchLimit_def Let_def res_simps MAX_SEARCH_RESULTS_def DEFAULT_SEARCH_RESULTS_def
        isInteger_iff split: option.splits)
  then show ?thesis
    using readableRecord_Inr(1) [OF r] state searchResults_sound [OF results] resp
    by (intro exI [of _ r]) auto
qed

section \<open>Identity\<close>

text \<open>A corpus id is never given twice. If \<open>createCorpus\<close> returns, the id of the new corpus was not
  in the store, starts with the public prefix and is not refused as the id of a backend; the new
  corpus is active and without sources, and no other corpus is touched.\<close>

theorem corpus_ids_fresh:
  assumes sha: "\<And>x. 12 \<le> length (sha256 x)" and reach: "corpusHistory C E B sha256 (emptyCorpora b) s"
    and create: "cs_createCorpus B sha256 now inp s = (Inr view, t)"
  shows "map_of (cs_records s) (cv_corpusId view) = None \<and>
    take 10 (cv_corpusId view) = CORPUS_ID_PREFIX \<and>
    (\<forall>name. validateCorpusIdentity \<lparr>cid_corpusId = cv_corpusId view, cid_displayName = name\<rparr> = Inr ()) \<and>
    (\<exists>r. map_of (cs_records t) (cv_corpusId view) = Some r \<and> cr_state r = CorpusActive \<and>
       cr_enrollments r = [] \<and> cr_ownerId r = cci_ownerId inp) \<and>
    (\<forall>k. k \<noteq> cv_corpusId view \<longrightarrow> map_of (cs_records t) k = map_of (cs_records s) k)"
proof -
  have ok: "corpusOk s" by (rule reachable_corpusOk [OF sha reach])
  define d where "d = take 12 (sha256 (cci_tenantId inp @ '':'' @ cci_ownerId inp @ '':'' @
            cci_displayName inp @ '':'' @ showNat (Suc (cs_seq s))))"
  have d: "length d = 12" using sha by (simp add: d_def)
  have n: "newCorpusId sha256 (Suc (cs_seq s)) inp = corpusIdOf (Suc (cs_seq s)) d"
    by (simp add: newCorpusId_def corpusIdOf_def d_def)
  define r where "r = the (map_of (cs_records t) (corpusIdOf (Suc (cs_seq s)) d))"
  have view: "cv_corpusId view = corpusIdOf (Suc (cs_seq s)) d"
    and records: "cs_records t = AList.update (corpusIdOf (Suc (cs_seq s)) d) r (cs_records s)"
      "cr_state r = CorpusActive" "cr_enrollments r = []" "cr_ownerId r = cci_ownerId inp"
    unfolding r_def using create
    by (auto simp: cs_createCorpus_def Let_def bindM_def pureM_def thenM_def n tryBackend_def catchM_def
        onBackend_def throwM_def putRecord_def returnM_def toView_def split: sum.splits prod.splits)
  have "take 10 (corpusIdOf (Suc (cs_seq s)) d) = CORPUS_ID_PREFIX"
    by (simp add: corpusIdOf_def CORPUS_ID_PREFIX_def)
  then show ?thesis
    using createCorpus_new [OF ok d] corpusId_valid by (simp add: view records)
qed

section \<open>The index\<close>

text \<open>C12. The index of the in-memory backend is the manifest. While the backend is touched by nobody
  else except that it may become unhealthy or refuse deletions, and whatever calls were made, failed
  ones included, the index of every corpus that is not in deletion holds exactly its enrolled sources
  with their content hashes; so every result of a search carries the content hash that the manifest
  has for its source.\<close>

theorem corpus_index_agrees:
  assumes sha: "\<And>x. 12 \<le> length (sha256 x)"
    and reach: "corpusHistory validClock (\<lambda>b b'. imb_indexes b' = imb_indexes b) memCorpusBackend sha256
      (emptyCorpora b) s"
    and empty: "imb_indexes b = []"
  shows "(\<forall>k r. map_of (cs_records s) k = Some r \<and> cr_state r \<noteq> CorpusDeleting \<and> cr_state r \<noteq> CorpusDeleted \<longrightarrow>
      memDocs (cs_backend s) k = Some (contents r)) \<and>
    (\<forall>now k query caller m resp t res. cs_searchCorpus memCorpusBackend now k query caller m s = (Inr resp, t) \<and>
      res \<in> set (ssp_results resp) \<longrightarrow>
      (\<exists>r e. map_of (cs_records s) k = Some r \<and> map_of (cr_enrollments r) (ssr_sourceId res) = Some e \<and>
         isEnrolled e \<and> ssr_contentHash res = sr_contentHash (en_sourceRecord e)))"
proof -
  have ok: "corpusOk s" by (rule reachable_corpusOk [OF sha reach])
  have "mem_index.synced s"
    by (rule history_synced [OF sha reach corpusOk_empty])
      (simp add: mem_index.syncedBut_def emptyCorpora_def memIndexesOk_def empty)
  with ok mem_index.search_current [OF ok] show ?thesis
    by (auto simp: mem_index.syncedBut_def alive_def alive_rank)
qed

section \<open>A corpus with one source\<close>

definition demoSha :: "string \<Rightarrow> string" where "demoSha x = replicate 12 (CHR ''a'')"

definition demoOwner :: CallerPrincipal where
  "demoOwner = \<lparr>cal_principalId = ''o'', cal_roles = []\<rparr>"

definition demoReader :: CallerPrincipal where
  "demoReader = \<lparr>cal_principalId = ''p'', cal_roles = [''role:reader'']\<rparr>"

definition demoCorpusInput :: CreateCorpusInput where
  "demoCorpusInput = \<lparr>cci_displayName = ''d'', cci_ownerId = ''o'', cci_tenantId = ''t'',
     cci_callerExpiresAt = None, cci_caps = None\<rparr>"

definition demoSource :: "string \<Rightarrow> string \<Rightarrow> int \<Rightarrow> EnrollSourceInput" where
  "demoSource source role expiry = \<lparr>esi_sourceId = source, esi_contentHash = ''h'', esi_acl = [role],
     esi_retentionPolicy = ''r'', esi_deletionPolicy = ''d'', esi_lifecycleProvenance = ''l'',
     esi_citationProvenance = ''c'', esi_backendProvenance = ''b'',
     esi_callerExpiresAt = Some (Iso expiry), esi_cacheBindings = Some [''k'']\<rparr>"

definition demoCorpusStart :: "InMemoryCorpusBackend CorpusStore" where
  "demoCorpusStart = emptyCorpora \<lparr>imb_seq = 0, imb_failDelete = False, imb_backendUp = True, imb_indexes = []\<rparr>"

abbreviation demoK :: string where "demoK \<equiv> ''gl-corpus-0001aaaaaaaaaaaa''"

abbreviation "demoCreate \<equiv> cs_createCorpus memCorpusBackend demoSha 0 demoCorpusInput"

abbreviation "demoEnroll source role expiry \<equiv>
  cs_enrollSource memCorpusBackend 0 demoK (demoSource source role expiry) demoOwner None"

definition demoCreated :: "InMemoryCorpusBackend CorpusStore" where
  "demoCreated = snd (demoCreate demoCorpusStart)"

definition demoEnrolled :: "InMemoryCorpusBackend CorpusStore" where
  "demoEnrolled = snd (demoEnroll ''s'' ''role:reader'' 7200000 demoCreated)"

definition demoReEnrolled :: "InMemoryCorpusBackend CorpusStore" where
  "demoReEnrolled = snd (demoEnroll ''s'' ''role:reader'' 3600000 demoEnrolled)"

definition demoDeletedCorpus :: "InMemoryCorpusBackend CorpusStore" where
  "demoDeletedCorpus = snd (cs_deleteCorpus memCorpusBackend 1 demoK demoOwner demoReEnrolled)"

lemma demoSha_length: "12 \<le> length (demoSha x)" by (simp add: demoSha_def)

lemma demo_corpus_parts:
  "fst (demoCreate demoCorpusStart) = Inr \<lparr>cv_corpusId = demoK, cv_displayName = ''d'', cv_state = CorpusActive,
     cv_sourceCount = 0, cv_updatedAt = Iso 0, cv_expiresAt = None\<rparr>"
  "fst (cs_deleteCorpus memCorpusBackend 1 demoK demoOwner demoReEnrolled) = Inr (deletionStatus True)"
  "map_option ssp_results (case fst (cs_searchCorpus memCorpusBackend 1 demoK ''q'' demoReader None demoEnrolled) of
     Inl _ \<Rightarrow> None | Inr r \<Rightarrow> Some r) =
   Some [\<lparr>ssr_sourceId = ''s'', ssr_contentHash = ''h'', ssr_snippet = ''Enrolled source s'', ssr_score = jint 1,
     ssr_provenance = \<lparr>srp_sourceKind = CorpusSource, srp_provider = ''internal'', srp_backend = ''mem-fake-v1'',
       srp_corpusBoundary = Some demoK, srp_freshnessTimestamp = Iso 1\<rparr>\<rparr>]"
  by (code_simp, code_simp, code_simp)

lemma demo_corpus_expiry:
  "map_option (\<lambda>r. map_option en_expiresAt (map_of (cr_enrollments r) ''s'')) (map_of (cs_records demoEnrolled) demoK) =
     Some (Some (Some (Iso 7200000)))"
  "map_option (\<lambda>r. map_option (\<lambda>e. (isEnrolled e, sr_cacheBindings (en_sourceRecord e)))
       (map_of (cr_enrollments r) ''s''))
     (case requireWritableRecord demoK demoOwner True demoReEnrolled of Inl _ \<Rightarrow> None | Inr r \<Rightarrow> Some r) =
     Some (Some (True, [''k'']))"
  by (code_simp, code_simp)

lemma demo_clock: "validClock 0"
  by (simp add: validClock_def toISOString_def maxTime_def)

lemma demo_corpus_histories:
  "corpusHistory validClock (\<lambda>b b'. imb_indexes b' = imb_indexes b) memCorpusBackend demoSha (emptyCorpora (cs_backend demoCorpusStart)) demoCorpusStart"
  "corpusHistory validClock (\<lambda>b b'. imb_indexes b' = imb_indexes b) memCorpusBackend demoSha (emptyCorpora (cs_backend demoCorpusStart)) demoEnrolled"
  "corpusHistory validClock (\<lambda>b b'. imb_indexes b' = imb_indexes b) memCorpusBackend demoSha (emptyCorpora (cs_backend demoCorpusStart)) demoReEnrolled"
  "corpusHistory validClock (\<lambda>b b'. imb_indexes b' = imb_indexes b) memCorpusBackend demoSha demoEnrolled demoReEnrolled"
proof -
  show start: "corpusHistory validClock (\<lambda>b b'. imb_indexes b' = imb_indexes b) memCorpusBackend demoSha (emptyCorpora (cs_backend demoCorpusStart)) demoCorpusStart"
    by (simp add: demoCorpusStart_def emptyCorpora_def corpus_start)
  show e: "corpusHistory validClock (\<lambda>b b'. imb_indexes b' = imb_indexes b) memCorpusBackend demoSha (emptyCorpora (cs_backend demoCorpusStart)) demoEnrolled"
    unfolding demoEnrolled_def demoCreated_def by (intro corpus_enroll corpus_create start demo_clock)
  show "corpusHistory validClock (\<lambda>b b'. imb_indexes b' = imb_indexes b) memCorpusBackend demoSha (emptyCorpora (cs_backend demoCorpusStart)) demoReEnrolled"
    unfolding demoReEnrolled_def by (intro corpus_enroll e demo_clock)
  show "corpusHistory validClock (\<lambda>b b'. imb_indexes b' = imb_indexes b) memCorpusBackend demoSha demoEnrolled demoReEnrolled"
    unfolding demoReEnrolled_def by (intro corpus_enroll corpus_start demo_clock)
qed

theorem corpus_deletion_final_witness:
  "\<not> cs_isCacheBindingHittable demoDeletedCorpus ''k'' \<and>
    (\<exists>x. fst (cb_deleteIndex memCorpusBackend demoK (cs_backend demoReEnrolled)) = Inr x)"
proof -
  have del: "cs_deleteCorpus memCorpusBackend 1 demoK demoOwner demoReEnrolled =
      (Inr (deletionStatus True), demoDeletedCorpus)"
    by (simp add: prod_eq_iff demo_corpus_parts demoDeletedCorpus_def)
  obtain r e where r: "requireWritableRecord demoK demoOwner True demoReEnrolled = Inr r"
    "map_of (cr_enrollments r) ''s'' = Some e" "isEnrolled e" "''k'' \<in> set (sr_cacheBindings (en_sourceRecord e))"
    using demo_corpus_expiry(2) by (auto split: sum.splits)
  show ?thesis
    using corpus_deletion_final [OF demoSha_length demo_corpus_histories(3) r(1) del corpus_start] r(2-4)
    by (fastforce simp: deletionStatus_def)
qed

theorem corpus_retention_never_extended_witness:
  "\<exists>r e. map_of (cs_records demoReEnrolled) demoK = Some r \<and> map_of (cr_enrollments r) ''s'' = Some e \<and>
    notLater (en_expiresAt e) (Some (Iso 7200000))"
proof -
  obtain r e where "map_of (cs_records demoEnrolled) demoK = Some r"
    "map_of (cr_enrollments r) ''s'' = Some e" "en_expiresAt e = Some (Iso 7200000)"
    using demo_corpus_expiry(1) by auto
  then show ?thesis
    using corpus_retention_never_extended [OF demoSha_length demo_corpus_histories(2, 4), of demoK r] by metis
qed

theorem corpus_search_authorized_witness:
  "\<exists>r e. map_of (cs_records demoEnrolled) demoK = Some r \<and> canRead r demoReader \<and>
    map_of (cr_enrollments r) ''s'' = Some e \<and> canSeeSource r demoReader e"
proof -
  obtain resp where resp: "cs_searchCorpus memCorpusBackend 1 demoK ''q'' demoReader None demoEnrolled =
      (Inr resp, snd (cs_searchCorpus memCorpusBackend 1 demoK ''q'' demoReader None demoEnrolled))"
    and "\<exists>res \<in> set (ssp_results resp). ssr_sourceId res = ''s''"
    using demo_corpus_parts(3) by (cases "fst (cs_searchCorpus memCorpusBackend 1 demoK ''q'' demoReader None demoEnrolled)")
      (auto simp: prod_eq_iff)
  then show ?thesis using corpus_search_authorized [OF resp] by metis
qed

theorem corpus_ids_fresh_witness:
  "map_of (cs_records demoCorpusStart) demoK = None \<and> (\<exists>r. map_of (cs_records demoCreated) demoK = Some r)"
proof -
  have create: "demoCreate demoCorpusStart = (Inr \<lparr>cv_corpusId = demoK, cv_displayName = ''d'', cv_state = CorpusActive,
     cv_sourceCount = 0, cv_updatedAt = Iso 0, cv_expiresAt = None\<rparr>, demoCreated)"
    by (simp add: prod_eq_iff demo_corpus_parts demoCreated_def)
  show ?thesis using corpus_ids_fresh [OF demoSha_length demo_corpus_histories(1) create] by auto
qed

theorem corpus_index_agrees_witness:
  "\<exists>r. map_of (cs_records demoEnrolled) demoK = Some r \<and> memDocs (cs_backend demoEnrolled) demoK = Some (contents r)"
proof -
  obtain r where r: "map_of (cs_records demoEnrolled) demoK = Some r"
    using demo_corpus_expiry(1) by auto
  moreover have "map_option cr_state (map_of (cs_records demoEnrolled) demoK) = Some CorpusActive" by code_simp
  moreover have "imb_indexes (cs_backend demoCorpusStart) = []" by code_simp
  ultimately show ?thesis
    using corpus_index_agrees [OF demoSha_length demo_corpus_histories(2)] by auto
qed

text \<open>A search cuts the hits of the backend to the limit before it drops those the caller may not see:
  with the limit 1 the reader is denied access, with the limit 2 it gets the source it may see.\<close>

definition demoMixed :: "InMemoryCorpusBackend CorpusStore" where
  "demoMixed = snd (demoEnroll ''s'' ''role:reader'' 7200000 (snd (demoEnroll ''r'' ''role:other'' 7200000 demoCreated)))"

definition demoFound :: "int \<Rightarrow> string list option" where
  "demoFound n = (case fst (cs_searchCorpus memCorpusBackend 1 demoK ''q'' demoReader (Some (jint n)) demoMixed) of
     Inl _ \<Rightarrow> None | Inr resp \<Rightarrow> Some (map ssr_sourceId (ssp_results resp)))"

theorem search_limit_hides_visible_source: "demoFound 1 = None \<and> demoFound 2 = Some [''s'']"
  by code_simp

end
