(* ===== verification/CorpusPorts.thy ===== *)
theory CorpusPorts
  imports CorpusStore "HOL-Library.Word"
begin

text \<open>
  The second part of \<^verbatim>\<open>src/core/corpus-runtime.ts\<close>: the idempotency guard of retries, the store of
  durable state, durable artifact references and the in-memory blob storage. The result of an effect
  is a JavaScript value; an effect is an action on a world of its own, run with the guard's records
  beside it, so that it could use the store itself.
\<close>

section \<open>Idempotent runs\<close>

record IdempotentEffect =
  ie_result :: js_value
  ie_providerTaskCreated :: bool
  ie_paidCallCompleted :: bool
  ie_artifactWriteCompleted :: bool

record IdempotentRunResult =
  ir_key :: string
  ir_reused :: bool
  ir_result :: js_value

record UnfinishedAttemptFlags =
  ua_providerTaskCreated :: bool
  ua_paidCallCompleted :: bool
  ua_artifactWriteCompleted :: bool

record StoredAttempt =
  sa_attemptId :: string
  sa_guard :: RetryIdempotencyGuard
  sa_result :: js_value
  sa_hasResult :: bool

record 'w IdempotencyStore =
  ids_records :: "StoredAttempt jsmap"
  ids_world :: 'w

definition is_getGuard :: "'w IdempotencyStore \<Rightarrow> string \<Rightarrow> RetryIdempotencyGuard option" where
  "is_getGuard st k = map_option sa_guard (map_of (ids_records st) k)"

definition requireKeyAndAttempt :: "string \<Rightarrow> string \<Rightarrow> unit res" where
  "requireKeyAndAttempt k attemptId =
     andThen (throwIf (k = []) (invalidCorpusInput ''Idempotency key must be non-empty'' ''corpus.invalid_input''
       ''Provide a non-empty idempotency key.''))
     (throwIf (attemptId = []) (invalidCorpusInput ''Attempt ID must be non-empty'' ''corpus.invalid_input''
       ''Provide a non-empty attempt ID.''))"

definition putAttempt :: "string \<Rightarrow> StoredAttempt \<Rightarrow> ('w IdempotencyStore, unit) action" where
  "putAttempt k a st = (Inr (), st\<lparr>ids_records := AList.update k a (ids_records st)\<rparr>)"

definition readAttempt :: "string \<Rightarrow> ('w IdempotencyStore, StoredAttempt option) action" where
  "readAttempt k st = (Inr (map_of (ids_records st) k), st)"

definition is_recordUnfinishedAttempt :: "string \<Rightarrow> string \<Rightarrow> UnfinishedAttemptFlags \<Rightarrow>
    ('w IdempotencyStore, unit) action" where
  "is_recordUnfinishedAttempt k attemptId flags =
     thenM (pureM (requireKeyAndAttempt k attemptId))
     (bindM (readAttempt k) (\<lambda>existing.
      thenM (pureM (throwIf (case existing of None \<Rightarrow> False | Some a \<Rightarrow> sa_hasResult a)
        (invalidCorpusInput ''Idempotency key already has a completed result'' ''corpus.invalid_input''
          ''Reuse the stored result instead of recording a new attempt.'')))
      (putAttempt k \<lparr>sa_attemptId = attemptId,
         sa_guard = \<lparr>rg_idempotencyKey = k, rg_previousAttemptId = Some attemptId,
           rg_providerTaskCreated = ua_providerTaskCreated flags,
           rg_paidCallCompleted = ua_paidCallCompleted flags,
           rg_artifactWriteCompleted = ua_artifactWriteCompleted flags\<rparr>,
         sa_result = Null, sa_hasResult = False\<rparr>)))"

text \<open>A guard that has only one kind of work on it.\<close>

definition noGuard :: "string \<Rightarrow> string option \<Rightarrow> RetryIdempotencyGuard" where
  "noGuard k previousAttemptId = \<lparr>rg_idempotencyKey = k, rg_previousAttemptId = previousAttemptId,
     rg_providerTaskCreated = False, rg_paidCallCompleted = False, rg_artifactWriteCompleted = False\<rparr>"

text \<open>The checks after the effect of a retry: work that was already done must not be done again.\<close>

definition checkNotDuplicated :: "string \<Rightarrow> StoredAttempt \<Rightarrow> IdempotentEffect \<Rightarrow> unit res" where
  "checkNotDuplicated k existing produced =
     (let previous = sa_guard existing; guard = noGuard k (Some (sa_attemptId existing))
      in andThen (validateProviderTaskNotDuplicated (guard\<lparr>rg_providerTaskCreated :=
           rg_providerTaskCreated previous \<and> ie_providerTaskCreated produced\<rparr>))
         (andThen (validatePaidCallNotDuplicated (guard\<lparr>rg_paidCallCompleted :=
           rg_paidCallCompleted previous \<and> ie_paidCallCompleted produced\<rparr>))
         (validateArtifactWriteNotDuplicated (guard\<lparr>rg_artifactWriteCompleted :=
           rg_artifactWriteCompleted previous \<and> ie_artifactWriteCompleted produced\<rparr>))))"

definition completedAttempt :: "string \<Rightarrow> string \<Rightarrow> StoredAttempt option \<Rightarrow> IdempotentEffect \<Rightarrow> StoredAttempt" where
  "completedAttempt k attemptId existing produced =
     (let previous = (case existing of None \<Rightarrow> noGuard k None | Some a \<Rightarrow> sa_guard a)
      in \<lparr>sa_attemptId = attemptId,
          sa_guard = \<lparr>rg_idempotencyKey = k,
            rg_previousAttemptId = Some (case rg_previousAttemptId previous of
               Some p \<Rightarrow> p
             | None \<Rightarrow> (case existing of Some a \<Rightarrow> sa_attemptId a | None \<Rightarrow> attemptId)),
            rg_providerTaskCreated = (rg_providerTaskCreated previous \<or> ie_providerTaskCreated produced),
            rg_paidCallCompleted = (rg_paidCallCompleted previous \<or> ie_paidCallCompleted produced),
            rg_artifactWriteCompleted = (rg_artifactWriteCompleted previous \<or> ie_artifactWriteCompleted produced)\<rparr>,
          sa_result = ie_result produced, sa_hasResult = True\<rparr>)"

definition is_run :: "string \<Rightarrow> string \<Rightarrow> ('w IdempotencyStore, IdempotentEffect) action \<Rightarrow>
    ('w IdempotencyStore, IdempotentRunResult) action" where
  "is_run k attemptId effect =
     thenM (pureM (requireKeyAndAttempt k attemptId))
     (bindM (readAttempt k) (\<lambda>existing.
      case (case existing of None \<Rightarrow> None | Some a \<Rightarrow> if sa_hasResult a then existing else None) of
        Some a \<Rightarrow>
          (let replay = validateRetryIdempotency (sa_guard a) (sa_result a)
           in returnM \<lparr>ir_key = k, ir_reused = rr_reused replay, ir_result = rr_result replay\<rparr>)
      | None \<Rightarrow>
          bindM effect (\<lambda>produced.
          thenM (pureM (case existing of None \<Rightarrow> Inr () | Some a \<Rightarrow> checkNotDuplicated k a produced))
          (thenM (putAttempt k (completedAttempt k attemptId existing produced))
            (returnM \<lparr>ir_key = k, ir_reused = False, ir_result = ie_result produced\<rparr>)))))"

definition resolveUpstreamCancel :: "bool \<Rightarrow> bool \<Rightarrow> CancelAcknowledgmentStatus" where
  "resolveUpstreamCancel requested providerAcknowledged = resolveCancelAcknowledgment requested providerAcknowledged"

section \<open>Durable state\<close>

record DurableStateRecord =
  dst_key :: string
  dst_inlineBytes :: jsnum
  dst_ref :: "DurableArtifactRef option"

type_synonym InMemoryDurableStateStore = "DurableStateRecord jsmap"

definition dst_get :: "InMemoryDurableStateStore \<Rightarrow> string \<Rightarrow> DurableStateRecord option" where
  "dst_get m k = map_of m k"

definition dst_put :: "DurableStateRecord \<Rightarrow> (InMemoryDurableStateStore, unit) action" where
  "dst_put r =
     thenM (pureM (throwIf (dst_key r = []) (invalidCorpusInput ''Durable state key must be non-empty''
       ''corpus.invalid_input'' ''Provide a non-empty durable state key.'')))
     (thenM (pureM (validateDurableState (dst_inlineBytes r) \<lparr>dsp_maxInlineBytes = MAX_INLINE_BYTES\<rparr>))
     (thenM (pureM (case dst_ref r of None \<Rightarrow> Inr () | Some ref \<Rightarrow> validateDurableArtifactRef ref))
       (\<lambda>m. (Inr (), AList.update (dst_key r) r m))))"

definition dst_delete :: "string \<Rightarrow> (InMemoryDurableStateStore, unit) action" where
  "dst_delete k m = (Inr (), AList.delete k m)"

section \<open>Durable artifact references\<close>

record CreateDurableArtifactInput =
  cda_tenantId :: string
  cda_ownerId :: string
  cda_contentHash :: string
  cda_byteSize :: jsnum
  cda_retentionPolicy :: string
  cda_deletionPolicy :: DeletionPolicy
  cda_expiresAt :: string

text \<open>The fields of the reference are those of the literal; none is a forbidden storage field.\<close>

definition createDurableArtifact :: "CreateDurableArtifactInput \<Rightarrow> DurableArtifactRef res" where
  "createDurableArtifact inp =
     (let ref = \<lparr>dar_tenantId = cda_tenantId inp, dar_ownerId = cda_ownerId inp,
            dar_contentHash = cda_contentHash inp, dar_byteSize = cda_byteSize inp,
            dar_retentionPolicy = cda_retentionPolicy inp, dar_expiresAt = cda_expiresAt inp,
            dar_deletionPolicy = cda_deletionPolicy inp\<rparr>
      in andThen (validateDurableArtifactRef ref) (Inr ref))"

datatype DeploymentTarget = DeployCloudflare | DeployLocal

definition resolveStorageBackendName :: "DeploymentTarget \<Rightarrow> string" where
  "resolveStorageBackendName deployment =
     (case deployment of DeployCloudflare \<Rightarrow> ''r2'' | DeployLocal \<Rightarrow> ''in-memory-fake'')"

section \<open>Blobs\<close>

text \<open>\<open>sha256\<close> is the hash of \<^verbatim>\<open>node:crypto\<close> over bytes, in hexadecimal.\<close>

type_synonym InMemoryBlobStorage = "(8 word list) jsmap"

definition blobKey :: "string \<Rightarrow> string \<Rightarrow> string \<Rightarrow> string" where
  "blobKey tenantId ownerId contentHash = tenantId @ '':'' @ ownerId @ '':'' @ contentHash"

definition ias_storeBlob :: "(8 word list \<Rightarrow> string) \<Rightarrow> string \<Rightarrow> string \<Rightarrow> string \<Rightarrow> 8 word list \<Rightarrow>
    (InMemoryBlobStorage, unit) action" where
  "ias_storeBlob sha256 tenantId ownerId contentHash bytes =
     thenM (pureM (andThen (assertBoundedText tenantId ''Tenant ID'' MAX_ACL_ENTRY_CHARS)
       (andThen (assertBoundedText ownerId ''Owner ID'' MAX_ACL_ENTRY_CHARS)
         (assertBoundedText contentHash ''Content hash'' MAX_CONTENT_HASH_CHARS))))
     (thenM (pureM (throwIf (sha256 bytes \<noteq> contentHash)
       (invalidCorpusInput ''Content hash mismatch; blob was not stored'' ''corpus.invalid_input''
         ''Store the blob with the SHA-256 hex digest of its exact bytes.'')))
       (\<lambda>m. (Inr (), AList.update (blobKey tenantId ownerId contentHash) bytes m)))"

definition ias_loadBlob :: "string \<Rightarrow> string \<Rightarrow> string \<Rightarrow> (InMemoryBlobStorage, 8 word list) action" where
  "ias_loadBlob tenantId ownerId contentHash m =
     (case map_of m (blobKey tenantId ownerId contentHash) of
        None \<Rightarrow> throwM (invalidCorpusInput ''Artifact not found or access denied'' ''corpus.invalid_input''
          ''Check the tenant/owner binding and content hash, then retry.'') m
      | Some bytes \<Rightarrow> (Inr bytes, m))"

definition ias_deleteBlob :: "string \<Rightarrow> string \<Rightarrow> string \<Rightarrow> (InMemoryBlobStorage, unit) action" where
  "ias_deleteBlob tenantId ownerId contentHash m =
     (Inr (), AList.delete (blobKey tenantId ownerId contentHash) m)"

end
