(* ===== verification/CorpusPortProperties.thy ===== *)
theory CorpusPortProperties
  imports CorpusPorts ActionLogic
begin

text \<open>
  Properties of the idempotency guard, of the store of durable state and of the blob storage of
  \<^verbatim>\<open>src/core/corpus-runtime.ts\<close>.
\<close>

section \<open>Idempotent runs\<close>

text \<open>An effect that does not use the store it is run by; its world may change in any way.\<close>

definition leavesRecords :: "('w IdempotencyStore, IdempotentEffect) action \<Rightarrow> bool" where
  "leavesRecords effect \<longleftrightarrow> (\<forall>s. ids_records (snd (effect s)) = ids_records s)"

inductive idempotencyHistory :: "'w IdempotencyStore \<Rightarrow> 'w IdempotencyStore \<Rightarrow> bool" where
  idem_start: "idempotencyHistory s s"
| idem_run: "idempotencyHistory s t \<Longrightarrow> leavesRecords effect \<Longrightarrow> idempotencyHistory s (snd (is_run k a effect t))"
| idem_unfinished: "idempotencyHistory s t \<Longrightarrow> idempotencyHistory s (snd (is_recordUnfinishedAttempt k a flags t))"
| idem_world: "idempotencyHistory s t \<Longrightarrow> idempotencyHistory s (t\<lparr>ids_world := w\<rparr>)"

text \<open>A completed attempt stays as it is.\<close>

definition keepsCompleted :: "'w IdempotencyStore \<Rightarrow> 'w IdempotencyStore \<Rightarrow> bool" where
  "keepsCompleted s t \<longleftrightarrow> (\<forall>k a. map_of (ids_records s) k = Some a \<and> sa_hasResult a \<longrightarrow>
     map_of (ids_records t) k = Some a)"

interpretation completed: action_order keepsCompleted
  by unfold_locales (auto simp: keepsCompleted_def)

definition attemptIs :: "string \<Rightarrow> StoredAttempt option \<Rightarrow> 'w IdempotencyStore \<Rightarrow> bool" where
  "attemptIs k x s \<longleftrightarrow> map_of (ids_records s) k = x"

lemma readAttempt_contract: "completed.contract (\<lambda>_. True) (readAttempt k) (attemptIs k)"
  by (auto simp: completed.contract_def readAttempt_def attemptIs_def keepsCompleted_def)

lemma putAttempt_contract:
  assumes "\<And>a. x = Some a \<Longrightarrow> \<not> sa_hasResult a"
  shows "completed.contract (attemptIs k x) (putAttempt k b) (\<lambda>_ _. True)"
  using assms by (auto simp: completed.contract_def putAttempt_def attemptIs_def keepsCompleted_def)

lemma effect_contract:
  "leavesRecords effect \<Longrightarrow> completed.contract (attemptIs k x) effect (\<lambda>_. attemptIs k x)"
  by (simp add: completed.contract_def attemptIs_def keepsCompleted_def leavesRecords_def)

lemma pure_keeps: "completed.contract A (pureM r) (\<lambda>x s. A s \<and> r = Inr x)"
  by (rule completed.contract_pure) simp

lemma unfinished_contract: "completed.contract (\<lambda>_. True) (is_recordUnfinishedAttempt k a flags) (\<lambda>_ _. True)"
proof -
  have check: "completed.contract (attemptIs k x) (pureM (throwIf (case x of None \<Rightarrow> False | Some a \<Rightarrow> sa_hasResult a) e))
      (\<lambda>_ s. attemptIs k x s \<and> (\<forall>a. x = Some a \<longrightarrow> \<not> sa_hasResult a))" for x :: "StoredAttempt option" and e
    by (rule completed.contract_pure) (auto simp: res_simps)
  have put: "completed.contract (\<lambda>s. attemptIs k x s \<and> (\<forall>a. x = Some a \<longrightarrow> \<not> sa_hasResult a)) (putAttempt k b) (\<lambda>_ _. True)" for x b
    using putAttempt_contract [of x k b] by (auto simp: completed.contract_def)
  show ?thesis
    unfolding is_recordUnfinishedAttempt_def
    by (rule completed.contract_then [OF completed.contract_pure
          completed.contract_bind [OF readAttempt_contract completed.contract_then [OF check put]]]) simp
qed

lemma run_contract:
  assumes "leavesRecords effect"
  shows "completed.contract (\<lambda>_. True) (is_run k a effect) (\<lambda>_ _. True)"
  unfolding is_run_def
proof (intro completed.contract_then [where Q = "\<lambda>_. True"] completed.contract_bind [OF readAttempt_contract])
  fix x :: "StoredAttempt option"
  let ?done = "case x of None \<Rightarrow> None | Some a \<Rightarrow> if sa_hasResult a then x else None"
  show "completed.contract (attemptIs k x) (case ?done of
      Some a \<Rightarrow> (let replay = validateRetryIdempotency (sa_guard a) (sa_result a)
        in returnM \<lparr>ir_key = k, ir_reused = rr_reused replay, ir_result = rr_result replay\<rparr>)
    | None \<Rightarrow> bindM effect (\<lambda>produced.
        thenM (pureM (case x of None \<Rightarrow> Inr () | Some a \<Rightarrow> checkNotDuplicated k a produced))
        (thenM (putAttempt k (completedAttempt k a x produced))
          (returnM \<lparr>ir_key = k, ir_reused = False, ir_result = ie_result produced\<rparr>)))) (\<lambda>_ _. True)"
  proof (cases ?done)
    case None
    then have "\<And>a. x = Some a \<Longrightarrow> \<not> sa_hasResult a" by auto
    note put = putAttempt_contract [OF this]
    show ?thesis
      unfolding None option.case
      by (intro completed.contract_bind [OF effect_contract [OF assms]] completed.contract_then [where Q = "attemptIs k x"]
          completed.contract_then [OF put] completed.contract_return completed.contract_pure) simp_all
  next
    case (Some a)
    show ?thesis unfolding Some option.case Let_def by (rule completed.contract_return) simp
  qed
qed (rule completed.contract_pure, simp)

lemma history_keepsCompleted: "idempotencyHistory s t \<Longrightarrow> keepsCompleted s t"
proof (induction rule: idempotencyHistory.induct)
  case (idem_run s t effect k a)
  then show ?case
    using completed.contract_order [OF run_contract [OF idem_run.hyps(2)], of t k a] completed.R_trans by blast
next
  case (idem_unfinished s t k a flags)
  then show ?case
    using completed.contract_order [OF unfinished_contract, of t k a flags] completed.R_trans by blast
qed (simp_all add: keepsCompleted_def)

text \<open>What a returned run leaves behind.\<close>

lemma run_completed:
  assumes "is_run k a effect s = (Inr r, t)" "ir_result r \<noteq> Null"
  shows "\<exists>x. map_of (ids_records t) k = Some x \<and> sa_hasResult x \<and> sa_result x = ir_result r \<and>
    rg_previousAttemptId (sa_guard x) \<noteq> None"
  using assms
  by (auto simp: is_run_def thenM_def bindM_def readAttempt_def pureM_def putAttempt_def returnM_def
      validateRetryIdempotency_def completedAttempt_def Let_def
      split: sum.splits prod.splits option.splits if_splits)

text \<open>C13. A completed result is reused. If a run under a key has returned a result other than \<open>null\<close>,
  then, whatever runs and attempts follow under any keys, every later run under that key returns that
  very result, marked as reused, without running its effect: nothing of the store or of the world
  changes. The effects of the runs in between may do anything but use the store itself.\<close>

theorem idempotent_replay:
  assumes "is_run k a effect s = (Inr r, s')" "ir_result r \<noteq> Null" "idempotencyHistory s' t" "a' \<noteq> []"
  shows "is_run k a' effect' t = (Inr \<lparr>ir_key = k, ir_reused = True, ir_result = ir_result r\<rparr>, t)"
proof -
  from run_completed [OF assms(1, 2)] obtain x where x: "map_of (ids_records s') k = Some x" "sa_hasResult x"
    "sa_result x = ir_result r" "rg_previousAttemptId (sa_guard x) \<noteq> None" by blast
  then have t: "map_of (ids_records t) k = Some x"
    using history_keepsCompleted [OF assms(3)] by (auto simp: keepsCompleted_def)
  have "k \<noteq> []" using assms(1) by (auto simp: is_run_def thenM_def bindM_def pureM_def requireKeyAndAttempt_def res_simps
        split: sum.splits)
  then show ?thesis
    using t x assms(2, 4)
    by (simp add: is_run_def thenM_def bindM_def readAttempt_def pureM_def requireKeyAndAttempt_def res_simps
        validateRetryIdempotency_def returnM_def Let_def)
qed

definition demoEffect :: "(nat IdempotencyStore, IdempotentEffect) action" where
  "demoEffect s = (Inr \<lparr>ie_result = JString ''v'', ie_providerTaskCreated = False, ie_paidCallCompleted = True,
     ie_artifactWriteCompleted = False\<rparr>, s\<lparr>ids_world := Suc (ids_world s)\<rparr>)"

theorem idempotent_replay_witness:
  "ids_world (snd (is_run ''k'' ''2'' demoEffect (snd (is_run ''k'' ''1'' demoEffect \<lparr>ids_records = [], ids_world = 0\<rparr>)))) = 1"
proof -
  let ?s = "\<lparr>ids_records = [], ids_world = 0\<rparr> :: nat IdempotencyStore"
  let ?s' = "snd (is_run ''k'' ''1'' demoEffect ?s)"
  have run: "is_run ''k'' ''1'' demoEffect ?s =
      (Inr \<lparr>ir_key = ''k'', ir_reused = False, ir_result = JString ''v''\<rparr>, ?s')" "ids_world ?s' = 1"
    by (simp_all add: is_run_def thenM_def bindM_def readAttempt_def pureM_def requireKeyAndAttempt_def res_simps
        demoEffect_def putAttempt_def returnM_def)
  show ?thesis
    using idempotent_replay [OF run(1) _ idem_start, of "''2''" demoEffect] run(2) by simp
qed

text \<open>The guard of an unfinished attempt is checked only after the effect has run: a retry that pays again
  has paid when it is refused.\<close>

theorem duplicate_refused_after_effect:
  assumes "map_of (ids_records s) k = Some x" "\<not> sa_hasResult x" "rg_paidCallCompleted (sa_guard x)"
    and "effect s = (Inr produced, t)" "ie_paidCallCompleted produced" "k \<noteq> []" "a \<noteq> []"
    and "\<not> rg_providerTaskCreated (sa_guard x)"
  shows "is_run k a effect s =
    (Inl (ThrownError (JsError ''Paid upstream call already completed for this idempotency key; retry must not re-bill'')), t)"
  using assms
  by (simp add: is_run_def thenM_def bindM_def readAttempt_def pureM_def requireKeyAndAttempt_def res_simps
      checkNotDuplicated_def Let_def noGuard_def validateProviderTaskNotDuplicated_def validatePaidCallNotDuplicated_def)

section \<open>Blobs\<close>

inductive blobStorage :: "(8 word list \<Rightarrow> string) \<Rightarrow> InMemoryBlobStorage \<Rightarrow> bool" for sha256 where
  blob_start: "blobStorage sha256 []"
| blob_store: "blobStorage sha256 m \<Longrightarrow> blobStorage sha256 (snd (ias_storeBlob sha256 tenant owner hash bytes m))"
| blob_load: "blobStorage sha256 m \<Longrightarrow> blobStorage sha256 (snd (ias_loadBlob tenant owner hash m))"
| blob_delete: "blobStorage sha256 m \<Longrightarrow> blobStorage sha256 (snd (ias_deleteBlob tenant owner hash m))"

lemma blobKey_hash:
  assumes "blobKey t p h = blobKey t' p' h'" "CHR '':'' \<notin> set h" "CHR '':'' \<notin> set h'" shows "h = h'"
proof -
  have "takeWhile (\<lambda>c. c \<noteq> CHR '':'') (rev (blobKey u q g)) = rev g" if "CHR '':'' \<notin> set g" for u q g
    using that by (auto simp: blobKey_def takeWhile_append)
  from this [OF assms(2), of t p] this [OF assms(3), of t' p'] show ?thesis using assms(1) by simp
qed

lemma blobs_hashed:
  assumes "blobStorage sha256 m" "\<And>x. CHR '':'' \<notin> set (sha256 x)"
    and "map_of m (blobKey tenant owner hash) = Some bytes" "CHR '':'' \<notin> set hash"
  shows "sha256 bytes = hash"
  using assms(1, 3)
proof (induction rule: blobStorage.induct)
  case (blob_store m tenant' owner' hash' bytes')
  then show ?case
    using blobKey_hash [of tenant' owner' hash' tenant owner hash] assms(2) [of bytes'] assms(4)
    by (auto simp: ias_storeBlob_def thenM_def bindM_def pureM_def res_simps split: sum.splits if_splits)
next
  case (blob_load m tenant' owner' hash')
  then show ?case by (auto simp: ias_loadBlob_def throwM_def split: option.splits)
next
  case (blob_delete m tenant' owner' hash')
  then show ?case by (auto simp: ias_deleteBlob_def delete_conv' split: if_splits)
qed simp

text \<open>The blob storage returns only content with the hash that was asked for. In every state that
  the operations of the storage lead to, a load under a content hash (which is hexadecimal, so without
  a colon) returns bytes with that very hash and changes nothing, and after a store that returned, the
  same tenant and owner load exactly the bytes stored.\<close>

theorem blob_content_checked:
  assumes "blobStorage sha256 m" "\<And>x. CHR '':'' \<notin> set (sha256 x)"
  shows "(\<forall>tenant owner hash bytes m'. ias_loadBlob tenant owner hash m = (Inr bytes, m') \<and> CHR '':'' \<notin> set hash \<longrightarrow>
      sha256 bytes = hash \<and> m' = m) \<and>
    (\<forall>tenant owner hash bytes m'. ias_storeBlob sha256 tenant owner hash bytes m = (Inr (), m') \<longrightarrow>
      ias_loadBlob tenant owner hash m' = (Inr bytes, m'))"
proof -
  have "sha256 bytes = hash \<and> m' = m"
    if "ias_loadBlob tenant owner hash m = (Inr bytes, m')" "CHR '':'' \<notin> set hash" for tenant owner hash bytes m'
    using that blobs_hashed [OF assms] by (auto simp: ias_loadBlob_def throwM_def split: option.splits)
  moreover have "ias_loadBlob tenant owner hash m' = (Inr bytes, m')"
    if "ias_storeBlob sha256 tenant owner hash bytes m = (Inr (), m')" for tenant owner hash bytes m'
    using that by (auto simp: ias_storeBlob_def ias_loadBlob_def thenM_def bindM_def pureM_def split: sum.splits)
  ultimately show ?thesis by blast
qed

definition demoHash :: "8 word list \<Rightarrow> string" where "demoHash x = replicate (length x) (CHR ''a'')"

theorem blob_content_checked_witness:
  "fst (ias_loadBlob ''t'' ''o'' ''aa'' (snd (ias_storeBlob demoHash ''t'' ''o'' ''aa'' [1, 2] []))) = Inr [1, 2]"
proof -
  have "fst (ias_storeBlob demoHash ''t'' ''o'' ''aa'' [1, 2] []) = Inr ()" by code_simp
  then have "ias_storeBlob demoHash ''t'' ''o'' ''aa'' [1, 2] [] =
      (Inr (), snd (ias_storeBlob demoHash ''t'' ''o'' ''aa'' [1, 2] []))" by (simp add: prod_eq_iff)
  moreover have "CHR '':'' \<notin> set (demoHash x)" for x by (simp add: demoHash_def)
  ultimately show ?thesis using blob_content_checked [OF blob_start, of demoHash] by auto
qed

text \<open>The parts of a blob's key may contain the colon that joins them: another tenant can have the same key.\<close>

theorem blob_keys_of_two_tenants: "blobKey ''a:b'' ''c'' h = blobKey ''a'' ''b:c'' h"
  by (simp add: blobKey_def)

section \<open>Durable state\<close>

inductive durableStates :: "InMemoryDurableStateStore \<Rightarrow> bool" where
  durable_start: "durableStates []"
| durable_put: "durableStates m \<Longrightarrow> durableStates (snd (dst_put r m))"
| durable_delete: "durableStates m \<Longrightarrow> durableStates (snd (dst_delete k m))"

lemma dst_put_cases:
  "snd (dst_put r m) = m \<or> dst_key r \<noteq> [] \<and> \<not> jlt MAX_INLINE_BYTES (dst_inlineBytes r) \<and>
    (\<forall>ref. dst_ref r = Some ref \<longrightarrow> validateDurableArtifactRef ref = Inr ()) \<and>
    snd (dst_put r m) = AList.update (dst_key r) r m"
proof (cases "fst (dst_put r m)")
  case (Inl e)
  then have "snd (dst_put r m) = m"
    by (auto simp: dst_put_def thenM_def bindM_def pureM_def split: sum.splits)
  then show ?thesis ..
next
  case (Inr u)
  then have "fst (dst_put r m) = Inr ()" by simp
  then have checks: "dst_key r \<noteq> []" "validateDurableState (dst_inlineBytes r) \<lparr>dsp_maxInlineBytes = MAX_INLINE_BYTES\<rparr> = Inr ()"
    "(case dst_ref r of None \<Rightarrow> Inr () | Some ref \<Rightarrow> validateDurableArtifactRef ref) = Inr ()"
    by (auto simp: dst_put_def res_simps dest!: thenM_returns)
  then have "snd (dst_put r m) = AList.update (dst_key r) r m"
    by (simp add: dst_put_def thenM_def bindM_def pureM_def res_simps)
  with checks show ?thesis by (auto simp: validateDurableState_def res_simps)
qed

text \<open>The store of durable state holds small records only: in every state that puts and deletes lead
  to, a record has its key, which is not empty, its inline size is not above the limit (unless it is
  not a number), and its reference, if it has one, is complete.\<close>

theorem durable_state_small:
  assumes "durableStates m" "dst_get m k = Some r"
  shows "dst_key r = k \<and> k \<noteq> [] \<and> \<not> jlt MAX_INLINE_BYTES (dst_inlineBytes r) \<and>
    (\<forall>ref. dst_ref r = Some ref \<longrightarrow> validateDurableArtifactRef ref = Inr ())"
  using assms
proof (induction rule: durableStates.induct)
  case (durable_put m r')
  then show ?case using dst_put_cases [of r' m] by (auto simp: dst_get_def split: if_splits)
next
  case (durable_delete m k')
  then show ?case by (auto simp: dst_delete_def dst_get_def delete_conv' split: if_splits)
qed (simp add: dst_get_def)

theorem durable_state_small_witness:
  "\<not> jlt MAX_INLINE_BYTES (jint 4096)"
proof -
  let ?r = "\<lparr>dst_key = ''k'', dst_inlineBytes = jint 4096, dst_ref = None\<rparr>"
  have "dst_get (snd (dst_put ?r [])) ''k'' = Some ?r"
    by (simp add: dst_get_def dst_put_def thenM_def bindM_def pureM_def validateDurableState_def throwIf_def
        MAX_INLINE_BYTES_def)
  from durable_state_small [OF durable_put [OF durable_start] this] show ?thesis by simp
qed

end
