(* ===== verification/RequestLimits.thy ===== *)
theory RequestLimits
  imports JsActions "HOL-Library.AList"
begin

text \<open>
  \<^verbatim>\<open>src/core/limits.ts\<close>: deadlines, the limiter of concurrent requests and the cut of a text to a number of
  characters. The limiter is a state with the calls of \<open>acquire\<close> as tickets: a promise is settled by
  adding the ticket to \<open>lw_settled\<close>; the release function of a granted call is its entry in
  \<open>lw_releases\<close>, with the flag \<open>released\<close> of its closure. The events are calls of \<open>acquire\<close> and of
  release functions, timers that fire and signals that abort.
\<close>

section \<open>Deadlines\<close>

definition deadlineError :: "string \<Rightarrow> string \<Rightarrow> exn" where
  "deadlineError stage m = GroundlaneError DEADLINE_EXCEEDED stage m True None"

definition cancelledAt :: "string \<Rightarrow> string \<Rightarrow> exn" where
  "cancelledAt stage m = GroundlaneError CANCELLED stage m False None"

text \<open>A deadline is its \<open>expiresAt\<close>, on the clock \<open>performance.now()\<close>, whose reading is \<open>now\<close>.\<close>

definition newDeadline :: "jsnum \<Rightarrow> jsnum \<Rightarrow> jsnum res" where
  "newDeadline timeoutMs now =
     andThen (throwIf (\<not> isFinite timeoutMs \<or> jle timeoutMs (jint 0))
       (GroundlaneError INVALID_INPUT ''deadline'' ''Timeout must be a positive number'' False None))
     (Inr (jadd now timeoutMs))"

definition remainingMs :: "jsnum \<Rightarrow> string \<Rightarrow> jsnum \<Rightarrow> jsnum res" where
  "remainingMs expiresAt stage now =
     (let remaining = jneg (jfloor (jneg (jsub expiresAt now)))
      in andThen (throwIf (jle remaining (jint 0)) (deadlineError stage ''The request deadline was exceeded''))
        (Inr remaining))"

text \<open>What settles \<open>Promise.race\<close> in \<open>withinDeadline\<close>: the operation while the controller has not aborted,
  or anything after it has aborted, with the reason of the abort.\<close>

datatype 'a raceEnd = OperationDone "'a tres" | ControllerAborted thrown

definition withinDeadline :: "jsnum \<Rightarrow> bool \<Rightarrow> string \<Rightarrow> jsnum \<Rightarrow> jsnum \<Rightarrow> 'a raceEnd \<Rightarrow> 'a tres" where
  "withinDeadline expiresAt parentAborted stage now1 now2 race =
     (case remainingMs expiresAt stage now1 of
        Inl e \<Rightarrow> Inl (ThrownError e)
      | Inr _ \<Rightarrow>
          if parentAborted then Inl (ThrownError (cancelledAt stage ''The request was cancelled''))
          else (case remainingMs expiresAt stage now2 of
              Inl e \<Rightarrow> Inl (ThrownError e)
            | Inr _ \<Rightarrow> (case race of
                  OperationDone r \<Rightarrow> r
                | ControllerAborted reason \<Rightarrow> (case reason of
                      ThrownError (GroundlaneError c s m r h) \<Rightarrow> Inl reason
                    | _ \<Rightarrow> Inl (ThrownError (cancelledAt stage ''The request was cancelled''))))))"

section \<open>The concurrency limiter\<close>

record ConcurrencyLimiter =
  cl_limit :: nat
  cl_maxQueue :: nat
  cl_activeCount :: int
  cl_queue :: "nat list"

datatype acquireOutcome = Granted | Refused exn

record limiter_world = ConcurrencyLimiter +
  lw_releases :: "(nat \<times> bool) list"
  lw_settled :: "(nat \<times> acquireOutcome) list"

definition newLimiter :: "jsnum \<Rightarrow> jsnum \<Rightarrow> limiter_world res" where
  "newLimiter limit maxQueue =
     andThen (throwIf (\<not> isInteger limit \<or> jlt limit (jint 1) \<or> \<not> isInteger maxQueue \<or> jlt maxQueue (jint 0))
       (GroundlaneError INVALID_INPUT ''concurrency'' ''Concurrency limits must be non-negative integers'' False None))
     (Inr \<lparr>cl_limit = nat (toInt limit), cl_maxQueue = nat (toInt maxQueue), cl_activeCount = 0, cl_queue = [],
        lw_releases = [], lw_settled = []\<rparr>)"

definition settleCall :: "nat \<Rightarrow> acquireOutcome \<Rightarrow> limiter_world \<Rightarrow> limiter_world" where
  "settleCall t x w = w\<lparr>lw_settled := lw_settled w @ [(t, x)]\<rparr>"

text \<open>\<open>resolve(this.releaseFactory())\<close>.\<close>

definition releaseFactory :: "nat \<Rightarrow> limiter_world \<Rightarrow> limiter_world" where
  "releaseFactory t w = settleCall t Granted (w\<lparr>lw_releases := (t, False) # lw_releases w\<rparr>)"

text \<open>The remaining time is read only to arm the timer; if that throws, the promise is rejected.\<close>

definition lim_acquire :: "nat \<Rightarrow> bool \<Rightarrow> jsnum res \<Rightarrow> limiter_world \<Rightarrow> limiter_world" where
  "lim_acquire t aborted remaining w =
     (if aborted then settleCall t (Refused (cancelledAt ''queue'' ''The request was cancelled'')) w
      else if cl_activeCount w < int (cl_limit w)
      then releaseFactory t (w\<lparr>cl_activeCount := cl_activeCount w + 1\<rparr>)
      else if length (cl_queue w) \<ge> cl_maxQueue w
      then settleCall t (Refused (GroundlaneError CONCURRENCY_LIMIT ''queue'' ''The request queue is full'' True None)) w
      else (case remaining of
          Inl e \<Rightarrow> settleCall t (Refused e) w
        | Inr _ \<Rightarrow> w\<lparr>cl_queue := cl_queue w @ [t]\<rparr>))"

definition lim_remove :: "nat \<Rightarrow> exn \<Rightarrow> limiter_world \<Rightarrow> limiter_world" where
  "lim_remove t e w =
     (if t \<notin> set (cl_queue w) then w
      else settleCall t (Refused e) (w\<lparr>cl_queue := remove1 t (cl_queue w)\<rparr>))"

definition lim_timeout :: "nat \<Rightarrow> limiter_world \<Rightarrow> limiter_world" where
  "lim_timeout t = lim_remove t (deadlineError ''queue'' ''The request deadline was exceeded while queued'')"

definition lim_abort :: "nat \<Rightarrow> limiter_world \<Rightarrow> limiter_world" where
  "lim_abort t = lim_remove t (cancelledAt ''queue'' ''The request was cancelled while queued'')"

definition lim_release :: "nat \<Rightarrow> limiter_world \<Rightarrow> limiter_world" where
  "lim_release t w =
     (case map_of (lw_releases w) t of
        Some False \<Rightarrow>
          (let w' = w\<lparr>lw_releases := AList.update t True (lw_releases w)\<rparr>
           in case cl_queue w' of
                [] \<Rightarrow> w'\<lparr>cl_activeCount := cl_activeCount w' - 1\<rparr>
              | next # rest \<Rightarrow> releaseFactory next (w'\<lparr>cl_queue := rest\<rparr>))
      | _ \<Rightarrow> w)"

text \<open>Every call of \<open>acquire\<close> is a new ticket.\<close>

definition freshTicket :: "nat \<Rightarrow> limiter_world \<Rightarrow> bool" where
  "freshTicket t w \<longleftrightarrow> t \<notin> set (cl_queue w) \<and> t \<notin> fst ` set (lw_settled w)"

inductive limiterStep :: "limiter_world \<Rightarrow> limiter_world \<Rightarrow> bool" where
  step_acquire: "freshTicket t w \<Longrightarrow> limiterStep w (lim_acquire t aborted remaining w)"
| step_timeout: "limiterStep w (lim_timeout t w)"
| step_abort: "limiterStep w (lim_abort t w)"
| step_release: "limiterStep w (lim_release t w)"

inductive limiterReachable :: "nat \<Rightarrow> nat \<Rightarrow> limiter_world \<Rightarrow> bool" for limit maxQueue where
  limiter_start: "newLimiter (jint (int limit)) (jint (int maxQueue)) = Inr w \<Longrightarrow> limiterReachable limit maxQueue w"
| limiter_step: "limiterReachable limit maxQueue w \<Longrightarrow> limiterStep w w' \<Longrightarrow> limiterReachable limit maxQueue w'"

section \<open>Texts\<close>

record truncatedText =
  tt_value :: string
  tt_truncated :: bool
  tt_originalLength :: nat
  tt_returnedLength :: int

definition truncateUnicode :: "string \<Rightarrow> jsnum \<Rightarrow> truncatedText res" where
  "truncateUnicode value maxChars =
     andThen (throwIf (\<not> isInteger maxChars \<or> jlt maxChars (jint 0))
       (GroundlaneError INVALID_INPUT ''output'' ''Character limit must be a non-negative integer'' False None))
     (Inr \<lparr>tt_value = take (nat (toInt maxChars)) value,
        tt_truncated = (int (length value) > toInt maxChars),
        tt_originalLength = length value, tt_returnedLength = min (int (length value)) (toInt maxChars)\<rparr>)"

end
