(* ===== verification/RequestLimitsProperties.thy ===== *)
theory RequestLimitsProperties
  imports RequestLimits
begin

text \<open>
  Properties of the concurrency limiter in every interleaving of its events, and of deadlines.
\<close>

section \<open>The invariant\<close>

text \<open>The calls that hold a permit: granted and not released.\<close>

definition holders :: "limiter_world \<Rightarrow> nat list" where
  "holders w = map fst (filter (\<lambda>r. \<not> snd r) (lw_releases w))"

definition limiterOk :: "limiter_world \<Rightarrow> bool" where
  "limiterOk w \<longleftrightarrow> 1 \<le> cl_limit w \<and> cl_activeCount w = int (length (holders w)) \<and>
     length (holders w) \<le> cl_limit w \<and> length (cl_queue w) \<le> cl_maxQueue w \<and>
     (cl_queue w \<noteq> [] \<longrightarrow> length (holders w) = cl_limit w) \<and>
     distinct (cl_queue w @ map fst (lw_settled w)) \<and> distinct (map fst (lw_releases w)) \<and>
     fst ` set (lw_releases w) = {t. (t, Granted) \<in> set (lw_settled w)}"

lemma holders_simps [simp]:
  "holders (w\<lparr>cl_queue := q\<rparr>) = holders w" "holders (w\<lparr>cl_activeCount := n\<rparr>) = holders w"
  "holders (settleCall t x w) = holders w" "holders (releaseFactory t w) = t # holders w"
  by (simp_all add: holders_def settleCall_def releaseFactory_def)

lemma grant_fields:
  "cl_limit (releaseFactory t w) = cl_limit w" "cl_maxQueue (releaseFactory t w) = cl_maxQueue w"
  "cl_activeCount (releaseFactory t w) = cl_activeCount w" "cl_queue (releaseFactory t w) = cl_queue w"
  "lw_releases (releaseFactory t w) = (t, False) # lw_releases w"
  "lw_settled (releaseFactory t w) = lw_settled w @ [(t, Granted)]"
  by (simp_all add: releaseFactory_def settleCall_def)

lemma holders_released:
  "distinct (map fst rs) \<Longrightarrow> map_of rs t = Some False \<Longrightarrow>
    length (filter (\<lambda>r. \<not> snd r) rs) = Suc (length (filter (\<lambda>r. \<not> snd r) (AList.update t True rs)))"
proof (induction rs)
  case (Cons r rs)
  show ?case
  proof (cases "fst r = t")
    case True
    then show ?thesis using Cons.prems by (cases r) auto
  next
    case False
    then show ?thesis using Cons by (cases r) (auto split: if_splits)
  qed
qed simp

lemma settle_ok:
  assumes "limiterOk w" "freshTicket t w" shows "limiterOk (settleCall t (Refused e) w)"
  using assms unfolding limiterOk_def by (auto simp: settleCall_def freshTicket_def holders_def)

lemma acquire_ok:
  assumes ok: "limiterOk w" and t: "freshTicket t w" shows "limiterOk (lim_acquire t aborted remaining w)"
proof -
  have new: "t \<notin> fst ` set (lw_settled w)" "t \<notin> set (cl_queue w)" using t by (simp_all add: freshTicket_def)
  then have rel: "t \<notin> fst ` set (lw_releases w)" using ok by (force simp: limiterOk_def)
  have grant: "limiterOk (releaseFactory t (w\<lparr>cl_activeCount := cl_activeCount w + 1\<rparr>))"
    if "cl_activeCount w < int (cl_limit w)"
  proof -
    have "cl_queue w = []" using ok that by (auto simp: limiterOk_def)
    moreover have "fst ` set ((t, False) # lw_releases w) = {u. (u, Granted) \<in> set (lw_settled w @ [(t, Granted)])}"
      using ok unfolding limiterOk_def by auto
    ultimately show ?thesis using ok new(1) rel that by (simp add: limiterOk_def grant_fields)
  qed
  have wait: "limiterOk (w\<lparr>cl_queue := cl_queue w @ [t]\<rparr>)"
    if "\<not> cl_activeCount w < int (cl_limit w)" "\<not> cl_maxQueue w \<le> length (cl_queue w)"
    using ok t that unfolding limiterOk_def by (auto simp: freshTicket_def)
  show ?thesis
    using settle_ok [OF ok t] grant wait by (auto simp: lim_acquire_def split: sum.split)
qed

lemma remove_ok: "limiterOk w \<Longrightarrow> limiterOk (lim_remove t e w)"
  unfolding limiterOk_def lim_remove_def settleCall_def
  by (auto simp: holders_def length_remove1 distinct_remove1 set_remove1_eq dest: notin_set_remove1)

lemma permit_release_ok:
  assumes ok: "limiterOk w" shows "limiterOk (lim_release t w)"
proof (cases "map_of (lw_releases w) t = Some False")
  case True
  let ?rs = "AList.update t True (lw_releases w)"
  have t: "t \<in> fst ` set (lw_releases w)" using True by (force dest: map_of_SomeD)
  have rs: "distinct (map fst ?rs)" "fst ` set ?rs = fst ` set (lw_releases w)"
    using ok t by (auto simp: limiterOk_def distinct_update dom_update)
  have n: "length (holders w) = Suc (length (filter (\<lambda>r. \<not> snd r) ?rs))"
    using holders_released [OF _ True] ok by (simp add: holders_def limiterOk_def)
  show ?thesis
  proof (cases "cl_queue w")
    case Nil
    then show ?thesis using ok True n rs
      by (auto simp: lim_release_def limiterOk_def holders_def Let_def)
  next
    case (Cons u q)
    have "u \<notin> fst ` set (lw_releases w)" using ok Cons by (force simp: limiterOk_def)
    then show ?thesis using ok True n rs Cons
      unfolding limiterOk_def
      by (auto simp: lim_release_def Let_def releaseFactory_def settleCall_def holders_def)
  qed
qed (use ok in \<open>auto simp: lim_release_def split: option.split bool.split\<close>)

lemma limiterStep_ok: "limiterStep w w' \<Longrightarrow> limiterOk w \<Longrightarrow> limiterOk w'"
  by (induction rule: limiterStep.induct) (auto simp: lim_timeout_def lim_abort_def intro: acquire_ok remove_ok permit_release_ok)

lemma limiter_kept:
  "cl_limit (settleCall t x w) = cl_limit w" "cl_maxQueue (settleCall t x w) = cl_maxQueue w"
  "cl_limit (releaseFactory t w) = cl_limit w" "cl_maxQueue (releaseFactory t w) = cl_maxQueue w"
  by (simp_all add: settleCall_def releaseFactory_def)

lemma limiterStep_bounds: "limiterStep w w' \<Longrightarrow> cl_limit w' = cl_limit w \<and> cl_maxQueue w' = cl_maxQueue w"
  by (induction rule: limiterStep.induct)
    (auto simp: lim_acquire_def lim_timeout_def lim_abort_def lim_remove_def lim_release_def limiter_kept Let_def
      split: sum.split option.split bool.split list.split)

lemma reachable_limiterOk:
  "limiterReachable limit maxQueue w \<Longrightarrow> limiterOk w \<and> cl_limit w = limit \<and> cl_maxQueue w = maxQueue"
proof (induction rule: limiterReachable.induct)
  case (limiter_start w)
  then show ?case by (auto simp: newLimiter_def res_simps limiterOk_def holders_def)
next
  case (limiter_step w w')
  then show ?case using limiterStep_ok limiterStep_bounds by metis
qed

text \<open>C35. The limiter bounds the concurrent requests and never loses a permit. Whatever calls, timeouts,
  aborts and releases (repeated ones included) happen in whatever order: at most \<open>limit\<close> calls hold a
  permit, and \<open>activeCount\<close> is exactly their number; at most \<open>maxQueue\<close> calls wait; calls wait only
  while all permits are held; and no call is settled twice or settled while it waits.\<close>

theorem limiter_sound:
  assumes "limiterReachable limit maxQueue w"
  shows "cl_activeCount w = int (length (holders w)) \<and> length (holders w) \<le> limit \<and>
    length (cl_queue w) \<le> maxQueue \<and> (cl_queue w \<noteq> [] \<longrightarrow> length (holders w) = limit) \<and>
    distinct (map fst (lw_settled w)) \<and> set (cl_queue w) \<inter> fst ` set (lw_settled w) = {} \<and>
    (\<forall>t. t \<in> set (holders w) \<longrightarrow> (t, Granted) \<in> set (lw_settled w))"
proof -
  have "limiterOk w" "cl_limit w = limit" "cl_maxQueue w = maxQueue" using reachable_limiterOk [OF assms] by simp_all
  moreover have "set (holders w) \<subseteq> fst ` set (lw_releases w)" by (auto simp: holders_def)
  ultimately show ?thesis unfolding limiterOk_def by auto
qed

section \<open>Progress\<close>

text \<open>Releases one after the other, each of a permit that is held then.\<close>

fun heldReleases :: "nat list \<Rightarrow> limiter_world \<Rightarrow> bool" where
  "heldReleases [] w = True"
| "heldReleases (h # hs) w \<longleftrightarrow> h \<in> set (holders w) \<and> heldReleases hs (lim_release h w)"

lemma release_held:
  assumes "limiterOk w" "h \<in> set (holders w)" "cl_queue w = u # q"
  shows "cl_queue (lim_release h w) = q" "(u, Granted) \<in> set (lw_settled (lim_release h w))"
    "set (lw_settled w) \<subseteq> set (lw_settled (lim_release h w))"
proof -
  have "map_of (lw_releases w) h = Some False"
    using assms(1, 2) by (auto simp: limiterOk_def holders_def)
  then show "cl_queue (lim_release h w) = q" "(u, Granted) \<in> set (lw_settled (lim_release h w))"
    "set (lw_settled w) \<subseteq> set (lw_settled (lim_release h w))"
    using assms(3) by (auto simp: lim_release_def Let_def releaseFactory_def settleCall_def)
qed

lemma release_settled: "set (lw_settled w) \<subseteq> set (lw_settled (lim_release h w))"
  by (auto simp: lim_release_def Let_def releaseFactory_def settleCall_def split: option.split bool.split list.split)

lemma releases_settled: "set (lw_settled w) \<subseteq> set (lw_settled (fold lim_release hs w))"
  by (induction hs arbitrary: w) (use release_settled in \<open>auto, blast\<close>)

lemma releases_grant:
  "limiterOk w \<Longrightarrow> heldReleases hs w \<Longrightarrow> i < length hs \<Longrightarrow> i < length (cl_queue w) \<Longrightarrow>
    (cl_queue w ! i, Granted) \<in> set (lw_settled (fold lim_release hs w))"
proof (induction hs arbitrary: w i)
  case (Cons h hs)
  from Cons.prems obtain u q where q: "cl_queue w = u # q" by (cases "cl_queue w") auto
  note step = release_held [OF Cons.prems(1) _ q, of h]
  show ?case
  proof (cases i)
    case 0
    then show ?thesis using step(2) releases_settled [of "lim_release h w" hs] Cons.prems(2) q by auto
  next
    case (Suc j)
    then show ?thesis
      using Cons.IH [OF permit_release_ok [OF Cons.prems(1)], of h j] Cons.prems step(1) q by simp
  qed
qed simp

text \<open>C36. Waiting calls are served in order as permits are released. While a call waits some permit is
  held, and once as many held permits have been released as its position in the queue says, it has
  been granted its own.\<close>

theorem limiter_serves_waiting:
  assumes "limiterReachable limit maxQueue w" "i < length (cl_queue w)"
  shows "holders w \<noteq> [] \<and> (\<forall>hs. heldReleases hs w \<and> i < length hs \<longrightarrow>
    (cl_queue w ! i, Granted) \<in> set (lw_settled (fold lim_release hs w)))"
proof -
  have ok: "limiterOk w" using reachable_limiterOk [OF assms(1)] by simp
  then have "holders w \<noteq> []" using assms(2) by (auto simp: limiterOk_def)
  with releases_grant [OF ok] assms(2) show ?thesis by blast
qed

section \<open>Witnesses\<close>

definition demoLimiter :: limiter_world where
  "demoLimiter = lim_acquire 1 False (Inr (jint 5)) (lim_acquire 0 False (Inr (jint 5))
     (\<lparr>cl_limit = 1, cl_maxQueue = 1, cl_activeCount = 0, cl_queue = [], lw_releases = [], lw_settled = []\<rparr>))"

lemma demoLimiter_reachable: "limiterReachable 1 1 demoLimiter"
proof -
  have "newLimiter (jint (int 1)) (jint (int 1)) = Inr (\<lparr>cl_limit = 1, cl_maxQueue = 1, cl_activeCount = 0, cl_queue = [],
      lw_releases = [], lw_settled = []\<rparr> :: limiter_world)"
    by (simp add: newLimiter_def res_simps)
  then show ?thesis unfolding demoLimiter_def
    by (rule limiter_step [OF limiter_step [OF limiter_start step_acquire] step_acquire])
      (simp_all add: freshTicket_def lim_acquire_def releaseFactory_def settleCall_def)
qed

lemma demoLimiter_parts: "cl_queue demoLimiter = [1]" "holders demoLimiter = [0]"
  by (simp_all add: demoLimiter_def lim_acquire_def releaseFactory_def settleCall_def holders_def)

theorem limiter_sound_witness: "cl_activeCount demoLimiter = 1 \<and> cl_queue demoLimiter = [1]"
  using limiter_sound [OF demoLimiter_reachable] by (simp add: demoLimiter_parts)

theorem limiter_serves_waiting_witness: "(1, Granted) \<in> set (lw_settled (lim_release 0 demoLimiter))"
proof -
  have "heldReleases [0] demoLimiter" by (simp add: demoLimiter_parts)
  moreover have "0 < length (cl_queue demoLimiter)" by (simp add: demoLimiter_parts)
  from limiter_serves_waiting [OF demoLimiter_reachable this]
  have "heldReleases [0] demoLimiter \<and> 0 < length [0 :: nat] \<longrightarrow>
      (cl_queue demoLimiter ! 0, Granted) \<in> set (lw_settled (fold lim_release [0] demoLimiter))" by blast
  ultimately show ?thesis by (simp add: demoLimiter_parts)
qed

end
