(* ===== verification/CanonicalDocument.thy ===== *)
theory CanonicalDocument
  imports JsonFields "HOL-Library.Sublist"
begin

text \<open>
  \<^verbatim>\<open>src/core/canonical-document.ts\<close>: the envelope of a parsed document, its validation, its projections
  to Markdown, text and JSON, the cacheable core and the output bounds. A union type is a datatype, an
  optional property an option. Objects print in JSON with their properties in the order of the
  interface. Rows and columns of table cells are integers. \<open>sha256\<close> is the hash of \<^verbatim>\<open>node:crypto\<close> in
  hexadecimal.
\<close>

section \<open>Blocks\<close>

datatype SourceSpan =
    PageBboxSpan jsnum jsnum jsnum jsnum jsnum string
  | CharOffsetSpan jsnum jsnum string
  | SheetCellSpan string string string string
  | SlideShapeSpan jsnum string string
  | MediaTimeSpan jsnum jsnum string

record TableCell =
  tc_row :: int
  tc_col :: int
  tc_content :: string
  tc_rowSpan :: "int option"
  tc_colSpan :: "int option"

datatype FormulaFormat = Latex | Mathml | PlainFormula

datatype DocumentBlock =
    TextBlock string string "SourceSpan list option"
  | TableBlock string "TableCell list" "SourceSpan list option"
  | AssetBlock string string string "string option" "SourceSpan list option"
  | FormulaBlock string string FormulaFormat "SourceSpan list option"

fun blockId :: "DocumentBlock \<Rightarrow> string" where
  "blockId (TextBlock i _ _) = i"
| "blockId (TableBlock i _ _) = i"
| "blockId (AssetBlock i _ _ _ _) = i"
| "blockId (FormulaBlock i _ _ _) = i"

fun blockSpans :: "DocumentBlock \<Rightarrow> SourceSpan list option" where
  "blockSpans (TextBlock _ _ s) = s"
| "blockSpans (TableBlock _ _ s) = s"
| "blockSpans (AssetBlock _ _ _ _ s) = s"
| "blockSpans (FormulaBlock _ _ _ s) = s"

fun isTable :: "DocumentBlock \<Rightarrow> bool" where
  "isTable (TableBlock _ _ _) = True" | "isTable _ = False"

fun isAsset :: "DocumentBlock \<Rightarrow> bool" where
  "isAsset (AssetBlock _ _ _ _ _) = True" | "isAsset _ = False"

fun isFormula :: "DocumentBlock \<Rightarrow> bool" where
  "isFormula (FormulaBlock _ _ _ _) = True" | "isFormula _ = False"

section \<open>The envelope\<close>

record MetadataRecord =
  md_key :: string
  md_value :: string

record CitationRecord =
  cit_citationId :: string
  cit_label :: string
  cit_target :: string
  cit_blockId :: "string option"

record SourceIdentity =
  si_contentHash :: string
  si_url :: "string option"
  si_filename :: "string option"
  si_artifactRef :: "string option"

record DocumentProvenance =
  dp_engine :: string
  dp_model :: string
  dp_version :: string
  dp_cost :: "jsnum option"
  dp_confidence :: "jsnum option"

datatype DocumentStatus = DocSuccess | DocPartial | DocUnsupported | DocFailed

type_synonym CapabilityStates = "string jsmap"

definition VALID_CAPABILITY_STATES :: "string list" where
  "VALID_CAPABILITY_STATES = [''available'', ''unsupported'', ''not_run'', ''failed'']"

record CanonicalContentCore =
  cc_schemaVersion :: string
  cc_canonicalContentId :: string
  cc_blocks :: "DocumentBlock list"
  cc_readingOrder :: "string list"
  cc_status :: DocumentStatus
  cc_capabilityStates :: CapabilityStates
  cc_warnings :: "string list"
  cc_errors :: "string list"
  cc_provenance :: DocumentProvenance
  cc_metadata :: "MetadataRecord list option"
  cc_citations :: "CitationRecord list option"

record CanonicalDocumentEnvelope = CanonicalContentCore +
  env_documentId :: string
  env_sourceIdentity :: SourceIdentity

definition CANONICAL_SCHEMA_VERSION :: string where "CANONICAL_SCHEMA_VERSION = ''1.0.0''"
definition PROJECTION_VERSION :: string where "PROJECTION_VERSION = ''1.0.0''"

section \<open>Validation\<close>

fun validateSourceSpan :: "SourceSpan \<Rightarrow> unit res" where
  "validateSourceSpan (PageBboxSpan page x y width height contentHash) =
     andThen (throwIf (jlt page (jint 0)) (JsError ''PageBboxSpan page must be non-negative''))
     (andThen (throwIf (jle width (jint 0) \<or> jle height (jint 0))
       (JsError ''PageBboxSpan width and height must be positive''))
     (throwIf (contentHash = []) (JsError ''PageBboxSpan must have a contentHash'')))"
| "validateSourceSpan (CharOffsetSpan start stop contentHash) =
     andThen (throwIf (jlt start (jint 0)) (JsError ''CharOffsetSpan start must be non-negative''))
     (andThen (throwIf (jle stop start) (JsError ''CharOffsetSpan end must be greater than start''))
     (throwIf (contentHash = []) (JsError ''CharOffsetSpan must have a contentHash'')))"
| "validateSourceSpan (SheetCellSpan sheet startCell endCell contentHash) =
     andThen (throwIf (sheet = []) (JsError ''SheetCellSpan must have a sheet name''))
     (andThen (throwIf (startCell = []) (JsError ''SheetCellSpan must have a startCell''))
     (andThen (throwIf (endCell = []) (JsError ''SheetCellSpan must have an endCell''))
     (throwIf (contentHash = []) (JsError ''SheetCellSpan must have a contentHash''))))"
| "validateSourceSpan (SlideShapeSpan slide shapeId contentHash) =
     andThen (throwIf (jlt slide (jint 0)) (JsError ''SlideShapeSpan slide must be non-negative''))
     (andThen (throwIf (shapeId = []) (JsError ''SlideShapeSpan must have a shapeId''))
     (throwIf (contentHash = []) (JsError ''SlideShapeSpan must have a contentHash'')))"
| "validateSourceSpan (MediaTimeSpan startMs endMs contentHash) =
     andThen (throwIf (jlt startMs (jint 0)) (JsError ''MediaTimeSpan startMs must be non-negative''))
     (andThen (throwIf (jle endMs startMs) (JsError ''MediaTimeSpan endMs must be greater than startMs''))
     (throwIf (contentHash = []) (JsError ''MediaTimeSpan must have a contentHash'')))"

text \<open>Text and cells are strings and arrays by their type.\<close>

definition validateBlock :: "DocumentBlock \<Rightarrow> unit res" where
  "validateBlock block =
     andThen (throwIf (blockId block = []) (JsError ''Block must have a non-empty blockId''))
     (andThen (case block of
         AssetBlock i assetRef mimeType _ _ \<Rightarrow>
           andThen (throwIf (assetRef = []) (JsError (''AssetBlock '' @ quoted i @ '' must have an assetRef'')))
             (throwIf (mimeType = []) (JsError (''AssetBlock '' @ quoted i @ '' must have a mimeType'')))
       | FormulaBlock i expression _ _ \<Rightarrow>
           throwIf (expression = []) (JsError (''FormulaBlock '' @ quoted i @ '' must have an expression''))
       | _ \<Rightarrow> Inr ())
     (case blockSpans block of None \<Rightarrow> Inr () | Some spans \<Rightarrow> forEach validateSourceSpan spans))"

definition validateCapabilityState :: "string \<Rightarrow> unit res" where
  "validateCapabilityState state =
     throwIf (state \<notin> set VALID_CAPABILITY_STATES)
       (JsError (''Invalid capability state '' @ quoted state @ ''; must be one of: '' @
          joinWith '', '' VALID_CAPABILITY_STATES))"

fun checkBlocks :: "string list \<Rightarrow> DocumentBlock list \<Rightarrow> string list res" where
  "checkBlocks ids [] = Inr ids"
| "checkBlocks ids (block # blocks) =
     andThen (validateBlock block)
     (andThen (throwIf (blockId block \<in> set ids) (JsError (''Duplicate block ID: '' @ quoted (blockId block))))
       (checkBlocks (ids @ [blockId block]) blocks))"

fun checkReadingOrder :: "string list \<Rightarrow> string list \<Rightarrow> string list \<Rightarrow> string list res" where
  "checkReadingOrder blockIds ordered [] = Inr ordered"
| "checkReadingOrder blockIds ordered (i # ids) =
     andThen (throwIf (i \<notin> set blockIds) (JsError (''Reading order references unknown block ID: '' @ quoted i)))
     (andThen (throwIf (i \<in> set ordered) (JsError (''Reading order duplicates block ID: '' @ quoted i)))
       (checkReadingOrder blockIds (ordered @ [i]) ids))"

definition validateEnvelope :: "CanonicalDocumentEnvelope \<Rightarrow> unit res" where
  "validateEnvelope e =
     (let p = cc_provenance e in
      andThen (throwIf (cc_schemaVersion e = []) (JsError ''Envelope must have a non-empty schemaVersion''))
      (andThen (throwIf (env_documentId e = []) (JsError ''Envelope must have a non-empty documentId''))
      (andThen (throwIf (cc_canonicalContentId e = []) (JsError ''Envelope must have a non-empty canonicalContentId''))
      (andThen (throwIf (si_contentHash (env_sourceIdentity e) = [])
        (JsError ''Envelope sourceIdentity must have a contentHash''))
      (andThen (throwIf (dp_engine p = []) (JsError ''Envelope provenance must include engine''))
      (andThen (throwIf (dp_model p = []) (JsError ''Envelope provenance must include model''))
      (andThen (throwIf (dp_version p = []) (JsError ''Envelope provenance must include version''))
      (andThen (throwIf (case dp_cost p of None \<Rightarrow> False | Some c \<Rightarrow> \<not> isFinite c \<or> jlt c (jint 0))
        (JsError ''Envelope provenance cost must be non-negative''))
      (andThen (throwIf (case dp_confidence p of None \<Rightarrow> False
          | Some c \<Rightarrow> \<not> isFinite c \<or> jlt c (jint 0) \<or> jlt (jint 1) c)
        (JsError ''Envelope provenance confidence must be between 0 and 1''))
      (bindE (checkBlocks [] (cc_blocks e)) (\<lambda>blockIds.
       bindE (checkReadingOrder blockIds [] (cc_readingOrder e)) (\<lambda>orderedIds.
       andThen (throwIf (length orderedIds \<noteq> length blockIds)
         (JsError ''Reading order must include every canonical block''))
         (forEach validateCapabilityState (map snd (cc_capabilityStates e)))))))))))))))"

text \<open>The status over the required capabilities; a state of another name throws at once.\<close>

fun aggregateFlags :: "CapabilityStates \<Rightarrow> bool \<times> bool \<Rightarrow> string list \<Rightarrow> (bool \<times> bool) res" where
  "aggregateFlags states flags [] = Inr flags"
| "aggregateFlags states (unsupported, failed) (cap # caps) =
     (case map_of states cap of
        None \<Rightarrow> aggregateFlags states (unsupported, True) caps
      | Some state \<Rightarrow>
          if state = ''failed'' then aggregateFlags states (unsupported, True) caps
          else if state = ''unsupported'' then aggregateFlags states (True, failed) caps
          else if state = ''available'' \<or> state = ''not_run'' then aggregateFlags states (unsupported, failed) caps
          else Inl (JsError (''Unknown capability state: '' @ quoted state)))"

definition aggregateStatus :: "CapabilityStates \<Rightarrow> string list \<Rightarrow> DocumentStatus res" where
  "aggregateStatus states required =
     bindE (aggregateFlags states (False, False) required) (\<lambda>(unsupported, failed).
       Inr (if failed then DocFailed else if unsupported then DocPartial else DocSuccess))"

section \<open>JSON\<close>

text \<open>An optional property is left out when it is absent.\<close>

definition optProp :: "string \<Rightarrow> ('a \<Rightarrow> js_value) \<Rightarrow> 'a option \<Rightarrow> (string \<times> js_value) list" where
  "optProp k f x = (case x of None \<Rightarrow> [] | Some v \<Rightarrow> [(k, f v)])"

definition jsonStrings :: "string list \<Rightarrow> js_value" where
  "jsonStrings xs = JArray (map JString xs)"

fun spanJson :: "SourceSpan \<Rightarrow> js_value" where
  "spanJson (PageBboxSpan page x y width height h) = JObject [(''kind'', JString ''page-bbox''), (''page'', JNumber page),
     (''x'', JNumber x), (''y'', JNumber y), (''width'', JNumber width), (''height'', JNumber height),
     (''contentHash'', JString h)]"
| "spanJson (CharOffsetSpan start stop h) = JObject [(''kind'', JString ''char-offset''), (''start'', JNumber start),
     (''end'', JNumber stop), (''contentHash'', JString h)]"
| "spanJson (SheetCellSpan sheet a b h) = JObject [(''kind'', JString ''sheet-cell''), (''sheet'', JString sheet),
     (''startCell'', JString a), (''endCell'', JString b), (''contentHash'', JString h)]"
| "spanJson (SlideShapeSpan slide shape h) = JObject [(''kind'', JString ''slide-shape''), (''slide'', JNumber slide),
     (''shapeId'', JString shape), (''contentHash'', JString h)]"
| "spanJson (MediaTimeSpan a b h) = JObject [(''kind'', JString ''media-time''), (''startMs'', JNumber a),
     (''endMs'', JNumber b), (''contentHash'', JString h)]"

definition cellJson :: "TableCell \<Rightarrow> js_value" where
  "cellJson c = JObject ([(''row'', JNumber (jint (tc_row c))), (''col'', JNumber (jint (tc_col c))),
     (''content'', JString (tc_content c))] @ optProp ''rowSpan'' (JNumber \<circ> jint) (tc_rowSpan c) @
     optProp ''colSpan'' (JNumber \<circ> jint) (tc_colSpan c))"

fun formatName :: "FormulaFormat \<Rightarrow> string" where
  "formatName Latex = ''latex''" | "formatName Mathml = ''mathml''" | "formatName PlainFormula = ''plain''"

definition spansProp :: "SourceSpan list option \<Rightarrow> (string \<times> js_value) list" where
  "spansProp = optProp ''spans'' (\<lambda>ss. JArray (map spanJson ss))"

fun blockJson :: "DocumentBlock \<Rightarrow> js_value" where
  "blockJson (TextBlock i content spans) = JObject ([(''type'', JString ''text''), (''blockId'', JString i),
     (''content'', JString content)] @ spansProp spans)"
| "blockJson (TableBlock i cells spans) = JObject ([(''type'', JString ''table''), (''blockId'', JString i),
     (''cells'', JArray (map cellJson cells))] @ spansProp spans)"
| "blockJson (AssetBlock i assetRef mimeType altText spans) = JObject ([(''type'', JString ''asset''),
     (''blockId'', JString i), (''assetRef'', JString assetRef), (''mimeType'', JString mimeType)] @
     optProp ''altText'' JString altText @ spansProp spans)"
| "blockJson (FormulaBlock i expression fmt spans) = JObject ([(''type'', JString ''formula''),
     (''blockId'', JString i), (''expression'', JString expression), (''format'', JString (formatName fmt))] @
     spansProp spans)"

definition blocksJson :: "DocumentBlock list \<Rightarrow> js_value" where
  "blocksJson blocks = JArray (map blockJson blocks)"

fun statusName :: "DocumentStatus \<Rightarrow> string" where
  "statusName DocSuccess = ''success''" | "statusName DocPartial = ''partial''"
| "statusName DocUnsupported = ''unsupported''" | "statusName DocFailed = ''failed''"

definition nullableNumber :: "jsnum option \<Rightarrow> js_value" where
  "nullableNumber n = (case n of None \<Rightarrow> Null | Some k \<Rightarrow> JNumber k)"

definition provenanceJson :: "DocumentProvenance \<Rightarrow> js_value" where
  "provenanceJson p = JObject [(''engine'', JString (dp_engine p)), (''model'', JString (dp_model p)),
     (''version'', JString (dp_version p)), (''cost'', nullableNumber (dp_cost p)),
     (''confidence'', nullableNumber (dp_confidence p))]"

definition metadataJson :: "MetadataRecord \<Rightarrow> js_value" where
  "metadataJson m = JObject [(''key'', JString (md_key m)), (''value'', JString (md_value m))]"

definition citationJson :: "CitationRecord \<Rightarrow> js_value" where
  "citationJson c = JObject ([(''citationId'', JString (cit_citationId c)), (''label'', JString (cit_label c)),
     (''target'', JString (cit_target c))] @ optProp ''blockId'' JString (cit_blockId c))"

definition coreJson :: "CanonicalContentCore \<Rightarrow> js_value" where
  "coreJson c = JObject ([(''schemaVersion'', JString (cc_schemaVersion c)),
     (''canonicalContentId'', JString (cc_canonicalContentId c)), (''blocks'', blocksJson (cc_blocks c)),
     (''readingOrder'', jsonStrings (cc_readingOrder c)), (''status'', JString (statusName (cc_status c))),
     (''capabilityStates'', JObject (map (\<lambda>(k, v). (k, JString v)) (cc_capabilityStates c))),
     (''warnings'', jsonStrings (cc_warnings c)), (''errors'', jsonStrings (cc_errors c)),
     (''provenance'', provenanceJson (cc_provenance c))] @
     optProp ''metadata'' (\<lambda>ms. JArray (map metadataJson ms)) (cc_metadata c) @
     optProp ''citations'' (\<lambda>cs. JArray (map citationJson cs)) (cc_citations c))"

section \<open>The core and the source binding\<close>

definition extractContentCore :: "CanonicalDocumentEnvelope \<Rightarrow> CanonicalContentCore" where
  "extractContentCore e = \<lparr>cc_schemaVersion = cc_schemaVersion e, cc_canonicalContentId = cc_canonicalContentId e,
     cc_blocks = cc_blocks e, cc_readingOrder = cc_readingOrder e, cc_status = cc_status e,
     cc_capabilityStates = cc_capabilityStates e, cc_warnings = cc_warnings e, cc_errors = cc_errors e,
     cc_provenance = cc_provenance e, cc_metadata = cc_metadata e, cc_citations = cc_citations e\<rparr>"

definition computeContentHash :: "(string \<Rightarrow> string) \<Rightarrow> DocumentBlock list \<Rightarrow> string" where
  "computeContentHash sha256 blocks = sha256 (jsonText (blocksJson blocks))"

definition rebuildSourceBinding :: "CanonicalContentCore \<Rightarrow> SourceIdentity \<Rightarrow> string \<Rightarrow> CanonicalDocumentEnvelope" where
  "rebuildSourceBinding core sourceIdentity documentId =
     CanonicalContentCore.extend core \<lparr>env_documentId = documentId, env_sourceIdentity = sourceIdentity\<rparr>"

definition includesText :: "string \<Rightarrow> string \<Rightarrow> bool" where
  "includesText s x \<longleftrightarrow> list_ex (\<lambda>t. prefix x t) (suffixes s)"

definition extractCacheableCore :: "CanonicalDocumentEnvelope \<Rightarrow> CanonicalContentCore res" where
  "extractCacheableCore e =
     (let core = extractContentCore e; serialized = jsonText (coreJson core); identity = env_sourceIdentity e
      in andThen (forEach (\<lambda>secret. throwIf (case secret of None \<Rightarrow> False
            | Some s \<Rightarrow> s \<noteq> [] \<and> includesText serialized s)
          (JsError ''Cacheable core must not contain source-specific identity''))
          [si_url identity, si_filename identity, si_artifactRef identity])
        (Inr core))"

definition rebuildEnvelopeFromCacheHit :: "CanonicalContentCore \<Rightarrow> SourceIdentity \<Rightarrow> string \<Rightarrow>
    CanonicalDocumentEnvelope res" where
  "rebuildEnvelopeFromCacheHit core sourceIdentity documentId =
     (let e = rebuildSourceBinding core sourceIdentity documentId in andThen (validateEnvelope e) (Inr e))"

section \<open>Building from an adapter\<close>

definition ADAPTER_FORBIDDEN_RAW_KEYS :: "string list" where
  "ADAPTER_FORBIDDEN_RAW_KEYS = [''rawJson'', ''raw'', ''providerRaw'', ''providerPayload'', ''engineRaw'',
     ''doclingOutput'', ''anydocOutput'']"

definition assertNoRawProviderPayload :: "string list \<Rightarrow> unit res" where
  "assertNoRawProviderPayload keys = forEach (\<lambda>key. throwIf (key \<in> set ADAPTER_FORBIDDEN_RAW_KEYS)
     (JsError (''Adapter boundary violation: key '' @ quoted key @
        '' must not cross the adapter boundary; normalize to typed blocks first''))) keys"

record AdapterEnvelopeInput =
  aei_documentId :: string
  aei_canonicalContentId :: "string option"
  aei_sourceIdentity :: SourceIdentity
  aei_blocks :: "DocumentBlock list"
  aei_readingOrder :: "string list"
  aei_status :: DocumentStatus
  aei_capabilityStates :: CapabilityStates
  aei_provenance :: DocumentProvenance
  aei_warnings :: "string list option"
  aei_errors :: "string list option"
  aei_metadata :: "MetadataRecord list option"
  aei_citations :: "CitationRecord list option"

text \<open>\<open>keys\<close> are the keys that the input object has, others than those of the record included.\<close>

definition buildCanonicalEnvelopeFromAdapter :: "(string \<Rightarrow> string) \<Rightarrow> string list \<Rightarrow> AdapterEnvelopeInput \<Rightarrow>
    CanonicalDocumentEnvelope res" where
  "buildCanonicalEnvelopeFromAdapter sha256 keys inp =
     andThen (assertNoRawProviderPayload keys)
     (let e = \<lparr>cc_schemaVersion = CANONICAL_SCHEMA_VERSION,
            cc_canonicalContentId = (case aei_canonicalContentId inp of
               None \<Rightarrow> computeContentHash sha256 (aei_blocks inp) | Some i \<Rightarrow> i),
            cc_blocks = aei_blocks inp, cc_readingOrder = aei_readingOrder inp, cc_status = aei_status inp,
            cc_capabilityStates = aei_capabilityStates inp,
            cc_warnings = (case aei_warnings inp of None \<Rightarrow> [] | Some ws \<Rightarrow> ws),
            cc_errors = (case aei_errors inp of None \<Rightarrow> [] | Some es \<Rightarrow> es),
            cc_provenance = aei_provenance inp, cc_metadata = aei_metadata inp, cc_citations = aei_citations inp,
            env_documentId = aei_documentId inp, env_sourceIdentity = aei_sourceIdentity inp\<rparr>
      in andThen (validateEnvelope e) (Inr e))"

end
