(* ===== verification/DocumentProjections.thy ===== *)
theory DocumentProjections
  imports CanonicalDocument
begin

text \<open>
  The projections and output bounds of \<^verbatim>\<open>src/core/canonical-document.ts\<close>. A table cell with a negative row
  makes the Markdown projection throw the language's \<open>TypeError\<close>, a table with more than \<open>2^32 - 1\<close> rows or
  columns its \<open>RangeError\<close>; every other cell is placed in the grid.
\<close>

section \<open>Blocks as text\<close>

definition MAX_ARRAY_LENGTH :: int where "MAX_ARRAY_LENGTH = 4294967295"

text \<open>\<open>grid[cell.row]![cell.col] = cell.content\<close>, cell by cell; a negative column is a property that the
  rows never print.\<close>

fun placeCells :: "string list list \<Rightarrow> TableCell list \<Rightarrow> string list list res" where
  "placeCells grid [] = Inr grid"
| "placeCells grid (c # cs) =
     (if tc_row c < 0
      then Inl (JsError (''Cannot set properties of undefined (setting '' @ [CHR 0x27] @ showInt (tc_col c) @ [CHR 0x27] @ '')''))
      else placeCells (if tc_col c < 0 then grid
        else grid[nat (tc_row c) := (grid ! nat (tc_row c))[nat (tc_col c) := tc_content c]]) cs)"

definition tableGrid :: "TableCell list \<Rightarrow> string list list res" where
  "tableGrid cells =
     (let maxRow = Max (set (map tc_row cells)); maxCol = Max (set (map tc_col cells))
      in andThen (throwIf (maxRow + 1 > MAX_ARRAY_LENGTH \<or> maxCol + 1 > MAX_ARRAY_LENGTH \<and> 0 \<le> maxRow)
          (RangeError ''Invalid array length''))
        (placeCells (replicate (nat (maxRow + 1)) (replicate (nat (maxCol + 1)) [])) cells))"

definition tableLine :: "string list \<Rightarrow> string" where
  "tableLine row = ''| '' @ joinWith '' | '' row @ '' |''"

text \<open>The header separator comes after the first row.\<close>

fun tableLines :: "string list list \<Rightarrow> string list" where
  "tableLines [] = []"
| "tableLines (header # rows) =
     tableLine header # tableLine (map (\<lambda>_. ''---'') header) # map tableLine rows"

definition newline :: string where "newline = [CHR 0x0A]"

fun blockToMarkdown :: "DocumentBlock \<Rightarrow> string res" where
  "blockToMarkdown (TextBlock _ content _) = Inr content"
| "blockToMarkdown (TableBlock _ cells _) =
     (if cells = [] then Inr [] else bindE (tableGrid cells) (\<lambda>grid. Inr (joinWith newline (tableLines grid))))"
| "blockToMarkdown (AssetBlock _ assetRef _ altText _) =
     Inr (''!['' @ (case altText of None \<Rightarrow> assetRef | Some a \<Rightarrow> a) @ ''](''
       @ assetRef @ '')'')"
| "blockToMarkdown (FormulaBlock _ expression fmt _) =
     Inr (if fmt = Latex then ''$$'' @ expression @ ''$$'' else expression)"

definition byPosition :: "TableCell \<Rightarrow> TableCell \<Rightarrow> int" where
  "byPosition a b = (if tc_row a - tc_row b \<noteq> 0 then tc_row a - tc_row b else tc_col a - tc_col b)"

fun blockToText :: "DocumentBlock \<Rightarrow> string" where
  "blockToText (TextBlock _ content _) = content"
| "blockToText (TableBlock _ cells _) =
     (if cells = [] then [] else joinWith [CHR 0x09] (map tc_content (sortBy byPosition cells)))"
| "blockToText (AssetBlock _ assetRef _ altText _) =
     (case altText of None \<Rightarrow> ''[asset:'' @ assetRef @ '']'' | Some a \<Rightarrow> a)"
| "blockToText (FormulaBlock _ expression _ _) = expression"

section \<open>Projections\<close>

datatype ProjectionKind = MarkdownProjection | StructuredProjection | TextProjection | AllProjection

record ProjectionResult =
  pr_projectionVersion :: string
  pr_sourceDocumentId :: string
  pr_canonicalContentId :: string
  pr_kind :: ProjectionKind
  pr_content :: string
  pr_lossy :: bool
  pr_omissions :: "string list"
  pr_warnings :: "string list"

fun mapRes :: "('a \<Rightarrow> 'b res) \<Rightarrow> 'a list \<Rightarrow> 'b list res" where
  "mapRes f [] = Inr []"
| "mapRes f (x # xs) = bindE (f x) (\<lambda>y. bindE (mapRes f xs) (\<lambda>ys. Inr (y # ys)))"

definition orderedBlocksOrThrow :: "CanonicalDocumentEnvelope \<Rightarrow> DocumentBlock list res" where
  "orderedBlocksOrThrow e = mapRes (\<lambda>i. case find (\<lambda>b. blockId b = i) (cc_blocks e) of
      None \<Rightarrow> Inl (JsError (''Block '' @ quoted i @ '' not found'')) | Some b \<Rightarrow> Inr b) (cc_readingOrder e)"

definition computeTextOmissions :: "DocumentBlock list \<Rightarrow> string list" where
  "computeTextOmissions blocks =
     (if list_ex isTable blocks then [''table-structure''] else []) @
     (if list_ex isAsset blocks then [''asset-bytes''] else []) @
     (if list_ex isFormula blocks then [''formula-formatting''] else [])"

definition projection :: "CanonicalDocumentEnvelope \<Rightarrow> ProjectionKind \<Rightarrow> string \<Rightarrow> ProjectionResult" where
  "projection e kind content =
     \<lparr>pr_projectionVersion = PROJECTION_VERSION, pr_sourceDocumentId = env_documentId e,
      pr_canonicalContentId = cc_canonicalContentId e, pr_kind = kind, pr_content = content, pr_lossy = False,
      pr_omissions = [], pr_warnings = []\<rparr>"

definition paragraphs :: "string list \<Rightarrow> string" where
  "paragraphs = joinWith (newline @ newline)"

definition projectToMarkdown :: "CanonicalDocumentEnvelope \<Rightarrow> ProjectionResult res" where
  "projectToMarkdown e =
     bindE (orderedBlocksOrThrow e) (\<lambda>blocks.
     bindE (mapRes blockToMarkdown blocks) (\<lambda>texts.
       Inr (projection e MarkdownProjection (paragraphs texts))))"

definition projectToText :: "CanonicalDocumentEnvelope \<Rightarrow> ProjectionResult res" where
  "projectToText e =
     bindE (orderedBlocksOrThrow e) (\<lambda>blocks.
       let omissions = computeTextOmissions blocks
       in Inr ((projection e TextProjection (paragraphs (map blockToText blocks)))
           \<lparr>pr_lossy := True, pr_omissions := omissions,
            pr_warnings := (if omissions \<noteq> [] then [''text projection is lossy; structure flattened''] else [])\<rparr>))"

definition structuredJson :: "string list \<Rightarrow> DocumentBlock list \<Rightarrow> js_value" where
  "structuredJson readingOrder blocks =
     JObject [(''readingOrder'', jsonStrings readingOrder), (''blocks'', blocksJson blocks)]"

definition projectToStructured :: "CanonicalDocumentEnvelope \<Rightarrow> ProjectionResult res" where
  "projectToStructured e =
     bindE (orderedBlocksOrThrow e) (\<lambda>blocks.
       Inr (projection e StructuredProjection (jsonText (structuredJson (cc_readingOrder e) blocks))))"

definition projectToAll :: "CanonicalDocumentEnvelope \<Rightarrow> ProjectionResult res" where
  "projectToAll e =
     bindE (orderedBlocksOrThrow e) (\<lambda>blocks.
     bindE (mapRes blockToMarkdown blocks) (\<lambda>texts.
       Inr (projection e AllProjection (jsonText (JObject
         [(''markdown'', JString (paragraphs texts)),
          (''structured'', JString (jsonText (structuredJson (cc_readingOrder e) blocks))),
          (''text'', JString (paragraphs (map blockToText blocks)))])))))"

text \<open>The kinds are an enumeration; only an absent one is replaced.\<close>

definition resolveProjectionKind :: "ProjectionKind option \<Rightarrow> ProjectionKind" where
  "resolveProjectionKind requested = (case requested of None \<Rightarrow> MarkdownProjection | Some k \<Rightarrow> k)"

definition projectCanonicalDocument :: "CanonicalDocumentEnvelope \<Rightarrow> ProjectionKind option \<Rightarrow> ProjectionResult res" where
  "projectCanonicalDocument e kind =
     andThen (validateEnvelope e)
     (case resolveProjectionKind kind of
        MarkdownProjection \<Rightarrow> projectToMarkdown e
      | TextProjection \<Rightarrow> projectToText e
      | StructuredProjection \<Rightarrow> projectToStructured e
      | AllProjection \<Rightarrow> projectToAll e)"

section \<open>Output bounds\<close>

record OutputBounds =
  ob_maxBytes :: jsnum
  ob_maxChars :: jsnum
  ob_maxBlocks :: jsnum
  ob_maxTables :: jsnum
  ob_maxAssets :: jsnum

record BoundsCheckResult =
  bc_withinBounds :: bool
  bc_exceededDimension :: "string option"
  bc_actualValue :: "jsnum option"
  bc_limitValue :: "jsnum option"

record TruncatedResult =
  tr_summary :: string
  tr_provenance :: DocumentProvenance
  tr_artifactRef :: string

datatype CanonicalArtifactKind = ArtifactSource | ArtifactCanonicalDocument | ArtifactProjection

record TypedTruncatedResult = TruncatedResult +
  tr_artifactKind :: CanonicalArtifactKind

datatype BoundedProjectionOutcome = WithinBounds ProjectionResult | OverLimit TypedTruncatedResult

definition exceeded :: "string \<Rightarrow> nat \<Rightarrow> jsnum \<Rightarrow> BoundsCheckResult" where
  "exceeded dimension actual limit = \<lparr>bc_withinBounds = False, bc_exceededDimension = Some dimension,
     bc_actualValue = Some (jint (int actual)), bc_limitValue = Some limit\<rparr>"

definition over :: "nat \<Rightarrow> jsnum \<Rightarrow> bool" where
  "over actual limit \<longleftrightarrow> jlt limit (jint (int actual))"

definition checkOutputBounds :: "CanonicalDocumentEnvelope \<Rightarrow> OutputBounds \<Rightarrow> BoundsCheckResult" where
  "checkOutputBounds e bounds =
     (let blockJsonText = jsonText (blocksJson (cc_blocks e));
          tableCount = length (filter isTable (cc_blocks e));
          assetCount = length (filter isAsset (cc_blocks e))
      in if over (utf8Length blockJsonText) (ob_maxBytes bounds)
         then exceeded ''bytes'' (utf8Length blockJsonText) (ob_maxBytes bounds)
         else if over (length blockJsonText) (ob_maxChars bounds)
         then exceeded ''chars'' (length blockJsonText) (ob_maxChars bounds)
         else if over (length (cc_blocks e)) (ob_maxBlocks bounds)
         then exceeded ''blocks'' (length (cc_blocks e)) (ob_maxBlocks bounds)
         else if over tableCount (ob_maxTables bounds) then exceeded ''tables'' tableCount (ob_maxTables bounds)
         else if over assetCount (ob_maxAssets bounds) then exceeded ''assets'' assetCount (ob_maxAssets bounds)
         else \<lparr>bc_withinBounds = True, bc_exceededDimension = None, bc_actualValue = None, bc_limitValue = None\<rparr>)"

definition optNumberText :: "jsnum option \<Rightarrow> string" where
  "optNumberText n = (case n of None \<Rightarrow> ''undefined'' | Some k \<Rightarrow> numberText k)"

definition buildTruncatedResult :: "CanonicalDocumentEnvelope \<Rightarrow> string \<Rightarrow> BoundsCheckResult \<Rightarrow> TruncatedResult" where
  "buildTruncatedResult e artifactRef check =
     \<lparr>tr_summary = ''Output exceeded '' @ (case bc_exceededDimension check of None \<Rightarrow> ''limit'' | Some d \<Rightarrow> d) @ '': '' @
        optNumberText (bc_actualValue check) @ '' > '' @ optNumberText (bc_limitValue check),
      tr_provenance = cc_provenance e, tr_artifactRef = artifactRef\<rparr>"

text \<open>\<^verbatim>\<open>/^[0-9a-f]{32}\//u\<close>.\<close>

definition isStorageKey :: "string \<Rightarrow> bool" where
  "isStorageKey s \<longleftrightarrow> 32 < length s \<and> s ! 32 = CHR ''/'' \<and> list_all (\<lambda>c. c \<in> set ''0123456789abcdef'') (take 32 s)"

definition buildTypedTruncatedResult :: "CanonicalDocumentEnvelope \<Rightarrow> string \<Rightarrow> CanonicalArtifactKind \<Rightarrow>
    BoundsCheckResult \<Rightarrow> TypedTruncatedResult res" where
  "buildTypedTruncatedResult e artifactRef artifactKind check =
     andThen (throwIf (artifactRef = []) (JsError ''Typed truncated result requires a non-empty artifactRef''))
     (andThen (throwIf (isStorageKey artifactRef) (JsError ''artifactRef must be storage-neutral, not a storage key''))
     (Inr (TruncatedResult.extend (buildTruncatedResult e artifactRef check) \<lparr>tr_artifactKind = artifactKind\<rparr>)))"

definition projectWithBounds :: "CanonicalDocumentEnvelope \<Rightarrow> ProjectionKind option \<Rightarrow> OutputBounds \<Rightarrow> string \<Rightarrow>
    CanonicalArtifactKind \<Rightarrow> BoundedProjectionOutcome res" where
  "projectWithBounds e kind bounds artifactRef artifactKind =
     andThen (validateEnvelope e)
     (let check = checkOutputBounds e bounds
      in if \<not> bc_withinBounds check
         then bindE (buildTypedTruncatedResult e artifactRef artifactKind check) (\<lambda>s. Inr (OverLimit s))
         else bindE (projectCanonicalDocument e kind) (\<lambda>p.
           if over (length (pr_content p)) (ob_maxChars bounds)
           then bindE (buildTypedTruncatedResult e artifactRef artifactKind
               (exceeded ''chars'' (length (pr_content p)) (ob_maxChars bounds))) (\<lambda>s. Inr (OverLimit s))
           else Inr (WithinBounds p)))"

end
