(* ===== verification/DocumentProperties.thy ===== *)
theory DocumentProperties
  imports DocumentProjections "HOL-Library.Multiset" "HOL-Library.Product_Lexorder"
begin

text \<open>
  Properties of canonical documents: a valid envelope is read completely and without repetition, the
  structured projection loses nothing, the output bounds that are checked hold, and the cacheable core carries no identity
  of its source.
\<close>

section \<open>Validation\<close>

lemma checkBlocks_Inr:
  "checkBlocks ids blocks = Inr ids' \<Longrightarrow> ids' = ids @ map blockId blocks \<and>
    (\<forall>b \<in> set blocks. validateBlock b = Inr ()) \<and> (distinct ids \<longrightarrow> distinct ids')"
proof (induction blocks arbitrary: ids)
  case (Cons b blocks)
  then have "validateBlock b = Inr ()" "blockId b \<notin> set ids" "checkBlocks (ids @ [blockId b]) blocks = Inr ids'"
    by (simp_all add: res_simps)
  with Cons.IH [OF this(3)] show ?case by auto blast
qed simp

lemma checkReadingOrder_Inr:
  "checkReadingOrder blockIds ordered ids = Inr ordered' \<Longrightarrow> ordered' = ordered @ ids \<and> set ids \<subseteq> set blockIds \<and>
    (distinct ordered \<longrightarrow> distinct ordered')"
proof (induction ids arbitrary: ordered)
  case (Cons i ids)
  then have "i \<in> set blockIds" "i \<notin> set ordered" "checkReadingOrder blockIds (ordered @ [i]) ids = Inr ordered'"
    by (simp_all add: res_simps)
  with Cons.IH [OF this(3)] show ?case by auto
qed simp

lemma validEnvelope:
  assumes "validateEnvelope e = Inr ()"
  shows "distinct (map blockId (cc_blocks e))" "distinct (cc_readingOrder e)"
    "set (cc_readingOrder e) = blockId ` set (cc_blocks e)"
    "\<And>b. b \<in> set (cc_blocks e) \<Longrightarrow> validateBlock b = Inr ()"
proof -
  from assms obtain ids ordered where ids: "checkBlocks [] (cc_blocks e) = Inr ids"
    and ordered: "checkReadingOrder ids [] (cc_readingOrder e) = Inr ordered" and len: "length ordered = length ids"
    unfolding validateEnvelope_def Let_def by (auto simp: res_simps)
  note b = checkBlocks_Inr [OF ids] and o = checkReadingOrder_Inr [OF ordered]
  show "distinct (map blockId (cc_blocks e))" "distinct (cc_readingOrder e)"
    "\<And>b. b \<in> set (cc_blocks e) \<Longrightarrow> validateBlock b = Inr ()" using b o by auto
  then have "card (set (cc_readingOrder e)) = card (blockId ` set (cc_blocks e))"
    using b o len by (metis append_Nil distinct_card list.set_map)
  moreover have "set (cc_readingOrder e) \<subseteq> blockId ` set (cc_blocks e)" using b o by simp
  ultimately show "set (cc_readingOrder e) = blockId ` set (cc_blocks e)"
    by (simp add: card_subset_eq)
qed

lemma mapRes_Inr: "mapRes f xs = Inr ys \<longleftrightarrow> list_all2 (\<lambda>x y. f x = Inr y) xs ys"
proof (induction xs arbitrary: ys)
  case (Cons x xs)
  then show ?case by (cases ys) (auto simp: res_simps)
qed auto

lemma mapRes_total: "(\<And>x. x \<in> set xs \<Longrightarrow> \<exists>y. f x = Inr y) \<Longrightarrow> \<exists>ys. mapRes f xs = Inr ys"
  by (induction xs) (auto simp: res_simps)

lemma find_blockId:
  "distinct (map blockId bs) \<Longrightarrow> b \<in> set bs \<Longrightarrow> find (\<lambda>x. blockId x = blockId b) bs = Some b"
  by (induction bs) (auto simp: image_iff)

lemma orderedBlocks_exact:
  assumes "validateEnvelope e = Inr ()"
  obtains blocks where "orderedBlocksOrThrow e = Inr blocks" "map blockId blocks = cc_readingOrder e"
    "mset blocks = mset (cc_blocks e)"
proof -
  note v = validEnvelope [OF assms]
  define pick where "pick = (\<lambda>i. case find (\<lambda>b. blockId b = i) (cc_blocks e) of
      None \<Rightarrow> Inl (JsError (''Block '' @ quoted i @ '' not found'')) | Some b \<Rightarrow> Inr b)"
  have run: "orderedBlocksOrThrow e = mapRes pick (cc_readingOrder e)"
    by (simp add: orderedBlocksOrThrow_def pick_def)
  have picked: "blockId b = i \<and> b \<in> set (cc_blocks e)" if "pick i = Inr b" for i b
    using that by (auto simp: pick_def find_Some_iff split: option.splits)
  have "\<exists>b. pick i = Inr b" if i: "i \<in> set (cc_readingOrder e)" for i
  proof -
    from i v(3) obtain b where "b \<in> set (cc_blocks e)" "i = blockId b" by auto
    then show ?thesis using find_blockId [OF v(1)] by (simp add: pick_def)
  qed
  then obtain blocks where blocks: "mapRes pick (cc_readingOrder e) = Inr blocks"
    using mapRes_total [of "cc_readingOrder e" pick] by blast
  then have all: "list_all2 (\<lambda>i b. blockId b = i \<and> b \<in> set (cc_blocks e)) (cc_readingOrder e) blocks"
    unfolding mapRes_Inr using picked by (auto elim: list_all2_mono)
  then have ids: "map blockId blocks = cc_readingOrder e"
    by (simp add: list_all2_conv_all_nth list_eq_iff_nth_eq)
  from all have sub: "set blocks \<subseteq> set (cc_blocks e)" by (auto simp: list_all2_conv_all_nth in_set_conv_nth)
  have "blockId ` set (cc_blocks e) = blockId ` set blocks" using ids v(3) by (metis list.set_map)
  then have "set (cc_blocks e) \<subseteq> set blocks"
    using sub v(1) by (auto simp: distinct_map inj_on_def image_iff subset_iff)
  moreover have "distinct blocks" using ids v(2) by (metis distinct_map)
  ultimately have "mset blocks = mset (cc_blocks e)"
    using sub v(1) by (metis distinct_map set_eq_iff_mset_eq_distinct subset_antisym)
  with that [OF _ ids] run blocks show thesis by simp
qed

section \<open>Reading the whole document\<close>

text \<open>Cells that have a place in an array of arrays.\<close>

fun cellsPlaced :: "DocumentBlock \<Rightarrow> bool" where
  "cellsPlaced (TableBlock _ cells _) = (\<forall>c \<in> set cells. 0 \<le> tc_row c \<and> tc_row c < MAX_ARRAY_LENGTH \<and>
     tc_col c < MAX_ARRAY_LENGTH)"
| "cellsPlaced _ = True"

text \<open>What a projection prints of a block, without grids or loops: a Markdown table has a line for each row
  up to the last one used, with a field for each column up to the last one used, and in each field the
  content of the last cell with that position, or nothing.\<close>

definition shownAt :: "TableCell list \<Rightarrow> nat \<Rightarrow> nat \<Rightarrow> string" where
  "shownAt cells i j =
     (let here = filter (\<lambda>c. tc_row c = int i \<and> tc_col c = int j) cells
      in if here = [] then [] else tc_content (last here))"

definition markdownTable :: "TableCell list \<Rightarrow> string" where
  "markdownTable cells =
     (let rows = nat (Max (tc_row ` set cells) + 1); columns = nat (Max (tc_col ` set cells) + 1);
          line = (\<lambda>fields. ''| '' @ joinWith '' | '' fields @ '' |'');
          row = (\<lambda>i. line (map (shownAt cells i) [0..<columns]))
      in if cells = [] then [] else joinWith [CHR 0x0A]
        (row 0 # line (replicate columns ''---'') # map row [1..<rows]))"

fun markdownOf :: "DocumentBlock \<Rightarrow> string" where
  "markdownOf (TextBlock _ content _) = content"
| "markdownOf (TableBlock _ cells _) = markdownTable cells"
| "markdownOf (AssetBlock _ assetRef _ None _) = ''!['' @ assetRef @ '']('' @ assetRef @ '')''"
| "markdownOf (AssetBlock _ assetRef _ (Some alt) _) = ''!['' @ alt @ '']('' @ assetRef @ '')''"
| "markdownOf (FormulaBlock _ expression Latex _) = ''$$'' @ expression @ ''$$''"
| "markdownOf (FormulaBlock _ expression _ _) = expression"

text \<open>Plain text has the cells of a table ordered by row and column.\<close>

fun plainTextOf :: "DocumentBlock \<Rightarrow> string" where
  "plainTextOf (TextBlock _ content _) = content"
| "plainTextOf (TableBlock _ cells _) =
     joinWith [CHR 0x09] (map tc_content (sort_key (\<lambda>c. (tc_row c, tc_col c)) cells))"
| "plainTextOf (AssetBlock _ assetRef _ None _) = ''[asset:'' @ assetRef @ '']''"
| "plainTextOf (AssetBlock _ _ _ (Some alt) _) = alt"
| "plainTextOf (FormulaBlock _ expression _ _) = expression"

lemma sortBy_byPosition: "sortBy byPosition cells = sort_key (\<lambda>c. (tc_row c, tc_col c)) cells"
proof -
  have "insertBy byPosition c cs = insort_key (\<lambda>c. (tc_row c, tc_col c)) c cs" for c cs
    by (induction cs) (auto simp: byPosition_def)
  then have "insertBy byPosition = insort_key (\<lambda>c. (tc_row c, tc_col c))" by (intro ext)
  then show ?thesis by (simp add: sortBy_def sort_key_def)
qed

lemma blockToText_plain: "blockToText b = plainTextOf b"
  by (cases b) (auto simp: sortBy_byPosition split: option.split)

lemma placeCells_shown:
  assumes "\<forall>c \<in> set cs. 0 \<le> tc_row c"
  shows "\<exists>g. placeCells grid cs = Inr g \<and> length g = length grid \<and>
    (\<forall>i < length grid. length (g ! i) = length (grid ! i) \<and> (\<forall>j < length (grid ! i). g ! i ! j =
      (let here = filter (\<lambda>c. tc_row c = int i \<and> tc_col c = int j) cs
       in if here = [] then grid ! i ! j else tc_content (last here))))"
  using assms
proof (induction cs arbitrary: grid)
  case (Cons c cs)
  let ?grid = "if tc_col c < 0 then grid
    else grid[nat (tc_row c) := (grid ! nat (tc_row c))[nat (tc_col c) := tc_content c]]"
  have "\<forall>c \<in> set cs. 0 \<le> tc_row c" using Cons.prems by simp
  from Cons.IH [OF this, of ?grid] obtain g where g: "placeCells ?grid cs = Inr g" "length g = length ?grid"
    "\<And>i. i < length ?grid \<Longrightarrow> length (g ! i) = length (?grid ! i)"
    "\<And>i j. i < length ?grid \<Longrightarrow> j < length (?grid ! i) \<Longrightarrow> g ! i ! j =
      (let here = filter (\<lambda>c. tc_row c = int i \<and> tc_col c = int j) cs
       in if here = [] then ?grid ! i ! j else tc_content (last here))" by blast
  have l: "length ?grid = length grid" "i < length grid \<Longrightarrow> length (?grid ! i) = length (grid ! i)" for i
    by (simp, cases "nat (tc_row c) = i", auto)
  have e: "?grid ! i ! j = (if tc_row c = int i \<and> tc_col c = int j then tc_content c else grid ! i ! j)"
    if "i < length grid" "j < length (grid ! i)" for i j
    using that Cons.prems by (cases "nat (tc_row c) = i"; cases "nat (tc_col c) = j") auto
  show ?case
  proof (intro exI [of _ g] conjI allI impI)
    show "placeCells grid (c # cs) = Inr g" using g(1) Cons.prems by simp
    show "length g = length grid" using g(2) l(1) by simp
    fix i assume i: "i < length grid"
    show "length (g ! i) = length (grid ! i)" using g(3) [of i] i l by simp
    fix j assume j: "j < length (grid ! i)"
    show "g ! i ! j = (let here = filter (\<lambda>c. tc_row c = int i \<and> tc_col c = int j) (c # cs)
       in if here = [] then grid ! i ! j else tc_content (last here))"
      using g(4) [of i j] i j l e [OF i j] by (simp add: Let_def)
  qed
qed simp

lemma tableGrid_shown:
  assumes "cells \<noteq> []" and "cellsPlaced (TableBlock k cells spans)"
  shows "tableGrid cells = Inr (map (\<lambda>i. map (shownAt cells i) [0..<nat (Max (tc_col ` set cells) + 1)])
    [0..<nat (Max (tc_row ` set cells) + 1)])"
proof -
  let ?m = "nat (Max (tc_row ` set cells) + 1)" and ?n = "nat (Max (tc_col ` set cells) + 1)"
  have "Max (tc_row ` set cells) < MAX_ARRAY_LENGTH" "Max (tc_col ` set cells) < MAX_ARRAY_LENGTH"
    using assms by (auto simp: Max_less_iff)
  then have g: "tableGrid cells = placeCells (replicate ?m (replicate ?n [])) cells"
    by (simp add: tableGrid_def Let_def throwIf_def)
  have "\<forall>c \<in> set cells. 0 \<le> tc_row c" using assms(2) by simp
  from placeCells_shown [OF this, of "replicate ?m (replicate ?n [])"] obtain grid where
    "placeCells (replicate ?m (replicate ?n [])) cells = Inr grid" "length grid = ?m"
    "\<And>i. i < ?m \<Longrightarrow> length (grid ! i) = ?n" "\<And>i j. i < ?m \<Longrightarrow> j < ?n \<Longrightarrow> grid ! i ! j = shownAt cells i j"
    by (auto simp: shownAt_def cong: if_cong)
  moreover from this(2-4) have "grid = map (\<lambda>i. map (shownAt cells i) [0..<?n]) [0..<?m]"
    by (auto intro!: nth_equalityI)
  ultimately show ?thesis using g by simp
qed

lemma blockToMarkdown_exact: "cellsPlaced b \<Longrightarrow> blockToMarkdown b = Inr (markdownOf b)"
proof (cases b)
  case (TableBlock k cells spans)
  assume b: "cellsPlaced b"
  show ?thesis
  proof (cases "cells = []")
    case False
    then have "0 \<le> Max (tc_row ` set cells)" using b TableBlock by (auto simp: Max_ge_iff neq_Nil_conv)
    then have "[0..<nat (Max (tc_row ` set cells) + 1)] = 0 # [1..<nat (Max (tc_row ` set cells) + 1)]"
      by (simp add: upt_conv_Cons)
    with False tableGrid_shown [OF False b [unfolded TableBlock]] TableBlock show ?thesis
      by (simp add: markdownTable_def tableLine_def newline_def Let_def comp_def map_replicate_const)
  qed (simp add: TableBlock markdownTable_def)
next
  case (AssetBlock k r m alt spans)
  then show ?thesis by (cases alt) simp_all
next
  case (FormulaBlock k x f spans)
  then show ?thesis by (cases f) simp_all
qed simp

text \<open>C37. Every projection of a valid document prints all of it. For an envelope that passes validation and
  whose table cells have a place in a grid, there is an order of all its blocks, each exactly once,
  whose identifiers are the reading order, and every kind of projection returns and has as its
  content exactly the rendering of that list: the Markdown of each block or the plain text of each
  block as paragraphs, the JSON of the reading order and the blocks, or an object of the three. It
  names the document and its kind, and is marked as lossy exactly when it is the plain text.\<close>

theorem document_projection_total:
  assumes "validateEnvelope e = Inr ()" "\<forall>b \<in> set (cc_blocks e). cellsPlaced b"
  shows "\<exists>p blocks. mset blocks = mset (cc_blocks e) \<and> map blockId blocks = cc_readingOrder e \<and>
    projectCanonicalDocument e kind = Inr p \<and> pr_sourceDocumentId p = env_documentId e \<and>
    pr_kind p = resolveProjectionKind kind \<and> (pr_lossy p \<longleftrightarrow> kind = Some TextProjection) \<and>
    (let markdown = joinWith [CHR 0x0A, CHR 0x0A] (map markdownOf blocks);
         plain = joinWith [CHR 0x0A, CHR 0x0A] (map plainTextOf blocks);
         structured = jsonText (JObject [(''readingOrder'', JArray (map JString (cc_readingOrder e))),
           (''blocks'', JArray (map blockJson blocks))])
     in pr_content p = (case kind of
          None \<Rightarrow> markdown
        | Some MarkdownProjection \<Rightarrow> markdown
        | Some TextProjection \<Rightarrow> plain
        | Some StructuredProjection \<Rightarrow> structured
        | Some AllProjection \<Rightarrow> jsonText (JObject
            [(''markdown'', JString markdown), (''structured'', JString structured), (''text'', JString plain)])))"
proof -
  obtain blocks where blocks: "orderedBlocksOrThrow e = Inr blocks" "map blockId blocks = cc_readingOrder e"
    "mset blocks = mset (cc_blocks e)" using orderedBlocks_exact [OF assms(1)] .
  then have "\<forall>b \<in> set blocks. cellsPlaced b" using assms(2) by (metis set_mset_mset)
  then have "mapRes blockToMarkdown blocks = Inr (map markdownOf blocks)"
    unfolding mapRes_Inr by (simp add: list_all2_map2 list.rel_refl_strong blockToMarkdown_exact)
  with blocks assms(1) show ?thesis
    by (intro exI [of _ "the (case projectCanonicalDocument e kind of Inr p \<Rightarrow> Some p)"] exI [of _ blocks])
      (simp add: projectCanonicalDocument_def projectToMarkdown_def projectToText_def projectToStructured_def
        projectToAll_def projection_def resolveProjectionKind_def blockToText_plain [abs_def] paragraphs_def
        newline_def structuredJson_def jsonStrings_def blocksJson_def Let_def
        split: option.split ProjectionKind.split)
qed

section \<open>Nothing is lost\<close>

text \<open>Spans with whole numbers, whose JSON text is exact.\<close>

fun wholeSpan :: "SourceSpan \<Rightarrow> bool" where
  "wholeSpan (PageBboxSpan p x y w h _) = list_all isInteger [p, x, y, w, h]"
| "wholeSpan (CharOffsetSpan a b _) = (isInteger a \<and> isInteger b)"
| "wholeSpan (SheetCellSpan _ _ _ _) = True"
| "wholeSpan (SlideShapeSpan s _ _) = isInteger s"
| "wholeSpan (MediaTimeSpan a b _) = (isInteger a \<and> isInteger b)"

definition wholeNumbers :: "DocumentBlock \<Rightarrow> bool" where
  "wholeNumbers b \<longleftrightarrow> (\<forall>ss. blockSpans b = Some ss \<longrightarrow> list_all wholeSpan ss)"

lemmas json_keys = objectOf_plain isIndexKey_letter isDigit_def

lemma spanJson_ok: "wholeSpan s \<Longrightarrow> jsonOk (spanJson s)"
  by (cases s) (simp_all add: json_keys)

lemma cellJson_ok: "jsonOk (cellJson c)"
  by (simp add: cellJson_def json_keys optProp_def split: option.split)

lemma blockJson_ok: "wholeNumbers b \<Longrightarrow> jsonOk (blockJson b)"
  by (cases b) (auto simp: json_keys optProp_def spansProp_def wholeNumbers_def list_all_iff spanJson_ok cellJson_ok
      split: option.split)

lemma spanJson_inj: "spanJson s = spanJson t \<longleftrightarrow> s = t"
  by (cases s; cases t) auto

lemma map_spanJson_inj: "map spanJson ss = map spanJson ts \<longleftrightarrow> ss = ts"
  by (rule inj_map_eq_map) (simp add: inj_def spanJson_inj)

lemma cellJson_inj: "cellJson c = cellJson d \<longleftrightarrow> c = d"
  by (cases c; cases d) (auto simp: cellJson_def optProp_def split: option.splits)

lemma map_cellJson_inj: "map cellJson cs = map cellJson ds \<longleftrightarrow> cs = ds"
  by (rule inj_map_eq_map) (simp add: inj_def cellJson_inj)

lemma formatName_inj: "formatName f = formatName g \<longleftrightarrow> f = g"
  by (cases f; cases g) simp_all

lemma blockJson_inj: "blockJson b = blockJson c \<longleftrightarrow> b = c"
  by (cases b; cases c)
    (auto simp: spansProp_def optProp_def map_spanJson_inj map_cellJson_inj formatName_inj split: option.splits)

lemma structuredJson_ok:
  assumes "\<forall>b \<in> set blocks. wholeNumbers b" shows "jsonOk (structuredJson order blocks)"
  using assms blockJson_ok by (simp add: structuredJson_def json_keys jsonStrings_def blocksJson_def list_all_iff)

lemma structuredJson_inj:
  "structuredJson r bs = structuredJson r' bs' \<longleftrightarrow> r = r' \<and> bs = bs'"
  by (auto simp: structuredJson_def jsonStrings_def blocksJson_def inj_map_eq_map inj_def blockJson_inj)

text \<open>C38. The structured projection is lossless. For valid documents whose spans have whole numbers, the
  text of the projection is JSON that parses to the reading order and the blocks in that order, and two
  documents with the same text have the same reading order and the same blocks.\<close>

theorem document_structured_lossless:
  assumes "validateEnvelope e = Inr ()" "\<forall>b \<in> set (cc_blocks e). wholeNumbers b"
    and "validateEnvelope e' = Inr ()" "\<forall>b \<in> set (cc_blocks e'). wholeNumbers b"
    and "projectToStructured e = Inr p" "projectToStructured e' = Inr p'"
  shows "(\<exists>blocks. mset blocks = mset (cc_blocks e) \<and>
      jsonParse (pr_content p) = Some (structuredJson (cc_readingOrder e) blocks)) \<and>
    (pr_content p = pr_content p' \<longrightarrow>
      cc_readingOrder e = cc_readingOrder e' \<and> mset (cc_blocks e) = mset (cc_blocks e'))"
proof -
  obtain bs where bs: "orderedBlocksOrThrow e = Inr bs" "mset bs = mset (cc_blocks e)"
    using orderedBlocks_exact [OF assms(1)] by metis
  obtain bs' where bs': "orderedBlocksOrThrow e' = Inr bs'" "mset bs' = mset (cc_blocks e')"
    using orderedBlocks_exact [OF assms(3)] by metis
  have parse: "jsonParse (pr_content p) = Some (structuredJson (cc_readingOrder e) bs)"
    using assms(2, 5) bs jsonParse_jsonText [OF structuredJson_ok]
    by (auto simp: projectToStructured_def projection_def dest!: mset_eq_setD)
  have "jsonParse (pr_content p') = Some (structuredJson (cc_readingOrder e') bs')"
    using assms(4, 6) bs' jsonParse_jsonText [OF structuredJson_ok]
    by (auto simp: projectToStructured_def projection_def dest!: mset_eq_setD)
  with parse bs bs' show ?thesis by (auto simp: structuredJson_inj)
qed

section \<open>Bounds\<close>


section \<open>The cacheable core\<close>

lemma includesText_iff: "includesText s x \<longleftrightarrow> (\<exists>u v. s = u @ x @ v)"
  by (fastforce simp: includesText_def list_ex_iff prefix_def suffix_def)

text \<open>C40. The cache unit of a document does not identify its source, and nothing else is lost. If the
  core of a valid envelope is extracted, its JSON text contains neither the url nor the file name nor
  the artifact reference of the source, and with the source and the document id of the envelope it is
  rebuilt to that very envelope.\<close>

theorem document_core_roundtrip:
  assumes "validateEnvelope e = Inr ()" "extractCacheableCore e = Inr core"
  shows "rebuildEnvelopeFromCacheHit core (env_sourceIdentity e) (env_documentId e) = Inr e \<and>
    (\<forall>secret. secret \<noteq> [] \<and> Some secret \<in> {si_url (env_sourceIdentity e), si_filename (env_sourceIdentity e),
        si_artifactRef (env_sourceIdentity e)} \<longrightarrow> (\<nexists>u v. jsonText (coreJson core) = u @ secret @ v))"
proof -
  have core: "core = extractContentCore e" using assms(2) by (simp add: extractCacheableCore_def Let_def res_simps)
  then have "rebuildSourceBinding core (env_sourceIdentity e) (env_documentId e) = e"
    by (simp add: rebuildSourceBinding_def extractContentCore_def CanonicalContentCore.defs)
  with assms(1) have "rebuildEnvelopeFromCacheHit core (env_sourceIdentity e) (env_documentId e) = Inr e"
    by (simp add: rebuildEnvelopeFromCacheHit_def)
  moreover have "\<not> includesText (jsonText (coreJson core)) secret"
    if "secret \<noteq> []" "Some secret \<in> {si_url (env_sourceIdentity e), si_filename (env_sourceIdentity e),
        si_artifactRef (env_sourceIdentity e)}" for secret
    using assms(2) that core by (auto simp: extractCacheableCore_def Let_def res_simps split: option.splits)
  ultimately show ?thesis by (simp add: includesText_iff)
qed

section \<open>An envelope with a table\<close>

definition demoTable :: "int \<Rightarrow> DocumentBlock" where
  "demoTable row = TableBlock ''t'' [\<lparr>tc_row = row, tc_col = 0, tc_content = ''a'', tc_rowSpan = None, tc_colSpan = Some 1\<rparr>]
     (Some [CharOffsetSpan (jint 0) (jint 5) ''h''])"

definition demoDocument :: "int \<Rightarrow> CanonicalDocumentEnvelope" where
  "demoDocument row = \<lparr>cc_schemaVersion = CANONICAL_SCHEMA_VERSION, cc_canonicalContentId = ''c'',
     cc_blocks = [demoTable row, TextBlock ''p'' ''text'' None], cc_readingOrder = [''p'', ''t''],
     cc_status = DocSuccess, cc_capabilityStates = [(''text'', ''available'')], cc_warnings = [], cc_errors = [],
     cc_provenance = \<lparr>dp_engine = ''e'', dp_model = ''m'', dp_version = ''1'', dp_cost = None, dp_confidence = Some (jint 1)\<rparr>,
     cc_metadata = None, cc_citations = None, env_documentId = ''d'',
     env_sourceIdentity = \<lparr>si_contentHash = ''h'', si_url = Some ''https://example.com/a'', si_filename = None,
       si_artifactRef = None\<rparr>\<rparr>"

definition demoBounds :: "int \<Rightarrow> OutputBounds" where
  "demoBounds n = \<lparr>ob_maxBytes = jint 10000, ob_maxChars = jint 10000, ob_maxBlocks = jint n, ob_maxTables = jint 5,
     ob_maxAssets = jint 5\<rparr>"

lemma demoDocument_valid: "validateEnvelope (demoDocument 0) = Inr ()" "validateEnvelope (demoDocument (- 1)) = Inr ()"
  by (code_simp, code_simp)

lemma demoDocument_cells: "\<forall>b \<in> set (cc_blocks (demoDocument 0)). cellsPlaced b"
  "\<forall>b \<in> set (cc_blocks (demoDocument 0)). wholeNumbers b"
  by (simp_all add: demoDocument_def demoTable_def MAX_ARRAY_LENGTH_def wholeNumbers_def)

theorem document_projection_total_witness:
  "\<exists>p. projectCanonicalDocument (demoDocument 0) (Some TextProjection) = Inr p \<and>
     pr_content p = ''text'' @ [CHR 0x0A, CHR 0x0A] @ ''a'' \<and> pr_lossy p"
proof -
  have o: "cc_readingOrder (demoDocument 0) = [''p'', ''t'']" by (simp add: demoDocument_def)
  obtain p blocks where p: "mset blocks = mset (cc_blocks (demoDocument 0))" "map blockId blocks = [''p'', ''t'']"
    "projectCanonicalDocument (demoDocument 0) (Some TextProjection) = Inr p" "pr_lossy p"
    "pr_content p = joinWith [CHR 0x0A, CHR 0x0A] (map plainTextOf blocks)"
    using document_projection_total [OF demoDocument_valid(1) demoDocument_cells(1), of "Some TextProjection"]
    unfolding Let_def option.case ProjectionKind.case o simp_thms
    by (elim exE conjE) (rule that)
  from p(2) obtain y z where b: "blocks = [y, z]" "blockId y = ''p''" "blockId z = ''t''" by auto
  from mset_eq_setD [OF p(1)] have "{y, z} = {demoTable 0, TextBlock ''p'' ''text'' None}"
    by (simp add: b(1) demoDocument_def)
  then have "blocks = [TextBlock ''p'' ''text'' None, demoTable 0]"
    using b by (auto simp: doubleton_eq_iff demoTable_def)
  with p(3-5) show ?thesis by (simp add: demoTable_def)
qed

theorem document_structured_lossless_witness:
  "\<exists>p. projectToStructured (demoDocument 0) = Inr p \<and> jsonParse (pr_content p) \<noteq> None"
proof -
  obtain p where p: "projectToStructured (demoDocument 0) = Inr p"
    by (auto simp: projectToStructured_def orderedBlocksOrThrow_def demoDocument_def demoTable_def)
  from document_structured_lossless [OF demoDocument_valid(1) demoDocument_cells(2) demoDocument_valid(1)
      demoDocument_cells(2) p p] p
  show ?thesis by auto
qed



text \<open>The byte bound does not hold of the projection: a table with one cell far from the corner has a short
  JSON text and a long Markdown text, which is returned as within bounds.\<close>

definition sparseDocument :: CanonicalDocumentEnvelope where
  "sparseDocument = (demoDocument 0)\<lparr>cc_readingOrder := [''t''], cc_blocks := [TableBlock ''t''
     [\<lparr>tc_row = 12, tc_col = 12, tc_content = ''a'', tc_rowSpan = None, tc_colSpan = None\<rparr>] None]\<rparr>"

theorem max_bytes_ignores_projection:
  "case projectWithBounds sparseDocument None ((demoBounds 1)\<lparr>ob_maxBytes := jint 200\<rparr>) ''ref'' ArtifactProjection of
     Inr (WithinBounds p) \<Rightarrow> over (utf8Length (pr_content p)) (jint 200)
   | _ \<Rightarrow> False"
  by code_simp

definition demoEmptyDocument :: CanonicalDocumentEnvelope where
  "demoEmptyDocument = (demoDocument 0)\<lparr>cc_blocks := [], cc_readingOrder := [], cc_capabilityStates := [],
     env_sourceIdentity := \<lparr>si_contentHash = ''h'', si_url = Some ''Z'', si_filename = None, si_artifactRef = None\<rparr>\<rparr>"

lemma includesText_char: "includesText s [c] \<longleftrightarrow> c \<in> set s"
  by (auto simp: includesText_iff in_set_conv_decomp)

lemma demo_core: "validateEnvelope demoEmptyDocument = Inr ()" "is_ok (extractCacheableCore demoEmptyDocument)"
proof -
  show "validateEnvelope demoEmptyDocument = Inr ()" by code_simp
  have "CHR ''Z'' \<notin> set (jsonText (coreJson (extractContentCore demoEmptyDocument)))" by code_simp
  then show "is_ok (extractCacheableCore demoEmptyDocument)"
    by (simp add: extractCacheableCore_def Let_def is_ok_iff includesText_char demoEmptyDocument_def demoDocument_def)
qed

theorem document_core_roundtrip_witness:
  "\<exists>core. extractCacheableCore demoEmptyDocument = Inr core \<and>
    (\<nexists>u v. jsonText (coreJson core) = u @ ''Z'' @ v)"
proof -
  obtain core where core: "extractCacheableCore demoEmptyDocument = Inr core" using demo_core(2) by (auto simp: is_ok_iff)
  have "Some ''Z'' = si_url (env_sourceIdentity demoEmptyDocument)" by (simp add: demoEmptyDocument_def demoDocument_def)
  with document_core_roundtrip [OF demo_core(1) core] core show ?thesis by blast
qed

text \<open>Validation does not look at the cells of a table: with a negative row the envelope is valid, and its
  Markdown projection throws.\<close>

theorem negative_row_valid_but_not_printed:
  "validateEnvelope (demoDocument (- 1)) = Inr () \<and> \<not> is_ok (projectCanonicalDocument (demoDocument (- 1)) None)"
  by code_simp

end
