(* ===== verification/ExtractionContract.thy ===== *)
theory ExtractionContract
  imports JsonFields
begin

text \<open>
  \<^verbatim>\<open>src/core/schema-extraction-contract.ts\<close>: the checks on the schema a caller gives, on an assembled
  result, and the benchmark gate in front of the providers. A schema is an untyped JSON value; the
  generic record is shared with the runtime, which refines the type of its fields.
\<close>

section \<open>Data\<close>

record ExtractionSchemaField =
  xf_name :: string
  xf_type :: string
  xf_required :: bool

record 'f ExtractionSchema =
  xs_fields :: "'f list"
  xs_maxDepth :: jsnum
  xs_maxProperties :: jsnum
  xs_rawSchema :: js_value

datatype FieldStatus = FieldPresent | FieldMissing | FieldInvalid

record ExtractionFieldResult =
  fr_name :: string
  fr_status :: FieldStatus
  fr_value :: "js_value option"
  fr_reason :: "string option"

record ExtractionProvenance =
  xp_provider :: string
  xp_model :: string
  xp_source :: string
  xp_billedUnits :: jsnum

record ExtractionResult =
  er_fields :: "ExtractionFieldResult list"
  er_provenance :: ExtractionProvenance

section \<open>Measures of a schema\<close>

text \<open>\<open>/^https?:\/\//u\<close>.\<close>

definition isRemoteRef :: "string \<Rightarrow> bool" where
  "isRemoteRef s \<longleftrightarrow> prefix ''http://'' s \<or> prefix ''https://'' s"

text \<open>The loops return at the first hit.\<close>

fun firstFound :: "'a option list \<Rightarrow> 'a option" where
  "firstFound [] = None"
| "firstFound (x # xs) = (case x of Some y \<Rightarrow> Some y | None \<Rightarrow> firstFound xs)"

text \<open>The value of a \<open>$ref\<close> that is a remote one.\<close>

definition remoteRefOf :: "string \<Rightarrow> js_value \<Rightarrow> string option" where
  "remoteRefOf key v = (case v of JString s \<Rightarrow> if key = ''$ref'' \<and> isRemoteRef s then Some s else None | _ \<Rightarrow> None)"

fun containsRemoteRef :: "js_value \<Rightarrow> nat \<Rightarrow> nat \<Rightarrow> string option" where
  "containsRemoteRef (JArray xs) depth maxDepth =
     (if depth > maxDepth then None else firstFound (map (\<lambda>x. containsRemoteRef x (depth + 1) maxDepth) xs))"
| "containsRemoteRef (JObject ms) depth maxDepth =
     (if depth > maxDepth then None
      else firstFound (map (\<lambda>m. case remoteRefOf (fst m) (snd m) of
             Some s \<Rightarrow> Some s | None \<Rightarrow> containsRemoteRef (snd m) (depth + 1) maxDepth) ms))"
| "containsRemoteRef _ depth maxDepth = None"

fun measureDepth :: "js_value \<Rightarrow> nat \<Rightarrow> nat" where
  "measureDepth (JArray xs) current = fold max (map (\<lambda>x. measureDepth x (current + 1)) xs) current"
| "measureDepth (JObject ms) current = fold max (map (\<lambda>m. measureDepth (snd m) (current + 1)) ms) current"
| "measureDepth _ current = current"

fun countProperties :: "js_value \<Rightarrow> nat" where
  "countProperties (JObject ms) = length ms + sum_list (map (\<lambda>m. countProperties (snd m)) ms)"
| "countProperties _ = 0"

section \<open>Validation\<close>

definition validateExtractionSchema :: "'f ExtractionSchema \<Rightarrow> unit res" where
  "validateExtractionSchema s =
     andThen (throwIf (xs_fields s = []) (JsError ''Extraction schema must define at least one field''))
     (andThen (throwIf (jle (xs_maxDepth s) (jint 0)) (JsError ''maxDepth must be a positive integer''))
     (andThen (throwIf (jle (xs_maxProperties s) (jint 0)) (JsError ''maxProperties must be a positive integer''))
     (andThen (case containsRemoteRef (xs_rawSchema s) 0 100 of
         Some r \<Rightarrow> Inl (JsError (''Remote $ref is not allowed in extraction schemas: '' @ quoted r))
       | None \<Rightarrow> Inr ())
     (let depth = measureDepth (xs_rawSchema s) 0; propCount = countProperties (xs_rawSchema s)
      in andThen (throwIf (jlt (xs_maxDepth s) (jint (int depth)))
           (JsError (''Schema depth '' @ showNat depth @ '' exceeds maxDepth '' @ numberText (xs_maxDepth s))))
         (throwIf (jlt (xs_maxProperties s) (jint (int propCount)))
           (JsError (''Schema has '' @ showNat propCount @ '' properties, exceeding maxProperties '' @
              numberText (xs_maxProperties s))))))))"

definition validateExtractionResult :: "ExtractionResult \<Rightarrow> unit res" where
  "validateExtractionResult r =
     (let p = er_provenance r
      in andThen (throwIf (xp_provider p = []) (JsError ''Extraction provenance must include provider''))
        (andThen (throwIf (xp_model p = []) (JsError ''Extraction provenance must include model''))
        (andThen (throwIf (xp_source p = []) (JsError ''Extraction provenance must include source''))
        (throwIf (jlt (xp_billedUnits p) (jint 0)) (JsError ''Extraction provenance billedUnits must be non-negative'')))))"

section \<open>The benchmark gate\<close>

record ExtractionBenchmarkEntry =
  be_schemaId :: string
  be_repeatabilityScore :: jsnum
  be_fieldAccuracy :: jsnum
  be_missingFieldRate :: jsnum
  be_invalidFieldRate :: jsnum
  be_latencyMs :: jsnum
  be_outputSizeBytes :: jsnum
  be_billedUnits :: jsnum

record ExtractionBenchmarkReport =
  br_reportId :: string
  br_generatedAt :: string
  br_entries :: "ExtractionBenchmarkEntry list"

record BenchmarkThresholds =
  bt_minRepeatability :: jsnum
  bt_maxLatencyMs :: jsnum
  bt_minFieldAccuracy :: jsnum
  bt_minEntries :: jsnum

definition outsideUnit :: "jsnum \<Rightarrow> bool" where
  "outsideUnit n \<longleftrightarrow> jlt n (jint 0) \<or> jlt (jint 1) n"

definition validateBenchmarkEntry :: "ExtractionBenchmarkEntry \<Rightarrow> unit res" where
  "validateBenchmarkEntry e =
     andThen (throwIf (be_schemaId e = []) (JsError ''Benchmark entry must include schemaId''))
     (andThen (throwIf (outsideUnit (be_repeatabilityScore e)) (JsError ''repeatabilityScore must be between 0 and 1''))
     (andThen (throwIf (outsideUnit (be_fieldAccuracy e)) (JsError ''fieldAccuracy must be between 0 and 1''))
     (andThen (throwIf (jlt (be_latencyMs e) (jint 0)) (JsError ''latencyMs must be non-negative''))
     (andThen (throwIf (jlt (be_outputSizeBytes e) (jint 0)) (JsError ''outputSizeBytes must be non-negative''))
     (throwIf (jlt (be_billedUnits e) (jint 0)) (JsError ''billedUnits must be non-negative''))))))"

definition validateBenchmarkReport :: "ExtractionBenchmarkReport \<Rightarrow> unit res" where
  "validateBenchmarkReport r =
     andThen (throwIf (br_reportId r = []) (JsError ''Benchmark report must include reportId''))
     (andThen (throwIf (br_generatedAt r = []) (JsError ''Benchmark report must include generatedAt''))
     (andThen (throwIf (br_entries r = []) (JsError ''Benchmark report must contain at least one entry''))
     (forEach validateBenchmarkEntry (br_entries r))))"

record BenchmarkGateResult =
  gate_allowed :: bool
  gate_reason :: string

definition refused :: "string \<Rightarrow> BenchmarkGateResult" where
  "refused reason = \<lparr>gate_allowed = False, gate_reason = reason\<rparr>"

text \<open>Why an entry does not meet the thresholds.\<close>

definition entryBelow :: "BenchmarkThresholds \<Rightarrow> ExtractionBenchmarkEntry \<Rightarrow> string option" where
  "entryBelow t e =
     (if jlt (be_repeatabilityScore e) (bt_minRepeatability t)
      then Some (''Entry '' @ quoted (be_schemaId e) @ '' repeatability '' @ numberText (be_repeatabilityScore e) @
        '' below threshold '' @ numberText (bt_minRepeatability t))
      else if jlt (be_fieldAccuracy e) (bt_minFieldAccuracy t)
      then Some (''Entry '' @ quoted (be_schemaId e) @ '' field accuracy '' @ numberText (be_fieldAccuracy e) @
        '' below threshold '' @ numberText (bt_minFieldAccuracy t))
      else if jlt (bt_maxLatencyMs t) (be_latencyMs e)
      then Some (''Entry '' @ quoted (be_schemaId e) @ '' latency '' @ numberText (be_latencyMs e) @
        ''ms exceeds threshold '' @ numberText (bt_maxLatencyMs t) @ ''ms'')
      else None)"

definition checkBenchmarkGate :: "ExtractionBenchmarkReport option \<Rightarrow> BenchmarkThresholds \<Rightarrow> bool \<Rightarrow>
    BenchmarkGateResult res" where
  "checkBenchmarkGate report thresholds providerAvailable =
     (case report of
        None \<Rightarrow> Inr (refused (if providerAvailable
          then ''Provider availability alone is not sufficient; benchmark report required''
          else ''No benchmark report available''))
      | Some r \<Rightarrow> andThen (validateBenchmarkReport r)
          (if jlt (jint (int (length (br_entries r)))) (bt_minEntries thresholds)
           then Inr (refused (''Benchmark has '' @ showNat (length (br_entries r)) @ '' entries, minimum '' @
             numberText (bt_minEntries thresholds) @ '' required''))
           else (case firstFound (map (entryBelow thresholds) (br_entries r)) of
               Some reason \<Rightarrow> Inr (refused reason)
             | None \<Rightarrow> Inr \<lparr>gate_allowed = True, gate_reason = ''Benchmark report meets all thresholds''\<rparr>)))"

end
