(* ===== verification/SchemaExtraction.thy ===== *)
theory SchemaExtraction
  imports ExtractionContract RequestLimits UrlPolicy
begin

text \<open>
  The local part of \<^verbatim>\<open>src/core/schema-extraction-runtime.ts\<close>: limits, the parser of bounded schemas,
  the validation of what a provider returned, and the digest of the fields. The URL parser and
  \<open>Date.parse\<close> (whether it yields a number) are arguments: the first is the platform's, the second reads
  formats the language leaves open. The dash and the ellipsis of two messages, which are not Latin-1, are
  written \<open>-\<close> and \<open>...\<close>.
\<close>

unbundle bit_operations_syntax

section \<open>Field types\<close>

datatype ScalarFieldType = StringField | NumberField | BooleanField | UrlField | DateField

datatype SchemaFieldType = ScalarField ScalarFieldType | ArrayField

fun scalarName :: "ScalarFieldType \<Rightarrow> string" where
  "scalarName StringField = ''string''"
| "scalarName NumberField = ''number''"
| "scalarName BooleanField = ''boolean''"
| "scalarName UrlField = ''url''"
| "scalarName DateField = ''date''"

fun fieldTypeName :: "SchemaFieldType \<Rightarrow> string" where
  "fieldTypeName (ScalarField t) = scalarName t"
| "fieldTypeName ArrayField = ''array''"

definition SCHEMA_FIELD_TYPES :: "SchemaFieldType list" where
  "SCHEMA_FIELD_TYPES = map ScalarField [StringField, NumberField, BooleanField, UrlField, DateField] @ [ArrayField]"

definition asFieldType :: "js_value \<Rightarrow> SchemaFieldType option" where
  "asFieldType v = named fieldTypeName SCHEMA_FIELD_TYPES v"

text \<open>\<open>/^[A-Za-z][A-Za-z0-9_]{0,63}$/u\<close>.\<close>

definition isLetter :: "char \<Rightarrow> bool" where
  "isLetter c = (let n = of_char c :: nat in (65 \<le> n \<and> n \<le> 90) \<or> (97 \<le> n \<and> n \<le> 122))"

definition isFieldName :: "string \<Rightarrow> bool" where
  "isFieldName s \<longleftrightarrow> s \<noteq> [] \<and> isLetter (hd s) \<and>
     list_all (\<lambda>c. isLetter c \<or> isDigit c \<or> c = CHR ''_'') (tl s) \<and> length (tl s) \<le> 63"

record ParsedSchemaField =
  pf_name :: string
  pf_type :: SchemaFieldType
  pf_required :: bool
  pf_items :: "ScalarFieldType option"

type_synonym ParsedExtractionSchema = "ParsedSchemaField ExtractionSchema"

section \<open>Limits\<close>

text \<open>Resolved limits are integers; overrides are numbers that may be absent.\<close>

record 'n SchemaExtractionLimits =
  xl_maxFields :: 'n
  xl_maxDepth :: 'n
  xl_maxProperties :: 'n
  xl_maxArrayItems :: 'n
  xl_maxStringChars :: 'n
  xl_maxOutputChars :: 'n
  xl_maxWarnings :: 'n
  xl_maxWarningChars :: 'n

type_synonym extraction_limits = "int SchemaExtractionLimits"
type_synonym limit_overrides = "jsnum option SchemaExtractionLimits"

definition DEFAULT_SCHEMA_EXTRACTION_LIMITS :: extraction_limits where
  "DEFAULT_SCHEMA_EXTRACTION_LIMITS =
     \<lparr>xl_maxFields = 50, xl_maxDepth = 5, xl_maxProperties = 100, xl_maxArrayItems = 100,
      xl_maxStringChars = 10000, xl_maxOutputChars = 100000, xl_maxWarnings = 10, xl_maxWarningChars = 500\<rparr>"

definition DEFAULT_SCHEMA_EXTRACTION_TIMEOUT_MS :: int where
  "DEFAULT_SCHEMA_EXTRACTION_TIMEOUT_MS = 30000"

definition HARD_LIMIT_CEILINGS :: extraction_limits where
  "HARD_LIMIT_CEILINGS =
     \<lparr>xl_maxFields = 200, xl_maxDepth = 20, xl_maxProperties = 5000, xl_maxArrayItems = 10000,
      xl_maxStringChars = 200000, xl_maxOutputChars = 1000000, xl_maxWarnings = 50, xl_maxWarningChars = 2000\<rparr>"

definition noOverrides :: limit_overrides where
  "noOverrides =
     \<lparr>xl_maxFields = None, xl_maxDepth = None, xl_maxProperties = None, xl_maxArrayItems = None,
      xl_maxStringChars = None, xl_maxOutputChars = None, xl_maxWarnings = None, xl_maxWarningChars = None\<rparr>"

text \<open>Limits given as overrides, with every key.\<close>

definition asOverrides :: "extraction_limits \<Rightarrow> limit_overrides" where
  "asOverrides l =
     \<lparr>xl_maxFields = Some (jint (xl_maxFields l)), xl_maxDepth = Some (jint (xl_maxDepth l)),
      xl_maxProperties = Some (jint (xl_maxProperties l)), xl_maxArrayItems = Some (jint (xl_maxArrayItems l)),
      xl_maxStringChars = Some (jint (xl_maxStringChars l)), xl_maxOutputChars = Some (jint (xl_maxOutputChars l)),
      xl_maxWarnings = Some (jint (xl_maxWarnings l)), xl_maxWarningChars = Some (jint (xl_maxWarningChars l))\<rparr>"

definition invalidSchema :: "string \<Rightarrow> string \<Rightarrow> string \<Rightarrow> exn" where
  "invalidSchema message code t =
     GroundlaneError INVALID_INPUT ''schema-extract'' message False (Some (Hint (''schema_extract.'' @ code) t))"

text \<open>One key of the limits: the override or else the default, checked.\<close>

definition limitOf :: "string \<Rightarrow> (extraction_limits \<Rightarrow> int) \<Rightarrow> jsnum option \<Rightarrow> int res" where
  "limitOf key field override =
     (let value = (case override of None \<Rightarrow> jint (field DEFAULT_SCHEMA_EXTRACTION_LIMITS) | Some n \<Rightarrow> n)
      in andThen (throwIf (\<not> isInteger value \<or> jle value (jint 0) \<or> jlt (jint (field HARD_LIMIT_CEILINGS)) value)
           (invalidSchema (''Schema extraction limit '' @ key @ '' is outside the allowed range'') ''invalid_limit''
             ''Limits must be positive integers within deployment ceilings. Check the operator configuration.''))
         (Inr (toInt value)))"

definition resolveSchemaExtractionLimits :: "limit_overrides \<Rightarrow> extraction_limits res" where
  "resolveSchemaExtractionLimits o1 =
     bindE (limitOf ''maxFields'' xl_maxFields (xl_maxFields o1)) (\<lambda>a.
     bindE (limitOf ''maxDepth'' xl_maxDepth (xl_maxDepth o1)) (\<lambda>b.
     bindE (limitOf ''maxProperties'' xl_maxProperties (xl_maxProperties o1)) (\<lambda>c.
     bindE (limitOf ''maxArrayItems'' xl_maxArrayItems (xl_maxArrayItems o1)) (\<lambda>d.
     bindE (limitOf ''maxStringChars'' xl_maxStringChars (xl_maxStringChars o1)) (\<lambda>e.
     bindE (limitOf ''maxOutputChars'' xl_maxOutputChars (xl_maxOutputChars o1)) (\<lambda>f.
     bindE (limitOf ''maxWarnings'' xl_maxWarnings (xl_maxWarnings o1)) (\<lambda>g.
     bindE (limitOf ''maxWarningChars'' xl_maxWarningChars (xl_maxWarningChars o1)) (\<lambda>h.
       Inr \<lparr>xl_maxFields = a, xl_maxDepth = b, xl_maxProperties = c, xl_maxArrayItems = d,
         xl_maxStringChars = e, xl_maxOutputChars = f, xl_maxWarnings = g, xl_maxWarningChars = h\<rparr>))))))))"

section \<open>The schema parser\<close>

fun isRecord :: "js_value \<Rightarrow> bool" where
  "isRecord (JObject ms) = True"
| "isRecord _ = False"

fun recordMembers :: "js_value \<Rightarrow> (string \<times> js_value) list" where
  "recordMembers (JObject ms) = ms"
| "recordMembers _ = []"

definition MAX_SCHEMA_SCAN_NODES :: nat where "MAX_SCHEMA_SCAN_NODES = 5000"

definition schemaTooLarge :: exn where
  "schemaTooLarge = invalidSchema ''Extraction schema exceeds the scannable node bound'' ''schema_too_large''
     (''Shrink the schema to at most 50 flat fields without $ref. Inline referenced shapes instead of '' @
      ''nesting.'')"

definition refRejected :: exn where
  "refRejected = invalidSchema (quoted ''$ref'' @ '' is not allowed in extraction schemas; inline the referenced shape'')
     ''ref_rejected'' (''Remote $ref is never fetched. Local $ref is not resolved in v1 - inline the referenced '' @
      ''object shape as plain fields.'')"

text \<open>The loop over the stack, its top first; the number is how many nodes may still be seen.\<close>

fun scanRefKeys :: "nat \<Rightarrow> js_value list \<Rightarrow> unit res" where
  "scanRefKeys n [] = Inr ()"
| "scanRefKeys 0 (v # stack) = Inl schemaTooLarge"
| "scanRefKeys (Suc n) (v # stack) =
     (case v of
        JArray xs \<Rightarrow> scanRefKeys n (rev xs @ stack)
      | JObject ms \<Rightarrow>
          if ''$ref'' \<in> set (map fst ms) then Inl refRejected
          else scanRefKeys n (rev (map snd ms) @ stack)
      | _ \<Rightarrow> scanRefKeys n stack)"

definition rejectRefKeys :: "js_value \<Rightarrow> unit res" where
  "rejectRefKeys raw = scanRefKeys MAX_SCHEMA_SCAN_NODES [raw]"

definition parseRequired :: "string \<Rightarrow> js_value \<Rightarrow> bool res" where
  "parseRequired name definition' =
     (case propOf ''required'' definition' of
        Undefined \<Rightarrow> Inr False
      | JBool b \<Rightarrow> Inr b
      | _ \<Rightarrow> Inl (invalidSchema (''Extraction field '' @ quoted name @ '' has a non-boolean required flag'')
          ''invalid_required_flag'' ''The required flag must be a boolean; omit it to default to optional.''))"

definition parseItemType :: "string \<Rightarrow> js_value \<Rightarrow> ScalarFieldType res" where
  "parseItemType name definition' =
     (let items = propOf ''items'' definition'
      in andThen (throwIf (\<not> isRecord items)
           (invalidSchema (''Extraction field '' @ quoted name @ '' of type array must declare items'')
             ''array_missing_items''
             (''Array fields need an item type, e.g. { type: '' @ quoted ''array'' @ '', items: { type: '' @
              quoted ''string'' @ '' } }.'')))
         (case asFieldType (propOf ''type'' items) of
            Some (ScalarField t) \<Rightarrow> Inr t
          | _ \<Rightarrow> Inl (invalidSchema (''Extraction field '' @ quoted name @ '' has an unsupported array item type'')
              ''unsupported_item_type''
              (''Array items must be a scalar: string, number, boolean, url, or date. Nested arrays are '' @
               ''not supported in v1.''))))"

definition parseField :: "string \<times> js_value \<Rightarrow> ParsedSchemaField res" where
  "parseField entry =
     (case entry of (name, definition') \<Rightarrow>
      andThen (throwIf (\<not> isFieldName name)
        (invalidSchema (''Extraction field name '' @ quoted name @ '' is invalid'') ''invalid_field_name''
          (''Field names must start with a letter, use only letters/digits/underscore, and stay under 64 '' @
           ''characters.'')))
      (andThen (throwIf (\<not> isRecord definition')
        (invalidSchema (''Extraction field '' @ quoted name @ '' must be an object'') ''invalid_field_definition''
          (''Each field must be an object like { type: '' @ quoted ''string'' @ '' }. Supported types: '' @
           ''string, number, boolean, url, date, array.'')))
      (case asFieldType (propOf ''type'' definition') of
         None \<Rightarrow> Inl (invalidSchema (''Extraction field '' @ quoted name @ '' has an unsupported type'')
           ''unsupported_field_type''
           (''Supported field types: string, number, boolean, url, date, array. Nested objects are not '' @
            ''supported in v1.''))
       | Some t \<Rightarrow>
           bindE (parseRequired name definition') (\<lambda>required.
             if t = ArrayField
             then bindE (parseItemType name definition') (\<lambda>itemType.
               Inr \<lparr>pf_name = name, pf_type = t, pf_required = required, pf_items = Some itemType\<rparr>)
             else Inr \<lparr>pf_name = name, pf_type = t, pf_required = required, pf_items = None\<rparr>))))"

fun parseFields :: "(string \<times> js_value) list \<Rightarrow> ParsedSchemaField list res" where
  "parseFields [] = Inr []"
| "parseFields (e # es) = bindE (parseField e) (\<lambda>f. bindE (parseFields es) (\<lambda>fs. Inr (f # fs)))"

definition asSchemaRejected :: "unit res \<Rightarrow> unit res" where
  "asSchemaRejected r =
     (case r of Inr u \<Rightarrow> Inr u
      | Inl e \<Rightarrow> Inl (invalidSchema (exn_message e) ''schema_rejected''
          (''The schema violated a contract bound (depth, property count, or remote reference). Flatten and '' @
           ''shrink it.'')))"

definition parseBoundedSchema :: "js_value \<Rightarrow> limit_overrides \<Rightarrow> ParsedExtractionSchema res" where
  "parseBoundedSchema rawSchema limitOverrides =
     bindE (resolveSchemaExtractionLimits limitOverrides) (\<lambda>limits.
     andThen (throwIf (\<not> isRecord rawSchema)
       (invalidSchema ''Extraction schema must be an object'' ''schema_not_object''
         (''Provide an object schema like { type: '' @ quoted ''object'' @ '', properties: { title: { type: '' @
          quoted ''string'' @ '' } } }.'')))
     (andThen (rejectRefKeys rawSchema)
     (andThen (throwIf (propOf ''type'' rawSchema \<noteq> JString ''object'')
       (invalidSchema (''Extraction schema must declare type '' @ quoted ''object'') ''schema_root_type''
         (''The top level must be { type: '' @ quoted ''object'' @ '', properties: { ... } }. Only flat field '' @
          ''extraction is supported in v1.'')))
     (let properties = propOf ''properties'' rawSchema; entries = recordMembers properties
      in andThen (throwIf (\<not> isRecord properties)
        (invalidSchema ''Extraction schema must define a properties object'' ''schema_no_properties''
          (''Add a properties object with at least one named field, e.g. properties: { title: { type: '' @
           quoted ''string'' @ '' } }.'')))
      (andThen (throwIf (entries = [])
        (invalidSchema ''Extraction schema must define at least one field'' ''schema_no_fields''
          ''Add at least one named field to properties.''))
      (andThen (throwIf (int (length entries) > xl_maxFields limits)
        (invalidSchema (''Extraction schema defines '' @ showNat (length entries) @ '' fields, exceeding maxFields '' @
           showInt (xl_maxFields limits)) ''too_many_fields''
          ''Split the request into smaller extractions within maxFields.''))
      (bindE (parseFields entries) (\<lambda>fs.
         let schema = \<lparr>xs_fields = fs, xs_maxDepth = jint (xl_maxDepth limits),
               xs_maxProperties = jint (xl_maxProperties limits), xs_rawSchema = rawSchema\<rparr>
         in andThen (asSchemaRejected (validateExtractionSchema schema)) (Inr schema)))))))))"


section \<open>Validation of the output of a provider\<close>

datatype FieldCheck = FieldOk js_value | FieldBad string "js_value option"

definition truncateBoundedString :: "string \<Rightarrow> int \<Rightarrow> (string \<times> bool) res" where
  "truncateBoundedString value maxChars =
     (if int (length value) \<le> maxChars then Inr (value, False)
      else bindE (truncateUnicode (take (nat (maxChars * 2 + 16)) value) (jint maxChars)) (\<lambda>r.
        Inr (tt_value r, True)))"

definition cutString :: "string \<Rightarrow> extraction_limits \<Rightarrow> js_value res" where
  "cutString s limits = bindE (truncateBoundedString s (xl_maxStringChars limits)) (\<lambda>r. Inr (JString (fst r)))"

definition MAX_URL_VALUE_UNITS :: nat where "MAX_URL_VALUE_UNITS = 8192"
definition MAX_DATE_VALUE_UNITS :: nat where "MAX_DATE_VALUE_UNITS = 120"

text \<open>The platform: the parser of \<open>new URL\<close>, and whether \<open>Date.parse\<close> of a text is a number.\<close>

record value_parsers =
  vp_parse :: ported_parser
  vp_validDate :: "string \<Rightarrow> bool"

fun checkScalar :: "value_parsers \<Rightarrow> ScalarFieldType \<Rightarrow> js_value \<Rightarrow> extraction_limits \<Rightarrow> FieldCheck res" where
  "checkScalar vp StringField raw limits =
     (case raw of JString s \<Rightarrow> bindE (cutString s limits) (\<lambda>v. Inr (FieldOk v))
      | _ \<Rightarrow> Inr (FieldBad ''Expected string'' None))"
| "checkScalar vp NumberField raw limits =
     (case raw of JNumber n \<Rightarrow> if isFinite n then Inr (FieldOk raw) else Inr (FieldBad ''Expected finite number'' None)
      | _ \<Rightarrow> Inr (FieldBad ''Expected finite number'' None))"
| "checkScalar vp BooleanField raw limits =
     (case raw of JBool b \<Rightarrow> Inr (FieldOk raw) | _ \<Rightarrow> Inr (FieldBad ''Expected boolean'' None))"
| "checkScalar vp UrlField raw limits =
     (case raw of
        JString s \<Rightarrow>
          if length s > MAX_URL_VALUE_UNITS then Inr (FieldBad ''Expected public HTTP(S) URL'' None)
          else bindE (cutString s limits) (\<lambda>v.
            case parsePublicUrl (vp_parse vp) s defaultPorts of
              Inl _ \<Rightarrow> Inr (FieldBad ''Expected public HTTP(S) URL'' (Some v))
            | Inr _ \<Rightarrow> Inr (FieldOk v))
      | _ \<Rightarrow> Inr (FieldBad ''Expected public HTTP(S) URL'' None))"
| "checkScalar vp DateField raw limits =
     (case raw of
        JString s \<Rightarrow> bindE (cutString s limits) (\<lambda>v.
          if length s > MAX_DATE_VALUE_UNITS \<or> \<not> vp_validDate vp s
          then Inr (FieldBad ''Expected date string'' (Some v)) else Inr (FieldOk v))
      | _ \<Rightarrow> Inr (FieldBad ''Expected date string'' None))"

text \<open>The loop over the items of an array, from an index on.\<close>

fun checkItems :: "value_parsers \<Rightarrow> ScalarFieldType \<Rightarrow> extraction_limits \<Rightarrow> nat \<Rightarrow> js_value list \<Rightarrow> js_value list \<Rightarrow>
    FieldCheck res" where
  "checkItems vp itemType limits index values [] = Inr (FieldOk (JArray values))"
| "checkItems vp itemType limits index values (item # items) =
     bindE (checkScalar vp itemType item limits) (\<lambda>checked. case checked of
         FieldBad _ _ \<Rightarrow> Inr (FieldBad (''Expected array of '' @ scalarName itemType @
           '' (first invalid index '' @ showNat index @ '')'') None)
       | FieldOk v \<Rightarrow> checkItems vp itemType limits (Suc index) (values @ [v]) items)"

definition checkFieldValue :: "value_parsers \<Rightarrow> ParsedSchemaField \<Rightarrow> js_value \<Rightarrow> extraction_limits \<Rightarrow> FieldCheck res" where
  "checkFieldValue vp field raw limits =
     (case pf_type field of
        ScalarField t \<Rightarrow> checkScalar vp t raw limits
      | ArrayField \<Rightarrow> (case raw of
          JArray xs \<Rightarrow>
            if int (length xs) > xl_maxArrayItems limits
            then Inr (FieldBad (''Array exceeds maxArrayItems of '' @ showInt (xl_maxArrayItems limits)) None)
            else checkItems vp (case pf_items field of Some t \<Rightarrow> t | None \<Rightarrow> StringField) limits 0 [] xs
        | _ \<Rightarrow> Inr (FieldBad ''Expected array'' None)))"

text \<open>\<open>data[name]\<close>: a member, or a method that every object inherits. A method is neither a string, a
  number, a boolean nor an array; an empty object stands for it, which answers these questions alike.\<close>

definition OBJECT_METHODS :: "string list" where
  "OBJECT_METHODS =
     [''constructor'', ''hasOwnProperty'', ''isPrototypeOf'', ''propertyIsEnumerable'', ''toLocaleString'',
      ''toString'', ''valueOf'']"

definition dataField :: "(string \<times> js_value) list \<Rightarrow> string \<Rightarrow> js_value" where
  "dataField ms name = (case map_of ms name of
     Some v \<Rightarrow> v | None \<Rightarrow> if name \<in> set OBJECT_METHODS then JObject [] else Undefined)"

text \<open>Whether a checked value is shorter than the raw one: a string, or an item of an array.\<close>

fun shortened :: "js_value \<Rightarrow> js_value \<Rightarrow> bool" where
  "shortened (JString s) (JString raw) \<longleftrightarrow> s \<noteq> raw"
| "shortened (JArray xs) (JArray raws) \<longleftrightarrow>
     list_ex (\<lambda>(x, raw). (case x of JString s \<Rightarrow> raw \<noteq> JString s | _ \<Rightarrow> False)) (zip xs raws)"
| "shortened _ _ \<longleftrightarrow> False"

definition fieldResult :: "value_parsers \<Rightarrow> extraction_limits \<Rightarrow> (string \<times> js_value) list \<Rightarrow> ParsedSchemaField \<Rightarrow>
    (ExtractionFieldResult \<times> bool) res" where
  "fieldResult vp limits ms field =
     (let raw = dataField ms (pf_name field)
      in if raw = Undefined \<or> raw = Null
         then Inr (\<lparr>fr_name = pf_name field, fr_status = FieldMissing, fr_value = None,
                fr_reason = Some ''Field not found in provider output''\<rparr>, False)
         else bindE (checkFieldValue vp field raw limits) (\<lambda>checked. case checked of
             FieldBad reason value \<Rightarrow>
               Inr (\<lparr>fr_name = pf_name field, fr_status = FieldInvalid, fr_value = value, fr_reason = Some reason\<rparr>,
                 False)
           | FieldOk value \<Rightarrow>
               Inr (\<lparr>fr_name = pf_name field, fr_status = FieldPresent, fr_value = Some value, fr_reason = None\<rparr>,
                 shortened value raw)))"

fun fieldResults :: "value_parsers \<Rightarrow> extraction_limits \<Rightarrow> (string \<times> js_value) list \<Rightarrow> ParsedSchemaField list \<Rightarrow>
    (ExtractionFieldResult \<times> bool) list res" where
  "fieldResults vp limits ms [] = Inr []"
| "fieldResults vp limits ms (f # fs) =
     bindE (fieldResult vp limits ms f) (\<lambda>r. bindE (fieldResults vp limits ms fs) (\<lambda>rs. Inr (r # rs)))"

fun fieldStatusName :: "FieldStatus \<Rightarrow> string" where
  "fieldStatusName FieldPresent = ''present''"
| "fieldStatusName FieldMissing = ''missing''"
| "fieldStatusName FieldInvalid = ''invalid''"

definition fieldJson :: "ExtractionFieldResult \<Rightarrow> js_value" where
  "fieldJson r = JObject ([(''name'', JString (fr_name r)), (''status'', JString (fieldStatusName (fr_status r)))] @
     (case fr_reason r of None \<Rightarrow> [] | Some s \<Rightarrow> [(''reason'', JString s)]) @
     (case fr_value r of None \<Rightarrow> [] | Some v \<Rightarrow> [(''value'', v)]))"

record ProviderOutputValidation =
  pv_fields :: "ExtractionFieldResult list"
  pv_truncated :: bool

definition outputError :: "ErrorCode \<Rightarrow> string \<Rightarrow> bool \<Rightarrow> string \<Rightarrow> string \<Rightarrow> exn" where
  "outputError code message retryable hintCode t =
     GroundlaneError code ''schema-extract'' message retryable (Some (Hint (''schema_extract.'' @ hintCode) t))"

definition validateProviderOutput :: "value_parsers \<Rightarrow> js_value \<Rightarrow> ParsedExtractionSchema \<Rightarrow> limit_overrides \<Rightarrow>
    ProviderOutputValidation res" where
  "validateProviderOutput vp data schema limitOverrides =
     bindE (resolveSchemaExtractionLimits limitOverrides) (\<lambda>limits.
     andThen (throwIf (\<not> isRecord data)
       (outputError UPSTREAM_ERROR ''Provider returned malformed extraction output'' True ''malformed_output''
         (''The provider did not return a JSON object for the requested schema. Retry, or check '' @
          ''provider_quota for upstream state.'')))
     (andThen (throwIf (int (length (recordMembers data)) > xl_maxProperties limits + int (length (xs_fields schema)))
       (outputError OUTPUT_LIMIT ''Provider returned more fields than the configured bound'' False
         ''output_too_many_keys''
         (''The provider output carries more top-level keys than the schema plus property bound allows. '' @
          ''Retry with a smaller schema.'')))
     (bindE (fieldResults vp limits (recordMembers data) (xs_fields schema)) (\<lambda>rs.
        let serialized = jsonText (JArray (map (fieldJson \<circ> fst) rs))
        in andThen (throwIf (int (length serialized) > xl_maxOutputChars limits)
             (outputError OUTPUT_LIMIT ''Validated extraction output exceeds the configured limit'' False
               ''output_too_large''
               (''Lower maxOutputChars pressure by requesting fewer fields, smaller arrays, or shorter '' @
                ''string caps.'')))
           (Inr \<lparr>pv_fields = map fst rs, pv_truncated = list_ex snd rs\<rparr>)))))"

section \<open>Repeatability\<close>

text \<open>The comparator of both sorts: by the code units of the names.\<close>

definition compareNames :: "string \<Rightarrow> string \<Rightarrow> int" where
  "compareNames a b = (if codeUnitGreater b a then - 1 else if codeUnitGreater a b then 1 else 0)"

fun stableStringify :: "js_value \<Rightarrow> string" where
  "stableStringify Undefined = ''null''"
| "stableStringify Null = ''null''"
| "stableStringify (JString s) = jsonString s"
| "stableStringify (JNumber n) = (if isFinite n then numberText n else ''null'')"
| "stableStringify (JBool b) = (if b then ''true'' else ''false'')"
| "stableStringify (JArray xs) = ''['' @ joinWith '','' (map stableStringify xs) @ '']''"
| "stableStringify (JObject ms) =
     ''{'' @ joinWith '','' (map (\<lambda>(k, t). jsonString k @ '':'' @ t)
       (sortBy (\<lambda>l r. compareNames (fst l) (fst r)) (map (\<lambda>m. (fst m, stableStringify (snd m))) ms))) @ ''}''"

definition byFieldName :: "ExtractionFieldResult \<Rightarrow> ExtractionFieldResult \<Rightarrow> int" where
  "byFieldName l r = compareNames (fr_name l) (fr_name r)"

definition canonicalFieldJson :: "ExtractionFieldResult \<Rightarrow> js_value" where
  "canonicalFieldJson r = JObject
     [(''name'', JString (fr_name r)),
      (''reason'', case fr_reason r of None \<Rightarrow> Null | Some s \<Rightarrow> JString s),
      (''status'', JString (fieldStatusName (fr_status r))),
      (''value'', case fr_value r of None \<Rightarrow> Null | Some Undefined \<Rightarrow> Null | Some v \<Rightarrow> v)]"

definition canonicalizeExtractionFields :: "ExtractionFieldResult list \<Rightarrow> string" where
  "canonicalizeExtractionFields fs = stableStringify (JArray (map canonicalFieldJson (sortBy byFieldName fs)))"

text \<open>FNV-1a. The product of \<open>Math.imul\<close> and the operand of \<open>^\<close> are 32-bit patterns; \<open>>>> 0\<close> reads the
  pattern as unsigned.\<close>

definition fnvStep :: "32 word \<Rightarrow> char \<Rightarrow> 32 word" where
  "fnvStep hash c = (hash XOR of_nat (of_char c)) * 0x01000193"

definition fnv1a :: "string \<Rightarrow> 32 word" where
  "fnv1a s = foldl fnvStep 0x811c9dc5 s"

definition digestExtractionFields :: "ExtractionFieldResult list \<Rightarrow> string" where
  "digestExtractionFields fs = padStart 8 (CHR ''0'') (showHex (unat (fnv1a (canonicalizeExtractionFields fs))))"

record RepeatabilitySummary =
  rs_totalRuns :: nat
  rs_matchingRuns :: nat
  rs_repeatabilityScore :: rat

definition summarizeRepeatability :: "string list \<Rightarrow> RepeatabilitySummary" where
  "summarizeRepeatability digests =
     (case digests of
        [] \<Rightarrow> \<lparr>rs_totalRuns = 0, rs_matchingRuns = 0, rs_repeatabilityScore = 0\<rparr>
      | first # _ \<Rightarrow>
          let matching = length (filter (\<lambda>d. d = first) digests)
          in \<lparr>rs_totalRuns = length digests, rs_matchingRuns = matching,
              rs_repeatabilityScore = of_nat matching / of_nat (length digests)\<rparr>)"

end
