(* ===== verification/ExtractionRun.thy ===== *)
theory ExtractionRun
  imports SchemaExtraction
begin

text \<open>
  The run of \<^verbatim>\<open>src/core/schema-extraction-runtime.ts\<close>: opt-in, caps, benchmark gate, URL policy, schema,
  choice of the provider, its call within the deadline, validation and provenance. The platform and the
  provider are arguments: what the signal, the clocks, the resolver and the provider do in the run. The
  result is returned with the calls of the provider's \<open>extract\<close>.
\<close>

section \<open>Providers and requests\<close>

record SchemaExtractionProviderInput =
  pi_url :: string
  pi_schema :: ParsedExtractionSchema

text \<open>\<open>sp_supports\<close> is absent, or answers or throws; \<open>sp_extract\<close> is what settles the race of the call with
  the controller of its deadline.\<close>

record SchemaExtractionProvider =
  sp_id :: string
  sp_model :: string
  sp_supports :: "(SchemaExtractionProviderInput \<Rightarrow> bool tres) option"
  sp_extract :: "SchemaExtractionProviderInput \<Rightarrow> js_value raceEnd"

record SchemaExtractionRequest =
  xq_url :: string
  xq_schema :: js_value
  xq_providerBacked :: js_value
  xq_provider :: "string option"
  xq_timeoutMs :: "jsnum option"
  xq_maxOutputChars :: "jsnum option"
  xq_maxStringChars :: "jsnum option"

record SchemaExtractionRuntimeOptions =
  xo_providers :: "SchemaExtractionProvider list"
  xo_defaultProvider :: "string option"
  xo_benchmarkReport :: "ExtractionBenchmarkReport option"
  xo_thresholds :: BenchmarkThresholds
  xo_limits :: limit_overrides

record SchemaExtractionOutcome =
  so_result :: ExtractionResult
  so_warnings :: "string list"
  so_durationMs :: int
  so_truncated :: bool
  so_digest :: string

text \<open>The platform in a run: \<open>xe_aborted\<close> is the parent signal at the entry, \<open>xe_abortedAtCall\<close> whether it
  has aborted when the provider is to be called, \<open>xe_clock0\<close> to \<open>xe_clock2\<close> are the readings of the
  monotonic clock for the deadline, \<open>xe_started\<close> and \<open>xe_ended\<close> those of the wall clock.\<close>

record extraction_platform = resolve_context +
  xe_validDate :: "string \<Rightarrow> bool"
  xe_aborted :: "thrown option"
  xe_abortedAtCall :: bool
  xe_clock0 :: jsnum
  xe_clock1 :: jsnum
  xe_clock2 :: jsnum
  xe_started :: int
  xe_ended :: int

definition parsersOf :: "('x) extraction_platform_scheme \<Rightarrow> value_parsers" where
  "parsersOf pf = \<lparr>vp_parse = rc_parse pf, vp_validDate = xe_validDate pf\<rparr>"

section \<open>Steps\<close>

definition truncateId :: "string \<Rightarrow> string" where
  "truncateId value = (if length value > 128 then take 128 value @ ''...'' else value)"

definition unavailable :: "string \<Rightarrow> bool \<Rightarrow> string \<Rightarrow> string \<Rightarrow> exn" where
  "unavailable message retryable hintCode t = outputError PROVIDER_UNAVAILABLE message retryable hintCode t"

definition findProvider :: "string \<Rightarrow> SchemaExtractionRuntimeOptions \<Rightarrow> SchemaExtractionProvider option" where
  "findProvider i options = find (\<lambda>p. sp_id p = i) (xo_providers options)"

definition resolveProvider :: "string option \<Rightarrow> SchemaExtractionRuntimeOptions \<Rightarrow> SchemaExtractionProvider res" where
  "resolveProvider requested options =
     (case requested of
        Some i \<Rightarrow> (case findProvider i options of
            None \<Rightarrow> Inl (unavailable (''Unknown schema extraction provider '' @ quoted (truncateId i)) False
              ''unknown_provider''
              (''Explicit providers are never silently substituted. Check provider_capabilities for available '' @
               ''extraction providers.''))
          | Some p \<Rightarrow> Inr p)
      | None \<Rightarrow> (case xo_defaultProvider options of
            Some i \<Rightarrow> (case findProvider i options of
                None \<Rightarrow> Inl (unavailable ''Default schema extraction provider is not configured'' False
                  ''no_default_provider''
                  (''The configured default provider has no registered extraction adapter. Specify an '' @
                   ''explicit provider instead.''))
              | Some p \<Rightarrow> Inr p)
          | None \<Rightarrow> (case xo_providers options of
                [] \<Rightarrow> Inl (unavailable ''No schema extraction provider is configured'' True ''no_provider''
                  ''Register at least one extraction provider adapter before calling this operation.'')
              | p # _ \<Rightarrow> Inr p)))"

text \<open>The loop over the warnings: \<open>n\<close> more are taken.\<close>

fun cleanWarnings :: "int \<Rightarrow> nat \<Rightarrow> js_value list \<Rightarrow> string list res" where
  "cleanWarnings cap n [] = Inr []"
| "cleanWarnings cap 0 (w # ws) = Inr []"
| "cleanWarnings cap (Suc n) (w # ws) =
     (case w of
        JString s \<Rightarrow>
          if s = [] then cleanWarnings cap (Suc n) ws
          else bindE (truncateBoundedString s cap) (\<lambda>r. bindE (cleanWarnings cap n ws) (\<lambda>rs. Inr (fst r # rs)))
      | _ \<Rightarrow> cleanWarnings cap (Suc n) ws)"

definition sanitizeWarnings :: "js_value \<Rightarrow> extraction_limits \<Rightarrow> string list res" where
  "sanitizeWarnings warnings limits =
     (case warnings of
        JArray ws \<Rightarrow> cleanWarnings (xl_maxWarningChars limits) (nat (xl_maxWarnings limits)) ws
      | _ \<Rightarrow> Inr [])"

text \<open>The caps of a request, within those of the deployment.\<close>

definition requestLimits :: "SchemaExtractionRequest \<Rightarrow> extraction_limits \<Rightarrow> extraction_limits res" where
  "requestLimits request base =
     (if xq_maxOutputChars request = None \<and> xq_maxStringChars request = None then Inr base
      else let outputs = (case xq_maxOutputChars request of Some n \<Rightarrow> n | None \<Rightarrow> jint (xl_maxOutputChars base));
               strings = (case xq_maxStringChars request of Some n \<Rightarrow> n | None \<Rightarrow> jint (xl_maxStringChars base))
           in andThen (throwIf (\<not> isInteger outputs \<or> \<not> isInteger strings \<or> jle outputs (jint 0) \<or>
                jle strings (jint 0) \<or> jlt (jint (xl_maxOutputChars base)) outputs \<or>
                jlt (jint (xl_maxStringChars base)) strings)
              (invalidSchema ''Per-request output caps exceed deployment limits'' ''cap_exceeds_deployment''
                (''Per-request maxOutputChars/maxStringChars must be positive integers within the deployment '' @
                 ''limits.'')))
             (Inr (base\<lparr>xl_maxOutputChars := toInt outputs, xl_maxStringChars := toInt strings\<rparr>)))"

definition requestTimeout :: "SchemaExtractionRequest \<Rightarrow> jsnum res" where
  "requestTimeout request =
     (let timeoutMs = (case xq_timeoutMs request of Some n \<Rightarrow> n | None \<Rightarrow> jint DEFAULT_SCHEMA_EXTRACTION_TIMEOUT_MS)
      in andThen (throwIf (\<not> isInteger timeoutMs \<or> jlt timeoutMs (jint 1000) \<or> jlt (jint 120000) timeoutMs)
           (invalidSchema ''Schema extraction timeoutMs is outside the allowed range'' ''invalid_timeout''
             ''timeoutMs must be an integer between 1000 and 120000 milliseconds.''))
         (Inr timeoutMs))"

definition supportedBy :: "SchemaExtractionProvider \<Rightarrow> SchemaExtractionProviderInput \<Rightarrow> bool" where
  "supportedBy p input =
     (case sp_supports p of None \<Rightarrow> True | Some f \<Rightarrow> (case f input of Inl _ \<Rightarrow> False | Inr b \<Rightarrow> b))"

text \<open>What the call of the provider throws, without anything of what it threw unless that is an error of
  the application.\<close>

definition sanitizeProviderFailure :: "SchemaExtractionProvider \<Rightarrow> js_value raceEnd \<Rightarrow> js_value raceEnd" where
  "sanitizeProviderFailure p race =
     (case race of
        OperationDone (Inl t) \<Rightarrow> (case t of
            ThrownError (GroundlaneError _ _ _ _ _) \<Rightarrow> race
          | _ \<Rightarrow> OperationDone (Inl (ThrownError (outputError UPSTREAM_ERROR
              (''Schema extraction provider '' @ quoted (truncateId (sp_id p)) @ '' failed'') True ''provider_failed''
              (''The provider call failed without returning usable output. Retry, or check provider_quota for '' @
               ''billing and rate-limit state. Raw upstream errors are withheld.'')))))
      | _ \<Rightarrow> race)"

text \<open>Whether \<open>withinDeadline\<close> gets to its operation.\<close>

definition operationStarts :: "jsnum \<Rightarrow> bool \<Rightarrow> jsnum \<Rightarrow> jsnum \<Rightarrow> bool" where
  "operationStarts expiresAt parentAborted now1 now2 \<longleftrightarrow>
     is_ok (remainingMs expiresAt ''schema-extract'' now1) \<and> \<not> parentAborted \<and>
     is_ok (remainingMs expiresAt ''schema-extract'' now2)"

section \<open>Before the call\<close>

text \<open>Everything that is decided before the provider is called: the limits, the deadline, the provider and
  its input.\<close>

record prepared_extraction =
  pe_limits :: extraction_limits
  pe_timeoutMs :: jsnum
  pe_provider :: SchemaExtractionProvider
  pe_input :: SchemaExtractionProviderInput

definition gateOpen :: "SchemaExtractionRuntimeOptions \<Rightarrow> unit res" where
  "gateOpen options =
     bindE (checkBenchmarkGate (xo_benchmarkReport options) (xo_thresholds options) (xo_providers options \<noteq> []))
       (\<lambda>gate. throwIf (\<not> gate_allowed gate)
         (unavailable (''Schema extraction is not routed to production: '' @ gate_reason gate) True ''benchmark_gate''
           (''Provider availability alone does not enable this operation. A benchmark report passing '' @
            ''repeatability, accuracy, and latency thresholds is required first.'')))"

definition resolveSource :: "('x) extraction_platform_scheme \<Rightarrow> string \<Rightarrow> string res" where
  "resolveSource pf value =
     bindE (fst (resolvePublicUrl (resolve_context.truncate (pf\<lparr>rc_allowedPorts := defaultPorts\<rparr>)) value))
       (\<lambda>d. Inr (url_href (sd_url d)))"

definition prepareExtraction :: "('x) extraction_platform_scheme \<Rightarrow> SchemaExtractionRequest \<Rightarrow>
    SchemaExtractionRuntimeOptions \<Rightarrow> prepared_extraction res" where
  "prepareExtraction pf request options =
     andThen (throwIfAborted (xe_aborted pf) ''schema-extract'' ''Schema extraction was cancelled'')
     (andThen (throwIf (xq_providerBacked request \<noteq> JBool True)
       (invalidSchema ''Provider-backed schema extraction requires explicit opt-in (providerBacked: true)''
         ''opt_in_required''
         (''Set providerBacked: true to use provider inference, or use web_extract for deterministic '' @
          ''selector/pattern extraction. Groundlane never upgrades silently.'')))
     (bindE (resolveSchemaExtractionLimits (xo_limits options)) (\<lambda>base.
      bindE (requestTimeout request) (\<lambda>timeoutMs.
      bindE (requestLimits request base) (\<lambda>limits.
      andThen (gateOpen options)
     (bindE (resolveSource pf (xq_url request)) (\<lambda>source.
      bindE (parseBoundedSchema (xq_schema request) (asOverrides limits)) (\<lambda>schema.
      bindE (resolveProvider (xq_provider request) options) (\<lambda>p.
      let input = \<lparr>pi_url = source, pi_schema = schema\<rparr>
      in andThen (throwIf (\<not> supportedBy p input)
           (unavailable (''Schema extraction provider '' @ quoted (truncateId (sp_id p)) @
              '' does not support this request'') False ''provider_unsupported''
             (''The selected provider cannot serve this schema or URL. Pick another explicit provider; '' @
              ''Groundlane does not substitute silently.'')))
         (andThen (throwIf (sp_id p = [] \<or> sp_model p = [])
           (invalidSchema ''Schema extraction provider adapter is misconfigured'' ''provider_misconfigured''
             ''Provider adapters must declare non-empty id and model for provenance.''))
         (Inr \<lparr>pe_limits = limits, pe_timeoutMs = timeoutMs, pe_provider = p, pe_input = input\<rparr>)))))))))))"

section \<open>After the call\<close>

text \<open>A property of what the provider returned, which is an object or an array.\<close>

definition finishExtraction :: "('x) extraction_platform_scheme \<Rightarrow> prepared_extraction \<Rightarrow> js_value \<Rightarrow>
    SchemaExtractionOutcome res" where
  "finishExtraction pf pe output =
     andThen (throwIf (case output of JObject _ \<Rightarrow> False | JArray _ \<Rightarrow> False | _ \<Rightarrow> True)
       (outputError UPSTREAM_ERROR ''Provider returned malformed extraction output'' True ''malformed_output''
         (''The provider did not return a usable extraction envelope. Retry, or check provider_quota for '' @
          ''upstream state.'')))
     (let billed = propOf ''billedUnits'' output
      in bindE (case billed of
          JNumber n \<Rightarrow> if isFinite n \<and> \<not> jlt n (jint 0) then Inr n else Inl (outputError UPSTREAM_ERROR
            ''Provider returned invalid billing metadata'' True ''invalid_billing''
            (''The provider envelope carried missing or negative billedUnits. Retry, or check '' @
             ''provider_quota for upstream state.''))
        | _ \<Rightarrow> Inl (outputError UPSTREAM_ERROR
            ''Provider returned invalid billing metadata'' True ''invalid_billing''
            (''The provider envelope carried missing or negative billedUnits. Retry, or check '' @
             ''provider_quota for upstream state.''))) (\<lambda>billedUnits.
         bindE (sanitizeWarnings (propOf ''warnings'' output) (pe_limits pe)) (\<lambda>warnings.
         bindE (validateProviderOutput (parsersOf pf) (propOf ''data'' output) (pi_schema (pe_input pe))
           (asOverrides (pe_limits pe))) (\<lambda>validation.
         let result = \<lparr>er_fields = pv_fields validation, er_provenance =
               \<lparr>xp_provider = sp_id (pe_provider pe), xp_model = sp_model (pe_provider pe),
                xp_source = pi_url (pe_input pe), xp_billedUnits = billedUnits\<rparr>\<rparr>
         in andThen (case validateExtractionResult result of
               Inl e \<Rightarrow> Inl (outputError UPSTREAM_ERROR ''Failed to assemble a valid extraction result'' True
                 ''result_rejected'' (exn_message e))
             | Inr u \<Rightarrow> Inr u)
           (Inr \<lparr>so_result = result, so_warnings = warnings, so_durationMs = max 0 (xe_ended pf - xe_started pf),
              so_truncated = pv_truncated validation, so_digest = digestExtractionFields (pv_fields validation)\<rparr>)))))"

section \<open>The run\<close>

type_synonym extraction_call = "string \<times> SchemaExtractionProviderInput"

definition runSchemaExtraction :: "('x) extraction_platform_scheme \<Rightarrow> SchemaExtractionRequest \<Rightarrow>
    SchemaExtractionRuntimeOptions \<Rightarrow> SchemaExtractionOutcome tres \<times> extraction_call list" where
  "runSchemaExtraction pf request options =
     (case prepareExtraction pf request options of
        Inl e \<Rightarrow> (Inl (ThrownError e), [])
      | Inr pe \<Rightarrow>
          (case newDeadline (pe_timeoutMs pe) (xe_clock0 pf) of
             Inl e \<Rightarrow> (Inl (ThrownError e), [])
           | Inr expiresAt \<Rightarrow>
               (let p = pe_provider pe;
                    calls = (if operationStarts expiresAt (xe_abortedAtCall pf) (xe_clock1 pf) (xe_clock2 pf)
                             then [(sp_id p, pe_input pe)] else [])
                in case withinDeadline expiresAt (xe_abortedAtCall pf) ''schema-extract'' (xe_clock1 pf) (xe_clock2 pf)
                     (sanitizeProviderFailure p (sp_extract p (pe_input pe))) of
                   Inl t \<Rightarrow> (Inl t, calls)
                 | Inr output \<Rightarrow> (map_sum ThrownError id (finishExtraction pf pe output), calls))))"

end
