(* ===== verification/ExtractionFacts.thy ===== *)
theory ExtractionFacts
  imports ExtractionRun UrlPolicyFacts
begin

text \<open>
  Lemmas on the schema extraction: reference definitions of an accepted schema and of a valid value, to
  which the parser and the validation are shown equal, what is decided before the call of a provider, and
  which computations throw coded errors only.
\<close>

section \<open>Limits\<close>

definition limitsInRange :: "extraction_limits \<Rightarrow> bool" where
  "limitsInRange l \<longleftrightarrow> (\<forall>field \<in> {xl_maxFields, xl_maxDepth, xl_maxProperties, xl_maxArrayItems, xl_maxStringChars,
     xl_maxOutputChars, xl_maxWarnings, xl_maxWarningChars}. 0 < field l \<and> field l \<le> field HARD_LIMIT_CEILINGS)"

lemma limitOf_Inr:
  "limitOf key field v = Inr n \<Longrightarrow> 0 < n \<and> n \<le> field HARD_LIMIT_CEILINGS"
  by (auto simp: limitOf_def Let_def res_simps isInteger_iff jle_def split: option.splits)

lemma resolve_inRange:
  "resolveSchemaExtractionLimits ov = Inr l \<Longrightarrow> limitsInRange l"
  by (auto simp: resolveSchemaExtractionLimits_def res_simps limitsInRange_def dest!: limitOf_Inr)

lemma limitOf_jint:
  "0 < n \<Longrightarrow> n \<le> field HARD_LIMIT_CEILINGS \<Longrightarrow> limitOf key field (Some (jint n)) = Inr n"
  by (simp add: limitOf_def res_simps throwIf_def)

lemma resolve_asOverrides:
  "limitsInRange l \<Longrightarrow> resolveSchemaExtractionLimits (asOverrides l) = Inr l"
  by (simp add: resolveSchemaExtractionLimits_def asOverrides_def limitsInRange_def limitOf_jint)

section \<open>The schema parser\<close>

text \<open>Reference definitions: the nodes of a value, and whether a key \<open>$ref\<close> occurs in it.\<close>

fun nodeCount :: "js_value \<Rightarrow> nat" where
  "nodeCount (JArray xs) = 1 + sum_list (map nodeCount xs)"
| "nodeCount (JObject ms) = 1 + sum_list (map (\<lambda>m. nodeCount (snd m)) ms)"
| "nodeCount _ = 1"

fun mentionsRef :: "js_value \<Rightarrow> bool" where
  "mentionsRef (JArray xs) \<longleftrightarrow> list_ex mentionsRef xs"
| "mentionsRef (JObject ms) \<longleftrightarrow> list_ex (\<lambda>m. fst m = ''$ref'' \<or> mentionsRef (snd m)) ms"
| "mentionsRef _ \<longleftrightarrow> False"

lemma scanRefKeys_exact:
  "scanRefKeys n stack = Inr () \<longleftrightarrow> sum_list (map nodeCount stack) \<le> n \<and> \<not> list_ex mentionsRef stack"
proof (induction n stack rule: scanRefKeys.induct)
  case (2 v stack)
  have "nodeCount v \<noteq> 0" by (cases v) auto
  then show ?case by simp
next
  case (3 n v stack)
  show ?case
  proof (cases v)
    case (JObject ms)
    show ?thesis
    proof (cases "''$ref'' \<in> set (map fst ms)")
      case True
      then obtain b where "(''$ref'', b) \<in> set ms" by auto
      then have "mentionsRef v" by (auto simp: JObject list_ex_iff intro!: bexI [of _ "(''$ref'', b)"])
      with True show ?thesis by (simp add: JObject)
    next
      case False
      then have "mentionsRef v \<longleftrightarrow> list_ex mentionsRef (rev (map snd ms))"
        by (force simp: JObject list_ex_iff)
      moreover have "sum_list (map nodeCount (rev (map snd ms))) = (\<Sum>m\<leftarrow>ms. nodeCount (snd m))"
        by (simp add: rev_map [symmetric] sum_list_rev o_def)
      moreover have "scanRefKeys n (rev (map snd ms) @ stack) = Inr () \<longleftrightarrow>
          sum_list (map nodeCount (rev (map snd ms) @ stack)) \<le> n \<and> \<not> list_ex mentionsRef (rev (map snd ms) @ stack)"
        using 3 False JObject by blast
      ultimately show ?thesis using False by (simp add: JObject)
    qed
  qed (use 3 in \<open>auto simp: list_ex_iff rev_map [symmetric] sum_list_rev\<close>)
qed simp

lemma firstFound_None: "firstFound xs = None \<longleftrightarrow> (\<forall>x \<in> set xs. x = None)"
  by (induction xs) (auto split: option.splits)

lemma no_remote_ref: "\<not> mentionsRef v \<Longrightarrow> containsRemoteRef v depth maxDepth = None"
proof (induction v arbitrary: depth rule: mentionsRef.induct)
  case (1 xs)
  then show ?case by (simp add: firstFound_None list_ex_iff)
next
  case (2 ms)
  then have "\<And>m. m \<in> set ms \<Longrightarrow> remoteRefOf (fst m) (snd m) = None \<and> containsRemoteRef (snd m) (depth + 1) maxDepth = None"
    by (auto simp: list_ex_iff remoteRefOf_def split: js_value.split)
  then show ?case by (simp add: firstFound_None)
qed simp_all

lemma scalarName_inj: "scalarName s = scalarName t \<longleftrightarrow> s = t"
  by (cases s; cases t; simp)

lemma scalarName_not_array: "scalarName s \<noteq> ''array''"
  by (cases s) simp_all

lemma fieldTypeName_inj: "fieldTypeName s = fieldTypeName t \<longleftrightarrow> s = t"
  by (cases s; cases t) (simp_all add: scalarName_inj scalarName_not_array scalarName_not_array [symmetric])

lemma find_field_type: "find (\<lambda>x. fieldTypeName x = fieldTypeName t) SCHEMA_FIELD_TYPES = Some t"
proof (cases t)
  case (ScalarField s)
  then show ?thesis by (cases s) (simp_all add: SCHEMA_FIELD_TYPES_def)
qed (simp add: SCHEMA_FIELD_TYPES_def)

lemma asFieldType_Some: "asFieldType v = Some t \<longleftrightarrow> v = JString (fieldTypeName t)"
proof (cases v)
  case (JString s)
  then show ?thesis
    using find_field_type [of t] by (auto simp: asFieldType_def named_def find_Some_iff)
qed (simp_all add: asFieldType_def named_def)


text \<open>What a schema says of one field: the specification of \<open>parseField\<close>.\<close>

definition declares :: "string \<times> js_value \<Rightarrow> ParsedSchemaField \<Rightarrow> bool" where
  "declares entry f \<longleftrightarrow> isFieldName (fst entry) \<and> pf_name f = fst entry \<and> isRecord (snd entry) \<and>
     propOf ''type'' (snd entry) = JString (fieldTypeName (pf_type f)) \<and>
     propOf ''required'' (snd entry) \<in> (if pf_required f then {JBool True} else {JBool False, Undefined}) \<and>
     (if pf_type f = ArrayField
      then isRecord (propOf ''items'' (snd entry)) \<and>
        (\<exists>t. pf_items f = Some t \<and> propOf ''type'' (propOf ''items'' (snd entry)) = JString (scalarName t))
      else pf_items f = None)"

lemma parseRequired_Inr:
  "parseRequired n d = Inr b \<longleftrightarrow> propOf ''required'' d \<in> (if b then {JBool True} else {JBool False, Undefined})"
  by (auto simp: parseRequired_def split: js_value.split)

lemma parseItemType_Inr:
  "parseItemType n d = Inr t \<longleftrightarrow>
     isRecord (propOf ''items'' d) \<and> propOf ''type'' (propOf ''items'' d) = JString (scalarName t)"
proof -
  have scalar: "asFieldType v = Some (ScalarField t) \<longleftrightarrow> v = JString (scalarName t)" for v
    by (simp add: asFieldType_Some)
  have "(case r of Some (ScalarField t) \<Rightarrow> Inr t | _ \<Rightarrow> Inl e) = Inr t \<longleftrightarrow> r = Some (ScalarField t)" for r and e :: exn
    by (cases r) (simp_all split: SchemaFieldType.split)
  then show ?thesis by (simp add: parseItemType_def Let_def andThen_Inr_iff throwIf_Inr_iff scalar)
qed

lemma asFieldType_case:
  "(case asFieldType v of None \<Rightarrow> Inl e | Some t \<Rightarrow> g t) = Inr x \<longleftrightarrow> (\<exists>t. v = JString (fieldTypeName t) \<and> g t = Inr x)"
  by (cases "asFieldType v") (auto simp: asFieldType_Some [symmetric])

lemma parseField_Inr: "parseField entry = Inr f \<longleftrightarrow> declares entry f"
proof -
  have branch: "(if t = ArrayField
      then bindE (parseItemType n d) (\<lambda>i. Inr \<lparr>pf_name = n, pf_type = t, pf_required = b, pf_items = Some i\<rparr>)
      else Inr \<lparr>pf_name = n, pf_type = t, pf_required = b, pf_items = None\<rparr>) = Inr f \<longleftrightarrow>
    t = pf_type f \<and> b = pf_required f \<and> n = pf_name f \<and>
    (if t = ArrayField then \<exists>i. pf_items f = Some i \<and> parseItemType n d = Inr i else pf_items f = None)" for t n d b
    by (cases f) (auto simp: res_simps)
  show ?thesis
    by (cases entry) (auto simp: parseField_def declares_def res_simps asFieldType_case branch parseRequired_Inr
      parseItemType_Inr)
qed

lemma parseFields_Inr: "parseFields es = Inr fs \<longleftrightarrow> list_all2 declares es fs"
  by (induction es arbitrary: fs) (auto simp: res_simps parseField_Inr list_all2_Cons1)

text \<open>The specification of an accepted schema.\<close>

definition boundedSchema :: "extraction_limits \<Rightarrow> js_value \<Rightarrow> bool" where
  "boundedSchema l raw \<longleftrightarrow> isRecord raw \<and> nodeCount raw \<le> 5000 \<and> \<not> mentionsRef raw \<and>
     propOf ''type'' raw = JString ''object'' \<and> isRecord (propOf ''properties'' raw) \<and>
     recordMembers (propOf ''properties'' raw) \<noteq> [] \<and>
     int (length (recordMembers (propOf ''properties'' raw))) \<le> xl_maxFields l \<and>
     int (measureDepth raw 0) \<le> xl_maxDepth l \<and> int (countProperties raw) \<le> xl_maxProperties l"


section \<open>Validation of the output\<close>

text \<open>Reference definitions: which raw values are of a type, and what is reported of such a value.\<close>

fun scalarValid :: "value_parsers \<Rightarrow> ScalarFieldType \<Rightarrow> js_value \<Rightarrow> bool" where
  "scalarValid vp StringField v \<longleftrightarrow> asString v \<noteq> None"
| "scalarValid vp NumberField v \<longleftrightarrow> (case asNumber v of Some n \<Rightarrow> isFinite n | None \<Rightarrow> False)"
| "scalarValid vp BooleanField v \<longleftrightarrow> asBool v \<noteq> None"
| "scalarValid vp UrlField v \<longleftrightarrow> (case asString v of
     Some s \<Rightarrow> length s \<le> 8192 \<and> is_ok (parsePublicUrl (vp_parse vp) s defaultPorts) | None \<Rightarrow> False)"
| "scalarValid vp DateField v \<longleftrightarrow> (case asString v of Some s \<Rightarrow> length s \<le> 120 \<and> vp_validDate vp s | None \<Rightarrow> False)"

fun fieldValid :: "value_parsers \<Rightarrow> extraction_limits \<Rightarrow> ParsedSchemaField \<Rightarrow> js_value \<Rightarrow> bool" where
  "fieldValid vp l f v \<longleftrightarrow> (case pf_type f of
     ScalarField t \<Rightarrow> scalarValid vp t v
   | ArrayField \<Rightarrow> (case v of
       JArray xs \<Rightarrow> int (length xs) \<le> xl_maxArrayItems l \<and>
         list_all (scalarValid vp (case pf_items f of Some t \<Rightarrow> t | None \<Rightarrow> StringField)) xs
     | _ \<Rightarrow> False))"

fun cutScalar :: "extraction_limits \<Rightarrow> js_value \<Rightarrow> js_value" where
  "cutScalar l (JString s) = JString (take (nat (xl_maxStringChars l)) s)"
| "cutScalar l v = v"

fun cutValue :: "extraction_limits \<Rightarrow> js_value \<Rightarrow> js_value" where
  "cutValue l (JArray xs) = JArray (map (cutScalar l) xs)"
| "cutValue l v = cutScalar l v"

lemma truncateBoundedString_cut:
  assumes "0 < m"
  shows "truncateBoundedString s m = Inr (take (nat m) s, int (length s) > m)"
proof (cases "int (length s) \<le> m")
  case False
  have "min (nat m) (nat (m * 2 + 16)) = nat m" using assms by simp
  then show ?thesis
    using False assms by (simp add: truncateBoundedString_def truncateUnicode_def throwIf_def)
qed (simp add: truncateBoundedString_def)

lemma cutString_cut: "0 < xl_maxStringChars l \<Longrightarrow> cutString s l = Inr (cutScalar l (JString s))"
  by (simp add: cutString_def truncateBoundedString_cut)

text \<open>Every check returns, and is the reference.\<close>

lemma checkScalar_exact:
  assumes "0 < xl_maxStringChars l"
  shows "if scalarValid vp t v then checkScalar vp t v l = Inr (FieldOk (cutScalar l v))
    else \<exists>reason value. checkScalar vp t v l = Inr (FieldBad reason value)"
  by (cases t; cases v)
    (auto simp: cutString_cut [OF assms] MAX_URL_VALUE_UNITS_def MAX_DATE_VALUE_UNITS_def is_ok_iff not_less
      split: sum.split)

lemma checkItems_exact:
  assumes "0 < xl_maxStringChars l"
  shows "if list_all (scalarValid vp t) xs
    then checkItems vp t l i vs xs = Inr (FieldOk (JArray (vs @ map (cutScalar l) xs)))
    else \<exists>reason. checkItems vp t l i vs xs = Inr (FieldBad reason None)"
proof (induction xs arbitrary: i vs)
  case (Cons x xs)
  show ?case
    using checkScalar_exact [OF assms, of vp t x] Cons.IH [of "Suc i" "vs @ [cutScalar l x]"]
    by (cases "scalarValid vp t x") auto
qed simp

lemma checkFieldValue_exact:
  assumes "0 < xl_maxStringChars l"
  shows "if fieldValid vp l f v then checkFieldValue vp f v l = Inr (FieldOk (cutValue l v))
    else \<exists>reason value. checkFieldValue vp f v l = Inr (FieldBad reason value)"
proof (cases "pf_type f")
  case (ScalarField t)
  have "scalarValid vp t v \<Longrightarrow> cutValue l v = cutScalar l v" by (cases t; cases v) auto
  then show ?thesis using checkScalar_exact [OF assms, of vp t v] by (simp add: ScalarField checkFieldValue_def)
next
  case ArrayField
  show ?thesis
  proof (cases v)
    case (JArray xs)
    then show ?thesis
      using checkItems_exact [OF assms, of vp "case pf_items f of Some t \<Rightarrow> t | None \<Rightarrow> StringField" xs 0 "[]"]
      by (auto simp: ArrayField checkFieldValue_def split: if_splits)
  qed (simp_all add: ArrayField checkFieldValue_def)
qed

lemma shortened_cut: "shortened (cutValue l v) v \<longleftrightarrow> cutValue l v \<noteq> v"
proof (cases v)
  case (JArray xs)
  have "list_ex (\<lambda>(x, raw). case x of JString s \<Rightarrow> raw \<noteq> JString s | _ \<Rightarrow> False) (zip (map (cutScalar l) xs) xs)
      \<longleftrightarrow> map (cutScalar l) xs \<noteq> xs"
  proof (induction xs)
    case (Cons x xs)
    have "s = take n s \<longleftrightarrow> length s \<le> n" for s :: string and n by (metis take_all_iff)
    with Cons show ?case by (cases x) auto
  qed simp
  then show ?thesis by (simp add: JArray)
qed simp_all

text \<open>What a result says of the raw value of its field.\<close>

definition reports :: "value_parsers \<Rightarrow> extraction_limits \<Rightarrow> js_value \<Rightarrow> ParsedSchemaField \<Rightarrow> ExtractionFieldResult \<Rightarrow> bool" where
  "reports vp l raw f r \<longleftrightarrow> fr_name r = pf_name f \<and>
     (case fr_status r of
        FieldMissing \<Rightarrow> raw \<in> {Undefined, Null} \<and> fr_value r = None
      | FieldPresent \<Rightarrow> raw \<notin> {Undefined, Null} \<and> fieldValid vp l f raw \<and> fr_value r = Some (cutValue l raw) \<and>
          fr_reason r = None
      | FieldInvalid \<Rightarrow> raw \<notin> {Undefined, Null} \<and> \<not> fieldValid vp l f raw \<and> fr_reason r \<noteq> None)"

lemma fieldResult_exact:
  assumes "0 < xl_maxStringChars l"
  shows "\<exists>r b. fieldResult vp l ms f = Inr (r, b) \<and> reports vp l (dataField ms (pf_name f)) f r \<and>
    (b \<longleftrightarrow> fr_status r = FieldPresent \<and> fr_value r \<noteq> Some (dataField ms (pf_name f)))"
proof -
  define raw where "raw = dataField ms (pf_name f)"
  show ?thesis
  proof (cases "raw = Undefined \<or> raw = Null")
    case True
    then show ?thesis by (auto simp: fieldResult_def reports_def raw_def)
  next
    case False
    show ?thesis
    proof (cases "fieldValid vp l f raw")
      case True
      with False checkFieldValue_exact [OF assms, of vp f raw] show ?thesis
        by (auto simp: fieldResult_def reports_def shortened_cut simp flip: raw_def)
    next
      case invalid: False
      with False checkFieldValue_exact [OF assms, of vp f raw] show ?thesis
        by (auto simp: fieldResult_def reports_def simp flip: raw_def)
    qed
  qed
qed


lemma fieldResults_exact:
  assumes "0 < xl_maxStringChars l"
  shows "\<exists>rs. fieldResults vp l ms fs = Inr rs \<and>
    list_all2 (\<lambda>f r. reports vp l (dataField ms (pf_name f)) f (fst r) \<and>
      (snd r \<longleftrightarrow> fr_status (fst r) = FieldPresent \<and> fr_value (fst r) \<noteq> Some (dataField ms (pf_name f)))) fs rs"
proof (induction fs)
  case (Cons f fs)
  with fieldResult_exact [OF assms, of vp ms f] show ?case by fastforce
qed simp

lemma validateProviderOutput_exact:
  assumes "resolveSchemaExtractionLimits ov = Inr l" "validateProviderOutput vp data schema ov = Inr v"
  shows "list_all2 (\<lambda>f r. reports vp l (dataField (recordMembers data) (pf_name f)) f r) (xs_fields schema) (pv_fields v) \<and>
    (pv_truncated v \<longleftrightarrow> list_ex (\<lambda>(f, r). fr_status r = FieldPresent \<and>
       fr_value r \<noteq> Some (dataField (recordMembers data) (pf_name f))) (zip (xs_fields schema) (pv_fields v))) \<and>
    int (length (jsonText (JArray (map fieldJson (pv_fields v))))) \<le> xl_maxOutputChars l"
proof -
  have "0 < xl_maxStringChars l" using resolve_inRange [OF assms(1)] by (simp add: limitsInRange_def)
  from fieldResults_exact [OF this] obtain rs where
    rs: "fieldResults vp l (recordMembers data) (xs_fields schema) = Inr rs" and
    all: "list_all2 (\<lambda>f r. reports vp l (dataField (recordMembers data) (pf_name f)) f (fst r) \<and>
      (snd r \<longleftrightarrow> fr_status (fst r) = FieldPresent \<and> fr_value (fst r) \<noteq> Some (dataField (recordMembers data) (pf_name f))))
      (xs_fields schema) rs" by blast
  have v: "v = \<lparr>pv_fields = map fst rs, pv_truncated = list_ex snd rs\<rparr>"
    "int (length (jsonText (JArray (map (fieldJson \<circ> fst) rs)))) \<le> xl_maxOutputChars l"
    using assms(2) rs by (auto simp: validateProviderOutput_def assms(1) Let_def res_simps not_less)
  have "list_ex snd rs \<longleftrightarrow> list_ex (\<lambda>(f, r). fr_status r = FieldPresent \<and>
       fr_value r \<noteq> Some (dataField (recordMembers data) (pf_name f))) (zip (xs_fields schema) (map fst rs))"
    using all by (induction rule: list_all2_induct) auto
  moreover have "list_all2 (\<lambda>f r. reports vp l (dataField (recordMembers data) (pf_name f)) f r) (xs_fields schema) (map fst rs)"
    using all by (simp add: list_all2_conv_all_nth)
  ultimately show ?thesis using v by simp
qed


section \<open>Before the provider is called\<close>

text \<open>What the benchmark gate is for.\<close>

definition meetsThresholds :: "BenchmarkThresholds \<Rightarrow> ExtractionBenchmarkReport \<Rightarrow> bool" where
  "meetsThresholds t r \<longleftrightarrow> validateBenchmarkReport r = Inr () \<and> br_entries r \<noteq> [] \<and>
     \<not> jlt (jint (int (length (br_entries r)))) (bt_minEntries t) \<and>
     (\<forall>e \<in> set (br_entries r). \<not> jlt (be_repeatabilityScore e) (bt_minRepeatability t) \<and>
        \<not> jlt (be_fieldAccuracy e) (bt_minFieldAccuracy t) \<and> \<not> jlt (bt_maxLatencyMs t) (be_latencyMs e))"

lemma gateOpen_Inr:
  "gateOpen options = Inr () \<longleftrightarrow>
     (\<exists>r. xo_benchmarkReport options = Some r \<and> meetsThresholds (xo_thresholds options) r)"
proof (cases "xo_benchmarkReport options")
  case (Some r)
  have met: "(\<forall>e \<in> set es. \<not> jlt (be_repeatabilityScore e) (bt_minRepeatability t) \<and>
      \<not> jlt (be_fieldAccuracy e) (bt_minFieldAccuracy t) \<and> \<not> jlt (bt_maxLatencyMs t) (be_latencyMs e)) \<longleftrightarrow>
    firstFound (map (entryBelow t) es) = None" for t es
  proof -
    have "entryBelow t e = None \<longleftrightarrow> \<not> jlt (be_repeatabilityScore e) (bt_minRepeatability t) \<and>
        \<not> jlt (be_fieldAccuracy e) (bt_minFieldAccuracy t) \<and> \<not> jlt (bt_maxLatencyMs t) (be_latencyMs e)" for e
      by (simp add: entryBelow_def)
    then show ?thesis by (simp add: firstFound_None)
  qed
  have "br_entries r \<noteq> []" if "validateBenchmarkReport r = Inr ()"
    using that by (simp add: validateBenchmarkReport_def res_simps)
  then show ?thesis
    by (cases "validateBenchmarkReport r"; cases "firstFound (map (entryBelow (xo_thresholds options)) (br_entries r))")
      (auto simp: gateOpen_def checkBenchmarkGate_def Some meetsThresholds_def met refused_def throwIf_Inr_iff)
qed (simp add: gateOpen_def checkBenchmarkGate_def refused_def throwIf_Inr_iff)


lemma resolveProvider_Inr:
  "resolveProvider requested options = Inr p \<Longrightarrow> p \<in> set (xo_providers options) \<and>
     (case requested of
        Some i \<Rightarrow> sp_id p = i
      | None \<Rightarrow> (case xo_defaultProvider options of Some i \<Rightarrow> sp_id p = i | None \<Rightarrow> p = hd (xo_providers options)))"
  by (auto simp: resolveProvider_def findProvider_def find_Some_iff split: option.splits list.splits)

lemma requestLimits_Inr:
  "limitsInRange base \<Longrightarrow> requestLimits request base = Inr l \<Longrightarrow> limitsInRange l \<and>
     xl_maxOutputChars l \<le> xl_maxOutputChars base \<and> xl_maxStringChars l \<le> xl_maxStringChars base"
  by (auto simp: requestLimits_def Let_def res_simps limitsInRange_def isInteger_iff not_less jle_def
    split: if_splits option.splits)

text \<open>What has been decided once the call is prepared.\<close>

lemma prepare_facts:
  assumes "prepareExtraction pf request options = Inr pe"
  shows "xe_aborted pf = None" "xq_providerBacked request = JBool True"
    "\<exists>r. xo_benchmarkReport options = Some r \<and> meetsThresholds (xo_thresholds options) r"
    "\<exists>d c. resolvePublicUrl (resolve_context.truncate (pf\<lparr>rc_allowedPorts := defaultPorts\<rparr>)) (xq_url request) = (Inr d, c) \<and>
       pi_url (pe_input pe) = url_href (sd_url d)"
    "limitsInRange (pe_limits pe)"
    "parseBoundedSchema (xq_schema request) (asOverrides (pe_limits pe)) = Inr (pi_schema (pe_input pe))"
    "resolveProvider (xq_provider request) options = Inr (pe_provider pe)"
    "supportedBy (pe_provider pe) (pe_input pe)" "sp_id (pe_provider pe) \<noteq> []" "sp_model (pe_provider pe) \<noteq> []"
    "\<exists>base. resolveSchemaExtractionLimits (xo_limits options) = Inr base \<and>
       xl_maxOutputChars (pe_limits pe) \<le> xl_maxOutputChars base \<and> xl_maxStringChars (pe_limits pe) \<le> xl_maxStringChars base"
proof -
  from assms obtain base source where
    steps: "throwIfAborted (xe_aborted pf) ''schema-extract'' ''Schema extraction was cancelled'' = Inr ()"
      "resolveSource pf (xq_url request) = Inr source" "pi_url (pe_input pe) = source"
    and base: "resolveSchemaExtractionLimits (xo_limits options) = Inr base" "requestLimits request base = Inr (pe_limits pe)"
    and rest: "xq_providerBacked request = JBool True" "gateOpen options = Inr ()"
      "parseBoundedSchema (xq_schema request) (asOverrides (pe_limits pe)) = Inr (pi_schema (pe_input pe))"
      "resolveProvider (xq_provider request) options = Inr (pe_provider pe)"
      "supportedBy (pe_provider pe) (pe_input pe)" "sp_id (pe_provider pe) \<noteq> []" "sp_model (pe_provider pe) \<noteq> []"
    unfolding prepareExtraction_def Let_def bindE_Inr_iff andThen_Inr_iff throwIf_Inr_iff by auto
  show "xe_aborted pf = None" using steps(1) by (auto simp: throwIfAborted_def split: option.splits thrown.splits exn.splits)
  show "\<exists>r. xo_benchmarkReport options = Some r \<and> meetsThresholds (xo_thresholds options) r"
    using rest(2) by (simp add: gateOpen_Inr)
  show "\<exists>d c. resolvePublicUrl (resolve_context.truncate (pf\<lparr>rc_allowedPorts := defaultPorts\<rparr>)) (xq_url request) = (Inr d, c) \<and>
       pi_url (pe_input pe) = url_href (sd_url d)"
    using steps(2,3)
    by (cases "resolvePublicUrl (resolve_context.truncate (pf\<lparr>rc_allowedPorts := defaultPorts\<rparr>)) (xq_url request)")
      (auto simp: resolveSource_def bindE_Inr_iff)
  from requestLimits_Inr [OF resolve_inRange [OF base(1)] base(2)] base(1)
  show "limitsInRange (pe_limits pe)" "\<exists>base. resolveSchemaExtractionLimits (xo_limits options) = Inr base \<and>
       xl_maxOutputChars (pe_limits pe) \<le> xl_maxOutputChars base \<and> xl_maxStringChars (pe_limits pe) \<le> xl_maxStringChars base"
    by auto
  show "xq_providerBacked request = JBool True"
    "parseBoundedSchema (xq_schema request) (asOverrides (pe_limits pe)) = Inr (pi_schema (pe_input pe))"
    "resolveProvider (xq_provider request) options = Inr (pe_provider pe)"
    "supportedBy (pe_provider pe) (pe_input pe)" "sp_id (pe_provider pe) \<noteq> []" "sp_model (pe_provider pe) \<noteq> []"
    using rest by simp_all
qed


lemma withinDeadline_Inr:
  "withinDeadline d a ''schema-extract'' n1 n2 race = Inr x \<Longrightarrow> race = OperationDone (Inr x) \<and> operationStarts d a n1 n2"
  by (auto simp: withinDeadline_def operationStarts_def split: sum.splits if_splits raceEnd.splits thrown.splits exn.splits)

lemma sanitize_done:
  "sanitizeProviderFailure p race = OperationDone (Inr x) \<Longrightarrow> race = OperationDone (Inr x)"
  by (auto simp: sanitizeProviderFailure_def split: raceEnd.splits sum.splits thrown.splits exn.splits)

lemma run_cases:
  assumes "runSchemaExtraction pf request options = (out, calls)"
  obtains (refused) e where "prepareExtraction pf request options = Inl e" "calls = []" "out = Inl (ThrownError e)"
  | (prepared) pe where "prepareExtraction pf request options = Inr pe"
      "calls \<in> {[], [(sp_id (pe_provider pe), pe_input pe)]}"
      "\<forall>so. out = Inr so \<longrightarrow> calls = [(sp_id (pe_provider pe), pe_input pe)] \<and>
         (\<exists>output. sp_extract (pe_provider pe) (pe_input pe) = OperationDone (Inr output) \<and>
            finishExtraction pf pe output = Inr so)"
proof (cases "prepareExtraction pf request options")
  case (Inl e)
  with assms show ?thesis by (intro refused) (auto simp: runSchemaExtraction_def)
next
  case (Inr pe)
  show ?thesis
  proof (rule prepared [OF Inr])
    show "calls \<in> {[], [(sp_id (pe_provider pe), pe_input pe)]}"
      using assms by (auto simp: runSchemaExtraction_def Inr Let_def split: sum.splits if_splits)
    show "\<forall>so. out = Inr so \<longrightarrow> calls = [(sp_id (pe_provider pe), pe_input pe)] \<and>
         (\<exists>output. sp_extract (pe_provider pe) (pe_input pe) = OperationDone (Inr output) \<and>
            finishExtraction pf pe output = Inr so)"
      using assms
      by (auto simp: runSchemaExtraction_def Inr Let_def map_sum_def split: sum.splits if_splits
        dest!: withinDeadline_Inr sanitize_done)
  qed
qed


section \<open>The result\<close>

lemma cleanWarnings_bounds:
  "0 < cap \<Longrightarrow> cleanWarnings cap n ws = Inr rs \<Longrightarrow> length rs \<le> n \<and> (\<forall>r \<in> set rs. int (length r) \<le> cap)"
proof (induction cap n ws arbitrary: rs rule: cleanWarnings.induct)
  case (3 cap n w ws)
  show ?case
  proof (cases "\<exists>s. w = JString s \<and> s \<noteq> []")
    case True
    then obtain s rs' where "w = JString s" "s \<noteq> []" "cleanWarnings cap n ws = Inr rs'" "rs = take (nat cap) s # rs'"
      using "3.prems" by (auto simp: bindE_Inr_iff truncateBoundedString_cut)
    then show ?thesis using 3 by auto
  next
    case False
    then show ?thesis using 3 by (cases w) auto
  qed
qed auto

lemma finished:
  assumes "finishExtraction pf pe output = Inr so" "limitsInRange (pe_limits pe)"
  obtains n where "propOf ''billedUnits'' output = JNumber n" "isFinite n" "\<not> jlt n (jint 0)"
    "er_provenance (so_result so) = \<lparr>xp_provider = sp_id (pe_provider pe), xp_model = sp_model (pe_provider pe),
       xp_source = pi_url (pe_input pe), xp_billedUnits = n\<rparr>"
    "validateProviderOutput (parsersOf pf) (propOf ''data'' output) (pi_schema (pe_input pe)) (asOverrides (pe_limits pe)) =
       Inr \<lparr>pv_fields = er_fields (so_result so), pv_truncated = so_truncated so\<rparr>"
    "so_digest so = digestExtractionFields (er_fields (so_result so))"
    "int (length (so_warnings so)) \<le> xl_maxWarnings (pe_limits pe)"
proof -
  from assms(1) obtain n v ws where parts: "propOf ''billedUnits'' output = JNumber n" "isFinite n" "\<not> jlt n (jint 0)"
      "sanitizeWarnings (propOf ''warnings'' output) (pe_limits pe) = Inr ws"
      "validateProviderOutput (parsersOf pf) (propOf ''data'' output) (pi_schema (pe_input pe)) (asOverrides (pe_limits pe)) = Inr v"
    and so: "so = \<lparr>so_result = \<lparr>er_fields = pv_fields v, er_provenance = \<lparr>xp_provider = sp_id (pe_provider pe),
        xp_model = sp_model (pe_provider pe), xp_source = pi_url (pe_input pe), xp_billedUnits = n\<rparr>\<rparr>, so_warnings = ws,
      so_durationMs = max 0 (xe_ended pf - xe_started pf), so_truncated = pv_truncated v,
      so_digest = digestExtractionFields (pv_fields v)\<rparr>"
    unfolding finishExtraction_def Let_def bindE_Inr_iff andThen_Inr_iff throwIf_Inr_iff
    by (auto split: js_value.splits if_splits)
  have "int (length ws) \<le> xl_maxWarnings (pe_limits pe)"
    using parts(4) assms(2) cleanWarnings_bounds [of "xl_maxWarningChars (pe_limits pe)"]
    by (fastforce simp: sanitizeWarnings_def limitsInRange_def split: js_value.splits)
  with parts show thesis by (intro that [of n]) (simp_all add: so)
qed

section \<open>Errors\<close>

text \<open>Computations that throw nothing but errors of the application, or what \<open>Q\<close> admits.\<close>

named_theorems coded_rules \<open>computations that throw coded errors\<close>

definition isCoded :: "exn \<Rightarrow> bool" where
  "isCoded e \<longleftrightarrow> exn_code e \<noteq> None"

definition coded :: "(exn \<Rightarrow> bool) \<Rightarrow> 'a res \<Rightarrow> bool" where
  "coded Q r \<longleftrightarrow> (case r of Inl e \<Rightarrow> isCoded e \<or> Q e | Inr _ \<Rightarrow> True)"

lemma coded_basic [coded_rules]:
  "coded Q (Inr x)" "coded Q (Inl (GroundlaneError c s m r h))" "coded Q (Inl (invalidSchema m k t))"
  "coded Q (Inl (outputError c m b k t))" "coded Q (Inl (unavailable m b k t))"
  "coded Q (throwIf b (invalidSchema m k t))" "coded Q (throwIf b (outputError c m q k t))" "coded Q (throwIf b (unavailable m q k t))"
  "coded Q (throwIf b (GroundlaneError c s m r h))"
  by (simp_all add: coded_def isCoded_def invalidSchema_def outputError_def unavailable_def throwIf_def)

lemma coded_bindE [coded_rules]: "coded Q r \<Longrightarrow> (\<And>x. coded Q (f x)) \<Longrightarrow> coded Q (bindE r f)"
  by (cases r) (simp_all add: coded_def)

lemma coded_andThen [coded_rules]: "coded Q r \<Longrightarrow> coded Q s \<Longrightarrow> coded Q (andThen r s)"
  by (simp add: andThen_def coded_bindE)

lemma coded_if [coded_rules]: "coded Q a \<Longrightarrow> coded Q b \<Longrightarrow> coded Q (if c then a else b)"
  by simp

lemma coded_scan [coded_rules]: "coded Q (scanRefKeys n stack)"
  by (induction n stack rule: scanRefKeys.induct)
    (auto simp: schemaTooLarge_def refRejected_def coded_basic split: js_value.split)

lemma coded_limits [coded_rules]: "coded Q (resolveSchemaExtractionLimits ov)"
  unfolding resolveSchemaExtractionLimits_def limitOf_def Let_def by (intro coded_rules)

lemma coded_fields [coded_rules]: "coded Q (parseFields es)"
proof -
  have "coded Q (parseField e)" for e
    unfolding parseField_def parseRequired_def parseItemType_def Let_def
    by (cases e) (auto intro!: coded_rules split: option.split SchemaFieldType.split js_value.split)
  then show ?thesis by (induction es) (auto intro!: coded_rules)
qed

lemma coded_schema [coded_rules]: "coded Q (parseBoundedSchema raw ov)"
proof -
  have "coded Q (asSchemaRejected r)" for r by (cases r) (simp_all add: asSchemaRejected_def coded_basic)
  then show ?thesis
    unfolding parseBoundedSchema_def rejectRefKeys_def Let_def by (intro coded_rules)
qed


lemma coded_aborted [coded_rules]: "coded Q (throwIfAborted a s m)"
  by (auto simp: throwIfAborted_def coded_basic split: option.split thrown.split exn.split)

lemma coded_same: "r = Inl e \<Longrightarrow> coded Q r \<Longrightarrow> coded Q (Inl e)"
  by (simp add: coded_def)

lemma coded_source [coded_rules]: "coded Q (resolveSource pf v)"
proof -
  have entry: "coded Q (andThen (throwIfAborted a s m) (parsePublicUrl parse v ports))" for a s m parse ports
    by (intro coded_andThen coded_aborted) (auto simp: parsePublicUrl_def coded_basic split: option.split)
  have "coded Q (lookupAddresses cx h)" for cx h
    by (auto simp: lookupAddresses_def intro!: coded_rules split: option.split sum.split)
  then have "coded Q (fst (resolvePublicUrl cx v))" for cx
    unfolding resolvePublicUrl_def Let_def
    by (auto intro: coded_basic coded_same [OF _ entry] elim: coded_same simp del: andThen_Inl_iff
      split: sum.split option.split prod.split)
  then show ?thesis unfolding resolveSource_def by (intro coded_rules)
qed

lemma coded_provider [coded_rules]: "coded Q (resolveProvider r options)"
  by (auto simp: resolveProvider_def coded_basic split: option.split list.split)

lemma coded_request [coded_rules]: "coded Q (requestLimits request base)" "coded Q (requestTimeout request)"
  unfolding requestLimits_def requestTimeout_def Let_def by (intro coded_rules)+

text \<open>The gate itself may throw what a malformed report causes.\<close>

definition malformedReport :: "SchemaExtractionRuntimeOptions \<Rightarrow> exn \<Rightarrow> bool" where
  "malformedReport options e \<longleftrightarrow> (\<exists>r. xo_benchmarkReport options = Some r \<and> validateBenchmarkReport r = Inl e)"

lemma coded_gate [coded_rules]: "coded (malformedReport options) (gateOpen options)"
proof (cases "xo_benchmarkReport options")
  case None
  then show ?thesis by (simp add: gateOpen_def checkBenchmarkGate_def coded_basic)
next
  case (Some r)
  show ?thesis
  proof (cases "validateBenchmarkReport r")
    case (Inl e)
    with Some show ?thesis by (simp add: gateOpen_def checkBenchmarkGate_def coded_def malformedReport_def)
  next
    case (Inr u)
    with Some show ?thesis
      by (cases "firstFound (map (entryBelow (xo_thresholds options)) (br_entries r))")
        (simp_all add: gateOpen_def checkBenchmarkGate_def coded_basic)
  qed
qed

lemma coded_prepare: "coded (malformedReport options) (prepareExtraction pf request options)"
  unfolding prepareExtraction_def Let_def by (intro coded_rules)


lemma coded_output [coded_rules]: "coded Q (validateProviderOutput vp data schema ov)"
proof (cases "resolveSchemaExtractionLimits ov")
  case (Inr l)
  then have "0 < xl_maxStringChars l" using resolve_inRange by (auto simp: limitsInRange_def)
  from fieldResults_exact [OF this] obtain rs where "fieldResults vp l (recordMembers data) (xs_fields schema) = Inr rs"
    by blast
  with Inr show ?thesis
    unfolding validateProviderOutput_def Let_def by (auto intro!: coded_rules)
next
  case (Inl e)
  with coded_limits [of Q ov] show ?thesis by (simp add: validateProviderOutput_def coded_def)
qed

lemma coded_warnings: "limitsInRange l \<Longrightarrow> coded Q (sanitizeWarnings ws l)"
proof -
  have "0 < cap \<Longrightarrow> coded Q (cleanWarnings cap n vs)" for cap n vs
    by (induction cap n vs rule: cleanWarnings.induct)
      (auto intro!: coded_rules simp: truncateBoundedString_cut split: js_value.split)
  then show "limitsInRange l \<Longrightarrow> coded Q (sanitizeWarnings ws l)"
    by (auto simp: sanitizeWarnings_def limitsInRange_def coded_basic split: js_value.split)
qed

lemma coded_finish:
  assumes "limitsInRange (pe_limits pe)" shows "coded Q (finishExtraction pf pe output)"
proof -
  have "coded Q (case propOf ''billedUnits'' output of
      JNumber n \<Rightarrow> if b n then Inr n else Inl (outputError c m q k t) | _ \<Rightarrow> Inl (outputError c m q k t))" for b c m q k t
    by (auto simp: coded_basic split: js_value.split)
  moreover have "coded Q (case validateExtractionResult r of Inl e \<Rightarrow> Inl (outputError c m q k (exn_message e)) | Inr u \<Rightarrow> Inr u)"
    for r c m q k by (auto simp: coded_basic split: sum.split)
  ultimately show ?thesis
    unfolding finishExtraction_def Let_def by (intro coded_rules coded_warnings assms)
qed

text \<open>A thrown value that is an error of the application.\<close>

definition codedThrown :: "thrown \<Rightarrow> bool" where
  "codedThrown t \<longleftrightarrow> (\<exists>e. t = ThrownError e \<and> isCoded e)"

lemma remainingMs_coded: "remainingMs d s n = Inl e \<Longrightarrow> isCoded e"
  by (auto simp: remainingMs_def Let_def andThen_Inl_iff throwIf_Inl_iff deadlineError_def isCoded_def)

lemma deadline_coded:
  "withinDeadline d a s n1 n2 (sanitizeProviderFailure p race) = Inl t \<Longrightarrow> codedThrown t"
  by (auto simp: withinDeadline_def sanitizeProviderFailure_def codedThrown_def cancelledAt_def outputError_def isCoded_def
    dest: remainingMs_coded [unfolded isCoded_def]
    split: sum.splits if_splits raceEnd.splits thrown.splits exn.splits)

end
