(* ===== verification/ExtractionProperties.thy ===== *)
theory ExtractionProperties
  imports ExtractionFacts "HOL-Library.Multiset" "HOL-Library.List_Lexorder"
begin

text \<open>
  Properties of the schema extraction: which schemas are accepted, what must hold before a provider is
  called, what is reported of a provider's output, what a run throws, and that the digest does not depend
  on the order of the fields; small requests on which they are applied.
\<close>

text \<open>C31. A schema is accepted exactly when it is flat, bounded and free of references. The parser returns
  a schema if and only if the limits are valid and the raw value is an object of type object with at most
  5000 nodes, no key \<open>$ref\<close> at any depth, between one field and \<open>maxFields\<close>, depth and properties
  within their limits, and each field declares a valid name, a scalar type or an array of scalars, and a
  boolean \<open>required\<close>; the fields are those declarations in their order.\<close>

theorem extraction_schema_exact:
  "parseBoundedSchema raw ov = Inr s \<longleftrightarrow>
     (\<exists>l. resolveSchemaExtractionLimits ov = Inr l \<and> boundedSchema l raw \<and>
       list_all2 declares (recordMembers (propOf ''properties'' raw)) (xs_fields s) \<and>
       s = \<lparr>xs_fields = xs_fields s, xs_maxDepth = jint (xl_maxDepth l),
             xs_maxProperties = jint (xl_maxProperties l), xs_rawSchema = raw\<rparr>)"
proof -
  have positive: "0 < xl_maxDepth l" "0 < xl_maxProperties l" if "resolveSchemaExtractionLimits ov = Inr l" for l
    using resolve_inRange [OF that] by (simp_all add: limitsInRange_def)
  have contract: "asSchemaRejected (validateExtractionSchema
        \<lparr>xs_fields = fs, xs_maxDepth = jint (xl_maxDepth l), xs_maxProperties = jint (xl_maxProperties l), xs_rawSchema = raw\<rparr>) =
        Inr u \<longleftrightarrow> fs \<noteq> [] \<and> containsRemoteRef raw 0 100 = None \<and> int (measureDepth raw 0) \<le> xl_maxDepth l \<and>
          int (countProperties raw) \<le> xl_maxProperties l"
    if "resolveSchemaExtractionLimits ov = Inr l" for l fs u
    using positive [OF that]
    by (cases "containsRemoteRef raw 0 100")
      (simp_all add: asSchemaRejected_def validateExtractionSchema_def Let_def andThen_def throwIf_def not_less)
  have scan: "rejectRefKeys raw = Inr () \<longleftrightarrow> nodeCount raw \<le> 5000 \<and> \<not> mentionsRef raw"
    by (simp add: rejectRefKeys_def scanRefKeys_exact MAX_SCHEMA_SCAN_NODES_def)
  show ?thesis
  proof (cases "resolveSchemaExtractionLimits ov")
    case (Inr l)
    have "parseBoundedSchema raw ov = Inr s \<longleftrightarrow> boundedSchema l raw \<and> containsRemoteRef raw 0 100 = None \<and>
        (\<exists>fs. fs \<noteq> [] \<and> list_all2 declares (recordMembers (propOf ''properties'' raw)) fs \<and>
          s = \<lparr>xs_fields = fs, xs_maxDepth = jint (xl_maxDepth l), xs_maxProperties = jint (xl_maxProperties l),
            xs_rawSchema = raw\<rparr>)"
      by (simp add: parseBoundedSchema_def Inr Let_def bindE_Inr_iff andThen_Inr_iff throwIf_Inr_iff scan contract [OF Inr]
        parseFields_Inr boundedSchema_def not_less) blast
    moreover have "list_all2 declares es fs \<Longrightarrow> es \<noteq> [] \<Longrightarrow> fs \<noteq> []" for es fs by auto
    ultimately show ?thesis using Inr no_remote_ref [of raw] by (cases s) (auto simp: boundedSchema_def)
  qed (simp add: parseBoundedSchema_def)
qed

text \<open>C32. No provider is called behind the back of the caller or of the operator. If a run calls a
  provider, then the caller has opted in, the operator has a valid benchmark report that meets every
  threshold, the URL is a public one whose addresses are all public, the schema is accepted within the
  deployment's limits, and there is one call only: of the provider the caller asked for, else of the
  default, else of the first, with the resolved URL and the parsed schema.\<close>

theorem extraction_gated:
  assumes "runSchemaExtraction pf request options = (out, calls)" "calls \<noteq> []"
  shows "xq_providerBacked request = JBool True \<and>
    (\<exists>r. xo_benchmarkReport options = Some r \<and> meetsThresholds (xo_thresholds options) r) \<and>
    (\<exists>p s d c l base. calls = [(sp_id p, \<lparr>pi_url = url_href (sd_url d), pi_schema = s\<rparr>)] \<and>
       p \<in> set (xo_providers options) \<and> (\<forall>i. xq_provider request = Some i \<longrightarrow> sp_id p = i) \<and>
       (\<forall>i. xq_provider request = None \<and> xo_defaultProvider options = Some i \<longrightarrow> sp_id p = i) \<and>
       resolvePublicUrl (resolve_context.truncate (pf\<lparr>rc_allowedPorts := defaultPorts\<rparr>)) (xq_url request) = (Inr d, c) \<and>
       (\<forall>a \<in> set (sd_addresses d). isPublicAddress (rc_isIP pf) (ra_address a)) \<and>
       parseBoundedSchema (xq_schema request) (asOverrides l) = Inr s \<and>
       resolveSchemaExtractionLimits (xo_limits options) = Inr base \<and>
       xl_maxOutputChars l \<le> xl_maxOutputChars base \<and> xl_maxStringChars l \<le> xl_maxStringChars base)"
  using assms(1)
proof (cases rule: run_cases)
  case (prepared pe)
  note facts = prepare_facts [OF prepared(1)]
  from facts(4) obtain d c where d:
    "resolvePublicUrl (resolve_context.truncate (pf\<lparr>rc_allowedPorts := defaultPorts\<rparr>)) (xq_url request) = (Inr d, c)"
    "pe_input pe = \<lparr>pi_url = url_href (sd_url d), pi_schema = pi_schema (pe_input pe)\<rparr>" by auto
  have "\<forall>a \<in> set (sd_addresses d). isPublicAddress (rc_isIP pf) (ra_address a)"
    using resolve_cases [OF d(1)] by (simp add: resolve_context.truncate_def)
  moreover have "calls = [(sp_id (pe_provider pe), pe_input pe)]" using prepared(2) assms(2) by simp
  moreover have "pe_provider pe \<in> set (xo_providers options)"
    "\<forall>i. xq_provider request = Some i \<longrightarrow> sp_id (pe_provider pe) = i"
    "\<forall>i. xq_provider request = None \<and> xo_defaultProvider options = Some i \<longrightarrow> sp_id (pe_provider pe) = i"
    using resolveProvider_Inr [OF facts(7)] by auto
  moreover obtain base where "resolveSchemaExtractionLimits (xo_limits options) = Inr base"
    "xl_maxOutputChars (pe_limits pe) \<le> xl_maxOutputChars base" "xl_maxStringChars (pe_limits pe) \<le> xl_maxStringChars base"
    using facts(11) by blast
  ultimately show ?thesis
    using d facts(2,3,6)
    by (intro conjI exI [of _ "pe_provider pe"] exI [of _ "pi_schema (pe_input pe)"] exI [of _ d] exI [of _ c]
      exI [of _ "pe_limits pe"] exI [of _ base]) simp_all
qed (use assms(2) in simp)

text \<open>C33. Every result can be traced to one call of one provider. If a run returns, there was exactly one
  call, and what the provider returned for it determines the result: the provenance names that provider,
  its model, the resolved URL and the units it billed, a finite number that is not negative; there is one
  entry for each field of the schema, in order, which is missing exactly if the provider has no value for
  it, present exactly if its value is of the declared type and within the bounds, and invalid otherwise; a
  present value is the provider's, with texts cut to the limit, and the flag for truncation is set exactly
  if some present value differs from the provider's; warnings and the text of the fields are within their
  limits.\<close>

theorem extraction_result_traceable:
  assumes "runSchemaExtraction pf request options = (Inr so, calls)"
  shows "\<exists>p input output l n data. p \<in> set (xo_providers options) \<and> calls = [(sp_id p, input)] \<and>
    sp_extract p input = OperationDone (Inr output) \<and>
    propOf ''billedUnits'' output = JNumber n \<and> isFinite n \<and> \<not> jlt n (jint 0) \<and>
    er_provenance (so_result so) = \<lparr>xp_provider = sp_id p, xp_model = sp_model p, xp_source = pi_url input,
      xp_billedUnits = n\<rparr> \<and>
    limitsInRange l \<and> data = recordMembers (propOf ''data'' output) \<and>
    list_all2 (\<lambda>f r. reports (parsersOf pf) l (dataField data (pf_name f)) f r)
      (xs_fields (pi_schema input)) (er_fields (so_result so)) \<and>
    (so_truncated so \<longleftrightarrow> list_ex (\<lambda>(f, r). fr_status r = FieldPresent \<and>
       fr_value r \<noteq> Some (dataField data (pf_name f))) (zip (xs_fields (pi_schema input)) (er_fields (so_result so)))) \<and>
    int (length (so_warnings so)) \<le> xl_maxWarnings l \<and>
    int (length (jsonText (JArray (map fieldJson (er_fields (so_result so)))))) \<le> xl_maxOutputChars l"
  using assms
proof (cases rule: run_cases)
  case (prepared pe)
  note facts = prepare_facts [OF prepared(1)]
  from prepared(3) obtain out' where calls: "calls = [(sp_id (pe_provider pe), pe_input pe)]"
    and returned: "sp_extract (pe_provider pe) (pe_input pe) = OperationDone (Inr out')"
    and finish: "finishExtraction pf pe out' = Inr so" by auto
  from finished [OF finish facts(5)] obtain n where n: "propOf ''billedUnits'' out' = JNumber n" "isFinite n"
    "\<not> jlt n (jint 0)" "er_provenance (so_result so) = \<lparr>xp_provider = sp_id (pe_provider pe),
      xp_model = sp_model (pe_provider pe), xp_source = pi_url (pe_input pe), xp_billedUnits = n\<rparr>"
    and valid: "validateProviderOutput (parsersOf pf) (propOf ''data'' out') (pi_schema (pe_input pe))
      (asOverrides (pe_limits pe)) = Inr \<lparr>pv_fields = er_fields (so_result so), pv_truncated = so_truncated so\<rparr>"
    and warnings: "int (length (so_warnings so)) \<le> xl_maxWarnings (pe_limits pe)" by metis
  note checked = validateProviderOutput_exact [OF resolve_asOverrides [OF facts(5)] valid]
  show ?thesis
    using resolveProvider_Inr [OF facts(7)] calls returned n facts(5) warnings checked
    by (intro exI [of _ "pe_provider pe"] exI [of _ "pe_input pe"] exI [of _ out'] exI [of _ "pe_limits pe"]
      exI [of _ n] exI [of _ "recordMembers (propOf ''data'' out')"]) simp
qed simp

text \<open>C34. A run throws nothing but errors of the application, whatever the provider threw: an error with a
  code, and of a failed provider none of what it said unless that was such an error itself. The exception
  is a benchmark report that is malformed, which surfaces as the plain error of its validation, and then
  no provider has been called.\<close>

theorem extraction_errors_coded:
  assumes "runSchemaExtraction pf request options = (Inl t, calls)"
  shows "codedThrown t \<or> (calls = [] \<and> (\<exists>e. t = ThrownError e \<and> malformedReport options e))"
proof (cases "prepareExtraction pf request options")
  case (Inl e)
  with assms coded_prepare [of options pf request] show ?thesis
    by (auto simp: runSchemaExtraction_def coded_def codedThrown_def)
next
  case (Inr pe)
  have finish: "isCoded e" if "finishExtraction pf pe x = Inl e" for x e
    using coded_finish [OF prepare_facts(5) [OF Inr], of "\<lambda>_. False" pf x] that by (simp add: coded_def)
  show ?thesis
  proof (cases "newDeadline (pe_timeoutMs pe) (xe_clock0 pf)")
    case (Inl e)
    then have "isCoded e" by (auto simp: newDeadline_def andThen_Inl_iff throwIf_Inl_iff isCoded_def)
    with assms Inl show ?thesis by (auto simp: runSchemaExtraction_def Inr codedThrown_def)
  next
    case deadline: (Inr d)
    let ?race = "withinDeadline d (xe_abortedAtCall pf) ''schema-extract'' (xe_clock1 pf) (xe_clock2 pf)
      (sanitizeProviderFailure (pe_provider pe) (sp_extract (pe_provider pe) (pe_input pe)))"
    show ?thesis
    proof (cases ?race)
      case (Inl x)
      with assms deadline_coded [OF Inl] show ?thesis by (auto simp: runSchemaExtraction_def Inr deadline Let_def)
    next
      case (Inr x)
      with assms have "map_sum ThrownError id (finishExtraction pf pe x) = Inl t"
        by (simp add: runSchemaExtraction_def \<open>prepareExtraction pf request options = Inr pe\<close> deadline Let_def)
      with finish [of x] show ?thesis by (cases "finishExtraction pf pe x") (auto simp: codedThrown_def)
    qed
  qed
qed

section \<open>The digest\<close>

lemma codeUnitGreater_iff:
  "codeUnitGreater a b \<longleftrightarrow> map of_char b < (map of_char a :: nat list)"
  by (induction a b rule: codeUnitGreater.induct) auto

lemma sorted_fields: "sorted (map (\<lambda>r. map of_char (fr_name r) :: nat list) (sortBy byFieldName fs))"
proof -
  have "sorted_wrt (\<lambda>x y. (map of_char (fr_name x) :: nat list) \<le> map of_char (fr_name y)) (sortBy byFieldName fs)"
    by (rule sorted_sortBy) (auto simp: byFieldName_def compareNames_def codeUnitGreater_iff split: if_splits)
  then show ?thesis by (simp add: sorted_wrt_map)
qed

lemma distinct_insertBy: "distinct (map g (insertBy cmp x xs)) \<longleftrightarrow> distinct (map g (x # xs))"
  by (induction xs) auto

lemma distinct_sortBy: "distinct (map g (sortBy cmp xs)) \<longleftrightarrow> distinct (map g xs)"
  unfolding sortBy_def by (induction xs) (simp_all add: distinct_insertBy set_sortBy [unfolded sortBy_def])

lemma codes_inj: "map of_char a = (map of_char b :: nat list) \<longleftrightarrow> a = b"
  by (simp add: inj_map_eq_map inj_def)

text \<open>The digest of a result does not depend on the order of its fields. Two results with the same
  fields, whose names are distinct, have the same canonical text and so the same digest, whatever orders
  their fields are in.\<close>

theorem extraction_digest_canonical:
  assumes "distinct (map fr_name fs)" "mset gs = mset fs"
  shows "canonicalizeExtractionFields gs = canonicalizeExtractionFields fs \<and>
    digestExtractionFields gs = digestExtractionFields fs"
proof -
  let ?code = "\<lambda>r. map of_char (fr_name r) :: nat list"
  have distinct: "distinct (map ?code hs)" if "mset hs = mset fs" for hs
  proof -
    have "mset (map fr_name hs) = mset (map fr_name fs)" using that by simp
    then have "distinct (map fr_name hs)" using assms(1) by (metis mset_eq_imp_distinct_iff)
    then have "inj_on ?code (set hs)" "distinct hs"
      by (auto simp: codes_inj inj_on_def distinct_map)
    then show ?thesis by (simp add: distinct_map)
  qed
  have "set gs = set fs" using assms(2) by (metis set_mset_mset)
  moreover have "inj_on ?code (set fs)" using distinct [of fs] by (simp add: distinct_map)
  ultimately have "sortBy byFieldName gs = sortBy byFieldName fs"
    using distinct [of fs] distinct [of gs] assms(2)
    by (intro map_sorted_distinct_set_unique [where f = ?code])
      (auto simp: sorted_fields distinct_sortBy)
  then show ?thesis by (simp add: canonicalizeExtractionFields_def digestExtractionFields_def)
qed

section \<open>Applications\<close>

text \<open>A run with one provider and one field.\<close>

definition extractUrl :: ported_url where
  "extractUrl = \<lparr>url_protocol = ''https:'', url_username = [], url_password = [], url_hostname = ''a.example'',
     url_href = ''https://a.example/'', url_port = []\<rparr>"

definition extractPlatform :: "extraction_platform" where
  "extractPlatform =
     \<lparr>rc_parse = (\<lambda>s. if s = ''https://a.example'' then Some extractUrl else None),
      rc_isIP = (\<lambda>s. if s = ''93.184.216.34'' then Some (V4 (ipv4 93 184 216 34)) else None),
      rc_lookup = (\<lambda>_. Inr [\<lparr>ra_address = ''93.184.216.34'', ra_family = 4\<rparr>]), rc_cache = None,
      rc_allowedPorts = {}, rc_abortedAtEntry = None, rc_abortedAfterLookup = None,
      xe_validDate = (\<lambda>s. length s = 10), xe_aborted = None, xe_abortedAtCall = False, xe_clock0 = jint 0,
      xe_clock1 = jint 0, xe_clock2 = jint 1, xe_started = 0, xe_ended = 5\<rparr>"

definition fieldOf :: "string \<Rightarrow> js_value" where
  "fieldOf t = JObject [(''type'', JString t)]"

definition demoSchema :: js_value where
  "demoSchema = JObject [(''type'', JString ''object''), (''properties'', JObject [(''title'', fieldOf ''string'')])]"

definition demoExtractor :: "js_value raceEnd \<Rightarrow> SchemaExtractionProvider" where
  "demoExtractor race = \<lparr>sp_id = ''p'', sp_model = ''m'', sp_supports = None, sp_extract = (\<lambda>_. race)\<rparr>"

definition demoAnswer :: js_value where
  "demoAnswer = JObject [(''data'', JObject [(''title'', JString ''Hi'')]), (''billedUnits'', JNumber (jint 1)),
     (''warnings'', JArray [])]"

definition demoScore :: "jsnum \<Rightarrow> ExtractionBenchmarkReport" where
  "demoScore n = \<lparr>br_reportId = ''r'', br_generatedAt = ''t'', br_entries =
     [\<lparr>be_schemaId = ''s'', be_repeatabilityScore = n, be_fieldAccuracy = n, be_missingFieldRate = jint 0,
       be_invalidFieldRate = jint 0, be_latencyMs = n, be_outputSizeBytes = jint 1, be_billedUnits = jint 1\<rparr>]\<rparr>"

definition demoOptions :: "js_value raceEnd \<Rightarrow> SchemaExtractionRuntimeOptions" where
  "demoOptions race = \<lparr>xo_providers = [demoExtractor race], xo_defaultProvider = None,
     xo_benchmarkReport = Some (demoScore (jint 1)),
     xo_thresholds = \<lparr>bt_minRepeatability = jint 1, bt_maxLatencyMs = jint 5, bt_minFieldAccuracy = jint 1, bt_minEntries = jint 1\<rparr>,
     xo_limits = noOverrides\<rparr>"

definition demoExtraction :: SchemaExtractionRequest where
  "demoExtraction = \<lparr>xq_url = ''https://a.example'', xq_schema = demoSchema, xq_providerBacked = JBool True,
     xq_provider = Some ''p'', xq_timeoutMs = None, xq_maxOutputChars = None, xq_maxStringChars = None\<rparr>"

lemma extract_mapped: "mappedV6 (ipv4 93 184 216 34) = 281472254138402"
  by (simp add: mappedV6_def ipv4_def push_bit_eq_mult)

lemma extract_notBlocked: "\<not> blockedCheck (V4 (ipv4 93 184 216 34))"
  unfolding blockedCheck.simps extract_mapped
  by (simp add: blockedV4_def blockedV6_def inSubnet_uint ipv4_def ipv6_def)

lemma extract_host: "bareHostname ''a.example'' = ''a.example''" "\<not> suffix ''.localhost'' ''a.example''"
  by code_simp+

lemma extract_source: "resolveSource extractPlatform ''https://a.example'' = Inr ''https://a.example/''"
  by (simp add: resolveSource_def resolvePublicUrl_def resolve_context.truncate_def extractPlatform_def throwIfAborted_def
    parsePublicUrl_def extractUrl_def portOf_def defaultPorts_def extract_host lookupAddresses_def Let_def
    isPublicAddress_def extract_notBlocked del: blockedCheck.simps)

definition demoParsed :: ParsedExtractionSchema where
  "demoParsed = \<lparr>xs_fields = [\<lparr>pf_name = ''title'', pf_type = ScalarField StringField, pf_required = False, pf_items = None\<rparr>],
     xs_maxDepth = jint 5, xs_maxProperties = jint 100, xs_rawSchema = demoSchema\<rparr>"

lemma demo_limits: "resolveSchemaExtractionLimits noOverrides = Inr DEFAULT_SCHEMA_EXTRACTION_LIMITS"
  by (simp add: resolveSchemaExtractionLimits_def noOverrides_def limitOf_def HARD_LIMIT_CEILINGS_def
    DEFAULT_SCHEMA_EXTRACTION_LIMITS_def throwIf_def)

lemma demo_inRange: "limitsInRange DEFAULT_SCHEMA_EXTRACTION_LIMITS"
  using resolve_inRange [OF demo_limits] .

lemma demo_parsed: "parseBoundedSchema demoSchema (asOverrides DEFAULT_SCHEMA_EXTRACTION_LIMITS) = Inr demoParsed"
  by code_simp

lemma demo_gate: "gateOpen (demoOptions race) = Inr ()"
  by code_simp
lemma demo_prepared: "prepareExtraction extractPlatform demoExtraction (demoOptions race) =
  Inr \<lparr>pe_limits = DEFAULT_SCHEMA_EXTRACTION_LIMITS, pe_timeoutMs = jint 30000, pe_provider = demoExtractor race,
    pe_input = \<lparr>pi_url = ''https://a.example/'', pi_schema = demoParsed\<rparr>\<rparr>"
  using demo_gate [of race] extract_source demo_limits demo_parsed
  by (simp add: prepareExtraction_def demoExtraction_def requestTimeout_def requestLimits_def demoOptions_def
    throwIfAborted_def resolveProvider_def findProvider_def demoExtractor_def supportedBy_def 
    DEFAULT_SCHEMA_EXTRACTION_TIMEOUT_MS_def throwIf_def extractPlatform_def Let_def)

lemma demo_starts: "operationStarts (jint 30000) False (jint 0) (jint 1)"
  by (simp add: operationStarts_def remainingMs_def jsub_def throwIf_def Let_def)

lemma demo_within:
  "withinDeadline (jint 30000) False ''schema-extract'' (jint 0) (jint 1) (OperationDone r) = r"
  by (simp add: withinDeadline_def remainingMs_def jsub_def throwIf_def Let_def)

lemma extract_fields:
  "xe_clock0 extractPlatform = jint 0" "xe_clock1 extractPlatform = jint 0" "xe_clock2 extractPlatform = jint 1"
  "xe_abortedAtCall extractPlatform = False" "sp_extract (demoExtractor race) input = race"
  "sp_id (demoExtractor race) = ''p''" "newDeadline (jint 30000) (jint 0) = Inr (jint 30000)"
  by (simp_all add: extractPlatform_def demoExtractor_def newDeadline_def throwIf_def)

lemma demo_run:
  assumes "sanitizeProviderFailure (demoExtractor race) race = OperationDone r"
  shows "runSchemaExtraction extractPlatform demoExtraction (demoOptions race) =
     (case r of
        Inr v \<Rightarrow> map_sum ThrownError id (finishExtraction extractPlatform
          \<lparr>pe_limits = DEFAULT_SCHEMA_EXTRACTION_LIMITS, pe_timeoutMs = jint 30000, pe_provider = demoExtractor race,
            pe_input = \<lparr>pi_url = ''https://a.example/'', pi_schema = demoParsed\<rparr>\<rparr> v)
      | Inl t \<Rightarrow> Inl t,
      [(''p'', \<lparr>pi_url = ''https://a.example/'', pi_schema = demoParsed\<rparr>)])"
  using demo_starts assms demo_within [of r]
  by (cases r) (simp_all add: runSchemaExtraction_def demo_prepared extract_fields [simplified] Let_def)

lemma demo_output: "is_ok (validateProviderOutput (parsersOf extractPlatform) (JObject [(''title'', JString ''Hi'')])
    demoParsed (asOverrides DEFAULT_SCHEMA_EXTRACTION_LIMITS))"
  unfolding validateProviderOutput_def resolve_asOverrides [OF demo_inRange]
  by (simp add: demoParsed_def fieldResult_def dataField_def checkFieldValue_def cutString_cut throwIf_def Let_def
    DEFAULT_SCHEMA_EXTRACTION_LIMITS_def fieldJson_def jsonText_def jsonString_def jsonEscape_def memberTexts_def orNull_def)

lemma demo_finish: "is_ok (finishExtraction extractPlatform
    \<lparr>pe_limits = DEFAULT_SCHEMA_EXTRACTION_LIMITS, pe_timeoutMs = jint 30000,
      pe_provider = demoExtractor (OperationDone (Inr demoAnswer)),
      pe_input = \<lparr>pi_url = ''https://a.example/'', pi_schema = demoParsed\<rparr>\<rparr> demoAnswer)"
proof -
  from demo_output obtain v where "validateProviderOutput (parsersOf extractPlatform) (JObject [(''title'', JString ''Hi'')])
    demoParsed (asOverrides DEFAULT_SCHEMA_EXTRACTION_LIMITS) = Inr v" by (auto simp: is_ok_iff)
  then show ?thesis
    by (simp add: finishExtraction_def demoAnswer_def demoExtractor_def sanitizeWarnings_def validateExtractionResult_def
      throwIf_def Let_def)
qed

lemma demo_extracted:
  "\<exists>so. runSchemaExtraction extractPlatform demoExtraction (demoOptions (OperationDone (Inr demoAnswer))) =
     (Inr so, [(''p'', \<lparr>pi_url = ''https://a.example/'', pi_schema = demoParsed\<rparr>)])"
  using demo_finish by (auto simp: demo_run [of _ "Inr demoAnswer"] sanitizeProviderFailure_def is_ok_iff)

lemma demo_failed:
  "\<exists>t. runSchemaExtraction extractPlatform demoExtraction (demoOptions (OperationDone (Inl ThrownOther))) =
     (Inl t, [(''p'', \<lparr>pi_url = ''https://a.example/'', pi_schema = demoParsed\<rparr>)])"
proof -
  obtain t where "sanitizeProviderFailure (demoExtractor (OperationDone (Inl ThrownOther))) (OperationDone (Inl ThrownOther)) =
      OperationDone (Inl t)" by (simp add: sanitizeProviderFailure_def)
  from demo_run [OF this] show ?thesis by simp
qed

theorem extraction_schema_exact_witness:
  "boundedSchema DEFAULT_SCHEMA_EXTRACTION_LIMITS demoSchema \<and> xs_rawSchema demoParsed = demoSchema"
  using demo_parsed resolve_asOverrides [OF demo_inRange]
    extraction_schema_exact [of demoSchema "asOverrides DEFAULT_SCHEMA_EXTRACTION_LIMITS" demoParsed]
  by (auto simp: demoParsed_def)

theorem extraction_gated_witness:
  "\<exists>out calls. runSchemaExtraction extractPlatform demoExtraction (demoOptions (OperationDone (Inr demoAnswer))) = (out, calls) \<and>
     calls \<noteq> [] \<and> xq_providerBacked demoExtraction = JBool True \<and>
     (\<exists>r. xo_benchmarkReport (demoOptions (OperationDone (Inr demoAnswer))) = Some r \<and>
        meetsThresholds (xo_thresholds (demoOptions (OperationDone (Inr demoAnswer)))) r)"
proof -
  from demo_extracted obtain so where run:
    "runSchemaExtraction extractPlatform demoExtraction (demoOptions (OperationDone (Inr demoAnswer))) =
       (Inr so, [(''p'', \<lparr>pi_url = ''https://a.example/'', pi_schema = demoParsed\<rparr>)])" by blast
  from extraction_gated [OF run] run show ?thesis by blast
qed

theorem extraction_result_traceable_witness:
  "\<exists>so. fst (runSchemaExtraction extractPlatform demoExtraction (demoOptions (OperationDone (Inr demoAnswer)))) = Inr so \<and>
     xp_provider (er_provenance (so_result so)) = ''p'' \<and> xp_source (er_provenance (so_result so)) = ''https://a.example/''"
proof -
  from demo_extracted obtain so where run:
    "runSchemaExtraction extractPlatform demoExtraction (demoOptions (OperationDone (Inr demoAnswer))) =
       (Inr so, [(''p'', \<lparr>pi_url = ''https://a.example/'', pi_schema = demoParsed\<rparr>)])" by blast
  from extraction_result_traceable [OF run] run show ?thesis by auto
qed

theorem extraction_errors_coded_witness:
  "\<exists>t. fst (runSchemaExtraction extractPlatform demoExtraction (demoOptions (OperationDone (Inl ThrownOther)))) = Inl t \<and>
     codedThrown t"
proof -
  from demo_failed obtain t where run:
    "runSchemaExtraction extractPlatform demoExtraction (demoOptions (OperationDone (Inl ThrownOther))) =
       (Inl t, [(''p'', \<lparr>pi_url = ''https://a.example/'', pi_schema = demoParsed\<rparr>)])" by blast
  from extraction_errors_coded [OF run] run show ?thesis by auto
qed

definition demoField :: "string \<Rightarrow> ExtractionFieldResult" where
  "demoField name = \<lparr>fr_name = name, fr_status = FieldPresent, fr_value = Some (JBool True), fr_reason = None\<rparr>"

theorem extraction_digest_canonical_witness:
  "digestExtractionFields [demoField ''b'', demoField ''a''] = digestExtractionFields [demoField ''a'', demoField ''b'']"
  using extraction_digest_canonical [of "[demoField ''a'', demoField ''b'']" "[demoField ''b'', demoField ''a'']"]
  by (simp add: demoField_def)

text \<open>Four things the code lets through: a malformed report surfaces without a code; scores that are not
  numbers pass every comparison of the gate; a field named like an inherited method is invalid instead of
  missing when the provider has no value for it; and a present date that was cut is no longer a date.\<close>

theorem malformed_report_not_coded:
  "\<exists>e. gateOpen (demoOptions race\<lparr>xo_benchmarkReport := Some (demoScore (jint 2))\<rparr>) = Inl e \<and> \<not> isCoded e"
  by (simp add: gateOpen_def checkBenchmarkGate_def demoOptions_def demoScore_def validateBenchmarkReport_def
    validateBenchmarkEntry_def outsideUnit_def isCoded_def)

theorem nan_benchmark_passes: "gateOpen (demoOptions race\<lparr>xo_benchmarkReport := Some (demoScore NaN)\<rparr>) = Inr ()"
  by code_simp

theorem inherited_name_reported_invalid:
  "fieldResult vp l [] \<lparr>pf_name = ''constructor'', pf_type = ScalarField StringField, pf_required = True, pf_items = None\<rparr> =
     Inr (\<lparr>fr_name = ''constructor'', fr_status = FieldInvalid, fr_value = None, fr_reason = Some ''Expected string''\<rparr>, False)"
  by (simp add: fieldResult_def dataField_def OBJECT_METHODS_def checkFieldValue_def)

theorem cut_date_present:
  "\<exists>r. fieldResult (parsersOf extractPlatform) (DEFAULT_SCHEMA_EXTRACTION_LIMITS\<lparr>xl_maxStringChars := 9\<rparr>)
       [(''day'', JString ''2024-01-31'')]
       \<lparr>pf_name = ''day'', pf_type = ScalarField DateField, pf_required = True, pf_items = None\<rparr> = Inr (r, True) \<and>
     fr_status r = FieldPresent \<and> fr_value r = Some (JString ''2024-01-3'') \<and>
     \<not> scalarValid (parsersOf extractPlatform) DateField (JString ''2024-01-3'')"
  by (simp add: fieldResult_def dataField_def checkFieldValue_def cutString_cut parsersOf_def extractPlatform_def
    MAX_DATE_VALUE_UNITS_def)

end
