(* ===== verification/Spec2Isabelle.thy ===== *)
theory Spec2Isabelle
  imports AsyncProperties CrawlProperties StatefulProperties UploadProperties ArtifactProperties BudgetProperties RoutingProperties SearchProperties
    DurableProperties DocumentCacheProperties CorpusProperties CorpusPortProperties
    RequestLimitsProperties DocumentProperties ExtractionProperties
begin

text \<open>
  A verification development for Groundlane, a server that gives agents web search, page reading,
  document parsing and corpora behind one interface. It models the core of the server, the directory
  \<^verbatim>\<open>src/core\<close> of the TypeScript sources; file names below are relative to it.

  \<^bold>\<open>The program and its parts.\<close> A request names a capability. The routers (\<^verbatim>\<open>search-router.ts\<close> and the
  routers for answer, research, news, images, content, map and crawl requests) check it, resolve its URL
  under the destination policy (\<^verbatim>\<open>url-policy.ts\<close>), choose providers, charge attempt budgets
  (\<^verbatim>\<open>search-budget.ts\<close>), call the providers within a deadline (\<^verbatim>\<open>limits.ts\<close>) and merge what they return
  (\<^verbatim>\<open>search-fusion.ts\<close>). Work that outlives a request is a job: asynchronous provider jobs
  (\<^verbatim>\<open>async-lifecycle.ts\<close>), crawls (\<^verbatim>\<open>crawl-jobs.ts\<close>), and MCP tasks and document jobs over a durable store
  (\<^verbatim>\<open>durable-store.ts\<close>, \<^verbatim>\<open>durable-effects.ts\<close>, \<^verbatim>\<open>durable-mcp-tasks.ts\<close>, \<^verbatim>\<open>durable-document-jobs.ts\<close>).
  Files come in through upload intents (\<^verbatim>\<open>upload-intent.ts\<close>) and live as artifacts
  (\<^verbatim>\<open>artifact-lifecycle.ts\<close>); parsed documents have a canonical form (\<^verbatim>\<open>canonical-document.ts\<close>), are cached
  (\<^verbatim>\<open>document-cache-contract.ts\<close>) and can be enrolled in corpora that are searched (\<^verbatim>\<open>corpus-contract.ts\<close>,
  \<^verbatim>\<open>corpus-runtime.ts\<close>). Browser sessions and other stateful resources pass a gate of their own
  (\<^verbatim>\<open>stateful-resources.ts\<close>). Fields can be extracted from a page by a provider along a schema of the caller
  (\<^verbatim>\<open>schema-extraction-runtime.ts\<close>).

  \<^bold>\<open>Theories and the code they model.\<close>
  \<^item> Vocabulary: \<^verbatim>\<open>JsPrelude\<close> (errors of \<^verbatim>\<open>errors.ts\<close>, results, numbers, strings, arrays, maps, dates),
    \<^verbatim>\<open>JsDates\<close>, \<^verbatim>\<open>Json\<close>, \<^verbatim>\<open>JsonFacts\<close> and \<^verbatim>\<open>JsonFields\<close> (printing and parsing of JSON, inverse to each other
    on what is stored), \<^verbatim>\<open>JsActions\<close> (methods as state transformers), \<^verbatim>\<open>ActionLogic\<close> and \<^verbatim>\<open>ActionTriples\<close>
    (rules to verify a method along its text), \<^verbatim>\<open>StatusMachine\<close> and \<^verbatim>\<open>JobStore\<close> (contracts several
    components share).
  \<^item> Jobs: \<^verbatim>\<open>AsyncContract\<close>, \<^verbatim>\<open>AsyncManager\<close>, \<^verbatim>\<open>AsyncInvariants\<close>, \<^verbatim>\<open>SanitizerFacts\<close>, \<^verbatim>\<open>AsyncProperties\<close> for
    \<^verbatim>\<open>async-lifecycle.ts\<close>; \<^verbatim>\<open>CrawlJobs\<close>, \<^verbatim>\<open>CrawlInvariants\<close>, \<^verbatim>\<open>CrawlProperties\<close> for \<^verbatim>\<open>crawl-jobs.ts\<close>. The state
    is the store's content; every method of the managers is a definition with its name after \<open>async_\<close>
    or \<open>crawl_\<close>.
  \<^item> Durable jobs: \<^verbatim>\<open>DurableStore\<close> and \<^verbatim>\<open>DurableWorld\<close> (the store, and methods that await each of their calls
    while others change it), \<^verbatim>\<open>DurableEffects\<close> (the effect journal), \<^verbatim>\<open>McpTasks\<close>, \<^verbatim>\<open>McpTaskFacts\<close>,
    \<^verbatim>\<open>McpTaskContracts\<close> (the task runtime), \<^verbatim>\<open>DocumentJobs\<close>, \<^verbatim>\<open>DocumentJobFacts\<close> (the job repository),
    \<^verbatim>\<open>DurableSystem\<close>, \<^verbatim>\<open>DurableRuns\<close>, \<^verbatim>\<open>DurableProperties\<close> (all of them over one store).
  \<^item> Sessions: \<^verbatim>\<open>StatefulResources\<close>, \<^verbatim>\<open>AuthenticatedSessions\<close>, \<^verbatim>\<open>StatefulProperties\<close>.
  \<^item> Files: \<^verbatim>\<open>UploadIntent\<close>, \<^verbatim>\<open>UploadFlow\<close>, \<^verbatim>\<open>UploadInvariants\<close>, \<^verbatim>\<open>UploadProperties\<close>; \<^verbatim>\<open>ArtifactLifecycle\<close>,
    \<^verbatim>\<open>ArtifactProperties\<close>.
  \<^item> Documents: \<^verbatim>\<open>CanonicalDocument\<close>, \<^verbatim>\<open>DocumentProjections\<close>, \<^verbatim>\<open>DocumentProperties\<close>; \<^verbatim>\<open>DocumentCache\<close>,
    \<^verbatim>\<open>DocumentCacheRuntime\<close>, \<^verbatim>\<open>DocumentCacheFacts\<close>, \<^verbatim>\<open>DocumentCacheProperties\<close>.
  \<^item> Extraction: \<^verbatim>\<open>ExtractionContract\<close> for \<^verbatim>\<open>schema-extraction-contract.ts\<close>; \<^verbatim>\<open>SchemaExtraction\<close> (parser,
    validation, digest) and \<^verbatim>\<open>ExtractionRun\<close> (the run) for \<^verbatim>\<open>schema-extraction-runtime.ts\<close>, with
    \<^verbatim>\<open>ExtractionFacts\<close> and \<^verbatim>\<open>ExtractionProperties\<close>.
  \<^item> Corpora: \<^verbatim>\<open>CorpusContract\<close>, \<^verbatim>\<open>CorpusStore\<close>, \<^verbatim>\<open>CorpusMethods\<close>, \<^verbatim>\<open>CorpusFacts\<close>, \<^verbatim>\<open>CorpusIndex\<close>,
    \<^verbatim>\<open>CorpusProperties\<close>, and for the ports at the end of \<^verbatim>\<open>corpus-runtime.ts\<close> \<^verbatim>\<open>CorpusPorts\<close> and
    \<^verbatim>\<open>CorpusPortProperties\<close>.
  \<^item> Routing: \<^verbatim>\<open>UrlPolicy\<close>, \<^verbatim>\<open>UrlPolicyFacts\<close>; \<^verbatim>\<open>SearchBudget\<close>, \<^verbatim>\<open>BudgetProperties\<close>; \<^verbatim>\<open>RequestLimits\<close>,
    \<^verbatim>\<open>RequestLimitsProperties\<close>; \<^verbatim>\<open>ProviderRouting\<close> (the loops the routers share), \<^verbatim>\<open>QueryRouters\<close>, \<^verbatim>\<open>UrlRouters\<close>,
    \<^verbatim>\<open>RoutingFacts\<close>, \<^verbatim>\<open>RoutingProperties\<close>; \<^verbatim>\<open>DomainFilters\<close>, \<^verbatim>\<open>ProviderHealth\<close>, \<^verbatim>\<open>SearchFusion\<close>, \<^verbatim>\<open>FusionFacts\<close>,
    \<^verbatim>\<open>SearchRouter\<close>, \<^verbatim>\<open>SearchFacts\<close>, \<^verbatim>\<open>SearchProperties\<close>.

  \<^bold>\<open>Conventions.\<close> What throws returns \<open>Inl\<close> of the error, and a method that changes its object returns the
  state it leaves with its result, also when it throws. A JavaScript number the code inspects is a
  \<open>jsnum\<close>: an exact rational, an infinity or NaN; numbers that have been checked are \<open>int\<close> or \<open>nat\<close>, and
  addresses and hashes computed by bits are words. Strings are over Latin-1, one character per code unit.
  A \<open>Map\<close> is an association list in insertion order. Timestamps are \<open>iso\<close> values. A method reads the clock
  once, as an argument, unless the code depends on several readings.

  \<^bold>\<open>Parameters.\<close> Code that is not in the repository is an argument: the WHATWG URL parser, the IP parser of
  the platform, DNS, the providers and their adapters, collation, SHA-256, random identifiers, the stores
  behind a port, the backend of corpora. A locale states what a port or backend promises, the in-memory
  implementation in the code is its interpretation, and the properties that name no such implementation
  hold for whatever the argument does.

  \<^bold>\<open>What the lemmas show.\<close>
  \<^item> Each manager is a transition system with one rule per method (\<open>async_step\<close>, \<open>crawl_step\<close>, \<open>upload_step\<close> and
    the like) and its invariants are proved by induction over all histories.
  \<^item> The durable components are verified against interference: between any two of its store calls a method
    meets whatever moves of other requests the step relation allows. \<^verbatim>\<open>ActionLogic\<close> and the locales of
    \<^verbatim>\<open>DurableWorld\<close> give one rule per statement; \<^verbatim>\<open>DurableSystem\<close> joins the contracts of the journal, the
    task runtime and the job repository into one relation and interprets it on the in-memory store.
  \<^item> The routers are shown equal to closed forms without loops, budgets or accumulators, and these say which
    providers are asked, charged and reported, and for the fallback also every warning. The search router
    keeps logs of its calls and budget decisions next to the code's state (\<open>search_run\<close>), and its reports are
    compared with them. The fused list is determined by the appearances of each URL and one strict order.
  \<^item> A budget tracker is a locale, proved for the period budgets, the minute window, the tracker objects and
    their composition.
  \<^item> The cache and the corpora are proved over their histories with what executions and calls have happened
    as ghost state, the index of a corpus for any backend that keeps the index contract.
  \<^item> Canonical documents: validation makes every projection total, its content is the rendering of every
    block in reading order, the structured projection is inverted by a JSON parser for whole-number spans,
    and the output bounds the code checks hold; \<open>maxBytes\<close> does not bound the text of a projection.
  \<^item> Schema extraction: the parser accepts exactly the schemas of a declarative specification, a provider is
    called only behind the gates, and a result is a function of what the provider returned.

  \<^bold>\<open>Termination, bounds and fuel.\<close> Loops over data are structural or have a measure. The JSON parser has fuel
  for its depth, twice the length of the text and two, which the round trips show to be enough. The loops
  of the search router over batches and of the job repository over revisions are partial functions into
  \<open>option\<close>; that they return is proved, for the second once the others leave its record alone. A client that reads
  all pages of a crawl needs more fuel than the crawl has results, by the properties of the pages.

  \<^bold>\<open>Not modelled.\<close> Provider and platform adapters, tools, the MCP server, the worker, the configuration and the
  composition of the parts: HTTP clients, SQL statements, handlers and wiring, whose meaning lies in the
  services they call, and the fake extraction provider for tests. Extraction from HTML, which lies in its DOM libraries. Execution of documents and
  downloads, which orchestrate third-party parsers. The tables of providers and credentials. Timers and
  abort signals appear as what they do to a call, not as objects. Rounding of doubles, and characters
  outside Latin-1, are not modelled.
\<close>

end
